(* ===== verification/Prelude.thy ===== *)
theory Prelude
  imports Complex_Main "HOL-Library.AList"
begin

text \<open>
  Shared vocabulary of the development: results of fallible Python code, Python
  dictionaries as association lists in insertion order, the grouping loops that several
  components run, and exact versions of the rounding functions of Python's \<open>math\<close>.

  The collection \<open>result_simps\<close> inverts successful runs of the result combinators; the
  collection \<open>dict_simps\<close> holds the lookup laws of the dictionary operations.
\<close>

named_theorems result_simps "inversion of the result combinators"
named_theorems dict_simps "lookup laws of the dictionary operations"

section \<open>Results\<close>

text \<open>
  A Python function that may raise is a function into a sum: \<open>Inl\<close> the exception,
  \<open>Inr\<close> the value. Sequencing stops at the first exception.
\<close>

definition rbind :: "'e + 'a \<Rightarrow> ('a \<Rightarrow> 'e + 'b) \<Rightarrow> 'e + 'b" where
  "rbind m f = (case m of Inl e \<Rightarrow> Inl e | Inr a \<Rightarrow> f a)"

fun rmap :: "('a \<Rightarrow> 'e + 'b) \<Rightarrow> 'a list \<Rightarrow> 'e + 'b list" where
  "rmap f [] = Inr []"
| "rmap f (x # xs) = rbind (f x) (\<lambda>y. rbind (rmap f xs) (\<lambda>ys. Inr (y # ys)))"

fun rfold :: "('s \<Rightarrow> 'a \<Rightarrow> 'e + 's) \<Rightarrow> 's \<Rightarrow> 'a list \<Rightarrow> 'e + 's" where
  "rfold f s [] = Inr s"
| "rfold f s (x # xs) = rbind (f s x) (\<lambda>s'. rfold f s' xs)"

definition is_ok :: "'e + 'a \<Rightarrow> bool" where
  "is_ok r = (case r of Inl _ \<Rightarrow> False | Inr _ \<Rightarrow> True)"

lemma rbind_Inr [simp]: "rbind (Inr a) f = f a"
  by (simp add: rbind_def)

lemma rbind_Inl [simp]: "rbind (Inl e) f = Inl e"
  by (simp add: rbind_def)

lemma rbind_Inr_iff [result_simps]: "rbind m f = Inr b \<longleftrightarrow> (\<exists>a. m = Inr a \<and> f a = Inr b)"
  by (cases m) simp_all

lemma rbind_Inl_iff: "rbind m f = Inl e \<longleftrightarrow> m = Inl e \<or> (\<exists>a. m = Inr a \<and> f a = Inl e)"
  by (cases m) auto

lemma rbind_assoc: "rbind (rbind m f) g = rbind m (\<lambda>x. rbind (f x) g)"
  by (cases m) simp_all

lemma rbind_cong [fundef_cong]:
  "m = m' \<Longrightarrow> (\<And>a. m' = Inr a \<Longrightarrow> f a = g a) \<Longrightarrow> rbind m f = rbind m' g"
  by (cases m') simp_all

lemma is_ok_simps [simp]: "is_ok (Inr a)" "\<not> is_ok (Inl e)"
  by (simp_all add: is_ok_def)

lemma is_ok_iff: "is_ok r \<longleftrightarrow> (\<exists>a. r = Inr a)"
  by (cases r) simp_all

lemma is_ok_rbind: "is_ok (rbind m f) \<longleftrightarrow> (\<exists>a. m = Inr a \<and> is_ok (f a))"
  by (cases m) simp_all

lemma rmap_Inr_iff [result_simps]:
  "rmap f xs = Inr ys \<longleftrightarrow> list_all2 (\<lambda>x y. f x = Inr y) xs ys"
  by (induction xs arbitrary: ys) (auto simp: rbind_Inr_iff list_all2_Cons1)

lemma rmap_cong [fundef_cong]:
  "xs = ys \<Longrightarrow> (\<And>x. x \<in> set ys \<Longrightarrow> f x = g x) \<Longrightarrow> rmap f xs = rmap g ys"
  by (induction ys arbitrary: xs) auto

lemma rmap_length: "rmap f xs = Inr ys \<Longrightarrow> length ys = length xs"
  by (simp add: rmap_Inr_iff list_all2_lengthD)

lemma rmap_ok: "(\<And>x. x \<in> set xs \<Longrightarrow> f x = Inr (g x)) \<Longrightarrow> rmap f xs = Inr (map g xs)"
  by (induction xs) simp_all

lemma is_ok_rmap: "is_ok (rmap f xs) \<longleftrightarrow> (\<forall>x \<in> set xs. is_ok (f x))"
  by (induction xs) (auto simp: is_ok_rbind is_ok_iff rbind_Inr_iff)

lemma rmap_exI: "\<forall>x \<in> set xs. is_ok (f x) \<Longrightarrow> \<exists>ys. rmap f xs = Inr ys"
  using is_ok_rmap[of f xs] by (simp add: is_ok_iff)

lemma rmap_Inl: "rmap f xs = Inl e \<Longrightarrow> \<exists>x \<in> set xs. f x = Inl e"
  by (induction xs) (auto simp: rbind_Inl_iff)

lemma rmap_set: "rmap f xs = Inr ys \<Longrightarrow> y \<in> set ys \<longleftrightarrow> (\<exists>x \<in> set xs. f x = Inr y)"
  by (induction xs arbitrary: ys) (auto simp: rbind_Inr_iff)

lemma rmap_append:
  "rmap f (xs @ ys) = rbind (rmap f xs) (\<lambda>us. rbind (rmap f ys) (\<lambda>vs. Inr (us @ vs)))"
proof (induction xs)
  case Nil
  then show ?case by (cases "rmap f ys") simp_all
next
  case (Cons x xs)
  then show ?case by (cases "f x"; cases "rmap f xs"; cases "rmap f ys") simp_all
qed

lemma rfold_append: "rfold f s (xs @ ys) = rbind (rfold f s xs) (\<lambda>s'. rfold f s' ys)"
  by (induction xs arbitrary: s) (simp_all add: rbind_assoc)

text \<open>An invariant of the step is an invariant of the loop.\<close>

lemma rfold_invariant:
  assumes step: "\<And>s x s'. P s \<Longrightarrow> x \<in> set xs \<Longrightarrow> f s x = Inr s' \<Longrightarrow> P s'"
    and "P s" and "rfold f s xs = Inr t"
  shows "P t"
  using assms
proof (induction xs arbitrary: s)
  case Nil
  then show ?case by simp
next
  case (Cons x xs)
  from Cons.prems(3) obtain s' where s': "f s x = Inr s'" "rfold f s' xs = Inr t"
    by (auto simp: rbind_Inr_iff)
  have x: "x \<in> set (x # xs)" by simp
  have "P s'" by (rule Cons.prems(1)[OF Cons.prems(2) x s'(1)])
  moreover have "P u'" if "P u" "y \<in> set xs" "f u y = Inr u'" for u y u'
    using Cons.prems(1)[OF that(1) _ that(3)] that(2) by simp
  ultimately show ?case using s'(2) Cons.IH by blast
qed

text \<open>\<open>if not b: raise e\<close>, one and several in order.\<close>

definition require :: "bool \<Rightarrow> 'e \<Rightarrow> 'e + unit" where
  "require b e = (if b then Inr () else Inl e)"

definition require_all :: "(bool \<times> 'e) list \<Rightarrow> 'e + unit" where
  "require_all cs = rbind (rmap (\<lambda>(b, e). require b e) cs) (\<lambda>_. Inr ())"

lemma require_Inr [simp, result_simps]: "require b e = Inr u \<longleftrightarrow> b"
  by (simp add: require_def)

lemma is_ok_require [simp]: "is_ok (require b e) \<longleftrightarrow> b"
  by (simp add: require_def)

lemma require_all_Inr: "require_all cs = Inr u \<longleftrightarrow> list_all fst cs"
proof (induction cs)
  case (Cons c cs)
  then show ?case
    by (cases c; cases "rmap (\<lambda>(b, e). require b e) cs") (auto simp: require_all_def require_def)
qed (simp add: require_all_def)

section \<open>Dictionaries\<close>

text \<open>
  A Python dictionary with string keys is an association list with distinct keys, in
  insertion order. Assignment is \<open>AList.update\<close>: it replaces the value in place or
  appends the new key at the end, as Python does. Reading a missing key is \<open>None\<close>.
\<close>

abbreviation dget :: "('k \<times> 'v) list \<Rightarrow> 'k \<Rightarrow> 'v option" where
  "dget d k \<equiv> map_of d k"

abbreviation dset :: "'k \<Rightarrow> 'v \<Rightarrow> ('k \<times> 'v) list \<Rightarrow> ('k \<times> 'v) list" where
  "dset k v d \<equiv> AList.update k v d"

abbreviation dkeys :: "('k \<times> 'v) list \<Rightarrow> 'k list" where
  "dkeys d \<equiv> map fst d"

text \<open>\<open>d.setdefault(k, v)\<close> and \<open>d[k] = d.get(k, v)\<close> leave a present key as it is.\<close>

definition dsetdefault :: "'k \<Rightarrow> 'v \<Rightarrow> ('k \<times> 'v) list \<Rightarrow> ('k \<times> 'v) list" where
  "dsetdefault k v d = (case dget d k of None \<Rightarrow> dset k v d | Some _ \<Rightarrow> d)"

definition dgetd :: "('k \<times> 'v) list \<Rightarrow> 'k \<Rightarrow> 'v \<Rightarrow> 'v" where
  "dgetd d k v = (case dget d k of None \<Rightarrow> v | Some w \<Rightarrow> w)"

text \<open>\<open>d.update(kvs)\<close>, the assignments in order.\<close>

definition dupdate :: "('k \<times> 'v) list \<Rightarrow> ('k \<times> 'v) list \<Rightarrow> ('k \<times> 'v) list" where
  "dupdate d kvs = foldl (\<lambda>d kv. dset (fst kv) (snd kv) d) d kvs"

lemma dget_dset [dict_simps]: "dget (dset k v d) k' = (if k' = k then Some v else dget d k')"
  by (simp add: update_conv)

lemma dget_dsetdefault [dict_simps]:
  "dget (dsetdefault k v d) k' = (if k' = k \<and> dget d k = None then Some v else dget d k')"
  by (auto simp: dsetdefault_def update_conv split: option.splits)

lemma dkeys_dset [dict_simps]: "fst ` set (dset k v d) = insert k (fst ` set d)"
  using dom_update[of k v d] by (simp add: dom_map_of_conv_image_fst)

lemma dget_None_iff: "dget d k = None \<longleftrightarrow> k \<notin> fst ` set d"
  by (rule map_of_eq_None_iff)

lemma dget_Some_in: "dget d k = Some v \<Longrightarrow> k \<in> fst ` set d"
  by (metis dget_None_iff option.distinct(1))

lemma dget_in_keys: "k \<in> fst ` set d \<Longrightarrow> \<exists>v. dget d k = Some v"
  using dget_None_iff[of d k] by (cases "dget d k") auto

lemma distinct_dset: "distinct (dkeys d) \<Longrightarrow> distinct (dkeys (dset k v d))"
  by (rule distinct_update)

lemma dupdate_Nil [simp]: "dupdate d [] = d"
  by (simp add: dupdate_def)

lemma dupdate_Cons: "dupdate d ((k, v) # kvs) = dupdate (dset k v d) kvs"
  by (simp add: dupdate_def)

text \<open>A key assigned at most once holds the assigned value, every other key its old one.\<close>

lemma dget_dupdate:
  "distinct (dkeys kvs) \<Longrightarrow>
    dget (dupdate d kvs) k = (case dget kvs k of None \<Rightarrow> dget d k | Some v \<Rightarrow> Some v)"
proof (induction kvs arbitrary: d)
  case Nil
  then show ?case by simp
next
  case (Cons kv kvs)
  then obtain k0 v0 where kv: "kv = (k0, v0)" by fastforce
  from Cons.prems kv have "dget kvs k0 = None" by (simp add: dget_None_iff)
  with Cons kv show ?case by (simp add: dupdate_Cons dget_dset split: option.splits)
qed

lemma distinct_dupdate: "distinct (dkeys d) \<Longrightarrow> distinct (dkeys (dupdate d kvs))"
proof (induction kvs arbitrary: d)
  case Nil
  then show ?case by simp
next
  case (Cons kv kvs)
  then show ?case by (cases kv) (simp add: dupdate_Cons distinct_update)
qed

lemma map_of_filter_key:
  "map_of (filter (\<lambda>kv. P (fst kv)) d) k = (if P k then map_of d k else None)"
  by (induction d) auto

section \<open>Enumeration\<close>

text \<open>
  \<open>{x: i for i, x in enumerate(xs)}\<close>: the position of a name, the last one when a name
  occurs twice.
\<close>

definition idx_of :: "'a list \<Rightarrow> 'a \<Rightarrow> nat option" where
  "idx_of xs x = map_of (rev (zip xs [0..<length xs])) x"

lemma idx_of_SomeD:
  assumes "idx_of xs x = Some i"
  shows "i < length xs \<and> xs ! i = x"
proof -
  from assms have "(x, i) \<in> set (zip xs [0..<length xs])"
    unfolding idx_of_def by (metis map_of_SomeD set_rev)
  then show ?thesis by (auto simp: in_set_zip)
qed

lemma idx_of_None_iff: "idx_of xs x = None \<longleftrightarrow> x \<notin> set xs"
proof -
  have "fst ` set (zip xs [0..<length xs]) = set xs"
    by (metis length_upt minus_nat.diff_0 list.set_map map_fst_zip)
  then show ?thesis by (simp add: idx_of_def map_of_eq_None_iff)
qed

lemma idx_of_ok: "x \<in> set xs \<Longrightarrow> \<exists>i. idx_of xs x = Some i"
  using idx_of_None_iff[of xs x] by (cases "idx_of xs x") auto

lemma idx_of_inj: "idx_of xs x = Some i \<Longrightarrow> idx_of xs y = Some i \<Longrightarrow> x = y"
  by (metis idx_of_SomeD)

lemma idx_of_nth: "distinct xs \<Longrightarrow> i < length xs \<Longrightarrow> idx_of xs (xs ! i) = Some i"
  by (metis idx_of_SomeD idx_of_ok nth_eq_iff_index_eq nth_mem)

section \<open>Grouping loops\<close>

text \<open>
  \<open>groups.setdefault(key(x), []).append(x)\<close> for every \<open>x\<close>, the groups in the order of
  their first member.
\<close>

fun group_insert :: "'k \<Rightarrow> 'a \<Rightarrow> ('k \<times> 'a list) list \<Rightarrow> ('k \<times> 'a list) list" where
  "group_insert k x [] = [(k, [x])]"
| "group_insert k x ((k', xs) # gs) =
     (if k' = k then (k', xs @ [x]) # gs else (k', xs) # group_insert k x gs)"

definition group_by :: "('a \<Rightarrow> 'k) \<Rightarrow> 'a list \<Rightarrow> ('k \<times> 'a list) list" where
  "group_by key xs = foldl (\<lambda>gs x. group_insert (key x) x gs) [] xs"

definition grouped :: "('k \<times> 'a list) list \<Rightarrow> 'k \<Rightarrow> 'a \<Rightarrow> bool" where
  "grouped gs k x \<longleftrightarrow> (\<exists>xs. (k, xs) \<in> set gs \<and> x \<in> set xs)"

lemma grouped_insert: "grouped (group_insert k x gs) k' y \<longleftrightarrow> (k' = k \<and> y = x) \<or> grouped gs k' y"
  by (induction k x gs rule: group_insert.induct) (auto simp: grouped_def)

lemma grouped_foldl:
  "grouped (foldl (\<lambda>gs x. group_insert (key x) x gs) gs xs) k y \<longleftrightarrow>
     grouped gs k y \<or> (y \<in> set xs \<and> key y = k)"
  by (induction xs arbitrary: gs) (auto simp: grouped_insert)

lemma grouped_group_by: "grouped (group_by key xs) k y \<longleftrightarrow> y \<in> set xs \<and> key y = k"
  using grouped_foldl[of key "[]" xs k y] by (simp add: group_by_def grouped_def)

lemma group_insert_nonempty:
  "\<forall>g \<in> set gs. snd g \<noteq> [] \<Longrightarrow> \<forall>g \<in> set (group_insert k x gs). snd g \<noteq> []"
  by (induction k x gs rule: group_insert.induct) auto

lemma foldl_group_nonempty:
  "\<forall>g \<in> set gs. snd g \<noteq> [] \<Longrightarrow>
    \<forall>g \<in> set (foldl (\<lambda>gs x. group_insert (key x) x gs) gs ys). snd g \<noteq> []"
proof (induction ys arbitrary: gs)
  case Nil
  then show ?case by simp
next
  case (Cons y ys)
  from Cons.IH[OF group_insert_nonempty[OF Cons.prems]] show ?case by simp
qed

lemma group_by_nonempty: "(k, xs) \<in> set (group_by key ys) \<Longrightarrow> xs \<noteq> []"
  using foldl_group_nonempty[of "[]" key ys] by (auto simp: group_by_def)

section \<open>Rounding\<close>

text \<open>
  \<open>math.ceil(a / b)\<close> for positive integers. Python divides in double precision and then
  rounds up; the quotient of two integers below \<open>2 ^ 53\<close> is correctly rounded and cannot
  cross an integer, so the result is the exact ceiling. \<open>math.floor(a / b)\<close> is \<open>div\<close>.
\<close>

definition ceil_div :: "int \<Rightarrow> int \<Rightarrow> int" where
  "ceil_div a b = - ((- a) div b)"

lemma ceil_div_eq_ceiling:
  assumes "0 < b"
  shows "ceil_div a b = \<lceil>(of_int a :: rat) / of_int b\<rceil>"
proof -
  have "\<lfloor>(of_int (- a) :: rat) / of_int b\<rfloor> = (- a) div b"
    by (rule floor_divide_of_int_eq)
  then show ?thesis by (simp add: ceil_div_def ceiling_def)
qed

lemma ceil_div_lower: "0 < b \<Longrightarrow> a \<le> ceil_div a b * b"
  using div_mult_mod_eq[of "- a" b] pos_mod_sign[of b "- a"] unfolding ceil_div_def by linarith

lemma ceil_div_upper: "0 < b \<Longrightarrow> (ceil_div a b - 1) * b < a"
proof -
  assume "0 < b"
  then have "- a < (- a) div b * b + b"
    using div_mult_mod_eq[of "- a" b] pos_mod_bound[of b "- a"] by linarith
  then show ?thesis by (simp add: ceil_div_def algebra_simps)
qed

lemma ceil_div_pos: "0 < a \<Longrightarrow> 0 < b \<Longrightarrow> 0 < ceil_div a b"
  by (simp add: ceil_div_def div_neg_pos_less0)

lemma ceil_div_nonneg: "0 \<le> a \<Longrightarrow> 0 < b \<Longrightarrow> 0 \<le> ceil_div a b"
  by (cases "a = 0") (auto simp: ceil_div_pos less_imp_le, simp add: ceil_div_def)

lemma ceil_div_mono: "a \<le> a' \<Longrightarrow> 0 < b \<Longrightarrow> ceil_div a b \<le> ceil_div a' b"
  by (simp add: ceil_div_def zdiv_mono1)

end
