(* ===== verification/Py_Value.thy ===== *)
theory Py_Value
  imports Prelude
begin

text \<open>
  The Python values that reach the modelled code from outside: keyword overrides, JSON and
  YAML documents, fields of trace records. Integers are unbounded; a float is modelled by the
  rational it denotes. Dictionaries keep their insertion order.

  The first group of definitions are the type tests and comparisons of the source
  (\<open>isinstance\<close>, \<open>==\<close>, \<open><\<close>), with Python's convention that a boolean is
  an integer for \<open>==\<close> and \<open>isinstance(_, int)\<close>.
\<close>

datatype pyval =
    PNone
  | PBool bool
  | PInt int
  | PFloat rat
  | PStr string
  | PList "pyval list"
  | PDict "(string \<times> pyval) list"

type_synonym dict = "(string \<times> pyval) list"

text \<open>The parts of a container are smaller, for functions that walk a value.\<close>

lemma size_value: "v \<in> snd ` set d \<Longrightarrow> size v < size (PDict d)"
  by (induction d) fastforce+

lemma size_element: "v \<in> set xs \<Longrightarrow> size v < size (PList xs)"
  by (induction xs) auto

section \<open>Type tests\<close>

text \<open>\<open>isinstance(v, int) and not isinstance(v, bool)\<close>\<close>

fun is_int :: "pyval \<Rightarrow> bool" where
  "is_int (PInt _) = True"
| "is_int _ = False"

fun is_bool :: "pyval \<Rightarrow> bool" where
  "is_bool (PBool _) = True"
| "is_bool _ = False"

fun is_str :: "pyval \<Rightarrow> bool" where
  "is_str (PStr _) = True"
| "is_str _ = False"

fun is_list :: "pyval \<Rightarrow> bool" where
  "is_list (PList _) = True"
| "is_list _ = False"

fun is_dict :: "pyval \<Rightarrow> bool" where
  "is_dict (PDict _) = True"
| "is_dict _ = False"

text \<open>\<open>isinstance(v, (int, float)) and not isinstance(v, bool)\<close>\<close>

fun is_number :: "pyval \<Rightarrow> bool" where
  "is_number (PInt _) = True"
| "is_number (PFloat _) = True"
| "is_number _ = False"

text \<open>The numeric value of anything Python does arithmetic on, a boolean included.\<close>

fun num_of :: "pyval \<Rightarrow> rat option" where
  "num_of (PBool b) = Some (if b then 1 else 0)"
| "num_of (PInt i) = Some (of_int i)"
| "num_of (PFloat r) = Some r"
| "num_of _ = None"

text \<open>Python's truth value.\<close>

fun truthy :: "pyval \<Rightarrow> bool" where
  "truthy PNone = False"
| "truthy (PBool b) = b"
| "truthy (PInt i) = (i \<noteq> 0)"
| "truthy (PFloat r) = (r \<noteq> 0)"
| "truthy (PStr s) = (s \<noteq> [])"
| "truthy (PList xs) = (xs \<noteq> [])"
| "truthy (PDict d) = (d \<noteq> [])"

text \<open>
  \<open>==\<close>. Numbers compare by value across \<open>bool\<close>, \<open>int\<close> and \<open>float\<close>; lists
  element by element; dictionaries as maps, whatever their order.
\<close>

function (sequential) py_eq :: "pyval \<Rightarrow> pyval \<Rightarrow> bool" where
  "py_eq PNone v = (v = PNone)"
| "py_eq (PStr s) v = (v = PStr s)"
| "py_eq (PBool b) v = (num_of v = num_of (PBool b))"
| "py_eq (PInt i) v = (num_of v = num_of (PInt i))"
| "py_eq (PFloat r) v = (num_of v = num_of (PFloat r))"
| "py_eq (PList xs) (PList ys) = (length xs = length ys \<and> list_all (\<lambda>(x, y). py_eq x y) (zip xs ys))"
| "py_eq (PList xs) _ = False"
| "py_eq (PDict d) (PDict e) =
     (length d = length e \<and>
      list_all (\<lambda>(k, v). case map_of e k of None \<Rightarrow> False | Some w \<Rightarrow> py_eq v w) d)"
| "py_eq (PDict d) _ = False"
  by pat_completeness auto
termination
proof (relation "measure (\<lambda>p. size (fst p))", goal_cases)
  case 1
  show ?case by simp
next
  case (2 xs ys z x y)
  then have "x \<in> set xs" by (auto dest: set_zip_leftD)
  then have "size x < Suc (size_list size xs)"
    using size_list_estimation[of x xs "size x" size] by (simp add: less_Suc_eq_le size_list_estimation')
  then show ?case by simp
next
  case (3 d e z k v w)
  then have "(k, v) \<in> set d" by simp
  then have "size v < Suc (size_list (size_prod (\<lambda>x. 0) size) d)"
    by (induction d) auto
  then show ?case by simp
qed

lemma py_eq_PInt_iff: "py_eq v (PInt i) \<longleftrightarrow> num_of v = Some (of_int i)"
  by (cases v) auto

text \<open>\<open>isinstance(v, bool) or not isinstance(v, (int, float)) or v < 0\<close>, negated\<close>

fun nonneg_number :: "pyval \<Rightarrow> bool" where
  "nonneg_number (PInt i) = (0 \<le> i)"
| "nonneg_number (PFloat r) = (0 \<le> r)"
| "nonneg_number _ = False"

text \<open>\<open>isinstance(v, bool) or not isinstance(v, int) or v <= 0\<close>, negated\<close>

fun positive_int :: "pyval \<Rightarrow> bool" where
  "positive_int (PInt i) = (0 < i)"
| "positive_int _ = False"

fun nonneg_int :: "pyval \<Rightarrow> bool" where
  "nonneg_int (PInt i) = (0 \<le> i)"
| "nonneg_int _ = False"

lemma nonneg_number_iff:
  "nonneg_number v \<longleftrightarrow> is_number v \<and> (\<exists>r. num_of v = Some r \<and> 0 \<le> r)"
  by (cases v) auto

lemma positive_int_iff: "positive_int v \<longleftrightarrow> (\<exists>i. v = PInt i \<and> 0 < i)"
  by (cases v) auto

lemma nonneg_int_iff: "nonneg_int v \<longleftrightarrow> (\<exists>i. v = PInt i \<and> 0 \<le> i)"
  by (cases v) auto

lemma nonneg_number_PInt [simp]: "nonneg_number (PInt i) \<longleftrightarrow> 0 \<le> i"
  by simp

text \<open>\<open>int(r)\<close> truncates towards zero.\<close>

definition trunc_rat :: "rat \<Rightarrow> int" where
  "trunc_rat r = (if r < 0 then \<lceil>r\<rceil> else \<lfloor>r\<rfloor>)"

lemma trunc_rat_of_int [simp]: "trunc_rat (of_int i) = i"
  by (simp add: trunc_rat_def)

lemma trunc_rat_nonneg: "0 \<le> r \<Longrightarrow> 0 \<le> trunc_rat r"
  by (simp add: trunc_rat_def)

text \<open>\<open>int(r) if r == int(r) else r\<close>\<close>

definition norm_num :: "rat \<Rightarrow> pyval" where
  "norm_num r = (if r = of_int (trunc_rat r) then PInt (trunc_rat r) else PFloat r)"

lemma num_of_norm_num [simp]: "num_of (norm_num r) = Some r"
  by (simp add: norm_num_def)

lemma is_number_norm_num [simp]: "is_number (norm_num r)"
  by (simp add: norm_num_def)

section \<open>Conversion to an integer\<close>

definition is_digit :: "char \<Rightarrow> bool" where
  "is_digit c = (let n = of_char c :: nat in 48 \<le> n \<and> n \<le> 57)"

lemma is_digit_Char:
  "is_digit (Char b0 b1 b2 b3 b4 b5 b6 b7) \<longleftrightarrow> \<not> b7 \<and> \<not> b6 \<and> b5 \<and> b4 \<and> \<not> (b3 \<and> (b2 \<or> b1))"
  by (cases b0; cases b1; cases b2; cases b3; cases b4; cases b5; cases b6; cases b7)
    (simp_all add: is_digit_def Let_def)

declare is_digit_def [code del] is_digit_Char [code]

definition digit_val :: "char \<Rightarrow> nat" where
  "digit_val c = of_char c - 48"

definition is_space :: "char \<Rightarrow> bool" where
  "is_space c = ((of_char c :: nat) \<in> set [9, 10, 11, 12, 13, 28, 29, 30, 31, 32, 133, 160])"

text \<open>Decimal digits, single underscores allowed between them.\<close>

fun int_digits :: "int \<Rightarrow> string \<Rightarrow> int option" where
  "int_digits acc [] = Some acc"
| "int_digits acc (c # cs) =
     (if is_digit c then int_digits (10 * acc + int (digit_val c)) cs
      else if c = CHR ''_'' \<and> cs \<noteq> [] \<and> is_digit (hd cs) then int_digits acc cs
      else None)"

definition unsigned_of_str :: "string \<Rightarrow> int option" where
  "unsigned_of_str s = (if s \<noteq> [] \<and> is_digit (hd s) then int_digits 0 s else None)"

text \<open>\<open>int(s)\<close> of a string: surrounding white space and one sign are allowed.\<close>

definition int_of_str :: "string \<Rightarrow> int option" where
  "int_of_str s =
     (case rev (dropWhile is_space (rev (dropWhile is_space s))) of
        [] \<Rightarrow> None
      | c # cs \<Rightarrow>
          if c = CHR ''-'' then map_option uminus (unsigned_of_str cs)
          else if c = CHR ''+'' then unsigned_of_str cs
          else unsigned_of_str (c # cs))"

text \<open>
  \<open>int(v)\<close>. It raises (\<open>None\<close>) on \<open>None\<close>, on containers and on a string that is
  no numeral.
\<close>

definition py_int :: "pyval \<Rightarrow> int option" where
  "py_int v = (case v of PInt i \<Rightarrow> Some i | PFloat r \<Rightarrow> Some (trunc_rat r)
     | PBool b \<Rightarrow> Some (if b then 1 else 0) | PStr s \<Rightarrow> int_of_str s | _ \<Rightarrow> None)"

lemma py_int_PInt [simp]: "py_int (PInt i) = Some i"
  by (simp add: py_int_def)

section \<open>Names\<close>

text \<open>\<open>str.lower\<close> on ASCII, the alphabet of every name in the code.\<close>

definition lower_char :: "char \<Rightarrow> char" where
  "lower_char c = (let n = of_char c :: nat in if 65 \<le> n \<and> n \<le> 90 then char_of (n + 32) else c)"

definition lower :: "string \<Rightarrow> string" where
  "lower s = map lower_char s"

lemma lower_char_idem: "lower_char (lower_char c) = lower_char c"
  by (auto simp: lower_char_def Let_def of_char_of)

lemma lower_idem: "lower (lower s) = lower s"
  by (simp add: lower_def lower_char_idem)

lemma length_lower [simp]: "length (lower s) = length s"
  by (simp add: lower_def)

end
