(* ===== verification/Timing_Expr.thy ===== *)
theory Timing_Expr
  imports Py_Value
begin

text \<open>
  The latency expressions of \<open>dram/spec.py\<close> (\<open>DRAMStandard._eval_expr\<close>): a string such
  as \<open>nCL + nBL + 2 - nCWL\<close> whose names are replaced by the resolved timing values before
  Python evaluates it.

  Modelled are the expressions that the DRAM standards are written in: names, decimal
  integers, \<open>+\<close> and \<open>-\<close>, with blanks between. Any other character of Python's
  expression syntax is the outcome \<open>ExprUnsupported\<close> of the model, a string that is not
  such a sum is \<open>ExprSyntax\<close> (Python's \<open>SyntaxError\<close>), and a name that no timing
  value replaces is \<open>ExprUnresolved\<close> (the \<open>NameError\<close> the code turns into a
  \<open>ValueError\<close>). Values are the exact rationals.
\<close>

datatype expr_error =
    ExprUnresolved string
  | ExprSyntax
  | ExprUnsupported

datatype token = TName string | TNum nat | TPlus | TMinus | TOther char

section \<open>Reading an expression\<close>

text \<open>The classes \<open>[a-zA-Z_]\<close> and \<open>\w\<close> of the regular expression.\<close>

definition is_name_start :: "char \<Rightarrow> bool" where
  "is_name_start c = (let n = of_char c :: nat in 97 \<le> n \<and> n \<le> 122 \<or> 65 \<le> n \<and> n \<le> 90 \<or> n = 95)"

definition is_name_char :: "char \<Rightarrow> bool" where
  "is_name_char c = (is_name_start c \<or> is_digit c)"

text \<open>The two classes on the bits of a character, which the evaluator uses.\<close>

lemma is_name_start_Char:
  "is_name_start (Char b0 b1 b2 b3 b4 b5 b6 b7) \<longleftrightarrow>
     \<not> b7 \<and> b6 \<and> ((b0 \<or> b1 \<or> b2 \<or> b3 \<or> b4) \<and> \<not> (b4 \<and> b3 \<and> (b2 \<or> b1 \<and> b0)) \<or>
       b0 \<and> b1 \<and> b2 \<and> b3 \<and> b4 \<and> \<not> b5)"
  by (cases b0; cases b1; cases b2; cases b3; cases b4; cases b5; cases b6; cases b7)
    (simp_all add: is_name_start_def Let_def)

declare is_name_start_def [code del] is_name_start_Char [code]

definition number_of :: "string \<Rightarrow> nat" where
  "number_of ds = foldl (\<lambda>n d. 10 * n + digit_val d) 0 ds"

function lex :: "string \<Rightarrow> token list" where
  "lex [] = []"
| "lex (c # cs) =
     (if is_name_start c then
        TName (c # takeWhile is_name_char cs) # lex (dropWhile is_name_char cs)
      else if is_digit c then
        TNum (number_of (c # takeWhile is_digit cs)) # lex (dropWhile is_digit cs)
      else if c = CHR '' '' then lex cs
      else if c = CHR ''+'' then TPlus # lex cs
      else if c = CHR ''-'' then TMinus # lex cs
      else TOther c # lex cs)"
  by pat_completeness auto
termination
  by (relation "measure length") (auto simp: le_imp_less_Suc length_dropWhile_le)

datatype atom = AName string | ANum nat

datatype lexpr = Atom atom | Plus lexpr atom | Minus lexpr atom

fun parse_rest :: "lexpr \<Rightarrow> token list \<Rightarrow> lexpr option" where
  "parse_rest e [] = Some e"
| "parse_rest e (TPlus # TName x # ts) = parse_rest (Plus e (AName x)) ts"
| "parse_rest e (TPlus # TNum n # ts) = parse_rest (Plus e (ANum n)) ts"
| "parse_rest e (TMinus # TName x # ts) = parse_rest (Minus e (AName x)) ts"
| "parse_rest e (TMinus # TNum n # ts) = parse_rest (Minus e (ANum n)) ts"
| "parse_rest e _ = None"

fun parse_tokens :: "token list \<Rightarrow> lexpr option" where
  "parse_tokens (TName x # ts) = parse_rest (Atom (AName x)) ts"
| "parse_tokens (TNum n # ts) = parse_rest (Atom (ANum n)) ts"
| "parse_tokens _ = None"

fun is_other :: "token \<Rightarrow> bool" where
  "is_other (TOther _) = True"
| "is_other _ = False"

definition parse_expr :: "string \<Rightarrow> expr_error + lexpr" where
  "parse_expr s =
     (let ts = lex s in
      if list_ex is_other ts then Inl ExprUnsupported
      else case parse_tokens ts of None \<Rightarrow> Inl ExprSyntax | Some e \<Rightarrow> Inr e)"

section \<open>Evaluating an expression\<close>

fun eval_atom :: "dict \<Rightarrow> atom \<Rightarrow> expr_error + rat" where
  "eval_atom td (ANum n) = Inr (of_nat n)"
| "eval_atom td (AName x) =
     (case dget td x of
        None \<Rightarrow> Inl (ExprUnresolved x)
      | Some v \<Rightarrow> (case num_of v of None \<Rightarrow> Inl ExprUnsupported | Some r \<Rightarrow> Inr r))"

fun eval_lexpr :: "dict \<Rightarrow> lexpr \<Rightarrow> expr_error + rat" where
  "eval_lexpr td (Atom a) = eval_atom td a"
| "eval_lexpr td (Plus e a) =
     rbind (eval_lexpr td e) (\<lambda>x. rbind (eval_atom td a) (\<lambda>y. Inr (x + y)))"
| "eval_lexpr td (Minus e a) =
     rbind (eval_lexpr td e) (\<lambda>x. rbind (eval_atom td a) (\<lambda>y. Inr (x - y)))"

definition eval_expr :: "string \<Rightarrow> dict \<Rightarrow> expr_error + rat" where
  "eval_expr s td = rbind (parse_expr s) (eval_lexpr td)"

text \<open>The names an expression reads.\<close>

fun atom_names :: "atom \<Rightarrow> string list" where
  "atom_names (AName x) = [x]"
| "atom_names (ANum n) = []"

fun lexpr_names :: "lexpr \<Rightarrow> string list" where
  "lexpr_names (Atom a) = atom_names a"
| "lexpr_names (Plus e a) = lexpr_names e @ atom_names a"
| "lexpr_names (Minus e a) = lexpr_names e @ atom_names a"

definition expr_names :: "string \<Rightarrow> string list" where
  "expr_names s = (case parse_expr s of Inl _ \<Rightarrow> [] | Inr e \<Rightarrow> lexpr_names e)"

section \<open>Meaning\<close>

text \<open>
  The value an expression denotes when every name it reads has one, and the evaluator's
  agreement with it.
\<close>

fun atom_value :: "(string \<Rightarrow> rat) \<Rightarrow> atom \<Rightarrow> rat" where
  "atom_value \<sigma> (AName x) = \<sigma> x"
| "atom_value \<sigma> (ANum n) = of_nat n"

fun lexpr_value :: "(string \<Rightarrow> rat) \<Rightarrow> lexpr \<Rightarrow> rat" where
  "lexpr_value \<sigma> (Atom a) = atom_value \<sigma> a"
| "lexpr_value \<sigma> (Plus e a) = lexpr_value \<sigma> e + atom_value \<sigma> a"
| "lexpr_value \<sigma> (Minus e a) = lexpr_value \<sigma> e - atom_value \<sigma> a"

definition timing_value :: "dict \<Rightarrow> string \<Rightarrow> rat" where
  "timing_value td x = (case dget td x of None \<Rightarrow> 0 | Some v \<Rightarrow> (case num_of v of None \<Rightarrow> 0 | Some r \<Rightarrow> r))"

definition has_value :: "dict \<Rightarrow> string \<Rightarrow> bool" where
  "has_value td x = (\<exists>v r. dget td x = Some v \<and> num_of v = Some r)"

lemma eval_atom_value:
  "\<forall>x \<in> set (atom_names a). has_value td x \<Longrightarrow> eval_atom td a = Inr (atom_value (timing_value td) a)"
  by (cases a) (auto simp: has_value_def timing_value_def)

lemma eval_lexpr_value:
  "\<forall>x \<in> set (lexpr_names e). has_value td x \<Longrightarrow>
    eval_lexpr td e = Inr (lexpr_value (timing_value td) e)"
  by (induction e) (auto simp: eval_atom_value)

lemma eval_atom_ok_names: "eval_atom td a = Inr r \<Longrightarrow> x \<in> set (atom_names a) \<Longrightarrow> has_value td x"
  by (cases a) (auto simp: has_value_def split: option.splits)

lemma eval_lexpr_ok_names:
  "eval_lexpr td e = Inr r \<Longrightarrow> x \<in> set (lexpr_names e) \<Longrightarrow> has_value td x"
  by (induction e arbitrary: r) (auto simp: result_simps dest: eval_atom_ok_names)

text \<open>Evaluation succeeds exactly when the string is a sum whose names all have values.\<close>

lemma eval_expr_ok_iff:
  "is_ok (eval_expr s td) \<longleftrightarrow>
     is_ok (parse_expr s) \<and> (\<forall>x \<in> set (expr_names s). has_value td x)"
proof (cases "parse_expr s")
  case (Inl e)
  then show ?thesis by (simp add: eval_expr_def)
next
  case (Inr e)
  have "is_ok (eval_lexpr td e) \<longleftrightarrow> (\<forall>x \<in> set (lexpr_names e). has_value td x)"
    using eval_lexpr_value[of e td] eval_lexpr_ok_names[of td e] by (auto simp: is_ok_iff)
  with Inr show ?thesis by (simp add: eval_expr_def expr_names_def)
qed

lemma eval_expr_value:
  "parse_expr s = Inr e \<Longrightarrow> \<forall>x \<in> set (expr_names s). has_value td x \<Longrightarrow>
    eval_expr s td = Inr (lexpr_value (timing_value td) e)"
  by (simp add: eval_expr_def expr_names_def eval_lexpr_value)

section \<open>Printing, and reading back what was printed\<close>

fun digits_of :: "nat \<Rightarrow> string" where
  "digits_of n = (if n < 10 then [char_of (48 + n)] else digits_of (n div 10) @ [char_of (48 + n mod 10)])"

declare digits_of.simps [simp del]

fun render_atom :: "atom \<Rightarrow> string" where
  "render_atom (AName x) = x"
| "render_atom (ANum n) = digits_of n"

fun render :: "lexpr \<Rightarrow> string" where
  "render (Atom a) = render_atom a"
| "render (Plus e a) = render e @ '' + '' @ render_atom a"
| "render (Minus e a) = render e @ '' - '' @ render_atom a"

definition is_name :: "string \<Rightarrow> bool" where
  "is_name x = (case x of [] \<Rightarrow> False | c # cs \<Rightarrow> is_name_start c \<and> list_all is_name_char cs)"

fun atom_ok :: "atom \<Rightarrow> bool" where
  "atom_ok (AName x) = is_name x"
| "atom_ok (ANum n) = True"

fun lexpr_ok :: "lexpr \<Rightarrow> bool" where
  "lexpr_ok (Atom a) = atom_ok a"
| "lexpr_ok (Plus e a) = (lexpr_ok e \<and> atom_ok a)"
| "lexpr_ok (Minus e a) = (lexpr_ok e \<and> atom_ok a)"

fun atom_token :: "atom \<Rightarrow> token" where
  "atom_token (AName x) = TName x"
| "atom_token (ANum n) = TNum n"

fun tokens_of :: "lexpr \<Rightarrow> token list" where
  "tokens_of (Atom a) = [atom_token a]"
| "tokens_of (Plus e a) = tokens_of e @ [TPlus, atom_token a]"
| "tokens_of (Minus e a) = tokens_of e @ [TMinus, atom_token a]"

lemma is_digit_digit: "d < (10::nat) \<Longrightarrow> is_digit (char_of (48 + d))"
  by (simp add: is_digit_def of_char_of Let_def)

lemma digit_val_digit: "d < (10::nat) \<Longrightarrow> digit_val (char_of (48 + d)) = d"
  by (simp add: digit_val_def of_char_of)

lemma digits_of_digits: "list_all is_digit (digits_of n)"
proof (induction n rule: digits_of.induct)
  case (1 n)
  then show ?case
    by (subst digits_of.simps) (auto simp: is_digit_digit simp del: char_of_nat)
qed

lemma digits_of_nonempty: "digits_of n \<noteq> []"
  by (subst digits_of.simps) simp

lemma number_of_snoc: "number_of (ds @ [d]) = 10 * number_of ds + digit_val d"
  by (simp add: number_of_def)

lemma number_of_digits: "number_of (digits_of n) = n"
proof (induction n rule: digits_of.induct)
  case (1 n)
  show ?case
  proof (cases "n < 10")
    case True
    then show ?thesis
      by (subst digits_of.simps) (simp add: number_of_def digit_val_digit del: char_of_nat)
  next
    case False
    with 1 have "number_of (digits_of (n div 10)) = n div 10" by simp
    with False show ?thesis
      by (subst digits_of.simps) (simp add: number_of_snoc digit_val_digit del: char_of_nat)
  qed
qed

lemma blank_classes: "\<not> is_name_char (CHR '' '')" "\<not> is_name_start (CHR '' '')" "\<not> is_digit (CHR '' '')"
  by (simp_all add: is_name_char_def is_name_start_def is_digit_def)

lemma digit_not_name_start: "is_digit c \<Longrightarrow> \<not> is_name_start c"
  by (auto simp: is_digit_def is_name_start_def Let_def)

definition ends_token :: "string \<Rightarrow> bool" where
  "ends_token rest = (case rest of [] \<Rightarrow> True | c # cs \<Rightarrow> c = CHR '' '')"

lemma take_token:
  assumes "list_all P xs" and "\<not> P (CHR '' '')" and "ends_token rest"
  shows "takeWhile P (xs @ rest) = xs \<and> dropWhile P (xs @ rest) = rest"
proof -
  from assms(2,3) have "takeWhile P rest = [] \<and> dropWhile P rest = rest"
    by (cases rest) (auto simp: ends_token_def)
  with assms(1) show ?thesis
    by (auto simp: list_all_iff takeWhile_append dropWhile_append)
qed

lemma lex_atom:
  assumes "atom_ok a" and "ends_token rest"
  shows "lex (render_atom a @ rest) = atom_token a # lex rest"
proof (cases a)
  case (AName x)
  with assms(1) obtain c cs where x: "x = c # cs" "is_name_start c" "list_all is_name_char cs"
    by (auto simp: is_name_def split: list.splits)
  from take_token[OF x(3) blank_classes(1) assms(2)] x AName show ?thesis by simp
next
  case (ANum n)
  obtain c cs where x: "digits_of n = c # cs"
    using digits_of_nonempty[of n] by (cases "digits_of n") auto
  with digits_of_digits[of n] have "is_digit c" "list_all is_digit cs" by simp_all
  with take_token[OF this(2) blank_classes(3) assms(2)] x ANum number_of_digits[of n]
  show ?thesis by (simp add: digit_not_name_start)
qed

lemma lex_render:
  "lexpr_ok e \<Longrightarrow> ends_token rest \<Longrightarrow> lex (render e @ rest) = tokens_of e @ lex rest"
proof (induction e arbitrary: rest)
  case (Atom a)
  then show ?case by (simp add: lex_atom)
next
  case (Plus e a)
  then show ?case
    by (simp add: ends_token_def lex_atom blank_classes is_name_start_def is_digit_def)
next
  case (Minus e a)
  then show ?case
    by (simp add: ends_token_def lex_atom blank_classes is_name_start_def is_digit_def)
qed

lemma parse_rest_step:
  "parse_rest e (TPlus # atom_token a # ts) = parse_rest (Plus e a) ts"
  "parse_rest e (TMinus # atom_token a # ts) = parse_rest (Minus e a) ts"
  by (cases a; simp)+

lemma parse_tokens_of: "parse_tokens (tokens_of e @ ts) = parse_rest e ts"
proof (induction e arbitrary: ts)
  case (Atom a)
  show ?case by (cases a) simp_all
qed (simp_all add: parse_rest_step)

lemma tokens_of_clean: "\<not> list_ex is_other (tokens_of e)"
proof (induction e)
  case (Atom a)
  show ?case by (cases a) simp_all
next
  case (Plus e a)
  then show ?case by (cases a) simp_all
next
  case (Minus e a)
  then show ?case by (cases a) simp_all
qed

end
