(* ===== verification/Dram_Spec.thy ===== *)
theory Dram_Spec
  imports Timing_Expr
begin

unbundle bit_operations_syntax

text \<open>
  The DSL of \<open>dram/spec.py\<close>: what a DRAM standard declares (\<open>DRAMStandard\<close>,
  \<open>TimingConstraint\<close>), how presets and overrides are resolved (\<open>resolve\<close>), and how the
  resolved values become the configuration the C++ engine parses (\<open>to_config\<close>).

  A standard is a value of the record \<open>dram_standard\<close>, one field per class attribute that
  the methods read; a subclass that overrides \<open>resolve_secondary_timings\<close> supplies it as
  the field \<open>std_resolve_secondary\<close>. Timing presets hold integers; organisation presets and
  the keyword overrides of an instance hold arbitrary Python values.
\<close>

section \<open>What a standard declares\<close>

record timing_constraint =
  tc_level :: string
  tc_preceding :: "string list"
  tc_following :: "string list"
  tc_latency :: string
  tc_window :: int
  tc_sibling :: bool

text \<open>
  \<open>TimingConstraint(level, preceding, following, latency, window=1, sibling=False)\<close>: the
  constructor with its defaults, with an explicit window, and between siblings.
\<close>

definition TC :: "string \<Rightarrow> string list \<Rightarrow> string list \<Rightarrow> string \<Rightarrow> timing_constraint" where
  "TC level preceding following latency =
     \<lparr>tc_level = level, tc_preceding = preceding, tc_following = following,
      tc_latency = latency, tc_window = 1, tc_sibling = False\<rparr>"

definition TC_window ::
  "string \<Rightarrow> string list \<Rightarrow> string list \<Rightarrow> string \<Rightarrow> int \<Rightarrow> timing_constraint" where
  "TC_window level preceding following latency w =
     (TC level preceding following latency)\<lparr>tc_window := w\<rparr>"

definition TC_sibling :: "string \<Rightarrow> string list \<Rightarrow> string list \<Rightarrow> string \<Rightarrow> timing_constraint" where
  "TC_sibling level preceding following latency =
     (TC level preceding following latency)\<lparr>tc_sibling := True\<rparr>"

datatype dram_error =
    UnknownOrgPreset string
  | UnknownTimingPreset string
  | ChannelOverride
  | UnknownOverride string
  | UnresolvedTimings "string list"
  | InvalidTimings "string list"
  | BadOrgField string
  | ChannelWidthNotPositive int
  | ChannelWidthNotPowerOf2 int
  | ChannelWidthNotMultiple int int
  | BadPayload int
  | MissingLevel string
  | BadExpr expr_error
  | SecondaryTiming string
  | DramKeyError string
  | DramTypeError
  | DramZeroDivision
  | BadInitState string string
  | UnknownLevel string
  | UnknownCommand string
  | BadRequestOrder
  | UnknownRequestCommand string string
  | UnknownRequest string

type_synonym timings = "(string \<times> int) list"

record dram_standard =
  std_name :: string
  std_levels :: "(string \<times> string) list"
  std_commands :: "string list"
  std_states :: "string list"
  std_timing_params :: "string list"
  std_supported_requests :: "(string \<times> string) list"
  std_constraints :: "timing_constraint list"
  std_command_cycles :: "(string \<times> rat) list"
  std_tick_multiplier :: int
  std_internal_prefetch :: int
  std_payload :: "int option"
  std_read_latency :: string
  std_row_commands :: "string list"
  std_column_commands :: "string list"
  std_org_presets :: "(string \<times> dict) list"
  std_timing_presets :: "(string \<times> timings) list"
  std_resolve_secondary :: "timings \<Rightarrow> dict \<Rightarrow> dram_error + timings"

text \<open>The base class: the defaults a subclass starts from.\<close>

definition DRAMStandard :: dram_standard where
  "DRAMStandard =
     \<lparr>std_name = '''', std_levels = [], std_commands = [], std_states = [],
      std_timing_params = [], std_supported_requests = [], std_constraints = [],
      std_command_cycles = [], std_tick_multiplier = 1, std_internal_prefetch = 8,
      std_payload = None, std_read_latency = ''nCL + nBL'',
      std_row_commands = [], std_column_commands = [],
      std_org_presets = [], std_timing_presets = [],
      std_resolve_secondary = (\<lambda>td od. Inr td)\<rparr>"

section \<open>Resolving presets and overrides\<close>

text \<open>Reading a dictionary with \<open>d[k]\<close>: a missing key raises \<open>KeyError\<close>.\<close>

definition dict_get :: "(string \<times> 'v) list \<Rightarrow> string \<Rightarrow> dram_error + 'v" where
  "dict_get d k = (case dget d k of None \<Rightarrow> Inl (DramKeyError k) | Some v \<Rightarrow> Inr v)"

text \<open>The same where the code goes on to use the value as an integer.\<close>

definition dict_int :: "dict \<Rightarrow> string \<Rightarrow> dram_error + int" where
  "dict_int d k = rbind (dict_get d k) (\<lambda>v. case v of PInt i \<Rightarrow> Inr i | _ \<Rightarrow> Inl DramTypeError)"

definition level_keys :: "dram_standard \<Rightarrow> string list" where
  "level_keys std = map (lower \<circ> fst) (std_levels std)"

definition org_names :: "dram_standard \<Rightarrow> string list" where
  "org_names std = ''channel_width'' # level_keys std"

fun apply_timing_overrides :: "dict \<Rightarrow> dict \<Rightarrow> dram_error + dict" where
  "apply_timing_overrides td [] = Inr td"
| "apply_timing_overrides td ((k, v) # kvs) =
     (if k \<in> set (dkeys td) then apply_timing_overrides (dset k v td) kvs
      else Inl (UnknownOverride k))"

definition int_dict :: "timings \<Rightarrow> dict" where
  "int_dict td = map (\<lambda>(k, v). (k, PInt v)) td"

definition resolve :: "dram_standard \<Rightarrow> string \<Rightarrow> string \<Rightarrow> dict \<Rightarrow> dram_error + dict \<times> dict" where
  "resolve std org_preset timing_preset overrides =
     (case dget (std_org_presets std) org_preset of
        None \<Rightarrow> Inl (UnknownOrgPreset org_preset)
      | Some od0 \<Rightarrow>
     (case dget (std_timing_presets std) timing_preset of
        None \<Rightarrow> Inl (UnknownTimingPreset timing_preset)
      | Some td0 \<Rightarrow>
        if ''channel'' \<in> set (dkeys overrides) then Inl ChannelOverride
        else
          let org_overrides = filter (\<lambda>kv. fst kv \<in> set (org_names std)) overrides;
              timing_overrides = filter (\<lambda>kv. fst kv \<notin> set (org_names std)) overrides;
              od = dupdate od0 org_overrides
          in rbind (std_resolve_secondary std td0 od) (\<lambda>td1.
             rbind (apply_timing_overrides (int_dict td1) timing_overrides) (\<lambda>td.
             Inr (od, td)))))"

section \<open>Serialising a resolved standard\<close>

record constraint_entry =
  ce_level :: nat
  ce_preceding :: "nat list"
  ce_following :: "nat list"
  ce_latency :: rat
  ce_window :: int
  ce_sibling :: bool

record dram_config =
  cfg_impl :: string
  cfg_dq :: int
  cfg_count :: "int list"
  cfg_timing :: "pyval list"
  cfg_command_cycles :: "int list"
  cfg_channel_width :: int
  cfg_read_latency :: pyval
  cfg_constraints :: "constraint_entry list"
  cfg_payload :: "int option"
  cfg_power :: "pyval option"

text \<open>
  The list a constraint is written as: window and sibling flag are appended only where they
  differ from their defaults.
\<close>

definition entry_to_py :: "constraint_entry \<Rightarrow> pyval" where
  "entry_to_py e =
     PList ([PInt (int (ce_level e)),
             PList (map (PInt \<circ> int) (ce_preceding e)),
             PList (map (PInt \<circ> int) (ce_following e)),
             norm_num (ce_latency e)]
            @ (if ce_window e \<noteq> 1 \<or> ce_sibling e then [PInt (ce_window e)] else [])
            @ (if ce_sibling e then [PBool True] else []))"

text \<open>
  The conversion from clock cycles to ticks: \<open>rate\<close> keeps its value, \<open>tCK_ps\<close> is
  divided, every other timing is multiplied and truncated.
\<close>

fun scale_timing :: "int \<Rightarrow> string \<times> pyval \<Rightarrow> string \<times> pyval" where
  "scale_timing m (k, v) =
     (if k = ''rate'' then (k, v)
      else if k = ''tCK_ps'' then
        (k, case v of PInt i \<Rightarrow> PInt (i div m) | PFloat r \<Rightarrow> PFloat (of_int \<lfloor>r / of_int m\<rfloor>) | _ \<Rightarrow> v)
      else
        (k, case v of PInt i \<Rightarrow> PInt (i * m) | PFloat r \<Rightarrow> PInt (trunc_rat (r * of_int m)) | _ \<Rightarrow> v))"

definition scale_timings :: "int \<Rightarrow> dict \<Rightarrow> dict" where
  "scale_timings m td = (if m \<noteq> 1 then map (scale_timing m) td else td)"

definition scale_cycles :: "int \<Rightarrow> (string \<times> rat) list \<Rightarrow> (string \<times> int) list" where
  "scale_cycles m cyc = map (\<lambda>(c, r). (c, trunc_rat (r * of_int m))) cyc"

text \<open>\<open>cmd_cycles.get(cmd, tick_mult)\<close>\<close>

definition cmd_ticks :: "int \<Rightarrow> (string \<times> int) list \<Rightarrow> string \<Rightarrow> int" where
  "cmd_ticks m cyc c = dgetd cyc c m"

definition idx_get :: "string list \<Rightarrow> string \<Rightarrow> dram_error + nat" where
  "idx_get names x = (case idx_of names x of None \<Rightarrow> Inl (DramKeyError x) | Some i \<Rightarrow> Inr i)"

text \<open>
  \<open>lat_groups\<close>: the (preceding, following) pairs of one constraint grouped by their adjusted
  latency. A group keeps the preceding ids in the order of their first occurrence and the
  following ids as a set.
\<close>

type_synonym lat_groups = "(rat \<times> nat list \<times> nat list) list"

fun lat_insert :: "rat \<times> nat \<times> nat \<Rightarrow> lat_groups \<Rightarrow> lat_groups" where
  "lat_insert (lat, p, f) [] = [(lat, [p], [f])]"
| "lat_insert (lat, p, f) ((l, ps, fs) # gs) =
     (if l = lat then (l, if p \<in> set ps then ps else ps @ [p], List.insert f fs) # gs
      else (l, ps, fs) # lat_insert (lat, p, f) gs)"

definition lat_groups_of :: "(rat \<times> nat \<times> nat) list \<Rightarrow> lat_groups" where
  "lat_groups_of ps = foldl (\<lambda>gs x. lat_insert x gs) [] ps"

text \<open>
  One pair of commands: the nominal latency plus the extra cycles of the preceding command
  minus those of the following one, with the two command ids.
\<close>

definition adjusted_pair ::
  "dram_standard \<Rightarrow> (string \<times> int) list \<Rightarrow> rat \<Rightarrow> string \<times> string \<Rightarrow> dram_error + rat \<times> nat \<times> nat" where
  "adjusted_pair std cyc nominal pf =
     (let m = std_tick_multiplier std;
          p_off = cmd_ticks m cyc (fst pf) - 1;
          f_off = cmd_ticks m cyc (snd pf) - 1
      in rbind (idx_get (std_commands std) (fst pf)) (\<lambda>p.
         rbind (idx_get (std_commands std) (snd pf)) (\<lambda>f.
         Inr (nominal + of_int p_off - of_int f_off, p, f))))"

definition eval_latency :: "string \<Rightarrow> dict \<Rightarrow> dram_error + rat" where
  "eval_latency s td = (case eval_expr s td of Inl e \<Rightarrow> Inl (BadExpr e) | Inr r \<Rightarrow> Inr r)"

definition constraint_entries ::
  "dram_standard \<Rightarrow> dict \<Rightarrow> (string \<times> int) list \<Rightarrow> timing_constraint \<Rightarrow> dram_error + constraint_entry list" where
  "constraint_entries std td cyc tc =
     rbind (eval_latency (tc_latency tc) td) (\<lambda>nominal.
     rbind (idx_get (map fst (std_levels std)) (tc_level tc)) (\<lambda>level.
     rbind (rmap (adjusted_pair std cyc nominal)
              (List.product (tc_preceding tc) (tc_following tc))) (\<lambda>pairs.
     Inr (map (\<lambda>(lat, ps, fs).
            \<lparr>ce_level = level, ce_preceding = ps, ce_following = sort fs, ce_latency = lat,
             ce_window = tc_window tc, ce_sibling = tc_sibling tc\<rparr>)
          (lat_groups_of pairs)))))"

text \<open>
  \<open>_generate_bus_constraints\<close>: a command of more or less than one tick blocks every command
  of its bus for its duration. A standard with row and column commands has two buses.
\<close>

definition buses :: "dram_standard \<Rightarrow> string list list" where
  "buses std =
     (if std_row_commands std \<noteq> [] \<and> std_column_commands std \<noteq> []
      then [std_row_commands std, std_column_commands std] else [std_commands std])"

definition one_bus_entries ::
  "dram_standard \<Rightarrow> (string \<times> int) list \<Rightarrow> string list \<Rightarrow> dram_error + constraint_entry list" where
  "one_bus_entries std cyc bus =
     rbind (rmap (idx_get (std_commands std)) bus) (\<lambda>ids.
     rmap (\<lambda>(ticks, cmds).
        rbind (rmap (idx_get (std_commands std)) cmds) (\<lambda>ps.
        Inr \<lparr>ce_level = 0, ce_preceding = ps, ce_following = sort ids, ce_latency = of_int ticks,
             ce_window = 1, ce_sibling = False\<rparr>))
      (filter (\<lambda>g. fst g \<noteq> 1) (group_by (cmd_ticks (std_tick_multiplier std) cyc) bus)))"

definition bus_entries ::
  "dram_standard \<Rightarrow> (string \<times> int) list \<Rightarrow> dram_error + constraint_entry list" where
  "bus_entries std cyc =
     rbind (rmap (one_bus_entries std cyc) (buses std)) (\<lambda>es. Inr (concat es))"

definition hierarchy_fields :: "dram_standard \<Rightarrow> string list" where
  "hierarchy_fields std = [''dq'', ''channel_width''] @ tl (level_keys std)"

definition bad_org_field :: "dict \<Rightarrow> string \<Rightarrow> bool" where
  "bad_org_field od f = (case dget od f of None \<Rightarrow> True | Some v \<Rightarrow> \<not> positive_int v)"

text \<open>
  \<open>to_config\<close> after \<open>resolve\<close>: the checks in the order of the code, then the
  precomputed configuration. The hierarchy fields are a Python set, whose iteration order is
  not specified; the model reports the first bad field of the list \<open>hierarchy_fields\<close>.
\<close>

definition serialize :: "dram_standard \<Rightarrow> dict \<Rightarrow> dict \<Rightarrow> pyval option \<Rightarrow> dram_error + dram_config" where
  "serialize std od td pw =
     (let unresolved = map fst (filter (\<lambda>kv. py_eq (snd kv) (PInt (- 1))) td);
          invalid = map fst (filter (\<lambda>kv. \<not> nonneg_number (snd kv)) td)
      in
      if unresolved \<noteq> [] then Inl (UnresolvedTimings unresolved)
      else if invalid \<noteq> [] then Inl (InvalidTimings invalid)
      else case find (bad_org_field od) (hierarchy_fields std) of
        Some f \<Rightarrow> Inl (BadOrgField f)
      | None \<Rightarrow>
        rbind (dict_int od ''channel_width'') (\<lambda>cw.
        rbind (dict_int od ''dq'') (\<lambda>dq.
        if cw \<le> 0 then Inl (ChannelWidthNotPositive cw)
        else if std_payload std = None \<and> cw AND (cw - 1) \<noteq> 0 then Inl (ChannelWidthNotPowerOf2 cw)
        else if cw mod dq \<noteq> 0 then Inl (ChannelWidthNotMultiple cw dq)
        else if (case std_payload std of None \<Rightarrow> False | Some p \<Rightarrow> p \<le> 0)
          then Inl (BadPayload (the (std_payload std)))
        else
          let m = std_tick_multiplier std;
              td' = scale_timings m td;
              cyc = scale_cycles m (std_command_cycles std)
          in rbind (rmap (constraint_entries std td' cyc) (std_constraints std)) (\<lambda>tcs.
             rbind (bus_entries std cyc) (\<lambda>bus.
             rbind (rmap (\<lambda>name. if lower name \<in> set (dkeys od) then dict_int od (lower name)
                                 else Inl (MissingLevel name))
                     (tl (map fst (std_levels std)))) (\<lambda>counts.
             rbind (rmap (dict_get td') (std_timing_params std)) (\<lambda>timing.
             rbind (eval_latency (std_read_latency std) td') (\<lambda>rl.
             Inr \<lparr>cfg_impl = std_name std, cfg_dq = dq, cfg_count = 1 # counts,
                  cfg_timing = timing, cfg_command_cycles = map (cmd_ticks m cyc) (std_commands std),
                  cfg_channel_width = cw, cfg_read_latency = norm_num rl,
                  cfg_constraints = bus @ concat tcs, cfg_payload = std_payload std,
                  cfg_power = pw\<rparr>))))))))"

definition to_config ::
  "dram_standard \<Rightarrow> string \<Rightarrow> string \<Rightarrow> dict \<Rightarrow> pyval option \<Rightarrow> dram_error + dram_config" where
  "to_config std org_preset timing_preset overrides pw =
     rbind (resolve std org_preset timing_preset overrides) (\<lambda>(od, td). serialize std od td pw)"

section \<open>Structural validation and request ids\<close>

text \<open>\<open>validate\<close>: the first violation in the order of the code.\<close>

definition validate_level :: "dram_standard \<Rightarrow> string \<times> string \<Rightarrow> dram_error + unit" where
  "validate_level std lv =
     (if snd lv \<in> set (std_states std) then Inr () else Inl (BadInitState (fst lv) (snd lv)))"

definition validate_constraint :: "dram_standard \<Rightarrow> timing_constraint \<Rightarrow> dram_error + unit" where
  "validate_constraint std tc =
     (if tc_level tc \<notin> set (map fst (std_levels std)) then Inl (UnknownLevel (tc_level tc))
      else case find (\<lambda>c. c \<notin> set (std_commands std)) (tc_preceding tc @ tc_following tc) of
        Some c \<Rightarrow> Inl (UnknownCommand c)
      | None \<Rightarrow> Inr ())"

definition validate_request :: "dram_standard \<Rightarrow> string \<times> string \<Rightarrow> dram_error + unit" where
  "validate_request std rq =
     (if snd rq \<in> set (std_commands std) then Inr () else Inl (UnknownRequestCommand (fst rq) (snd rq)))"

definition validate_standard :: "dram_standard \<Rightarrow> dram_error + unit" where
  "validate_standard std =
     rbind (rmap (validate_level std) (std_levels std)) (\<lambda>_.
     rbind (rmap (validate_constraint std) (std_constraints std)) (\<lambda>_.
     if take 2 (map fst (std_supported_requests std)) \<noteq> [''Read'', ''Write''] then Inl BadRequestOrder
     else rbind (rmap (validate_request std) (std_supported_requests std)) (\<lambda>_. Inr ())))"

text \<open>\<open>keys.index(name)\<close>: the first position, \<open>ValueError\<close> when the name is absent.\<close>

fun list_index :: "'a list \<Rightarrow> 'a \<Rightarrow> nat option" where
  "list_index [] x = None"
| "list_index (y # ys) x = (if y = x then Some 0 else map_option Suc (list_index ys x))"

definition request_type_id :: "dram_standard \<Rightarrow> string \<Rightarrow> dram_error + nat" where
  "request_type_id std name =
     (case list_index (map fst (std_supported_requests std)) name of
        None \<Rightarrow> Inl (UnknownRequest name) | Some i \<Rightarrow> Inr i)"

end
