(* ===== verification/Dram_Spec_Facts.thy ===== *)
theory Dram_Spec_Facts
  imports Dram_Spec
begin

text \<open>
  What \<open>resolve\<close> and \<open>to_config\<close> do for any standard: the lookup law of resolved
  dictionaries, the exact condition under which serialising succeeds, and the meaning of the
  emitted constraint entries. The structural conditions on a standard (\<open>std_wf\<close>,
  \<open>uniform_constraint\<close>) are collected with others in the locale \<open>dram_class\<close>.
\<close>

section \<open>Powers of two\<close>

lemma and_pred_even: "0 < c \<Longrightarrow> (2 * c) AND (2 * c - 1) = 2 * (c AND (c - (1::int)))"
proof -
  assume "0 < c"
  have "(2 * (c - 1) + 1) div 2 = c - 1" by presburger
  then have "(2 * c) AND (2 * (c - 1) + 1) = 2 * (c AND (c - 1))"
    by (subst and_int_rec) simp
  then show ?thesis by (simp add: algebra_simps)
qed

lemma and_pred_odd: "(2 * c + 1) AND (2 * c) = 2 * (c::int)"
  by (subst and_int_rec) simp

lemma and_pred_pow2: "0 < (w::int) \<Longrightarrow> w AND (w - 1) = 0 \<longleftrightarrow> (\<exists>k. w = 2 ^ k)"
proof (induction "nat w" arbitrary: w rule: less_induct)
  case less
  show ?case
  proof (cases "even w")
    case True
    then obtain c where c: "w = 2 * c" by blast
    with less.prems have "0 < c" "nat c < nat w" by auto
    with less.hyps[of c] have IH: "c AND (c - 1) = 0 \<longleftrightarrow> (\<exists>k. c = 2 ^ k)" by blast
    have "(\<exists>k. w = 2 ^ k) \<longleftrightarrow> (\<exists>k. c = 2 ^ k)"
    proof
      assume "\<exists>k. w = 2 ^ k"
      then obtain k where k: "w = 2 ^ k" by blast
      have "k \<noteq> 0"
      proof
        assume "k = 0"
        with k c have "2 * c = 1" by simp
        then show False by presburger
      qed
      then obtain k' where "k = Suc k'" by (cases k) auto
      with k c show "\<exists>k. c = 2 ^ k" by auto
    next
      assume "\<exists>k. c = 2 ^ k"
      then obtain k where "c = 2 ^ k" by blast
      with c have "w = 2 ^ Suc k" by simp
      then show "\<exists>k. w = 2 ^ k" by blast
    qed
    with IH c \<open>0 < c\<close> and_pred_even[of c] show ?thesis by simp
  next
    case False
    then obtain c where c: "w = 2 * c + 1" by (rule oddE)
    with less.prems have "0 \<le> c" by simp
    have "(\<exists>k. w = 2 ^ k) \<longleftrightarrow> c = 0"
    proof
      assume "\<exists>k. w = 2 ^ k"
      then obtain k where k: "w = 2 ^ k" by blast
      with c have "odd ((2::int) ^ k)" by simp
      then have "k = 0" by simp
      with k c show "c = 0" by simp
    next
      assume "c = 0"
      with c have "w = 2 ^ 0" by simp
      then show "\<exists>k. w = 2 ^ k" by blast
    qed
    with c and_pred_odd[of c] show ?thesis by simp
  qed
qed

section \<open>Resolving\<close>

lemma apply_timing_overrides_ok:
  "apply_timing_overrides td kvs = (if set (dkeys kvs) \<subseteq> set (dkeys td) then Inr (dupdate td kvs)
     else Inl (UnknownOverride (the (find (\<lambda>k. k \<notin> set (dkeys td)) (dkeys kvs)))))"
proof (induction td kvs rule: apply_timing_overrides.induct)
  case (1 td)
  then show ?case by simp
next
  case (2 td k v kvs)
  show ?case
  proof (cases "k \<in> set (dkeys td)")
    case True
    then have "fst ` set (dset k v td) = fst ` set td"
      by (auto simp: dkeys_dset)
    with True 2 show ?thesis by (simp add: dupdate_Cons)
  next
    case False
    then show ?thesis by simp
  qed
qed

lemma resolve_Inr_iff:
  "resolve std org tim ov = Inr (od, td) \<longleftrightarrow>
    (\<exists>od0 td0 td1. dget (std_org_presets std) org = Some od0 \<and>
       dget (std_timing_presets std) tim = Some td0 \<and> ''channel'' \<notin> set (dkeys ov) \<and>
       od = dupdate od0 (filter (\<lambda>kv. fst kv \<in> set (org_names std)) ov) \<and>
       std_resolve_secondary std td0 od = Inr td1 \<and>
       set (dkeys (filter (\<lambda>kv. fst kv \<notin> set (org_names std)) ov)) \<subseteq> set (dkeys (int_dict td1)) \<and>
       td = dupdate (int_dict td1) (filter (\<lambda>kv. fst kv \<notin> set (org_names std)) ov))"
  by (auto simp: resolve_def Let_def apply_timing_overrides_ok rbind_Inr_iff split: option.splits if_splits)

lemma dget_int_dict: "dget (int_dict td) k = map_option PInt (dget td k)"
  by (induction td) (auto simp: int_dict_def)

lemma dkeys_int_dict [simp]: "dkeys (int_dict td) = dkeys td"
  by (simp add: int_dict_def o_def case_prod_beta)

lemma resolve_no_overrides:
  "resolve std org tim [] = Inr (od, td) \<longleftrightarrow>
    (\<exists>td0 td1. dget (std_org_presets std) org = Some od \<and> dget (std_timing_presets std) tim = Some td0 \<and>
       std_resolve_secondary std td0 od = Inr td1 \<and> td = int_dict td1)"
  by (auto simp: resolve_Inr_iff)

section \<open>Ticks\<close>

lemma scale_timing_fst [simp]: "fst (scale_timing m kv) = fst kv"
  by (cases kv) simp

lemma dkeys_scale [simp]: "dkeys (scale_timings m td) = dkeys td"
  by (simp add: scale_timings_def)

lemma dget_map_scale: "dget (map (scale_timing m) td) k = map_option (\<lambda>v. snd (scale_timing m (k, v))) (dget td k)"
proof (induction td)
  case Nil
  then show ?case by simp
next
  case (Cons kv td)
  obtain k' v' where kv: "kv = (k', v')" by fastforce
  obtain w where w: "scale_timing m (k', v') = (k', w)"
    by (metis fst_conv scale_timing_fst surj_pair)
  with Cons kv show ?case by (auto simp del: scale_timing.simps)
qed

lemma dget_scale:
  "dget (scale_timings m td) k =
     map_option (\<lambda>v. if m = 1 then v else snd (scale_timing m (k, v))) (dget td k)"
  by (cases "m = 1")
    (simp_all add: scale_timings_def dget_map_scale option.map_ident del: scale_timing.simps)

lemma scale_nonneg: "0 < m \<Longrightarrow> nonneg_number v \<Longrightarrow> nonneg_number (snd (scale_timing m (k, v)))"
  by (cases v) (auto simp: trunc_rat_nonneg pos_imp_zdiv_nonneg_iff)

lemma scale_timings_nonneg:
  assumes "0 < m" and "\<forall>kv \<in> set td. nonneg_number (snd kv)"
  shows "\<forall>kv \<in> set (scale_timings m td). nonneg_number (snd kv)"
proof
  fix kv
  assume "kv \<in> set (scale_timings m td)"
  then obtain kv0 where kv0: "kv0 \<in> set td" "kv = (if m = 1 then kv0 else scale_timing m kv0)"
    by (auto simp: scale_timings_def simp del: scale_timing.simps split: if_splits)
  with assms scale_nonneg[of m "snd kv0" "fst kv0"] show "nonneg_number (snd kv)"
    by (simp del: scale_timing.simps split: if_splits)
qed

lemma has_value_keys:
  assumes "\<forall>kv \<in> set td. nonneg_number (snd kv)"
  shows "has_value td x \<longleftrightarrow> x \<in> fst ` set td"
proof
  assume "has_value td x"
  then obtain v where "dget td x = Some v" by (auto simp: has_value_def)
  then show "x \<in> fst ` set td" by (rule dget_Some_in)
next
  assume "x \<in> fst ` set td"
  then obtain v where v: "dget td x = Some v"
    using dget_in_keys[of x td] by blast
  then have "(x, v) \<in> set td" by (rule map_of_SomeD)
  with assms have "nonneg_number v" by auto
  with v show "has_value td x" by (auto simp: has_value_def nonneg_number_iff)
qed

section \<open>The latency groups\<close>

definition in_group :: "lat_groups \<Rightarrow> rat \<Rightarrow> nat \<Rightarrow> nat \<Rightarrow> bool" where
  "in_group gs lat p f \<longleftrightarrow> (\<exists>ps fs. (lat, ps, fs) \<in> set gs \<and> p \<in> set ps \<and> f \<in> set fs)"

definition covers :: "lat_groups \<Rightarrow> (rat \<times> nat \<times> nat) set \<Rightarrow> bool" where
  "covers gs S \<longleftrightarrow>
     (\<forall>(lat, p, f) \<in> S. in_group gs lat p f) \<and>
     (\<forall>(lat, ps, fs) \<in> set gs. (\<forall>p \<in> set ps. \<exists>f. (lat, p, f) \<in> S) \<and> (\<forall>f \<in> set fs. \<exists>p. (lat, p, f) \<in> S))"

lemma covers_complete: "covers gs S \<Longrightarrow> (lat, p, f) \<in> S \<Longrightarrow> in_group gs lat p f"
  by (auto simp: covers_def)

lemma covers_preceding: "covers gs S \<Longrightarrow> (lat, ps, fs) \<in> set gs \<Longrightarrow> p \<in> set ps \<Longrightarrow> \<exists>f. (lat, p, f) \<in> S"
  by (fastforce simp: covers_def)

lemma covers_following: "covers gs S \<Longrightarrow> (lat, ps, fs) \<in> set gs \<Longrightarrow> f \<in> set fs \<Longrightarrow> \<exists>p. (lat, p, f) \<in> S"
  by (fastforce simp: covers_def)

lemma in_group_Cons:
  "in_group ((l, ps, fs) # gs) lat p f \<longleftrightarrow> (lat = l \<and> p \<in> set ps \<and> f \<in> set fs) \<or> in_group gs lat p f"
  by (auto simp: in_group_def)

lemma in_group_lat_insert:
  "in_group gs lat p f \<or> (lat, p, f) = x \<Longrightarrow> in_group (lat_insert x gs) lat p f"
proof (induction x gs rule: lat_insert.induct)
  case (1 l p' f')
  then show ?case by (auto simp: in_group_def)
next
  case (2 l p' f' l' ps fs gs)
  then show ?case by (auto simp: in_group_Cons)
qed

lemma lat_insert_members:
  assumes "(lat, ps, fs) \<in> set (lat_insert (l, p, f) gs)"
  shows "(\<forall>q \<in> set ps. (lat = l \<and> q = p) \<or> (\<exists>ps' fs'. (lat, ps', fs') \<in> set gs \<and> q \<in> set ps')) \<and>
         (\<forall>q \<in> set fs. (lat = l \<and> q = f) \<or> (\<exists>ps' fs'. (lat, ps', fs') \<in> set gs \<and> q \<in> set fs'))"
  using assms
proof (induction "(l, p, f)" gs rule: lat_insert.induct)
  case 1
  then show ?case by auto
next
  case (2 l' ps' fs' gs)
  then show ?case by (cases "l' = l") (auto split: if_splits, blast+)
qed

lemma covers_insert: "covers gs S \<Longrightarrow> covers (lat_insert x gs) (insert x S)"
proof -
  assume c: "covers gs S"
  obtain l p f where x: "x = (l, p, f)" by (cases x)
  have "in_group (lat_insert x gs) lat q r" if "(lat, q, r) \<in> insert x S" for lat q r
    using that c in_group_lat_insert[of gs lat q r x] by (auto simp: covers_def)
  moreover have "(\<forall>q \<in> set ps. \<exists>r. (lat, q, r) \<in> insert x S) \<and> (\<forall>r \<in> set fs. \<exists>q. (lat, q, r) \<in> insert x S)"
    if "(lat, ps, fs) \<in> set (lat_insert x gs)" for lat ps fs
    using lat_insert_members[of lat ps fs l p f gs] that x
      covers_preceding[OF c] covers_following[OF c] by (metis insertCI)
  ultimately show ?thesis by (auto simp: covers_def)
qed

lemma covers_foldl: "covers gs S \<Longrightarrow> covers (foldl (\<lambda>gs x. lat_insert x gs) gs xs) (S \<union> set xs)"
proof (induction xs arbitrary: gs S)
  case Nil
  then show ?case by simp
next
  case (Cons x xs)
  from Cons.IH[OF covers_insert[OF Cons.prems]] show ?case by simp
qed

lemma covers_lat_groups: "covers (lat_groups_of xs) (set xs)"
  using covers_foldl[of "[]" "{}" xs] by (simp add: lat_groups_of_def covers_def)

text \<open>One group per latency, without repeated ids.\<close>

definition groups_distinct :: "lat_groups \<Rightarrow> bool" where
  "groups_distinct gs \<longleftrightarrow> distinct (map fst gs) \<and> (\<forall>(l, ps, fs) \<in> set gs. distinct ps \<and> distinct fs)"

lemma lat_insert_keys: "set (map fst (lat_insert x gs)) = insert (fst x) (set (map fst gs))"
  by (induction x gs rule: lat_insert.induct) auto

lemma groups_distinct_insert: "groups_distinct gs \<Longrightarrow> groups_distinct (lat_insert x gs)"
proof (induction x gs rule: lat_insert.induct)
  case (1 l p f)
  then show ?case by (simp add: groups_distinct_def)
next
  case (2 l p f l' ps fs gs)
  then show ?case
    using lat_insert_keys[of "(l, p, f)" gs] by (auto simp: groups_distinct_def)
qed

lemma groups_distinct_of: "groups_distinct (lat_groups_of xs)"
proof -
  have "groups_distinct gs \<Longrightarrow> groups_distinct (foldl (\<lambda>gs x. lat_insert x gs) gs xs)" for gs
    by (induction xs arbitrary: gs) (simp_all add: groups_distinct_insert)
  from this[of "[]"] show ?thesis by (simp add: lat_groups_of_def groups_distinct_def)
qed

section \<open>The meaning of constraint entries\<close>

text \<open>
  An entry speaks about a pair of commands when the first is among its preceding ids and the
  second among its following ids.
\<close>

definition entry_has :: "dram_standard \<Rightarrow> constraint_entry \<Rightarrow> string \<Rightarrow> string \<Rightarrow> bool" where
  "entry_has std e p f \<longleftrightarrow>
     (\<exists>i j. idx_of (std_commands std) p = Some i \<and> idx_of (std_commands std) f = Some j \<and>
        i \<in> set (ce_preceding e) \<and> j \<in> set (ce_following e))"

text \<open>
  The distance the DSL asks for between two commands: the nominal latency, one tick more for
  every tick the preceding command takes beyond the first, one less for the following one.
\<close>

definition ticks_of :: "dram_standard \<Rightarrow> string \<Rightarrow> int" where
  "ticks_of std c =
     cmd_ticks (std_tick_multiplier std) (scale_cycles (std_tick_multiplier std) (std_command_cycles std)) c"

definition adjusted_latency :: "dram_standard \<Rightarrow> rat \<Rightarrow> string \<Rightarrow> string \<Rightarrow> rat" where
  "adjusted_latency std nominal p f = nominal + of_int (ticks_of std p) - of_int (ticks_of std f)"

text \<open>
  A constraint is uniform when all its preceding commands, or all its following commands,
  take the same number of ticks.
\<close>

definition uniform_constraint :: "dram_standard \<Rightarrow> timing_constraint \<Rightarrow> bool" where
  "uniform_constraint std tc \<longleftrightarrow>
     list_all (\<lambda>p. ticks_of std p = ticks_of std (hd (tc_preceding tc))) (tc_preceding tc) \<or>
     list_all (\<lambda>f. ticks_of std f = ticks_of std (hd (tc_following tc))) (tc_following tc)"

abbreviation std_cyc :: "dram_standard \<Rightarrow> (string \<times> int) list" where
  "std_cyc std \<equiv> scale_cycles (std_tick_multiplier std) (std_command_cycles std)"

lemma uniform_cases:
  assumes "uniform_constraint std tc"
  shows "(\<forall>p \<in> set (tc_preceding tc). \<forall>p' \<in> set (tc_preceding tc). ticks_of std p = ticks_of std p') \<or>
         (\<forall>f \<in> set (tc_following tc). \<forall>f' \<in> set (tc_following tc). ticks_of std f = ticks_of std f')"
  using assms unfolding uniform_constraint_def list_all_iff by metis

lemma adjusted_pair_Inr_iff:
  "adjusted_pair std (std_cyc std) nominal (p, f) = Inr (lat, i, j) \<longleftrightarrow>
     idx_of (std_commands std) p = Some i \<and> idx_of (std_commands std) f = Some j \<and>
     lat = adjusted_latency std nominal p f"
  by (auto simp: adjusted_pair_def Let_def idx_get_def adjusted_latency_def ticks_of_def rbind_Inr_iff
      split: option.splits)

lemma pairs_set:
  assumes "rmap (adjusted_pair std (std_cyc std) nominal) (List.product ps fs) = Inr pairs"
  shows "(lat, i, j) \<in> set pairs \<longleftrightarrow>
    (\<exists>p \<in> set ps. \<exists>f \<in> set fs. idx_of (std_commands std) p = Some i \<and>
       idx_of (std_commands std) f = Some j \<and> lat = adjusted_latency std nominal p f)"
  using rmap_set[OF assms, of "(lat, i, j)"] adjusted_pair_Inr_iff[of std nominal _ _ lat i j]
  by auto

lemma constraint_entries_Inr_iff:
  "constraint_entries std td cyc tc = Inr es \<longleftrightarrow>
    (\<exists>nominal level pairs. eval_latency (tc_latency tc) td = Inr nominal \<and>
       idx_of (map fst (std_levels std)) (tc_level tc) = Some level \<and>
       rmap (adjusted_pair std cyc nominal) (List.product (tc_preceding tc) (tc_following tc)) = Inr pairs \<and>
       es = map (\<lambda>(lat, ps, fs). \<lparr>ce_level = level, ce_preceding = ps, ce_following = sort fs,
              ce_latency = lat, ce_window = tc_window tc, ce_sibling = tc_sibling tc\<rparr>)
            (lat_groups_of pairs))"
  by (auto simp: constraint_entries_def idx_get_def rbind_Inr_iff split: option.splits)

text \<open>What the entries of one constraint share.\<close>

lemma constraint_entries_common:
  assumes "constraint_entries std td cyc tc = Inr es" and "e \<in> set es"
  shows "idx_of (map fst (std_levels std)) (tc_level tc) = Some (ce_level e)"
    and "ce_window e = tc_window tc" and "ce_sibling e = tc_sibling tc"
  using assms by (auto simp: constraint_entries_Inr_iff)

lemma constraint_entries_nominal:
  "constraint_entries std td cyc tc = Inr es \<Longrightarrow> \<exists>nominal. eval_latency (tc_latency tc) td = Inr nominal"
  by (auto simp: constraint_entries_Inr_iff)

text \<open>Every pair of the constraint is in an entry with its own adjusted latency.\<close>

lemma constraint_entries_complete:
  assumes "constraint_entries std td (std_cyc std) tc = Inr es"
    and "eval_latency (tc_latency tc) td = Inr nominal"
    and "p \<in> set (tc_preceding tc)" and "f \<in> set (tc_following tc)"
  shows "\<exists>e \<in> set es. entry_has std e p f \<and> ce_latency e = adjusted_latency std nominal p f"
proof -
  from assms(1,2) obtain level pairs where
    pairs: "rmap (adjusted_pair std (std_cyc std) nominal)
              (List.product (tc_preceding tc) (tc_following tc)) = Inr pairs"
    and es: "es = map (\<lambda>(lat, ps, fs). \<lparr>ce_level = level, ce_preceding = ps, ce_following = sort fs,
              ce_latency = lat, ce_window = tc_window tc, ce_sibling = tc_sibling tc\<rparr>)
            (lat_groups_of pairs)"
    by (auto simp: constraint_entries_Inr_iff)
  have "(p, f) \<in> set (List.product (tc_preceding tc) (tc_following tc))" using assms(3,4) by simp
  with pairs have "is_ok (adjusted_pair std (std_cyc std) nominal (p, f))"
    using is_ok_rmap[of "adjusted_pair std (std_cyc std) nominal"] by (metis is_ok_simps(1))
  then obtain lat i j where
    ij: "adjusted_pair std (std_cyc std) nominal (p, f) = Inr (lat, i, j)"
    by (auto simp: is_ok_iff)
  then have idx: "idx_of (std_commands std) p = Some i" "idx_of (std_commands std) f = Some j"
    "lat = adjusted_latency std nominal p f"
    by (simp_all add: adjusted_pair_Inr_iff)
  with pairs_set[OF pairs, of lat i j] assms(3,4) have "(lat, i, j) \<in> set pairs" by blast
  then obtain ps fs where g: "(lat, ps, fs) \<in> set (lat_groups_of pairs)" "i \<in> set ps" "j \<in> set fs"
    using covers_complete[OF covers_lat_groups, of lat i j pairs] by (auto simp: in_group_def)
  with es idx show ?thesis unfolding entry_has_def by force
qed

text \<open>
  Entries speak only of pairs of the constraint; and where the constraint is uniform, only
  with the adjusted latency of that pair.
\<close>

lemma constraint_entries_members:
  assumes "constraint_entries std td (std_cyc std) tc = Inr es" and "e \<in> set es"
    and "eval_latency (tc_latency tc) td = Inr nominal" and "entry_has std e p f"
  shows "p \<in> set (tc_preceding tc) \<and> f \<in> set (tc_following tc) \<and>
    (\<exists>f' \<in> set (tc_following tc). ce_latency e = adjusted_latency std nominal p f') \<and>
    (\<exists>p' \<in> set (tc_preceding tc). ce_latency e = adjusted_latency std nominal p' f)"
proof -
  from assms(1,3) obtain level pairs where
    pairs: "rmap (adjusted_pair std (std_cyc std) nominal)
              (List.product (tc_preceding tc) (tc_following tc)) = Inr pairs"
    and es: "es = map (\<lambda>(lat, ps, fs). \<lparr>ce_level = level, ce_preceding = ps, ce_following = sort fs,
              ce_latency = lat, ce_window = tc_window tc, ce_sibling = tc_sibling tc\<rparr>)
            (lat_groups_of pairs)"
    by (auto simp: constraint_entries_Inr_iff)
  from assms(2) es obtain ps fs where
    g: "(ce_latency e, ps, fs) \<in> set (lat_groups_of pairs)" "ce_preceding e = ps" "set (ce_following e) = set fs"
    by auto
  from assms(4) g obtain i j where
    ij: "idx_of (std_commands std) p = Some i" "idx_of (std_commands std) f = Some j" "i \<in> set ps" "j \<in> set fs"
    by (auto simp: entry_has_def)
  from covers_preceding[OF covers_lat_groups g(1) ij(3)] obtain j' where
    "(ce_latency e, i, j') \<in> set pairs" by blast
  moreover from covers_following[OF covers_lat_groups g(1) ij(4)] obtain i' where
    "(ce_latency e, i', j) \<in> set pairs" by blast
  ultimately show ?thesis
    using pairs_set[OF pairs] ij(1,2) by (metis idx_of_inj)
qed

lemma constraint_entries_sound:
  assumes "constraint_entries std td (std_cyc std) tc = Inr es" and "e \<in> set es"
    and "eval_latency (tc_latency tc) td = Inr nominal" and "entry_has std e p f"
    and "uniform_constraint std tc"
  shows "ce_latency e = adjusted_latency std nominal p f"
proof -
  from constraint_entries_members[OF assms(1-4)] obtain p' f' where
    m: "p \<in> set (tc_preceding tc)" "f \<in> set (tc_following tc)"
    "f' \<in> set (tc_following tc)" "ce_latency e = adjusted_latency std nominal p f'"
    "p' \<in> set (tc_preceding tc)" "ce_latency e = adjusted_latency std nominal p' f"
    by blast
  from uniform_cases[OF assms(5)] show ?thesis
  proof
    assume "\<forall>p \<in> set (tc_preceding tc). \<forall>p' \<in> set (tc_preceding tc). ticks_of std p = ticks_of std p'"
    with m have "ticks_of std p' = ticks_of std p" by blast
    with m(6) show ?thesis by (simp add: adjusted_latency_def)
  next
    assume "\<forall>f \<in> set (tc_following tc). \<forall>f' \<in> set (tc_following tc). ticks_of std f = ticks_of std f'"
    with m have "ticks_of std f' = ticks_of std f" by blast
    with m(4) show ?thesis by (simp add: adjusted_latency_def)
  qed
qed

section \<open>When serialising succeeds\<close>

text \<open>An expression whose names are all timing parameters of the standard.\<close>

definition closed_expr :: "dram_standard \<Rightarrow> string \<Rightarrow> bool" where
  "closed_expr std s \<longleftrightarrow>
     is_ok (parse_expr s) \<and> list_all (\<lambda>x. x \<in> set (std_timing_params std)) (expr_names s)"

definition constraint_wf :: "dram_standard \<Rightarrow> timing_constraint \<Rightarrow> bool" where
  "constraint_wf std tc \<longleftrightarrow>
     tc_level tc \<in> set (map fst (std_levels std)) \<and>
     list_all (\<lambda>c. c \<in> set (std_commands std)) (tc_preceding tc) \<and>
     list_all (\<lambda>c. c \<in> set (std_commands std)) (tc_following tc) \<and>
     closed_expr std (tc_latency tc)"

definition std_wf :: "dram_standard \<Rightarrow> bool" where
  "std_wf std \<longleftrightarrow>
     0 < std_tick_multiplier std \<and>
     list_all (constraint_wf std) (std_constraints std) \<and>
     closed_expr std (std_read_latency std) \<and>
     list_all (\<lambda>c. c \<in> set (std_commands std)) (std_row_commands std @ std_column_commands std)"

definition org_valid :: "dram_standard \<Rightarrow> dict \<Rightarrow> bool" where
  "org_valid std od \<longleftrightarrow>
     list_all (\<lambda>f. \<not> bad_org_field od f) (hierarchy_fields std) \<and>
     (\<exists>cw dq. dget od ''channel_width'' = Some (PInt cw) \<and> dget od ''dq'' = Some (PInt dq) \<and> dq dvd cw \<and>
        (std_payload std = None \<longrightarrow> (\<exists>k. cw = 2 ^ k))) \<and>
     (\<forall>p. std_payload std = Some p \<longrightarrow> 0 < p)"

definition timings_valid :: "dram_standard \<Rightarrow> dict \<Rightarrow> bool" where
  "timings_valid std td \<longleftrightarrow>
     (\<forall>kv \<in> set td. nonneg_number (snd kv)) \<and> set (std_timing_params std) \<subseteq> fst ` set td"

lemma not_bad_org_field: "\<not> bad_org_field od f \<longleftrightarrow> (\<exists>i. dget od f = Some (PInt i) \<and> 0 < i)"
  by (auto simp: bad_org_field_def positive_int_iff split: option.splits)

lemma org_valid_dest:
  assumes "org_valid std od"
  obtains cw dq where "dget od ''channel_width'' = Some (PInt cw)" "0 < cw"
    "dget od ''dq'' = Some (PInt dq)" "0 < dq" "dq dvd cw"
    "std_payload std = None \<longrightarrow> (\<exists>k. cw = 2 ^ k)"
    "find (bad_org_field od) (hierarchy_fields std) = None"
proof -
  from assms have f: "\<forall>f \<in> set (hierarchy_fields std). \<not> bad_org_field od f"
    by (simp add: org_valid_def list_all_iff)
  then have "\<not> bad_org_field od ''dq''" "\<not> bad_org_field od ''channel_width''"
    by (simp_all add: hierarchy_fields_def)
  with assms f that show ?thesis
    by (fastforce simp: org_valid_def not_bad_org_field find_None_iff)
qed

lemma idx_get_ok: "is_ok (idx_get names x) \<longleftrightarrow> x \<in> set names"
  using idx_of_None_iff[of names x] by (cases "idx_of names x") (auto simp: idx_get_def)

lemma eval_latency_ok: "is_ok (eval_latency s td) \<longleftrightarrow> is_ok (eval_expr s td)"
  by (auto simp: eval_latency_def split: sum.splits)

lemma closed_expr_eval:
  assumes "closed_expr std s" and "timings_valid std td"
  shows "is_ok (eval_latency s td)"
proof -
  from assms have "\<forall>x \<in> set (expr_names s). has_value td x"
    using has_value_keys[of td] by (auto simp: closed_expr_def timings_valid_def list_all_iff)
  with assms(1) show ?thesis by (simp add: eval_latency_ok eval_expr_ok_iff closed_expr_def)
qed

lemma adjusted_pair_ok:
  "is_ok (adjusted_pair std cyc nominal (p, f)) \<longleftrightarrow> p \<in> set (std_commands std) \<and> f \<in> set (std_commands std)"
  using idx_get_ok[of "std_commands std" p] idx_get_ok[of "std_commands std" f]
  by (cases "idx_get (std_commands std) p"; cases "idx_get (std_commands std) f")
    (simp_all add: adjusted_pair_def Let_def)

lemma constraint_entries_ok:
  assumes "constraint_wf std tc" and "timings_valid std td"
  shows "is_ok (constraint_entries std td cyc tc)"
proof -
  from assms obtain nominal where n: "eval_latency (tc_latency tc) td = Inr nominal"
    using closed_expr_eval[of std "tc_latency tc" td] by (auto simp: constraint_wf_def is_ok_iff)
  from assms obtain level where l: "idx_get (map fst (std_levels std)) (tc_level tc) = Inr level"
    using idx_get_ok[of "map fst (std_levels std)" "tc_level tc"] by (auto simp: constraint_wf_def is_ok_iff)
  have "is_ok (rmap (adjusted_pair std cyc nominal) (List.product (tc_preceding tc) (tc_following tc)))"
    using assms(1) by (auto simp: is_ok_rmap adjusted_pair_ok constraint_wf_def list_all_iff)
  with n l show ?thesis by (auto simp: constraint_entries_def is_ok_iff)
qed

lemma buses_commands:
  "std_wf std \<Longrightarrow> bus \<in> set (buses std) \<Longrightarrow> set bus \<subseteq> set (std_commands std)"
  by (auto simp: std_wf_def buses_def list_all_iff split: if_splits)

lemma group_by_members: "(k, xs) \<in> set (group_by key ys) \<Longrightarrow> x \<in> set xs \<Longrightarrow> x \<in> set ys \<and> key x = k"
  using grouped_group_by[of key ys k x] by (auto simp: grouped_def)

lemma one_bus_entries_ok:
  assumes "set bus \<subseteq> set (std_commands std)"
  shows "is_ok (one_bus_entries std cyc bus)"
proof -
  have ok: "is_ok (rmap (idx_get (std_commands std)) xs)" if "set xs \<subseteq> set bus" for xs
    using that assms by (auto simp: is_ok_rmap idx_get_ok)
  let ?groups = "group_by (cmd_ticks (std_tick_multiplier std) cyc) bus"
  have "\<exists>ps. rmap (idx_get (std_commands std)) cmds = Inr ps" if "(ticks, cmds) \<in> set ?groups" for ticks cmds
    using group_by_members[OF that] ok[of cmds] by (auto simp: is_ok_iff)
  moreover obtain ids where "rmap (idx_get (std_commands std)) bus = Inr ids"
    using ok[of bus] by (auto simp: is_ok_iff)
  ultimately show ?thesis
    by (auto simp: one_bus_entries_def is_ok_rmap is_ok_rbind)
qed

lemma bus_entries_ok: "std_wf std \<Longrightarrow> is_ok (bus_entries std cyc)"
  using one_bus_entries_ok buses_commands
  by (auto simp: bus_entries_def is_ok_rbind is_ok_iff[of "rmap _ _", symmetric] is_ok_rmap)

text \<open>
  The shape of a successful run: which checks it passed and where each part of the
  configuration comes from.
\<close>

lemma not_unresolved:
  "\<forall>kv \<in> set td. nonneg_number (snd kv) \<Longrightarrow> filter (\<lambda>kv. py_eq (snd kv) (PInt (- 1))) td = []"
  by (auto simp: filter_empty_conv nonneg_number_iff py_eq_PInt_iff)

lemma serialize_Inr_dest:
  assumes "serialize std od td pw = Inr cfg"
  obtains cw dq tcs bus counts timing rl where
    "\<forall>kv \<in> set td. nonneg_number (snd kv)"
    "list_all (\<lambda>f. \<not> bad_org_field od f) (hierarchy_fields std)"
    "dict_int od ''channel_width'' = Inr cw" "dict_int od ''dq'' = Inr dq"
    "0 < cw" "std_payload std = None \<longrightarrow> cw AND (cw - 1) = 0" "cw mod dq = 0"
    "\<forall>p. std_payload std = Some p \<longrightarrow> 0 < p"
    "rmap (constraint_entries std (scale_timings (std_tick_multiplier std) td) (std_cyc std))
       (std_constraints std) = Inr tcs"
    "bus_entries std (std_cyc std) = Inr bus"
    "rmap (\<lambda>name. if lower name \<in> set (dkeys od) then dict_int od (lower name) else Inl (MissingLevel name))
       (tl (map fst (std_levels std))) = Inr counts"
    "rmap (dict_get (scale_timings (std_tick_multiplier std) td)) (std_timing_params std) = Inr timing"
    "eval_latency (std_read_latency std) (scale_timings (std_tick_multiplier std) td) = Inr rl"
    "cfg = \<lparr>cfg_impl = std_name std, cfg_dq = dq, cfg_count = 1 # counts, cfg_timing = timing,
       cfg_command_cycles = map (cmd_ticks (std_tick_multiplier std) (std_cyc std)) (std_commands std),
       cfg_channel_width = cw, cfg_read_latency = norm_num rl, cfg_constraints = bus @ concat tcs,
       cfg_payload = std_payload std, cfg_power = pw\<rparr>"
proof -
  note unfolded = assms[unfolded serialize_def Let_def]
  have v: "\<forall>kv \<in> set td. nonneg_number (snd kv)"
    using unfolded by (auto simp: filter_empty_conv split: if_splits)
  have f: "find (bad_org_field od) (hierarchy_fields std) = None"
    using unfolded by (auto split: if_splits option.splits)
  have inv: "filter (\<lambda>kv. \<not> nonneg_number (snd kv)) td = []"
    using v by (simp add: filter_empty_conv)
  have "list_all (\<lambda>f. \<not> bad_org_field od f) (hierarchy_fields std)"
    using f by (auto simp: find_None_iff list_all_iff)
  moreover note unfolded[simplified not_unresolved[OF v] inv f, simplified, unfolded rbind_Inr_iff]
  ultimately show thesis
    using v that by (fastforce simp: rbind_Inr_iff split: if_splits option.splits)
qed

lemma timings_valid_scale:
  assumes "0 < std_tick_multiplier std" and "timings_valid std td"
  shows "timings_valid std (scale_timings (std_tick_multiplier std) td)"
proof -
  have "fst ` set (scale_timings (std_tick_multiplier std) td) = fst ` set td"
    by (metis dkeys_scale list.set_map)
  with assms scale_timings_nonneg[OF assms(1), of td] show ?thesis
    by (simp add: timings_valid_def)
qed

lemma hierarchy_level_int:
  assumes "list_all (\<lambda>f. \<not> bad_org_field od f) (hierarchy_fields std)"
    and "name \<in> set (tl (map fst (std_levels std)))"
  shows "\<exists>i. dget od (lower name) = Some (PInt i) \<and> 0 < i"
proof -
  have "lower name \<in> set (hierarchy_fields std)"
    using assms(2) by (cases "std_levels std") (auto simp: hierarchy_fields_def level_keys_def)
  with assms(1) show ?thesis by (simp add: list_all_iff not_bad_org_field)
qed

lemma level_count_ok:
  assumes "list_all (\<lambda>f. \<not> bad_org_field od f) (hierarchy_fields std)"
    and "name \<in> set (tl (map fst (std_levels std)))"
  shows "\<exists>i. (if lower name \<in> set (dkeys od) then dict_int od (lower name) else Inl (MissingLevel name)) = Inr i \<and>
    dget od (lower name) = Some (PInt i) \<and> 0 < i"
proof -
  obtain i where i: "dget od (lower name) = Some (PInt i)" "0 < i"
    using hierarchy_level_int[OF assms] by blast
  then show ?thesis using dget_Some_in[OF i(1)] by (simp add: dict_int_def dict_get_def)
qed

lemma dict_get_ok: "is_ok (dict_get d k) \<longleftrightarrow> k \<in> fst ` set d"
  using dget_None_iff[of d k] by (cases "dget d k") (auto simp: dict_get_def)

lemma serialize_ok:
  assumes "std_wf std" and "timings_valid std td" and "org_valid std od"
  shows "is_ok (serialize std od td pw)"
proof -
  let ?m = "std_tick_multiplier std" and ?td = "scale_timings (std_tick_multiplier std) td"
  obtain cw dq where org: "dget od ''channel_width'' = Some (PInt cw)" "0 < cw"
    "dget od ''dq'' = Some (PInt dq)" "0 < dq" "dq dvd cw"
    "std_payload std = None \<longrightarrow> (\<exists>k. cw = 2 ^ k)"
    "find (bad_org_field od) (hierarchy_fields std) = None"
    by (rule org_valid_dest[OF assms(3)])
  have v: "\<forall>kv \<in> set td. nonneg_number (snd kv)" using assms(2) by (simp add: timings_valid_def)
  have inv: "filter (\<lambda>kv. \<not> nonneg_number (snd kv)) td = []" using v by (simp add: filter_empty_conv)
  have v': "timings_valid std ?td" using assms(1,2) by (simp add: std_wf_def timings_valid_scale)
  have "\<forall>tc \<in> set (std_constraints std). is_ok (constraint_entries std ?td (std_cyc std) tc)"
    using assms(1) constraint_entries_ok[OF _ v'] by (simp add: std_wf_def list_all_iff)
  then obtain tcs where tcs: "rmap (constraint_entries std ?td (std_cyc std)) (std_constraints std) = Inr tcs"
    by (blast dest: rmap_exI)
  obtain bus where bus: "bus_entries std (std_cyc std) = Inr bus"
    using bus_entries_ok[OF assms(1)] by (auto simp: is_ok_iff)
  let ?count = "\<lambda>name. if lower name \<in> set (dkeys od) then dict_int od (lower name) else Inl (MissingLevel name)"
  have "\<forall>name \<in> set (tl (map fst (std_levels std))). is_ok (?count name)"
    using assms(3) level_count_ok[of od std] unfolding org_valid_def by (metis is_ok_simps(1))
  then obtain counts where counts: "rmap ?count (tl (map fst (std_levels std))) = Inr counts"
    using rmap_exI[of "tl (map fst (std_levels std))" ?count] by blast
  have "\<forall>x \<in> set (std_timing_params std). is_ok (dict_get ?td x)"
    using v' unfolding timings_valid_def dict_get_ok by blast
  then obtain timing where timing: "rmap (dict_get ?td) (std_timing_params std) = Inr timing"
    by (blast dest: rmap_exI)
  obtain rl where rl: "eval_latency (std_read_latency std) ?td = Inr rl"
    using assms(1) v' closed_expr_eval[of std "std_read_latency std" ?td] by (auto simp: std_wf_def is_ok_iff)
  have pow2: "\<not> (std_payload std = None \<and> cw AND (cw - 1) \<noteq> 0)"
    using org(2,6) and_pred_pow2 by auto
  have payload: "\<not> (case std_payload std of None \<Rightarrow> False | Some p \<Rightarrow> p \<le> 0)"
    using assms(3) by (auto simp: org_valid_def split: option.splits)
  have mult: "cw mod dq = 0" using org(5) by presburger
  have ints: "dict_int od ''channel_width'' = Inr cw" "dict_int od ''dq'' = Inr dq"
    using org(1,3) by (simp_all add: dict_int_def dict_get_def)
  have pos: "\<not> cw \<le> 0" using org(2) by simp
  show ?thesis
    unfolding serialize_def Let_def not_unresolved[OF v] inv org(7) ints
    by (simp only: list.map option.case rbind_Inr pos pow2 payload mult tcs bus counts timing rl
        if_False if_True not_True_eq_False simp_thms is_ok_simps)
qed

lemma serialize_org_valid:
  assumes "serialize std od td pw = Inr cfg"
  shows "org_valid std od"
proof -
  obtain cw dq where c: "list_all (\<lambda>f. \<not> bad_org_field od f) (hierarchy_fields std)"
    "dict_int od ''channel_width'' = Inr cw" "dict_int od ''dq'' = Inr dq" "0 < cw"
    "std_payload std = None \<longrightarrow> cw AND (cw - 1) = 0" "cw mod dq = 0"
    "\<forall>p. std_payload std = Some p \<longrightarrow> 0 < p"
    by (rule serialize_Inr_dest[OF assms])
  have "dget od k = Some (PInt i)" if "dict_int od k = Inr i" for k i
    using that by (auto simp: dict_int_def dict_get_def rbind_Inr_iff split: option.splits pyval.splits)
  from this[OF c(2)] this[OF c(3)] have "dget od ''channel_width'' = Some (PInt cw)" "dget od ''dq'' = Some (PInt dq)" .
  moreover have "dq dvd cw" using c(6) by presburger
  moreover have "std_payload std = None \<longrightarrow> (\<exists>k. cw = 2 ^ k)" using c(5) and_pred_pow2[OF c(4)] by simp
  ultimately show ?thesis using c(1,7) unfolding org_valid_def by simp
qed

lemma serialize_timings_valid:
  assumes "serialize std od td pw = Inr cfg"
  shows "timings_valid std td"
proof -
  let ?td = "scale_timings (std_tick_multiplier std) td"
  obtain timing where c: "\<forall>kv \<in> set td. nonneg_number (snd kv)"
    "rmap (dict_get ?td) (std_timing_params std) = Inr timing"
    by (rule serialize_Inr_dest[OF assms])
  have "\<forall>x \<in> set (std_timing_params std). is_ok (dict_get ?td x)"
    using c(2) is_ok_rmap[of "dict_get ?td" "std_timing_params std"] by simp
  then have "\<forall>x \<in> set (std_timing_params std). x \<in> fst ` set ?td"
    by (simp add: dict_get_ok)
  moreover have "fst ` set ?td = fst ` set td" by (metis dkeys_scale list.set_map)
  ultimately show ?thesis using c(1) by (auto simp: timings_valid_def)
qed

lemma serialize_ok_cond:
  "std_wf std \<Longrightarrow> is_ok (serialize std od td pw) \<longleftrightarrow> timings_valid std td \<and> org_valid std od"
  using serialize_ok[of std td od pw] serialize_org_valid[of std od td pw] serialize_timings_valid[of std od td pw]
  by (auto simp: is_ok_iff)

end
