(* ===== verification/Dram_Class.thy ===== *)
theory Dram_Class
  imports Dram_Spec_Facts
begin

text \<open>
  What a configuration enforces, compared with what the DSL demands, and the interface
  \<open>dram_class\<close> between the DSL and the standards written in it: the structural conditions
  on a standard and the contract of its \<open>resolve_secondary_timings\<close>. The facts proved in
  the locale hold for every standard that interprets it.
\<close>

section \<open>Demanded and enforced distances\<close>

text \<open>
  \<open>demanded std td lv p f lat w sib\<close>: some timing constraint of the standard asks, at level
  \<open>lv\<close>, for the distance \<open>lat\<close> between \<open>p\<close> and the \<open>w\<close>-th following
  \<open>f\<close> (in a sibling node when \<open>sib\<close>), with the timing values \<open>td\<close>.
  \<open>bus_demanded\<close> is the same for the command buses: a command occupies its bus for its
  ticks. \<open>enforced\<close> reads the emitted entries.
\<close>

definition demanded ::
  "dram_standard \<Rightarrow> dict \<Rightarrow> nat \<Rightarrow> string \<Rightarrow> string \<Rightarrow> rat \<Rightarrow> int \<Rightarrow> bool \<Rightarrow> bool" where
  "demanded std td lv p f lat w sib \<longleftrightarrow>
     (\<exists>tc \<in> set (std_constraints std). \<exists>nominal.
        idx_of (map fst (std_levels std)) (tc_level tc) = Some lv \<and>
        p \<in> set (tc_preceding tc) \<and> f \<in> set (tc_following tc) \<and>
        eval_latency (tc_latency tc) (scale_timings (std_tick_multiplier std) td) = Inr nominal \<and>
        lat = adjusted_latency std nominal p f \<and> w = tc_window tc \<and> sib = tc_sibling tc)"

definition bus_demanded ::
  "dram_standard \<Rightarrow> nat \<Rightarrow> string \<Rightarrow> string \<Rightarrow> rat \<Rightarrow> int \<Rightarrow> bool \<Rightarrow> bool" where
  "bus_demanded std lv p f lat w sib \<longleftrightarrow>
     lv = 0 \<and> w = 1 \<and> \<not> sib \<and> ticks_of std p \<noteq> 1 \<and> lat = of_int (ticks_of std p) \<and>
     (\<exists>bus \<in> set (buses std). p \<in> set bus \<and> f \<in> set bus)"

definition enforced ::
  "dram_standard \<Rightarrow> constraint_entry list \<Rightarrow> nat \<Rightarrow> string \<Rightarrow> string \<Rightarrow> rat \<Rightarrow> int \<Rightarrow> bool \<Rightarrow> bool" where
  "enforced std es lv p f lat w sib \<longleftrightarrow>
     (\<exists>e \<in> set es. ce_level e = lv \<and> entry_has std e p f \<and> ce_latency e = lat \<and>
        ce_window e = w \<and> ce_sibling e = sib)"

lemma enforced_append:
  "enforced std (xs @ ys) lv p f lat w sib \<longleftrightarrow>
     enforced std xs lv p f lat w sib \<or> enforced std ys lv p f lat w sib"
  by (auto simp: enforced_def)

lemma enforced_concat:
  "enforced std (concat xss) lv p f lat w sib \<longleftrightarrow> (\<exists>xs \<in> set xss. enforced std xs lv p f lat w sib)"
  by (auto simp: enforced_def)

lemma ids_of_commands:
  "rmap (idx_get (std_commands std)) cs = Inr ids \<Longrightarrow> idx_of (std_commands std) c = Some i \<Longrightarrow>
    i \<in> set ids \<longleftrightarrow> c \<in> set cs"
  using rmap_set[of "idx_get (std_commands std)" cs ids i]
  by (auto simp: idx_get_def split: option.splits dest: idx_of_inj)

lemma ids_known:
  "rmap (idx_get (std_commands std)) cs = Inr ids \<Longrightarrow> c \<in> set cs \<Longrightarrow> \<exists>i. idx_of (std_commands std) c = Some i"
  using is_ok_rmap[of "idx_get (std_commands std)" cs] idx_of_ok[of c "std_commands std"]
  by (simp add: idx_get_ok)

text \<open>One constraint: its entries enforce exactly what it demands, when it is uniform.\<close>

lemma constraint_exact:
  assumes "constraint_entries std td (std_cyc std) tc = Inr es" and "uniform_constraint std tc"
  shows "enforced std es lv p f lat w sib \<longleftrightarrow>
    (\<exists>nominal. idx_of (map fst (std_levels std)) (tc_level tc) = Some lv \<and>
        p \<in> set (tc_preceding tc) \<and> f \<in> set (tc_following tc) \<and> eval_latency (tc_latency tc) td = Inr nominal \<and>
        lat = adjusted_latency std nominal p f \<and> w = tc_window tc \<and> sib = tc_sibling tc)"
    (is "_ \<longleftrightarrow> ?R")
proof
  assume "enforced std es lv p f lat w sib"
  then obtain e where e: "e \<in> set es" "ce_level e = lv" "entry_has std e p f" "ce_latency e = lat"
    "ce_window e = w" "ce_sibling e = sib"
    by (auto simp: enforced_def)
  obtain nominal where n: "eval_latency (tc_latency tc) td = Inr nominal"
    using constraint_entries_nominal[OF assms(1)] by blast
  from constraint_entries_common[OF assms(1) e(1)] constraint_entries_members[OF assms(1) e(1) n e(3)]
    constraint_entries_sound[OF assms(1) e(1) n e(3) assms(2)] e n
  show ?R by auto
next
  assume ?R
  then obtain nominal where n: "idx_of (map fst (std_levels std)) (tc_level tc) = Some lv"
    "p \<in> set (tc_preceding tc)" "f \<in> set (tc_following tc)" "eval_latency (tc_latency tc) td = Inr nominal"
    "lat = adjusted_latency std nominal p f" "w = tc_window tc" "sib = tc_sibling tc"
    by blast
  from constraint_entries_complete[OF assms(1) n(4) n(2) n(3)] obtain e where
    e: "e \<in> set es" "entry_has std e p f" "ce_latency e = adjusted_latency std nominal p f"
    by blast
  with n constraint_entries_common[OF assms(1) e(1)] show "enforced std es lv p f lat w sib"
    by (auto simp: enforced_def)
qed

text \<open>One bus.\<close>

lemma one_bus_exact:
  assumes "one_bus_entries std (std_cyc std) bus = Inr es"
  shows "enforced std es lv p f lat w sib \<longleftrightarrow>
    lv = 0 \<and> w = 1 \<and> \<not> sib \<and> p \<in> set bus \<and> f \<in> set bus \<and> ticks_of std p \<noteq> 1 \<and> lat = of_int (ticks_of std p)"
    (is "_ \<longleftrightarrow> ?R")
proof -
  let ?key = "cmd_ticks (std_tick_multiplier std) (std_cyc std)"
  let ?entry = "\<lambda>ids (ticks, cmds). rbind (rmap (idx_get (std_commands std)) cmds) (\<lambda>ps.
        Inr \<lparr>ce_level = 0, ce_preceding = ps, ce_following = sort ids, ce_latency = of_int ticks,
             ce_window = 1, ce_sibling = False\<rparr>)"
  from assms obtain ids where ids: "rmap (idx_get (std_commands std)) bus = Inr ids"
    and es: "rmap (?entry ids) (filter (\<lambda>g. fst g \<noteq> 1) (group_by ?key bus)) = Inr es"
    by (auto simp: one_bus_entries_def rbind_Inr_iff)
  have entry: "e \<in> set es \<longleftrightarrow> (\<exists>ticks cmds ps. (ticks, cmds) \<in> set (group_by ?key bus) \<and> ticks \<noteq> 1 \<and>
      rmap (idx_get (std_commands std)) cmds = Inr ps \<and>
      e = \<lparr>ce_level = 0, ce_preceding = ps, ce_following = sort ids, ce_latency = of_int ticks,
             ce_window = 1, ce_sibling = False\<rparr>)" for e
    using rmap_set[OF es, of e] by (fastforce simp: rbind_Inr_iff)
  show ?thesis
  proof
    assume "enforced std es lv p f lat w sib"
    then obtain e where e: "e \<in> set es" "ce_level e = lv" "entry_has std e p f" "ce_latency e = lat"
      "ce_window e = w" "ce_sibling e = sib"
      by (auto simp: enforced_def)
    then obtain ticks cmds ps where g: "(ticks, cmds) \<in> set (group_by ?key bus)" "ticks \<noteq> 1"
      "rmap (idx_get (std_commands std)) cmds = Inr ps" "ce_preceding e = ps" "set (ce_following e) = set ids"
      "lv = 0" "w = 1" "\<not> sib" "lat = of_int ticks"
      by (auto simp: entry)
    from e(3) g obtain i j where ij: "idx_of (std_commands std) p = Some i"
      "idx_of (std_commands std) f = Some j" "i \<in> set ps" "j \<in> set ids"
      by (auto simp: entry_has_def)
    with g(3) ids have "p \<in> set cmds" "f \<in> set bus" by (simp_all add: ids_of_commands)
    with group_by_members[OF g(1)] g show ?R by (auto simp: ticks_of_def)
  next
    assume R: ?R
    then have "grouped (group_by ?key bus) (ticks_of std p) p"
      by (simp add: grouped_group_by ticks_of_def)
    then obtain cmds where g: "(ticks_of std p, cmds) \<in> set (group_by ?key bus)" "p \<in> set cmds"
      by (auto simp: grouped_def)
    have "set cmds \<subseteq> set bus" using group_by_members[OF g(1)] by blast
    then have "\<forall>c \<in> set cmds. is_ok (idx_get (std_commands std) c)"
      using ids is_ok_rmap[of "idx_get (std_commands std)" bus] by auto
    then obtain ps where ps: "rmap (idx_get (std_commands std)) cmds = Inr ps"
      using rmap_exI by blast
    obtain i j where ij: "idx_of (std_commands std) p = Some i" "idx_of (std_commands std) f = Some j"
      using ids_known[OF ids] R by blast
    then have "i \<in> set ps" "j \<in> set ids"
      using ids_of_commands[OF ps ij(1)] ids_of_commands[OF ids ij(2)] g(2) R by simp_all
    define e where "e = \<lparr>ce_level = 0, ce_preceding = ps, ce_following = sort ids,
      ce_latency = of_int (ticks_of std p), ce_window = 1, ce_sibling = False\<rparr>"
    have "e \<in> set es"
      unfolding entry e_def using g ps R by blast
    moreover have "entry_has std e p f"
      using ij \<open>i \<in> set ps\<close> \<open>j \<in> set ids\<close> by (simp add: entry_has_def e_def)
    ultimately show "enforced std es lv p f lat w sib"
      unfolding enforced_def using R by (intro bexI[of _ e]) (simp_all add: e_def)
  qed
qed

lemma bus_exact:
  assumes "bus_entries std (std_cyc std) = Inr es"
  shows "enforced std es lv p f lat w sib \<longleftrightarrow> bus_demanded std lv p f lat w sib"
proof -
  let ?R = "lv = 0 \<and> w = 1 \<and> \<not> sib \<and> ticks_of std p \<noteq> 1 \<and> lat = of_int (ticks_of std p)"
  from assms obtain ess where ess: "rmap (one_bus_entries std (std_cyc std)) (buses std) = Inr ess"
    and es: "es = concat ess"
    by (auto simp: bus_entries_def rbind_Inr_iff)
  have all: "is_ok (one_bus_entries std (std_cyc std) bus)" if "bus \<in> set (buses std)" for bus
    using that is_ok_rmap[of "one_bus_entries std (std_cyc std)" "buses std"] by (simp add: ess)
  have one: "enforced std xs lv p f lat w sib \<longleftrightarrow> ?R \<and> p \<in> set bus \<and> f \<in> set bus"
    if "one_bus_entries std (std_cyc std) bus = Inr xs" for bus xs
    using one_bus_exact[OF that] by auto
  have "(\<exists>xs \<in> set ess. enforced std xs lv p f lat w sib) \<longleftrightarrow>
    (\<exists>bus \<in> set (buses std). \<exists>xs. one_bus_entries std (std_cyc std) bus = Inr xs \<and> enforced std xs lv p f lat w sib)"
    using rmap_set[OF ess] by blast
  also have "\<dots> \<longleftrightarrow> (\<exists>bus \<in> set (buses std). ?R \<and> p \<in> set bus \<and> f \<in> set bus)"
    using all one by (intro bex_cong refl) (metis is_ok_iff)
  finally show ?thesis
    unfolding es enforced_concat bus_demanded_def by blast
qed

lemma serialized_exact:
  assumes "serialize std od td pw = Inr cfg" and "list_all (uniform_constraint std) (std_constraints std)"
  shows "enforced std (cfg_constraints cfg) lv p f lat w sib \<longleftrightarrow>
    demanded std td lv p f lat w sib \<or> bus_demanded std lv p f lat w sib"
proof -
  let ?td = "scale_timings (std_tick_multiplier std) td"
  obtain tcs bus where
    tcs: "rmap (constraint_entries std ?td (std_cyc std)) (std_constraints std) = Inr tcs" and
    bus: "bus_entries std (std_cyc std) = Inr bus" and cfg: "cfg_constraints cfg = bus @ concat tcs"
    by (rule serialize_Inr_dest[OF assms(1)]) simp
  have "(\<exists>es \<in> set tcs. enforced std es lv p f lat w sib) \<longleftrightarrow>
    (\<exists>tc \<in> set (std_constraints std). \<exists>es. constraint_entries std ?td (std_cyc std) tc = Inr es \<and>
       enforced std es lv p f lat w sib)"
    using rmap_set[OF tcs] by blast
  also have "\<dots> \<longleftrightarrow> demanded std td lv p f lat w sib"
  proof -
    have "\<forall>tc \<in> set (std_constraints std). \<exists>es. constraint_entries std ?td (std_cyc std) tc = Inr es"
      using tcs is_ok_rmap[of "constraint_entries std ?td (std_cyc std)" "std_constraints std"]
      by (simp add: is_ok_iff)
    moreover have "\<forall>tc \<in> set (std_constraints std). uniform_constraint std tc"
      using assms(2) by (simp add: list_all_iff)
    ultimately show ?thesis
      using constraint_exact[of std ?td _ _ lv p f lat w sib] unfolding demanded_def by blast
  qed
  finally show ?thesis
    using bus_exact[OF bus, of lv p f lat w sib] unfolding cfg enforced_append enforced_concat by blast
qed

section \<open>Well-formed configurations\<close>

text \<open>
  What the engine relies on when it indexes its tables: every id of a constraint is in range,
  the vectors have one entry per level, timing or command, the counts are positive and the
  channel is a whole number of devices wide.
\<close>

definition entry_wf :: "dram_standard \<Rightarrow> constraint_entry \<Rightarrow> bool" where
  "entry_wf std e \<longleftrightarrow>
     ce_level e < length (std_levels std) \<and>
     list_all (\<lambda>i. i < length (std_commands std)) (ce_preceding e) \<and>
     list_all (\<lambda>i. i < length (std_commands std)) (ce_following e)"

definition config_wf :: "dram_standard \<Rightarrow> dram_config \<Rightarrow> bool" where
  "config_wf std cfg \<longleftrightarrow>
     cfg_impl cfg = std_name std \<and>
     length (cfg_count cfg) = length (std_levels std) \<and> list_all (\<lambda>n. 0 < n) (cfg_count cfg) \<and>
     length (cfg_timing cfg) = length (std_timing_params std) \<and>
     list_all nonneg_number (cfg_timing cfg) \<and>
     length (cfg_command_cycles cfg) = length (std_commands std) \<and>
     0 < cfg_dq cfg \<and> cfg_dq cfg dvd cfg_channel_width cfg \<and> 0 < cfg_channel_width cfg \<and>
     list_all (entry_wf std) (cfg_constraints cfg)"

lemma idx_of_lt: "idx_of names x = Some i \<Longrightarrow> i < length names"
  using idx_of_SomeD[of names x i] by simp

lemma rmap_idx_range:
  assumes "rmap (idx_get names) xs = Inr ids"
  shows "list_all (\<lambda>i. i < length names) ids"
proof -
  have "i < length names" if i: "i \<in> set ids" for i
  proof -
    obtain x where "idx_get names x = Inr i"
      using rmap_set[OF assms, of i] i by blast
    then have "idx_of names x = Some i" by (simp add: idx_get_def split: option.splits)
    then show ?thesis by (rule idx_of_lt)
  qed
  then show ?thesis by (simp add: list_all_iff)
qed

lemma constraint_entries_wf:
  assumes "constraint_entries std td (std_cyc std) tc = Inr es" and "e \<in> set es"
  shows "entry_wf std e"
proof -
  obtain nominal level pairs where
    pairs: "rmap (adjusted_pair std (std_cyc std) nominal) (List.product (tc_preceding tc) (tc_following tc)) = Inr pairs"
    and es: "es = map (\<lambda>(lat, ps, fs). \<lparr>ce_level = level, ce_preceding = ps, ce_following = sort fs,
              ce_latency = lat, ce_window = tc_window tc, ce_sibling = tc_sibling tc\<rparr>) (lat_groups_of pairs)"
    using assms(1) by (auto simp: constraint_entries_Inr_iff)
  have lv: "ce_level e < length (std_levels std)"
    using constraint_entries_common(1)[OF assms] by (auto dest: idx_of_lt)
  obtain lat ps fs where g: "(lat, ps, fs) \<in> set (lat_groups_of pairs)"
    and e: "ce_preceding e = ps" "set (ce_following e) = set fs"
  proof -
    have "e \<in> (\<lambda>(lat, ps, fs). \<lparr>ce_level = level, ce_preceding = ps, ce_following = sort fs,
              ce_latency = lat, ce_window = tc_window tc, ce_sibling = tc_sibling tc\<rparr>) ` set (lat_groups_of pairs)"
      using assms(2) es by simp
    then obtain g where g: "g \<in> set (lat_groups_of pairs)"
      "ce_preceding e = fst (snd g)" "set (ce_following e) = set (snd (snd g))"
      by (force split: prod.splits)
    show thesis using that[of "fst g" "fst (snd g)" "snd (snd g)"] g by simp
  qed
  have range: "i < length (std_commands std) \<and> j < length (std_commands std)" if "(l, i, j) \<in> set pairs" for l i j
    using that pairs_set[OF pairs, of l i j] by (auto dest: idx_of_lt)
  have "i < length (std_commands std)" if "i \<in> set ps" for i
    using covers_preceding[OF covers_lat_groups g that] range by blast
  moreover have "j < length (std_commands std)" if "j \<in> set fs" for j
    using covers_following[OF covers_lat_groups g that] range by blast
  ultimately show ?thesis
    using lv e by (simp add: entry_wf_def list_all_iff)
qed

lemma bus_entries_wf:
  assumes "bus_entries std cyc = Inr es" and "e \<in> set es" and "std_levels std \<noteq> []"
  shows "entry_wf std e"
proof -
  from assms(1) obtain ess where ess: "rmap (one_bus_entries std cyc) (buses std) = Inr ess"
    and es: "es = concat ess"
    by (auto simp: bus_entries_def rbind_Inr_iff)
  with assms(2) obtain xs bus where xs: "e \<in> set xs" "one_bus_entries std cyc bus = Inr xs"
    using rmap_set[OF ess] by auto
  from xs(2) obtain ids gs where ids: "rmap (idx_get (std_commands std)) bus = Inr ids"
    and r: "rmap (\<lambda>(ticks, cmds). rbind (rmap (idx_get (std_commands std)) cmds) (\<lambda>ps.
        Inr \<lparr>ce_level = 0, ce_preceding = ps, ce_following = sort ids, ce_latency = of_int ticks,
             ce_window = 1, ce_sibling = False\<rparr>)) gs = Inr xs"
    by (auto simp: one_bus_entries_def rbind_Inr_iff)
  from rmap_set[OF r, of e] xs(1) obtain cmds where "rmap (idx_get (std_commands std)) cmds = Inr (ce_preceding e)"
    "ce_level e = 0" "ce_following e = sort ids"
    by (auto simp: rbind_Inr_iff)
  with rmap_idx_range[of "std_commands std" cmds] rmap_idx_range[OF ids] assms(3) show ?thesis
    by (simp add: entry_wf_def list_all_iff)
qed

lemma serialize_wf:
  assumes "serialize std od td pw = Inr cfg" and "std_levels std \<noteq> []" and "0 < std_tick_multiplier std"
  shows "config_wf std cfg"
proof -
  let ?td = "scale_timings (std_tick_multiplier std) td"
  let ?count = "\<lambda>name. if lower name \<in> set (dkeys od) then dict_int od (lower name) else Inl (MissingLevel name)"
  obtain cw dq tcs bus counts timing rl where
    v: "\<forall>kv \<in> set td. nonneg_number (snd kv)" and
    f: "list_all (\<lambda>f. \<not> bad_org_field od f) (hierarchy_fields std)" and
    cw: "0 < cw" "cw mod dq = 0" and dq: "dict_int od ''dq'' = Inr dq" and
    tcs: "rmap (constraint_entries std ?td (std_cyc std)) (std_constraints std) = Inr tcs" and
    bus: "bus_entries std (std_cyc std) = Inr bus" and
    counts: "rmap ?count (tl (map fst (std_levels std))) = Inr counts" and
    timing: "rmap (dict_get ?td) (std_timing_params std) = Inr timing" and
    cfg: "cfg = \<lparr>cfg_impl = std_name std, cfg_dq = dq, cfg_count = 1 # counts, cfg_timing = timing,
       cfg_command_cycles = map (cmd_ticks (std_tick_multiplier std) (std_cyc std)) (std_commands std),
       cfg_channel_width = cw, cfg_read_latency = norm_num rl, cfg_constraints = bus @ concat tcs,
       cfg_payload = std_payload std, cfg_power = pw\<rparr>"
    by (rule serialize_Inr_dest[OF assms(1)])
  have "0 < n" if n: "n \<in> set counts" for n
  proof -
    obtain name where name: "name \<in> set (tl (map fst (std_levels std)))" "?count name = Inr n"
      using rmap_set[OF counts, of n] n by blast
    with level_count_ok[OF f name(1)] show ?thesis by auto
  qed
  moreover have "0 < dq"
  proof -
    obtain i where "dget od ''dq'' = Some (PInt i)" "0 < i"
      using f by (auto simp: hierarchy_fields_def not_bad_org_field)
    with dq show ?thesis by (simp add: dict_int_def dict_get_def)
  qed
  moreover have "nonneg_number t" if t: "t \<in> set timing" for t
  proof -
    obtain k where "dget ?td k = Some t"
      using rmap_set[OF timing, of t] t by (auto simp: dict_get_def split: option.splits)
    then have "(k, t) \<in> set ?td" by (rule map_of_SomeD)
    with scale_timings_nonneg[OF assms(3) v] show ?thesis by force
  qed
  moreover have "list_all (entry_wf std) (bus @ concat tcs)"
    using bus_entries_wf[OF bus _ assms(2)] constraint_entries_wf rmap_set[OF tcs]
    by (fastforce simp: list_all_iff)
  moreover have "dq dvd cw" using cw(2) by presburger
  ultimately show ?thesis
    using cw(1) assms(2) rmap_length[OF counts] rmap_length[OF timing]
    by (simp add: cfg config_wf_def list_all_iff)
qed

section \<open>The interface between the DSL and a standard\<close>

text \<open>
  \<open>provided\<close> lists the timings a standard's \<open>resolve_secondary_timings\<close> fills in, so
  \<open>timings_given\<close> says that a preset supplies every other one. \<open>td_ok\<close> and \<open>od_ok\<close>
  are the ranges of rate and density the standard's tables cover.
\<close>

definition timings_given :: "dram_standard \<Rightarrow> string list \<Rightarrow> timings \<Rightarrow> bool" where
  "timings_given std provided td \<longleftrightarrow>
     list_all (\<lambda>kv. 0 \<le> snd kv) td \<and>
     list_all (\<lambda>k. k \<in> set provided \<or> k \<in> set (dkeys td)) (std_timing_params std)"

definition org_ok :: "dram_standard \<Rightarrow> dict \<Rightarrow> bool" where
  "org_ok std od \<longleftrightarrow>
     list_all (\<lambda>f. \<not> bad_org_field od f) (hierarchy_fields std) \<and>
     (case (dget od ''channel_width'', dget od ''dq'') of
        (Some (PInt cw), Some (PInt dq)) \<Rightarrow> cw mod dq = 0 \<and> (std_payload std = None \<longrightarrow> cw AND (cw - 1) = 0)
      | _ \<Rightarrow> False) \<and>
     (case std_payload std of None \<Rightarrow> True | Some p \<Rightarrow> 0 < p)"

lemma org_ok_valid:
  assumes "org_ok std od"
  shows "org_valid std od"
proof -
  have f: "list_all (\<lambda>f. \<not> bad_org_field od f) (hierarchy_fields std)"
    using assms by (simp add: org_ok_def)
  then obtain cw dq where d: "dget od ''channel_width'' = Some (PInt cw)" "0 < cw" "dget od ''dq'' = Some (PInt dq)"
    by (auto simp: hierarchy_fields_def not_bad_org_field)
  have "cw mod dq = 0" "std_payload std = None \<longrightarrow> cw AND (cw - 1) = 0"
    using assms by (simp_all add: org_ok_def d)
  moreover have "\<forall>p. std_payload std = Some p \<longrightarrow> 0 < p"
    using assms by (auto simp: org_ok_def)
  moreover have "dq dvd cw" using \<open>cw mod dq = 0\<close> by presburger
  ultimately show ?thesis
    using f d and_pred_pow2[OF d(2)] by (simp add: org_valid_def)
qed

definition timings_cover :: "dram_standard \<Rightarrow> timings \<Rightarrow> bool" where
  "timings_cover std td \<longleftrightarrow>
     (\<forall>kv \<in> set td. 0 \<le> snd kv) \<and> set (std_timing_params std) \<subseteq> set (dkeys td)"

lemma timings_cover_valid: "timings_cover std td \<Longrightarrow> timings_valid std (int_dict td)"
  by (force simp: timings_cover_def timings_valid_def int_dict_def)

locale dram_class =
  fixes std :: dram_standard and provided :: "string list"
    and td_ok :: "timings \<Rightarrow> bool" and od_ok :: "dict \<Rightarrow> bool"
  assumes wf: "std_wf std"
    and levels: "std_levels std \<noteq> []"
    and uniform: "list_all (uniform_constraint std) (std_constraints std)"
    and valid: "validate_standard std = Inr ()"
    and orgs: "list_all (\<lambda>p. org_ok std (snd p) \<and> od_ok (snd p)) (std_org_presets std)"
    and speeds: "list_all (\<lambda>p. timings_given std provided (snd p) \<and> td_ok (snd p)) (std_timing_presets std)"
    and resolves: "timings_given std provided td \<Longrightarrow> td_ok td \<Longrightarrow> od_ok od \<Longrightarrow>
      \<exists>td'. std_resolve_secondary std td od = Inr td' \<and> timings_cover std td'"
begin

lemma multiplier: "0 < std_tick_multiplier std"
  using wf by (simp add: std_wf_def)

lemma preset_resolves:
  assumes "org \<in> set (dkeys (std_org_presets std))" and "tim \<in> set (dkeys (std_timing_presets std))"
  shows "\<exists>od td. resolve std org tim [] = Inr (od, int_dict td) \<and> org_valid std od \<and> timings_cover std td"
proof -
  obtain od where od: "dget (std_org_presets std) org = Some od"
    using assms(1) dget_in_keys[of org "std_org_presets std"] by auto
  moreover obtain td0 where "dget (std_timing_presets std) tim = Some td0"
    using assms(2) dget_in_keys[of tim "std_timing_presets std"] by auto
  ultimately have p: "dget (std_org_presets std) org = Some od" "dget (std_timing_presets std) tim = Some td0"
    by blast+
  then have m: "(org, od) \<in> set (std_org_presets std)" "(tim, td0) \<in> set (std_timing_presets std)"
    by (blast dest: map_of_SomeD)+
  have o: "org_ok std od" "od_ok od" using orgs m(1) by (auto simp: list_all_iff)
  have t: "timings_given std provided td0" "td_ok td0" using speeds m(2) by (auto simp: list_all_iff)
  obtain td where td: "std_resolve_secondary std td0 od = Inr td" "timings_cover std td"
    using resolves[OF t o(2)] by blast
  have "resolve std org tim [] = Inr (od, int_dict td)"
    using p td(1) by (simp add: resolve_no_overrides)
  with td(2) org_ok_valid[OF o(1)] show ?thesis by blast
qed

lemma preset_config:
  assumes "org \<in> set (dkeys (std_org_presets std))" and "tim \<in> set (dkeys (std_timing_presets std))"
  shows "is_ok (to_config std org tim [] pw)"
proof -
  obtain od td where r: "resolve std org tim [] = Inr (od, int_dict td)"
    and v: "org_valid std od" "timings_cover std td"
    using preset_resolves[OF assms] by blast
  have "is_ok (serialize std od (int_dict td) pw)"
    using serialize_ok[OF wf timings_cover_valid[OF v(2)] v(1)] .
  then show ?thesis by (simp add: to_config_def r)
qed

lemma config_enforces:
  assumes "to_config std org tim ov pw = Inr cfg"
  obtains od td where "resolve std org tim ov = Inr (od, td)" "serialize std od td pw = Inr cfg"
    "config_wf std cfg"
    "\<And>lv p f lat w sib. enforced std (cfg_constraints cfg) lv p f lat w sib \<longleftrightarrow>
       demanded std td lv p f lat w sib \<or> bus_demanded std lv p f lat w sib"
proof -
  obtain od td where r: "resolve std org tim ov = Inr (od, td)" "serialize std od td pw = Inr cfg"
    using assms by (auto simp: to_config_def rbind_Inr_iff)
  show thesis
    by (rule that[OF r serialize_wf[OF r(2) levels multiplier] serialized_exact[OF r(2) uniform]])
qed

end

end
