(* ===== verification/Resolver.thy ===== *)
theory Resolver
  imports Dram_Class
begin

text \<open>
  The vocabulary of the \<open>resolve_secondary_timings\<close> methods: assignments to the timing
  dictionary, rounded divisions that raise \<open>ZeroDivisionError\<close>, and the facts that carry the
  proofs that every standard meets the contract of \<open>dram_class\<close>.

  Python rounds the floating-point quotient of two integers. The quotients here have
  operands far below \<open>2\<^sup>5\<^sup>3\<close>, where the ceiling and the floor of the rounded quotient
  are those of the exact one, so the model uses exact integer division.
\<close>

section \<open>Assignments and rounded divisions\<close>

text \<open>\<open>d[k] = v\<close> and \<open>d.setdefault(k, v)\<close>; the value is computed first, and may raise.\<close>

definition assign :: "string \<Rightarrow> dram_error + int \<Rightarrow> timings \<Rightarrow> dram_error + timings" where
  "assign k v td = rbind v (\<lambda>x. Inr (dset k x td))"

definition assign_default :: "string \<Rightarrow> dram_error + int \<Rightarrow> timings \<Rightarrow> dram_error + timings" where
  "assign_default k v td = rbind v (\<lambda>x. Inr (dsetdefault k x td))"

text \<open>\<open>d[k] = d.get(k, v)\<close>\<close>

definition assign_get :: "string \<Rightarrow> dram_error + int \<Rightarrow> timings \<Rightarrow> dram_error + timings" where
  "assign_get k v td = rbind v (\<lambda>x. Inr (dset k (dgetd td k x) td))"

text \<open>\<open>math.ceil(a / b)\<close>, \<open>math.floor(a / b)\<close>, \<open>round(a / b)\<close> (half to even).\<close>

definition ceil_q :: "int \<Rightarrow> int \<Rightarrow> dram_error + int" where
  "ceil_q a b = (if b = 0 then Inl DramZeroDivision else Inr (ceil_div a b))"

definition floor_q :: "int \<Rightarrow> int \<Rightarrow> dram_error + int" where
  "floor_q a b = (if b = 0 then Inl DramZeroDivision else Inr (a div b))"

definition round_half_even :: "rat \<Rightarrow> int" where
  "round_half_even r =
     (let f = \<lfloor>r\<rfloor>; d = r - of_int f in
      if d < 1 / 2 then f else if 1 / 2 < d then f + 1 else if even f then f else f + 1)"

definition round_q :: "int \<Rightarrow> int \<Rightarrow> dram_error + int" where
  "round_q a b = (if b = 0 then Inl DramZeroDivision else Inr (round_half_even (of_int a / of_int b)))"

text \<open>The arithmetic of two results, evaluated left to right.\<close>

definition rlift2 :: "('a \<Rightarrow> 'b \<Rightarrow> 'c) \<Rightarrow> 'e + 'a \<Rightarrow> 'e + 'b \<Rightarrow> 'e + 'c" where
  "rlift2 f x y = rbind x (\<lambda>a. rbind y (\<lambda>b. Inr (f a b)))"

definition rmax :: "int \<Rightarrow> dram_error + int \<Rightarrow> dram_error + int" where
  "rmax m v = rbind v (\<lambda>x. Inr (max m x))"

text \<open>\<open>org_dict.get(k, d)\<close> where the code computes with the value.\<close>

definition dict_int_default :: "dict \<Rightarrow> string \<Rightarrow> int \<Rightarrow> dram_error + int" where
  "dict_int_default d k v = (case dget d k of None \<Rightarrow> Inr v | Some (PInt i) \<Rightarrow> Inr i | Some _ \<Rightarrow> Inl DramTypeError)"

text \<open>A derived preset: \<open>dict(timings)\<close> with one more entry, computed from \<open>tCK_ps\<close>.\<close>

definition with_timing :: "string \<Rightarrow> (int \<Rightarrow> int) \<Rightarrow> timings \<Rightarrow> timings" where
  "with_timing k f td = dset k (f (dgetd td ''tCK_ps'' 0)) td"

section \<open>Facts for the contract\<close>

named_theorems resolver_simps "evaluation of resolve_secondary_timings"

lemma assign_Inr [resolver_simps]: "assign k (Inr x) td = Inr (dset k x td)"
  by (simp add: assign_def)

lemma assign_default_Inr [resolver_simps]: "assign_default k (Inr x) td = Inr (dsetdefault k x td)"
  by (simp add: assign_default_def)

lemma assign_get_Inr [resolver_simps]: "assign_get k (Inr x) td = Inr (dsetdefault k x td)"
proof (cases "dget td k")
  case None
  then show ?thesis by (simp add: assign_get_def dgetd_def dsetdefault_def)
next
  case (Some v)
  have "dset k v td = td" if "dget td k = Some v"
    using that by (induction td) (auto split: if_splits)
  with Some show ?thesis by (simp add: assign_get_def dgetd_def dsetdefault_def)
qed

lemma ceil_q_pos [resolver_simps]: "0 < b \<Longrightarrow> ceil_q a b = Inr (ceil_div a b)"
  by (simp add: ceil_q_def)

lemma floor_q_pos [resolver_simps]: "0 < b \<Longrightarrow> floor_q a b = Inr (a div b)"
  by (simp add: floor_q_def)

lemma round_q_pos [resolver_simps]: "0 < b \<Longrightarrow> round_q a b = Inr (round_half_even (of_int a / of_int b))"
  by (simp add: round_q_def)

lemma rmax_Inr [resolver_simps]: "rmax m (Inr x) = Inr (max m x)"
  by (simp add: rmax_def)

lemma rlift2_Inr [resolver_simps]: "rlift2 f (Inr a) (Inr b) = Inr (f a b)"
  by (simp add: rlift2_def)

lemma dict_get_Some [resolver_simps]: "dget d k = Some v \<Longrightarrow> dict_get d k = Inr v"
  by (simp add: dict_get_def)

lemma dict_int_Some [resolver_simps]: "dget d k = Some (PInt i) \<Longrightarrow> dict_int d k = Inr i"
  by (simp add: dict_int_def dict_get_def)

lemma round_half_even_nearest: "\<bar>of_int (round_half_even r) - r\<bar> \<le> (1 / 2 :: rat)"
proof -
  have f: "of_int \<lfloor>r\<rfloor> \<le> r" "r < of_int \<lfloor>r\<rfloor> + 1"
    using of_int_floor_le[of r] floor_correct[of r] by auto
  consider "r - of_int \<lfloor>r\<rfloor> < 1 / 2" | "1 / 2 < r - of_int \<lfloor>r\<rfloor>" | "r - of_int \<lfloor>r\<rfloor> = 1 / 2"
    by linarith
  then show ?thesis
    using f by cases (simp_all add: round_half_even_def Let_def abs_le_iff)
qed

lemma round_half_even_nonneg: "0 \<le> r \<Longrightarrow> 0 \<le> round_half_even r"
proof -
  assume "0 \<le> r"
  then have "0 \<le> \<lfloor>r\<rfloor>" by simp
  then show ?thesis by (simp add: round_half_even_def Let_def)
qed

text \<open>Every timing is a number of cycles, and the assignments keep it so.\<close>

definition nonneg_timings :: "timings \<Rightarrow> bool" where
  "nonneg_timings td \<longleftrightarrow> (\<forall>kv \<in> set td. 0 \<le> snd kv)"

lemma set_dset: "set (dset k v d) \<subseteq> insert (k, v) (set d)"
  by (induction d) auto

lemma nonneg_dset [simp]: "nonneg_timings td \<Longrightarrow> 0 \<le> v \<Longrightarrow> nonneg_timings (dset k v td)"
  using set_dset[of k v td] by (auto simp: nonneg_timings_def)

lemma nonneg_dsetdefault [simp]: "nonneg_timings td \<Longrightarrow> 0 \<le> v \<Longrightarrow> nonneg_timings (dsetdefault k v td)"
  by (simp add: dsetdefault_def split: option.splits)

lemma nonneg_dget: "nonneg_timings td \<Longrightarrow> dget td k = Some v \<Longrightarrow> 0 \<le> v"
  using map_of_SomeD[of td k v] by (auto simp: nonneg_timings_def)

lemma dkeys_dsetdefault [dict_simps]: "fst ` set (dsetdefault k v d) = insert k (fst ` set d)"
  using dget_Some_in[of d k] by (auto simp: dsetdefault_def dkeys_dset split: option.splits)

lemma timings_coverI:
  "nonneg_timings td \<Longrightarrow> list_all (\<lambda>k. k \<in> fst ` set td) (std_timing_params std) \<Longrightarrow> timings_cover std td"
  by (auto simp: timings_cover_def nonneg_timings_def list_all_iff)

lemma timings_givenD:
  assumes "timings_given std provided td"
  shows "nonneg_timings td" and "list_all (\<lambda>k. k \<in> set provided \<or> k \<in> fst ` set td) (std_timing_params std)"
  using assms by (auto simp: timings_given_def nonneg_timings_def list_all_iff)

lemma cover_provided:
  assumes "timings_given std provided td" and "nonneg_timings td'"
    and "fst ` set td' = set provided \<union> fst ` set td"
  shows "timings_cover std td'"
  using timings_givenD[OF assms(1)] assms(2,3)
  by (auto intro!: timings_coverI simp: list_all_iff)

text \<open>The range of a preset's clock and rate, and of an organisation's integers.\<close>

definition clock_in :: "int \<Rightarrow> timings \<Rightarrow> bool" where
  "clock_in max_rate td \<longleftrightarrow>
     0 < dgetd td ''tCK_ps'' 0 \<and> 0 < dgetd td ''rate'' 0 \<and> dgetd td ''rate'' 0 \<le> max_rate"

lemma clock_inD:
  assumes "clock_in m td"
  obtains t r where "dget td ''tCK_ps'' = Some t" "0 < t" "dget td ''rate'' = Some r" "0 < r" "r \<le> m"
  using assms by (auto simp: clock_in_def dgetd_def split: option.splits)

definition pos_timings :: "string list \<Rightarrow> timings \<Rightarrow> bool" where
  "pos_timings ks td \<longleftrightarrow> list_all (\<lambda>k. 0 < dgetd td k 0) ks"

lemma pos_timingsD: "pos_timings ks td \<Longrightarrow> k \<in> set ks \<Longrightarrow> \<exists>v. dget td k = Some v \<and> 0 < v"
  by (auto simp: pos_timings_def list_all_iff dgetd_def split: option.splits)

definition org_int :: "int \<Rightarrow> dict \<Rightarrow> string \<Rightarrow> bool" where
  "org_int m od k \<longleftrightarrow> (case dget od k of Some (PInt i) \<Rightarrow> 0 < i \<and> i \<le> m | _ \<Rightarrow> False)"

lemma org_intD: "org_int m od k \<Longrightarrow> \<exists>i. dget od k = Some (PInt i) \<and> 0 < i \<and> i \<le> m"
  by (auto simp: org_int_def split: option.splits pyval.splits)

text \<open>
  Following a resolver through its assignments: \<open>yields v\<close>, the value is computed and not
  negative; \<open>timings_at t F K td\<close>, the dictionary is not negative, has the keys \<open>K\<close> and
  still the clock \<open>t\<close>.
\<close>

definition yields :: "dram_error + int \<Rightarrow> bool" where
  "yields v \<longleftrightarrow> (\<exists>x. v = Inr x \<and> 0 \<le> x)"

definition timings_at :: "int \<Rightarrow> timings \<Rightarrow> string set \<Rightarrow> timings \<Rightarrow> bool" where
  "timings_at t F K td \<longleftrightarrow> nonneg_timings td \<and> K \<subseteq> fst ` set td \<and> dget td ''tCK_ps'' = Some t \<and> 0 < t \<and>
     (\<forall>(k, v) \<in> set F. dget td k = Some v)"

lemma yields_Inr: "0 \<le> x \<Longrightarrow> yields (Inr x)"
  by (simp add: yields_def)

lemma yields_bind: "yields v \<Longrightarrow> (\<And>x. 0 \<le> x \<Longrightarrow> yields (f x)) \<Longrightarrow> yields (rbind v f)"
  by (auto simp: yields_def)

lemma yields_get: "timings_at t F K td \<Longrightarrow> k \<in> K \<Longrightarrow> yields (dict_get td k)"
  using dget_in_keys[of k td] nonneg_dget[of td k]
  by (auto simp: timings_at_def yields_def dict_get_def subset_iff)

lemma yields_clock: "timings_at t F K td \<Longrightarrow> yields (f t) \<Longrightarrow> yields (rbind (dict_get td ''tCK_ps'') f)"
  by (simp add: timings_at_def dict_get_def)

lemma yields_int: "dget od k = Some (PInt i) \<Longrightarrow> yields (f i) \<Longrightarrow> yields (rbind (dict_int od k) f)"
  by (simp add: dict_int_def dict_get_def)

lemma yields_int_default:
  "dget od k = Some (PInt i) \<Longrightarrow> yields (f i) \<Longrightarrow> yields (rbind (dict_int_default od k v) f)"
  by (simp add: dict_int_default_def)

lemma yields_ceil: "0 \<le> a \<Longrightarrow> 0 < b \<Longrightarrow> yields (ceil_q a b)"
  by (simp add: yields_def ceil_q_pos ceil_div_nonneg)

lemma yields_floor: "0 \<le> a \<Longrightarrow> 0 < b \<Longrightarrow> yields (floor_q a b)"
  by (simp add: yields_def floor_q_pos pos_imp_zdiv_nonneg_iff)

lemma yields_round: "0 \<le> a \<Longrightarrow> 0 < b \<Longrightarrow> yields (round_q a b)"
  by (simp add: yields_def round_q_pos round_half_even_nonneg)

lemma yields_max: "yields v \<Longrightarrow> yields (rmax m v)"
  by (auto simp: yields_def rmax_def max_def)

lemma timings_at_dset:
  assumes "timings_at t F K td" and "k \<notin> set (''tCK_ps'' # map fst F)" and "0 \<le> x"
  shows "timings_at t F (insert k K) (dset k x td)"
proof -
  have "dget (dset k x td) k' = Some v" if "(k', v) \<in> set F" for k' v
    using that assms(1,2) by (force simp: timings_at_def dict_simps)
  then show ?thesis using assms by (auto simp: timings_at_def dict_simps)
qed

lemma timings_at_dsetdefault:
  assumes "timings_at t F K td" and "0 \<le> x"
  shows "timings_at t F (insert k K) (dsetdefault k x td)"
proof -
  have "dget (dsetdefault k x td) k' = Some v" if "(k', v) \<in> set F" for k' v
    using that assms(1) by (force simp: timings_at_def dict_simps)
  then show ?thesis using assms by (auto simp: timings_at_def dict_simps)
qed

lemma assign_step:
  assumes "timings_at t F K td" and "k \<notin> set (''tCK_ps'' # map fst F)" and "yields v"
    and "\<And>td'. timings_at t F (insert k K) td' \<Longrightarrow> \<exists>r. f td' = Inr r \<and> P r"
  shows "\<exists>r. rbind (assign k v td) f = Inr r \<and> P r"
  using assms(3) assms(4)[OF timings_at_dset[OF assms(1,2)]] by (auto simp: yields_def assign_Inr)

lemma default_step:
  assumes "timings_at t F K td" and "yields v"
    and "\<And>td'. timings_at t F (insert k K) td' \<Longrightarrow> \<exists>r. f td' = Inr r \<and> P r"
  shows "\<exists>r. rbind (assign_default k v td) f = Inr r \<and> P r"
  using assms(2) assms(3)[OF timings_at_dsetdefault[OF assms(1)]]
  by (auto simp: yields_def assign_default_Inr)

lemma get_step:
  assumes "timings_at t F K td" and "yields v"
    and "\<And>td'. timings_at t F (insert k K) td' \<Longrightarrow> \<exists>r. f td' = Inr r \<and> P r"
  shows "\<exists>r. rbind (assign_get k v td) f = Inr r \<and> P r"
  using assms(2) assms(3)[OF timings_at_dsetdefault[OF assms(1)]]
  by (auto simp: yields_def assign_get_Inr)

lemma value_step:
  assumes "yields v" and "\<And>x. 0 \<le> x \<Longrightarrow> \<exists>r. f x = Inr r \<and> P r"
  shows "\<exists>r. rbind v f = Inr r \<and> P r"
  using assms by (auto simp: yields_def)

text \<open>An entry that is there keeps its value, whatever the default comes to.\<close>

lemma present_step:
  assumes "timings_at t F K td" and "k \<in> K" and "\<exists>x. v = Inr x"
    and "\<And>td'. timings_at t F K td' \<Longrightarrow> \<exists>r. f td' = Inr r \<and> P r"
  shows "\<exists>r. rbind (assign_get k v td) f = Inr r \<and> P r"
proof -
  obtain x where "v = Inr x" using assms(3) by blast
  moreover obtain w where "dget td k = Some w"
    using assms(1,2) dget_in_keys[of k td] by (auto simp: timings_at_def)
  ultimately show ?thesis using assms(4)[OF assms(1)] by (simp add: assign_get_Inr dsetdefault_def)
qed

lemma runs_bind: "yields v \<Longrightarrow> (\<And>x. \<exists>y. f x = Inr y) \<Longrightarrow> \<exists>y. rbind v f = Inr y"
  by (auto simp: yields_def)

lemma runs_Inr: "\<exists>y. Inr x = Inr y"
  by simp

lemma timings_at_value: "timings_at t F K td \<Longrightarrow> (k, v) \<in> set F \<Longrightarrow> dict_get td k = Inr v"
  by (auto simp: timings_at_def dict_get_def)

lemma final_step:
  assumes "timings_at t F K td" and "list_all (\<lambda>k. k \<in> K) (std_timing_params std)"
  shows "\<exists>r. Inr td = Inr r \<and> timings_cover std r"
  using assms by (auto simp: timings_at_def nonneg_timings_def timings_cover_def list_all_iff)

lemma timings_at_keys: "timings_at t F K td \<Longrightarrow> K' \<subseteq> K \<Longrightarrow> timings_at t F K' td"
  by (auto simp: timings_at_def)

lemmas resolver_steps = assign_step default_step get_step
lemmas yields_intros = yields_ceil yields_floor yields_round yields_max yields_clock yields_int yields_bind yields_get
  yields_Inr

lemma timings_at_start:
  assumes "timings_given std provided td" and "dget td ''tCK_ps'' = Some t" and "0 < t"
    and "\<forall>(k, v) \<in> set F. dget td k = Some v"
  shows "timings_at t F (set (filter (\<lambda>k. k \<notin> set provided) (std_timing_params std))) td"
  using timings_givenD[OF assms(1)] assms(2-4) by (auto simp: timings_at_def list_all_iff)

section \<open>Checking a standard\<close>

text \<open>The structural conditions of \<open>dram_class\<close>, one by one.\<close>

lemma closed_expr_eval_names:
  "closed_expr std s \<longleftrightarrow>
    (case parse_expr s of Inl _ \<Rightarrow> False
     | Inr e \<Rightarrow> list_all (\<lambda>x. x \<in> set (std_timing_params std)) (lexpr_names e))"
  by (cases "parse_expr s") (simp_all add: closed_expr_def expr_names_def)

definition head_ok :: "dram_standard \<Rightarrow> bool" where
  "head_ok std \<longleftrightarrow>
     std_levels std \<noteq> [] \<and> list_all (\<lambda>lv. snd lv \<in> set (std_states std)) (std_levels std) \<and>
     take 2 (map fst (std_supported_requests std)) = [''Read'', ''Write''] \<and>
     list_all (\<lambda>rq. snd rq \<in> set (std_commands std)) (std_supported_requests std)"

lemma validate_standard_wf:
  assumes "std_wf std" and "head_ok std"
  shows "validate_standard std = Inr ()"
proof -
  have "validate_constraint std tc = Inr ()" if "tc \<in> set (std_constraints std)" for tc
  proof -
    have "constraint_wf std tc" using assms(1) that by (simp add: std_wf_def list_all_iff)
    then have "tc_level tc \<in> set (map fst (std_levels std))"
      "find (\<lambda>c. c \<notin> set (std_commands std)) (tc_preceding tc @ tc_following tc) = None"
      by (auto simp: constraint_wf_def list_all_iff find_None_iff)
    then show ?thesis by (simp add: validate_constraint_def)
  qed
  then have "rmap (validate_constraint std) (std_constraints std) = Inr (map (\<lambda>_. ()) (std_constraints std))"
    by (intro rmap_ok) simp
  moreover have "rmap (validate_level std) (std_levels std) = Inr (map (\<lambda>_. ()) (std_levels std))"
    using assms(2) by (intro rmap_ok) (simp add: head_ok_def list_all_iff validate_level_def)
  moreover have "rmap (validate_request std) (std_supported_requests std) = Inr (map (\<lambda>_. ()) (std_supported_requests std))"
    using assms(2) by (intro rmap_ok) (simp add: head_ok_def list_all_iff validate_request_def)
  ultimately show ?thesis
    using assms(2) by (simp add: validate_standard_def head_ok_def)
qed

text \<open>A standard without command cycles has one tick count for every command.\<close>

lemma uniform_plain: "std_command_cycles std = [] \<Longrightarrow> uniform_constraint std tc"
  by (simp add: uniform_constraint_def ticks_of_def cmd_ticks_def dgetd_def scale_cycles_def list_all_iff)

lemma uniform_all_plain: "std_command_cycles std = [] \<Longrightarrow> list_all (uniform_constraint std) tcs"
  using uniform_plain by (simp add: list_all_iff)

text \<open>
  First-order checkers over the fields: what the kernel evaluates for the tables of a
  standard, and the structural conditions they establish.
\<close>

definition expr_check :: "string list \<Rightarrow> string \<Rightarrow> bool" where
  "expr_check params s = (case parse_expr s of Inl _ \<Rightarrow> False
     | Inr e \<Rightarrow> list_all (\<lambda>x. x \<in> set params) (lexpr_names e))"

fun constraints_check :: "string list \<Rightarrow> string list \<Rightarrow> string list \<Rightarrow> timing_constraint list \<Rightarrow> bool" where
  "constraints_check ls cs ps [] = True"
| "constraints_check ls cs ps (tc # tcs) =
     (tc_level tc \<in> set ls \<and> list_all (\<lambda>c. c \<in> set cs) (tc_preceding tc) \<and>
      list_all (\<lambda>c. c \<in> set cs) (tc_following tc) \<and> expr_check ps (tc_latency tc) \<and>
      constraints_check ls cs ps tcs)"

fun same_ticks :: "int \<Rightarrow> (string \<times> int) list \<Rightarrow> int \<Rightarrow> string list \<Rightarrow> bool" where
  "same_ticks m cyc n [] = True"
| "same_ticks m cyc n (c # cs) = (cmd_ticks m cyc c = n \<and> same_ticks m cyc n cs)"

fun uniform_names :: "int \<Rightarrow> (string \<times> int) list \<Rightarrow> string list \<Rightarrow> bool" where
  "uniform_names m cyc [] = True"
| "uniform_names m cyc (c # cs) = same_ticks m cyc (cmd_ticks m cyc c) cs"

fun uniform_check :: "int \<Rightarrow> (string \<times> int) list \<Rightarrow> timing_constraint list \<Rightarrow> bool" where
  "uniform_check m cyc [] = True"
| "uniform_check m cyc (tc # tcs) =
     ((uniform_names m cyc (tc_preceding tc) \<or> uniform_names m cyc (tc_following tc)) \<and>
      uniform_check m cyc tcs)"

fun positive_fields :: "string list \<Rightarrow> dict \<Rightarrow> bool" where
  "positive_fields [] od = True"
| "positive_fields (f # fs) od = (\<not> bad_org_field od f \<and> positive_fields fs od)"

fun org_within :: "(string \<times> int) list \<Rightarrow> dict \<Rightarrow> bool" where
  "org_within [] od = True"
| "org_within ((k, m) # rs) od = (org_int m od k \<and> org_within rs od)"

fun orgs_check :: "string list \<Rightarrow> int option \<Rightarrow> (string \<times> int) list \<Rightarrow> (string \<times> dict) list \<Rightarrow> bool" where
  "orgs_check fs payload ranges [] = True"
| "orgs_check fs payload ranges ((name, od) # ps) =
     (positive_fields fs od \<and>
      (case (dget od ''channel_width'', dget od ''dq'') of
        (Some (PInt cw), Some (PInt dq)) \<Rightarrow> cw mod dq = 0 \<and> (payload = None \<longrightarrow> cw AND (cw - 1) = 0)
      | _ \<Rightarrow> False) \<and>
      org_within ranges od \<and> orgs_check fs payload ranges ps)"

fun nonneg_check :: "timings \<Rightarrow> bool" where
  "nonneg_check [] = True"
| "nonneg_check ((k, v) # td) = (0 \<le> v \<and> nonneg_check td)"

fun keys_check :: "string list \<Rightarrow> timings \<Rightarrow> bool" where
  "keys_check [] td = True"
| "keys_check (k # ks) td = (dget td k \<noteq> None \<and> keys_check ks td)"

fun speeds_check :: "string list \<Rightarrow> (string \<times> timings) list \<Rightarrow> bool" where
  "speeds_check ks [] = True"
| "speeds_check ks ((name, td) # ps) = (nonneg_check td \<and> keys_check ks td \<and> speeds_check ks ps)"

lemma constraints_check_wf:
  "constraints_check (map fst (std_levels std)) (std_commands std) (std_timing_params std) tcs \<Longrightarrow>
    list_all (constraint_wf std) tcs"
  by (induction tcs) (simp_all add: constraint_wf_def closed_expr_eval_names expr_check_def)

lemma same_ticks_iff: "same_ticks m cyc n cs \<longleftrightarrow> list_all (\<lambda>c. cmd_ticks m cyc c = n) cs"
  by (induction cs) simp_all

lemma uniform_names_iff:
  "uniform_names (std_tick_multiplier std) (std_cyc std) cs \<longleftrightarrow>
    list_all (\<lambda>c. ticks_of std c = ticks_of std (hd cs)) cs"
  by (cases cs) (simp_all add: same_ticks_iff ticks_of_def)

lemma uniform_check_all:
  "uniform_check (std_tick_multiplier std) (std_cyc std) tcs \<Longrightarrow> list_all (uniform_constraint std) tcs"
  by (induction tcs) (auto simp: uniform_constraint_def uniform_names_iff)

lemma positive_fields_iff: "positive_fields fs od \<longleftrightarrow> list_all (\<lambda>f. \<not> bad_org_field od f) fs"
  by (induction fs) simp_all

lemma org_within_iff: "org_within rs od \<longleftrightarrow> list_all (\<lambda>(k, m). org_int m od k) rs"
  by (induction rs) auto

lemma orgs_check_all:
  assumes "orgs_check (hierarchy_fields std) (std_payload std) ranges ps"
    and "case std_payload std of None \<Rightarrow> True | Some p \<Rightarrow> 0 < p"
  shows "list_all (\<lambda>p. org_ok std (snd p) \<and> org_within ranges (snd p)) ps"
  using assms
proof (induction ps)
  case (Cons p ps)
  obtain name od where p: "p = (name, od)" by (cases p)
  from Cons.prems(1) have "orgs_check (hierarchy_fields std) (std_payload std) ranges ps"
    unfolding p by simp
  moreover from Cons.prems have "org_ok std od" "org_within ranges od"
    unfolding p by (simp_all add: org_ok_def positive_fields_iff)
  ultimately show ?case using Cons.IH Cons.prems(2) by (simp add: p)
qed simp

lemma nonneg_check_iff: "nonneg_check td \<longleftrightarrow> list_all (\<lambda>kv. 0 \<le> snd kv) td"
  by (induction td) auto

lemma keys_check_iff: "keys_check ks td \<longleftrightarrow> list_all (\<lambda>k. k \<in> fst ` set td) ks"
  by (induction ks) (simp_all add: dget_None_iff)

lemma speeds_check_all:
  assumes "speeds_check (filter (\<lambda>k. k \<notin> set provided) (std_timing_params std)) ps"
  shows "list_all (\<lambda>p. timings_given std provided (snd p)) ps"
  using assms
proof (induction ps)
  case (Cons p ps)
  have "timings_given std provided (snd p)"
    using Cons.prems by (cases p) (auto simp: timings_given_def nonneg_check_iff keys_check_iff list_all_iff)
  moreover have "speeds_check (filter (\<lambda>k. k \<notin> set provided) (std_timing_params std)) ps"
    using Cons.prems by (cases p) simp
  ultimately show ?case using Cons.IH by simp
qed simp

lemma std_wf_check:
  assumes "0 < std_tick_multiplier std"
    and "constraints_check (map fst (std_levels std)) (std_commands std) (std_timing_params std) (std_constraints std)"
    and "expr_check (std_timing_params std) (std_read_latency std)"
    and "list_all (\<lambda>c. c \<in> set (std_commands std)) (std_row_commands std @ std_column_commands std)"
  shows "std_wf std"
  using assms constraints_check_wf[OF assms(2)]
  by (simp add: std_wf_def closed_expr_eval_names expr_check_def)

text \<open>The contract from the checks: \<open>td_ok\<close> and the ranges are what a resolver asks for.\<close>

lemma dram_class_check:
  assumes "std_wf std" and "head_ok std"
    and "uniform_check (std_tick_multiplier std) (std_cyc std) (std_constraints std)"
    and "orgs_check (hierarchy_fields std) (std_payload std) ranges (std_org_presets std)"
    and "case std_payload std of None \<Rightarrow> True | Some p \<Rightarrow> 0 < p"
    and "speeds_check (filter (\<lambda>k. k \<notin> set provided) (std_timing_params std)) (std_timing_presets std)"
    and "list_all (\<lambda>p. td_ok (snd p)) (std_timing_presets std)"
    and "\<And>td od. timings_given std provided td \<Longrightarrow> td_ok td \<Longrightarrow> org_within ranges od \<Longrightarrow>
      \<exists>td'. std_resolve_secondary std td od = Inr td' \<and> timings_cover std td'"
  shows "dram_class std provided td_ok (org_within ranges)"
proof
  show "std_levels std \<noteq> []" using assms(2) by (simp add: head_ok_def)
  show "list_all (\<lambda>p. timings_given std provided (snd p) \<and> td_ok (snd p)) (std_timing_presets std)"
    using speeds_check_all[OF assms(6)] assms(7) by (simp add: list_all_iff)
qed (fact assms validate_standard_wf[OF assms(1,2)] uniform_check_all[OF assms(3)] orgs_check_all[OF assms(4,5)])+

text \<open>The same for organisations that a resolver restricts in another way.\<close>

lemma dram_class_check_orgs:
  assumes "std_wf std" and "head_ok std"
    and "uniform_check (std_tick_multiplier std) (std_cyc std) (std_constraints std)"
    and "orgs_check (hierarchy_fields std) (std_payload std) [] (std_org_presets std)"
    and "case std_payload std of None \<Rightarrow> True | Some p \<Rightarrow> 0 < p"
    and "list_all (\<lambda>p. od_ok (snd p)) (std_org_presets std)"
    and "speeds_check (filter (\<lambda>k. k \<notin> set provided) (std_timing_params std)) (std_timing_presets std)"
    and "list_all (\<lambda>p. td_ok (snd p)) (std_timing_presets std)"
    and "\<And>td od. timings_given std provided td \<Longrightarrow> td_ok td \<Longrightarrow> od_ok od \<Longrightarrow>
      \<exists>td'. std_resolve_secondary std td od = Inr td' \<and> timings_cover std td'"
  shows "dram_class std provided td_ok od_ok"
proof
  show "std_levels std \<noteq> []" using assms(2) by (simp add: head_ok_def)
  show "list_all (\<lambda>p. org_ok std (snd p) \<and> od_ok (snd p)) (std_org_presets std)"
    using orgs_check_all[OF assms(4,5)] assms(6) by (simp add: list_all_iff)
  show "list_all (\<lambda>p. timings_given std provided (snd p) \<and> td_ok (snd p)) (std_timing_presets std)"
    using speeds_check_all[OF assms(7)] assms(8) by (simp add: list_all_iff)
qed (fact assms validate_standard_wf[OF assms(1,2)] uniform_check_all[OF assms(3)])+

end
