(* ===== verification/Dram_Properties.thy ===== *)
theory Dram_Properties
  imports Resolver
begin

text \<open>
  The properties of the DSL of \<open>dram/spec.py\<close> that hold for every standard: which inputs
  \<open>resolve\<close> and \<open>to_config\<close> accept, what the resolved values are, what the emitted
  constraints enforce, the meaning of latency expressions, tick scaling and request ids. The
  standard \<open>demo_standard\<close> is a small one on which witnesses evaluate.
\<close>

section \<open>A small standard for witnesses\<close>

text \<open>
  Two commands of one and of two cycles, one constraint between all of them: the pairs of one
  constraint then ask for three different distances.
\<close>

definition demo_standard :: dram_standard where
  "demo_standard = DRAMStandard
     \<lparr>std_name := ''Demo'',
      std_levels := [(''Channel'', ''N/A''), (''Bank'', ''Closed'')],
      std_commands := [''RD'', ''WR''],
      std_states := [''N/A'', ''Closed''],
      std_timing_params := [''nCL'', ''nBL''],
      std_supported_requests := [(''Read'', ''RD''), (''Write'', ''WR'')],
      std_constraints := [TC ''Bank'' [''RD'', ''WR''] [''RD'', ''WR''] ''nCL + nBL''],
      std_command_cycles := [(''WR'', 2)],
      std_org_presets := [(''Demo_org'', [(''dq'', PInt 8), (''channel_width'', PInt 64), (''bank'', PInt 4)])],
      std_timing_presets := [(''Demo_speed'', [(''nCL'', 5), (''nBL'', 4)])]\<rparr>"

lemma demo_fields [simp]:
  "std_name demo_standard = ''Demo''" "std_levels demo_standard = [(''Channel'', ''N/A''), (''Bank'', ''Closed'')]"
  "std_commands demo_standard = [''RD'', ''WR'']" "std_timing_params demo_standard = [''nCL'', ''nBL'']"
  "std_states demo_standard = [''N/A'', ''Closed'']"
  "std_supported_requests demo_standard = [(''Read'', ''RD''), (''Write'', ''WR'')]"
  "std_constraints demo_standard = [TC ''Bank'' [''RD'', ''WR''] [''RD'', ''WR''] ''nCL + nBL'']"
  "std_command_cycles demo_standard = [(''WR'', 2)]" "std_tick_multiplier demo_standard = 1"
  "std_payload demo_standard = None" "std_read_latency demo_standard = ''nCL + nBL''"
  "std_row_commands demo_standard = []" "std_column_commands demo_standard = []"
  "std_org_presets demo_standard = [(''Demo_org'', [(''dq'', PInt 8), (''channel_width'', PInt 64), (''bank'', PInt 4)])]"
  "std_timing_presets demo_standard = [(''Demo_speed'', [(''nCL'', 5), (''nBL'', 4)])]"
  "std_resolve_secondary demo_standard = (\<lambda>td od. Inr td)"
  by (simp_all add: demo_standard_def DRAMStandard_def)

definition demo_od :: dict where
  "demo_od = [(''dq'', PInt 8), (''channel_width'', PInt 64), (''bank'', PInt 4)]"

definition demo_td :: dict where
  "demo_td = [(''nCL'', PInt 5), (''nBL'', PInt 4)]"

lemma demo_parse: "parse_expr ''nCL + nBL'' = Inr (Plus (Atom (AName ''nCL'')) (AName ''nBL''))"
  by code_simp

lemma demo_eval: "eval_latency ''nCL + nBL'' demo_td = Inr 9"
  by code_simp

lemma demo_wf: "std_wf demo_standard"
  by (simp add: std_wf_def constraint_wf_def TC_def closed_expr_def demo_parse expr_names_def)

lemma demo_timings_valid: "timings_valid demo_standard demo_td"
  by (simp add: timings_valid_def demo_td_def)

lemma demo_org_valid: "org_valid demo_standard demo_od"
  by (rule org_ok_valid) code_simp

lemma demo_ticks: "ticks_of demo_standard ''RD'' = 1" "ticks_of demo_standard ''WR'' = 2"
  by code_simp+


lemma demo_serialize: "\<exists>cfg. serialize demo_standard demo_od demo_td None = Inr cfg"
  using serialize_ok[OF demo_wf demo_timings_valid demo_org_valid] by (simp add: is_ok_iff)

section \<open>What is accepted\<close>

text \<open>
  C3: \<open>to_config\<close> of a well-formed standard accepts resolved values exactly when every
  timing is a non-negative number, every timing parameter is present, every organisation field
  is a positive integer, the channel is a whole number of devices wide and, without an explicit
  payload, a power of two.
\<close>

theorem serialize_accepts_iff:
  assumes "std_wf std"
  shows "is_ok (serialize std od td pw) \<longleftrightarrow>
    (\<forall>kv \<in> set td. nonneg_number (snd kv)) \<and> set (std_timing_params std) \<subseteq> set (dkeys td) \<and>
    (\<forall>f \<in> set (hierarchy_fields std). \<exists>i. dget od f = Some (PInt i) \<and> 0 < i) \<and>
    (\<exists>cw dq. dget od ''channel_width'' = Some (PInt cw) \<and> dget od ''dq'' = Some (PInt dq) \<and> dq dvd cw \<and>
       (std_payload std = None \<longrightarrow> (\<exists>k. cw = 2 ^ k))) \<and>
    (\<forall>p. std_payload std = Some p \<longrightarrow> 0 < p)"
  unfolding serialize_ok_cond[OF assms] timings_valid_def org_valid_def list_all_iff not_bad_org_field
  by auto

theorem serialize_accepts_iff_witness:
  "is_ok (serialize demo_standard demo_od demo_td None)"
proof (subst serialize_accepts_iff[OF demo_wf], intro conjI)
  show "\<forall>f \<in> set (hierarchy_fields demo_standard). \<exists>i. dget demo_od f = Some (PInt i) \<and> 0 < i"
    using demo_org_valid by (simp add: org_valid_def list_all_iff not_bad_org_field)
  show "\<exists>cw dq. dget demo_od ''channel_width'' = Some (PInt cw) \<and> dget demo_od ''dq'' = Some (PInt dq) \<and>
      dq dvd cw \<and> (std_payload demo_standard = None \<longrightarrow> (\<exists>k. cw = 2 ^ k))"
    using demo_org_valid by (simp add: org_valid_def)
qed (auto simp: demo_td_def)

text \<open>
  C7: \<open>resolve\<close> accepts exactly the known preset names, overrides without \<open>channel\<close>,
  and override names that are an organisation field of the standard or a timing of the resolved
  preset; the secondary timings must resolve on the overridden organisation.
\<close>

theorem resolve_accepts_iff:
  "is_ok (resolve std org tim ov) \<longleftrightarrow>
    (\<exists>od0 td0 td1.
       dget (std_org_presets std) org = Some od0 \<and> dget (std_timing_presets std) tim = Some td0 \<and>
       ''channel'' \<notin> set (dkeys ov) \<and>
       std_resolve_secondary std td0 (dupdate od0 (filter (\<lambda>kv. fst kv \<in> set (org_names std)) ov)) = Inr td1 \<and>
       set (dkeys ov) \<subseteq> set (org_names std) \<union> set (dkeys td1))"
proof -
  have keys: "set (dkeys (filter (\<lambda>kv. fst kv \<notin> A) ov)) \<subseteq> B \<longleftrightarrow> set (dkeys ov) \<subseteq> A \<union> B" for A B
    by auto
  show ?thesis
    unfolding is_ok_iff split_paired_Ex resolve_Inr_iff keys dkeys_int_dict by blast
qed

text \<open>
  C8: the resolved values. An organisation field is the override, else the preset's value; a
  timing is the override, else what \<open>resolve_secondary_timings\<close> computed from the preset
  and the overridden organisation, so that an override of a derived timing wins and an override
  of the organisation changes the derived ones.
\<close>

theorem resolve_values:
  assumes "resolve std org tim ov = Inr (od, td)" and "distinct (dkeys ov)"
  shows "\<exists>od0 td0 td1. dget (std_org_presets std) org = Some od0 \<and> dget (std_timing_presets std) tim = Some td0 \<and>
    std_resolve_secondary std td0 od = Inr td1 \<and>
    (\<forall>k. dget od k = (if k \<in> set (org_names std) \<and> k \<in> set (dkeys ov) then dget ov k else dget od0 k)) \<and>
    (\<forall>k. dget td k = (if k \<notin> set (org_names std) \<and> k \<in> set (dkeys ov) then dget ov k
                       else map_option PInt (dget td1 k)))"
proof -
  obtain od0 td0 td1 where r: "dget (std_org_presets std) org = Some od0" "dget (std_timing_presets std) tim = Some td0"
    "od = dupdate od0 (filter (\<lambda>kv. fst kv \<in> set (org_names std)) ov)" "std_resolve_secondary std td0 od = Inr td1"
    "td = dupdate (int_dict td1) (filter (\<lambda>kv. fst kv \<notin> set (org_names std)) ov)"
    using assms(1) by (auto simp: resolve_Inr_iff)
  have d: "distinct (dkeys (filter P ov))" for P
    using assms(2) by (rule distinct_map_filter)
  have "dget od k = (if k \<in> set (org_names std) \<and> k \<in> set (dkeys ov) then dget ov k else dget od0 k)" for k
    using dget_None_iff[of ov k] map_of_filter_key[of "\<lambda>k. k \<in> set (org_names std)" ov k]
    by (cases "dget ov k") (simp_all add: r(3) dget_dupdate[OF d])
  moreover have "dget td k = (if k \<notin> set (org_names std) \<and> k \<in> set (dkeys ov) then dget ov k
      else map_option PInt (dget td1 k))" for k
    using dget_None_iff[of ov k] map_of_filter_key[of "\<lambda>k. k \<notin> set (org_names std)" ov k]
    by (cases "dget ov k") (simp_all add: r(5) dget_dupdate[OF d] dget_int_dict)
  ultimately show ?thesis using r by blast
qed

theorem resolve_values_witness:
  "\<exists>od td. resolve demo_standard ''Demo_org'' ''Demo_speed'' [(''nBL'', PInt 8), (''bank'', PInt 2)] = Inr (od, td) \<and>
    dget td ''nBL'' = Some (PInt 8) \<and> dget td ''nCL'' = Some (PInt 5) \<and> dget od ''bank'' = Some (PInt 2)"
proof -
  let ?ov = "[(''nBL'', PInt 8), (''bank'', PInt 2)]"
  have "is_ok (resolve demo_standard ''Demo_org'' ''Demo_speed'' ?ov)" by code_simp
  then obtain od td where r: "resolve demo_standard ''Demo_org'' ''Demo_speed'' ?ov = Inr (od, td)"
    by (auto simp: is_ok_iff)
  have names: "''nBL'' \<notin> set (org_names demo_standard)" "''nCL'' \<notin> set (org_names demo_standard)"
    "''bank'' \<in> set (org_names demo_standard)"
    by (code_simp, code_simp, code_simp)
  have "dget td ''nBL'' = Some (PInt 8) \<and> dget td ''nCL'' = Some (PInt 5) \<and> dget od ''bank'' = Some (PInt 2)"
    using resolve_values[OF r] names by auto
  with r show ?thesis by blast
qed

text \<open>
  Once the organisation fields are checked, the later check that every level of the
  hierarchy has a count cannot fail: \<open>to_config\<close> never reports a missing level.
\<close>

theorem missing_level_unreachable: "serialize std od td pw \<noteq> Inl (MissingLevel name)"
proof
  assume a: "serialize std od td pw = Inl (MissingLevel name)"
  have e: "eval_latency s t \<noteq> Inl (MissingLevel name)" for s t
    by (simp add: eval_latency_def split: sum.splits)
  have g: "idx_get xs x \<noteq> Inl (MissingLevel name)" for xs x
    by (simp add: idx_get_def split: option.splits)
  have k: "dict_get (d :: dict) x \<noteq> Inl (MissingLevel name)" for d x
    by (simp add: dict_get_def split: option.splits)
  have i: "dict_int d x \<noteq> Inl (MissingLevel name)" for d x
    using k[of d x] by (auto simp: dict_int_def rbind_Inl_iff split: pyval.splits)
  have p: "adjusted_pair std cyc n pf \<noteq> Inl (MissingLevel name)" for cyc n pf
    using g by (auto simp: adjusted_pair_def Let_def rbind_Inl_iff)
  have c: "constraint_entries std t cyc tc \<noteq> Inl (MissingLevel name)" for t cyc tc
    using e g p by (auto simp: constraint_entries_def rbind_Inl_iff dest!: rmap_Inl)
  have o: "one_bus_entries std cyc bus \<noteq> Inl (MissingLevel name)" for cyc bus
    using g by (auto simp: one_bus_entries_def rbind_Inl_iff dest!: rmap_Inl)
  have b: "bus_entries std cyc \<noteq> Inl (MissingLevel name)" for cyc
    using o by (auto simp: bus_entries_def rbind_Inl_iff dest!: rmap_Inl)
  have f: "list_all (\<lambda>f. \<not> bad_org_field od f) (hierarchy_fields std)"
    using a by (auto simp: serialize_def Let_def find_None_iff list_all_iff split: if_splits option.splits)
  have rc: "rmap (constraint_entries std t cyc) tcs \<noteq> Inl (MissingLevel name)" for t cyc tcs
    using c by (auto dest!: rmap_Inl)
  have rt: "rmap (dict_get (d :: dict)) xs \<noteq> Inl (MissingLevel name)" for d xs
    using k by (auto dest!: rmap_Inl)
  have rl: "rmap (\<lambda>name. if lower name \<in> set (dkeys od) then dict_int od (lower name) else Inl (MissingLevel name))
      (tl (map fst (std_levels std))) \<noteq> Inl (MissingLevel name)"
    using level_count_ok[OF f] by (fastforce dest!: rmap_Inl)
  show False
    using a unfolding serialize_def Let_def
    by (simp only: rbind_Inl_iff rc rt rl b e i split: if_splits option.splits) auto
qed

section \<open>What the constraints enforce\<close>

text \<open>
  C5: no demanded distance is lost. Whatever the standard, every distance its timing constraints
  or its command buses demand is in the emitted constraints, with its window and sibling flag.
\<close>

theorem serialize_complete:
  assumes "serialize std od td pw = Inr cfg"
    and "demanded std td lv p f lat w sib \<or> bus_demanded std lv p f lat w sib"
  shows "enforced std (cfg_constraints cfg) lv p f lat w sib"
proof -
  let ?td = "scale_timings (std_tick_multiplier std) td"
  obtain tcs bus where
    tcs: "rmap (constraint_entries std ?td (std_cyc std)) (std_constraints std) = Inr tcs" and
    bus: "bus_entries std (std_cyc std) = Inr bus" and cfg: "cfg_constraints cfg = bus @ concat tcs"
    by (rule serialize_Inr_dest[OF assms(1)]) simp
  have "enforced std (concat tcs) lv p f lat w sib" if d: "demanded std td lv p f lat w sib"
  proof -
    obtain tc nominal where tc: "tc \<in> set (std_constraints std)"
      "idx_of (map fst (std_levels std)) (tc_level tc) = Some lv" "p \<in> set (tc_preceding tc)"
      "f \<in> set (tc_following tc)" "eval_latency (tc_latency tc) ?td = Inr nominal"
      "lat = adjusted_latency std nominal p f" "w = tc_window tc" "sib = tc_sibling tc"
      using d unfolding demanded_def by blast
    obtain es where c: "constraint_entries std ?td (std_cyc std) tc = Inr es"
      using is_ok_rmap[of "constraint_entries std ?td (std_cyc std)" "std_constraints std"] tc(1)
      by (auto simp: tcs is_ok_iff)
    with tc(1) have es: "es \<in> set tcs" "constraint_entries std ?td (std_cyc std) tc = Inr es"
      unfolding rmap_set[OF tcs] by blast+
    obtain e where e: "e \<in> set es" "entry_has std e p f" "ce_latency e = lat"
      using constraint_entries_complete[OF es(2) tc(5,3,4)] tc(6) by blast
    have "enforced std es lv p f lat w sib"
      using constraint_entries_common[OF es(2) e(1)] tc e by (auto simp: enforced_def)
    with es(1) show ?thesis by (auto simp: enforced_concat)
  qed
  with assms(2) bus_exact[OF bus] show ?thesis unfolding cfg enforced_append by blast
qed

theorem serialize_complete_witness:
  "\<exists>cfg. serialize demo_standard demo_od demo_td None = Inr cfg \<and>
     enforced demo_standard (cfg_constraints cfg) 1 ''WR'' ''RD'' 10 1 False"
proof -
  obtain cfg where cfg: "serialize demo_standard demo_od demo_td None = Inr cfg"
    using demo_serialize by blast
  have "idx_of [''Channel'', ''Bank''] ''Bank'' = Some 1" by code_simp
  then have "demanded demo_standard demo_td 1 ''WR'' ''RD'' 10 1 False"
    using demo_eval demo_ticks
    by (simp add: demanded_def TC_def scale_timings_def adjusted_latency_def)
  then show ?thesis using cfg serialize_complete[OF cfg] by blast
qed


text \<open>
  The list a constraint is written as determines the constraint: leaving out a window of one
  and a false sibling flag loses nothing.
\<close>

theorem entry_list_injective:
  "entry_to_py e = entry_to_py e' \<longleftrightarrow> e = e'"
proof
  assume eq: "entry_to_py e = entry_to_py e'"
  have inj: "inj (PInt \<circ> int)" by (auto simp: inj_def)
  have n: "norm_num (ce_latency e) = norm_num (ce_latency e')" "ce_level e = ce_level e'"
    "ce_preceding e = ce_preceding e'" "ce_following e = ce_following e'"
    using eq by (simp_all add: entry_to_py_def inj_map_eq_map[OF inj])
  then have "ce_latency e = ce_latency e'"
    by (metis num_of_norm_num option.inject)
  moreover have "ce_window e = ce_window e' \<and> ce_sibling e = ce_sibling e'"
    using eq by (auto simp: entry_to_py_def split: if_splits)
  ultimately show "e = e'" using n by simp
qed simp

section \<open>Latency expressions\<close>

text \<open>
  Printing and reading back. The reader inverts the printer on every sum and difference of
  timing names and numbers.
\<close>

theorem parse_render: "lexpr_ok e \<Longrightarrow> parse_expr (render e) = Inr e"
  using lex_render[of e "[]"] parse_tokens_of[of e "[]"] tokens_of_clean[of e]
  by (simp add: parse_expr_def ends_token_def)

theorem parse_render_witness:
  "parse_expr (render (Minus (Plus (Atom (AName ''nCL'')) (ANum 12)) (AName ''nCWL''))) =
     Inr (Minus (Plus (Atom (AName ''nCL'')) (ANum 12)) (AName ''nCWL''))"
  by (rule parse_render) code_simp

text \<open>
  Evaluation. A printed expression evaluates to the sum it denotes when every name it reads
  has a numeric value, and raises otherwise.
\<close>

theorem eval_render:
  assumes "lexpr_ok e"
  shows "eval_expr (render e) td = Inr r \<longleftrightarrow>
    (\<forall>x \<in> set (lexpr_names e). has_value td x) \<and> r = lexpr_value (timing_value td) e"
proof -
  have p: "parse_expr (render e) = Inr e"
    using lex_render[of e "[]"] parse_tokens_of[of e "[]"] tokens_of_clean[of e] assms
    by (simp add: parse_expr_def ends_token_def)
  then show ?thesis
    using eval_lexpr_value[of e td] eval_lexpr_ok_names[of td e r] by (auto simp: eval_expr_def)
qed

theorem eval_render_witness:
  "eval_expr (render (Plus (Atom (AName ''nCL'')) (AName ''nBL''))) demo_td = Inr 9"
proof -
  have ok: "lexpr_ok (Plus (Atom (AName ''nCL'')) (AName ''nBL''))" by code_simp
  show ?thesis
    unfolding eval_render[OF ok] by (simp add: has_value_def timing_value_def demo_td_def)
qed

section \<open>Ticks\<close>

text \<open>
  The conversion from clock cycles to ticks keeps the names, leaves \<open>rate\<close> alone,
  divides the clock period and multiplies every other integer timing; a multiplier of one
  changes nothing.
\<close>

theorem tick_scaling:
  "dkeys (scale_timings m td) = dkeys td \<and>
   (dget td k = Some (PInt i) \<longrightarrow>
      dget (scale_timings m td) k =
        Some (PInt (if k = ''rate'' then i else if k = ''tCK_ps'' then i div m else i * m)))"
  by (cases "m = 1") (auto simp: dget_scale)

theorem tick_scaling_witness:
  "dget (scale_timings 2 [(''tCK_ps'', PInt 625), (''nBL'', PInt 4)]) ''nBL'' = Some (PInt 8)"
  using tick_scaling[of 2 "[(''tCK_ps'', PInt 625), (''nBL'', PInt 4)]" "''nBL''" 4] by simp

section \<open>Requests and rounding\<close>

text \<open>
  In a standard that \<open>validate\<close> accepts, reads have the id 0 and writes the id 1, as
  the controllers assume, and ids are the positions of the request names.
\<close>

theorem request_ids:
  assumes "validate_standard std = Inr ()"
  shows "request_type_id std ''Read'' = Inr 0 \<and> request_type_id std ''Write'' = Inr 1 \<and>
    (request_type_id std name = Inr i \<longrightarrow>
       i < length (std_supported_requests std) \<and> fst (std_supported_requests std ! i) = name \<and>
       snd (std_supported_requests std ! i) \<in> set (std_commands std))"
proof -
  have t: "take 2 (map fst (std_supported_requests std)) = [''Read'', ''Write'']"
    using assms by (auto simp: validate_standard_def rbind_Inr_iff split: if_splits)
  then obtain a b rest where r: "std_supported_requests std = (''Read'', a) # (''Write'', b) # rest"
    by (cases "std_supported_requests std"; cases "tl (std_supported_requests std)") (auto simp: take_Cons')
  have "is_ok (rmap (validate_request std) (std_supported_requests std))"
    using assms by (auto simp: validate_standard_def rbind_Inr_iff is_ok_iff split: if_splits)
  then have c: "\<forall>rq \<in> set (std_supported_requests std). snd rq \<in> set (std_commands std)"
    by (auto simp: is_ok_rmap validate_request_def split: if_splits)
  have lt: "list_index xs x = Some i \<Longrightarrow> i < length xs \<and> xs ! i = x" for xs :: "string list" and x
    by (induction xs arbitrary: i) (auto split: if_splits)
  have "i < length (std_supported_requests std) \<and> fst (std_supported_requests std ! i) = name \<and>
       snd (std_supported_requests std ! i) \<in> set (std_commands std)"
    if "request_type_id std name = Inr i"
    using that lt[of "map fst (std_supported_requests std)" name] c
    by (auto simp: request_type_id_def split: option.splits)
  then show ?thesis by (simp add: request_type_id_def r)
qed

theorem request_ids_witness: "request_type_id demo_standard ''Write'' = Inr 1"
proof -
  have "validate_standard demo_standard = Inr ()" by code_simp
  from request_ids[OF this] show ?thesis by blast
qed

text \<open>
  \<open>round\<close> as the standards use it returns a nearest integer, and the even one of two
  that are equally near.
\<close>

theorem round_half_even_correct:
  "\<bar>of_int (round_half_even r) - r\<bar> \<le> 1 / 2 \<and>
   (\<bar>of_int (round_half_even r) - r\<bar> = 1 / 2 \<longrightarrow> even (round_half_even r))"
proof -
  define f where "f = \<lfloor>r\<rfloor>"
  have f: "of_int f \<le> r" "r < of_int f + 1" unfolding f_def by linarith+
  show ?thesis
    unfolding round_half_even_def Let_def f_def [symmetric] using f by (auto simp: abs_if)
qed

theorem round_half_even_witness: "even (round_half_even (7 / 2))"
proof -
  have "round_half_even (7 / 2) = 4" by code_simp
  then show ?thesis using round_half_even_correct[of "7 / 2"] by (simp add: abs_if)
qed

end
