(* ===== verification/Addressing.thy ===== *)
theory Addressing
  imports Dram_Spec
begin

text \<open>
  \<open>dram/addressing.py\<close>: the address layout of a resolved organisation and the map from
  byte addresses to hierarchy coordinates. The layout is computed from the standard's level
  names and the organisation that \<open>resolve\<close> returned. A byte address is mapped by mixed
  radix, the last level fastest; the locale \<open>coordinate_map\<close> is what a client of the map
  relies on, and mixed-radix coordinates interpret it.
\<close>

section \<open>The layout of an organisation\<close>

datatype addr_error =
    AddrDram dram_error
  | AddrNotInt string
  | NoChannel | NoRankBank | NoRowColumn | SizeNotPositive | BadLevelOrder
  | ColumnNotMultiple | TransactionNotPositive
  | LevelNotBank string
  | ManySubchannels | IndependentSubchannels
  | LengthMismatch | VecLength nat nat
  | CoordNotInt nat string | CoordRange nat string int int
  | BadAddress | EmptyLevels | ColumnNotLast | BadSizes | AddressTooLarge int int

record layout =
  ly_dram_class :: string
  ly_level_names :: "string list"
  ly_level_sizes :: "int list"
  ly_address_level_sizes :: "int list"
  ly_channel_pos :: nat
  ly_rank_pos :: nat
  ly_bank_positions :: "nat list"
  ly_bank_counts :: "int list"
  ly_controller_bank_positions :: "nat list"
  ly_controller_bank_counts :: "int list"
  ly_total_bank_units :: int
  ly_row_pos :: nat
  ly_col_pos :: nat
  ly_num_rows :: int
  ly_num_cols :: int
  ly_prefetch :: int
  ly_num_cls :: int
  ly_tx_bytes :: int
  ly_capacity_bytes :: int

definition org_int_value :: "dict \<Rightarrow> string \<Rightarrow> addr_error + int" where
  "org_int_value od k = (case dget od k of
     None \<Rightarrow> Inl (AddrDram (DramKeyError k))
   | Some v \<Rightarrow> (case py_int v of None \<Rightarrow> Inl (AddrNotInt k) | Some i \<Rightarrow> Inr i))"

definition level_size :: "dict \<Rightarrow> string \<Rightarrow> addr_error + int" where
  "level_size od name = (if name = ''Channel'' then Inr 1 else org_int_value od (lower name))"

text \<open>\<open>bank_positions.append(bank_positions.pop(order_index))\<close>, on both lists.\<close>

definition move_last :: "nat \<Rightarrow> 'a list \<Rightarrow> 'a list" where
  "move_last i xs = take i xs @ drop (Suc i) xs @ [xs ! i]"

fun rotate_banks ::
  "string list \<Rightarrow> string list \<Rightarrow> nat list \<Rightarrow> int list \<Rightarrow> addr_error + nat list \<times> int list" where
  "rotate_banks names [] ps cs = Inr (ps, cs)"
| "rotate_banks names (n # ns) ps cs =
     (case list_index names n of
        None \<Rightarrow> rotate_banks names ns ps cs
      | Some pos \<Rightarrow> (case list_index ps pos of
          None \<Rightarrow> Inl (LevelNotBank n)
        | Some i \<Rightarrow> rotate_banks names ns (move_last i ps) (move_last i cs)))"

definition check_subchannel :: "dict option \<Rightarrow> addr_error + unit" where
  "check_subchannel sub = (case sub of
     None \<Rightarrow> Inr ()
   | Some d \<Rightarrow>
       if \<not> py_eq (dgetd d ''modeled_subchannels_per_channel'' PNone) (PInt 1) then Inl ManySubchannels
       else if dgetd d ''independent_subchannel_scheduling'' PNone \<noteq> PBool False then Inl IndependentSubchannels
       else Inr ())"

definition extract_dram_layout ::
  "dram_standard \<Rightarrow> dict option \<Rightarrow> dict \<Rightarrow> addr_error + layout" where
  "extract_dram_layout std sub od =
     (let names = map fst (std_levels std) in
      rbind (rmap (level_size od) names) (\<lambda>sizes.
      if names = [] \<or> hd names \<noteq> ''Channel'' then Inl NoChannel
      else if ''Rank'' \<notin> set names \<or> ''Bank'' \<notin> set names then Inl NoRankBank
      else if ''Row'' \<notin> set names \<or> ''Column'' \<notin> set names then Inl NoRowColumn
      else if list_ex (\<lambda>n. n \<le> 0) sizes then Inl SizeNotPositive
      else
        let rank = the (list_index names ''Rank''); bank = the (list_index names ''Bank'');
            row = the (list_index names ''Row''); col = the (list_index names ''Column'')
        in
        if \<not> (rank < bank \<and> bank < row \<and> row < col) then Inl BadLevelOrder
        else
        let ps = std_internal_prefetch std; cols = sizes ! col in
        if ps \<le> 0 \<or> cols mod ps \<noteq> 0 then Inl ColumnNotMultiple
        else
        rbind (case std_payload std of Some p \<Rightarrow> Inr p
               | None \<Rightarrow> rbind (org_int_value od ''channel_width'') (\<lambda>cw. Inr (ps * cw div 8))) (\<lambda>tx.
        if tx \<le> 0 then Inl TransactionNotPositive
        else
        let cpos = [rank..<Suc bank]; ccnt = map (\<lambda>i. sizes ! i) cpos;
            asz = sizes[col := cols div ps]
        in
        rbind (rotate_banks names [''BankGroup'', ''PseudoChannel''] cpos ccnt) (\<lambda>(bpos, bcnt).
        rbind (check_subchannel sub) (\<lambda>_.
        Inr \<lparr>ly_dram_class = std_name std, ly_level_names = names, ly_level_sizes = sizes,
             ly_address_level_sizes = asz, ly_channel_pos = 0, ly_rank_pos = rank,
             ly_bank_positions = bpos, ly_bank_counts = bcnt,
             ly_controller_bank_positions = cpos, ly_controller_bank_counts = ccnt,
             ly_total_bank_units = prod_list ccnt, ly_row_pos = row, ly_col_pos = col,
             ly_num_rows = sizes ! row, ly_num_cols = cols, ly_prefetch = ps,
             ly_num_cls = cols div ps, ly_tx_bytes = tx,
             ly_capacity_bytes = tx * prod_list asz\<rparr>)))))"

text \<open>The layout of an instance: \<open>dram.resolve()\<close> first.\<close>

definition dram_layout ::
  "dram_standard \<Rightarrow> dict option \<Rightarrow> string \<Rightarrow> string \<Rightarrow> dict \<Rightarrow> addr_error + layout" where
  "dram_layout std sub org tim ov =
     (case resolve std org tim ov of
        Inl e \<Rightarrow> Inl (AddrDram e)
      | Inr (od, td) \<Rightarrow> extract_dram_layout std sub od)"

section \<open>Coordinates\<close>

fun check_coords ::
  "bool \<Rightarrow> nat \<Rightarrow> (string \<times> int \<times> pyval) list \<Rightarrow> addr_error + unit" where
  "check_coords wild i [] = Inr ()"
| "check_coords wild i ((name, sz, v) # cs) =
     (case v of
        PInt x \<Rightarrow>
          if wild \<and> x = - 1 then check_coords wild (Suc i) cs
          else if x < 0 \<or> sz \<le> x then Inl (CoordRange i name x sz)
          else check_coords wild (Suc i) cs
      | _ \<Rightarrow> Inl (CoordNotInt i name))"

definition validate_addr_vec ::
  "pyval list \<Rightarrow> string list \<Rightarrow> int list \<Rightarrow> bool \<Rightarrow> addr_error + unit" where
  "validate_addr_vec vec names sizes wild =
     (if length names \<noteq> length sizes then Inl LengthMismatch
      else if length vec \<noteq> length names then Inl (VecLength (length vec) (length names))
      else check_coords wild 0 (zip names (zip sizes vec)))"

text \<open>The loop over the levels, last first: the coordinate and what is left of the value.\<close>

definition mixed_radix :: "int list \<Rightarrow> int \<Rightarrow> int list \<times> int" where
  "mixed_radix radices value =
     foldr (\<lambda>r (vec, v). (v mod r # vec, v div r)) radices ([], value)"

definition addr_vec_from_byte_address ::
  "pyval \<Rightarrow> string list \<Rightarrow> pyval list \<Rightarrow> int \<Rightarrow> int \<Rightarrow> addr_error + int list" where
  "addr_vec_from_byte_address address names sizes ps tx =
     (if \<not> nonneg_int address then Inl BadAddress
      else if length names \<noteq> length sizes \<or> names = [] then Inl EmptyLevels
      else if last names \<noteq> ''Column'' then Inl ColumnNotLast
      else if list_ex (\<lambda>s. \<not> positive_int s) sizes then Inl BadSizes
      else
        let szs = map (the \<circ> py_int) sizes; a = the (py_int address) in
        if ps \<le> 0 \<or> last szs mod ps \<noteq> 0 then Inl ColumnNotMultiple
        else if tx \<le> 0 then Inl TransactionNotPositive
        else
          let radices = butlast szs @ [last szs div ps];
              capacity = tx * prod_list radices
          in if capacity \<le> a then Inl (AddressTooLarge a capacity)
             else
               let (vec, rest) = mixed_radix radices (a div tx) in
               if rest \<noteq> 0 then Inl (AddressTooLarge a capacity)
               else rbind (validate_addr_vec (map PInt vec) names szs False) (\<lambda>_. Inr vec))"

end
