(* ===== verification/Addressing_Facts.thy ===== *)
theory Addressing_Facts
  imports Addressing "HOL-Library.Multiset"
begin

text \<open>
  What the address map of \<open>dram/addressing.py\<close> guarantees: the byte addresses below the
  capacity and the valid coordinates correspond one to one, transaction by transaction, and a
  layout describes the banks of a rank completely. The locale \<open>coordinate_map\<close> states the
  contract of an encoder of numbers into coordinates; mixed radix interprets it.
\<close>

lemma div_below: "0 < (u::int) \<Longrightarrow> a < u * c \<Longrightarrow> a div u < c"
proof -
  assume u: "0 < u" and a: "a < u * c"
  have "a div u * u \<le> a" using div_mult_mod_eq[of a u] pos_mod_sign[OF u, of a] by linarith
  with a have "a div u * u < c * u" by (simp add: mult.commute)
  with u show "a div u < c" by simp
qed

section \<open>An encoder of numbers into coordinates\<close>

locale coordinate_map =
  fixes ok :: "'r \<Rightarrow> bool" and capacity :: "'r \<Rightarrow> int" and valid :: "'r \<Rightarrow> 'c \<Rightarrow> bool"
    and enc :: "'r \<Rightarrow> int \<Rightarrow> 'c" and dec :: "'r \<Rightarrow> 'c \<Rightarrow> int"
  assumes enc_valid: "ok r \<Longrightarrow> 0 \<le> v \<Longrightarrow> v < capacity r \<Longrightarrow> valid r (enc r v)"
    and dec_enc: "ok r \<Longrightarrow> 0 \<le> v \<Longrightarrow> v < capacity r \<Longrightarrow> dec r (enc r v) = v"
    and dec_range: "ok r \<Longrightarrow> valid r c \<Longrightarrow> 0 \<le> dec r c \<and> dec r c < capacity r"
    and enc_dec: "ok r \<Longrightarrow> valid r c \<Longrightarrow> enc r (dec r c) = c"
begin

lemma enc_inj:
  "ok r \<Longrightarrow> 0 \<le> v \<Longrightarrow> v < capacity r \<Longrightarrow> 0 \<le> w \<Longrightarrow> w < capacity r \<Longrightarrow> enc r v = enc r w \<longleftrightarrow> v = w"
  using dec_enc by metis

lemma enc_bij:
  assumes "ok r"
  shows "bij_betw (enc r) {0..<capacity r} {c. valid r c}"
proof (rule bij_betw_byWitness[where f' = "dec r"])
  show "\<forall>v \<in> {0..<capacity r}. dec r (enc r v) = v" using dec_enc[OF assms] by simp
  show "\<forall>c \<in> {c. valid r c}. enc r (dec r c) = c" using enc_dec[OF assms] by simp
  show "enc r ` {0..<capacity r} \<subseteq> {c. valid r c}" using enc_valid[OF assms] by auto
  show "dec r ` {c. valid r c} \<subseteq> {0..<capacity r}" using dec_range[OF assms] by auto
qed

text \<open>Addresses in units: two addresses share a coordinate when they share a unit.\<close>

lemma units:
  assumes "ok r" "0 < u" and "0 \<le> a" "a < u * capacity r" and "0 \<le> b" "b < u * capacity r"
  shows "enc r (a div u) = enc r (b div u) \<longleftrightarrow> a div u = b div u"
proof (rule enc_inj[OF assms(1)])
  show "0 \<le> a div u" "0 \<le> b div u" using assms by (simp_all add: pos_imp_zdiv_nonneg_iff)
  show "a div u < capacity r" "b div u < capacity r"
    using assms by (simp_all add: div_below)
qed

end

section \<open>Mixed radix\<close>

definition radices_ok :: "int list \<Rightarrow> bool" where
  "radices_ok rs \<longleftrightarrow> list_all (\<lambda>r. 0 < r) rs"

definition coords_in :: "int list \<Rightarrow> int list \<Rightarrow> bool" where
  "coords_in rs vec \<longleftrightarrow> list_all2 (\<lambda>r v. 0 \<le> v \<and> v < r) rs vec"

text \<open>The flat number of a coordinate: the first level is the most significant.\<close>

fun flat_of :: "int list \<Rightarrow> int list \<Rightarrow> int" where
  "flat_of (r # rs) (v # vs) = v * prod_list rs + flat_of rs vs"
| "flat_of _ _ = 0"

lemma prod_list_pos: "radices_ok rs \<Longrightarrow> 0 < prod_list rs"
  by (induction rs) (simp_all add: radices_ok_def)

lemma mixed_radix_Cons:
  "mixed_radix (r # rs) v = (let (vec, w) = mixed_radix rs v in (w mod r # vec, w div r))"
  by (simp add: mixed_radix_def)

lemma mixed_radix_rest: "radices_ok rs \<Longrightarrow> snd (mixed_radix rs v) = v div prod_list rs"
proof (induction rs)
  case Nil
  then show ?case by (simp add: mixed_radix_def)
next
  case (Cons r rs)
  then have "0 < prod_list rs" "snd (mixed_radix rs v) = v div prod_list rs"
    by (simp_all add: radices_ok_def prod_list_pos)
  moreover have "v div prod_list rs div r = v div (prod_list rs * r)"
    using Cons.prems by (simp add: radices_ok_def zdiv_zmult2_eq)
  ultimately show ?case
    by (simp add: mixed_radix_Cons Let_def case_prod_beta mult.commute)
qed

lemma mixed_radix_coords:
  assumes "radices_ok rs"
  shows "coords_in rs (fst (mixed_radix rs v))"
  using assms
  by (induction rs) (simp_all add: coords_in_def radices_ok_def mixed_radix_def Let_def case_prod_beta)

lemma mixed_radix_flat:
  assumes "radices_ok rs" and "0 \<le> v"
  shows "flat_of rs (fst (mixed_radix rs v)) = v mod prod_list rs"
  using assms(1)
proof (induction rs)
  case Nil
  then show ?case by (simp add: mixed_radix_def)
next
  case (Cons r rs)
  then have p: "0 < prod_list rs" "0 < r" and rs: "radices_ok rs"
    by (simp_all add: radices_ok_def prod_list_pos)
  have "flat_of (r # rs) (fst (mixed_radix (r # rs) v)) =
    (v div prod_list rs) mod r * prod_list rs + v mod prod_list rs"
    using Cons.IH[OF rs] mixed_radix_rest[OF rs, of v]
    by (simp add: mixed_radix_Cons Let_def case_prod_beta)
  also have "\<dots> = v mod (prod_list rs * r)"
    using p assms(2) by (simp add: zmod_zmult2_eq)
  finally show ?case by (simp add: mult.commute)
qed

lemma flat_of_range:
  assumes "radices_ok rs" and "coords_in rs vec"
  shows "0 \<le> flat_of rs vec \<and> flat_of rs vec < prod_list rs"
  using assms(2,1) unfolding coords_in_def
proof (induction rule: list_all2_induct)
  case Nil
  then show ?case by simp
next
  case (Cons r rs v vs)
  then have rs: "radices_ok rs" and p: "0 < prod_list rs" by (simp_all add: radices_ok_def prod_list_pos)
  have IH: "0 \<le> flat_of rs vs" "flat_of rs vs < prod_list rs" using Cons.IH[OF rs] by simp_all
  have "v * prod_list rs + flat_of rs vs < (v + 1) * prod_list rs"
    using IH by (simp add: algebra_simps)
  also have "\<dots> \<le> r * prod_list rs"
    using Cons.hyps(1) p by (intro mult_right_mono) simp_all
  finally show ?case using IH Cons.hyps(1) p by simp
qed

lemma mixed_radix_of_flat:
  assumes "radices_ok rs" and "coords_in rs vec"
  shows "mixed_radix rs (flat_of rs vec) = (vec, 0)"
proof -
  have "mixed_radix rs (flat_of rs vec + k * prod_list rs) = (vec, k)" if "0 \<le> k" for k
    using assms(2,1) that unfolding coords_in_def
  proof (induction arbitrary: k rule: list_all2_induct)
    case Nil
    then show ?case by (simp add: mixed_radix_def)
  next
    case (Cons r rs v vs)
    then have rs: "radices_ok rs" by (simp add: radices_ok_def)
    have r: "0 \<le> v" "v < r" using Cons.hyps(1) by simp_all
    have "flat_of (r # rs) (v # vs) + k * prod_list (r # rs) = flat_of rs vs + (v + k * r) * prod_list rs"
      by (simp add: algebra_simps)
    moreover have "mixed_radix rs (flat_of rs vs + (v + k * r) * prod_list rs) = (vs, v + k * r)"
      using Cons.IH[OF rs, of "v + k * r"] Cons.prems(2) r by simp
    ultimately have "mixed_radix rs (flat_of (r # rs) (v # vs) + k * prod_list (r # rs)) = (vs, v + k * r)"
      by (simp only:)
    then show ?case using r by (simp only: mixed_radix_Cons) simp
  qed
  from this[of 0] show ?thesis by simp
qed

interpretation mixed: coordinate_map radices_ok prod_list coords_in "\<lambda>rs v. fst (mixed_radix rs v)" flat_of
proof
  fix rs :: "int list" and v :: int
  assume rs: "radices_ok rs" and v: "0 \<le> v" "v < prod_list rs"
  show "coords_in rs (fst (mixed_radix rs v))" by (rule mixed_radix_coords[OF rs])
  show "flat_of rs (fst (mixed_radix rs v)) = v" using mixed_radix_flat[OF rs v(1)] v by simp
next
  fix rs c assume rs: "radices_ok rs" and c: "coords_in rs c"
  show "0 \<le> flat_of rs c \<and> flat_of rs c < prod_list rs" by (rule flat_of_range[OF rs c])
  show "fst (mixed_radix rs (flat_of rs c)) = c" using mixed_radix_of_flat[OF rs c] by simp
qed

section \<open>Byte addresses\<close>

definition radices_of :: "int list \<Rightarrow> int \<Rightarrow> int list" where
  "radices_of szs ps = butlast szs @ [last szs div ps]"

definition geometry_ok :: "string list \<Rightarrow> int list \<Rightarrow> int \<Rightarrow> int \<Rightarrow> bool" where
  "geometry_ok names szs ps tx \<longleftrightarrow>
     names \<noteq> [] \<and> length names = length szs \<and> last names = ''Column'' \<and> list_all (\<lambda>n. 0 < n) szs \<and>
     0 < ps \<and> last szs mod ps = 0 \<and> 0 < tx"

lemma coords_in_snoc: "coords_in (bs @ [n]) (us @ [z]) \<longleftrightarrow> coords_in bs us \<and> 0 \<le> z \<and> z < n"
  unfolding coords_in_def by (subst list_all2_rev [symmetric]) (auto simp: list_all2_rev)

lemma geometry_radices:
  assumes "geometry_ok names szs ps tx"
  shows "radices_ok (radices_of szs ps)" and "coords_in (radices_of szs ps) vec \<Longrightarrow> coords_in szs vec"
proof -
  obtain bs n where szs: "szs = bs @ [n]"
    using assms by (cases szs rule: rev_cases) (auto simp: geometry_ok_def)
  have n: "0 < n" "0 < ps" "n mod ps = 0" "list_all (\<lambda>n. 0 < n) bs"
    using assms by (simp_all add: geometry_ok_def szs)
  then obtain q where q: "n = ps * q" by (auto simp: mod_eq_0_iff_dvd)
  with n have "0 < q" by (simp add: zero_less_mult_iff)
  moreover have d: "n div ps = q" using q n by simp
  moreover have "q \<le> n" using q n \<open>0 < q\<close> by simp
  ultimately show "radices_ok (radices_of szs ps)"
    using n by (simp add: radices_of_def radices_ok_def szs)
  show "coords_in szs vec" if "coords_in (radices_of szs ps) vec"
  proof (cases vec rule: rev_cases)
    case Nil
    with that show ?thesis by (simp add: radices_of_def coords_in_def szs)
  next
    case (snoc us z)
    with that \<open>q \<le> n\<close> show ?thesis by (simp add: radices_of_def szs coords_in_snoc d)
  qed
qed

lemma check_coords_ok:
  "list_all2 (\<lambda>r v. 0 \<le> v \<and> v < r) szs vec \<Longrightarrow> length names = length szs \<Longrightarrow>
    check_coords wild i (zip names (zip szs (map PInt vec))) = Inr ()"
proof (induction arbitrary: names i rule: list_all2_induct)
  case (Cons r rs v vs)
  then obtain n ns where "names = n # ns" by (cases names) auto
  with Cons show ?case by simp
qed simp

lemma validate_coords_ok:
  "coords_in szs vec \<Longrightarrow> length names = length szs \<Longrightarrow> validate_addr_vec (map PInt vec) names szs wild = Inr ()"
  using check_coords_ok[of szs vec names wild 0]
  by (simp add: validate_addr_vec_def coords_in_def list_all2_lengthD)

text \<open>
  The map on integers: a negative address and one past the capacity are refused, every other
  one gets its mixed-radix coordinate; the two checks at the end of the code never fire.
\<close>

lemma addr_vec_value:
  assumes g: "geometry_ok names szs ps tx"
  shows "addr_vec_from_byte_address (PInt a) names (map PInt szs) ps tx =
    (if a < 0 then Inl BadAddress
     else if tx * prod_list (radices_of szs ps) \<le> a then Inl (AddressTooLarge a (tx * prod_list (radices_of szs ps)))
     else Inr (fst (mixed_radix (radices_of szs ps) (a div tx))))"
proof -
  let ?rs = "radices_of szs ps"
  have rs: "radices_ok ?rs" by (rule geometry_radices[OF g])
  have p: "0 < prod_list ?rs" by (rule prod_list_pos[OF rs])
  have ints: "the \<circ> py_int \<circ> PInt = id"
    by (simp add: fun_eq_iff py_int_def)
  have pos: "\<not> list_ex (\<lambda>s. \<not> positive_int s) (map PInt szs)"
    using g by (auto simp: geometry_ok_def list_all_iff list_ex_iff)
  have rest: "snd (mixed_radix ?rs (a div tx)) = 0" if "0 \<le> a" "a < tx * prod_list ?rs"
  proof -
    have "0 \<le> a div tx" "a div tx < prod_list ?rs"
      using that g div_below[of tx a] by (simp_all add: geometry_ok_def pos_imp_zdiv_nonneg_iff)
    then show ?thesis by (simp add: mixed_radix_rest[OF rs])
  qed
  have valid: "validate_addr_vec (map PInt (fst (mixed_radix ?rs v))) names szs False = Inr ()" for v
    using geometry_radices(2)[OF g mixed_radix_coords[OF rs]] g
    by (intro validate_coords_ok) (simp_all add: geometry_ok_def)
  have g': "length names = length szs" "names \<noteq> []" "last names = ''Column''" "\<not> ps \<le> 0" "last szs mod ps = 0" "\<not> tx \<le> 0"
    using g by (simp_all add: geometry_ok_def)
  have val: "py_int (PInt a) = Some a" by (simp add: py_int_def)
  show ?thesis
  proof (cases "a < 0")
    case True
    then show ?thesis by (simp add: addr_vec_from_byte_address_def)
  next
    case False
    with rest valid pos g' show ?thesis
      by (simp add: addr_vec_from_byte_address_def ints val Let_def case_prod_beta radices_of_def [symmetric])
  qed
qed

section \<open>Layouts\<close>

lemma list_index_lt: "list_index xs x = Some i \<Longrightarrow> i < length xs \<and> xs ! i = x"
  by (induction xs arbitrary: i) (auto split: if_splits)

lemma list_index_in: "x \<in> set xs \<Longrightarrow> \<exists>i. list_index xs x = Some i"
  by (induction xs) auto

lemma mset_move_last: "i < length xs \<Longrightarrow> mset (move_last i xs) = mset xs"
proof -
  assume "i < length xs"
  then have "mset (take i xs @ xs ! i # drop (Suc i) xs) = mset xs" by (simp add: id_take_nth_drop [symmetric])
  then show ?thesis by (simp add: move_last_def ac_simps)
qed

lemma map_move_last: "i < length xs \<Longrightarrow> map f (move_last i xs) = move_last i (map f xs)"
  by (simp add: move_last_def take_map drop_map)

lemma rotate_banks_inv:
  "rotate_banks names ns ps (map f ps) = Inr (qs, cs) \<Longrightarrow> mset qs = mset ps \<and> cs = map f qs"
proof (induction ns arbitrary: ps)
  case (Cons n ns)
  show ?case
  proof (cases "list_index names n")
    case None
    with Cons show ?thesis by simp
  next
    case (Some pos)
    then obtain i where i: "list_index ps pos = Some i"
      using Cons.prems by (auto split: option.splits)
    then have lt: "i < length ps" using list_index_lt by fastforce
    have "rotate_banks names ns (move_last i ps) (map f (move_last i ps)) = Inr (qs, cs)"
      using Cons.prems by (simp add: Some i map_move_last[OF lt])
    from Cons.IH[OF this] show ?thesis by (simp add: mset_move_last[OF lt])
  qed
qed simp

lemma extract_Inr:
  assumes "extract_dram_layout std sub od = Inr ly"
  obtains sizes where
    "rmap (level_size od) (map fst (std_levels std)) = Inr sizes"
    "ly_level_names ly = map fst (std_levels std)" "ly_level_sizes ly = sizes"
    "hd (ly_level_names ly) = ''Channel''" "ly_level_names ly \<noteq> []"
    "list_all (\<lambda>n. 0 < n) sizes"
    "list_index (ly_level_names ly) ''Rank'' = Some (ly_rank_pos ly)"
    "list_index (ly_level_names ly) ''Row'' = Some (ly_row_pos ly)"
    "list_index (ly_level_names ly) ''Column'' = Some (ly_col_pos ly)"
    "\<exists>bank. list_index (ly_level_names ly) ''Bank'' = Some bank \<and> ly_rank_pos ly < bank \<and>
       bank < ly_row_pos ly \<and> ly_controller_bank_positions ly = [ly_rank_pos ly..<Suc bank]"
    "ly_row_pos ly < ly_col_pos ly"
    "0 < ly_prefetch ly" "ly_num_cols ly mod ly_prefetch ly = 0" "ly_num_cols ly = sizes ! ly_col_pos ly"
    "0 < ly_tx_bytes ly"
    "ly_controller_bank_counts ly = map ((!) sizes) (ly_controller_bank_positions ly)"
    "ly_address_level_sizes ly = sizes[ly_col_pos ly := ly_num_cols ly div ly_prefetch ly]"
    "rotate_banks (ly_level_names ly) [''BankGroup'', ''PseudoChannel''] (ly_controller_bank_positions ly)
       (map ((!) sizes) (ly_controller_bank_positions ly)) = Inr (ly_bank_positions ly, ly_bank_counts ly)"
    "ly_total_bank_units ly = prod_list (ly_controller_bank_counts ly)"
    "ly_capacity_bytes ly = ly_tx_bytes ly * prod_list (ly_address_level_sizes ly)"
    "ly_prefetch ly = std_internal_prefetch std"
proof -
  let ?names = "map fst (std_levels std)"
  obtain sizes where sizes: "rmap (level_size od) ?names = Inr sizes"
    using assms by (auto simp: extract_dram_layout_def Let_def rbind_Inr_iff)
  note 1 = assms[unfolded extract_dram_layout_def Let_def sizes rbind_Inr]
  have names: "?names \<noteq> []" "hd ?names = ''Channel''" "''Rank'' \<in> set ?names" "''Bank'' \<in> set ?names"
    "''Row'' \<in> set ?names" "''Column'' \<in> set ?names" and pos: "\<not> list_ex (\<lambda>n. n \<le> 0) sizes"
    using 1 by (auto split: if_splits)
  obtain rank bank row col where idx: "list_index ?names ''Rank'' = Some rank" "list_index ?names ''Bank'' = Some bank"
    "list_index ?names ''Row'' = Some row" "list_index ?names ''Column'' = Some col"
    using names(3-6)[THEN list_index_in] by blast
  note 2 = 1[unfolded idx option.sel]
  have ord: "rank < bank" "bank < row" "row < col" and ps: "0 < std_internal_prefetch std"
    "sizes ! col mod std_internal_prefetch std = 0"
    using 2 names pos by (auto split: if_splits)
  have "list_all (\<lambda>n. 0 < n) sizes" using pos by (auto simp: list_all_iff list_ex_iff not_le)
  moreover have "ly_level_names ly = ?names \<and> ly_level_sizes ly = sizes \<and> ly_rank_pos ly = rank \<and> ly_row_pos ly = row \<and>
      ly_col_pos ly = col \<and> ly_controller_bank_positions ly = [rank..<Suc bank] \<and>
      ly_prefetch ly = std_internal_prefetch std \<and> ly_num_cols ly = sizes ! col \<and> 0 < ly_tx_bytes ly \<and>
      ly_controller_bank_counts ly = map ((!) sizes) [rank..<Suc bank] \<and>
      ly_address_level_sizes ly = sizes[col := sizes ! col div std_internal_prefetch std] \<and>
      rotate_banks ?names [''BankGroup'', ''PseudoChannel''] [rank..<Suc bank] (map ((!) sizes) [rank..<Suc bank]) =
        Inr (ly_bank_positions ly, ly_bank_counts ly) \<and>
      ly_total_bank_units ly = prod_list (ly_controller_bank_counts ly) \<and>
      ly_capacity_bytes ly = ly_tx_bytes ly * prod_list (ly_address_level_sizes ly)"
    using 2 names pos ord ps
    by (auto simp: rbind_Inr_iff simp del: rotate_banks.simps upt_Suc list.map split: if_splits)
  ultimately show thesis
    using names idx ord ps by (intro that[OF sizes]) (simp_all del: rotate_banks.simps upt_Suc)
qed

text \<open>What a layout says about banks, capacity and the address map.\<close>

lemma layout_banks:
  assumes "extract_dram_layout std sub od = Inr ly"
  shows "mset (ly_bank_positions ly) = mset (ly_controller_bank_positions ly)"
    and "ly_bank_counts ly = map ((!) (ly_level_sizes ly)) (ly_bank_positions ly)"
    and "prod_list (ly_bank_counts ly) = ly_total_bank_units ly"
proof -
  obtain sizes where s: "ly_level_sizes ly = sizes"
    "ly_controller_bank_counts ly = map ((!) sizes) (ly_controller_bank_positions ly)"
    "rotate_banks (ly_level_names ly) [''BankGroup'', ''PseudoChannel''] (ly_controller_bank_positions ly)
       (map ((!) sizes) (ly_controller_bank_positions ly)) = Inr (ly_bank_positions ly, ly_bank_counts ly)"
    "ly_total_bank_units ly = prod_list (ly_controller_bank_counts ly)"
    by (rule extract_Inr[OF assms])
  from rotate_banks_inv[OF s(3)] show m: "mset (ly_bank_positions ly) = mset (ly_controller_bank_positions ly)"
    and c: "ly_bank_counts ly = map ((!) (ly_level_sizes ly)) (ly_bank_positions ly)"
    using s(1) by simp_all
  have "prod_list (map g xs) = prod_mset (image_mset g (mset xs))" for g :: "nat \<Rightarrow> int" and xs
    by (metis mset_map prod_mset_prod_list)
  then show "prod_list (ly_bank_counts ly) = ly_total_bank_units ly"
    by (simp only: c s(1,2,4) m)
qed

lemma layout_geometry:
  assumes "extract_dram_layout std sub od = Inr ly" and "last (ly_level_names ly) = ''Column''"
    and "distinct (ly_level_names ly)"
  shows "geometry_ok (ly_level_names ly) (ly_level_sizes ly) (ly_prefetch ly) (ly_tx_bytes ly)"
    and "radices_of (ly_level_sizes ly) (ly_prefetch ly) = ly_address_level_sizes ly"
    and "ly_capacity_bytes ly = ly_tx_bytes ly * prod_list (radices_of (ly_level_sizes ly) (ly_prefetch ly))"
proof -
  obtain sizes where s: "ly_level_sizes ly = sizes" "ly_level_names ly \<noteq> []" "list_all (\<lambda>n. 0 < n) sizes"
    "rmap (level_size od) (map fst (std_levels std)) = Inr sizes" "ly_level_names ly = map fst (std_levels std)"
    "list_index (ly_level_names ly) ''Column'' = Some (ly_col_pos ly)"
    "0 < ly_prefetch ly" "ly_num_cols ly mod ly_prefetch ly = 0" "ly_num_cols ly = sizes ! ly_col_pos ly"
    "0 < ly_tx_bytes ly" "ly_address_level_sizes ly = sizes[ly_col_pos ly := ly_num_cols ly div ly_prefetch ly]"
    "ly_capacity_bytes ly = ly_tx_bytes ly * prod_list (ly_address_level_sizes ly)"
    by (rule extract_Inr[OF assms(1)])
  have len: "length sizes = length (ly_level_names ly)" using rmap_length[OF s(4)] s(5) by simp
  then have ne: "sizes \<noteq> []" using s(2) by auto
  have "ly_level_names ly ! ly_col_pos ly = ly_level_names ly ! (length (ly_level_names ly) - 1)"
    "ly_col_pos ly < length (ly_level_names ly)"
    using list_index_lt[OF s(6)] assms(2) s(2) by (simp_all add: last_conv_nth)
  then have col: "ly_col_pos ly = length sizes - 1"
    using nth_eq_iff_index_eq[OF assms(3)] len s(2) by auto
  then have last: "sizes ! ly_col_pos ly = last sizes" using ne by (simp add: last_conv_nth)
  show "geometry_ok (ly_level_names ly) (ly_level_sizes ly) (ly_prefetch ly) (ly_tx_bytes ly)"
    using s last assms(2) len by (simp add: geometry_ok_def)
  show r: "radices_of (ly_level_sizes ly) (ly_prefetch ly) = ly_address_level_sizes ly"
    using ne by (cases sizes rule: rev_cases) (simp_all add: radices_of_def s(1,9,11) last col)
  show "ly_capacity_bytes ly = ly_tx_bytes ly * prod_list (radices_of (ly_level_sizes ly) (ly_prefetch ly))"
    by (simp add: r s(12))
qed

end
