(* ===== verification/Addressing_Properties.thy ===== *)
theory Addressing_Properties
  imports Addressing_Facts
begin

text \<open>
  The properties of \<open>dram/addressing.py\<close>: the byte-address map is a total bijection between
  the transactions below the capacity and the coordinates of the hierarchy, and a layout is
  consistent with the map and with the controller's bank order. They rest on the facts of the
  interpretation \<open>mixed\<close>.
\<close>

section \<open>The address map\<close>

text \<open>
  C35: the map is total and exact. On a valid geometry a negative address is refused, an address
  at or past the capacity is refused with that capacity, and every other address maps to the
  coordinate whose flat number, last level fastest, is the number of its transaction.
\<close>

theorem address_map_value:
  assumes "geometry_ok names szs ps tx"
  shows "addr_vec_from_byte_address (PInt a) names (map PInt szs) ps tx = Inr vec \<longleftrightarrow>
    0 \<le> a \<and> a < tx * prod_list (radices_of szs ps) \<and>
    coords_in (radices_of szs ps) vec \<and> flat_of (radices_of szs ps) vec = a div tx"
proof -
  let ?rs = "radices_of szs ps"
  have rs: "radices_ok ?rs" by (rule geometry_radices[OF assms])
  have tx: "0 < tx" using assms by (simp add: geometry_ok_def)
  show ?thesis
  proof (cases "0 \<le> a \<and> a < tx * prod_list ?rs")
    case True
    then have "0 \<le> a div tx" "a div tx < prod_list ?rs"
      using tx div_below[of tx a] by (simp_all add: pos_imp_zdiv_nonneg_iff)
    then have "fst (mixed_radix ?rs (a div tx)) = vec \<longleftrightarrow> coords_in ?rs vec \<and> flat_of ?rs vec = a div tx"
      using mixed.enc_valid[OF rs] mixed.dec_enc[OF rs] mixed.enc_dec[OF rs] by metis
    with True show ?thesis by (simp add: addr_vec_value[OF assms])
  next
    case False
    then show ?thesis by (auto simp: addr_vec_value[OF assms])
  qed
qed

theorem address_map_value_witness:
  "addr_vec_from_byte_address (PInt 1000) [''Channel'', ''Bank'', ''Row'', ''Column''] (map PInt [1, 4, 8, 32]) 8 64
     = Inr [0, 0, 3, 3]"
proof -
  have g: "geometry_ok [''Channel'', ''Bank'', ''Row'', ''Column''] [1, 4, 8, 32] 8 64"
    by (simp add: geometry_ok_def)
  show ?thesis unfolding address_map_value[OF g] by (simp add: radices_of_def coords_in_def)
qed

text \<open>
  C36: the map is a bijection between the transactions below the capacity and the valid
  coordinates: no two transactions collide and no coordinate is left without an address.
\<close>

theorem address_map_bijective:
  assumes "geometry_ok names szs ps tx"
  shows "bij_betw (\<lambda>t. addr_vec_from_byte_address (PInt (t * tx)) names (map PInt szs) ps tx)
    {0..<prod_list (radices_of szs ps)} (Inr ` {vec. coords_in (radices_of szs ps) vec})"
proof -
  let ?rs = "radices_of szs ps"
  have rs: "radices_ok ?rs" by (rule geometry_radices[OF assms])
  have tx: "0 < tx" using assms by (simp add: geometry_ok_def)
  have v: "addr_vec_from_byte_address (PInt (t * tx)) names (map PInt szs) ps tx = Inr (fst (mixed_radix ?rs t))"
    if "t \<in> {0..<prod_list ?rs}" for t
    using that tx by (simp add: addr_vec_value[OF assms] mult.commute[of t] mult_less_0_iff not_le)
  have "bij_betw (Inr \<circ> (\<lambda>t. fst (mixed_radix ?rs t))) {0..<prod_list ?rs}
      (Inr ` {vec. coords_in ?rs vec} :: (addr_error + int list) set)"
    using mixed.enc_bij[OF rs] by (rule bij_betw_trans) (simp add: bij_betw_def inj_on_def)
  then show ?thesis
    by (subst bij_betw_cong[where g = "Inr \<circ> (\<lambda>t. fst (mixed_radix ?rs t))"]) (simp_all add: v)
qed

theorem address_map_bijective_witness:
  "bij_betw (\<lambda>t. addr_vec_from_byte_address (PInt (t * 64)) [''Bank'', ''Column''] (map PInt [4, 16]) 8 64)
    {0..<8} (Inr ` {vec. coords_in [4, 2] vec})"
proof -
  have g: "geometry_ok [''Bank'', ''Column''] [4, 16] 8 64" by (simp add: geometry_ok_def)
  show ?thesis using address_map_bijective[OF g] by (simp add: radices_of_def)
qed

text \<open>
  Two addresses below the capacity have the same coordinate exactly when they lie in the
  same transaction.
\<close>

theorem address_map_transactions:
  assumes "geometry_ok names szs ps tx"
    and "0 \<le> a" "a < tx * prod_list (radices_of szs ps)" and "0 \<le> b" "b < tx * prod_list (radices_of szs ps)"
  shows "addr_vec_from_byte_address (PInt a) names (map PInt szs) ps tx =
      addr_vec_from_byte_address (PInt b) names (map PInt szs) ps tx \<longleftrightarrow> a div tx = b div tx"
proof -
  have rs: "radices_ok (radices_of szs ps)" by (rule geometry_radices[OF assms(1)])
  have tx: "0 < tx" using assms(1) by (simp add: geometry_ok_def)
  show ?thesis
    using assms(2-5) mixed.units[OF rs tx assms(2-5)] by (simp add: addr_vec_value[OF assms(1)] not_le)
qed

theorem address_map_transactions_witness:
  "addr_vec_from_byte_address (PInt 70) [''Bank'', ''Column''] (map PInt [4, 16]) 8 64 =
     addr_vec_from_byte_address (PInt 127) [''Bank'', ''Column''] (map PInt [4, 16]) 8 64"
proof -
  have g: "geometry_ok [''Bank'', ''Column''] [4, 16] 8 64" by (simp add: geometry_ok_def)
  show ?thesis by (subst address_map_transactions[OF g]) (simp_all add: radices_of_def)
qed

section \<open>Layouts\<close>

text \<open>
  C37: a layout and the address map agree. With the layout's names, sizes, prefetch and
  transaction size the map accepts exactly the addresses below the layout's capacity, and every
  coordinate it returns passes \<open>validate_addr_vec\<close> without wildcards.
\<close>

theorem layout_addresses:
  assumes "extract_dram_layout std sub od = Inr ly" and "last (ly_level_names ly) = ''Column''"
    and "distinct (ly_level_names ly)"
  shows "(is_ok (addr_vec_from_byte_address (PInt a) (ly_level_names ly) (map PInt (ly_level_sizes ly))
        (ly_prefetch ly) (ly_tx_bytes ly)) \<longleftrightarrow> 0 \<le> a \<and> a < ly_capacity_bytes ly) \<and>
    (addr_vec_from_byte_address (PInt a) (ly_level_names ly) (map PInt (ly_level_sizes ly))
        (ly_prefetch ly) (ly_tx_bytes ly) = Inr vec \<longrightarrow>
      validate_addr_vec (map PInt vec) (ly_level_names ly) (ly_level_sizes ly) False = Inr () \<and>
      list_all2 (\<lambda>n v. 0 \<le> v \<and> v < n) (ly_address_level_sizes ly) vec)"
proof -
  note g = layout_geometry[OF assms]
  have rs: "radices_ok (radices_of (ly_level_sizes ly) (ly_prefetch ly))" by (rule geometry_radices[OF g(1)])
  have len: "length (ly_level_names ly) = length (ly_level_sizes ly)" using g(1) by (simp add: geometry_ok_def)
  have "validate_addr_vec (map PInt vec) (ly_level_names ly) (ly_level_sizes ly) False = Inr () \<and>
      list_all2 (\<lambda>n v. 0 \<le> v \<and> v < n) (ly_address_level_sizes ly) vec"
    if a: "addr_vec_from_byte_address (PInt a) (ly_level_names ly) (map PInt (ly_level_sizes ly))
        (ly_prefetch ly) (ly_tx_bytes ly) = Inr vec"
  proof -
    from a have "vec = fst (mixed_radix (radices_of (ly_level_sizes ly) (ly_prefetch ly)) (a div ly_tx_bytes ly))"
      by (simp add: addr_vec_value[OF g(1)] split: if_splits)
    then have c: "coords_in (radices_of (ly_level_sizes ly) (ly_prefetch ly)) vec"
      using mixed_radix_coords[OF rs] by simp
    with validate_coords_ok[OF geometry_radices(2)[OF g(1) c] len]
    show ?thesis
      by (simp add: coords_in_def g(2))
  qed
  then show ?thesis by (simp add: addr_vec_value[OF g(1)] g(3))
qed

definition small_dram :: dram_standard where
  "small_dram = DRAMStandard
     \<lparr>std_name := ''Small'',
      std_levels := [(''Channel'', ''N/A''), (''Rank'', ''Up''), (''BankGroup'', ''N/A''), (''Bank'', ''Closed''),
                     (''Row'', ''Closed''), (''Column'', ''N/A'')]\<rparr>"

definition small_od :: dict where
  "small_od = [(''dq'', PInt 8), (''channel_width'', PInt 64), (''rank'', PInt 2), (''bankgroup'', PInt 4),
     (''bank'', PInt 2), (''row'', PInt 16), (''column'', PInt 32)]"

lemma small_layout:
  "\<exists>ly. extract_dram_layout small_dram None small_od = Inr ly \<and> ly_capacity_bytes ly = 65536 \<and>
     ly_level_names ly = [''Channel'', ''Rank'', ''BankGroup'', ''Bank'', ''Row'', ''Column'']"
proof -
  have "case extract_dram_layout small_dram None small_od of Inl _ \<Rightarrow> False
      | Inr ly \<Rightarrow> ly_capacity_bytes ly = 65536 \<and>
          ly_level_names ly = [''Channel'', ''Rank'', ''BankGroup'', ''Bank'', ''Row'', ''Column'']"
    by code_simp
  then show ?thesis by (simp split: sum.splits)
qed

theorem layout_addresses_witness:
  "\<exists>ly. extract_dram_layout small_dram None small_od = Inr ly \<and>
     is_ok (addr_vec_from_byte_address (PInt 65535) (ly_level_names ly) (map PInt (ly_level_sizes ly))
        (ly_prefetch ly) (ly_tx_bytes ly)) \<and>
     \<not> is_ok (addr_vec_from_byte_address (PInt 65536) (ly_level_names ly) (map PInt (ly_level_sizes ly))
        (ly_prefetch ly) (ly_tx_bytes ly))"
proof -
  obtain ly where ly: "extract_dram_layout small_dram None small_od = Inr ly" "ly_capacity_bytes ly = 65536"
    "ly_level_names ly = [''Channel'', ''Rank'', ''BankGroup'', ''Bank'', ''Row'', ''Column'']"
    using small_layout by blast
  have d: "last (ly_level_names ly) = ''Column''" "distinct (ly_level_names ly)" by (simp_all add: ly(3))
  show ?thesis
    using ly(1) layout_addresses[OF ly(1) d, of 65535] layout_addresses[OF ly(1) d, of 65536]
    by (auto simp: ly(2))
qed

text \<open>
  The interleave order of a layout is a permutation of the controller's bank order. It has
  the same positions with the same counts, and both have the same number of bank units.
\<close>

theorem layout_bank_order:
  assumes "extract_dram_layout std sub od = Inr ly"
  shows "mset (ly_bank_positions ly) = mset (ly_controller_bank_positions ly) \<and>
    ly_bank_counts ly = map ((!) (ly_level_sizes ly)) (ly_bank_positions ly) \<and>
    ly_controller_bank_counts ly = map ((!) (ly_level_sizes ly)) (ly_controller_bank_positions ly) \<and>
    prod_list (ly_bank_counts ly) = ly_total_bank_units ly \<and>
    prod_list (ly_controller_bank_counts ly) = ly_total_bank_units ly"
proof -
  obtain sizes where s: "ly_level_sizes ly = sizes"
    "ly_controller_bank_counts ly = map ((!) sizes) (ly_controller_bank_positions ly)"
    "ly_total_bank_units ly = prod_list (ly_controller_bank_counts ly)"
    by (rule extract_Inr[OF assms])
  with layout_banks[OF assms] show ?thesis by simp
qed

theorem layout_bank_order_witness:
  "\<exists>ly. extract_dram_layout small_dram None small_od = Inr ly \<and>
     prod_list (ly_bank_counts ly) = ly_total_bank_units ly"
  using small_layout layout_bank_order[of small_dram None small_od] by blast

end
