(* ===== verification/Std_DDR3.thy ===== *)
theory Std_DDR3
  imports Resolver
begin

text \<open>
  \<open>dram/ddr3.py\<close>: the tables of the standard as the class declares them, its
  \<open>resolve_secondary_timings\<close>, and the proof that it meets the contract \<open>dram_class\<close>.
\<close>

section \<open>Declarations and presets\<close>

definition DDR3_levels :: "(string \<times> string) list" where
  "DDR3_levels = [
      (''Channel'', ''N_A''), (''Rank'', ''N_A''), (''Bank'', ''Closed''),
      (''Row'', ''Closed''), (''Column'', ''N_A'')]"

definition DDR3_commands :: "string list" where
  "DDR3_commands = [
      ''ACT'', ''PREpb'', ''PREab'', ''RD'', ''WR'', ''RDA'', ''WRA'', ''REFab'']"

definition DDR3_states :: "string list" where
  "DDR3_states = [
      ''Opened'', ''Closed'', ''N_A'']"

definition DDR3_timing_params :: "string list" where
  "DDR3_timing_params = [
      ''rate'', ''nBL'', ''nCL'', ''nRCD'', ''nRP'', ''nRAS'', ''nRC'', ''nWR'', ''nRTP'',
      ''nCWL'', ''nCCD'', ''nRRD'', ''nWTR'', ''nFAW'', ''nRFC'', ''nREFI'', ''nCS'', ''tCK_ps'']"

definition DDR3_supported_requests :: "(string \<times> string) list" where
  "DDR3_supported_requests = [
      (''Read'', ''RD''), (''Write'', ''WR'')]"

definition DDR3_timing_constraints :: "timing_constraint list" where
  "DDR3_timing_constraints = [
    TC ''Channel'' [''RD'', ''RDA''] [''RD'', ''RDA''] ''nBL'',
    TC ''Channel'' [''WR'', ''WRA''] [''WR'', ''WRA''] ''nBL'',
    TC ''Rank'' [''RD'', ''RDA''] [''RD'', ''RDA''] ''nCCD'',
    TC ''Rank'' [''WR'', ''WRA''] [''WR'', ''WRA''] ''nCCD'',
    TC ''Rank'' [''RD'', ''RDA''] [''WR'', ''WRA''] ''nCL + nBL + 2 - nCWL'',
    TC ''Rank'' [''WR'', ''WRA''] [''RD'', ''RDA''] ''nCWL + nBL + nWTR'',
    TC_sibling ''Rank'' [''RD'', ''RDA''] [''RD'', ''RDA'', ''WR'', ''WRA''] ''nBL + nCS'',
    TC_sibling ''Rank'' [''WR'', ''WRA''] [''RD'', ''RDA''] ''nCWL + nBL + nCS - nCL'',
    TC ''Rank'' [''RD''] [''PREab''] ''nRTP'',
    TC ''Rank'' [''WR''] [''PREab''] ''nCWL + nBL + nWR'',
    TC ''Rank'' [''ACT''] [''ACT''] ''nRRD'',
    TC_window ''Rank'' [''ACT''] [''ACT''] ''nFAW'' 4,
    TC ''Rank'' [''ACT''] [''PREab''] ''nRAS'',
    TC ''Rank'' [''PREab''] [''ACT''] ''nRP'',
    TC ''Rank'' [''ACT''] [''REFab''] ''nRC'',
    TC ''Rank'' [''PREpb'', ''PREab''] [''REFab''] ''nRP'',
    TC ''Rank'' [''RDA''] [''REFab''] ''nRP + nRTP'',
    TC ''Rank'' [''WRA''] [''REFab''] ''nCWL + nBL + nWR + nRP'',
    TC ''Rank'' [''REFab''] [''ACT''] ''nRFC'',
    TC ''Bank'' [''ACT''] [''ACT''] ''nRC'',
    TC ''Bank'' [''ACT''] [''RD'', ''RDA'', ''WR'', ''WRA''] ''nRCD'',
    TC ''Bank'' [''ACT''] [''PREpb''] ''nRAS'',
    TC ''Bank'' [''PREpb''] [''ACT''] ''nRP'',
    TC ''Bank'' [''RD''] [''PREpb''] ''nRTP'',
    TC ''Bank'' [''WR''] [''PREpb''] ''nCWL + nBL + nWR'',
    TC ''Bank'' [''RDA''] [''ACT''] ''nRTP + nRP'',
    TC ''Bank'' [''WRA''] [''ACT''] ''nCWL + nBL + nWR + nRP'']"

definition DDR3_org_presets :: "(string \<times> dict) list" where
  "DDR3_org_presets = [
    (''DDR3_1Gb_x4'',
      [(''density'', PInt 1024), (''dq'', PInt 4), (''channel_width'', PInt 64),
       (''rank'', PInt 1), (''bank'', PInt 8), (''row'', PInt 16384), (''column'', PInt 2048)]),
    (''DDR3_1Gb_x8'',
      [(''density'', PInt 1024), (''dq'', PInt 8), (''channel_width'', PInt 64),
       (''rank'', PInt 1), (''bank'', PInt 8), (''row'', PInt 16384), (''column'', PInt 1024)]),
    (''DDR3_1Gb_x16'',
      [(''density'', PInt 1024), (''dq'', PInt 16), (''channel_width'', PInt 64),
       (''rank'', PInt 1), (''bank'', PInt 8), (''row'', PInt 8192), (''column'', PInt 1024)]),
    (''DDR3_2Gb_x4'',
      [(''density'', PInt 2048), (''dq'', PInt 4), (''channel_width'', PInt 64),
       (''rank'', PInt 1), (''bank'', PInt 8), (''row'', PInt 32768), (''column'', PInt 2048)]),
    (''DDR3_2Gb_x8'',
      [(''density'', PInt 2048), (''dq'', PInt 8), (''channel_width'', PInt 64),
       (''rank'', PInt 1), (''bank'', PInt 8), (''row'', PInt 32768), (''column'', PInt 1024)]),
    (''DDR3_2Gb_x16'',
      [(''density'', PInt 2048), (''dq'', PInt 16), (''channel_width'', PInt 64),
       (''rank'', PInt 1), (''bank'', PInt 8), (''row'', PInt 16384), (''column'', PInt 1024)]),
    (''DDR3_4Gb_x4'',
      [(''density'', PInt 4096), (''dq'', PInt 4), (''channel_width'', PInt 64),
       (''rank'', PInt 1), (''bank'', PInt 8), (''row'', PInt 65536), (''column'', PInt 2048)]),
    (''DDR3_4Gb_x8'',
      [(''density'', PInt 4096), (''dq'', PInt 8), (''channel_width'', PInt 64),
       (''rank'', PInt 1), (''bank'', PInt 8), (''row'', PInt 65536), (''column'', PInt 1024)]),
    (''DDR3_4Gb_x16'',
      [(''density'', PInt 4096), (''dq'', PInt 16), (''channel_width'', PInt 64),
       (''rank'', PInt 1), (''bank'', PInt 8), (''row'', PInt 32768), (''column'', PInt 1024)]),
    (''DDR3_8Gb_x4'',
      [(''density'', PInt 8192), (''dq'', PInt 4), (''channel_width'', PInt 64),
       (''rank'', PInt 1), (''bank'', PInt 8), (''row'', PInt 131072), (''column'', PInt 2048)]),
    (''DDR3_8Gb_x8'',
      [(''density'', PInt 8192), (''dq'', PInt 8), (''channel_width'', PInt 64),
       (''rank'', PInt 1), (''bank'', PInt 8), (''row'', PInt 131072), (''column'', PInt 1024)]),
    (''DDR3_8Gb_x16'',
      [(''density'', PInt 8192), (''dq'', PInt 16), (''channel_width'', PInt 64),
       (''rank'', PInt 1), (''bank'', PInt 8), (''row'', PInt 65536), (''column'', PInt 1024)])]"

definition DDR3_timing_presets :: "(string \<times> timings) list" where
  "DDR3_timing_presets = [
    (''DDR3_800D'',
      [(''rate'', 800), (''nBL'', 4), (''nCL'', 5), (''nRCD'', 5), (''nRP'', 5),
       (''nRAS'', 15), (''nRC'', 20), (''nWR'', 6), (''nRTP'', 4), (''nCWL'', 5),
       (''nCCD'', 4), (''nWTR'', 4), (''nCS'', 2), (''tCK_ps'', 2500)]),
    (''DDR3_800E'',
      [(''rate'', 800), (''nBL'', 4), (''nCL'', 6), (''nRCD'', 6), (''nRP'', 6),
       (''nRAS'', 15), (''nRC'', 21), (''nWR'', 6), (''nRTP'', 4), (''nCWL'', 5),
       (''nCCD'', 4), (''nWTR'', 4), (''nCS'', 2), (''tCK_ps'', 2500)]),
    (''DDR3_1066E'',
      [(''rate'', 1066), (''nBL'', 4), (''nCL'', 6), (''nRCD'', 6), (''nRP'', 6),
       (''nRAS'', 20), (''nRC'', 26), (''nWR'', 8), (''nRTP'', 4), (''nCWL'', 6),
       (''nCCD'', 4), (''nWTR'', 4), (''nCS'', 2), (''tCK_ps'', 1875)]),
    (''DDR3_1066F'',
      [(''rate'', 1066), (''nBL'', 4), (''nCL'', 7), (''nRCD'', 7), (''nRP'', 7),
       (''nRAS'', 20), (''nRC'', 27), (''nWR'', 8), (''nRTP'', 4), (''nCWL'', 6),
       (''nCCD'', 4), (''nWTR'', 4), (''nCS'', 2), (''tCK_ps'', 1875)]),
    (''DDR3_1066G'',
      [(''rate'', 1066), (''nBL'', 4), (''nCL'', 8), (''nRCD'', 8), (''nRP'', 8),
       (''nRAS'', 20), (''nRC'', 28), (''nWR'', 8), (''nRTP'', 4), (''nCWL'', 6),
       (''nCCD'', 4), (''nWTR'', 4), (''nCS'', 2), (''tCK_ps'', 1875)]),
    (''DDR3_1333G'',
      [(''rate'', 1333), (''nBL'', 4), (''nCL'', 8), (''nRCD'', 8), (''nRP'', 8),
       (''nRAS'', 24), (''nRC'', 32), (''nWR'', 10), (''nRTP'', 5), (''nCWL'', 7),
       (''nCCD'', 4), (''nWTR'', 5), (''nCS'', 2), (''tCK_ps'', 1500)]),
    (''DDR3_1333H'',
      [(''rate'', 1333), (''nBL'', 4), (''nCL'', 9), (''nRCD'', 9), (''nRP'', 9),
       (''nRAS'', 24), (''nRC'', 33), (''nWR'', 10), (''nRTP'', 5), (''nCWL'', 7),
       (''nCCD'', 4), (''nWTR'', 5), (''nCS'', 2), (''tCK_ps'', 1500)]),
    (''DDR3_1600H'',
      [(''rate'', 1600), (''nBL'', 4), (''nCL'', 9), (''nRCD'', 9), (''nRP'', 9),
       (''nRAS'', 28), (''nRC'', 37), (''nWR'', 12), (''nRTP'', 6), (''nCWL'', 8),
       (''nCCD'', 4), (''nWTR'', 6), (''nCS'', 2), (''tCK_ps'', 1250)]),
    (''DDR3_1600J'',
      [(''rate'', 1600), (''nBL'', 4), (''nCL'', 10), (''nRCD'', 10), (''nRP'', 10),
       (''nRAS'', 28), (''nRC'', 38), (''nWR'', 12), (''nRTP'', 6), (''nCWL'', 8),
       (''nCCD'', 4), (''nWTR'', 6), (''nCS'', 2), (''tCK_ps'', 1250)]),
    (''DDR3_1600K'',
      [(''rate'', 1600), (''nBL'', 4), (''nCL'', 11), (''nRCD'', 11), (''nRP'', 11),
       (''nRAS'', 28), (''nRC'', 39), (''nWR'', 12), (''nRTP'', 6), (''nCWL'', 8),
       (''nCCD'', 4), (''nWTR'', 6), (''nCS'', 2), (''tCK_ps'', 1250)]),
    (''DDR3_1866K'',
      [(''rate'', 1866), (''nBL'', 4), (''nCL'', 11), (''nRCD'', 11), (''nRP'', 11),
       (''nRAS'', 32), (''nRC'', 43), (''nWR'', 14), (''nRTP'', 7), (''nCWL'', 9),
       (''nCCD'', 4), (''nWTR'', 7), (''nCS'', 2), (''tCK_ps'', 1071)]),
    (''DDR3_1866L'',
      [(''rate'', 1866), (''nBL'', 4), (''nCL'', 12), (''nRCD'', 12), (''nRP'', 12),
       (''nRAS'', 32), (''nRC'', 44), (''nWR'', 14), (''nRTP'', 7), (''nCWL'', 9),
       (''nCCD'', 4), (''nWTR'', 7), (''nCS'', 2), (''tCK_ps'', 1071)]),
    (''DDR3_2133L'',
      [(''rate'', 2133), (''nBL'', 4), (''nCL'', 12), (''nRCD'', 12), (''nRP'', 12),
       (''nRAS'', 36), (''nRC'', 48), (''nWR'', 16), (''nRTP'', 8), (''nCWL'', 10),
       (''nCCD'', 4), (''nWTR'', 8), (''nCS'', 2), (''tCK_ps'', 937)]),
    (''DDR3_2133M'',
      [(''rate'', 2133), (''nBL'', 4), (''nCL'', 13), (''nRCD'', 13), (''nRP'', 13),
       (''nRAS'', 36), (''nRC'', 49), (''nWR'', 16), (''nRTP'', 8), (''nCWL'', 10),
       (''nCCD'', 4), (''nWTR'', 8), (''nCS'', 2), (''tCK_ps'', 937)])]"

section \<open>Secondary timings\<close>

definition DDR3_resolve_nRRD :: "int \<Rightarrow> int \<Rightarrow> int" where
  "DDR3_resolve_nRRD dq rate =
     (if dq \<le> 8 then
        if rate \<le> 1333 then 4 else if rate \<le> 1866 then 5 else if rate \<le> 2133 then 6 else - 1
      else
        if rate \<le> 800 then 4 else if rate \<le> 1066 then 6 else if rate \<le> 1333 then 5
        else if rate \<le> 1866 then 6 else if rate \<le> 2133 then 7 else - 1)"

definition DDR3_resolve_nFAW :: "int \<Rightarrow> int \<Rightarrow> int" where
  "DDR3_resolve_nFAW dq rate =
     (if dq \<le> 8 then
        if rate \<le> 800 then 16 else if rate \<le> 1333 then 20 else if rate \<le> 1600 then 24
        else if rate \<le> 1866 then 26 else if rate \<le> 2133 then 27 else - 1
      else
        if rate \<le> 800 then 20 else if rate \<le> 1066 then 27 else if rate \<le> 1333 then 30
        else if rate \<le> 1600 then 32 else if rate \<le> 1866 then 33 else if rate \<le> 2133 then 34 else - 1)"

definition DDR3_resolve_nRFC :: "int \<Rightarrow> int \<Rightarrow> dram_error + int" where
  "DDR3_resolve_nRFC density tCK =
     (if density \<le> 1024 then ceil_q (110 * 1000) tCK
      else if density \<le> 2048 then ceil_q (160 * 1000) tCK
      else if density \<le> 4096 then ceil_q (260 * 1000) tCK
      else if density \<le> 8192 then ceil_q (350 * 1000) tCK
      else Inr (- 1))"

definition DDR3_resolve_nREFI :: "int \<Rightarrow> dram_error + int" where
  "DDR3_resolve_nREFI tCK = ceil_q 7800000 tCK"

definition DDR3_resolve_secondary_timings :: "timings \<Rightarrow> dict \<Rightarrow> dram_error + timings" where
  "DDR3_resolve_secondary_timings td od =
     rbind (assign ''nRRD''
       (rlift2 DDR3_resolve_nRRD (dict_int od ''dq'') (dict_get td ''rate'')) td) (\<lambda>td.
     rbind (assign ''nFAW''
       (rlift2 DDR3_resolve_nFAW (dict_int od ''dq'') (dict_get td ''rate'')) td) (\<lambda>td.
     rbind (assign ''nRFC''
       (rbind (dict_int od ''density'') (\<lambda>d. rbind (dict_get td ''tCK_ps'') (DDR3_resolve_nRFC d))) td) (\<lambda>td.
     assign ''nREFI'' (rbind (dict_get td ''tCK_ps'') DDR3_resolve_nREFI) td)))"

definition DDR3 :: dram_standard where
  "DDR3 = DRAMStandard
     \<lparr>std_name := ''DDR3'',
      std_levels := DDR3_levels,
      std_commands := DDR3_commands,
      std_states := DDR3_states,
      std_timing_params := DDR3_timing_params,
      std_supported_requests := DDR3_supported_requests,
      std_constraints := DDR3_timing_constraints,
      std_org_presets := DDR3_org_presets,
      std_timing_presets := DDR3_timing_presets,
      std_internal_prefetch := 8,
      std_read_latency := ''nCL + nBL'',
      std_resolve_secondary := DDR3_resolve_secondary_timings\<rparr>"

lemma DDR3_fields:
  "std_levels DDR3 = DDR3_levels"
  "std_commands DDR3 = DDR3_commands"
  "std_states DDR3 = DDR3_states"
  "std_timing_params DDR3 = DDR3_timing_params"
  "std_supported_requests DDR3 = DDR3_supported_requests"
  "std_constraints DDR3 = DDR3_timing_constraints"
  "std_command_cycles DDR3 = []"
  "std_tick_multiplier DDR3 = 1"
  "std_payload DDR3 = None"
  "std_read_latency DDR3 = ''nCL + nBL''"
  "std_row_commands DDR3 = []"
  "std_column_commands DDR3 = []"
  "std_org_presets DDR3 = DDR3_org_presets"
  "std_timing_presets DDR3 = DDR3_timing_presets"
  "std_resolve_secondary DDR3 = DDR3_resolve_secondary_timings"
  by (simp_all add: DDR3_def DRAMStandard_def)

section \<open>The contract\<close>

definition DDR3_provided :: "string list" where
  "DDR3_provided = [''nRRD'', ''nFAW'', ''nRFC'', ''nREFI'']"

definition DDR3_org_ranges :: "(string \<times> int) list" where
  "DDR3_org_ranges = [(''dq'', 16), (''density'', 8192)]"

lemma DDR3_resolves:
  assumes "timings_given DDR3 DDR3_provided td" and "clock_in 2133 td" and "org_within DDR3_org_ranges od"
  shows "\<exists>td'. std_resolve_secondary DDR3 td od = Inr td' \<and> timings_cover DDR3 td'"
proof -
  obtain t r where t: "dget td ''tCK_ps'' = Some t" "0 < t" "dget td ''rate'' = Some r" "0 < r" "r \<le> 2133"
    by (rule clock_inD[OF assms(2)])
  obtain q d where o: "dget od ''dq'' = Some (PInt q)" "dget od ''density'' = Some (PInt d)" "d \<le> 8192"
    using assms(3) by (auto simp: DDR3_org_ranges_def dest!: org_intD)
  have tables: "0 \<le> DDR3_resolve_nRRD q r" "0 \<le> DDR3_resolve_nFAW q r"
    using t by (simp_all add: DDR3_resolve_nRRD_def DDR3_resolve_nFAW_def)
  have "\<exists>rfc. DDR3_resolve_nRFC d t = Inr rfc \<and> 0 \<le> rfc"
    using t o by (simp add: DDR3_resolve_nRFC_def ceil_q_pos ceil_div_nonneg)
  then obtain rfc where rfc: "DDR3_resolve_nRFC d t = Inr rfc" "0 \<le> rfc" by blast
  have "std_resolve_secondary DDR3 td od = Inr (dset ''nREFI'' (ceil_div 7800000 t) (dset ''nRFC'' rfc
      (dset ''nFAW'' (DDR3_resolve_nFAW q r) (dset ''nRRD'' (DDR3_resolve_nRRD q r) td))))"
    using t o rfc by (simp add: DDR3_def DDR3_resolve_secondary_timings_def DDR3_resolve_nREFI_def
        resolver_simps dict_simps)
  moreover have "timings_cover DDR3 (dset ''nREFI'' (ceil_div 7800000 t) (dset ''nRFC'' rfc
      (dset ''nFAW'' (DDR3_resolve_nFAW q r) (dset ''nRRD'' (DDR3_resolve_nRRD q r) td))))"
    using timings_givenD(1)[OF assms(1)] tables rfc t
    by (intro cover_provided[OF assms(1)]) (auto simp: dict_simps DDR3_provided_def ceil_div_nonneg)
  ultimately show ?thesis by blast
qed

lemma DDR3_wf: "std_wf DDR3"
  by (rule std_wf_check; unfold DDR3_fields; code_simp)

lemma DDR3_head: "head_ok DDR3"
  unfolding head_ok_def DDR3_fields by code_simp

lemma DDR3_uniform: "uniform_check (std_tick_multiplier DDR3) (std_cyc DDR3) (std_constraints DDR3)"
  unfolding DDR3_fields by code_simp

lemma DDR3_orgs:
  "orgs_check (hierarchy_fields DDR3) (std_payload DDR3) DDR3_org_ranges (std_org_presets DDR3)"
  "case std_payload DDR3 of None \<Rightarrow> True | Some p \<Rightarrow> 0 < p"
  unfolding hierarchy_fields_def level_keys_def DDR3_fields by code_simp+

lemma DDR3_speeds:
  "speeds_check (filter (\<lambda>k. k \<notin> set DDR3_provided) (std_timing_params DDR3)) (std_timing_presets DDR3)"
  "list_all (\<lambda>p. clock_in 2133 (snd p)) (std_timing_presets DDR3)"
  unfolding DDR3_fields by code_simp+

interpretation ddr3: dram_class DDR3 DDR3_provided "clock_in 2133" "org_within DDR3_org_ranges"
  by (rule dram_class_check[OF DDR3_wf DDR3_head DDR3_uniform DDR3_orgs DDR3_speeds DDR3_resolves])

end
