(* ===== verification/Std_DDR4.thy ===== *)
theory Std_DDR4
  imports Resolver
begin

text \<open>
  \<open>dram/ddr4.py\<close> and \<open>dram/ddr4_vrr.py\<close>: DDR4 and its variant with the victim-row refresh
  command, which inherits the tables and the resolver and derives one timing per preset.
\<close>

section \<open>Declarations and presets\<close>

definition DDR4_levels :: "(string \<times> string) list" where
  "DDR4_levels = [
      (''Channel'', ''N_A''), (''Rank'', ''N_A''), (''BankGroup'', ''N_A''),
      (''Bank'', ''Closed''), (''Row'', ''Closed''), (''Column'', ''N_A'')]"

definition DDR4_commands :: "string list" where
  "DDR4_commands = [
      ''ACT'', ''PREpb'', ''PREab'', ''RD'', ''WR'', ''RDA'', ''WRA'', ''REFab'']"

definition DDR4_states :: "string list" where
  "DDR4_states = [
      ''Opened'', ''Closed'', ''N_A'']"

definition DDR4_timing_params :: "string list" where
  "DDR4_timing_params = [
      ''rate'', ''nBL'', ''nCL'', ''nRCD'', ''nRP'', ''nRAS'', ''nRC'', ''nWR'', ''nRTP'',
      ''nCWL'', ''nCCDS'', ''nCCDL'', ''nRRDS'', ''nRRDL'', ''nWTRS'', ''nWTRL'', ''nFAW'',
      ''nRFC'', ''nREFI'', ''nCS'', ''tCK_ps'']"

definition DDR4_supported_requests :: "(string \<times> string) list" where
  "DDR4_supported_requests = [
      (''Read'', ''RD''), (''Write'', ''WR'')]"

definition DDR4_timing_constraints :: "timing_constraint list" where
  "DDR4_timing_constraints = [
    TC ''Channel'' [''RD'', ''RDA''] [''RD'', ''RDA''] ''nBL'',
    TC ''Channel'' [''WR'', ''WRA''] [''WR'', ''WRA''] ''nBL'',
    TC ''Rank'' [''RD'', ''RDA''] [''RD'', ''RDA''] ''nCCDS'',
    TC ''Rank'' [''WR'', ''WRA''] [''WR'', ''WRA''] ''nCCDS'',
    TC ''Rank'' [''RD'', ''RDA''] [''WR'', ''WRA''] ''nCL + nBL + 2 - nCWL'',
    TC ''Rank'' [''WR'', ''WRA''] [''RD'', ''RDA''] ''nCWL + nBL + nWTRS'',
    TC_sibling ''Rank'' [''RD'', ''RDA''] [''RD'', ''RDA'', ''WR'', ''WRA''] ''nBL + nCS'',
    TC_sibling ''Rank'' [''WR'', ''WRA''] [''RD'', ''RDA''] ''nCWL + nBL + nCS - nCL'',
    TC ''Rank'' [''RD''] [''PREab''] ''nRTP'',
    TC ''Rank'' [''WR''] [''PREab''] ''nCWL + nBL + nWR'',
    TC ''Rank'' [''ACT''] [''ACT''] ''nRRDS'',
    TC_window ''Rank'' [''ACT''] [''ACT''] ''nFAW'' 4,
    TC ''Rank'' [''ACT''] [''PREab''] ''nRAS'',
    TC ''Rank'' [''PREab''] [''ACT''] ''nRP'',
    TC ''Rank'' [''ACT''] [''REFab''] ''nRC'',
    TC ''Rank'' [''PREpb'', ''PREab''] [''REFab''] ''nRP'',
    TC ''Rank'' [''RDA''] [''REFab''] ''nRP + nRTP'',
    TC ''Rank'' [''WRA''] [''REFab''] ''nCWL + nBL + nWR + nRP'',
    TC ''Rank'' [''REFab''] [''ACT'', ''PREab''] ''nRFC'',
    TC ''BankGroup'' [''RD'', ''RDA''] [''RD'', ''RDA''] ''nCCDL'',
    TC ''BankGroup'' [''WR'', ''WRA''] [''WR'', ''WRA''] ''nCCDL'',
    TC ''BankGroup'' [''WR'', ''WRA''] [''RD'', ''RDA''] ''nCWL + nBL + nWTRL'',
    TC ''BankGroup'' [''ACT''] [''ACT''] ''nRRDL'',
    TC ''Bank'' [''ACT''] [''ACT''] ''nRC'',
    TC ''Bank'' [''ACT''] [''RD'', ''RDA'', ''WR'', ''WRA''] ''nRCD'',
    TC ''Bank'' [''ACT''] [''PREpb''] ''nRAS'',
    TC ''Bank'' [''PREpb''] [''ACT''] ''nRP'',
    TC ''Bank'' [''RD''] [''PREpb''] ''nRTP'',
    TC ''Bank'' [''WR''] [''PREpb''] ''nCWL + nBL + nWR'',
    TC ''Bank'' [''RDA''] [''ACT''] ''nRTP + nRP'',
    TC ''Bank'' [''WRA''] [''ACT''] ''nCWL + nBL + nWR + nRP'']"

definition DDR4_org_presets :: "(string \<times> dict) list" where
  "DDR4_org_presets = [
    (''DDR4_2Gb_x4'',
      [(''density'', PInt 2048), (''dq'', PInt 4), (''channel_width'', PInt 64),
       (''rank'', PInt 1), (''bankgroup'', PInt 4), (''bank'', PInt 4), (''row'', PInt 32768),
       (''column'', PInt 1024)]),
    (''DDR4_2Gb_x8'',
      [(''density'', PInt 2048), (''dq'', PInt 8), (''channel_width'', PInt 64),
       (''rank'', PInt 1), (''bankgroup'', PInt 4), (''bank'', PInt 4), (''row'', PInt 16384),
       (''column'', PInt 1024)]),
    (''DDR4_2Gb_x16'',
      [(''density'', PInt 2048), (''dq'', PInt 16), (''channel_width'', PInt 64),
       (''rank'', PInt 1), (''bankgroup'', PInt 2), (''bank'', PInt 4), (''row'', PInt 16384),
       (''column'', PInt 1024)]),
    (''DDR4_4Gb_x4'',
      [(''density'', PInt 4096), (''dq'', PInt 4), (''channel_width'', PInt 64),
       (''rank'', PInt 1), (''bankgroup'', PInt 4), (''bank'', PInt 4), (''row'', PInt 65536),
       (''column'', PInt 1024)]),
    (''DDR4_4Gb_x8'',
      [(''density'', PInt 4096), (''dq'', PInt 8), (''channel_width'', PInt 64),
       (''rank'', PInt 1), (''bankgroup'', PInt 4), (''bank'', PInt 4), (''row'', PInt 32768),
       (''column'', PInt 1024)]),
    (''DDR4_4Gb_x16'',
      [(''density'', PInt 4096), (''dq'', PInt 16), (''channel_width'', PInt 64),
       (''rank'', PInt 1), (''bankgroup'', PInt 2), (''bank'', PInt 4), (''row'', PInt 32768),
       (''column'', PInt 1024)]),
    (''DDR4_8Gb_x4'',
      [(''density'', PInt 8192), (''dq'', PInt 4), (''channel_width'', PInt 64),
       (''rank'', PInt 1), (''bankgroup'', PInt 4), (''bank'', PInt 4), (''row'', PInt 131072),
       (''column'', PInt 1024)]),
    (''DDR4_8Gb_x8'',
      [(''density'', PInt 8192), (''dq'', PInt 8), (''channel_width'', PInt 64),
       (''rank'', PInt 1), (''bankgroup'', PInt 4), (''bank'', PInt 4), (''row'', PInt 65536),
       (''column'', PInt 1024)]),
    (''DDR4_8Gb_x16'',
      [(''density'', PInt 8192), (''dq'', PInt 16), (''channel_width'', PInt 64),
       (''rank'', PInt 1), (''bankgroup'', PInt 2), (''bank'', PInt 4), (''row'', PInt 65536),
       (''column'', PInt 1024)]),
    (''DDR4_16Gb_x4'',
      [(''density'', PInt 16384), (''dq'', PInt 4), (''channel_width'', PInt 64),
       (''rank'', PInt 1), (''bankgroup'', PInt 4), (''bank'', PInt 4), (''row'', PInt 262144),
       (''column'', PInt 1024)]),
    (''DDR4_16Gb_x8'',
      [(''density'', PInt 16384), (''dq'', PInt 8), (''channel_width'', PInt 64),
       (''rank'', PInt 1), (''bankgroup'', PInt 4), (''bank'', PInt 4), (''row'', PInt 131072),
       (''column'', PInt 1024)]),
    (''DDR4_16Gb_x16'',
      [(''density'', PInt 16384), (''dq'', PInt 16), (''channel_width'', PInt 64),
       (''rank'', PInt 1), (''bankgroup'', PInt 2), (''bank'', PInt 4), (''row'', PInt 131072),
       (''column'', PInt 1024)])]"

definition DDR4_timing_presets :: "(string \<times> timings) list" where
  "DDR4_timing_presets = [
    (''DDR4_1600J'',
      [(''rate'', 1600), (''nBL'', 4), (''nCL'', 10), (''nRCD'', 10), (''nRP'', 10),
       (''nRAS'', 28), (''nRC'', 38), (''nWR'', 12), (''nRTP'', 6), (''nCWL'', 9),
       (''nCCDS'', 4), (''nCCDL'', 5), (''nWTRS'', 2), (''nWTRL'', 6), (''nCS'', 2),
       (''tCK_ps'', 1250)]),
    (''DDR4_1600K'',
      [(''rate'', 1600), (''nBL'', 4), (''nCL'', 11), (''nRCD'', 11), (''nRP'', 11),
       (''nRAS'', 28), (''nRC'', 39), (''nWR'', 12), (''nRTP'', 6), (''nCWL'', 9),
       (''nCCDS'', 4), (''nCCDL'', 5), (''nWTRS'', 2), (''nWTRL'', 6), (''nCS'', 2),
       (''tCK_ps'', 1250)]),
    (''DDR4_1600L'',
      [(''rate'', 1600), (''nBL'', 4), (''nCL'', 12), (''nRCD'', 12), (''nRP'', 12),
       (''nRAS'', 28), (''nRC'', 40), (''nWR'', 12), (''nRTP'', 6), (''nCWL'', 9),
       (''nCCDS'', 4), (''nCCDL'', 5), (''nWTRS'', 2), (''nWTRL'', 6), (''nCS'', 2),
       (''tCK_ps'', 1250)]),
    (''DDR4_1866L'',
      [(''rate'', 1866), (''nBL'', 4), (''nCL'', 12), (''nRCD'', 12), (''nRP'', 12),
       (''nRAS'', 32), (''nRC'', 44), (''nWR'', 14), (''nRTP'', 7), (''nCWL'', 10),
       (''nCCDS'', 4), (''nCCDL'', 5), (''nWTRS'', 3), (''nWTRL'', 7), (''nCS'', 2),
       (''tCK_ps'', 1071)]),
    (''DDR4_1866M'',
      [(''rate'', 1866), (''nBL'', 4), (''nCL'', 13), (''nRCD'', 13), (''nRP'', 13),
       (''nRAS'', 32), (''nRC'', 45), (''nWR'', 14), (''nRTP'', 7), (''nCWL'', 10),
       (''nCCDS'', 4), (''nCCDL'', 5), (''nWTRS'', 3), (''nWTRL'', 7), (''nCS'', 2),
       (''tCK_ps'', 1071)]),
    (''DDR4_1866N'',
      [(''rate'', 1866), (''nBL'', 4), (''nCL'', 14), (''nRCD'', 14), (''nRP'', 14),
       (''nRAS'', 32), (''nRC'', 46), (''nWR'', 14), (''nRTP'', 7), (''nCWL'', 10),
       (''nCCDS'', 4), (''nCCDL'', 5), (''nWTRS'', 3), (''nWTRL'', 7), (''nCS'', 2),
       (''tCK_ps'', 1071)]),
    (''DDR4_2133N'',
      [(''rate'', 2133), (''nBL'', 4), (''nCL'', 14), (''nRCD'', 14), (''nRP'', 14),
       (''nRAS'', 36), (''nRC'', 50), (''nWR'', 16), (''nRTP'', 8), (''nCWL'', 11),
       (''nCCDS'', 4), (''nCCDL'', 6), (''nWTRS'', 3), (''nWTRL'', 8), (''nCS'', 2),
       (''tCK_ps'', 937)]),
    (''DDR4_2133P'',
      [(''rate'', 2133), (''nBL'', 4), (''nCL'', 15), (''nRCD'', 15), (''nRP'', 15),
       (''nRAS'', 36), (''nRC'', 51), (''nWR'', 16), (''nRTP'', 8), (''nCWL'', 11),
       (''nCCDS'', 4), (''nCCDL'', 6), (''nWTRS'', 3), (''nWTRL'', 8), (''nCS'', 2),
       (''tCK_ps'', 937)]),
    (''DDR4_2133R'',
      [(''rate'', 2133), (''nBL'', 4), (''nCL'', 16), (''nRCD'', 16), (''nRP'', 16),
       (''nRAS'', 36), (''nRC'', 52), (''nWR'', 16), (''nRTP'', 8), (''nCWL'', 11),
       (''nCCDS'', 4), (''nCCDL'', 6), (''nWTRS'', 3), (''nWTRL'', 8), (''nCS'', 2),
       (''tCK_ps'', 937)]),
    (''DDR4_2400P'',
      [(''rate'', 2400), (''nBL'', 4), (''nCL'', 15), (''nRCD'', 15), (''nRP'', 15),
       (''nRAS'', 39), (''nRC'', 54), (''nWR'', 18), (''nRTP'', 9), (''nCWL'', 12),
       (''nCCDS'', 4), (''nCCDL'', 6), (''nWTRS'', 3), (''nWTRL'', 9), (''nCS'', 2),
       (''tCK_ps'', 833)]),
    (''DDR4_2400R'',
      [(''rate'', 2400), (''nBL'', 4), (''nCL'', 16), (''nRCD'', 16), (''nRP'', 16),
       (''nRAS'', 39), (''nRC'', 55), (''nWR'', 18), (''nRTP'', 9), (''nCWL'', 12),
       (''nCCDS'', 4), (''nCCDL'', 6), (''nWTRS'', 3), (''nWTRL'', 9), (''nCS'', 2),
       (''tCK_ps'', 833)]),
    (''DDR4_2400U'',
      [(''rate'', 2400), (''nBL'', 4), (''nCL'', 17), (''nRCD'', 17), (''nRP'', 17),
       (''nRAS'', 39), (''nRC'', 56), (''nWR'', 18), (''nRTP'', 9), (''nCWL'', 12),
       (''nCCDS'', 4), (''nCCDL'', 6), (''nWTRS'', 3), (''nWTRL'', 9), (''nCS'', 2),
       (''tCK_ps'', 833)]),
    (''DDR4_2400T'',
      [(''rate'', 2400), (''nBL'', 4), (''nCL'', 18), (''nRCD'', 18), (''nRP'', 18),
       (''nRAS'', 39), (''nRC'', 57), (''nWR'', 18), (''nRTP'', 9), (''nCWL'', 12),
       (''nCCDS'', 4), (''nCCDL'', 6), (''nWTRS'', 3), (''nWTRL'', 9), (''nCS'', 2),
       (''tCK_ps'', 833)]),
    (''DDR4_2666T'',
      [(''rate'', 2666), (''nBL'', 4), (''nCL'', 17), (''nRCD'', 17), (''nRP'', 17),
       (''nRAS'', 43), (''nRC'', 60), (''nWR'', 20), (''nRTP'', 10), (''nCWL'', 14),
       (''nCCDS'', 4), (''nCCDL'', 7), (''nWTRS'', 4), (''nWTRL'', 10), (''nCS'', 2),
       (''tCK_ps'', 750)]),
    (''DDR4_2666U'',
      [(''rate'', 2666), (''nBL'', 4), (''nCL'', 18), (''nRCD'', 18), (''nRP'', 18),
       (''nRAS'', 43), (''nRC'', 61), (''nWR'', 20), (''nRTP'', 10), (''nCWL'', 14),
       (''nCCDS'', 4), (''nCCDL'', 7), (''nWTRS'', 4), (''nWTRL'', 10), (''nCS'', 2),
       (''tCK_ps'', 750)]),
    (''DDR4_2666V'',
      [(''rate'', 2666), (''nBL'', 4), (''nCL'', 19), (''nRCD'', 19), (''nRP'', 19),
       (''nRAS'', 43), (''nRC'', 62), (''nWR'', 20), (''nRTP'', 10), (''nCWL'', 14),
       (''nCCDS'', 4), (''nCCDL'', 7), (''nWTRS'', 4), (''nWTRL'', 10), (''nCS'', 2),
       (''tCK_ps'', 750)]),
    (''DDR4_2666W'',
      [(''rate'', 2666), (''nBL'', 4), (''nCL'', 20), (''nRCD'', 20), (''nRP'', 20),
       (''nRAS'', 43), (''nRC'', 63), (''nWR'', 20), (''nRTP'', 10), (''nCWL'', 14),
       (''nCCDS'', 4), (''nCCDL'', 7), (''nWTRS'', 4), (''nWTRL'', 10), (''nCS'', 2),
       (''tCK_ps'', 750)]),
    (''DDR4_2933V'',
      [(''rate'', 2933), (''nBL'', 4), (''nCL'', 19), (''nRCD'', 19), (''nRP'', 19),
       (''nRAS'', 47), (''nRC'', 66), (''nWR'', 22), (''nRTP'', 11), (''nCWL'', 16),
       (''nCCDS'', 4), (''nCCDL'', 8), (''nWTRS'', 4), (''nWTRL'', 11), (''nCS'', 2),
       (''tCK_ps'', 682)]),
    (''DDR4_2933W'',
      [(''rate'', 2933), (''nBL'', 4), (''nCL'', 20), (''nRCD'', 20), (''nRP'', 20),
       (''nRAS'', 47), (''nRC'', 67), (''nWR'', 22), (''nRTP'', 11), (''nCWL'', 16),
       (''nCCDS'', 4), (''nCCDL'', 8), (''nWTRS'', 4), (''nWTRL'', 11), (''nCS'', 2),
       (''tCK_ps'', 682)]),
    (''DDR4_2933Y'',
      [(''rate'', 2933), (''nBL'', 4), (''nCL'', 21), (''nRCD'', 21), (''nRP'', 21),
       (''nRAS'', 47), (''nRC'', 68), (''nWR'', 22), (''nRTP'', 11), (''nCWL'', 16),
       (''nCCDS'', 4), (''nCCDL'', 8), (''nWTRS'', 4), (''nWTRL'', 11), (''nCS'', 2),
       (''tCK_ps'', 682)]),
    (''DDR4_2933AA'',
      [(''rate'', 2933), (''nBL'', 4), (''nCL'', 22), (''nRCD'', 22), (''nRP'', 22),
       (''nRAS'', 47), (''nRC'', 69), (''nWR'', 22), (''nRTP'', 11), (''nCWL'', 16),
       (''nCCDS'', 4), (''nCCDL'', 8), (''nWTRS'', 4), (''nWTRL'', 11), (''nCS'', 2),
       (''tCK_ps'', 682)]),
    (''DDR4_3200W'',
      [(''rate'', 3200), (''nBL'', 4), (''nCL'', 20), (''nRCD'', 20), (''nRP'', 20),
       (''nRAS'', 52), (''nRC'', 72), (''nWR'', 24), (''nRTP'', 12), (''nCWL'', 16),
       (''nCCDS'', 4), (''nCCDL'', 8), (''nWTRS'', 4), (''nWTRL'', 12), (''nCS'', 2),
       (''tCK_ps'', 625)]),
    (''DDR4_3200AA'',
      [(''rate'', 3200), (''nBL'', 4), (''nCL'', 22), (''nRCD'', 22), (''nRP'', 22),
       (''nRAS'', 52), (''nRC'', 74), (''nWR'', 24), (''nRTP'', 12), (''nCWL'', 16),
       (''nCCDS'', 4), (''nCCDL'', 8), (''nWTRS'', 4), (''nWTRL'', 12), (''nCS'', 2),
       (''tCK_ps'', 625)]),
    (''DDR4_3200AC'',
      [(''rate'', 3200), (''nBL'', 4), (''nCL'', 24), (''nRCD'', 24), (''nRP'', 24),
       (''nRAS'', 52), (''nRC'', 76), (''nWR'', 24), (''nRTP'', 12), (''nCWL'', 16),
       (''nCCDS'', 4), (''nCCDL'', 8), (''nWTRS'', 4), (''nWTRL'', 12), (''nCS'', 2),
       (''tCK_ps'', 625)])]"

section \<open>Secondary timings\<close>

definition DDR4_resolve_nRRDS :: "int \<Rightarrow> int \<Rightarrow> int" where
  "DDR4_resolve_nRRDS dq rate =
     (if dq \<le> 8 then 4
      else if rate \<le> 1866 then 5 else if rate \<le> 2133 then 6 else if rate \<le> 2400 then 7
      else if rate \<le> 2933 then 8 else if rate \<le> 3200 then 9 else - 1)"

definition DDR4_resolve_nRRDL :: "int \<Rightarrow> int \<Rightarrow> int" where
  "DDR4_resolve_nRRDL dq rate =
     (if dq \<le> 8 then
        if rate \<le> 1866 then 5 else if rate \<le> 2400 then 6 else if rate \<le> 2666 then 7
        else if rate \<le> 3200 then 8 else - 1
      else
        if rate \<le> 1866 then 6 else if rate \<le> 2133 then 7 else if rate \<le> 2400 then 8
        else if rate \<le> 2666 then 9 else if rate \<le> 2933 then 10 else if rate \<le> 3200 then 11 else - 1)"

definition DDR4_resolve_nFAW :: "int \<Rightarrow> int \<Rightarrow> int" where
  "DDR4_resolve_nFAW dq rate =
     (if dq \<le> 4 then 16
      else if dq \<le> 8 then
        if rate \<le> 1600 then 20 else if rate \<le> 1866 then 22 else if rate \<le> 2133 then 23
        else if rate \<le> 2400 then 26 else if rate \<le> 2666 then 28 else if rate \<le> 2933 then 31
        else if rate \<le> 3200 then 34 else - 1
      else
        if rate \<le> 1866 then 28 else if rate \<le> 2133 then 32 else if rate \<le> 2400 then 36
        else if rate \<le> 2666 then 40 else if rate \<le> 2933 then 44 else if rate \<le> 3200 then 48 else - 1)"

definition DDR4_resolve_nRFC :: "int \<Rightarrow> int \<Rightarrow> dram_error + int" where
  "DDR4_resolve_nRFC density tCK =
     (if density \<le> 2048 then ceil_q (160 * 1000) tCK
      else if density \<le> 4096 then ceil_q (260 * 1000) tCK
      else if density \<le> 8192 then ceil_q (360 * 1000) tCK
      else if density \<le> 16384 then ceil_q (550 * 1000) tCK
      else Inr (- 1))"

definition DDR4_resolve_nREFI :: "int \<Rightarrow> dram_error + int" where
  "DDR4_resolve_nREFI tCK = ceil_q 7800000 tCK"

definition DDR4_resolve_secondary_timings :: "timings \<Rightarrow> dict \<Rightarrow> dram_error + timings" where
  "DDR4_resolve_secondary_timings td od =
     rbind (assign ''nRRDS''
       (rlift2 DDR4_resolve_nRRDS (dict_int od ''dq'') (dict_get td ''rate'')) td) (\<lambda>td.
     rbind (assign ''nRRDL''
       (rlift2 DDR4_resolve_nRRDL (dict_int od ''dq'') (dict_get td ''rate'')) td) (\<lambda>td.
     rbind (assign ''nFAW''
       (rlift2 DDR4_resolve_nFAW (dict_int od ''dq'') (dict_get td ''rate'')) td) (\<lambda>td.
     rbind (assign ''nRFC''
       (rbind (dict_int od ''density'') (\<lambda>d. rbind (dict_get td ''tCK_ps'') (DDR4_resolve_nRFC d))) td) (\<lambda>td.
     assign ''nREFI'' (rbind (dict_get td ''tCK_ps'') DDR4_resolve_nREFI) td))))"

definition DDR4 :: dram_standard where
  "DDR4 = DRAMStandard
     \<lparr>std_name := ''DDR4'',
      std_levels := DDR4_levels,
      std_commands := DDR4_commands,
      std_states := DDR4_states,
      std_timing_params := DDR4_timing_params,
      std_supported_requests := DDR4_supported_requests,
      std_constraints := DDR4_timing_constraints,
      std_org_presets := DDR4_org_presets,
      std_timing_presets := DDR4_timing_presets,
      std_internal_prefetch := 8,
      std_read_latency := ''nCL + nBL'',
      std_resolve_secondary := DDR4_resolve_secondary_timings\<rparr>"

section \<open>DDR4 with victim-row refresh\<close>

definition DDR4_VRR_timing_constraints :: "timing_constraint list" where
  "DDR4_VRR_timing_constraints = DDR4_timing_constraints @ [
    TC ''Bank'' [''VRR''] [''ACT''] ''nVRR'',
    TC ''Bank'' [''ACT''] [''VRR''] ''nRC'',
    TC ''Rank'' [''PREpb'', ''PREab''] [''VRR''] ''nRP'']"

definition DDR4_VRR_timing_presets :: "(string \<times> timings) list" where
  "DDR4_VRR_timing_presets =
     map (\<lambda>(name, td). (name, with_timing ''nVRR'' (ceil_div 280000) td)) DDR4_timing_presets"

definition DDR4_VRR :: dram_standard where
  "DDR4_VRR = DDR4
     \<lparr>std_name := ''DDR4_VRR'',
      std_commands := DDR4_commands @ [''VRR''],
      std_timing_params := DDR4_timing_params @ [''nVRR''],
      std_constraints := DDR4_VRR_timing_constraints,
      std_org_presets := DDR4_org_presets,
      std_timing_presets := DDR4_VRR_timing_presets\<rparr>"

section \<open>The contract\<close>

definition DDR4_provided :: "string list" where
  "DDR4_provided = [''nRRDS'', ''nRRDL'', ''nFAW'', ''nRFC'', ''nREFI'']"

abbreviation DDR4_VRR_provided :: "string list" where
  "DDR4_VRR_provided \<equiv> DDR4_provided"

definition DDR4_org_ranges :: "(string \<times> int) list" where
  "DDR4_org_ranges = [(''dq'', 16), (''density'', 16384)]"

lemma DDR4_resolver:
  assumes "timings_given std DDR4_provided td" and "clock_in 3200 td" and "org_within DDR4_org_ranges od"
  shows "\<exists>td'. DDR4_resolve_secondary_timings td od = Inr td' \<and> timings_cover std td'"
proof -
  obtain t r where t: "dget td ''tCK_ps'' = Some t" "0 < t" "dget td ''rate'' = Some r" "0 < r" "r \<le> 3200"
    by (rule clock_inD[OF assms(2)])
  obtain q d where o: "dget od ''dq'' = Some (PInt q)" "dget od ''density'' = Some (PInt d)" "d \<le> 16384"
    using assms(3) by (auto simp: DDR4_org_ranges_def dest!: org_intD)
  have tables: "0 \<le> DDR4_resolve_nRRDS q r" "0 \<le> DDR4_resolve_nRRDL q r" "0 \<le> DDR4_resolve_nFAW q r"
    using t by (simp_all add: DDR4_resolve_nRRDS_def DDR4_resolve_nRRDL_def DDR4_resolve_nFAW_def)
  have "\<exists>rfc. DDR4_resolve_nRFC d t = Inr rfc \<and> 0 \<le> rfc"
    using t o by (simp add: DDR4_resolve_nRFC_def ceil_q_pos ceil_div_nonneg)
  then obtain rfc where rfc: "DDR4_resolve_nRFC d t = Inr rfc" "0 \<le> rfc" by blast
  let ?td = "dset ''nREFI'' (ceil_div 7800000 t) (dset ''nRFC'' rfc (dset ''nFAW'' (DDR4_resolve_nFAW q r)
      (dset ''nRRDL'' (DDR4_resolve_nRRDL q r) (dset ''nRRDS'' (DDR4_resolve_nRRDS q r) td))))"
  have "DDR4_resolve_secondary_timings td od = Inr ?td"
    using t o rfc by (simp add: DDR4_resolve_secondary_timings_def DDR4_resolve_nREFI_def
        resolver_simps dict_simps)
  moreover have "timings_cover std ?td"
    using timings_givenD(1)[OF assms(1)] tables rfc t
    by (intro cover_provided[OF assms(1)]) (auto simp: dict_simps DDR4_provided_def ceil_div_nonneg)
  ultimately show ?thesis by blast
qed

lemma DDR4_resolves:
  "timings_given DDR4 DDR4_provided td \<Longrightarrow> clock_in 3200 td \<Longrightarrow> org_within DDR4_org_ranges od \<Longrightarrow>
    \<exists>td'. std_resolve_secondary DDR4 td od = Inr td' \<and> timings_cover DDR4 td'"
  using DDR4_resolver by (simp add: DDR4_def)

lemma DDR4_VRR_resolves:
  "timings_given DDR4_VRR DDR4_VRR_provided td \<Longrightarrow> clock_in 3200 td \<Longrightarrow> org_within DDR4_org_ranges od \<Longrightarrow>
    \<exists>td'. std_resolve_secondary DDR4_VRR td od = Inr td' \<and> timings_cover DDR4_VRR td'"
  using DDR4_resolver[of DDR4_VRR] by (simp add: DDR4_VRR_def DDR4_def)

lemma DDR4_fields:
  "std_levels DDR4 = DDR4_levels"
  "std_commands DDR4 = DDR4_commands"
  "std_states DDR4 = DDR4_states"
  "std_timing_params DDR4 = DDR4_timing_params"
  "std_supported_requests DDR4 = DDR4_supported_requests"
  "std_constraints DDR4 = DDR4_timing_constraints"
  "std_command_cycles DDR4 = []"
  "std_tick_multiplier DDR4 = 1"
  "std_payload DDR4 = None"
  "std_read_latency DDR4 = ''nCL + nBL''"
  "std_row_commands DDR4 = []"
  "std_column_commands DDR4 = []"
  "std_org_presets DDR4 = DDR4_org_presets"
  "std_timing_presets DDR4 = DDR4_timing_presets"
  "std_resolve_secondary DDR4 = DDR4_resolve_secondary_timings"
  by (simp_all add: DDR4_def DRAMStandard_def)

lemma DDR4_VRR_fields:
  "std_levels DDR4_VRR = DDR4_levels"
  "std_commands DDR4_VRR = DDR4_commands @ [''VRR'']"
  "std_states DDR4_VRR = DDR4_states"
  "std_timing_params DDR4_VRR = DDR4_timing_params @ [''nVRR'']"
  "std_supported_requests DDR4_VRR = DDR4_supported_requests"
  "std_constraints DDR4_VRR = DDR4_VRR_timing_constraints"
  "std_command_cycles DDR4_VRR = []"
  "std_tick_multiplier DDR4_VRR = 1"
  "std_payload DDR4_VRR = None"
  "std_read_latency DDR4_VRR = ''nCL + nBL''"
  "std_row_commands DDR4_VRR = []"
  "std_column_commands DDR4_VRR = []"
  "std_org_presets DDR4_VRR = DDR4_org_presets"
  "std_timing_presets DDR4_VRR = DDR4_VRR_timing_presets"
  "std_resolve_secondary DDR4_VRR = DDR4_resolve_secondary_timings"
  by (simp_all add: DDR4_VRR_def DDR4_fields)

lemma DDR4_wf: "std_wf DDR4"
  by (rule std_wf_check; unfold DDR4_fields; code_simp)

lemma DDR4_head: "head_ok DDR4"
  unfolding head_ok_def DDR4_fields by code_simp

lemma DDR4_uniform: "uniform_check (std_tick_multiplier DDR4) (std_cyc DDR4) (std_constraints DDR4)"
  unfolding DDR4_fields by code_simp

lemma DDR4_orgs:
  "orgs_check (hierarchy_fields DDR4) (std_payload DDR4) DDR4_org_ranges (std_org_presets DDR4)"
  "case std_payload DDR4 of None \<Rightarrow> True | Some p \<Rightarrow> 0 < p"
  unfolding hierarchy_fields_def level_keys_def DDR4_fields by code_simp+

lemma DDR4_speeds:
  "speeds_check (filter (\<lambda>k. k \<notin> set DDR4_provided) (std_timing_params DDR4)) (std_timing_presets DDR4)"
  "list_all (\<lambda>p. clock_in 3200 (snd p)) (std_timing_presets DDR4)"
  unfolding DDR4_fields by code_simp+

interpretation ddr4: dram_class DDR4 DDR4_provided "clock_in 3200" "org_within DDR4_org_ranges"
  by (rule dram_class_check[OF DDR4_wf DDR4_head DDR4_uniform DDR4_orgs DDR4_speeds DDR4_resolves])

lemma DDR4_VRR_wf: "std_wf DDR4_VRR"
  by (rule std_wf_check; unfold DDR4_VRR_fields; code_simp)

lemma DDR4_VRR_head: "head_ok DDR4_VRR"
  unfolding head_ok_def DDR4_VRR_fields by code_simp

lemma DDR4_VRR_uniform: "uniform_check (std_tick_multiplier DDR4_VRR) (std_cyc DDR4_VRR) (std_constraints DDR4_VRR)"
  unfolding DDR4_VRR_fields by code_simp

lemma DDR4_VRR_orgs:
  "orgs_check (hierarchy_fields DDR4_VRR) (std_payload DDR4_VRR) DDR4_org_ranges (std_org_presets DDR4_VRR)"
  "case std_payload DDR4_VRR of None \<Rightarrow> True | Some p \<Rightarrow> 0 < p"
  unfolding hierarchy_fields_def level_keys_def DDR4_VRR_fields by code_simp+

lemma DDR4_VRR_speeds:
  "speeds_check (filter (\<lambda>k. k \<notin> set DDR4_VRR_provided) (std_timing_params DDR4_VRR)) (std_timing_presets DDR4_VRR)"
  "list_all (\<lambda>p. clock_in 3200 (snd p)) (std_timing_presets DDR4_VRR)"
  unfolding DDR4_VRR_fields by code_simp+

interpretation ddr4_vrr: dram_class DDR4_VRR DDR4_VRR_provided "clock_in 3200" "org_within DDR4_org_ranges"
  by (rule dram_class_check[OF DDR4_VRR_wf DDR4_VRR_head DDR4_VRR_uniform DDR4_VRR_orgs DDR4_VRR_speeds DDR4_VRR_resolves])

end
