(* ===== verification/Std_DDR5.thy ===== *)
theory Std_DDR5
  imports Resolver
begin

text \<open>
  \<open>dram/ddr5.py\<close> and the variants built on it: \<open>ddr5_rfm.py\<close> (refresh management),
  \<open>ddr5_vrr.py\<close> (victim-row refresh) and \<open>ddr5_rfm_vrr.py\<close> (both). The fallbacks of the
  row-activation timings divide by \<open>2000000 / rate\<close>; the model keeps the exact quotient.
\<close>

section \<open>Declarations and presets\<close>

definition DDR5_levels :: "(string \<times> string) list" where
  "DDR5_levels = [
      (''Channel'', ''N_A''), (''Rank'', ''N_A''), (''BankGroup'', ''N_A''),
      (''Bank'', ''Closed''), (''Row'', ''Closed''), (''Column'', ''N_A'')]"

definition DDR5_commands :: "string list" where
  "DDR5_commands = [
      ''ACT'', ''PREpb'', ''PREab'', ''RD'', ''WR'', ''RDA'', ''WRA'', ''REFab'']"

definition DDR5_states :: "string list" where
  "DDR5_states = [
      ''Opened'', ''Closed'', ''N_A'']"

definition DDR5_timing_params :: "string list" where
  "DDR5_timing_params = [
      ''rate'', ''nBL'', ''nCL'', ''nRCD'', ''nRP'', ''nRAS'', ''nRC'', ''nWR'', ''nRTP'',
      ''nCWL'', ''nPPD'', ''nCCDS'', ''nCCDL'', ''nCCDS_WR'', ''nCCDL_WR'', ''nRRDS'',
      ''nRRDL'', ''nWTRS'', ''nWTRL'', ''nFAW'', ''nRFC'', ''nREFI'', ''nCS'', ''tCK_ps'']"

definition DDR5_supported_requests :: "(string \<times> string) list" where
  "DDR5_supported_requests = [
      (''Read'', ''RD''), (''Write'', ''WR'')]"

definition DDR5_command_cycles :: "(string \<times> rat) list" where
  "DDR5_command_cycles = [
      (''ACT'', 2), (''RD'', 2), (''RDA'', 2), (''WR'', 2), (''WRA'', 2)]"

definition DDR5_timing_constraints :: "timing_constraint list" where
  "DDR5_timing_constraints = [
    TC ''Channel'' [''RD'', ''RDA''] [''RD'', ''RDA''] ''nBL'',
    TC ''Channel'' [''WR'', ''WRA''] [''WR'', ''WRA''] ''nBL'',
    TC ''Rank'' [''RD'', ''RDA''] [''RD'', ''RDA''] ''nCCDS'',
    TC ''Rank'' [''WR'', ''WRA''] [''WR'', ''WRA''] ''nCCDS_WR'',
    TC ''Rank'' [''RD'', ''RDA''] [''WR'', ''WRA''] ''nCL + nBL + 2 - nCWL + 2'',
    TC ''Rank'' [''WR'', ''WRA''] [''RD'', ''RDA''] ''nCWL + nBL + nWTRS'',
    TC_sibling ''Rank'' [''RD'', ''RDA''] [''RD'', ''RDA'', ''WR'', ''WRA''] ''nBL + nCS'',
    TC_sibling ''Rank'' [''WR'', ''WRA''] [''RD'', ''RDA''] ''nCWL + nBL + nCS - nCL'',
    TC ''Rank'' [''RD''] [''PREab''] ''nRTP'',
    TC ''Rank'' [''WR''] [''PREab''] ''nCWL + nBL + nWR'',
    TC ''Rank'' [''ACT''] [''ACT''] ''nRRDS'',
    TC_window ''Rank'' [''ACT''] [''ACT''] ''nFAW'' 4,
    TC ''Rank'' [''ACT''] [''PREab''] ''nRAS'',
    TC ''Rank'' [''PREab''] [''ACT''] ''nRP'',
    TC ''Rank'' [''PREpb'', ''PREab''] [''PREpb'', ''PREab''] ''nPPD'',
    TC ''Rank'' [''ACT''] [''REFab''] ''nRC'',
    TC ''Rank'' [''PREpb'', ''PREab''] [''REFab''] ''nRP'',
    TC ''Rank'' [''RDA''] [''REFab''] ''nRP + nRTP'',
    TC ''Rank'' [''WRA''] [''REFab''] ''nCWL + nBL + nWR + nRP'',
    TC ''Rank'' [''REFab''] [''ACT'', ''PREab''] ''nRFC'',
    TC ''BankGroup'' [''RD'', ''RDA''] [''RD'', ''RDA''] ''nCCDL'',
    TC ''BankGroup'' [''WR'', ''WRA''] [''WR'', ''WRA''] ''nCCDL_WR'',
    TC ''BankGroup'' [''WR'', ''WRA''] [''RD'', ''RDA''] ''nCWL + nBL + nWTRL'',
    TC ''BankGroup'' [''ACT''] [''ACT''] ''nRRDL'',
    TC ''Bank'' [''ACT''] [''ACT''] ''nRC'',
    TC ''Bank'' [''ACT''] [''RD'', ''RDA'', ''WR'', ''WRA''] ''nRCD'',
    TC ''Bank'' [''ACT''] [''PREpb''] ''nRAS'',
    TC ''Bank'' [''PREpb''] [''ACT''] ''nRP'',
    TC ''Bank'' [''RD''] [''PREpb''] ''nRTP'',
    TC ''Bank'' [''WR''] [''PREpb''] ''nCWL + nBL + nWR'',
    TC ''Bank'' [''RDA''] [''ACT''] ''nRTP + nRP'',
    TC ''Bank'' [''WRA''] [''ACT''] ''nCWL + nBL + nWR + nRP'']"

definition DDR5_org_presets :: "(string \<times> dict) list" where
  "DDR5_org_presets = [
    (''DDR5_8Gb_x4'',
      [(''density'', PInt 8192), (''dq'', PInt 4), (''channel_width'', PInt 32),
       (''rank'', PInt 1), (''bankgroup'', PInt 8), (''bank'', PInt 2), (''row'', PInt 65536),
       (''column'', PInt 2048)]),
    (''DDR5_8Gb_x8'',
      [(''density'', PInt 8192), (''dq'', PInt 8), (''channel_width'', PInt 32),
       (''rank'', PInt 1), (''bankgroup'', PInt 8), (''bank'', PInt 2), (''row'', PInt 65536),
       (''column'', PInt 1024)]),
    (''DDR5_8Gb_x16'',
      [(''density'', PInt 8192), (''dq'', PInt 16), (''channel_width'', PInt 32),
       (''rank'', PInt 1), (''bankgroup'', PInt 4), (''bank'', PInt 2), (''row'', PInt 65536),
       (''column'', PInt 1024)]),
    (''DDR5_16Gb_x4'',
      [(''density'', PInt 16384), (''dq'', PInt 4), (''channel_width'', PInt 32),
       (''rank'', PInt 1), (''bankgroup'', PInt 8), (''bank'', PInt 4), (''row'', PInt 65536),
       (''column'', PInt 2048)]),
    (''DDR5_16Gb_x8'',
      [(''density'', PInt 16384), (''dq'', PInt 8), (''channel_width'', PInt 32),
       (''rank'', PInt 1), (''bankgroup'', PInt 8), (''bank'', PInt 4), (''row'', PInt 65536),
       (''column'', PInt 1024)]),
    (''DDR5_16Gb_x16'',
      [(''density'', PInt 16384), (''dq'', PInt 16), (''channel_width'', PInt 32),
       (''rank'', PInt 1), (''bankgroup'', PInt 4), (''bank'', PInt 4), (''row'', PInt 65536),
       (''column'', PInt 1024)]),
    (''DDR5_32Gb_x4'',
      [(''density'', PInt 32768), (''dq'', PInt 4), (''channel_width'', PInt 32),
       (''rank'', PInt 1), (''bankgroup'', PInt 8), (''bank'', PInt 4), (''row'', PInt 131072),
       (''column'', PInt 2048)]),
    (''DDR5_32Gb_x8'',
      [(''density'', PInt 32768), (''dq'', PInt 8), (''channel_width'', PInt 32),
       (''rank'', PInt 1), (''bankgroup'', PInt 8), (''bank'', PInt 4), (''row'', PInt 131072),
       (''column'', PInt 1024)]),
    (''DDR5_32Gb_x16'',
      [(''density'', PInt 32768), (''dq'', PInt 16), (''channel_width'', PInt 32),
       (''rank'', PInt 1), (''bankgroup'', PInt 4), (''bank'', PInt 4), (''row'', PInt 131072),
       (''column'', PInt 1024)])]"

definition DDR5_timing_presets :: "(string \<times> timings) list" where
  "DDR5_timing_presets = [
    (''DDR5_3200AN'',
      [(''rate'', 3200), (''nBL'', 8), (''nCL'', 24), (''nRCD'', 24), (''nRP'', 24),
       (''nRAS'', 52), (''nRC'', 76), (''nWR'', 48), (''nRTP'', 12), (''nCWL'', 22),
       (''nPPD'', 2), (''nCCDS'', 8), (''nCCDL'', 8), (''nCCDS_WR'', 8), (''nCCDL_WR'', 32),
       (''nWTRS'', 6), (''nWTRL'', 16), (''nCS'', 2), (''tCK_ps'', 625)]),
    (''DDR5_3200BN'',
      [(''rate'', 3200), (''nBL'', 8), (''nCL'', 26), (''nRCD'', 26), (''nRP'', 26),
       (''nRAS'', 52), (''nRC'', 78), (''nWR'', 48), (''nRTP'', 12), (''nCWL'', 24),
       (''nPPD'', 2), (''nCCDS'', 8), (''nCCDL'', 8), (''nCCDS_WR'', 8), (''nCCDL_WR'', 32),
       (''nWTRS'', 6), (''nWTRL'', 16), (''nCS'', 2), (''tCK_ps'', 625)]),
    (''DDR5_3200C'',
      [(''rate'', 3200), (''nBL'', 8), (''nCL'', 28), (''nRCD'', 28), (''nRP'', 28),
       (''nRAS'', 52), (''nRC'', 80), (''nWR'', 48), (''nRTP'', 12), (''nCWL'', 26),
       (''nPPD'', 2), (''nCCDS'', 8), (''nCCDL'', 8), (''nCCDS_WR'', 8), (''nCCDL_WR'', 32),
       (''nWTRS'', 6), (''nWTRL'', 16), (''nCS'', 2), (''tCK_ps'', 625)]),
    (''DDR5_4800AN'',
      [(''rate'', 4800), (''nBL'', 8), (''nCL'', 34), (''nRCD'', 34), (''nRP'', 34),
       (''nRAS'', 77), (''nRC'', 111), (''nWR'', 72), (''nRTP'', 18), (''nCWL'', 32),
       (''nPPD'', 2), (''nCCDS'', 8), (''nCCDL'', 12), (''nCCDS_WR'', 8), (''nCCDL_WR'', 48),
       (''nWTRS'', 6), (''nWTRL'', 24), (''nCS'', 2), (''tCK_ps'', 416)]),
    (''DDR5_4800BN'',
      [(''rate'', 4800), (''nBL'', 8), (''nCL'', 36), (''nRCD'', 36), (''nRP'', 36),
       (''nRAS'', 77), (''nRC'', 113), (''nWR'', 72), (''nRTP'', 18), (''nCWL'', 34),
       (''nPPD'', 2), (''nCCDS'', 8), (''nCCDL'', 12), (''nCCDS_WR'', 8), (''nCCDL_WR'', 48),
       (''nWTRS'', 6), (''nWTRL'', 24), (''nCS'', 2), (''tCK_ps'', 416)]),
    (''DDR5_4800C'',
      [(''rate'', 4800), (''nBL'', 8), (''nCL'', 38), (''nRCD'', 38), (''nRP'', 38),
       (''nRAS'', 77), (''nRC'', 115), (''nWR'', 72), (''nRTP'', 18), (''nCWL'', 36),
       (''nPPD'', 2), (''nCCDS'', 8), (''nCCDL'', 12), (''nCCDS_WR'', 8), (''nCCDL_WR'', 48),
       (''nWTRS'', 6), (''nWTRL'', 24), (''nCS'', 2), (''tCK_ps'', 416)]),
    (''DDR5_5600AN'',
      [(''rate'', 5600), (''nBL'', 8), (''nCL'', 40), (''nRCD'', 40), (''nRP'', 40),
       (''nRAS'', 90), (''nRC'', 130), (''nWR'', 84), (''nRTP'', 20), (''nCWL'', 38),
       (''nPPD'', 2), (''nCCDS'', 8), (''nCCDL'', 12), (''nCCDS_WR'', 8), (''nCCDL_WR'', 56),
       (''nWTRS'', 5), (''nWTRL'', 28), (''nCS'', 2), (''tCK_ps'', 357)]),
    (''DDR5_6400AN'',
      [(''rate'', 6400), (''nBL'', 8), (''nCL'', 46), (''nRCD'', 46), (''nRP'', 46),
       (''nRAS'', 103), (''nRC'', 149), (''nWR'', 96), (''nRTP'', 24), (''nCWL'', 44),
       (''nPPD'', 2), (''nCCDS'', 8), (''nCCDL'', 16), (''nCCDS_WR'', 8), (''nCCDL_WR'', 64),
       (''nWTRS'', 5), (''nWTRL'', 32), (''nCS'', 2), (''tCK_ps'', 312)])]"

section \<open>Secondary timings\<close>

text \<open>
  \<open>max(m, math.ceil(ns * 1000 / (2_000_000 / rate)))\<close>, with exact quotients. The code's
  doubles give the same number at every rate of the presets (3200, 4800, 5600, 6400), the only
  rates that reach it: an override of \<open>rate\<close> is applied after the secondary timings.
\<close>

definition DDR5_ns_cycles :: "int \<Rightarrow> int \<Rightarrow> int \<Rightarrow> dram_error + int" where
  "DDR5_ns_cycles m ns rate =
     (if rate = 0 then Inl DramZeroDivision else Inr (max m (ceil_div (ns * 1000 * rate) 2000000)))"

definition DDR5_resolve_nRRDS :: "int \<Rightarrow> int \<Rightarrow> dram_error + int" where
  "DDR5_resolve_nRRDS dq rate =
     (case dget [((4, 3200), 8), ((4, 4800), 8), ((8, 3200), 8), ((8, 4800), 8),
                 ((16, 3200), 8), ((16, 4800), 8)] (dq, rate) of
        Some v \<Rightarrow> Inr v
      | None \<Rightarrow> DDR5_ns_cycles 8 5 rate)"

definition DDR5_resolve_nRRDL :: "int \<Rightarrow> int \<Rightarrow> dram_error + int" where
  "DDR5_resolve_nRRDL dq rate =
     (case dget [((4, 3200), 5), ((4, 4800), 12), ((8, 3200), 5), ((8, 4800), 12),
                 ((16, 3200), 5), ((16, 4800), 12)] (dq, rate) of
        Some v \<Rightarrow> Inr v
      | None \<Rightarrow> DDR5_ns_cycles 8 5 rate)"

definition DDR5_resolve_nFAW :: "int \<Rightarrow> int \<Rightarrow> dram_error + int" where
  "DDR5_resolve_nFAW dq rate = DDR5_ns_cycles 32 (if dq \<le> 8 then 20 else 25) rate"

definition DDR5_resolve_nRFC :: "int \<Rightarrow> int \<Rightarrow> dram_error + int" where
  "DDR5_resolve_nRFC density tCK =
     (if density \<le> 8192 then ceil_q (195 * 1000) tCK
      else if density \<le> 16384 then ceil_q (295 * 1000) tCK
      else if density \<le> 32768 then ceil_q (410 * 1000) tCK
      else Inr (- 1))"

definition DDR5_resolve_nREFI :: "int \<Rightarrow> dram_error + int" where
  "DDR5_resolve_nREFI tCK = ceil_q 3900000 tCK"

definition DDR5_resolve_secondary_timings :: "timings \<Rightarrow> dict \<Rightarrow> dram_error + timings" where
  "DDR5_resolve_secondary_timings td od =
     rbind (assign ''nRRDS''
       (rbind (dict_int od ''dq'') (\<lambda>q. rbind (dict_get td ''rate'') (DDR5_resolve_nRRDS q))) td) (\<lambda>td.
     rbind (assign ''nRRDL''
       (rbind (dict_int od ''dq'') (\<lambda>q. rbind (dict_get td ''rate'') (DDR5_resolve_nRRDL q))) td) (\<lambda>td.
     rbind (assign ''nFAW''
       (rbind (dict_int od ''dq'') (\<lambda>q. rbind (dict_get td ''rate'') (DDR5_resolve_nFAW q))) td) (\<lambda>td.
     rbind (assign ''nRFC''
       (rbind (dict_int od ''density'') (\<lambda>d. rbind (dict_get td ''tCK_ps'') (DDR5_resolve_nRFC d))) td) (\<lambda>td.
     assign ''nREFI'' (rbind (dict_get td ''tCK_ps'') DDR5_resolve_nREFI) td))))"

definition DDR5 :: dram_standard where
  "DDR5 = DRAMStandard
     \<lparr>std_name := ''DDR5'',
      std_levels := DDR5_levels,
      std_commands := DDR5_commands,
      std_states := DDR5_states,
      std_timing_params := DDR5_timing_params,
      std_supported_requests := DDR5_supported_requests,
      std_constraints := DDR5_timing_constraints,
      std_command_cycles := DDR5_command_cycles,
      std_org_presets := DDR5_org_presets,
      std_timing_presets := DDR5_timing_presets,
      std_internal_prefetch := 16,
      std_read_latency := ''nCL + nBL'',
      std_resolve_secondary := DDR5_resolve_secondary_timings\<rparr>"

section \<open>Refresh management and victim-row refresh\<close>

definition DDR5_RFM_timing_constraints :: "timing_constraint list" where
  "DDR5_RFM_timing_constraints = DDR5_timing_constraints @ [
    TC ''Rank'' [''ACT''] [''RFMab''] ''nRC'',
    TC ''Rank'' [''PREpb'', ''PREab''] [''RFMab''] ''nRP'',
    TC ''Rank'' [''RDA''] [''RFMab''] ''nRP + nRTP'',
    TC ''Rank'' [''WRA''] [''RFMab''] ''nCWL + nBL + nWR + nRP'',
    TC ''Rank'' [''RFMab''] [''ACT'', ''PREab''] ''nRFM'',
    TC ''Bank'' [''ACT''] [''RFMpb''] ''nRC'',
    TC ''Bank'' [''PREpb''] [''RFMpb''] ''nRP'',
    TC ''Bank'' [''RDA''] [''RFMpb''] ''nRP + nRTP'',
    TC ''Bank'' [''WRA''] [''RFMpb''] ''nCWL + nBL + nWR + nRP'',
    TC ''Bank'' [''RFMpb''] [''ACT'', ''PREpb''] ''nRFMpb'']"

text \<open>
  The derived presets take \<open>_density = 8192\<close>, so the first branch of the table, 195 ns;
  \<open>195 * 1000 / 2 / tCK\<close> is the exact quotient by \<open>2 * tCK\<close>.
\<close>

definition DDR5_RFM_timing_presets :: "(string \<times> timings) list" where
  "DDR5_RFM_timing_presets =
     map (\<lambda>(name, td). (name,
       with_timing ''nRFMpb'' (\<lambda>t. ceil_div (195 * 1000) (2 * t))
         (with_timing ''nRFM'' (ceil_div (195 * 1000)) td))) DDR5_timing_presets"

definition DDR5_RFM :: dram_standard where
  "DDR5_RFM = DDR5
     \<lparr>std_name := ''DDR5_RFM'',
      std_commands := DDR5_commands @ [''RFMab'', ''RFMpb''],
      std_timing_params := DDR5_timing_params @ [''nRFM'', ''nRFMpb''],
      std_constraints := DDR5_RFM_timing_constraints,
      std_org_presets := DDR5_org_presets,
      std_timing_presets := DDR5_RFM_timing_presets\<rparr>"

definition DDR5_VRR_timing_constraints :: "timing_constraint list" where
  "DDR5_VRR_timing_constraints = DDR5_timing_constraints @ [
    TC ''Bank'' [''VRR''] [''ACT''] ''nVRR'',
    TC ''Bank'' [''ACT''] [''VRR''] ''nRC'',
    TC ''Rank'' [''PREpb'', ''PREab''] [''VRR''] ''nRP'']"

definition DDR5_VRR_timing_presets :: "(string \<times> timings) list" where
  "DDR5_VRR_timing_presets =
     map (\<lambda>(name, td). (name, with_timing ''nVRR'' (ceil_div 280000) td)) DDR5_timing_presets"

definition DDR5_VRR :: dram_standard where
  "DDR5_VRR = DDR5
     \<lparr>std_name := ''DDR5_VRR'',
      std_commands := DDR5_commands @ [''VRR''],
      std_timing_params := DDR5_timing_params @ [''nVRR''],
      std_constraints := DDR5_VRR_timing_constraints,
      std_org_presets := DDR5_org_presets,
      std_timing_presets := DDR5_VRR_timing_presets\<rparr>"

definition DDR5_RFM_VRR_timing_constraints :: "timing_constraint list" where
  "DDR5_RFM_VRR_timing_constraints = DDR5_RFM_timing_constraints @ [
    TC ''Bank'' [''VRR''] [''ACT''] ''nVRR'',
    TC ''Bank'' [''ACT''] [''VRR''] ''nRC'',
    TC ''Rank'' [''PREpb'', ''PREab''] [''VRR''] ''nRP'']"

definition DDR5_RFM_VRR_timing_presets :: "(string \<times> timings) list" where
  "DDR5_RFM_VRR_timing_presets =
     map (\<lambda>(name, td). (name, with_timing ''nVRR'' (ceil_div 280000) td)) DDR5_RFM_timing_presets"

definition DDR5_RFM_VRR :: dram_standard where
  "DDR5_RFM_VRR = DDR5_RFM
     \<lparr>std_name := ''DDR5_RFM_VRR'',
      std_commands := std_commands DDR5_RFM @ [''VRR''],
      std_timing_params := std_timing_params DDR5_RFM @ [''nVRR''],
      std_constraints := DDR5_RFM_VRR_timing_constraints,
      std_org_presets := std_org_presets DDR5_RFM,
      std_timing_presets := DDR5_RFM_VRR_timing_presets\<rparr>"

section \<open>The contract\<close>

definition DDR5_provided :: "string list" where
  "DDR5_provided = [''nRRDS'', ''nRRDL'', ''nFAW'', ''nRFC'', ''nREFI'']"

definition DDR5_org_ranges :: "(string \<times> int) list" where
  "DDR5_org_ranges = [(''dq'', 16), (''density'', 32768)]"

lemma DDR5_ns_cycles_ok: "0 < rate \<Longrightarrow> 0 \<le> m \<Longrightarrow> \<exists>v. DDR5_ns_cycles m ns rate = Inr v \<and> 0 \<le> v"
  by (simp add: DDR5_ns_cycles_def)

lemma DDR5_rows_ok:
  assumes "0 < rate"
  shows "\<exists>v. DDR5_resolve_nRRDS dq rate = Inr v \<and> 0 \<le> v" "\<exists>v. DDR5_resolve_nRRDL dq rate = Inr v \<and> 0 \<le> v"
    "\<exists>v. DDR5_resolve_nFAW dq rate = Inr v \<and> 0 \<le> v"
  using DDR5_ns_cycles_ok[OF assms, of 8] DDR5_ns_cycles_ok[OF assms, of 32]
  by (auto simp: DDR5_resolve_nRRDS_def DDR5_resolve_nRRDL_def DDR5_resolve_nFAW_def)

lemma DDR5_resolver:
  assumes "timings_given std DDR5_provided td" and "clock_in 100000 td" and "org_within DDR5_org_ranges od"
  shows "\<exists>td'. DDR5_resolve_secondary_timings td od = Inr td' \<and> timings_cover std td'"
proof -
  obtain t r where t: "dget td ''tCK_ps'' = Some t" "0 < t" "dget td ''rate'' = Some r" "0 < r"
    by (rule clock_inD[OF assms(2)])
  obtain q d where o: "dget od ''dq'' = Some (PInt q)" "dget od ''density'' = Some (PInt d)" "d \<le> 32768"
    using assms(3) by (auto simp: DDR5_org_ranges_def dest!: org_intD)
  obtain rrds rrdl faw where rows: "DDR5_resolve_nRRDS q r = Inr rrds" "0 \<le> rrds"
    "DDR5_resolve_nRRDL q r = Inr rrdl" "0 \<le> rrdl" "DDR5_resolve_nFAW q r = Inr faw" "0 \<le> faw"
    using DDR5_rows_ok[OF t(4), of q] by blast
  have "\<exists>rfc. DDR5_resolve_nRFC d t = Inr rfc \<and> 0 \<le> rfc"
    using t o by (simp add: DDR5_resolve_nRFC_def ceil_q_pos ceil_div_nonneg)
  then obtain rfc where rfc: "DDR5_resolve_nRFC d t = Inr rfc" "0 \<le> rfc" by blast
  let ?td = "dset ''nREFI'' (ceil_div 3900000 t) (dset ''nRFC'' rfc (dset ''nFAW'' faw
      (dset ''nRRDL'' rrdl (dset ''nRRDS'' rrds td))))"
  have "DDR5_resolve_secondary_timings td od = Inr ?td"
    using t o rfc rows by (simp add: DDR5_resolve_secondary_timings_def DDR5_resolve_nREFI_def
        resolver_simps dict_simps)
  moreover have "timings_cover std ?td"
    using timings_givenD(1)[OF assms(1)] rows rfc t
    by (intro cover_provided[OF assms(1)]) (auto simp: dict_simps DDR5_provided_def ceil_div_nonneg)
  ultimately show ?thesis by blast
qed

lemma DDR5_resolves:
  "timings_given DDR5 DDR5_provided td \<Longrightarrow> clock_in 100000 td \<Longrightarrow> org_within DDR5_org_ranges od \<Longrightarrow>
    \<exists>td'. std_resolve_secondary DDR5 td od = Inr td' \<and> timings_cover DDR5 td'"
  using DDR5_resolver by (simp add: DDR5_def)

lemma DDR5_VRR_resolves:
  "timings_given DDR5_VRR DDR5_provided td \<Longrightarrow> clock_in 100000 td \<Longrightarrow> org_within DDR5_org_ranges od \<Longrightarrow>
    \<exists>td'. std_resolve_secondary DDR5_VRR td od = Inr td' \<and> timings_cover DDR5_VRR td'"
  using DDR5_resolver[of DDR5_VRR] by (simp add: DDR5_VRR_def DDR5_def)

lemma DDR5_RFM_resolves:
  "timings_given DDR5_RFM DDR5_provided td \<Longrightarrow> clock_in 100000 td \<Longrightarrow> org_within DDR5_org_ranges od \<Longrightarrow>
    \<exists>td'. std_resolve_secondary DDR5_RFM td od = Inr td' \<and> timings_cover DDR5_RFM td'"
  using DDR5_resolver[of DDR5_RFM] by (simp add: DDR5_RFM_def DDR5_def)

lemma DDR5_RFM_VRR_resolves:
  "timings_given DDR5_RFM_VRR DDR5_provided td \<Longrightarrow> clock_in 100000 td \<Longrightarrow> org_within DDR5_org_ranges od \<Longrightarrow>
    \<exists>td'. std_resolve_secondary DDR5_RFM_VRR td od = Inr td' \<and> timings_cover DDR5_RFM_VRR td'"
  using DDR5_resolver[of DDR5_RFM_VRR] by (simp add: DDR5_RFM_VRR_def DDR5_RFM_def DDR5_def)

lemma DDR5_fields:
  "std_levels DDR5 = DDR5_levels"
  "std_commands DDR5 = DDR5_commands"
  "std_states DDR5 = DDR5_states"
  "std_timing_params DDR5 = DDR5_timing_params"
  "std_supported_requests DDR5 = DDR5_supported_requests"
  "std_constraints DDR5 = DDR5_timing_constraints"
  "std_command_cycles DDR5 = DDR5_command_cycles"
  "std_tick_multiplier DDR5 = 1"
  "std_payload DDR5 = None"
  "std_read_latency DDR5 = ''nCL + nBL''"
  "std_row_commands DDR5 = []"
  "std_column_commands DDR5 = []"
  "std_org_presets DDR5 = DDR5_org_presets"
  "std_timing_presets DDR5 = DDR5_timing_presets"
  "std_resolve_secondary DDR5 = DDR5_resolve_secondary_timings"
  by (simp_all add: DDR5_def DRAMStandard_def)

lemma DDR5_VRR_fields:
  "std_levels DDR5_VRR = DDR5_levels"
  "std_commands DDR5_VRR = DDR5_commands @ [''VRR'']"
  "std_states DDR5_VRR = DDR5_states"
  "std_timing_params DDR5_VRR = DDR5_timing_params @ [''nVRR'']"
  "std_supported_requests DDR5_VRR = DDR5_supported_requests"
  "std_constraints DDR5_VRR = DDR5_VRR_timing_constraints"
  "std_command_cycles DDR5_VRR = DDR5_command_cycles"
  "std_tick_multiplier DDR5_VRR = 1"
  "std_payload DDR5_VRR = None"
  "std_read_latency DDR5_VRR = ''nCL + nBL''"
  "std_row_commands DDR5_VRR = []"
  "std_column_commands DDR5_VRR = []"
  "std_org_presets DDR5_VRR = DDR5_org_presets"
  "std_timing_presets DDR5_VRR = DDR5_VRR_timing_presets"
  "std_resolve_secondary DDR5_VRR = DDR5_resolve_secondary_timings"
  by (simp_all add: DDR5_VRR_def DDR5_fields)

lemma DDR5_RFM_fields:
  "std_levels DDR5_RFM = DDR5_levels"
  "std_commands DDR5_RFM = DDR5_commands @ [''RFMab'', ''RFMpb'']"
  "std_states DDR5_RFM = DDR5_states"
  "std_timing_params DDR5_RFM = DDR5_timing_params @ [''nRFM'', ''nRFMpb'']"
  "std_supported_requests DDR5_RFM = DDR5_supported_requests"
  "std_constraints DDR5_RFM = DDR5_RFM_timing_constraints"
  "std_command_cycles DDR5_RFM = DDR5_command_cycles"
  "std_tick_multiplier DDR5_RFM = 1"
  "std_payload DDR5_RFM = None"
  "std_read_latency DDR5_RFM = ''nCL + nBL''"
  "std_row_commands DDR5_RFM = []"
  "std_column_commands DDR5_RFM = []"
  "std_org_presets DDR5_RFM = DDR5_org_presets"
  "std_timing_presets DDR5_RFM = DDR5_RFM_timing_presets"
  "std_resolve_secondary DDR5_RFM = DDR5_resolve_secondary_timings"
  by (simp_all add: DDR5_RFM_def DDR5_fields)

lemma DDR5_RFM_VRR_fields:
  "std_levels DDR5_RFM_VRR = DDR5_levels"
  "std_commands DDR5_RFM_VRR = (DDR5_commands @ [''RFMab'', ''RFMpb'']) @ [''VRR'']"
  "std_states DDR5_RFM_VRR = DDR5_states"
  "std_timing_params DDR5_RFM_VRR = (DDR5_timing_params @ [''nRFM'', ''nRFMpb'']) @ [''nVRR'']"
  "std_supported_requests DDR5_RFM_VRR = DDR5_supported_requests"
  "std_constraints DDR5_RFM_VRR = DDR5_RFM_VRR_timing_constraints"
  "std_command_cycles DDR5_RFM_VRR = DDR5_command_cycles"
  "std_tick_multiplier DDR5_RFM_VRR = 1"
  "std_payload DDR5_RFM_VRR = None"
  "std_read_latency DDR5_RFM_VRR = ''nCL + nBL''"
  "std_row_commands DDR5_RFM_VRR = []"
  "std_column_commands DDR5_RFM_VRR = []"
  "std_org_presets DDR5_RFM_VRR = (DDR5_org_presets)"
  "std_timing_presets DDR5_RFM_VRR = DDR5_RFM_VRR_timing_presets"
  "std_resolve_secondary DDR5_RFM_VRR = DDR5_resolve_secondary_timings"
  by (simp_all add: DDR5_RFM_VRR_def DDR5_RFM_fields)

lemma DDR5_wf: "std_wf DDR5"
  by (rule std_wf_check; unfold DDR5_fields; code_simp)

lemma DDR5_head: "head_ok DDR5"
  unfolding head_ok_def DDR5_fields by code_simp

lemma DDR5_uniform: "uniform_check (std_tick_multiplier DDR5) (std_cyc DDR5) (std_constraints DDR5)"
  unfolding DDR5_fields by code_simp

lemma DDR5_orgs:
  "orgs_check (hierarchy_fields DDR5) (std_payload DDR5) DDR5_org_ranges (std_org_presets DDR5)"
  "case std_payload DDR5 of None \<Rightarrow> True | Some p \<Rightarrow> 0 < p"
  unfolding hierarchy_fields_def level_keys_def DDR5_fields by code_simp+

lemma DDR5_speeds:
  "speeds_check (filter (\<lambda>k. k \<notin> set DDR5_provided) (std_timing_params DDR5)) (std_timing_presets DDR5)"
  "list_all (\<lambda>p. clock_in 100000 (snd p)) (std_timing_presets DDR5)"
  unfolding DDR5_fields by code_simp+

interpretation ddr5: dram_class DDR5 DDR5_provided "clock_in 100000" "org_within DDR5_org_ranges"
  by (rule dram_class_check[OF DDR5_wf DDR5_head DDR5_uniform DDR5_orgs DDR5_speeds DDR5_resolves])

lemma DDR5_VRR_wf: "std_wf DDR5_VRR"
  by (rule std_wf_check; unfold DDR5_VRR_fields; code_simp)

lemma DDR5_VRR_head: "head_ok DDR5_VRR"
  unfolding head_ok_def DDR5_VRR_fields by code_simp

lemma DDR5_VRR_uniform: "uniform_check (std_tick_multiplier DDR5_VRR) (std_cyc DDR5_VRR) (std_constraints DDR5_VRR)"
  unfolding DDR5_VRR_fields by code_simp

lemma DDR5_VRR_orgs:
  "orgs_check (hierarchy_fields DDR5_VRR) (std_payload DDR5_VRR) DDR5_org_ranges (std_org_presets DDR5_VRR)"
  "case std_payload DDR5_VRR of None \<Rightarrow> True | Some p \<Rightarrow> 0 < p"
  unfolding hierarchy_fields_def level_keys_def DDR5_VRR_fields by code_simp+

lemma DDR5_VRR_speeds:
  "speeds_check (filter (\<lambda>k. k \<notin> set DDR5_provided) (std_timing_params DDR5_VRR)) (std_timing_presets DDR5_VRR)"
  "list_all (\<lambda>p. clock_in 100000 (snd p)) (std_timing_presets DDR5_VRR)"
  unfolding DDR5_VRR_fields by code_simp+

interpretation ddr5_vrr: dram_class DDR5_VRR DDR5_provided "clock_in 100000" "org_within DDR5_org_ranges"
  by (rule dram_class_check[OF DDR5_VRR_wf DDR5_VRR_head DDR5_VRR_uniform DDR5_VRR_orgs DDR5_VRR_speeds DDR5_VRR_resolves])

lemma DDR5_RFM_wf: "std_wf DDR5_RFM"
  by (rule std_wf_check; unfold DDR5_RFM_fields; code_simp)

lemma DDR5_RFM_head: "head_ok DDR5_RFM"
  unfolding head_ok_def DDR5_RFM_fields by code_simp

lemma DDR5_RFM_uniform: "uniform_check (std_tick_multiplier DDR5_RFM) (std_cyc DDR5_RFM) (std_constraints DDR5_RFM)"
  unfolding DDR5_RFM_fields by code_simp

lemma DDR5_RFM_orgs:
  "orgs_check (hierarchy_fields DDR5_RFM) (std_payload DDR5_RFM) DDR5_org_ranges (std_org_presets DDR5_RFM)"
  "case std_payload DDR5_RFM of None \<Rightarrow> True | Some p \<Rightarrow> 0 < p"
  unfolding hierarchy_fields_def level_keys_def DDR5_RFM_fields by code_simp+

lemma DDR5_RFM_speeds:
  "speeds_check (filter (\<lambda>k. k \<notin> set DDR5_provided) (std_timing_params DDR5_RFM)) (std_timing_presets DDR5_RFM)"
  "list_all (\<lambda>p. clock_in 100000 (snd p)) (std_timing_presets DDR5_RFM)"
  unfolding DDR5_RFM_fields by code_simp+

interpretation ddr5_rfm: dram_class DDR5_RFM DDR5_provided "clock_in 100000" "org_within DDR5_org_ranges"
  by (rule dram_class_check[OF DDR5_RFM_wf DDR5_RFM_head DDR5_RFM_uniform DDR5_RFM_orgs DDR5_RFM_speeds DDR5_RFM_resolves])

lemma DDR5_RFM_VRR_wf: "std_wf DDR5_RFM_VRR"
  by (rule std_wf_check; unfold DDR5_RFM_VRR_fields; code_simp)

lemma DDR5_RFM_VRR_head: "head_ok DDR5_RFM_VRR"
  unfolding head_ok_def DDR5_RFM_VRR_fields by code_simp

lemma DDR5_RFM_VRR_uniform: "uniform_check (std_tick_multiplier DDR5_RFM_VRR) (std_cyc DDR5_RFM_VRR) (std_constraints DDR5_RFM_VRR)"
  unfolding DDR5_RFM_VRR_fields by code_simp

lemma DDR5_RFM_VRR_orgs:
  "orgs_check (hierarchy_fields DDR5_RFM_VRR) (std_payload DDR5_RFM_VRR) DDR5_org_ranges (std_org_presets DDR5_RFM_VRR)"
  "case std_payload DDR5_RFM_VRR of None \<Rightarrow> True | Some p \<Rightarrow> 0 < p"
  unfolding hierarchy_fields_def level_keys_def DDR5_RFM_VRR_fields by code_simp+

lemma DDR5_RFM_VRR_speeds:
  "speeds_check (filter (\<lambda>k. k \<notin> set DDR5_provided) (std_timing_params DDR5_RFM_VRR)) (std_timing_presets DDR5_RFM_VRR)"
  "list_all (\<lambda>p. clock_in 100000 (snd p)) (std_timing_presets DDR5_RFM_VRR)"
  unfolding DDR5_RFM_VRR_fields by code_simp+

interpretation ddr5_rfm_vrr: dram_class DDR5_RFM_VRR DDR5_provided "clock_in 100000" "org_within DDR5_org_ranges"
  by (rule dram_class_check[OF DDR5_RFM_VRR_wf DDR5_RFM_VRR_head DDR5_RFM_VRR_uniform DDR5_RFM_VRR_orgs DDR5_RFM_VRR_speeds DDR5_RFM_VRR_resolves])

end
