(* ===== verification/Std_GDDR6.thy ===== *)
theory Std_GDDR6
  imports Resolver
begin

text \<open>
  \<open>dram/gddr6.py\<close>: the tables of the standard, its \<open>resolve_secondary_timings\<close>, which
  only fills in what a preset leaves out, and the contract \<open>dram_class\<close>.
\<close>

section \<open>Declarations and presets\<close>

definition GDDR6_levels :: "(string \<times> string) list" where
  "GDDR6_levels = [
      (''Channel'', ''N_A''), (''BankGroup'', ''N_A''), (''Bank'', ''Closed''),
      (''Row'', ''Closed''), (''Column'', ''N_A'')]"

definition GDDR6_commands :: "string list" where
  "GDDR6_commands = [
      ''ACT'', ''PREab'', ''PREpb'', ''RD'', ''WR'', ''RDA'', ''WRA'', ''REFab'', ''REFpb'']"

definition GDDR6_states :: "string list" where
  "GDDR6_states = [
      ''Opened'', ''Closed'', ''N_A'']"

definition GDDR6_timing_params :: "string list" where
  "GDDR6_timing_params = [
      ''rate'', ''nBL'', ''nCL'', ''nRCDRD'', ''nRCDWR'', ''nRP'', ''nRAS'', ''nRC'', ''nWR'',
      ''nRTP'', ''nCWL'', ''nCCDS'', ''nCCDL'', ''nRRDS'', ''nRRDL'', ''nWTRS'', ''nWTRL'',
      ''nFAW'', ''nRFCpb'', ''nRREFD'', ''nREFI'', ''tCK_ps'', ''nRFCab'', ''nPPD'']"

definition GDDR6_supported_requests :: "(string \<times> string) list" where
  "GDDR6_supported_requests = [
      (''Read'', ''RD''), (''Write'', ''WR'')]"

definition GDDR6_command_cycles :: "(string \<times> rat) list" where
  "GDDR6_command_cycles = [
      (''ACT'', 1), (''RD'', 1), (''RDA'', 1), (''WR'', 1), (''WRA'', 1)]"

definition GDDR6_timing_constraints :: "timing_constraint list" where
  "GDDR6_timing_constraints = [
    TC ''Channel'' [''RD'', ''RDA''] [''RD'', ''RDA''] ''nBL'',
    TC ''Channel'' [''WR'', ''WRA''] [''WR'', ''WRA''] ''nBL'',
    TC ''Channel'' [''RD'', ''RDA''] [''RD'', ''RDA''] ''nCCDS'',
    TC ''Channel'' [''WR'', ''WRA''] [''WR'', ''WRA''] ''nCCDS'',
    TC ''Channel'' [''RD'', ''RDA''] [''WR'', ''WRA''] ''nCL + 1'',
    TC ''Channel'' [''WR'', ''WRA''] [''RD'', ''RDA''] ''nCWL + nBL + nWTRS'',
    TC ''Channel'' [''RD''] [''PREab''] ''nRTP'',
    TC ''Channel'' [''WR''] [''PREab''] ''nCWL + nBL + nWR'',
    TC ''Channel'' [''ACT''] [''ACT''] ''nRRDS'',
    TC_window ''Channel'' [''ACT''] [''ACT'', ''REFpb''] ''nFAW'' 4,
    TC_window ''Channel'' [''REFpb''] [''ACT'', ''REFpb''] ''nFAW'' 4,
    TC ''Channel'' [''ACT''] [''PREab''] ''nRAS'',
    TC ''Channel'' [''PREab''] [''ACT''] ''nRP'',
    TC ''Channel'' [''PREab'', ''PREpb''] [''PREab'', ''PREpb''] ''nPPD'',
    TC ''Channel'' [''ACT''] [''REFab''] ''nRC'',
    TC ''Channel'' [''PREab''] [''REFab''] ''nRP'',
    TC ''Channel'' [''RDA''] [''REFab''] ''nRP + nRTP'',
    TC ''Channel'' [''WRA''] [''REFab''] ''nCWL + nBL + nWR + nRP'',
    TC ''Channel'' [''REFab''] [''ACT'', ''PREab'', ''PREpb'', ''RD'', ''WR'', ''RDA'', ''WRA'', ''REFab'', ''REFpb''] ''nRFCab'',
    TC ''Channel'' [''ACT''] [''REFpb''] ''nRRDS'',
    TC ''Channel'' [''PREab''] [''REFpb''] ''nRP'',
    TC ''Channel'' [''RDA''] [''REFpb''] ''nRP + nRTP'',
    TC ''Channel'' [''WRA''] [''REFpb''] ''nCWL + nBL + nWR + nRP'',
    TC ''Channel'' [''REFpb''] [''ACT''] ''nRREFD'',
    TC ''Channel'' [''REFpb''] [''REFpb''] ''nRREFD'',
    TC ''Channel'' [''REFpb''] [''REFab''] ''nRFCpb'',
    TC ''BankGroup'' [''RD'', ''RDA''] [''RD'', ''RDA''] ''nCCDL'',
    TC ''BankGroup'' [''WR'', ''WRA''] [''WR'', ''WRA''] ''nCCDL'',
    TC ''BankGroup'' [''WR'', ''WRA''] [''RD'', ''RDA''] ''nCWL + nBL + nWTRL'',
    TC ''BankGroup'' [''ACT''] [''ACT'', ''REFpb''] ''nRRDL'',
    TC ''Bank'' [''ACT''] [''ACT''] ''nRC'',
    TC ''Bank'' [''ACT''] [''RD'', ''RDA''] ''nRCDRD'',
    TC ''Bank'' [''ACT''] [''WR'', ''WRA''] ''nRCDWR'',
    TC ''Bank'' [''ACT''] [''PREpb''] ''nRAS'',
    TC ''Bank'' [''PREpb''] [''ACT''] ''nRP'',
    TC ''Bank'' [''RD''] [''PREpb''] ''nRTP'',
    TC ''Bank'' [''WR''] [''PREpb''] ''nCWL + nBL + nWR'',
    TC ''Bank'' [''RDA''] [''ACT''] ''nRTP + nRP'',
    TC ''Bank'' [''WRA''] [''ACT''] ''nCWL + nBL + nWR + nRP'',
    TC ''Bank'' [''ACT''] [''REFpb''] ''nRC'',
    TC ''Bank'' [''PREpb''] [''REFpb''] ''nRP'',
    TC ''Bank'' [''RDA''] [''REFpb''] ''nRP + nRTP'',
    TC ''Bank'' [''WRA''] [''REFpb''] ''nCWL + nBL + nWR + nRP'',
    TC ''Bank'' [''REFpb''] [''ACT'', ''REFpb''] ''nRFCpb'']"

definition GDDR6_org_presets :: "(string \<times> dict) list" where
  "GDDR6_org_presets = [
    (''GDDR6_8Gb_x8'',
      [(''density'', PInt 8192), (''dq'', PInt 8), (''channel_width'', PInt 16),
       (''bankgroup'', PInt 4), (''bank'', PInt 4), (''row'', PInt 16384),
       (''column'', PInt 2048)]),
    (''GDDR6_8Gb_x16'',
      [(''density'', PInt 8192), (''dq'', PInt 16), (''channel_width'', PInt 16),
       (''bankgroup'', PInt 4), (''bank'', PInt 4), (''row'', PInt 16384),
       (''column'', PInt 1024)]),
    (''GDDR6_16Gb_x8'',
      [(''density'', PInt 16384), (''dq'', PInt 8), (''channel_width'', PInt 16),
       (''bankgroup'', PInt 4), (''bank'', PInt 4), (''row'', PInt 32768),
       (''column'', PInt 2048)]),
    (''GDDR6_16Gb_x16'',
      [(''density'', PInt 16384), (''dq'', PInt 16), (''channel_width'', PInt 16),
       (''bankgroup'', PInt 4), (''bank'', PInt 4), (''row'', PInt 16384),
       (''column'', PInt 2048)]),
    (''GDDR6_32Gb_x8'',
      [(''density'', PInt 32768), (''dq'', PInt 8), (''channel_width'', PInt 16),
       (''bankgroup'', PInt 4), (''bank'', PInt 4), (''row'', PInt 65536),
       (''column'', PInt 2048)]),
    (''GDDR6_32Gb_x16'',
      [(''density'', PInt 32768), (''dq'', PInt 16), (''channel_width'', PInt 16),
       (''bankgroup'', PInt 4), (''bank'', PInt 4), (''row'', PInt 32768),
       (''column'', PInt 2048)])]"

definition GDDR6_timing_presets :: "(string \<times> timings) list" where
  "GDDR6_timing_presets = [
    (''GDDR6_14000_1350mV_double'',
      [(''rate'', 14000), (''nBL'', 2), (''nCL'', 24), (''nRCDRD'', 27), (''nRCDWR'', 16),
       (''nRP'', 27), (''nRAS'', 53), (''nRC'', 79), (''nWR'', 27), (''nRTP'', 4),
       (''nCWL'', 6), (''nCCDS'', 2), (''nCCDL'', 4), (''nRRDS'', 8), (''nRRDL'', 8),
       (''nWTRS'', 9), (''nWTRL'', 11), (''nFAW'', 29), (''nRFCpb'', 106), (''nRREFD'', 15),
       (''nREFI'', 3333), (''tCK_ps'', 570), (''nRFCab'', 211), (''nPPD'', 1)]),
    (''GDDR6_14000_1250mV_double'',
      [(''rate'', 14000), (''nBL'', 2), (''nCL'', 24), (''nRCDRD'', 30), (''nRCDWR'', 20),
       (''nRP'', 30), (''nRAS'', 60), (''nRC'', 90), (''nWR'', 30), (''nRTP'', 4),
       (''nCWL'', 6), (''nCCDS'', 2), (''nCCDL'', 4), (''nRRDS'', 11), (''nRRDL'', 11),
       (''nWTRS'', 9), (''nWTRL'', 11), (''nFAW'', 43), (''nRFCpb'', 106), (''nRREFD'', 22),
       (''nREFI'', 3333), (''tCK_ps'', 570), (''nRFCab'', 211), (''nPPD'', 2)]),
    (''GDDR6_14000_1350mV_quad'',
      [(''rate'', 14000), (''nBL'', 2), (''nCL'', 24), (''nRCDRD'', 27), (''nRCDWR'', 16),
       (''nRP'', 27), (''nRAS'', 53), (''nRC'', 79), (''nWR'', 27), (''nRTP'', 4),
       (''nCWL'', 6), (''nCCDS'', 2), (''nCCDL'', 4), (''nRRDS'', 8), (''nRRDL'', 8),
       (''nWTRS'', 9), (''nWTRL'', 11), (''nFAW'', 29), (''nRFCpb'', 106), (''nRREFD'', 15),
       (''nREFI'', 3333), (''tCK_ps'', 570), (''nRFCab'', 211), (''nPPD'', 1)]),
    (''GDDR6_14000_1250mV_quad'',
      [(''rate'', 14000), (''nBL'', 2), (''nCL'', 24), (''nRCDRD'', 30), (''nRCDWR'', 20),
       (''nRP'', 30), (''nRAS'', 60), (''nRC'', 90), (''nWR'', 30), (''nRTP'', 4),
       (''nCWL'', 6), (''nCCDS'', 2), (''nCCDL'', 4), (''nRRDS'', 11), (''nRRDL'', 11),
       (''nWTRS'', 9), (''nWTRL'', 11), (''nFAW'', 43), (''nRFCpb'', 106), (''nRREFD'', 22),
       (''nREFI'', 3333), (''tCK_ps'', 570), (''nRFCab'', 211), (''nPPD'', 2)])]"

section \<open>Secondary timings\<close>

text \<open>\<open>internal_prefetch_size\<close> is 16.\<close>

definition GDDR6_resolve_secondary_timings :: "timings \<Rightarrow> dict \<Rightarrow> dram_error + timings" where
  "GDDR6_resolve_secondary_timings td od =
     rbind (dict_get td ''tCK_ps'') (\<lambda>tCK.
     rbind (dict_get td ''nBL'') (\<lambda>nBL.
     rbind (assign_default ''rate'' (round_q (16 * 1000000) (nBL * tCK)) td) (\<lambda>td.
     rbind (assign_get ''nRRDS'' (rmax 2 (ceil_q 4000 tCK)) td) (\<lambda>td.
     rbind (assign_get ''nRRDL'' (rmax 2 (ceil_q 4000 tCK)) td) (\<lambda>td.
     rbind (assign_get ''nFAW'' (rmax 8 (ceil_q 16000 tCK)) td) (\<lambda>td.
     rbind (assign_get ''nRFCpb'' (ceil_q 60000 tCK) td) (\<lambda>td.
     rbind (assign_get ''nRREFD'' (rmax 2 (ceil_q 16000 tCK)) td) (\<lambda>td.
     rbind (assign_get ''nREFI'' (floor_q 1900000 tCK) td) (\<lambda>td. Inr td)))))))))"

definition GDDR6 :: dram_standard where
  "GDDR6 = DRAMStandard
     \<lparr>std_name := ''GDDR6'',
      std_levels := GDDR6_levels,
      std_commands := GDDR6_commands,
      std_states := GDDR6_states,
      std_timing_params := GDDR6_timing_params,
      std_supported_requests := GDDR6_supported_requests,
      std_constraints := GDDR6_timing_constraints,
      std_command_cycles := GDDR6_command_cycles,
      std_org_presets := GDDR6_org_presets,
      std_timing_presets := GDDR6_timing_presets,
      std_internal_prefetch := 16,
      std_read_latency := ''nCL + nBL'',
      std_resolve_secondary := GDDR6_resolve_secondary_timings\<rparr>"

lemma GDDR6_fields:
  "std_levels GDDR6 = GDDR6_levels"
  "std_commands GDDR6 = GDDR6_commands"
  "std_states GDDR6 = GDDR6_states"
  "std_timing_params GDDR6 = GDDR6_timing_params"
  "std_supported_requests GDDR6 = GDDR6_supported_requests"
  "std_constraints GDDR6 = GDDR6_timing_constraints"
  "std_command_cycles GDDR6 = GDDR6_command_cycles"
  "std_tick_multiplier GDDR6 = 1"
  "std_payload GDDR6 = None"
  "std_read_latency GDDR6 = ''nCL + nBL''"
  "std_row_commands GDDR6 = []"
  "std_column_commands GDDR6 = []"
  "std_org_presets GDDR6 = GDDR6_org_presets"
  "std_timing_presets GDDR6 = GDDR6_timing_presets"
  "std_resolve_secondary GDDR6 = GDDR6_resolve_secondary_timings"
  by (simp_all add: GDDR6_def DRAMStandard_def)

section \<open>The contract\<close>

definition GDDR6_provided :: "string list" where
  "GDDR6_provided = [''rate'', ''nRRDS'', ''nRRDL'', ''nFAW'', ''nRFCpb'', ''nRREFD'', ''nREFI'']"

lemma GDDR6_resolves:
  assumes "timings_given GDDR6 GDDR6_provided td" and "pos_timings [''tCK_ps'', ''nBL''] td"
    and "org_within [] od"
  shows "\<exists>td'. std_resolve_secondary GDDR6 td od = Inr td' \<and> timings_cover GDDR6 td'"
proof -
  obtain t where t: "dget td ''tCK_ps'' = Some t" "0 < t"
    using pos_timingsD[OF assms(2), of "''tCK_ps''"] by auto
  obtain b where b: "dget td ''nBL'' = Some b" "0 < b"
    using pos_timingsD[OF assms(2), of "''nBL''"] by auto
  have h: "timings_at t [] (set (filter (\<lambda>k. k \<notin> set GDDR6_provided) (std_timing_params GDDR6))) td"
    by (rule timings_at_start[OF assms(1) t]) simp
  show ?thesis
    unfolding GDDR6_fields GDDR6_resolve_secondary_timings_def
      dict_get_Some[OF t(1)] dict_get_Some[OF b(1)] rbind_Inr
    by (rule default_step[OF h], (intro yields_round; simp add: t b),
      (rule get_step, assumption, (intro yields_max yields_ceil yields_floor; simp (no_asm) add: t))+,
      rule final_step, assumption, simp (no_asm) add: GDDR6_fields GDDR6_timing_params_def GDDR6_provided_def)
qed

lemma GDDR6_wf: "std_wf GDDR6"
  by (rule std_wf_check; unfold GDDR6_fields; code_simp)

lemma GDDR6_head: "head_ok GDDR6"
  unfolding head_ok_def GDDR6_fields by code_simp

lemma GDDR6_uniform: "uniform_check (std_tick_multiplier GDDR6) (std_cyc GDDR6) (std_constraints GDDR6)"
  unfolding GDDR6_fields by code_simp

lemma GDDR6_orgs:
  "orgs_check (hierarchy_fields GDDR6) (std_payload GDDR6) [] (std_org_presets GDDR6)"
  "case std_payload GDDR6 of None \<Rightarrow> True | Some p \<Rightarrow> 0 < p"
  unfolding hierarchy_fields_def level_keys_def GDDR6_fields by code_simp+

lemma GDDR6_speeds:
  "speeds_check (filter (\<lambda>k. k \<notin> set GDDR6_provided) (std_timing_params GDDR6)) (std_timing_presets GDDR6)"
  "list_all (\<lambda>p. pos_timings [''tCK_ps'', ''nBL''] (snd p)) (std_timing_presets GDDR6)"
  unfolding GDDR6_fields by code_simp+

interpretation gddr6: dram_class GDDR6 GDDR6_provided "pos_timings [''tCK_ps'', ''nBL'']" "org_within []"
  by (rule dram_class_check[OF GDDR6_wf GDDR6_head GDDR6_uniform GDDR6_orgs GDDR6_speeds GDDR6_resolves])

end
