(* ===== verification/Std_GDDR7.thy ===== *)
theory Std_GDDR7
  imports Resolver
begin

text \<open>
  \<open>dram/gddr7.py\<close>: the tables of the standard, its \<open>resolve_secondary_timings\<close>, whose
  defaults depend on one another in order, and the contract \<open>dram_class\<close>.
\<close>

section \<open>Declarations and presets\<close>

definition GDDR7_levels :: "(string \<times> string) list" where
  "GDDR7_levels = [
      (''Channel'', ''N_A''), (''Bank'', ''Closed''), (''Row'', ''Closed''),
      (''Column'', ''N_A'')]"

definition GDDR7_commands :: "string list" where
  "GDDR7_commands = [
      ''ACT'', ''PREpb'', ''PREab'', ''RD'', ''WR'', ''RDA'', ''WRA'', ''REFab'', ''REFpb'',
      ''RFMab'', ''RFMpb'', ''RCKSTRT'', ''RCKSTOP'']"

definition GDDR7_row_commands :: "string list" where
  "GDDR7_row_commands = [
      ''ACT'', ''PREpb'', ''PREab'', ''REFab'', ''REFpb'', ''RFMab'', ''RFMpb'']"

definition GDDR7_column_commands :: "string list" where
  "GDDR7_column_commands = [
      ''RD'', ''WR'', ''RDA'', ''WRA'', ''RCKSTRT'', ''RCKSTOP'']"

definition GDDR7_states :: "string list" where
  "GDDR7_states = [
      ''Opened'', ''Closed'', ''N_A'']"

definition GDDR7_timing_params :: "string list" where
  "GDDR7_timing_params = [
      ''rate'', ''nBL'', ''nRL'', ''nWL'', ''nDQERL'', ''nRCDRD'', ''nRCDWR'', ''nRP'',
      ''nRAS'', ''nRC'', ''nRRD'', ''nRREFD'', ''nRPD'', ''nRTPSB'', ''nPPD'', ''nWR'',
      ''nCCD'', ''nCCDSB'', ''nWTR'', ''nWTRSB'', ''nRTW'', ''nREFI'', ''nREFIpb'', ''nRFCab'',
      ''nRFCpb'', ''nRDREFab'', ''nRFMab'', ''nRFMpb'', ''nRCKSTRT2RD'', ''nRD2RCKSTOP'',
      ''nRCKSP2ST'', ''nRCKST2SP'', ''nRCKSTOP_LAT'', ''nRCKEN'', ''nRCK_LS'', ''nRCKPST'',
      ''nRCK_HS'', ''tCK_ps'']"

definition GDDR7_supported_requests :: "(string \<times> string) list" where
  "GDDR7_supported_requests = [
      (''Read'', ''RD''), (''Write'', ''WR'')]"

definition GDDR7_command_cycles :: "(string \<times> rat) list" where
  "GDDR7_command_cycles = [
      (''ACT'', 2), (''RD'', 2), (''RDA'', 2), (''WR'', 2), (''WRA'', 2), (''RCKSTRT'', 2),
      (''RCKSTOP'', 2), (''PREpb'', 1), (''PREab'', 1), (''REFpb'', 1), (''REFab'', 1),
      (''RFMpb'', 1), (''RFMab'', 1)]"

definition GDDR7_timing_constraints :: "timing_constraint list" where
  "GDDR7_timing_constraints = [
    TC ''Channel'' [''RD'', ''RDA''] [''RD'', ''RDA''] ''nCCD'',
    TC ''Channel'' [''WR'', ''WRA''] [''WR'', ''WRA''] ''nCCD'',
    TC ''Channel'' [''RD'', ''RDA''] [''WR'', ''WRA''] ''nRTW'',
    TC ''Channel'' [''WR'', ''WRA''] [''RD'', ''RDA''] ''nWL + nBL + nWTR'',
    TC ''Bank'' [''RD'', ''RDA''] [''RD'', ''RDA''] ''nCCDSB'',
    TC ''Bank'' [''WR'', ''WRA''] [''WR'', ''WRA''] ''nCCDSB'',
    TC ''Bank'' [''WR'', ''WRA''] [''RD'', ''RDA''] ''nWL + nBL + nWTRSB'',
    TC ''Channel'' [''ACT''] [''ACT''] ''nRRD'',
    TC ''Channel'' [''PREpb'', ''PREab''] [''PREpb'', ''PREab''] ''nPPD'',
    TC ''Bank'' [''ACT''] [''ACT''] ''nRC'',
    TC ''Bank'' [''ACT''] [''RD'', ''RDA''] ''nRCDRD'',
    TC ''Bank'' [''ACT''] [''WR'', ''WRA''] ''nRCDWR'',
    TC ''Bank'' [''ACT''] [''PREpb''] ''nRAS'',
    TC ''Bank'' [''PREpb''] [''ACT''] ''nRP'',
    TC_sibling ''Bank'' [''PREpb''] [''ACT'', ''REFpb''] ''nRPD'',
    TC ''Bank'' [''RD''] [''PREpb''] ''nRTPSB'',
    TC ''Bank'' [''WR''] [''PREpb''] ''nWL + nBL + nWR'',
    TC ''Bank'' [''RDA''] [''ACT'', ''REFpb'', ''RFMpb''] ''nRTPSB + nRP'',
    TC ''Bank'' [''WRA''] [''ACT'', ''REFpb'', ''RFMpb''] ''nWL + nBL + nWR + nRP'',
    TC ''Channel'' [''ACT''] [''REFab''] ''nRC'',
    TC ''Channel'' [''RD'', ''RDA''] [''REFab''] ''nRDREFab'',
    TC ''Channel'' [''PREpb'', ''PREab''] [''REFab''] ''nRP'',
    TC ''Channel'' [''RDA''] [''REFab''] ''nRTPSB + nRP'',
    TC ''Channel'' [''WRA''] [''REFab''] ''nWL + nBL + nWR + nRP'',
    TC ''Channel'' [''REFab''] [''ACT'', ''PREab'', ''REFab'', ''REFpb''] ''nRFCab'',
    TC ''Channel'' [''REFpb''] [''REFpb'', ''ACT''] ''nRREFD'',
    TC ''Channel'' [''REFpb''] [''REFab''] ''nRFCpb'',
    TC ''Channel'' [''ACT''] [''REFpb''] ''nRRD'',
    TC ''Bank'' [''REFpb''] [''ACT'', ''REFpb''] ''nRFCpb'',
    TC ''Bank'' [''ACT''] [''REFpb''] ''nRC'',
    TC ''Bank'' [''PREpb''] [''REFpb''] ''nRP'',
    TC ''Channel'' [''RFMab''] [''ACT'', ''PREab'', ''REFab'', ''REFpb'', ''RFMab'', ''RFMpb''] ''nRFMab'',
    TC ''Bank'' [''RFMpb''] [''ACT'', ''REFpb'', ''RFMpb''] ''nRFMpb'',
    TC ''Channel'' [''ACT''] [''RFMab''] ''nRC'',
    TC ''Bank'' [''ACT''] [''RFMpb''] ''nRC'',
    TC ''Channel'' [''PREpb'', ''PREab''] [''RFMab''] ''nRP'',
    TC ''Bank'' [''PREpb''] [''RFMpb''] ''nRP'',
    TC ''Channel'' [''RCKSTRT''] [''RD'', ''RDA''] ''nRCKSTRT2RD'',
    TC ''Channel'' [''RD'', ''RDA''] [''RCKSTOP''] ''nRD2RCKSTOP'',
    TC ''Channel'' [''RCKSTOP''] [''RCKSTRT'', ''RD'', ''RDA''] ''nRCKSP2ST'',
    TC ''Channel'' [''RCKSTRT''] [''RCKSTOP''] ''nRCKST2SP'']"

definition GDDR7_org_presets :: "(string \<times> dict) list" where
  "GDDR7_org_presets = [
    (''GDDR7_16Gb_x8'',
      [(''density'', PInt 4096), (''dq'', PInt 8), (''channel_width'', PInt 8),
       (''bank'', PInt 16), (''row'', PInt 16384), (''column'', PInt 2048)]),
    (''GDDR7_32Gb_x8'',
      [(''density'', PInt 8192), (''dq'', PInt 8), (''channel_width'', PInt 8),
       (''bank'', PInt 16), (''row'', PInt 32768), (''column'', PInt 2048)]),
    (''GDDR7_64Gb_x8'',
      [(''density'', PInt 16384), (''dq'', PInt 8), (''channel_width'', PInt 8),
       (''bank'', PInt 16), (''row'', PInt 65536), (''column'', PInt 2048)])]"

definition GDDR7_timing_presets :: "(string \<times> timings) list" where
  "GDDR7_timing_presets = [
    (''GDDR7_28000_PAM3'',
      [(''nBL'', 2), (''nRL'', 24), (''nWL'', 6), (''nDQERL'', 0), (''nRCDRD'', 30),
       (''nRCDWR'', 19), (''nRP'', 30), (''nRAS'', 60), (''nRC'', 90), (''nWR'', 30),
       (''nRTPSB'', 4), (''nRRD'', 4), (''nRREFD'', 21), (''nWTR'', 9), (''nWTRSB'', 11),
       (''nRTW'', 12), (''nRFCab'', 315), (''nRFCpb'', 105), (''tCK_ps'', 571)])]"

section \<open>Secondary timings\<close>

text \<open>\<open>internal_prefetch_size\<close> is 32. The formulas, with the values read in the code's order:\<close>

definition GDDR7_nRTW :: "timings \<Rightarrow> dram_error + int" where
  "GDDR7_nRTW td =
     rbind (dict_get td ''nRL'') (\<lambda>nRL. rbind (dict_get td ''nDQERL'') (\<lambda>nDQERL.
     rbind (dict_get td ''nBL'') (\<lambda>nBL. rbind (dict_get td ''nWL'') (\<lambda>nWL.
     Inr (max 1 (nRL + nDQERL + nBL + 3 - nWL + 1))))))"

definition GDDR7_nRDREFab :: "timings \<Rightarrow> dram_error + int" where
  "GDDR7_nRDREFab td =
     rbind (dict_get td ''nRL'') (\<lambda>nRL. rbind (dict_get td ''nDQERL'') (\<lambda>nDQERL.
     rbind (dict_get td ''nBL'') (\<lambda>nBL. Inr (nRL + nDQERL + nBL + 2))))"

definition GDDR7_nRCK_HS :: "timings \<Rightarrow> dram_error + int" where
  "GDDR7_nRCK_HS td =
     rbind (dict_get td ''nRL'') (\<lambda>nRL. rbind (dict_get td ''nRCKSTRT2RD'') (\<lambda>strt.
     rbind (dict_get td ''nRCKEN'') (\<lambda>en. rbind (dict_get td ''nRCK_LS'') (\<lambda>ls.
     Inr (max 0 (nRL + strt - en - ls))))))"

definition GDDR7_nRD2RCKSTOP :: "timings \<Rightarrow> dram_error + int" where
  "GDDR7_nRD2RCKSTOP td =
     rbind (dict_get td ''nRL'') (\<lambda>nRL. rbind (dict_get td ''nDQERL'') (\<lambda>nDQERL.
     rbind (dict_get td ''nBL'') (\<lambda>nBL. rbind (dict_get td ''nRCKPST'') (\<lambda>pst.
     rbind (dict_get td ''nRCKSTOP_LAT'') (\<lambda>stop.
     Inr (max 1 (nRL + nDQERL + nBL + pst - stop)))))))"

definition GDDR7_nRCKSP2ST :: "timings \<Rightarrow> dram_error + int" where
  "GDDR7_nRCKSP2ST td =
     rbind (dict_get td ''nRCKEN'') (\<lambda>en. rbind (dict_get td ''nRCK_LS'') (\<lambda>ls. Inr (max 8 (en + ls))))"

definition GDDR7_nRCKST2SP :: "timings \<Rightarrow> dram_error + int" where
  "GDDR7_nRCKST2SP td =
     rbind (dict_get td ''nRCKEN'') (\<lambda>en. rbind (dict_get td ''nRCK_LS'') (\<lambda>ls.
     rbind (dict_get td ''nRCK_HS'') (\<lambda>hs. Inr (en + ls + hs))))"

definition GDDR7_resolve_secondary_timings :: "timings \<Rightarrow> dict \<Rightarrow> dram_error + timings" where
  "GDDR7_resolve_secondary_timings td od =
     rbind (dict_get td ''tCK_ps'') (\<lambda>tCK.
     rbind (assign ''rate'' (rbind (dict_get td ''nBL'') (\<lambda>nBL. round_q (32 * 1000000) (nBL * tCK))) td) (\<lambda>td.
     rbind (assign_default ''nCCD'' (dict_get td ''nBL'') td) (\<lambda>td.
     rbind (assign_default ''nCCDSB'' (Inr 4) td) (\<lambda>td.
     rbind (assign_default ''nPPD'' (Inr 2) td) (\<lambda>td.
     rbind (assign_default ''nRPD'' (dict_get td ''nPPD'') td) (\<lambda>td.
     rbind (assign_default ''nREFI'' (floor_q 1900000 tCK) td) (\<lambda>td.
     rbind (assign_default ''nREFIpb'' (rmax 1 (rbind (dict_get td ''nREFI'') (\<lambda>n. floor_q n 16))) td) (\<lambda>td.
     rbind (assign_default ''nRTW'' (GDDR7_nRTW td) td) (\<lambda>td.
     rbind (assign_default ''nRDREFab'' (GDDR7_nRDREFab td) td) (\<lambda>td.
     rbind (assign_default ''nRCKSTRT2RD'' (Inr 2) td) (\<lambda>td.
     rbind (assign_default ''nRCKPST'' (Inr 2) td) (\<lambda>td.
     rbind (assign_default ''nRCKEN'' (Inr 6) td) (\<lambda>td.
     rbind (assign_default ''nRCKSTOP_LAT'' (Inr 10) td) (\<lambda>td.
     rbind (assign_default ''nRCK_LS'' (Inr 2) td) (\<lambda>td.
     rbind (assign_default ''nRCK_HS'' (GDDR7_nRCK_HS td) td) (\<lambda>td.
     rbind (assign_default ''nRD2RCKSTOP'' (GDDR7_nRD2RCKSTOP td) td) (\<lambda>td.
     rbind (assign_default ''nRCKSP2ST'' (GDDR7_nRCKSP2ST td) td) (\<lambda>td.
     rbind (assign_default ''nRCKST2SP'' (GDDR7_nRCKST2SP td) td) (\<lambda>td.
     rbind (assign_default ''nRFMab'' (dict_get td ''nRFCab'') td) (\<lambda>td.
     rbind (assign_default ''nRFMpb'' (dict_get td ''nRFCpb'') td) (\<lambda>td.
     case find (\<lambda>name. name \<notin> set (dkeys td)) GDDR7_timing_params of
       Some name \<Rightarrow> Inl (SecondaryTiming name)
     | None \<Rightarrow> Inr td)))))))))))))))))))))"

definition GDDR7 :: dram_standard where
  "GDDR7 = DRAMStandard
     \<lparr>std_name := ''GDDR7'',
      std_levels := GDDR7_levels,
      std_commands := GDDR7_commands,
      std_states := GDDR7_states,
      std_timing_params := GDDR7_timing_params,
      std_supported_requests := GDDR7_supported_requests,
      std_constraints := GDDR7_timing_constraints,
      std_command_cycles := GDDR7_command_cycles,
      std_row_commands := GDDR7_row_commands,
      std_column_commands := GDDR7_column_commands,
      std_org_presets := GDDR7_org_presets,
      std_timing_presets := GDDR7_timing_presets,
      std_internal_prefetch := 32,
      std_read_latency := ''1 + nRL + nDQERL + nBL'',
      std_resolve_secondary := GDDR7_resolve_secondary_timings\<rparr>"

lemma GDDR7_fields:
  "std_levels GDDR7 = GDDR7_levels"
  "std_commands GDDR7 = GDDR7_commands"
  "std_states GDDR7 = GDDR7_states"
  "std_timing_params GDDR7 = GDDR7_timing_params"
  "std_supported_requests GDDR7 = GDDR7_supported_requests"
  "std_constraints GDDR7 = GDDR7_timing_constraints"
  "std_command_cycles GDDR7 = GDDR7_command_cycles"
  "std_tick_multiplier GDDR7 = 1"
  "std_payload GDDR7 = None"
  "std_read_latency GDDR7 = ''1 + nRL + nDQERL + nBL''"
  "std_row_commands GDDR7 = GDDR7_row_commands"
  "std_column_commands GDDR7 = GDDR7_column_commands"
  "std_org_presets GDDR7 = GDDR7_org_presets"
  "std_timing_presets GDDR7 = GDDR7_timing_presets"
  "std_resolve_secondary GDDR7 = GDDR7_resolve_secondary_timings"
  by (simp_all add: GDDR7_def DRAMStandard_def)

section \<open>The contract\<close>

definition GDDR7_provided :: "string list" where
  "GDDR7_provided = [''rate'', ''nCCD'', ''nCCDSB'', ''nPPD'', ''nRPD'', ''nREFI'', ''nREFIpb'', ''nRTW'', ''nRDREFab'', ''nRCKSTRT2RD'', ''nRCKPST'', ''nRCKEN'', ''nRCKSTOP_LAT'', ''nRCK_LS'', ''nRCK_HS'', ''nRD2RCKSTOP'', ''nRCKSP2ST'', ''nRCKST2SP'', ''nRFMab'', ''nRFMpb'']"

lemmas GDDR7_formulas = GDDR7_nRTW_def GDDR7_nRDREFab_def GDDR7_nRCK_HS_def GDDR7_nRD2RCKSTOP_def
  GDDR7_nRCKSP2ST_def GDDR7_nRCKST2SP_def

lemma GDDR7_all_resolved:
  assumes "timings_at t F K td" and "list_all (\<lambda>k. k \<in> K) GDDR7_timing_params"
  shows "\<exists>r. (case find (\<lambda>name. name \<notin> set (dkeys td)) GDDR7_timing_params of
      Some name \<Rightarrow> Inl (SecondaryTiming name) | None \<Rightarrow> Inr td) = Inr r \<and> timings_cover GDDR7 r"
proof -
  have "find (\<lambda>name. name \<notin> set (dkeys td)) GDDR7_timing_params = None"
    using assms by (auto simp: find_None_iff list_all_iff timings_at_def)
  then show ?thesis using final_step[OF assms(1), of GDDR7] assms(2) by (simp add: GDDR7_fields)
qed

lemma GDDR7_resolves:
  assumes "timings_given GDDR7 GDDR7_provided td" and "pos_timings [''tCK_ps'', ''nBL''] td"
    and "org_within [] od"
  shows "\<exists>td'. std_resolve_secondary GDDR7 td od = Inr td' \<and> timings_cover GDDR7 td'"
proof -
  obtain t where t: "dget td ''tCK_ps'' = Some t" "0 < t"
    using pos_timingsD[OF assms(2), of "''tCK_ps''"] by auto
  obtain b where b: "dget td ''nBL'' = Some b" "0 < b"
    using pos_timingsD[OF assms(2), of "''nBL''"] by auto
  have h: "timings_at t [] {''nBL'', ''nRL'', ''nWL'', ''nDQERL'', ''nRCDRD'', ''nRCDWR'', ''nRP'', ''nRAS'', ''nRC'', ''nRRD'', ''nRREFD'', ''nRTPSB'', ''nWR'', ''nWTR'', ''nWTRSB'', ''nRFCab'', ''nRFCpb'', ''tCK_ps''} td"
    by (rule timings_at_keys[OF timings_at_start[OF assms(1) t]])
      (simp_all add: GDDR7_fields GDDR7_timing_params_def GDDR7_provided_def)
  show ?thesis
    unfolding GDDR7_fields GDDR7_resolve_secondary_timings_def GDDR7_formulas
      dict_get_Some[OF t(1)] dict_get_Some[OF b(1)] rbind_Inr
    by (rule assign_step[OF h], simp, (intro yields_round; simp add: t b),
      (rule default_step, assumption, (rule yields_bind yields_max | rule yields_get, assumption, simp (no_asm) |
         rule yields_Inr, (simp (no_asm); fail | linarith) | rule yields_floor, (simp (no_asm); fail | assumption), simp (no_asm) add: t)+)+,
      rule GDDR7_all_resolved, assumption, simp (no_asm) add: GDDR7_timing_params_def)
qed

lemma GDDR7_wf: "std_wf GDDR7"
  by (rule std_wf_check; unfold GDDR7_fields; code_simp)

lemma GDDR7_head: "head_ok GDDR7"
  unfolding head_ok_def GDDR7_fields by code_simp

lemma GDDR7_uniform: "uniform_check (std_tick_multiplier GDDR7) (std_cyc GDDR7) (std_constraints GDDR7)"
  unfolding GDDR7_fields by code_simp

lemma GDDR7_orgs:
  "orgs_check (hierarchy_fields GDDR7) (std_payload GDDR7) [] (std_org_presets GDDR7)"
  "case std_payload GDDR7 of None \<Rightarrow> True | Some p \<Rightarrow> 0 < p"
  unfolding hierarchy_fields_def level_keys_def GDDR7_fields by code_simp+

lemma GDDR7_speeds:
  "speeds_check (filter (\<lambda>k. k \<notin> set GDDR7_provided) (std_timing_params GDDR7)) (std_timing_presets GDDR7)"
  "list_all (\<lambda>p. pos_timings [''tCK_ps'', ''nBL''] (snd p)) (std_timing_presets GDDR7)"
  unfolding GDDR7_fields by code_simp+

interpretation gddr7: dram_class GDDR7 GDDR7_provided "pos_timings [''tCK_ps'', ''nBL'']" "org_within []"
  by (rule dram_class_check[OF GDDR7_wf GDDR7_head GDDR7_uniform GDDR7_orgs GDDR7_speeds GDDR7_resolves])

end
