(* ===== verification/Std_HBM12.thy ===== *)
theory Std_HBM12
  imports Resolver
begin

text \<open>
  \<open>dram/hbm1.py\<close> and \<open>dram/hbm2.py\<close>: tables, \<open>resolve_secondary_timings\<close> and contract.
  The refresh interval per bank divides twice in the code, \<open>trefi / num_banks / tCK_ps\<close>;
  the model divides by the product, which is the same quotient and raises for the same
  operands.
\<close>

section \<open>HBM1\<close>

definition HBM1_levels :: "(string \<times> string) list" where
  "HBM1_levels = [
      (''Channel'', ''N_A''), (''BankGroup'', ''N_A''), (''Bank'', ''Closed''),
      (''Row'', ''Closed''), (''Column'', ''N_A'')]"

definition HBM1_commands :: "string list" where
  "HBM1_commands = [
      ''ACT'', ''PREpb'', ''PREab'', ''RD'', ''WR'', ''RDA'', ''WRA'', ''REFab'', ''REFpb'']"

definition HBM1_row_commands :: "string list" where
  "HBM1_row_commands = [
      ''ACT'', ''PREpb'', ''PREab'', ''REFab'', ''REFpb'']"

definition HBM1_column_commands :: "string list" where
  "HBM1_column_commands = [
      ''RD'', ''WR'', ''RDA'', ''WRA'']"

definition HBM1_states :: "string list" where
  "HBM1_states = [
      ''Opened'', ''Closed'', ''N_A'']"

definition HBM1_timing_params :: "string list" where
  "HBM1_timing_params = [
      ''rate'', ''nBL'', ''nCL'', ''nRCDRD'', ''nRCDWR'', ''nRP'', ''nRAS'', ''nRC'', ''nWR'',
      ''nRTPL'', ''nCWL'', ''nCCDS'', ''nCCDL'', ''nRRDS'', ''nRRDL'', ''nWTRS'', ''nWTRL'',
      ''nFAW'', ''nRFC'', ''nRFCpb'', ''nRREFD'', ''nREFI'', ''nREFIpb'', ''tCK_ps'']"

definition HBM1_supported_requests :: "(string \<times> string) list" where
  "HBM1_supported_requests = [
      (''Read'', ''RD''), (''Write'', ''WR'')]"

definition HBM1_command_cycles :: "(string \<times> rat) list" where
  "HBM1_command_cycles = [
      (''ACT'', 2)]"

definition HBM1_timing_constraints :: "timing_constraint list" where
  "HBM1_timing_constraints = [
    TC ''Channel'' [''RD'', ''RDA''] [''RD'', ''RDA''] ''nBL'',
    TC ''Channel'' [''WR'', ''WRA''] [''WR'', ''WRA''] ''nBL'',
    TC ''Channel'' [''RD'', ''RDA''] [''RD'', ''RDA''] ''nCCDS'',
    TC ''Channel'' [''WR'', ''WRA''] [''WR'', ''WRA''] ''nCCDS'',
    TC ''Channel'' [''RD'', ''RDA''] [''WR'', ''WRA''] ''nCL + nBL + 2 - nCWL'',
    TC ''Channel'' [''WR'', ''WRA''] [''RD'', ''RDA''] ''nCWL + nBL + nWTRS'',
    TC ''Channel'' [''RD''] [''PREab''] ''nRTPL'',
    TC ''Channel'' [''WR''] [''PREab''] ''nCWL + nBL + nWR'',
    TC ''Channel'' [''ACT''] [''ACT''] ''nRRDS'',
    TC_window ''Channel'' [''ACT''] [''ACT''] ''nFAW'' 4,
    TC ''Channel'' [''ACT''] [''PREab''] ''nRAS'',
    TC ''Channel'' [''PREab''] [''ACT''] ''nRP'',
    TC ''Channel'' [''ACT''] [''REFab''] ''nRC'',
    TC ''Channel'' [''PREpb'', ''PREab''] [''REFab''] ''nRP'',
    TC ''Channel'' [''RDA''] [''REFab''] ''nRP + nRTPL'',
    TC ''Channel'' [''WRA''] [''REFab''] ''nCWL + nBL + nWR + nRP'',
    TC ''Channel'' [''REFab''] [''ACT'', ''PREab''] ''nRFC'',
    TC ''Channel'' [''REFpb''] [''ACT''] ''nRREFD'',
    TC ''Channel'' [''ACT''] [''REFpb''] ''nRRDS'',
    TC ''BankGroup'' [''RD'', ''RDA''] [''RD'', ''RDA''] ''nCCDL'',
    TC ''BankGroup'' [''WR'', ''WRA''] [''WR'', ''WRA''] ''nCCDL'',
    TC ''BankGroup'' [''WR'', ''WRA''] [''RD'', ''RDA''] ''nCWL + nBL + nWTRL'',
    TC ''BankGroup'' [''ACT''] [''ACT''] ''nRRDL'',
    TC ''Bank'' [''ACT''] [''ACT''] ''nRC'',
    TC ''Bank'' [''ACT''] [''RD'', ''RDA''] ''nRCDRD'',
    TC ''Bank'' [''ACT''] [''WR'', ''WRA''] ''nRCDWR'',
    TC ''Bank'' [''ACT''] [''PREpb''] ''nRAS'',
    TC ''Bank'' [''PREpb''] [''ACT''] ''nRP'',
    TC ''Bank'' [''RD''] [''PREpb''] ''nRTPL'',
    TC ''Bank'' [''WR''] [''PREpb''] ''nCWL + nBL + nWR'',
    TC ''Bank'' [''RDA''] [''ACT''] ''nRTPL + nRP'',
    TC ''Bank'' [''WRA''] [''ACT''] ''nCWL + nBL + nWR + nRP'',
    TC ''Bank'' [''REFpb''] [''ACT''] ''nRFCpb'',
    TC ''Bank'' [''ACT''] [''REFpb''] ''nRC'',
    TC ''Bank'' [''PREpb''] [''REFpb''] ''nRP'']"

definition HBM1_org_presets :: "(string \<times> dict) list" where
  "HBM1_org_presets = [
    (''HBM1_1Gb'',
      [(''density'', PInt 1024), (''dq'', PInt 128), (''channel_width'', PInt 128),
       (''bankgroup'', PInt 4), (''bank'', PInt 2), (''row'', PInt 8192), (''column'', PInt 128)]),
    (''HBM1_2Gb'',
      [(''density'', PInt 2048), (''dq'', PInt 128), (''channel_width'', PInt 128),
       (''bankgroup'', PInt 4), (''bank'', PInt 2), (''row'', PInt 16384),
       (''column'', PInt 128)]),
    (''HBM1_4Gb'',
      [(''density'', PInt 4096), (''dq'', PInt 128), (''channel_width'', PInt 128),
       (''bankgroup'', PInt 4), (''bank'', PInt 2), (''row'', PInt 32768),
       (''column'', PInt 128)])]"

definition HBM1_timing_presets :: "(string \<times> timings) list" where
  "HBM1_timing_presets = [
    (''HBM1_1Gbps'',
      [(''rate'', 1000), (''nBL'', 1), (''nCL'', 7), (''nRCDRD'', 7), (''nRCDWR'', 6),
       (''nRP'', 7), (''nRAS'', 17), (''nRC'', 24), (''nWR'', 8), (''nRTPL'', 4),
       (''nCWL'', 4), (''nCCDS'', 1), (''nCCDL'', 2), (''nWTRS'', 3), (''nWTRL'', 4),
       (''tCK_ps'', 2000)]),
    (''HBM1_2Gbps'',
      [(''rate'', 2000), (''nBL'', 1), (''nCL'', 14), (''nRCDRD'', 14), (''nRCDWR'', 12),
       (''nRP'', 14), (''nRAS'', 34), (''nRC'', 48), (''nWR'', 16), (''nRTPL'', 5),
       (''nCWL'', 5), (''nCCDS'', 1), (''nCCDL'', 2), (''nWTRS'', 6), (''nWTRL'', 8),
       (''tCK_ps'', 1000)])]"

definition HBM1_resolve_nRRDS :: "int \<Rightarrow> dram_error + int" where
  "HBM1_resolve_nRRDS tCK = rmax 4 (ceil_q 4000 tCK)"

definition HBM1_resolve_nRRDL :: "int \<Rightarrow> dram_error + int" where
  "HBM1_resolve_nRRDL tCK = rmax 4 (ceil_q 4000 tCK)"

definition HBM1_resolve_nFAW :: "int \<Rightarrow> dram_error + int" where
  "HBM1_resolve_nFAW tCK = rmax 8 (ceil_q 15000 tCK)"

definition HBM1_resolve_nRFC :: "int \<Rightarrow> int \<Rightarrow> dram_error + int" where
  "HBM1_resolve_nRFC density tCK =
     (if density \<le> 1024 then ceil_q (110 * 1000) tCK
      else if density \<le> 2048 then ceil_q (160 * 1000) tCK
      else if density \<le> 4096 then ceil_q (260 * 1000) tCK
      else ceil_q (260 * 1000) tCK)"

definition HBM1_resolve_nRFCpb :: "int \<Rightarrow> dram_error + int" where
  "HBM1_resolve_nRFCpb tCK = ceil_q 160000 tCK"

definition HBM1_resolve_nRREFD :: "int \<Rightarrow> dram_error + int" where
  "HBM1_resolve_nRREFD tCK = rmax 4 (ceil_q 8000 tCK)"

definition HBM1_resolve_nREFI :: "int \<Rightarrow> dram_error + int" where
  "HBM1_resolve_nREFI tCK = ceil_q 3900000 tCK"

definition HBM1_resolve_nREFIpb :: "int \<Rightarrow> int \<Rightarrow> dram_error + int" where
  "HBM1_resolve_nREFIpb tCK num_banks = ceil_q 3900000 (num_banks * tCK)"

definition HBM1_resolve_secondary_timings :: "timings \<Rightarrow> dict \<Rightarrow> dram_error + timings" where
  "HBM1_resolve_secondary_timings td od =
     rbind (assign ''nRRDS'' (rbind (dict_get td ''tCK_ps'') HBM1_resolve_nRRDS) td) (\<lambda>td.
     rbind (assign ''nRRDL'' (rbind (dict_get td ''tCK_ps'') HBM1_resolve_nRRDL) td) (\<lambda>td.
     rbind (assign ''nFAW'' (rbind (dict_get td ''tCK_ps'') HBM1_resolve_nFAW) td) (\<lambda>td.
     rbind (assign ''nRFC''
       (rbind (dict_int od ''density'') (\<lambda>d. rbind (dict_get td ''tCK_ps'') (HBM1_resolve_nRFC d))) td) (\<lambda>td.
     rbind (assign ''nRFCpb''
       (rbind (dict_get td ''tCK_ps'') HBM1_resolve_nRFCpb) td) (\<lambda>td.
     rbind (assign ''nRREFD'' (rbind (dict_get td ''tCK_ps'') HBM1_resolve_nRREFD) td) (\<lambda>td.
     rbind (assign ''nREFI'' (rbind (dict_get td ''tCK_ps'') HBM1_resolve_nREFI) td) (\<lambda>td.
     rbind (assign ''nREFIpb''
       (rbind (dict_get td ''tCK_ps'') (\<lambda>tCK.
        rbind (dict_int_default od ''bankgroup'' 1) (\<lambda>bg.
        rbind (dict_int_default od ''bank'' 1) (\<lambda>b. HBM1_resolve_nREFIpb tCK (bg * b))))) td) (\<lambda>td. Inr td))))))))"

definition HBM1 :: dram_standard where
  "HBM1 = DRAMStandard
     \<lparr>std_name := ''HBM1'',
      std_levels := HBM1_levels,
      std_commands := HBM1_commands,
      std_states := HBM1_states,
      std_timing_params := HBM1_timing_params,
      std_supported_requests := HBM1_supported_requests,
      std_constraints := HBM1_timing_constraints,
      std_command_cycles := HBM1_command_cycles,
      std_row_commands := HBM1_row_commands,
      std_column_commands := HBM1_column_commands,
      std_org_presets := HBM1_org_presets,
      std_timing_presets := HBM1_timing_presets,
      std_internal_prefetch := 2,
      std_read_latency := ''nCL + nBL'',
      std_resolve_secondary := HBM1_resolve_secondary_timings\<rparr>"

lemma HBM1_fields:
  "std_levels HBM1 = HBM1_levels"
  "std_commands HBM1 = HBM1_commands"
  "std_states HBM1 = HBM1_states"
  "std_timing_params HBM1 = HBM1_timing_params"
  "std_supported_requests HBM1 = HBM1_supported_requests"
  "std_constraints HBM1 = HBM1_timing_constraints"
  "std_command_cycles HBM1 = HBM1_command_cycles"
  "std_tick_multiplier HBM1 = 1"
  "std_payload HBM1 = None"
  "std_read_latency HBM1 = ''nCL + nBL''"
  "std_row_commands HBM1 = HBM1_row_commands"
  "std_column_commands HBM1 = HBM1_column_commands"
  "std_org_presets HBM1 = HBM1_org_presets"
  "std_timing_presets HBM1 = HBM1_timing_presets"
  "std_resolve_secondary HBM1 = HBM1_resolve_secondary_timings"
  by (simp_all add: HBM1_def DRAMStandard_def)

section \<open>HBM2\<close>

definition HBM2_levels :: "(string \<times> string) list" where
  "HBM2_levels = [
      (''Channel'', ''N_A''), (''PseudoChannel'', ''N_A''), (''BankGroup'', ''N_A''),
      (''Bank'', ''Closed''), (''Row'', ''Closed''), (''Column'', ''N_A'')]"

definition HBM2_commands :: "string list" where
  "HBM2_commands = [
      ''ACT'', ''PREpb'', ''PREab'', ''RD'', ''WR'', ''RDA'', ''WRA'', ''REFab'', ''REFpb'']"

definition HBM2_row_commands :: "string list" where
  "HBM2_row_commands = [
      ''ACT'', ''PREpb'', ''PREab'', ''REFab'', ''REFpb'']"

definition HBM2_column_commands :: "string list" where
  "HBM2_column_commands = [
      ''RD'', ''WR'', ''RDA'', ''WRA'']"

definition HBM2_states :: "string list" where
  "HBM2_states = [
      ''Opened'', ''Closed'', ''N_A'']"

definition HBM2_timing_params :: "string list" where
  "HBM2_timing_params = [
      ''rate'', ''nBL'', ''nCL'', ''nRCDRD'', ''nRCDWR'', ''nRP'', ''nRAS'', ''nRC'', ''nWR'',
      ''nRTPL'', ''nCWL'', ''nCCDS'', ''nCCDL'', ''nRRDS'', ''nRRDL'', ''nWTRS'', ''nWTRL'',
      ''nFAW'', ''nRFC'', ''nRFCpb'', ''nRREFD'', ''nREFI'', ''nREFIpb'', ''tCK_ps'']"

definition HBM2_supported_requests :: "(string \<times> string) list" where
  "HBM2_supported_requests = [
      (''Read'', ''RD''), (''Write'', ''WR'')]"

definition HBM2_command_cycles :: "(string \<times> rat) list" where
  "HBM2_command_cycles = [
      (''ACT'', 2)]"

definition HBM2_timing_constraints :: "timing_constraint list" where
  "HBM2_timing_constraints = [
    TC ''PseudoChannel'' [''RD'', ''RDA''] [''RD'', ''RDA''] ''nBL'',
    TC ''PseudoChannel'' [''WR'', ''WRA''] [''WR'', ''WRA''] ''nBL'',
    TC ''PseudoChannel'' [''RD'', ''RDA''] [''RD'', ''RDA''] ''nCCDS'',
    TC ''PseudoChannel'' [''WR'', ''WRA''] [''WR'', ''WRA''] ''nCCDS'',
    TC ''PseudoChannel'' [''RD'', ''RDA''] [''WR'', ''WRA''] ''nCL + nBL + 2 - nCWL'',
    TC ''PseudoChannel'' [''WR'', ''WRA''] [''RD'', ''RDA''] ''nCWL + nBL + nWTRS'',
    TC ''PseudoChannel'' [''RD''] [''PREab''] ''nRTPL'',
    TC ''PseudoChannel'' [''WR''] [''PREab''] ''nCWL + nBL + nWR'',
    TC ''PseudoChannel'' [''ACT''] [''ACT''] ''nRRDS'',
    TC_window ''PseudoChannel'' [''ACT''] [''ACT''] ''nFAW'' 4,
    TC ''PseudoChannel'' [''ACT''] [''PREab''] ''nRAS'',
    TC ''PseudoChannel'' [''PREab''] [''ACT''] ''nRP'',
    TC ''PseudoChannel'' [''ACT''] [''REFab''] ''nRC'',
    TC ''PseudoChannel'' [''PREpb'', ''PREab''] [''REFab''] ''nRP'',
    TC ''PseudoChannel'' [''RDA''] [''REFab''] ''nRP + nRTPL'',
    TC ''PseudoChannel'' [''WRA''] [''REFab''] ''nCWL + nBL + nWR + nRP'',
    TC ''PseudoChannel'' [''REFab''] [''ACT'', ''PREab''] ''nRFC'',
    TC ''PseudoChannel'' [''REFpb''] [''ACT''] ''nRREFD'',
    TC ''PseudoChannel'' [''ACT''] [''REFpb''] ''nRRDS'',
    TC ''BankGroup'' [''RD'', ''RDA''] [''RD'', ''RDA''] ''nCCDL'',
    TC ''BankGroup'' [''WR'', ''WRA''] [''WR'', ''WRA''] ''nCCDL'',
    TC ''BankGroup'' [''WR'', ''WRA''] [''RD'', ''RDA''] ''nCWL + nBL + nWTRL'',
    TC ''BankGroup'' [''ACT''] [''ACT''] ''nRRDL'',
    TC ''Bank'' [''ACT''] [''ACT''] ''nRC'',
    TC ''Bank'' [''ACT''] [''RD'', ''RDA''] ''nRCDRD'',
    TC ''Bank'' [''ACT''] [''WR'', ''WRA''] ''nRCDWR'',
    TC ''Bank'' [''ACT''] [''PREpb''] ''nRAS'',
    TC ''Bank'' [''PREpb''] [''ACT''] ''nRP'',
    TC ''Bank'' [''RD''] [''PREpb''] ''nRTPL'',
    TC ''Bank'' [''WR''] [''PREpb''] ''nCWL + nBL + nWR'',
    TC ''Bank'' [''RDA''] [''ACT''] ''nRTPL + nRP'',
    TC ''Bank'' [''WRA''] [''ACT''] ''nCWL + nBL + nWR + nRP'',
    TC ''Bank'' [''REFpb''] [''ACT''] ''nRFCpb'',
    TC ''Bank'' [''ACT''] [''REFpb''] ''nRC'',
    TC ''Bank'' [''PREpb''] [''REFpb''] ''nRP'']"

definition HBM2_org_presets :: "(string \<times> dict) list" where
  "HBM2_org_presets = [
    (''HBM2_1Gb'',
      [(''density'', PInt 1024), (''dq'', PInt 64), (''channel_width'', PInt 64),
       (''pseudochannel'', PInt 2), (''bankgroup'', PInt 4), (''bank'', PInt 4),
       (''row'', PInt 8192), (''column'', PInt 128)]),
    (''HBM2_2Gb'',
      [(''density'', PInt 2048), (''dq'', PInt 64), (''channel_width'', PInt 64),
       (''pseudochannel'', PInt 2), (''bankgroup'', PInt 4), (''bank'', PInt 4),
       (''row'', PInt 16384), (''column'', PInt 128)]),
    (''HBM2_4Gb'',
      [(''density'', PInt 4096), (''dq'', PInt 64), (''channel_width'', PInt 64),
       (''pseudochannel'', PInt 2), (''bankgroup'', PInt 4), (''bank'', PInt 4),
       (''row'', PInt 32768), (''column'', PInt 128)]),
    (''HBM2_8Gb'',
      [(''density'', PInt 8192), (''dq'', PInt 64), (''channel_width'', PInt 64),
       (''pseudochannel'', PInt 2), (''bankgroup'', PInt 4), (''bank'', PInt 4),
       (''row'', PInt 65536), (''column'', PInt 128)])]"

definition HBM2_timing_presets :: "(string \<times> timings) list" where
  "HBM2_timing_presets = [
    (''HBM2_1600Mbps'',
      [(''rate'', 1600), (''nBL'', 2), (''nCL'', 10), (''nRCDRD'', 10), (''nRCDWR'', 8),
       (''nRP'', 10), (''nRAS'', 24), (''nRC'', 34), (''nWR'', 12), (''nRTPL'', 4),
       (''nCWL'', 4), (''nCCDS'', 2), (''nCCDL'', 4), (''nWTRS'', 5), (''nWTRL'', 6),
       (''tCK_ps'', 1250)]),
    (''HBM2_2000Mbps'',
      [(''rate'', 2000), (''nBL'', 2), (''nCL'', 14), (''nRCDRD'', 14), (''nRCDWR'', 12),
       (''nRP'', 14), (''nRAS'', 34), (''nRC'', 48), (''nWR'', 16), (''nRTPL'', 5),
       (''nCWL'', 5), (''nCCDS'', 2), (''nCCDL'', 4), (''nWTRS'', 6), (''nWTRL'', 8),
       (''tCK_ps'', 1000)]),
    (''HBM2_2400Mbps'',
      [(''rate'', 2400), (''nBL'', 2), (''nCL'', 17), (''nRCDRD'', 17), (''nRCDWR'', 14),
       (''nRP'', 17), (''nRAS'', 40), (''nRC'', 57), (''nWR'', 19), (''nRTPL'', 6),
       (''nCWL'', 6), (''nCCDS'', 2), (''nCCDL'', 4), (''nWTRS'', 8), (''nWTRL'', 10),
       (''tCK_ps'', 833)])]"

definition HBM2_resolve_nRRDS :: "int \<Rightarrow> dram_error + int" where
  "HBM2_resolve_nRRDS tCK = rmax 4 (ceil_q 4000 tCK)"

definition HBM2_resolve_nRRDL :: "int \<Rightarrow> dram_error + int" where
  "HBM2_resolve_nRRDL tCK = rmax 4 (ceil_q 4000 tCK)"

definition HBM2_resolve_nFAW :: "int \<Rightarrow> dram_error + int" where
  "HBM2_resolve_nFAW tCK = rmax 8 (ceil_q 15000 tCK)"

definition HBM2_resolve_nRFC :: "int \<Rightarrow> int \<Rightarrow> dram_error + int" where
  "HBM2_resolve_nRFC density tCK =
     (if density \<le> 1024 then ceil_q (110 * 1000) tCK
      else if density \<le> 2048 then ceil_q (160 * 1000) tCK
      else if density \<le> 4096 then ceil_q (260 * 1000) tCK
      else if density \<le> 8192 then ceil_q (350 * 1000) tCK
      else ceil_q (450 * 1000) tCK)"

definition HBM2_resolve_nRFCpb :: "int \<Rightarrow> int \<Rightarrow> dram_error + int" where
  "HBM2_resolve_nRFCpb density tCK =
     (if density \<le> 8192 then ceil_q (160 * 1000) tCK else ceil_q (200 * 1000) tCK)"

definition HBM2_resolve_nRREFD :: "int \<Rightarrow> dram_error + int" where
  "HBM2_resolve_nRREFD tCK = rmax 4 (ceil_q 8000 tCK)"

definition HBM2_resolve_nREFI :: "int \<Rightarrow> dram_error + int" where
  "HBM2_resolve_nREFI tCK = ceil_q 3900000 tCK"

definition HBM2_resolve_nREFIpb :: "int \<Rightarrow> int \<Rightarrow> dram_error + int" where
  "HBM2_resolve_nREFIpb tCK num_banks = ceil_q 3900000 (num_banks * tCK)"

definition HBM2_resolve_secondary_timings :: "timings \<Rightarrow> dict \<Rightarrow> dram_error + timings" where
  "HBM2_resolve_secondary_timings td od =
     rbind (assign ''nRRDS'' (rbind (dict_get td ''tCK_ps'') HBM2_resolve_nRRDS) td) (\<lambda>td.
     rbind (assign ''nRRDL'' (rbind (dict_get td ''tCK_ps'') HBM2_resolve_nRRDL) td) (\<lambda>td.
     rbind (assign ''nFAW'' (rbind (dict_get td ''tCK_ps'') HBM2_resolve_nFAW) td) (\<lambda>td.
     rbind (assign ''nRFC''
       (rbind (dict_int od ''density'') (\<lambda>d. rbind (dict_get td ''tCK_ps'') (HBM2_resolve_nRFC d))) td) (\<lambda>td.
     rbind (assign ''nRFCpb''
       (rbind (dict_int od ''density'') (\<lambda>d. rbind (dict_get td ''tCK_ps'') (HBM2_resolve_nRFCpb d))) td) (\<lambda>td.
     rbind (assign ''nRREFD'' (rbind (dict_get td ''tCK_ps'') HBM2_resolve_nRREFD) td) (\<lambda>td.
     rbind (assign ''nREFI'' (rbind (dict_get td ''tCK_ps'') HBM2_resolve_nREFI) td) (\<lambda>td.
     rbind (assign ''nREFIpb''
       (rbind (dict_get td ''tCK_ps'') (\<lambda>tCK.
        rbind (dict_int_default od ''pseudochannel'' 1) (\<lambda>pc.
        rbind (dict_int_default od ''bankgroup'' 1) (\<lambda>bg.
        rbind (dict_int_default od ''bank'' 1) (\<lambda>b. HBM2_resolve_nREFIpb tCK (pc * bg * b)))))) td) (\<lambda>td. Inr td))))))))"

definition HBM2 :: dram_standard where
  "HBM2 = DRAMStandard
     \<lparr>std_name := ''HBM2'',
      std_levels := HBM2_levels,
      std_commands := HBM2_commands,
      std_states := HBM2_states,
      std_timing_params := HBM2_timing_params,
      std_supported_requests := HBM2_supported_requests,
      std_constraints := HBM2_timing_constraints,
      std_command_cycles := HBM2_command_cycles,
      std_row_commands := HBM2_row_commands,
      std_column_commands := HBM2_column_commands,
      std_org_presets := HBM2_org_presets,
      std_timing_presets := HBM2_timing_presets,
      std_internal_prefetch := 4,
      std_read_latency := ''nCL + nBL'',
      std_resolve_secondary := HBM2_resolve_secondary_timings\<rparr>"

lemma HBM2_fields:
  "std_levels HBM2 = HBM2_levels"
  "std_commands HBM2 = HBM2_commands"
  "std_states HBM2 = HBM2_states"
  "std_timing_params HBM2 = HBM2_timing_params"
  "std_supported_requests HBM2 = HBM2_supported_requests"
  "std_constraints HBM2 = HBM2_timing_constraints"
  "std_command_cycles HBM2 = HBM2_command_cycles"
  "std_tick_multiplier HBM2 = 1"
  "std_payload HBM2 = None"
  "std_read_latency HBM2 = ''nCL + nBL''"
  "std_row_commands HBM2 = HBM2_row_commands"
  "std_column_commands HBM2 = HBM2_column_commands"
  "std_org_presets HBM2 = HBM2_org_presets"
  "std_timing_presets HBM2 = HBM2_timing_presets"
  "std_resolve_secondary HBM2 = HBM2_resolve_secondary_timings"
  by (simp_all add: HBM2_def DRAMStandard_def)

section \<open>The contract\<close>

definition HBM_provided :: "string list" where
  "HBM_provided = [''nRRDS'', ''nRRDL'', ''nFAW'', ''nRFC'', ''nRFCpb'', ''nRREFD'', ''nREFI'', ''nREFIpb'']"

definition HBM1_org_ranges :: "(string \<times> int) list" where
  "HBM1_org_ranges = [(''density'', 4096), (''bankgroup'', 4), (''bank'', 4)]"

definition HBM2_org_ranges :: "(string \<times> int) list" where
  "HBM2_org_ranges = [(''density'', 16384), (''pseudochannel'', 2), (''bankgroup'', 4), (''bank'', 4)]"

lemmas HBM1_tables = HBM1_resolve_nRRDS_def HBM1_resolve_nRRDL_def HBM1_resolve_nFAW_def HBM1_resolve_nRFC_def HBM1_resolve_nRFCpb_def HBM1_resolve_nRREFD_def HBM1_resolve_nREFI_def HBM1_resolve_nREFIpb_def

lemmas HBM2_tables = HBM2_resolve_nRRDS_def HBM2_resolve_nRRDL_def HBM2_resolve_nFAW_def HBM2_resolve_nRFC_def HBM2_resolve_nRFCpb_def HBM2_resolve_nRREFD_def HBM2_resolve_nREFI_def HBM2_resolve_nREFIpb_def

lemma HBM1_resolves:
  assumes "timings_given HBM1 HBM_provided td" and "pos_timings [''tCK_ps''] td"
    and "org_within HBM1_org_ranges od"
  shows "\<exists>td'. std_resolve_secondary HBM1 td od = Inr td' \<and> timings_cover HBM1 td'"
proof -
  obtain t where t: "dget td ''tCK_ps'' = Some t" "0 < t"
    using pos_timingsD[OF assms(2), of "''tCK_ps''"] by auto
  obtain d g b where o: "dget od ''density'' = Some (PInt d)" "dget od ''bankgroup'' = Some (PInt g)" "dget od ''bank'' = Some (PInt b)" "0 < d" "0 < g" "0 < b"
    using assms(3) by (auto simp: HBM1_org_ranges_def dest!: org_intD)
  have h: "timings_at t [] {''rate'', ''nBL'', ''nCL'', ''nRCDRD'', ''nRCDWR'', ''nRP'', ''nRAS'', ''nRC'', ''nWR'', ''nRTPL'', ''nCWL'', ''nCCDS'', ''nCCDL'', ''nWTRS'', ''nWTRL'', ''tCK_ps''} td"
    by (rule timings_at_keys[OF timings_at_start[OF assms(1) t]])
      (simp_all add: HBM1_fields HBM1_timing_params_def HBM_provided_def)
  have tables: "yields (HBM1_resolve_nRRDS t)" "yields (HBM1_resolve_nRRDL t)" "yields (HBM1_resolve_nFAW t)" "yields (HBM1_resolve_nRREFD t)" "yields (HBM1_resolve_nREFI t)" "yields (HBM1_resolve_nRFC d t)" "yields (HBM1_resolve_nRFCpb t)" "yields (HBM1_resolve_nREFIpb t (g * b))"
    using t o by (simp_all add: HBM1_tables yields_max yields_ceil)
  show ?thesis
    unfolding HBM1_fields HBM1_resolve_secondary_timings_def
    by (insert h, (rule assign_step, assumption, simp (no_asm),
        (rule yields_clock, assumption | rule yields_int, rule o | rule yields_int_default, rule o |
         rule tables)+)+,
      rule final_step, assumption, simp (no_asm) add: HBM1_fields HBM1_timing_params_def)
qed

lemma HBM2_resolves:
  assumes "timings_given HBM2 HBM_provided td" and "pos_timings [''tCK_ps''] td"
    and "org_within HBM2_org_ranges od"
  shows "\<exists>td'. std_resolve_secondary HBM2 td od = Inr td' \<and> timings_cover HBM2 td'"
proof -
  obtain t where t: "dget td ''tCK_ps'' = Some t" "0 < t"
    using pos_timingsD[OF assms(2), of "''tCK_ps''"] by auto
  obtain d p g b where o: "dget od ''density'' = Some (PInt d)" "dget od ''pseudochannel'' = Some (PInt p)" "dget od ''bankgroup'' = Some (PInt g)" "dget od ''bank'' = Some (PInt b)" "0 < d" "0 < p" "0 < g" "0 < b"
    using assms(3) by (auto simp: HBM2_org_ranges_def dest!: org_intD)
  have h: "timings_at t [] {''rate'', ''nBL'', ''nCL'', ''nRCDRD'', ''nRCDWR'', ''nRP'', ''nRAS'', ''nRC'', ''nWR'', ''nRTPL'', ''nCWL'', ''nCCDS'', ''nCCDL'', ''nWTRS'', ''nWTRL'', ''tCK_ps''} td"
    by (rule timings_at_keys[OF timings_at_start[OF assms(1) t]])
      (simp_all add: HBM2_fields HBM2_timing_params_def HBM_provided_def)
  have tables: "yields (HBM2_resolve_nRRDS t)" "yields (HBM2_resolve_nRRDL t)" "yields (HBM2_resolve_nFAW t)" "yields (HBM2_resolve_nRREFD t)" "yields (HBM2_resolve_nREFI t)" "yields (HBM2_resolve_nRFC d t)" "yields (HBM2_resolve_nRFCpb d t)" "yields (HBM2_resolve_nREFIpb t (p * g * b))"
    using t o by (simp_all add: HBM2_tables yields_max yields_ceil)
  show ?thesis
    unfolding HBM2_fields HBM2_resolve_secondary_timings_def
    by (insert h, (rule assign_step, assumption, simp (no_asm),
        (rule yields_clock, assumption | rule yields_int, rule o | rule yields_int_default, rule o |
         rule tables)+)+,
      rule final_step, assumption, simp (no_asm) add: HBM2_fields HBM2_timing_params_def)
qed

lemma HBM1_wf: "std_wf HBM1"
  by (rule std_wf_check; unfold HBM1_fields; code_simp)

lemma HBM1_head: "head_ok HBM1"
  unfolding head_ok_def HBM1_fields by code_simp

lemma HBM1_uniform: "uniform_check (std_tick_multiplier HBM1) (std_cyc HBM1) (std_constraints HBM1)"
  unfolding HBM1_fields by code_simp

lemma HBM1_orgs:
  "orgs_check (hierarchy_fields HBM1) (std_payload HBM1) HBM1_org_ranges (std_org_presets HBM1)"
  "case std_payload HBM1 of None \<Rightarrow> True | Some p \<Rightarrow> 0 < p"
  unfolding hierarchy_fields_def level_keys_def HBM1_fields by code_simp+

lemma HBM1_speeds:
  "speeds_check (filter (\<lambda>k. k \<notin> set HBM_provided) (std_timing_params HBM1)) (std_timing_presets HBM1)"
  "list_all (\<lambda>p. pos_timings [''tCK_ps''] (snd p)) (std_timing_presets HBM1)"
  unfolding HBM1_fields by code_simp+

interpretation hbm1: dram_class HBM1 HBM_provided "pos_timings [''tCK_ps'']" "org_within HBM1_org_ranges"
  by (rule dram_class_check[OF HBM1_wf HBM1_head HBM1_uniform HBM1_orgs HBM1_speeds HBM1_resolves])

lemma HBM2_wf: "std_wf HBM2"
  by (rule std_wf_check; unfold HBM2_fields; code_simp)

lemma HBM2_head: "head_ok HBM2"
  unfolding head_ok_def HBM2_fields by code_simp

lemma HBM2_uniform: "uniform_check (std_tick_multiplier HBM2) (std_cyc HBM2) (std_constraints HBM2)"
  unfolding HBM2_fields by code_simp

lemma HBM2_orgs:
  "orgs_check (hierarchy_fields HBM2) (std_payload HBM2) HBM2_org_ranges (std_org_presets HBM2)"
  "case std_payload HBM2 of None \<Rightarrow> True | Some p \<Rightarrow> 0 < p"
  unfolding hierarchy_fields_def level_keys_def HBM2_fields by code_simp+

lemma HBM2_speeds:
  "speeds_check (filter (\<lambda>k. k \<notin> set HBM_provided) (std_timing_params HBM2)) (std_timing_presets HBM2)"
  "list_all (\<lambda>p. pos_timings [''tCK_ps''] (snd p)) (std_timing_presets HBM2)"
  unfolding HBM2_fields by code_simp+

interpretation hbm2: dram_class HBM2 HBM_provided "pos_timings [''tCK_ps'']" "org_within HBM2_org_ranges"
  by (rule dram_class_check[OF HBM2_wf HBM2_head HBM2_uniform HBM2_orgs HBM2_speeds HBM2_resolves])

end
