(* ===== verification/Std_HBM34.thy ===== *)
theory Std_HBM34
  imports Resolver
begin

text \<open>
  \<open>dram/hbm3.py\<close> and \<open>dram/hbm4.py\<close>: tables, \<open>resolve_secondary_timings\<close> and
  contract. HBM3 keeps what a preset says; HBM4 overwrites it and derives the density of a
  channel from its geometry. Divisions in sequence are divisions by the product.
\<close>

section \<open>HBM3\<close>

definition HBM3_levels :: "(string \<times> string) list" where
  "HBM3_levels = [
      (''Channel'', ''N_A''), (''PseudoChannel'', ''N_A''), (''Sid'', ''N_A''),
      (''BankGroup'', ''N_A''), (''Bank'', ''Closed''), (''Row'', ''Closed''),
      (''Column'', ''N_A'')]"

definition HBM3_commands :: "string list" where
  "HBM3_commands = [
      ''ACT'', ''PREpb'', ''PREab'', ''RD'', ''WR'', ''RDA'', ''WRA'', ''REFab'', ''REFpb'',
      ''RFMab'', ''RFMpb'']"

definition HBM3_row_commands :: "string list" where
  "HBM3_row_commands = [
      ''ACT'', ''PREpb'', ''PREab'', ''REFab'', ''REFpb'', ''RFMab'', ''RFMpb'']"

definition HBM3_column_commands :: "string list" where
  "HBM3_column_commands = [
      ''RD'', ''WR'', ''RDA'', ''WRA'']"

definition HBM3_states :: "string list" where
  "HBM3_states = [
      ''Opened'', ''Closed'', ''N_A'']"

definition HBM3_timing_params :: "string list" where
  "HBM3_timing_params = [
      ''rate'', ''nBL'', ''nCL'', ''nRCDRD'', ''nRCDWR'', ''nRP'', ''nRAS'', ''nRC'', ''nWR'',
      ''nRTP'', ''nCWL'', ''nCCDS'', ''nCCDL'', ''nCCDR'', ''nRRDS'', ''nRRDL'', ''nWTRS'',
      ''nWTRL'', ''nRTW'', ''nFAW'', ''nPPD'', ''nRFC'', ''nRFCpb'', ''nRFMab'', ''nRFMpb'',
      ''nRREFD'', ''nREFI'', ''nREFIpb'', ''tCK_ps'']"

definition HBM3_supported_requests :: "(string \<times> string) list" where
  "HBM3_supported_requests = [
      (''Read'', ''RD''), (''Write'', ''WR'')]"

definition HBM3_command_cycles :: "(string \<times> rat) list" where
  "HBM3_command_cycles = [
      (''ACT'', 3 / 2), (''PREpb'', 1 / 2), (''PREab'', 1 / 2), (''REFab'', 1 / 2),
      (''REFpb'', 1 / 2), (''RFMab'', 1 / 2), (''RFMpb'', 1 / 2)]"

definition HBM3_timing_constraints :: "timing_constraint list" where
  "HBM3_timing_constraints = [
    TC ''PseudoChannel'' [''RD'', ''RDA''] [''RD'', ''RDA''] ''nBL'',
    TC ''PseudoChannel'' [''WR'', ''WRA''] [''WR'', ''WRA''] ''nBL'',
    TC ''PseudoChannel'' [''RD'', ''RDA''] [''WR'', ''WRA''] ''nRTW'',
    TC ''PseudoChannel'' [''WR'', ''WRA''] [''RD'', ''RDA''] ''nCWL + nBL + nWTRS'',
    TC ''PseudoChannel'' [''RD''] [''PREab''] ''nRTP'',
    TC ''PseudoChannel'' [''WR''] [''PREab''] ''nCWL + nBL + nWR'',
    TC ''PseudoChannel'' [''ACT''] [''ACT''] ''nRRDS'',
    TC_window ''PseudoChannel'' [''ACT''] [''ACT''] ''nFAW'' 4,
    TC ''PseudoChannel'' [''ACT''] [''PREab''] ''nRAS'',
    TC ''PseudoChannel'' [''PREab''] [''ACT''] ''nRP'',
    TC ''PseudoChannel'' [''PREpb'', ''PREab''] [''PREpb'', ''PREab''] ''nPPD'',
    TC ''PseudoChannel'' [''ACT''] [''REFab''] ''nRC'',
    TC ''PseudoChannel'' [''PREpb'', ''PREab''] [''REFab''] ''nRP'',
    TC ''PseudoChannel'' [''RDA''] [''REFab''] ''nRP + nRTP'',
    TC ''PseudoChannel'' [''WRA''] [''REFab''] ''nCWL + nBL + nWR + nRP'',
    TC ''PseudoChannel'' [''REFab''] [''ACT'', ''PREab''] ''nRFC'',
    TC ''PseudoChannel'' [''REFpb''] [''REFpb''] ''nRREFD'',
    TC ''PseudoChannel'' [''REFpb''] [''ACT''] ''nRREFD'',
    TC ''PseudoChannel'' [''ACT''] [''REFpb''] ''nRRDS'',
    TC ''PseudoChannel'' [''ACT''] [''RFMab''] ''nRC'',
    TC ''PseudoChannel'' [''PREpb'', ''PREab''] [''RFMab''] ''nRP'',
    TC ''PseudoChannel'' [''RDA''] [''RFMab''] ''nRP + nRTP'',
    TC ''PseudoChannel'' [''WRA''] [''RFMab''] ''nCWL + nBL + nWR + nRP'',
    TC ''PseudoChannel'' [''RFMab''] [''ACT'', ''PREab''] ''nRFMab'',
    TC ''PseudoChannel'' [''RFMpb''] [''ACT''] ''nRREFD'',
    TC ''PseudoChannel'' [''ACT''] [''RFMpb''] ''nRRDS'',
    TC ''Sid'' [''RD'', ''RDA''] [''RD'', ''RDA''] ''nCCDS'',
    TC ''Sid'' [''WR'', ''WRA''] [''WR'', ''WRA''] ''nCCDS'',
    TC_sibling ''Sid'' [''RD'', ''RDA''] [''RD'', ''RDA''] ''nCCDR'',
    TC ''BankGroup'' [''RD'', ''RDA''] [''RD'', ''RDA''] ''nCCDL'',
    TC ''BankGroup'' [''WR'', ''WRA''] [''WR'', ''WRA''] ''nCCDL'',
    TC ''BankGroup'' [''WR'', ''WRA''] [''RD'', ''RDA''] ''nCWL + nBL + nWTRL'',
    TC ''BankGroup'' [''ACT''] [''ACT''] ''nRRDL'',
    TC ''Bank'' [''ACT''] [''ACT''] ''nRC'',
    TC ''Bank'' [''ACT''] [''RD'', ''RDA''] ''nRCDRD'',
    TC ''Bank'' [''ACT''] [''WR'', ''WRA''] ''nRCDWR'',
    TC ''Bank'' [''ACT''] [''PREpb''] ''nRAS'',
    TC ''Bank'' [''PREpb''] [''ACT''] ''nRP'',
    TC ''Bank'' [''RD''] [''PREpb''] ''nRTP'',
    TC ''Bank'' [''WR''] [''PREpb''] ''nCWL + nBL + nWR'',
    TC ''Bank'' [''RDA''] [''ACT''] ''nRTP + nRP'',
    TC ''Bank'' [''WRA''] [''ACT''] ''nCWL + nBL + nWR + nRP'',
    TC ''Bank'' [''REFpb''] [''ACT''] ''nRFCpb'',
    TC ''Bank'' [''ACT''] [''REFpb''] ''nRC'',
    TC ''Bank'' [''PREpb''] [''REFpb''] ''nRP'',
    TC ''Bank'' [''RFMpb''] [''ACT''] ''nRFMpb'',
    TC ''Bank'' [''ACT''] [''RFMpb''] ''nRC'',
    TC ''Bank'' [''PREpb''] [''RFMpb''] ''nRP'']"

definition HBM3_org_presets :: "(string \<times> dict) list" where
  "HBM3_org_presets = [
    (''HBM3_4Gb'',
      [(''density'', PInt 4096), (''dq'', PInt 32), (''channel_width'', PInt 32),
       (''pseudochannel'', PInt 2), (''sid'', PInt 1), (''bankgroup'', PInt 4),
       (''bank'', PInt 4), (''row'', PInt 16384), (''column'', PInt 256)]),
    (''HBM3_8Gb_8hi'',
      [(''density'', PInt 8192), (''dq'', PInt 32), (''channel_width'', PInt 32),
       (''pseudochannel'', PInt 2), (''sid'', PInt 2), (''bankgroup'', PInt 4),
       (''bank'', PInt 4), (''row'', PInt 8192), (''column'', PInt 256)]),
    (''HBM3_16Gb_8hi'',
      [(''density'', PInt 16384), (''dq'', PInt 32), (''channel_width'', PInt 32),
       (''pseudochannel'', PInt 2), (''sid'', PInt 2), (''bankgroup'', PInt 4),
       (''bank'', PInt 4), (''row'', PInt 16384), (''column'', PInt 256)]),
    (''HBM3_32Gb_8hi'',
      [(''density'', PInt 32768), (''dq'', PInt 32), (''channel_width'', PInt 32),
       (''pseudochannel'', PInt 2), (''sid'', PInt 2), (''bankgroup'', PInt 4),
       (''bank'', PInt 4), (''row'', PInt 32768), (''column'', PInt 256)]),
    (''HBM3_32Gb_16hi'',
      [(''density'', PInt 32768), (''dq'', PInt 32), (''channel_width'', PInt 32),
       (''pseudochannel'', PInt 2), (''sid'', PInt 4), (''bankgroup'', PInt 4),
       (''bank'', PInt 4), (''row'', PInt 32768), (''column'', PInt 256)])]"

definition HBM3_timing_presets :: "(string \<times> timings) list" where
  "HBM3_timing_presets = [
    (''HBM3_6400Mbps'',
      [(''rate'', 6400), (''nBL'', 2), (''nCL'', 20), (''nRCDRD'', 31), (''nRCDWR'', 15),
       (''nRP'', 26), (''nRAS'', 45), (''nRC'', 72), (''nWR'', 33), (''nRTP'', 9),
       (''nCWL'', 10), (''nCCDS'', 2), (''nCCDL'', 4), (''nCCDR'', 3), (''nRRDS'', 4),
       (''nRRDL'', 5), (''nFAW'', 24), (''nWTRS'', 7), (''nWTRL'', 10), (''nRTW'', 20),
       (''nRFCpb'', 320), (''nRREFD'', 8), (''nREFI'', 6240), (''nPPD'', 2), (''tCK_ps'', 625)])]"

definition HBM3_resolve_nRFC :: "rat \<Rightarrow> int \<Rightarrow> dram_error + int" where
  "HBM3_resolve_nRFC channel_density tCK =
     (if channel_density \<le> 4096 then ceil_q (260 * 1000) tCK
      else if channel_density \<le> 8192 then ceil_q (350 * 1000) tCK
      else if channel_density \<le> 16384 then ceil_q (450 * 1000) tCK
      else ceil_q (550 * 1000) tCK)"

definition HBM3_resolve_nRREFD :: "int \<Rightarrow> dram_error + int" where
  "HBM3_resolve_nRREFD tCK = rmax 3 (ceil_q 8000 tCK)"

definition HBM3_resolve_nREFI :: "int \<Rightarrow> dram_error + int" where
  "HBM3_resolve_nREFI tCK = ceil_q 3900000 tCK"

text \<open>
  The code divides by the four counts one after the other; the model divides once by their
  product, which is the same number for the counts and clock periods of the presets.
\<close>

definition HBM3_resolve_nREFIpb :: "int \<Rightarrow> int \<Rightarrow> int \<Rightarrow> int \<Rightarrow> dram_error + int" where
  "HBM3_resolve_nREFIpb tCK num_banks num_bankgroups num_sids =
     ceil_q 3900000 (num_banks * num_bankgroups * num_sids * tCK)"

definition HBM3_resolve_secondary_timings :: "timings \<Rightarrow> dict \<Rightarrow> dram_error + timings" where
  "HBM3_resolve_secondary_timings td od =
     rbind (dict_get td ''tCK_ps'') (\<lambda>tCK.
     rbind (dict_int od ''density'') (\<lambda>density.
     rbind (dict_int_default od ''sid'' 1) (\<lambda>sid.
     if sid = 0 then Inl DramZeroDivision else
     rbind (assign_default ''nRFC'' (HBM3_resolve_nRFC (of_int density / of_int sid) tCK) td) (\<lambda>td.
     rbind (assign_default ''nRFMab'' (dict_get td ''nRFC'') td) (\<lambda>td.
     rbind (assign_default ''nRFMpb'' (dict_get td ''nRFCpb'') td) (\<lambda>td.
     rbind (assign_default ''nRREFD'' (HBM3_resolve_nRREFD tCK) td) (\<lambda>td.
     rbind (assign_default ''nREFI'' (HBM3_resolve_nREFI tCK) td) (\<lambda>td.
     rbind (assign_default ''nREFIpb''
       (rbind (dict_int_default od ''bank'' 1) (\<lambda>banks.
        rbind (dict_int_default od ''bankgroup'' 1) (\<lambda>bankgroups.
        rbind (dict_int_default od ''sid'' 1) (\<lambda>sids.
        HBM3_resolve_nREFIpb tCK banks bankgroups sids)))) td) (\<lambda>td. Inr td)))))))))"

definition HBM3 :: dram_standard where
  "HBM3 = DRAMStandard
     \<lparr>std_name := ''HBM3'',
      std_levels := HBM3_levels,
      std_commands := HBM3_commands,
      std_states := HBM3_states,
      std_timing_params := HBM3_timing_params,
      std_supported_requests := HBM3_supported_requests,
      std_constraints := HBM3_timing_constraints,
      std_command_cycles := HBM3_command_cycles,
      std_row_commands := HBM3_row_commands,
      std_column_commands := HBM3_column_commands,
      std_org_presets := HBM3_org_presets,
      std_timing_presets := HBM3_timing_presets,
      std_tick_multiplier := 2,
      std_internal_prefetch := 8,
      std_read_latency := ''nCL + nBL'',
      std_resolve_secondary := HBM3_resolve_secondary_timings\<rparr>"

lemma HBM3_fields:
  "std_levels HBM3 = HBM3_levels"
  "std_commands HBM3 = HBM3_commands"
  "std_states HBM3 = HBM3_states"
  "std_timing_params HBM3 = HBM3_timing_params"
  "std_supported_requests HBM3 = HBM3_supported_requests"
  "std_constraints HBM3 = HBM3_timing_constraints"
  "std_command_cycles HBM3 = HBM3_command_cycles"
  "std_tick_multiplier HBM3 = 2"
  "std_payload HBM3 = None"
  "std_read_latency HBM3 = ''nCL + nBL''"
  "std_row_commands HBM3 = HBM3_row_commands"
  "std_column_commands HBM3 = HBM3_column_commands"
  "std_org_presets HBM3 = HBM3_org_presets"
  "std_timing_presets HBM3 = HBM3_timing_presets"
  "std_resolve_secondary HBM3 = HBM3_resolve_secondary_timings"
  by (simp_all add: HBM3_def DRAMStandard_def)

section \<open>HBM4\<close>

definition HBM4_levels :: "(string \<times> string) list" where
  "HBM4_levels = [
      (''Channel'', ''N_A''), (''PseudoChannel'', ''N_A''), (''Sid'', ''N_A''),
      (''BankGroup'', ''N_A''), (''Bank'', ''Closed''), (''Row'', ''Closed''),
      (''Column'', ''N_A'')]"

definition HBM4_commands :: "string list" where
  "HBM4_commands = [
      ''ACT'', ''PREpb'', ''PREab'', ''RD'', ''WR'', ''RDA'', ''WRA'', ''REFab'', ''REFpb'',
      ''RFMab'', ''RFMpb'']"

definition HBM4_row_commands :: "string list" where
  "HBM4_row_commands = [
      ''ACT'', ''PREpb'', ''PREab'', ''REFab'', ''REFpb'', ''RFMab'', ''RFMpb'']"

definition HBM4_column_commands :: "string list" where
  "HBM4_column_commands = [
      ''RD'', ''WR'', ''RDA'', ''WRA'']"

definition HBM4_states :: "string list" where
  "HBM4_states = [
      ''Opened'', ''Closed'', ''N_A'']"

definition HBM4_timing_params :: "string list" where
  "HBM4_timing_params = [
      ''rate'', ''nBL'', ''nCL'', ''nRCDRD'', ''nRCDWR'', ''nRP'', ''nRAS'', ''nRC'', ''nWR'',
      ''nRTP'', ''nCWL'', ''nCCDS'', ''nCCDL'', ''nCCDR'', ''nRRDS'', ''nRRDL'', ''nWTRS'',
      ''nWTRL'', ''nRTW'', ''nFAW'', ''nPPD'', ''nRFC'', ''nRFCpb'', ''nRFMab'', ''nRFMpb'',
      ''nRREFD'', ''nREFI'', ''nREFIpb'', ''tCK_ps'']"

definition HBM4_supported_requests :: "(string \<times> string) list" where
  "HBM4_supported_requests = [
      (''Read'', ''RD''), (''Write'', ''WR'')]"

definition HBM4_command_cycles :: "(string \<times> rat) list" where
  "HBM4_command_cycles = [
      (''ACT'', 3 / 2), (''PREpb'', 1 / 2), (''PREab'', 1 / 2), (''REFab'', 1 / 2),
      (''REFpb'', 1 / 2), (''RFMab'', 1 / 2), (''RFMpb'', 1 / 2)]"

definition HBM4_timing_constraints :: "timing_constraint list" where
  "HBM4_timing_constraints = [
    TC ''PseudoChannel'' [''RD'', ''RDA''] [''RD'', ''RDA''] ''nBL'',
    TC ''PseudoChannel'' [''WR'', ''WRA''] [''WR'', ''WRA''] ''nBL'',
    TC ''PseudoChannel'' [''RD'', ''RDA''] [''WR'', ''WRA''] ''nRTW'',
    TC ''PseudoChannel'' [''WR'', ''WRA''] [''RD'', ''RDA''] ''nCWL + nBL + nWTRS'',
    TC ''PseudoChannel'' [''RD''] [''PREab''] ''nRTP'',
    TC ''PseudoChannel'' [''WR''] [''PREab''] ''nCWL + nBL + nWR'',
    TC ''PseudoChannel'' [''ACT''] [''ACT''] ''nRRDS'',
    TC_window ''PseudoChannel'' [''ACT''] [''ACT''] ''nFAW'' 4,
    TC ''PseudoChannel'' [''ACT''] [''PREab''] ''nRAS'',
    TC ''PseudoChannel'' [''PREab''] [''ACT''] ''nRP'',
    TC ''PseudoChannel'' [''ACT''] [''REFab''] ''nRC'',
    TC ''PseudoChannel'' [''PREpb'', ''PREab''] [''REFab''] ''nRP'',
    TC ''PseudoChannel'' [''PREpb'', ''PREab''] [''PREpb'', ''PREab''] ''nPPD'',
    TC ''PseudoChannel'' [''RDA''] [''REFab''] ''nRP + nRTP'',
    TC ''PseudoChannel'' [''WRA''] [''REFab''] ''nCWL + nBL + nWR + nRP'',
    TC ''PseudoChannel'' [''REFab''] [''ACT'', ''PREab'', ''REFpb''] ''nRFC'',
    TC ''PseudoChannel'' [''REFpb''] [''REFpb''] ''nRREFD'',
    TC ''PseudoChannel'' [''REFpb''] [''ACT''] ''nRREFD'',
    TC ''PseudoChannel'' [''ACT''] [''REFpb''] ''nRRDS'',
    TC ''PseudoChannel'' [''ACT''] [''RFMab''] ''nRC'',
    TC ''PseudoChannel'' [''PREpb'', ''PREab''] [''RFMab''] ''nRP'',
    TC ''PseudoChannel'' [''RDA''] [''RFMab''] ''nRP + nRTP'',
    TC ''PseudoChannel'' [''WRA''] [''RFMab''] ''nCWL + nBL + nWR + nRP'',
    TC ''PseudoChannel'' [''RFMab''] [''ACT'', ''PREab'', ''RFMpb''] ''nRFMab'',
    TC ''PseudoChannel'' [''RFMpb''] [''RFMpb''] ''nRREFD'',
    TC ''PseudoChannel'' [''RFMpb''] [''ACT''] ''nRREFD'',
    TC ''PseudoChannel'' [''ACT''] [''RFMpb''] ''nRRDS'',
    TC ''Sid'' [''RD'', ''RDA''] [''RD'', ''RDA''] ''nCCDS'',
    TC ''Sid'' [''WR'', ''WRA''] [''WR'', ''WRA''] ''nCCDS'',
    TC_sibling ''Sid'' [''RD'', ''RDA''] [''RD'', ''RDA''] ''nCCDR'',
    TC ''BankGroup'' [''RD'', ''RDA''] [''RD'', ''RDA''] ''nCCDL'',
    TC ''BankGroup'' [''WR'', ''WRA''] [''WR'', ''WRA''] ''nCCDL'',
    TC ''BankGroup'' [''WR'', ''WRA''] [''RD'', ''RDA''] ''nCWL + nBL + nWTRL'',
    TC ''BankGroup'' [''ACT''] [''ACT''] ''nRRDL'',
    TC ''BankGroup'' [''ACT''] [''REFpb'', ''RFMpb''] ''nRRDL'',
    TC ''BankGroup'' [''REFpb'', ''RFMpb''] [''ACT''] ''nRRDL'',
    TC ''Bank'' [''ACT''] [''ACT''] ''nRC'',
    TC ''Bank'' [''ACT''] [''RD'', ''RDA''] ''nRCDRD'',
    TC ''Bank'' [''ACT''] [''WR'', ''WRA''] ''nRCDWR'',
    TC ''Bank'' [''ACT''] [''PREpb''] ''nRAS'',
    TC ''Bank'' [''PREpb''] [''ACT''] ''nRP'',
    TC ''Bank'' [''RD''] [''PREpb''] ''nRTP'',
    TC ''Bank'' [''WR''] [''PREpb''] ''nCWL + nBL + nWR'',
    TC ''Bank'' [''RDA''] [''ACT'', ''REFpb'', ''RFMpb''] ''nRTP + nRP'',
    TC ''Bank'' [''WRA''] [''ACT'', ''REFpb'', ''RFMpb''] ''nCWL + nBL + nWR + nRP'',
    TC ''Bank'' [''REFpb''] [''ACT''] ''nRFCpb'',
    TC ''Bank'' [''ACT''] [''REFpb''] ''nRC'',
    TC ''Bank'' [''PREpb''] [''REFpb''] ''nRP'',
    TC ''Bank'' [''RFMpb''] [''ACT''] ''nRFMpb'',
    TC ''Bank'' [''ACT''] [''RFMpb''] ''nRC'',
    TC ''Bank'' [''PREpb''] [''RFMpb''] ''nRP'']"

definition HBM4_org_presets :: "(string \<times> dict) list" where
  "HBM4_org_presets = [
    (''HBM4_32Gb_4Hi'',
      [(''density'', PInt 32768), (''dq'', PInt 32), (''channel_width'', PInt 32),
       (''pseudochannel'', PInt 2), (''sid'', PInt 1), (''bankgroup'', PInt 2),
       (''bank'', PInt 8), (''row'', PInt 16384), (''column'', PInt 256)]),
    (''HBM4_32Gb_8Hi'',
      [(''density'', PInt 32768), (''dq'', PInt 32), (''channel_width'', PInt 32),
       (''pseudochannel'', PInt 2), (''sid'', PInt 2), (''bankgroup'', PInt 2),
       (''bank'', PInt 8), (''row'', PInt 16384), (''column'', PInt 256)]),
    (''HBM4_32Gb_16Hi'',
      [(''density'', PInt 32768), (''dq'', PInt 32), (''channel_width'', PInt 32),
       (''pseudochannel'', PInt 2), (''sid'', PInt 4), (''bankgroup'', PInt 2),
       (''bank'', PInt 8), (''row'', PInt 16384), (''column'', PInt 256)])]"

definition HBM4_timing_presets :: "(string \<times> timings) list" where
  "HBM4_timing_presets = [
    (''HBM4_8000Mbps'',
      [(''rate'', 8000), (''nBL'', 2), (''nCL'', 20), (''nCWL'', 10), (''nRC'', 90),
       (''nRAS'', 57), (''nRP'', 33), (''nRCDRD'', 39), (''nRCDWR'', 19), (''nRRDL'', 7),
       (''nRRDS'', 5), (''nFAW'', 30), (''nRTP'', 12), (''nWR'', 42), (''nCCDL'', 4),
       (''nCCDS'', 2), (''nCCDR'', 2), (''nWTRL'', 13), (''nWTRS'', 9), (''nRTW'', 25),
       (''nPPD'', 2), (''nRFCpb'', 560), (''nRREFD'', 8), (''tCK_ps'', 500)]),
    (''HBM4_16000Mbps'',
      [(''rate'', 16000), (''nBL'', 2), (''nCL'', 40), (''nCWL'', 20), (''nRC'', 180),
       (''nRAS'', 114), (''nRP'', 66), (''nRCDRD'', 78), (''nRCDWR'', 38), (''nRRDL'', 14),
       (''nRRDS'', 10), (''nFAW'', 60), (''nRTP'', 24), (''nWR'', 84), (''nCCDL'', 4),
       (''nCCDS'', 2), (''nCCDR'', 2), (''nWTRL'', 26), (''nWTRS'', 18), (''nRTW'', 50),
       (''nPPD'', 2), (''nRFCpb'', 1120), (''nRREFD'', 8), (''tCK_ps'', 250)])]"

text \<open>\<open>HBM4.internal_prefetch_size\<close> is 8.\<close>

definition HBM4_resolve_channel_density_mb :: "dict \<Rightarrow> dram_error + rat" where
  "HBM4_resolve_channel_density_mb od =
     rbind (dict_int od ''column'') (\<lambda>column. rbind (dict_int od ''row'') (\<lambda>row.
     rbind (dict_int od ''bank'') (\<lambda>bank. rbind (dict_int od ''bankgroup'') (\<lambda>bankgroup.
     rbind (dict_int od ''sid'') (\<lambda>sid. rbind (dict_int od ''pseudochannel'') (\<lambda>pseudochannel.
     rbind (dict_int od ''dq'') (\<lambda>dq.
     Inr (of_int (column div 8 * row * bank * bankgroup * sid * pseudochannel * dq * 8) / of_int (1024 ^ 2)))))))))"

definition HBM4_resolve_nRFC :: "rat \<Rightarrow> int \<Rightarrow> dram_error + int" where
  "HBM4_resolve_nRFC channel_density_mb tCK =
     (if channel_density_mb \<le> 4 * 1024 then ceil_q (400 * 1000) tCK
      else if channel_density_mb \<le> 8 * 1024 then ceil_q (450 * 1000) tCK
      else if channel_density_mb \<le> 16 * 1024 then ceil_q (530 * 1000) tCK
      else Inl (SecondaryTiming ''nRFC''))"

definition HBM4_resolve_nREFI :: "int \<Rightarrow> dram_error + int" where
  "HBM4_resolve_nREFI tCK = ceil_q 3900000 tCK"

definition HBM4_resolve_nREFIpb :: "int \<Rightarrow> int \<Rightarrow> int \<Rightarrow> int \<Rightarrow> dram_error + int" where
  "HBM4_resolve_nREFIpb tCK num_banks num_bankgroups num_sids =
     ceil_q 3900000 (num_banks * num_bankgroups * num_sids * tCK)"

definition HBM4_resolve_nRREFD :: "int \<Rightarrow> dram_error + int" where
  "HBM4_resolve_nRREFD tCK = rmax 3 (ceil_q 8000 tCK)"

definition HBM4_resolve_secondary_timings :: "timings \<Rightarrow> dict \<Rightarrow> dram_error + timings" where
  "HBM4_resolve_secondary_timings td od =
     rbind (dict_get td ''tCK_ps'') (\<lambda>tCK.
     rbind (HBM4_resolve_channel_density_mb od) (\<lambda>density.
     rbind (assign ''nRFC'' (HBM4_resolve_nRFC density tCK) td) (\<lambda>td.
     rbind (assign ''nRFMab'' (dict_get td ''nRFC'') td) (\<lambda>td.
     rbind (assign ''nRFMpb'' (dict_get td ''nRFCpb'') td) (\<lambda>td.
     rbind (assign ''nREFI'' (HBM4_resolve_nREFI tCK) td) (\<lambda>td.
     rbind (assign ''nREFIpb''
       (rbind (dict_int od ''bank'') (\<lambda>banks. rbind (dict_int od ''bankgroup'') (\<lambda>bankgroups.
        rbind (dict_int od ''sid'') (\<lambda>sids. HBM4_resolve_nREFIpb tCK banks bankgroups sids)))) td) (\<lambda>td.
     rbind (assign ''nRREFD'' (HBM4_resolve_nRREFD tCK) td) (\<lambda>td. Inr td))))))))"

definition HBM4 :: dram_standard where
  "HBM4 = DRAMStandard
     \<lparr>std_name := ''HBM4'',
      std_levels := HBM4_levels,
      std_commands := HBM4_commands,
      std_states := HBM4_states,
      std_timing_params := HBM4_timing_params,
      std_supported_requests := HBM4_supported_requests,
      std_constraints := HBM4_timing_constraints,
      std_command_cycles := HBM4_command_cycles,
      std_row_commands := HBM4_row_commands,
      std_column_commands := HBM4_column_commands,
      std_org_presets := HBM4_org_presets,
      std_timing_presets := HBM4_timing_presets,
      std_tick_multiplier := 2,
      std_internal_prefetch := 8,
      std_read_latency := ''nCL + nBL'',
      std_resolve_secondary := HBM4_resolve_secondary_timings\<rparr>"

lemma HBM4_fields:
  "std_levels HBM4 = HBM4_levels"
  "std_commands HBM4 = HBM4_commands"
  "std_states HBM4 = HBM4_states"
  "std_timing_params HBM4 = HBM4_timing_params"
  "std_supported_requests HBM4 = HBM4_supported_requests"
  "std_constraints HBM4 = HBM4_timing_constraints"
  "std_command_cycles HBM4 = HBM4_command_cycles"
  "std_tick_multiplier HBM4 = 2"
  "std_payload HBM4 = None"
  "std_read_latency HBM4 = ''nCL + nBL''"
  "std_row_commands HBM4 = HBM4_row_commands"
  "std_column_commands HBM4 = HBM4_column_commands"
  "std_org_presets HBM4 = HBM4_org_presets"
  "std_timing_presets HBM4 = HBM4_timing_presets"
  "std_resolve_secondary HBM4 = HBM4_resolve_secondary_timings"
  by (simp_all add: HBM4_def DRAMStandard_def)

section \<open>The contract\<close>

definition HBM34_provided :: "string list" where
  "HBM34_provided = [''nRFC'', ''nRFMab'', ''nRFMpb'', ''nRREFD'', ''nREFI'', ''nREFIpb'']"

definition HBM3_org_ranges :: "(string \<times> int) list" where
  "HBM3_org_ranges = [(''density'', 65536), (''sid'', 4), (''bankgroup'', 4), (''bank'', 4)]"

definition HBM4_org_ranges :: "(string \<times> int) list" where
  "HBM4_org_ranges = [(''column'', 256), (''row'', 16384), (''bank'', 8), (''bankgroup'', 2), (''sid'', 4),
     (''pseudochannel'', 2), (''dq'', 32)]"

lemma HBM3_resolves:
  assumes "timings_given HBM3 HBM34_provided td" and "pos_timings [''tCK_ps''] td"
    and "org_within HBM3_org_ranges od"
  shows "\<exists>td'. std_resolve_secondary HBM3 td od = Inr td' \<and> timings_cover HBM3 td'"
proof -
  obtain t where t: "dget td ''tCK_ps'' = Some t" "0 < t"
    using pos_timingsD[OF assms(2), of "''tCK_ps''"] by auto
  obtain d s g b where o: "dget od ''density'' = Some (PInt d)" "dget od ''sid'' = Some (PInt s)"
    "dget od ''bankgroup'' = Some (PInt g)" "dget od ''bank'' = Some (PInt b)"
    and pos: "0 < d" "0 < s" "0 < g" "0 < b"
    using assms(3) by (auto simp: HBM3_org_ranges_def dest!: org_intD)
  have h: "timings_at t [] {''rate'', ''nBL'', ''nCL'', ''nRCDRD'', ''nRCDWR'', ''nRP'', ''nRAS'', ''nRC'', ''nWR'', ''nRTP'', ''nCWL'', ''nCCDS'', ''nCCDL'', ''nCCDR'', ''nRRDS'', ''nRRDL'', ''nWTRS'', ''nWTRL'', ''nRTW'', ''nFAW'', ''nPPD'', ''nRFCpb'', ''tCK_ps''} td"
    by (rule timings_at_keys[OF timings_at_start[OF assms(1) t]])
      (simp_all add: HBM3_fields HBM3_timing_params_def HBM34_provided_def)
  have start: "dict_get td ''tCK_ps'' = Inr t" "dict_int od ''density'' = Inr d" "dict_int_default od ''sid'' 1 = Inr s"
    "(s = 0) = False" "dict_int_default od ''bank'' 1 = Inr b" "dict_int_default od ''bankgroup'' 1 = Inr g"
    using t o pos by (simp_all add: dict_get_def dict_int_def dict_int_default_def)
  have tables: "yields (HBM3_resolve_nRFC (of_int d / of_int s) t)" "yields (HBM3_resolve_nRREFD t)"
    "yields (HBM3_resolve_nREFI t)" "yields (HBM3_resolve_nREFIpb t b g s)"
    using t pos by (simp_all add: HBM3_resolve_nRFC_def HBM3_resolve_nRREFD_def HBM3_resolve_nREFI_def
        HBM3_resolve_nREFIpb_def yields_max yields_ceil)
  show ?thesis
    unfolding HBM3_fields HBM3_resolve_secondary_timings_def start rbind_Inr if_False
    by (insert h, (rule default_step, assumption, (rule tables | rule yields_get, assumption, simp (no_asm)))+,
      rule final_step, assumption, simp (no_asm) add: HBM3_fields HBM3_timing_params_def)
qed

lemma HBM4_density:
  assumes "0 < (c::int)" "c \<le> 256" "0 < r" "r \<le> 16384" "0 < b" "b \<le> 8" "0 < g" "g \<le> 2"
    "0 < s" "s \<le> 4" "0 < p" "p \<le> 2" "0 < q" "q \<le> 32"
  shows "c div 8 * r * b * g * s * p * q * 8 \<le> 16 * 1024 * 1024 ^ 2"
proof -
  have "0 \<le> c div 8" "c div 8 \<le> 32" using assms(1,2) by simp_all
  then have "c div 8 * r * b * g * s * p * q * 8 \<le> 32 * 16384 * 8 * 2 * 4 * 2 * 32 * (8::int)"
    using assms by (intro mult_mono mult_nonneg_nonneg) simp_all
  then show ?thesis by simp
qed

lemma HBM4_resolves:
  assumes "timings_given HBM4 HBM34_provided td" and "pos_timings [''tCK_ps''] td"
    and "org_within HBM4_org_ranges od"
  shows "\<exists>td'. std_resolve_secondary HBM4 td od = Inr td' \<and> timings_cover HBM4 td'"
proof -
  obtain t where t: "dget td ''tCK_ps'' = Some t" "0 < t"
    using pos_timingsD[OF assms(2), of "''tCK_ps''"] by auto
  obtain c r b g s p q where o: "dget od ''column'' = Some (PInt c)" "dget od ''row'' = Some (PInt r)"
    "dget od ''bank'' = Some (PInt b)" "dget od ''bankgroup'' = Some (PInt g)" "dget od ''sid'' = Some (PInt s)"
    "dget od ''pseudochannel'' = Some (PInt p)" "dget od ''dq'' = Some (PInt q)"
    and range: "0 < c" "c \<le> 256" "0 < r" "r \<le> 16384" "0 < b" "b \<le> 8" "0 < g" "g \<le> 2"
    "0 < s" "s \<le> 4" "0 < p" "p \<le> 2" "0 < q" "q \<le> 32"
    using assms(3) by (auto simp: HBM4_org_ranges_def dest!: org_intD)
  have h: "timings_at t [] {''rate'', ''nBL'', ''nCL'', ''nRCDRD'', ''nRCDWR'', ''nRP'', ''nRAS'', ''nRC'', ''nWR'', ''nRTP'', ''nCWL'', ''nCCDS'', ''nCCDL'', ''nCCDR'', ''nRRDS'', ''nRRDL'', ''nWTRS'', ''nWTRL'', ''nRTW'', ''nFAW'', ''nPPD'', ''nRFCpb'', ''tCK_ps''} td"
    by (rule timings_at_keys[OF timings_at_start[OF assms(1) t]])
      (simp_all add: HBM4_fields HBM4_timing_params_def HBM34_provided_def)
  define dens where "dens = (of_int (c div 8 * r * b * g * s * p * q * 8) / of_int (1024 ^ 2) :: rat)"
  have "of_int (c div 8 * r * b * g * s * p * q * 8) \<le> (of_int (16 * 1024 * 1024 ^ 2) :: rat)"
    using HBM4_density[OF range] of_int_le_iff by blast
  then have dens: "dens \<le> 16 * 1024" by (simp add: dens_def divide_le_eq)
  have start: "dict_get td ''tCK_ps'' = Inr t" "HBM4_resolve_channel_density_mb od = Inr dens"
    "dict_int od ''bank'' = Inr b" "dict_int od ''bankgroup'' = Inr g" "dict_int od ''sid'' = Inr s"
    using t o by (simp_all add: dict_get_def dict_int_def HBM4_resolve_channel_density_mb_def dens_def)
  have tables: "yields (HBM4_resolve_nRFC dens t)" "yields (HBM4_resolve_nRREFD t)"
    "yields (HBM4_resolve_nREFI t)" "yields (HBM4_resolve_nREFIpb t b g s)"
    using t range dens by (simp_all add: HBM4_resolve_nRFC_def HBM4_resolve_nRREFD_def HBM4_resolve_nREFI_def
        HBM4_resolve_nREFIpb_def yields_max yields_ceil)
  show ?thesis
    unfolding HBM4_fields HBM4_resolve_secondary_timings_def start rbind_Inr
    by (insert h, (rule assign_step, assumption, simp (no_asm),
        (rule tables | rule yields_get, assumption, simp (no_asm)))+,
      rule final_step, assumption, simp (no_asm) add: HBM4_fields HBM4_timing_params_def)
qed

lemma HBM3_wf: "std_wf HBM3"
  by (rule std_wf_check; unfold HBM3_fields; code_simp)

lemma HBM3_head: "head_ok HBM3"
  unfolding head_ok_def HBM3_fields by code_simp

lemma HBM3_uniform: "uniform_check (std_tick_multiplier HBM3) (std_cyc HBM3) (std_constraints HBM3)"
  unfolding HBM3_fields by code_simp

lemma HBM3_orgs:
  "orgs_check (hierarchy_fields HBM3) (std_payload HBM3) HBM3_org_ranges (std_org_presets HBM3)"
  "case std_payload HBM3 of None \<Rightarrow> True | Some p \<Rightarrow> 0 < p"
  unfolding hierarchy_fields_def level_keys_def HBM3_fields by code_simp+

lemma HBM3_speeds:
  "speeds_check (filter (\<lambda>k. k \<notin> set HBM34_provided) (std_timing_params HBM3)) (std_timing_presets HBM3)"
  "list_all (\<lambda>p. pos_timings [''tCK_ps''] (snd p)) (std_timing_presets HBM3)"
  unfolding HBM3_fields by code_simp+

interpretation hbm3: dram_class HBM3 HBM34_provided "pos_timings [''tCK_ps'']" "org_within HBM3_org_ranges"
  by (rule dram_class_check[OF HBM3_wf HBM3_head HBM3_uniform HBM3_orgs HBM3_speeds HBM3_resolves])

lemma HBM4_wf: "std_wf HBM4"
  by (rule std_wf_check; unfold HBM4_fields; code_simp)

lemma HBM4_head: "head_ok HBM4"
  unfolding head_ok_def HBM4_fields by code_simp

lemma HBM4_uniform: "uniform_check (std_tick_multiplier HBM4) (std_cyc HBM4) (std_constraints HBM4)"
  unfolding HBM4_fields by code_simp

lemma HBM4_orgs:
  "orgs_check (hierarchy_fields HBM4) (std_payload HBM4) HBM4_org_ranges (std_org_presets HBM4)"
  "case std_payload HBM4 of None \<Rightarrow> True | Some p \<Rightarrow> 0 < p"
  unfolding hierarchy_fields_def level_keys_def HBM4_fields by code_simp+

lemma HBM4_speeds:
  "speeds_check (filter (\<lambda>k. k \<notin> set HBM34_provided) (std_timing_params HBM4)) (std_timing_presets HBM4)"
  "list_all (\<lambda>p. pos_timings [''tCK_ps''] (snd p)) (std_timing_presets HBM4)"
  unfolding HBM4_fields by code_simp+

interpretation hbm4: dram_class HBM4 HBM34_provided "pos_timings [''tCK_ps'']" "org_within HBM4_org_ranges"
  by (rule dram_class_check[OF HBM4_wf HBM4_head HBM4_uniform HBM4_orgs HBM4_speeds HBM4_resolves])

end
