(* ===== verification/Std_LPDDR5.thy ===== *)
theory Std_LPDDR5
  imports Resolver
begin

text \<open>
  \<open>dram/lpddr5.py\<close>: tables, \<open>resolve_secondary_timings\<close> and contract. The power
  tables of the class are data for the C++ power model and are not part of the configuration
  built here.
\<close>

section \<open>Declarations and presets\<close>

definition LPDDR5_levels :: "(string \<times> string) list" where
  "LPDDR5_levels = [
      (''Channel'', ''N_A''), (''Rank'', ''N_A''), (''BankGroup'', ''N_A''),
      (''Bank'', ''Closed''), (''Row'', ''Closed''), (''Column'', ''N_A'')]"

definition LPDDR5_commands :: "string list" where
  "LPDDR5_commands = [
      ''ACT1'', ''ACT2'', ''PREpb'', ''PREab'', ''CAS_RD'', ''CAS_WR'', ''RD'', ''WR'',
      ''RDA'', ''WRA'', ''REFab'', ''REFpb'']"

definition LPDDR5_states :: "string list" where
  "LPDDR5_states = [
      ''Opened'', ''Closed'', ''Activating'', ''N_A'']"

definition LPDDR5_timing_params :: "string list" where
  "LPDDR5_timing_params = [
      ''rate'', ''nBL_min'', ''nBL_max'', ''nCL'', ''nRCD'', ''nRP'', ''nRPab'', ''nRAS'',
      ''nRC'', ''nWR'', ''nRTP'', ''nCWL'', ''nPPD'', ''nCCDS'', ''nCCDL'', ''nCCDS_WR'',
      ''nCCDL_WR'', ''nRRDS'', ''nRRDL'', ''nWTRS'', ''nWTRL'', ''nFAW'', ''nRFC'', ''nRFCpb'',
      ''nREFI'', ''nREFIpb'', ''nWCKPST'', ''nCAS'', ''nAAD'', ''nCS'', ''tCK_ps'',
      ''nPBR2PBR'', ''nPBR2ACT'']"

definition LPDDR5_supported_requests :: "(string \<times> string) list" where
  "LPDDR5_supported_requests = [
      (''Read'', ''RD''), (''Write'', ''WR'')]"

definition LPDDR5_command_cycles :: "(string \<times> rat) list" where
  "LPDDR5_command_cycles = []"

definition LPDDR5_timing_constraints :: "timing_constraint list" where
  "LPDDR5_timing_constraints = [
    TC ''Channel'' [''RD'', ''RDA''] [''RD'', ''RDA''] ''nBL_min'',
    TC ''Channel'' [''WR'', ''WRA''] [''WR'', ''WRA''] ''nBL_min'',
    TC ''Bank'' [''CAS_RD''] [''RD'', ''RDA''] ''nCAS'',
    TC ''Bank'' [''CAS_WR''] [''WR'', ''WRA''] ''nCAS'',
    TC ''Rank'' [''RD'', ''RDA''] [''RD'', ''RDA''] ''nCCDS'',
    TC ''Rank'' [''WR'', ''WRA''] [''WR'', ''WRA''] ''nCCDS_WR'',
    TC ''Rank'' [''RD'', ''RDA''] [''WR'', ''WRA''] ''nCL + nBL_min + 2 - nCWL'',
    TC ''Rank'' [''WR'', ''WRA''] [''RD'', ''RDA''] ''nCWL + nBL_min + nWTRS'',
    TC_sibling ''Rank'' [''RD'', ''RDA''] [''RD'', ''RDA'', ''WR'', ''WRA''] ''nBL_min + nCS'',
    TC_sibling ''Rank'' [''WR'', ''WRA''] [''RD'', ''RDA''] ''nCL + nBL_min + nCS - nCWL'',
    TC ''Rank'' [''RD''] [''PREab''] ''nRTP'',
    TC ''Rank'' [''WR''] [''PREab''] ''nCWL + nBL_min + nWR'',
    TC ''Rank'' [''ACT1''] [''ACT1''] ''nRRDS'',
    TC_window ''Rank'' [''ACT1''] [''ACT1''] ''nFAW'' 4,
    TC ''Rank'' [''ACT1''] [''PREab''] ''nRAS'',
    TC ''Rank'' [''PREab''] [''ACT1''] ''nRPab'',
    TC ''Rank'' [''PREpb'', ''PREab''] [''PREpb'', ''PREab''] ''nPPD'',
    TC ''Rank'' [''ACT1''] [''REFab''] ''nRC'',
    TC ''Rank'' [''PREpb'', ''PREab''] [''REFab''] ''nRP'',
    TC ''Rank'' [''RDA''] [''REFab''] ''nRP + nRTP'',
    TC ''Rank'' [''WRA''] [''REFab''] ''nCWL + nBL_min + nWR + nRP'',
    TC ''Rank'' [''REFab''] [''ACT1'', ''PREab'', ''REFpb'', ''REFab''] ''nRFC'',
    TC ''Rank'' [''REFpb''] [''REFpb''] ''nPBR2PBR'',
    TC ''Rank'' [''REFpb''] [''REFab''] ''nRFCpb'',
    TC ''Rank'' [''REFpb''] [''ACT1''] ''nPBR2ACT'',
    TC ''BankGroup'' [''RD'', ''RDA''] [''RD'', ''RDA''] ''nCCDL'',
    TC ''BankGroup'' [''WR'', ''WRA''] [''WR'', ''WRA''] ''nCCDL_WR'',
    TC ''BankGroup'' [''WR'', ''WRA''] [''RD'', ''RDA''] ''nCWL + nBL_max + nWTRL'',
    TC ''BankGroup'' [''ACT1''] [''ACT1''] ''nRRDL'',
    TC ''Bank'' [''ACT1''] [''ACT1''] ''nRC'',
    TC ''Bank'' [''ACT1''] [''RD'', ''RDA'', ''WR'', ''WRA''] ''nRCD'',
    TC ''Bank'' [''ACT1''] [''PREpb''] ''nRAS'',
    TC ''Bank'' [''PREpb''] [''ACT1''] ''nRP'',
    TC ''Bank'' [''RD''] [''PREpb''] ''nRTP'',
    TC ''Bank'' [''WR''] [''PREpb''] ''nCWL + nBL_min + nWR'',
    TC ''Bank'' [''RDA''] [''ACT1''] ''nRTP + nRP'',
    TC ''Bank'' [''WRA''] [''ACT1''] ''nCWL + nBL_min + nWR + nRP'',
    TC ''Bank'' [''REFpb''] [''ACT1''] ''nRFCpb'',
    TC ''Bank'' [''ACT1''] [''REFpb''] ''nRC'',
    TC ''Bank'' [''PREpb''] [''REFpb''] ''nRP'']"

definition LPDDR5_org_presets :: "(string \<times> dict) list" where
  "LPDDR5_org_presets = [
    (''LPDDR5_8Gb_x16'',
      [(''density'', PInt 8192), (''dq'', PInt 16), (''channel_width'', PInt 16),
       (''rank'', PInt 1), (''bankgroup'', PInt 4), (''bank'', PInt 4), (''row'', PInt 32768),
       (''column'', PInt 1024)]),
    (''LPDDR5_16Gb_x16'',
      [(''density'', PInt 16384), (''dq'', PInt 16), (''channel_width'', PInt 16),
       (''rank'', PInt 1), (''bankgroup'', PInt 4), (''bank'', PInt 4), (''row'', PInt 65536),
       (''column'', PInt 1024)])]"

definition LPDDR5_timing_presets :: "(string \<times> timings) list" where
  "LPDDR5_timing_presets = [
    (''LPDDR5_6400'',
      [(''rate'', 6400), (''nBL_min'', 2), (''nBL_max'', 4), (''nCL'', 17), (''nRCD'', 15),
       (''nRP'', 15), (''nRPab'', 17), (''nRAS'', 34), (''nRC'', 49), (''nWR'', 28),
       (''nRTP'', 8), (''nCWL'', 9), (''nPPD'', 2), (''nCCDS'', 2), (''nCCDL'', 4),
       (''nCCDS_WR'', 2), (''nCCDL_WR'', 4), (''nWTRS'', 5), (''nWTRL'', 10), (''nWCKPST'', 1),
       (''nCAS'', 0), (''nAAD'', 8), (''nCS'', 2), (''tCK_ps'', 1250)])]"

section \<open>Secondary timings\<close>

definition LPDDR5_resolve_nRRDS :: "int \<Rightarrow> dram_error + int" where
  "LPDDR5_resolve_nRRDS tCK = rmax 4 (ceil_q 5000 tCK)"

definition LPDDR5_resolve_nRRDL :: "int \<Rightarrow> dram_error + int" where
  "LPDDR5_resolve_nRRDL tCK = rmax 4 (ceil_q 5000 tCK)"

definition LPDDR5_resolve_nFAW :: "int \<Rightarrow> dram_error + int" where
  "LPDDR5_resolve_nFAW tCK = rmax 16 (ceil_q 20000 tCK)"

definition LPDDR5_resolve_nRFC :: "int \<Rightarrow> int \<Rightarrow> dram_error + int" where
  "LPDDR5_resolve_nRFC density tCK =
     (if density \<le> 2048 then ceil_q (130 * 1000) tCK
      else if density \<le> 4096 then ceil_q (180 * 1000) tCK
      else if density \<le> 8192 then ceil_q (210 * 1000) tCK
      else if density \<le> 16384 then ceil_q (280 * 1000) tCK
      else ceil_q (380 * 1000) tCK)"

definition LPDDR5_resolve_nRFCpb :: "int \<Rightarrow> int \<Rightarrow> dram_error + int" where
  "LPDDR5_resolve_nRFCpb density tCK =
     (if density \<le> 2048 then ceil_q (60 * 1000) tCK
      else if density \<le> 4096 then ceil_q (90 * 1000) tCK
      else if density \<le> 8192 then ceil_q (120 * 1000) tCK
      else if density \<le> 16384 then ceil_q (140 * 1000) tCK
      else ceil_q (190 * 1000) tCK)"

definition LPDDR5_resolve_nREFI :: "int \<Rightarrow> dram_error + int" where
  "LPDDR5_resolve_nREFI tCK = ceil_q 3906000 tCK"

definition LPDDR5_resolve_nREFIpb :: "int \<Rightarrow> dram_error + int" where
  "LPDDR5_resolve_nREFIpb tCK = ceil_q 488000 tCK"

definition LPDDR5_resolve_nPBR2PBR :: "int \<Rightarrow> int \<Rightarrow> dram_error + int" where
  "LPDDR5_resolve_nPBR2PBR density tCK =
     (if density \<le> 2048 then ceil_q (60 * 1000) tCK else ceil_q (90 * 1000) tCK)"

definition LPDDR5_resolve_nPBR2ACT :: "int \<Rightarrow> dram_error + int" where
  "LPDDR5_resolve_nPBR2ACT tCK = ceil_q 7500 tCK"

definition LPDDR5_resolve_secondary_timings :: "timings \<Rightarrow> dict \<Rightarrow> dram_error + timings" where
  "LPDDR5_resolve_secondary_timings td od =
     rbind (assign ''nRRDS'' (rbind (dict_get td ''tCK_ps'') LPDDR5_resolve_nRRDS) td) (\<lambda>td.
     rbind (assign ''nRRDL'' (rbind (dict_get td ''tCK_ps'') LPDDR5_resolve_nRRDL) td) (\<lambda>td.
     rbind (assign ''nFAW'' (rbind (dict_get td ''tCK_ps'') LPDDR5_resolve_nFAW) td) (\<lambda>td.
     rbind (assign ''nRFC''
       (rbind (dict_int od ''density'') (\<lambda>d. rbind (dict_get td ''tCK_ps'') (LPDDR5_resolve_nRFC d))) td) (\<lambda>td.
     rbind (assign ''nRFCpb''
       (rbind (dict_int od ''density'') (\<lambda>d. rbind (dict_get td ''tCK_ps'') (LPDDR5_resolve_nRFCpb d))) td) (\<lambda>td.
     rbind (assign ''nREFI'' (rbind (dict_get td ''tCK_ps'') LPDDR5_resolve_nREFI) td) (\<lambda>td.
     rbind (assign ''nREFIpb'' (rbind (dict_get td ''tCK_ps'') LPDDR5_resolve_nREFIpb) td) (\<lambda>td.
     rbind (assign ''nPBR2PBR''
       (rbind (dict_int od ''density'') (\<lambda>d. rbind (dict_get td ''tCK_ps'') (LPDDR5_resolve_nPBR2PBR d))) td) (\<lambda>td.
     rbind (assign ''nPBR2ACT'' (rbind (dict_get td ''tCK_ps'') LPDDR5_resolve_nPBR2ACT) td) (\<lambda>td.
     Inr td)))))))))"

definition LPDDR5 :: dram_standard where
  "LPDDR5 = DRAMStandard
     \<lparr>std_name := ''LPDDR5'',
      std_levels := LPDDR5_levels,
      std_commands := LPDDR5_commands,
      std_states := LPDDR5_states,
      std_timing_params := LPDDR5_timing_params,
      std_supported_requests := LPDDR5_supported_requests,
      std_constraints := LPDDR5_timing_constraints,
      std_command_cycles := LPDDR5_command_cycles,
      std_org_presets := LPDDR5_org_presets,
      std_timing_presets := LPDDR5_timing_presets,
      std_internal_prefetch := 16,
      std_read_latency := ''nCL + nBL_min'',
      std_resolve_secondary := LPDDR5_resolve_secondary_timings\<rparr>"

lemma LPDDR5_fields:
  "std_levels LPDDR5 = LPDDR5_levels"
  "std_commands LPDDR5 = LPDDR5_commands"
  "std_states LPDDR5 = LPDDR5_states"
  "std_timing_params LPDDR5 = LPDDR5_timing_params"
  "std_supported_requests LPDDR5 = LPDDR5_supported_requests"
  "std_constraints LPDDR5 = LPDDR5_timing_constraints"
  "std_command_cycles LPDDR5 = LPDDR5_command_cycles"
  "std_tick_multiplier LPDDR5 = 1"
  "std_payload LPDDR5 = None"
  "std_read_latency LPDDR5 = ''nCL + nBL_min''"
  "std_row_commands LPDDR5 = []"
  "std_column_commands LPDDR5 = []"
  "std_org_presets LPDDR5 = LPDDR5_org_presets"
  "std_timing_presets LPDDR5 = LPDDR5_timing_presets"
  "std_resolve_secondary LPDDR5 = LPDDR5_resolve_secondary_timings"
  by (simp_all add: LPDDR5_def DRAMStandard_def)

section \<open>The contract\<close>

definition LPDDR5_provided :: "string list" where
  "LPDDR5_provided = [''nRRDS'', ''nRRDL'', ''nFAW'', ''nRFC'', ''nRFCpb'', ''nREFI'', ''nREFIpb'', ''nPBR2PBR'', ''nPBR2ACT'']"

definition LPDDR5_org_ranges :: "(string \<times> int) list" where
  "LPDDR5_org_ranges = [(''density'', 65536)]"

lemmas LPDDR5_tables = LPDDR5_resolve_nRRDS_def LPDDR5_resolve_nRRDL_def LPDDR5_resolve_nFAW_def
  LPDDR5_resolve_nRFC_def LPDDR5_resolve_nRFCpb_def LPDDR5_resolve_nREFI_def LPDDR5_resolve_nREFIpb_def
  LPDDR5_resolve_nPBR2PBR_def LPDDR5_resolve_nPBR2ACT_def

text \<open>The resolver for any standard with these timings, so that derived standards share it.\<close>

lemma LPDDR5_resolver:
  assumes "timings_at t F K td" and "org_within LPDDR5_org_ranges od"
    and "set LPDDR5_provided \<inter> set (''tCK_ps'' # map fst F) = {}"
  shows "\<exists>td'. LPDDR5_resolve_secondary_timings td od = Inr td' \<and> timings_at t F (set LPDDR5_provided \<union> K) td'"
proof -
  have t: "0 < t" using assms(1) by (simp add: timings_at_def)
  obtain d where o: "dget od ''density'' = Some (PInt d)"
    using assms(2) by (auto simp: LPDDR5_org_ranges_def dest!: org_intD)
  have tables: "yields (LPDDR5_resolve_nRRDS t)" "yields (LPDDR5_resolve_nRRDL t)" "yields (LPDDR5_resolve_nFAW t)"
    "yields (LPDDR5_resolve_nRFC d t)" "yields (LPDDR5_resolve_nRFCpb d t)" "yields (LPDDR5_resolve_nREFI t)"
    "yields (LPDDR5_resolve_nREFIpb t)" "yields (LPDDR5_resolve_nPBR2PBR d t)" "yields (LPDDR5_resolve_nPBR2ACT t)"
    using t by (simp_all add: LPDDR5_tables yields_max yields_ceil)
  have fresh: "k \<notin> set (''tCK_ps'' # map fst F)" if "k \<in> set LPDDR5_provided" for k
    using that assms(3) by blast
  show ?thesis
    unfolding LPDDR5_resolve_secondary_timings_def
    by (insert assms(1), (rule assign_step, assumption, rule fresh, simp (no_asm) add: LPDDR5_provided_def,
        (rule yields_clock, assumption | rule yields_int, rule o | rule tables)+)+,
      intro exI conjI, rule refl, erule timings_at_keys, auto simp: LPDDR5_provided_def)
qed

lemma LPDDR5_resolves:
  assumes "timings_given LPDDR5 LPDDR5_provided td" and "pos_timings [''tCK_ps''] td"
    and "org_within LPDDR5_org_ranges od"
  shows "\<exists>td'. std_resolve_secondary LPDDR5 td od = Inr td' \<and> timings_cover LPDDR5 td'"
proof -
  obtain t where t: "dget td ''tCK_ps'' = Some t" "0 < t"
    using pos_timingsD[OF assms(2), of "''tCK_ps''"] by auto
  have h: "timings_at t [] (set (filter (\<lambda>k. k \<notin> set LPDDR5_provided) (std_timing_params LPDDR5))) td"
    by (rule timings_at_start[OF assms(1) t]) simp
  have "\<exists>td'. LPDDR5_resolve_secondary_timings td od = Inr td' \<and> timings_at t [] (set LPDDR5_provided \<union>
      set (filter (\<lambda>k. k \<notin> set LPDDR5_provided) (std_timing_params LPDDR5))) td'"
    by (rule LPDDR5_resolver[OF h assms(3)]) (simp add: LPDDR5_provided_def)
  then obtain td' where td': "LPDDR5_resolve_secondary_timings td od = Inr td'" "timings_at t [] (set LPDDR5_provided \<union>
      set (filter (\<lambda>k. k \<notin> set LPDDR5_provided) (std_timing_params LPDDR5))) td'"
    by blast
  show ?thesis
    unfolding LPDDR5_fields(15) td'(1) by (rule final_step[OF td'(2)]) (simp add: list_all_iff)
qed

lemma LPDDR5_wf: "std_wf LPDDR5"
  by (rule std_wf_check; unfold LPDDR5_fields; code_simp)

lemma LPDDR5_head: "head_ok LPDDR5"
  unfolding head_ok_def LPDDR5_fields by code_simp

lemma LPDDR5_uniform: "uniform_check (std_tick_multiplier LPDDR5) (std_cyc LPDDR5) (std_constraints LPDDR5)"
  unfolding LPDDR5_fields by code_simp

lemma LPDDR5_orgs:
  "orgs_check (hierarchy_fields LPDDR5) (std_payload LPDDR5) LPDDR5_org_ranges (std_org_presets LPDDR5)"
  "case std_payload LPDDR5 of None \<Rightarrow> True | Some p \<Rightarrow> 0 < p"
  unfolding hierarchy_fields_def level_keys_def LPDDR5_fields by code_simp+

lemma LPDDR5_speeds:
  "speeds_check (filter (\<lambda>k. k \<notin> set LPDDR5_provided) (std_timing_params LPDDR5)) (std_timing_presets LPDDR5)"
  "list_all (\<lambda>p. pos_timings [''tCK_ps''] (snd p)) (std_timing_presets LPDDR5)"
  unfolding LPDDR5_fields by code_simp+

interpretation lpddr5: dram_class LPDDR5 LPDDR5_provided "pos_timings [''tCK_ps'']" "org_within LPDDR5_org_ranges"
  by (rule dram_class_check[OF LPDDR5_wf LPDDR5_head LPDDR5_uniform LPDDR5_orgs LPDDR5_speeds LPDDR5_resolves])

end
