(* ===== verification/Std_LPDDR6.thy ===== *)
theory Std_LPDDR6
  imports Resolver
begin

text \<open>
  \<open>dram/lpddr6.py\<close>: tables, \<open>resolve_secondary_timings\<close> and contract. Nearly every
  secondary timing is a default that a preset may pin; the read-to-write turnarounds depend
  on whether on-die termination is enabled.
\<close>

section \<open>Declarations and presets\<close>

definition LPDDR6_levels :: "(string \<times> string) list" where
  "LPDDR6_levels = [
      (''Channel'', ''N_A''), (''Rank'', ''N_A''), (''BankGroup'', ''N_A''),
      (''Bank'', ''Closed''), (''Row'', ''Closed''), (''Column'', ''N_A'')]"

definition LPDDR6_commands :: "string list" where
  "LPDDR6_commands = [
      ''ACT1'', ''ACT2'', ''PREpb'', ''PREab'', ''CAS'', ''RD_S'', ''WR_S'', ''RDA_S'',
      ''WRA_S'', ''RD_L'', ''WR_L'', ''RDA_L'', ''WRA_L'', ''REFab'']"

definition LPDDR6_states :: "string list" where
  "LPDDR6_states = [
      ''Opened'', ''Closed'', ''Activating'', ''N_A'']"

definition LPDDR6_timing_params :: "string list" where
  "LPDDR6_timing_params = [
      ''rate'', ''nBL_min'', ''nBL_max'', ''nBL_min_L'', ''nBL_max_L'', ''nRL'', ''nWL'',
      ''nACU'', ''nRCDr'', ''nRCDw'', ''nRP'', ''nRPab'', ''nRAS'', ''nRC'', ''nWTP'',
      ''nRTP'', ''nRTP_L'', ''nPPD'', ''nCCDS'', ''nCCDL'', ''nCCDL_L'', ''nCCDS_WR'',
      ''nCCDL_WR'', ''nCCDL_WR_L'', ''nRRD'', ''nWTRS'', ''nWTRL'', ''nRTW_S'', ''nRTW_L'',
      ''nRTW_S_L'', ''nRTW_L_L'', ''nWCK2DQO'', ''nRPST'', ''nODTLon'', ''nODTon_min'',
      ''nFAW'', ''nRFC'', ''nREFI'', ''nWCKPST'', ''nCAS'', ''nAAD'', ''nCS'', ''tCK_ps'']"

definition LPDDR6_supported_requests :: "(string \<times> string) list" where
  "LPDDR6_supported_requests = [
      (''Read'', ''RD_S''), (''Write'', ''WR_S'')]"

definition LPDDR6_command_cycles :: "(string \<times> rat) list" where
  "LPDDR6_command_cycles = [
      (''ACT1'', 2), (''ACT2'', 2), (''PREpb'', 2), (''PREab'', 2), (''CAS'', 2),
      (''RD_S'', 2), (''WR_S'', 2), (''RDA_S'', 2), (''WRA_S'', 2), (''RD_L'', 2),
      (''WR_L'', 2), (''RDA_L'', 2), (''WRA_L'', 2), (''REFab'', 2)]"

definition LPDDR6_timing_constraints :: "timing_constraint list" where
  "LPDDR6_timing_constraints = [
    TC ''Channel'' [''RD_S'', ''RDA_S''] [''RD_S'', ''RDA_S'', ''RD_L'', ''RDA_L''] ''nBL_min'',
    TC ''Channel'' [''WR_S'', ''WRA_S''] [''WR_S'', ''WRA_S'', ''WR_L'', ''WRA_L''] ''nBL_min'',
    TC ''Channel'' [''RD_L'', ''RDA_L''] [''RD_S'', ''RDA_S'', ''RD_L'', ''RDA_L''] ''nBL_min + nBL_min'',
    TC ''Channel'' [''WR_L'', ''WRA_L''] [''WR_S'', ''WRA_S'', ''WR_L'', ''WRA_L''] ''nBL_min + nBL_min'',
    TC ''Bank'' [''CAS''] [''RD_S'', ''RDA_S'', ''RD_L'', ''RDA_L'', ''WR_S'', ''WRA_S'', ''WR_L'', ''WRA_L''] ''nCAS'',
    TC ''Rank'' [''RD_S'', ''RDA_S''] [''RD_S'', ''RDA_S'', ''RD_L'', ''RDA_L''] ''nCCDS'',
    TC ''Rank'' [''RD_L'', ''RDA_L''] [''RD_S'', ''RDA_S'', ''RD_L'', ''RDA_L''] ''nCCDS'',
    TC ''Rank'' [''WR_S'', ''WRA_S''] [''WR_S'', ''WRA_S'', ''WR_L'', ''WRA_L''] ''nCCDS_WR'',
    TC ''Rank'' [''WR_L'', ''WRA_L''] [''WR_S'', ''WRA_S'', ''WR_L'', ''WRA_L''] ''nCCDS_WR'',
    TC ''Rank'' [''RD_S'', ''RDA_S''] [''WR_S'', ''WRA_S'', ''WR_L'', ''WRA_L''] ''nRTW_S'',
    TC ''Rank'' [''RD_L'', ''RDA_L''] [''WR_S'', ''WRA_S'', ''WR_L'', ''WRA_L''] ''nRTW_S_L'',
    TC ''Rank'' [''WR_S'', ''WRA_S''] [''RD_S'', ''RDA_S'', ''RD_L'', ''RDA_L''] ''nWL + nBL_min + nWTRS'',
    TC ''Rank'' [''WR_L'', ''WRA_L''] [''RD_S'', ''RDA_S'', ''RD_L'', ''RDA_L''] ''nWL + nBL_min_L + nWTRS'',
    TC_sibling ''Rank'' [''RD_S'', ''RDA_S''] [''RD_S'', ''RDA_S'', ''RD_L'', ''RDA_L'', ''WR_S'', ''WRA_S'', ''WR_L'', ''WRA_L''] ''nBL_min + nCS'',
    TC_sibling ''Rank'' [''RD_L'', ''RDA_L''] [''RD_S'', ''RDA_S'', ''RD_L'', ''RDA_L'', ''WR_S'', ''WRA_S'', ''WR_L'', ''WRA_L''] ''nBL_min + nBL_min + nCS'',
    TC_sibling ''Rank'' [''WR_S'', ''WRA_S''] [''RD_S'', ''RDA_S'', ''RD_L'', ''RDA_L''] ''nRL + nBL_min + nCS - nWL'',
    TC_sibling ''Rank'' [''WR_L'', ''WRA_L''] [''RD_S'', ''RDA_S'', ''RD_L'', ''RDA_L''] ''nRL + nBL_min + nBL_min + nCS - nWL'',
    TC ''Rank'' [''RD_S''] [''PREab''] ''nRTP'',
    TC ''Rank'' [''RD_L''] [''PREab''] ''nRTP_L'',
    TC ''Rank'' [''WR_S''] [''PREab''] ''nWL + nBL_max + nWTP'',
    TC ''Rank'' [''WR_L''] [''PREab''] ''nWL + nBL_max_L + nWTP'',
    TC ''Rank'' [''ACT1''] [''ACT1''] ''nRRD'',
    TC_window ''Rank'' [''ACT1''] [''ACT1''] ''nFAW'' 4,
    TC ''Rank'' [''ACT1''] [''PREab''] ''nRAS'',
    TC ''Rank'' [''PREab''] [''ACT1''] ''nRPab'',
    TC ''Rank'' [''PREpb'', ''PREab''] [''PREpb'', ''PREab''] ''nPPD'',
    TC ''Rank'' [''ACT1''] [''REFab''] ''nRC'',
    TC ''Rank'' [''PREpb'', ''PREab''] [''REFab''] ''nRP'',
    TC ''Rank'' [''RDA_S''] [''REFab''] ''nRP + nRTP'',
    TC ''Rank'' [''RDA_L''] [''REFab''] ''nRP + nRTP_L'',
    TC ''Rank'' [''WRA_S''] [''REFab''] ''nWL + nBL_max + nWTP + nRP'',
    TC ''Rank'' [''WRA_L''] [''REFab''] ''nWL + nBL_max_L + nWTP + nRP'',
    TC ''Rank'' [''REFab''] [''ACT1'', ''PREab''] ''nRFC'',
    TC ''BankGroup'' [''RD_S'', ''RDA_S''] [''RD_S'', ''RDA_S'', ''RD_L'', ''RDA_L''] ''nCCDL'',
    TC ''BankGroup'' [''RD_L'', ''RDA_L''] [''RD_S'', ''RDA_S'', ''RD_L'', ''RDA_L''] ''nCCDL_L'',
    TC ''BankGroup'' [''WR_S'', ''WRA_S''] [''WR_S'', ''WRA_S'', ''WR_L'', ''WRA_L''] ''nCCDL_WR'',
    TC ''BankGroup'' [''WR_L'', ''WRA_L''] [''WR_S'', ''WRA_S'', ''WR_L'', ''WRA_L''] ''nCCDL_WR_L'',
    TC ''BankGroup'' [''RD_S'', ''RDA_S''] [''WR_S'', ''WRA_S'', ''WR_L'', ''WRA_L''] ''nRTW_L'',
    TC ''BankGroup'' [''RD_L'', ''RDA_L''] [''WR_S'', ''WRA_S'', ''WR_L'', ''WRA_L''] ''nRTW_L_L'',
    TC ''BankGroup'' [''WR_S'', ''WRA_S''] [''RD_S'', ''RDA_S'', ''RD_L'', ''RDA_L''] ''nWL + nBL_max + nWTRL'',
    TC ''BankGroup'' [''WR_L'', ''WRA_L''] [''RD_S'', ''RDA_S'', ''RD_L'', ''RDA_L''] ''nWL + nBL_max_L + nWTRL'',
    TC ''BankGroup'' [''ACT1''] [''ACT1''] ''nRRD'',
    TC ''Bank'' [''ACT1''] [''ACT1''] ''nRC'',
    TC ''Bank'' [''ACT1''] [''RD_S'', ''RDA_S'', ''RD_L'', ''RDA_L''] ''nRCDr'',
    TC ''Bank'' [''ACT1''] [''WR_S'', ''WRA_S'', ''WR_L'', ''WRA_L''] ''nRCDw'',
    TC ''Bank'' [''ACT1''] [''PREpb''] ''nRAS'',
    TC ''Bank'' [''PREpb''] [''ACT1''] ''nRP'',
    TC ''Bank'' [''RD_S''] [''PREpb''] ''nRTP'',
    TC ''Bank'' [''RD_L''] [''PREpb''] ''nRTP_L'',
    TC ''Bank'' [''WR_S''] [''PREpb''] ''nWL + nBL_max + nWTP'',
    TC ''Bank'' [''WR_L''] [''PREpb''] ''nWL + nBL_max_L + nWTP'',
    TC ''Bank'' [''RDA_S''] [''ACT1''] ''nRTP + nRP'',
    TC ''Bank'' [''RDA_L''] [''ACT1''] ''nRTP_L + nRP'',
    TC ''Bank'' [''WRA_S''] [''ACT1''] ''nWL + nBL_max + nWTP + nRP'',
    TC ''Bank'' [''WRA_L''] [''ACT1''] ''nWL + nBL_max_L + nWTP + nRP'']"

definition LPDDR6_org_presets :: "(string \<times> dict) list" where
  "LPDDR6_org_presets = [
    (''LPDDR6_16Gb_x12'',
      [(''density'', PInt 16384), (''refresh_density_per_2_subchannels'', PInt 32768),
       (''dq'', PInt 12), (''channel_width'', PInt 12), (''odt_enabled'', PBool True),
       (''rank'', PInt 1), (''bankgroup'', PInt 4), (''bank'', PInt 4), (''row'', PInt 65536),
       (''column'', PInt 1024)])]"

definition LPDDR6_timing_presets :: "(string \<times> timings) list" where
  "LPDDR6_timing_presets = [
    (''LPDDR6_10667_BL24'',
      [(''rate'', 10667), (''nBL_min'', 6), (''nRL'', 56), (''nWL'', 26), (''nRCDr'', 48),
       (''nRCDw'', 22), (''nWTP'', 32), (''nRTP'', 14), (''nRTP_L'', 26), (''nPPD'', 4),
       (''nCCDS'', 6), (''nCCDL'', 10), (''nCCDS_WR'', 6), (''nCCDL_WR'', 10), (''nRRD'', 10),
       (''nWTRS'', 17), (''nWTRL'', 32), (''nWCK2DQO'', 5), (''nRPST'', 0), (''nODTLon'', 27),
       (''nODTon_min'', 0), (''nFAW'', 40), (''nWCKPST'', 3), (''nCAS'', 2), (''nAAD'', 8),
       (''nCS'', 2), (''tCK_ps'', 375)])]"

section \<open>Secondary timings\<close>

definition LPDDR6_resolve_nACU :: "int \<Rightarrow> dram_error + int" where
  "LPDDR6_resolve_nACU tCK = ceil_q 22000 tCK"

definition LPDDR6_resolve_burst_quantities :: "timings \<Rightarrow> dram_error + timings" where
  "LPDDR6_resolve_burst_quantities td =
     rbind (assign_get ''nBL_min'' (Inr 6) td) (\<lambda>td.
     rbind (assign_get ''nBL_max'' (Inr 12) td) (\<lambda>td.
     rbind (assign_get ''nBL_min_L'' (Inr (12 + 6)) td) (\<lambda>td.
     rbind (assign_get ''nBL_max_L'' (Inr 24) td) (\<lambda>td.
     rbind (assign_get ''nCCDL_L'' (rbind (dict_get td ''nCCDL'') (\<lambda>x. Inr (12 + x))) td) (\<lambda>td.
     rbind (assign_get ''nCCDL_WR_L'' (rbind (dict_get td ''nCCDL_WR'') (\<lambda>x. Inr (12 + x))) td) (\<lambda>td.
     rbind (assign_get ''nRTP_L''
       (rbind (dict_get td ''nRTP'') (\<lambda>rtp. rbind (dict_get td ''nBL_min_L'') (\<lambda>l.
        rbind (dict_get td ''nBL_min'') (\<lambda>s. Inr (rtp + l - s))))) td) (\<lambda>td.
     Inr td)))))))"

text \<open>\<open>odt_enabled = org_dict.get("odt_enabled", True)\<close> and the common part of the turnarounds.\<close>

definition LPDDR6_odt_enabled :: "dict \<Rightarrow> bool" where
  "LPDDR6_odt_enabled od = truthy (dgetd od ''odt_enabled'' (PBool True))"

definition LPDDR6_rtw_common :: "timings \<Rightarrow> dict \<Rightarrow> dram_error + int" where
  "LPDDR6_rtw_common td od =
     rbind (dict_get td ''nWCK2DQO'') (\<lambda>wck.
     if LPDDR6_odt_enabled od then
       rbind (dict_get td ''nRPST'') (\<lambda>rpst. rbind (dict_get td ''nODTLon'') (\<lambda>odtl.
       rbind (dict_get td ''nODTon_min'') (\<lambda>odtm. Inr (wck + rpst - odtl - odtm + 1))))
     else rbind (dict_get td ''nWL'') (\<lambda>wl. Inr (wck - wl)))"

definition LPDDR6_resolve_read_to_write_timings :: "timings \<Rightarrow> dict \<Rightarrow> dram_error + timings" where
  "LPDDR6_resolve_read_to_write_timings td od =
     rbind (LPDDR6_rtw_common td od) (\<lambda>common.
     rbind (dict_get td ''nRL'') (\<lambda>nRL.
     rbind (assign_get ''nRTW_S'' (rbind (dict_get td ''nBL_min'') (\<lambda>x. Inr (nRL + x + common))) td) (\<lambda>td.
     rbind (assign_get ''nRTW_L'' (rbind (dict_get td ''nBL_max'') (\<lambda>x. Inr (nRL + x + common))) td) (\<lambda>td.
     rbind (assign_get ''nRTW_S_L'' (rbind (dict_get td ''nBL_min_L'') (\<lambda>x. Inr (nRL + x + common))) td) (\<lambda>td.
     rbind (assign_get ''nRTW_L_L'' (rbind (dict_get td ''nBL_max_L'') (\<lambda>x. Inr (nRL + x + common))) td) (\<lambda>td.
     Inr td))))))"

definition LPDDR6_resolve_nRFC :: "int \<Rightarrow> int \<Rightarrow> dram_error + int" where
  "LPDDR6_resolve_nRFC density tCK =
     (if density \<le> 4096 then Inl (SecondaryTiming ''nRFC'')
      else if density \<le> 8192 then ceil_q (210 * 1000) tCK
      else if density \<le> 16384 then ceil_q (280 * 1000) tCK
      else if density \<le> 32768 then ceil_q (380 * 1000) tCK
      else Inl (SecondaryTiming ''nRFC''))"

definition LPDDR6_resolve_nREFI :: "int \<Rightarrow> dram_error + int" where
  "LPDDR6_resolve_nREFI tCK = ceil_q 3906000 tCK"

definition LPDDR6_resolve_secondary_timings :: "timings \<Rightarrow> dict \<Rightarrow> dram_error + timings" where
  "LPDDR6_resolve_secondary_timings td od =
     rbind (dict_get td ''tCK_ps'') (\<lambda>tCK.
     rbind (LPDDR6_resolve_burst_quantities td) (\<lambda>td.
     rbind (assign_get ''nACU'' (LPDDR6_resolve_nACU tCK) td) (\<lambda>td.
     rbind (assign_get ''nRAS'' (rmax 4 (ceil_q 20000 tCK)) td) (\<lambda>td.
     rbind (assign_get ''nRP''
       (rbind (dict_get td ''nACU'') (\<lambda>a. rbind (rmax 4 (ceil_q 18000 tCK)) (\<lambda>x. Inr (a + x)))) td) (\<lambda>td.
     rbind (assign_get ''nRPab''
       (rbind (dict_get td ''nACU'') (\<lambda>a. rbind (rmax 4 (ceil_q 21000 tCK)) (\<lambda>x. Inr (a + x)))) td) (\<lambda>td.
     rbind (assign_get ''nRC''
       (rbind (dict_get td ''nRAS'') (\<lambda>a. rbind (dict_get td ''nRPab'') (\<lambda>x. Inr (a + x)))) td) (\<lambda>td.
     rbind (LPDDR6_resolve_read_to_write_timings td od) (\<lambda>td.
     rbind (assign ''nRFC''
       (rbind (dict_int od ''refresh_density_per_2_subchannels'') (\<lambda>d.
        rbind (dict_get td ''tCK_ps'') (LPDDR6_resolve_nRFC d))) td) (\<lambda>td.
     rbind (assign ''nREFI'' (rbind (dict_get td ''tCK_ps'') LPDDR6_resolve_nREFI) td) (\<lambda>td.
     Inr td))))))))))"

definition LPDDR6 :: dram_standard where
  "LPDDR6 = DRAMStandard
     \<lparr>std_name := ''LPDDR6'',
      std_levels := LPDDR6_levels,
      std_commands := LPDDR6_commands,
      std_states := LPDDR6_states,
      std_timing_params := LPDDR6_timing_params,
      std_supported_requests := LPDDR6_supported_requests,
      std_constraints := LPDDR6_timing_constraints,
      std_command_cycles := LPDDR6_command_cycles,
      std_org_presets := LPDDR6_org_presets,
      std_timing_presets := LPDDR6_timing_presets,
      std_internal_prefetch := 16,
      std_payload := Some 32,
      std_read_latency := ''nRL + nBL_min'',
      std_resolve_secondary := LPDDR6_resolve_secondary_timings\<rparr>"

lemma LPDDR6_fields:
  "std_levels LPDDR6 = LPDDR6_levels"
  "std_commands LPDDR6 = LPDDR6_commands"
  "std_states LPDDR6 = LPDDR6_states"
  "std_timing_params LPDDR6 = LPDDR6_timing_params"
  "std_supported_requests LPDDR6 = LPDDR6_supported_requests"
  "std_constraints LPDDR6 = LPDDR6_timing_constraints"
  "std_command_cycles LPDDR6 = LPDDR6_command_cycles"
  "std_tick_multiplier LPDDR6 = 1"
  "std_payload LPDDR6 = Some 32"
  "std_read_latency LPDDR6 = ''nRL + nBL_min''"
  "std_row_commands LPDDR6 = []"
  "std_column_commands LPDDR6 = []"
  "std_org_presets LPDDR6 = LPDDR6_org_presets"
  "std_timing_presets LPDDR6 = LPDDR6_timing_presets"
  "std_resolve_secondary LPDDR6 = LPDDR6_resolve_secondary_timings"
  by (simp_all add: LPDDR6_def DRAMStandard_def)

section \<open>The contract\<close>

definition LPDDR6_provided :: "string list" where
  "LPDDR6_provided = [
      ''nBL_min'', ''nBL_max'', ''nBL_min_L'', ''nBL_max_L'', ''nCCDL_L'', ''nCCDL_WR_L'',
      ''nACU'', ''nRAS'', ''nRP'', ''nRPab'', ''nRC'', ''nRTW_S'', ''nRTW_L'', ''nRTW_S_L'',
      ''nRTW_L_L'', ''nRFC'', ''nREFI'']"

text \<open>
  The turnarounds are not negative when the read latency covers what the termination, or the
  write latency, takes off.
\<close>

definition LPDDR6_preset :: "timings \<Rightarrow> bool" where
  "LPDDR6_preset td \<longleftrightarrow>
     0 < dgetd td ''tCK_ps'' 0 \<and>
     dgetd td ''nODTLon'' 0 + dgetd td ''nODTon_min'' 0 \<le> dgetd td ''nRL'' 0 + dgetd td ''nWCK2DQO'' 0 \<and>
     dgetd td ''nWL'' 0 \<le> dgetd td ''nRL'' 0 + dgetd td ''nWCK2DQO'' 0"

definition LPDDR6_density :: "dict \<Rightarrow> bool" where
  "LPDDR6_density od \<longleftrightarrow>
     (case dget od ''refresh_density_per_2_subchannels'' of
        Some (PInt d) \<Rightarrow> 4096 < d \<and> d \<le> 32768 | _ \<Rightarrow> False)"

definition LPDDR6_given :: "string list" where
  "LPDDR6_given = [
      ''rate'', ''nRL'', ''nWL'', ''nRCDr'', ''nRCDw'', ''nWTP'', ''nRTP'', ''nRTP_L'',
      ''nPPD'', ''nCCDS'', ''nCCDL'', ''nCCDS_WR'', ''nCCDL_WR'', ''nRRD'', ''nWTRS'',
      ''nWTRL'', ''nWCK2DQO'', ''nRPST'', ''nODTLon'', ''nODTon_min'', ''nFAW'', ''nWCKPST'',
      ''nCAS'', ''nAAD'', ''nCS'', ''tCK_ps'']"

lemma LPDDR6_bursts:
  assumes "timings_at t F (set LPDDR6_given \<union> E) td"
  shows "\<exists>td'. LPDDR6_resolve_burst_quantities td = Inr td' \<and>
    timings_at t F ({''nBL_min'', ''nBL_max'', ''nBL_min_L'', ''nBL_max_L'', ''nCCDL_L'', ''nCCDL_WR_L''} \<union>
      (set LPDDR6_given \<union> E)) td'"
  unfolding LPDDR6_resolve_burst_quantities_def
  by (insert assms, (rule present_step, assumption, (simp (no_asm) add: LPDDR6_given_def; fail),
        (rule runs_Inr | rule runs_bind, rule yields_get, assumption, simp (no_asm) add: LPDDR6_given_def)+ |
       rule get_step, assumption, (rule yields_bind |
         rule yields_get, assumption, simp (no_asm) add: LPDDR6_given_def |
         rule yields_Inr, (simp (no_asm); fail | linarith))+)+,
      intro exI conjI, rule refl, erule timings_at_keys)
    auto

lemma stage:
  assumes "\<exists>td'. m = Inr td' \<and> timings_at t F K td'"
    and "\<And>td'. timings_at t F K td' \<Longrightarrow> \<exists>r. f td' = Inr r \<and> P r"
  shows "\<exists>r. rbind m f = Inr r \<and> P r"
  using assms by auto

lemma LPDDR6_turnarounds:
  assumes h: "timings_at t F K td" and nRL: "(''nRL'', nRL) \<in> set F"
    and common: "LPDDR6_rtw_common td od = Inr c" "0 \<le> nRL + c"
    and K: "{''nBL_min'', ''nBL_max'', ''nBL_min_L'', ''nBL_max_L''} \<subseteq> K"
  shows "\<exists>td'. LPDDR6_resolve_read_to_write_timings td od = Inr td' \<and>
    timings_at t F ({''nRTW_S'', ''nRTW_L'', ''nRTW_S_L'', ''nRTW_L_L''} \<union> K) td'"
proof -
  have sum: "yields (Inr (nRL + x + c))" if "0 \<le> x" for x
    using that common(2) by (intro yields_Inr) linarith
  have keys: "''nBL_min'' \<in> K" "''nBL_max'' \<in> K" "''nBL_min_L'' \<in> K" "''nBL_max_L'' \<in> K"
    using K by simp_all
  show ?thesis
    unfolding LPDDR6_resolve_read_to_write_timings_def common(1) timings_at_value[OF h nRL] rbind_Inr
    by (insert h, (rule get_step, assumption, rule yields_bind, rule yields_get, assumption,
        (rule keys | intro insertI2, rule keys), rule sum, assumption)+,
      intro exI conjI, rule refl, erule timings_at_keys)
      auto
qed

lemma timings_at_provided:
  "timings_at t F (insert ''nREFI'' (insert ''nRFC'' ({''nRTW_S'', ''nRTW_L'', ''nRTW_S_L'', ''nRTW_L_L''} \<union>
     insert ''nRC'' (insert ''nRPab'' (insert ''nRP'' (insert ''nRAS'' (insert ''nACU''
     ({''nBL_min'', ''nBL_max'', ''nBL_min_L'', ''nBL_max_L'', ''nCCDL_L'', ''nCCDL_WR_L''} \<union> G)))))))) td \<Longrightarrow>
    set LPDDR6_provided \<union> G \<subseteq> fst ` set td"
  by (simp add: timings_at_def LPDDR6_provided_def)

text \<open>The resolver on any dictionary that has the given timings, and others \<open>E\<close> besides.\<close>

lemma LPDDR6_resolver:
  assumes "nonneg_timings td" and "set LPDDR6_given \<union> E \<subseteq> fst ` set td"
    and "LPDDR6_preset td" and "LPDDR6_density od"
  shows "\<exists>td'. LPDDR6_resolve_secondary_timings td od = Inr td' \<and> nonneg_timings td' \<and>
    set LPDDR6_provided \<union> (set LPDDR6_given \<union> E) \<subseteq> fst ` set td'"
proof -
  let ?v = "\<lambda>k. dgetd td k 0"
  let ?F = "map (\<lambda>k. (k, ?v k)) [''nRL'', ''nWL'', ''nWCK2DQO'', ''nRPST'', ''nODTLon'', ''nODTon_min'']"
  have val: "dget td k = Some (?v k)" if "k \<in> set LPDDR6_given" for k
  proof -
    have "k \<in> fst ` set td" using that assms(2) by blast
    then show ?thesis using dget_in_keys[of k td] by (auto simp: dgetd_def)
  qed
  have t: "dget td ''tCK_ps'' = Some (?v ''tCK_ps'')" "0 < ?v ''tCK_ps''"
    using val[of "''tCK_ps''"] assms(3) by (simp_all add: LPDDR6_given_def LPDDR6_preset_def)
  have h: "timings_at (?v ''tCK_ps'') ?F (set LPDDR6_given \<union> E) td"
    using assms(1,2) t by (simp add: timings_at_def val LPDDR6_given_def)
  obtain d where d: "dget od ''refresh_density_per_2_subchannels'' = Some (PInt d)" "4096 < d" "d \<le> 32768"
    using assms(4) by (auto simp: LPDDR6_density_def split: option.splits pyval.splits)
  have tables: "yields (LPDDR6_resolve_nACU (?v ''tCK_ps''))" "yields (LPDDR6_resolve_nRFC d (?v ''tCK_ps''))"
    "yields (LPDDR6_resolve_nREFI (?v ''tCK_ps''))" "yields (rmax 4 (ceil_q 20000 (?v ''tCK_ps'')))"
    "yields (rmax 4 (ceil_q 18000 (?v ''tCK_ps'')))" "yields (rmax 4 (ceil_q 21000 (?v ''tCK_ps'')))"
    using t d by (simp_all add: LPDDR6_resolve_nACU_def LPDDR6_resolve_nRFC_def LPDDR6_resolve_nREFI_def
        yields_max yields_ceil)
  have common: "\<exists>c. LPDDR6_rtw_common td' od = Inr c \<and> 0 \<le> ?v ''nRL'' + c"
    if "timings_at (?v ''tCK_ps'') ?F K td'" for K td'
  proof -
    have get: "dict_get td' k = Inr (?v k)"
      if "k \<in> set [''nRL'', ''nWL'', ''nWCK2DQO'', ''nRPST'', ''nODTLon'', ''nODTon_min'']" for k
      by (rule timings_at_value[OF \<open>timings_at _ ?F K td'\<close>]) (use that in auto)
    have "0 \<le> ?v ''nRPST''" using nonneg_dget[OF assms(1) val] by (simp add: LPDDR6_given_def)
    then show ?thesis using assms(3) by (simp add: LPDDR6_rtw_common_def get LPDDR6_preset_def)
  qed
  have turn: "\<exists>r. rbind (LPDDR6_resolve_read_to_write_timings td' od) f = Inr r \<and> P r"
    if at: "timings_at (?v ''tCK_ps'') ?F K td'" and K: "{''nBL_min'', ''nBL_max'', ''nBL_min_L'', ''nBL_max_L''} \<subseteq> K"
      and cont: "\<And>td''. timings_at (?v ''tCK_ps'') ?F ({''nRTW_S'', ''nRTW_L'', ''nRTW_S_L'', ''nRTW_L_L''} \<union> K) td'' \<Longrightarrow>
         \<exists>r. f td'' = Inr r \<and> P r"
    for K td' f and P :: "timings \<Rightarrow> bool"
  proof -
    obtain c where c: "LPDDR6_rtw_common td' od = Inr c" "0 \<le> ?v ''nRL'' + c"
      using common[OF at] by blast
    have "(''nRL'', ?v ''nRL'') \<in> set ?F" by simp
    from stage[OF LPDDR6_turnarounds[OF at this c K] cont] show ?thesis .
  qed
  show ?thesis
    unfolding LPDDR6_resolve_secondary_timings_def dict_get_Some[OF t(1)] rbind_Inr
    by (rule stage[OF LPDDR6_bursts[OF h]],
      (rule get_step, assumption, (rule tables yields_bind | rule yields_get, assumption, simp (no_asm) |
         rule yields_Inr, linarith)+)+,
      rule turn, assumption, simp (no_asm), 
      (rule assign_step, assumption, simp (no_asm),
        (rule yields_clock, assumption | rule yields_int, rule d | rule tables)+)+,
      intro exI conjI, rule refl, (simp only: timings_at_def)[1], drule timings_at_provided, assumption)
qed

lemma LPDDR6_resolves:
  assumes "timings_given LPDDR6 LPDDR6_provided td" and "LPDDR6_preset td" and "LPDDR6_density od"
  shows "\<exists>td'. std_resolve_secondary LPDDR6 td od = Inr td' \<and> timings_cover LPDDR6 td'"
proof -
  have given: "set LPDDR6_given = set (filter (\<lambda>k. k \<notin> set LPDDR6_provided) (std_timing_params LPDDR6))"
    by (simp add: LPDDR6_fields LPDDR6_timing_params_def LPDDR6_provided_def LPDDR6_given_def)
  have "set LPDDR6_given \<union> {} \<subseteq> fst ` set td"
    using timings_givenD(2)[OF assms(1)] unfolding given by (auto simp: list_all_iff)
  from LPDDR6_resolver[OF timings_givenD(1)[OF assms(1)] this assms(2,3)] obtain td' where
    td': "LPDDR6_resolve_secondary_timings td od = Inr td'" "nonneg_timings td'"
    "set LPDDR6_provided \<union> (set LPDDR6_given \<union> {}) \<subseteq> fst ` set td'"
    by blast
  have "timings_cover LPDDR6 td'"
    using td'(3) unfolding given by (intro timings_coverI[OF td'(2)]) (auto simp: list_all_iff)
  then show ?thesis by (simp add: LPDDR6_fields td'(1))
qed

lemma LPDDR6_wf: "std_wf LPDDR6"
  by (rule std_wf_check; unfold LPDDR6_fields; code_simp)

lemma LPDDR6_head: "head_ok LPDDR6"
  unfolding head_ok_def LPDDR6_fields by code_simp

lemma LPDDR6_uniform: "uniform_check (std_tick_multiplier LPDDR6) (std_cyc LPDDR6) (std_constraints LPDDR6)"
  unfolding LPDDR6_fields by code_simp

lemma LPDDR6_orgs:
  "orgs_check (hierarchy_fields LPDDR6) (std_payload LPDDR6) [] (std_org_presets LPDDR6)"
  "case std_payload LPDDR6 of None \<Rightarrow> True | Some p \<Rightarrow> 0 < p"
  unfolding hierarchy_fields_def level_keys_def LPDDR6_fields by code_simp+

lemma LPDDR6_densities: "list_all (\<lambda>p. LPDDR6_density (snd p)) (std_org_presets LPDDR6)"
  unfolding LPDDR6_fields by code_simp

lemma LPDDR6_speeds:
  "speeds_check (filter (\<lambda>k. k \<notin> set LPDDR6_provided) (std_timing_params LPDDR6)) (std_timing_presets LPDDR6)"
  "list_all (\<lambda>p. LPDDR6_preset (snd p)) (std_timing_presets LPDDR6)"
  unfolding LPDDR6_fields by code_simp+

interpretation lpddr6: dram_class LPDDR6 LPDDR6_provided "LPDDR6_preset" LPDDR6_density
  by (rule dram_class_check_orgs[OF LPDDR6_wf LPDDR6_head LPDDR6_uniform LPDDR6_orgs LPDDR6_densities
      LPDDR6_speeds LPDDR6_resolves])

end
