(* ===== verification/Std_PIM.thy ===== *)
theory Std_PIM
  imports Std_LPDDR5 Std_LPDDR6
begin

text \<open>
  The declarations of \<open>dram/lpddr5_pim.py\<close> and \<open>dram/lpddr6_pim.py\<close>: LPDDR5 and
  LPDDR6 with the processing-in-memory commands, their modes as states of the rank, two more
  timings, and the contract \<open>dram_class\<close> for both. Their constructors are in the theory of
  the PIM resources.
\<close>

section \<open>LPDDR5-PIM\<close>

definition LPDDR5PIM_levels :: "(string \<times> string) list" where
  "LPDDR5PIM_levels = dset ''Rank'' ''PIM_SB'' LPDDR5_levels"

definition LPDDR5PIM_states :: "string list" where
  "LPDDR5PIM_states = LPDDR5_states @ [''PIM_SB'', ''PIM_HAB'', ''PIM_HAB_PIM'']"

definition LPDDR5PIM_commands :: "string list" where
  "LPDDR5PIM_commands = LPDDR5_commands @ [''SB'', ''HAB'', ''HAB_PIM'', ''PIM_BCAST'', ''PIM_MAC'', ''PIM_MAC_AB'']"

definition LPDDR5PIM_timing_params :: "string list" where
  "LPDDR5PIM_timing_params = LPDDR5_timing_params @ [''nPIM_MAC_LAT'', ''nPIM_MAC_II'']"

definition LPDDR5PIM_supported_requests :: "(string \<times> string) list" where
  "LPDDR5PIM_supported_requests = LPDDR5_supported_requests @
     [(''PIMCompute'', ''PIM_MAC''), (''PIMLoadAll'', ''PIM_BCAST''), (''PIMComputeAll'', ''PIM_MAC_AB'')]"

definition LPDDR5PIM_timing_constraints :: "timing_constraint list" where
  "LPDDR5PIM_timing_constraints = LPDDR5_timing_constraints @ [
    TC ''Bank'' [''ACT1''] [''PIM_MAC''] ''nRCD'',
    TC ''Bank'' [''PIM_MAC''] [''PIM_MAC''] ''nPIM_MAC_II'',
    TC ''Rank'' [''PIM_MAC_AB''] [''PIM_MAC_AB''] ''nPIM_MAC_II'',
    TC ''Rank'' [''PIM_BCAST''] [''PIM_BCAST''] ''nBL_min'']"

definition LPDDR5PIM_timing_presets :: "(string \<times> timings) list" where
  "LPDDR5PIM_timing_presets = map (\<lambda>(name, preset).
     (name, dupdate preset [(''nPIM_MAC_LAT'', 8), (''nPIM_MAC_II'', 8)])) LPDDR5_timing_presets"

definition LPDDR5PIM :: dram_standard where
  "LPDDR5PIM = LPDDR5
     \<lparr>std_name := ''LPDDR5PIM'',
      std_levels := LPDDR5PIM_levels,
      std_commands := LPDDR5PIM_commands,
      std_states := LPDDR5PIM_states,
      std_timing_params := LPDDR5PIM_timing_params,
      std_supported_requests := LPDDR5PIM_supported_requests,
      std_constraints := LPDDR5PIM_timing_constraints,
      std_org_presets := LPDDR5_org_presets,
      std_timing_presets := LPDDR5PIM_timing_presets\<rparr>"

lemma LPDDR5PIM_fields:
  "std_levels LPDDR5PIM = LPDDR5PIM_levels"
  "std_commands LPDDR5PIM = LPDDR5PIM_commands"
  "std_states LPDDR5PIM = LPDDR5PIM_states"
  "std_timing_params LPDDR5PIM = LPDDR5PIM_timing_params"
  "std_supported_requests LPDDR5PIM = LPDDR5PIM_supported_requests"
  "std_constraints LPDDR5PIM = LPDDR5PIM_timing_constraints"
  "std_command_cycles LPDDR5PIM = LPDDR5_command_cycles"
  "std_tick_multiplier LPDDR5PIM = 1"
  "std_payload LPDDR5PIM = None"
  "std_read_latency LPDDR5PIM = ''nCL + nBL_min''"
  "std_row_commands LPDDR5PIM = []"
  "std_column_commands LPDDR5PIM = []"
  "std_org_presets LPDDR5PIM = LPDDR5_org_presets"
  "std_timing_presets LPDDR5PIM = LPDDR5PIM_timing_presets"
  "std_resolve_secondary LPDDR5PIM = LPDDR5_resolve_secondary_timings"
  by (simp_all add: LPDDR5PIM_def LPDDR5_fields)

section \<open>LPDDR6-PIM\<close>

definition LPDDR6PIM_levels :: "(string \<times> string) list" where
  "LPDDR6PIM_levels = dset ''Rank'' ''PIM_SB'' LPDDR6_levels"

definition LPDDR6PIM_states :: "string list" where
  "LPDDR6PIM_states = LPDDR6_states @ [''PIM_SB'', ''PIM_HAB'', ''PIM_HAB_PIM'']"

definition LPDDR6PIM_commands :: "string list" where
  "LPDDR6PIM_commands = LPDDR6_commands @ [''SB'', ''HAB'', ''HAB_PIM'', ''PIM_BCAST'', ''PIM_MAC'', ''PIM_MAC_AB'']"

definition LPDDR6PIM_timing_params :: "string list" where
  "LPDDR6PIM_timing_params = LPDDR6_timing_params @ [''nPIM_MAC_LAT'', ''nPIM_MAC_II'']"

definition LPDDR6PIM_supported_requests :: "(string \<times> string) list" where
  "LPDDR6PIM_supported_requests = LPDDR6_supported_requests @
     [(''PIMCompute'', ''PIM_MAC''), (''PIMLoadAll'', ''PIM_BCAST''), (''PIMComputeAll'', ''PIM_MAC_AB'')]"

definition LPDDR6PIM_timing_constraints :: "timing_constraint list" where
  "LPDDR6PIM_timing_constraints = LPDDR6_timing_constraints @ [
    TC ''Bank'' [''ACT1''] [''PIM_MAC''] ''nRCDr'',
    TC ''Bank'' [''PIM_MAC''] [''PIM_MAC''] ''nPIM_MAC_II'',
    TC ''Rank'' [''PIM_MAC_AB''] [''PIM_MAC_AB''] ''nPIM_MAC_II'',
    TC ''Rank'' [''PIM_BCAST''] [''PIM_BCAST''] ''nBL_min'']"

definition LPDDR6PIM_timing_presets :: "(string \<times> timings) list" where
  "LPDDR6PIM_timing_presets = map (\<lambda>(name, preset).
     (name, dupdate preset [(''nPIM_MAC_LAT'', 8), (''nPIM_MAC_II'', 8)])) LPDDR6_timing_presets"

definition LPDDR6PIM :: dram_standard where
  "LPDDR6PIM = LPDDR6
     \<lparr>std_name := ''LPDDR6PIM'',
      std_levels := LPDDR6PIM_levels,
      std_commands := LPDDR6PIM_commands,
      std_states := LPDDR6PIM_states,
      std_timing_params := LPDDR6PIM_timing_params,
      std_supported_requests := LPDDR6PIM_supported_requests,
      std_constraints := LPDDR6PIM_timing_constraints,
      std_org_presets := LPDDR6_org_presets,
      std_timing_presets := LPDDR6PIM_timing_presets\<rparr>"

lemma LPDDR6PIM_fields:
  "std_levels LPDDR6PIM = LPDDR6PIM_levels"
  "std_commands LPDDR6PIM = LPDDR6PIM_commands"
  "std_states LPDDR6PIM = LPDDR6PIM_states"
  "std_timing_params LPDDR6PIM = LPDDR6PIM_timing_params"
  "std_supported_requests LPDDR6PIM = LPDDR6PIM_supported_requests"
  "std_constraints LPDDR6PIM = LPDDR6PIM_timing_constraints"
  "std_command_cycles LPDDR6PIM = LPDDR6_command_cycles"
  "std_tick_multiplier LPDDR6PIM = 1"
  "std_payload LPDDR6PIM = Some 32"
  "std_read_latency LPDDR6PIM = ''nRL + nBL_min''"
  "std_row_commands LPDDR6PIM = []"
  "std_column_commands LPDDR6PIM = []"
  "std_org_presets LPDDR6PIM = LPDDR6_org_presets"
  "std_timing_presets LPDDR6PIM = LPDDR6PIM_timing_presets"
  "std_resolve_secondary LPDDR6PIM = LPDDR6_resolve_secondary_timings"
  by (simp_all add: LPDDR6PIM_def LPDDR6_fields)

section \<open>The contract\<close>

lemma LPDDR5PIM_resolves:
  assumes "timings_given LPDDR5PIM LPDDR5_provided td" and "pos_timings [''tCK_ps''] td"
    and "org_within LPDDR5_org_ranges od"
  shows "\<exists>td'. std_resolve_secondary LPDDR5PIM td od = Inr td' \<and> timings_cover LPDDR5PIM td'"
proof -
  obtain t where t: "dget td ''tCK_ps'' = Some t" "0 < t"
    using pos_timingsD[OF assms(2), of "''tCK_ps''"] by auto
  let ?K = "set (filter (\<lambda>k. k \<notin> set LPDDR5_provided) (std_timing_params LPDDR5PIM))"
  have h: "timings_at t [] ?K td"
    by (rule timings_at_start[OF assms(1) t]) simp
  have "\<exists>td'. LPDDR5_resolve_secondary_timings td od = Inr td' \<and> timings_at t [] (set LPDDR5_provided \<union> ?K) td'"
    by (rule LPDDR5_resolver[OF h assms(3)]) (simp add: LPDDR5_provided_def)
  then obtain td' where td': "LPDDR5_resolve_secondary_timings td od = Inr td'"
    "timings_at t [] (set LPDDR5_provided \<union> ?K) td'"
    by blast
  show ?thesis
    unfolding LPDDR5PIM_fields(15) td'(1) by (rule final_step[OF td'(2)]) (simp add: list_all_iff)
qed

lemma LPDDR6PIM_resolves:
  assumes "timings_given LPDDR6PIM LPDDR6_provided td" and "LPDDR6_preset td" and "LPDDR6_density od"
  shows "\<exists>td'. std_resolve_secondary LPDDR6PIM td od = Inr td' \<and> timings_cover LPDDR6PIM td'"
proof -
  let ?E = "{''nPIM_MAC_LAT'', ''nPIM_MAC_II''}"
  have params: "set (std_timing_params LPDDR6PIM) \<subseteq> set LPDDR6_provided \<union> (set LPDDR6_given \<union> ?E)"
    and given: "set LPDDR6_given \<union> ?E \<subseteq> set (std_timing_params LPDDR6PIM) - set LPDDR6_provided"
    by (simp_all add: LPDDR6PIM_fields LPDDR6PIM_timing_params_def LPDDR6_timing_params_def
        LPDDR6_provided_def LPDDR6_given_def)
  have "set LPDDR6_given \<union> ?E \<subseteq> fst ` set td"
    using timings_givenD(2)[OF assms(1)] given by (fastforce simp: list_all_iff)
  from LPDDR6_resolver[OF timings_givenD(1)[OF assms(1)] this assms(2,3)] obtain td' where
    td': "LPDDR6_resolve_secondary_timings td od = Inr td'" "nonneg_timings td'"
    "set LPDDR6_provided \<union> (set LPDDR6_given \<union> ?E) \<subseteq> fst ` set td'"
    by blast
  have "timings_cover LPDDR6PIM td'"
    using order_trans[OF params td'(3)] by (intro timings_coverI[OF td'(2)]) (auto simp: list_all_iff)
  then show ?thesis by (simp add: LPDDR6PIM_fields td'(1))
qed

lemma LPDDR5PIM_wf: "std_wf LPDDR5PIM"
  by (rule std_wf_check; unfold LPDDR5PIM_fields; code_simp)

lemma LPDDR5PIM_head: "head_ok LPDDR5PIM"
  unfolding head_ok_def LPDDR5PIM_fields by code_simp

lemma LPDDR5PIM_uniform: "uniform_check (std_tick_multiplier LPDDR5PIM) (std_cyc LPDDR5PIM) (std_constraints LPDDR5PIM)"
  unfolding LPDDR5PIM_fields by code_simp

lemma LPDDR5PIM_orgs:
  "orgs_check (hierarchy_fields LPDDR5PIM) (std_payload LPDDR5PIM) LPDDR5_org_ranges (std_org_presets LPDDR5PIM)"
  "case std_payload LPDDR5PIM of None \<Rightarrow> True | Some p \<Rightarrow> 0 < p"
  unfolding hierarchy_fields_def level_keys_def LPDDR5PIM_fields by code_simp+

lemma LPDDR5PIM_speeds:
  "speeds_check (filter (\<lambda>k. k \<notin> set LPDDR5_provided) (std_timing_params LPDDR5PIM)) (std_timing_presets LPDDR5PIM)"
  "list_all (\<lambda>p. pos_timings [''tCK_ps''] (snd p)) (std_timing_presets LPDDR5PIM)"
  unfolding LPDDR5PIM_fields by code_simp+

interpretation lpddr5_pim: dram_class LPDDR5PIM LPDDR5_provided "pos_timings [''tCK_ps'']" "org_within LPDDR5_org_ranges"
  by (rule dram_class_check[OF LPDDR5PIM_wf LPDDR5PIM_head LPDDR5PIM_uniform LPDDR5PIM_orgs LPDDR5PIM_speeds LPDDR5PIM_resolves])

lemma LPDDR6PIM_wf: "std_wf LPDDR6PIM"
  by (rule std_wf_check; unfold LPDDR6PIM_fields; code_simp)

lemma LPDDR6PIM_head: "head_ok LPDDR6PIM"
  unfolding head_ok_def LPDDR6PIM_fields by code_simp

lemma LPDDR6PIM_uniform: "uniform_check (std_tick_multiplier LPDDR6PIM) (std_cyc LPDDR6PIM) (std_constraints LPDDR6PIM)"
  unfolding LPDDR6PIM_fields by code_simp

lemma LPDDR6PIM_orgs:
  "orgs_check (hierarchy_fields LPDDR6PIM) (std_payload LPDDR6PIM) [] (std_org_presets LPDDR6PIM)"
  "case std_payload LPDDR6PIM of None \<Rightarrow> True | Some p \<Rightarrow> 0 < p"
  unfolding hierarchy_fields_def level_keys_def LPDDR6PIM_fields by code_simp+

lemma LPDDR6PIM_densities: "list_all (\<lambda>p. LPDDR6_density (snd p)) (std_org_presets LPDDR6PIM)"
  unfolding LPDDR6PIM_fields by code_simp

lemma LPDDR6PIM_speeds:
  "speeds_check (filter (\<lambda>k. k \<notin> set LPDDR6_provided) (std_timing_params LPDDR6PIM)) (std_timing_presets LPDDR6PIM)"
  "list_all (\<lambda>p. LPDDR6_preset (snd p)) (std_timing_presets LPDDR6PIM)"
  unfolding LPDDR6PIM_fields by code_simp+

interpretation lpddr6_pim: dram_class LPDDR6PIM LPDDR6_provided "LPDDR6_preset" LPDDR6_density
  by (rule dram_class_check_orgs[OF LPDDR6PIM_wf LPDDR6PIM_head LPDDR6PIM_uniform LPDDR6PIM_orgs LPDDR6PIM_densities
      LPDDR6PIM_speeds LPDDR6PIM_resolves])

end
