(* ===== verification/Standards.thy ===== *)
theory Standards
  imports Dram_Properties Addressing_Properties Std_DDR3 Std_DDR4 Std_DDR5 Std_GDDR6 Std_GDDR7
    Std_HBM12 Std_HBM34 Std_LPDDR5 Std_LPDDR6 Std_PIM
begin

text \<open>
  The standards that \<open>dram/__init__.py\<close> registers, taken together: every one of them is
  an instance of \<open>dram_class\<close>; the hierarchical ones (with a rank level) have an address
  layout for every organisation preset; and tables of each that are checked row by row.
\<close>

definition registered_standards :: "dram_standard list" where
  "registered_standards =
     [DDR3, DDR4, DDR4_VRR, DDR5, DDR5_RFM, DDR5_RFM_VRR, DDR5_VRR, GDDR6, GDDR7, HBM1, HBM2, HBM3, HBM4,
      LPDDR5, LPDDR5PIM, LPDDR6, LPDDR6PIM]"

lemma registered_cases:
  assumes "std \<in> set registered_standards"
  obtains "std = DDR3" | "std = DDR4" | "std = DDR4_VRR" | "std = DDR5" | "std = DDR5_RFM" | "std = DDR5_RFM_VRR"
    | "std = DDR5_VRR" | "std = GDDR6" | "std = GDDR7" | "std = HBM1" | "std = HBM2" | "std = HBM3" | "std = HBM4"
    | "std = LPDDR5" | "std = LPDDR5PIM" | "std = LPDDR6" | "std = LPDDR6PIM"
  using assms unfolding registered_standards_def set_simps by blast

lemma registered_dram_class:
  assumes "std \<in> set registered_standards"
  obtains provided td_ok od_ok where "dram_class std provided td_ok od_ok"
  using assms
  by (cases rule: registered_cases)
    (use ddr3.dram_class_axioms ddr4.dram_class_axioms ddr4_vrr.dram_class_axioms ddr5.dram_class_axioms
      ddr5_rfm.dram_class_axioms ddr5_rfm_vrr.dram_class_axioms ddr5_vrr.dram_class_axioms gddr6.dram_class_axioms
      gddr7.dram_class_axioms hbm1.dram_class_axioms hbm2.dram_class_axioms hbm3.dram_class_axioms
      hbm4.dram_class_axioms lpddr5.dram_class_axioms lpddr5_pim.dram_class_axioms lpddr6.dram_class_axioms
      lpddr6_pim.dram_class_axioms in blast)+

section \<open>Layouts of the presets\<close>

definition LPDDR6_subchannel_model :: dict where
  "LPDDR6_subchannel_model =
     [(''status'', PStr ''single_subchannel_only''),
      (''modeled_subchannels_per_channel'', PInt 1),
      (''refresh_density_reference_subchannels'', PInt 2),
      (''independent_subchannel_scheduling'', PBool False)]"

text \<open>
  The capacity an organisation declares: its density in megabits per device, the devices of a
  channel and the ranks.
\<close>

definition declared_bytes :: "dict \<Rightarrow> int option" where
  "declared_bytes od =
     (case (dget od ''density'', dget od ''channel_width'', dget od ''dq'', dget od ''rank'') of
        (Some (PInt density), Some (PInt cw), Some (PInt dq), Some (PInt ranks)) \<Rightarrow>
          Some (density * 1048576 div 8 * (cw div dq) * ranks)
      | _ \<Rightarrow> None)"

fun layouts_check :: "dram_standard \<Rightarrow> dict option \<Rightarrow> (string \<times> dict) list \<Rightarrow> bool" where
  "layouts_check std sub [] = True"
| "layouts_check std sub ((name, od) # ps) =
     ((case extract_dram_layout std sub od of Inl _ \<Rightarrow> False
       | Inr ly \<Rightarrow> declared_bytes od = Some (ly_capacity_bytes ly)) \<and> layouts_check std sub ps)"

lemma layouts_checkD:
  "layouts_check std sub ps \<Longrightarrow> (name, od) \<in> set ps \<Longrightarrow>
    \<exists>ly. extract_dram_layout std sub od = Inr ly \<and> declared_bytes od = Some (ly_capacity_bytes ly)"
  by (induction ps) (auto split: sum.splits)

fun no_layouts_check :: "dram_standard \<Rightarrow> (string \<times> dict) list \<Rightarrow> bool" where
  "no_layouts_check std [] = True"
| "no_layouts_check std ((name, od) # ps) =
     ((case extract_dram_layout std None od of Inl e \<Rightarrow> e = NoRankBank | Inr _ \<Rightarrow> False) \<and> no_layouts_check std ps)"

lemma no_layouts_checkD:
  "no_layouts_check std ps \<Longrightarrow> (name, od) \<in> set ps \<Longrightarrow> extract_dram_layout std None od = Inl NoRankBank"
  by (induction ps) (auto split: sum.splits)

lemma no_layouts_checked:
  "no_layouts_check GDDR6 (std_org_presets GDDR6)"
  "no_layouts_check GDDR7 (std_org_presets GDDR7)"
  "no_layouts_check HBM1 (std_org_presets HBM1)"
  "no_layouts_check HBM2 (std_org_presets HBM2)"
  "no_layouts_check HBM3 (std_org_presets HBM3)"
  "no_layouts_check HBM4 (std_org_presets HBM4)"
  by (code_simp, code_simp, code_simp, code_simp, code_simp, code_simp)

lemma layouts_checked:
  "layouts_check DDR3 None (std_org_presets DDR3)"
  "layouts_check DDR4 None (std_org_presets DDR4)"
  "layouts_check DDR5 None (std_org_presets DDR5)"
  "layouts_check LPDDR5 None (std_org_presets LPDDR5)"
  "layouts_check LPDDR5PIM None (std_org_presets LPDDR5PIM)"
  "layouts_check LPDDR6 (Some LPDDR6_subchannel_model) (std_org_presets LPDDR6)"
  "layouts_check LPDDR6PIM (Some LPDDR6_subchannel_model) (std_org_presets LPDDR6PIM)"
  by (code_simp, code_simp, code_simp, code_simp, code_simp, code_simp, code_simp)

text \<open>A standard derived from another with the same hierarchy has the same layouts but for the name.\<close>

lemma extract_rename:
  assumes "std_levels s' = std_levels s" "std_internal_prefetch s' = std_internal_prefetch s" "std_payload s' = std_payload s"
  shows "(case extract_dram_layout s' sub od of Inl _ \<Rightarrow> False | Inr ly \<Rightarrow> P (ly_capacity_bytes ly)) =
    (case extract_dram_layout s sub od of Inl _ \<Rightarrow> False | Inr ly \<Rightarrow> P (ly_capacity_bytes ly))"
  unfolding extract_dram_layout_def Let_def assms
  by (simp add: rbind_def del: rotate_banks.simps upt_Suc split: sum.split option.split prod.split)

lemma layouts_check_rename:
  assumes "std_levels s' = std_levels s" "std_internal_prefetch s' = std_internal_prefetch s" "std_payload s' = std_payload s"
  shows "layouts_check s' sub ps = layouts_check s sub ps"
proof (induction ps)
  case (Cons p ps)
  obtain name od where p: "p = (name, od)" by fastforce
  show ?case
    using extract_rename[OF assms, where P = "\<lambda>c. declared_bytes od = Some c" and sub = sub and od = od] Cons.IH
    unfolding p by simp
qed simp

lemma derived_layouts_checked:
  "layouts_check DDR4_VRR None (std_org_presets DDR4_VRR)"
  "layouts_check DDR5_VRR None (std_org_presets DDR5_VRR)"
  "layouts_check DDR5_RFM None (std_org_presets DDR5_RFM)"
  "layouts_check DDR5_RFM_VRR None (std_org_presets DDR5_RFM_VRR)"
  using layouts_checked(2,3) layouts_check_rename[of DDR4_VRR DDR4] layouts_check_rename[of DDR5_VRR DDR5]
    layouts_check_rename[of DDR5_RFM DDR5] layouts_check_rename[of DDR5_RFM_VRR DDR5]
  by (simp_all add: DDR4_VRR_def DDR5_VRR_def DDR5_RFM_def DDR5_RFM_VRR_def DDR4_def DDR5_def)

text \<open>The declared sub-channel model of a standard and whether it has ranks.\<close>

definition subchannel_of :: "dram_standard \<Rightarrow> dict option" where
  "subchannel_of std = (if std_name std \<in> {''LPDDR6'', ''LPDDR6PIM''} then Some LPDDR6_subchannel_model else None)"

definition has_ranks :: "dram_standard \<Rightarrow> bool" where
  "has_ranks std \<longleftrightarrow> ''Rank'' \<in> set (map fst (std_levels std))"

lemma subchannels:
  "subchannel_of DDR3 = None"
  "subchannel_of DDR4 = None"
  "subchannel_of DDR4_VRR = None"
  "subchannel_of DDR5 = None"
  "subchannel_of DDR5_VRR = None"
  "subchannel_of DDR5_RFM = None"
  "subchannel_of DDR5_RFM_VRR = None"
  "subchannel_of LPDDR5 = None"
  "subchannel_of LPDDR5PIM = None"
  "subchannel_of LPDDR6 = Some LPDDR6_subchannel_model"
  "subchannel_of LPDDR6PIM = Some LPDDR6_subchannel_model"
  "subchannel_of GDDR6 = None"
  "subchannel_of GDDR7 = None"
  "subchannel_of HBM1 = None"
  "subchannel_of HBM2 = None"
  "subchannel_of HBM3 = None"
  "subchannel_of HBM4 = None"
  by (code_simp, code_simp, code_simp, code_simp, code_simp, code_simp, code_simp, code_simp, code_simp, code_simp, code_simp, code_simp, code_simp, code_simp, code_simp, code_simp, code_simp)

lemma ranked:
  "has_ranks DDR3"
  "has_ranks DDR4"
  "has_ranks DDR4_VRR"
  "has_ranks DDR5"
  "has_ranks DDR5_VRR"
  "has_ranks DDR5_RFM"
  "has_ranks DDR5_RFM_VRR"
  "has_ranks LPDDR5"
  "has_ranks LPDDR5PIM"
  "has_ranks LPDDR6"
  "has_ranks LPDDR6PIM"
  "\<not> has_ranks GDDR6"
  "\<not> has_ranks GDDR7"
  "\<not> has_ranks HBM1"
  "\<not> has_ranks HBM2"
  "\<not> has_ranks HBM3"
  "\<not> has_ranks HBM4"
  by (code_simp, code_simp, code_simp, code_simp, code_simp, code_simp, code_simp, code_simp, code_simp, code_simp, code_simp, code_simp, code_simp, code_simp, code_simp, code_simp, code_simp)

section \<open>Timing presets\<close>

text \<open>
  Row cycle and data rate of a preset: the row cycle is the row active time and the precharge
  time together, and the clock period is that of the data rate within two parts in a thousand.
\<close>

definition row_cycle_ok :: "timings \<Rightarrow> bool" where
  "row_cycle_ok td \<longleftrightarrow> dgetd td ''nRC'' 0 = dgetd td ''nRAS'' 0 + dgetd td ''nRP'' 0 \<and> 0 < dgetd td ''nRAS'' 0"

definition data_rate_ok :: "timings \<Rightarrow> bool" where
  "data_rate_ok td \<longleftrightarrow> \<bar>dgetd td ''rate'' 0 * dgetd td ''tCK_ps'' 0 - 2000000\<bar> \<le> 4000"

lemma ddr_presets_checked:
  "list_all (\<lambda>p. row_cycle_ok (snd p) \<and> data_rate_ok (snd p)) (std_timing_presets DDR3)"
  "list_all (\<lambda>p. row_cycle_ok (snd p) \<and> data_rate_ok (snd p)) (std_timing_presets DDR4)"
  "list_all (\<lambda>p. row_cycle_ok (snd p) \<and> data_rate_ok (snd p)) (std_timing_presets DDR4_VRR)"
  "list_all (\<lambda>p. row_cycle_ok (snd p) \<and> data_rate_ok (snd p)) (std_timing_presets DDR5)"
  "list_all (\<lambda>p. row_cycle_ok (snd p) \<and> data_rate_ok (snd p)) (std_timing_presets DDR5_VRR)"
  "list_all (\<lambda>p. row_cycle_ok (snd p) \<and> data_rate_ok (snd p)) (std_timing_presets DDR5_RFM)"
  "list_all (\<lambda>p. row_cycle_ok (snd p) \<and> data_rate_ok (snd p)) (std_timing_presets DDR5_RFM_VRR)"
  by (code_simp, code_simp, code_simp, code_simp, code_simp, code_simp, code_simp)

section \<open>Bits of a channel\<close>

definition org_number :: "dict \<Rightarrow> string \<Rightarrow> int" where
  "org_number od k = (case dget od k of Some (PInt i) \<Rightarrow> i | _ \<Rightarrow> 1)"

text \<open>The product of the levels below the channel and the device width, in units of \<open>2 ^ 20\<close> bits.\<close>

definition channel_megabits :: "dram_standard \<Rightarrow> dict \<Rightarrow> int" where
  "channel_megabits std od =
     org_number od ''dq'' * prod_list (map (\<lambda>lv. org_number od (lower (fst lv))) (tl (std_levels std))) div 1048576"

section \<open>Extensions of a standard\<close>

text \<open>
  \<open>extension_of base derived new\<close>: the derived standard has the base's levels by name, its
  clocking and its constraints, and every further constraint has only new commands on one side.
\<close>

definition extension_of :: "dram_standard \<Rightarrow> dram_standard \<Rightarrow> string list \<Rightarrow> bool" where
  "extension_of base derived new \<longleftrightarrow>
     map fst (std_levels derived) = map fst (std_levels base) \<and>
     std_tick_multiplier derived = std_tick_multiplier base \<and>
     std_command_cycles derived = std_command_cycles base \<and>
     take (length (std_constraints base)) (std_constraints derived) = std_constraints base \<and>
     list_all (\<lambda>tc. list_all (\<lambda>c. c \<in> set new) (tc_preceding tc) \<or> list_all (\<lambda>c. c \<in> set new) (tc_following tc))
       (drop (length (std_constraints base)) (std_constraints derived))"

definition extensions :: "(dram_standard \<times> dram_standard \<times> string list) list" where
  "extensions =
     [(DDR4, DDR4_VRR, [''VRR'']), (DDR5, DDR5_VRR, [''VRR'']), (DDR5, DDR5_RFM, [''RFMab'', ''RFMpb'']),
      (DDR5_RFM, DDR5_RFM_VRR, [''VRR'']),
      (LPDDR5, LPDDR5PIM, [''SB'', ''HAB'', ''HAB_PIM'', ''PIM_BCAST'', ''PIM_MAC'', ''PIM_MAC_AB'']),
      (LPDDR6, LPDDR6PIM, [''SB'', ''HAB'', ''HAB_PIM'', ''PIM_BCAST'', ''PIM_MAC'', ''PIM_MAC_AB''])]"

lemma extension_append:
  "std_constraints derived = std_constraints base @ extra \<Longrightarrow>
    map fst (std_levels derived) = map fst (std_levels base) \<Longrightarrow>
    std_tick_multiplier derived = std_tick_multiplier base \<Longrightarrow> std_command_cycles derived = std_command_cycles base \<Longrightarrow>
    list_all (\<lambda>tc. list_all (\<lambda>c. c \<in> set new) (tc_preceding tc) \<or> list_all (\<lambda>c. c \<in> set new) (tc_following tc)) extra \<Longrightarrow>
    extension_of base derived new"
  by (simp add: extension_of_def)

lemma demanded_extension:
  assumes "extension_of base derived new" and "p \<notin> set new" and "f \<notin> set new"
  shows "demanded derived td lv p f lat w sib \<longleftrightarrow> demanded base td lv p f lat w sib"
proof -
  let ?n = "length (std_constraints base)"
  have same: "map fst (std_levels derived) = map fst (std_levels base)"
    "std_tick_multiplier derived = std_tick_multiplier base" "std_command_cycles derived = std_command_cycles base"
    "take ?n (std_constraints derived) = std_constraints base"
    using assms(1) by (simp_all add: extension_of_def)
  have extra: "\<not> (p \<in> set (tc_preceding tc) \<and> f \<in> set (tc_following tc))"
    if "tc \<in> set (drop ?n (std_constraints derived))" for tc
    using assms that by (auto simp: extension_of_def list_all_iff)
  have "set (std_constraints derived) = set (std_constraints base) \<union> set (drop ?n (std_constraints derived))"
    by (metis append_take_drop_id same(4) set_append)
  then show ?thesis
    using extra unfolding demanded_def adjusted_latency_def ticks_of_def same by blast
qed

lemma extensions_checked: "list_all (\<lambda>(base, derived, new). extension_of base derived new) extensions"
proof -
  have "extension_of DDR4 DDR4_VRR [''VRR'']"
    by (rule extension_append, simp add: DDR4_VRR_fields DDR4_fields DDR4_VRR_timing_constraints_def TC_def)
      (simp_all add: DDR4_VRR_fields DDR4_fields DDR4_VRR_timing_constraints_def TC_def)
  moreover have "extension_of DDR5 DDR5_VRR [''VRR'']"
    by (rule extension_append, simp add: DDR5_VRR_fields DDR5_fields DDR5_VRR_timing_constraints_def TC_def)
      (simp_all add: DDR5_VRR_fields DDR5_fields DDR5_VRR_timing_constraints_def TC_def)
  moreover have "extension_of DDR5 DDR5_RFM [''RFMab'', ''RFMpb'']"
    by (rule extension_append, simp add: DDR5_RFM_fields DDR5_fields DDR5_RFM_timing_constraints_def TC_def)
      (simp_all add: DDR5_RFM_fields DDR5_fields DDR5_RFM_timing_constraints_def TC_def)
  moreover have "extension_of DDR5_RFM DDR5_RFM_VRR [''VRR'']"
    by (rule extension_append, simp add: DDR5_RFM_VRR_fields DDR5_RFM_fields DDR5_RFM_VRR_timing_constraints_def TC_def)
      (simp_all add: DDR5_RFM_VRR_fields DDR5_RFM_fields DDR5_RFM_VRR_timing_constraints_def TC_def)
  moreover have "extension_of LPDDR5 LPDDR5PIM [''SB'', ''HAB'', ''HAB_PIM'', ''PIM_BCAST'', ''PIM_MAC'', ''PIM_MAC_AB'']"
    by (rule extension_append, simp add: LPDDR5PIM_fields LPDDR5_fields LPDDR5PIM_timing_constraints_def LPDDR5PIM_levels_def LPDDR5_levels_def TC_def)
      (simp_all add: LPDDR5PIM_fields LPDDR5_fields LPDDR5PIM_timing_constraints_def LPDDR5PIM_levels_def LPDDR5_levels_def TC_def)
  moreover have "extension_of LPDDR6 LPDDR6PIM [''SB'', ''HAB'', ''HAB_PIM'', ''PIM_BCAST'', ''PIM_MAC'', ''PIM_MAC_AB'']"
    by (rule extension_append, simp add: LPDDR6PIM_fields LPDDR6_fields LPDDR6PIM_timing_constraints_def LPDDR6PIM_levels_def LPDDR6_levels_def TC_def)
      (simp_all add: LPDDR6PIM_fields LPDDR6_fields LPDDR6PIM_timing_constraints_def LPDDR6PIM_levels_def LPDDR6_levels_def TC_def)
  ultimately show ?thesis by (simp add: extensions_def)
qed

section \<open>Refresh times of DDR4\<close>

text \<open>The time the standard asks for, in picoseconds, by the density in megabits.\<close>

definition DDR4_refresh_ps :: "int \<Rightarrow> int" where
  "DDR4_refresh_ps d =
     (if d \<le> 2048 then 160000 else if d \<le> 4096 then 260000 else if d \<le> 8192 then 360000 else 550000)"

lemma resolved_timings:
  assumes "resolve std org tim ov = Inr (od, td)" and "distinct (dkeys ov)"
  obtains td0 td1 where "std_resolve_secondary std td0 od = Inr td1"
    "\<And>k. k \<notin> set (dkeys ov) \<Longrightarrow> dget td k = map_option PInt (dget td1 k)"
proof -
  obtain td0 td1 where r: "std_resolve_secondary std td0 od = Inr td1"
    "td = dupdate (int_dict td1) (filter (\<lambda>kv. fst kv \<notin> set (org_names std)) ov)"
    using assms(1) by (auto simp: resolve_Inr_iff)
  have "dget td k = map_option PInt (dget td1 k)" if "k \<notin> set (dkeys ov)" for k
  proof -
    have "dget (filter (\<lambda>kv. fst kv \<notin> set (org_names std)) ov) k = None"
      using that by (auto simp: dget_None_iff)
    with assms(2) show ?thesis by (simp add: r(2) dget_dupdate distinct_map_filter dget_int_dict)
  qed
  with r(1) show thesis by (rule that)
qed

lemma DDR4_refresh_time:
  assumes "DDR4_resolve_secondary_timings td0 od = Inr td1" and "dget od ''density'' = Some (PInt d)"
    and "dget td1 ''tCK_ps'' = Some t"
  shows "\<exists>n. dget td1 ''nRFC'' = Some n \<and> DDR4_resolve_nRFC d t = Inr n"
  using assms
  by (auto simp: DDR4_resolve_secondary_timings_def assign_def rbind_Inr_iff dict_simps dict_int_def dict_get_def
      split: option.splits)

end
