(* ===== verification/Pim_Resources.thy ===== *)
theory Pim_Resources
  imports Std_PIM
begin

text \<open>
  The constructors of \<open>LPDDR5PIM\<close> and \<open>LPDDR6PIM\<close> (\<open>dram/lpddr5_pim.py\<close>,
  \<open>dram/lpddr6_pim.py\<close>, \<open>dram/pim_validation.py\<close>): the datatype resource tables, the
  keyword arguments that override them, the checks, \<open>resolve\<close> and \<open>to_config\<close>. The two
  classes differ in their name, the two deprecated arguments LPDDR5-PIM refuses, the default
  power profile and whether it is validated.

  A call is a dictionary of keyword arguments; an argument that is left out has its default.
  Decimal constants are the exact decimals.
\<close>

datatype pim_error =
    UnknownDatatype | UnknownDatatypeClass | DatatypeClassMismatch
  | Deprecated string | UnknownExecutionModel
  | NotInteger string | NotPositive string | Negative string | NotNumber string | NotBoolean string
  | UnsupportedResources string
  | SimdNotDivisible | LanesMismatch int pyval
  | PowerMissingEnabled | PowerEnabledNotBool | PowerMissing "string list" | PowerField string
  | BanksExceed int int | BanksNotDivisible int int | BlocksBelowSlots
  | PimKey string | PimDram dram_error

section \<open>Argument checks\<close>

definition optional_int :: "pyval \<Rightarrow> string \<Rightarrow> int \<Rightarrow> pim_error + unit" where
  "optional_int v field minimum =
     (case v of
        PNone \<Rightarrow> Inr ()
      | PInt i \<Rightarrow>
          if i < minimum then Inl (if minimum = 1 then NotPositive field else Negative field) else Inr ()
      | _ \<Rightarrow> Inl (NotInteger field))"

definition optional_number :: "pyval \<Rightarrow> string \<Rightarrow> bool \<Rightarrow> pim_error + unit" where
  "optional_number v field positive =
     (if v = PNone then Inr ()
      else if \<not> is_number v then Inl (NotNumber field)
      else let r = the (num_of v) in
        if positive \<and> r \<le> 0 \<or> \<not> positive \<and> r < 0
        then Inl (if positive then NotPositive field else Negative field) else Inr ())"

section \<open>Resource tables\<close>

definition PIM_EVENT_ENERGY_FIELDS :: "string list" where
  "PIM_EVENT_ENERGY_FIELDS =
     [''pim_compute_energy_pJ_per_mac'', ''pim_array_local_energy_pJ'', ''pim_cell_to_pim_energy_pJ_per_256b'',
      ''pim_vrf_access_energy_pJ'', ''pim_srf_access_energy_pJ'', ''pim_mode_switch_energy_pJ'']"

definition PIM_DATATYPE_RESOURCES :: "(string \<times> dict) list" where
  "PIM_DATATYPE_RESOURCES = [
    (''int8'',
      [(''pim_datatype_bits'', PInt 8), (''pim_simd_width_bits'', PInt 256), (''pim_ops_per_mac'', PInt 2),
       (''pim_lanes'', PInt 32), (''pim_ops_per_block_issue'', PInt 64),
       (''pim_mac_issue_interval_cycles'', PInt 4), (''pim_mac_pipeline_latency_cycles'', PInt 8),
       (''pim_movement_cycles'', PInt 1), (''pim_writeback_cycles'', PInt 0), (''pim_slots_per_request'', PInt 1)]),
    (''fp16'',
      [(''pim_datatype_bits'', PInt 16), (''pim_simd_width_bits'', PInt 256), (''pim_ops_per_mac'', PInt 2),
       (''pim_lanes'', PInt 16), (''pim_ops_per_block_issue'', PInt 32),
       (''pim_mac_issue_interval_cycles'', PInt 4), (''pim_mac_pipeline_latency_cycles'', PInt 8),
       (''pim_movement_cycles'', PInt 1), (''pim_writeback_cycles'', PInt 0), (''pim_slots_per_request'', PInt 1)])]"

definition PIM_DATATYPE_METADATA_base :: "(string \<times> dict) list" where
  "PIM_DATATYPE_METADATA_base = PIM_DATATYPE_RESOURCES @ [
    (''int16'',
      [(''pim_datatype_bits'', PInt 16), (''pim_simd_width_bits'', PInt 256), (''pim_ops_per_mac'', PInt 2),
       (''pim_lanes'', PInt 16), (''pim_ops_per_block_issue'', PInt 32),
       (''pim_mac_issue_interval_cycles'', PInt 8), (''pim_mac_pipeline_latency_cycles'', PInt 8),
       (''pim_movement_cycles'', PInt 1), (''pim_writeback_cycles'', PInt 0), (''pim_slots_per_request'', PInt 1)]),
    (''bf16'',
      [(''pim_datatype_bits'', PInt 16), (''pim_simd_width_bits'', PInt 256), (''pim_ops_per_mac'', PInt 2),
       (''pim_lanes'', PInt 16), (''pim_ops_per_block_issue'', PInt 32),
       (''pim_mac_issue_interval_cycles'', PInt 8), (''pim_mac_pipeline_latency_cycles'', PInt 8),
       (''pim_movement_cycles'', PInt 1), (''pim_writeback_cycles'', PInt 0), (''pim_slots_per_request'', PInt 1)])]"

definition PIM_ENERGY_DEFAULTS_BY_DTYPE :: "(string \<times> dict) list" where
  "PIM_ENERGY_DEFAULTS_BY_DTYPE = [
    (''int8'', [(''pim_compute_energy_pJ_per_mac'', PFloat (35 / 100))]),
    (''fp16'', [(''pim_compute_energy_pJ_per_mac'', PFloat (69 / 100))]),
    (''int16'', [(''pim_compute_energy_pJ_per_mac'', PFloat (55 / 100))]),
    (''bf16'', [(''pim_compute_energy_pJ_per_mac'', PFloat (55 / 100))])]"

definition PIM_ENERGY_SHARED_DEFAULTS :: dict where
  "PIM_ENERGY_SHARED_DEFAULTS =
     [(''pim_array_local_energy_pJ'', PFloat 0), (''pim_cell_to_pim_energy_pJ_per_256b'', PFloat (268 / 100)),
      (''pim_vrf_access_energy_pJ'', PFloat (317 / 100)), (''pim_srf_access_energy_pJ'', PFloat (40 / 100)),
      (''pim_mode_switch_energy_pJ'', PFloat 0)]"

text \<open>The loop that adds the energy fields: \<open>a.get(dtype, {}).get(field) or shared[field]\<close>.\<close>

definition energy_default :: "string \<Rightarrow> string \<Rightarrow> pyval" where
  "energy_default dtype field =
     (let v = dgetd (dgetd PIM_ENERGY_DEFAULTS_BY_DTYPE dtype []) field PNone in
      if truthy v then v else dgetd PIM_ENERGY_SHARED_DEFAULTS field PNone)"

definition PIM_DATATYPE_METADATA :: "(string \<times> dict) list" where
  "PIM_DATATYPE_METADATA =
     map (\<lambda>(dtype, res). (dtype, dupdate res (map (\<lambda>f. (f, energy_default dtype f)) PIM_EVENT_ENERGY_FIELDS)))
       PIM_DATATYPE_METADATA_base"

definition PIM_MAC_EXECUTION_MODELS :: "string list" where
  "PIM_MAC_EXECUTION_MODELS = [''shared_block_serial'', ''subbank_overlap_experimental'']"

section \<open>The arguments of the constructor\<close>

text \<open>The parameters of \<open>__init__\<close> with their defaults; the rest are overrides.\<close>

definition pim_defaults :: dict where
  "pim_defaults =
     [(''power'', PNone), (''pim_blocks_per_bank'', PInt 1), (''pim_banks_per_block'', PInt 2),
      (''pim_mac_execution_model'', PStr ''shared_block_serial''), (''pim_datatype'', PStr ''int8''),
      (''pim_datatype_class'', PNone), (''pim_datatype_behavior_enabled'', PBool False),
      (''pim_datatype_bits'', PNone), (''pim_simd_width_bits'', PNone), (''pim_lanes'', PNone),
      (''pim_ops_per_mac'', PNone), (''pim_ops_per_block_issue'', PNone), (''pim_ops_per_request'', PNone),
      (''pim_mac_issue_interval_cycles'', PNone), (''pim_mac_pipeline_latency_cycles'', PNone),
      (''pim_mac_latency_cycles'', PNone), (''pim_movement_cycles'', PNone), (''pim_writeback_cycles'', PNone),
      (''pim_slots_per_request'', PNone)]
     @ map (\<lambda>f. (f, PNone)) PIM_EVENT_ENERGY_FIELDS"

definition kw :: "dict \<Rightarrow> string \<Rightarrow> pyval" where
  "kw args k = (case dget args k of Some v \<Rightarrow> v | None \<Rightarrow> dgetd pim_defaults k PNone)"

definition pim_overrides :: "string list \<Rightarrow> dict \<Rightarrow> dict" where
  "pim_overrides extra args =
     filter (\<lambda>kv. fst kv \<notin> set (dkeys pim_defaults) \<and> fst kv \<notin> set extra) args"

text \<open>\<open>str(v).lower()\<close> and \<open>str(v)\<close>; only a string can spell one of the names looked up.\<close>

definition str_lower :: "pyval \<Rightarrow> string option" where
  "str_lower v = (case v of PStr s \<Rightarrow> Some (lower s) | _ \<Rightarrow> None)"

definition str_of :: "pyval \<Rightarrow> string option" where
  "str_of v = (case v of PStr s \<Rightarrow> Some s | _ \<Rightarrow> None)"

definition integer_fields :: "(string \<times> int) list" where
  "integer_fields =
     [(''pim_datatype_bits'', 1), (''pim_simd_width_bits'', 1), (''pim_lanes'', 1),
      (''pim_mac_issue_interval_cycles'', 1), (''pim_mac_pipeline_latency_cycles'', 1),
      (''pim_mac_latency_cycles'', 1), (''pim_movement_cycles'', 0), (''pim_writeback_cycles'', 0),
      (''pim_slots_per_request'', 1), (''pim_ops_per_mac'', 1), (''pim_ops_per_block_issue'', 1),
      (''pim_ops_per_request'', 1)]"

definition check_arguments :: "dict \<Rightarrow> pim_error + unit" where
  "check_arguments args =
     rbind (rmap (\<lambda>(f, m). optional_int (kw args f) f m) integer_fields) (\<lambda>_.
     if \<not> is_bool (kw args ''pim_datatype_behavior_enabled'')
     then Inl (NotBoolean ''pim_datatype_behavior_enabled'')
     else rbind (rmap (\<lambda>f. optional_number (kw args f) f False) PIM_EVENT_ENERGY_FIELDS) (\<lambda>_. Inr ()))"

section \<open>Resource overrides\<close>

text \<open>\<open>float(v)\<close> of an integer that was checked before.\<close>

definition to_float :: "pyval \<Rightarrow> pyval" where
  "to_float v = PFloat (case num_of v of Some r \<Rightarrow> r | None \<Rightarrow> 0)"

definition put_if :: "bool \<Rightarrow> string \<Rightarrow> pyval \<Rightarrow> dict \<Rightarrow> dict" where
  "put_if b k v r = (if b then dset k v r else r)"

definition given :: "dict \<Rightarrow> string \<Rightarrow> bool" where
  "given args k \<longleftrightarrow> kw args k \<noteq> PNone"

definition override_resources :: "dict \<Rightarrow> dict \<Rightarrow> dict" where
  "override_resources args r =
     (let plain = (\<lambda>k. put_if (given args k) k (kw args k));
          float = (\<lambda>k. put_if (given args k) k (to_float (kw args k)))
      in (fold float PIM_EVENT_ENERGY_FIELDS
        \<circ> plain ''pim_slots_per_request''
        \<circ> plain ''pim_writeback_cycles''
        \<circ> plain ''pim_movement_cycles''
        \<circ> put_if (given args ''pim_mac_latency_cycles'' \<and> \<not> given args ''pim_mac_pipeline_latency_cycles'')
            ''pim_mac_pipeline_latency_cycles'' (kw args ''pim_mac_latency_cycles'')
        \<circ> plain ''pim_mac_pipeline_latency_cycles''
        \<circ> plain ''pim_mac_issue_interval_cycles''
        \<circ> put_if (given args ''pim_ops_per_request'' \<and> \<not> given args ''pim_ops_per_block_issue'')
            ''pim_ops_per_block_issue'' (to_float (kw args ''pim_ops_per_request''))
        \<circ> float ''pim_ops_per_block_issue''
        \<circ> float ''pim_ops_per_mac''
        \<circ> plain ''pim_lanes''
        \<circ> plain ''pim_simd_width_bits''
        \<circ> plain ''pim_datatype_bits'') r)"

text \<open>The number stored under a key; every key read is in every resource table.\<close>

definition num_at :: "dict \<Rightarrow> string \<Rightarrow> rat" where
  "num_at r k = (case num_of (dgetd r k (PInt 0)) of Some x \<Rightarrow> x | None \<Rightarrow> 0)"

definition int_at :: "dict \<Rightarrow> string \<Rightarrow> int" where
  "int_at r k = trunc_rat (num_at r k)"

definition derive_resources :: "dict \<Rightarrow> dict \<Rightarrow> dict" where
  "derive_resources args r0 =
     (let r1 = override_resources args r0;
          r2 = put_if (\<not> given args ''pim_lanes'') ''pim_lanes''
                 (PInt (int_at r1 ''pim_simd_width_bits'' div int_at r1 ''pim_datatype_bits'')) r1;
          r3 = put_if (\<not> given args ''pim_ops_per_block_issue'' \<and> \<not> given args ''pim_ops_per_request'')
                 ''pim_ops_per_block_issue'' (PFloat (num_at r2 ''pim_lanes'' * num_at r2 ''pim_ops_per_mac'')) r2
      in dset ''pim_ops_per_request'' (PFloat (num_at r3 ''pim_ops_per_block_issue'')) r3)"

section \<open>Checks on the resources\<close>

text \<open>An integer that is not a boolean.\<close>

definition plain_int :: "pyval \<Rightarrow> int option" where
  "plain_int v = (case v of PInt i \<Rightarrow> Some i | _ \<Rightarrow> None)"

definition check_resources :: "dict \<Rightarrow> dict \<Rightarrow> pim_error + int \<times> int" where
  "check_resources args r =
     (case plain_int (kw args ''pim_blocks_per_bank'') of
        None \<Rightarrow> Inl (NotInteger ''pim_blocks_per_bank'')
      | Some blocks \<Rightarrow>
     (case plain_int (kw args ''pim_banks_per_block'') of
        None \<Rightarrow> Inl (NotInteger ''pim_banks_per_block'')
      | Some banks \<Rightarrow>
     (let bits = int_at r ''pim_datatype_bits''; width = int_at r ''pim_simd_width_bits'';
          expected = width div bits
      in rbind (require_all
         ([(0 < blocks, NotPositive ''pim_blocks_per_bank''),
           (0 < bits, NotPositive ''pim_datatype_bits''),
           (0 < width, NotPositive ''pim_simd_width_bits''),
           (width mod bits = 0, SimdNotDivisible),
           (0 < num_at r ''pim_lanes'', NotPositive ''pim_lanes''),
           (num_at r ''pim_lanes'' = of_int expected, LanesMismatch expected (dgetd r ''pim_lanes'' PNone)),
           (0 < num_at r ''pim_ops_per_mac'', NotPositive ''pim_ops_per_mac''),
           (0 < num_at r ''pim_ops_per_block_issue'', NotPositive ''pim_ops_per_block_issue''),
           (0 < num_at r ''pim_ops_per_request'', NotPositive ''pim_ops_per_request''),
           (0 < num_at r ''pim_mac_issue_interval_cycles'', NotPositive ''pim_mac_issue_interval_cycles''),
           (0 < num_at r ''pim_mac_pipeline_latency_cycles'', NotPositive ''pim_mac_pipeline_latency_cycles''),
           (0 \<le> num_at r ''pim_movement_cycles'', Negative ''pim_movement_cycles''),
           (0 \<le> num_at r ''pim_writeback_cycles'', Negative ''pim_writeback_cycles''),
           (0 < num_at r ''pim_slots_per_request'', NotPositive ''pim_slots_per_request''),
           (0 < banks, NotPositive ''pim_banks_per_block'')]
          @ map (\<lambda>f. (0 \<le> num_at r f, Negative f)) PIM_EVENT_ENERGY_FIELDS)) (\<lambda>_.
         Inr (blocks, banks)))))"

section \<open>The instances\<close>

record pim_dram =
  pd_standard :: dram_standard
  pd_blocks_per_bank :: int
  pd_banks_per_block :: int
  pd_execution_model :: string
  pd_datatype :: string
  pd_behavior :: bool
  pd_resource :: dict
  pd_org_preset :: string
  pd_timing_preset :: string
  pd_power :: pyval
  pd_overrides :: dict

text \<open>
  What the two classes differ in: the standard, the deprecated arguments, the default power
  profile and the check of a profile.
\<close>

record pim_class =
  pc_standard :: dram_standard
  pc_deprecated :: "string list"
  pc_default_power :: dict
  pc_check_power :: "pyval \<Rightarrow> pim_error + unit"

definition pim_datatype_of :: "dict \<Rightarrow> pim_error + string" where
  "pim_datatype_of args =
     (case str_lower (kw args ''pim_datatype'') of
        None \<Rightarrow> Inl UnknownDatatype
      | Some dt \<Rightarrow>
        if dt \<notin> set (dkeys PIM_DATATYPE_METADATA) then Inl UnknownDatatype
        else
          let c = kw args ''pim_datatype_class'' in
          if \<not> truthy c then Inr dt
          else (case str_lower c of
            None \<Rightarrow> Inl UnknownDatatypeClass
          | Some cls \<Rightarrow>
            if cls \<notin> set (dkeys PIM_DATATYPE_METADATA) then Inl UnknownDatatypeClass
            else if cls \<noteq> dt then Inl DatatypeClassMismatch
            else Inr dt))"

definition pim_execution_model_of :: "dict \<Rightarrow> pim_error + string" where
  "pim_execution_model_of args =
     (case str_of (kw args ''pim_mac_execution_model'') of
        None \<Rightarrow> Inl UnknownExecutionModel
      | Some m \<Rightarrow> if m \<in> set PIM_MAC_EXECUTION_MODELS then Inr m else Inl UnknownExecutionModel)"

definition pim_construct ::
  "pim_class \<Rightarrow> string \<Rightarrow> string \<Rightarrow> dict \<Rightarrow> pim_error + pim_dram" where
  "pim_construct cls org tim args =
     rbind (pim_datatype_of args) (\<lambda>dt.
     rbind (rmap (\<lambda>k. require (dgetd args k PNone = PNone) (Deprecated k)) (pc_deprecated cls)) (\<lambda>_.
     rbind (pim_execution_model_of args) (\<lambda>model.
     rbind (check_arguments args) (\<lambda>_.
     let behavior = truthy (kw args ''pim_datatype_behavior_enabled'') in
     if behavior \<and> dt \<notin> set (dkeys PIM_DATATYPE_RESOURCES) then Inl (UnsupportedResources dt)
     else
     let r = derive_resources args (dgetd PIM_DATATYPE_METADATA dt []) in
     rbind (check_resources args r) (\<lambda>(blocks, banks).
     let pw = (if kw args ''power'' = PNone then PDict (pc_default_power cls) else kw args ''power'') in
     rbind (pc_check_power cls pw) (\<lambda>_.
     Inr \<lparr>pd_standard = pc_standard cls, pd_blocks_per_bank = blocks, pd_banks_per_block = banks,
          pd_execution_model = model, pd_datatype = dt, pd_behavior = behavior, pd_resource = r,
          pd_org_preset = org, pd_timing_preset = tim, pd_power = pw,
          pd_overrides = pim_overrides (pc_deprecated cls) args\<rparr>))))))"

section \<open>Power profiles\<close>

definition LPDDR5_power_parameter_fields :: "string list" where
  "LPDDR5_power_parameter_fields = [
      ''VDD1'', ''VDD2H'', ''VDD2L'', ''VDDQ'', ''IDD01'', ''IDD02H'', ''IDD02L'', ''IDD0Q'',
      ''IDD2N1'', ''IDD2N2H'', ''IDD2N2L'', ''IDD2NQ'', ''IDD3N1'', ''IDD3N2H'', ''IDD3N2L'',
      ''IDD3NQ'', ''IDD4R1'', ''IDD4R2H'', ''IDD4R2L'', ''IDD4RQ'', ''IDD4W1'', ''IDD4W2H'',
      ''IDD4W2L'', ''IDD4WQ'', ''IDD5AB1'', ''IDD5AB2H'', ''IDD5AB2L'', ''IDD5ABQ'']"

definition PAPER_LPDDR5_POWER :: dict where
  "PAPER_LPDDR5_POWER = [
     (''enabled'', PBool True), (''VDD1'', PFloat (9 / 5)), (''VDD2H'', PFloat (21 / 20)),
     (''VDD2L'', PFloat (9 / 10)), (''VDDQ'', PFloat (1 / 2)), (''IDD01'', PFloat (14 / 5)),
     (''IDD02H'', PFloat 32), (''IDD02L'', PFloat (1 / 4)), (''IDD0Q'', PFloat (3 / 4)),
     (''IDD2N1'', PFloat (6 / 5)), (''IDD2N2H'', PFloat 16), (''IDD2N2L'', PFloat (1 / 4)),
     (''IDD2NQ'', PFloat (3 / 4)), (''IDD3N1'', PFloat (6 / 5)), (''IDD3N2H'', PFloat 16),
     (''IDD3N2L'', PFloat (1 / 4)), (''IDD3NQ'', PFloat (3 / 4)), (''IDD4R1'', PFloat 2),
     (''IDD4R2H'', PFloat 18), (''IDD4R2L'', PFloat (3 / 10)), (''IDD4RQ'', PFloat (17 / 20)),
     (''IDD4W1'', PFloat (21 / 10)), (''IDD4W2H'', PFloat 19), (''IDD4W2L'', PFloat (7 / 20)),
     (''IDD4WQ'', PFloat (9 / 10)), (''IDD5AB1'', PFloat (11 / 5)), (''IDD5AB2H'', PFloat 35),
     (''IDD5AB2L'', PFloat (1 / 4)), (''IDD5ABQ'', PFloat (3 / 4))]"

definition DRAMPOWER_V620_LPDDR6_TEST_PROFILE :: dict where
  "DRAMPOWER_V620_LPDDR6_TEST_PROFILE = [
     (''enabled'', PBool True), (''VDD1'', PFloat (6 / 5)), (''VDD2C'', PFloat (6 / 5)),
     (''VDD2D'', PFloat (6 / 5)), (''IDD01'', PFloat (225 / 4)), (''IDD02C'', PFloat 0),
     (''IDD02D'', PFloat 0), (''IDD2N1'', PFloat (135 / 4)), (''IDD2N2C'', PFloat 0),
     (''IDD2N2D'', PFloat 0), (''IDD3N1'', PFloat 35), (''IDD3N2C'', PFloat 0),
     (''IDD3N2D'', PFloat 0), (''IDD4R1'', PFloat (315 / 2)), (''IDD4R2C'', PFloat 0),
     (''IDD4R2D'', PFloat 0), (''IDD4W1'', PFloat 135), (''IDD4W2C'', PFloat 0),
     (''IDD4W2D'', PFloat 0), (''IDD51'', PFloat 118), (''IDD52C'', PFloat 0),
     (''IDD52D'', PFloat 0)]"

text \<open>The code sorts the missing names for its message; here they are in the order of the fields.\<close>

definition validate_lpddr5_power_profile :: "pyval \<Rightarrow> pim_error + unit" where
  "validate_lpddr5_power_profile pw =
     (case pw of
        PDict p \<Rightarrow> (case dget p ''enabled'' of
          None \<Rightarrow> Inl PowerMissingEnabled
        | Some e \<Rightarrow>
          if e = PBool False then Inr ()
          else if e \<noteq> PBool True then Inl PowerEnabledNotBool
          else
            let missing = filter (\<lambda>f. f \<notin> set (dkeys p)) LPDDR5_power_parameter_fields in
            if missing \<noteq> [] then Inl (PowerMissing missing)
            else case find (\<lambda>f. \<not> nonneg_number (dgetd p f PNone)) LPDDR5_power_parameter_fields of
              Some f \<Rightarrow> Inl (PowerField f)
            | None \<Rightarrow> Inr ())
      | _ \<Rightarrow> Inl PowerMissingEnabled)"

section \<open>The two classes\<close>

definition LPDDR5PIM_class :: pim_class where
  "LPDDR5PIM_class =
     \<lparr>pc_standard = LPDDR5PIM, pc_deprecated = [''pim_mac_latency_scale'', ''pim_incremental_energy_scale''],
      pc_default_power = PAPER_LPDDR5_POWER, pc_check_power = validate_lpddr5_power_profile\<rparr>"

definition LPDDR6PIM_class :: pim_class where
  "LPDDR6PIM_class =
     \<lparr>pc_standard = LPDDR6PIM, pc_deprecated = [],
      pc_default_power = DRAMPOWER_V620_LPDDR6_TEST_PROFILE, pc_check_power = (\<lambda>_. Inr ())\<rparr>"

definition LPDDR5PIM_init :: "string \<Rightarrow> string \<Rightarrow> dict \<Rightarrow> pim_error + pim_dram" where
  "LPDDR5PIM_init org_preset timing_preset args = pim_construct LPDDR5PIM_class org_preset timing_preset args"

definition LPDDR6PIM_init :: "string \<Rightarrow> string \<Rightarrow> dict \<Rightarrow> pim_error + pim_dram" where
  "LPDDR6PIM_init org_preset timing_preset args = pim_construct LPDDR6PIM_class org_preset timing_preset args"

section \<open>Resolving\<close>

text \<open>The levels between rank and row.\<close>

definition bank_levels :: "dram_standard \<Rightarrow> string list" where
  "bank_levels std = filter (\<lambda>n. n \<noteq> ''Row'' \<and> n \<noteq> ''Column'') (drop 2 (map fst (std_levels std)))"

definition lift_dram :: "dram_error + 'a \<Rightarrow> pim_error + 'a" where
  "lift_dram r = (case r of Inl e \<Rightarrow> Inl (PimDram e) | Inr a \<Rightarrow> Inr a)"

definition org_count :: "dict \<Rightarrow> string \<Rightarrow> pim_error + int" where
  "org_count od k = rbind (lift_dram (dict_get od k)) (\<lambda>v.
     case py_int v of None \<Rightarrow> Inl (PimDram DramTypeError) | Some i \<Rightarrow> Inr i)"

definition banks_per_rank :: "dram_standard \<Rightarrow> dict \<Rightarrow> pim_error + int" where
  "banks_per_rank std od =
     rbind (rmap (\<lambda>n. org_count od (lower n)) (bank_levels std)) (\<lambda>ns. Inr (prod_list ns))"

definition pim_resource_cycles :: "pim_dram \<Rightarrow> pyval \<Rightarrow> pyval \<Rightarrow> pyval \<times> pyval" where
  "pim_resource_cycles d lat ii =
     (if pd_behavior d then
        (PInt (int_at (pd_resource d) ''pim_mac_pipeline_latency_cycles''),
         PInt (int_at (pd_resource d) ''pim_mac_issue_interval_cycles''))
      else (lat, ii))"

definition pim_resolve :: "pim_dram \<Rightarrow> pim_error + dict \<times> dict" where
  "pim_resolve d =
     rbind (lift_dram (resolve (pd_standard d) (pd_org_preset d) (pd_timing_preset d) (pd_overrides d))) (\<lambda>(od, td).
     rbind (banks_per_rank (pd_standard d) od) (\<lambda>banks.
     if banks < pd_banks_per_block d then Inl (BanksExceed (pd_banks_per_block d) banks)
     else if banks mod pd_banks_per_block d \<noteq> 0 then Inl (BanksNotDivisible banks (pd_banks_per_block d))
     else if pd_behavior d \<and> pd_blocks_per_bank d < int_at (pd_resource d) ''pim_slots_per_request''
       then Inl BlocksBelowSlots
     else
       rbind (lift_dram (dict_get td ''nPIM_MAC_LAT'')) (\<lambda>lat.
       rbind (lift_dram (dict_get td ''nPIM_MAC_II'')) (\<lambda>ii.
       let (lat', ii') = pim_resource_cycles d lat ii in
       Inr (od, dset ''nPIM_MAC_II'' ii' (dset ''nPIM_MAC_LAT'' lat' td))))))"

definition pim_to_config :: "pim_dram \<Rightarrow> pim_error + dram_config \<times> dict" where
  "pim_to_config d =
     rbind (pim_resolve d) (\<lambda>(od, td).
     rbind (lift_dram (serialize (pd_standard d) od td (Some (pd_power d)))) (\<lambda>cfg.
     let r = pd_resource d;
         lat = dgetd td ''nPIM_MAC_LAT'' PNone;
         ii = dgetd td ''nPIM_MAC_II'' PNone;
         (movement, writeback, slots) =
           (if pd_behavior d
            then (dgetd r ''pim_movement_cycles'' PNone, dgetd r ''pim_writeback_cycles'' PNone,
                  dgetd r ''pim_slots_per_request'' PNone)
            else (PInt 1, PInt 0, PInt 1))
     in Inr (cfg,
       [(''pim_blocks_per_bank'', PInt (pd_blocks_per_bank d)),
        (''pim_banks_per_block'', PInt (pd_banks_per_block d)),
        (''pim_mac_execution_model'', PStr (pd_execution_model d)),
        (''pim_datatype'', PStr (pd_datatype d)),
        (''pim_datatype_class'', PStr (pd_datatype d)),
        (''pim_datatype_behavior_enabled'', PBool (pd_behavior d))]
       @ map (\<lambda>k. (k, dgetd r k PNone))
           [''pim_datatype_bits'', ''pim_simd_width_bits'', ''pim_lanes'', ''pim_ops_per_mac'',
            ''pim_ops_per_block_issue'', ''pim_ops_per_request'']
       @ [(''pim_mac_issue_interval_cycles'', ii), (''pim_mac_latency_cycles'', lat),
          (''pim_mac_pipeline_latency_cycles'', lat), (''pim_movement_cycles'', movement),
          (''pim_writeback_cycles'', writeback), (''pim_slots_per_request'', slots)]
       @ map (\<lambda>k. (k, dgetd r k PNone)) PIM_EVENT_ENERGY_FIELDS)))"

end
