(* ===== verification/Pim_Facts.thy ===== *)
theory Pim_Facts
  imports Pim_Resources
begin

text \<open>
  What an accepted PIM instance guarantees: consistent lanes, positive resources, banks that
  divide into blocks; and that the default instances of both classes build a configuration for
  every preset and datatype.
\<close>

text \<open>The resources a check accepts.\<close>

definition resources_ok :: "dict \<Rightarrow> bool" where
  "resources_ok r \<longleftrightarrow>
     0 < int_at r ''pim_datatype_bits'' \<and> 0 < int_at r ''pim_simd_width_bits'' \<and>
     num_at r ''pim_lanes'' * of_int (int_at r ''pim_datatype_bits'') = of_int (int_at r ''pim_simd_width_bits'') \<and>
     0 < num_at r ''pim_ops_per_mac'' \<and> 0 < num_at r ''pim_ops_per_request'' \<and>
     0 < num_at r ''pim_mac_issue_interval_cycles'' \<and> 0 < num_at r ''pim_mac_pipeline_latency_cycles'' \<and>
     0 \<le> num_at r ''pim_movement_cycles'' \<and> 0 \<le> num_at r ''pim_writeback_cycles'' \<and>
     0 < num_at r ''pim_slots_per_request'' \<and>
     list_all (\<lambda>f. 0 \<le> num_at r f) PIM_EVENT_ENERGY_FIELDS"

lemma check_resources_Inr:
  assumes "check_resources args r = Inr (blocks, banks)"
  shows "resources_ok r" and "0 < blocks" and "0 < banks"
    and "kw args ''pim_blocks_per_bank'' = PInt blocks" and "kw args ''pim_banks_per_block'' = PInt banks"
proof -
  obtain n m where n: "plain_int (kw args ''pim_blocks_per_bank'') = Some n"
    and m: "plain_int (kw args ''pim_banks_per_block'') = Some m"
    using assms by (auto simp: check_resources_def split: option.splits)
  from assms have eq: "n = blocks" "m = banks"
    by (auto simp: check_resources_def n m Let_def rbind_Inr_iff)
  from n m eq show "kw args ''pim_blocks_per_bank'' = PInt blocks" "kw args ''pim_banks_per_block'' = PInt banks"
    by (auto simp: plain_int_def split: pyval.splits)
  let ?bits = "int_at r ''pim_datatype_bits''" and ?width = "int_at r ''pim_simd_width_bits''"
  note all = assms[unfolded check_resources_def n m option.case Let_def rbind_Inr_iff]
  then have c: "0 < blocks" "0 < ?bits" "0 < ?width" "?width mod ?bits = 0"
    "num_at r ''pim_lanes'' = of_int (?width div ?bits)" "0 < num_at r ''pim_ops_per_mac''"
    "0 < num_at r ''pim_ops_per_request''" "0 < num_at r ''pim_mac_issue_interval_cycles''"
    "0 < num_at r ''pim_mac_pipeline_latency_cycles''" "0 \<le> num_at r ''pim_movement_cycles''"
    "0 \<le> num_at r ''pim_writeback_cycles''" "0 < num_at r ''pim_slots_per_request''" "0 < banks"
    "list_all (\<lambda>f. 0 \<le> num_at r f) PIM_EVENT_ENERGY_FIELDS"
    unfolding require_all_Inr by (auto simp: list_all_iff)
  then show "0 < blocks" "0 < banks" by simp_all
  have w: "?width div ?bits * ?bits = ?width" using div_mult_mod_eq[of ?width ?bits] c(4) by simp
  have "num_at r ''pim_lanes'' * of_int ?bits = of_int (?width div ?bits * ?bits)"
    by (simp only: c(5) of_int_mult)
  then have "num_at r ''pim_lanes'' * of_int ?bits = of_int ?width" by (simp only: w)
  with c show "resources_ok r" by (simp add: resources_ok_def)
qed

lemma pim_construct_Inr:
  assumes "pim_construct cls org tim args = Inr d"
  obtains dt blocks banks where "pim_datatype_of args = Inr dt" "pim_execution_model_of args = Inr (pd_execution_model d)"
    "check_arguments args = Inr ()"
    "pd_behavior d = truthy (kw args ''pim_datatype_behavior_enabled'')"
    "pd_behavior d \<longrightarrow> dt \<in> set (dkeys PIM_DATATYPE_RESOURCES)"
    "pd_resource d = derive_resources args (dgetd PIM_DATATYPE_METADATA dt [])"
    "check_resources args (pd_resource d) = Inr (blocks, banks)"
    "pd_blocks_per_bank d = blocks" "pd_banks_per_block d = banks" "pd_datatype d = dt"
    "pd_standard d = pc_standard cls" "pd_org_preset d = org" "pd_timing_preset d = tim"
    "pc_check_power cls (pd_power d) = Inr ()" "pd_overrides d = pim_overrides (pc_deprecated cls) args"
proof -
  obtain dt where dt: "pim_datatype_of args = Inr dt"
    using assms by (auto simp: pim_construct_def rbind_Inr_iff)
  obtain model where model: "pim_execution_model_of args = Inr model"
    using assms by (auto simp: pim_construct_def rbind_Inr_iff)
  let ?r = "derive_resources args (dgetd PIM_DATATYPE_METADATA dt [])"
  have bhv: "truthy (kw args ''pim_datatype_behavior_enabled'') \<longrightarrow> dt \<in> set (dkeys PIM_DATATYPE_RESOURCES)"
    using assms by (auto simp: pim_construct_def dt model rbind_Inr_iff Let_def split: if_splits)
  obtain blocks banks where res: "check_resources args ?r = Inr (blocks, banks)"
    using assms by (auto simp: pim_construct_def dt model rbind_Inr_iff Let_def split: if_splits)
  show thesis
    using assms dt bhv
    by (intro that[OF dt, of blocks banks])
      (auto simp: pim_construct_def model res rbind_Inr_iff Let_def split: if_splits)
qed

section \<open>Resolved instances\<close>

lemma lift_dram_simps [simp]:
  "lift_dram (Inr a) = Inr a" "lift_dram (Inl e) = Inl (PimDram e)"
  by (simp_all add: lift_dram_def)

lemma lift_dram_Inr [simp]: "lift_dram r = Inr a \<longleftrightarrow> r = Inr a"
  by (simp add: lift_dram_def split: sum.splits)

lemma pim_resolve_Inr:
  assumes "pim_resolve d = Inr (od, td)"
  obtains banks td0 where
    "resolve (pd_standard d) (pd_org_preset d) (pd_timing_preset d) (pd_overrides d) = Inr (od, td0)"
    "banks_per_rank (pd_standard d) od = Inr banks"
    "pd_banks_per_block d \<le> banks" "banks mod pd_banks_per_block d = 0"
    "pd_behavior d \<longrightarrow> int_at (pd_resource d) ''pim_slots_per_request'' \<le> pd_blocks_per_bank d"
    "pd_behavior d \<longrightarrow>
       dget td ''nPIM_MAC_LAT'' = Some (PInt (int_at (pd_resource d) ''pim_mac_pipeline_latency_cycles'')) \<and>
       dget td ''nPIM_MAC_II'' = Some (PInt (int_at (pd_resource d) ''pim_mac_issue_interval_cycles''))"
    "\<forall>k. k \<notin> {''nPIM_MAC_LAT'', ''nPIM_MAC_II''} \<or> \<not> pd_behavior d \<longrightarrow> dget td k = dget td0 k"
proof -
  obtain od0 td0 where r0: "resolve (pd_standard d) (pd_org_preset d) (pd_timing_preset d) (pd_overrides d) = Inr (od0, td0)"
    using assms by (auto simp: pim_resolve_def rbind_Inr_iff)
  then have lr: "lift_dram (resolve (pd_standard d) (pd_org_preset d) (pd_timing_preset d) (pd_overrides d)) = Inr (od0, td0)"
    by simp
  note 1 = assms[unfolded pim_resolve_def lr rbind_Inr prod.case]
  obtain banks where b0: "banks_per_rank (pd_standard d) od0 = Inr banks"
    using 1 by (auto simp: rbind_Inr_iff)
  note 2 = 1[unfolded b0 rbind_Inr]
  have c: "pd_banks_per_block d \<le> banks" "banks mod pd_banks_per_block d = 0"
    "pd_behavior d \<longrightarrow> int_at (pd_resource d) ''pim_slots_per_request'' \<le> pd_blocks_per_bank d"
    using 2 by (auto split: if_splits)
  then have "\<not> banks < pd_banks_per_block d"
    "\<not> (pd_behavior d \<and> pd_blocks_per_bank d < int_at (pd_resource d) ''pim_slots_per_request'')"
    by auto
  note 3 = 2[unfolded if_not_P[OF this(1)] if_not_P[OF this(2)] c(2) not_True_eq_False refl if_False
    HOL.simp_thms]
  obtain lat ii where l: "dget td0 ''nPIM_MAC_LAT'' = Some lat" "dget td0 ''nPIM_MAC_II'' = Some ii"
    using 3 by (auto simp: rbind_Inr_iff dict_get_def split: option.splits)
  have td: "od = od0" "td = dset ''nPIM_MAC_II'' (snd (pim_resource_cycles d lat ii))
      (dset ''nPIM_MAC_LAT'' (fst (pim_resource_cycles d lat ii)) td0)"
    using 3 by (simp_all add: l dict_get_def Let_def case_prod_beta)
  note r = r0[folded td(1)] and b = b0[folded td(1)]
  show thesis
    by (rule that[OF r b c]) (auto simp: td(2) dict_simps pim_resource_cycles_def l)
qed

lemma timings_valid_dset:
  "timings_valid std td \<Longrightarrow> nonneg_number v \<Longrightarrow> timings_valid std (dset k v td)"
  using set_dset[of k v td] by (auto simp: timings_valid_def dict_simps)

lemma pim_config_ok:
  assumes "std_wf (pd_standard d)"
    and "resolve (pd_standard d) (pd_org_preset d) (pd_timing_preset d) (pd_overrides d) = Inr (od, td)"
    and "org_valid (pd_standard d) od" and "timings_valid (pd_standard d) td"
    and "{''nPIM_MAC_LAT'', ''nPIM_MAC_II''} \<subseteq> set (std_timing_params (pd_standard d))"
    and "banks_per_rank (pd_standard d) od = Inr banks"
    and "pd_banks_per_block d \<le> banks" and "banks mod pd_banks_per_block d = 0"
    and "pd_behavior d \<longrightarrow> int_at (pd_resource d) ''pim_slots_per_request'' \<le> pd_blocks_per_bank d"
    and "0 \<le> int_at (pd_resource d) ''pim_mac_pipeline_latency_cycles''"
    and "0 \<le> int_at (pd_resource d) ''pim_mac_issue_interval_cycles''"
  shows "is_ok (pim_to_config d)"
proof -
  obtain lat ii where l: "dget td ''nPIM_MAC_LAT'' = Some lat" "dget td ''nPIM_MAC_II'' = Some ii"
    using assms(4,5) dget_in_keys[of "''nPIM_MAC_LAT''" td] dget_in_keys[of "''nPIM_MAC_II''" td]
    by (auto simp: timings_valid_def subset_iff)
  then have nn: "nonneg_number lat" "nonneg_number ii"
    using assms(4) map_of_SomeD[of td "''nPIM_MAC_LAT''" lat] map_of_SomeD[of td "''nPIM_MAC_II''" ii]
    by (auto simp: timings_valid_def)
  let ?td = "dset ''nPIM_MAC_II'' (snd (pim_resource_cycles d lat ii))
      (dset ''nPIM_MAC_LAT'' (fst (pim_resource_cycles d lat ii)) td)"
  have lr: "lift_dram (resolve (pd_standard d) (pd_org_preset d) (pd_timing_preset d) (pd_overrides d)) = Inr (od, td)"
    using assms(2) by simp
  have ge: "\<not> banks < pd_banks_per_block d" using assms(7) by simp
  have sl: "\<not> (pd_behavior d \<and> pd_blocks_per_bank d < int_at (pd_resource d) ''pim_slots_per_request'')"
    using assms(9) by auto
  have res: "pim_resolve d = Inr (od, ?td)"
    unfolding pim_resolve_def lr rbind_Inr prod.case assms(6) if_not_P[OF ge] if_not_P[OF sl] assms(8)
    by (simp add: l dict_get_def Let_def case_prod_beta)
  have "timings_valid (pd_standard d) ?td"
    using assms(4,10,11) nn by (intro timings_valid_dset) (auto simp: pim_resource_cycles_def)
  then have "is_ok (serialize (pd_standard d) od ?td (Some (pd_power d)))"
    by (rule serialize_ok[OF assms(1) _ assms(3)])
  then obtain cfg where cfg: "serialize (pd_standard d) od ?td (Some (pd_power d)) = Inr cfg"
    by (auto simp: is_ok_iff)
  show ?thesis
    by (simp add: pim_to_config_def res cfg lift_dram_def Let_def case_prod_beta)
qed

section \<open>Default instances\<close>

definition datatype_args :: "string \<Rightarrow> bool \<Rightarrow> dict" where
  "datatype_args dt b = [(''pim_datatype'', PStr dt), (''pim_datatype_behavior_enabled'', PBool b)]"

definition datatype_resource :: "string \<Rightarrow> bool \<Rightarrow> dict" where
  "datatype_resource dt b = derive_resources (datatype_args dt b) (dgetd PIM_DATATYPE_METADATA dt [])"

lemma dtype_names: "dkeys PIM_DATATYPE_METADATA = [''int8'', ''fp16'', ''int16'', ''bf16'']"
  "dkeys PIM_DATATYPE_RESOURCES = [''int8'', ''fp16'']"
  by (code_simp, code_simp)

definition default_ok :: "string \<Rightarrow> bool \<Rightarrow> bool" where
  "default_ok dt b \<longleftrightarrow>
     (let args = datatype_args dt b; r = datatype_resource dt b in
      check_resources args r = Inr (1, 2) \<and>
      int_at r ''pim_slots_per_request'' = 1 \<and>
      0 \<le> int_at r ''pim_mac_pipeline_latency_cycles'' \<and>
      0 \<le> int_at r ''pim_mac_issue_interval_cycles'')"

lemma default_checks:
  "default_ok ''int8'' False"
  "default_ok ''int8'' True"
  "default_ok ''fp16'' False"
  "default_ok ''fp16'' True"
  "default_ok ''int16'' False"
  "default_ok ''int16'' True"
  "default_ok ''bf16'' False"
  "default_ok ''bf16'' True"
  by (code_simp, code_simp, code_simp, code_simp, code_simp, code_simp, code_simp, code_simp)

definition default_arguments_ok :: "string \<Rightarrow> bool \<Rightarrow> bool" where
  "default_arguments_ok dt b \<longleftrightarrow>
     (let args = datatype_args dt b in
     pim_datatype_of args = Inr dt \<and>
     pim_execution_model_of args = Inr ''shared_block_serial'' \<and>
     check_arguments args = Inr () \<and>
     kw args ''pim_datatype_behavior_enabled'' = PBool b \<and>
     kw args ''power'' = PNone \<and>
     pim_overrides [] args = [] \<and>
     pim_overrides [''pim_mac_latency_scale'', ''pim_incremental_energy_scale''] args = [] \<and>
     dgetd args ''pim_mac_latency_scale'' PNone = PNone \<and>
     dgetd args ''pim_incremental_energy_scale'' PNone = PNone)"

lemma default_arguments:
  "default_arguments_ok ''int8'' False"
  "default_arguments_ok ''int8'' True"
  "default_arguments_ok ''fp16'' False"
  "default_arguments_ok ''fp16'' True"
  "default_arguments_ok ''int16'' False"
  "default_arguments_ok ''int16'' True"
  "default_arguments_ok ''bf16'' False"
  "default_arguments_ok ''bf16'' True"
  by (code_simp, code_simp, code_simp, code_simp, code_simp, code_simp, code_simp, code_simp)

lemma default_power: "validate_lpddr5_power_profile (PDict PAPER_LPDDR5_POWER) = Inr ()"
  by code_simp

definition bank_check :: "dram_standard \<Rightarrow> bool" where
  "bank_check std \<longleftrightarrow>
     list_all (\<lambda>p. banks_per_rank std (snd p) = Inr 16) (std_org_presets std) \<and>
     ''nPIM_MAC_LAT'' \<in> set (std_timing_params std) \<and> ''nPIM_MAC_II'' \<in> set (std_timing_params std)"

lemma bank_checks: "bank_check LPDDR5PIM" "bank_check LPDDR6PIM"
  by (code_simp, code_simp)

lemma pim_construct_default:
  assumes "cls \<in> {LPDDR5PIM_class, LPDDR6PIM_class}"
    and "default_arguments_ok dt b" and "default_ok dt b" and "b \<longrightarrow> dt \<in> set (dkeys PIM_DATATYPE_RESOURCES)"
  shows "pim_construct cls org tim (datatype_args dt b) = Inr
    \<lparr>pd_standard = pc_standard cls, pd_blocks_per_bank = 1, pd_banks_per_block = 2,
     pd_execution_model = ''shared_block_serial'', pd_datatype = dt, pd_behavior = b,
     pd_resource = datatype_resource dt b, pd_org_preset = org, pd_timing_preset = tim,
     pd_power = PDict (pc_default_power cls), pd_overrides = []\<rparr>"
proof -
  have dep: "rmap (\<lambda>k. require (dgetd (datatype_args dt b) k PNone = PNone) (Deprecated k)) (pc_deprecated cls)
      = Inr (map (\<lambda>_. ()) (pc_deprecated cls))"
    using assms(1,2)
    by (intro rmap_ok) (auto simp: LPDDR5PIM_class_def LPDDR6PIM_class_def default_arguments_ok_def Let_def require_def)
  have ov: "pim_overrides (pc_deprecated cls) (datatype_args dt b) = []"
    using assms(1,2) by (auto simp: LPDDR5PIM_class_def LPDDR6PIM_class_def default_arguments_ok_def Let_def)
  have pw: "pc_check_power cls (PDict (pc_default_power cls)) = Inr ()"
    using assms(1) default_power by (auto simp: LPDDR5PIM_class_def LPDDR6PIM_class_def)
  have args: "pim_datatype_of (datatype_args dt b) = Inr dt" "check_arguments (datatype_args dt b) = Inr ()"
    "pim_execution_model_of (datatype_args dt b) = Inr ''shared_block_serial''"
    "kw (datatype_args dt b) ''pim_datatype_behavior_enabled'' = PBool b" "kw (datatype_args dt b) ''power'' = PNone"
    using assms(2) by (simp_all add: default_arguments_ok_def Let_def)
  have tb: "truthy (PBool b) = b" by simp
  have res: "check_resources (datatype_args dt b) (datatype_resource dt b) = Inr (1, 2)"
    using assms(3) by (simp add: default_ok_def Let_def)
  have bad: "\<not> (b \<and> dt \<notin> set (dkeys PIM_DATATYPE_RESOURCES))" using assms(4) by blast
  show ?thesis
    unfolding pim_construct_def args dep rbind_Inr Let_def tb if_not_P[OF bad] datatype_resource_def [symmetric]
      res prod.case ov
    by (simp add: pw)
qed

lemma pim_construct_unsupported:
  assumes "default_arguments_ok dt b" and "b" and "dt \<notin> set (dkeys PIM_DATATYPE_RESOURCES)"
    and "cls \<in> {LPDDR5PIM_class, LPDDR6PIM_class}"
  shows "pim_construct cls org tim (datatype_args dt b) = Inl (UnsupportedResources dt)"
proof -
  have dep: "rmap (\<lambda>k. require (dgetd (datatype_args dt b) k PNone = PNone) (Deprecated k)) (pc_deprecated cls)
      = Inr (map (\<lambda>_. ()) (pc_deprecated cls))"
    using assms(1,4)
    by (intro rmap_ok) (auto simp: LPDDR5PIM_class_def LPDDR6PIM_class_def default_arguments_ok_def Let_def require_def)
  have args: "pim_datatype_of (datatype_args dt b) = Inr dt" "check_arguments (datatype_args dt b) = Inr ()"
    "pim_execution_model_of (datatype_args dt b) = Inr ''shared_block_serial''"
    "kw (datatype_args dt b) ''pim_datatype_behavior_enabled'' = PBool b"
    using assms(1) by (simp_all add: default_arguments_ok_def Let_def)
  have tb: "truthy (PBool b)" using assms(2) by simp
  show ?thesis
    unfolding pim_construct_def args dep rbind_Inr Let_def using tb assms(3) by simp
qed

lemma default_datatypes:
  assumes "dt \<in> {''int8'', ''fp16'', ''int16'', ''bf16''}"
  shows "default_arguments_ok dt b" and "default_ok dt b"
  using assms default_arguments default_checks by (cases b; auto)+

lemma org_preset_banks:
  assumes "bank_check std" and "dget (std_org_presets std) org = Some od"
  shows "banks_per_rank std od = Inr 16"
  using assms map_of_SomeD[OF assms(2)] by (auto simp: bank_check_def list_all_iff)

lemma resolve_org:
  "resolve std org tim [] = Inr (od, td) \<Longrightarrow> dget (std_org_presets std) org = Some od"
  by (auto simp: resolve_def Let_def rbind_Inr_iff split: option.splits)

lemma default_instance_ok:
  assumes "bank_check std"
    and "org_valid std od" and "timings_cover std td" and "resolve std org tim [] = Inr (od, int_dict td)"
    and "std_wf std" and "default_ok dt b"
    and "pd_standard d = std" "pd_org_preset d = org" "pd_timing_preset d = tim" "pd_overrides d = []"
    and "pd_resource d = datatype_resource dt b" "pd_blocks_per_bank d = 1" "pd_banks_per_block d = 2"
  shows "is_ok (pim_to_config d)"
proof (rule pim_config_ok)
  show "resolve (pd_standard d) (pd_org_preset d) (pd_timing_preset d) (pd_overrides d) = Inr (od, int_dict td)"
    using assms by simp
  show "banks_per_rank (pd_standard d) od = Inr 16"
    using org_preset_banks[OF assms(1) resolve_org[OF assms(4)]] assms(7) by simp
  show "timings_valid (pd_standard d) (int_dict td)"
    using timings_cover_valid[OF assms(3)] assms(7) by simp
qed (use assms in \<open>simp_all add: bank_check_def default_ok_def Let_def\<close>)

end
