(* ===== verification/Pim_Properties.thy ===== *)
theory Pim_Properties
  imports Pim_Facts
begin

text \<open>
  The properties of \<open>LPDDR5PIM\<close> and \<open>LPDDR6PIM\<close>: what an accepted instance
  guarantees, how arguments override the datatype tables, which default instances build, and
  which power profiles are accepted.
\<close>

section \<open>Accepted instances\<close>



text \<open>
  C39: a resolved instance is consistent with the organisation. The banks of a rank divide into
  whole blocks, an enabled datatype's slots fit the blocks of a bank, the multiply timings are
  the datatype's resources when its behaviour is enabled and the preset's otherwise, and no
  other timing differs from what \<open>resolve\<close> of the base class returns.
\<close>

theorem pim_resolve_consistent:
  assumes "pim_resolve d = Inr (od, td)"
  shows "\<exists>banks td0. banks_per_rank (pd_standard d) od = Inr banks \<and>
    resolve (pd_standard d) (pd_org_preset d) (pd_timing_preset d) (pd_overrides d) = Inr (od, td0) \<and>
    pd_banks_per_block d \<le> banks \<and> pd_banks_per_block d dvd banks \<and>
    (pd_behavior d \<longrightarrow> int_at (pd_resource d) ''pim_slots_per_request'' \<le> pd_blocks_per_bank d) \<and>
    dget td ''nPIM_MAC_LAT'' =
      (if pd_behavior d then Some (PInt (int_at (pd_resource d) ''pim_mac_pipeline_latency_cycles''))
       else dget td0 ''nPIM_MAC_LAT'') \<and>
    dget td ''nPIM_MAC_II'' =
      (if pd_behavior d then Some (PInt (int_at (pd_resource d) ''pim_mac_issue_interval_cycles''))
       else dget td0 ''nPIM_MAC_II'') \<and>
    (\<forall>k. k \<notin> {''nPIM_MAC_LAT'', ''nPIM_MAC_II''} \<longrightarrow> dget td k = dget td0 k)"
proof -
  obtain banks td0 where c:
    "resolve (pd_standard d) (pd_org_preset d) (pd_timing_preset d) (pd_overrides d) = Inr (od, td0)"
    "banks_per_rank (pd_standard d) od = Inr banks"
    "pd_banks_per_block d \<le> banks" "banks mod pd_banks_per_block d = 0"
    "pd_behavior d \<longrightarrow> int_at (pd_resource d) ''pim_slots_per_request'' \<le> pd_blocks_per_bank d"
    "pd_behavior d \<longrightarrow>
       dget td ''nPIM_MAC_LAT'' = Some (PInt (int_at (pd_resource d) ''pim_mac_pipeline_latency_cycles'')) \<and>
       dget td ''nPIM_MAC_II'' = Some (PInt (int_at (pd_resource d) ''pim_mac_issue_interval_cycles''))"
    "\<forall>k. k \<notin> {''nPIM_MAC_LAT'', ''nPIM_MAC_II''} \<or> \<not> pd_behavior d \<longrightarrow> dget td k = dget td0 k"
    by (rule pim_resolve_Inr[OF assms])
  have "pd_banks_per_block d dvd banks" using c(4) by presburger
  with c show ?thesis by auto
qed

lemma pim_to_config_resolves: "is_ok (pim_to_config d) \<Longrightarrow> \<exists>od td. pim_resolve d = Inr (od, td)"
  by (auto simp: pim_to_config_def is_ok_rbind)

lemma LPDDR5PIM_presets:
  "''LPDDR5_8Gb_x16'' \<in> set (dkeys (std_org_presets LPDDR5PIM))"
  "''LPDDR5_6400'' \<in> set (dkeys (std_timing_presets LPDDR5PIM))"
  unfolding LPDDR5PIM_fields by (code_simp, code_simp)

theorem pim_resolve_consistent_witness:
  "\<exists>d od td. pim_construct LPDDR5PIM_class ''LPDDR5_8Gb_x16'' ''LPDDR5_6400'' (datatype_args ''int8'' True) = Inr d \<and>
     pim_resolve d = Inr (od, td) \<and>
     dget td ''nPIM_MAC_LAT'' = Some (PInt (int_at (pd_resource d) ''pim_mac_pipeline_latency_cycles''))"
proof -
  have b: "True \<longrightarrow> ''int8'' \<in> set (dkeys PIM_DATATYPE_RESOURCES)" by (simp add: dtype_names)
  have std: "pc_standard LPDDR5PIM_class = LPDDR5PIM" by (simp add: LPDDR5PIM_class_def)
  obtain d where d: "pim_construct LPDDR5PIM_class ''LPDDR5_8Gb_x16'' ''LPDDR5_6400'' (datatype_args ''int8'' True) = Inr d"
    and f: "pd_standard d = LPDDR5PIM" "pd_org_preset d = ''LPDDR5_8Gb_x16''" "pd_timing_preset d = ''LPDDR5_6400''"
      "pd_overrides d = []" "pd_resource d = datatype_resource ''int8'' True" "pd_blocks_per_bank d = 1"
      "pd_banks_per_block d = 2" "pd_behavior d"
    using pim_construct_default[OF _ default_datatypes b, of LPDDR5PIM_class] by (auto simp: std)
  obtain od0 td0 where r: "resolve LPDDR5PIM ''LPDDR5_8Gb_x16'' ''LPDDR5_6400'' [] = Inr (od0, int_dict td0)"
    "org_valid LPDDR5PIM od0" "timings_cover LPDDR5PIM td0"
    using lpddr5_pim.preset_resolves[OF LPDDR5PIM_presets] by blast
  have "default_ok ''int8'' True" by (rule default_datatypes) simp
  then have "is_ok (pim_to_config d)"
    by (rule default_instance_ok[OF bank_checks(1) r(2,3,1) LPDDR5PIM_wf _ f(1-7)])
  then obtain od td where t: "pim_resolve d = Inr (od, td)" using pim_to_config_resolves by blast
  have "dget td ''nPIM_MAC_LAT'' = Some (PInt (int_at (pd_resource d) ''pim_mac_pipeline_latency_cycles''))"
    using pim_resolve_consistent[OF t] f(8) by auto
  with d t show ?thesis by blast
qed

lemma pc_standards: "pc_standard LPDDR5PIM_class = LPDDR5PIM" "pc_standard LPDDR6PIM_class = LPDDR6PIM"
  by (simp_all add: LPDDR5PIM_class_def LPDDR6PIM_class_def)

lemma pim_presets_resolve:
  assumes "cls \<in> {LPDDR5PIM_class, LPDDR6PIM_class}"
    and "org \<in> set (dkeys (std_org_presets (pc_standard cls)))"
    and "tim \<in> set (dkeys (std_timing_presets (pc_standard cls)))"
  shows "\<exists>od td. resolve (pc_standard cls) org tim [] = Inr (od, int_dict td) \<and>
      org_valid (pc_standard cls) od \<and> timings_cover (pc_standard cls) td"
proof -
  from assms(1) consider "cls = LPDDR5PIM_class" | "cls = LPDDR6PIM_class" by blast
  then show ?thesis
  proof cases
    case 1
    show ?thesis using lpddr5_pim.preset_resolves[of org tim] assms(2,3) unfolding 1 pc_standards by blast
  next
    case 2
    show ?thesis using lpddr6_pim.preset_resolves[of org tim] assms(2,3) unfolding 2 pc_standards by blast
  qed
qed

text \<open>
  The documented defaults work. With every organisation and timing preset of both classes,
  each datatype of the tables, with its behaviour enabled or not and every other argument left
  out, builds a configuration; the only ones refused are the datatypes without resources when
  their behaviour is enabled.
\<close>

theorem pim_defaults_accepted:
  assumes "cls \<in> {LPDDR5PIM_class, LPDDR6PIM_class}"
    and "org \<in> set (dkeys (std_org_presets (pc_standard cls)))"
    and "tim \<in> set (dkeys (std_timing_presets (pc_standard cls)))"
    and "dt \<in> {''int8'', ''fp16'', ''int16'', ''bf16''}"
  shows "is_ok (rbind (pim_construct cls org tim (datatype_args dt b)) pim_to_config) \<longleftrightarrow>
    (b \<longrightarrow> dt \<in> {''int8'', ''fp16''})"
proof (cases "b \<longrightarrow> dt \<in> set (dkeys PIM_DATATYPE_RESOURCES)")
  case True
  have r: "\<exists>od td. resolve (pc_standard cls) org tim [] = Inr (od, int_dict td) \<and>
      org_valid (pc_standard cls) od \<and> timings_cover (pc_standard cls) td"
    "bank_check (pc_standard cls)" "std_wf (pc_standard cls)"
    using assms(1-3) pim_presets_resolve[of cls org tim] bank_checks LPDDR5PIM_wf LPDDR6PIM_wf
    by (auto simp: pc_standards)
  then obtain od td where od: "resolve (pc_standard cls) org tim [] = Inr (od, int_dict td)"
    "org_valid (pc_standard cls) od" "timings_cover (pc_standard cls) td" by blast
  note d = pim_construct_default[OF assms(1) default_datatypes(1)[OF assms(4)] default_datatypes(2)[OF assms(4)] True, of org tim]
  have "is_ok (rbind (pim_construct cls org tim (datatype_args dt b)) pim_to_config)"
    unfolding d rbind_Inr
    by (rule default_instance_ok[OF r(2) od(2,3,1) r(3) default_datatypes(2)[OF assms(4)]]) simp_all
  with True show ?thesis by (simp add: dtype_names)
next
  case False
  then have "pim_construct cls org tim (datatype_args dt b) = Inl (UnsupportedResources dt)"
    using pim_construct_unsupported[OF default_datatypes(1)[OF assms(4)]] assms(1) by blast
  with False show ?thesis by (simp add: dtype_names)
qed

theorem pim_defaults_accepted_witness:
  "is_ok (rbind (pim_construct LPDDR5PIM_class ''LPDDR5_8Gb_x16'' ''LPDDR5_6400'' (datatype_args ''fp16'' True)) pim_to_config) \<and>
   \<not> is_ok (rbind (pim_construct LPDDR5PIM_class ''LPDDR5_8Gb_x16'' ''LPDDR5_6400'' (datatype_args ''bf16'' True)) pim_to_config)"
proof -
  have c: "LPDDR5PIM_class \<in> {LPDDR5PIM_class, LPDDR6PIM_class}"
    "''LPDDR5_8Gb_x16'' \<in> set (dkeys (std_org_presets (pc_standard LPDDR5PIM_class)))"
    "''LPDDR5_6400'' \<in> set (dkeys (std_timing_presets (pc_standard LPDDR5PIM_class)))"
    using LPDDR5PIM_presets by (simp_all add: LPDDR5PIM_class_def)
  show ?thesis
    using pim_defaults_accepted[OF c, of "''fp16''" True] pim_defaults_accepted[OF c, of "''bf16''" True] by simp
qed

section \<open>Overrides and power profiles\<close>

text \<open>
  A power profile of LPDDR5-PIM is accepted exactly when it is a dictionary with a boolean
  \<open>enabled\<close> and, when enabled, a non-negative number for every voltage and current.
\<close>

theorem pim_power_profile_accepts:
  "validate_lpddr5_power_profile pw = Inr () \<longleftrightarrow>
    (\<exists>p e. pw = PDict p \<and> dget p ''enabled'' = Some (PBool e) \<and>
       (e \<longrightarrow> (\<forall>f \<in> set LPDDR5_power_parameter_fields. \<exists>v. dget p f = Some v \<and> nonneg_number v)))"
proof (cases pw)
  case (PDict p)
  have full: "(filter (\<lambda>f. f \<notin> set (dkeys p)) LPDDR5_power_parameter_fields = [] \<and>
       find (\<lambda>f. \<not> nonneg_number (dgetd p f PNone)) LPDDR5_power_parameter_fields = None) \<longleftrightarrow>
     (\<forall>f \<in> set LPDDR5_power_parameter_fields. \<exists>v. dget p f = Some v \<and> nonneg_number v)"
    using dget_in_keys[of _ p] dget_None_iff[of p]
    by (auto simp: filter_empty_conv find_None_iff dgetd_def split: option.splits)
      (metis option.distinct(1) option.inject)+
  show ?thesis
  proof (cases "dget p ''enabled''")
    case (Some e)
    then show ?thesis
      unfolding PDict validate_lpddr5_power_profile_def Let_def pyval.case option.case
      using full by (auto split: option.splits if_splits)
  qed (simp add: PDict validate_lpddr5_power_profile_def)
qed (auto simp: validate_lpddr5_power_profile_def)

theorem pim_power_profile_accepts_witness:
  "validate_lpddr5_power_profile (PDict [(''enabled'', PBool False), (''VDD1'', PInt (- 1))]) = Inr ()"
  unfolding pim_power_profile_accepts by (intro exI[of _ "[(''enabled'', PBool False), (''VDD1'', PInt (- 1))]"] exI[of _ False]) simp

lemma dget_put_if: "dget (put_if b k v r) k' = (if b \<and> k' = k then Some v else dget r k')"
  by (simp add: put_if_def dict_simps)

lemma fold_put_energy:
  "k \<notin> set fs \<Longrightarrow> dget (fold (\<lambda>f. put_if (g f) f (v f)) fs r) k = dget r k"
  by (induction fs arbitrary: r) (simp_all add: dget_put_if)

lemma dget_override:
  assumes "k \<notin> set PIM_EVENT_ENERGY_FIELDS"
  shows "dget (override_resources args r) k = dget
    ((put_if (given args ''pim_slots_per_request'') ''pim_slots_per_request'' (kw args ''pim_slots_per_request'')
      \<circ> put_if (given args ''pim_writeback_cycles'') ''pim_writeback_cycles'' (kw args ''pim_writeback_cycles'')
      \<circ> put_if (given args ''pim_movement_cycles'') ''pim_movement_cycles'' (kw args ''pim_movement_cycles'')
      \<circ> put_if (given args ''pim_mac_latency_cycles'' \<and> \<not> given args ''pim_mac_pipeline_latency_cycles'')
            ''pim_mac_pipeline_latency_cycles'' (kw args ''pim_mac_latency_cycles'')
      \<circ> put_if (given args ''pim_mac_pipeline_latency_cycles'') ''pim_mac_pipeline_latency_cycles''
            (kw args ''pim_mac_pipeline_latency_cycles'')
      \<circ> put_if (given args ''pim_mac_issue_interval_cycles'') ''pim_mac_issue_interval_cycles''
            (kw args ''pim_mac_issue_interval_cycles'')
      \<circ> put_if (given args ''pim_ops_per_request'' \<and> \<not> given args ''pim_ops_per_block_issue'')
            ''pim_ops_per_block_issue'' (to_float (kw args ''pim_ops_per_request''))
      \<circ> put_if (given args ''pim_ops_per_block_issue'') ''pim_ops_per_block_issue''
            (to_float (kw args ''pim_ops_per_block_issue''))
      \<circ> put_if (given args ''pim_ops_per_mac'') ''pim_ops_per_mac'' (to_float (kw args ''pim_ops_per_mac''))
      \<circ> put_if (given args ''pim_lanes'') ''pim_lanes'' (kw args ''pim_lanes'')
      \<circ> put_if (given args ''pim_simd_width_bits'') ''pim_simd_width_bits'' (kw args ''pim_simd_width_bits'')
      \<circ> put_if (given args ''pim_datatype_bits'') ''pim_datatype_bits'' (kw args ''pim_datatype_bits'')) r) k"
  unfolding override_resources_def Let_def o_apply using fold_put_energy[OF assms] by simp

lemma derived_lookup:
  "dget (derive_resources args r) k =
     (if k = ''pim_ops_per_request'' then Some (PFloat (num_at (derive_resources args r) ''pim_ops_per_block_issue''))
      else if k = ''pim_ops_per_block_issue'' then dget (derive_resources args r) k
      else if k = ''pim_lanes'' \<and> \<not> given args ''pim_lanes''
      then Some (PInt (int_at (override_resources args r) ''pim_simd_width_bits'' div
                       int_at (override_resources args r) ''pim_datatype_bits''))
      else dget (override_resources args r) k)"
  by (simp add: derive_resources_def Let_def dget_put_if dict_simps num_at_def dgetd_def)

text \<open>
  How arguments override the table. The pipeline latency is the argument of that name, else
  its alias \<open>pim_mac_latency_cycles\<close>, else the table's; the datatype width and issue interval
  are the argument, else the table's; lanes that are not given follow from the widths, and the
  operations per request are those per block issue.
\<close>

theorem pim_argument_precedence:
  "dget (derive_resources args r) ''pim_mac_pipeline_latency_cycles'' =
     (if given args ''pim_mac_pipeline_latency_cycles'' then Some (kw args ''pim_mac_pipeline_latency_cycles'')
      else if given args ''pim_mac_latency_cycles'' then Some (kw args ''pim_mac_latency_cycles'')
      else dget r ''pim_mac_pipeline_latency_cycles'') \<and>
   dget (derive_resources args r) ''pim_mac_issue_interval_cycles'' =
     (if given args ''pim_mac_issue_interval_cycles'' then Some (kw args ''pim_mac_issue_interval_cycles'')
      else dget r ''pim_mac_issue_interval_cycles'') \<and>
   dget (derive_resources args r) ''pim_datatype_bits'' =
     (if given args ''pim_datatype_bits'' then Some (kw args ''pim_datatype_bits'') else dget r ''pim_datatype_bits'') \<and>
   dget (derive_resources args r) ''pim_lanes'' =
     Some (if given args ''pim_lanes'' then kw args ''pim_lanes''
           else PInt (int_at (override_resources args r) ''pim_simd_width_bits'' div
                      int_at (override_resources args r) ''pim_datatype_bits'')) \<and>
   num_at (derive_resources args r) ''pim_ops_per_request'' = num_at (derive_resources args r) ''pim_ops_per_block_issue''"
proof -
  have e: "k \<notin> set PIM_EVENT_ENERGY_FIELDS"
    if "k \<in> {''pim_mac_pipeline_latency_cycles'', ''pim_mac_issue_interval_cycles'', ''pim_datatype_bits'', ''pim_lanes''}" for k
    using that by (auto simp: PIM_EVENT_ENERGY_FIELDS_def)
  have "num_at (derive_resources args r) ''pim_ops_per_request'' = num_at (derive_resources args r) ''pim_ops_per_block_issue''"
    using derived_lookup[of args r "''pim_ops_per_request''"]
    by (simp only: num_at_def[of _ "''pim_ops_per_request''"]) (simp add: dgetd_def)
  then show ?thesis
    using derived_lookup[of args r "''pim_mac_pipeline_latency_cycles''"]
      derived_lookup[of args r "''pim_mac_issue_interval_cycles''"]
      derived_lookup[of args r "''pim_datatype_bits''"] derived_lookup[of args r "''pim_lanes''"]
    by (simp add: dget_override[OF e] dget_put_if)
qed

end
