(* ===== verification/Concrete_Trace.thy ===== *)
theory Concrete_Trace
  imports Addressing "HOL-Library.Char_ord" "HOL-Library.List_Lexorder"
begin

text \<open>
  \<open>workload_surrogate/lpddr5_pim_concrete_trace.py\<close>: the concrete opcode traces that the
  native PIM frontends replay. A trace is a header and a list of records; a record is a
  dictionary as JSON gives it. \<open>validate_header\<close> and \<open>validate_record\<close> check one document,
  \<open>validate_sequence\<close> runs the mode protocol of every rank over the records and keeps the
  budget of expanded records, \<open>slim_record\<close> compacts a record for the file, \<open>write_jsonl\<close>
  and \<open>read_jsonl\<close> produce and accept the file.

  The address layout is the \<open>layout\<close> of \<open>Addressing\<close>. A file is a list of lines; a line is
  blank, not JSON, or the document it denotes. The environment variable that sets the budget is
  an argument.
\<close>

datatype trace_error =
    HeaderNotObject | HeaderMissing string | UnsupportedClass | ClassMismatch | SchemaMismatch
  | Unhashable | MissingFields "string list" | ForbiddenFields "string list"
  | RawAttAcc string | UnsupportedOpcode | RepeatNotInt | RepeatRange
  | AddrVecShape | AddrVecNotInt | AddrVecNegative | TraceAddr addr_error | LayoutRequired | LevelCount
  | HostNeedsLayout | AddrByteHostOnly | HostNeedsAddrByte | AddrByteInvalid | AddrVecMismatch
  | StrideNeedsAddrByte | StrideInvalid
  | InterleaveMacOnly | BankSequenceShape | BankSequenceNegative | NotPositiveField string | NegativeField string
  | InterleaveNeedsLayout | NoLevel string | NotIntField string | LevelOutside string | LevelNotRowColumn
  | RowRange | ColumnRange | BankPairIncomplete | BankPairShape | BankPairNotInt | BankPositionsOverlap
  | BankPositionOutside | BankCountMismatch int | BankLevelOutside | BankLevelNotBank | BankOutside int
  | SemNotMap | SemNoId | ProvenanceNotMap
  | MissingKey string | IndexOutside | ZeroCount
  | BudgetNotInt | BudgetNotPositive | BudgetExceeded
  | RequiresSB string | BcastRequired | BcastRequiresHAB | MacAbRequiresPim
  | EmptyTrace | InvalidJson | RecordNotObject

section \<open>Constants\<close>

definition CONCRETE_SCHEMA_VERSIONS :: "(string \<times> string) list" where
  "CONCRETE_SCHEMA_VERSIONS =
     [(''LPDDR5PIM'', ''lpddr5-pim-opcode-v0.2''), (''LPDDR6PIM'', ''lpddr6-pim-opcode-v0.1'')]"

definition CONCRETE_OPCODES :: "string list" where
  "CONCRETE_OPCODES = [''READ'', ''WRITE'', ''SB'', ''HAB'', ''HAB_PIM'', ''PIM_BCAST'', ''PIM_MAC'', ''PIM_MAC_AB'']"

definition FORBIDDEN_RAW_ATTACC_OPCODES :: "string list" where
  "FORBIDDEN_RAW_ATTACC_OPCODES =
     [''PIM_WR_GB'', ''PIM_MV_BA'', ''PIM_MV_BF'', ''PIM_SFM'', ''PIM_SET_CONFIG'', ''PIM_SET'', ''PIM_ACT_AB'']"

definition MAX_REPEAT :: int where
  "MAX_REPEAT = 1000000"

definition MAX_EXPANDED_RECORDS :: int where
  "MAX_EXPANDED_RECORDS = 1000000000"

definition interleave_fields :: "string list" where
  "interleave_fields =
     [''bank_sequence'', ''dependency_count'', ''row_count'', ''row_start'', ''column_start'',
      ''resolved_row_offset'', ''resolved_col_offset'', ''interleave_depth'', ''interleave_start_idx'',
      ''bank_positions'', ''bank_counts'', ''bank_level'', ''row_level'', ''col_level'']"

definition SLIM_DROP :: "string list" where
  "SLIM_DROP = [''schema_version'', ''record_id'', ''notes'', ''provenance'']"

section \<open>The header\<close>

text \<open>A value that a Python set or dictionary can be asked for.\<close>

fun hashable :: "pyval \<Rightarrow> bool" where
  "hashable (PList _) = False"
| "hashable (PDict _) = False"
| "hashable _ = True"

definition validate_header :: "pyval \<Rightarrow> string option \<Rightarrow> trace_error + unit" where
  "validate_header header expected =
     (case header of
        PDict h \<Rightarrow>
          (case dget h ''dram_class'' of None \<Rightarrow> Inl (HeaderMissing ''dram_class'') | Some dc \<Rightarrow>
          (case dget h ''schema_version'' of None \<Rightarrow> Inl (HeaderMissing ''schema_version'') | Some sv \<Rightarrow>
             if \<not> hashable dc then Inl Unhashable
             else (case dc of
                 PStr c \<Rightarrow>
                   (case dget CONCRETE_SCHEMA_VERSIONS c of
                      None \<Rightarrow> Inl UnsupportedClass
                    | Some v \<Rightarrow>
                        if expected \<noteq> None \<and> expected \<noteq> Some c then Inl ClassMismatch
                        else if \<not> py_eq sv (PStr v) then Inl SchemaMismatch
                        else Inr ())
               | _ \<Rightarrow> Inl UnsupportedClass)))
      | _ \<Rightarrow> Inl HeaderNotObject)"

definition build_header :: "string \<Rightarrow> trace_error + dict" where
  "build_header dc =
     (case dget CONCRETE_SCHEMA_VERSIONS dc of
        None \<Rightarrow> Inl UnsupportedClass
      | Some v \<Rightarrow>
          let h = [(''schema_version'', PStr v), (''dram_class'', PStr dc)]
          in rbind (validate_header (PDict h) (Some dc)) (\<lambda>_. Inr h))"

section \<open>One record\<close>

definition has :: "dict \<Rightarrow> string \<Rightarrow> bool" where
  "has r k = (dget r k \<noteq> None)"

text \<open>\<open>d.get(k)\<close>, and \<open>d[k]\<close> of a key that is known to be there.\<close>

abbreviation item :: "dict \<Rightarrow> string \<Rightarrow> pyval" where
  "item d k \<equiv> dgetd d k PNone"

definition lift_addr :: "addr_error + 'a \<Rightarrow> trace_error + 'a" where
  "lift_addr m = (case m of Inl e \<Rightarrow> Inl (TraceAddr e) | Inr a \<Rightarrow> Inr a)"

text \<open>The module's own \<open>addr_vec_from_byte_address\<close>: the shared mapper on a layout.\<close>

definition trace_addr_vec :: "pyval \<Rightarrow> nat option \<Rightarrow> layout option \<Rightarrow> trace_error + int list" where
  "trace_addr_vec address levels lay =
     (case lay of
        None \<Rightarrow> Inl LayoutRequired
      | Some ly \<Rightarrow>
          if levels \<noteq> None \<and> levels \<noteq> Some (length (ly_level_names ly)) then Inl LevelCount
          else lift_addr (addr_vec_from_byte_address address (ly_level_names ly)
                 (map PInt (ly_level_sizes ly)) (ly_prefetch ly) (ly_tx_bytes ly)))"

definition check_fields :: "dict \<Rightarrow> trace_error + unit" where
  "check_fields r =
     (let missing = filter (\<lambda>k. \<not> has r k) [''addr_vec'', ''opcode'', ''repeat''];
          forbidden = filter (has r) [''provenance'', ''record_id'', ''schema_version'']
      in if missing \<noteq> [] then Inl (MissingFields missing)
         else if forbidden \<noteq> [] then Inl (ForbiddenFields forbidden)
         else Inr ())"

definition check_opcode :: "pyval \<Rightarrow> trace_error + string" where
  "check_opcode v =
     (if \<not> hashable v then Inl Unhashable
      else case v of
          PStr s \<Rightarrow>
            if s \<in> set FORBIDDEN_RAW_ATTACC_OPCODES then Inl (RawAttAcc s)
            else if s \<notin> set CONCRETE_OPCODES then Inl UnsupportedOpcode
            else Inr s
        | _ \<Rightarrow> Inl UnsupportedOpcode)"

definition check_repeat :: "pyval \<Rightarrow> trace_error + int" where
  "check_repeat v =
     (case v of
        PInt i \<Rightarrow> if i \<le> 0 \<or> MAX_REPEAT < i then Inl RepeatRange else Inr i
      | _ \<Rightarrow> Inl RepeatNotInt)"

definition check_addr_vec :: "pyval \<Rightarrow> layout option \<Rightarrow> trace_error + pyval list" where
  "check_addr_vec v lay =
     (case v of
        PList vs \<Rightarrow>
          if vs = [] then Inl AddrVecShape
          else if \<not> list_all is_int vs then Inl AddrVecNotInt
          else (case lay of
              Some ly \<Rightarrow>
                rbind (lift_addr (validate_addr_vec vs (ly_level_names ly) (ly_level_sizes ly) False)) (\<lambda>_. Inr vs)
            | None \<Rightarrow> if list_all nonneg_int vs then Inr vs else Inl AddrVecNegative)
      | _ \<Rightarrow> Inl AddrVecShape)"

definition is_host :: "string \<Rightarrow> bool" where
  "is_host op = (op = ''READ'' \<or> op = ''WRITE'')"

definition check_addr_byte ::
  "dict \<Rightarrow> string \<Rightarrow> int \<Rightarrow> pyval list \<Rightarrow> layout option \<Rightarrow> trace_error + unit" where
  "check_addr_byte r op rep vs lay =
     rbind (require (is_host op \<longrightarrow> lay \<noteq> None) HostNeedsLayout) (\<lambda>_.
     rbind (require ((has r ''addr_byte'' \<or> has r ''addr_byte_stride'') \<longrightarrow> is_host op) AddrByteHostOnly) (\<lambda>_.
     rbind (require (is_host op \<longrightarrow> has r ''addr_byte'') HostNeedsAddrByte) (\<lambda>_.
     rbind (case dget r ''addr_byte'' of
        None \<Rightarrow> Inr ()
      | Some ab \<Rightarrow>
          if \<not> nonneg_int ab then Inl AddrByteInvalid
          else if is_host op
          then rbind (trace_addr_vec ab (Some (length vs)) lay) (\<lambda>expected.
                 require (vs = map PInt expected) AddrVecMismatch)
          else Inr ()) (\<lambda>_.
     case dget r ''addr_byte_stride'' of
        None \<Rightarrow> Inr ()
      | Some st \<Rightarrow>
          (case dget r ''addr_byte'' of
             None \<Rightarrow> Inl StrideNeedsAddrByte
           | Some ab \<Rightarrow>
               if \<not> positive_int st then Inl StrideInvalid
               else rbind (trace_addr_vec (PInt (the (py_int ab) + (rep - 1) * the (py_int st)))
                      (Some (length vs)) lay) (\<lambda>_. Inr ()))))))"

text \<open>\<open>isinstance(b, int) and b >= 0\<close>; a boolean passes here.\<close>

fun nonneg_bank :: "pyval \<Rightarrow> bool" where
  "nonneg_bank (PInt i) = (0 \<le> i)"
| "nonneg_bank (PBool _) = True"
| "nonneg_bank _ = False"

definition check_optional ::
  "dict \<Rightarrow> string \<Rightarrow> (pyval \<Rightarrow> bool) \<Rightarrow> (string \<Rightarrow> trace_error) \<Rightarrow> trace_error + unit" where
  "check_optional r f ok e = (case dget r f of None \<Rightarrow> Inr () | Some v \<Rightarrow> require (ok v) (e f))"

definition check_bank_sequence :: "dict \<Rightarrow> trace_error + unit" where
  "check_bank_sequence r =
     (case dget r ''bank_sequence'' of
        None \<Rightarrow> Inr ()
      | Some v \<Rightarrow>
          (case v of
             PList bs \<Rightarrow>
               if bs = [] then Inl BankSequenceShape
               else require (list_all nonneg_bank bs) BankSequenceNegative
           | _ \<Rightarrow> Inl BankSequenceShape))"

definition check_interleave_fields :: "dict \<Rightarrow> string \<Rightarrow> trace_error + unit" where
  "check_interleave_fields r op =
     rbind (require (list_ex (has r) interleave_fields \<longrightarrow> op = ''PIM_MAC'') InterleaveMacOnly) (\<lambda>_.
     rbind (check_bank_sequence r) (\<lambda>_.
     rbind (check_optional r ''dependency_count'' positive_int NotPositiveField) (\<lambda>_.
     rbind (check_optional r ''row_count'' positive_int NotPositiveField) (\<lambda>_.
     rbind (check_optional r ''interleave_depth'' positive_int NotPositiveField) (\<lambda>_.
     check_optional r ''interleave_start_idx'' nonneg_int NegativeField)))))"

definition name_index :: "string list \<Rightarrow> string \<Rightarrow> trace_error + int" where
  "name_index names n = (case list_index names n of None \<Rightarrow> Inl (NoLevel n) | Some i \<Rightarrow> Inr (int i))"

text \<open>\<open>int(record.get(f, default))\<close>\<close>

definition int_field :: "dict \<Rightarrow> string \<Rightarrow> int \<Rightarrow> trace_error + int" where
  "int_field r f alt =
     (case dget r f of
        None \<Rightarrow> Inr alt
      | Some v \<Rightarrow> (case py_int v of None \<Rightarrow> Inl (NotIntField f) | Some i \<Rightarrow> Inr i))"

definition level_field :: "dict \<Rightarrow> string list \<Rightarrow> string \<Rightarrow> string \<Rightarrow> trace_error + int" where
  "level_field r names f n = rbind (name_index names n) (int_field r f)"

definition in_levels :: "string list \<Rightarrow> int \<Rightarrow> bool" where
  "in_levels names i = (0 \<le> i \<and> i < int (length names))"

text \<open>The banks named by \<open>bank_positions\<close> and \<open>bank_counts\<close>.\<close>

definition check_bank_pair ::
  "string list \<Rightarrow> int list \<Rightarrow> int \<Rightarrow> int \<Rightarrow> pyval \<Rightarrow> pyval \<Rightarrow> trace_error + int" where
  "check_bank_pair names sizes row col bp bc =
     (case (bp, bc) of
        (PList ps, PList cs) \<Rightarrow>
          if length ps \<noteq> length cs \<or> ps = [] then Inl BankPairShape
          else if \<not> list_all is_int (ps @ cs) then Inl BankPairNotInt
          else
            let pos = map (the \<circ> py_int) ps; cnt = map (the \<circ> py_int) cs in
            if \<not> distinct pos \<or> row \<in> set pos \<or> col \<in> set pos then Inl BankPositionsOverlap
            else rfold (\<lambda>total (p, c).
                   if \<not> in_levels names p then Inl BankPositionOutside
                   else if c \<noteq> sizes ! nat p then Inl (BankCountMismatch p)
                   else Inr (total * c)) 1 (zip pos cnt)
      | _ \<Rightarrow> Inl BankPairShape)"

definition total_banks :: "dict \<Rightarrow> string list \<Rightarrow> int list \<Rightarrow> int \<Rightarrow> int \<Rightarrow> trace_error + int" where
  "total_banks r names sizes row col =
     (case (dget r ''bank_positions'', dget r ''bank_counts'') of
        (Some bp, Some bc) \<Rightarrow> check_bank_pair names sizes row col bp bc
      | (None, None) \<Rightarrow>
          rbind (level_field r names ''bank_level'' ''Bank'') (\<lambda>bank.
          if \<not> in_levels names bank then Inl BankLevelOutside
          else if names ! nat bank \<noteq> ''Bank'' then Inl BankLevelNotBank
          else Inr (sizes ! nat bank))
      | _ \<Rightarrow> Inl BankPairIncomplete)"

definition bank_numbers :: "dict \<Rightarrow> int list" where
  "bank_numbers r = (case dget r ''bank_sequence'' of Some (PList bs) \<Rightarrow> map (the \<circ> py_int) bs | _ \<Rightarrow> [])"

definition check_bank_ranges :: "dict \<Rightarrow> layout option \<Rightarrow> trace_error + unit" where
  "check_bank_ranges r lay =
     (if \<not> has r ''bank_sequence'' then Inr ()
      else case lay of
        None \<Rightarrow> Inl InterleaveNeedsLayout
      | Some ly \<Rightarrow>
          let names = ly_level_names ly; sizes = ly_level_sizes ly in
          rbind (level_field r names ''row_level'' ''Row'') (\<lambda>row.
          rbind (level_field r names ''col_level'' ''Column'') (\<lambda>col.
          if \<not> in_levels names row then Inl (LevelOutside ''row_level'')
          else if \<not> in_levels names col then Inl (LevelOutside ''col_level'')
          else if names ! nat row \<noteq> ''Row'' \<or> names ! nat col \<noteq> ''Column'' then Inl LevelNotRowColumn
          else
          rbind (int_field r ''row_start'' 0) (\<lambda>row_start.
          rbind (int_field r ''row_count'' 1) (\<lambda>row_count.
          rbind (int_field r ''column_start'' 0) (\<lambda>column_start.
          rbind (int_field r ''dependency_count'' 0) (\<lambda>dependency_count.
          if row_start < 0 \<or> row_count < 1 \<or> sizes ! nat row < row_start + row_count then Inl RowRange
          else if column_start < 0 \<or> dependency_count < 1 \<or> sizes ! nat col < column_start + dependency_count
          then Inl ColumnRange
          else
          rbind (total_banks r names sizes row col) (\<lambda>total.
          require (\<not> list_ex (\<lambda>b. total \<le> b) (bank_numbers r)) (BankOutside total)))))))))"

definition check_sem :: "dict \<Rightarrow> trace_error + unit" where
  "check_sem r =
     (case dget r ''sem'' of
        None \<Rightarrow> Inr ()
      | Some v \<Rightarrow> (case v of PDict d \<Rightarrow> require (has d ''id'') SemNoId | _ \<Rightarrow> Inl SemNotMap))"

text \<open>
  All checks in the order of the code. The opcode, the repeat count and the coordinate, which
  the later checks use, are returned.
\<close>

definition validated :: "dict \<Rightarrow> layout option \<Rightarrow> trace_error + string \<times> int \<times> pyval list" where
  "validated r lay =
     rbind (check_fields r) (\<lambda>_.
     rbind (check_opcode (dgetd r ''opcode'' PNone)) (\<lambda>op.
     rbind (check_repeat (dgetd r ''repeat'' PNone)) (\<lambda>rep.
     rbind (check_addr_vec (dgetd r ''addr_vec'' PNone) lay) (\<lambda>vs.
     rbind (check_addr_byte r op rep vs lay) (\<lambda>_.
     rbind (check_interleave_fields r op) (\<lambda>_.
     rbind (check_bank_ranges r lay) (\<lambda>_.
     rbind (check_sem r) (\<lambda>_. Inr (op, rep, vs)))))))))"

definition validate_record :: "dict \<Rightarrow> layout option \<Rightarrow> trace_error + unit" where
  "validate_record r lay = rbind (validated r lay) (\<lambda>_. Inr ())"

section \<open>Ranks of a record\<close>

text \<open>\<open>xs.index(v)\<close> on Python values.\<close>

fun py_index :: "pyval list \<Rightarrow> pyval \<Rightarrow> nat option" where
  "py_index [] v = None"
| "py_index (x # xs) v = (if py_eq x v then Some 0 else map_option Suc (py_index xs v))"

definition py_items :: "pyval \<Rightarrow> pyval list" where
  "py_items v = (case v of PList xs \<Rightarrow> xs | _ \<Rightarrow> [])"

definition int_value :: "pyval \<Rightarrow> trace_error + int" where
  "int_value v = (case py_int v of None \<Rightarrow> Inl (NotIntField '''') | Some i \<Rightarrow> Inr i)"

text \<open>The coordinates of one flat bank: the digits of the number, the last position first.\<close>

definition decode_bank :: "nat \<Rightarrow> pyval list \<Rightarrow> pyval \<Rightarrow> trace_error + int list" where
  "decode_bank n counts bank =
     rbind (int_value bank) (\<lambda>b.
     if length counts < n then Inl IndexOutside
     else rbind (rmap int_value (take n counts)) (\<lambda>cs.
       if 0 \<in> set cs then Inl ZeroCount else Inr (fst (mixed_radix cs b))))"

definition record_rank_ids :: "dict \<Rightarrow> layout option \<Rightarrow> trace_error + int list" where
  "record_rank_ids r lay =
     rbind (case lay of None \<Rightarrow> Inr 1
            | Some ly \<Rightarrow> (case list_index (ly_level_names ly) ''Rank'' of
                None \<Rightarrow> Inl (NoLevel ''Rank'') | Some i \<Rightarrow> Inr i)) (\<lambda>rank.
     let vec = py_items (dgetd r ''addr_vec'' PNone) in
     if length vec \<le> rank then Inl IndexOutside
     else rbind (int_value (vec ! rank)) (\<lambda>base.
     if dgetd r ''opcode'' PNone \<noteq> PStr ''PIM_MAC'' \<or> \<not> truthy (dgetd r ''bank_sequence'' PNone) then Inr [base]
     else
       let positions = py_items (dgetd r ''bank_positions'' (PList []));
           counts = py_items (dgetd r ''bank_counts'' (PList []))
       in case py_index positions (PInt (int rank)) of
            None \<Rightarrow> Inr [base]
          | Some p \<Rightarrow>
              rmap (\<lambda>bank. rbind (decode_bank (length positions) counts bank) (\<lambda>coords. Inr (coords ! p)))
                (py_items (dgetd r ''bank_sequence'' PNone))))"

section \<open>Compact records\<close>

definition slim_record :: "dict \<Rightarrow> trace_error + dict" where
  "slim_record r =
     (let slim = filter (\<lambda>kv. fst kv \<notin> set SLIM_DROP) r;
          prov = dgetd r ''provenance'' PNone
      in case (if truthy prov then prov else PDict []) of
           PDict p \<Rightarrow>
             (case dgetd p ''semantic_source'' PNone of
                PDict s \<Rightarrow>
                  let sem = map (\<lambda>(short, full). (short, dgetd s full PNone))
                              (filter (\<lambda>(short, full). dgetd s full PNone \<noteq> PNone)
                                [(''id'', ''record_id''), (''kind'', ''kind''), (''layer'', ''layer''), (''op'', ''op'')])
                  in Inr (if sem \<noteq> [] then dset ''sem'' (PDict sem) slim else slim)
              | _ \<Rightarrow> Inr slim)
         | _ \<Rightarrow> Inl ProvenanceNotMap)"

definition expanded_record_count :: "dict list \<Rightarrow> trace_error + int" where
  "expanded_record_count rs =
     rbind (rmap (\<lambda>r. case dget r ''repeat'' of None \<Rightarrow> Inl (MissingKey ''repeat'') | Some v \<Rightarrow> int_value v) rs)
       (\<lambda>ns. Inr (sum_list ns))"

section \<open>The mode protocol\<close>

datatype mode = SB | HAB | HAB_PIM

text \<open>The two dictionaries of \<open>validate_sequence\<close>, keyed by rank, and the running total.\<close>

record seq_state =
  rank_modes :: "int \<rightharpoonup> mode"
  rank_bcasts :: "int \<rightharpoonup> bool"
  expanded :: int

definition mode_at :: "seq_state \<Rightarrow> int \<Rightarrow> mode" where
  "mode_at st k = (case rank_modes st k of None \<Rightarrow> SB | Some m \<Rightarrow> m)"

definition bcast_at :: "seq_state \<Rightarrow> int \<Rightarrow> bool" where
  "bcast_at st k = (case rank_bcasts st k of None \<Rightarrow> False | Some b \<Rightarrow> b)"

definition assign_ranks :: "int list \<Rightarrow> 'v \<Rightarrow> (int \<rightharpoonup> 'v) \<Rightarrow> (int \<rightharpoonup> 'v)" where
  "assign_ranks ks v m = foldl (\<lambda>m k. m(k \<mapsto> v)) m ks"

definition mode_step :: "seq_state \<Rightarrow> string \<Rightarrow> int list \<Rightarrow> trace_error + seq_state" where
  "mode_step st op ks =
     (if op = ''READ'' \<or> op = ''WRITE'' then
        if list_ex (\<lambda>k. mode_at st k \<noteq> SB) ks then Inl (RequiresSB op) else Inr st
      else if op = ''SB'' then
        Inr (st\<lparr>rank_modes := assign_ranks ks SB (rank_modes st), rank_bcasts := assign_ranks ks False (rank_bcasts st)\<rparr>)
      else if op = ''HAB'' then
        Inr (st\<lparr>rank_modes := assign_ranks ks HAB (rank_modes st), rank_bcasts := assign_ranks ks False (rank_bcasts st)\<rparr>)
      else if op = ''HAB_PIM'' then
        if list_ex (\<lambda>k. \<not> bcast_at st k) ks then Inl BcastRequired
        else Inr (st\<lparr>rank_modes := assign_ranks ks HAB_PIM (rank_modes st)\<rparr>)
      else if op = ''PIM_BCAST'' then
        if list_ex (\<lambda>k. mode_at st k \<noteq> HAB) ks then Inl BcastRequiresHAB
        else Inr (st\<lparr>rank_bcasts := assign_ranks ks True (rank_bcasts st)\<rparr>)
      else if op = ''PIM_MAC_AB'' then
        if list_ex (\<lambda>k. mode_at st k \<noteq> HAB_PIM \<or> \<not> bcast_at st k) ks then Inl MacAbRequiresPim else Inr st
      else if op = ''PIM_MAC'' then
        if list_ex (\<lambda>k. mode_at st k \<noteq> SB) ks then Inl (RequiresSB op) else Inr st
      else Inr st)"

definition slimmed :: "dict \<Rightarrow> trace_error + dict" where
  "slimmed r = (if has r ''provenance'' then slim_record r else Inr r)"

definition sequence_step ::
  "layout option \<Rightarrow> int \<Rightarrow> seq_state \<Rightarrow> dict \<Rightarrow> trace_error + seq_state" where
  "sequence_step lay limit st r =
     rbind (slimmed r) (\<lambda>r.
     rbind (validated r lay) (\<lambda>(op, rep, _).
     let st = st\<lparr>expanded := expanded st + rep\<rparr> in
     if limit < expanded st then Inl BudgetExceeded
     else rbind (record_rank_ids r lay) (mode_step st op)))"

definition init_state :: seq_state where
  "init_state = \<lparr>rank_modes = Map.empty, rank_bcasts = Map.empty, expanded = 0\<rparr>"

text \<open>The budget: the argument, else the environment variable, else the constant.\<close>

definition expanded_limit :: "int option \<Rightarrow> string option \<Rightarrow> trace_error + int" where
  "expanded_limit max_records env =
     rbind (case max_records of
              Some m \<Rightarrow> Inr m
            | None \<Rightarrow> (case env of
                None \<Rightarrow> Inr MAX_EXPANDED_RECORDS
              | Some s \<Rightarrow> (case int_of_str s of None \<Rightarrow> Inl BudgetNotInt | Some m \<Rightarrow> Inr m)))
       (\<lambda>m. if m \<le> 0 then Inl BudgetNotPositive else Inr m)"

definition sequence_run :: "layout option \<Rightarrow> int \<Rightarrow> dict list \<Rightarrow> trace_error + seq_state" where
  "sequence_run lay limit rs = rfold (sequence_step lay limit) init_state rs"

definition validate_sequence ::
  "dict list \<Rightarrow> layout option \<Rightarrow> int option \<Rightarrow> string option \<Rightarrow> trace_error + unit" where
  "validate_sequence rs lay max_records env =
     rbind (expanded_limit max_records env) (\<lambda>limit.
     rbind (sequence_run lay limit rs) (\<lambda>_. Inr ()))"

section \<open>Files\<close>

datatype trace_line = BlankLine | BadLine | DocLine pyval

text \<open>
  \<open>json.loads(stable_json_dumps(v))\<close>: the document, its keys in sorted order on every level.
\<close>

function json_value :: "pyval \<Rightarrow> pyval" where
  "json_value (PList xs) = PList (map json_value xs)"
| "json_value (PDict d) = PDict (sort_key fst (map (\<lambda>(k, v). (k, json_value v)) d))"
| "json_value PNone = PNone"
| "json_value (PBool b) = PBool b"
| "json_value (PInt i) = PInt i"
| "json_value (PFloat x) = PFloat x"
| "json_value (PStr s) = PStr s"
  by pat_completeness auto
termination
proof (relation "measure size", goal_cases)
  case 1
  show ?case by simp
next
  case (2 xs x)
  then have "size x < Suc (size_list size xs)"
    by (simp add: less_Suc_eq_le size_list_estimation')
  then show ?case by simp
next
  case (3 d z k v)
  then have "(k, v) \<in> set d" by simp
  then have "size v < Suc (size_list (size_prod (\<lambda>x. 0) size) d)"
    by (induction d) auto
  then show ?case by simp
qed

definition write_jsonl ::
  "dict list \<Rightarrow> layout option \<Rightarrow> int option \<Rightarrow> string option \<Rightarrow> string \<Rightarrow> trace_error + trace_line list" where
  "write_jsonl rs lay max_records env dc =
     rbind (build_header dc) (\<lambda>h.
     rbind (rmap slim_record rs) (\<lambda>slims.
     rbind (validate_sequence slims lay max_records env) (\<lambda>_.
     Inr (DocLine (json_value (PDict h)) # map (\<lambda>r. DocLine (json_value (PDict r))) slims))))"

fun record_of_line :: "trace_line \<Rightarrow> trace_error + dict" where
  "record_of_line (DocLine v) = (case v of PDict d \<Rightarrow> Inr d | _ \<Rightarrow> Inl RecordNotObject)"
| "record_of_line _ = Inl InvalidJson"

definition read_jsonl ::
  "trace_line list \<Rightarrow> layout option \<Rightarrow> int option \<Rightarrow> string option \<Rightarrow> string option \<Rightarrow>
   trace_error + pyval \<times> dict list" where
  "read_jsonl lines lay max_records env expected =
     (case filter (\<lambda>l. l \<noteq> BlankLine) lines of
        [] \<Rightarrow> Inl EmptyTrace
      | l # ls \<Rightarrow>
          rbind (case l of DocLine h \<Rightarrow> Inr h | _ \<Rightarrow> Inl InvalidJson) (\<lambda>h.
          rbind (validate_header h expected) (\<lambda>_.
          rbind (rmap record_of_line ls) (\<lambda>rs.
          rbind (validate_sequence rs lay max_records env) (\<lambda>_. Inr (h, rs))))))"

end
