(* ===== verification/Rank_Protocol.thy ===== *)
theory Rank_Protocol
  imports Prelude
begin

text \<open>
  Machines that act on several ranks at once. The locale \<open>ranked_machine\<close> is the contract
  between a global machine, whose step names the ranks it acts on, and a local machine that
  describes one rank: a global step is accepted exactly when every named rank accepts it locally,
  moves the named ranks by their local steps and leaves the others alone. Its lemmas reduce a
  run of the global machine to independent runs of the local one; they are proved once here and
  used for every machine that keeps the contract.

  The local machine of the PIM frontends, \<open>phase_step\<close>, is the abstract specification of the
  mode protocol: four phases instead of a mode and a flag.
\<close>

section \<open>Local runs\<close>

fun local_run :: "('p \<Rightarrow> 'o \<Rightarrow> 'p option) \<Rightarrow> 'p \<Rightarrow> 'o list \<Rightarrow> 'p option" where
  "local_run f p [] = Some p"
| "local_run f p (x # xs) = (case f p x of None \<Rightarrow> None | Some q \<Rightarrow> local_run f q xs)"

lemma local_run_append:
  "local_run f p (xs @ ys) = (case local_run f p xs of None \<Rightarrow> None | Some q \<Rightarrow> local_run f q ys)"
  by (induction xs arbitrary: p) (simp_all split: option.split)

text \<open>The operations of a sequence of events that name a rank.\<close>

definition ops_at :: "('o \<times> 'k list) list \<Rightarrow> 'k \<Rightarrow> 'o list" where
  "ops_at evs k = map fst (filter (\<lambda>(x, ks). k \<in> set ks) evs)"

lemma ops_at_Nil [simp]: "ops_at [] k = []"
  by (simp add: ops_at_def)

lemma ops_at_Cons [simp]: "ops_at ((x, ks) # evs) k = (if k \<in> set ks then x # ops_at evs k else ops_at evs k)"
  by (simp add: ops_at_def)

lemma ops_at_append [simp]: "ops_at (es @ fs) k = ops_at es k @ ops_at fs k"
  by (simp add: ops_at_def)

section \<open>The contract\<close>

locale ranked_machine =
  fixes inv :: "'s \<Rightarrow> bool" and view :: "'s \<Rightarrow> 'k \<Rightarrow> 'p"
    and gstep :: "'s \<Rightarrow> 'o \<Rightarrow> 'k list \<Rightarrow> 'e + 's" and lstep :: "'p \<Rightarrow> 'o \<Rightarrow> 'p option"
  assumes accepts: "inv s \<Longrightarrow> is_ok (gstep s x ks) \<longleftrightarrow> (\<forall>k \<in> set ks. lstep (view s k) x \<noteq> None)"
    and moves: "inv s \<Longrightarrow> gstep s x ks = Inr s' \<Longrightarrow> k \<in> set ks \<Longrightarrow> lstep (view s k) x = Some (view s' k)"
    and frame: "inv s \<Longrightarrow> gstep s x ks = Inr s' \<Longrightarrow> k \<notin> set ks \<Longrightarrow> view s' k = view s k"
    and keeps: "inv s \<Longrightarrow> gstep s x ks = Inr s' \<Longrightarrow> inv s'"
begin

definition grun :: "'s \<Rightarrow> ('o \<times> 'k list) list \<Rightarrow> 'e + 's" where
  "grun = rfold (\<lambda>s (x, ks). gstep s x ks)"

lemma grun_simps [simp]:
  "grun s [] = Inr s" "grun s ((x, ks) # evs) = rbind (gstep s x ks) (\<lambda>s'. grun s' evs)"
  by (simp_all add: grun_def)

text \<open>In an accepted run every rank makes its own local run.\<close>

lemma grun_view:
  "inv s \<Longrightarrow> grun s evs = Inr s' \<Longrightarrow> inv s' \<and> local_run lstep (view s k) (ops_at evs k) = Some (view s' k)"
proof (induction evs arbitrary: s)
  case Nil
  then show ?case by simp
next
  case (Cons e evs)
  obtain x ks where e: "e = (x, ks)" by fastforce
  from Cons.prems(2) obtain t where t: "gstep s x ks = Inr t" "grun t evs = Inr s'"
    by (auto simp: e rbind_Inr_iff)
  show ?case
    using Cons.IH[OF keeps[OF Cons.prems(1) t(1)] t(2)] moves[OF Cons.prems(1) t(1), of k]
      frame[OF Cons.prems(1) t(1), of k]
    by (auto simp: e)
qed

text \<open>A run is accepted exactly when every rank accepts its own operations.\<close>

lemma grun_accepts:
  "inv s \<Longrightarrow> is_ok (grun s evs) \<longleftrightarrow> (\<forall>k. local_run lstep (view s k) (ops_at evs k) \<noteq> None)"
proof (induction evs arbitrary: s)
  case Nil
  then show ?case by simp
next
  case (Cons e evs)
  obtain x ks where e: "e = (x, ks)" by fastforce
  show ?case
  proof (cases "gstep s x ks")
    case (Inl err)
    with accepts[OF Cons.prems, of x ks] obtain k where k: "k \<in> set ks" "lstep (view s k) x = None" by auto
    then have "local_run lstep (view s k) (ops_at (e # evs) k) = None" by (simp add: e)
    moreover have "\<not> is_ok (grun s (e # evs))" by (simp add: e Inl)
    ultimately show ?thesis by blast
  next
    case (Inr t)
    have eq: "local_run lstep (view s k) (ops_at (e # evs) k) = local_run lstep (view t k) (ops_at evs k)" for k
      using moves[OF Cons.prems Inr, of k] frame[OF Cons.prems Inr, of k] by (auto simp: e)
    have "is_ok (grun s (e # evs)) \<longleftrightarrow> is_ok (grun t evs)" by (simp add: e Inr)
    then show ?thesis unfolding eq by (simp only: Cons.IH[OF keeps[OF Cons.prems Inr]])
  qed
qed

text \<open>Ranks do not interfere: an operation is judged by the earlier operations on its own ranks alone.\<close>

lemma grun_local:
  assumes "inv s" and "grun s (evs @ [(x, ks)]) = Inr s'" and "k \<in> set ks"
  obtains p where "local_run lstep (view s k) (ops_at evs k) = Some p" and "lstep p x \<noteq> None"
proof -
  obtain t where t: "grun s evs = Inr t" "gstep t x ks = Inr s'"
    using assms(2) by (auto simp: grun_def rfold_append rbind_Inr_iff)
  have "inv t" "local_run lstep (view s k) (ops_at evs k) = Some (view t k)"
    using grun_view[OF assms(1) t(1)] by simp_all
  with moves[OF \<open>inv t\<close> t(2) assms(3)] show thesis by (intro that[of "view t k"]) auto
qed

end

section \<open>The phases of a rank\<close>

text \<open>
  \<open>Single\<close>: host accesses and per-bank multiplies. \<open>AllBank\<close>: all-bank host mode, nothing
  broadcast. \<open>Loaded\<close>: all-bank host mode after a broadcast. \<open>Compute\<close>: all-bank multiplies. Any other operation
  leaves the phase as it is.
\<close>

datatype phase = Single | AllBank | Loaded | Compute

definition phase_step :: "phase \<Rightarrow> string \<Rightarrow> phase option" where
  "phase_step p op =
     (if op \<in> set [''READ'', ''WRITE'', ''PIM_MAC''] then (if p = Single then Some Single else None)
      else if op = ''SB'' then Some Single
      else if op = ''HAB'' then Some AllBank
      else if op = ''PIM_BCAST'' then (if p = AllBank \<or> p = Loaded then Some Loaded else None)
      else if op = ''HAB_PIM'' then (if p = Loaded \<or> p = Compute then Some Compute else None)
      else if op = ''PIM_MAC_AB'' then (if p = Compute then Some Compute else None)
      else Some p)"

abbreviation phase_run :: "phase \<Rightarrow> string list \<Rightarrow> phase option" where
  "phase_run \<equiv> local_run phase_step"

text \<open>What a phase says about the past.\<close>

definition leaves_mode :: "string \<Rightarrow> bool" where
  "leaves_mode op = (op = ''SB'' \<or> op = ''HAB'')"

definition broadcast_pending :: "string list \<Rightarrow> bool" where
  "broadcast_pending xs \<longleftrightarrow>
     (\<exists>us vs. xs = us @ ''PIM_BCAST'' # vs \<and> list_all (\<lambda>x. \<not> leaves_mode x) vs)"

definition compute_entered :: "string list \<Rightarrow> bool" where
  "compute_entered xs \<longleftrightarrow>
     (\<exists>us vs. xs = us @ ''HAB_PIM'' # vs \<and> list_all (\<lambda>x. \<not> leaves_mode x) vs \<and> broadcast_pending us)"

definition single_bank :: "string list \<Rightarrow> bool" where
  "single_bank xs \<longleftrightarrow> (\<forall>us vs. xs = us @ ''HAB'' # vs \<longrightarrow> ''SB'' \<in> set vs)"

lemma single_bank_SB: "single_bank (xs @ [''SB''])"
  unfolding single_bank_def
proof (intro allI impI)
  fix us vs assume e: "xs @ [''SB''] = us @ ''HAB'' # vs"
  then show "''SB'' \<in> set vs" by (cases vs rule: rev_cases) simp_all
qed

lemma single_bank_snoc: "single_bank xs \<Longrightarrow> x \<noteq> ''HAB'' \<Longrightarrow> single_bank (xs @ [x])"
  unfolding single_bank_def
proof (intro allI impI)
  fix us vs
  assume s: "\<forall>us vs. xs = us @ ''HAB'' # vs \<longrightarrow> ''SB'' \<in> set vs" and x: "x \<noteq> ''HAB''"
    and e: "xs @ [x] = us @ ''HAB'' # vs"
  obtain ws where vs: "vs = ws @ [x]" using e x by (cases vs rule: rev_cases) simp_all
  with e have "xs = us @ ''HAB'' # ws" by simp
  with s vs show "''SB'' \<in> set vs" by simp
qed

lemma broadcast_pending_snoc:
  "broadcast_pending (xs @ [x]) \<longleftrightarrow> x = ''PIM_BCAST'' \<or> broadcast_pending xs \<and> \<not> leaves_mode x"
proof
  assume "broadcast_pending (xs @ [x])"
  then obtain us vs where e: "xs @ [x] = us @ ''PIM_BCAST'' # vs" and v: "list_all (\<lambda>x. \<not> leaves_mode x) vs"
    by (auto simp: broadcast_pending_def)
  show "x = ''PIM_BCAST'' \<or> broadcast_pending xs \<and> \<not> leaves_mode x"
  proof (cases vs rule: rev_cases)
    case Nil
    with e show ?thesis by simp
  next
    case (snoc ws y)
    with e v have "xs = us @ ''PIM_BCAST'' # ws" "list_all (\<lambda>x. \<not> leaves_mode x) ws" "\<not> leaves_mode x" by simp_all
    then show ?thesis by (auto simp: broadcast_pending_def)
  qed
next
  assume "x = ''PIM_BCAST'' \<or> broadcast_pending xs \<and> \<not> leaves_mode x"
  then show "broadcast_pending (xs @ [x])"
  proof
    assume "x = ''PIM_BCAST''"
    then show ?thesis unfolding broadcast_pending_def by (intro exI[of _ xs] exI[of _ "[]"]) simp
  next
    assume "broadcast_pending xs \<and> \<not> leaves_mode x"
    then obtain us vs where "xs = us @ ''PIM_BCAST'' # vs" "list_all (\<lambda>x. \<not> leaves_mode x) vs" "\<not> leaves_mode x"
      by (auto simp: broadcast_pending_def)
    then show ?thesis unfolding broadcast_pending_def by (intro exI[of _ us] exI[of _ "vs @ [x]"]) simp
  qed
qed

lemma compute_entered_snoc:
  "compute_entered xs \<Longrightarrow> \<not> leaves_mode x \<Longrightarrow> compute_entered (xs @ [x])"
  "broadcast_pending xs \<Longrightarrow> compute_entered (xs @ [''HAB_PIM''])"
proof -
  assume "compute_entered xs" "\<not> leaves_mode x"
  then obtain us vs where "xs = us @ ''HAB_PIM'' # vs" "list_all (\<lambda>x. \<not> leaves_mode x) vs" "broadcast_pending us"
    "\<not> leaves_mode x"
    by (auto simp: compute_entered_def)
  then show "compute_entered (xs @ [x])"
    unfolding compute_entered_def by (intro exI[of _ us] exI[of _ "vs @ [x]"]) simp
next
  assume "broadcast_pending xs"
  then show "compute_entered (xs @ [''HAB_PIM''])"
    unfolding compute_entered_def by (intro exI[of _ xs] exI[of _ "[]"]) simp
qed

lemma phase_history:
  "phase_run Single xs = Some p \<Longrightarrow>
    (p = Single \<longrightarrow> single_bank xs) \<and> (p = Loaded \<longrightarrow> broadcast_pending xs) \<and>
    (p = Compute \<longrightarrow> broadcast_pending xs \<and> compute_entered xs)"
proof (induction xs arbitrary: p rule: rev_induct)
  case Nil
  then show ?case by (simp add: single_bank_def)
next
  case (snoc x xs)
  then obtain q where q: "phase_run Single xs = Some q" "phase_step q x = Some p"
    by (auto simp: local_run_append split: option.splits)
  note IH = snoc.IH[OF q(1)]
  show ?case
    using q(2) IH
    by (auto simp: phase_step_def broadcast_pending_snoc leaves_mode_def compute_entered_snoc
        single_bank_SB single_bank_snoc split: if_splits)
qed

end
