(* ===== verification/Concrete_Facts.thy ===== *)
theory Concrete_Facts
  imports Concrete_Trace Rank_Protocol Addressing_Facts
begin

text \<open>
  What the checks of a concrete trace guarantee: the mode protocol of \<open>validate_sequence\<close>
  keeps the contract \<open>ranked_machine\<close> with the phases of a rank, so a sequence is judged rank
  by rank; a validated record determines its ranks; the compact form of a record and the file
  round trip do not change what is checked.
\<close>

section \<open>The protocol\<close>

fun phase_of :: "mode \<Rightarrow> bool \<Rightarrow> phase" where
  "phase_of SB b = Single"
| "phase_of HAB b = (if b then Loaded else AllBank)"
| "phase_of HAB_PIM b = Compute"

definition phase_at :: "seq_state \<Rightarrow> int \<Rightarrow> phase" where
  "phase_at st k = phase_of (mode_at st k) (bcast_at st k)"

definition modes_inv :: "seq_state \<Rightarrow> bool" where
  "modes_inv st \<longleftrightarrow>
     (\<forall>k. (mode_at st k = SB \<longrightarrow> \<not> bcast_at st k) \<and> (mode_at st k = HAB_PIM \<longrightarrow> bcast_at st k))"

lemma assign_ranks [simp]: "assign_ranks ks v m k = (if k \<in> set ks then Some v else m k)"
  unfolding assign_ranks_def by (induction ks arbitrary: m) auto

lemma mode_at_simps [simp]:
  "mode_at (st\<lparr>rank_modes := assign_ranks ks m (rank_modes st)\<rparr>) k = (if k \<in> set ks then m else mode_at st k)"
  "mode_at (st\<lparr>rank_bcasts := b\<rparr>) k = mode_at st k"
  "mode_at (st\<lparr>expanded := n\<rparr>) k = mode_at st k"
  by (simp_all add: mode_at_def)

lemma bcast_at_simps [simp]:
  "bcast_at (st\<lparr>rank_bcasts := assign_ranks ks b (rank_bcasts st)\<rparr>) k = (if k \<in> set ks then b else bcast_at st k)"
  "bcast_at (st\<lparr>rank_modes := m\<rparr>) k = bcast_at st k"
  "bcast_at (st\<lparr>expanded := n\<rparr>) k = bcast_at st k"
  by (simp_all add: bcast_at_def)

lemma mode_at_both [simp]:
  "mode_at (st\<lparr>rank_modes := assign_ranks ks m (rank_modes st), rank_bcasts := b\<rparr>) k = (if k \<in> set ks then m else mode_at st k)"
  "bcast_at (st\<lparr>rank_modes := q, rank_bcasts := assign_ranks ks c (rank_bcasts st)\<rparr>) k = (if k \<in> set ks then c else bcast_at st k)"
  by (simp_all add: mode_at_def bcast_at_def)

lemma phase_of_iff:
  "phase_of m b = Single \<longleftrightarrow> m = SB"
  "phase_of m b = AllBank \<longleftrightarrow> m = HAB \<and> \<not> b"
  "phase_of m b = Loaded \<longleftrightarrow> m = HAB \<and> b"
  "phase_of m b = Compute \<longleftrightarrow> m = HAB_PIM"
  by (cases m; cases b; simp)+

lemma modes_invD:
  "modes_inv st \<Longrightarrow> mode_at st k = SB \<Longrightarrow> \<not> bcast_at st k"
  "modes_inv st \<Longrightarrow> mode_at st k = HAB_PIM \<Longrightarrow> bcast_at st k"
  "modes_inv st \<Longrightarrow> bcast_at st k \<Longrightarrow> mode_at st k = HAB \<or> mode_at st k = HAB_PIM"
  unfolding modes_inv_def by (auto, cases "mode_at st k", auto)

text \<open>The two machines, operation by operation.\<close>

lemma mode_step_simps:
  "mode_step st ''READ'' ks = (if \<exists>k \<in> set ks. mode_at st k \<noteq> SB then Inl (RequiresSB ''READ'') else Inr st)"
  "mode_step st ''WRITE'' ks = (if \<exists>k \<in> set ks. mode_at st k \<noteq> SB then Inl (RequiresSB ''WRITE'') else Inr st)"
  "mode_step st ''PIM_MAC'' ks = (if \<exists>k \<in> set ks. mode_at st k \<noteq> SB then Inl (RequiresSB ''PIM_MAC'') else Inr st)"
  "mode_step st ''SB'' ks =
     Inr (st\<lparr>rank_modes := assign_ranks ks SB (rank_modes st), rank_bcasts := assign_ranks ks False (rank_bcasts st)\<rparr>)"
  "mode_step st ''HAB'' ks =
     Inr (st\<lparr>rank_modes := assign_ranks ks HAB (rank_modes st), rank_bcasts := assign_ranks ks False (rank_bcasts st)\<rparr>)"
  "mode_step st ''HAB_PIM'' ks =
     (if \<exists>k \<in> set ks. \<not> bcast_at st k then Inl BcastRequired
      else Inr (st\<lparr>rank_modes := assign_ranks ks HAB_PIM (rank_modes st)\<rparr>))"
  "mode_step st ''PIM_BCAST'' ks =
     (if \<exists>k \<in> set ks. mode_at st k \<noteq> HAB then Inl BcastRequiresHAB
      else Inr (st\<lparr>rank_bcasts := assign_ranks ks True (rank_bcasts st)\<rparr>))"
  "mode_step st ''PIM_MAC_AB'' ks =
     (if \<exists>k \<in> set ks. mode_at st k \<noteq> HAB_PIM \<or> \<not> bcast_at st k then Inl MacAbRequiresPim else Inr st)"
  "op \<notin> set CONCRETE_OPCODES \<Longrightarrow> mode_step st op ks = Inr st"
  by (simp_all add: mode_step_def list_ex_iff CONCRETE_OPCODES_def)

lemma phase_step_simps:
  "phase_step p ''READ'' = (if p = Single then Some Single else None)"
  "phase_step p ''WRITE'' = (if p = Single then Some Single else None)"
  "phase_step p ''PIM_MAC'' = (if p = Single then Some Single else None)"
  "phase_step p ''SB'' = Some Single"
  "phase_step p ''HAB'' = Some AllBank"
  "phase_step p ''PIM_BCAST'' = (if p = AllBank \<or> p = Loaded then Some Loaded else None)"
  "phase_step p ''HAB_PIM'' = (if p = Loaded \<or> p = Compute then Some Compute else None)"
  "phase_step p ''PIM_MAC_AB'' = (if p = Compute then Some Compute else None)"
  "op \<notin> set CONCRETE_OPCODES \<Longrightarrow> phase_step p op = Some p"
  by (simp_all add: phase_step_def CONCRETE_OPCODES_def)

lemma opcode_cases:
  obtains "op = ''READ''" | "op = ''WRITE''" | "op = ''PIM_MAC''" | "op = ''SB''" | "op = ''HAB''"
  | "op = ''HAB_PIM''" | "op = ''PIM_BCAST''" | "op = ''PIM_MAC_AB''" | "op \<notin> set CONCRETE_OPCODES"
  unfolding CONCRETE_OPCODES_def by auto

lemmas protocol_simps = mode_step_simps phase_step_simps phase_at_def phase_of_iff

lemma mode_step_accepts:
  assumes "modes_inv st"
  shows "is_ok (mode_step st op ks) \<longleftrightarrow> (\<forall>k \<in> set ks. phase_step (phase_at st k) op \<noteq> None)"
  using modes_invD[OF assms]
  by (cases op rule: opcode_cases) (force simp: protocol_simps)+

lemma mode_step_moves:
  assumes "modes_inv st" and "mode_step st op ks = Inr st'" and "k \<in> set ks"
  shows "phase_step (phase_at st k) op = Some (phase_at st' k)"
  using assms(2,3) modes_invD[OF assms(1), of k]
  by (cases op rule: opcode_cases) (auto simp: protocol_simps split: if_splits)

lemma mode_step_frame:
  "mode_step st op ks = Inr st' \<Longrightarrow> k \<notin> set ks \<Longrightarrow> phase_at st' k = phase_at st k"
  by (cases op rule: opcode_cases) (auto simp: protocol_simps split: if_splits)

lemma mode_step_keeps:
  assumes "modes_inv st" and "mode_step st op ks = Inr st'"
  shows "modes_inv st'"
  using assms(2) assms(1)
  by (cases op rule: opcode_cases) (auto simp: mode_step_simps modes_inv_def split: if_splits)

interpretation modes: ranked_machine modes_inv phase_at mode_step phase_step
proof
  fix st op ks assume inv: "modes_inv st"
  show "is_ok (mode_step st op ks) \<longleftrightarrow> (\<forall>k \<in> set ks. phase_step (phase_at st k) op \<noteq> None)"
    by (rule mode_step_accepts[OF inv])
  fix st' assume st': "mode_step st op ks = Inr st'"
  show "modes_inv st'" by (rule mode_step_keeps[OF inv st'])
  fix k
  show "phase_step (phase_at st k) op = Some (phase_at st' k)" if "k \<in> set ks"
    by (rule mode_step_moves[OF inv st' that])
  show "phase_at st' k = phase_at st k" if "k \<notin> set ks"
    by (rule mode_step_frame[OF st' that])
qed

section \<open>Sequences\<close>

text \<open>What a record contributes to a sequence: how often it is expanded, its operation and its ranks.\<close>

definition record_event :: "layout option \<Rightarrow> dict \<Rightarrow> trace_error + int \<times> string \<times> int list" where
  "record_event lay r =
     rbind (slimmed r) (\<lambda>r. rbind (validated r lay) (\<lambda>(op, rep, _).
     rbind (record_rank_ids r lay) (\<lambda>ks. Inr (rep, op, ks))))"

lemma validated_Inr:
  "validated r lay = Inr (op, rep, vs) \<longleftrightarrow>
     check_fields r = Inr () \<and> check_opcode (dgetd r ''opcode'' PNone) = Inr op \<and>
     check_repeat (dgetd r ''repeat'' PNone) = Inr rep \<and>
     check_addr_vec (dgetd r ''addr_vec'' PNone) lay = Inr vs \<and>
     check_addr_byte r op rep vs lay = Inr () \<and> check_interleave_fields r op = Inr () \<and>
     check_bank_ranges r lay = Inr () \<and> check_sem r = Inr ()"
  by (auto simp: validated_def rbind_Inr_iff)

lemma check_repeat_Inr: "check_repeat v = Inr n \<longleftrightarrow> v = PInt n \<and> 1 \<le> n \<and> n \<le> MAX_REPEAT"
  by (auto simp: check_repeat_def split: pyval.splits)

lemma record_event_pos: "record_event lay r = Inr (n, op, ks) \<Longrightarrow> 1 \<le> n \<and> n \<le> MAX_REPEAT"
  by (auto simp: record_event_def rbind_Inr_iff validated_Inr check_repeat_Inr)

lemma sequence_step_Inr:
  "sequence_step lay limit st r = Inr st' \<longleftrightarrow>
     (\<exists>n op ks. record_event lay r = Inr (n, op, ks) \<and> expanded st + n \<le> limit \<and>
        mode_step (st\<lparr>expanded := expanded st + n\<rparr>) op ks = Inr st')"
  by (auto simp: sequence_step_def record_event_def rbind_Inr_iff Let_def not_less split: prod.splits if_splits)

lemma modes_inv_expanded [simp]: "modes_inv (st\<lparr>expanded := n\<rparr>) = modes_inv st"
  by (simp add: modes_inv_def)

lemma phase_at_expanded [simp]: "phase_at (st\<lparr>expanded := n\<rparr>) k = phase_at st k"
  by (simp add: phase_at_def)

lemma expanded_mode_step: "mode_step st op ks = Inr st' \<Longrightarrow> expanded st' = expanded st"
  by (cases op rule: opcode_cases) (auto simp: mode_step_simps split: if_splits)

lemma grun_expanded:
  "modes_inv st \<Longrightarrow> is_ok (modes.grun (st\<lparr>expanded := n\<rparr>) evs) \<longleftrightarrow> is_ok (modes.grun st evs)"
  by (simp add: modes.grun_accepts)

lemma sum_reps_nonneg: "rmap (record_event lay) rs = Inr evs \<Longrightarrow> 0 \<le> sum_list (map fst evs)"
proof (induction rs arbitrary: evs)
  case Nil
  then show ?case by simp
next
  case (Cons r rs)
  from Cons.prems obtain n op ks evs' where "record_event lay r = Inr (n, op, ks)" "rmap (record_event lay) rs = Inr evs'"
    "evs = (n, op, ks) # evs'"
    by (auto simp: rbind_Inr_iff)
  with Cons.IH record_event_pos[of lay r n op ks] show ?case by force
qed

lemma sequence_run_iff:
  assumes "modes_inv st"
  shows "is_ok (rfold (sequence_step lay limit) st rs) \<longleftrightarrow>
    (\<exists>evs. rmap (record_event lay) rs = Inr evs \<and> (rs = [] \<or> expanded st + sum_list (map fst evs) \<le> limit) \<and>
       is_ok (modes.grun st (map snd evs)))"
  using assms
proof (induction rs arbitrary: st)
  case Nil
  then show ?case by simp
next
  case (Cons r rs)
  let ?seq = "rfold (sequence_step lay limit)"
  show ?case
  proof
    assume "is_ok (?seq st (r # rs))"
    then obtain n op ks st' where r: "record_event lay r = Inr (n, op, ks)" and le: "expanded st + n \<le> limit"
      and st': "mode_step (st\<lparr>expanded := expanded st + n\<rparr>) op ks = Inr st'" and ok: "is_ok (?seq st' rs)"
      by (auto simp: is_ok_rbind sequence_step_Inr)
    have inv: "modes_inv st'" using mode_step_keeps[OF _ st'] Cons.prems by simp
    obtain evs where evs: "rmap (record_event lay) rs = Inr evs"
      "rs = [] \<or> expanded st' + sum_list (map fst evs) \<le> limit" "is_ok (modes.grun st' (map snd evs))"
      using Cons.IH[OF inv] ok by blast
    have "is_ok (modes.grun (st\<lparr>expanded := expanded st + n\<rparr>) ((op, ks) # map snd evs))"
      using evs(3) by (simp add: st')
    then have "is_ok (modes.grun st ((op, ks) # map snd evs))"
      by (simp only: grun_expanded[OF Cons.prems])
    moreover have "expanded st + (n + sum_list (map fst evs)) \<le> limit"
      using evs(1,2) le expanded_mode_step[OF st'] by (cases "rs = []") auto
    ultimately show "\<exists>evs. rmap (record_event lay) (r # rs) = Inr evs \<and>
        (r # rs = [] \<or> expanded st + sum_list (map fst evs) \<le> limit) \<and> is_ok (modes.grun st (map snd evs))"
      using r evs(1) by (intro exI[of _ "(n, op, ks) # evs"]) (simp del: modes.grun_simps)
  next
    assume "\<exists>evs. rmap (record_event lay) (r # rs) = Inr evs \<and>
        (r # rs = [] \<or> expanded st + sum_list (map fst evs) \<le> limit) \<and> is_ok (modes.grun st (map snd evs))"
    then obtain n op ks evs where r: "record_event lay r = Inr (n, op, ks)" and evs: "rmap (record_event lay) rs = Inr evs"
      and le: "expanded st + (n + sum_list (map fst evs)) \<le> limit"
      and ok: "is_ok (modes.grun st ((op, ks) # map snd evs))"
      by (auto simp: rbind_Inr_iff simp del: modes.grun_simps)
    have "is_ok (modes.grun (st\<lparr>expanded := expanded st + n\<rparr>) ((op, ks) # map snd evs))"
      using ok by (simp only: grun_expanded[OF Cons.prems])
    then obtain st' where st': "mode_step (st\<lparr>expanded := expanded st + n\<rparr>) op ks = Inr st'"
      and ok': "is_ok (modes.grun st' (map snd evs))"
      by (auto simp: is_ok_rbind)
    have inv: "modes_inv st'" using mode_step_keeps[OF _ st'] Cons.prems by simp
    have "is_ok (?seq st' rs)"
      unfolding Cons.IH[OF inv] using evs ok' le expanded_mode_step[OF st'] by (auto intro!: exI[of _ evs])
    moreover have "expanded st + n \<le> limit" using le sum_reps_nonneg[OF evs] by simp
    ultimately show "is_ok (?seq st (r # rs))"
      using r st' by (auto simp: is_ok_rbind sequence_step_Inr)
  qed
qed

lemma init_state_simps [simp]: "modes_inv init_state" "phase_at init_state k = Single" "expanded init_state = 0"
  by (simp_all add: modes_inv_def init_state_def phase_at_def mode_at_def bcast_at_def)

lemma expanded_limit_pos: "expanded_limit mx env = Inr limit \<Longrightarrow> 0 < limit"
  by (auto simp: expanded_limit_def rbind_Inr_iff split: option.splits if_splits)

text \<open>A sequence is accepted exactly when its records are, the budget suffices and every rank accepts its operations.\<close>

lemma validate_sequence_iff:
  "validate_sequence rs lay mx env = Inr () \<longleftrightarrow>
     (\<exists>limit evs. expanded_limit mx env = Inr limit \<and> rmap (record_event lay) rs = Inr evs \<and>
        sum_list (map fst evs) \<le> limit \<and> (\<forall>k. phase_run Single (ops_at (map snd evs) k) \<noteq> None))"
proof -
  have "validate_sequence rs lay mx env = Inr () \<longleftrightarrow>
      (\<exists>limit. expanded_limit mx env = Inr limit \<and> is_ok (rfold (sequence_step lay limit) init_state rs))"
    by (auto simp: validate_sequence_def sequence_run_def rbind_Inr_iff is_ok_iff)
  also have "\<dots> \<longleftrightarrow> (\<exists>limit evs. expanded_limit mx env = Inr limit \<and> rmap (record_event lay) rs = Inr evs \<and>
        sum_list (map fst evs) \<le> limit \<and> (\<forall>k. phase_run Single (ops_at (map snd evs) k) \<noteq> None))"
    using expanded_limit_pos[of mx env]
    by (cases "rs = []") (auto simp: sequence_run_iff modes.grun_accepts less_imp_le)
  finally show ?thesis .
qed

section \<open>Coordinates and ranks of a validated record\<close>

lemma check_coords_Inr:
  assumes "length names = length szs" and "length szs = length vs"
  shows "check_coords False i (zip names (zip szs vs)) = Inr () \<longleftrightarrow> (\<exists>xs. vs = map PInt xs \<and> coords_in szs xs)"
  using assms
proof (induction names szs vs arbitrary: i rule: list_induct3)
  case Nil
  then show ?case by (simp add: coords_in_def)
next
  case (Cons n ns s ss v vs)
  show ?case
  proof (cases v)
    case (PInt x)
    have "(\<exists>xs. v # vs = map PInt xs \<and> coords_in (s # ss) xs) \<longleftrightarrow>
        0 \<le> x \<and> x < s \<and> (\<exists>xs. vs = map PInt xs \<and> coords_in ss xs)"
      by (auto simp: PInt coords_in_def Cons_eq_map_conv list_all2_Cons1)
    with Cons.IH[of "Suc i"] show ?thesis by (auto simp: PInt)
  qed auto
qed

lemma validate_addr_vec_Inr:
  "validate_addr_vec vs names szs False = Inr () \<longleftrightarrow>
     length names = length szs \<and> (\<exists>xs. vs = map PInt xs \<and> coords_in szs xs)"
proof (cases "length names = length szs \<and> length vs = length szs")
  case True
  then show ?thesis by (simp add: validate_addr_vec_def check_coords_Inr)
next
  case False
  then show ?thesis by (auto simp: validate_addr_vec_def coords_in_def dest: list_all2_lengthD)
qed

lemma lift_addr_Inr [simp]: "lift_addr m = Inr a \<longleftrightarrow> m = Inr a"
  by (cases m) (simp_all add: lift_addr_def)

lemma check_addr_vec_Some:
  "check_addr_vec v (Some ly) = Inr vs \<longleftrightarrow>
     v = PList vs \<and> vs \<noteq> [] \<and> length (ly_level_names ly) = length (ly_level_sizes ly) \<and>
     (\<exists>xs. vs = map PInt xs \<and> coords_in (ly_level_sizes ly) xs)"
proof (cases v)
  case (PList us)
  then show ?thesis
    by (auto simp: check_addr_vec_def rbind_Inr_iff validate_addr_vec_Inr list_all_iff split: if_splits)
qed (simp_all add: check_addr_vec_def)

lemma coords_in_nth: "coords_in szs xs \<Longrightarrow> i < length szs \<Longrightarrow> length xs = length szs \<and> 0 \<le> xs ! i \<and> xs ! i < szs ! i"
  by (auto simp: coords_in_def list_all2_conv_all_nth)

lemma bank_pair_loop:
  "rfold (\<lambda>total (p, c). if \<not> in_levels names p then Inl BankPositionOutside
       else if c \<noteq> sizes ! nat p then Inl (BankCountMismatch p) else Inr (total * c)) t zs = Inr u \<longleftrightarrow>
   (\<forall>(p, c) \<in> set zs. in_levels names p \<and> c = sizes ! nat p) \<and> u = t * prod_list (map snd zs)"
  by (induction zs arbitrary: t) (auto simp: rbind_Inr_iff mult.assoc split: if_splits)

lemma check_bank_pair_Inr:
  assumes "check_bank_pair names sizes row col bp bc = Inr tb"
  obtains ps cs where "bp = PList (map PInt ps)" "bc = PList (map PInt cs)" "length ps = length cs" "ps \<noteq> []"
    "distinct ps" "\<forall>j < length ps. in_levels names (ps ! j) \<and> cs ! j = sizes ! nat (ps ! j)" "tb = prod_list cs"
proof -
  obtain us ws where b: "bp = PList us" "bc = PList ws"
    using assms by (auto simp: check_bank_pair_def split: pyval.splits)
  define ps where "ps = map (the \<circ> py_int) us"
  define cs where "cs = map (the \<circ> py_int) ws"
  have len: "length us = length ws" "us \<noteq> []" and ints: "list_all is_int us" "list_all is_int ws" and "distinct ps"
    and loop: "rfold (\<lambda>total (p, c). if \<not> in_levels names p then Inl BankPositionOutside
       else if c \<noteq> sizes ! nat p then Inl (BankCountMismatch p) else Inr (total * c)) 1 (zip ps cs) = Inr tb"
    using assms by (auto simp: check_bank_pair_def b Let_def ps_def cs_def split: if_splits)
  have unint: "xs = map PInt (map (the \<circ> py_int) xs)" if "list_all is_int xs" for xs
    using that by (induction xs) (auto elim: is_int.elims)
  have l: "length ps = length cs" using len by (simp add: ps_def cs_def)
  have "\<forall>j < length ps. in_levels names (ps ! j) \<and> cs ! j = sizes ! nat (ps ! j)"
    using loop l unfolding bank_pair_loop by (auto simp: set_zip)
  moreover have "tb = prod_list cs" using loop l unfolding bank_pair_loop by simp
  ultimately show thesis
    using unint[OF ints(1)] unint[OF ints(2)] len \<open>distinct ps\<close> l
    by (intro that[of ps cs]) (simp_all add: b ps_def cs_def)
qed

lemma check_bank_ranges_Inr:
  assumes "check_bank_ranges r (Some ly) = Inr ()" and "has r ''bank_sequence''"
  obtains row col tb where "total_banks r (ly_level_names ly) (ly_level_sizes ly) row col = Inr tb"
    "\<forall>b \<in> set (bank_numbers r). b < tb"
proof -
  obtain row col tb where "total_banks r (ly_level_names ly) (ly_level_sizes ly) row col = Inr tb"
    "\<not> list_ex (\<lambda>b. tb \<le> b) (bank_numbers r)"
    using assms by (auto simp: check_bank_ranges_def Let_def rbind_Inr_iff split: if_splits)
  then show thesis by (intro that) (auto simp: list_ex_iff not_le)
qed

lemma int_value_PInt [simp]: "int_value (PInt i) = Inr i"
  by (simp add: int_value_def)

lemma py_items_PList [simp]: "py_items (PList xs) = xs"
  by (simp add: py_items_def)

lemma py_index_ints: "py_index (map PInt ps) (PInt i) = Some p \<Longrightarrow> p < length ps \<and> ps ! p = i"
  by (induction ps arbitrary: p) (auto simp: py_eq_PInt_iff split: if_splits)

lemma int_value_ints: "rmap int_value (map PInt cs) = Inr cs"
  by (induction cs) simp_all

lemma decode_bank_ints:
  assumes "radices_ok cs" and "nonneg_bank b"
  shows "\<exists>xs. decode_bank (length cs) (map PInt cs) b = Inr xs \<and> coords_in cs xs"
proof -
  have "0 \<notin> set cs" using assms(1) by (auto simp: radices_ok_def list_all_iff)
  moreover obtain n where "py_int b = Some n" using assms(2) by (cases b) (simp_all add: py_int_def)
  ultimately show ?thesis
    using mixed_radix_coords[OF assms(1), of n] by (simp add: decode_bank_def int_value_ints) (simp add: int_value_def)
qed

text \<open>The ranks of a validated record can be computed and are ranks of the layout.\<close>

lemma validated_ranks:
  assumes v: "validated r (Some ly) = Inr (op, rep, vs)" and rank: "list_index (ly_level_names ly) ''Rank'' = Some i"
  shows "\<exists>ks. record_rank_ids r (Some ly) = Inr ks \<and> ks \<noteq> [] \<and> (\<forall>k \<in> set ks. 0 \<le> k \<and> k < ly_level_sizes ly ! i)"
proof -
  let ?names = "ly_level_names ly" and ?sizes = "ly_level_sizes ly"
  obtain xs where av: "dgetd r ''addr_vec'' PNone = PList (map PInt xs)" and xs: "coords_in ?sizes xs"
    and len: "length ?names = length ?sizes"
    using v by (auto simp: validated_Inr check_addr_vec_Some)
  have i: "i < length ?sizes" using list_index_lt[OF rank] len by simp
  have lx: "length xs = length ?sizes" "0 \<le> xs ! i" "xs ! i < ?sizes ! i" using coords_in_nth[OF xs i] by simp_all
  have pos: "0 < ?sizes ! j" if "j < length ?sizes" for j using coords_in_nth[OF xs that] by linarith
  show ?thesis
  proof (cases "dgetd r ''opcode'' PNone \<noteq> PStr ''PIM_MAC'' \<or> \<not> truthy (dgetd r ''bank_sequence'' PNone) \<or>
      py_index (py_items (dgetd r ''bank_positions'' (PList []))) (PInt (int i)) = None")
    case True
    then have "record_rank_ids r (Some ly) = Inr [xs ! i]"
      using i lx by (auto simp: record_rank_ids_def rank av)
    then show ?thesis using lx by simp
  next
    case False
    then obtain p where p: "py_index (py_items (dgetd r ''bank_positions'' (PList []))) (PInt (int i)) = Some p" by auto
    have bs: "has r ''bank_sequence''" using False by (auto simp: has_def dgetd_def split: option.splits)
    then obtain banks where banks: "dgetd r ''bank_sequence'' PNone = PList banks" "banks \<noteq> []"
      and nn: "list_all nonneg_bank banks"
      using v by (auto simp: validated_Inr check_interleave_fields_def rbind_Inr_iff check_bank_sequence_def has_def dgetd_def
        split: pyval.splits if_splits)
    have ranges: "check_bank_ranges r (Some ly) = Inr ()" using v by (simp add: validated_Inr)
    obtain row col tb where tot: "total_banks r ?names ?sizes row col = Inr tb"
      by (rule check_bank_ranges_Inr[OF ranges bs])
    have "has r ''bank_positions''" using p by (auto simp: has_def dgetd_def py_items_def split: option.splits)
    then obtain bp bc where bpc: "dget r ''bank_positions'' = Some bp" "dget r ''bank_counts'' = Some bc"
      and pair: "check_bank_pair ?names ?sizes row col bp bc = Inr tb"
      using tot by (auto simp: total_banks_def has_def split: option.splits)
    obtain ps cs where pc: "bp = PList (map PInt ps)" "bc = PList (map PInt cs)" "length ps = length cs"
      and lev: "\<forall>j < length ps. in_levels ?names (ps ! j) \<and> cs ! j = ?sizes ! nat (ps ! j)"
      by (rule check_bank_pair_Inr[OF pair])
    have bpc': "dgetd r ''bank_positions'' (PList []) = PList (map PInt ps)"
      "dgetd r ''bank_counts'' (PList []) = PList (map PInt cs)"
      by (simp_all add: dgetd_def bpc pc)
    have rad: "radices_ok cs" using lev pc(3) pos len by (auto simp: radices_ok_def list_all_length in_levels_def nat_less_iff)
    have pp: "p < length ps" "ps ! p = int i" using py_index_ints[of ps "int i" p] p by (simp_all add: bpc')
    have dec: "\<exists>xs. decode_bank (length ps) (map PInt cs) b = Inr xs \<and> coords_in cs xs" if "b \<in> set banks" for b
      using decode_bank_ints[OF rad, of b] nn that pc(3) by (auto simp: list_all_iff)
    let ?f = "\<lambda>b. rbind (decode_bank (length ps) (map PInt cs) b) (\<lambda>coords. Inr (coords ! p))"
    have mac: "dgetd r ''opcode'' PNone = PStr ''PIM_MAC''" using False by blast
    have eq: "record_rank_ids r (Some ly) = rmap ?f banks"
      using p i lx by (simp add: record_rank_ids_def rank av banks bpc' mac)
    have "is_ok (?f b)" if b: "b \<in> set banks" for b
    proof -
      obtain ys where "decode_bank (length ps) (map PInt cs) b = Inr ys" using dec[OF b] by blast
      then show ?thesis by simp
    qed
    then obtain ks where ks: "rmap ?f banks = Inr ks" using rmap_exI[of banks ?f] by blast
    have "0 \<le> k \<and> k < ?sizes ! i" if k: "k \<in> set ks" for k
    proof -
      obtain b ys where "b \<in> set banks" "decode_bank (length ps) (map PInt cs) b = Inr ys" "k = ys ! p"
        using k by (auto simp: rmap_set[OF ks] rbind_Inr_iff)
      with dec[of b] have "coords_in cs ys" by simp
      with coords_in_nth[of cs ys p] pp pc(3) lev \<open>k = ys ! p\<close> show ?thesis by auto
    qed
    moreover have "ks \<noteq> []" using rmap_length[OF ks] banks(2) by auto
    ultimately show ?thesis using eq ks by simp
  qed
qed

end
