(* ===== verification/Concrete_Files.thy ===== *)
theory Concrete_Files
  imports Concrete_Facts
begin

text \<open>
  Compact records, files and host addresses of concrete traces: \<open>slim_record\<close> is a normal
  form; sorting the keys of a document, which is all that writing and reading a file does to it,
  changes no check; a validated host record stays below the capacity on every repetition.
\<close>

section \<open>Compact records\<close>

lemma slim_record_Inr:
  assumes "slim_record r = Inr s"
  shows "\<forall>kv \<in> set s. fst kv \<notin> set SLIM_DROP"
    and "k \<noteq> ''sem'' \<Longrightarrow> dget s k = (if k \<in> set SLIM_DROP then None else dget r k)"
proof -
  let ?slim = "filter (\<lambda>kv. fst kv \<notin> set SLIM_DROP) r"
  have sem: "''sem'' \<notin> set SLIM_DROP" by (simp add: SLIM_DROP_def)
  have s: "s = ?slim \<or> (\<exists>v. s = dset ''sem'' v ?slim)"
    using assms by (auto simp: slim_record_def Let_def split: pyval.splits if_splits)
  have "fst ` set (dset ''sem'' v ?slim) = insert ''sem'' (fst ` set ?slim)" for v by (rule dkeys_dset)
  with s have "fst ` set s \<subseteq> insert ''sem'' (fst ` set ?slim)" by auto
  then show "\<forall>kv \<in> set s. fst kv \<notin> set SLIM_DROP" using sem by fastforce
  show "dget s k = (if k \<in> set SLIM_DROP then None else dget r k)" if "k \<noteq> ''sem''"
    using s that map_of_filter_key[of "\<lambda>k. k \<notin> set SLIM_DROP" r k]
    by (auto simp: dget_dset)
qed

lemma slim_no_provenance:
  assumes "slim_record r = Inr s"
  shows "\<not> has s ''provenance''"
  using slim_record_Inr(2)[OF assms, of "''provenance''"] by (simp add: has_def SLIM_DROP_def)

lemma slim_record_idem:
  assumes "slim_record r = Inr s"
  shows "slim_record s = Inr s"
proof -
  have "filter (\<lambda>kv. fst kv \<notin> set SLIM_DROP) s = s" by (rule filter_True[OF slim_record_Inr(1)[OF assms]])
  moreover have "dgetd s ''provenance'' PNone = PNone"
    using slim_no_provenance[OF assms] by (simp add: has_def dgetd_def)
  ultimately show ?thesis by (simp add: slim_record_def Let_def dgetd_def)
qed

lemma slimmed_slim: "slim_record r = Inr s \<Longrightarrow> slimmed s = Inr s"
  using slim_no_provenance[of r s] by (simp add: slimmed_def)

section \<open>Documents with sorted keys\<close>

lemma map_of_sort_key: fixes d :: "('a::linorder \<times> 'b) list" shows "map_of (sort_key fst d) k = map_of d k"
proof -
  have f: "map_of e k = map_of (filter (\<lambda>kv. fst kv = k) e) k" for e :: "('a::linorder \<times> 'b) list"
    by (induction e) auto
  have "filter (\<lambda>kv. fst kv = k) (sort_key fst d) = filter (\<lambda>kv. fst kv = k) d" by (rule sort_key_stable)
  then show ?thesis by (metis f)
qed

text \<open>\<open>r'\<close> is \<open>r\<close> as a file gives it back.\<close>

definition same_doc :: "dict \<Rightarrow> dict \<Rightarrow> bool" where
  "same_doc r' r \<longleftrightarrow> (\<forall>k. dget r' k = map_option json_value (dget r k))"

lemma map_of_json: "map_of (map (\<lambda>(k, v). (k, json_value v)) d) k = map_option json_value (map_of d k)"
  by (induction d) auto

lemma same_doc_json: "json_value (PDict r) = PDict r' \<Longrightarrow> same_doc r' r"
  by (auto simp: same_doc_def map_of_sort_key map_of_json)

lemma json_value_simps [simp]:
  "is_int (json_value v) = is_int v" "hashable (json_value v) = hashable v" "nonneg_int (json_value v) = nonneg_int v"
  "positive_int (json_value v) = positive_int v" "nonneg_bank (json_value v) = nonneg_bank v"
  "py_int (json_value v) = py_int v" "truthy (json_value v) = truthy v" "num_of (json_value v) = num_of v"
  "json_value v = PNone \<longleftrightarrow> v = PNone" "json_value v = PStr s \<longleftrightarrow> v = PStr s" "json_value v = PInt i \<longleftrightarrow> v = PInt i"
  by (cases v; auto simp: py_int_def dest: arg_cong[of _ _ length])+

lemma json_value_int: "is_int v \<Longrightarrow> json_value v = v" "nonneg_int v \<Longrightarrow> json_value v = v" "positive_int v \<Longrightarrow> json_value v = v"
  by (cases v; simp)+

lemma json_value_ints: "list_all is_int vs \<Longrightarrow> map json_value vs = vs"
  by (induction vs) (simp_all add: json_value_int)

lemma list_all_json [simp]:
  "list_all is_int (map json_value vs) = list_all is_int vs"
  "list_all nonneg_int (map json_value vs) = list_all nonneg_int vs"
  "list_all nonneg_bank (map json_value vs) = list_all nonneg_bank vs"
  by (simp_all add: list.pred_map comp_def)

lemma int_value_json [simp]: "int_value (json_value v) = int_value v"
  by (simp add: int_value_def)

lemma py_items_json [simp]: "py_items (json_value v) = map json_value (py_items v)"
  by (cases v) (simp_all add: py_items_def)

lemma py_index_json [simp]: "py_index (map json_value vs) (PInt i) = py_index vs (PInt i)"
  by (induction vs) (simp_all add: py_eq_PInt_iff)

lemma rmap_map: "rmap f (map g xs) = rmap (\<lambda>x. f (g x)) xs"
  by (induction xs) simp_all

lemma decode_bank_json [simp]: "decode_bank n (map json_value cs) (json_value b) = decode_bank n cs b"
  by (simp add: decode_bank_def take_map rmap_map cong: if_cong)

section \<open>The checks do not see the order of the keys\<close>

lemma same_doc_has: "same_doc r' r \<Longrightarrow> has r' = has r"
  by (simp add: fun_eq_iff same_doc_def has_def)

lemma same_doc_dgetd: "same_doc r' r \<Longrightarrow> json_value v = v \<Longrightarrow> dgetd r' k v = json_value (dgetd r k v)"
  by (simp add: same_doc_def dgetd_def split: option.split)

lemma check_opcode_json [simp]: "check_opcode (json_value v) = check_opcode v"
  by (cases v) (simp_all add: check_opcode_def)

lemma check_repeat_json [simp]: "check_repeat (json_value v) = check_repeat v"
  by (cases v) (simp_all add: check_repeat_def)

lemma check_addr_vec_json [simp]: "check_addr_vec (json_value v) lay = check_addr_vec v lay"
proof (cases v)
  case (PList vs)
  then show ?thesis by (cases "list_all is_int vs") (simp_all add: check_addr_vec_def json_value_ints)
qed (simp_all add: check_addr_vec_def)

lemma check_optional_json:
  "same_doc r' r \<Longrightarrow> (\<And>v. ok (json_value v) = ok v) \<Longrightarrow> check_optional r' f ok e = check_optional r f ok e"
  by (simp add: check_optional_def same_doc_def split: option.split)

lemma check_bank_sequence_json: "same_doc r' r \<Longrightarrow> check_bank_sequence r' = check_bank_sequence r"
proof -
  have "(case json_value v of
          PList bs \<Rightarrow> if bs = [] then Inl BankSequenceShape else require (list_all nonneg_bank bs) BankSequenceNegative
        | _ \<Rightarrow> Inl BankSequenceShape) =
      (case v of
          PList bs \<Rightarrow> if bs = [] then Inl BankSequenceShape else require (list_all nonneg_bank bs) BankSequenceNegative
        | _ \<Rightarrow> Inl BankSequenceShape)" for v
    by (cases v) simp_all
  then show "check_bank_sequence r' = check_bank_sequence r" if "same_doc r' r"
    using that by (simp add: check_bank_sequence_def same_doc_def split: option.split)
qed

lemma check_addr_byte_json:
  assumes "same_doc r' r"
  shows "check_addr_byte r' op rep vs lay = check_addr_byte r op rep vs lay"
proof -
  have "dget r' k = map_option json_value (dget r k)" for k using assms by (simp add: same_doc_def)
  then show ?thesis
    unfolding check_addr_byte_def same_doc_has[OF assms]
    by (cases "dget r ''addr_byte''"; cases "dget r ''addr_byte_stride''") (auto simp: json_value_int intro!: rbind_cong)
qed

lemma int_field_json: "same_doc r' r \<Longrightarrow> int_field r' f = int_field r f"
  by (simp add: fun_eq_iff int_field_def same_doc_def split: option.split)

lemma level_field_json: "same_doc r' r \<Longrightarrow> level_field r' names f n = level_field r names f n"
  by (simp only: level_field_def int_field_json)

lemma check_bank_pair_json [simp]:
  "check_bank_pair names sizes row col (json_value bp) (json_value bc) = check_bank_pair names sizes row col bp bc"
proof (cases "\<exists>ps cs. bp = PList ps \<and> bc = PList cs")
  case True
  then obtain ps cs where "bp = PList ps" "bc = PList cs" by blast
  then show ?thesis
    by (cases "list_all is_int ps \<and> list_all is_int cs") (auto simp: check_bank_pair_def json_value_ints)
next
  case False
  then show ?thesis by (cases bp; cases bc) (simp_all add: check_bank_pair_def)
qed

lemma total_banks_json: "same_doc r' r \<Longrightarrow> total_banks r' names sizes row col = total_banks r names sizes row col"
  using level_field_json[of r' r] by (simp add: total_banks_def same_doc_def split: option.split)

lemma bank_numbers_json: "same_doc r' r \<Longrightarrow> bank_numbers r' = bank_numbers r"
proof -
  have "(case json_value v of PList bs \<Rightarrow> map (the \<circ> py_int) bs | _ \<Rightarrow> []) =
      (case v of PList bs \<Rightarrow> map (the \<circ> py_int) bs | _ \<Rightarrow> [])" for v
    by (cases v) simp_all
  then show "bank_numbers r' = bank_numbers r" if "same_doc r' r"
    using that by (auto simp: bank_numbers_def same_doc_def split: option.split)
qed

lemma check_sem_json: "same_doc r' r \<Longrightarrow> check_sem r' = check_sem r"
proof -
  have "(case json_value v of PDict d \<Rightarrow> require (has d ''id'') SemNoId | _ \<Rightarrow> Inl SemNotMap) =
      (case v of PDict d \<Rightarrow> require (has d ''id'') SemNoId | _ \<Rightarrow> Inl SemNotMap)" for v
    by (cases v) (simp_all add: has_def map_of_sort_key map_of_json)
  then show "check_sem r' = check_sem r" if "same_doc r' r"
    using that by (simp add: check_sem_def same_doc_def split: option.split)
qed

lemma validated_json:
  assumes "same_doc r' r"
  shows "validated r' lay = validated r lay"
proof -
  have "check_fields r' = check_fields r" by (simp add: check_fields_def same_doc_has[OF assms])
  moreover have "check_interleave_fields r' op = check_interleave_fields r op" for op
    unfolding check_interleave_fields_def check_bank_sequence_json[OF assms]
    by (simp only: check_optional_json[OF assms] json_value_simps same_doc_has[OF assms])
  moreover have "check_bank_ranges r' lay = check_bank_ranges r lay"
    by (simp add: check_bank_ranges_def same_doc_has[OF assms] level_field_json[OF assms] int_field_json[OF assms]
        total_banks_json[OF assms] bank_numbers_json[OF assms] cong: if_cong option.case_cong)
  ultimately show ?thesis
    by (simp add: validated_def same_doc_dgetd[OF assms] check_addr_byte_json[OF assms] check_sem_json[OF assms])
qed

lemma record_rank_ids_json:
  assumes "same_doc r' r"
  shows "record_rank_ids r' lay = record_rank_ids r lay"
  by (simp add: record_rank_ids_def same_doc_dgetd[OF assms] rmap_map Let_def cong: if_cong option.case_cong)

lemma sequence_step_json:
  assumes "same_doc r' r" and "\<not> has r ''provenance''"
  shows "sequence_step lay limit st r' = sequence_step lay limit st r"
proof -
  have "slimmed r' = Inr r'" "slimmed r = Inr r"
    using assms(2) same_doc_has[OF assms(1)] by (simp_all add: slimmed_def)
  then show ?thesis
    by (simp only: sequence_step_def rbind_Inr validated_json[OF assms(1)] record_rank_ids_json[OF assms(1)])
qed

lemma validate_sequence_json:
  assumes "list_all2 same_doc rs' rs" and "\<forall>r \<in> set rs. \<not> has r ''provenance''"
  shows "validate_sequence rs' lay mx env = validate_sequence rs lay mx env"
proof -
  have "rfold (sequence_step lay limit) st rs' = rfold (sequence_step lay limit) st rs" for limit st
    using assms by (induction arbitrary: st rule: list_all2_induct) (simp_all add: sequence_step_json)
  then show ?thesis by (simp add: validate_sequence_def sequence_run_def)
qed

section \<open>Files\<close>

lemma build_header_Inr:
  "build_header dc = Inr h \<longleftrightarrow>
     (\<exists>v. dget CONCRETE_SCHEMA_VERSIONS dc = Some v \<and> h = [(''schema_version'', PStr v), (''dram_class'', PStr dc)])"
  by (auto simp: build_header_def validate_header_def split: option.splits)

lemma validate_header_same:
  assumes "build_header dc = Inr h" and "same_doc h' h" and "expected = None \<or> expected = Some dc"
  shows "validate_header (PDict h') expected = Inr ()"
  using assms by (auto simp: build_header_Inr same_doc_def validate_header_def)

lemma json_dict: "\<exists>r'. json_value (PDict r) = PDict r' \<and> same_doc r' r"
  using same_doc_json[of r] by simp

lemma record_lines:
  "\<exists>rs'. rmap record_of_line (map (\<lambda>r. DocLine (json_value (PDict r))) rs) = Inr rs' \<and> list_all2 same_doc rs' rs"
proof (induction rs)
  case (Cons r rs)
  then obtain rs' where "rmap record_of_line (map (\<lambda>r. DocLine (json_value (PDict r))) rs) = Inr rs'"
    "list_all2 same_doc rs' rs" by blast
  moreover obtain r' where "json_value (PDict r) = PDict r'" "same_doc r' r" using json_dict by blast
  ultimately show ?case by (intro exI[of _ "r' # rs'"]) simp
qed simp

lemma read_written:
  assumes w: "write_jsonl rs lay mx env dc = Inr lines" and e: "expected = None \<or> expected = Some dc"
  obtains h slims h' rs' where "build_header dc = Inr h" "rmap slim_record rs = Inr slims"
    "read_jsonl lines lay mx env expected = Inr (PDict h', rs')" "same_doc h' h" "list_all2 same_doc rs' slims"
proof -
  obtain h slims where h: "build_header dc = Inr h" and slims: "rmap slim_record rs = Inr slims"
    and v: "validate_sequence slims lay mx env = Inr ()"
    and lines: "lines = DocLine (json_value (PDict h)) # map (\<lambda>r. DocLine (json_value (PDict r))) slims"
    using w by (auto simp: write_jsonl_def rbind_Inr_iff)
  obtain h' where h': "json_value (PDict h) = PDict h'" "same_doc h' h" using json_dict by blast
  obtain rs' where rs': "rmap record_of_line (map (\<lambda>r. DocLine (json_value (PDict r))) slims) = Inr rs'"
    "list_all2 same_doc rs' slims"
    using record_lines by blast
  have "\<not> has s ''provenance''" if "s \<in> set slims" for s
    using that slim_no_provenance by (auto simp: rmap_set[OF slims])
  then have "validate_sequence rs' lay mx env = Inr ()"
    using validate_sequence_json[OF rs'(2)] v by simp
  moreover have "filter (\<lambda>l. l \<noteq> BlankLine) lines = lines" by (simp add: lines filter_map comp_def)
  ultimately have "read_jsonl lines lay mx env expected = Inr (PDict h', rs')"
    using validate_header_same[OF h h'(2) e] rs'(1)
    by (simp add: read_jsonl_def lines h'(1) del: json_value.simps)
  with h slims h' rs' show thesis by (intro that) simp_all
qed

section \<open>Host records\<close>

definition layout_map :: "layout \<Rightarrow> int \<Rightarrow> addr_error + int list" where
  "layout_map ly a =
     addr_vec_from_byte_address (PInt a) (ly_level_names ly) (map PInt (ly_level_sizes ly)) (ly_prefetch ly) (ly_tx_bytes ly)"

definition layout_ok :: "layout \<Rightarrow> bool" where
  "layout_ok ly \<longleftrightarrow> geometry_ok (ly_level_names ly) (ly_level_sizes ly) (ly_prefetch ly) (ly_tx_bytes ly)"

lemma layout_map_range:
  assumes "layout_ok ly" and "layout_map ly a = Inr xs" and "layout_map ly b = Inr ys" and "a \<le> c" "c \<le> b"
  shows "is_ok (layout_map ly c)"
  using assms(2-5) addr_vec_value[OF assms(1)[unfolded layout_ok_def]] by (auto simp: layout_map_def split: if_splits)

lemma host_record:
  assumes ok: "layout_ok ly" and v: "validated r (Some ly) = Inr (op, n, vs)" and host: "is_host op"
  shows "\<exists>a xs. dget r ''addr_byte'' = Some (PInt a) \<and> layout_map ly a = Inr xs \<and> vs = map PInt xs \<and>
    (\<forall>s. dget r ''addr_byte_stride'' = Some s \<longrightarrow>
       (\<exists>d > 0. s = PInt d \<and> (\<forall>i. 0 \<le> i \<and> i < n \<longrightarrow> is_ok (layout_map ly (a + i * d)))))"
proof -
  have c: "check_addr_byte r op n vs (Some ly) = Inr ()" using v by (simp add: validated_Inr)
  then obtain ab where ab: "dget r ''addr_byte'' = Some ab" "nonneg_int ab"
    using host by (auto simp: check_addr_byte_def rbind_Inr_iff has_def split: if_splits)
  then obtain a where a: "ab = PInt a" by (auto simp: nonneg_int_iff)
  have "\<exists>xs. trace_addr_vec (PInt a) (Some (length vs)) (Some ly) = Inr xs \<and> vs = map PInt xs"
    using c host ab by (auto simp: check_addr_byte_def rbind_Inr_iff a split: if_splits)
  then obtain xs where xs: "layout_map ly a = Inr xs" "vs = map PInt xs"
    by (auto simp: trace_addr_vec_def layout_map_def split: if_splits)
  have "\<exists>d > 0. s = PInt d \<and> (\<forall>i. 0 \<le> i \<and> i < n \<longrightarrow> is_ok (layout_map ly (a + i * d)))"
    if s: "dget r ''addr_byte_stride'' = Some s" for s
  proof -
    have "positive_int s" and e: "\<exists>ys. trace_addr_vec (PInt (a + (n - 1) * the (py_int s))) (Some (length vs)) (Some ly) = Inr ys"
      using c ab s by (auto simp: check_addr_byte_def rbind_Inr_iff a split: if_splits)
    then obtain d where d: "s = PInt d" "0 < d" by (auto simp: positive_int_iff)
    obtain ys where ys: "layout_map ly (a + (n - 1) * d) = Inr ys"
      using e by (auto simp: trace_addr_vec_def layout_map_def d split: if_splits)
    have "is_ok (layout_map ly (a + i * d))" if "0 \<le> i" "i < n" for i
      by (rule layout_map_range[OF ok xs(1) ys]) (use that d(2) in simp_all)
    with d show ?thesis by blast
  qed
  with ab a xs show ?thesis by auto
qed

end
