(* ===== verification/Concrete_Properties.thy ===== *)
theory Concrete_Properties
  imports Concrete_Files
begin

text \<open>
  The properties of concrete PIM traces: which sequences are accepted, what an accepted sequence
  guarantees about modes, budget, ranks and addresses, and that files round-trip.
\<close>

section \<open>Sequences\<close>

text \<open>
  C9: the mode protocol is a product of independent ranks. A sequence is accepted exactly when
  the budget is positive and covers the expanded records, every record passes its checks, and on
  every rank the operations that touch it form a run of the four-phase machine. The two
  dictionaries of the code refine that machine.
\<close>

theorem sequence_accepts_iff:
  "validate_sequence rs lay mx env = Inr () \<longleftrightarrow>
     (\<exists>limit evs. expanded_limit mx env = Inr limit \<and> rmap (record_event lay) rs = Inr evs \<and>
        sum_list (map fst evs) \<le> limit \<and> (\<forall>k. phase_run Single (ops_at (map snd evs) k) \<noteq> None))"
  by (rule validate_sequence_iff)

lemma accepted_prefix:
  assumes "validate_sequence rs lay mx env = Inr ()" and "i < length rs" and "record_event lay (rs ! i) = Inr (n, op, ks)"
    and "k \<in> set ks"
  obtains evs p where "rmap (record_event lay) (take i rs) = Inr evs"
    "phase_run Single (ops_at (map snd evs) k) = Some p" "phase_step p op \<noteq> None"
proof -
  obtain evs where evs: "rmap (record_event lay) rs = Inr evs"
    and run: "phase_run Single (ops_at (map snd evs) k) \<noteq> None"
    using assms(1) unfolding validate_sequence_iff by blast
  have "rs = take i rs @ rs ! i # drop (Suc i) rs" using assms(2) by (rule id_take_nth_drop)
  then have "rmap (record_event lay) (take i rs @ rs ! i # drop (Suc i) rs) = Inr evs" using evs by simp
  then obtain es fs where es: "rmap (record_event lay) (take i rs) = Inr es" and "evs = es @ (n, op, ks) # fs"
    by (auto simp: rmap_append rbind_Inr_iff assms(3))
  with run assms(4) have "\<exists>p. phase_run Single (ops_at (map snd es) k) = Some p \<and> phase_step p op \<noteq> None"
    by (auto simp: local_run_append split: option.splits)
  then show thesis using that[OF es] by metis
qed

text \<open>
  C10: the history of an operation. In an accepted sequence an all-bank multiply on a rank follows
  a \<open>HAB_PIM\<close> on that rank that follows a broadcast to it, with no return to another mode after
  either; a \<open>HAB_PIM\<close> follows a broadcast with no mode change since; host accesses and per-bank
  multiplies find every \<open>HAB\<close> of their rank undone by an \<open>SB\<close>.
\<close>

theorem operation_history:
  assumes "validate_sequence rs lay mx env = Inr ()" and "i < length rs"
    and "record_event lay (rs ! i) = Inr (n, op, ks)" and "k \<in> set ks"
  shows "\<exists>evs. rmap (record_event lay) (take i rs) = Inr evs \<and>
    (op = ''PIM_MAC_AB'' \<longrightarrow> compute_entered (ops_at (map snd evs) k) \<and> broadcast_pending (ops_at (map snd evs) k)) \<and>
    (op = ''HAB_PIM'' \<longrightarrow> broadcast_pending (ops_at (map snd evs) k)) \<and>
    (op \<in> {''READ'', ''WRITE'', ''PIM_MAC''} \<longrightarrow> single_bank (ops_at (map snd evs) k))"
proof -
  obtain evs p where evs: "rmap (record_event lay) (take i rs) = Inr evs"
    and run: "phase_run Single (ops_at (map snd evs) k) = Some p" and step: "phase_step p op \<noteq> None"
    by (rule accepted_prefix[OF assms])
  note h = phase_history[OF run]
  have 1: "p = Compute" if "op = ''PIM_MAC_AB''"
    using step unfolding that phase_step_simps by (simp split: if_splits)
  have 2: "p = Loaded \<or> p = Compute" if "op = ''HAB_PIM''"
    using step unfolding that phase_step_simps by (simp split: if_splits)
  have 3: "p = Single" if "op \<in> {''READ'', ''WRITE'', ''PIM_MAC''}"
    using step that by (elim insertE emptyE) (simp_all add: phase_step_simps(1-3) split: if_splits)
  show ?thesis
  proof (intro exI[of _ evs] conjI impI)
    show "compute_entered (ops_at (map snd evs) k)" "broadcast_pending (ops_at (map snd evs) k)"
      if "op = ''PIM_MAC_AB''"
      using h 1[OF that] by simp_all
    show "broadcast_pending (ops_at (map snd evs) k)" if "op = ''HAB_PIM''"
      using h 2[OF that] by (elim disjE) simp_all
    show "single_bank (ops_at (map snd evs) k)" if "op \<in> {''READ'', ''WRITE'', ''PIM_MAC''}"
      using h 3[OF that] by simp
  qed (rule evs)
qed

definition demo_layout :: layout where
  "demo_layout =
     \<lparr>ly_dram_class = ''LPDDR5PIM'', ly_level_names = [''Channel'', ''Rank'', ''Bank'', ''Row'', ''Column''],
      ly_level_sizes = [1, 2, 4, 16, 64], ly_address_level_sizes = [1, 2, 4, 16, 4], ly_channel_pos = 0, ly_rank_pos = 1,
      ly_bank_positions = [1, 2], ly_bank_counts = [2, 4], ly_controller_bank_positions = [1, 2],
      ly_controller_bank_counts = [2, 4], ly_total_bank_units = 8, ly_row_pos = 3, ly_col_pos = 4, ly_num_rows = 16,
      ly_num_cols = 64, ly_prefetch = 16, ly_num_cls = 4, ly_tx_bytes = 32, ly_capacity_bytes = 16384\<rparr>"

definition demo_record :: "string \<Rightarrow> int \<Rightarrow> dict \<Rightarrow> dict" where
  "demo_record op rank more_fields =
     [(''opcode'', PStr op), (''repeat'', PInt 2), (''addr_vec'', PList [PInt 0, PInt rank, PInt 0, PInt 0, PInt 3])] @ more_fields"

definition demo_trace :: "dict list" where
  "demo_trace =
     [demo_record ''HAB'' 1 [], demo_record ''PIM_BCAST'' 1 [],
      demo_record ''READ'' 0 [(''addr_byte'', PInt 100), (''addr_byte_stride'', PInt 32)],
      demo_record ''HAB_PIM'' 1 [], demo_record ''PIM_MAC_AB'' 1 []]"

lemma demo_trace_ok: "validate_sequence demo_trace (Some demo_layout) (Some 10) None = Inr ()"
  by code_simp

theorem operation_history_witness:
  "\<exists>evs. rmap (record_event (Some demo_layout)) (take 4 demo_trace) = Inr evs \<and>
     compute_entered (ops_at (map snd evs) 1) \<and> broadcast_pending (ops_at (map snd evs) 1)"
proof -
  have e: "4 < length demo_trace" "record_event (Some demo_layout) (demo_trace ! 4) = Inr (2, ''PIM_MAC_AB'', [1])"
    by code_simp+
  show ?thesis using operation_history[OF demo_trace_ok e, of 1] by auto
qed

lemma slimmed_repeat: "slimmed r = Inr s \<Longrightarrow> dget s ''repeat'' = dget r ''repeat''"
  using slim_record_Inr(2)[of r s "''repeat''"] by (auto simp: slimmed_def SLIM_DROP_def split: if_splits)

lemma record_event_repeat: "record_event lay r = Inr (n, op, ks) \<Longrightarrow> dget r ''repeat'' = Some (PInt n)"
  by (auto simp: record_event_def rbind_Inr_iff validated_Inr check_repeat_Inr dgetd_def
      dest!: slimmed_repeat split: option.splits)

text \<open>
  The budget. The records of an accepted sequence have an expanded count, and it is at
  least their number and at most the budget in force.
\<close>

theorem accepted_within_budget:
  assumes "validate_sequence rs lay mx env = Inr ()"
  shows "\<exists>limit n. expanded_limit mx env = Inr limit \<and> expanded_record_count rs = Inr n \<and>
    int (length rs) \<le> n \<and> n \<le> limit"
proof -
  obtain limit evs where l: "expanded_limit mx env = Inr limit" and evs: "rmap (record_event lay) rs = Inr evs"
    and le: "sum_list (map fst evs) \<le> limit"
    using assms unfolding validate_sequence_iff by blast
  let ?count = "\<lambda>r. case dget r ''repeat'' of None \<Rightarrow> Inl (MissingKey ''repeat'') | Some v \<Rightarrow> int_value v"
  have "rmap ?count rs = Inr (map fst evs) \<and> int (length rs) \<le> sum_list (map fst evs)"
    using evs
  proof (induction rs arbitrary: evs)
    case Nil
    then show ?case by simp
  next
    case (Cons r rs)
    then obtain n op ks es where r: "record_event lay r = Inr (n, op, ks)" "rmap (record_event lay) rs = Inr es"
      "evs = (n, op, ks) # es"
      by (auto simp: rbind_Inr_iff)
    with Cons.IH[OF r(2)] record_event_pos[OF r(1)] record_event_repeat[OF r(1)] show ?case by simp
  qed
  with l le show ?thesis by (simp add: expanded_record_count_def)
qed

theorem accepted_within_budget_witness:
  "\<exists>n. expanded_record_count demo_trace = Inr n \<and> 5 \<le> n \<and> n \<le> 10"
  using accepted_within_budget[OF demo_trace_ok] by (auto simp: expanded_limit_def demo_trace_def)

section \<open>Records\<close>

text \<open>
  The ranks of a record that passed its checks can be computed, compact interleaved
  multiplies included, and all are ranks of the layout.
\<close>

theorem validated_ranks_bounded:
  assumes "validated r (Some ly) = Inr (op, rep, vs)" and "list_index (ly_level_names ly) ''Rank'' = Some i"
  shows "\<exists>ks. record_rank_ids r (Some ly) = Inr ks \<and> ks \<noteq> [] \<and> (\<forall>k \<in> set ks. 0 \<le> k \<and> k < ly_level_sizes ly ! i)"
  by (rule validated_ranks[OF assms])

definition demo_mac :: dict where
  "demo_mac = demo_record ''PIM_MAC'' 0
     [(''bank_sequence'', PList [PInt 0, PInt 5]), (''bank_positions'', PList [PInt 1, PInt 2]),
      (''bank_counts'', PList [PInt 2, PInt 4]), (''dependency_count'', PInt 3)]"

theorem validated_ranks_bounded_witness:
  "\<exists>ks. record_rank_ids demo_mac (Some demo_layout) = Inr ks \<and> ks \<noteq> [] \<and> (\<forall>k \<in> set ks. 0 \<le> k \<and> k < 2)"
proof -
  have v: "validated demo_mac (Some demo_layout) =
      Inr (''PIM_MAC'', 2, [PInt 0, PInt 0, PInt 0, PInt 0, PInt 3])"
    by code_simp
  have i: "list_index (ly_level_names demo_layout) ''Rank'' = Some 1" by code_simp
  have "ly_level_sizes demo_layout ! 1 = 2" by (simp add: demo_layout_def)
  with validated_ranks_bounded[OF v i] show ?thesis by simp
qed

text \<open>
  C12: host records name the bytes they touch. A validated read or write has an integer byte
  address, its coordinate is the one the layout maps that address to, and with a stride every
  repetition stays below the capacity.
\<close>

theorem host_record_addresses:
  assumes "layout_ok ly" and "validated r (Some ly) = Inr (op, n, vs)" and "is_host op"
  shows "\<exists>a xs. dget r ''addr_byte'' = Some (PInt a) \<and> layout_map ly a = Inr xs \<and> vs = map PInt xs \<and>
    (\<forall>s. dget r ''addr_byte_stride'' = Some s \<longrightarrow>
       (\<exists>d > 0. s = PInt d \<and> (\<forall>i. 0 \<le> i \<and> i < n \<longrightarrow> is_ok (layout_map ly (a + i * d)))))"
  by (rule host_record[OF assms])

theorem host_record_addresses_witness:
  "layout_map demo_layout 100 = Inr [0, 0, 0, 0, 3] \<and> is_ok (layout_map demo_layout 132)"
proof -
  have ok: "layout_ok demo_layout" by (simp add: layout_ok_def geometry_ok_def demo_layout_def)
  have v: "validated (demo_trace ! 2) (Some demo_layout) = Inr (''READ'', 2, map PInt [0, 0, 0, 0, 3])" by code_simp
  have "dget (demo_trace ! 2) ''addr_byte'' = Some (PInt 100)" "dget (demo_trace ! 2) ''addr_byte_stride'' = Some (PInt 32)"
    by (simp_all add: demo_trace_def demo_record_def)
  moreover have "inj PInt" by (simp add: inj_def)
  ultimately have "layout_map demo_layout 100 = Inr [0, 0, 0, 0, 3]"
    "\<forall>i. 0 \<le> i \<and> i < 2 \<longrightarrow> is_ok (layout_map demo_layout (100 + i * 32))"
    using host_record_addresses[OF ok v] by (auto simp: is_host_def inj_map_eq_map simp del: list.map)
  moreover from this(2) have "is_ok (layout_map demo_layout (100 + 1 * 32))" by (elim allE[of _ 1]) simp
  ultimately show ?thesis by simp
qed

text \<open>
  The compact form. Slimming a record again changes nothing, sequence validation takes it as
  it is, and but for the dropped fields and the source traceability every field is kept.
\<close>

theorem slim_record_normal:
  assumes "slim_record r = Inr s"
  shows "slim_record s = Inr s \<and> slimmed s = Inr s \<and>
    (\<forall>k. k \<noteq> ''sem'' \<longrightarrow> dget s k = (if k \<in> set SLIM_DROP then None else dget r k))"
  using slim_record_idem[OF assms] slimmed_slim[OF assms] slim_record_Inr(2)[OF assms] by simp

theorem slim_record_normal_witness:
  "slim_record [(''opcode'', PStr ''SB''), (''sem'', PDict [(''id'', PStr ''x'')])] =
     Inr [(''opcode'', PStr ''SB''), (''sem'', PDict [(''id'', PStr ''x'')])]"
proof -
  have "slim_record [(''opcode'', PStr ''SB''),
      (''provenance'', PDict [(''semantic_source'', PDict [(''record_id'', PStr ''x'')])])] =
      Inr [(''opcode'', PStr ''SB''), (''sem'', PDict [(''id'', PStr ''x'')])]"
    by code_simp
  from slim_record_normal[OF this] show ?thesis by blast
qed

section \<open>Files\<close>

text \<open>
  C11: files round-trip. What \<open>write_jsonl\<close> writes, \<open>read_jsonl\<close> accepts under the same layout
  and budget, with or without naming the backend, and it returns the header and the compact
  records, every field with the value written.
\<close>

theorem trace_file_roundtrip:
  assumes "write_jsonl rs lay mx env dc = Inr lines" and "expected \<in> {None, Some dc}"
  shows "\<exists>h slims h' rs'. build_header dc = Inr h \<and> rmap slim_record rs = Inr slims \<and>
    read_jsonl lines lay mx env expected = Inr (PDict h', rs') \<and> same_doc h' h \<and> list_all2 same_doc rs' slims"
proof -
  have "expected = None \<or> expected = Some dc" using assms(2) by simp
  then obtain h slims h' rs' where "build_header dc = Inr h" "rmap slim_record rs = Inr slims"
    "read_jsonl lines lay mx env expected = Inr (PDict h', rs')" "same_doc h' h" "list_all2 same_doc rs' slims"
    by (rule read_written[OF assms(1)])
  then show ?thesis by (intro exI conjI)
qed

theorem trace_file_roundtrip_witness:
  "\<exists>lines h' rs'. write_jsonl demo_trace (Some demo_layout) (Some 10) None ''LPDDR6PIM'' = Inr lines \<and>
     read_jsonl lines (Some demo_layout) (Some 10) None None = Inr (PDict h', rs')"
proof -
  have "is_ok (write_jsonl demo_trace (Some demo_layout) (Some 10) None ''LPDDR6PIM'')" by code_simp
  then obtain lines where "write_jsonl demo_trace (Some demo_layout) (Some 10) None ''LPDDR6PIM'' = Inr lines"
    by (auto simp: is_ok_iff)
  with trace_file_roundtrip[OF this, of None] show ?thesis by auto
qed

end
