(* ===== verification/Concrete_Lowering.thy ===== *)
theory Concrete_Lowering
  imports Concrete_Trace
begin

text \<open>
  \<open>workload_surrogate/generate_lpddr5_pim_concrete.py\<close>: the lowering of semantic records into
  concrete PIM opcodes. The lowering keeps the emitted records and, per rank, the mode and
  whether an all-bank load is ready; it inserts the mode changes each operation needs.

  A semantic record is a dictionary. Where the code converts a field by \<open>dict(...)\<close> or
  \<open>list(...)\<close>, a value of another type is refused. Two loops run forever when
  \<open>max_repeat_per_record\<close> is not positive; they are partial functions and a run that does not
  return is the error \<open>LDiverges\<close>. The \<open>notes\<close> of records, prose that compact records drop,
  are empty in the model.
\<close>

datatype lower_error = LTrace trace_error | LRefused string | LType string | LDiverges

definition lift_trace :: "trace_error + 'a \<Rightarrow> lower_error + 'a" where
  "lift_trace m = (case m of Inl e \<Rightarrow> Inl (LTrace e) | Inr a \<Rightarrow> Inr a)"

definition returning :: "'a option \<Rightarrow> lower_error + 'a" where
  "returning r = (case r of None \<Rightarrow> Inl LDiverges | Some a \<Rightarrow> Inr a)"

section \<open>Constants\<close>

definition PER_BANK_COMPUTE_SEMANTIC_KINDS :: "string list" where
  "PER_BANK_COMPUTE_SEMANTIC_KINDS =
     [''PIMCompute'', ''AttentionScore'', ''AttentionContext'', ''FFNProjection'', ''MoERouter'', ''MoEExpertFFN'']"

definition ALL_BANK_LOAD_SEMANTIC_KINDS :: "string list" where
  "ALL_BANK_LOAD_SEMANTIC_KINDS = [''PIMLoadAll'', ''PIMDataMove'']"

definition ALL_BANK_COMPUTE_SEMANTIC_KINDS :: "string list" where
  "ALL_BANK_COMPUTE_SEMANTIC_KINDS = [''PIMComputeAll'']"

definition HOST_SEMANTIC_KINDS :: "string list" where
  "HOST_SEMANTIC_KINDS = [''HostRead'', ''HostWrite'']"

definition SEMANTIC_ONLY_PIM_DATA_MOVE_KINDS :: "string list" where
  "SEMANTIC_ONLY_PIM_DATA_MOVE_KINDS =
     [''dynamic_activation_tile'', ''bank_local_tile_activation'', ''cross_bank_operand_shuffle_accounting'']"

definition SYNTHETIC_ADDRESS_POLICIES :: "string list" where
  "SYNTHETIC_ADDRESS_POLICIES = [''strict_bytes'', ''bounded_surrogate_v1'']"

definition WEIGHT_STATIONARY_COMPUTE_KINDS :: "string list" where
  "WEIGHT_STATIONARY_COMPUTE_KINDS = [''FFNProjection'', ''MoERouter'', ''MoEExpertFFN'']"

section \<open>Fields of a semantic record\<close>

text \<open>\<open>dict(record.get(f, {}))\<close>\<close>

definition sub_dict :: "dict \<Rightarrow> string \<Rightarrow> lower_error + dict" where
  "sub_dict r f =
     (case dgetd r f (PDict []) of
        PDict d \<Rightarrow> Inr d
      | PList [] \<Rightarrow> Inr []
      | PStr [] \<Rightarrow> Inr []
      | _ \<Rightarrow> Inl (LType f))"

text \<open>\<open>list(record.get(f, []))\<close>\<close>

definition sub_list :: "dict \<Rightarrow> string \<Rightarrow> lower_error + pyval list" where
  "sub_list r f = (case dgetd r f (PList []) of PList xs \<Rightarrow> Inr xs | _ \<Rightarrow> Inl (LType f))"

definition to_int :: "string \<Rightarrow> pyval \<Rightarrow> lower_error + int" where
  "to_int f v = (case py_int v of None \<Rightarrow> Inl (LType f) | Some i \<Rightarrow> Inr i)"

text \<open>\<open>int(record.get(f, alt))\<close>\<close>

definition get_int :: "dict \<Rightarrow> string \<Rightarrow> int \<Rightarrow> lower_error + int" where
  "get_int r f alt = to_int f (dgetd r f (PInt alt))"

section \<open>Splitting and streams\<close>

partial_function (option) split_loop :: "int \<Rightarrow> int \<Rightarrow> int list option" where
  "split_loop max_repeat remaining =
     (if remaining \<le> 0 then Some []
      else let chunk = min max_repeat remaining in
        Option.bind (split_loop max_repeat (remaining - chunk)) (\<lambda>chunks. Some (chunk # chunks)))"

definition split_repeat :: "int \<Rightarrow> int \<Rightarrow> lower_error + int list" where
  "split_repeat n max_repeat =
     (if n \<le> 0 then Inl (LRefused ''repeat'')
      else if max_repeat \<le> 0 then Inl (LRefused ''max_repeat'')
      else returning (split_loop max_repeat n))"

text \<open>The literal stream: base, stride and repeat of each chunk.\<close>

partial_function (option) strict_chunks ::
  "int \<Rightarrow> int \<Rightarrow> int \<Rightarrow> int \<Rightarrow> int \<Rightarrow> (int \<times> int \<times> int) list option" where
  "strict_chunks base stride max_repeat remaining offset =
     (if remaining \<le> 0 then Some []
      else let chunk = min max_repeat remaining in
        Option.bind (strict_chunks base stride max_repeat (remaining - chunk) (offset + chunk)) (\<lambda>rest.
        Some ((base + offset * stride, if 1 < chunk then stride else 0, chunk) # rest)))"

text \<open>The stream wrapped into the transactions of the layout.\<close>

partial_function (option) bounded_chunks ::
  "int \<Rightarrow> int \<Rightarrow> int \<Rightarrow> int \<Rightarrow> int \<Rightarrow> int \<Rightarrow> int \<Rightarrow> int \<Rightarrow> int \<Rightarrow> (int \<times> int \<times> int) list option" where
  "bounded_chunks base stride prefetch num tx step max_repeat remaining offset =
     (if remaining \<le> 0 then Some []
      else
        let logical = base + offset * stride;
            start = (logical div prefetch) mod num;
            chunk = (if step = 0 then min max_repeat remaining
                     else min max_repeat (min remaining ((num - 1 - start) div step + 1)));
            concrete_stride = (if step = 0 then 0 else step * tx)
        in Option.bind (bounded_chunks base stride prefetch num tx step max_repeat (remaining - chunk) (offset + chunk))
             (\<lambda>rest. Some ((start * tx, if 1 < chunk then concrete_stride else 0, chunk) # rest)))"

definition host_address_chunks ::
  "int \<Rightarrow> int \<Rightarrow> int \<Rightarrow> int \<Rightarrow> layout option \<Rightarrow> string \<Rightarrow> lower_error + (int \<times> int \<times> int) list" where
  "host_address_chunks base stride count max_repeat lay policy =
     (if count \<le> 0 \<or> max_repeat \<le> 0 then Inl (LRefused ''count'')
      else if policy \<notin> set SYNTHETIC_ADDRESS_POLICIES then Inl (LRefused ''policy'')
      else if policy = ''strict_bytes'' then returning (strict_chunks base stride max_repeat count 0)
      else case lay of
        None \<Rightarrow> Inl (LRefused ''address_layout'')
      | Some ly \<Rightarrow>
          let prefetch = ly_prefetch ly; tx = ly_tx_bytes ly; capacity = ly_capacity_bytes ly in
          if prefetch \<le> 0 \<or> tx \<le> 0 \<or> capacity \<le> 0 \<or> capacity mod tx \<noteq> 0 then Inl (LRefused ''capacity'')
          else if base mod prefetch \<noteq> 0 \<or> stride mod prefetch \<noteq> 0 then Inl (LRefused ''alignment'')
          else
            let num = capacity div tx in
            returning (bounded_chunks base stride prefetch num tx ((stride div prefetch) mod num) max_repeat count 0))"

declare split_loop.simps [code] strict_chunks.simps [code] bounded_chunks.simps [code]

section \<open>Banks and coordinates\<close>

text \<open>Parameters of a lowering; the last two are computed from the layout.\<close>

record low_params =
  lp_size :: int
  lp_bank :: int
  lp_positions :: "int list option"
  lp_counts :: "int list option"
  lp_row :: int
  lp_col :: int
  lp_manifest :: string
  lp_materialize :: bool
  lp_interleave :: bool
  lp_depth :: int
  lp_max_repeat :: int
  lp_mac_mode :: string
  lp_layout :: "layout option"
  lp_policy :: string
  lp_rank_level :: "nat option"
  lp_ranks :: nat

definition decompose_flat_bank ::
  "int \<Rightarrow> int list \<Rightarrow> int list \<Rightarrow> int list \<Rightarrow> bool \<Rightarrow> lower_error + int list" where
  "decompose_flat_bank flat av ps cs controller_order =
     (if flat < 0 \<or> prod_list cs \<le> flat then Inl (LRefused ''flat bank'')
      else
        let order = (if controller_order then sort_key (\<lambda>i. ps ! i) [0..<length ps] else [0..<length ps])
        in Inr (fst (foldl (\<lambda>(av, rest) i. (av[nat (ps ! i) := rest mod cs ! i], rest div cs ! i)) (av, flat) (rev order))))"

definition check_coordinates :: "low_params \<Rightarrow> lower_error + unit" where
  "check_coordinates p =
     (let out = (\<lambda>i. i < 0 \<or> lp_size p \<le> i) in
      if lp_size p \<le> 0 then Inl (LRefused ''addr_vec_size'')
      else if out (lp_bank p) then Inl (LRefused ''bank_level'')
      else if out (lp_row p) then Inl (LRefused ''row_level'')
      else if out (lp_col p) then Inl (LRefused ''col_level'')
      else case (lp_positions p, lp_counts p) of
          (None, None) \<Rightarrow> Inr ()
        | (Some ps, Some cs) \<Rightarrow>
            if length ps \<noteq> length cs \<or> ps = [] then Inl (LRefused ''bank pair'')
            else if \<not> distinct ps then Inl (LRefused ''bank_positions unique'')
            else if lp_row p \<in> set ps \<or> lp_col p \<in> set ps then Inl (LRefused ''bank_positions overlap'')
            else if list_ex out ps then Inl (LRefused ''bank_positions range'')
            else if list_ex (\<lambda>c. c \<le> 0) cs then Inl (LRefused ''bank_counts'')
            else Inr ()
        | _ \<Rightarrow> Inl (LRefused ''bank pair together''))"

text \<open>The fields that fix the row and the column.\<close>

record access_fields =
  af_burst :: int
  af_dependency :: int
  af_row_start :: int
  af_row_count :: int
  af_row :: int
  af_column_start :: int
  af_column :: int

definition access_fields_of :: "dict \<Rightarrow> lower_error + access_fields" where
  "access_fields_of r =
     rbind (sub_dict r ''row_policy'') (\<lambda>row_policy.
     rbind (sub_dict r ''column_policy'') (\<lambda>column_policy.
     rbind (sub_dict r ''dependency_context'') (\<lambda>dep.
     rbind (get_int r ''burst_length'' 1) (\<lambda>burst.
     rbind (get_int dep ''dependency_count'' 1) (\<lambda>dc.
     rbind (get_int row_policy ''row_start'' 0) (\<lambda>row_start.
     rbind (get_int row_policy ''row_count'' 1) (\<lambda>row_count.
     rbind (get_int row_policy ''resolved_row'' row_start) (\<lambda>row.
     rbind (get_int column_policy ''column_start'' 0) (\<lambda>column_start.
     rbind (get_int column_policy ''resolved_column'' column_start) (\<lambda>column.
     Inr \<lparr>af_burst = burst, af_dependency = max 1 dc, af_row_start = row_start, af_row_count = max 1 row_count,
          af_row = row, af_column_start = column_start, af_column = column\<rparr>))))))))))"

definition addr_vec_from_semantic :: "low_params \<Rightarrow> dict \<Rightarrow> string \<Rightarrow> int \<Rightarrow> lower_error + int list" where
  "addr_vec_from_semantic p r kind request =
     rbind (check_coordinates p) (\<lambda>_.
     rbind (access_fields_of r) (\<lambda>a.
     let per_bank = (kind \<in> set PER_BANK_COMPUTE_SEMANTIC_KINDS) in
     rbind (if per_bank then sub_list r ''bank_sequence'' else Inr []) (\<lambda>banks.
     let phase = request div max 1 (af_burst a);
         span = (if per_bank then max 1 (int (length banks)) else 1);
         dep_phase = phase div span;
         row_offset = ((af_row a - af_row_start a) + dep_phase div af_dependency a) mod af_row_count a;
         col_offset = ((af_column a - af_column_start a) + dep_phase) mod af_dependency a;
         av = ((replicate (nat (lp_size p)) 0)[nat (lp_row p) := af_row_start a + row_offset])
                [nat (lp_col p) := af_column_start a + col_offset]
     in
     if per_bank then
       if banks = [] then Inl (LRefused ''bank_sequence'')
       else rbind (to_int ''bank_sequence'' (banks ! nat (phase mod int (length banks)))) (\<lambda>flat.
         if flat < 0 then Inl (LRefused ''bank_sequence entry'')
         else case (lp_positions p, lp_counts p) of
             (Some ps, Some cs) \<Rightarrow>
               rbind (sub_dict r ''mapping_policy'') (\<lambda>m.
               decompose_flat_bank flat av ps cs (dgetd m ''controller_bank_order'' PNone = PStr ''controller''))
           | _ \<Rightarrow> Inr (av[nat (lp_bank p) := flat]))
     else Inr (if lp_positions p = None then av[nat (lp_bank p) := 0] else av))))"

text \<open>The numbers of the address of a weight preload.\<close>

definition semantic_datatype_bytes :: "dict \<Rightarrow> lower_error + int" where
  "semantic_datatype_bytes r =
     rbind (sub_dict r ''datatype_metadata'') (\<lambda>d.
     rbind (case dgetd d ''datatype'' PNone of
              PNone \<Rightarrow> rbind (sub_dict r ''compute_shape'') (\<lambda>s. Inr (dgetd s ''datatype'' (PStr ''int8'')))
            | v \<Rightarrow> Inr v) (\<lambda>datatype.
     Inr (if datatype = PStr ''int8'' then 1 else 2)))"

definition pim_data_move_tx_bytes :: "dict \<Rightarrow> lower_error + int" where
  "pim_data_move_tx_bytes r =
     rbind (sub_dict r ''movement_policy'') (\<lambda>m.
     rbind (get_int m ''materialization_tx_bytes'' 64) (\<lambda>tx.
     if tx \<le> 0 then Inl (LRefused ''materialization_tx_bytes'') else Inr tx))"

definition pim_data_move_materialization_bytes :: "dict \<Rightarrow> lower_error + int" where
  "pim_data_move_materialization_bytes r =
     rbind (sub_dict r ''movement_policy'') (\<lambda>m.
     rbind (get_int m ''movement_elements'' 0) (\<lambda>n.
     if n \<le> 0 then Inl (LRefused ''movement_elements'')
     else rbind (semantic_datatype_bytes r) (\<lambda>b. Inr (max 1 (n * b)))))"

definition context_int :: "dict \<Rightarrow> string \<Rightarrow> int \<Rightarrow> lower_error + int" where
  "context_int r f alt =
     rbind (sub_dict r ''operator_context'') (\<lambda>c.
     case dgetd c f (PInt alt) of PNone \<Rightarrow> Inr alt | v \<Rightarrow> to_int f v)"

text \<open>\<open>str(v)\<close>; no float or container reaches it.\<close>

definition int_str :: "int \<Rightarrow> string" where
  "int_str i = (if i < 0 then CHR ''-'' # digits_of (nat (- i)) else digits_of (nat i))"

definition py_str :: "string \<Rightarrow> pyval \<Rightarrow> lower_error + string" where
  "py_str f v =
     (case v of PStr s \<Rightarrow> Inr s | PNone \<Rightarrow> Inr ''None'' | PBool b \<Rightarrow> Inr (if b then ''True'' else ''False'')
      | PInt i \<Rightarrow> Inr (int_str i) | _ \<Rightarrow> Inl (LType f))"

text \<open>\<open>s.split("_")[-1]\<close>\<close>

definition last_segment :: "string \<Rightarrow> string" where
  "last_segment s = rev (takeWhile (\<lambda>c. c \<noteq> CHR ''_'') (rev s))"

definition op_offset :: "string \<Rightarrow> int" where
  "op_offset s = sum_list (map (\<lambda>(i, c). (int i + 1) * int (of_char c)) (enumerate 0 s)) mod 1000"

definition pim_data_move_materialization_base_byte :: "dict \<Rightarrow> int \<Rightarrow> lower_error + int" where
  "pim_data_move_materialization_base_byte r tx =
     rbind (sub_dict r ''operator_context'') (\<lambda>c.
     rbind (case dget c ''layer_id'' of
              Some v \<Rightarrow> to_int ''layer_id'' v
            | None \<Rightarrow> rbind (py_str ''layer'' (dgetd r ''layer'' (PStr ''layer_00''))) (\<lambda>s.
                to_int ''layer'' (PStr (last_segment s)))) (\<lambda>layer.
     rbind (context_int r ''stage_index'' 0) (\<lambda>stage.
     rbind (context_int r ''tile_id'' 0) (\<lambda>tile.
     rbind (case dgetd c ''expert_id'' PNone of PNone \<Rightarrow> Inr 999 | v \<Rightarrow> to_int ''expert_id'' v) (\<lambda>expert.
     rbind (py_str ''op'' (dgetd r ''op'' (PStr ''''))) (\<lambda>op.
     Inr ((1000000000 + layer * 1000000 + stage * 100000 + expert * 1000 + tile * 10 + op_offset op) * tx)))))))"

end
