(* ===== verification/Concrete_Emission.thy ===== *)
theory Concrete_Emission
  imports Concrete_Lowering
begin

text \<open>
  \<open>lower_semantic_records_to_concrete\<close> of
  \<open>workload_surrogate/generate_lpddr5_pim_concrete.py\<close>: the state of the lowering, the mode
  changes it inserts, and the lowering of each kind of semantic record.
\<close>

section \<open>Emitting a record\<close>

definition CONCRETE_GENERATOR_VERSION :: string where
  "CONCRETE_GENERATOR_VERSION = ''lpddr-pim-opcode-generator-v0.2''"

definition REQUIRED_BOUNDARY_CLAIMS :: "string list" where
  "REQUIRED_BOUNDARY_CLAIMS =
     [''native-lpddr-pim-concrete-opcode-replay'', ''backend-specific-command-validation'', ''simulator-diagnostic'',
      ''non-silicon-calibrated'']"

definition DEFAULT_NON_CLAIMS :: "string list" where
  "DEFAULT_NON_CLAIMS =
     [''not_semantic_workload_replay'', ''not_runtime_replay'', ''not_vllm_replay'', ''not_raw_attacc_schema'',
      ''not_silicon_faithful_pim_bcast_source_or_timing'']"

definition concrete_provenance :: "string \<Rightarrow> string \<Rightarrow> dict" where
  "concrete_provenance source_kind manifest =
     [(''source_kind'', PStr source_kind), (''manifest'', PStr manifest),
      (''generator_version'', PStr (if source_kind = ''generated'' then CONCRETE_GENERATOR_VERSION else ''manual'')),
      (''claim_boundary'', PList (map PStr REQUIRED_BOUNDARY_CLAIMS)), (''non_claims'', PList (map PStr DEFAULT_NON_CLAIMS)),
      (''notes'', PStr '''')]"

definition semantic_provenance :: "dict \<Rightarrow> string \<Rightarrow> lower_error + dict" where
  "semantic_provenance r manifest =
     rbind (sub_dict r ''provenance'') (\<lambda>prov.
     rbind (sub_dict r ''mapping_policy'') (\<lambda>mapping.
     Inr (dupdate (concrete_provenance ''generated'' manifest)
       [(''semantic_source'', PDict
          [(''schema_version'', dgetd r ''schema_version'' PNone), (''record_id'', dgetd r ''record_id'' PNone),
           (''kind'', dgetd r ''kind'' PNone), (''phase'', dgetd r ''phase'' PNone), (''layer'', dgetd r ''layer'' PNone),
           (''op'', dgetd r ''op'' PNone), (''tuple_manifest'', dgetd prov ''tuple_manifest'' PNone),
           (''mapping_policy'', PDict mapping)]),
        (''notes'', PStr '''')])))"

text \<open>\<open>f"op_{n:04d}"\<close>\<close>

definition record_id :: "nat \<Rightarrow> string" where
  "record_id n = (let ds = digits_of n in ''op_'' @ replicate (4 - length ds) (CHR ''0'') @ ds)"

definition concrete_record :: "string \<Rightarrow> string \<Rightarrow> int list \<Rightarrow> int \<Rightarrow> dict \<Rightarrow> dict \<Rightarrow> dict" where
  "concrete_record rid op av rep prov extra =
     dupdate [(''schema_version'', PStr ''lpddr5-pim-opcode-v0.2''), (''record_id'', PStr rid), (''opcode'', PStr op),
       (''repeat'', PInt rep), (''addr_vec'', PList (map PInt av)), (''provenance'', PDict prov), (''notes'', PStr '''')]
       extra"

record low_state =
  low_records :: "dict list"
  low_modes :: "mode list"
  low_loaded :: "bool list"

definition emit ::
  "low_params \<Rightarrow> dict \<Rightarrow> string \<Rightarrow> int list \<Rightarrow> int \<Rightarrow> dict \<Rightarrow> low_state \<Rightarrow> lower_error + low_state" where
  "emit p sem op av rep extra st =
     rbind (semantic_provenance sem (lp_manifest p)) (\<lambda>prov.
     Inr (st\<lparr>low_records := low_records st @ [concrete_record (record_id (length (low_records st))) op av rep prov extra]\<rparr>))"

section \<open>Ranks and modes\<close>

definition rank_id_for :: "low_params \<Rightarrow> int list \<Rightarrow> lower_error + nat" where
  "rank_id_for p av =
     (case lp_rank_level p of
        None \<Rightarrow> Inr 0
      | Some l \<Rightarrow> if av ! l < 0 \<or> int (lp_ranks p) \<le> av ! l then Inl (LRefused ''rank'') else Inr (nat (av ! l)))"

definition rank_addr_vec :: "low_params \<Rightarrow> int list \<Rightarrow> nat \<Rightarrow> int list" where
  "rank_addr_vec p av k = (case lp_rank_level p of None \<Rightarrow> av | Some l \<Rightarrow> av[l := int k])"

definition set_rank :: "nat \<Rightarrow> mode \<Rightarrow> bool \<Rightarrow> low_state \<Rightarrow> low_state" where
  "set_rank k m b st = st\<lparr>low_modes := (low_modes st)[k := m], low_loaded := (low_loaded st)[k := b]\<rparr>"

definition transition_to_single_bank ::
  "low_params \<Rightarrow> dict \<Rightarrow> int list \<Rightarrow> low_state \<Rightarrow> lower_error + low_state" where
  "transition_to_single_bank p sem av st =
     rbind (rank_id_for p av) (\<lambda>k.
     if low_modes st ! k \<noteq> SB
     then rbind (emit p sem ''SB'' av 1 [] st) (\<lambda>st. Inr (set_rank k SB False st))
     else Inr st)"

definition transition_to_host_all_bank ::
  "low_params \<Rightarrow> dict \<Rightarrow> int list \<Rightarrow> low_state \<Rightarrow> lower_error + low_state" where
  "transition_to_host_all_bank p sem av st =
     rbind (rank_id_for p av) (\<lambda>k.
     if low_modes st ! k \<noteq> HAB
     then rbind (emit p sem ''HAB'' av 1 [] st) (\<lambda>st. Inr (set_rank k HAB False st))
     else Inr st)"

definition ensure_all_bank_load ::
  "low_params \<Rightarrow> dict \<Rightarrow> int list \<Rightarrow> low_state \<Rightarrow> lower_error + low_state" where
  "ensure_all_bank_load p sem av st =
     rbind (transition_to_host_all_bank p sem av st) (\<lambda>st.
     rbind (rank_id_for p av) (\<lambda>k.
     if \<not> low_loaded st ! k
     then rbind (emit p sem ''PIM_BCAST'' av 1 [] st) (\<lambda>st. Inr (st\<lparr>low_loaded := (low_loaded st)[k := True]\<rparr>))
     else Inr st))"

definition transition_to_pim_all_bank ::
  "low_params \<Rightarrow> dict \<Rightarrow> int list \<Rightarrow> low_state \<Rightarrow> lower_error + low_state" where
  "transition_to_pim_all_bank p sem av st =
     rbind (rank_id_for p av) (\<lambda>k.
     if low_modes st ! k \<noteq> HAB_PIM
     then
       if low_modes st ! k \<noteq> HAB \<or> \<not> low_loaded st ! k then Inl (LRefused ''PIM mode'')
       else rbind (emit p sem ''HAB_PIM'' av 1 [] st) (\<lambda>st. Inr (st\<lparr>low_modes := (low_modes st)[k := HAB_PIM]\<rparr>))
     else Inr st)"

definition rank_for_flat_bank :: "low_params \<Rightarrow> int list \<Rightarrow> int \<Rightarrow> lower_error + int" where
  "rank_for_flat_bank p av flat =
     rbind (rank_id_for p av) (\<lambda>base.
     case (lp_rank_level p, lp_positions p, lp_counts p) of
       (Some l, Some ps, Some cs) \<Rightarrow>
         if flat < 0 \<or> prod_list cs \<le> flat then Inl (LRefused ''flat bank'')
         else Inr (snd (foldl (\<lambda>(rest, k) (pos, c). (rest div c, if pos = int l then rest mod c else k))
                (flat, int base) (zip (rev ps) (rev cs))))
     | _ \<Rightarrow> Inr (int base))"

definition all_bank_target_ranks :: "low_params \<Rightarrow> int list \<Rightarrow> int list \<Rightarrow> lower_error + int list" where
  "all_bank_target_ranks p av banks =
     (if banks \<noteq> [] then rbind (rmap (rank_for_flat_bank p av) banks) (\<lambda>ks. Inr (sort (remdups ks)))
      else Inr (map int [0..<lp_ranks p]))"

section \<open>Host streams\<close>

text \<open>One pass over a stream: every chunk becomes a read or a write.\<close>

definition emit_stream ::
  "low_params \<Rightarrow> dict \<Rightarrow> string \<Rightarrow> int \<Rightarrow> int \<Rightarrow> int \<Rightarrow> low_state \<Rightarrow> lower_error + low_state" where
  "emit_stream p sem op base stride count st =
     rbind (host_address_chunks base stride count MAX_REPEAT (lp_layout p) (lp_policy p)) (\<lambda>chunks.
     rfold (\<lambda>st (b, s, n).
       rbind (lift_trace (trace_addr_vec (PInt b) (Some (nat (lp_size p))) (lp_layout p))) (\<lambda>av.
       rbind (transition_to_single_bank p sem av st) (\<lambda>st.
       emit p sem op av n
         ((''addr_byte'', PInt b) # (if 1 < n \<and> 0 < s then [(''addr_byte_stride'', PInt s)] else [])) st)))
       st chunks)"

definition emit_passes ::
  "low_params \<Rightarrow> dict \<Rightarrow> string \<Rightarrow> int \<Rightarrow> int \<Rightarrow> int \<Rightarrow> int \<Rightarrow> low_state \<Rightarrow> lower_error + low_state" where
  "emit_passes p sem op base stride count passes st =
     rfold (\<lambda>st i. emit_stream p sem op (base + int i * count * stride) stride count st) st [0..<nat passes]"

definition lower_host :: "low_params \<Rightarrow> dict \<Rightarrow> string \<Rightarrow> low_state \<Rightarrow> lower_error + low_state" where
  "lower_host p sem kind st =
     rbind (sub_dict sem ''address_policy'') (\<lambda>a.
     if list_ex (\<lambda>k. \<not> has a k) [''base_byte'', ''stride_bytes'', ''count''] then Inl (LRefused ''address_policy'')
     else
     rbind (get_int a ''base_byte'' 0) (\<lambda>base.
     rbind (get_int a ''stride_bytes'' 0) (\<lambda>stride.
     rbind (get_int a ''count'' 0) (\<lambda>count.
     rbind (get_int sem ''repeat'' 1) (\<lambda>passes.
     if base < 0 then Inl (LRefused ''base_byte'')
     else if stride \<le> 0 then Inl (LRefused ''stride_bytes'')
     else if count \<le> 0 then Inl (LRefused ''count'')
     else if passes \<le> 0 then Inl (LRefused ''repeat'')
     else emit_passes p sem (if kind = ''HostWrite'' then ''WRITE'' else ''READ'') base stride count passes st)))))"

definition lower_weight :: "low_params \<Rightarrow> dict \<Rightarrow> low_state \<Rightarrow> lower_error + low_state" where
  "lower_weight p sem st =
     (if \<not> lp_materialize p then Inr st
      else if lp_policy p \<noteq> ''bounded_surrogate_v1'' then Inl (LRefused ''weight policy'')
      else
      rbind (pim_data_move_materialization_bytes sem) (\<lambda>total.
      rbind (pim_data_move_tx_bytes sem) (\<lambda>tx.
      let count = max 1 ((total + tx - 1) div tx) in
      rbind (get_int sem ''repeat'' 1) (\<lambda>passes.
      if passes \<le> 0 then Inl (LRefused ''repeat'')
      else
      rbind (pim_data_move_materialization_base_byte sem tx) (\<lambda>base.
      emit_passes p sem ''WRITE'' base tx count passes st)))))"

section \<open>Compute and load records\<close>

definition resolve_mac_mode :: "low_params \<Rightarrow> string \<Rightarrow> string" where
  "resolve_mac_mode p kind =
     (if lp_mac_mode p \<noteq> ''per_kind'' then lp_mac_mode p
      else if kind \<in> set WEIGHT_STATIONARY_COMPUTE_KINDS then ''all_bank'' else ''per_bank'')"

text \<open>One record per chunk, as the splitting loops of the code emit them.\<close>

definition emit_chunks ::
  "low_params \<Rightarrow> dict \<Rightarrow> string \<Rightarrow> int list \<Rightarrow> int list \<Rightarrow> low_state \<Rightarrow> lower_error + low_state" where
  "emit_chunks p sem op av chunks st = rfold (\<lambda>st n. emit p sem op av n [] st) st chunks"

definition lower_all_bank_mac ::
  "low_params \<Rightarrow> dict \<Rightarrow> int list \<Rightarrow> int list \<Rightarrow> int \<Rightarrow> low_state \<Rightarrow> lower_error + low_state" where
  "lower_all_bank_mac p sem base_av banks issues st =
     rbind (all_bank_target_ranks p base_av banks) (\<lambda>ks.
     rfold (\<lambda>st k.
       let av = rank_addr_vec p base_av (nat k) in
       rbind (ensure_all_bank_load p sem av st) (\<lambda>st.
       rbind (transition_to_pim_all_bank p sem av st) (\<lambda>st.
       rbind (returning (split_loop (lp_max_repeat p) issues)) (\<lambda>chunks.
       rbind (emit_chunks p sem ''PIM_MAC_AB'' av chunks st) (\<lambda>st.
       rbind (emit p sem ''SB'' av 1 [] st) (\<lambda>st.
       Inr (set_rank (nat k) SB False st))))))) st ks)"

text \<open>The fields of a compact interleaved multiply, and its emission in chunks.\<close>

definition interleave_extra :: "low_params \<Rightarrow> access_fields \<Rightarrow> int list \<Rightarrow> dict" where
  "interleave_extra p a banks =
     [(''bank_sequence'', PList (map PInt banks)), (''dependency_count'', PInt (af_dependency a)),
      (''row_count'', PInt (af_row_count a)), (''row_start'', PInt (af_row_start a)),
      (''column_start'', PInt (af_column_start a)),
      (''resolved_row_offset'', PInt ((af_row a - af_row_start a) mod af_row_count a)),
      (''resolved_col_offset'', PInt ((af_column a - af_column_start a) mod af_dependency a)),
      (''interleave_depth'', PInt (lp_depth p))] @
     (case (lp_positions p, lp_counts p) of
        (Some ps, Some cs) \<Rightarrow> [(''bank_positions'', PList (map PInt ps)), (''bank_counts'', PList (map PInt cs))]
      | _ \<Rightarrow> [(''bank_level'', PInt (lp_bank p))]) @
     [(''row_level'', PInt (lp_row p)), (''col_level'', PInt (lp_col p))]"

definition emit_interleaved ::
  "low_params \<Rightarrow> dict \<Rightarrow> int list \<Rightarrow> dict \<Rightarrow> int list \<Rightarrow> low_state \<Rightarrow> lower_error + low_state" where
  "emit_interleaved p sem av extra chunks st =
     rbind (rfold (\<lambda>(st, start) n.
         rbind (emit p sem ''PIM_MAC'' av n (extra @ [(''interleave_start_idx'', PInt start)]) st) (\<lambda>st.
         Inr (st, start + n))) (st, 0) chunks)
       (\<lambda>(st, _). Inr st)"

definition lower_compact_mac ::
  "low_params \<Rightarrow> dict \<Rightarrow> int list \<Rightarrow> int list \<Rightarrow> int \<Rightarrow> low_state \<Rightarrow> lower_error + low_state" where
  "lower_compact_mac p sem base_av banks issues st =
     rbind (access_fields_of sem) (\<lambda>a.
     rbind (returning (split_loop (lp_max_repeat p) issues)) (\<lambda>chunks.
     emit_interleaved p sem base_av (interleave_extra p a banks) chunks st))"

definition lower_serial_mac ::
  "low_params \<Rightarrow> dict \<Rightarrow> string \<Rightarrow> int \<Rightarrow> int \<Rightarrow> low_state \<Rightarrow> lower_error + low_state" where
  "lower_serial_mac p sem kind bank_len issues st =
     rfold (\<lambda>st i.
       let per_bank = issues div bank_len + (if int i < issues mod bank_len then 1 else 0) in
       if per_bank = 0 then Inr st
       else
       rbind (addr_vec_from_semantic p sem kind (int i)) (\<lambda>av.
       rbind (transition_to_single_bank p sem av st) (\<lambda>st.
       rbind (split_repeat per_bank MAX_REPEAT) (\<lambda>chunks.
       emit_chunks p sem ''PIM_MAC'' av chunks st)))) st [0..<nat bank_len]"

definition lower_compute ::
  "low_params \<Rightarrow> dict \<Rightarrow> string \<Rightarrow> int list \<Rightarrow> int \<Rightarrow> low_state \<Rightarrow> lower_error + low_state" where
  "lower_compute p sem kind base_av issues st =
     rbind (sub_list sem ''bank_sequence'') (\<lambda>bs.
     rbind (rmap (to_int ''bank_sequence'') bs) (\<lambda>banks.
     let bank_len = max 1 (int (length banks)) in
     if lp_interleave p \<and> 1 < bank_len \<and> resolve_mac_mode p kind = ''all_bank''
     then lower_all_bank_mac p sem base_av banks (max 1 ((issues + bank_len - 1) div bank_len)) st
     else
     rbind (all_bank_target_ranks p base_av banks) (\<lambda>ks.
     rbind (rfold (\<lambda>st k. transition_to_single_bank p sem (rank_addr_vec p base_av (nat k)) st) st ks) (\<lambda>st.
     rbind (if low_records st = [] then emit p sem ''SB'' base_av 1 [] st else Inr st) (\<lambda>st.
     if lp_interleave p \<and> 1 < bank_len then lower_compact_mac p sem base_av banks issues st
     else lower_serial_mac p sem kind bank_len issues st)))))"

definition lower_load :: "low_params \<Rightarrow> dict \<Rightarrow> string \<Rightarrow> int list \<Rightarrow> int \<Rightarrow> low_state \<Rightarrow> lower_error + low_state" where
  "lower_load p sem kind base_av issues st =
     rbind (if kind = ''PIMDataMove''
            then rbind (sub_dict sem ''movement_policy'') (\<lambda>m.
              let mk = dgetd m ''movement_kind'' PNone in
              if \<not> hashable mk then Inl (LType ''movement_kind'')
              else if mk \<in> set (map PStr SEMANTIC_ONLY_PIM_DATA_MOVE_KINDS) then Inr False
              else if mk \<noteq> PStr ''broadcast_or_accounted_tile_load'' then Inl (LRefused ''movement_kind'')
              else Inr True)
            else Inr True) (\<lambda>lowered.
     if \<not> lowered then Inr st
     else
     rbind (split_repeat issues MAX_REPEAT) (\<lambda>chunks.
     rfold (\<lambda>st k.
       let av = rank_addr_vec p base_av k in
       rbind (transition_to_host_all_bank p sem av st) (\<lambda>st.
       rbind (emit_chunks p sem ''PIM_BCAST'' av chunks st) (\<lambda>st.
       Inr (st\<lparr>low_loaded := (low_loaded st)[k := True]\<rparr>)))) st [0..<lp_ranks p]))"

definition lower_all_compute ::
  "low_params \<Rightarrow> dict \<Rightarrow> string \<Rightarrow> int \<Rightarrow> int \<Rightarrow> low_state \<Rightarrow> lower_error + low_state" where
  "lower_all_compute p sem kind requests passes st =
     rfold (\<lambda>st i.
       rbind (addr_vec_from_semantic p sem kind (int i mod requests)) (\<lambda>base_av.
       rfold (\<lambda>st k.
         let av = rank_addr_vec p base_av k in
         rbind (ensure_all_bank_load p sem av st) (\<lambda>st.
         rbind (transition_to_pim_all_bank p sem av st) (\<lambda>st.
         rbind (emit p sem ''PIM_MAC_AB'' av 1 [] st) (\<lambda>st.
         rbind (emit p sem ''SB'' av 1 [] st) (\<lambda>st.
         Inr (set_rank k SB False st)))))) st [0..<lp_ranks p])) st [0..<nat (requests * passes)]"

section \<open>The lowering\<close>

definition lower_pim :: "low_params \<Rightarrow> dict \<Rightarrow> string \<Rightarrow> low_state \<Rightarrow> lower_error + low_state" where
  "lower_pim p sem kind st =
     rbind (get_int sem ''num_requests'' 0) (\<lambda>requests.
     if requests \<le> 0 then Inl (LRefused ''num_requests'')
     else
     rbind (addr_vec_from_semantic p sem kind 0) (\<lambda>base_av.
     rbind (get_int sem ''repeat'' 1) (\<lambda>passes.
     if passes \<le> 0 then Inl (LRefused ''repeat'')
     else if kind \<in> set PER_BANK_COMPUTE_SEMANTIC_KINDS then lower_compute p sem kind base_av (requests * passes) st
     else if kind \<in> set ALL_BANK_LOAD_SEMANTIC_KINDS then lower_load p sem kind base_av (requests * passes) st
     else lower_all_compute p sem kind requests passes st)))"

definition lower_record :: "low_params \<Rightarrow> low_state \<Rightarrow> dict \<Rightarrow> lower_error + low_state" where
  "lower_record p st sem =
     (case dgetd sem ''kind'' PNone of
        PStr kind \<Rightarrow>
          if kind \<notin> set (HOST_SEMANTIC_KINDS @ PER_BANK_COMPUTE_SEMANTIC_KINDS @ ALL_BANK_LOAD_SEMANTIC_KINDS @
              ALL_BANK_COMPUTE_SEMANTIC_KINDS) then Inr st
          else if truthy (dgetd sem ''accounting_only'' PNone) then Inr st
          else if kind \<in> set HOST_SEMANTIC_KINDS then lower_host p sem kind st
          else if kind = ''PIMDataMove'' then
            rbind (sub_dict sem ''movement_policy'') (\<lambda>m.
            if dgetd m ''operand_role'' PNone = PStr ''weight'' then lower_weight p sem st
            else lower_pim p sem kind st)
          else lower_pim p sem kind st
      | v \<Rightarrow> if hashable v then Inr st else Inl (LType ''kind''))"

text \<open>The parameters with the layout's levels and banks in place.\<close>

definition prepare :: "low_params \<Rightarrow> lower_error + low_params" where
  "prepare p =
     (if lp_policy p \<notin> set SYNTHETIC_ADDRESS_POLICIES then Inl (LRefused ''policy'')
      else case lp_layout p of
        None \<Rightarrow> Inr (p\<lparr>lp_rank_level := None, lp_ranks := 1\<rparr>)
      | Some ly \<Rightarrow>
          let names = ly_level_names ly in
          if int (length names) \<noteq> lp_size p then Inl (LRefused ''address_layout'')
          else
          rbind (lift_trace (name_index names ''Rank'')) (\<lambda>rank.
          if length (ly_level_sizes ly) \<le> nat rank then Inl (LType ''level_sizes'')
          else if ly_level_sizes ly ! nat rank \<le> 0 then Inl (LRefused ''Rank'')
          else
          rbind (lift_trace (name_index names ''Row'')) (\<lambda>row.
          rbind (lift_trace (name_index names ''Column'')) (\<lambda>col.
          rbind (lift_trace (name_index names ''Bank'')) (\<lambda>bank.
          let given = (lp_positions p \<noteq> None \<and> lp_counts p \<noteq> None) in
          Inr (p\<lparr>lp_rank_level := Some (nat rank), lp_ranks := nat (ly_level_sizes ly ! nat rank),
                 lp_row := row, lp_col := col, lp_bank := bank,
                 lp_positions := (if given then lp_positions p else Some (map int (ly_bank_positions ly))),
                 lp_counts := (if given then lp_counts p else Some (ly_bank_counts ly))\<rparr>))))))"

definition lower_loop :: "low_params \<Rightarrow> dict list \<Rightarrow> lower_error + dict list" where
  "lower_loop p sems =
     rbind (prepare p) (\<lambda>p.
     if lp_mac_mode p \<notin> {''per_kind'', ''all_bank'', ''per_bank''} then Inl (LRefused ''mac_mode'')
     else
     rbind (rfold (lower_record p)
        \<lparr>low_records = [], low_modes = replicate (lp_ranks p) SB, low_loaded = replicate (lp_ranks p) False\<rparr> sems) (\<lambda>st.
     Inr (low_records st)))"

definition lower_semantic_records ::
  "low_params \<Rightarrow> dict list \<Rightarrow> int option \<Rightarrow> string option \<Rightarrow> lower_error + dict list" where
  "lower_semantic_records p sems max_expanded env =
     rbind (lower_loop p sems) (\<lambda>records.
     rbind (lift_trace (validate_sequence records (lp_layout p) max_expanded env)) (\<lambda>_.
     Inr records))"

end
