(* ===== verification/Lowering_Modes.thy ===== *)
theory Lowering_Modes
  imports Concrete_Emission Concrete_Files
begin

text \<open>
  The lowering keeps the mode protocol: the modes and load flags it tracks per rank are those
  that \<open>validate_sequence\<close> computes from the emitted records, so the final validation never
  refuses a lowering for its order of operations. The lowering is a client of the contract
  \<open>ranked_machine\<close>: its runs are runs of the interpretation \<open>modes\<close>.
\<close>

lemma rfold_inv:
  assumes "rfold f s xs = Inr t" and "P s" and "\<And>s x s'. P s \<Longrightarrow> f s x = Inr s' \<Longrightarrow> P s'"
  shows "P t"
  by (rule rfold_invariant[where P = P, OF _ assms(2,1)]) (rule assms(3))

section \<open>One operation on one rank\<close>

text \<open>What an operation does to the mode and the flag of a rank it is allowed on.\<close>

definition op_effect :: "string \<Rightarrow> mode \<Rightarrow> bool \<Rightarrow> (mode \<times> bool) option" where
  "op_effect op m b =
     (if op = ''READ'' \<or> op = ''WRITE'' \<or> op = ''PIM_MAC'' then (if m = SB then Some (m, b) else None)
      else if op = ''SB'' then Some (SB, False)
      else if op = ''HAB'' then Some (HAB, False)
      else if op = ''PIM_BCAST'' then (if m = HAB then Some (m, True) else None)
      else if op = ''HAB_PIM'' then (if b then Some (HAB_PIM, b) else None)
      else if op = ''PIM_MAC_AB'' then (if m = HAB_PIM \<and> b then Some (m, b) else None)
      else None)"

lemma op_effect_step:
  assumes "op_effect op (mode_at s k) (bcast_at s k) = Some (m, b)"
  obtains s' where "mode_step s op [k] = Inr s'" "\<And>j. mode_at s' j = (if j = k then m else mode_at s j)"
    "\<And>j. bcast_at s' j = (if j = k then b else bcast_at s j)"
proof -
  have "\<exists>s'. mode_step s op [k] = Inr s' \<and> (\<forall>j. mode_at s' j = (if j = k then m else mode_at s j)) \<and>
      (\<forall>j. bcast_at s' j = (if j = k then b else bcast_at s j))"
    using assms by (cases op rule: opcode_cases) (auto simp: op_effect_def mode_step_simps CONCRETE_OPCODES_def split: if_splits)
  then show thesis using that by blast
qed

section \<open>The event of an emitted record\<close>

definition event_of :: "layout \<Rightarrow> dict \<Rightarrow> trace_error + string \<times> int list" where
  "event_of ly r =
     rbind (record_rank_ids r (Some ly)) (\<lambda>ks.
     Inr ((case dgetd r ''opcode'' PNone of PStr s \<Rightarrow> s | _ \<Rightarrow> ''''), ks))"

lemma slimmed_dgetd:
  assumes "slimmed r = Inr s" and "k \<notin> set (''sem'' # SLIM_DROP)"
  shows "dgetd s k v = dgetd r k v"
  using assms slim_record_Inr(2)[of r s k] by (auto simp: slimmed_def dgetd_def split: if_splits)

lemma record_event_of:
  assumes "record_event (Some ly) r = Inr (n, op, ks)"
  shows "event_of ly r = Inr (op, ks)"
proof -
  obtain s vs where s: "slimmed r = Inr s" and v: "validated s (Some ly) = Inr (op, n, vs)"
    and ks: "record_rank_ids s (Some ly) = Inr ks"
    using assms by (auto simp: record_event_def rbind_Inr_iff)
  have same: "dgetd s k w = dgetd r k w"
    if "k \<in> {''opcode'', ''addr_vec'', ''bank_sequence'', ''bank_positions'', ''bank_counts''}" for k w
    using that by (intro slimmed_dgetd[OF s]) (auto simp: SLIM_DROP_def)
  have "record_rank_ids r (Some ly) = Inr ks"
    using ks by (simp add: record_rank_ids_def same cong: if_cong option.case_cong)
  moreover have "dgetd r ''opcode'' PNone = PStr op"
    using v same[of "''opcode''" PNone]
    by (auto simp: validated_Inr check_opcode_def split: pyval.splits if_splits)
  ultimately show ?thesis by (simp add: event_of_def)
qed

text \<open>Keys of an emitted record.\<close>

definition base_keys :: "string list" where
  "base_keys = [''schema_version'', ''record_id'', ''opcode'', ''repeat'', ''addr_vec'', ''provenance'', ''notes'']"

lemma concrete_record_get:
  assumes "distinct (dkeys extra)" and "set (dkeys extra) \<inter> set base_keys = {}"
  shows "dget (concrete_record rid op av n prov extra) ''opcode'' = Some (PStr op)"
    and "dget (concrete_record rid op av n prov extra) ''addr_vec'' = Some (PList (map PInt av))"
    and "k \<notin> set base_keys \<Longrightarrow> dget (concrete_record rid op av n prov extra) k = dget extra k"
proof -
  have none: "dget extra k = None" if "k \<in> set base_keys" for k
    using assms(2) that by (auto simp: dget_None_iff)
  show "dget (concrete_record rid op av n prov extra) ''opcode'' = Some (PStr op)"
    using none[of "''opcode''"] by (simp add: concrete_record_def dget_dupdate[OF assms(1)] base_keys_def)
  show "dget (concrete_record rid op av n prov extra) ''addr_vec'' = Some (PList (map PInt av))"
    using none[of "''addr_vec''"] by (simp add: concrete_record_def dget_dupdate[OF assms(1)] base_keys_def)
  show "dget (concrete_record rid op av n prov extra) k = dget extra k" if "k \<notin> set base_keys"
    using that by (simp add: concrete_record_def dget_dupdate[OF assms(1)] base_keys_def split: option.split)
qed

definition plain_extra :: "dict \<Rightarrow> bool" where
  "plain_extra extra \<longleftrightarrow> distinct (dkeys extra) \<and> set (dkeys extra) \<inter> set (''bank_sequence'' # base_keys) = {}"

lemma event_plain:
  assumes "list_index (ly_level_names ly) ''Rank'' = Some l" and "l < length av" and "plain_extra extra"
  shows "event_of ly (concrete_record rid op av n prov extra) = Inr (op, [av ! l])"
proof -
  have d: "distinct (dkeys extra)" "set (dkeys extra) \<inter> set base_keys = {}" "''bank_sequence'' \<notin> fst ` set extra"
    using assms(3) by (auto simp: plain_extra_def)
  have "dget (concrete_record rid op av n prov extra) ''bank_sequence'' = None"
    using concrete_record_get(3)[OF d(1,2), of "''bank_sequence''"] d(3) by (simp add: base_keys_def dget_None_iff)
  then show ?thesis
    using concrete_record_get(1,2)[OF d(1,2)] assms(1,2)
    by (simp add: event_of_def record_rank_ids_def dgetd_def Let_def)
qed

section \<open>The invariant\<close>

text \<open>The parameters \<open>prepare\<close> returns for a layout.\<close>

definition prepared :: "low_params \<Rightarrow> layout \<Rightarrow> nat \<Rightarrow> bool" where
  "prepared p ly l \<longleftrightarrow>
     lp_layout p = Some ly \<and> list_index (ly_level_names ly) ''Rank'' = Some l \<and> lp_rank_level p = Some l \<and>
     lp_size p = int (length (ly_level_names ly)) \<and> lp_positions p \<noteq> None \<and> lp_counts p \<noteq> None"

definition tracks :: "layout \<Rightarrow> low_state \<Rightarrow> seq_state \<Rightarrow> bool" where
  "tracks ly st s \<longleftrightarrow>
     (\<exists>evs. rmap (event_of ly) (low_records st) = Inr evs \<and> modes.grun init_state evs = Inr s)"

definition low_inv :: "low_params \<Rightarrow> layout \<Rightarrow> low_state \<Rightarrow> bool" where
  "low_inv p ly st \<longleftrightarrow>
     length (low_modes st) = lp_ranks p \<and> length (low_loaded st) = lp_ranks p \<and>
     (\<exists>s. tracks ly st s \<and>
       (\<forall>k < lp_ranks p. mode_at s (int k) = low_modes st ! k \<and> bcast_at s (int k) = low_loaded st ! k))"

lemma prepared_level: "prepared p ly l \<Longrightarrow> l < length (ly_level_names ly)"
  using list_index_lt by (fastforce simp: prepared_def)

lemma rank_id_for_Inr:
  assumes "prepared p ly l" and "rank_id_for p av = Inr k"
  shows "k < lp_ranks p \<and> av ! l = int k"
  using assms by (auto simp: prepared_def rank_id_for_def split: if_splits)

lemma set_rank_simps [simp]:
  "low_records (set_rank k m b st) = low_records st"
  "low_modes (set_rank k m b st) = (low_modes st)[k := m]"
  "low_loaded (set_rank k m b st) = (low_loaded st)[k := b]"
  by (simp_all add: set_rank_def)

lemma set_rank_same: "set_rank k (low_modes st ! k) (low_loaded st ! k) st = st"
  by (simp add: set_rank_def)

lemma emit_Inr:
  assumes "emit p sem op av n extra st = Inr st'"
  shows "low_modes st' = low_modes st \<and> low_loaded st' = low_loaded st \<and>
    (\<exists>rid prov. low_records st' = low_records st @ [concrete_record rid op av n prov extra])"
  using assms by (auto simp: emit_def rbind_Inr_iff) blast

lemma tracks_snoc:
  assumes "tracks ly st s" and "low_records st' = low_records st @ [r]" and "event_of ly r = Inr (op, ks)"
    and "mode_step s op ks = Inr s'"
  shows "tracks ly st' s'"
proof -
  obtain evs where evs: "rmap (event_of ly) (low_records st) = Inr evs" "modes.grun init_state evs = Inr s"
    using assms(1) by (auto simp: tracks_def)
  have "rmap (event_of ly) (low_records st') = Inr (evs @ [(op, ks)])"
    by (simp add: assms(2,3) rmap_append evs(1))
  moreover have "modes.grun init_state (evs @ [(op, ks)]) = Inr s'"
    using evs(2) assms(4) by (simp add: modes.grun_def rfold_append)
  ultimately show ?thesis by (auto simp: tracks_def)
qed

text \<open>Emitting an operation that is allowed on its rank, and recording its effect, keeps the invariant.\<close>

lemma emit_inv:
  assumes prep: "prepared p ly l" and inv: "low_inv p ly st" and av: "length av = nat (lp_size p)"
    and k: "rank_id_for p av = Inr k" and eff: "op_effect op (low_modes st ! k) (low_loaded st ! k) = Some (m, b)"
    and extra: "plain_extra extra" and e: "emit p sem op av n extra st = Inr st'"
  shows "low_inv p ly (set_rank k m b st')"
proof -
  obtain s where s: "tracks ly st s" and agree: "\<And>j. j < lp_ranks p \<Longrightarrow> mode_at s (int j) = low_modes st ! j \<and> bcast_at s (int j) = low_loaded st ! j"
    and len: "length (low_modes st) = lp_ranks p" "length (low_loaded st) = lp_ranks p"
    using inv by (auto simp: low_inv_def)
  have kk: "k < lp_ranks p" "av ! l = int k" using rank_id_for_Inr[OF prep k] by simp_all
  obtain rid prov where st': "low_modes st' = low_modes st" "low_loaded st' = low_loaded st"
    "low_records st' = low_records st @ [concrete_record rid op av n prov extra]"
    using emit_Inr[OF e] by blast
  have ev: "event_of ly (concrete_record rid op av n prov extra) = Inr (op, [int k])"
    using event_plain[OF _ _ extra, of ly l av] prep prepared_level[OF prep] av kk by (simp add: prepared_def)
  have "op_effect op (mode_at s (int k)) (bcast_at s (int k)) = Some (m, b)" using eff agree[OF kk(1)] by simp
  then obtain s' where s': "mode_step s op [int k] = Inr s'" "\<And>j. mode_at s' j = (if j = int k then m else mode_at s j)"
    "\<And>j. bcast_at s' j = (if j = int k then b else bcast_at s j)"
    by (rule op_effect_step) blast
  have "tracks ly (set_rank k m b st') s'"
    by (rule tracks_snoc[OF s _ ev s'(1)]) (simp add: st')
  moreover have "mode_at s' (int j) = (low_modes st)[k := m] ! j \<and> bcast_at s' (int j) = (low_loaded st)[k := b] ! j"
    if "j < lp_ranks p" for j
    using agree[OF that] that kk len by (simp add: s'(2,3) nth_list_update)
  ultimately show ?thesis using len by (auto simp: low_inv_def st')
qed

lemma plain_extra_Nil [simp]: "plain_extra []"
  by (simp add: plain_extra_def)

text \<open>Operations that leave mode and flag as they are, one or many.\<close>

lemma emit_inv_same:
  assumes "prepared p ly l" and "low_inv p ly st" and "length av = nat (lp_size p)" and "rank_id_for p av = Inr k"
    and "op_effect op (low_modes st ! k) (low_loaded st ! k) = Some (low_modes st ! k, low_loaded st ! k)"
    and "plain_extra extra" and e: "emit p sem op av n extra st = Inr st'"
  shows "low_inv p ly st' \<and> low_modes st' = low_modes st \<and> low_loaded st' = low_loaded st"
proof -
  have "low_inv p ly (set_rank k (low_modes st ! k) (low_loaded st ! k) st')" by (rule emit_inv[OF assms])
  moreover have same: "low_modes st' = low_modes st" "low_loaded st' = low_loaded st" using emit_Inr[OF e] by simp_all
  moreover have "set_rank k (low_modes st ! k) (low_loaded st ! k) st' = st'"
    using set_rank_same[of k st'] unfolding same .
  ultimately show ?thesis by (simp only:)
qed

lemma emit_chunks_inv:
  assumes "prepared p ly l" and "length av = nat (lp_size p)" and "rank_id_for p av = Inr k"
    and "low_inv p ly st" and "op_effect op (low_modes st ! k) (low_loaded st ! k) = Some (low_modes st ! k, low_loaded st ! k)"
    and "emit_chunks p sem op av chunks st = Inr st'"
  shows "low_inv p ly st' \<and> low_modes st' = low_modes st \<and> low_loaded st' = low_loaded st"
  using assms(4-6)
proof (induction chunks arbitrary: st)
  case Nil
  then show ?case by (simp add: emit_chunks_def)
next
  case (Cons c cs)
  then obtain st1 where st1: "emit p sem op av c [] st = Inr st1" "emit_chunks p sem op av cs st1 = Inr st'"
    by (auto simp: emit_chunks_def rbind_Inr_iff)
  note 1 = emit_inv_same[OF assms(1) Cons.prems(1) assms(2,3) Cons.prems(2) plain_extra_Nil st1(1)]
  then show ?case using Cons.IH[OF _ _ st1(2)] Cons.prems(2) by simp
qed

section \<open>Transitions\<close>

text \<open>Where the lowering is on a rank after a transition; other ranks in single-bank mode stay there.\<close>

lemma to_single:
  assumes prep: "prepared p ly l" and inv: "low_inv p ly st" and av: "length av = nat (lp_size p)"
    and t: "transition_to_single_bank p sem av st = Inr st'"
  obtains k where "rank_id_for p av = Inr k" "low_inv p ly st'" "low_modes st' ! k = SB"
    "\<And>j. low_modes st ! j = SB \<Longrightarrow> low_modes st' ! j = SB"
proof -
  obtain k where k: "rank_id_for p av = Inr k" using t by (auto simp: transition_to_single_bank_def rbind_Inr_iff)
  have kk: "k < length (low_modes st)" using rank_id_for_Inr[OF prep k] inv by (simp add: low_inv_def)
  show thesis
  proof (cases "low_modes st ! k = SB")
    case True
    then show thesis using that[OF k] t inv by (simp add: transition_to_single_bank_def k)
  next
    case False
    then obtain st1 where e: "emit p sem ''SB'' av 1 [] st = Inr st1" and st': "st' = set_rank k SB False st1"
      using t by (auto simp: transition_to_single_bank_def k rbind_Inr_iff)
    have "low_inv p ly st'"
      unfolding st' by (rule emit_inv[OF prep inv av k _ plain_extra_Nil e]) (simp add: op_effect_def)
    moreover have "low_modes st' = (low_modes st)[k := SB]" using emit_Inr[OF e] by (simp add: st')
    ultimately show thesis using that[OF k] kk by (simp add: nth_list_update)
  qed
qed

lemma to_host_all_bank:
  assumes prep: "prepared p ly l" and inv: "low_inv p ly st" and av: "length av = nat (lp_size p)"
    and t: "transition_to_host_all_bank p sem av st = Inr st'"
  obtains k where "rank_id_for p av = Inr k" "low_inv p ly st'" "low_modes st' ! k = HAB"
proof -
  obtain k where k: "rank_id_for p av = Inr k" using t by (auto simp: transition_to_host_all_bank_def rbind_Inr_iff)
  have kk: "k < length (low_modes st)" using rank_id_for_Inr[OF prep k] inv by (simp add: low_inv_def)
  show thesis
  proof (cases "low_modes st ! k = HAB")
    case True
    then show thesis using that[OF k] t inv by (simp add: transition_to_host_all_bank_def k)
  next
    case False
    then obtain st1 where e: "emit p sem ''HAB'' av 1 [] st = Inr st1" and st': "st' = set_rank k HAB False st1"
      using t by (auto simp: transition_to_host_all_bank_def k rbind_Inr_iff)
    have "low_inv p ly st'"
      unfolding st' by (rule emit_inv[OF prep inv av k _ plain_extra_Nil e]) (simp add: op_effect_def)
    moreover have "low_modes st' = (low_modes st)[k := HAB]" using emit_Inr[OF e] by (simp add: st')
    ultimately show thesis using that[OF k] kk by simp
  qed
qed

lemma to_loaded:
  assumes prep: "prepared p ly l" and inv: "low_inv p ly st" and av: "length av = nat (lp_size p)"
    and t: "ensure_all_bank_load p sem av st = Inr st'"
  obtains k where "rank_id_for p av = Inr k" "low_inv p ly st'" "low_modes st' ! k = HAB" "low_loaded st' ! k"
proof -
  obtain st1 where st1: "transition_to_host_all_bank p sem av st = Inr st1"
    using t by (auto simp: ensure_all_bank_load_def rbind_Inr_iff)
  obtain k where k: "rank_id_for p av = Inr k" and inv1: "low_inv p ly st1" and hab: "low_modes st1 ! k = HAB"
    by (rule to_host_all_bank[OF prep inv av st1])
  have kk: "k < length (low_loaded st1)" using rank_id_for_Inr[OF prep k] inv1 by (simp add: low_inv_def)
  show thesis
  proof (cases "low_loaded st1 ! k")
    case True
    then show thesis using that[OF k] inv1 hab t by (simp add: ensure_all_bank_load_def st1 k)
  next
    case False
    then obtain st2 where e: "emit p sem ''PIM_BCAST'' av 1 [] st1 = Inr st2"
      and st': "st' = st2\<lparr>low_loaded := (low_loaded st2)[k := True]\<rparr>"
      using t by (auto simp: ensure_all_bank_load_def st1 k rbind_Inr_iff)
    note st2 = emit_Inr[OF e]
    have st'': "st' = set_rank k HAB True st2" using st2 hab list_update_id[of "low_modes st2" k] by (simp add: st' set_rank_def)
    have "low_inv p ly st'"
      unfolding st'' by (rule emit_inv[OF prep inv1 av k _ plain_extra_Nil e]) (simp add: op_effect_def hab)
    then show thesis using that[OF k] st2 hab kk by (simp add: st')
  qed
qed

lemma to_compute:
  assumes prep: "prepared p ly l" and inv: "low_inv p ly st" and av: "length av = nat (lp_size p)"
    and k: "rank_id_for p av = Inr k" and loaded: "low_loaded st ! k"
    and t: "transition_to_pim_all_bank p sem av st = Inr st'"
  shows "low_inv p ly st' \<and> low_modes st' ! k = HAB_PIM \<and> low_loaded st' ! k"
proof (cases "low_modes st ! k = HAB_PIM")
  case True
  then show ?thesis using t inv loaded by (simp add: transition_to_pim_all_bank_def k)
next
  case False
  have kk: "k < length (low_modes st)" using rank_id_for_Inr[OF prep k] inv by (simp add: low_inv_def)
  obtain st1 where e: "emit p sem ''HAB_PIM'' av 1 [] st = Inr st1"
    and st': "st' = st1\<lparr>low_modes := (low_modes st1)[k := HAB_PIM]\<rparr>"
    using t False by (auto simp: transition_to_pim_all_bank_def k rbind_Inr_iff split: if_splits)
  note st1 = emit_Inr[OF e]
  have st'': "st' = set_rank k HAB_PIM True st1"
    using st1 loaded list_update_id[of "low_loaded st1" k] by (simp add: st' set_rank_def)
  have "low_inv p ly st'"
    unfolding st'' by (rule emit_inv[OF prep inv av k _ plain_extra_Nil e]) (simp add: op_effect_def loaded)
  then show ?thesis using st1 loaded kk by (simp add: st')
qed

section \<open>Coordinates\<close>

lemma addr_vec_length: "addr_vec_from_byte_address a names sizes ps tx = Inr vec \<Longrightarrow> length vec = length names"
  by (auto simp: addr_vec_from_byte_address_def Let_def rbind_Inr_iff validate_addr_vec_def split: if_splits prod.splits)

lemma trace_addr_vec_length: "trace_addr_vec a (Some n) lay = Inr av \<Longrightarrow> length av = n"
  by (auto simp: trace_addr_vec_def dest: addr_vec_length split: option.splits if_splits)

lemma lift_trace_Inr [simp]: "lift_trace m = Inr a \<longleftrightarrow> m = Inr a"
  by (cases m) (simp_all add: lift_trace_def)

lemma decompose_length:
  "length (fst (foldl (\<lambda>(av, rest) i. (av[f i := g rest i], h rest i)) (av, v) js)) = length av"
  by (induction js arbitrary: av v) simp_all

lemma decompose_flat_bank_length: "decompose_flat_bank v av ps cs b = Inr av' \<Longrightarrow> length av' = length av"
  by (auto simp: decompose_flat_bank_def Let_def decompose_length split: if_splits)

lemma addr_vec_from_semantic_length:
  "addr_vec_from_semantic p r kind n = Inr av \<Longrightarrow> length av = nat (lp_size p) \<and> check_coordinates p = Inr ()"
  by (cases "kind \<in> set PER_BANK_COMPUTE_SEMANTIC_KINDS"; cases "lp_positions p"; cases "lp_counts p")
    (auto simp: addr_vec_from_semantic_def Let_def rbind_Inr_iff dest!: decompose_flat_bank_length split: if_splits)

lemma rank_addr_vec_length [simp]: "length (rank_addr_vec p av k) = length av"
  by (simp add: rank_addr_vec_def split: option.split)

lemma rank_addr_rank:
  assumes "prepared p ly l" and "length av = nat (lp_size p)" and "rank_id_for p (rank_addr_vec p av j) = Inr k"
  shows "k = j"
  using rank_id_for_Inr[OF assms(1,3)] prepared_level[OF assms(1)] assms(1,2)
  by (simp add: prepared_def rank_addr_vec_def)

section \<open>Host accesses\<close>

lemma plain_host: "plain_extra ((''addr_byte'', v) # (if c then [(''addr_byte_stride'', w)] else []))"
  by (simp add: plain_extra_def base_keys_def)

lemma emit_stream_inv:
  assumes prep: "prepared p ly l" and op: "op = ''READ'' \<or> op = ''WRITE''" and inv: "low_inv p ly st"
    and e: "emit_stream p sem op base stride cnt st = Inr st'"
  shows "low_inv p ly st'"
proof -
  let ?step = "\<lambda>st (b, s, n).
       rbind (lift_trace (trace_addr_vec (PInt b) (Some (nat (lp_size p))) (lp_layout p))) (\<lambda>av.
       rbind (transition_to_single_bank p sem av st) (\<lambda>st.
       emit p sem op av n
         ((''addr_byte'', PInt b) # (if 1 < n \<and> 0 < s then [(''addr_byte_stride'', PInt s)] else [])) st))"
  obtain chunks where "rfold ?step st chunks = Inr st'" using e by (auto simp: emit_stream_def rbind_Inr_iff)
  from this inv show ?thesis
  proof (rule rfold_inv)
    fix st x st'
    assume inv: "low_inv p ly st" and step: "?step st x = Inr st'"
    obtain b s n where x: "x = (b, s, n)" by (rule prod_cases3)
    obtain av st1 where av: "trace_addr_vec (PInt b) (Some (nat (lp_size p))) (lp_layout p) = Inr av"
      and st1: "transition_to_single_bank p sem av st = Inr st1"
      and em: "emit p sem op av n ((''addr_byte'', PInt b) # (if 1 < n \<and> 0 < s then [(''addr_byte_stride'', PInt s)] else [])) st1 = Inr st'"
      using step by (auto simp: x rbind_Inr_iff)
    have len: "length av = nat (lp_size p)" by (rule trace_addr_vec_length[OF av])
    obtain k where k: "rank_id_for p av = Inr k" "low_inv p ly st1" "low_modes st1 ! k = SB"
      using to_single[OF prep inv len st1] by metis
    have "op_effect op (low_modes st1 ! k) (low_loaded st1 ! k) = Some (low_modes st1 ! k, low_loaded st1 ! k)"
      using op k(3) by (auto simp: op_effect_def)
    from emit_inv_same[OF prep k(2) len k(1) this plain_host em] show "low_inv p ly st'" by simp
  qed
qed

lemma emit_passes_inv:
  assumes "prepared p ly l" and "op = ''READ'' \<or> op = ''WRITE''" and "low_inv p ly st"
    and "emit_passes p sem op base stride cnt passes st = Inr st'"
  shows "low_inv p ly st'"
  using assms(4,3) unfolding emit_passes_def by (rule rfold_inv) (rule emit_stream_inv[OF assms(1,2)])

lemma lower_host_inv:
  assumes "prepared p ly l" and "low_inv p ly st" and "lower_host p sem kind st = Inr st'"
  shows "low_inv p ly st'"
proof -
  obtain base stride cnt passes where
    "emit_passes p sem (if kind = ''HostWrite'' then ''WRITE'' else ''READ'') base stride cnt passes st = Inr st'"
    using assms(3) by (auto simp: lower_host_def rbind_Inr_iff split: if_splits)
  from emit_passes_inv[OF assms(1) _ assms(2) this] show ?thesis by simp
qed

lemma lower_weight_inv:
  assumes "prepared p ly l" and "low_inv p ly st" and "lower_weight p sem st = Inr st'"
  shows "low_inv p ly st'"
proof (cases "lp_materialize p")
  case True
  then obtain base tx cnt passes where "emit_passes p sem ''WRITE'' base tx cnt passes st = Inr st'"
    using assms(3) by (auto simp: lower_weight_def rbind_Inr_iff Let_def split: if_splits)
  from emit_passes_inv[OF assms(1) _ assms(2) this] show ?thesis by simp
next
  case False
  then show ?thesis using assms by (simp add: lower_weight_def)
qed

section \<open>All-bank operations\<close>

lemma leave_compute:
  assumes "prepared p ly l" and "low_inv p ly st" and "length av = nat (lp_size p)" and "rank_id_for p av = Inr k"
    and "emit p sem ''SB'' av 1 [] st = Inr st'"
  shows "low_inv p ly (set_rank k SB False st')"
  by (rule emit_inv[OF assms(1-4) _ plain_extra_Nil assms(5)]) (simp add: op_effect_def)

lemma all_bank_mac_inv:
  assumes prep: "prepared p ly l" and len: "length base = nat (lp_size p)" and inv: "low_inv p ly st"
    and e: "lower_all_bank_mac p sem base banks issues st = Inr st'"
  shows "low_inv p ly st'"
proof -
  let ?step = "\<lambda>st k. let av = rank_addr_vec p base (nat k) in
       rbind (ensure_all_bank_load p sem av st) (\<lambda>st.
       rbind (transition_to_pim_all_bank p sem av st) (\<lambda>st.
       rbind (returning (split_loop (lp_max_repeat p) issues)) (\<lambda>chunks.
       rbind (emit_chunks p sem ''PIM_MAC_AB'' av chunks st) (\<lambda>st.
       rbind (emit p sem ''SB'' av 1 [] st) (\<lambda>st. Inr (set_rank (nat k) SB False st))))))"
  obtain ks where "rfold ?step st ks = Inr st'" using e by (auto simp: lower_all_bank_mac_def rbind_Inr_iff)
  from this inv show ?thesis
  proof (rule rfold_inv)
    fix st x st'
    assume inv: "low_inv p ly st" and step: "?step st x = Inr st'"
    let ?av = "rank_addr_vec p base (nat x)"
    obtain st1 st2 chunks st3 st4 where 1: "ensure_all_bank_load p sem ?av st = Inr st1"
      and 2: "transition_to_pim_all_bank p sem ?av st1 = Inr st2"
      and 3: "emit_chunks p sem ''PIM_MAC_AB'' ?av chunks st2 = Inr st3"
      and 4: "emit p sem ''SB'' ?av 1 [] st3 = Inr st4" and st': "st' = set_rank (nat x) SB False st4"
      using step by (auto simp: Let_def rbind_Inr_iff)
    have av: "length ?av = nat (lp_size p)" using len by simp
    obtain k where k: "rank_id_for p ?av = Inr k" and inv1: "low_inv p ly st1" and l1: "low_loaded st1 ! k"
      using to_loaded[OF prep inv av 1] by metis
    have inv2: "low_inv p ly st2" "low_modes st2 ! k = HAB_PIM" "low_loaded st2 ! k"
      using to_compute[OF prep inv1 av k l1 2] by simp_all
    have inv3: "low_inv p ly st3"
      using emit_chunks_inv[OF prep av k inv2(1) _ 3] inv2 by (simp add: op_effect_def)
    have "k = nat x" by (rule rank_addr_rank[OF prep len k])
    with leave_compute[OF prep inv3 av k 4] show "low_inv p ly st'" by (simp add: st')
  qed
qed

lemma lower_all_compute_inv:
  assumes prep: "prepared p ly l" and inv: "low_inv p ly st"
    and e: "lower_all_compute p sem kind requests passes st = Inr st'"
  shows "low_inv p ly st'"
proof -
  let ?rank = "\<lambda>base st k. let av = rank_addr_vec p base k in
         rbind (ensure_all_bank_load p sem av st) (\<lambda>st.
         rbind (transition_to_pim_all_bank p sem av st) (\<lambda>st.
         rbind (emit p sem ''PIM_MAC_AB'' av 1 [] st) (\<lambda>st.
         rbind (emit p sem ''SB'' av 1 [] st) (\<lambda>st. Inr (set_rank k SB False st)))))"
  let ?step = "\<lambda>st i. rbind (addr_vec_from_semantic p sem kind (int i mod requests)) (\<lambda>base.
       rfold (?rank base) st [0..<lp_ranks p])"
  have "rfold ?step st [0..<nat (requests * passes)] = Inr st'" using e by (simp add: lower_all_compute_def)
  from this inv show ?thesis
  proof (rule rfold_inv)
    fix st i st'
    assume inv: "low_inv p ly st" and step: "?step st i = Inr st'"
    obtain base where base: "addr_vec_from_semantic p sem kind (int i mod requests) = Inr base"
      and run: "rfold (?rank base) st [0..<lp_ranks p] = Inr st'"
      using step by (auto simp: rbind_Inr_iff)
    have len: "length base = nat (lp_size p)" using addr_vec_from_semantic_length[OF base] by simp
    from run inv show "low_inv p ly st'"
    proof (rule rfold_inv)
      fix st k st'
      assume inv: "low_inv p ly st" and step: "?rank base st k = Inr st'"
      let ?av = "rank_addr_vec p base k"
      obtain st1 st2 st3 st4 where 1: "ensure_all_bank_load p sem ?av st = Inr st1"
        and 2: "transition_to_pim_all_bank p sem ?av st1 = Inr st2"
        and 3: "emit p sem ''PIM_MAC_AB'' ?av 1 [] st2 = Inr st3"
        and 4: "emit p sem ''SB'' ?av 1 [] st3 = Inr st4" and st': "st' = set_rank k SB False st4"
        using step by (auto simp: Let_def rbind_Inr_iff)
      have av: "length ?av = nat (lp_size p)" using len by simp
      obtain j where j: "rank_id_for p ?av = Inr j" and inv1: "low_inv p ly st1" and l1: "low_loaded st1 ! j"
        using to_loaded[OF prep inv av 1] by metis
      have inv2: "low_inv p ly st2" "low_modes st2 ! j = HAB_PIM" "low_loaded st2 ! j"
        using to_compute[OF prep inv1 av j l1 2] by simp_all
      have inv3: "low_inv p ly st3"
        using emit_inv_same[OF prep inv2(1) av j _ plain_extra_Nil 3] inv2 by (simp add: op_effect_def)
      have "j = k" by (rule rank_addr_rank[OF prep len j])
      with leave_compute[OF prep inv3 av j 4] show "low_inv p ly st'" by (simp add: st')
    qed
  qed
qed

text \<open>A load: several broadcasts, then the flag. Emitting does not look at modes and flags.\<close>

lemma emit_set_rank:
  "emit p sem op av n extra (set_rank k m b st) = rbind (emit p sem op av n extra st) (\<lambda>st. Inr (set_rank k m b st))"
  by (cases "semantic_provenance sem (lp_manifest p)") (simp_all add: emit_def set_rank_def)

lemma emit_chunks_set_rank:
  "emit_chunks p sem op av cs (set_rank k m b st) = rbind (emit_chunks p sem op av cs st) (\<lambda>st. Inr (set_rank k m b st))"
proof (induction cs arbitrary: st)
  case (Cons c cs)
  then show ?case
    by (cases "emit p sem op av c [] st") (simp_all add: emit_chunks_def emit_set_rank)
qed (simp add: emit_chunks_def)

lemma split_repeat_nonempty: "split_repeat n mx = Inr cs \<Longrightarrow> cs \<noteq> []"
  by (auto simp: split_repeat_def returning_def split_loop.simps[of mx n] Let_def split: if_splits option.splits bind_splits)

lemma broadcasts_inv:
  assumes prep: "prepared p ly l" and av: "length av = nat (lp_size p)" and k: "rank_id_for p av = Inr k"
    and inv: "low_inv p ly st" and hab: "low_modes st ! k = HAB" and ne: "cs \<noteq> []"
    and e: "emit_chunks p sem ''PIM_BCAST'' av cs st = Inr st'"
  shows "low_inv p ly (set_rank k HAB True st') \<and> low_modes st' = low_modes st"
proof -
  obtain c cs' where cs: "cs = c # cs'" using ne by (cases cs) auto
  obtain st1 where st1: "emit p sem ''PIM_BCAST'' av c [] st = Inr st1" "emit_chunks p sem ''PIM_BCAST'' av cs' st1 = Inr st'"
    using e by (auto simp: cs emit_chunks_def rbind_Inr_iff)
  have kk: "k < lp_ranks p" using rank_id_for_Inr[OF prep k] by simp
  have len: "length (low_modes st1) = lp_ranks p" "length (low_loaded st1) = lp_ranks p" "low_modes st1 = low_modes st"
    using inv emit_Inr[OF st1(1)] by (simp_all add: low_inv_def)
  have inv1: "low_inv p ly (set_rank k HAB True st1)"
    by (rule emit_inv[OF prep inv av k _ plain_extra_Nil st1(1)]) (simp add: op_effect_def hab)
  have "emit_chunks p sem ''PIM_BCAST'' av cs' (set_rank k HAB True st1) = Inr (set_rank k HAB True st')"
    by (simp add: emit_chunks_set_rank st1(2))
  from emit_chunks_inv[OF prep av k inv1 _ this] kk len
  have "low_inv p ly (set_rank k HAB True st')" by (simp add: op_effect_def)
  moreover have "low_modes st' = low_modes st1"
    using st1(2)
    by (induction cs' arbitrary: st1) (auto simp: emit_chunks_def rbind_Inr_iff dest!: emit_Inr)
  ultimately show ?thesis by (simp add: len(3))
qed

lemma lower_load_inv:
  assumes prep: "prepared p ly l" and len: "length base = nat (lp_size p)" and inv: "low_inv p ly st"
    and e: "lower_load p sem kind base issues st = Inr st'"
  shows "low_inv p ly st'"
proof -
  let ?step = "\<lambda>chunks st k. let av = rank_addr_vec p base k in
       rbind (transition_to_host_all_bank p sem av st) (\<lambda>st.
       rbind (emit_chunks p sem ''PIM_BCAST'' av chunks st) (\<lambda>st.
       Inr (st\<lparr>low_loaded := (low_loaded st)[k := True]\<rparr>)))"
  have "st' = st \<or> (\<exists>chunks. split_repeat issues MAX_REPEAT = Inr chunks \<and> rfold (?step chunks) st [0..<lp_ranks p] = Inr st')"
    using e by (auto simp: lower_load_def rbind_Inr_iff split: if_splits)
  then show ?thesis
  proof (elim disjE exE conjE)
    fix chunks assume sp: "split_repeat issues MAX_REPEAT = Inr chunks" and "rfold (?step chunks) st [0..<lp_ranks p] = Inr st'"
    from this(2) inv show "low_inv p ly st'"
    proof (rule rfold_inv)
      fix st k st'
      assume inv: "low_inv p ly st" and step: "?step chunks st k = Inr st'"
      let ?av = "rank_addr_vec p base k"
      obtain st1 st2 where 1: "transition_to_host_all_bank p sem ?av st = Inr st1"
        and 2: "emit_chunks p sem ''PIM_BCAST'' ?av chunks st1 = Inr st2"
        and st': "st' = st2\<lparr>low_loaded := (low_loaded st2)[k := True]\<rparr>"
        using step by (auto simp: Let_def rbind_Inr_iff)
      have av: "length ?av = nat (lp_size p)" using len by simp
      obtain j where j: "rank_id_for p ?av = Inr j" and inv1: "low_inv p ly st1" and hab: "low_modes st1 ! j = HAB"
        by (rule to_host_all_bank[OF prep inv av 1])
      have jk: "j = k" by (rule rank_addr_rank[OF prep len j])
      have b: "low_inv p ly (set_rank j HAB True st2)" "low_modes st2 = low_modes st1"
        using broadcasts_inv[OF prep av j inv1 hab split_repeat_nonempty[OF sp] 2] by simp_all
      have "st' = set_rank j HAB True st2"
        using b(2) hab list_update_id[of "low_modes st2" k] by (simp add: st' set_rank_def jk)
      with b(1) show "low_inv p ly st'" by simp
    qed
  qed (use inv in simp)
qed

section \<open>Per-bank operations\<close>

text \<open>The two decoders of a flat bank agree on the rank.\<close>

lemma flat_rank_fold:
  assumes "length ps = length cs"
  shows "foldl (\<lambda>(rest, k) (pos, c). (rest div c, if pos = l then rest mod c else k)) (v, base) (zip (rev ps) (rev cs)) =
    (snd (mixed_radix cs v),
     case py_index (map PInt ps) (PInt l) of None \<Rightarrow> base | Some i \<Rightarrow> fst (mixed_radix cs v) ! i)"
proof -
  let ?g = "\<lambda>(rest, k) (pos, c). (rest div c, if pos = l then rest mod c else k)"
  have "foldr (\<lambda>x y. ?g y x) (zip ps cs) (v, base) =
    (snd (mixed_radix cs v),
     case py_index (map PInt ps) (PInt l) of None \<Rightarrow> base | Some i \<Rightarrow> fst (mixed_radix cs v) ! i)"
    using assms
  proof (induction ps cs rule: list_induct2)
    case Nil
    then show ?case by (simp add: mixed_radix_def)
  next
    case (Cons p ps c cs)
    then show ?case
      by (auto simp: mixed_radix_Cons Let_def case_prod_beta py_eq_PInt_iff split: option.split)
  qed
  then show ?thesis
    by (simp only: zip_rev[OF assms] foldl_conv_foldr rev_rev_ident)
qed

text \<open>The ranks of a compact multiply, as both sides compute them.\<close>

definition compact_ranks :: "int list \<Rightarrow> int list \<Rightarrow> nat \<Rightarrow> int \<Rightarrow> int list \<Rightarrow> int list" where
  "compact_ranks ps cs l base banks =
     (case py_index (map PInt ps) (PInt (int l)) of
        None \<Rightarrow> [base] | Some i \<Rightarrow> map (\<lambda>b. fst (mixed_radix cs b) ! i) banks)"

lemma target_ranks:
  assumes "lp_rank_level p = Some l" and "lp_positions p = Some ps" and "lp_counts p = Some cs" and "length ps = length cs"
    and "banks \<noteq> []" and "all_bank_target_ranks p av banks = Inr ks"
  shows "set (compact_ranks ps cs l (av ! l) banks) \<subseteq> set ks \<and> (\<exists>k. rank_id_for p av = Inr k)"
proof -
  obtain rs where rs: "rmap (rank_for_flat_bank p av) banks = Inr rs" and ks: "ks = sort (remdups rs)"
    using assms(5,6) by (auto simp: all_bank_target_ranks_def rbind_Inr_iff)
  have r: "rank_for_flat_bank p av b = Inr k \<Longrightarrow>
      (\<exists>j. rank_id_for p av = Inr j \<and> av ! l = int j) \<and>
      k = (case py_index (map PInt ps) (PInt (int l)) of None \<Rightarrow> av ! l | Some i \<Rightarrow> fst (mixed_radix cs b) ! i)" for b k
    using assms(1) by (auto simp: rank_for_flat_bank_def assms(2,3) rbind_Inr_iff flat_rank_fold[OF assms(4)]
        rank_id_for_def split: if_splits option.split)
  have in_rs: "k \<in> set rs" if "b \<in> set banks" "rank_for_flat_bank p av b = Inr k" for b k
    using that by (auto simp: rmap_set[OF rs])
  have some: "\<exists>k. rank_for_flat_bank p av b = Inr k" if "b \<in> set banks" for b
    using rs that is_ok_rmap[of "rank_for_flat_bank p av" banks] by (auto simp: is_ok_iff)
  have val: "(case py_index (map PInt ps) (PInt (int l)) of None \<Rightarrow> av ! l | Some i \<Rightarrow> fst (mixed_radix cs b) ! i) \<in> set rs"
    if b: "b \<in> set banks" for b
  proof -
    obtain k where k: "rank_for_flat_bank p av b = Inr k" using some[OF b] by blast
    from r[OF k] in_rs[OF b k] show ?thesis by simp
  qed
  obtain b0 where b0: "b0 \<in> set banks" using assms(5) by (cases banks) auto
  obtain k0 where "rank_for_flat_bank p av b0 = Inr k0" using some[OF b0] by blast
  from r[OF this] have "\<exists>k. rank_id_for p av = Inr k" by blast
  moreover have "set (compact_ranks ps cs l (av ! l) banks) \<subseteq> set rs"
    using val b0 by (auto simp: compact_ranks_def split: option.splits)
  ultimately show ?thesis by (simp add: ks)
qed

lemma compact_ranks_nonneg:
  assumes "length ps = length cs" and "radices_ok cs" and "0 \<le> base" and "k \<in> set (compact_ranks ps cs l base banks)"
  shows "0 \<le> k"
proof (cases "py_index (map PInt ps) (PInt (int l))")
  case None
  then show ?thesis using assms by (simp add: compact_ranks_def)
next
  case (Some i)
  then have "i < length cs" using py_index_ints[of ps "int l" i] assms(1) by simp
  then show ?thesis
    using assms(4) coords_in_nth[OF mixed_radix_coords[OF assms(2)]] by (auto simp: compact_ranks_def Some)
qed

lemma check_coordinates_pair:
  assumes "check_coordinates p = Inr ()" and "lp_positions p = Some ps" and "lp_counts p = Some cs"
  shows "length ps = length cs \<and> radices_ok cs"
  using assms by (auto simp: check_coordinates_def Let_def radices_ok_def list_all_iff list_ex_iff not_le split: if_splits)

lemma compact_extra:
  assumes "lp_positions p = Some ps" and "lp_counts p = Some cs"
  shows "distinct (dkeys (interleave_extra p a banks @ [(''interleave_start_idx'', PInt i)]))"
    and "set (dkeys (interleave_extra p a banks @ [(''interleave_start_idx'', PInt i)])) \<inter> set base_keys = {}"
    and "dget (interleave_extra p a banks @ [(''interleave_start_idx'', PInt i)]) ''bank_sequence'' = Some (PList (map PInt banks))"
    and "dget (interleave_extra p a banks @ [(''interleave_start_idx'', PInt i)]) ''bank_positions'' = Some (PList (map PInt ps))"
    and "dget (interleave_extra p a banks @ [(''interleave_start_idx'', PInt i)]) ''bank_counts'' = Some (PList (map PInt cs))"
  by (simp_all add: interleave_extra_def assms base_keys_def)

lemma event_compact:
  assumes prep: "prepared p ly l" and pc: "lp_positions p = Some ps" "lp_counts p = Some cs"
    and cs: "length ps = length cs" "radices_ok cs" and len: "l < length av" and ne: "banks \<noteq> []"
  shows "event_of ly (concrete_record rid ''PIM_MAC'' av n prov (interleave_extra p a banks @ [(''interleave_start_idx'', PInt i)]))
    = Inr (''PIM_MAC'', compact_ranks ps cs l (av ! l) banks)"
proof -
  let ?x = "interleave_extra p a banks @ [(''interleave_start_idx'', PInt i)]"
  let ?r = "concrete_record rid ''PIM_MAC'' av n prov ?x"
  note x = compact_extra[OF pc, of a banks i]
  note get = concrete_record_get[OF x(1,2)]
  have f: "dgetd ?r ''opcode'' PNone = PStr ''PIM_MAC''" "dgetd ?r ''addr_vec'' PNone = PList (map PInt av)"
    "dgetd ?r ''bank_sequence'' PNone = PList (map PInt banks)"
    "dgetd ?r ''bank_positions'' (PList []) = PList (map PInt ps)" "dgetd ?r ''bank_counts'' (PList []) = PList (map PInt cs)"
    using get(1,2) get(3)[of "''bank_sequence''"] get(3)[of "''bank_positions''"] get(3)[of "''bank_counts''"] x(3-5)
    by (simp_all add: dgetd_def base_keys_def)
  have "0 \<notin> set cs" using cs(2) by (auto simp: radices_ok_def list_all_iff)
  then have dec: "decode_bank (length cs) (map PInt cs) (PInt b) = Inr (fst (mixed_radix cs b))" for b
    by (simp add: decode_bank_def int_value_ints)
  have map_ok: "rmap (\<lambda>b. rbind (decode_bank (length cs) (map PInt cs) b) (\<lambda>coords. Inr (coords ! j))) (map PInt banks) =
      Inr (map (\<lambda>b. fst (mixed_radix cs b) ! j) banks)" for j
    by (simp add: rmap_map dec rmap_ok)
  have "record_rank_ids ?r (Some ly) = Inr (compact_ranks ps cs l (av ! l) banks)"
    using prep len ne
    by (simp add: record_rank_ids_def prepared_def f compact_ranks_def cs(1) map_ok Let_def split: option.split)
  then show ?thesis by (simp add: event_of_def f(1))
qed

lemma emit_interleaved_inv:
  assumes prep: "prepared p ly l" and pc: "lp_positions p = Some ps" "lp_counts p = Some cs"
    and cs: "length ps = length cs" "radices_ok cs" and len: "length av = nat (lp_size p)" and ne: "banks \<noteq> []"
    and single: "\<And>k. k \<in> set (compact_ranks ps cs l (av ! l) banks) \<Longrightarrow> \<exists>j < lp_ranks p. k = int j \<and> low_modes st ! j = SB"
    and inv: "low_inv p ly st" and e: "emit_interleaved p sem av (interleave_extra p a banks) chunks st = Inr st'"
  shows "low_inv p ly st'"
proof -
  let ?step = "\<lambda>(st, start) n.
         rbind (emit p sem ''PIM_MAC'' av n (interleave_extra p a banks @ [(''interleave_start_idx'', PInt start)]) st) (\<lambda>st.
         Inr (st, start + n))"
  let ?P = "\<lambda>(x, i::int). low_inv p ly x \<and> low_modes x = low_modes st"
  obtain fin where run: "rfold ?step (st, 0) chunks = Inr (st', fin)"
    using e by (auto simp: emit_interleaved_def rbind_Inr_iff)
  have "?P (st', fin)"
  proof (rule rfold_inv[where P = ?P, OF run])
    show "?P (st, 0)" using inv by simp
    fix x n y assume x: "?P x" and y: "?step x n = Inr y"
    obtain st0 start where x0: "x = (st0, start)" by fastforce
    obtain st1 where em: "emit p sem ''PIM_MAC'' av n (interleave_extra p a banks @ [(''interleave_start_idx'', PInt start)]) st0 = Inr st1"
      and y1: "y = (st1, start + n)"
      using y by (auto simp: x0 rbind_Inr_iff)
    have inv0: "low_inv p ly st0" and modes0: "low_modes st0 = low_modes st" using x by (simp_all add: x0)
    obtain s where s: "tracks ly st0 s"
      and agree: "\<forall>k < lp_ranks p. mode_at s (int k) = low_modes st0 ! k \<and> bcast_at s (int k) = low_loaded st0 ! k"
      and lens: "length (low_modes st0) = lp_ranks p" "length (low_loaded st0) = lp_ranks p"
      using inv0 by (auto simp: low_inv_def)
    obtain rid prov where st1: "low_modes st1 = low_modes st0" "low_loaded st1 = low_loaded st0"
      "low_records st1 = low_records st0 @
        [concrete_record rid ''PIM_MAC'' av n prov (interleave_extra p a banks @ [(''interleave_start_idx'', PInt start)])]"
      using emit_Inr[OF em] by blast
    have l: "l < length av" using prepared_level[OF prep] prep len by (simp add: prepared_def)
    have "\<forall>k \<in> set (compact_ranks ps cs l (av ! l) banks). mode_at s k = SB"
      using single agree modes0 by fastforce
    then have step: "mode_step s ''PIM_MAC'' (compact_ranks ps cs l (av ! l) banks) = Inr s" by (simp add: mode_step_simps)
    have "tracks ly st1 s" by (rule tracks_snoc[OF s st1(3) event_compact[OF prep pc cs l ne] step])
    then have "low_inv p ly st1" using agree lens by (auto simp: low_inv_def st1)
    then show "?P y" by (simp add: y1 st1(1) modes0)
  qed
  then show ?thesis by simp
qed

text \<open>Bringing every target rank to single-bank mode.\<close>

lemma all_single:
  assumes prep: "prepared p ly l" and len: "length base = nat (lp_size p)"
    and run: "rfold (\<lambda>st k. transition_to_single_bank p sem (rank_addr_vec p base (nat k)) st) st ks = Inr st'"
    and inv: "low_inv p ly st"
  shows "low_inv p ly st' \<and> (\<forall>j. low_modes st ! j = SB \<longrightarrow> low_modes st' ! j = SB) \<and>
    (\<forall>k \<in> set ks. nat k < lp_ranks p \<and> low_modes st' ! nat k = SB)"
  using run inv
proof (induction ks arbitrary: st)
  case Nil
  then show ?case by simp
next
  case (Cons k ks)
  from Cons.prems(1) obtain st1 where st1: "transition_to_single_bank p sem (rank_addr_vec p base (nat k)) st = Inr st1"
    "rfold (\<lambda>st k. transition_to_single_bank p sem (rank_addr_vec p base (nat k)) st) st1 ks = Inr st'"
    by (auto simp: rbind_Inr_iff)
  have av: "length (rank_addr_vec p base (nat k)) = nat (lp_size p)" using len by simp
  obtain j where j: "rank_id_for p (rank_addr_vec p base (nat k)) = Inr j" "low_inv p ly st1" "low_modes st1 ! j = SB"
    "\<And>i. low_modes st ! i = SB \<Longrightarrow> low_modes st1 ! i = SB"
    using to_single[OF prep Cons.prems(2) av st1(1)] by metis
  have "j = nat k" by (rule rank_addr_rank[OF prep len j(1)])
  moreover have "j < lp_ranks p" using rank_id_for_Inr[OF prep j(1)] by simp
  ultimately show ?case using Cons.IH[OF st1(2) j(2)] j(3,4) by auto
qed

lemma enter_single:
  assumes prep: "prepared p ly l" and len: "length base = nat (lp_size p)" and inv: "low_inv p ly st"
    and k: "rank_id_for p base = Inr k"
    and e: "(if low_records st = [] then emit p sem ''SB'' base 1 [] st else Inr st) = Inr st'"
  shows "low_inv p ly st' \<and> low_modes st' = low_modes st"
proof (cases "low_records st = []")
  case True
  then have em: "emit p sem ''SB'' base 1 [] st = Inr st'" using e by simp
  have kk: "k < lp_ranks p" using rank_id_for_Inr[OF prep k] by simp
  have "low_modes st ! k = SB \<and> \<not> low_loaded st ! k"
    using inv True kk by (auto simp: low_inv_def tracks_def init_state_def mode_at_def bcast_at_def)
  then show ?thesis using emit_inv_same[OF prep inv len k _ plain_extra_Nil em] by (simp add: op_effect_def)
next
  case False
  then show ?thesis using e inv by simp
qed

lemma serial_mac_inv:
  assumes prep: "prepared p ly l" and inv: "low_inv p ly st" and e: "lower_serial_mac p sem kind bank_len issues st = Inr st'"
  shows "low_inv p ly st'"
proof -
  let ?step = "\<lambda>st i. let per_bank = issues div bank_len + (if int i < issues mod bank_len then 1 else 0) in
       if per_bank = 0 then Inr st
       else rbind (addr_vec_from_semantic p sem kind (int i)) (\<lambda>av.
       rbind (transition_to_single_bank p sem av st) (\<lambda>st.
       rbind (split_repeat per_bank MAX_REPEAT) (\<lambda>chunks. emit_chunks p sem ''PIM_MAC'' av chunks st)))"
  have "rfold ?step st [0..<nat bank_len] = Inr st'" using e by (simp add: lower_serial_mac_def)
  from this inv show ?thesis
  proof (rule rfold_inv)
    fix st i st' assume inv: "low_inv p ly st" and step: "?step st i = Inr st'"
    show "low_inv p ly st'"
    proof (cases "issues div bank_len + (if int i < issues mod bank_len then 1 else 0) = 0")
      case True
      with step inv show ?thesis by (simp add: Let_def)
    next
      case False
      with step obtain av st1 chunks where 1: "addr_vec_from_semantic p sem kind (int i) = Inr av"
        and 2: "transition_to_single_bank p sem av st = Inr st1" and 3: "emit_chunks p sem ''PIM_MAC'' av chunks st1 = Inr st'"
        by (simp add: Let_def rbind_Inr_iff) blast
      have av: "length av = nat (lp_size p)" using addr_vec_from_semantic_length[OF 1] by simp
      obtain k where k: "rank_id_for p av = Inr k" "low_inv p ly st1" "low_modes st1 ! k = SB"
        using to_single[OF prep inv av 2] by metis
      then show ?thesis using emit_chunks_inv[OF prep av k(1,2) _ 3] by (simp add: op_effect_def)
    qed
  qed
qed

lemma lower_compute_inv:
  assumes prep: "prepared p ly l" and kind: "kind \<in> set PER_BANK_COMPUTE_SEMANTIC_KINDS"
    and base: "addr_vec_from_semantic p sem kind 0 = Inr base" and inv: "low_inv p ly st"
    and e: "lower_compute p sem kind base issues st = Inr st'"
  shows "low_inv p ly st'"
proof -
  have len: "length base = nat (lp_size p)" and coords: "check_coordinates p = Inr ()"
    using addr_vec_from_semantic_length[OF base] by simp_all
  obtain ps cs where pc: "lp_positions p = Some ps" "lp_counts p = Some cs" using prep by (auto simp: prepared_def)
  have cs: "length ps = length cs" "radices_ok cs" using check_coordinates_pair[OF coords pc] by simp_all
  obtain bs banks where bs: "sub_list sem ''bank_sequence'' = Inr bs" and banks: "rmap (to_int ''bank_sequence'') bs = Inr banks"
    using e by (auto simp: lower_compute_def rbind_Inr_iff)
  let ?n = "max 1 (int (length banks))"
  note e1 = e[unfolded lower_compute_def bs rbind_Inr banks Let_def]
  show ?thesis
  proof (cases "lp_interleave p \<and> 1 < ?n \<and> resolve_mac_mode p kind = ''all_bank''")
    case True
    then have "lower_all_bank_mac p sem base banks (max 1 ((issues + ?n - 1) div ?n)) st = Inr st'" using e1 by simp
    then show ?thesis by (rule all_bank_mac_inv[OF prep len inv])
  next
    case False
    note e2 = e1[unfolded if_not_P[OF False]]
    obtain ks st1 st2 where ks: "all_bank_target_ranks p base banks = Inr ks"
      and st1: "rfold (\<lambda>st k. transition_to_single_bank p sem (rank_addr_vec p base (nat k)) st) st ks = Inr st1"
      and st2: "(if low_records st1 = [] then emit p sem ''SB'' base 1 [] st1 else Inr st1) = Inr st2"
      and e3: "(if lp_interleave p \<and> 1 < ?n then lower_compact_mac p sem base banks issues st2
                else lower_serial_mac p sem kind ?n issues st2) = Inr st'"
      using e2 by (auto simp only: rbind_Inr_iff)
    have "bs \<noteq> []"
      using base by (auto simp: addr_vec_from_semantic_def rbind_Inr_iff Let_def kind bs)
    then have ne: "banks \<noteq> []" using rmap_length[OF banks] by auto
    have lev: "lp_rank_level p = Some l" using prep by (simp add: prepared_def)
    obtain k where sub: "set (compact_ranks ps cs l (base ! l) banks) \<subseteq> set ks" and k: "rank_id_for p base = Inr k"
      using target_ranks[OF lev pc cs(1) ne ks] by blast
    note s1 = all_single[OF prep len st1 inv]
    have s2: "low_inv p ly st2" "low_modes st2 = low_modes st1"
      using enter_single[OF prep len _ k st2] s1 by simp_all
    show ?thesis
    proof (cases "lp_interleave p \<and> 1 < ?n")
      case True
      then obtain a chunks where run: "emit_interleaved p sem base (interleave_extra p a banks) chunks st2 = Inr st'"
        using e3 by (auto simp: lower_compact_mac_def rbind_Inr_iff)
      have "0 \<le> base ! l" using rank_id_for_Inr[OF prep k] by simp
      then have "\<exists>j < lp_ranks p. i = int j \<and> low_modes st2 ! j = SB"
        if "i \<in> set (compact_ranks ps cs l (base ! l) banks)" for i
        using compact_ranks_nonneg[OF cs _ that] sub that s1 s2(2) by (intro exI[of _ "nat i"]) auto
      from emit_interleaved_inv[OF prep pc cs len ne this s2(1) run] show ?thesis .
    next
      case False
      have "lower_serial_mac p sem kind ?n issues st2 = Inr st'" using e3 unfolding if_not_P[OF False] .
      then show ?thesis by (rule serial_mac_inv[OF prep s2(1)])
    qed
  qed
qed

section \<open>The whole lowering\<close>

lemma lower_pim_inv:
  assumes prep: "prepared p ly l" and inv: "low_inv p ly st" and e: "lower_pim p sem kind st = Inr st'"
  shows "low_inv p ly st'"
proof -
  obtain requests base passes where base: "addr_vec_from_semantic p sem kind 0 = Inr base"
    and run: "kind \<in> set PER_BANK_COMPUTE_SEMANTIC_KINDS \<and> lower_compute p sem kind base (requests * passes) st = Inr st' \<or>
       lower_load p sem kind base (requests * passes) st = Inr st' \<or> lower_all_compute p sem kind requests passes st = Inr st'"
    using e by (auto simp: lower_pim_def rbind_Inr_iff split: if_splits)
  have len: "length base = nat (lp_size p)" using addr_vec_from_semantic_length[OF base] by simp
  show ?thesis
    using run lower_compute_inv[OF prep _ base inv] lower_load_inv[OF prep len inv] lower_all_compute_inv[OF prep inv]
    by (metis (no_types))
qed

lemma lower_record_inv:
  assumes prep: "prepared p ly l" and inv: "low_inv p ly st" and e: "lower_record p st sem = Inr st'"
  shows "low_inv p ly st'"
proof (cases "dgetd sem ''kind'' PNone")
  case (PStr kind)
  have "st' = st \<or> lower_host p sem kind st = Inr st' \<or> lower_weight p sem st = Inr st' \<or> lower_pim p sem kind st = Inr st'"
    using e by (auto simp: lower_record_def PStr rbind_Inr_iff split: if_splits)
  then show ?thesis
    using inv lower_host_inv[OF prep inv] lower_weight_inv[OF prep inv] lower_pim_inv[OF prep inv] by metis
qed (use e inv in \<open>auto simp: lower_record_def split: if_splits\<close>)

lemma prepare_Some:
  assumes "prepare p = Inr q" and "lp_layout p = Some ly"
  shows "\<exists>l. prepared q ly l"
proof -
  obtain rank where rank: "name_index (ly_level_names ly) ''Rank'' = Inr rank" and size: "int (length (ly_level_names ly)) = lp_size p"
    and q: "lp_layout q = lp_layout p" "lp_rank_level q = Some (nat rank)" "lp_size q = lp_size p"
      "lp_positions q \<noteq> None" "lp_counts q \<noteq> None"
    using assms by (auto simp: prepare_def Let_def rbind_Inr_iff split: if_splits)
  have "list_index (ly_level_names ly) ''Rank'' = Some (nat rank)"
    using rank by (auto simp: name_index_def split: option.splits)
  with size q assms(2) show ?thesis by (intro exI[of _ "nat rank"]) (simp add: prepared_def)
qed

text \<open>The events of a lowering are an accepted run of the protocol.\<close>

lemma lower_loop_run:
  assumes "lower_loop p sems = Inr recs" and "lp_layout p = Some ly"
  obtains evs where "rmap (event_of ly) recs = Inr evs" "is_ok (modes.grun init_state evs)"
proof -
  obtain q st where q: "prepare p = Inr q"
    and run: "rfold (lower_record q)
        \<lparr>low_records = [], low_modes = replicate (lp_ranks q) SB, low_loaded = replicate (lp_ranks q) False\<rparr> sems = Inr st"
    and recs: "recs = low_records st"
    using assms(1) by (auto simp: lower_loop_def rbind_Inr_iff split: if_splits)
  obtain l where prep: "prepared q ly l" using prepare_Some[OF q assms(2)] by blast
  have "low_inv q ly
      \<lparr>low_records = [], low_modes = replicate (lp_ranks q) SB, low_loaded = replicate (lp_ranks q) False\<rparr>"
    by (auto simp: low_inv_def tracks_def init_state_def mode_at_def bcast_at_def)
  from run this have "low_inv q ly st" by (rule rfold_inv) (rule lower_record_inv[OF prep])
  then show thesis by (auto simp: low_inv_def tracks_def recs intro: that)
qed

lemma lowering_modes:
  assumes "lower_loop p sems = Inr recs" and "lp_layout p = Some ly" and "rmap (record_event (Some ly)) recs = Inr evs"
  shows "phase_run Single (ops_at (map snd evs) k) \<noteq> None"
proof -
  obtain es where es: "rmap (event_of ly) recs = Inr es" "is_ok (modes.grun init_state es)"
    by (rule lower_loop_run[OF assms(1,2)])
  have "rmap (event_of ly) recs = Inr (map snd evs)"
    using assms(3)
  proof (induction recs arbitrary: evs)
    case (Cons r recs)
    then obtain n op ks evs' where "record_event (Some ly) r = Inr (n, op, ks)" "rmap (record_event (Some ly)) recs = Inr evs'"
      "evs = (n, op, ks) # evs'"
      by (auto simp: rbind_Inr_iff)
    with Cons.IH record_event_of show ?case by simp
  qed simp
  with es have "is_ok (modes.grun init_state (map snd evs))" by simp
  then show ?thesis by (simp add: modes.grun_accepts)
qed

end
