(* ===== verification/Lowering_Streams.thy ===== *)
theory Lowering_Streams
  imports Concrete_Emission
begin

text \<open>
  The splitting loops of the lowering: when they return, and that the chunks they return,
  expanded, are exactly the stream they split.
\<close>

section \<open>Repeat counts\<close>

lemma split_loop_returns:
  assumes "0 < mx"
  shows "\<exists>cs. split_loop mx n = Some cs \<and> sum_list cs = max 0 n \<and> (\<forall>c \<in> set cs. 1 \<le> c \<and> c \<le> mx)"
proof (induction "nat n" arbitrary: n rule: less_induct)
  case less
  show ?case
  proof (cases "n \<le> 0")
    case True
    then show ?thesis by (simp add: split_loop.simps)
  next
    case False
    then have c: "1 \<le> min mx n" "min mx n \<le> n" using assms by simp_all
    then have "nat (n - min mx n) < nat n" by simp
    from less[OF this] obtain cs where "split_loop mx (n - min mx n) = Some cs" "sum_list cs = n - min mx n"
      "\<forall>c \<in> set cs. 1 \<le> c \<and> c \<le> mx"
      using c by auto
    then show ?thesis using False c by (intro exI[of _ "min mx n # cs"]) (simp add: split_loop.simps[of mx n] Let_def)
  qed
qed

text \<open>With a bound that is not positive the loop never returns on a positive count.\<close>

lemma split_loop_returned:
  assumes "split_loop mx n = Some cs"
  shows "0 < n \<longrightarrow> 0 < mx"
proof (rule split_loop.raw_induct[of "\<lambda>mx n cs. 0 < n \<longrightarrow> 0 < mx", OF _ assms], intro impI, rule ccontr)
  fix f mx n cs
  assume IH: "\<And>mx n cs. f mx n = Some cs \<Longrightarrow> 0 < n \<longrightarrow> (0::int) < mx"
    and run: "(if n \<le> 0 then Some []
      else let chunk = min mx n in Option.bind (f mx (n - chunk)) (\<lambda>chunks. Some (chunk # chunks))) = Some cs"
    and n: "0 < n" and mx: "\<not> 0 < mx"
  then have "min mx n = mx" by simp
  with run n obtain cs' where "f mx (n - mx) = Some cs'" by (auto simp: Let_def split: bind_splits)
  from IH[OF this] mx n show False by simp
qed

lemma split_loop_None: "split_loop mx n = None \<longleftrightarrow> 0 < n \<and> mx \<le> 0"
proof
  assume "split_loop mx n = None"
  then show "0 < n \<and> mx \<le> 0"
    using split_loop_returns[of mx n] by (cases "0 < n") (auto simp: split_loop.simps[of mx n] not_le[symmetric])
next
  assume "0 < n \<and> mx \<le> 0"
  then show "split_loop mx n = None" using split_loop_returned[of mx n] by (cases "split_loop mx n") auto
qed

section \<open>Address streams\<close>

text \<open>The addresses a chunk stands for: base, base plus stride, and so on.\<close>

definition expand :: "int \<times> int \<times> int \<Rightarrow> int list" where
  "expand = (\<lambda>(base, stride, n). map (\<lambda>j. base + int j * stride) [0..<nat n])"

definition chunk_ok :: "int \<Rightarrow> int \<times> int \<times> int \<Rightarrow> bool" where
  "chunk_ok mx = (\<lambda>(base, stride, n). 1 \<le> n \<and> n \<le> mx)"

lemma expand_stride: "expand (b, if 1 < n then s else 0, n) = expand (b, s, n)"
proof (cases "1 < n")
  case False
  then have "nat n = 0 \<or> nat n = 1" by linarith
  then show ?thesis using False by (elim disjE) (simp_all add: expand_def)
qed simp

text \<open>A stream is the concatenation of its first chunk and the rest.\<close>

lemma map_split:
  assumes "0 \<le> c" "c \<le> n"
  shows "map f [0..<nat n] = map f [0..<nat c] @ map (\<lambda>i. f (nat c + i)) [0..<nat (n - c)]"
proof -
  have "nat n = nat c + nat (n - c)" using assms by simp
  then have "[0..<nat n] = [0..<nat c] @ map (\<lambda>i. i + nat c) [0..<nat (n - c)]"
    by (simp add: upt_add_eq_append[of 0] map_add_upt add.commute)
  then show ?thesis by (simp add: comp_def add.commute)
qed

lemma strict_chunks_exact:
  assumes "0 < mx"
  shows "\<exists>cs. strict_chunks base stride mx n offset = Some cs \<and> list_all (chunk_ok mx) cs \<and>
    concat (map expand cs) = map (\<lambda>i. base + (offset + int i) * stride) [0..<nat n]"
proof (induction "nat n" arbitrary: n offset rule: less_induct)
  case less
  show ?case
  proof (cases "n \<le> 0")
    case True
    then show ?thesis by (simp add: strict_chunks.simps)
  next
    case False
    let ?c = "min mx n"
    have c: "1 \<le> ?c" "?c \<le> n" "?c \<le> mx" using assms False by simp_all
    then have "nat (n - ?c) < nat n" by simp
    from less[OF this] obtain cs where cs: "strict_chunks base stride mx (n - ?c) (offset + ?c) = Some cs"
      "list_all (chunk_ok mx) cs"
      "concat (map expand cs) = map (\<lambda>i. base + (offset + ?c + int i) * stride) [0..<nat (n - ?c)]"
      by blast
    let ?h = "(base + offset * stride, if 1 < ?c then stride else 0, ?c)"
    have h: "expand ?h = expand (base + offset * stride, stride, ?c)" by (rule expand_stride)
    have "strict_chunks base stride mx n offset = Some (?h # cs)"
      using False by (simp add: strict_chunks.simps[of base stride mx n] Let_def cs(1))
    moreover have "chunk_ok mx ?h" using c by (simp add: chunk_ok_def)
    moreover have "concat (map expand (?h # cs)) = map (\<lambda>i. base + (offset + int i) * stride) [0..<nat n]"
      unfolding map_split[of ?c n, OF order.trans[OF zero_le_one c(1)] c(2)]
      using c(1) by (simp only: list.map concat.simps h cs(3)) (simp add: expand_def algebra_simps)
    ultimately show ?thesis using cs(2) by (intro exI[of _ "?h # cs"]) simp
  qed
qed

text \<open>Within one chunk no address wraps.\<close>

lemma no_wrap:
  fixes num :: int
  assumes num: "0 < num" and pf: "0 < prefetch" "prefetch dvd stride"
    and start: "start = (logical div prefetch) mod num" and step: "step = (stride div prefetch) mod num"
    and j: "0 \<le> j" "start + j * step < num"
  shows "((logical + j * stride) div prefetch) mod num = start + j * step"
proof -
  obtain q where q: "stride = prefetch * q" using pf(2) by blast
  have "(logical + j * stride) div prefetch = logical div prefetch + j * q"
    using pf(1) div_mult_self2[of prefetch logical "j * q"] by (simp add: q algebra_simps)
  moreover have "step = q mod num" using pf(1) by (simp add: step q)
  then have "(logical div prefetch + j * q) mod num = (start + j * step) mod num"
    unfolding start by (metis mod_add_left_eq mod_add_right_eq mod_mult_right_eq)
  moreover have "0 \<le> start + j * step" using num j(1) by (simp add: start step)
  ultimately show ?thesis using j(2) by simp
qed

lemma bounded_chunks_exact:
  assumes mx: "0 < mx" and num: "0 < num" and pf: "0 < prefetch" "prefetch dvd stride"
    and step: "step = (stride div prefetch) mod num"
  shows "\<exists>cs. bounded_chunks base stride prefetch num tx step mx n offset = Some cs \<and> list_all (chunk_ok mx) cs \<and>
    concat (map expand cs) = map (\<lambda>i. ((base + (offset + int i) * stride) div prefetch) mod num * tx) [0..<nat n]"
proof (induction "nat n" arbitrary: n offset rule: less_induct)
  case less
  show ?case
  proof (cases "n \<le> 0")
    case True
    then show ?thesis by (simp add: bounded_chunks.simps)
  next
    case False
    define logical where "logical = base + offset * stride"
    define start where "start = (logical div prefetch) mod num"
    define c where "c = (if step = 0 then min mx n else min mx (min n ((num - 1 - start) div step + 1)))"
    have start: "0 \<le> start" "start < num" and step0: "0 \<le> step" using num by (simp_all add: start_def step)
    have wrap: "1 \<le> (num - 1 - start) div step + 1" if "step \<noteq> 0"
      using that step0 start by (simp add: pos_imp_zdiv_nonneg_iff)
    have c: "1 \<le> c" "c \<le> n" "c \<le> mx" using mx False wrap by (auto simp: c_def)
    then have "nat (n - c) < nat n" by simp
    from less[OF this] obtain cs where cs: "bounded_chunks base stride prefetch num tx step mx (n - c) (offset + c) = Some cs"
      "list_all (chunk_ok mx) cs"
      "concat (map expand cs) =
         map (\<lambda>i. ((base + (offset + c + int i) * stride) div prefetch) mod num * tx) [0..<nat (n - c)]"
      by blast
    let ?h = "(start * tx, if 1 < c then (if step = 0 then 0 else step * tx) else 0, c)"
    have "bounded_chunks base stride prefetch num tx step mx n offset =
        Option.bind (bounded_chunks base stride prefetch num tx step mx (n - c) (offset + c)) (\<lambda>rest. Some (?h # rest))"
      unfolding c_def start_def logical_def by (subst bounded_chunks.simps) (simp add: False Let_def)
    then have "bounded_chunks base stride prefetch num tx step mx n offset = Some (?h # cs)"
      by (simp only: cs(1) Option.bind.bind_lunit)
    moreover have "chunk_ok mx ?h" using c by (simp add: chunk_ok_def)
    moreover have addr: "((base + (offset + int i) * stride) div prefetch) mod num * tx = start * tx + int i * (step * tx)"
      if "i < nat c" for i
    proof -
      have "start + int i * step < num"
      proof (cases "step = 0")
        case False
        then have "int i \<le> (num - 1 - start) div step" using that by (simp add: c_def)
        then have "int i * step \<le> (num - 1 - start) div step * step" using step0 by (simp add: mult_right_mono)
        also have "\<dots> \<le> num - 1 - start"
          using False step0 div_mult_mod_eq[of "num - 1 - start" step] pos_mod_sign[of step "num - 1 - start"] by linarith
        finally show ?thesis by simp
      qed (use start in simp)
      from no_wrap[OF num pf start_def step _ this] show ?thesis
        by (simp add: logical_def algebra_simps)
    qed
    moreover have "concat (map expand (?h # cs)) =
        map (\<lambda>i. ((base + (offset + int i) * stride) div prefetch) mod num * tx) [0..<nat n]"
    proof -
      have "expand ?h = expand (start * tx, step * tx, c)"
        using expand_stride[of "start * tx" c "step * tx"] by (cases "step = 0"; cases "1 < c") simp_all
      also have "\<dots> = map (\<lambda>i. ((base + (offset + int i) * stride) div prefetch) mod num * tx) [0..<nat c]"
        by (simp add: expand_def addr)
      finally show ?thesis
        unfolding map_split[of c n, OF order.trans[OF zero_le_one c(1)] c(2)]
        using c(1) by (simp add: cs(3) algebra_simps)
    qed
    ultimately show ?thesis using cs(2) by (intro exI[of _ "?h # cs"]) simp
  qed
qed

text \<open>The stream each policy stands for.\<close>

definition host_stream :: "string \<Rightarrow> layout option \<Rightarrow> int \<Rightarrow> int \<Rightarrow> nat \<Rightarrow> int" where
  "host_stream policy lay base stride i =
     (case lay of
        Some ly \<Rightarrow>
          if policy = ''strict_bytes'' then base + int i * stride
          else ((base + int i * stride) div ly_prefetch ly) mod (ly_capacity_bytes ly div ly_tx_bytes ly) * ly_tx_bytes ly
      | None \<Rightarrow> base + int i * stride)"

lemma host_chunks:
  assumes "host_address_chunks base stride n mx lay policy = r"
  shows "r \<noteq> Inl LDiverges \<and> (\<forall>cs. r = Inr cs \<longrightarrow>
    list_all (chunk_ok mx) cs \<and> concat (map expand cs) = map (host_stream policy lay base stride) [0..<nat n])"
proof (cases "n \<le> 0 \<or> mx \<le> 0 \<or> policy \<notin> set SYNTHETIC_ADDRESS_POLICIES")
  case True
  then show ?thesis using assms by (auto simp: host_address_chunks_def split: if_splits)
next
  case False
  then have mx: "0 < mx" by simp
  show ?thesis
  proof (cases "policy = ''strict_bytes''")
    case True
    obtain cs where "strict_chunks base stride mx n 0 = Some cs" "list_all (chunk_ok mx) cs"
      "concat (map expand cs) = map (\<lambda>i. base + (0 + int i) * stride) [0..<nat n]"
      using strict_chunks_exact[OF mx] by blast
    then show ?thesis using False assms True
      by (cases lay) (auto simp: host_address_chunks_def returning_def host_stream_def)
  next
    case bounded: False
    show ?thesis
    proof (cases lay)
      case None
      then show ?thesis using False bounded assms by (auto simp: host_address_chunks_def)
    next
      case (Some ly)
      let ?num = "ly_capacity_bytes ly div ly_tx_bytes ly"
      let ?bad = "ly_prefetch ly \<le> 0 \<or> ly_tx_bytes ly \<le> 0 \<or> ly_capacity_bytes ly \<le> 0 \<or>
        ly_capacity_bytes ly mod ly_tx_bytes ly \<noteq> 0 \<or> base mod ly_prefetch ly \<noteq> 0 \<or> stride mod ly_prefetch ly \<noteq> 0"
      show ?thesis
      proof (cases ?bad)
        case True
        then have "host_address_chunks base stride n mx lay policy \<in> {Inl (LRefused ''capacity''), Inl (LRefused ''alignment'')}"
          using False bounded by (auto simp: host_address_chunks_def Some Let_def)
        then show ?thesis using assms by auto
      next
        case ok: False
        then obtain q where q: "ly_capacity_bytes ly = ly_tx_bytes ly * q" by (auto simp: mod_eq_0_iff_dvd)
        with ok have "0 < q" by (auto simp: not_le zero_less_mult_iff)
        then have "0 < ?num" using ok q by simp
        moreover have "ly_prefetch ly dvd stride" using ok by (simp add: mod_eq_0_iff_dvd)
        ultimately obtain cs where cs:
          "bounded_chunks base stride (ly_prefetch ly) ?num (ly_tx_bytes ly) ((stride div ly_prefetch ly) mod ?num) mx n 0 = Some cs"
          "list_all (chunk_ok mx) cs"
          "concat (map expand cs) =
             map (\<lambda>i. ((base + (0 + int i) * stride) div ly_prefetch ly) mod ?num * ly_tx_bytes ly) [0..<nat n]"
          using bounded_chunks_exact[OF mx, of ?num "ly_prefetch ly" stride _ base "ly_tx_bytes ly" n 0] ok by fastforce
        then have "host_address_chunks base stride n mx lay policy = Inr cs"
          using False bounded ok by (simp add: host_address_chunks_def Some Let_def returning_def)
        then show ?thesis using cs assms bounded by (auto simp: host_stream_def Some)
      qed
    qed
  qed
qed

end
