(* ===== verification/Lowering_Work.thy ===== *)
theory Lowering_Work
  imports Lowering_Modes Lowering_Streams
begin

text \<open>
  The work a lowering emits: the sum of the repeats of the records of a compute opcode. The
  mode changes of the lowering emit none; a per-bank lowering emits exactly the requested
  multiplies, an all-bank lowering the normalised number on every target rank.
\<close>

definition op_work :: "string \<Rightarrow> dict list \<Rightarrow> int" where
  "op_work op rs =
     sum_list (map (\<lambda>r. case (dgetd r ''opcode'' PNone, dgetd r ''repeat'' PNone) of
        (PStr o', PInt n) \<Rightarrow> if o' = op then n else 0 | _ \<Rightarrow> 0) rs)"

definition work :: "string \<Rightarrow> low_state \<Rightarrow> int" where
  "work op st = op_work op (low_records st)"

abbreviation compute_op :: "string \<Rightarrow> bool" where
  "compute_op op \<equiv> op = ''PIM_MAC'' \<or> op = ''PIM_MAC_AB''"

lemma work_set_rank [simp]: "work op (set_rank k m b st) = work op st"
  by (simp add: work_def)

lemma work_update [simp]:
  "work op (st\<lparr>low_modes := ms\<rparr>) = work op st"
  "work op (st\<lparr>low_loaded := bs\<rparr>) = work op st"
  by (simp_all add: work_def)

lemma emit_work:
  assumes "emit p sem op av n extra st = Inr st'" and "distinct (dkeys extra)" and "set (dkeys extra) \<inter> set base_keys = {}"
  shows "work q st' = work q st + (if q = op then n else 0)"
proof -
  obtain rid prov where r: "low_records st' = low_records st @ [concrete_record rid op av n prov extra]"
    using emit_Inr[OF assms(1)] by blast
  have "dget extra ''repeat'' = None" using assms(3) by (auto simp: dget_None_iff base_keys_def)
  then have "dget (concrete_record rid op av n prov extra) ''repeat'' = Some (PInt n)"
    by (simp add: concrete_record_def dget_dupdate[OF assms(2)])
  then show ?thesis using concrete_record_get(1)[OF assms(2,3)] by (simp add: work_def op_work_def r dgetd_def)
qed

lemma emit_plain_work: "emit p sem op av n [] st = Inr st' \<Longrightarrow> work q st' = work q st + (if q = op then n else 0)"
  using emit_work[of p sem op av n "[]" st st' q] by simp

text \<open>The mode changes do no work.\<close>

lemma to_single_work: "transition_to_single_bank p sem av st = Inr st' \<Longrightarrow> compute_op q \<Longrightarrow> work q st' = work q st"
  by (auto simp: transition_to_single_bank_def rbind_Inr_iff split: if_splits dest!: emit_plain_work[where q = q])

lemma to_host_work: "transition_to_host_all_bank p sem av st = Inr st' \<Longrightarrow> compute_op q \<Longrightarrow> work q st' = work q st"
  by (auto simp: transition_to_host_all_bank_def rbind_Inr_iff split: if_splits dest!: emit_plain_work[where q = q])

lemma ensure_load_work:
  assumes "ensure_all_bank_load p sem av st = Inr st'" and "compute_op q"
  shows "work q st' = work q st"
proof -
  obtain s k where s: "transition_to_host_all_bank p sem av st = Inr s"
    and l: "(if \<not> low_loaded s ! k then rbind (emit p sem ''PIM_BCAST'' av 1 [] s) (\<lambda>s. Inr (s\<lparr>low_loaded := (low_loaded s)[k := True]\<rparr>))
      else Inr s) = Inr st'"
    using assms(1) unfolding ensure_all_bank_load_def rbind_Inr_iff by (elim exE conjE)
  have "work q st' = work q s"
  proof (cases "low_loaded s ! k")
    case False
    then obtain s1 where e: "emit p sem ''PIM_BCAST'' av 1 [] s = Inr s1" "st' = s1\<lparr>low_loaded := (low_loaded s1)[k := True]\<rparr>"
      using l by (auto simp: rbind_Inr_iff)
    then show ?thesis using emit_plain_work[OF e(1), of q] assms(2) by auto
  qed (use l in simp)
  then show ?thesis using to_host_work[OF s assms(2)] by simp
qed

lemma to_compute_work: "transition_to_pim_all_bank p sem av st = Inr st' \<Longrightarrow> compute_op q \<Longrightarrow> work q st' = work q st"
  by (auto simp: transition_to_pim_all_bank_def rbind_Inr_iff split: if_splits dest!: emit_plain_work[where q = q])

lemma all_single_work:
  assumes "rfold (\<lambda>st k. transition_to_single_bank p sem (rank_addr_vec p base (nat k)) st) st ks = Inr st'" and "compute_op q"
  shows "work q st' = work q st"
  by (rule rfold_inv[where P = "\<lambda>x. work q x = work q st", OF assms(1)]) (simp_all add: to_single_work[OF _ assms(2)])

lemma returning_Inr: "returning r = Inr a \<longleftrightarrow> r = Some a"
  by (cases r) (simp_all add: returning_def)

section \<open>Chunks\<close>

lemma emit_chunks_work:
  assumes "emit_chunks p sem op av cs st = Inr st'"
  shows "work q st' = work q st + (if q = op then sum_list cs else 0)"
  using assms
proof (induction cs arbitrary: st)
  case (Cons c cs)
  then obtain st1 where "emit p sem op av c [] st = Inr st1" "emit_chunks p sem op av cs st1 = Inr st'"
    by (auto simp: emit_chunks_def rbind_Inr_iff)
  with Cons.IH[of st1] emit_plain_work[of p sem op av c st st1 q] show ?case by simp
qed (simp add: emit_chunks_def)

lemma split_loop_sum:
  assumes "split_loop mx n = Some cs" and "0 \<le> n"
  shows "sum_list cs = n"
  using assms split_loop_returns[of mx n] split_loop_returned[OF assms(1)]
  by (cases "n = 0") (auto simp: split_loop.simps[of mx 0])

lemma split_repeat_sum: "split_repeat n mx = Inr cs \<Longrightarrow> sum_list cs = n"
  by (auto simp: split_repeat_def returning_def split: if_splits option.splits intro: split_loop_sum)

lemma interleave_extra_keys:
  "distinct (dkeys (interleave_extra p a banks @ [(''interleave_start_idx'', v)]))"
  "set (dkeys (interleave_extra p a banks @ [(''interleave_start_idx'', v)])) \<inter> set base_keys = {}"
  by (auto simp: interleave_extra_def base_keys_def split: option.splits)

lemma emit_interleaved_work:
  assumes "emit_interleaved p sem av (interleave_extra p a banks) cs st = Inr st'"
  shows "work q st' = work q st + (if q = ''PIM_MAC'' then sum_list cs else 0)"
proof -
  let ?step = "\<lambda>(st, start) n.
         rbind (emit p sem ''PIM_MAC'' av n (interleave_extra p a banks @ [(''interleave_start_idx'', PInt start)]) st) (\<lambda>st.
         Inr (st, start + n))"
  have "work q (fst t) = work q (fst s) + (if q = ''PIM_MAC'' then sum_list cs else 0)" if "rfold ?step s cs = Inr t" for s t
    using that
  proof (induction cs arbitrary: s)
    case (Cons c cs)
    then obtain st1 where
      e: "emit p sem ''PIM_MAC'' av c (interleave_extra p a banks @ [(''interleave_start_idx'', PInt (snd s))]) (fst s) = Inr st1"
      and r: "rfold ?step (st1, snd s + c) cs = Inr t"
      by (cases s) (auto simp: rbind_Inr_iff)
    show ?case using Cons.IH[OF r] emit_work[OF e interleave_extra_keys, of q] by simp
  qed simp
  moreover obtain fin where "rfold ?step (st, 0) cs = Inr (st', fin)"
    using assms by (auto simp: emit_interleaved_def rbind_Inr_iff)
  ultimately show ?thesis by fastforce
qed

section \<open>The three lowerings of a per-bank compute record\<close>

text \<open>A loop that adds \<open>w x\<close> for each element adds the sum.\<close>

lemma rfold_adds:
  fixes g :: "'s \<Rightarrow> int"
  assumes "rfold f s xs = Inr t" and "\<And>s x s'. x \<in> set xs \<Longrightarrow> f s x = Inr s' \<Longrightarrow> g s' = g s + w x"
  shows "g t = g s + sum_list (map w xs)"
  using assms
proof (induction xs arbitrary: s)
  case (Cons x xs)
  obtain s1 where s1: "f s x = Inr s1" "rfold f s1 xs = Inr t" using Cons.prems(1) by (auto simp: rbind_Inr_iff)
  have "g t = g s1 + sum_list (map w xs)" by (rule Cons.IH[OF s1(2)]) (simp add: Cons.prems(2))
  moreover have "g s1 = g s + w x" by (rule Cons.prems(2)[OF _ s1(1)]) simp
  ultimately show ?case by simp
qed simp

lemma all_bank_work:
  assumes "lower_all_bank_mac p sem base banks n st = Inr st'" and "0 \<le> n"
  obtains ks where "all_bank_target_ranks p base banks = Inr ks" "work ''PIM_MAC'' st' = work ''PIM_MAC'' st"
    "work ''PIM_MAC_AB'' st' = work ''PIM_MAC_AB'' st + int (length ks) * n"
proof -
  let ?step = "\<lambda>st k. let av = rank_addr_vec p base (nat k) in
       rbind (ensure_all_bank_load p sem av st) (\<lambda>st.
       rbind (transition_to_pim_all_bank p sem av st) (\<lambda>st.
       rbind (returning (split_loop (lp_max_repeat p) n)) (\<lambda>chunks.
       rbind (emit_chunks p sem ''PIM_MAC_AB'' av chunks st) (\<lambda>st.
       rbind (emit p sem ''SB'' av 1 [] st) (\<lambda>st. Inr (set_rank (nat k) SB False st))))))"
  obtain ks where ks: "all_bank_target_ranks p base banks = Inr ks" "rfold ?step st ks = Inr st'"
    using assms(1) by (auto simp: lower_all_bank_mac_def rbind_Inr_iff)
  have step: "work q t = work q s + (if q = ''PIM_MAC_AB'' then n else 0)" if e: "?step s k = Inr t" and q: "compute_op q" for q s t k
  proof -
    let ?av = "rank_addr_vec p base (nat k)"
    obtain s1 s2 cs s3 s4 where 1: "ensure_all_bank_load p sem ?av s = Inr s1"
      and 2: "transition_to_pim_all_bank p sem ?av s1 = Inr s2" and cs: "split_loop (lp_max_repeat p) n = Some cs"
      and 3: "emit_chunks p sem ''PIM_MAC_AB'' ?av cs s2 = Inr s3" and 4: "emit p sem ''SB'' ?av 1 [] s3 = Inr s4"
      and t: "set_rank (nat k) SB False s4 = t"
      using e unfolding Let_def rbind_Inr_iff returning_Inr sum.inject by (elim exE conjE) (rule that)
    show ?thesis
      using ensure_load_work[OF 1 q] to_compute_work[OF 2 q] emit_chunks_work[OF 3, of q]
        emit_plain_work[OF 4, of q] split_loop_sum[OF cs assms(2)] q
      by (auto simp: t[symmetric])
  qed
  have sums: "work q st' = work q st + sum_list (map (\<lambda>_. if q = ''PIM_MAC_AB'' then n else 0) ks)" if "compute_op q" for q
    by (rule rfold_adds[OF ks(2)]) (rule step[OF _ that])
  show thesis
    using sums[of "''PIM_MAC''"] sums[of "''PIM_MAC_AB''"]
    by (intro that[OF ks(1)]) (simp_all add: sum_list_triv)
qed

lemma compact_work:
  assumes "lower_compact_mac p sem base banks n st = Inr st'" and "0 \<le> n"
  shows "work q st' = work q st + (if q = ''PIM_MAC'' then n else 0)"
proof -
  obtain a cs where cs: "split_loop (lp_max_repeat p) n = Some cs"
    and e: "emit_interleaved p sem base (interleave_extra p a banks) cs st = Inr st'"
    using assms(1) unfolding lower_compact_mac_def rbind_Inr_iff returning_Inr by (elim exE conjE)
  show ?thesis using emit_interleaved_work[OF e, of q] split_loop_sum[OF cs assms(2)] by simp
qed

lemma serial_work:
  assumes "lower_serial_mac p sem kind n issues st = Inr st'" and "0 < n" and "0 \<le> issues" and "compute_op q"
  shows "work q st' = work q st + (if q = ''PIM_MAC'' then issues else 0)"
proof -
  let ?w = "\<lambda>i. issues div n + (if int i < issues mod n then 1 else 0)"
  let ?step = "\<lambda>st i. let per_bank = ?w i in
       if per_bank = 0 then Inr st
       else rbind (addr_vec_from_semantic p sem kind (int i)) (\<lambda>av.
       rbind (transition_to_single_bank p sem av st) (\<lambda>st.
       rbind (split_repeat per_bank MAX_REPEAT) (\<lambda>chunks. emit_chunks p sem ''PIM_MAC'' av chunks st)))"
  have run: "rfold ?step st [0..<nat n] = Inr st'" using assms(1) by (simp add: lower_serial_mac_def)
  have "work q st' = work q st + sum_list (map (\<lambda>i. if q = ''PIM_MAC'' then ?w i else 0) [0..<nat n])"
  proof (rule rfold_adds[OF run])
    fix s i t assume e: "?step s i = Inr t"
    show "work q t = work q s + (if q = ''PIM_MAC'' then ?w i else 0)"
    proof (cases "?w i = 0")
      case False
      then obtain av s1 cs where 1: "transition_to_single_bank p sem av s = Inr s1" and cs: "split_repeat (?w i) MAX_REPEAT = Inr cs"
        and 2: "emit_chunks p sem ''PIM_MAC'' av cs s1 = Inr t"
        using e unfolding Let_def if_not_P[OF False] rbind_Inr_iff by (elim exE conjE)
      show ?thesis
        using to_single_work[OF 1 assms(4)] emit_chunks_work[OF 2, of q] split_repeat_sum[OF cs] by simp
    qed (use e in simp)
  qed
  moreover have "sum_list (map ?w [0..<nat n]) = issues"
  proof -
    have r: "0 \<le> issues mod n" "issues mod n < n" using assms(2) by simp_all
    have "sum_list (map ?w [0..<nat n]) = (\<Sum>i<nat n. ?w i)" by (simp add: interv_sum_list_conv_sum_set_nat atLeast0LessThan)
    also have "\<dots> = n * (issues div n) + (\<Sum>i<nat n. if int i < issues mod n then 1 else 0)"
      using assms(2) by (simp add: sum.distrib)
    also have "(\<Sum>i<nat n. if int i < issues mod n then 1 else (0::int)) = (\<Sum>i<nat (issues mod n). 1)"
      by (rule sum.mono_neutral_cong_right) (use r in auto)
    finally show ?thesis using r by simp
  qed
  ultimately show ?thesis by (simp add: sum_list_triv)
qed

section \<open>The addresses of emitted records\<close>

text \<open>All requests of one burst have the address of its first one.\<close>

lemma addr_vec_within_burst:
  assumes "access_fields_of r = Inr a" and "0 \<le> i" and "i < af_burst a"
  shows "addr_vec_from_semantic p r kind i = addr_vec_from_semantic p r kind 0"
proof -
  have "i div max 1 (af_burst a) = 0 div max 1 (af_burst a)" using assms(2,3) by (simp add: div_pos_pos_trivial)
  then show ?thesis by (simp only: addr_vec_from_semantic_def assms(1) rbind_Inr Let_def)
qed

text \<open>The records appended by a step all carry the address \<open>av\<close>.\<close>

definition appends :: "int list \<Rightarrow> low_state \<Rightarrow> low_state \<Rightarrow> bool" where
  "appends av st st' \<longleftrightarrow>
     (\<exists>new. low_records st' = low_records st @ new \<and> (\<forall>r \<in> set new. dgetd r ''addr_vec'' PNone = PList (map PInt av)))"

lemma appends_refl [simp]: "low_records st' = low_records st \<Longrightarrow> appends av st st'"
  by (simp add: appends_def)

lemma appends_trans: "appends av r s \<Longrightarrow> appends av s t \<Longrightarrow> appends av r t"
  by (auto simp: appends_def)

lemma appends_emit:
  assumes "emit p sem op av n [] st = Inr st'"
  shows "appends av st st'"
proof -
  obtain rid prov where "low_records st' = low_records st @ [concrete_record rid op av n prov []]"
    using emit_Inr[OF assms] by blast
  then show ?thesis using concrete_record_get(2)[of "[]"] by (simp add: appends_def dgetd_def)
qed

lemma appends_to_single: "transition_to_single_bank p sem av st = Inr st' \<Longrightarrow> appends av st st'"
  by (auto simp: transition_to_single_bank_def rbind_Inr_iff split: if_splits dest!: appends_emit)
     (simp add: appends_def)

lemma appends_chunks:
  assumes "emit_chunks p sem op av cs st = Inr st'"
  shows "appends av st st'"
  by (rule rfold_inv[where P = "appends av st", OF assms[unfolded emit_chunks_def]])
     (auto intro: appends_trans appends_emit)

end
