(* ===== verification/Lowering_Returns.thy ===== *)
theory Lowering_Returns
  imports Lowering_Streams
begin

text \<open>
  Termination of the lowering: with a positive bound on repeats no lowering diverges. The
  argument is compositional: a result is \<open>returned\<close> unless it is \<open>LDiverges\<close>, and sequencing and
  loops keep that; only the splitting loops need their bound.
\<close>

definition returned :: "lower_error + 'a \<Rightarrow> bool" where
  "returned r \<longleftrightarrow> r \<noteq> Inl LDiverges"

named_theorems returned_intros "results that are not LDiverges"

lemma returned_Inr [returned_intros, simp]: "returned (Inr a)"
  by (simp add: returned_def)

lemma returned_Inl [simp]: "returned (Inl e) \<longleftrightarrow> e \<noteq> LDiverges"
  by (simp add: returned_def)

lemma returned_rbind [returned_intros]:
  "returned m \<Longrightarrow> (\<And>a. m = Inr a \<Longrightarrow> returned (f a)) \<Longrightarrow> returned (rbind m f)"
  by (cases m) (simp_all add: returned_def)

lemma returned_if [returned_intros]:
  "(b \<Longrightarrow> returned x) \<Longrightarrow> (\<not> b \<Longrightarrow> returned y) \<Longrightarrow> returned (if b then x else y)"
  by simp

lemma returned_rmap [returned_intros]: "(\<And>x. returned (f x)) \<Longrightarrow> returned (rmap f xs)"
  by (induction xs) (auto intro!: returned_rbind)

lemma returned_rfold [returned_intros]: "(\<And>s x. returned (f s x)) \<Longrightarrow> returned (rfold f s xs)"
  by (induction xs arbitrary: s) (auto intro!: returned_rbind)

lemma returned_lift [returned_intros]: "returned (lift_trace m)"
  by (cases m) (simp_all add: lift_trace_def)

section \<open>Fields and coordinates\<close>

lemma returned_sub_dict [returned_intros]: "returned (sub_dict r f)"
  by (simp add: sub_dict_def split: pyval.split list.split)

lemma returned_sub_list [returned_intros]: "returned (sub_list r f)"
  by (simp add: sub_list_def split: pyval.split)

lemma returned_to_int [returned_intros]: "returned (to_int f v)"
  by (simp add: to_int_def split: option.split)

lemma returned_get_int [returned_intros]: "returned (get_int r f a)"
  by (simp add: get_int_def returned_to_int)

lemma returned_py_str [returned_intros]: "returned (py_str f v)"
  by (simp add: py_str_def split: pyval.split)

lemma returned_check [returned_intros]: "returned (check_coordinates p)"
  by (simp add: check_coordinates_def Let_def split: option.split)

lemma returned_decompose [returned_intros]: "returned (decompose_flat_bank v av ps cs b)"
  by (simp add: decompose_flat_bank_def Let_def)

lemma returned_access [returned_intros]: "returned (access_fields_of r)"
  unfolding access_fields_of_def by (intro returned_intros)

lemma returned_addr_vec [returned_intros]: "returned (addr_vec_from_semantic p r kind i)"
  unfolding addr_vec_from_semantic_def Let_def
  by (intro returned_intros) (auto split: option.split intro!: returned_intros)

lemma returned_rank_id [returned_intros]: "returned (rank_id_for p av)"
  by (simp add: rank_id_for_def split: option.split)

lemma returned_rank_flat [returned_intros]: "returned (rank_for_flat_bank p av v)"
  unfolding rank_for_flat_bank_def by (intro returned_intros) (simp split: option.split)

lemma returned_targets [returned_intros]: "returned (all_bank_target_ranks p av banks)"
  unfolding all_bank_target_ranks_def by (intro returned_intros)

section \<open>Splitting\<close>

lemma returned_split_loop: "0 < mx \<Longrightarrow> returned (returning (split_loop mx n))"
  using split_loop_None[of mx n] by (cases "split_loop mx n") (simp_all add: returning_def)

lemma returned_split_repeat [returned_intros]: "returned (split_repeat n mx)"
  using returned_split_loop[of mx n] by (simp add: split_repeat_def)

lemma returned_host_chunks [returned_intros]: "returned (host_address_chunks b s n mx lay pol)"
  using host_chunks[OF refl, of b s n mx lay pol] by (simp add: returned_def)

section \<open>Records\<close>

lemma returned_emit [returned_intros]: "returned (emit p sem op av n extra st)"
  unfolding emit_def semantic_provenance_def by (intro returned_intros)

lemma returned_emit_chunks [returned_intros]: "returned (emit_chunks p sem op av cs st)"
  unfolding emit_chunks_def by (intro returned_intros)

lemma returned_transitions [returned_intros]:
  "returned (transition_to_single_bank p sem av st)"
  "returned (transition_to_host_all_bank p sem av st)"
  unfolding transition_to_single_bank_def transition_to_host_all_bank_def by (intro returned_intros)+

lemma returned_ensure [returned_intros]: "returned (ensure_all_bank_load p sem av st)"
  unfolding ensure_all_bank_load_def by (intro returned_intros)

lemma returned_to_pim [returned_intros]: "returned (transition_to_pim_all_bank p sem av st)"
  unfolding transition_to_pim_all_bank_def by (intro returned_intros) simp

lemma returned_emit_stream [returned_intros]: "returned (emit_stream p sem op b s n st)"
  unfolding emit_stream_def by (intro returned_intros) (auto intro!: returned_intros)

lemma returned_emit_passes [returned_intros]: "returned (emit_passes p sem op b s n k st)"
  unfolding emit_passes_def by (intro returned_intros)

lemma returned_host [returned_intros]: "returned (lower_host p sem kind st)"
  unfolding lower_host_def by (intro returned_intros) simp_all

lemma returned_base_byte [returned_intros]: "returned (pim_data_move_materialization_base_byte r tx)"
  unfolding pim_data_move_materialization_base_byte_def context_int_def
  by (intro returned_intros) (auto split: option.split pyval.split intro!: returned_intros)

lemma returned_bytes [returned_intros]: "returned (pim_data_move_materialization_bytes r)" "returned (pim_data_move_tx_bytes r)"
  unfolding pim_data_move_materialization_bytes_def pim_data_move_tx_bytes_def semantic_datatype_bytes_def
  by (intro returned_intros; auto split: pyval.split intro!: returned_intros)+

lemma returned_weight [returned_intros]: "returned (lower_weight p sem st)"
  unfolding lower_weight_def Let_def by (intro returned_intros) simp_all

lemma returned_interleaved [returned_intros]: "returned (emit_interleaved p sem av extra cs st)"
  unfolding emit_interleaved_def by (intro returned_intros) (auto split: prod.split intro!: returned_intros)

lemma returned_compute:
  assumes mx: "0 < lp_max_repeat p"
  shows "returned (lower_compute p sem kind av n st)"
  unfolding lower_compute_def lower_all_bank_mac_def lower_compact_mac_def lower_serial_mac_def Let_def
  by (intro returned_intros returned_split_loop[OF mx])

lemma returned_load [returned_intros]: "returned (lower_load p sem kind av n st)"
  unfolding lower_load_def Let_def by (intro returned_intros) simp_all

lemma returned_all_compute [returned_intros]: "returned (lower_all_compute p sem kind n k st)"
  unfolding lower_all_compute_def Let_def by (intro returned_intros)

lemma returned_pim:
  assumes "0 < lp_max_repeat p"
  shows "returned (lower_pim p sem kind st)"
  unfolding lower_pim_def by (intro returned_intros returned_compute[OF assms]) simp_all

lemma returned_record:
  assumes "0 < lp_max_repeat p"
  shows "returned (lower_record p st sem)"
  unfolding lower_record_def
  by (auto split: pyval.split intro!: returned_intros returned_pim[OF assms])

lemma prepare_max_repeat: "prepare p = Inr q \<Longrightarrow> lp_max_repeat q = lp_max_repeat p"
  by (auto simp: prepare_def Let_def rbind_Inr_iff split: if_splits option.splits)

lemma returned_prepare [returned_intros]: "returned (prepare p)"
  unfolding prepare_def Let_def by (auto split: option.split intro!: returned_intros)

lemma returned_loop:
  assumes "0 < lp_max_repeat p"
  shows "returned (lower_loop p sems)"
  unfolding lower_loop_def
proof (rule returned_rbind[OF returned_prepare])
  fix q assume "prepare p = Inr q"
  then have "0 < lp_max_repeat q" using assms by (simp add: prepare_max_repeat)
  then show "returned (if lp_mac_mode q \<notin> {''per_kind'', ''all_bank'', ''per_bank''} then Inl (LRefused ''mac_mode'')
     else rbind (rfold (lower_record q)
        \<lparr>low_records = [], low_modes = replicate (lp_ranks q) SB, low_loaded = replicate (lp_ranks q) False\<rparr> sems) (\<lambda>st.
     Inr (low_records st)))"
    by (intro returned_intros returned_record) simp_all
qed

end
