(* ===== verification/Concrete_Artifacts.thy ===== *)
theory Concrete_Artifacts
  imports Lowering_Modes
begin

text \<open>
  The rest of \<open>workload_surrogate/generate_lpddr5_pim_concrete.py\<close>: the minimal trace and the
  summary written beside a trace. Writing the two files is \<open>Concrete_Trace.write_jsonl\<close>; the
  command line is not modelled.
\<close>

section \<open>The minimal trace\<close>

definition minimal_record :: "nat \<Rightarrow> string \<Rightarrow> int list \<Rightarrow> int \<Rightarrow> dict" where
  "minimal_record i op av n =
     concrete_record (record_id i) op av n (concrete_provenance ''generated'' ''lpddr_pim_concrete_minimal'') []"

definition minimal_sequence :: "int list \<Rightarrow> int list \<Rightarrow> int \<Rightarrow> int \<Rightarrow> bool \<Rightarrow> dict list" where
  "minimal_sequence bank0 bank1 single_repeats post_repeats include_all_bank =
     [minimal_record 0 ''SB'' bank0 1, minimal_record 1 ''PIM_MAC'' bank0 single_repeats] @
     (if include_all_bank
      then [minimal_record 2 ''HAB'' bank0 1, minimal_record 3 ''PIM_BCAST'' bank0 1, minimal_record 4 ''HAB_PIM'' bank0 1,
            minimal_record 5 ''PIM_MAC_AB'' bank0 1, minimal_record 6 ''SB'' bank0 1]
      else []) @
     [minimal_record (if include_all_bank then 7 else 2) ''PIM_MAC'' bank1 post_repeats]"

definition generate_minimal_concrete_records ::
  "int \<Rightarrow> int \<Rightarrow> int \<Rightarrow> int \<Rightarrow> int \<Rightarrow> int \<Rightarrow> bool \<Rightarrow> string option \<Rightarrow> lower_error + dict list" where
  "generate_minimal_concrete_records levels bank row col single_repeats post_repeats include_all_bank env =
     (let inside = (\<lambda>l. 0 \<le> l \<and> l < levels) in
      if levels \<le> 0 then Inl (LRefused ''addr_vec_size'')
      else if \<not> (inside bank \<and> inside row \<and> inside col) then Inl (LRefused ''level'')
      else if single_repeats \<le> 0 then Inl (LRefused ''single_bank_mac_repeats'')
      else if post_repeats \<le> 0 then Inl (LRefused ''post_all_bank_mac_repeats'')
      else
        let bank0 = replicate (nat levels) 0;
            bank1 = bank0[nat bank := 1];
            records = minimal_sequence bank0 bank1 single_repeats post_repeats include_all_bank
        in rbind (lift_trace (validate_sequence records None None env)) (\<lambda>_. Inr records))"

section \<open>The summary\<close>

text \<open>The counts per opcode, a dictionary in order of first occurrence.\<close>

definition count_opcode :: "(string \<times> int) list \<Rightarrow> dict \<Rightarrow> lower_error + (string \<times> int) list" where
  "count_opcode counts r =
     (case (dget r ''opcode'', dget r ''repeat'') of
        (Some (PStr op), Some v) \<Rightarrow> rbind (to_int ''repeat'' v) (\<lambda>n. Inr (dset op (dgetd counts op 0 + n) counts))
      | _ \<Rightarrow> Inl (LType ''opcode''))"

definition counts_by_opcode :: "dict list \<Rightarrow> lower_error + (string \<times> int) list" where
  "counts_by_opcode rs = rfold count_opcode [] rs"

text \<open>The truthy semantic sources of the provenances.\<close>

definition semantic_source :: "dict \<Rightarrow> lower_error + pyval list" where
  "semantic_source r =
     (case dgetd r ''provenance'' (PDict []) of
        PDict p \<Rightarrow> (let s = dgetd p ''semantic_source'' PNone in Inr (if truthy s then [s] else []))
      | _ \<Rightarrow> Inl (LType ''provenance''))"

definition build_provenance_summary :: "dict list \<Rightarrow> lower_error + dict" where
  "build_provenance_summary rs =
     rbind (counts_by_opcode rs) (\<lambda>counts.
     rbind (lift_trace (expanded_record_count rs)) (\<lambda>total.
     rbind (rmap semantic_source rs) (\<lambda>sources.
     Inr [(''schema_version'', PStr ''lpddr5-pim-opcode-v0.2''), (''generator_version'', PStr CONCRETE_GENERATOR_VERSION),
          (''record_counts_by_opcode'', PDict (map (\<lambda>(op, n). (op, PInt n)) counts)),
          (''total_logical_records'', PInt (int (length rs))), (''total_expanded_records'', PInt total),
          (''claim_boundary'', PList (map PStr REQUIRED_BOUNDARY_CLAIMS)), (''non_claims'', PList (map PStr DEFAULT_NON_CLAIMS)),
          (''semantic_sources'', PList (concat sources)), (''notes'', PStr '''')])))"

section \<open>Facts\<close>

lemma minimal_event:
  assumes "op \<in> set CONCRETE_OPCODES" "\<not> is_host op" "av \<noteq> []" "\<forall>i \<in> set av. 0 \<le> i"
  shows "record_event None (minimal_record i op av n) = Inr e \<longleftrightarrow>
    1 \<le> n \<and> n \<le> MAX_REPEAT \<and> 1 < length av \<and> e = (n, op, [av ! 1])"
proof -
  have ints: "list_all is_int (map PInt av)" "list_all nonneg_int (map PInt av)"
    using assms(4) by (auto simp: list_all_iff)
  let ?s = "[(''opcode'', PStr op), (''repeat'', PInt n), (''addr_vec'', PList (map PInt av))]"
  have s: "slimmed (minimal_record i op av n) = Inr ?s"
    by (simp add: minimal_record_def concrete_record_def concrete_provenance_def slimmed_def slim_record_def SLIM_DROP_def
        has_def dgetd_def)
  have op: "check_opcode (PStr op) = Inr op"
    using assms(1) by (auto simp: check_opcode_def CONCRETE_OPCODES_def FORBIDDEN_RAW_ATTACC_OPCODES_def)
  have "validated ?s None = Inr (o', r, vs) \<longleftrightarrow> 1 \<le> n \<and> n \<le> MAX_REPEAT \<and> o' = op \<and> r = n \<and> vs = map PInt av" for o' r vs
    using assms(2,3) ints op
    by (auto simp: validated_Inr check_fields_def has_def dgetd_def check_repeat_def check_addr_vec_def check_addr_byte_def
        check_interleave_fields_def interleave_fields_def check_bank_sequence_def check_optional_def check_bank_ranges_def
        check_sem_def require_def)
  moreover have "record_rank_ids ?s None = Inr ks \<longleftrightarrow> 1 < length av \<and> ks = [av ! 1]" for ks
    by (auto simp: record_rank_ids_def dgetd_def py_items_def int_value_def Let_def)
  ultimately show ?thesis
    by (cases e) (auto simp: record_event_def s rbind_Inr_iff)
qed

text \<open>The operations of the minimal trace and the ranks they are on.\<close>

lemma minimal_events:
  assumes "1 \<le> n" "n \<le> MAX_REPEAT" "1 \<le> m" "m \<le> MAX_REPEAT" "1 < length b0" "1 < length b1"
    "\<forall>i \<in> set b0. 0 \<le> i" "\<forall>i \<in> set b1. 0 \<le> i"
  shows "rmap (record_event None) (minimal_sequence b0 b1 n m inc) = Inr
    ([(1, ''SB'', [b0 ! 1]), (n, ''PIM_MAC'', [b0 ! 1])] @
     (if inc then [(1, ''HAB'', [b0 ! 1]), (1, ''PIM_BCAST'', [b0 ! 1]), (1, ''HAB_PIM'', [b0 ! 1]),
                   (1, ''PIM_MAC_AB'', [b0 ! 1]), (1, ''SB'', [b0 ! 1])] else []) @
     [(m, ''PIM_MAC'', [b1 ! 1])])"
proof -
  have ev: "record_event None (minimal_record i op av k) = Inr (k, op, [av ! 1])"
    if "op \<in> set CONCRETE_OPCODES" "\<not> is_host op" "1 < length av" "\<forall>i \<in> set av. 0 \<le> i" "1 \<le> k" "k \<le> MAX_REPEAT" for i op av k
    using minimal_event[OF that(1,2) _ that(4), of i k] that(3,5,6) by (cases av) auto
  have m1: "1 \<le> MAX_REPEAT" by (simp add: MAX_REPEAT_def)
  show ?thesis
    unfolding minimal_sequence_def rmap_append
    using assms m1 by (simp add: ev CONCRETE_OPCODES_def is_host_def)
qed

lemma minimal_accepted:
  assumes "1 \<le> n" "1 \<le> m" "b0 \<noteq> []" "length b1 = length b0" "\<forall>i \<in> set b0. 0 \<le> i" "\<forall>i \<in> set b1. 0 \<le> i"
  shows "validate_sequence (minimal_sequence b0 b1 n m inc) None None env = Inr () \<longleftrightarrow>
    1 < length b0 \<and> n \<le> MAX_REPEAT \<and> m \<le> MAX_REPEAT \<and>
    (\<exists>limit. expanded_limit None env = Inr limit \<and> n + m + (if inc then 6 else 1) \<le> limit)"
proof (cases "1 < length b0 \<and> n \<le> MAX_REPEAT \<and> m \<le> MAX_REPEAT")
  case True
  define r s where "r = b0 ! 1" and "s = b1 ! 1"
  define evs where "evs = [(1, ''SB'', [r]), (n, ''PIM_MAC'', [r])] @
     (if inc then [(1, ''HAB'', [r]), (1, ''PIM_BCAST'', [r]), (1, ''HAB_PIM'', [r]), (1, ''PIM_MAC_AB'', [r]), (1, ''SB'', [r])]
      else []) @ [(m, ''PIM_MAC'', [s])]"
  have "rmap (record_event None) (minimal_sequence b0 b1 n m inc) = Inr evs"
    unfolding evs_def r_def s_def by (rule minimal_events) (use True assms in simp_all)
  moreover have "sum_list (map fst evs) = n + m + (if inc then 6 else 1)" by (simp add: evs_def)
  moreover have "\<forall>k. phase_run Single (ops_at (map snd evs) k) \<noteq> None"
    by (cases inc) (simp_all add: evs_def phase_step_simps)
  ultimately show ?thesis using True unfolding validate_sequence_iff by auto
next
  case False
  have "\<not> is_ok (rmap (record_event None) (minimal_sequence b0 b1 n m inc))"
    unfolding is_ok_rmap
  proof
    assume all: "\<forall>r \<in> set (minimal_sequence b0 b1 n m inc). is_ok (record_event None r)"
    have ne: "b1 \<noteq> []" using assms(3,4) by auto
    have "is_ok (record_event None (minimal_record 1 ''PIM_MAC'' b0 n))"
      and "is_ok (record_event None (minimal_record (if inc then 7 else 2) ''PIM_MAC'' b1 m))"
      by (rule bspec[OF all], simp add: minimal_sequence_def)+
    then show False
      using False minimal_event[of "''PIM_MAC''" b0 1 n] minimal_event[of "''PIM_MAC''" b1 "if inc then 7 else 2" m] assms ne
      by (auto simp: is_ok_iff CONCRETE_OPCODES_def is_host_def)
  qed
  then have "validate_sequence (minimal_sequence b0 b1 n m inc) None None env \<noteq> Inr ()"
    unfolding validate_sequence_iff by (auto simp: is_ok_iff)
  with False show ?thesis by auto
qed

text \<open>The summary's counts add up.\<close>

lemma sum_dset:
  assumes "distinct (dkeys d)"
  shows "sum_list (map snd (dset k (dgetd d k 0 + n) d)) = sum_list (map snd d) + (n :: int)"
  using assms
proof (induction d)
  case Nil
  then show ?case by (simp add: dgetd_def)
next
  case (Cons kv d)
  then show ?case
    by (cases kv) (auto simp: dgetd_def split: option.splits)
qed

lemma counts_sum:
  assumes "rfold count_opcode c rs = Inr c'" and "distinct (dkeys c)"
  shows "distinct (dkeys c') \<and> (\<exists>n. expanded_record_count rs = Inr n \<and> sum_list (map snd c') = sum_list (map snd c) + n)"
  using assms
proof (induction rs arbitrary: c)
  case (Cons r rs)
  obtain c1 where c1: "count_opcode c r = Inr c1" "rfold count_opcode c1 rs = Inr c'"
    using Cons.prems(1) by (auto simp: rbind_Inr_iff)
  obtain op v n where n: "dget r ''repeat'' = Some v" "int_value v = Inr n" "c1 = dset op (dgetd c op 0 + n) c"
    using c1(1) by (auto simp: count_opcode_def rbind_Inr_iff to_int_def int_value_def split: option.splits pyval.splits)
  have "distinct (dkeys c1)" unfolding n(3) by (rule distinct_dset[OF Cons.prems(2)])
  with Cons.IH[OF c1(2)] obtain k where "distinct (dkeys c')" "expanded_record_count rs = Inr k"
    "sum_list (map snd c') = sum_list (map snd c1) + k" by blast
  then show ?case
    using n(1,2) sum_dset[OF Cons.prems(2), of op n]
    by (auto simp: expanded_record_count_def rbind_Inr_iff n(3))
qed (simp add: expanded_record_count_def)

end
