(* ===== verification/Lowering_Properties.thy ===== *)
theory Lowering_Properties
  imports Lowering_Work Lowering_Returns Concrete_Artifacts Concrete_Properties
begin

text \<open>
  The properties of the lowering of semantic records into concrete PIM opcodes: it keeps the
  mode protocol, its host streams are exact, it conserves the per-bank work; and where the code
  falls short: the serial lowering ignores the burst length, a bound on repeats is not checked.
\<close>

section \<open>The protocol\<close>

text \<open>
  C13: a lowering never breaks the mode protocol. With a layout, the final validation of the
  lowered records can fail for the content of a record or the budget only: it accepts exactly
  when every record passes its checks and the expanded records fit the budget.
\<close>

theorem lowering_keeps_protocol:
  assumes "lower_loop p sems = Inr recs" and "lp_layout p = Some ly"
  shows "validate_sequence recs (Some ly) mx env = Inr () \<longleftrightarrow>
    (\<exists>limit evs. expanded_limit mx env = Inr limit \<and> rmap (record_event (Some ly)) recs = Inr evs \<and>
       sum_list (map fst evs) \<le> limit)"
proof -
  have run: "\<forall>k. phase_run Single (ops_at (map snd evs) k) \<noteq> None"
    if "rmap (record_event (Some ly)) recs = Inr evs" for evs
    using lowering_modes[OF assms that] by blast
  show ?thesis
    unfolding validate_sequence_iff
  proof (intro iffI; elim exE conjE)
    fix limit evs
    assume "expanded_limit mx env = Inr limit" "rmap (record_event (Some ly)) recs = Inr evs" "sum_list (map fst evs) \<le> limit"
    then show "\<exists>limit evs. expanded_limit mx env = Inr limit \<and> rmap (record_event (Some ly)) recs = Inr evs \<and>
        sum_list (map fst evs) \<le> limit \<and> (\<forall>k. phase_run Single (ops_at (map snd evs) k) \<noteq> None)"
      using run by (intro exI conjI) assumption+
  qed (intro exI conjI)
qed

definition demo_params :: low_params where
  "demo_params =
     \<lparr>lp_size = 5, lp_bank = 2, lp_positions = None, lp_counts = None, lp_row = 3, lp_col = 4, lp_manifest = ''demo'',
      lp_materialize = False, lp_interleave = False, lp_depth = 4, lp_max_repeat = 1000000, lp_mac_mode = ''per_kind'',
      lp_layout = Some demo_layout, lp_policy = ''strict_bytes'', lp_rank_level = None, lp_ranks = 1\<rparr>"

text \<open>A per-bank record over four banks with the burst length of the bundled decode-only manifest.\<close>

definition demo_compute :: "int \<Rightarrow> dict" where
  "demo_compute burst =
     [(''kind'', PStr ''PIMCompute''), (''record_id'', PStr ''r0''), (''num_requests'', PInt 8),
      (''bank_sequence'', PList [PInt 0, PInt 1, PInt 2, PInt 3]), (''burst_length'', PInt burst)]"

theorem lowering_keeps_protocol_witness:
  "\<exists>recs. lower_loop demo_params [[(''kind'', PStr ''PIMLoadAll''), (''record_id'', PStr ''r0''), (''num_requests'', PInt 1)]] =
      Inr recs \<and> (validate_sequence recs (Some demo_layout) (Some 10) None = Inr () \<longleftrightarrow>
    (\<exists>limit evs. expanded_limit (Some 10) None = Inr limit \<and> rmap (record_event (Some demo_layout)) recs = Inr evs \<and>
       sum_list (map fst evs) \<le> limit))"
proof -
  have "is_ok (lower_loop demo_params [[(''kind'', PStr ''PIMLoadAll''), (''record_id'', PStr ''r0''), (''num_requests'', PInt 1)]])"
    by code_simp
  then obtain recs where r: "lower_loop demo_params
      [[(''kind'', PStr ''PIMLoadAll''), (''record_id'', PStr ''r0''), (''num_requests'', PInt 1)]] = Inr recs"
    by (auto simp: is_ok_iff)
  have l: "lp_layout demo_params = Some demo_layout" by (simp add: demo_params_def)
  show ?thesis by (intro exI[of _ recs] conjI r lowering_keeps_protocol[OF r l])
qed

section \<open>Streams and work\<close>

text \<open>
  C15: a host stream is lowered exactly. The address chunks, expanded, are the addresses of the
  stream in order (wrapped into the layout's transactions by the bounded policy), none empty
  and none longer than the bound on repeats; and the chunking always returns.
\<close>

theorem host_stream_exact:
  "host_address_chunks base stride n mx lay policy \<noteq> Inl LDiverges \<and>
   (case host_address_chunks base stride n mx lay policy of
      Inl _ \<Rightarrow> True
    | Inr cs \<Rightarrow> list_all (chunk_ok mx) cs \<and> concat (map expand cs) = map (host_stream policy lay base stride) [0..<nat n])"
  using host_chunks[OF refl, of base stride n mx lay policy]
  by (cases "host_address_chunks base stride n mx lay policy") auto

text \<open>
  C14: a per-bank compute record is lowered to the work it asks for. Unless it goes to all
  banks, the repeats of the emitted \<open>PIM_MAC\<close> records add up to exactly the requests times
  the passes; if it does, every target rank gets that number divided by the banks, rounded up.
\<close>

theorem compute_conserves_work:
  assumes "lower_compute p sem kind base n st = Inr st'" and "0 < n"
  shows "\<exists>bs. sub_list sem ''bank_sequence'' = Inr bs \<and>
    (let len = max 1 (int (length bs)) in
     if lp_interleave p \<and> 1 < len \<and> resolve_mac_mode p kind = ''all_bank''
     then work ''PIM_MAC'' st' = work ''PIM_MAC'' st \<and>
       (\<exists>banks ks. rmap (to_int ''bank_sequence'') bs = Inr banks \<and> all_bank_target_ranks p base banks = Inr ks \<and>
         work ''PIM_MAC_AB'' st' = work ''PIM_MAC_AB'' st + int (length ks) * max 1 ((n + len - 1) div len))
     else work ''PIM_MAC'' st' = work ''PIM_MAC'' st + n \<and> work ''PIM_MAC_AB'' st' = work ''PIM_MAC_AB'' st)"
proof -
  obtain bs banks where bs: "sub_list sem ''bank_sequence'' = Inr bs" and banks: "rmap (to_int ''bank_sequence'') bs = Inr banks"
    and run: "rbind (Inr banks) (\<lambda>banks. let len = max 1 (int (length banks)) in
     if lp_interleave p \<and> 1 < len \<and> resolve_mac_mode p kind = ''all_bank''
     then lower_all_bank_mac p sem base banks (max 1 ((n + len - 1) div len)) st
     else
     rbind (all_bank_target_ranks p base banks) (\<lambda>ks.
     rbind (rfold (\<lambda>st k. transition_to_single_bank p sem (rank_addr_vec p base (nat k)) st) st ks) (\<lambda>st.
     rbind (if low_records st = [] then emit p sem ''SB'' base 1 [] st else Inr st) (\<lambda>st.
     if lp_interleave p \<and> 1 < len then lower_compact_mac p sem base banks n st
     else lower_serial_mac p sem kind len n st)))) = Inr st'"
    using assms(1) unfolding lower_compute_def by (cases "sub_list sem ''bank_sequence''"; cases "rmap (to_int ''bank_sequence'') (projr (sub_list sem ''bank_sequence''))") auto
  have len: "length bs = length banks" using rmap_length[OF banks] by simp
  let ?len = "max 1 (int (length banks))"
  show ?thesis
  proof (cases "lp_interleave p \<and> 1 < ?len \<and> resolve_mac_mode p kind = ''all_bank''")
    case True
    then have "lower_all_bank_mac p sem base banks (max 1 ((n + ?len - 1) div ?len)) st = Inr st'" using run by (simp add: Let_def)
    then obtain ks where "all_bank_target_ranks p base banks = Inr ks" "work ''PIM_MAC'' st' = work ''PIM_MAC'' st"
      "work ''PIM_MAC_AB'' st' = work ''PIM_MAC_AB'' st + int (length ks) * max 1 ((n + ?len - 1) div ?len)"
      by (rule all_bank_work) simp_all
    then show ?thesis using bs banks True len by (simp add: Let_def)
  next
    case False
    then obtain ks s1 s2 where
      1: "rfold (\<lambda>st k. transition_to_single_bank p sem (rank_addr_vec p base (nat k)) st) st ks = Inr s1"
      and 2: "(if low_records s1 = [] then emit p sem ''SB'' base 1 [] s1 else Inr s1) = Inr s2"
      and 3: "(if lp_interleave p \<and> 1 < ?len then lower_compact_mac p sem base banks n s2
        else lower_serial_mac p sem kind ?len n s2) = Inr st'"
      using run unfolding Let_def rbind_Inr if_not_P[OF False] rbind_Inr_iff by (elim exE conjE)
    have work: "work q st' = work q st + (if q = ''PIM_MAC'' then n else 0)" if q: "compute_op q" for q
    proof -
      have "work q s2 = work q st"
        using all_single_work[OF 1 q] 2 emit_plain_work[of p sem "''SB''" base 1 s1 s2 q] q by (auto split: if_splits)
      moreover have "work q st' = work q s2 + (if q = ''PIM_MAC'' then n else 0)"
      proof (cases "lp_interleave p \<and> 1 < ?len")
        case True
        with 3 show ?thesis
          using compact_work[of p sem base banks n s2 st' q] assms(2) by simp
      next
        case False
        with 3 have "lower_serial_mac p sem kind ?len n s2 = Inr st'" by (simp only: if_False)
        from serial_work[OF this _ _ q] show ?thesis using assms(2) by simp
      qed
      ultimately show ?thesis by simp
    qed
    show ?thesis
      unfolding Let_def
      using bs work[of "''PIM_MAC''"] work[of "''PIM_MAC_AB''"] by (intro exI[of _ bs] conjI) (simp_all add: len if_not_P[OF False])
  qed
qed

definition demo_state :: low_state where
  "demo_state = \<lparr>low_records = [], low_modes = [SB, SB], low_loaded = [False, False]\<rparr>"

text \<open>The parameters with the ranks and banks of the demonstration layout in place.\<close>

definition demo_prepared :: low_params where
  "demo_prepared = demo_params\<lparr>lp_positions := Some [1, 2], lp_counts := Some [2, 4], lp_rank_level := Some 1, lp_ranks := 2\<rparr>"

theorem compute_conserves_work_witness:
  "\<exists>st'. lower_compute demo_prepared (demo_compute 1) ''PIMCompute'' [0, 0, 0, 0, 0] 10 demo_state = Inr st' \<and>
     work ''PIM_MAC'' st' = 10"
proof -
  have "is_ok (lower_compute demo_prepared (demo_compute 1) ''PIMCompute'' [0, 0, 0, 0, 0] 10 demo_state)" by code_simp
  then obtain st' where e: "lower_compute demo_prepared (demo_compute 1) ''PIMCompute'' [0, 0, 0, 0, 0] 10 demo_state = Inr st'"
    by (auto simp: is_ok_iff)
  have "\<not> lp_interleave demo_prepared" "work ''PIM_MAC'' demo_state = 0" by code_simp+
  then show ?thesis using compute_conserves_work[OF e] by (intro exI[of _ st'] conjI e) (simp add: Let_def)
qed

text \<open>
  C25: a serial per-bank lowering ignores its banks when the burst length reaches their number.
  The bank number is passed where a request index is expected and divided by the burst length,
  so all the records, whatever bank they stand for, carry the address of the first bank.
\<close>

theorem serial_lowering_uses_one_bank:
  assumes "lower_serial_mac p sem kind banks issues st = Inr st'" and "access_fields_of sem = Inr a"
    and "banks \<le> af_burst a" and "addr_vec_from_semantic p sem kind 0 = Inr av"
  shows "\<exists>new. low_records st' = low_records st @ new \<and>
    (\<forall>r \<in> set new. dgetd r ''addr_vec'' PNone = PList (map PInt av))"
proof -
  have "appends av st st'"
  proof (rule rfold_invariant[where P = "appends av st", OF _ _ assms(1)[unfolded lower_serial_mac_def]])
    fix s i t assume s: "appends av st s" and i: "i \<in> set [0..<nat banks]"
      and e: "(let per_bank = issues div banks + (if int i < issues mod banks then 1 else 0) in
       if per_bank = 0 then Inr s
       else rbind (addr_vec_from_semantic p sem kind (int i)) (\<lambda>av.
       rbind (transition_to_single_bank p sem av s) (\<lambda>st.
       rbind (split_repeat per_bank MAX_REPEAT) (\<lambda>chunks. emit_chunks p sem ''PIM_MAC'' av chunks st)))) = Inr t"
    have "addr_vec_from_semantic p sem kind (int i) = Inr av"
      using addr_vec_within_burst[OF assms(2), of "int i"] i assms(3,4) by simp
    with e have "appends av s t"
      by (auto simp: Let_def rbind_Inr_iff split: if_splits intro: appends_trans dest!: appends_to_single appends_chunks)
    with s show "appends av st t" by (rule appends_trans)
  qed simp
  then show ?thesis by (simp add: appends_def)
qed

theorem serial_lowering_uses_one_bank_witness:
  "\<exists>st'. lower_serial_mac demo_prepared (demo_compute 8) ''PIMCompute'' 4 8 demo_state = Inr st' \<and>
    (\<exists>new. low_records st' = new \<and> (\<forall>r \<in> set new. dgetd r ''addr_vec'' PNone = PList (map PInt [0, 0, 0, 0, 0])))"
proof -
  have "is_ok (lower_serial_mac demo_prepared (demo_compute 8) ''PIMCompute'' 4 8 demo_state)" by code_simp
  then obtain st' where e: "lower_serial_mac demo_prepared (demo_compute 8) ''PIMCompute'' 4 8 demo_state = Inr st'"
    by (auto simp: is_ok_iff)
  have a: "access_fields_of (demo_compute 8) = Inr \<lparr>af_burst = 8, af_dependency = 1, af_row_start = 0, af_row_count = 1,
      af_row = 0, af_column_start = 0, af_column = 0\<rparr>" by code_simp
  have v: "addr_vec_from_semantic demo_prepared (demo_compute 8) ''PIMCompute'' 0 = Inr [0, 0, 0, 0, 0]" by code_simp
  have "low_records demo_state = []" by code_simp
  then show ?thesis using serial_lowering_uses_one_bank[OF e a _ v] by (intro exI[of _ st'] conjI e) simp
qed

section \<open>Termination\<close>

text \<open>
  C24: with a positive bound on repeats the lowering returns: no sequence of semantic records
  makes one of its loops run forever, it ends with records or with an exception.
\<close>

theorem lowering_returns:
  assumes "0 < lp_max_repeat p"
  shows "lower_semantic_records p sems mx env \<noteq> Inl LDiverges"
  using returned_loop[OF assms, of sems] returned_lift
  unfolding lower_semantic_records_def by (auto simp: returned_def rbind_Inl_iff)

theorem lowering_returns_witness:
  "lower_semantic_records demo_params [demo_compute 8] None None \<noteq> Inl LDiverges"
proof -
  have "0 < lp_max_repeat demo_params" by (simp add: demo_params_def)
  then show ?thesis by (rule lowering_returns)
qed



section \<open>The minimal trace and the summary\<close>

text \<open>
  The minimal trace is generated and accepted exactly for at least two levels, levels in
  range, repeats between one and the maximum, and a budget for its six or one mode operations
  and all-bank steps and both repeats. One level passes the guards and then fails.
\<close>

theorem minimal_trace_accepts_iff:
  "is_ok (generate_minimal_concrete_records levels bank row col n m inc env) \<longleftrightarrow>
    2 \<le> levels \<and> list_all (\<lambda>l. 0 \<le> l \<and> l < levels) [bank, row, col] \<and>
    list_all (\<lambda>k. 1 \<le> k \<and> k \<le> MAX_REPEAT) [n, m] \<and>
    (\<exists>limit. expanded_limit None env = Inr limit \<and> n + m + (if inc then 6 else 1) \<le> limit)"
proof -
  let ?b0 = "replicate (nat levels) 0 :: int list"
  let ?b1 = "?b0[nat bank := 1]"
  let ?v = "validate_sequence (minimal_sequence ?b0 ?b1 n m inc) None None env"
  show ?thesis
  proof (cases "0 < levels \<and> list_all (\<lambda>l. 0 \<le> l \<and> l < levels) [bank, row, col] \<and> 1 \<le> n \<and> 1 \<le> m")
    case True
    then have "generate_minimal_concrete_records levels bank row col n m inc env =
        rbind (lift_trace ?v) (\<lambda>_. Inr (minimal_sequence ?b0 ?b1 n m inc))"
      by (simp add: generate_minimal_concrete_records_def Let_def)
    then have "is_ok (generate_minimal_concrete_records levels bank row col n m inc env) \<longleftrightarrow> ?v = Inr ()"
      by (cases ?v) (simp_all add: lift_trace_def)
    moreover have "\<forall>i \<in> set ?b1. 0 \<le> i" using set_update_subset_insert[of ?b0 "nat bank" 1] by auto
    ultimately show ?thesis
      using True minimal_accepted[of n m ?b0 ?b1 inc env] by auto
  next
    case False
    then have "\<not> is_ok (generate_minimal_concrete_records levels bank row col n m inc env)"
      by (auto simp: generate_minimal_concrete_records_def Let_def)
    with False show ?thesis by auto
  qed
qed

text \<open>
  A summary is consistent: its counts per opcode, one entry per opcode, add up to its
  total of expanded records.
\<close>

theorem summary_consistent:
  assumes "build_provenance_summary rs = Inr d"
  shows "\<exists>counts n. dget d ''record_counts_by_opcode'' = Some (PDict (map (\<lambda>(op, k). (op, PInt k)) counts)) \<and>
    dget d ''total_expanded_records'' = Some (PInt n) \<and> distinct (dkeys counts) \<and> sum_list (map snd counts) = n"
proof -
  obtain counts total where c: "counts_by_opcode rs = Inr counts" and t: "expanded_record_count rs = Inr total"
    and d: "dget d ''record_counts_by_opcode'' = Some (PDict (map (\<lambda>(op, k). (op, PInt k)) counts))"
      "dget d ''total_expanded_records'' = Some (PInt total)"
    using assms by (auto simp: build_provenance_summary_def rbind_Inr_iff)
  have "distinct (dkeys counts) \<and> sum_list (map snd counts) = total"
    using counts_sum[OF c[unfolded counts_by_opcode_def]] t by auto
  with d show ?thesis by blast
qed

theorem summary_consistent_witness:
  "\<exists>d. build_provenance_summary (minimal_sequence [0, 0, 0] [0, 1, 0] 2 1 True) = Inr d \<and>
    dget d ''total_expanded_records'' = Some (PInt 9) \<and>
    (\<exists>counts. dget d ''record_counts_by_opcode'' = Some (PDict (map (\<lambda>(op, k). (op, PInt k)) counts)) \<and>
      sum_list (map snd counts) = 9)"
proof -
  let ?rs = "minimal_sequence [0, 0, 0] [0, 1, 0] 2 1 True"
  have "is_ok (build_provenance_summary ?rs)" by code_simp
  then obtain d where e: "build_provenance_summary ?rs = Inr d" by (auto simp: is_ok_iff)
  have "rbind (build_provenance_summary ?rs) (\<lambda>d. Inr (dget d ''total_expanded_records'')) = Inr (Some (PInt 9))" by code_simp
  then have "dget d ''total_expanded_records'' = Some (PInt 9)" by (simp add: e)
  then show ?thesis using summary_consistent[OF e] by (intro exI[of _ d] conjI e) auto
qed

end
