(* ===== verification/Pimscope_Tables.thy ===== *)
theory Pimscope_Tables
  imports Concrete_Trace
begin

text \<open>
  The tables of the PIMScope front end: the public backends of \<open>pimscope/capabilities.py\<close>, the
  models of \<open>pimscope/workloads.py\<close>, and the defaults and vocabularies of
  \<open>pimscope/config.py\<close>. A set that is only asked for membership is a list.
\<close>

section \<open>Errors and checks\<close>

text \<open>\<open>_fail(path, ...)\<close> with its path, and the \<open>TypeError\<close> of an unhashable lookup.\<close>

datatype cfg_error = CFail string | CType string

definition expect_mapping :: "pyval \<Rightarrow> string \<Rightarrow> cfg_error + dict" where
  "expect_mapping v path = (case v of PDict d \<Rightarrow> Inr d | _ \<Rightarrow> Inl (CFail path))"

definition reject_unknown :: "dict \<Rightarrow> string list \<Rightarrow> string \<Rightarrow> cfg_error + unit" where
  "reject_unknown d allowed path = require (list_all (\<lambda>k. k \<in> set allowed) (dkeys d)) (CFail path)"

definition expect_positive_int :: "pyval \<Rightarrow> string \<Rightarrow> cfg_error + unit" where
  "expect_positive_int v path = require (positive_int v) (CFail path)"

definition expect_nonnegative_int :: "pyval \<Rightarrow> string \<Rightarrow> cfg_error + unit" where
  "expect_nonnegative_int v path = require (nonneg_int v) (CFail path)"

definition expect_nonnegative_number :: "pyval \<Rightarrow> string \<Rightarrow> cfg_error + unit" where
  "expect_nonnegative_number v path = require (nonneg_number v) (CFail path)"

definition choice :: "pyval \<Rightarrow> string list \<Rightarrow> string \<Rightarrow> cfg_error + unit" where
  "choice v choices path = require (v \<in> set (map PStr choices)) (CFail path)"

text \<open>\<open>isinstance(v, str) and v.strip()\<close>\<close>

definition nonblank :: "pyval \<Rightarrow> bool" where
  "nonblank v = (case v of PStr s \<Rightarrow> list_ex (\<lambda>c. \<not> is_space c) s | _ \<Rightarrow> False)"

section \<open>Backends\<close>

definition PIM_BACKEND_CAPABILITIES :: "(string \<times> dict) list" where
  "PIM_BACKEND_CAPABILITIES =
     [(''LPDDR5PIM'',
       [(''status'', PStr ''supported''),
        (''dram_class'', PStr ''LPDDR5PIM''),
        (''controller'', PStr ''LPDDR5PIM''),
        (''frontend'', PStr ''LPDDR5PIMConcreteTrace''),
        (''trace_schema'', PStr ''lpddr5-pim-opcode-v0.2''),
        (''paper_artifact_backend'', PBool True),
        (''validated_rank_counts'', PList [PInt 1, PInt 2]),
        (''validated_topology'', PDict [(''controllers'', PInt 1), (''channels'', PInt 1)]),
        (''host_access_timing_vocabulary'', PStr ''lpddr5''),
        (''paper_artifact_backend_name'', PStr ''LPDDR5PIM''),
        (''standard_power_calibration'', PStr ''paper_profile_not_device_calibrated''),
        (''pim_energy_method'', PStr ''paper_event_coefficients''),
        (''metadata_documentation'', PStr ''ramulator2/docs/PIMScope-metadata.md'')]),
      (''LPDDR6PIM'',
       [(''status'', PStr ''experimental''),
        (''base_dram_class'', PStr ''LPDDR6''),
        (''available_base_dram_model'', PBool True),
        (''dram_class'', PStr ''LPDDR6PIM''),
        (''controller'', PStr ''LPDDR6PIM''),
        (''frontend'', PStr ''LPDDR6PIMConcreteTrace''),
        (''trace_schema'', PStr ''lpddr6-pim-opcode-v0.1''),
        (''paper_artifact_backend'', PBool False),
        (''validated_rank_counts'', PList [PInt 1, PInt 2]),
        (''validated_topology'', PDict [(''controllers'', PInt 1), (''channels'', PInt 1)]),
        (''subchannel_model'', PDict
          [(''status'', PStr ''single_subchannel_only''),
           (''modeled_subchannels_per_channel'', PInt 1),
           (''refresh_density_reference_subchannels'', PInt 2),
           (''independent_subchannel_scheduling'', PBool False)]),
        (''host_access_timing_vocabulary'', PStr ''lpddr6_short_long''),
        (''rank_local_modes_validated'', PBool True),
        (''refresh_validated'', PBool True),
        (''all_bank_lowering_validated'', PBool True),
        (''paper_artifact_backend_name'', PStr ''LPDDR5PIM''),
        (''standard_power_calibration'', PStr ''drampower_test_fixture_not_device_datasheet''),
        (''pim_energy_method'', PStr ''lpddr5pim_event_coefficients''),
        (''metadata_documentation'', PStr ''ramulator2/docs/PIMScope-metadata.md'')])]"

text \<open>The public copy of the declaration: three of its fields are always present.\<close>

definition pim_backend_capabilities :: "(string \<times> dict) list" where
  "pim_backend_capabilities =
     map (\<lambda>(name, c). (name, dupdate c
       [(''validated_rank_counts'', dgetd c ''validated_rank_counts'' (PList [])),
        (''validated_topology'', dgetd c ''validated_topology'' (PDict [])),
        (''subchannel_model'', dgetd c ''subchannel_model'' (PDict []))])) PIM_BACKEND_CAPABILITIES"

definition require_supported_pim_backend :: "pyval \<Rightarrow> cfg_error + dict" where
  "require_supported_pim_backend v =
     (if v = PStr ''LPDDR6'' then Inl (CFail ''hardware.dram_class'')
      else if \<not> hashable v then Inl (CType ''hardware.dram_class'')
      else case v of
        PStr name \<Rightarrow>
          (case dget PIM_BACKEND_CAPABILITIES name of
             None \<Rightarrow> Inl (CFail ''hardware.dram_class'')
           | Some c \<Rightarrow>
               if item c ''status'' \<notin> {PStr ''supported'', PStr ''experimental''} then Inl (CFail ''hardware.dram_class'')
               else Inr c)
      | _ \<Rightarrow> Inl (CFail ''hardware.dram_class''))"

section \<open>Models\<close>

definition DENSE_MODEL_KEYS :: "string list" where
  "DENSE_MODEL_KEYS =
     [''llama2-7b'', ''llama2-13b'', ''llama2-70b'', ''opt-125m'', ''opt-350m'', ''opt-1.3b'', ''qwen25-7b'',
      ''qwen25-14b'', ''qwen25-32b'', ''qwen25-72b'', ''gemma-2b'', ''gemma-7b'', ''gemma2-9b'', ''gemma2-27b'']"

definition MIXTRAL_MODEL_KEY :: string where
  "MIXTRAL_MODEL_KEY = ''mixtral-8x7b''"

definition SUPPORTED_MODEL_PHASES :: "(string \<times> string list) list" where
  "SUPPORTED_MODEL_PHASES = map (\<lambda>m. (m, [''decode'', ''prefill''])) DENSE_MODEL_KEYS @ [(MIXTRAL_MODEL_KEY, [''decode''])]"

section \<open>Defaults\<close>

definition DEFAULT_HARDWARE :: dict where
  "DEFAULT_HARDWARE =
     [(''dram_class'', PStr ''LPDDR5PIM''),
      (''org_preset'', PStr ''LPDDR5_8Gb_x16''),
      (''timing_preset'', PStr ''LPDDR5_6400''),
      (''org_overrides'', PDict []),
      (''timing_overrides'', PDict []),
      (''pim'', PDict
        [(''pim_datatype'', PStr ''int8''),
         (''pim_banks_per_block'', PInt 2),
         (''pim_mac_execution_model'', PStr ''shared_block_serial'')]),
      (''controller'', PDict
        [(''scheduler'', PStr ''FRFCFS''),
         (''refresh_manager'', PStr ''NoRefresh''),
         (''row_policy'', PStr ''Open''),
         (''addr_mapper'', PStr ''PassThroughAddrMapper'')]),
      (''memory_system'', PDict [(''clock_ratio'', PInt 1), (''channel_mapper'', PStr ''CacheLineInterleave'')]),
      (''topology'', PDict [(''controllers'', PInt 1), (''channels'', PInt 1)]),
      (''frontend_clock_ratio'', PInt 4)]"

definition DEFAULT_WORKLOAD :: dict where
  "DEFAULT_WORKLOAD =
     [(''workload_type'', PStr ''structured_transformer_surrogate''),
      (''model'', PStr ''opt-125m''),
      (''datatype'', PStr ''int8''),
      (''phase'', PStr ''decode''),
      (''past_len'', PInt 32),
      (''prompt_len'', PInt 12),
      (''schedule_policy'', PStr ''serialized''),
      (''weight_residency'', PStr ''resident''),
      (''mac_mode'', PStr ''per_kind''),
      (''seed'', PInt 12345),
      (''max_inflight_requests'', PInt 16),
      (''interleave_depth'', PInt 4),
      (''max_expanded_records'', PInt 100000000000),
      (''max_trace_bytes'', PInt 1073741824),
      (''simulation_timeout_seconds'', PInt 86400)]"

section \<open>Vocabularies\<close>

definition SUPPORTED_TOP_LEVEL_FIELDS :: "string list" where
  "SUPPORTED_TOP_LEVEL_FIELDS = [''schema_version'', ''experiment'', ''hardware'', ''workload'', ''output'']"

definition COMPOSED_MANIFEST_FIELDS :: "string list" where
  "COMPOSED_MANIFEST_FIELDS = [''hardware_file'', ''workload_file'']"

definition SUPPORTED_HARDWARE_FIELDS :: "string list" where
  "SUPPORTED_HARDWARE_FIELDS =
     [''dram_class'', ''org_preset'', ''timing_preset'', ''org_overrides'', ''timing_overrides'', ''pim'', ''controller'',
      ''memory_system'', ''topology'', ''frontend_clock_ratio'']"

definition SUPPORTED_WORKLOAD_FIELDS :: "string list" where
  "SUPPORTED_WORKLOAD_FIELDS = dkeys DEFAULT_WORKLOAD @ [''datatype'', ''workload_options'']"

definition SUPPORTED_MODEL_SPEC_FIELDS :: "string list" where
  "SUPPORTED_MODEL_SPEC_FIELDS =
     [''name'', ''num_layers'', ''hidden_size'', ''num_heads'', ''num_kv_heads'', ''head_dim'', ''ffn_hidden_size'',
      ''ffn_variant'', ''activation'', ''citation'', ''paper_anchor'']"

definition REQUIRED_MODEL_SPEC_FIELDS :: "string list" where
  "REQUIRED_MODEL_SPEC_FIELDS = [''name'', ''num_layers'', ''hidden_size'', ''num_heads'', ''head_dim'', ''ffn_hidden_size'']"

definition SUPPORTED_CONTROLLER_FIELDS :: "string list" where
  "SUPPORTED_CONTROLLER_FIELDS = [''scheduler'', ''refresh_manager'', ''row_policy'', ''addr_mapper'']"

definition SUPPORTED_MEMORY_SYSTEM_FIELDS :: "string list" where
  "SUPPORTED_MEMORY_SYSTEM_FIELDS = [''clock_ratio'', ''channel_mapper'']"

definition SUPPORTED_TOPOLOGY_FIELDS :: "string list" where
  "SUPPORTED_TOPOLOGY_FIELDS = [''controllers'', ''channels'']"

definition SUPPORTED_SCHEDULERS :: "string list" where
  "SUPPORTED_SCHEDULERS = [''FRFCFS'', ''FRFCFSRowHit'']"

definition SUPPORTED_REFRESH_MANAGERS :: "string list" where
  "SUPPORTED_REFRESH_MANAGERS = [''NoRefresh'', ''AllBank'', ''PerBank'']"

definition SUPPORTED_ROW_POLICIES :: "string list" where
  "SUPPORTED_ROW_POLICIES = [''Open'', ''ClosedCAP'']"

definition SUPPORTED_ADDR_MAPPERS :: "string list" where
  "SUPPORTED_ADDR_MAPPERS = [''PassThroughAddrMapper'', ''ChRaBaRoCo'', ''RoBaRaCoCh'', ''MOP4CLXOR'', ''RITAddrMapper'']"

definition SUPPORTED_CHANNEL_MAPPERS :: "string list" where
  "SUPPORTED_CHANNEL_MAPPERS = [''CacheLineInterleave'', ''PassThroughChannelMapper'']"

definition SUPPORTED_PHASES :: "string list" where
  "SUPPORTED_PHASES = [''decode'', ''prefill'']"

definition SUPPORTED_WEIGHT_RESIDENCY :: "string list" where
  "SUPPORTED_WEIGHT_RESIDENCY = [''resident'', ''full_preload'']"

definition SUPPORTED_MAC_MODES :: "string list" where
  "SUPPORTED_MAC_MODES = [''per_kind'', ''per_bank'', ''all_bank'']"

definition SUPPORTED_SCHEDULE_POLICIES :: "string list" where
  "SUPPORTED_SCHEDULE_POLICIES = [''serialized'', ''overlap_independent_heads'']"

definition SUPPORTED_PIM_DATATYPES :: "string list" where
  "SUPPORTED_PIM_DATATYPES = [''int8'', ''fp16'', ''int16'', ''bf16'']"

definition SUPPORTED_PIM_DRAM_CLASSES :: "string list" where
  "SUPPORTED_PIM_DRAM_CLASSES = [''LPDDR5PIM'', ''LPDDR6PIM'']"

definition SUPPORTED_WORKLOAD_DATATYPES :: "string list" where
  "SUPPORTED_WORKLOAD_DATATYPES = [''int8'', ''fp16'', ''bf16'']"

definition SUPPORTED_FFN_VARIANTS :: "string list" where
  "SUPPORTED_FFN_VARIANTS = [''swiglu_3proj'', ''geglu_3proj'', ''relu_2proj'']"

definition SUPPORTED_PIM_EXECUTION_MODELS :: "string list" where
  "SUPPORTED_PIM_EXECUTION_MODELS = [''shared_block_serial'']"

definition SUPPORTED_PIM_FIELDS :: "string list" where
  "SUPPORTED_PIM_FIELDS =
     [''pim_blocks_per_bank'', ''pim_banks_per_block'', ''pim_mac_execution_model'', ''pim_datatype'',
      ''pim_datatype_class'', ''pim_datatype_behavior_enabled'', ''pim_datatype_bits'', ''pim_simd_width_bits'',
      ''pim_lanes'', ''pim_ops_per_mac'', ''pim_ops_per_block_issue'', ''pim_ops_per_request'',
      ''pim_mac_issue_interval_cycles'', ''pim_mac_pipeline_latency_cycles'', ''pim_movement_cycles'',
      ''pim_writeback_cycles'', ''pim_slots_per_request'', ''pim_compute_energy_pJ_per_mac'',
      ''pim_array_local_energy_pJ'', ''pim_cell_to_pim_energy_pJ_per_256b'', ''pim_vrf_access_energy_pJ'',
      ''pim_srf_access_energy_pJ'', ''pim_mode_switch_energy_pJ'']"

end
