(* ===== verification/Pimscope_Manifest.thy ===== *)
theory Pimscope_Manifest
  imports Pimscope_Tables
begin

text \<open>
  \<open>pimscope/config.py\<close>: the resolution of an experiment manifest. Defaults are filled in, every
  field is checked, and the result is the manifest that is run and fingerprinted. A message
  that lists fields is modelled by the path it starts with.
\<close>

section \<open>Hardware\<close>

definition sub_section :: "dict \<Rightarrow> string \<Rightarrow> dict" where
  "sub_section h f = (case item h f of PDict d \<Rightarrow> d | _ \<Rightarrow> [])"

definition merge_scalars :: "dict \<Rightarrow> string list \<Rightarrow> dict \<Rightarrow> dict" where
  "merge_scalars supplied fs h = foldl (\<lambda>h f. case dget supplied f of None \<Rightarrow> h | Some v \<Rightarrow> dset f v h) h fs"

definition merge_section :: "dict \<Rightarrow> dict \<Rightarrow> string \<Rightarrow> cfg_error + dict" where
  "merge_section supplied h f =
     (case dget supplied f of
        None \<Rightarrow> Inr h
      | Some v \<Rightarrow>
          rbind (expect_mapping v (''hardware.'' @ f)) (\<lambda>s.
          Inr (dset f (PDict (if f \<in> {''org_overrides'', ''timing_overrides''} then s else dupdate (sub_section h f) s)) h)))"

definition merge_hardware :: "pyval \<Rightarrow> cfg_error + dict" where
  "merge_hardware raw =
     rbind (expect_mapping (if truthy raw then raw else PDict []) ''hardware'') (\<lambda>supplied.
     rbind (reject_unknown supplied SUPPORTED_HARDWARE_FIELDS ''hardware'') (\<lambda>_.
     rfold (merge_section supplied)
       (merge_scalars supplied [''dram_class'', ''org_preset'', ''timing_preset'', ''frontend_clock_ratio''] DEFAULT_HARDWARE)
       [''org_overrides'', ''timing_overrides'', ''pim'', ''controller'', ''memory_system'', ''topology'']))"

text \<open>A check of every listed field that is present.\<close>

definition each_present :: "dict \<Rightarrow> string list \<Rightarrow> string \<Rightarrow> (pyval \<Rightarrow> string \<Rightarrow> cfg_error + unit) \<Rightarrow> cfg_error + unit" where
  "each_present d fs path check =
     rbind (rmap (\<lambda>f. case dget d f of None \<Rightarrow> Inr () | Some v \<Rightarrow> check v (path @ f)) fs) (\<lambda>_. Inr ())"

definition check_each :: "dict \<Rightarrow> string \<Rightarrow> (pyval \<Rightarrow> string \<Rightarrow> cfg_error + unit) \<Rightarrow> cfg_error + unit" where
  "check_each d path check = rbind (rmap (\<lambda>(f, v). check v (path @ f)) d) (\<lambda>_. Inr ())"

text \<open>
  The code walks the two topology fields in the order of a Python set, which is not fixed; the
  order decides only which of two errors is reported.
\<close>

definition check_topology :: "dict \<Rightarrow> cfg_error + unit" where
  "check_topology t =
     rbind (reject_unknown t SUPPORTED_TOPOLOGY_FIELDS ''hardware.topology'') (\<lambda>_.
     rbind (rmap (\<lambda>f. expect_positive_int (item t f) (''hardware.topology.'' @ f)) SUPPORTED_TOPOLOGY_FIELDS) (\<lambda>_.
     rbind (require (py_eq (item t ''controllers'') (PInt 1)) (CFail ''hardware.topology.controllers'')) (\<lambda>_.
     require (py_eq (item t ''channels'') (PInt 1)) (CFail ''hardware.topology.channels''))))"

definition check_components :: "dict \<Rightarrow> dict \<Rightarrow> cfg_error + unit" where
  "check_components c ms =
     rbind (choice (item c ''scheduler'') SUPPORTED_SCHEDULERS ''hardware.controller.scheduler'') (\<lambda>_.
     rbind (choice (item c ''refresh_manager'') SUPPORTED_REFRESH_MANAGERS ''hardware.controller.refresh_manager'') (\<lambda>_.
     rbind (choice (item c ''row_policy'') SUPPORTED_ROW_POLICIES ''hardware.controller.row_policy'') (\<lambda>_.
     rbind (choice (item c ''addr_mapper'') SUPPORTED_ADDR_MAPPERS ''hardware.controller.addr_mapper'') (\<lambda>_.
     rbind (choice (item ms ''channel_mapper'') SUPPORTED_CHANNEL_MAPPERS ''hardware.memory_system.channel_mapper'') (\<lambda>_.
     expect_positive_int (item ms ''clock_ratio'') ''hardware.memory_system.clock_ratio'')))))"

definition pim_path :: "string \<Rightarrow> string" where
  "pim_path f = ''hardware.pim.'' @ f"

definition check_cycles :: "pyval \<Rightarrow> string \<Rightarrow> cfg_error + unit" where
  "check_cycles v path = rbind (expect_nonnegative_number v path) (\<lambda>_. require (is_int v) (CFail path))"

definition check_pim :: "dict \<Rightarrow> cfg_error + unit" where
  "check_pim pim =
     rbind (choice (item pim ''pim_datatype'') SUPPORTED_PIM_DATATYPES (pim_path ''pim_datatype'')) (\<lambda>_.
     rbind (case dget pim ''pim_datatype_class'' of
              None \<Rightarrow> Inr ()
            | Some v \<Rightarrow>
                rbind (choice v SUPPORTED_PIM_DATATYPES (pim_path ''pim_datatype_class'')) (\<lambda>_.
                require (py_eq v (item pim ''pim_datatype'')) (CFail (pim_path ''pim_datatype_class'')))) (\<lambda>_.
     rbind (choice (item pim ''pim_mac_execution_model'') SUPPORTED_PIM_EXECUTION_MODELS (pim_path ''pim_mac_execution_model'')) (\<lambda>_.
     rbind (case dget pim ''pim_datatype_behavior_enabled'' of
              None \<Rightarrow> Inr ()
            | Some v \<Rightarrow> require (is_bool v) (CFail (pim_path ''pim_datatype_behavior_enabled''))) (\<lambda>_.
     rbind (each_present pim
              [''pim_blocks_per_bank'', ''pim_banks_per_block'', ''pim_datatype_bits'', ''pim_simd_width_bits'', ''pim_lanes'',
               ''pim_mac_issue_interval_cycles'', ''pim_mac_pipeline_latency_cycles'', ''pim_slots_per_request'']
              ''hardware.pim.'' expect_positive_int) (\<lambda>_.
     rbind (each_present pim [''pim_movement_cycles'', ''pim_writeback_cycles''] ''hardware.pim.'' check_cycles) (\<lambda>_.
     rbind (each_present pim [''pim_ops_per_mac'', ''pim_ops_per_block_issue'', ''pim_ops_per_request'']
              ''hardware.pim.'' expect_positive_int) (\<lambda>_.
     rbind (require (\<not> (has pim ''pim_ops_per_block_issue'' \<and> has pim ''pim_ops_per_request'' \<and>
                        \<not> py_eq (item pim ''pim_ops_per_block_issue'') (item pim ''pim_ops_per_request'')))
              (CFail (pim_path ''pim_ops_per_request''))) (\<lambda>_.
     each_present pim
       [''pim_compute_energy_pJ_per_mac'', ''pim_array_local_energy_pJ'', ''pim_cell_to_pim_energy_pJ_per_256b'',
        ''pim_vrf_access_energy_pJ'', ''pim_srf_access_energy_pJ'', ''pim_mode_switch_energy_pJ'']
       ''hardware.pim.'' expect_nonnegative_number))))))))"

definition nonempty_str :: "pyval \<Rightarrow> bool" where
  "nonempty_str v = (case v of PStr s \<Rightarrow> s \<noteq> [] | _ \<Rightarrow> False)"

definition check_hardware :: "dict \<Rightarrow> cfg_error + unit" where
  "check_hardware h =
     rbind (check_topology (sub_section h ''topology'')) (\<lambda>_.
     rbind (require_supported_pim_backend (item h ''dram_class'')) (\<lambda>_.
     rbind (require (item h ''dram_class'' \<in> set (map PStr SUPPORTED_PIM_DRAM_CLASSES)) (CFail ''hardware.dram_class'')) (\<lambda>_.
     rbind (rmap (\<lambda>f. require (nonempty_str (item h f)) (CFail (''hardware.'' @ f))) [''org_preset'', ''timing_preset'']) (\<lambda>_.
     rbind (expect_positive_int (item h ''frontend_clock_ratio'') ''hardware.frontend_clock_ratio'') (\<lambda>_.
     rbind (reject_unknown (sub_section h ''pim'') SUPPORTED_PIM_FIELDS ''hardware.pim'') (\<lambda>_.
     rbind (reject_unknown (sub_section h ''controller'') SUPPORTED_CONTROLLER_FIELDS ''hardware.controller'') (\<lambda>_.
     rbind (reject_unknown (sub_section h ''memory_system'') SUPPORTED_MEMORY_SYSTEM_FIELDS ''hardware.memory_system'') (\<lambda>_.
     rbind (check_components (sub_section h ''controller'') (sub_section h ''memory_system'')) (\<lambda>_.
     rbind (check_pim (sub_section h ''pim'')) (\<lambda>_.
     rbind (check_each (sub_section h ''org_overrides'') ''hardware.org_overrides.'' expect_positive_int) (\<lambda>_.
     rbind (require (dgetd (sub_section h ''org_overrides'') ''rank'' (PInt 1) \<in> {PInt 1, PInt 2})
              (CFail ''hardware.org_overrides.rank'')) (\<lambda>_.
     check_each (sub_section h ''timing_overrides'') ''hardware.timing_overrides.'' expect_nonnegative_number))))))))))))"

definition resolve_hardware :: "pyval \<Rightarrow> cfg_error + dict" where
  "resolve_hardware raw = rbind (merge_hardware raw) (\<lambda>h. rbind (check_hardware h) (\<lambda>_. Inr h))"

section \<open>Model and workload\<close>

definition model_int :: "dict \<Rightarrow> string \<Rightarrow> int" where
  "model_int d f = (case item d f of PInt i \<Rightarrow> i | _ \<Rightarrow> 0)"

definition check_model :: "dict \<Rightarrow> cfg_error + unit" where
  "check_model m =
     rbind (reject_unknown m SUPPORTED_MODEL_SPEC_FIELDS ''workload.model'') (\<lambda>_.
     rbind (require (list_all (has m) REQUIRED_MODEL_SPEC_FIELDS) (CFail ''workload.model'')) (\<lambda>_.
     rbind (require (nonblank (item m ''name'')) (CFail ''workload.model.name'')) (\<lambda>_.
     rbind (rmap (\<lambda>f. expect_positive_int (item m f) (''workload.model.'' @ f))
              [''num_layers'', ''hidden_size'', ''num_heads'', ''head_dim'', ''ffn_hidden_size'']) (\<lambda>_.
     rbind (case dget m ''num_kv_heads'' of
              None \<Rightarrow> Inr ()
            | Some v \<Rightarrow>
                rbind (expect_positive_int v ''workload.model.num_kv_heads'') (\<lambda>_.
                rbind (require (model_int m ''num_kv_heads'' \<le> model_int m ''num_heads'') (CFail ''workload.model.num_kv_heads'')) (\<lambda>_.
                require (model_int m ''num_heads'' mod model_int m ''num_kv_heads'' = 0) (CFail ''workload.model.num_kv_heads'')))) (\<lambda>_.
     rbind (case dget m ''ffn_variant'' of None \<Rightarrow> Inr ()
            | Some v \<Rightarrow> choice v SUPPORTED_FFN_VARIANTS ''workload.model.ffn_variant'') (\<lambda>_.
     each_present m [''activation'', ''citation'', ''paper_anchor''] ''workload.model.''
       (\<lambda>v path. require (nonblank v) (CFail path))))))))"

definition resolve_model :: "pyval \<Rightarrow> cfg_error + pyval" where
  "resolve_model v =
     (case v of
        PStr name \<Rightarrow> if dget SUPPORTED_MODEL_PHASES name \<noteq> None then Inr v else Inl (CFail ''workload.model'')
      | _ \<Rightarrow> rbind (expect_mapping v ''workload.model'') (\<lambda>m. rbind (check_model m) (\<lambda>_. Inr (PDict m))))"

definition check_workload :: "dict \<Rightarrow> dict \<Rightarrow> cfg_error + unit" where
  "check_workload supplied w =
     rbind (require (py_eq (item w ''workload_type'') (PStr ''structured_transformer_surrogate'')) (CFail ''workload.workload_type'')) (\<lambda>_.
     rbind (case dget supplied ''workload_options'' of None \<Rightarrow> Inr ()
            | Some v \<Rightarrow> rbind (expect_mapping v ''workload.workload_options'') (\<lambda>_. Inr ())) (\<lambda>_.
     rbind (choice (item w ''datatype'') SUPPORTED_WORKLOAD_DATATYPES ''workload.datatype'') (\<lambda>_.
     rbind (choice (item w ''phase'') SUPPORTED_PHASES ''workload.phase'') (\<lambda>_.
     rbind (choice (item w ''weight_residency'') SUPPORTED_WEIGHT_RESIDENCY ''workload.weight_residency'') (\<lambda>_.
     rbind (choice (item w ''mac_mode'') SUPPORTED_MAC_MODES ''workload.mac_mode'') (\<lambda>_.
     rbind (choice (item w ''schedule_policy'') SUPPORTED_SCHEDULE_POLICIES ''workload.schedule_policy'') (\<lambda>_.
     rbind (expect_positive_int (item w ''past_len'') ''workload.past_len'') (\<lambda>_.
     rbind (expect_positive_int (item w ''prompt_len'') ''workload.prompt_len'') (\<lambda>_.
     rbind (expect_nonnegative_int (item w ''seed'') ''workload.seed'') (\<lambda>_.
     rbind (expect_positive_int (item w ''max_inflight_requests'') ''workload.max_inflight_requests'') (\<lambda>_.
     rbind (expect_positive_int (item w ''interleave_depth'') ''workload.interleave_depth'') (\<lambda>_.
     rbind (expect_positive_int (item w ''max_expanded_records'') ''workload.max_expanded_records'') (\<lambda>_.
     rbind (expect_positive_int (item w ''max_trace_bytes'') ''workload.max_trace_bytes'') (\<lambda>_.
     rbind (expect_nonnegative_int (item w ''simulation_timeout_seconds'') ''workload.simulation_timeout_seconds'') (\<lambda>_.
     rbind (require (\<not> (item w ''phase'' = PStr ''prefill'' \<and> item w ''schedule_policy'' \<noteq> PStr ''serialized''))
              (CFail ''workload.schedule_policy'')) (\<lambda>_.
     case item w ''model'' of
       PStr name \<Rightarrow>
         require (item w ''phase'' \<in> set (map PStr (dgetd SUPPORTED_MODEL_PHASES name []))) (CFail ''workload.phase'')
     | PDict m \<Rightarrow> require (item w ''schedule_policy'' = PStr ''serialized'') (CFail ''workload.schedule_policy'')
     | _ \<Rightarrow> Inr ()))))))))))))))))"

definition resolve_workload :: "pyval \<Rightarrow> cfg_error + dict" where
  "resolve_workload raw =
     rbind (expect_mapping (if truthy raw then raw else PDict []) ''workload'') (\<lambda>supplied.
     rbind (reject_unknown supplied SUPPORTED_WORKLOAD_FIELDS ''workload'') (\<lambda>_.
     let w = dupdate DEFAULT_WORKLOAD supplied in
     rbind (resolve_model (item w ''model'')) (\<lambda>model.
     let w = dset ''model'' model w;
         w = dset ''datatype'' (dgetd w ''datatype'' (PStr ''int8'')) w
     in rbind (check_workload supplied w) (\<lambda>_. Inr w))))"

section \<open>The manifest\<close>

definition MANIFEST_SCHEMA_VERSION :: int where
  "MANIFEST_SCHEMA_VERSION = 1"

definition default_output_path :: pyval where
  "default_output_path = PStr ''results/custom/result.json''"

definition resolve_experiment_manifest :: "pyval \<Rightarrow> string \<Rightarrow> cfg_error + dict" where
  "resolve_experiment_manifest raw source =
     rbind (expect_mapping raw source) (\<lambda>raw.
     rbind (reject_unknown raw SUPPORTED_TOP_LEVEL_FIELDS source) (\<lambda>_.
     rbind (require (py_eq (dgetd raw ''schema_version'' (PInt MANIFEST_SCHEMA_VERSION)) (PInt MANIFEST_SCHEMA_VERSION))
              (CFail ''schema_version'')) (\<lambda>_.
     let experiment = dgetd raw ''experiment'' (PStr ''pimscope-experiment'') in
     rbind (require (nonblank experiment) (CFail ''experiment'')) (\<lambda>_.
     rbind (expect_mapping (dgetd raw ''output'' (PDict [(''path'', default_output_path)])) ''output'') (\<lambda>out.
     rbind (reject_unknown out [''path''] ''output'') (\<lambda>_.
     let path = dgetd out ''path'' default_output_path in
     rbind (require (nonblank path) (CFail ''output.path'')) (\<lambda>_.
     rbind (resolve_hardware (dgetd raw ''hardware'' (PDict []))) (\<lambda>hardware.
     rbind (resolve_workload (dgetd raw ''workload'' (PDict []))) (\<lambda>workload.
     rbind (require (py_eq (item (sub_section hardware ''pim'') ''pim_datatype'') (item workload ''datatype''))
              (CFail ''workload.datatype'')) (\<lambda>_.
     Inr [(''schema_version'', PInt MANIFEST_SCHEMA_VERSION), (''experiment'', experiment),
          (''hardware'', PDict hardware), (''workload'', PDict workload), (''output'', PDict [(''path'', path)])]))))))))))"

section \<open>Overrides and section files\<close>

text \<open>Assignment along a path of keys; missing and \<open>null\<close> objects are created.\<close>

fun set_path :: "string list \<Rightarrow> pyval \<Rightarrow> string \<Rightarrow> dict \<Rightarrow> cfg_error + dict" where
  "set_path [] v dotted d = Inr d"
| "set_path [k] v dotted d = Inr (dset k v d)"
| "set_path (k # k' # ks) v dotted d =
     rbind (case item d k of PNone \<Rightarrow> Inr [] | PDict e \<Rightarrow> Inr e | _ \<Rightarrow> Inl (CFail dotted)) (\<lambda>e.
     rbind (set_path (k' # ks) v dotted e) (\<lambda>e. Inr (dset k (PDict e) d)))"

text \<open>\<open>s.split(".")\<close> without its empty pieces.\<close>

fun split_dots :: "string \<Rightarrow> string \<Rightarrow> string list" where
  "split_dots acc [] = [rev acc]"
| "split_dots acc (c # cs) = (if c = CHR ''.'' then rev acc # split_dots [] cs else split_dots (c # acc) cs)"

definition dotted_keys :: "string \<Rightarrow> string list" where
  "dotted_keys s = filter (\<lambda>k. k \<noteq> []) (split_dots [] s)"

text \<open>
  One override \<open>dotted.path=value\<close>. The value is decoded by \<open>json.loads\<close>, which is the
  parameter \<open>loads\<close>; a text that is not JSON is taken as a string.
\<close>

definition apply_override :: "(string \<Rightarrow> pyval option) \<Rightarrow> dict \<Rightarrow> string \<Rightarrow> cfg_error + dict" where
  "apply_override loads d text =
     (let dotted = takeWhile (\<lambda>c. c \<noteq> CHR ''='') text;
          encoded = tl (dropWhile (\<lambda>c. c \<noteq> CHR ''='') text);
          keys = dotted_keys dotted
      in if CHR ''='' \<notin> set text then Inl (CFail text)
         else if keys = [] then Inl (CFail text)
         else set_path keys (case loads encoded of Some v \<Rightarrow> v | None \<Rightarrow> PStr encoded) dotted d)"

definition apply_overrides :: "(string \<Rightarrow> pyval option) \<Rightarrow> dict \<Rightarrow> string list \<Rightarrow> cfg_error + dict" where
  "apply_overrides loads raw overrides = rfold (apply_override loads) raw overrides"

text \<open>
  Section files. Reading a manifest file is the parameter \<open>read\<close>, from the reference in the
  manifest to the document of the file it resolves to.
\<close>

definition load_section_file :: "(string \<Rightarrow> cfg_error + dict) \<Rightarrow> string \<Rightarrow> string \<Rightarrow> cfg_error + dict" where
  "load_section_file read reference sec =
     rbind (read reference) (\<lambda>payload.
     if set (dkeys payload) = {sec} then expect_mapping (item payload sec) sec else Inr payload)"

definition load_section :: "(string \<Rightarrow> cfg_error + dict) \<Rightarrow> dict \<Rightarrow> string \<Rightarrow> cfg_error + dict" where
  "load_section read raw sec =
     (let file = sec @ ''_file''; rest = filter (\<lambda>kv. fst kv \<noteq> file) raw in
      case item raw file of
        PNone \<Rightarrow> Inr rest
      | v \<Rightarrow>
          if has rest sec then Inl (CFail sec)
          else if \<not> nonblank v then Inl (CFail file)
          else case v of
            PStr reference \<Rightarrow>
              rbind (load_section_file read reference sec) (\<lambda>payload. Inr (dset sec (PDict payload) rest))
          | _ \<Rightarrow> Inl (CFail file))"

definition load_raw_manifest :: "(string \<Rightarrow> cfg_error + dict) \<Rightarrow> string \<Rightarrow> dict \<Rightarrow> cfg_error + dict" where
  "load_raw_manifest read path raw =
     rbind (reject_unknown raw (SUPPORTED_TOP_LEVEL_FIELDS @ COMPOSED_MANIFEST_FIELDS) path) (\<lambda>_.
     rfold (load_section read) raw [''hardware'', ''workload''])"

end
