(* ===== verification/Pimscope_Schema.thy ===== *)
theory Pimscope_Schema
  imports Pimscope_Manifest
begin

text \<open>
  \<open>pimscope/schema.py\<close>: the checks on a result of \<open>pimscope run\<close>, on a trace file against a
  layout, and on an aggregate of results. A failed check is its path; a missing key and a
  wrong type that the code does not check for are errors of their own. The fingerprint of a
  manifest (SHA-256 of its JSON) is the parameter \<open>fp\<close>. The messages of one object differ in
  text only and share its path.
\<close>

datatype schema_error = SFail string | SKey string | SType string | SManifest cfg_error | STrace trace_error

definition RESULT_SCHEMA_VERSION :: int where
  "RESULT_SCHEMA_VERSION = 1"

definition AGGREGATE_SCHEMA_VERSION :: int where
  "AGGREGATE_SCHEMA_VERSION = 1"

definition AGGREGATE_SCHEMA_NAMES :: "(string \<times> string) list" where
  "AGGREGATE_SCHEMA_NAMES =
     [(''decode_cycles'', ''pimscope-decode-aggregate-v1''),
      (''prefill_cycles'', ''pimscope-prefill-aggregate-v1''),
      (''pim_sharing_comparison'', ''pimscope-sharing-aggregate-v1'')]"

text \<open>\<open>_FINGERPRINT_RE.fullmatch\<close>: 64 lower-case hexadecimal digits.\<close>

definition is_fingerprint :: "string \<Rightarrow> bool" where
  "is_fingerprint s \<longleftrightarrow> length s = 64 \<and> list_all (\<lambda>c. is_digit c \<or> c \<in> set ''abcdef'') s"

section \<open>Fields\<close>

definition required_field :: "dict \<Rightarrow> string \<Rightarrow> string \<Rightarrow> schema_error + pyval" where
  "required_field d f path = (case dget d f of None \<Rightarrow> Inl (SFail path) | Some v \<Rightarrow> Inr v)"

definition object_of :: "pyval \<Rightarrow> string \<Rightarrow> schema_error + dict" where
  "object_of v path = (case v of PDict d \<Rightarrow> Inr d | _ \<Rightarrow> Inl (SFail path))"

definition required_object :: "dict \<Rightarrow> string \<Rightarrow> string \<Rightarrow> schema_error + dict" where
  "required_object d f path = rbind (required_field d f path) (\<lambda>v. object_of v (path @ ''.'' @ f))"

definition count_of :: "pyval \<Rightarrow> string \<Rightarrow> schema_error + int" where
  "count_of v path = (case v of PInt i \<Rightarrow> if 0 \<le> i then Inr i else Inl (SFail path) | _ \<Rightarrow> Inl (SFail path))"

definition required_count :: "dict \<Rightarrow> string \<Rightarrow> string \<Rightarrow> schema_error + int" where
  "required_count d f path = rbind (required_field d f path) (\<lambda>v. count_of v (path @ ''.'' @ f))"

definition required_as :: "(pyval \<Rightarrow> bool) \<Rightarrow> dict \<Rightarrow> string \<Rightarrow> string \<Rightarrow> schema_error + unit" where
  "required_as ok d path f = rbind (required_field d f path) (\<lambda>v. require (ok v) (SFail (path @ ''.'' @ f)))"

definition each :: "('a \<Rightarrow> 'e + 'b) \<Rightarrow> 'a list \<Rightarrow> 'e + unit" where
  "each check xs = rbind (rmap check xs) (\<lambda>_. Inr ())"

text \<open>\<open>v not in {...}\<close> hashes \<open>v\<close>; \<open>d[k]\<close> on something that may not be a dictionary.\<close>

definition one_of :: "pyval \<Rightarrow> string list \<Rightarrow> string \<Rightarrow> schema_error + unit" where
  "one_of v choices path = (if hashable v then require (v \<in> set (map PStr choices)) (SFail path) else Inl (SType path))"

definition subscript :: "pyval \<Rightarrow> string \<Rightarrow> schema_error + pyval" where
  "subscript v k = (case v of PDict d \<Rightarrow> (case dget d k of None \<Rightarrow> Inl (SKey k) | Some w \<Rightarrow> Inr w) | _ \<Rightarrow> Inl (SType k))"

definition subscripts :: "pyval \<Rightarrow> string list \<Rightarrow> schema_error + pyval" where
  "subscripts v ks = rfold subscript v ks"

text \<open>\<open>isinstance(v, (int, float))\<close>, not a boolean and not negative.\<close>

definition nonneg_or_none :: "pyval \<Rightarrow> bool" where
  "nonneg_or_none v \<longleftrightarrow> v = PNone \<or> nonneg_number v"

section \<open>Envelope and manifest\<close>

definition lift_manifest :: "cfg_error + 'a \<Rightarrow> schema_error + 'a" where
  "lift_manifest m = (case m of Inl e \<Rightarrow> Inl (SManifest e) | Inr a \<Rightarrow> Inr a)"

definition RESULT_FIELDS :: "string list" where
  "RESULT_FIELDS =
     [''experiment'', ''status'', ''manifest_fingerprint'', ''resolved_manifest'', ''resolved_hardware'',
      ''workload_summary'', ''simulation'', ''provenance'']"

definition check_envelope :: "dict \<Rightarrow> schema_error + unit" where
  "check_envelope r =
     rbind (require (py_eq (item r ''schema_version'') (PInt RESULT_SCHEMA_VERSION)) (SFail ''result.schema_version'')) (\<lambda>_.
     rbind (each (\<lambda>f. required_field r f ''result'') RESULT_FIELDS) (\<lambda>_.
     rbind (require (nonblank (item r ''experiment'')) (SFail ''result.experiment'')) (\<lambda>_.
     one_of (item r ''status'') [''PASS'', ''FAIL''] ''result.status'')))"

definition check_manifest :: "(dict \<Rightarrow> string) \<Rightarrow> string option \<Rightarrow> dict \<Rightarrow> schema_error + dict" where
  "check_manifest fp expected r =
     (case item r ''manifest_fingerprint'' of
        PStr f \<Rightarrow>
          rbind (require (is_fingerprint f) (SFail ''result.manifest_fingerprint'')) (\<lambda>_.
          rbind (require (expected = None \<or> expected = Some f) (SFail ''result.manifest_fingerprint'')) (\<lambda>_.
          rbind (object_of (item r ''resolved_manifest'') ''result.resolved_manifest'') (\<lambda>m.
          rbind (lift_manifest (resolve_experiment_manifest (PDict m) ''result.resolved_manifest'')) (\<lambda>resolved.
          rbind (require (fp resolved = f) (SFail ''result.resolved_manifest'')) (\<lambda>_.
          rbind (require (py_eq (item m ''schema_version'') (PInt MANIFEST_SCHEMA_VERSION))
                   (SFail ''result.resolved_manifest.schema_version'')) (\<lambda>_. Inr m))))))
      | _ \<Rightarrow> Inl (SFail ''result.manifest_fingerprint''))"

section \<open>Hardware\<close>

text \<open>Records, expanded records and bytes of the preflight, with their limits.\<close>

definition check_preflight :: "dict \<Rightarrow> schema_error + int" where
  "check_preflight p =
     (let path = ''result.resolved_hardware.preflight'' in
      rbind (required_count p ''records'' path) (\<lambda>records.
      rbind (required_count p ''expanded_records'' path) (\<lambda>expanded.
      rbind (required_count p ''trace_bytes'' path) (\<lambda>bytes.
      rbind (required_count p ''max_expanded_records'' path) (\<lambda>max_expanded.
      rbind (require (0 < max_expanded) (SFail (path @ ''.max_expanded_records''))) (\<lambda>_.
      rbind (required_count p ''max_trace_bytes'' path) (\<lambda>max_bytes.
      rbind (require (0 < max_bytes) (SFail (path @ ''.max_trace_bytes''))) (\<lambda>_.
      rbind (require (records \<le> expanded) (SFail path)) (\<lambda>_.
      rbind (require (expanded \<le> max_expanded) (SFail path)) (\<lambda>_.
      rbind (require (bytes \<le> max_bytes) (SFail path)) (\<lambda>_. Inr records)))))))))))"

definition expected_subchannel_model :: dict where
  "expected_subchannel_model =
     [(''status'', PStr ''single_subchannel_only''), (''modeled_subchannels_per_channel'', PInt 1),
      (''refresh_density_reference_subchannels'', PInt 2), (''independent_subchannel_scheduling'', PBool False)]"

definition nonempty_list :: "pyval \<Rightarrow> bool" where
  "nonempty_list v = (case v of PList xs \<Rightarrow> xs \<noteq> [] | _ \<Rightarrow> False)"

definition check_subchannel_model :: "string \<Rightarrow> pyval \<Rightarrow> string \<Rightarrow> schema_error + unit" where
  "check_subchannel_model dc sub path =
     (if dc = ''LPDDR6PIM'' then
        rbind (object_of sub path) (\<lambda>_. require (py_eq sub (PDict expected_subchannel_model)) (SFail path))
      else require (sub = PNone) (SFail path))"

definition check_backend :: "dict \<Rightarrow> dict \<Rightarrow> schema_error + string" where
  "check_backend m lay =
     (let path = ''result.resolved_hardware.address_layout'' in
      rbind (required_field lay ''dram_class'' path) (\<lambda>dc.
      rbind (one_of dc [''LPDDR5PIM'', ''LPDDR6PIM''] (path @ ''.dram_class'')) (\<lambda>_.
      rbind (subscripts (PDict m) [''hardware'', ''dram_class'']) (\<lambda>declared.
      rbind (require (py_eq dc declared) (SFail (path @ ''.dram_class''))) (\<lambda>_.
      rbind (each (required_as nonempty_list lay path) [''level_names'', ''level_sizes'', ''address_level_sizes'']) (\<lambda>_.
      rbind (require (length (py_items (item lay ''level_names'')) = length (py_items (item lay ''level_sizes''))) (SFail path)) (\<lambda>_.
      let c = (case dc of PStr c \<Rightarrow> c | _ \<Rightarrow> []) in
      rbind (check_subchannel_model c (item lay ''subchannel_model'') (path @ ''.subchannel_model'')) (\<lambda>_. Inr c))))))))"

definition check_hardware_part :: "dict \<Rightarrow> dict \<Rightarrow> schema_error + (string \<times> int)" where
  "check_hardware_part m r =
     (let path = ''result.resolved_hardware'' in
      rbind (object_of (item r ''resolved_hardware'') path) (\<lambda>h.
      rbind (required_object h ''address_layout'' path) (\<lambda>lay.
      rbind (each (\<lambda>f. required_count lay f (path @ ''.address_layout''))
               [''mapping_version'', ''internal_prefetch_size'', ''tx_bytes'', ''capacity_bytes'']) (\<lambda>_.
      rbind (required_object h ''preflight'' path) (\<lambda>p.
      rbind (check_preflight p) (\<lambda>records.
      rbind (check_backend m lay) (\<lambda>dc. Inr (dc, records))))))))"

section \<open>Workload\<close>

definition check_materialization :: "dict \<Rightarrow> schema_error + unit" where
  "check_materialization w =
     (let path = ''result.workload_summary.weight_materialization'' in
      rbind (one_of (item w ''policy'') [''resident'', ''full_preload''] (path @ ''.policy'')) (\<lambda>_.
      rbind (required_count w ''write_records'' path) (\<lambda>_.
      rbind (required_count w ''write_transactions'' path) (\<lambda>writes.
      rbind (required_count w ''generated_bytes'' path) (\<lambda>_.
      rbind (require (item w ''synthetic'' = PBool True) (SFail (path @ ''.synthetic''))) (\<lambda>_.
      rbind (require (item w ''policy'' = PStr ''resident'' \<longrightarrow> writes = 0) (SFail path)) (\<lambda>_.
      require (item w ''policy'' = PStr ''full_preload'' \<longrightarrow> writes \<noteq> 0) (SFail path))))))))"

definition check_workload_part :: "dict \<Rightarrow> int \<Rightarrow> dict \<Rightarrow> schema_error + unit" where
  "check_workload_part m records r =
     (let path = ''result.workload_summary'' in
      rbind (object_of (item r ''workload_summary'') path) (\<lambda>w.
      rbind (each (\<lambda>f. required_field w f path) [''workload_type'', ''model'', ''phase'', ''semantic_records'', ''concrete_records'']) (\<lambda>_.
      rbind (subscripts (PDict m) [''workload'', ''workload_type'']) (\<lambda>declared.
      rbind (require (py_eq (item w ''workload_type'') declared) (SFail (path @ ''.workload_type''))) (\<lambda>_.
      rbind (count_of (item w ''semantic_records'') (path @ ''.semantic_records'')) (\<lambda>_.
      rbind (count_of (item w ''concrete_records'') (path @ ''.concrete_records'')) (\<lambda>concrete.
      rbind (require (concrete = records) (SFail (path @ ''.concrete_records''))) (\<lambda>_.
      rbind (required_object w ''surrogate_scope'' path) (\<lambda>scope.
      rbind (each (required_as is_str scope (path @ ''.surrogate_scope'')) [''architecture_dimensions'', ''weights'', ''host_operator_model'']) (\<lambda>_.
      rbind (each (required_as is_bool scope (path @ ''.surrogate_scope'')) [''runtime_trace'', ''numerical_execution'', ''silicon_calibration'']) (\<lambda>_.
      rbind (required_as is_str w path ''claim_boundary'') (\<lambda>_.
      rbind (required_object w ''weight_materialization'' path) check_materialization))))))))))))"

section \<open>Simulation\<close>

definition check_opcode_counts :: "dict \<Rightarrow> schema_error + unit" where
  "check_opcode_counts counts =
     each (\<lambda>(opcode, n).
       rbind (require (opcode \<noteq> []) (SFail ''result.simulation.trace_opcode_counts'')) (\<lambda>_.
       count_of n (''result.simulation.trace_opcode_counts.'' @ opcode))) counts"

definition STANDARD_ENERGY_UNITS :: dict where
  "STANDARD_ENERGY_UNITS = [(''current'', PStr ''mA''), (''voltage'', PStr ''V''), (''time'', PStr ''ns''), (''energy'', PStr ''pJ'')]"

definition LPDDR5_POWER_SOURCE :: dict where
  "LPDDR5_POWER_SOURCE =
     [(''profile_scope'', PStr ''camera_ready_lpddr5_6400_analysis''),
      (''calibration'', PStr ''not_device_calibrated''),
      (''dimensional_equation'', PStr ''V[V] * I[mA] * t[ns] = E[pJ]''),
      (''legacy_conversion'', PStr ''multiply_by_1e-3_after_V_mA_ns_product''),
      (''legacy_conversion_scale'', PFloat (1 / 1000))]"

definition check_power_provenance :: "string \<Rightarrow> dict \<Rightarrow> schema_error + unit" where
  "check_power_provenance dc a =
     (let path = ''result.simulation.power_accounting'' in
      if dc = ''LPDDR5PIM'' then
        rbind (require (item a ''status'' = PStr ''paper_two_layer'') (SFail (path @ ''.status''))) (\<lambda>_.
        rbind (require (item a ''equation'' = PStr ''E = E_LPDDR + E_PIM'') (SFail (path @ ''.equation''))) (\<lambda>_.
        rbind (object_of (item a ''standard_energy_units'') (path @ ''.standard_energy_units'')) (\<lambda>units.
        rbind (require (py_eq (PDict units) (PDict STANDARD_ENERGY_UNITS)) (SFail (path @ ''.standard_energy_units''))) (\<lambda>_.
        rbind (object_of (item a ''standard_power_source'') (path @ ''.standard_power_source'')) (\<lambda>src.
        each (\<lambda>(f, v). require (py_eq (item src f) v) (SFail (path @ ''.standard_power_source.'' @ f))) LPDDR5_POWER_SOURCE)))))
      else
        rbind (require (item a ''status'' = PStr ''experimental_drampower_reference'') (SFail (path @ ''.status''))) (\<lambda>_.
        rbind (require (item a ''power_profile'' = PStr ''DRAMPOWER_V620_LPDDR6_TEST_PROFILE'') (SFail (path @ ''.power_profile''))) (\<lambda>_.
        rbind (require (item a ''standard_power_calibrated_to_device'' = PBool False) (SFail path)) (\<lambda>_.
        rbind (object_of (item a ''standard_power_source'') (path @ ''.standard_power_source'')) (\<lambda>src.
        require (item src ''version'' = PStr ''v6.2.0'' \<and> item src ''calibration'' = PStr ''test_fixture_not_device_datasheet'')
          (SFail (path @ ''.standard_power_source'')))))))"

text \<open>The total is the sum of its parts up to a relative error of \<open>1e-9\<close>.\<close>

definition check_energy :: "dict \<Rightarrow> schema_error + unit" where
  "check_energy a =
     (let path = ''result.simulation.power_accounting'' in
      rbind (each (\<lambda>f. require (nonneg_or_none (item a f)) (SFail (path @ ''.'' @ f)))
               [''total_standard_energy_pJ'', ''total_pim_event_energy_pJ'', ''total_energy_pJ'']) (\<lambda>_.
      case (num_of (item a ''total_standard_energy_pJ''), num_of (item a ''total_pim_event_energy_pJ''), num_of (item a ''total_energy_pJ'')) of
        (Some s, Some p, Some t) \<Rightarrow>
          require (\<bar>t - (s + p)\<bar> \<le> max (1 / 1000000) (\<bar>t\<bar> / 1000000000)) (SFail (path @ ''.total_energy_pJ''))
      | _ \<Rightarrow> Inr ()))"

definition check_power :: "string \<Rightarrow> dict \<Rightarrow> schema_error + unit" where
  "check_power dc a =
     (let path = ''result.simulation.power_accounting'' in
      rbind (require (item a ''energy_units'' = PStr ''pJ'') (SFail (path @ ''.energy_units''))) (\<lambda>_.
      rbind (require (is_bool (item a ''standard_background_command_energy_available''))
               (SFail (path @ ''.standard_background_command_energy_available''))) (\<lambda>_.
      rbind (require (is_bool (item a ''pim_event_coefficients_available'')) (SFail (path @ ''.pim_event_coefficients_available''))) (\<lambda>_.
      rbind (check_power_provenance dc a) (\<lambda>_. check_energy a)))))"

definition check_replay :: "dict \<Rightarrow> string \<Rightarrow> dict \<Rightarrow> schema_error + unit" where
  "check_replay m dc s =
     (let path = ''result.simulation'' in
      rbind (required_as is_bool s path ''replay_ok'') (\<lambda>_.
      rbind (required_field s ''dram_class'' path) (\<lambda>sdc.
      rbind (require (py_eq sdc (PStr dc)) (SFail (path @ ''.dram_class''))) (\<lambda>_.
      rbind (required_field s ''trace_schema'' path) (\<lambda>_.
      rbind (required_field s ''refresh_manager'' path) (\<lambda>rm.
      rbind (subscripts (PDict m) [''hardware'', ''controller'', ''refresh_manager'']) (\<lambda>declared.
      rbind (require (py_eq rm declared) (SFail (path @ ''.refresh_manager''))) (\<lambda>_.
      rbind (required_field s ''pim_mac_execution_model'' path) (\<lambda>em.
      rbind (subscripts (PDict m) [''hardware'', ''pim'', ''pim_mac_execution_model'']) (\<lambda>declared.
      rbind (require (py_eq em declared) (SFail (path @ ''.pim_mac_execution_model''))) (\<lambda>_.
      rbind (require (item s ''pim_mac_execution_model_status'' =
                 PStr (if em = PStr ''subbank_overlap_experimental'' then ''experimental'' else ''supported''))
               (SFail (path @ ''.pim_mac_execution_model_status''))) (\<lambda>_.
      rbind (required_object s ''trace_opcode_counts'' path) (\<lambda>counts.
      rbind (check_opcode_counts counts) (\<lambda>_.
      require (py_eq (item s ''pim_bcast_issued'') (dgetd counts ''PIM_BCAST'' (PInt 0)))
        (SFail (path @ ''.pim_bcast_issued''))))))))))))))))"

definition check_outcome :: "string \<Rightarrow> dict \<Rightarrow> dict \<Rightarrow> schema_error + unit" where
  "check_outcome dc s r =
     rbind (require (py_eq (item s ''trace_schema'') (PStr (dgetd CONCRETE_SCHEMA_VERSIONS dc []))) (SFail ''result.simulation.trace_schema'')) (\<lambda>_.
     rbind (required_count s ''cycles'' ''result.simulation'') (\<lambda>cycles.
     rbind (require (item r ''status'' = PStr ''PASS'' \<longrightarrow> item s ''replay_ok'' = PBool True \<and> 0 < cycles) (SFail ''result'')) (\<lambda>_.
     require (item r ''status'' = PStr ''FAIL'' \<longrightarrow> item s ''replay_ok'' = PBool False) (SFail ''result''))))"

definition check_packages :: "dict \<Rightarrow> schema_error + unit" where
  "check_packages r =
     rbind (object_of (item r ''provenance'') ''result.provenance'') (\<lambda>p.
     rbind (required_object p ''python_packages'' ''result.provenance'') (\<lambda>ps.
     each (required_as (\<lambda>v. is_str v \<and> v \<noteq> PStr []) ps ''result.provenance.python_packages'')
       [''ramulator'', ''pimscope'', ''numpy'', ''matplotlib'', ''PyYAML'']))"

section \<open>Results\<close>

definition validate_result :: "(dict \<Rightarrow> string) \<Rightarrow> string option \<Rightarrow> dict \<Rightarrow> schema_error + dict" where
  "validate_result fp expected r =
     rbind (check_envelope r) (\<lambda>_.
     rbind (check_manifest fp expected r) (\<lambda>m.
     rbind (check_hardware_part m r) (\<lambda>(dc, records).
     rbind (check_workload_part m records r) (\<lambda>_.
     rbind (object_of (item r ''simulation'') ''result.simulation'') (\<lambda>s.
     rbind (check_replay m dc s) (\<lambda>_.
     rbind (required_object s ''power_accounting'' ''result.simulation'') (\<lambda>a.
     rbind (check_power dc a) (\<lambda>_.
     rbind (check_outcome dc s r) (\<lambda>_.
     rbind (check_packages r) (\<lambda>_. Inr r))))))))))"

section \<open>Trace files\<close>

text \<open>
  The layout of the model is the record that the code's dictionary is; \<open>mapping_version\<close> is the
  one entry of the dictionary that the record does not keep.
\<close>

definition validate_trace_file ::
  "trace_line list \<Rightarrow> string \<Rightarrow> layout \<Rightarrow> pyval \<Rightarrow> int option \<Rightarrow> string option \<Rightarrow> schema_error + dict" where
  "validate_trace_file lines path lay mapping_version max_expanded env =
     (case read_jsonl lines (Some lay) max_expanded env (Some (ly_dram_class lay)) of
        Inl e \<Rightarrow> Inl (STrace e)
      | Inr (header, records) \<Rightarrow>
          (case (header, expanded_record_count records) of
             (PDict h, Inr n) \<Rightarrow>
               Inr [(''valid'', PBool True), (''path'', PStr path), (''schema_version'', item h ''schema_version''),
                    (''dram_class'', dgetd h ''dram_class'' (PStr ''LPDDR5PIM'')), (''records'', PInt (int (length records))),
                    (''expanded_records'', PInt n), (''mapping_version'', mapping_version),
                    (''capacity_bytes'', PInt (ly_capacity_bytes lay)),
                    (''max_expanded_records'', case max_expanded of None \<Rightarrow> PNone | Some b \<Rightarrow> PInt b)]
           | (_, Inl e) \<Rightarrow> Inl (STrace e)
           | _ \<Rightarrow> Inl (SType ''header'')))"

section \<open>Aggregates\<close>

definition aggregate_fields :: "string \<Rightarrow> string list" where
  "aggregate_fields k =
     (if k = ''decode_cycles'' then [''model_name'', ''mode'', ''cycles'', ''runtime_ns'', ''replay_status'']
      else if k = ''prefill_cycles'' then [''model_name'', ''model_key'', ''mode'', ''cycles'', ''runtime_ns'', ''replay_status'']
      else [''workload'', ''cycles_k1'', ''cycles_k2'', ''replay_ok_k1'', ''replay_ok_k2''])"

definition row_key :: "string \<Rightarrow> dict \<Rightarrow> pyval list" where
  "row_key k row =
     (if k = ''pim_sharing_comparison'' then [item row ''workload''] else [item row ''model_name'', item row ''mode''])"

definition if_present :: "dict \<Rightarrow> (pyval \<Rightarrow> bool) \<Rightarrow> string \<Rightarrow> string \<Rightarrow> schema_error + unit" where
  "if_present d ok path f = (case dget d f of None \<Rightarrow> Inr () | Some v \<Rightarrow> require (ok v) (SFail (path @ f)))"

definition same_key :: "pyval list \<Rightarrow> pyval list \<Rightarrow> bool" where
  "same_key ks ls \<longleftrightarrow> list_all2 py_eq ks ls"

definition check_row :: "string \<Rightarrow> pyval list list \<Rightarrow> pyval \<Rightarrow> schema_error + pyval list list" where
  "check_row k keys v =
     (let path = ''aggregate.rows'' in
      rbind (object_of v path) (\<lambda>row.
      rbind (each (\<lambda>f. required_field row f path) (aggregate_fields k)) (\<lambda>_.
      rbind (each (if_present row nonneg_number path) [''cycles'', ''runtime_ns'']) (\<lambda>_.
      rbind (if_present row (\<lambda>v. v = PStr ''PASS'') path ''replay_status'') (\<lambda>_.
      rbind (each (if_present row (\<lambda>v. v = PBool True) path) [''replay_ok_k1'', ''replay_ok_k2'']) (\<lambda>_.
      rbind (if k = ''pim_sharing_comparison''
             then each (\<lambda>f. require (positive_int (item row f)) (SFail (path @ f))) [''cycles_k1'', ''cycles_k2''] else Inr ()) (\<lambda>_.
      rbind (require (list_all hashable (row_key k row)) (SType path)) (\<lambda>_.
      rbind (require (\<not> list_ex (same_key (row_key k row)) keys) (SFail path)) (\<lambda>_.
      Inr (row_key k row # keys))))))))))"

definition validate_aggregate :: "string \<Rightarrow> pyval \<Rightarrow> schema_error + dict" where
  "validate_aggregate k payload =
     (case dget AGGREGATE_SCHEMA_NAMES k of
        None \<Rightarrow> Inl (SFail k)
      | Some name \<Rightarrow>
          rbind (object_of payload ''aggregate'') (\<lambda>a.
          rbind (require (py_eq (item a ''schema_version'') (PInt AGGREGATE_SCHEMA_VERSION)) (SFail ''aggregate.schema_version'')) (\<lambda>_.
          rbind (require (item a ''schema_name'' = PStr name) (SFail ''aggregate.schema_name'')) (\<lambda>_.
          rbind (require (k = ''decode_cycles'' \<longrightarrow> item a ''phase'' = PStr ''decode'') (SFail ''aggregate.phase'')) (\<lambda>_.
          rbind (require (k = ''prefill_cycles'' \<longrightarrow> item a ''phase'' = PStr ''prefill'') (SFail ''aggregate.phase'')) (\<lambda>_.
          rbind (require (k = ''pim_sharing_comparison'' \<longrightarrow> \<not> has a ''phase'') (SFail ''aggregate.phase'')) (\<lambda>_.
          rbind (require (nonempty_list (item a ''rows'')) (SFail ''aggregate.rows'')) (\<lambda>_.
          rbind (rfold (check_row k) [] (py_items (item a ''rows''))) (\<lambda>_. Inr a)))))))))"

text \<open>\<open>load_json_object\<close>; \<open>json.loads\<close> is the parameter \<open>loads\<close>.\<close>

definition load_json_object :: "(string \<Rightarrow> pyval option) \<Rightarrow> string \<Rightarrow> string \<Rightarrow> schema_error + dict" where
  "load_json_object loads path text =
     (case loads text of None \<Rightarrow> Inl (SFail path) | Some v \<Rightarrow> object_of v path)"

end
