(* ===== verification/Pimscope_Facts.thy ===== *)
theory Pimscope_Facts
  imports Pimscope_Manifest "HOL-Library.Sublist"
begin

text \<open>
  Facts on the resolution of manifests: the shape of a merged configuration, from which it
  follows that resolving a resolved manifest changes nothing; and what assignment along a path
  does to other paths.
\<close>

section \<open>Updates that extend a dictionary\<close>

text \<open>\<open>e\<close> has the keys of \<open>d\<close>, in order, before any other key.\<close>

definition extends :: "dict \<Rightarrow> dict \<Rightarrow> bool" where
  "extends d e \<longleftrightarrow> distinct (dkeys e) \<and> take (length d) (dkeys e) = dkeys d"

lemma extends_refl: "distinct (dkeys d) \<Longrightarrow> extends d d"
  by (simp add: extends_def)

lemma dkeys_dset_list: "dkeys (dset k v d) = (if k \<in> set (dkeys d) then dkeys d else dkeys d @ [k])"
  by (induction d) auto

lemma extends_dset:
  assumes "extends d e"
  shows "extends d (dset k v e)"
proof -
  have len: "length d \<le> length e" using assms by (metis extends_def length_map length_take min.cobounded1 min_def)
  then show ?thesis using assms by (auto simp: extends_def dkeys_dset_list distinct_update)
qed

lemma extends_dupdate: "extends d e \<Longrightarrow> extends d (dupdate e s)"
proof (induction s arbitrary: e)
  case (Cons kv s)
  then show ?case by (cases kv) (simp add: dupdate_Cons extends_dset)
qed simp

lemma dset_middle: "k \<notin> set (dkeys p) \<Longrightarrow> dset k v (p @ (k, w) # d) = p @ (k, v) # d"
  by (induction p) auto

lemma dset_end: "k \<notin> set (dkeys p) \<Longrightarrow> dset k v p = p @ [(k, v)]"
  by (induction p) auto

lemma dupdate_over:
  "distinct (dkeys (p @ e)) \<Longrightarrow> take (length d) (dkeys e) = dkeys d \<Longrightarrow> length d \<le> length e \<Longrightarrow>
    dupdate (p @ d) e = p @ e"
proof (induction e arbitrary: p d)
  case (Cons kv e)
  obtain k v where kv: "kv = (k, v)" by fastforce
  have k: "k \<notin> set (dkeys p)" using Cons.prems(1) by (simp add: kv)
  show ?case
  proof (cases d)
    case Nil
    have "dupdate ((p @ [(k, v)]) @ []) e = (p @ [(k, v)]) @ e"
      by (rule Cons.IH) (use Cons.prems(1) in \<open>auto simp: kv\<close>)
    then show ?thesis using dset_end[OF k] by (simp add: Nil kv dupdate_Cons)
  next
    case (Cons e0 d')
    then obtain w where d: "d = (k, w) # d'" using Cons.prems(2) by (cases e0) (simp add: kv)
    have "dupdate ((p @ [(k, v)]) @ d') e = (p @ [(k, v)]) @ e"
      by (rule Cons.IH) (use Cons.prems in \<open>auto simp: kv d\<close>)
    then show ?thesis using dset_middle[OF k] by (simp add: d kv dupdate_Cons)
  qed
qed simp

lemma dupdate_extends:
  assumes "extends d e"
  shows "dupdate d e = e"
proof -
  have "length d \<le> length e" using assms by (metis extends_def length_map length_take min.cobounded1 min_def)
  then show ?thesis using dupdate_over[of "[]" e d] assms by (simp add: extends_def)
qed

section \<open>The shape of merged hardware\<close>

definition scalar_fields :: "string list" where
  "scalar_fields = [''dram_class'', ''org_preset'', ''timing_preset'', ''frontend_clock_ratio'']"

definition section_fields :: "string list" where
  "section_fields = [''org_overrides'', ''timing_overrides'', ''pim'', ''controller'', ''memory_system'', ''topology'']"

definition replaced :: "string \<Rightarrow> bool" where
  "replaced f \<longleftrightarrow> f \<in> {''org_overrides'', ''timing_overrides''}"

text \<open>The keys of the defaults, sections that are dictionaries, merged sections that extend the defaults.\<close>

definition hardware_form :: "dict \<Rightarrow> bool" where
  "hardware_form h \<longleftrightarrow>
     dkeys h = dkeys DEFAULT_HARDWARE \<and>
     (\<forall>f \<in> set section_fields. item h f = PDict (sub_section h f) \<and>
        (replaced f \<or> extends (sub_section DEFAULT_HARDWARE f) (sub_section h f)))"

lemma hardware_keys: "f \<in> set (scalar_fields @ section_fields) \<longleftrightarrow> f \<in> set (dkeys DEFAULT_HARDWARE)"
  by (auto simp: DEFAULT_HARDWARE_def scalar_fields_def section_fields_def)

lemma hardware_distinct: "distinct (dkeys DEFAULT_HARDWARE)"
  by (simp add: DEFAULT_HARDWARE_def)

lemma hardware_form_default: "hardware_form DEFAULT_HARDWARE"
  unfolding hardware_form_def
  by (simp add: DEFAULT_HARDWARE_def sub_section_def dgetd_def extends_def section_fields_def replaced_def)

lemma sub_section_dset: "sub_section (dset f v h) g = (if g = f then (case v of PDict d \<Rightarrow> d | _ \<Rightarrow> []) else sub_section h g)"
  by (simp add: sub_section_def dgetd_def dget_dset)

lemma item_dset: "item (dset f v h) g = (if g = f then v else item h g)"
  by (simp add: dgetd_def dget_dset)

lemma hardware_form_dset:
  assumes "hardware_form h" and "f \<in> set (dkeys DEFAULT_HARDWARE)"
    and v: "f \<in> set section_fields \<Longrightarrow> v = PDict d \<and> (replaced f \<or> extends (sub_section DEFAULT_HARDWARE f) d)"
  shows "hardware_form (dset f v h)"
  unfolding hardware_form_def
proof (intro conjI ballI)
  show "dkeys (dset f v h) = dkeys DEFAULT_HARDWARE"
    using assms(1,2) by (simp add: dkeys_dset_list hardware_form_def)
  fix g assume g: "g \<in> set section_fields"
  show "item (dset f v h) g = PDict (sub_section (dset f v h) g)"
    using assms(1) v g by (cases "g = f") (simp_all add: item_dset sub_section_dset hardware_form_def)
  show "replaced g \<or> extends (sub_section DEFAULT_HARDWARE g) (sub_section (dset f v h) g)"
    using assms(1) v g by (cases "g = f") (simp_all add: sub_section_dset hardware_form_def)
qed

lemma scalar_not_section: "f \<in> set scalar_fields \<Longrightarrow> f \<notin> set section_fields"
  by (auto simp: scalar_fields_def section_fields_def)

lemma hardware_form_scalar:
  assumes "hardware_form h" and "f \<in> set scalar_fields"
  shows "hardware_form (dset f v h)"
  by (rule hardware_form_dset[OF assms(1)]) (use assms(2) hardware_keys[of f] scalar_not_section[of f] in auto)

lemma hardware_form_scalars:
  assumes "hardware_form h" and "set fs \<subseteq> set scalar_fields"
  shows "hardware_form (merge_scalars s fs h)"
  using assms
proof (induction fs arbitrary: h)
  case (Cons f fs)
  have "f \<in> set scalar_fields" using Cons.prems(2) by (rule subsetD) simp
  then have "hardware_form (case dget s f of None \<Rightarrow> h | Some v \<Rightarrow> dset f v h)"
    using hardware_form_scalar[OF Cons.prems(1)] Cons.prems(1) by (cases "dget s f") (simp_all only: option.case)
  from Cons.IH[OF this] Cons.prems(2) show ?case by (simp add: merge_scalars_def)
qed (simp add: merge_scalars_def)

lemma merge_section_eq:
  "merge_section s h f =
     (case dget s f of
        None \<Rightarrow> Inr h
      | Some v \<Rightarrow> rbind (expect_mapping v (''hardware.'' @ f)) (\<lambda>e.
          Inr (dset f (PDict (if replaced f then e else dupdate (sub_section h f) e)) h)))"
  by (simp only: merge_section_def replaced_def)

lemma hardware_form_section:
  assumes h: "hardware_form h" and f: "f \<in> set section_fields" and m: "merge_section s h f = Inr h'"
  shows "hardware_form h'"
proof (cases "dget s f")
  case (Some v)
  obtain e where e: "h' = dset f (PDict (if replaced f then e else dupdate (sub_section h f) e)) h"
    using m unfolding merge_section_eq Some option.case rbind_Inr_iff by blast
  show ?thesis
    unfolding e
  proof (rule hardware_form_dset[OF h])
    show "f \<in> set (dkeys DEFAULT_HARDWARE)" using f hardware_keys[of f] by simp
    show "PDict (if replaced f then e else dupdate (sub_section h f) e) = PDict (if replaced f then e else dupdate (sub_section h f) e) \<and>
        (replaced f \<or> extends (sub_section DEFAULT_HARDWARE f) (if replaced f then e else dupdate (sub_section h f) e))"
      using h f by (auto simp: hardware_form_def intro: extends_dupdate)
  qed
qed (use assms in \<open>simp add: merge_section_eq\<close>)

lemma merge_hardware_form:
  assumes "merge_hardware raw = Inr h"
  shows "hardware_form h"
proof -
  obtain s where run: "rfold (merge_section s) (merge_scalars s scalar_fields DEFAULT_HARDWARE) section_fields = Inr h"
    using assms unfolding merge_hardware_def rbind_Inr_iff scalar_fields_def[symmetric] section_fields_def[symmetric]
    by (elim exE conjE)
  have "hardware_form (merge_scalars s scalar_fields DEFAULT_HARDWARE)"
    by (rule hardware_form_scalars[OF hardware_form_default order.refl])
  from rfold_invariant[where P = hardware_form, OF hardware_form_section this run]
  show ?thesis by assumption
qed

text \<open>Merging a merged configuration assigns every field its own value.\<close>

definition assign_from :: "dict \<Rightarrow> string list \<Rightarrow> dict \<Rightarrow> dict" where
  "assign_from h fs d = foldl (\<lambda>d f. dset f (item h f) d) d fs"

lemma assign_from_get: "dget (assign_from h fs d) k = (if k \<in> set fs then Some (item h k) else dget d k)"
  by (induction fs arbitrary: d) (simp_all add: assign_from_def dget_dset)

lemma assign_from_keys: "set fs \<subseteq> set (dkeys d) \<Longrightarrow> dkeys (assign_from h fs d) = dkeys d"
proof (induction fs arbitrary: d)
  case (Cons f fs)
  have "dkeys (dset f (item h f) d) = dkeys d" using Cons.prems by (simp add: dkeys_dset_list)
  moreover from this have "set fs \<subseteq> set (dkeys (dset f (item h f) d))" using Cons.prems by simp
  ultimately show ?case using Cons.IH[of "dset f (item h f) d"] by (simp add: assign_from_def)
qed (simp add: assign_from_def)

lemma dict_eqI:
  assumes "dkeys d = dkeys e" and "distinct (dkeys d)" and "\<And>k. k \<in> set (dkeys d) \<Longrightarrow> dget d k = dget e k"
  shows "d = e"
  using assms
proof (induction d arbitrary: e)
  case (Cons kv d)
  obtain k v where kv: "kv = (k, v)" by fastforce
  then obtain w e' where e: "e = (k, w) # e'" using Cons.prems(1) by (cases e) auto
  have "v = w" using Cons.prems(3)[of k] by (simp add: kv e)
  moreover have "d = e'"
  proof (rule Cons.IH)
    show "dget d x = dget e' x" if "x \<in> set (dkeys d)" for x
      using Cons.prems(2) Cons.prems(3)[of x] that by (auto simp: kv e split: if_splits)
  qed (use Cons.prems(1,2) in \<open>auto simp: kv e\<close>)
  ultimately show ?case by (simp add: kv e)
qed simp

lemma merge_scalars_self:
  "set fs \<subseteq> set (dkeys h) \<Longrightarrow> merge_scalars h fs d = assign_from h fs d"
proof (induction fs arbitrary: d)
  case (Cons f fs)
  then obtain v where "dget h f = Some v" using dget_in_keys[of f h] by auto
  with Cons show ?case by (simp add: merge_scalars_def assign_from_def dgetd_def)
qed (simp add: merge_scalars_def assign_from_def)

lemma merge_sections_self:
  assumes "hardware_form h" and "set fs \<subseteq> set section_fields" and "distinct fs"
    and "\<And>f. f \<in> set fs \<Longrightarrow> sub_section d f = sub_section DEFAULT_HARDWARE f"
  shows "rfold (merge_section h) d fs = Inr (assign_from h fs d)"
  using assms(2-)
proof (induction fs arbitrary: d)
  case (Cons f fs)
  have f: "f \<in> set section_fields" by (rule subsetD[OF Cons.prems(1)]) simp
  then have i: "item h f = PDict (sub_section h f)"
    and ext: "replaced f \<or> extends (sub_section DEFAULT_HARDWARE f) (sub_section h f)"
    using assms(1) unfolding hardware_form_def by blast+
  have sec: "(if replaced f then sub_section h f
      else dupdate (sub_section d f) (sub_section h f)) = sub_section h f"
    using ext Cons.prems(3)[of f] dupdate_extends by (cases "replaced f") simp_all
  have "dget h f = Some (PDict (sub_section h f))" using i by (auto simp: dgetd_def split: option.splits)
  then have "merge_section h d f = Inr (dset f (item h f) d)"
    unfolding merge_section_eq by (simp only: option.case expect_mapping_def pyval.case rbind_Inr sec i)
  moreover have "rfold (merge_section h) (dset f (item h f) d) fs = Inr (assign_from h fs (dset f (item h f) d))"
  proof (rule Cons.IH)
    show "sub_section (dset f (item h f) d) g = sub_section DEFAULT_HARDWARE g" if "g \<in> set fs" for g
      using that Cons.prems(2) Cons.prems(3)[of g] by (auto simp: sub_section_dset)
  qed (use Cons.prems in auto)
  ultimately show ?case by (simp add: assign_from_def)
qed (simp add: assign_from_def)

lemma merge_hardware_again:
  assumes "hardware_form h"
  shows "merge_hardware (PDict h) = Inr h"
proof -
  have keys: "dkeys h = dkeys DEFAULT_HARDWARE" using assms by (simp add: hardware_form_def)
  let ?d = "merge_scalars h scalar_fields DEFAULT_HARDWARE"
  have scal: "?d = assign_from h scalar_fields DEFAULT_HARDWARE"
    by (rule merge_scalars_self) (use keys hardware_keys in auto)
  have "sub_section ?d f = sub_section DEFAULT_HARDWARE f" if "f \<in> set section_fields" for f
    using that scalar_not_section[of f] unfolding scal by (auto simp: sub_section_def dgetd_def assign_from_get)
  then have "rfold (merge_section h) ?d section_fields = Inr (assign_from h section_fields ?d)"
    by (intro merge_sections_self[OF assms order.refl]) (simp_all add: section_fields_def)
  moreover have "assign_from h section_fields ?d = h"
  proof (rule dict_eqI)
    have "set scalar_fields \<subseteq> set (dkeys DEFAULT_HARDWARE)" "set section_fields \<subseteq> set (dkeys DEFAULT_HARDWARE)"
      using hardware_keys by auto
    then have k: "dkeys (assign_from h section_fields ?d) = dkeys DEFAULT_HARDWARE"
      by (simp only: assign_from_keys scal)
    then show "dkeys (assign_from h section_fields ?d) = dkeys h" "distinct (dkeys (assign_from h section_fields ?d))"
      using hardware_distinct keys by simp_all
    fix f assume f: "f \<in> set (dkeys (assign_from h section_fields ?d))"
    then have "f \<in> set (scalar_fields @ section_fields)" unfolding k hardware_keys .
    moreover have "dget h f = Some (item h f)"
      using f dget_in_keys[of f h] unfolding k keys[symmetric] by (auto simp: dgetd_def)
    ultimately show "dget (assign_from h section_fields ?d) f = dget h f"
      unfolding scal assign_from_get by auto
  qed
  moreover have "h \<noteq> []" using keys by (auto simp: DEFAULT_HARDWARE_def)
  moreover have "reject_unknown h SUPPORTED_HARDWARE_FIELDS ''hardware'' = Inr ()"
    unfolding reject_unknown_def keys by (simp add: DEFAULT_HARDWARE_def SUPPORTED_HARDWARE_FIELDS_def)
  ultimately show ?thesis
    unfolding merge_hardware_def scalar_fields_def[symmetric] section_fields_def[symmetric] by (simp add: expect_mapping_def)
qed

lemma resolve_hardware_again: "resolve_hardware raw = Inr h \<Longrightarrow> resolve_hardware (PDict h) = Inr h"
  by (auto simp: resolve_hardware_def rbind_Inr_iff merge_hardware_again[OF merge_hardware_form])

section \<open>The workload and the manifest\<close>

definition unique_keys :: "pyval \<Rightarrow> bool" where
  "unique_keys v = (case v of PDict d \<Rightarrow> distinct (dkeys d) | _ \<Rightarrow> True)"

lemma resolve_model_same: "resolve_model v = Inr w \<Longrightarrow> w = v"
  by (auto simp: resolve_model_def expect_mapping_def rbind_Inr_iff split: pyval.splits if_splits)

lemma dset_same: "dget d k = Some v \<Longrightarrow> dset k v d = d"
  by (induction d) auto

lemma set_keys_dupdate: "set (dkeys (dupdate d s)) = set (dkeys d) \<union> set (dkeys s)"
proof (induction s arbitrary: d)
  case (Cons kv s)
  then show ?case by (cases kv) (simp add: dupdate_Cons dkeys_dset)
qed simp

lemma workload_extends: "extends DEFAULT_WORKLOAD (dupdate DEFAULT_WORKLOAD s)"
  by (intro extends_dupdate extends_refl) (simp add: DEFAULT_WORKLOAD_def)

lemma workload_item: "k \<in> set (dkeys DEFAULT_WORKLOAD) \<Longrightarrow>
    dget (dupdate DEFAULT_WORKLOAD s) k = Some (item (dupdate DEFAULT_WORKLOAD s) k)"
  using dget_in_keys[of k "dupdate DEFAULT_WORKLOAD s"] set_keys_dupdate[of DEFAULT_WORKLOAD s] by (auto simp: dgetd_def)

lemma resolve_workload_Inr:
  "resolve_workload raw = Inr w \<longleftrightarrow>
     (\<exists>s. expect_mapping (if truthy raw then raw else PDict []) ''workload'' = Inr s \<and>
        reject_unknown s SUPPORTED_WORKLOAD_FIELDS ''workload'' = Inr () \<and> w = dupdate DEFAULT_WORKLOAD s \<and>
        resolve_model (item w ''model'') = Inr (item w ''model'') \<and> check_workload s w = Inr ())"
proof -
  have m: "dset ''model'' (item (dupdate DEFAULT_WORKLOAD s) ''model'') (dupdate DEFAULT_WORKLOAD s) = dupdate DEFAULT_WORKLOAD s" for s
    by (intro dset_same workload_item) (simp add: DEFAULT_WORKLOAD_def)
  have "dget (dupdate DEFAULT_WORKLOAD s) ''datatype'' = Some (dgetd (dupdate DEFAULT_WORKLOAD s) ''datatype'' v)" for s v
  proof -
    have "''datatype'' \<in> set (dkeys DEFAULT_WORKLOAD)" by (simp add: DEFAULT_WORKLOAD_def)
    from workload_item[OF this, of s] show ?thesis
      by (cases "dget (dupdate DEFAULT_WORKLOAD s) ''datatype''") (simp_all add: dgetd_def)
  qed
  then have d: "dset ''datatype'' (dgetd (dupdate DEFAULT_WORKLOAD s) ''datatype'' v) (dupdate DEFAULT_WORKLOAD s) =
      dupdate DEFAULT_WORKLOAD s" for s v
    by (rule dset_same)
  show ?thesis
  proof
    assume "resolve_workload raw = Inr w"
    then obtain s model where 1: "expect_mapping (if truthy raw then raw else PDict []) ''workload'' = Inr s"
        "reject_unknown s SUPPORTED_WORKLOAD_FIELDS ''workload'' = Inr ()"
      and model: "resolve_model (item (dupdate DEFAULT_WORKLOAD s) ''model'') = Inr model"
      and c: "check_workload s w = Inr ()"
      and w: "w = dset ''datatype'' (dgetd (dset ''model'' model (dupdate DEFAULT_WORKLOAD s)) ''datatype'' (PStr ''int8''))
          (dset ''model'' model (dupdate DEFAULT_WORKLOAD s))"
      unfolding resolve_workload_def Let_def rbind_Inr_iff by auto
    have "model = item (dupdate DEFAULT_WORKLOAD s) ''model''" by (rule resolve_model_same[OF model])
    then have "w = dupdate DEFAULT_WORKLOAD s" unfolding w by (simp only: m d)
    with 1 model c show "\<exists>s. expect_mapping (if truthy raw then raw else PDict []) ''workload'' = Inr s \<and>
        reject_unknown s SUPPORTED_WORKLOAD_FIELDS ''workload'' = Inr () \<and> w = dupdate DEFAULT_WORKLOAD s \<and>
        resolve_model (item w ''model'') = Inr (item w ''model'') \<and> check_workload s w = Inr ()"
      using resolve_model_same by blast
  next
    assume "\<exists>s. expect_mapping (if truthy raw then raw else PDict []) ''workload'' = Inr s \<and>
        reject_unknown s SUPPORTED_WORKLOAD_FIELDS ''workload'' = Inr () \<and> w = dupdate DEFAULT_WORKLOAD s \<and>
        resolve_model (item w ''model'') = Inr (item w ''model'') \<and> check_workload s w = Inr ()"
    then show "resolve_workload raw = Inr w"
      unfolding resolve_workload_def Let_def by (elim exE conjE) (simp only: rbind_Inr m d)
  qed
qed

lemma resolve_workload_again:
  assumes "resolve_workload raw = Inr w" and "unique_keys raw"
  shows "resolve_workload (PDict w) = Inr w"
proof -
  obtain s where s: "expect_mapping (if truthy raw then raw else PDict []) ''workload'' = Inr s"
    and r: "reject_unknown s SUPPORTED_WORKLOAD_FIELDS ''workload'' = Inr ()" and w: "w = dupdate DEFAULT_WORKLOAD s"
    and m: "resolve_model (item w ''model'') = Inr (item w ''model'')" and c: "check_workload s w = Inr ()"
    using assms(1) unfolding resolve_workload_Inr by blast
  have dist: "distinct (dkeys s)"
    using s assms(2) by (auto simp: expect_mapping_def unique_keys_def split: pyval.splits if_splits)
  have again: "w = dupdate DEFAULT_WORKLOAD w" using dupdate_extends[OF workload_extends] by (simp add: w)
  have "dget w ''workload_options'' = dget s ''workload_options''"
    unfolding w dget_dupdate[OF dist] by (simp add: DEFAULT_WORKLOAD_def split: option.split)
  then have c': "check_workload w w = Inr ()" using c unfolding check_workload_def by simp
  have "set (dkeys w) \<subseteq> set SUPPORTED_WORKLOAD_FIELDS"
    using r unfolding w set_keys_dupdate by (auto simp: reject_unknown_def SUPPORTED_WORKLOAD_FIELDS_def list_all_iff)
  then have r': "reject_unknown w SUPPORTED_WORKLOAD_FIELDS ''workload'' = Inr ()"
    by (auto simp: reject_unknown_def list_all_iff)
  have "''model'' \<in> set (dkeys w)" unfolding w set_keys_dupdate by (simp add: DEFAULT_WORKLOAD_def)
  then have "truthy (PDict w)" by auto
  then have "expect_mapping (if truthy (PDict w) then PDict w else PDict []) ''workload'' = Inr w"
    by (simp only: if_True expect_mapping_def pyval.case)
  with r' again m c' show ?thesis unfolding resolve_workload_Inr by blast
qed

lemma resolve_manifest_Inr:
  "resolve_experiment_manifest raw source = Inr m \<longleftrightarrow>
     (\<exists>r out hardware workload.
        expect_mapping raw source = Inr r \<and> reject_unknown r SUPPORTED_TOP_LEVEL_FIELDS source = Inr () \<and>
        py_eq (dgetd r ''schema_version'' (PInt 1)) (PInt 1) \<and> nonblank (dgetd r ''experiment'' (PStr ''pimscope-experiment'')) \<and>
        expect_mapping (dgetd r ''output'' (PDict [(''path'', default_output_path)])) ''output'' = Inr out \<and>
        reject_unknown out [''path''] ''output'' = Inr () \<and> nonblank (dgetd out ''path'' default_output_path) \<and>
        resolve_hardware (dgetd r ''hardware'' (PDict [])) = Inr hardware \<and>
        resolve_workload (dgetd r ''workload'' (PDict [])) = Inr workload \<and>
        py_eq (item (sub_section hardware ''pim'') ''pim_datatype'') (item workload ''datatype'') \<and>
        m = [(''schema_version'', PInt 1), (''experiment'', dgetd r ''experiment'' (PStr ''pimscope-experiment'')),
             (''hardware'', PDict hardware), (''workload'', PDict workload),
             (''output'', PDict [(''path'', dgetd out ''path'' default_output_path)])])"
  unfolding resolve_experiment_manifest_def Let_def rbind_Inr_iff require_Inr MANIFEST_SCHEMA_VERSION_def sum.inject
  by auto

lemma resolve_manifest_again:
  assumes "resolve_experiment_manifest raw source = Inr m"
    and "\<And>r. raw = PDict r \<Longrightarrow> unique_keys (dgetd r ''workload'' (PDict []))"
  shows "resolve_experiment_manifest (PDict m) source' = Inr m"
proof -
  obtain r out hardware workload where raw: "expect_mapping raw source = Inr r"
    and e: "nonblank (dgetd r ''experiment'' (PStr ''pimscope-experiment''))" and p: "nonblank (dgetd out ''path'' default_output_path)"
    and hw: "resolve_hardware (dgetd r ''hardware'' (PDict [])) = Inr hardware"
    and wl: "resolve_workload (dgetd r ''workload'' (PDict [])) = Inr workload"
    and eq: "py_eq (item (sub_section hardware ''pim'') ''pim_datatype'') (item workload ''datatype'')"
    and m: "m = [(''schema_version'', PInt 1), (''experiment'', dgetd r ''experiment'' (PStr ''pimscope-experiment'')),
             (''hardware'', PDict hardware), (''workload'', PDict workload),
             (''output'', PDict [(''path'', dgetd out ''path'' default_output_path)])]"
    using assms(1) unfolding resolve_manifest_Inr by blast
  have "raw = PDict r" using raw by (cases raw) (simp_all add: expect_mapping_def)
  then have wl': "resolve_workload (PDict workload) = Inr workload" by (rule resolve_workload_again[OF wl assms(2)])
  have hw': "resolve_hardware (PDict hardware) = Inr hardware" by (rule resolve_hardware_again[OF hw])
  show ?thesis
    unfolding resolve_manifest_Inr
    by (rule exI[of _ m], rule exI[of _ "[(''path'', dgetd out ''path'' default_output_path)]"],
        rule exI[of _ hardware], rule exI[of _ workload])
       (simp add: expect_mapping_def reject_unknown_def SUPPORTED_TOP_LEVEL_FIELDS_def dgetd_def m hw' wl'
          e[unfolded dgetd_def] p[unfolded dgetd_def] eq[unfolded dgetd_def])
qed

section \<open>Assignment along a path\<close>

fun get_path :: "string list \<Rightarrow> dict \<Rightarrow> pyval option" where
  "get_path [] d = None"
| "get_path [k] d = dget d k"
| "get_path (k # k' # ks) d = (case dget d k of Some (PDict e) \<Rightarrow> get_path (k' # ks) e | _ \<Rightarrow> None)"

lemma get_path_Cons: "ks \<noteq> [] \<Longrightarrow> get_path (k # ks) d = (case dget d k of Some (PDict e) \<Rightarrow> get_path ks e | _ \<Rightarrow> None)"
  by (cases ks) (auto split: option.split pyval.split)

lemma get_path_empty: "get_path ks [] = None"
proof (cases ks)
  case (Cons k ks')
  then show ?thesis by (cases ks') simp_all
qed simp

lemma set_path_get: "set_path ks v s d = Inr d' \<Longrightarrow> ks \<noteq> [] \<Longrightarrow> get_path ks d' = Some v"
proof (induction ks v s d arbitrary: d' rule: set_path.induct)
  case (3 k k' ks v s d)
  then obtain e e' where "set_path (k' # ks) v s e = Inr e'" "d' = dset k (PDict e') d"
      "(case item d k of PNone \<Rightarrow> Inr [] | PDict e \<Rightarrow> Inr e | _ \<Rightarrow> Inl (CFail s)) = Inr e"
    by (auto simp: rbind_Inr_iff)
  with 3 show ?case by (simp add: dget_dset)
qed (simp_all add: dget_dset)

lemma set_path_other:
  assumes "set_path ks v s d = Inr d'" and "js \<noteq> []" and "\<not> prefix js ks" and "\<not> prefix ks js"
  shows "get_path js d' = get_path js d"
  using assms
proof (induction ks v s d arbitrary: d' js rule: set_path.induct)
  case (2 k v s d)
  then obtain j js' where js: "js = j # js'" "j \<noteq> k" by (cases js) auto
  with 2 show ?case by (cases js') (auto simp: dget_dset)
next
  case (3 k k' ks v s d)
  obtain e e' where e: "set_path (k' # ks) v s e = Inr e'" "d' = dset k (PDict e') d"
      "(case item d k of PNone \<Rightarrow> Inr [] | PDict e \<Rightarrow> Inr e | _ \<Rightarrow> Inl (CFail s)) = Inr e"
    using "3.prems"(1) by (auto simp: rbind_Inr_iff)
  obtain j js' where js: "js = j # js'" using "3.prems"(2) by (cases js) auto
  show ?case
  proof (cases "j = k")
    case True
    then have ne: "js' \<noteq> []" using "3.prems"(3) js by auto
    have "get_path js' e' = get_path js' e"
      by (rule "3.IH"[OF e(3,1) ne]) (use "3.prems"(3,4) js True in auto)
    moreover have "(case dget d k of Some (PDict e) \<Rightarrow> get_path js' e | _ \<Rightarrow> None) = get_path js' e"
      using e(3) by (auto simp: dgetd_def get_path_empty split: option.splits pyval.splits)
    ultimately show ?thesis using ne by (simp add: js True get_path_Cons e(2) dget_dset)
  next
    case False
    then show ?thesis by (cases js') (simp_all add: js e(2) dget_dset)
  qed
qed auto

end
