(* ===== verification/Pimscope_Compat.thy ===== *)
theory Pimscope_Compat
  imports Pimscope_Tables
begin

text \<open>
  \<open>pimscope/compat.py\<close>: the migration of legacy field names and of one legacy execution model.
  Deprecation warnings are not modelled, and an error does not carry its path.
\<close>

datatype compat_error = AliasConflict string string | NotHashable | NotObject

definition LEGACY_PIM_FIELD_ALIASES :: "(string \<times> string) list" where
  "LEGACY_PIM_FIELD_ALIASES = [(''pim_banks_per_mpu'', ''pim_banks_per_block'')]"

definition LEGACY_EXECUTION_MODEL_ALIASES :: "(string \<times> string) list" where
  "LEGACY_EXECUTION_MODEL_ALIASES = [(''shared_mpu_serial'', ''shared_block_serial'')]"

definition LEGACY_RESULT_FIELD_ALIASES :: "(string \<times> string) list" where
  "LEGACY_RESULT_FIELD_ALIASES =
     [(''pim_mpu_group_stalls'', ''pim_shared_block_stalls''),
      (''pim_banks_per_mpu'', ''pim_banks_per_block''),
      (''pim_mpu_group_count'', ''pim_shared_block_count''),
      (''effective_mpu_groups'', ''effective_shared_blocks''),
      (''num_mpu_group_busy_blocked_cycles'', ''num_shared_block_busy_blocked_cycles''),
      (''mpu_grouping_policy'', ''shared_block_grouping_policy'')]"

text \<open>\<open>mapping[new] = mapping.pop(old)\<close>: the old entry goes, the new one is assigned.\<close>

definition coalesce :: "dict \<Rightarrow> string \<times> string \<Rightarrow> compat_error + dict" where
  "coalesce d = (\<lambda>(old, new).
     case dget d old of
       None \<Rightarrow> Inr d
     | Some v \<Rightarrow>
         if has d new \<and> \<not> py_eq (item d new) v then Inl (AliasConflict old new)
         else Inr (dset new v (filter (\<lambda>kv. fst kv \<noteq> old) d)))"

definition canonical_model :: "dict \<Rightarrow> compat_error + dict" where
  "canonical_model d =
     (let v = item d ''pim_mac_execution_model'' in
      if \<not> hashable v then Inl NotHashable
      else case v of
        PStr m \<Rightarrow>
          (case dget LEGACY_EXECUTION_MODEL_ALIASES m of
             None \<Rightarrow> Inr d
           | Some new \<Rightarrow> Inr (dset ''pim_mac_execution_model'' (PStr new) d))
      | _ \<Rightarrow> Inr d)"

definition canonicalize_legacy_pim_config :: "dict \<Rightarrow> compat_error + dict" where
  "canonicalize_legacy_pim_config d = rbind (rfold coalesce d LEGACY_PIM_FIELD_ALIASES) canonical_model"

definition canonical_fields :: "dict \<Rightarrow> compat_error + dict" where
  "canonical_fields d = rbind (rfold coalesce d LEGACY_RESULT_FIELD_ALIASES) canonical_model"

lemma dset_values: "(k, v) \<in> set (dset x w e) \<Longrightarrow> v = w \<or> v \<in> snd ` set e"
  by (induction e) (force split: if_splits)+

text \<open>The values of the canonical fields are those of the object, or the name of a model.\<close>

lemma coalesce_values:
  assumes "coalesce d a = Inr d'" and "(k, v) \<in> set d'"
  shows "v \<in> snd ` set d"
proof (cases "dget d (fst a)")
  case (Some w)
  then have d': "d' = dset (snd a) w (filter (\<lambda>kv. fst kv \<noteq> fst a) d)"
    using assms(1) by (auto simp: coalesce_def split: prod.splits if_splits)
  have "w \<in> snd ` set d" using map_of_SomeD[OF Some] by force
  then show ?thesis using assms(2) dset_values[of k v] unfolding d' by fastforce
qed (use assms in \<open>force simp: coalesce_def split: prod.splits\<close>)

lemma coalesce_all_values:
  assumes "rfold coalesce d as = Inr d'" and "(k, v) \<in> set d'"
  shows "v \<in> snd ` set d"
  using assms
proof (induction as arbitrary: d)
  case (Cons a as)
  then obtain d1 where d1: "coalesce d a = Inr d1" "rfold coalesce d1 as = Inr d'" by (auto simp: rbind_Inr_iff)
  from Cons.IH[OF d1(2) Cons.prems(2)] obtain k' where "(k', v) \<in> set d1" by force
  with coalesce_values[OF d1(1)] show ?case by blast
qed force

lemma canonical_model_values:
  assumes "canonical_model d = Inr d'" and "(k, v) \<in> set d'"
  shows "v \<in> snd ` set d \<or> (\<exists>m. v = PStr m)"
proof (cases "d' = d")
  case True
  then show ?thesis using assms(2) by force
next
  case False
  then obtain m where "d' = dset ''pim_mac_execution_model'' (PStr m) d"
    using assms(1) by (auto simp: canonical_model_def Let_def split: if_splits pyval.splits option.splits)
  with assms(2) show ?thesis by (auto dest: dset_values)
qed

function (sequential) canonicalize_object :: "pyval \<Rightarrow> compat_error + pyval" where
  "canonicalize_object (PList xs) = rbind (rmap canonicalize_object xs) (\<lambda>ys. Inr (PList ys))"
| "canonicalize_object (PDict d) =
     rbind (canonical_fields d) (\<lambda>d'.
     rbind (rmap (\<lambda>kv. rbind (canonicalize_object (snd kv)) (\<lambda>w. Inr (fst kv, w))) d') (\<lambda>e. Inr (PDict e)))"
| "canonicalize_object v = Inr v"
  by pat_completeness auto
termination
proof (relation "measure size", goal_cases)
  case (3 d d' kv)
  obtain d1 where d1: "rfold coalesce d LEGACY_RESULT_FIELD_ALIASES = Inr d1" "canonical_model d1 = Inr d'"
    using 3(1) by (auto simp: canonical_fields_def rbind_Inr_iff)
  have "(fst kv, snd kv) \<in> set d'" using 3(2) by simp
  from canonical_model_values[OF d1(2) this] have "snd kv \<in> snd ` set d \<or> (\<exists>m. snd kv = PStr m)"
    using coalesce_all_values[OF d1(1)] by force
  moreover have "d \<noteq> []" if "d' \<noteq> []"
    using that d1 by (auto simp: LEGACY_RESULT_FIELD_ALIASES_def coalesce_def canonical_model_def dgetd_def)
  ultimately show ?case using 3(2) size_value[of "snd kv" d] by (cases d) auto
qed (simp_all add: size_element[simplified])

definition canonicalize_legacy_result :: "pyval \<Rightarrow> compat_error + pyval" where
  "canonicalize_legacy_result v = (case v of PDict d \<Rightarrow> canonicalize_object (PDict d) | _ \<Rightarrow> Inl NotObject)"

section \<open>Canonical objects\<close>

definition legacy_names :: "string list" where
  "legacy_names = dkeys LEGACY_RESULT_FIELD_ALIASES"

definition fields_canonical :: "dict \<Rightarrow> bool" where
  "fields_canonical d \<longleftrightarrow> set (dkeys d) \<inter> set legacy_names = {} \<and>
     hashable (item d ''pim_mac_execution_model'') \<and>
     item d ''pim_mac_execution_model'' \<notin> set (map PStr (dkeys LEGACY_EXECUTION_MODEL_ALIASES))"

function (sequential) canonical :: "pyval \<Rightarrow> bool" where
  "canonical (PList xs) = list_all canonical xs"
| "canonical (PDict d) = (fields_canonical d \<and> list_all (\<lambda>kv. canonical (snd kv)) d)"
| "canonical v = True"
  by pat_completeness auto
termination
  by (relation "measure size") (use size_value size_element in force)+

lemma coalesce_keys:
  assumes "coalesce d (old, new) = Inr d'" and "new \<noteq> old"
  shows "old \<notin> set (dkeys d') \<and> set (dkeys d') \<subseteq> insert new (set (dkeys d))"
proof (cases "dget d old")
  case None
  then have "d' = d" using assms(1) by (simp add: coalesce_def)
  then show ?thesis using None by (auto simp: dget_None_iff)
next
  case (Some v)
  then have "d' = dset new v (filter (\<lambda>kv. fst kv \<noteq> old) d)"
    using assms(1) by (simp add: coalesce_def split: if_splits)
  then have "set (dkeys d') = insert new (fst ` set (filter (\<lambda>kv. fst kv \<noteq> old) d))"
    by (simp only: set_map dkeys_dset)
  then show ?thesis using assms(2) by auto
qed

lemma coalesce_all_keys:
  assumes "rfold coalesce d as = Inr d'" and "set (dkeys as) \<inter> snd ` set as = {}"
  shows "set (dkeys d') \<inter> set (dkeys as) = {} \<and> set (dkeys d') \<subseteq> set (dkeys d) \<union> snd ` set as"
  using assms
proof (induction as arbitrary: d)
  case (Cons a as)
  obtain old new where a: "a = (old, new)" by fastforce
  obtain d1 where d1: "coalesce d (old, new) = Inr d1" "rfold coalesce d1 as = Inr d'"
    using Cons.prems(1) by (auto simp: a rbind_Inr_iff)
  have ne: "new \<noteq> old" and old: "old \<notin> snd ` set as" using Cons.prems(2) by (auto simp: a)
  have IH: "set (dkeys d') \<inter> set (dkeys as) = {} \<and> set (dkeys d') \<subseteq> set (dkeys d1) \<union> snd ` set as"
    by (rule Cons.IH[OF d1(2)]) (use Cons.prems(2) in auto)
  note d1_keys = coalesce_keys[OF d1(1) ne]
  have "old \<notin> set (dkeys d')" using IH d1_keys old by blast
  then show ?case using IH d1_keys unfolding a by (simp only: list.map list.set image_insert fst_conv snd_conv) blast
qed simp

lemma coalesce_absent: "set (dkeys d) \<inter> set (dkeys as) = {} \<Longrightarrow> rfold coalesce d as = Inr d"
proof (induction as)
  case (Cons a as)
  then have "dget d (fst a) = None" by (auto simp: dget_None_iff)
  then have "coalesce d a = Inr d" by (cases a) (simp add: coalesce_def)
  with Cons show ?case by simp
qed simp

lemma canonical_model_cases:
  assumes "canonical_model d = Inr d'"
  shows "hashable (item d ''pim_mac_execution_model'') \<and>
    (d' = d \<and> item d ''pim_mac_execution_model'' \<notin> set (map PStr (dkeys LEGACY_EXECUTION_MODEL_ALIASES)) \<or>
     ''pim_mac_execution_model'' \<in> set (dkeys d) \<and>
     d' = dset ''pim_mac_execution_model'' (PStr ''shared_block_serial'') d)"
  using assms dget_Some_in[of d "''pim_mac_execution_model''"]
  by (fastforce simp: canonical_model_def Let_def LEGACY_EXECUTION_MODEL_ALIASES_def dgetd_def
      split: if_splits pyval.splits option.splits)

lemma canonical_model_facts:
  assumes "canonical_model d = Inr d'"
  shows "set (dkeys d') = set (dkeys d)" and "hashable (item d' ''pim_mac_execution_model'')"
    and "item d' ''pim_mac_execution_model'' \<notin> set (map PStr (dkeys LEGACY_EXECUTION_MODEL_ALIASES))"
proof -
  let ?m = "''pim_mac_execution_model''"
  have keys: "set (dkeys (dset ?m v d)) = insert ?m (set (dkeys d))" for v by (simp only: set_map dkeys_dset)
  have get: "item (dset ?m v d) ?m = v" for v by (simp add: dgetd_def dget_dset)
  show "set (dkeys d') = set (dkeys d)"
    using canonical_model_cases[OF assms] keys by (auto simp only: insert_absorb)
  show "hashable (item d' ?m)" using canonical_model_cases[OF assms] get by (elim conjE disjE) simp_all
  show "item d' ?m \<notin> set (map PStr (dkeys LEGACY_EXECUTION_MODEL_ALIASES))"
    using canonical_model_cases[OF assms] get by (elim conjE disjE) (simp_all add: LEGACY_EXECUTION_MODEL_ALIASES_def)
qed

lemma canonical_fields_canonical:
  assumes "canonical_fields d = Inr d'"
  shows "fields_canonical d'"
proof -
  obtain d1 where d1: "rfold coalesce d LEGACY_RESULT_FIELD_ALIASES = Inr d1" "canonical_model d1 = Inr d'"
    using assms by (auto simp: canonical_fields_def rbind_Inr_iff)
  have "set (dkeys LEGACY_RESULT_FIELD_ALIASES) \<inter> snd ` set LEGACY_RESULT_FIELD_ALIASES = {}"
    by (simp add: LEGACY_RESULT_FIELD_ALIASES_def)
  with coalesce_all_keys[OF d1(1)] have "set (dkeys d1) \<inter> set legacy_names = {}" by (simp add: legacy_names_def)
  then show ?thesis
    using canonical_model_facts[OF d1(2)] by (simp only: fields_canonical_def) simp
qed

lemma canonical_fields_id:
  assumes "fields_canonical d"
  shows "canonical_fields d = Inr d"
proof -
  have "rfold coalesce d LEGACY_RESULT_FIELD_ALIASES = Inr d"
    using assms by (intro coalesce_absent) (simp add: fields_canonical_def legacy_names_def)
  moreover have "canonical_model d = Inr d"
    using assms by (auto simp: fields_canonical_def canonical_model_def Let_def LEGACY_EXECUTION_MODEL_ALIASES_def
        split: pyval.split option.split)
  ultimately show ?thesis by (simp add: canonical_fields_def)
qed

lemma rmap_values:
  assumes "rmap (\<lambda>kv. rbind (f (snd kv)) (\<lambda>w. Inr (fst kv, w))) d = Inr e"
  shows "dkeys e = dkeys d" and "dget e k = (case dget d k of None \<Rightarrow> None | Some v \<Rightarrow> (case f v of Inl _ \<Rightarrow> None | Inr w \<Rightarrow> Some w))"
  using assms by (induction d arbitrary: e) (auto simp: rbind_Inr_iff)

lemma canonicalize_hashable: "hashable v \<Longrightarrow> canonicalize_object v = Inr v"
  by (cases v) simp_all

lemma fields_canonical_values:
  assumes "fields_canonical d" and "rmap (\<lambda>kv. rbind (canonicalize_object (snd kv)) (\<lambda>w. Inr (fst kv, w))) d = Inr e"
  shows "fields_canonical e"
proof -
  have "item e ''pim_mac_execution_model'' = item d ''pim_mac_execution_model''"
    using assms(1) by (auto simp: dgetd_def rmap_values(2)[OF assms(2)] fields_canonical_def canonicalize_hashable split: option.splits)
  then show ?thesis using assms(1) by (simp add: fields_canonical_def rmap_values(1)[OF assms(2)] del: set_map)
qed

lemma canonicalize_canonical: "canonicalize_object v = Inr w \<Longrightarrow> canonical w"
proof (induction v arbitrary: w rule: canonicalize_object.induct)
  case (1 xs)
  then obtain ys where ys: "rmap canonicalize_object xs = Inr ys" "w = PList ys" by (auto simp: rbind_Inr_iff)
  have "canonical y" if "y \<in> set ys" for y using that 1(1) rmap_set[OF ys(1)] by blast
  then show ?case by (simp add: ys(2) list_all_iff)
next
  case (2 d)
  obtain d' e where d': "canonical_fields d = Inr d'"
    and e: "rmap (\<lambda>kv. rbind (canonicalize_object (snd kv)) (\<lambda>w. Inr (fst kv, w))) d' = Inr e" and w: "w = PDict e"
    using "2.prems" by (auto simp: rbind_Inr_iff)
  have "canonical (snd kv)" if "kv \<in> set e" for kv
    using that "2.IH"[OF d'] rmap_set[OF e] by (fastforce simp: rbind_Inr_iff)
  then show ?case
    using fields_canonical_values[OF canonical_fields_canonical[OF d'] e] by (simp add: w list_all_iff)
qed simp_all

text \<open>A canonical object is left alone.\<close>

lemma rmap_id: "(\<And>x. x \<in> set xs \<Longrightarrow> f x = Inr x) \<Longrightarrow> rmap f xs = Inr xs"
  by (induction xs) auto

lemma canonicalize_id: "canonical v \<Longrightarrow> canonicalize_object v = Inr v"
proof (induction v rule: canonical.induct)
  case (1 xs)
  then have "rmap canonicalize_object xs = Inr xs" by (intro rmap_id) (simp add: list_all_iff)
  then show ?case by simp
next
  case (2 d)
  then have "rmap (\<lambda>kv. rbind (canonicalize_object (snd kv)) (\<lambda>w. Inr (fst kv, w))) d = Inr d"
    by (intro rmap_id) (auto simp: list_all_iff)
  then show ?case using 2(2) by (simp add: canonical_fields_id)
qed simp_all

text \<open>No entry is lost: a legacy entry moves to its canonical name, any other stays.\<close>

lemma dget_without: "dget (filter (\<lambda>kv. fst kv \<noteq> x) d) k = (if k = x then None else dget d k)"
  by (induction d) auto

lemma coalesce_get:
  assumes "coalesce d (old, new) = Inr d'" and "new \<noteq> old"
  shows "k \<noteq> new \<Longrightarrow> dget d' k = (if k = old then None else dget d k)"
    and "dget d old = Some v \<Longrightarrow> dget d' new = Some v"
proof -
  consider "d' = d" "dget d old = None"
    | w where "dget d old = Some w" "d' = dset new w (filter (\<lambda>kv. fst kv \<noteq> old) d)"
    using assms(1) by (auto simp only: coalesce_def prod.case split: option.splits if_splits)
  note step = this
  show "k \<noteq> new \<Longrightarrow> dget d' k = (if k = old then None else dget d k)"
    by (rule step) (simp_all add: dget_dset dget_without del: not_None_eq)
  show "dget d old = Some v \<Longrightarrow> dget d' new = Some v"
    by (rule step) (simp_all add: dget_dset)
qed

lemma coalesce_all_other:
  assumes "rfold coalesce d as = Inr d'" and "set (dkeys as) \<inter> snd ` set as = {}" and "k \<notin> set (dkeys as) \<union> snd ` set as"
  shows "dget d' k = dget d k"
  using assms
proof (induction as arbitrary: d)
  case (Cons a as)
  obtain old new where a: "a = (old, new)" by fastforce
  obtain d1 where d1: "coalesce d (old, new) = Inr d1" "rfold coalesce d1 as = Inr d'"
    using Cons.prems(1) by (auto simp: a rbind_Inr_iff)
  have "dget d' k = dget d1 k" by (rule Cons.IH[OF d1(2)]) (use Cons.prems(2,3) in auto)
  also have "\<dots> = dget d k" using Cons.prems(2,3) coalesce_get(1)[OF d1(1), of k] by (auto simp: a)
  finally show ?case .
qed simp

lemma coalesce_all_get:
  assumes "rfold coalesce d as = Inr d'" and "set (dkeys as) \<inter> snd ` set as = {}" and "distinct (map snd as)" and "distinct (dkeys as)"
    and "dget d k = Some v" and "k \<notin> snd ` set as"
  shows "dget d' (dgetd as k k) = Some v"
  using assms
proof (induction as arbitrary: d)
  case (Cons a as)
  obtain old new where a: "a = (old, new)" by fastforce
  obtain d1 where d1: "coalesce d (old, new) = Inr d1" "rfold coalesce d1 as = Inr d'"
    using Cons.prems(1) by (auto simp: a rbind_Inr_iff)
  have ne: "new \<noteq> old" and rest: "set (dkeys as) \<inter> snd ` set as = {}" using Cons.prems(2) by (auto simp: a)
  show ?case
  proof (cases "k = old")
    case True
    have "dget d1 new = Some v" by (rule coalesce_get(2)[OF d1(1) ne]) (use Cons.prems(5) True in simp)
    moreover have "dget d' new = dget d1 new"
      by (rule coalesce_all_other[OF d1(2) rest]) (use Cons.prems(2,3) in \<open>auto simp: a\<close>)
    ultimately show ?thesis using True by (simp add: a dgetd_def)
  next
    case False
    have "dget d1 k = Some v" using coalesce_get(1)[OF d1(1) ne, of k] False Cons.prems(5,6) by (simp add: a)
    then have "dget d' (dgetd as k k) = Some v"
      by (intro Cons.IH[OF d1(2) rest]) (use Cons.prems(3,4,6) in \<open>auto simp: a\<close>)
    then show ?thesis using False by (simp add: a dgetd_def)
  qed
qed (simp add: dgetd_def)

lemma canonicalize_keeps:
  assumes "canonicalize_object (PDict d) = Inr w" and "dget d k = Some v" and "k \<notin> snd ` set LEGACY_RESULT_FIELD_ALIASES"
    and "k \<noteq> ''pim_mac_execution_model''"
  shows "\<exists>e u. w = PDict e \<and> canonicalize_object v = Inr u \<and> dget e (dgetd LEGACY_RESULT_FIELD_ALIASES k k) = Some u"
proof -
  let ?as = "LEGACY_RESULT_FIELD_ALIASES" and ?m = "''pim_mac_execution_model''"
  obtain d1 d2 e where d1: "rfold coalesce d ?as = Inr d1" and d2: "canonical_model d1 = Inr d2"
    and e: "rmap (\<lambda>kv. rbind (canonicalize_object (snd kv)) (\<lambda>w. Inr (fst kv, w))) d2 = Inr e" and w: "w = PDict e"
    using assms(1) by (auto simp: canonical_fields_def rbind_Inr_iff)
  have "dget d1 (dgetd ?as k k) = Some v"
    by (rule coalesce_all_get[OF d1 _ _ _ assms(2,3)]) (simp_all add: LEGACY_RESULT_FIELD_ALIASES_def)
  moreover have "dgetd ?as k k \<noteq> ?m" using assms(4) by (auto simp: LEGACY_RESULT_FIELD_ALIASES_def dgetd_def split: option.splits if_splits)
  ultimately have get: "dget d2 (dgetd ?as k k) = Some v"
    using canonical_model_cases[OF d2] by (elim conjE disjE) (simp_all add: dget_dset)
  from map_of_SomeD[OF get] obtain u where u: "canonicalize_object v = Inr u"
    using e by (induction d2 arbitrary: e) (auto simp: rbind_Inr_iff)
  with get show ?thesis using rmap_values(2)[OF e, of "dgetd ?as k k"] by (simp add: w)
qed

end
