(* ===== verification/Pimscope_Properties.thy ===== *)
theory Pimscope_Properties
  imports Pimscope_Facts Pimscope_Compat
begin

text \<open>
  The properties of experiment manifests: resolution is idempotent, so a result can carry its
  resolved manifest and be checked against its fingerprint; what a resolved manifest
  guarantees to the runner; and what a command-line override changes.
\<close>

section \<open>Resolution\<close>

text \<open>
  C27: a resolved manifest resolves to itself. \<open>validate_result\<close> relies on it: it resolves the
  manifest stored in a result again and compares fingerprints.
\<close>

theorem resolve_idempotent:
  assumes "resolve_experiment_manifest (PDict raw) source = Inr m" and "unique_keys (dgetd raw ''workload'' (PDict []))"
  shows "resolve_experiment_manifest (PDict m) source' = Inr m"
  by (rule resolve_manifest_again[OF assms(1)]) (use assms(2) in simp)

definition demo_manifest :: dict where
  "demo_manifest =
     [(''experiment'', PStr ''demo''),
      (''hardware'', PDict [(''org_overrides'', PDict [(''rank'', PInt 2)]), (''pim'', PDict [(''pim_datatype'', PStr ''fp16'')])]),
      (''workload'', PDict [(''datatype'', PStr ''fp16''), (''model'', PStr ''llama2-7b''), (''phase'', PStr ''prefill'')])]"

lemma demo_manifest_ok: "is_ok (resolve_experiment_manifest (PDict demo_manifest) ''demo'')"
  by code_simp

theorem resolve_idempotent_witness:
  "\<exists>m. resolve_experiment_manifest (PDict demo_manifest) ''demo'' = Inr m \<and> resolve_experiment_manifest (PDict m) ''again'' = Inr m"
proof -
  obtain m where m: "resolve_experiment_manifest (PDict demo_manifest) ''demo'' = Inr m"
    using demo_manifest_ok by (auto simp: is_ok_iff)
  have "unique_keys (dgetd demo_manifest ''workload'' (PDict []))"
    by (simp add: demo_manifest_def dgetd_def unique_keys_def)
  then show ?thesis using m resolve_idempotent[OF m, of "''again''"] by blast
qed

text \<open>
  C28: what the runner may rely on. A resolved manifest names a public backend, one controller
  and one channel, one or two ranks, a supported scheduler and mapper; its workload datatype
  is the PIM datatype and never \<open>int16\<close>; its model supports its phase; its repeat and trace
  budgets are positive, so the lowering it configures returns.
\<close>

theorem resolved_manifest_sound:
  assumes "resolve_experiment_manifest raw source = Inr m"
  shows "\<exists>hw w. dget m ''hardware'' = Some (PDict hw) \<and> dget m ''workload'' = Some (PDict w) \<and>
    (\<exists>c. require_supported_pim_backend (item hw ''dram_class'') = Inr c) \<and>
    item (sub_section hw ''topology'') ''controllers'' = PInt 1 \<and> item (sub_section hw ''topology'') ''channels'' = PInt 1 \<and>
    dgetd (sub_section hw ''org_overrides'') ''rank'' (PInt 1) \<in> {PInt 1, PInt 2} \<and>
    item (sub_section hw ''controller'') ''scheduler'' \<in> set (map PStr SUPPORTED_SCHEDULERS) \<and>
    item (sub_section hw ''controller'') ''addr_mapper'' \<in> set (map PStr SUPPORTED_ADDR_MAPPERS) \<and>
    item (sub_section hw ''pim'') ''pim_datatype'' = item w ''datatype'' \<and>
    item w ''datatype'' \<in> {PStr ''int8'', PStr ''fp16'', PStr ''bf16''} \<and>
    list_all (\<lambda>f. positive_int (item w f)) [''past_len'', ''prompt_len'', ''max_inflight_requests'', ''interleave_depth'',
      ''max_expanded_records'', ''max_trace_bytes''] \<and>
    (case item w ''model'' of PStr name \<Rightarrow> item w ''phase'' \<in> set (map PStr (dgetd SUPPORTED_MODEL_PHASES name []))
     | v \<Rightarrow> is_dict v \<and> item w ''schedule_policy'' = PStr ''serialized'')"
proof -
  obtain r hw w where hw: "resolve_hardware (dgetd r ''hardware'' (PDict [])) = Inr hw"
    and w: "resolve_workload (dgetd r ''workload'' (PDict [])) = Inr w"
    and eq: "py_eq (item (sub_section hw ''pim'') ''pim_datatype'') (item w ''datatype'')"
    and m: "dget m ''hardware'' = Some (PDict hw)" "dget m ''workload'' = Some (PDict w)"
    using assms unfolding resolve_manifest_Inr by auto
  have ch: "check_hardware hw = Inr ()" using hw by (auto simp: resolve_hardware_def rbind_Inr_iff)
  obtain s where cw: "check_workload s w = Inr ()" and model: "resolve_model (item w ''model'') = Inr (item w ''model'')"
    using w unfolding resolve_workload_Inr by blast
  note hard = ch[unfolded check_hardware_def rbind_Inr_iff require_Inr]
  note load = cw[unfolded check_workload_def rbind_Inr_iff require_Inr choice_def expect_positive_int_def]
  have dt: "item w ''datatype'' \<in> {PStr ''int8'', PStr ''fp16'', PStr ''bf16''}"
    using load unfolding SUPPORTED_WORKLOAD_DATATYPES_def by auto
  have same: "item (sub_section hw ''pim'') ''pim_datatype'' = item w ''datatype''"
    using eq dt by (cases "item (sub_section hw ''pim'') ''pim_datatype''") auto
  have topo: "check_topology (sub_section hw ''topology'') = Inr ()" using hard by auto
  have one: "item t f = PInt 1" if "positive_int (item t f)" "py_eq (item t f) (PInt 1)" for t f
    using that by (cases "item t f") auto
  have a: "item (sub_section hw ''topology'') ''controllers'' = PInt 1" "item (sub_section hw ''topology'') ''channels'' = PInt 1"
    using topo by (auto simp: check_topology_def rbind_Inr_iff require_Inr expect_positive_int_def SUPPORTED_TOPOLOGY_FIELDS_def intro: one)
  have "check_components (sub_section hw ''controller'') (sub_section hw ''memory_system'') = Inr ()" using hard by auto
  then have b: "item (sub_section hw ''controller'') ''scheduler'' \<in> set (map PStr SUPPORTED_SCHEDULERS)"
    and b2: "item (sub_section hw ''controller'') ''addr_mapper'' \<in> set (map PStr SUPPORTED_ADDR_MAPPERS)"
    by (auto simp: check_components_def rbind_Inr_iff require_Inr choice_def)
  have c: "case item w ''model'' of PStr name \<Rightarrow> item w ''phase'' \<in> set (map PStr (dgetd SUPPORTED_MODEL_PHASES name []))
     | v \<Rightarrow> is_dict v \<and> item w ''schedule_policy'' = PStr ''serialized''"
    using load model
    by (cases "item w ''model''") (auto simp: resolve_model_def expect_mapping_def split: if_splits)
  have e: "list_all (\<lambda>f. positive_int (item w f)) [''past_len'', ''prompt_len'', ''max_inflight_requests'', ''interleave_depth'',
      ''max_expanded_records'', ''max_trace_bytes'']"
    using load by auto
  have f: "\<exists>c. require_supported_pim_backend (item hw ''dram_class'') = Inr c"
    and f2: "dgetd (sub_section hw ''org_overrides'') ''rank'' (PInt 1) \<in> {PInt 1, PInt 2}"
    using hard by auto
  show ?thesis by (rule exI[of _ hw], rule exI[of _ w], intro conjI) (rule m f f2 a b b2 same dt e c)+
qed

theorem resolved_manifest_sound_witness:
  "\<exists>m hw w. resolve_experiment_manifest (PDict demo_manifest) ''demo'' = Inr m \<and> dget m ''hardware'' = Some (PDict hw) \<and>
     dget m ''workload'' = Some (PDict w) \<and> item (sub_section hw ''pim'') ''pim_datatype'' = item w ''datatype''"
proof -
  obtain m where m: "resolve_experiment_manifest (PDict demo_manifest) ''demo'' = Inr m"
    using demo_manifest_ok by (auto simp: is_ok_iff)
  show ?thesis using m resolved_manifest_sound[OF m] by blast
qed

section \<open>Overrides\<close>

text \<open>
  An override \<open>a.b.c=value\<close> makes the value, decoded, the value at that path, and changes
  nothing at any path that is neither above nor below it.
\<close>

theorem override_sets_path:
  assumes "apply_override loads d text = Inr d'"
  shows "\<exists>keys. keys = dotted_keys (takeWhile (\<lambda>c. c \<noteq> CHR ''='') text) \<and> keys \<noteq> [] \<and>
    (let encoded = tl (dropWhile (\<lambda>c. c \<noteq> CHR ''='') text) in
     get_path keys d' = Some (case loads encoded of Some v \<Rightarrow> v | None \<Rightarrow> PStr encoded)) \<and>
    (\<forall>js. js \<noteq> [] \<and> \<not> prefix js keys \<and> \<not> prefix keys js \<longrightarrow> get_path js d' = get_path js d)"
proof -
  let ?keys = "dotted_keys (takeWhile (\<lambda>c. c \<noteq> CHR ''='') text)"
  let ?e = "tl (dropWhile (\<lambda>c. c \<noteq> CHR ''='') text)"
  have ne: "?keys \<noteq> []"
    and run: "set_path ?keys (case loads ?e of Some v \<Rightarrow> v | None \<Rightarrow> PStr ?e) (takeWhile (\<lambda>c. c \<noteq> CHR ''='') text) d = Inr d'"
    using assms by (auto simp: apply_override_def Let_def split: if_splits)
  show ?thesis
    using ne set_path_get[OF run ne] set_path_other[OF run] by (auto simp: Let_def)
qed

theorem override_sets_path_witness:
  "\<exists>d'. apply_override (\<lambda>s. if s = ''8'' then Some (PInt 8) else None) demo_manifest ''workload.past_len=8'' = Inr d' \<and>
    get_path [''workload'', ''past_len''] d' = Some (PInt 8) \<and> get_path [''experiment''] d' = Some (PStr ''demo'')"
proof -
  let ?l = "\<lambda>s. if s = ''8'' then Some (PInt 8) else None"
  have "is_ok (apply_override ?l demo_manifest ''workload.past_len=8'')" by code_simp
  then obtain d' where d': "apply_override ?l demo_manifest ''workload.past_len=8'' = Inr d'" by (auto simp: is_ok_iff)
  have k: "dotted_keys (takeWhile (\<lambda>c. c \<noteq> CHR ''='') ''workload.past_len=8'') = [''workload'', ''past_len'']" by code_simp
  have e: "tl (dropWhile (\<lambda>c. c \<noteq> CHR ''='') ''workload.past_len=8'') = ''8''" by code_simp
  have "get_path [''experiment''] demo_manifest = Some (PStr ''demo'')" by (simp add: demo_manifest_def)
  moreover have "get_path [''workload'', ''past_len''] d' = Some (PInt 8) \<and>
      (\<forall>js. js \<noteq> [] \<and> \<not> prefix js [''workload'', ''past_len''] \<and> \<not> prefix [''workload'', ''past_len''] js \<longrightarrow>
        get_path js d' = get_path js demo_manifest)"
    using override_sets_path[OF d'] unfolding k e Let_def by (elim exE conjE) simp
  moreover from this have "get_path [''experiment''] d' = get_path [''experiment''] demo_manifest"
    by (elim conjE allE[of _ "[''experiment'']"]) simp
  ultimately show ?thesis using d' by simp
qed

section \<open>Legacy names\<close>

text \<open>
  The migration of legacy names is complete and is done once. In what it returns, no object at
  any depth has a legacy field or the legacy execution model, and migrating it again changes
  nothing; and no entry of the result is lost, it is at its canonical name.
\<close>

theorem canonicalize_idempotent:
  assumes "canonicalize_legacy_result (PDict d) = Inr w"
  shows "canonical w \<and> canonicalize_legacy_result w = Inr w \<and>
    (\<forall>k v. dget d k = Some v \<and> k \<notin> snd ` set LEGACY_RESULT_FIELD_ALIASES \<and> k \<noteq> ''pim_mac_execution_model'' \<longrightarrow>
      (\<exists>e u. w = PDict e \<and> canonicalize_object v = Inr u \<and> dget e (dgetd LEGACY_RESULT_FIELD_ALIASES k k) = Some u))"
proof -
  have run: "canonicalize_object (PDict d) = Inr w" using assms by (simp add: canonicalize_legacy_result_def)
  obtain e where w: "w = PDict e" using run by (auto simp: rbind_Inr_iff)
  have c: "canonical w" by (rule canonicalize_canonical[OF run])
  moreover have "canonicalize_legacy_result w = Inr w"
    using canonicalize_id[OF c] by (simp add: canonicalize_legacy_result_def w)
  ultimately show ?thesis using canonicalize_keeps[OF run] by blast
qed

definition legacy_demo :: dict where
  "legacy_demo = [(''simulation'', PList [PDict [(''pim_mpu_group_stalls'', PInt 3), (''pim_mac_execution_model'', PStr ''shared_mpu_serial'')]]),
     (''pim_banks_per_mpu'', PInt 2)]"

theorem canonicalize_idempotent_witness:
  "\<exists>w. canonicalize_legacy_result (PDict legacy_demo) = Inr w \<and> canonical w \<and>
    (\<exists>e. w = PDict e \<and> dget e ''pim_banks_per_block'' = Some (PInt 2))"
proof -
  have "is_ok (canonicalize_legacy_result (PDict legacy_demo))" by code_simp
  then obtain w where w: "canonicalize_legacy_result (PDict legacy_demo) = Inr w" by (auto simp: is_ok_iff)
  have k: "dget legacy_demo ''pim_banks_per_mpu'' = Some (PInt 2)" by (simp add: legacy_demo_def)
  have n: "dgetd LEGACY_RESULT_FIELD_ALIASES ''pim_banks_per_mpu'' ''pim_banks_per_mpu'' = ''pim_banks_per_block''" by code_simp
  have o: "''pim_banks_per_mpu'' \<notin> snd ` set LEGACY_RESULT_FIELD_ALIASES" by (simp add: LEGACY_RESULT_FIELD_ALIASES_def)
  note all = canonicalize_idempotent[OF w]
  have "\<exists>e u. w = PDict e \<and> canonicalize_object (PInt 2) = Inr u \<and> dget e ''pim_banks_per_block'' = Some u"
    using all k o unfolding n[symmetric] by (elim conjE allE[of _ "''pim_banks_per_mpu''"]) simp
  then have e: "\<exists>e. w = PDict e \<and> dget e ''pim_banks_per_block'' = Some (PInt 2)" by (elim exE conjE) simp
  show ?thesis by (rule exI[of _ w], intro conjI) (rule w, rule conjunct1[OF all], rule e)
qed

end
