(* ===== verification/Pimscope_Results.thy ===== *)
theory Pimscope_Results
  imports Pimscope_Schema Pimscope_Properties
begin

text \<open>
  The properties of results and aggregates: what a validated result guarantees to the tools that
  read it, that a result stored with its resolved manifest passes the manifest check, and that
  the rows of an aggregate have distinct keys.
\<close>

section \<open>Results\<close>

lemma each_Inr: "each check xs = Inr u \<longleftrightarrow> (\<forall>x \<in> set xs. is_ok (check x))"
  by (auto simp: each_def rbind_Inr_iff is_ok_iff[symmetric] is_ok_rmap simp flip: is_ok_iff)

lemma required_field_Inr: "required_field d f path = Inr v \<longleftrightarrow> dget d f = Some v"
  by (simp add: required_field_def split: option.split)

lemma object_of_Inr: "object_of v path = Inr d \<longleftrightarrow> v = PDict d"
  by (cases v) (simp_all add: object_of_def)

lemma count_of_Inr: "count_of v path = Inr i \<longleftrightarrow> v = PInt i \<and> 0 \<le> i"
  by (cases v) (auto simp: count_of_def)

lemma required_object_Inr: "required_object d f path = Inr e \<longleftrightarrow> dget d f = Some (PDict e)"
  by (auto simp: required_object_def rbind_Inr_iff required_field_Inr object_of_Inr)

lemma required_count_Inr: "required_count d f path = Inr i \<longleftrightarrow> dget d f = Some (PInt i) \<and> 0 \<le> i"
  by (auto simp: required_count_def rbind_Inr_iff required_field_Inr count_of_Inr)

lemma required_as_Inr: "required_as ok d path f = Inr u \<longleftrightarrow> (\<exists>v. dget d f = Some v \<and> ok v)"
  by (auto simp: required_as_def rbind_Inr_iff required_field_Inr)

lemma one_of_Inr: "one_of v choices path = Inr u \<longleftrightarrow> v \<in> set (map PStr choices)"
  by (cases v) (auto simp: one_of_def)


lemmas schema_Inr = rbind_Inr_iff require_Inr each_Inr required_field_Inr object_of_Inr count_of_Inr
  required_object_Inr required_count_Inr required_as_Inr one_of_Inr







text \<open>A result of the runner, small but complete.\<close>

definition demo_fp :: "dict \<Rightarrow> string" where
  "demo_fp m = replicate 64 (if m = [] then CHR ''0'' else CHR ''a'')"

definition demo_resolved :: dict where
  "demo_resolved = (case resolve_experiment_manifest (PDict [(''experiment'', PStr ''demo'')]) ''demo'' of Inr m \<Rightarrow> m | Inl _ \<Rightarrow> [])"

definition demo_result :: dict where
  "demo_result =
     [(''schema_version'', PInt 1), (''experiment'', PStr ''demo''), (''status'', PStr ''PASS''),
      (''manifest_fingerprint'', PStr (replicate 64 (CHR ''a''))), (''resolved_manifest'', PDict demo_resolved),
      (''resolved_hardware'', PDict
        [(''address_layout'', PDict
           [(''mapping_version'', PInt 1), (''internal_prefetch_size'', PInt 16), (''tx_bytes'', PInt 32), (''capacity_bytes'', PInt 1024),
            (''dram_class'', PStr ''LPDDR5PIM''), (''level_names'', PList [PStr ''Channel'']), (''level_sizes'', PList [PInt 1]),
            (''address_level_sizes'', PList [PInt 1])]),
         (''preflight'', PDict
           [(''records'', PInt 2), (''expanded_records'', PInt 5), (''trace_bytes'', PInt 300),
            (''max_expanded_records'', PInt 10), (''max_trace_bytes'', PInt 1000)])]),
      (''workload_summary'', PDict
        [(''workload_type'', PStr ''structured_transformer_surrogate''), (''model'', PStr ''opt-125m''), (''phase'', PStr ''decode''),
         (''semantic_records'', PInt 2), (''concrete_records'', PInt 2),
         (''surrogate_scope'', PDict
           [(''architecture_dimensions'', PStr ''x''), (''weights'', PStr ''x''), (''host_operator_model'', PStr ''x''),
            (''runtime_trace'', PBool False), (''numerical_execution'', PBool False), (''silicon_calibration'', PBool False)]),
         (''claim_boundary'', PStr ''x''),
         (''weight_materialization'', PDict
           [(''policy'', PStr ''resident''), (''write_records'', PInt 0), (''write_transactions'', PInt 0),
            (''generated_bytes'', PInt 0), (''synthetic'', PBool True)])]),
      (''simulation'', PDict
        [(''replay_ok'', PBool True), (''dram_class'', PStr ''LPDDR5PIM''), (''trace_schema'', PStr ''lpddr5-pim-opcode-v0.2''),
         (''refresh_manager'', PStr ''NoRefresh''), (''pim_mac_execution_model'', PStr ''shared_block_serial''),
         (''pim_mac_execution_model_status'', PStr ''supported''),
         (''trace_opcode_counts'', PDict [(''READ'', PInt 4), (''PIM_BCAST'', PInt 1)]), (''pim_bcast_issued'', PInt 1),
         (''power_accounting'', PDict
           [(''energy_units'', PStr ''pJ''), (''standard_background_command_energy_available'', PBool True),
            (''pim_event_coefficients_available'', PBool True), (''status'', PStr ''paper_two_layer''),
            (''equation'', PStr ''E = E_LPDDR + E_PIM''), (''standard_energy_units'', PDict STANDARD_ENERGY_UNITS),
            (''standard_power_source'', PDict LPDDR5_POWER_SOURCE), (''total_standard_energy_pJ'', PInt 3),
            (''total_pim_event_energy_pJ'', PFloat (1 / 2)), (''total_energy_pJ'', PFloat (7 / 2))]),
         (''cycles'', PInt 100)]),
      (''provenance'', PDict [(''python_packages'', PDict
        [(''ramulator'', PStr ''2''), (''pimscope'', PStr ''1''), (''numpy'', PStr ''1''), (''matplotlib'', PStr ''3''), (''PyYAML'', PStr ''6'')])])]"



text \<open>
  A result that stores the manifest the runner resolved, and its fingerprint, passes the check
  of the manifest, with or without the fingerprint of the supplied configuration. The code
  resolves the stored manifest again before it compares, so this needs that a resolved manifest
  resolves to itself.
\<close>

theorem stored_manifest_accepted:
  assumes "resolve_experiment_manifest (PDict raw) source = Inr m" and "unique_keys (dgetd raw ''workload'' (PDict []))"
    and "item r ''resolved_manifest'' = PDict m" and "item r ''manifest_fingerprint'' = PStr (fp m)"
    and "is_fingerprint (fp m)" and "expected \<in> {None, Some (fp m)}"
  shows "check_manifest fp expected r = Inr m"
proof -
  have again: "resolve_experiment_manifest (PDict m) source' = Inr m" for source'
    by (rule resolve_manifest_again[OF assms(1)]) (use assms(2) in simp)
  have "py_eq (item m ''schema_version'') (PInt MANIFEST_SCHEMA_VERSION)"
    using assms(1) unfolding resolve_manifest_Inr by (auto simp: dgetd_def MANIFEST_SCHEMA_VERSION_def)
  then show ?thesis using assms(3-) by (auto simp: check_manifest_def again lift_manifest_def require_def object_of_def)
qed

theorem stored_manifest_accepted_witness: "check_manifest demo_fp None demo_result = Inr demo_resolved"
proof (rule stored_manifest_accepted)
  show "resolve_experiment_manifest (PDict [(''experiment'', PStr ''demo'')]) ''demo'' = Inr demo_resolved" by code_simp
qed code_simp+

section \<open>Aggregates\<close>

lemma check_row_Inr:
  assumes "check_row k keys v = Inr keys'"
  shows "\<exists>row. v = PDict row \<and> keys' = row_key k row # keys \<and> \<not> list_ex (same_key (row_key k row)) keys \<and>
    (\<forall>f \<in> set (aggregate_fields k). has row f) \<and>
    (k = ''pim_sharing_comparison'' \<longrightarrow> positive_int (item row ''cycles_k1'') \<and> positive_int (item row ''cycles_k2''))"
  using assms
  by (cases v) (auto simp: check_row_def Let_def schema_Inr has_def is_ok_iff required_field_Inr split: if_splits)

lemma check_rows_Inr:
  assumes "rfold (check_row k) keys vs = Inr keys'" and "sorted_wrt (\<lambda>x y. \<not> same_key x y) keys"
  shows "\<exists>rows. vs = map PDict rows \<and> keys' = rev (map (row_key k) rows) @ keys \<and> sorted_wrt (\<lambda>x y. \<not> same_key x y) keys' \<and>
    (\<forall>row \<in> set rows. (\<forall>f \<in> set (aggregate_fields k). has row f) \<and>
      (k = ''pim_sharing_comparison'' \<longrightarrow> positive_int (item row ''cycles_k1'') \<and> positive_int (item row ''cycles_k2'')))"
  using assms
proof (induction vs arbitrary: keys)
  case (Cons v vs)
  obtain keys1 where step: "check_row k keys v = Inr keys1" and rest: "rfold (check_row k) keys1 vs = Inr keys'"
    using Cons.prems(1) by (auto simp: rbind_Inr_iff)
  obtain row where row: "v = PDict row" "keys1 = row_key k row # keys" "\<not> list_ex (same_key (row_key k row)) keys"
    and fields: "(\<forall>f \<in> set (aggregate_fields k). has row f) \<and>
      (k = ''pim_sharing_comparison'' \<longrightarrow> positive_int (item row ''cycles_k1'') \<and> positive_int (item row ''cycles_k2''))"
    using check_row_Inr[OF step] by (elim exE conjE) (rule that, assumption+, intro conjI, assumption+)
  have "sorted_wrt (\<lambda>x y. \<not> same_key x y) keys1" using row(2,3) Cons.prems(2) by (simp add: list_ex_iff)
  from Cons.IH[OF rest this] obtain rows where rows: "vs = map PDict rows" "keys' = rev (map (row_key k) rows) @ keys1"
      "sorted_wrt (\<lambda>x y. \<not> same_key x y) keys'"
    and others: "\<forall>row \<in> set rows. (\<forall>f \<in> set (aggregate_fields k). has row f) \<and>
      (k = ''pim_sharing_comparison'' \<longrightarrow> positive_int (item row ''cycles_k1'') \<and> positive_int (item row ''cycles_k2''))"
    by (elim exE conjE)
  show ?case using row rows fields others by (intro exI[of _ "row # rows"]) simp
qed simp

text \<open>
  C34: the rows of a validated aggregate are objects with all required fields, their keys (the
  model and mode, or the workload of a sharing comparison) are pairwise different, and the
  cycle counts of a sharing comparison are positive integers, so its speed-ups are defined.
\<close>

theorem aggregate_rows:
  assumes "validate_aggregate k payload = Inr a"
  shows "\<exists>rows. payload = PDict a \<and> item a ''rows'' = PList (map PDict rows) \<and> rows \<noteq> [] \<and>
    sorted_wrt (\<lambda>x y. \<not> same_key y x) (map (row_key k) rows) \<and>
    (\<forall>row \<in> set rows. (\<forall>f \<in> set (aggregate_fields k). has row f) \<and>
      (k = ''pim_sharing_comparison'' \<longrightarrow> positive_int (item row ''cycles_k1'') \<and> positive_int (item row ''cycles_k2'')))"
proof -
  obtain keys where p: "payload = PDict a" and ne: "nonempty_list (item a ''rows'')"
    and run: "rfold (check_row k) [] (py_items (item a ''rows'')) = Inr keys"
    using assms by (auto simp: validate_aggregate_def rbind_Inr_iff object_of_Inr split: option.splits)
  from ne obtain vs where vs: "item a ''rows'' = PList vs" "vs \<noteq> []"
    by (auto simp: nonempty_list_def split: pyval.splits)
  obtain rows where rows: "vs = map PDict rows" "sorted_wrt (\<lambda>x y. \<not> same_key x y) (rev (map (row_key k) rows))"
    and fields: "\<forall>row \<in> set rows. (\<forall>f \<in> set (aggregate_fields k). has row f) \<and>
      (k = ''pim_sharing_comparison'' \<longrightarrow> positive_int (item row ''cycles_k1'') \<and> positive_int (item row ''cycles_k2''))"
    using check_rows_Inr[OF run] vs(1) by (auto simp: py_items_def)
  show ?thesis using p vs rows fields by (intro exI[of _ rows]) (simp add: sorted_wrt_rev)
qed

definition demo_aggregate :: dict where
  "demo_aggregate =
     [(''schema_version'', PInt 1), (''schema_name'', PStr ''pimscope-sharing-aggregate-v1''),
      (''rows'', PList (map (\<lambda>w. PDict [(''workload'', PStr w), (''cycles_k1'', PInt 10), (''cycles_k2'', PInt 14),
         (''replay_ok_k1'', PBool True), (''replay_ok_k2'', PBool True)]) [''opt'', ''qwen'']))]"

theorem aggregate_rows_witness:
  "\<exists>rows. item demo_aggregate ''rows'' = PList (map PDict rows) \<and> rows \<noteq> []"
proof -
  have "validate_aggregate ''pim_sharing_comparison'' (PDict demo_aggregate) = Inr demo_aggregate" by code_simp
  from aggregate_rows[OF this] show ?thesis by (elim exE conjE) (intro exI conjI)
qed

end
