(* ===== verification/Structured_Trace.thy ===== *)
theory Structured_Trace
  imports Concrete_Trace "HOL-Library.Sublist"
begin

text \<open>
  \<open>workload_surrogate/structured_trace.py\<close>: the vocabulary of semantic records, the checks on a
  record and on the manifest of the decode-only generator, and the writer. A record is a
  dictionary. An error is the field of a failed check (\<open>ValueError\<close>), a missing key, or a
  value of a type the code cannot handle. A field that the code turns into a set or a list is a
  list in the model; another iterable is refused.
\<close>

datatype gen_error = GValue string | GKey string | GType string

section \<open>Vocabulary\<close>

definition SCHEMA_VERSION :: string where
  "SCHEMA_VERSION = ''v0.1''"

definition GENERATOR_VERSION :: string where
  "GENERATOR_VERSION = ''v0.1''"

definition BASE_SEMANTIC_RECORD_KINDS :: "string list" where
  "BASE_SEMANTIC_RECORD_KINDS = [''HostRead'', ''HostWrite'', ''PIMCompute'', ''Barrier'', ''Drain'']"

definition ALL_BANK_RECORD_KINDS :: "string list" where
  "ALL_BANK_RECORD_KINDS = [''PIMLoadAll'', ''PIMComputeAll'']"

definition TRANSFORMER_DATAFLOW_RECORD_KINDS :: "string list" where
  "TRANSFORMER_DATAFLOW_RECORD_KINDS =
     [''PIMDataMove'', ''AttentionScore'', ''AttentionSoftmax'', ''AttentionContext'', ''FFNProjection'', ''PIMElementwise'',
      ''MoERouter'', ''MoETopK'', ''MoEDispatch'', ''MoEExpertFFN'', ''MoECombine'', ''PIMOperandResidency'', ''PIMOperandReuse'']"

definition VALID_PIM_DATA_MOVE_MOVEMENT_KINDS :: "string list" where
  "VALID_PIM_DATA_MOVE_MOVEMENT_KINDS =
     [''broadcast_or_accounted_tile_load'', ''preloaded_stationary_weight_residency'', ''dynamic_activation_tile'',
      ''bank_local_tile_activation'', ''cross_bank_operand_shuffle_accounting'']"

definition TRANSFORMER_COMPUTE_RECORD_KINDS :: "string list" where
  "TRANSFORMER_COMPUTE_RECORD_KINDS = [''AttentionScore'', ''AttentionContext'', ''FFNProjection'', ''MoERouter'', ''MoEExpertFFN'']"

definition TRANSFORMER_ACCOUNTING_RECORD_KINDS :: "string list" where
  "TRANSFORMER_ACCOUNTING_RECORD_KINDS =
     [''AttentionSoftmax'', ''PIMElementwise'', ''MoETopK'', ''MoEDispatch'', ''MoECombine'', ''PIMOperandResidency'', ''PIMOperandReuse'']"

definition REQUIRED_P4_RECORD_FAMILY :: string where
  "REQUIRED_P4_RECORD_FAMILY = ''p4_offline_transformer_dataflow_ir''"

definition REQUIRED_P4_CLAIM_BOUNDARY :: "string list" where
  "REQUIRED_P4_CLAIM_BOUNDARY =
     [''structured transformer dataflow surrogate'', ''simulator-diagnostic'', ''non-silicon-calibrated'', ''operator-internal-dataflow-first'']"

definition REQUIRED_P4_NON_CLAIMS :: "string list" where
  "REQUIRED_P4_NON_CLAIMS =
     [''not_runtime_replay'', ''not_vllm_replay'', ''not_numerical_correctness'',
      ''not_silicon_faithful_softmax_or_data_movement'', ''not_raw_attacc_schema'']"

definition SEMANTIC_RECORD_KINDS :: "string list" where
  "SEMANTIC_RECORD_KINDS = BASE_SEMANTIC_RECORD_KINDS @ ALL_BANK_RECORD_KINDS @ TRANSFORMER_DATAFLOW_RECORD_KINDS"

definition FORBIDDEN_DATATYPE_SCALE_FIELDS :: "string list" where
  "FORBIDDEN_DATATYPE_SCALE_FIELDS = [''latency_scale'', ''throughput_scale'', ''energy_scale'', ''bitwidth_ratio'']"

definition SEMANTIC_CLAIM_BOUNDARY :: "string list" where
  "SEMANTIC_CLAIM_BOUNDARY = [''structured workload-surrogate'', ''simulator-diagnostic'', ''non-silicon-calibrated'', ''decode-only-first'']"

definition REQUIRED_NON_CLAIMS :: "string list" where
  "REQUIRED_NON_CLAIMS = [''not_runtime_replay'', ''not_vllm_replay'', ''not_mixed_prefill_decode'', ''not_all_bank_fidelity'']"

definition MIXED_PHASE_NON_CLAIMS :: "string list" where
  "MIXED_PHASE_NON_CLAIMS =
     [''not_runtime_replay'', ''not_vllm_replay'', ''not_application_replay'', ''mixed_prefill_decode_synthetic_only'',
      ''not_all_bank_fidelity'']"

definition KV_CACHE_READ_OPS :: "string list" where
  "KV_CACHE_READ_OPS = [''attention_k_cache_read'', ''attention_v_cache_read'']"

section \<open>Python operations\<close>

definition p_strs :: "string list \<Rightarrow> pyval" where
  "p_strs ss = PList (map PStr ss)"

text \<open>\<open>v in c\<close>: an element of a list, a key, or a substring; other containers raise.\<close>

definition is_substring :: "string \<Rightarrow> string \<Rightarrow> bool" where
  "is_substring x s = list_ex (\<lambda>n. prefix x (drop n s)) [0..<Suc (length s)]"

definition contains :: "pyval \<Rightarrow> pyval \<Rightarrow> string \<Rightarrow> gen_error + bool" where
  "contains c v f =
     (case c of
        PList xs \<Rightarrow> Inr (list_ex (py_eq v) xs)
      | PDict d \<Rightarrow> if hashable v then Inr (list_ex (\<lambda>k. v = PStr k) (dkeys d)) else Inl (GType f)
      | PStr s \<Rightarrow> (case v of PStr x \<Rightarrow> Inr (is_substring x s) | _ \<Rightarrow> Inl (GType f))
      | _ \<Rightarrow> Inl (GType f))"

text \<open>\<open>int(v)\<close>, \<open>list(v)\<close>, \<open>v not in {...}\<close>, comparison of a number with an integer.\<close>

definition g_int :: "string \<Rightarrow> pyval \<Rightarrow> gen_error + int" where
  "g_int f v = (case py_int v of None \<Rightarrow> Inl (GType f) | Some i \<Rightarrow> Inr i)"

definition g_list :: "string \<Rightarrow> pyval \<Rightarrow> gen_error + pyval list" where
  "g_list f v = (case v of PList xs \<Rightarrow> Inr xs | _ \<Rightarrow> Inl (GType f))"

definition g_dict :: "string \<Rightarrow> pyval \<Rightarrow> gen_error + dict" where
  "g_dict f v = (case v of PDict d \<Rightarrow> Inr d | _ \<Rightarrow> Inl (GType f))"

definition g_get :: "dict \<Rightarrow> string \<Rightarrow> gen_error + pyval" where
  "g_get d f = (case dget d f of None \<Rightarrow> Inl (GKey f) | Some v \<Rightarrow> Inr v)"

definition g_member :: "string \<Rightarrow> pyval \<Rightarrow> string list \<Rightarrow> gen_error + bool" where
  "g_member f v choices = (if hashable v then Inr (v \<in> set (map PStr choices)) else Inl (GType f))"

definition g_positive :: "string \<Rightarrow> pyval \<Rightarrow> gen_error + unit" where
  "g_positive f v = (case num_of v of None \<Rightarrow> Inl (GType f) | Some x \<Rightarrow> require (0 < x) (GValue f))"

definition g_positive_int :: "string \<Rightarrow> pyval \<Rightarrow> gen_error + unit" where
  "g_positive_int f v = rbind (g_int f v) (\<lambda>i. require (0 < i) (GValue f))"

definition g_fields :: "dict \<Rightarrow> string list \<Rightarrow> gen_error + unit" where
  "g_fields d fs = rbind (rmap (\<lambda>f. require (has d f) (GValue f)) fs) (\<lambda>_. Inr ())"

section \<open>Records of the transformer dataflow\<close>

definition claims_present :: "dict \<Rightarrow> string \<Rightarrow> string list \<Rightarrow> gen_error + unit" where
  "claims_present p f claims =
     rbind (rmap (\<lambda>c. rbind (contains (dgetd p f (PList [])) (PStr c) f) (\<lambda>b. require b (GValue f))) claims) (\<lambda>_. Inr ())"

definition all_strings :: "pyval list \<Rightarrow> bool" where
  "all_strings xs = list_all is_str xs"

definition check_tensor_io :: "dict \<Rightarrow> gen_error + dict" where
  "check_tensor_io r =
     (case item r ''tensor_io'' of
        PDict t \<Rightarrow>
          rbind (require (is_list (item t ''inputs'')) (GValue ''tensor_io.inputs'')) (\<lambda>_.
          rbind (require (is_list (item t ''outputs'')) (GValue ''tensor_io.outputs'')) (\<lambda>_. Inr t))
      | _ \<Rightarrow> Inl (GValue ''tensor_io''))"

definition check_operator_context :: "dict \<Rightarrow> gen_error + unit" where
  "check_operator_context r =
     (case item r ''operator_context'' of
        PDict c \<Rightarrow>
          rbind (g_fields c [''operator_family'', ''stage'', ''record_family'']) (\<lambda>_.
          require (item c ''record_family'' = PStr REQUIRED_P4_RECORD_FAMILY) (GValue ''operator_context.record_family''))
      | _ \<Rightarrow> Inl (GValue ''operator_context''))"

definition check_provenance :: "dict \<Rightarrow> gen_error + unit" where
  "check_provenance r =
     (case item r ''provenance'' of
        PDict p \<Rightarrow>
          rbind (claims_present p ''claim_boundary'' REQUIRED_P4_CLAIM_BOUNDARY) (\<lambda>_.
          claims_present p ''non_claims'' REQUIRED_P4_NON_CLAIMS)
      | _ \<Rightarrow> Inl (GValue ''provenance''))"

definition validate_transformer_metadata :: "dict \<Rightarrow> gen_error + unit" where
  "validate_transformer_metadata r =
     rbind (g_fields r [''tensor_io'', ''logical_dependencies'', ''operator_context'', ''residency'']) (\<lambda>_.
     rbind (check_tensor_io r) (\<lambda>t.
     rbind (require (is_list (item r ''logical_dependencies'')) (GValue ''logical_dependencies'')) (\<lambda>_.
     rbind (require (all_strings (py_items (item r ''logical_dependencies''))) (GValue ''logical_dependencies'')) (\<lambda>_.
     rbind (check_operator_context r) (\<lambda>_.
     rbind (check_provenance r) (\<lambda>_.
     rbind (require (is_dict (item r ''residency'')) (GValue ''residency'')) (\<lambda>_.
     require (all_strings (py_items (item t ''inputs'') @ py_items (item t ''outputs''))) (GValue ''tensor_io''))))))))"

definition validate_transformer_compute_record :: "dict \<Rightarrow> gen_error + unit" where
  "validate_transformer_compute_record r =
     rbind (g_fields r [''num_requests'', ''bank_sequence'', ''dependency_context'', ''row_policy'', ''column_policy'',
       ''datatype_metadata'', ''compute_shape'', ''burst_length'']) (\<lambda>_.
     rbind (g_positive_int ''num_requests'' (item r ''num_requests'')) (\<lambda>_.
     rbind (require (is_list (item r ''bank_sequence'') \<and> truthy (item r ''bank_sequence'')) (GValue ''bank_sequence'')) (\<lambda>_.
     rbind (g_positive_int ''burst_length'' (item r ''burst_length'')) (\<lambda>_.
     case item r ''compute_shape'' of
       PDict s \<Rightarrow> g_fields s [''m'', ''n'', ''k'', ''output_elements'', ''datatype'']
     | _ \<Rightarrow> Inl (GValue ''compute_shape'')))))"

definition validate_transformer_data_move_record :: "dict \<Rightarrow> gen_error + unit" where
  "validate_transformer_data_move_record r =
     rbind (g_fields r [''movement_policy'', ''num_requests'', ''dependency_context'', ''row_policy'', ''column_policy'',
       ''datatype_metadata'']) (\<lambda>_.
     rbind (g_positive_int ''num_requests'' (item r ''num_requests'')) (\<lambda>_.
     case item r ''movement_policy'' of
       PDict m \<Rightarrow>
         rbind (g_fields m [''movement_kind'']) (\<lambda>_.
         rbind (g_member ''movement_kind'' (item m ''movement_kind'') VALID_PIM_DATA_MOVE_MOVEMENT_KINDS) (\<lambda>b.
         require b (GValue ''movement_kind'')))
     | _ \<Rightarrow> Inl (GValue ''movement_policy'')))"

definition validate_transformer_accounting_record :: "dict \<Rightarrow> gen_error + unit" where
  "validate_transformer_accounting_record r =
     rbind (g_fields r [''accounting_metadata'']) (\<lambda>_.
     require (is_dict (item r ''accounting_metadata'')) (GValue ''accounting_metadata''))"

definition validate_transformer_dataflow_record :: "string \<Rightarrow> dict \<Rightarrow> gen_error + unit" where
  "validate_transformer_dataflow_record kind r =
     rbind (validate_transformer_metadata r) (\<lambda>_.
     if kind \<in> set TRANSFORMER_COMPUTE_RECORD_KINDS then validate_transformer_compute_record r
     else if kind = ''PIMDataMove'' then validate_transformer_data_move_record r
     else if kind \<in> set TRANSFORMER_ACCOUNTING_RECORD_KINDS then validate_transformer_accounting_record r
     else Inr ())"

section \<open>Records\<close>

definition kind_of :: "dict \<Rightarrow> string" where
  "kind_of r = (case item r ''kind'' of PStr k \<Rightarrow> k | _ \<Rightarrow> [])"

definition COMMON_RECORD_FIELDS :: "string list" where
  "COMMON_RECORD_FIELDS =
     [''schema_version'', ''record_id'', ''kind'', ''phase'', ''layer'', ''op'', ''repeat'', ''provenance'', ''mapping_policy'']"

definition validate_by_kind :: "string \<Rightarrow> dict \<Rightarrow> gen_error + unit" where
  "validate_by_kind kind r =
     (if kind \<in> {''HostRead'', ''HostWrite''} then g_fields r [''bytes'', ''address_policy'']
      else if kind = ''PIMCompute'' then
        g_fields r [''num_requests'', ''bank_sequence'', ''dependency_context'', ''row_policy'', ''column_policy'', ''datatype_metadata'']
      else if kind \<in> set ALL_BANK_RECORD_KINDS then
        g_fields r [''num_requests'', ''all_bank_scope'', ''dependency_context'', ''row_policy'', ''column_policy'', ''datatype_metadata'']
      else if kind = ''Barrier'' then g_fields r [''barrier_scope'']
      else if kind = ''Drain'' then g_fields r [''drain_scope'']
      else if kind \<in> set TRANSFORMER_DATAFLOW_RECORD_KINDS then validate_transformer_dataflow_record kind r
      else Inr ())"

definition validate_semantic_record :: "dict \<Rightarrow> gen_error + unit" where
  "validate_semantic_record r =
     rbind (g_fields r COMMON_RECORD_FIELDS) (\<lambda>_.
     rbind (require (item r ''schema_version'' = PStr SCHEMA_VERSION) (GValue ''schema_version'')) (\<lambda>_.
     rbind (g_member ''kind'' (item r ''kind'') SEMANTIC_RECORD_KINDS) (\<lambda>b.
     rbind (require b (GValue ''kind'')) (\<lambda>_.
     rbind (g_positive ''repeat'' (item r ''repeat'')) (\<lambda>_. validate_by_kind (kind_of r) r)))))"

definition validate_all :: "dict list \<Rightarrow> gen_error + dict list" where
  "validate_all rs = rbind (rmap validate_semantic_record rs) (\<lambda>_. Inr rs)"

definition semantic_record_count :: "dict list \<Rightarrow> gen_error + int" where
  "semantic_record_count rs =
     rbind (rmap (\<lambda>r. rbind (g_get r ''repeat'') (g_int ''repeat'')) rs) (\<lambda>ns. Inr (sum_list ns))"

text \<open>The lines \<open>write_jsonl\<close> writes: the documents of the records, each validated first.\<close>

definition write_structured :: "dict list \<Rightarrow> gen_error + trace_line list" where
  "write_structured rs =
     rmap (\<lambda>r. rbind (validate_semantic_record r) (\<lambda>_. Inr (DocLine (json_value (PDict r))))) rs"

section \<open>The manifest of the decode-only generator\<close>

definition index_path :: "string \<Rightarrow> nat \<Rightarrow> string" where
  "index_path path i = path @ ''['' @ digits_of i @ '']''"

function (sequential) find_forbidden_scale_fields :: "pyval \<Rightarrow> string \<Rightarrow> string list" where
  "find_forbidden_scale_fields (PDict d) path =
     concat (map (\<lambda>kv.
       (if fst kv \<in> set FORBIDDEN_DATATYPE_SCALE_FIELDS then [path @ ''.'' @ fst kv] else []) @
       find_forbidden_scale_fields (snd kv) (path @ ''.'' @ fst kv)) d)"
| "find_forbidden_scale_fields (PList xs) path =
     concat (map (\<lambda>i. find_forbidden_scale_fields (xs ! i) (index_path path i)) [0..<length xs])"
| "find_forbidden_scale_fields v path = []"
  by pat_completeness auto
termination
  by (relation "measure (\<lambda>p. size (fst p))") (use size_value size_element in force)+

definition string_set :: "dict \<Rightarrow> string \<Rightarrow> gen_error + string list" where
  "string_set m f =
     rbind (g_get m f) (\<lambda>v. rbind (g_list f v) (\<lambda>xs.
     rmap (\<lambda>x. case x of PStr s \<Rightarrow> Inr s | _ \<Rightarrow> Inl (GType f)) xs))"

definition disjoint_ops :: "string list \<Rightarrow> string list \<Rightarrow> string \<Rightarrow> gen_error + unit" where
  "disjoint_ops xs ys f = require (list_all (\<lambda>x. x \<notin> set ys) xs) (GValue f)"

definition DECODE_MANIFEST_FIELDS :: "string list" where
  "DECODE_MANIFEST_FIELDS =
     [''manifest_version'', ''workload_class'', ''phase'', ''batch'', ''generated_tokens'', ''past_len'', ''hidden_size'',
      ''num_layers'', ''num_heads'', ''head_dim'', ''ffn_hidden_size'', ''datatype'', ''pim_compute_operator_classes'',
      ''host_support_record_classes'', ''host_only_provenance_classes'', ''mapping_policy'', ''literature_anchors'']"

definition check_phase :: "dict \<Rightarrow> gen_error + unit" where
  "check_phase m =
     (let mixed = truthy (item m ''mixed_phase_extension'') in
      rbind (require (mixed \<longrightarrow> item m ''mixed_phase_approval'' = PStr ''P2.9c'') (GValue ''mixed_phase_approval'')) (\<lambda>_.
      rbind (g_member ''phase'' (item m ''phase'') [''decode'', ''mixed_prefill_decode'']) (\<lambda>b.
      rbind (require b (GValue ''phase'')) (\<lambda>_.
      rbind (require (item m ''phase'' = PStr ''mixed_prefill_decode'' \<longrightarrow> mixed) (GValue ''phase'')) (\<lambda>_.
      rbind (require (mixed \<longrightarrow> item m ''phase'' = PStr ''mixed_prefill_decode'') (GValue ''phase'')) (\<lambda>_.
      rbind (require (py_eq (item m ''batch'') (PInt 1)) (GValue ''batch'')) (\<lambda>_.
      rbind (g_positive ''generated_tokens'' (item m ''generated_tokens'')) (\<lambda>_.
      rbind (require (\<not> mixed \<longrightarrow> py_eq (item m ''generated_tokens'') (PInt 1)) (GValue ''generated_tokens'')) (\<lambda>_.
      require (truthy (item m ''enable_all_bank_records'') \<longrightarrow> item m ''all_bank_records_approval'' = PStr ''P2.9b'')
        (GValue ''all_bank_records_approval''))))))))))"

definition check_operator_classes :: "dict \<Rightarrow> gen_error + unit" where
  "check_operator_classes m =
     rbind (string_set m ''pim_compute_operator_classes'') (\<lambda>pim.
     rbind (string_set m ''host_support_record_classes'') (\<lambda>host.
     rbind (disjoint_ops pim host ''host_support'') (\<lambda>_.
     rbind (string_set m ''host_only_provenance_classes'') (\<lambda>prov.
     rbind (disjoint_ops pim prov ''host_only_provenance'') (\<lambda>_.
     rbind (disjoint_ops host prov ''host_only_provenance'') (\<lambda>_.
     rbind (require (list_all (\<lambda>x. x \<in> set host) KV_CACHE_READ_OPS) (GValue ''host_support_record_classes'')) (\<lambda>_.
     rbind (require (list_all (\<lambda>x. \<not> is_substring ''cache_read'' x) pim) (GValue ''pim_compute_operator_classes'')) (\<lambda>_.
     require (list_all (suffix ''_gemv'') pim) (GValue ''pim_compute_operator_classes'')))))))))"

definition validate_decode_manifest :: "dict \<Rightarrow> gen_error + unit" where
  "validate_decode_manifest m =
     rbind (g_fields m DECODE_MANIFEST_FIELDS) (\<lambda>_.
     rbind (check_phase m) (\<lambda>_.
     rbind (require (find_forbidden_scale_fields (PDict m) ''manifest'' = []) (GValue ''datatype scaling'')) (\<lambda>_.
     check_operator_classes m)))"

end
