(* ===== verification/Surrogate_Models.thy ===== *)
theory Surrogate_Models
  imports Structured_Trace
begin

text \<open>
  The models of \<open>workload_surrogate/generate_full_transformer.py\<close>: the dimension constants of the
  module, \<open>ModelSpec\<close> with its checks, the registered specifications and their names.
\<close>

definition FFN_VARIANT_SWIGLU_3PROJ :: string where
  "FFN_VARIANT_SWIGLU_3PROJ = ''swiglu_3proj''"

definition FFN_VARIANT_GEGLU_3PROJ :: string where
  "FFN_VARIANT_GEGLU_3PROJ = ''geglu_3proj''"

definition FFN_VARIANT_RELU_2PROJ :: string where
  "FFN_VARIANT_RELU_2PROJ = ''relu_2proj''"

definition FFN_VARIANT_PROJECTION_COUNTS :: "(string \<times> int) list" where
  "FFN_VARIANT_PROJECTION_COUNTS = [(FFN_VARIANT_SWIGLU_3PROJ, 3), (FFN_VARIANT_GEGLU_3PROJ, 3), (FFN_VARIANT_RELU_2PROJ, 2)]"

definition SUPPORTED_GENERATOR_VARIANTS :: "string list" where
  "SUPPORTED_GENERATOR_VARIANTS = [FFN_VARIANT_SWIGLU_3PROJ, FFN_VARIANT_GEGLU_3PROJ, FFN_VARIANT_RELU_2PROJ]"

section \<open>Specifications\<close>

record model_spec =
  spec_name :: string
  spec_num_layers :: int
  spec_hidden_size :: int
  spec_num_heads :: int
  spec_head_dim :: int
  spec_ffn_hidden_size :: int
  spec_datatype :: string
  spec_num_kv_heads :: int
  spec_citation :: string
  spec_paper_anchor :: string
  spec_ffn_variant :: string
  spec_activation :: string

text \<open>The constructor: defaults are filled in, then the head counts and the variant are checked.\<close>

definition make_model_spec ::
  "string \<Rightarrow> int \<Rightarrow> int \<Rightarrow> int \<Rightarrow> int \<Rightarrow> int \<Rightarrow> string \<Rightarrow> int option \<Rightarrow> string option \<Rightarrow> string option \<Rightarrow>
   string \<Rightarrow> string \<Rightarrow> gen_error + model_spec" where
  "make_model_spec name layers hidden heads head_dim ffn datatype kv citation anchor variant activation =
     (let kv_heads = (case kv of None \<Rightarrow> heads | Some n \<Rightarrow> n);
          cite = (case citation of None \<Rightarrow> name @ '' (auto-generated workload surrogate)'' | Some c \<Rightarrow> c)
      in if kv_heads = 0 then Inl (GType ''num_kv_heads'')
         else if heads mod kv_heads \<noteq> 0 then Inl (GValue ''num_kv_heads'')
         else if variant \<notin> set SUPPORTED_GENERATOR_VARIANTS then Inl (GValue ''ffn_variant'')
         else Inr \<lparr>spec_name = name, spec_num_layers = layers, spec_hidden_size = hidden, spec_num_heads = heads, spec_head_dim = head_dim,
           spec_ffn_hidden_size = ffn, spec_datatype = datatype, spec_num_kv_heads = kv_heads, spec_citation = cite,
           spec_paper_anchor = (case anchor of None \<Rightarrow> cite | Some a \<Rightarrow> a), spec_ffn_variant = variant, spec_activation = activation\<rparr>)"

section \<open>Registered models\<close>

text \<open>The integer constants of the module.\<close>

definition LLAMA2_7B_NUM_LAYERS :: int where "LLAMA2_7B_NUM_LAYERS = 32"

definition LLAMA2_7B_NUM_HEADS :: int where "LLAMA2_7B_NUM_HEADS = 32"

definition LLAMA2_7B_HEAD_DIM :: int where "LLAMA2_7B_HEAD_DIM = 128"

definition LLAMA2_7B_HIDDEN_SIZE :: int where "LLAMA2_7B_HIDDEN_SIZE = 4096"

definition LLAMA2_7B_FFN_HIDDEN_SIZE :: int where "LLAMA2_7B_FFN_HIDDEN_SIZE = 11008"

definition LLAMA2_7B_DEFAULT_PAST_LEN :: int where "LLAMA2_7B_DEFAULT_PAST_LEN = 1024"

definition LLAMA2_13B_NUM_LAYERS :: int where "LLAMA2_13B_NUM_LAYERS = 40"

definition LLAMA2_13B_NUM_HEADS :: int where "LLAMA2_13B_NUM_HEADS = 40"

definition LLAMA2_13B_HEAD_DIM :: int where "LLAMA2_13B_HEAD_DIM = 128"

definition LLAMA2_13B_HIDDEN_SIZE :: int where "LLAMA2_13B_HIDDEN_SIZE = 5120"

definition LLAMA2_13B_FFN_HIDDEN_SIZE :: int where "LLAMA2_13B_FFN_HIDDEN_SIZE = 13824"

definition LLAMA2_13B_DEFAULT_PAST_LEN :: int where "LLAMA2_13B_DEFAULT_PAST_LEN = 1024"

definition LLAMA2_70B_NUM_LAYERS :: int where "LLAMA2_70B_NUM_LAYERS = 80"

definition LLAMA2_70B_NUM_HEADS :: int where "LLAMA2_70B_NUM_HEADS = 64"

definition LLAMA2_70B_NUM_KV_HEADS :: int where "LLAMA2_70B_NUM_KV_HEADS = 8"

definition LLAMA2_70B_HEAD_DIM :: int where "LLAMA2_70B_HEAD_DIM = 128"

definition LLAMA2_70B_HIDDEN_SIZE :: int where "LLAMA2_70B_HIDDEN_SIZE = 8192"

definition LLAMA2_70B_FFN_HIDDEN_SIZE :: int where "LLAMA2_70B_FFN_HIDDEN_SIZE = 28672"

definition LLAMA2_70B_DEFAULT_PAST_LEN :: int where "LLAMA2_70B_DEFAULT_PAST_LEN = 1024"

definition MIXTRAL_8X7B_NUM_LAYERS :: int where "MIXTRAL_8X7B_NUM_LAYERS = 32"

definition MIXTRAL_8X7B_HIDDEN_SIZE :: int where "MIXTRAL_8X7B_HIDDEN_SIZE = 4096"

definition MIXTRAL_8X7B_NUM_HEADS :: int where "MIXTRAL_8X7B_NUM_HEADS = 32"

definition MIXTRAL_8X7B_NUM_KV_HEADS :: int where "MIXTRAL_8X7B_NUM_KV_HEADS = 8"

definition MIXTRAL_8X7B_HEAD_DIM :: int where "MIXTRAL_8X7B_HEAD_DIM = 128"

definition MIXTRAL_8X7B_NUM_EXPERTS :: int where "MIXTRAL_8X7B_NUM_EXPERTS = 8"

definition MIXTRAL_8X7B_TOP_K :: int where "MIXTRAL_8X7B_TOP_K = 2"

definition MIXTRAL_8X7B_EXPERT_HIDDEN_SIZE :: int where "MIXTRAL_8X7B_EXPERT_HIDDEN_SIZE = 14336"

definition MIXTRAL_8X7B_DEFAULT_PAST_LEN :: int where "MIXTRAL_8X7B_DEFAULT_PAST_LEN = 1024"

definition MIXTRAL_8X7B_SCALED_HIDDEN :: int where "MIXTRAL_8X7B_SCALED_HIDDEN = 512"

definition MIXTRAL_8X7B_SCALED_EXPERT_HIDDEN :: int where "MIXTRAL_8X7B_SCALED_EXPERT_HIDDEN = 2048"

definition OPT_125M_NUM_LAYERS :: int where "OPT_125M_NUM_LAYERS = 12"

definition OPT_125M_HIDDEN_SIZE :: int where "OPT_125M_HIDDEN_SIZE = 768"

definition OPT_125M_NUM_HEADS :: int where "OPT_125M_NUM_HEADS = 12"

definition OPT_125M_HEAD_DIM :: int where "OPT_125M_HEAD_DIM = 64"

definition OPT_125M_FFN_HIDDEN_SIZE :: int where "OPT_125M_FFN_HIDDEN_SIZE = 3072"

definition OPT_125M_DEFAULT_PAST_LEN :: int where "OPT_125M_DEFAULT_PAST_LEN = 512"

definition OPT_350M_NUM_LAYERS :: int where "OPT_350M_NUM_LAYERS = 24"

definition OPT_350M_HIDDEN_SIZE :: int where "OPT_350M_HIDDEN_SIZE = 1024"

definition OPT_350M_NUM_HEADS :: int where "OPT_350M_NUM_HEADS = 16"

definition OPT_350M_HEAD_DIM :: int where "OPT_350M_HEAD_DIM = 64"

definition OPT_350M_FFN_HIDDEN_SIZE :: int where "OPT_350M_FFN_HIDDEN_SIZE = 4096"

definition OPT_350M_DEFAULT_PAST_LEN :: int where "OPT_350M_DEFAULT_PAST_LEN = 512"

definition OPT_1_3B_NUM_LAYERS :: int where "OPT_1_3B_NUM_LAYERS = 24"

definition OPT_1_3B_HIDDEN_SIZE :: int where "OPT_1_3B_HIDDEN_SIZE = 2048"

definition OPT_1_3B_NUM_HEADS :: int where "OPT_1_3B_NUM_HEADS = 32"

definition OPT_1_3B_HEAD_DIM :: int where "OPT_1_3B_HEAD_DIM = 64"

definition OPT_1_3B_FFN_HIDDEN_SIZE :: int where "OPT_1_3B_FFN_HIDDEN_SIZE = 8192"

definition OPT_1_3B_DEFAULT_PAST_LEN :: int where "OPT_1_3B_DEFAULT_PAST_LEN = 512"

definition QWEN25_7B_NUM_LAYERS :: int where "QWEN25_7B_NUM_LAYERS = 28"

definition QWEN25_7B_HIDDEN_SIZE :: int where "QWEN25_7B_HIDDEN_SIZE = 3584"

definition QWEN25_7B_NUM_HEADS :: int where "QWEN25_7B_NUM_HEADS = 28"

definition QWEN25_7B_NUM_KV_HEADS :: int where "QWEN25_7B_NUM_KV_HEADS = 4"

definition QWEN25_7B_HEAD_DIM :: int where "QWEN25_7B_HEAD_DIM = 128"

definition QWEN25_7B_FFN_HIDDEN_SIZE :: int where "QWEN25_7B_FFN_HIDDEN_SIZE = 18944"

definition QWEN25_7B_DEFAULT_PAST_LEN :: int where "QWEN25_7B_DEFAULT_PAST_LEN = 1024"

definition QWEN25_14B_NUM_LAYERS :: int where "QWEN25_14B_NUM_LAYERS = 48"

definition QWEN25_14B_HIDDEN_SIZE :: int where "QWEN25_14B_HIDDEN_SIZE = 5120"

definition QWEN25_14B_NUM_HEADS :: int where "QWEN25_14B_NUM_HEADS = 40"

definition QWEN25_14B_NUM_KV_HEADS :: int where "QWEN25_14B_NUM_KV_HEADS = 8"

definition QWEN25_14B_HEAD_DIM :: int where "QWEN25_14B_HEAD_DIM = 128"

definition QWEN25_14B_FFN_HIDDEN_SIZE :: int where "QWEN25_14B_FFN_HIDDEN_SIZE = 13824"

definition QWEN25_14B_DEFAULT_PAST_LEN :: int where "QWEN25_14B_DEFAULT_PAST_LEN = 1024"

definition QWEN25_32B_NUM_LAYERS :: int where "QWEN25_32B_NUM_LAYERS = 64"

definition QWEN25_32B_HIDDEN_SIZE :: int where "QWEN25_32B_HIDDEN_SIZE = 5120"

definition QWEN25_32B_NUM_HEADS :: int where "QWEN25_32B_NUM_HEADS = 40"

definition QWEN25_32B_NUM_KV_HEADS :: int where "QWEN25_32B_NUM_KV_HEADS = 8"

definition QWEN25_32B_HEAD_DIM :: int where "QWEN25_32B_HEAD_DIM = 128"

definition QWEN25_32B_FFN_HIDDEN_SIZE :: int where "QWEN25_32B_FFN_HIDDEN_SIZE = 27648"

definition QWEN25_32B_DEFAULT_PAST_LEN :: int where "QWEN25_32B_DEFAULT_PAST_LEN = 1024"

definition QWEN25_72B_NUM_LAYERS :: int where "QWEN25_72B_NUM_LAYERS = 80"

definition QWEN25_72B_HIDDEN_SIZE :: int where "QWEN25_72B_HIDDEN_SIZE = 8192"

definition QWEN25_72B_NUM_HEADS :: int where "QWEN25_72B_NUM_HEADS = 64"

definition QWEN25_72B_NUM_KV_HEADS :: int where "QWEN25_72B_NUM_KV_HEADS = 8"

definition QWEN25_72B_HEAD_DIM :: int where "QWEN25_72B_HEAD_DIM = 128"

definition QWEN25_72B_FFN_HIDDEN_SIZE :: int where "QWEN25_72B_FFN_HIDDEN_SIZE = 29568"

definition QWEN25_72B_DEFAULT_PAST_LEN :: int where "QWEN25_72B_DEFAULT_PAST_LEN = 1024"

definition GEMMA_2B_NUM_LAYERS :: int where "GEMMA_2B_NUM_LAYERS = 18"

definition GEMMA_2B_HIDDEN_SIZE :: int where "GEMMA_2B_HIDDEN_SIZE = 2048"

definition GEMMA_2B_NUM_HEADS :: int where "GEMMA_2B_NUM_HEADS = 8"

definition GEMMA_2B_NUM_KV_HEADS :: int where "GEMMA_2B_NUM_KV_HEADS = 1"

definition GEMMA_2B_HEAD_DIM :: int where "GEMMA_2B_HEAD_DIM = 256"

definition GEMMA_2B_FFN_HIDDEN_SIZE :: int where "GEMMA_2B_FFN_HIDDEN_SIZE = 16384"

definition GEMMA_2B_DEFAULT_PAST_LEN :: int where "GEMMA_2B_DEFAULT_PAST_LEN = 1024"

definition GEMMA_7B_NUM_LAYERS :: int where "GEMMA_7B_NUM_LAYERS = 28"

definition GEMMA_7B_HIDDEN_SIZE :: int where "GEMMA_7B_HIDDEN_SIZE = 3072"

definition GEMMA_7B_NUM_HEADS :: int where "GEMMA_7B_NUM_HEADS = 16"

definition GEMMA_7B_NUM_KV_HEADS :: int where "GEMMA_7B_NUM_KV_HEADS = 16"

definition GEMMA_7B_HEAD_DIM :: int where "GEMMA_7B_HEAD_DIM = 256"

definition GEMMA_7B_FFN_HIDDEN_SIZE :: int where "GEMMA_7B_FFN_HIDDEN_SIZE = 24576"

definition GEMMA_7B_DEFAULT_PAST_LEN :: int where "GEMMA_7B_DEFAULT_PAST_LEN = 1024"

definition GEMMA2_9B_NUM_LAYERS :: int where "GEMMA2_9B_NUM_LAYERS = 42"

definition GEMMA2_9B_HIDDEN_SIZE :: int where "GEMMA2_9B_HIDDEN_SIZE = 3584"

definition GEMMA2_9B_NUM_HEADS :: int where "GEMMA2_9B_NUM_HEADS = 16"

definition GEMMA2_9B_NUM_KV_HEADS :: int where "GEMMA2_9B_NUM_KV_HEADS = 8"

definition GEMMA2_9B_HEAD_DIM :: int where "GEMMA2_9B_HEAD_DIM = 256"

definition GEMMA2_9B_FFN_HIDDEN_SIZE :: int where "GEMMA2_9B_FFN_HIDDEN_SIZE = 14336"

definition GEMMA2_9B_DEFAULT_PAST_LEN :: int where "GEMMA2_9B_DEFAULT_PAST_LEN = 1024"

definition GEMMA2_27B_NUM_LAYERS :: int where "GEMMA2_27B_NUM_LAYERS = 46"

definition GEMMA2_27B_HIDDEN_SIZE :: int where "GEMMA2_27B_HIDDEN_SIZE = 4608"

definition GEMMA2_27B_NUM_HEADS :: int where "GEMMA2_27B_NUM_HEADS = 32"

definition GEMMA2_27B_NUM_KV_HEADS :: int where "GEMMA2_27B_NUM_KV_HEADS = 16"

definition GEMMA2_27B_HEAD_DIM :: int where "GEMMA2_27B_HEAD_DIM = 128"

definition GEMMA2_27B_FFN_HIDDEN_SIZE :: int where "GEMMA2_27B_FFN_HIDDEN_SIZE = 73728"

definition GEMMA2_27B_DEFAULT_PAST_LEN :: int where "GEMMA2_27B_DEFAULT_PAST_LEN = 1024"

definition LLAMA2_7B_MODEL_SPEC :: model_spec where
  "LLAMA2_7B_MODEL_SPEC =
     \<lparr>spec_name = ''Llama2-7B'', spec_num_layers = LLAMA2_7B_NUM_LAYERS, spec_hidden_size = LLAMA2_7B_HIDDEN_SIZE,
      spec_num_heads = LLAMA2_7B_NUM_HEADS, spec_head_dim = LLAMA2_7B_HEAD_DIM,
      spec_ffn_hidden_size = LLAMA2_7B_FFN_HIDDEN_SIZE, spec_datatype = ''int8'',
      spec_num_kv_heads = LLAMA2_7B_NUM_HEADS,
      spec_citation = ''Llama 2 (Touvron et al., arXiv:2307.09288)'', spec_paper_anchor = ''Llama 2 (Touvron et al., 2023)'',
      spec_ffn_variant = FFN_VARIANT_SWIGLU_3PROJ, spec_activation = ''silu''\<rparr>"

definition LLAMA2_13B_MODEL_SPEC :: model_spec where
  "LLAMA2_13B_MODEL_SPEC =
     \<lparr>spec_name = ''Llama2-13B'', spec_num_layers = LLAMA2_13B_NUM_LAYERS, spec_hidden_size = LLAMA2_13B_HIDDEN_SIZE,
      spec_num_heads = LLAMA2_13B_NUM_HEADS, spec_head_dim = LLAMA2_13B_HEAD_DIM,
      spec_ffn_hidden_size = LLAMA2_13B_FFN_HIDDEN_SIZE, spec_datatype = ''int8'',
      spec_num_kv_heads = LLAMA2_13B_NUM_HEADS,
      spec_citation = ''Llama 2 (Touvron et al., arXiv:2307.09288)'', spec_paper_anchor = ''Llama 2 (Touvron et al., 2023)'',
      spec_ffn_variant = FFN_VARIANT_SWIGLU_3PROJ, spec_activation = ''silu''\<rparr>"

definition LLAMA2_70B_MODEL_SPEC :: model_spec where
  "LLAMA2_70B_MODEL_SPEC =
     \<lparr>spec_name = ''Llama2-70B'', spec_num_layers = LLAMA2_70B_NUM_LAYERS, spec_hidden_size = LLAMA2_70B_HIDDEN_SIZE,
      spec_num_heads = LLAMA2_70B_NUM_HEADS, spec_head_dim = LLAMA2_70B_HEAD_DIM,
      spec_ffn_hidden_size = LLAMA2_70B_FFN_HIDDEN_SIZE, spec_datatype = ''int8'',
      spec_num_kv_heads = LLAMA2_70B_NUM_KV_HEADS,
      spec_citation = ''Llama 2 (Touvron et al., arXiv:2307.09288)'', spec_paper_anchor = ''Llama 2 (Touvron et al., 2023)'',
      spec_ffn_variant = FFN_VARIANT_SWIGLU_3PROJ, spec_activation = ''silu''\<rparr>"

definition QWEN25_7B_MODEL_SPEC :: model_spec where
  "QWEN25_7B_MODEL_SPEC =
     \<lparr>spec_name = ''Qwen2.5-7B'', spec_num_layers = QWEN25_7B_NUM_LAYERS, spec_hidden_size = QWEN25_7B_HIDDEN_SIZE,
      spec_num_heads = QWEN25_7B_NUM_HEADS, spec_head_dim = QWEN25_7B_HEAD_DIM,
      spec_ffn_hidden_size = QWEN25_7B_FFN_HIDDEN_SIZE, spec_datatype = ''int8'',
      spec_num_kv_heads = QWEN25_7B_NUM_KV_HEADS,
      spec_citation = ''Qwen2.5 (Yang et al., arXiv:2412.15115)'', spec_paper_anchor = ''Qwen2.5 (Yang et al., 2024)'',
      spec_ffn_variant = FFN_VARIANT_SWIGLU_3PROJ, spec_activation = ''silu''\<rparr>"

definition QWEN25_14B_MODEL_SPEC :: model_spec where
  "QWEN25_14B_MODEL_SPEC =
     \<lparr>spec_name = ''Qwen2.5-14B'', spec_num_layers = QWEN25_14B_NUM_LAYERS, spec_hidden_size = QWEN25_14B_HIDDEN_SIZE,
      spec_num_heads = QWEN25_14B_NUM_HEADS, spec_head_dim = QWEN25_14B_HEAD_DIM,
      spec_ffn_hidden_size = QWEN25_14B_FFN_HIDDEN_SIZE, spec_datatype = ''int8'',
      spec_num_kv_heads = QWEN25_14B_NUM_KV_HEADS,
      spec_citation = ''Qwen2.5 (Yang et al., arXiv:2412.15115)'', spec_paper_anchor = ''Qwen2.5 (Yang et al., 2024)'',
      spec_ffn_variant = FFN_VARIANT_SWIGLU_3PROJ, spec_activation = ''silu''\<rparr>"

definition QWEN25_32B_MODEL_SPEC :: model_spec where
  "QWEN25_32B_MODEL_SPEC =
     \<lparr>spec_name = ''Qwen2.5-32B'', spec_num_layers = QWEN25_32B_NUM_LAYERS, spec_hidden_size = QWEN25_32B_HIDDEN_SIZE,
      spec_num_heads = QWEN25_32B_NUM_HEADS, spec_head_dim = QWEN25_32B_HEAD_DIM,
      spec_ffn_hidden_size = QWEN25_32B_FFN_HIDDEN_SIZE, spec_datatype = ''int8'',
      spec_num_kv_heads = QWEN25_32B_NUM_KV_HEADS,
      spec_citation = ''Qwen2.5 (Yang et al., arXiv:2412.15115)'', spec_paper_anchor = ''Qwen2.5 (Yang et al., 2024)'',
      spec_ffn_variant = FFN_VARIANT_SWIGLU_3PROJ, spec_activation = ''silu''\<rparr>"

definition QWEN25_72B_MODEL_SPEC :: model_spec where
  "QWEN25_72B_MODEL_SPEC =
     \<lparr>spec_name = ''Qwen2.5-72B'', spec_num_layers = QWEN25_72B_NUM_LAYERS, spec_hidden_size = QWEN25_72B_HIDDEN_SIZE,
      spec_num_heads = QWEN25_72B_NUM_HEADS, spec_head_dim = QWEN25_72B_HEAD_DIM,
      spec_ffn_hidden_size = QWEN25_72B_FFN_HIDDEN_SIZE, spec_datatype = ''int8'',
      spec_num_kv_heads = QWEN25_72B_NUM_KV_HEADS,
      spec_citation = ''Qwen2.5 (Yang et al., arXiv:2412.15115)'', spec_paper_anchor = ''Qwen2.5 (Yang et al., 2024)'',
      spec_ffn_variant = FFN_VARIANT_SWIGLU_3PROJ, spec_activation = ''silu''\<rparr>"

definition GEMMA_2B_MODEL_SPEC :: model_spec where
  "GEMMA_2B_MODEL_SPEC =
     \<lparr>spec_name = ''Gemma-2B'', spec_num_layers = GEMMA_2B_NUM_LAYERS, spec_hidden_size = GEMMA_2B_HIDDEN_SIZE,
      spec_num_heads = GEMMA_2B_NUM_HEADS, spec_head_dim = GEMMA_2B_HEAD_DIM,
      spec_ffn_hidden_size = GEMMA_2B_FFN_HIDDEN_SIZE, spec_datatype = ''int8'',
      spec_num_kv_heads = GEMMA_2B_NUM_KV_HEADS,
      spec_citation = ''Gemma (Gemma Team, arXiv:2403.08295)'', spec_paper_anchor = ''Gemma (Gemma Team, 2024)'',
      spec_ffn_variant = FFN_VARIANT_GEGLU_3PROJ, spec_activation = ''gelu_pytorch_tanh''\<rparr>"

definition GEMMA_7B_MODEL_SPEC :: model_spec where
  "GEMMA_7B_MODEL_SPEC =
     \<lparr>spec_name = ''Gemma-7B'', spec_num_layers = GEMMA_7B_NUM_LAYERS, spec_hidden_size = GEMMA_7B_HIDDEN_SIZE,
      spec_num_heads = GEMMA_7B_NUM_HEADS, spec_head_dim = GEMMA_7B_HEAD_DIM,
      spec_ffn_hidden_size = GEMMA_7B_FFN_HIDDEN_SIZE, spec_datatype = ''int8'',
      spec_num_kv_heads = GEMMA_7B_NUM_KV_HEADS,
      spec_citation = ''Gemma (Gemma Team, arXiv:2403.08295)'', spec_paper_anchor = ''Gemma (Gemma Team, 2024)'',
      spec_ffn_variant = FFN_VARIANT_GEGLU_3PROJ, spec_activation = ''gelu_pytorch_tanh''\<rparr>"

definition GEMMA2_9B_MODEL_SPEC :: model_spec where
  "GEMMA2_9B_MODEL_SPEC =
     \<lparr>spec_name = ''Gemma-2-9B'', spec_num_layers = GEMMA2_9B_NUM_LAYERS, spec_hidden_size = GEMMA2_9B_HIDDEN_SIZE,
      spec_num_heads = GEMMA2_9B_NUM_HEADS, spec_head_dim = GEMMA2_9B_HEAD_DIM,
      spec_ffn_hidden_size = GEMMA2_9B_FFN_HIDDEN_SIZE, spec_datatype = ''int8'',
      spec_num_kv_heads = GEMMA2_9B_NUM_KV_HEADS,
      spec_citation = ''Gemma 2 (Gemma Team, arXiv:2408.00118)'', spec_paper_anchor = ''Gemma 2 (Gemma Team, 2024)'',
      spec_ffn_variant = FFN_VARIANT_GEGLU_3PROJ, spec_activation = ''gelu_pytorch_tanh''\<rparr>"

definition GEMMA2_27B_MODEL_SPEC :: model_spec where
  "GEMMA2_27B_MODEL_SPEC =
     \<lparr>spec_name = ''Gemma-2-27B'', spec_num_layers = GEMMA2_27B_NUM_LAYERS, spec_hidden_size = GEMMA2_27B_HIDDEN_SIZE,
      spec_num_heads = GEMMA2_27B_NUM_HEADS, spec_head_dim = GEMMA2_27B_HEAD_DIM,
      spec_ffn_hidden_size = GEMMA2_27B_FFN_HIDDEN_SIZE, spec_datatype = ''int8'',
      spec_num_kv_heads = GEMMA2_27B_NUM_KV_HEADS,
      spec_citation = ''Gemma 2 (Gemma Team, arXiv:2408.00118)'', spec_paper_anchor = ''Gemma 2 (Gemma Team, 2024)'',
      spec_ffn_variant = FFN_VARIANT_GEGLU_3PROJ, spec_activation = ''gelu_pytorch_tanh''\<rparr>"

definition OPT_125M_MODEL_SPEC :: model_spec where
  "OPT_125M_MODEL_SPEC =
     \<lparr>spec_name = ''OPT-125M'', spec_num_layers = OPT_125M_NUM_LAYERS, spec_hidden_size = OPT_125M_HIDDEN_SIZE,
      spec_num_heads = OPT_125M_NUM_HEADS, spec_head_dim = OPT_125M_HEAD_DIM,
      spec_ffn_hidden_size = OPT_125M_FFN_HIDDEN_SIZE, spec_datatype = ''int8'',
      spec_num_kv_heads = OPT_125M_NUM_HEADS,
      spec_citation = ''OPT (Zhang et al., arXiv:2205.01068)'', spec_paper_anchor = ''OPT (Zhang et al., 2022)'',
      spec_ffn_variant = FFN_VARIANT_RELU_2PROJ, spec_activation = ''relu''\<rparr>"

definition OPT_350M_MODEL_SPEC :: model_spec where
  "OPT_350M_MODEL_SPEC =
     \<lparr>spec_name = ''OPT-350M'', spec_num_layers = OPT_350M_NUM_LAYERS, spec_hidden_size = OPT_350M_HIDDEN_SIZE,
      spec_num_heads = OPT_350M_NUM_HEADS, spec_head_dim = OPT_350M_HEAD_DIM,
      spec_ffn_hidden_size = OPT_350M_FFN_HIDDEN_SIZE, spec_datatype = ''int8'',
      spec_num_kv_heads = OPT_350M_NUM_HEADS,
      spec_citation = ''OPT (Zhang et al., arXiv:2205.01068)'', spec_paper_anchor = ''OPT (Zhang et al., 2022)'',
      spec_ffn_variant = FFN_VARIANT_RELU_2PROJ, spec_activation = ''relu''\<rparr>"

definition OPT_1_3B_MODEL_SPEC :: model_spec where
  "OPT_1_3B_MODEL_SPEC =
     \<lparr>spec_name = ''OPT-1.3B'', spec_num_layers = OPT_1_3B_NUM_LAYERS, spec_hidden_size = OPT_1_3B_HIDDEN_SIZE,
      spec_num_heads = OPT_1_3B_NUM_HEADS, spec_head_dim = OPT_1_3B_HEAD_DIM,
      spec_ffn_hidden_size = OPT_1_3B_FFN_HIDDEN_SIZE, spec_datatype = ''int8'',
      spec_num_kv_heads = OPT_1_3B_NUM_HEADS,
      spec_citation = ''OPT (Zhang et al., arXiv:2205.01068)'', spec_paper_anchor = ''OPT (Zhang et al., 2022)'',
      spec_ffn_variant = FFN_VARIANT_RELU_2PROJ, spec_activation = ''relu''\<rparr>"

definition MODEL_REGISTRY :: "(string \<times> model_spec) list" where
  "MODEL_REGISTRY =
     [(''llama2-7b'', LLAMA2_7B_MODEL_SPEC),
      (''llama2_7b'', LLAMA2_7B_MODEL_SPEC),
      (''Llama2-7B'', LLAMA2_7B_MODEL_SPEC),
      (''llama2-13b'', LLAMA2_13B_MODEL_SPEC),
      (''llama2_13b'', LLAMA2_13B_MODEL_SPEC),
      (''Llama2-13B'', LLAMA2_13B_MODEL_SPEC),
      (''llama2-70b'', LLAMA2_70B_MODEL_SPEC),
      (''llama2_70b'', LLAMA2_70B_MODEL_SPEC),
      (''Llama2-70B'', LLAMA2_70B_MODEL_SPEC),
      (''qwen2.5-7b'', QWEN25_7B_MODEL_SPEC),
      (''qwen25-7b'', QWEN25_7B_MODEL_SPEC),
      (''qwen2.5-14b'', QWEN25_14B_MODEL_SPEC),
      (''qwen25-14b'', QWEN25_14B_MODEL_SPEC),
      (''qwen2.5-32b'', QWEN25_32B_MODEL_SPEC),
      (''qwen25-32b'', QWEN25_32B_MODEL_SPEC),
      (''qwen2.5-72b'', QWEN25_72B_MODEL_SPEC),
      (''qwen25-72b'', QWEN25_72B_MODEL_SPEC),
      (''gemma-2b'', GEMMA_2B_MODEL_SPEC),
      (''gemma-7b'', GEMMA_7B_MODEL_SPEC),
      (''gemma-2-9b'', GEMMA2_9B_MODEL_SPEC),
      (''gemma2-9b'', GEMMA2_9B_MODEL_SPEC),
      (''gemma-2-27b'', GEMMA2_27B_MODEL_SPEC),
      (''gemma2-27b'', GEMMA2_27B_MODEL_SPEC),
      (''opt-125m'', OPT_125M_MODEL_SPEC),
      (''opt_125m'', OPT_125M_MODEL_SPEC),
      (''opt-350m'', OPT_350M_MODEL_SPEC),
      (''opt_350m'', OPT_350M_MODEL_SPEC),
      (''opt-1.3b'', OPT_1_3B_MODEL_SPEC),
      (''opt_1_3b'', OPT_1_3B_MODEL_SPEC)]"

definition get_model_spec :: "string \<Rightarrow> gen_error + model_spec" where
  "get_model_spec name = (case dget MODEL_REGISTRY name of None \<Rightarrow> Inl (GValue name) | Some s \<Rightarrow> Inr s)"

text \<open>\<open>_ffn_family_label\<close>; the last case cannot arise for a constructed specification.\<close>

definition ffn_family_label :: "model_spec \<Rightarrow> string" where
  "ffn_family_label s =
     (if spec_ffn_variant s = FFN_VARIANT_SWIGLU_3PROJ then ''SwiGLU''
      else if spec_ffn_variant s = FFN_VARIANT_GEGLU_3PROJ then ''GeGLU''
      else ''ReLU 2-proj'')"

end
