(* ===== verification/Surrogate_Manifests.thy ===== *)
theory Surrogate_Manifests
  imports Surrogate_Models
begin

text \<open>
  The manifests of \<open>workload_surrogate/generate_full_transformer.py\<close>: the constructors from a model
  specification, for decode and for prefill, and the three checks a generator starts with.
\<close>

section \<open>Strings\<close>

definition dec :: "int \<Rightarrow> string" where
  "dec i = (if i < 0 then ''-'' @ digits_of (nat (- i)) else digits_of (nat i))"

text \<open>\<open>s.replace(old, new)\<close> of a non-empty \<open>old\<close>, from the left.\<close>

fun str_replace :: "string \<Rightarrow> string \<Rightarrow> string \<Rightarrow> string" where
  "str_replace old new [] = []"
| "str_replace old new (c # cs) =
     (if prefix old (c # cs) then new @ str_replace old new (drop (length old - 1) cs)
      else c # str_replace old new cs)"

definition model_slug :: "model_spec \<Rightarrow> string" where
  "model_slug spec = str_replace ''-'' ''_'' (lower (spec_name spec))"

definition ffn_slug :: "model_spec \<Rightarrow> string" where
  "ffn_slug spec = str_replace ''_2proj'' [] (str_replace ''_3proj'' [] (spec_ffn_variant spec))"

section \<open>Constructors\<close>

definition DENSE_PIM_BANK_SEQUENCE :: "int list" where
  "DENSE_PIM_BANK_SEQUENCE = map int [0..<16]"

text \<open>The claims of prefill, sorted as \<open>sorted\<close> gives them.\<close>

definition prefill_non_claims :: "string list" where
  "prefill_non_claims =
     [''not_chunked_prefill_runtime'', ''not_flashattention_equivalence'', ''not_numerical_correctness'',
      ''not_prefix_cache_or_page_table_model'', ''not_raw_attacc_schema'', ''not_runtime_replay'', ''not_serving_goodput'',
      ''not_silicon_faithful_softmax_or_data_movement'', ''not_vllm_replay'', ''prefill_only_structured_surrogate'']"

definition tiny_attention_manifest :: "dict" where
  "tiny_attention_manifest =
     [(''manifest_version'', PStr ''p4-attention-v0.1''), (''manifest_name'', PStr ''tiny_attention_p4_v0_1''),
      (''workload_class'', PStr ''structured_transformer_attention_surrogate''), (''phase'', PStr ''decode''),
      (''model_family'', PStr ''tiny decoder-only transformer attention slice''), (''num_layers'', PInt 1),
      (''num_heads'', PInt 2), (''head_dim'', PInt 32), (''past_len'', PInt 64), (''seq_len'', PInt 1),
      (''datatype'', PStr ''int8''), (''score_tile_tokens'', PInt 32), (''context_tile_tokens'', PInt 32),
      (''head_group_size'', PInt 1), (''schedule_policy'', PStr ''serialized''),
      (''operand_movement_policy'', PDict
        [(''weights'', PStr ''preloaded_stationary''), (''dynamic_activation_setup'', PStr ''materialized''),
         (''ffn_intermediate'', PStr ''bank_local_capacity_controlled'')]),
      (''ramulator_visible_defaults'', PDict
        [(''bank_sequence'', PList [PInt 0, PInt 1, PInt 2, PInt 3]), (''bank_sequence_order'', PStr ''frontend''),
         (''pim_banks_per_block'', PInt 1), (''burst_length'', PInt 1), (''row_start'', PInt 0),
         (''row_count'', PInt 16), (''dependency_count'', PInt 8), (''column_start'', PInt 0)]),
      (''mapping_policy'', PDict
        [(''host_policy'', PStr ''semantic_tensor_io_only''),
         (''pim_policy'', PStr ''native_lpddr5_pim_attention_tiles''),
         (''bank_sequence_policy'', PStr ''manifest_order''),
         (''shared_block_grouping_policy'', PStr ''manifest_pim_banks_per_block'')]),
      (''literature_anchors'', p_strs [''AttAcc workflow ideology only'', ''LPDDR5-PIM native opcode surface'']),
      (''non_claims'', p_strs [''not_runtime_replay'', ''not_vllm_replay'', ''not_numerical_correctness'', ''not_silicon_faithful_softmax_or_data_movement'', ''not_raw_attacc_schema''])]"

definition tiny_ffn_manifest :: "dict" where
  "tiny_ffn_manifest =
     [(''manifest_version'', PStr ''p4-ffn-v0.1''), (''manifest_name'', PStr ''tiny_ffn_swiglu_p4_v0_1''),
      (''workload_class'', PStr ''structured_transformer_ffn_swiglu_surrogate''), (''phase'', PStr ''decode''),
      (''model_family'', PStr ''tiny decoder-only transformer FFN/SwiGLU slice''),
      (''ffn_variant'', PStr FFN_VARIANT_SWIGLU_3PROJ), (''num_layers'', PInt 1), (''seq_len'', PInt 1),
      (''hidden_size'', PInt 32), (''ffn_hidden_size'', PInt 64), (''ffn_activation_tile_size'', PInt 16),
      (''activation_distribution_policy'', PStr ''broadcast''), (''activation'', PStr ''silu''),
      (''datatype'', PStr ''int8''), (''schedule_policy'', PStr ''serialized''),
      (''operand_movement_policy'', PDict
        [(''weights'', PStr ''preloaded_stationary''), (''dynamic_activation_setup'', PStr ''materialized''),
         (''ffn_intermediate'', PStr ''bank_local_capacity_controlled'')]),
      (''ramulator_visible_defaults'', PDict
        [(''bank_sequence'', PList [PInt 0, PInt 1, PInt 2, PInt 3]), (''bank_sequence_order'', PStr ''frontend''),
         (''pim_banks_per_block'', PInt 1), (''burst_length'', PInt 1), (''row_start'', PInt 0),
         (''row_count'', PInt 16), (''dependency_count'', PInt 8), (''column_start'', PInt 0)]),
      (''mapping_policy'', PDict
        [(''host_policy'', PStr ''semantic_tensor_io_only''), (''pim_policy'', PStr ''native_lpddr5_pim_ffn_tiles''),
         (''bank_sequence_policy'', PStr ''manifest_order''),
         (''shared_block_grouping_policy'', PStr ''manifest_pim_banks_per_block'')]),
      (''literature_anchors'', p_strs [''LPDDR5-PIM native opcode surface'']),
      (''non_claims'', p_strs [''not_runtime_replay'', ''not_vllm_replay'', ''not_numerical_correctness'', ''not_silicon_faithful_softmax_or_data_movement'', ''not_raw_attacc_schema''])]"

text \<open>
  The dense decoder. A model given by its name is looked up by the callers; here it is its
  specification.
\<close>

definition decoder_attention_manifest :: "model_spec \<Rightarrow> int \<Rightarrow> string \<Rightarrow> dict" where
  "decoder_attention_manifest spec past_len schedule_policy =
     (let tile_tokens = min 256 past_len;
          name_dims = (if spec = LLAMA2_7B_MODEL_SPEC then [] else ''_hidden'' @ dec (spec_hidden_size spec))
      in [(''manifest_version'', PStr (lower (spec_name spec) @ ''-attention-v0.1'')),
          (''manifest_name'', PStr (model_slug spec @ ''_'' @ dec (spec_num_layers spec) @ ''_layer'' @ name_dims @ ''_attention_decode'')),
          (''workload_class'', PStr ''structured_transformer_attention_surrogate''), (''phase'', PStr ''decode''),
          (''model_family'', PStr (spec_name spec @ '' dense decoder attention slice'')),
          (''model_citation'', PStr (spec_citation spec)), (''model_total_layers'', PInt (spec_num_layers spec)),
          (''num_layers'', PInt (spec_num_layers spec)), (''num_heads'', PInt (spec_num_heads spec)),
          (''num_kv_heads'', PInt (spec_num_kv_heads spec)), (''head_dim'', PInt (spec_head_dim spec)),
          (''hidden_size'', PInt (spec_hidden_size spec)), (''past_len'', PInt past_len), (''seq_len'', PInt 1),
          (''datatype'', PStr (spec_datatype spec)), (''score_tile_tokens'', PInt tile_tokens),
          (''context_tile_tokens'', PInt tile_tokens),
          (''head_group_size'', PInt (spec_num_heads spec div spec_num_kv_heads spec)),
          (''schedule_policy'', PStr schedule_policy),
          (''operand_movement_policy'', PDict
            [(''weights'', PStr ''preloaded_stationary''), (''dynamic_activation_setup'', PStr ''materialized''),
             (''ffn_intermediate'', PStr ''bank_local_capacity_controlled'')]),
          (''ramulator_visible_defaults'', PDict
            [(''bank_sequence'', PList (map PInt DENSE_PIM_BANK_SEQUENCE)),
             (''bank_sequence_order'', PStr ''frontend''), (''pim_banks_per_block'', PInt 1),
             (''burst_length'', PInt 1), (''row_start'', PInt 0), (''row_count'', PInt 16),
             (''dependency_count'', PInt 8), (''column_start'', PInt 0)]),
          (''mapping_policy'', PDict
            [(''host_policy'', PStr ''semantic_tensor_io_only''),
             (''pim_policy'', PStr ''native_lpddr5_pim_attention_tiles''),
             (''bank_sequence_policy'', PStr ''manifest_order''),
             (''shared_block_grouping_policy'', PStr ''manifest_pim_banks_per_block'')]),
          (''literature_anchors'', PList [PStr (spec_paper_anchor spec), PStr ''LPDDR5-PIM native opcode surface'']),
          (''non_claims'', p_strs REQUIRED_P4_NON_CLAIMS)])"

definition decoder_ffn_manifest :: "model_spec \<Rightarrow> string \<Rightarrow> dict" where
  "decoder_ffn_manifest spec schedule_policy =
     (let name_dims = (if spec = LLAMA2_7B_MODEL_SPEC then []
            else ''_hidden'' @ dec (spec_hidden_size spec) @ ''_ffn'' @ dec (spec_ffn_hidden_size spec))
      in [(''manifest_version'', PStr (lower (spec_name spec) @ ''-ffn-v0.1'')),
          (''manifest_name'', PStr (model_slug spec @ ''_'' @ dec (spec_num_layers spec) @ ''_layer'' @ name_dims @ ''_ffn_'' @ ffn_slug spec @ ''_decode'')),
          (''workload_class'', PStr (''structured_transformer_ffn_'' @ ffn_slug spec @ ''_surrogate'')),
          (''phase'', PStr ''decode''),
          (''model_family'', PStr (spec_name spec @ '' dense decoder FFN/'' @ ffn_family_label spec @ '' slice'')),
          (''ffn_variant'', PStr (spec_ffn_variant spec)), (''model_citation'', PStr (spec_citation spec)),
          (''model_total_layers'', PInt (spec_num_layers spec)), (''num_layers'', PInt (spec_num_layers spec)),
          (''seq_len'', PInt 1), (''hidden_size'', PInt (spec_hidden_size spec)),
          (''ffn_hidden_size'', PInt (spec_ffn_hidden_size spec)),
          (''ffn_activation_tile_size'', PInt (spec_hidden_size spec)),
          (''activation_distribution_policy'', PStr ''broadcast''), (''activation'', PStr (spec_activation spec)),
          (''datatype'', PStr (spec_datatype spec)), (''schedule_policy'', PStr schedule_policy),
          (''operand_movement_policy'', PDict
            [(''weights'', PStr ''preloaded_stationary''), (''dynamic_activation_setup'', PStr ''materialized''),
             (''ffn_intermediate'', PStr ''bank_local_capacity_controlled'')]),
          (''ramulator_visible_defaults'', PDict
            [(''bank_sequence'', PList (map PInt DENSE_PIM_BANK_SEQUENCE)),
             (''bank_sequence_order'', PStr ''frontend''), (''pim_banks_per_block'', PInt 1),
             (''burst_length'', PInt 1), (''row_start'', PInt 0), (''row_count'', PInt 16),
             (''dependency_count'', PInt 8), (''column_start'', PInt 0)]),
          (''mapping_policy'', PDict
            [(''host_policy'', PStr ''semantic_tensor_io_only''),
             (''pim_policy'', PStr ''native_lpddr5_pim_ffn_tiles''),
             (''bank_sequence_policy'', PStr ''manifest_order''),
             (''shared_block_grouping_policy'', PStr ''manifest_pim_banks_per_block'')]),
          (''literature_anchors'', PList [PStr (spec_paper_anchor spec), PStr ''LPDDR5-PIM native opcode surface'']),
          (''non_claims'', p_strs REQUIRED_P4_NON_CLAIMS)])"

definition prefill_attention_manifest :: "model_spec \<Rightarrow> int \<Rightarrow> string \<Rightarrow> int option \<Rightarrow> int option \<Rightarrow> gen_error + dict" where
  "prefill_attention_manifest spec prompt_len schedule_policy score_tile context_tile =
     (if prompt_len \<le> 0 then Inl (GValue ''prompt_len'')
      else let tile_tokens = (case score_tile of None \<Rightarrow> min 256 prompt_len | Some t \<Rightarrow> min t prompt_len);
               context_tokens = (case context_tile of None \<Rightarrow> tile_tokens | Some t \<Rightarrow> min t prompt_len)
      in Inr (dupdate (decoder_attention_manifest spec prompt_len schedule_policy)
        [(''manifest_name'', PStr (model_slug spec @ ''_'' @ dec (spec_num_layers spec) @ ''_layer_attention_prefill_P'' @ dec prompt_len)),
         (''phase'', PStr ''prefill''),
         (''model_family'', PStr (spec_name spec @ '' dense prefill attention slice'')),
         (''prompt_len'', PInt prompt_len), (''past_len'', PInt 0), (''seq_len'', PInt prompt_len),
         (''score_tile_tokens'', PInt tile_tokens), (''context_tile_tokens'', PInt context_tokens),
         (''attention_mode'', PStr ''causal_prefill''), (''prefill_only'', PBool True),
         (''residency_policy'', PDict
           [(''k_v_operand_source'', PStr ''layer_local_projection_no_host_kv_read''),
            (''kv_cache_population'', PStr ''HostWrite persists projected K/V for later decode''),
            (''prefill_attention_reads'', PStr ''semantic PIMOperandResidency from same-layer Q/K/V projections; no HostRead KV-cache tiles'')]),
         (''non_claims'', p_strs prefill_non_claims)]))"

definition prefill_ffn_manifest :: "model_spec \<Rightarrow> int \<Rightarrow> string \<Rightarrow> gen_error + dict" where
  "prefill_ffn_manifest spec prompt_len schedule_policy =
     (if prompt_len \<le> 0 then Inl (GValue ''prompt_len'')
      else Inr (dupdate (decoder_ffn_manifest spec schedule_policy)
        [(''manifest_name'', PStr (model_slug spec @ ''_'' @ dec (spec_num_layers spec) @ ''_layer_ffn_prefill_P'' @ dec prompt_len)),
         (''phase'', PStr ''prefill''),
         (''model_family'', PStr (spec_name spec @ '' dense prefill FFN/'' @ ffn_family_label spec @ '' slice'')),
         (''prompt_len'', PInt prompt_len), (''seq_len'', PInt prompt_len), (''prefill_only'', PBool True),
         (''non_claims'', p_strs prefill_non_claims)]))"

definition dense_prefill_manifests :: "model_spec \<Rightarrow> int \<Rightarrow> string \<Rightarrow> gen_error + (dict \<times> dict)" where
  "dense_prefill_manifests spec prompt_len schedule_policy =
     rbind (prefill_attention_manifest spec prompt_len schedule_policy None None) (\<lambda>a.
     rbind (prefill_ffn_manifest spec prompt_len schedule_policy) (\<lambda>f. Inr (a, f)))"

definition dense_decoder_manifests :: "model_spec \<Rightarrow> int option \<Rightarrow> string \<Rightarrow> dict \<times> dict" where
  "dense_decoder_manifests spec past_len schedule_policy =
     (decoder_attention_manifest spec (case past_len of None \<Rightarrow> LLAMA2_7B_DEFAULT_PAST_LEN | Some n \<Rightarrow> n) schedule_policy,
      decoder_ffn_manifest spec schedule_policy)"

text \<open>The mixture of experts.\<close>

definition mixtral_ramulator_defaults :: "dict" where
  "mixtral_ramulator_defaults =
     [(''bank_sequence'', PList [PInt 0, PInt 1, PInt 2, PInt 3]), (''bank_sequence_order'', PStr ''frontend''),
      (''pim_banks_per_block'', PInt 1), (''burst_length'', PInt 1), (''row_start'', PInt 0),
      (''row_count'', PInt 16), (''dependency_count'', PInt 8), (''column_start'', PInt 0)]"

definition mixtral_mapping_policy :: "dict" where
  "mixtral_mapping_policy =
     [(''host_policy'', PStr ''semantic_tensor_io_only''),
      (''pim_policy'', PStr ''native_lpddr5_pim_operator_tiles''),
      (''bank_sequence_policy'', PStr ''manifest_order''),
      (''shared_block_grouping_policy'', PStr ''manifest_pim_banks_per_block'')]"

definition mixtral_operand_movement_policy :: "dict" where
  "mixtral_operand_movement_policy =
     [(''weights'', PStr ''preloaded_stationary''), (''dynamic_activation_setup'', PStr ''materialized''),
      (''ffn_intermediate'', PStr ''bank_local_capacity_controlled'')]"

definition mixtral_attention_manifest :: "int \<Rightarrow> string \<Rightarrow> bool \<Rightarrow> dict" where
  "mixtral_attention_manifest past_len schedule_policy scaled =
     (let hidden = (if scaled then MIXTRAL_8X7B_SCALED_HIDDEN else MIXTRAL_8X7B_HIDDEN_SIZE);
          num_heads = (if scaled then hidden div MIXTRAL_8X7B_HEAD_DIM else MIXTRAL_8X7B_NUM_HEADS);
          num_kv_heads = (if scaled then max 1 (num_heads div 4) else MIXTRAL_8X7B_NUM_KV_HEADS);
          manifest_suffix = (if scaled then ''scaled'' else ''real'');
          attention_variant = (if scaled then ''grouped_query_attention_scaled'' else ''grouped_query_attention'');
          model_family = (if scaled then ''Mixtral-8x7B decoder attention slice (scaled GQA)''
            else ''Mixtral-8x7B decoder attention slice (real GQA)'');
          tile_tokens = min 256 past_len
      in [(''manifest_version'', PStr ''mixtral-8x7b-attention-v0.1''),
          (''manifest_name'', PStr (''mixtral_8x7b_'' @ dec MIXTRAL_8X7B_NUM_LAYERS @ ''_layer_attention_decode_'' @ manifest_suffix)),
          (''provenance_class'', PStr ''representative-model-scale''),
          (''model_citation'', PStr ''Mixtral of Experts (Jiang et al., arXiv:2401.04088)''),
          (''attention_variant'', PStr attention_variant),
          (''data_movement_assumption'', PStr ''semantic_kv_cache_host_read_per_tile''),
          (''workload_class'', PStr ''structured_transformer_attention_surrogate''), (''phase'', PStr ''decode''),
          (''model_family'', PStr model_family), (''model_total_layers'', PInt MIXTRAL_8X7B_NUM_LAYERS),
          (''num_layers'', PInt MIXTRAL_8X7B_NUM_LAYERS), (''num_heads'', PInt num_heads),
          (''num_kv_heads'', PInt num_kv_heads), (''head_dim'', PInt MIXTRAL_8X7B_HEAD_DIM),
          (''hidden_size'', PInt hidden), (''past_len'', PInt past_len), (''seq_len'', PInt 1),
          (''datatype'', PStr ''int8''), (''score_tile_tokens'', PInt tile_tokens),
          (''context_tile_tokens'', PInt tile_tokens), (''head_group_size'', PInt (num_heads div num_kv_heads)),
          (''schedule_policy'', PStr schedule_policy),
          (''operand_movement_policy'', PDict mixtral_operand_movement_policy),
          (''ramulator_visible_defaults'', PDict mixtral_ramulator_defaults),
          (''mapping_policy'', PDict mixtral_mapping_policy),
          (''literature_anchors'', p_strs [''Mixtral-8x7B (Jiang et al., 2024)'', ''LPDDR5-PIM native opcode surface'']),
          (''non_claims'', p_strs REQUIRED_P4_NON_CLAIMS)])"

definition mixtral_moe_manifest :: "string \<Rightarrow> int list option \<Rightarrow> bool \<Rightarrow> dict" where
  "mixtral_moe_manifest schedule_policy selected scaled =
     (let selected_experts = (case selected of None \<Rightarrow> [0, 1] | Some es \<Rightarrow> es);
          hidden = (if scaled then MIXTRAL_8X7B_SCALED_HIDDEN else MIXTRAL_8X7B_HIDDEN_SIZE);
          expert_hidden = (if scaled then MIXTRAL_8X7B_SCALED_EXPERT_HIDDEN else MIXTRAL_8X7B_EXPERT_HIDDEN_SIZE);
          manifest_suffix = (if scaled then ''scaled'' else ''real'')
      in [(''manifest_version'', PStr ''mixtral-moe-decode-v0.1''),
          (''manifest_name'', PStr (''mixtral_8x7b_'' @ dec MIXTRAL_8X7B_NUM_LAYERS @ ''_layer_moe_decode_'' @ manifest_suffix)),
          (''provenance_class'', PStr ''representative-model-scale''),
          (''model_citation'', PStr ''Mixtral of Experts (Jiang et al., arXiv:2401.04088)''),
          (''real_model_dimensions'', PDict
            [(''hidden_size'', PInt MIXTRAL_8X7B_HIDDEN_SIZE),
             (''expert_hidden_size'', PInt MIXTRAL_8X7B_EXPERT_HIDDEN_SIZE),
             (''num_experts'', PInt MIXTRAL_8X7B_NUM_EXPERTS), (''top_k'', PInt MIXTRAL_8X7B_TOP_K),
             (''num_query_heads'', PInt MIXTRAL_8X7B_NUM_HEADS), (''num_kv_heads'', PInt MIXTRAL_8X7B_NUM_KV_HEADS),
             (''head_dim'', PInt MIXTRAL_8X7B_HEAD_DIM)]),
          (''simulation_scaling'', PStr (''hidden='' @ dec hidden @ '', expert_ffn='' @ dec expert_hidden @ ''; '' @ (if scaled then ''scaled fast/debug trace'' else ''real backend trace dimensions''))),
          (''workload_class'', PStr ''structured_transformer_moe_surrogate''), (''phase'', PStr ''decode''),
          (''model_family'', PStr ''Mixtral-8x7B decoder-only transformer MoE slice (8 experts, top-2)''),
          (''model_total_layers'', PInt MIXTRAL_8X7B_NUM_LAYERS), (''num_layers'', PInt MIXTRAL_8X7B_NUM_LAYERS),
          (''seq_len'', PInt 1), (''hidden_size'', PInt hidden), (''expert_hidden_size'', PInt expert_hidden),
          (''ffn_hidden_size'', PInt expert_hidden), (''num_experts'', PInt MIXTRAL_8X7B_NUM_EXPERTS),
          (''top_k'', PInt MIXTRAL_8X7B_TOP_K), (''selected_experts'', PList (map PInt selected_experts)),
          (''datatype'', PStr ''int8''), (''schedule_policy'', PStr schedule_policy),
          (''operand_movement_policy'', PDict
            [(''weights'', PStr ''preloaded_stationary''), (''router_input_setup'', PStr ''materialized''),
             (''token_dispatch'', PStr ''materialized''), (''expert_output_combine'', PStr ''materialized'')]),
          (''ramulator_visible_defaults'', PDict mixtral_ramulator_defaults),
          (''mapping_policy'', PDict mixtral_mapping_policy),
          (''literature_anchors'', p_strs [''Mixtral-8x7B (Jiang et al., 2024)'', ''LPDDR5-PIM native opcode surface'']),
          (''non_claims'', p_strs REQUIRED_P4_NON_CLAIMS)])"

definition mixtral_manifests :: "int \<Rightarrow> string \<Rightarrow> bool \<Rightarrow> dict \<times> dict" where
  "mixtral_manifests past_len schedule_policy scaled =
     (mixtral_attention_manifest past_len schedule_policy scaled, mixtral_moe_manifest schedule_policy None scaled)"

definition tiny_moe_manifest :: "dict" where
  "tiny_moe_manifest =
     [(''manifest_version'', PStr ''p4-moe-v0.1''), (''manifest_name'', PStr ''tiny_moe_p4_v0_1''),
      (''workload_class'', PStr ''structured_transformer_moe_surrogate''), (''phase'', PStr ''decode''),
      (''model_family'', PStr ''tiny decoder-only transformer MoE slice''), (''num_layers'', PInt 1),
      (''seq_len'', PInt 1), (''hidden_size'', PInt 32), (''expert_hidden_size'', PInt 64), (''num_experts'', PInt 4),
      (''top_k'', PInt 2), (''selected_experts'', PList [PInt 0, PInt 1]), (''datatype'', PStr ''int8''),
      (''schedule_policy'', PStr ''serialized''),
      (''operand_movement_policy'', PDict
        [(''weights'', PStr ''preloaded_stationary''), (''router_input_setup'', PStr ''materialized''),
         (''token_dispatch'', PStr ''materialized''), (''expert_output_combine'', PStr ''materialized'')]),
      (''ramulator_visible_defaults'', PDict
        [(''bank_sequence'', PList [PInt 0, PInt 1, PInt 2, PInt 3]), (''bank_sequence_order'', PStr ''frontend''),
         (''pim_banks_per_block'', PInt 1), (''burst_length'', PInt 1), (''row_start'', PInt 0),
         (''row_count'', PInt 16), (''dependency_count'', PInt 8), (''column_start'', PInt 0)]),
      (''mapping_policy'', PDict
        [(''host_policy'', PStr ''semantic_tensor_io_only''), (''pim_policy'', PStr ''native_lpddr5_pim_moe_tiles''),
         (''bank_sequence_policy'', PStr ''manifest_order''),
         (''shared_block_grouping_policy'', PStr ''manifest_pim_banks_per_block'')]),
      (''literature_anchors'', p_strs [''LPDDR5-PIM native opcode surface'']),
      (''non_claims'', p_strs [''not_runtime_replay'', ''not_vllm_replay'', ''not_numerical_correctness'', ''not_silicon_faithful_softmax_or_data_movement'', ''not_raw_attacc_schema''])]"

section \<open>Checks\<close>

definition SUPPORTED_ATTENTION_DATATYPES :: "string list" where
  "SUPPORTED_ATTENTION_DATATYPES = [''int8'', ''fp16'', ''bf16'']"

definition SUPPORTED_DISTRIBUTION_POLICIES :: "string list" where
  "SUPPORTED_DISTRIBUTION_POLICIES = [''broadcast'', ''bank_sharded'', ''replicated'']"

text \<open>\<open>int(m[f])\<close> and a field that must be one of a set of strings.\<close>

definition m_int :: "dict \<Rightarrow> string \<Rightarrow> gen_error + int" where
  "m_int m f = rbind (g_get m f) (g_int f)"

definition m_positive :: "dict \<Rightarrow> string list \<Rightarrow> gen_error + unit" where
  "m_positive m fs = rbind (rmap (\<lambda>f. rbind (m_int m f) (\<lambda>i. require (0 < i) (GValue f))) fs) (\<lambda>_. Inr ())"

definition m_one_of :: "dict \<Rightarrow> string \<Rightarrow> string list \<Rightarrow> gen_error + unit" where
  "m_one_of m f choices = rbind (g_member f (item m f) choices) (\<lambda>b. require b (GValue f))"

text \<open>The key-value heads: two aliases that must agree, at most the heads and dividing them.\<close>

definition attention_num_kv_heads :: "dict \<Rightarrow> gen_error + int" where
  "attention_num_kv_heads m =
     rbind (m_int m ''num_heads'') (\<lambda>num_heads.
     rbind (if has m ''kv_heads'' \<and> has m ''num_kv_heads'' then
              rbind (m_int m ''kv_heads'') (\<lambda>a. rbind (m_int m ''num_kv_heads'') (\<lambda>b. require (a = b) (GValue ''kv_heads'')))
            else Inr ()) (\<lambda>_.
     rbind (g_int ''kv_heads'' (dgetd m ''kv_heads'' (dgetd m ''num_kv_heads'' (PInt num_heads)))) (\<lambda>kv.
     if num_heads < kv then Inl (GValue ''num_kv_heads'')
     else if kv \<le> 0 then Inl (GValue ''num_kv_heads'')
     else if num_heads mod kv \<noteq> 0 then Inl (GValue ''num_kv_heads'')
     else Inr kv)))"

definition attention_head_group_size :: "dict \<Rightarrow> gen_error + int" where
  "attention_head_group_size m =
     rbind (m_int m ''num_heads'') (\<lambda>num_heads.
     rbind (attention_num_kv_heads m) (\<lambda>kv.
     let derived = num_heads div kv in
     rbind (if has m ''head_group_size''
            then rbind (m_int m ''head_group_size'') (\<lambda>g. require (g = derived) (GValue ''head_group_size'')) else Inr ()) (\<lambda>_.
     Inr derived)))"

text \<open>\<open>str(m.get("ffn_variant", ...))\<close>; a variant that is not a string is refused.\<close>

definition ffn_variant :: "dict \<Rightarrow> gen_error + string" where
  "ffn_variant m =
     (case dgetd m ''ffn_variant'' (PStr FFN_VARIANT_SWIGLU_3PROJ) of PStr s \<Rightarrow> Inr s | _ \<Rightarrow> Inl (GType ''ffn_variant''))"

definition ffn_projection_count :: "dict \<Rightarrow> gen_error + int" where
  "ffn_projection_count m =
     rbind (ffn_variant m) (\<lambda>v.
     case dget FFN_VARIANT_PROJECTION_COUNTS v of None \<Rightarrow> Inl (GValue ''ffn_variant'') | Some n \<Rightarrow> Inr n)"

definition ffn_operator_family :: "dict \<Rightarrow> gen_error + string" where
  "ffn_operator_family m =
     rbind (ffn_variant m) (\<lambda>v.
     if v = FFN_VARIANT_RELU_2PROJ then Inr ''ffn_relu_2proj''
     else if v = FFN_VARIANT_SWIGLU_3PROJ then Inr ''ffn_swiglu''
     else if v = FFN_VARIANT_GEGLU_3PROJ then Inr ''ffn_geglu''
     else Inl (GValue ''ffn_variant''))"

definition validate_ramulator_defaults :: "dict \<Rightarrow> gen_error + unit" where
  "validate_ramulator_defaults m =
     rbind (g_get m ''ramulator_visible_defaults'') (\<lambda>v.
     rbind (g_dict ''ramulator_visible_defaults'' v) (\<lambda>d.
     rbind (g_fields d [''bank_sequence'', ''burst_length'', ''row_start'', ''row_count'', ''dependency_count'', ''column_start'']) (\<lambda>_.
     rbind (require (truthy (item d ''bank_sequence'')) (GValue ''bank_sequence'')) (\<lambda>_.
     m_positive d [''burst_length'', ''row_count'', ''dependency_count'']))))"

text \<open>\<open>set(m["non_claims"])\<close> must cover the claims required in the phase.\<close>

definition check_non_claims :: "dict \<Rightarrow> gen_error + unit" where
  "check_non_claims m =
     rbind (g_list ''non_claims'' (item m ''non_claims'')) (\<lambda>xs.
     rbind (require (list_all hashable xs) (GType ''non_claims'')) (\<lambda>_.
     require (list_all (\<lambda>c. PStr c \<in> set xs)
       (if item m ''phase'' = PStr ''prefill'' then prefill_non_claims else REQUIRED_P4_NON_CLAIMS)) (GValue ''non_claims'')))"

definition ATTENTION_MANIFEST_FIELDS :: "string list" where
  "ATTENTION_MANIFEST_FIELDS =
     [''manifest_version'', ''manifest_name'', ''workload_class'', ''phase'', ''model_family'', ''num_layers'', ''num_heads'',
      ''head_dim'', ''past_len'', ''seq_len'', ''datatype'', ''score_tile_tokens'', ''context_tile_tokens'', ''head_group_size'',
      ''schedule_policy'', ''ramulator_visible_defaults'', ''mapping_policy'', ''literature_anchors'', ''non_claims'']"

text \<open>The conditions that hold in prefill only.\<close>

definition check_prefill_attention :: "dict \<Rightarrow> gen_error + unit" where
  "check_prefill_attention m =
     rbind (g_int ''prompt_len'' (dgetd m ''prompt_len'' (PInt (-1)))) (\<lambda>p.
     rbind (m_int m ''seq_len'') (\<lambda>s.
     rbind (require (p = s) (GValue ''prompt_len'')) (\<lambda>_.
     rbind (m_int m ''past_len'') (\<lambda>past.
     rbind (require (past = 0) (GValue ''past_len'')) (\<lambda>_.
     rbind (require (item m ''attention_mode'' = PStr ''causal_prefill'' \<and> item m ''prefill_only'' = PBool True) (GValue ''attention_mode'')) (\<lambda>_.
     rbind (m_int m ''score_tile_tokens'') (\<lambda>t. require (t \<le> s) (GValue ''score_tile_tokens''))))))))"

definition validate_attention_manifest :: "dict \<Rightarrow> gen_error + unit" where
  "validate_attention_manifest m =
     rbind (g_fields m ATTENTION_MANIFEST_FIELDS) (\<lambda>_.
     rbind (m_one_of m ''phase'' [''decode'', ''prefill'']) (\<lambda>_.
     rbind (m_one_of m ''schedule_policy'' [''serialized'', ''overlap_independent_heads'']) (\<lambda>_.
     rbind (require (item m ''phase'' = PStr ''prefill'' \<longrightarrow> item m ''schedule_policy'' = PStr ''serialized'') (GValue ''schedule_policy'')) (\<lambda>_.
     rbind (m_one_of m ''datatype'' SUPPORTED_ATTENTION_DATATYPES) (\<lambda>_.
     rbind (check_non_claims m) (\<lambda>_.
     rbind (m_positive m [''num_layers'', ''num_heads'', ''head_dim'', ''seq_len'', ''score_tile_tokens'', ''context_tile_tokens'',
              ''head_group_size'']) (\<lambda>_.
     rbind (m_int m ''past_len'') (\<lambda>past.
     rbind (require (0 \<le> past) (GValue ''past_len'')) (\<lambda>_.
     rbind (attention_head_group_size m) (\<lambda>_.
     rbind (m_int m ''num_heads'') (\<lambda>heads.
     rbind (require (item m ''schedule_policy'' = PStr ''overlap_independent_heads'' \<longrightarrow> 2 \<le> heads) (GValue ''num_heads'')) (\<lambda>_.
     rbind (m_int m ''context_tile_tokens'') (\<lambda>ct.
     rbind (m_int m ''score_tile_tokens'') (\<lambda>st.
     rbind (require (ct = st) (GValue ''context_tile_tokens'')) (\<lambda>_.
     rbind (require (item m ''phase'' = PStr ''decode'' \<longrightarrow> 0 < past) (GValue ''past_len'')) (\<lambda>_.
     rbind (if item m ''phase'' = PStr ''prefill'' then check_prefill_attention m else Inr ()) (\<lambda>_.
     validate_ramulator_defaults m)))))))))))))))))"

definition FFN_MANIFEST_FIELDS :: "string list" where
  "FFN_MANIFEST_FIELDS =
     [''manifest_version'', ''manifest_name'', ''workload_class'', ''phase'', ''model_family'', ''num_layers'', ''seq_len'',
      ''hidden_size'', ''ffn_hidden_size'', ''ffn_activation_tile_size'', ''activation_distribution_policy'', ''activation'',
      ''datatype'', ''schedule_policy'', ''ramulator_visible_defaults'', ''mapping_policy'', ''literature_anchors'', ''non_claims'']"

definition check_ffn_activation :: "dict \<Rightarrow> gen_error + unit" where
  "check_ffn_activation m =
     rbind (ffn_variant m) (\<lambda>v.
     rbind (require (v \<in> set SUPPORTED_GENERATOR_VARIANTS) (GValue ''ffn_variant'')) (\<lambda>_.
     rbind (require (v = FFN_VARIANT_RELU_2PROJ \<longrightarrow> item m ''activation'' = PStr ''relu'') (GValue ''activation'')) (\<lambda>_.
     rbind (require (v = FFN_VARIANT_SWIGLU_3PROJ \<longrightarrow> item m ''activation'' \<noteq> PStr ''relu'') (GValue ''activation'')) (\<lambda>_.
     if v = FFN_VARIANT_GEGLU_3PROJ then m_one_of m ''activation'' [''gelu'', ''gelu_pytorch_tanh''] else Inr ()))))"

definition validate_ffn_manifest :: "dict \<Rightarrow> gen_error + unit" where
  "validate_ffn_manifest m =
     rbind (g_fields m FFN_MANIFEST_FIELDS) (\<lambda>_.
     rbind (m_one_of m ''phase'' [''decode'', ''prefill'']) (\<lambda>_.
     rbind (require (item m ''schedule_policy'' = PStr ''serialized'') (GValue ''schedule_policy'')) (\<lambda>_.
     rbind (m_one_of m ''datatype'' SUPPORTED_ATTENTION_DATATYPES) (\<lambda>_.
     rbind (check_non_claims m) (\<lambda>_.
     rbind (m_positive m [''num_layers'', ''seq_len'', ''hidden_size'', ''ffn_hidden_size'', ''ffn_activation_tile_size'']) (\<lambda>_.
     rbind (m_int m ''ffn_activation_tile_size'') (\<lambda>tile.
     rbind (m_int m ''hidden_size'') (\<lambda>hidden.
     rbind (require (tile \<le> hidden) (GValue ''ffn_activation_tile_size'')) (\<lambda>_.
     rbind (if item m ''phase'' = PStr ''prefill'' then
              rbind (g_int ''prompt_len'' (dgetd m ''prompt_len'' (PInt (-1)))) (\<lambda>p.
              rbind (m_int m ''seq_len'') (\<lambda>s.
              rbind (require (p = s) (GValue ''prompt_len'')) (\<lambda>_.
              require (item m ''prefill_only'' = PBool True) (GValue ''prefill_only''))))
            else Inr ()) (\<lambda>_.
     rbind (m_one_of m ''activation_distribution_policy'' SUPPORTED_DISTRIBUTION_POLICIES) (\<lambda>_.
     rbind (check_ffn_activation m) (\<lambda>_.
     validate_ramulator_defaults m))))))))))))"

definition MOE_MANIFEST_FIELDS :: "string list" where
  "MOE_MANIFEST_FIELDS =
     [''manifest_version'', ''manifest_name'', ''workload_class'', ''phase'', ''model_family'', ''num_layers'', ''seq_len'',
      ''hidden_size'', ''expert_hidden_size'', ''num_experts'', ''top_k'', ''selected_experts'', ''datatype'', ''schedule_policy'',
      ''ramulator_visible_defaults'', ''mapping_policy'', ''literature_anchors'', ''non_claims'']"

fun repeated :: "pyval list \<Rightarrow> bool" where
  "repeated [] = False"
| "repeated (x # xs) = (list_ex (py_eq x) xs \<or> repeated xs)"

definition check_selected_experts :: "dict \<Rightarrow> gen_error + unit" where
  "check_selected_experts m =
     rbind (g_list ''selected_experts'' (item m ''selected_experts'')) (\<lambda>sel.
     rbind (m_int m ''top_k'') (\<lambda>k.
     rbind (require (int (length sel) = k) (GValue ''selected_experts'')) (\<lambda>_.
     rbind (require (list_all hashable sel) (GType ''selected_experts'')) (\<lambda>_.
     rbind (require (\<not> repeated sel) (GValue ''selected_experts'')) (\<lambda>_.
     rbind (m_int m ''num_experts'') (\<lambda>n.
     rbind (rmap (\<lambda>v. rbind (g_int ''selected_experts'' v) (\<lambda>e. require (0 \<le> e \<and> e < n) (GValue ''selected_experts''))) sel) (\<lambda>_.
     Inr ())))))))"

definition validate_moe_manifest :: "dict \<Rightarrow> gen_error + unit" where
  "validate_moe_manifest m =
     rbind (g_fields m MOE_MANIFEST_FIELDS) (\<lambda>_.
     rbind (require (item m ''phase'' = PStr ''decode'') (GValue ''phase'')) (\<lambda>_.
     rbind (m_one_of m ''schedule_policy'' [''serialized'', ''overlap_selected_experts'']) (\<lambda>_.
     rbind (m_one_of m ''datatype'' SUPPORTED_ATTENTION_DATATYPES) (\<lambda>_.
     rbind (check_non_claims m) (\<lambda>_.
     rbind (m_positive m [''num_layers'', ''seq_len'', ''hidden_size'', ''expert_hidden_size'', ''num_experts'', ''top_k'']) (\<lambda>_.
     rbind (m_int m ''top_k'') (\<lambda>k.
     rbind (require (item m ''schedule_policy'' = PStr ''overlap_selected_experts'' \<longrightarrow> 2 \<le> k) (GValue ''top_k'')) (\<lambda>_.
     rbind (m_int m ''num_experts'') (\<lambda>n.
     rbind (require (k \<le> n) (GValue ''top_k'')) (\<lambda>_.
     rbind (check_selected_experts m) (\<lambda>_.
     validate_ramulator_defaults m)))))))))))"

end
