(* ===== verification/Surrogate_Records.thy ===== *)
theory Surrogate_Records
  imports Surrogate_Manifests
begin

text \<open>
  The record builders of \<open>workload_surrogate/generate_full_transformer.py\<close>. A builder is called on
  a manifest that a generator has checked, so its conversions succeed; here \<open>mint m f\<close> is
  \<open>int(m[f])\<close>. The conversions that no check of the manifest covers (the mapping policy, the
  anchors, row and column starts, the transaction size) are made once, by \<open>readable\<close>, before the
  first record: the code makes them for every record, so it raises for the same manifests.
\<close>

section \<open>Reading a manifest\<close>

definition mint :: "dict \<Rightarrow> string \<Rightarrow> int" where
  "mint m f = (case py_int (item m f) of Some i \<Rightarrow> i | None \<Rightarrow> 0)"

definition defaults_of :: "dict \<Rightarrow> dict" where
  "defaults_of m = (case item m ''ramulator_visible_defaults'' of PDict d \<Rightarrow> d | _ \<Rightarrow> [])"

definition group_size :: "dict \<Rightarrow> int" where
  "group_size m = (case attention_head_group_size m of Inr g \<Rightarrow> g | Inl _ \<Rightarrow> 1)"

definition operator_family :: "dict \<Rightarrow> string" where
  "operator_family m = (case ffn_operator_family m of Inr f \<Rightarrow> f | Inl _ \<Rightarrow> [])"

definition tx_bytes_of :: "dict \<Rightarrow> int" where
  "tx_bytes_of m = (case py_int (dgetd (defaults_of m) ''tx_bytes'' (PInt 64)) of Some i \<Rightarrow> i | None \<Rightarrow> 64)"

text \<open>What every record reads, what the row and column policies read, and what a host access reads.\<close>

definition readable :: "dict \<Rightarrow> gen_error + unit" where
  "readable m =
     (let d = defaults_of m in
      rbind (rmap (g_get m) [''phase'', ''manifest_name'', ''model_family'', ''workload_class'']) (\<lambda>_.
      rbind (g_list ''literature_anchors'' (item m ''literature_anchors'')) (\<lambda>_.
      rbind (g_list ''non_claims'' (item m ''non_claims'')) (\<lambda>_.
      rbind (g_dict ''mapping_policy'' (item m ''mapping_policy'')) (\<lambda>_.
      rbind (g_list ''bank_sequence'' (item d ''bank_sequence'')) (\<lambda>_.
      rbind (g_int ''pim_banks_per_block'' (dgetd d ''pim_banks_per_block'' (PInt 1))) (\<lambda>_.
      rbind (rmap (m_int d) [''burst_length'', ''row_start'', ''row_count'']) (\<lambda>_. Inr ()))))))))"

definition readable_policies :: "dict \<Rightarrow> gen_error + unit" where
  "readable_policies m =
     rbind (readable m) (\<lambda>_. rbind (rmap (m_int (defaults_of m)) [''dependency_count'', ''column_start'']) (\<lambda>_. Inr ()))"

definition readable_host :: "dict \<Rightarrow> gen_error + unit" where
  "readable_host m =
     rbind (readable m) (\<lambda>_.
     rbind (g_int ''tx_bytes'' (dgetd (defaults_of m) ''tx_bytes'' (PInt 64))) (\<lambda>i. require (0 < i) (GValue ''tx_bytes'')))"

section \<open>Names\<close>

text \<open>\<open>f"{n:04d}"\<close> and the names made of layers, heads and tiles.\<close>

definition padded :: "nat \<Rightarrow> nat \<Rightarrow> string" where
  "padded width n = (let ds = digits_of n in replicate (width - length ds) (CHR ''0'') @ ds)"

definition rec_id :: "nat \<Rightarrow> string" where
  "rec_id n = ''rec_'' @ padded 4 n"

definition layer_name :: "nat \<Rightarrow> string" where
  "layer_name n = ''layer_'' @ padded 2 n"

definition in_layer :: "nat \<Rightarrow> string \<Rightarrow> string" where
  "in_layer l s = ''L'' @ digits_of l @ ''.'' @ s"

definition in_head :: "nat \<Rightarrow> nat \<Rightarrow> string \<Rightarrow> string" where
  "in_head l h s = in_layer l (''H'' @ digits_of h @ ''.'' @ s)"

definition in_tile :: "nat \<Rightarrow> nat \<Rightarrow> nat \<Rightarrow> string \<Rightarrow> string" where
  "in_tile l h t s = in_head l h (''T'' @ digits_of t @ ''.'' @ s)"

section \<open>Shared parts\<close>

definition lanes :: "pyval \<Rightarrow> int" where
  "lanes datatype = (if datatype = PStr ''int8'' then 32 else 16)"

definition num_requests :: "int \<Rightarrow> pyval \<Rightarrow> int" where
  "num_requests elements datatype = max 1 ((elements + lanes datatype - 1) div lanes datatype)"

definition p4_context :: "string \<Rightarrow> string \<Rightarrow> dict \<Rightarrow> dict" where
  "p4_context family stage extra =
     [(''record_family'', PStr REQUIRED_P4_RECORD_FAMILY), (''operator_family'', PStr family), (''stage'', PStr stage)] @ extra"

definition p4_mapping_policy :: "dict \<Rightarrow> dict" where
  "p4_mapping_policy m =
     (let d = defaults_of m; policy = (case item m ''mapping_policy'' of PDict p \<Rightarrow> p | _ \<Rightarrow> []) in
      dupdate policy
        [(''controller_bank_order'', dgetd d ''bank_sequence_order'' (PStr ''frontend'')), (''bank_sequence'', item d ''bank_sequence''),
         (''pim_banks_per_block'', PInt (case py_int (dgetd d ''pim_banks_per_block'' (PInt 1)) of Some i \<Rightarrow> i | None \<Rightarrow> 1)),
         (''burst_length'', PInt (mint d ''burst_length'')), (''row_start'', PInt (mint d ''row_start'')),
         (''row_count'', PInt (mint d ''row_count''))])"

definition p4_provenance :: "dict \<Rightarrow> string \<Rightarrow> dict" where
  "p4_provenance m op =
     [(''source_kind'', PStr ''generated''), (''tuple_manifest'', item m ''manifest_name''), (''literature_anchor'', item m ''literature_anchors''),
      (''generator_version'', PStr (GENERATOR_VERSION @ ''-p4-full-transformer'')),
      (''schedule_policy'', dgetd m ''schedule_policy'' (PStr ''serialized'')), (''claim_boundary'', p_strs REQUIRED_P4_CLAIM_BOUNDARY),
      (''non_claims'', item m ''non_claims''), (''selected_model_family'', item m ''model_family''),
      (''selected_workload_regime'', item m ''workload_class''),
      (''notes'', PStr (''bounded Phase 4 semantic tensor-DAG record for '' @ op))]"

definition base_record :: "string \<Rightarrow> string \<Rightarrow> nat \<Rightarrow> string \<Rightarrow> dict \<Rightarrow> dict" where
  "base_record rid kind layer op m =
     [(''schema_version'', PStr SCHEMA_VERSION), (''record_id'', PStr rid), (''kind'', PStr kind), (''phase'', item m ''phase''),
      (''layer'', PStr (layer_name layer)), (''op'', PStr op), (''repeat'', PInt 1),
      (''provenance'', PDict (p4_provenance m op)), (''mapping_policy'', PDict (p4_mapping_policy m))]"

definition tensor_residency :: "string list \<Rightarrow> dict" where
  "tensor_residency ts = dupdate [] (map (\<lambda>t. (t, PStr ''logical_pim_resident_or_accounted'')) ts)"

text \<open>The fields of a record that every transformer record has.\<close>

definition tensor_fields :: "string list \<Rightarrow> string list \<Rightarrow> string list \<Rightarrow> dict \<Rightarrow> dict" where
  "tensor_fields inputs outputs dependencies context =
     [(''tensor_io'', PDict [(''inputs'', p_strs inputs), (''outputs'', p_strs outputs)]),
      (''logical_dependencies'', p_strs dependencies), (''operator_context'', PDict context),
      (''residency'', PDict (tensor_residency (inputs @ outputs)))]"

definition datatype_metadata :: "dict \<Rightarrow> string \<Rightarrow> string \<Rightarrow> pyval" where
  "datatype_metadata m role claim =
     PDict [(''datatype'', item m ''datatype''), (''role'', PStr role), (''behavior_claim'', PStr claim)]"

section \<open>Rows, columns and dependencies\<close>

definition policy_fields :: "string \<Rightarrow> string \<Rightarrow> string \<Rightarrow> dict \<Rightarrow> int \<Rightarrow> int \<Rightarrow> dict \<Rightarrow> dict" where
  "policy_fields dep_kind row_kind column_kind d dep_index row_index extra =
     (let dependency_id = dep_index mod mint d ''dependency_count'' in
      [(''dependency_context'', PDict
          ([(''kind'', PStr dep_kind), (''dependency_count'', PInt (mint d ''dependency_count'')), (''dependency_id'', PInt dependency_id)] @ extra)),
       (''row_policy'', PDict
          [(''kind'', PStr row_kind), (''row_start'', PInt (mint d ''row_start'')), (''row_count'', PInt (mint d ''row_count'')),
           (''resolved_row'', PInt (mint d ''row_start'' + row_index mod mint d ''row_count''))]),
       (''column_policy'', PDict
          [(''kind'', PStr column_kind), (''column_start'', PInt (mint d ''column_start'')),
           (''resolved_column'', PInt (mint d ''column_start'' + dependency_id))])])"

definition attention_policies :: "dict \<Rightarrow> nat \<Rightarrow> nat \<Rightarrow> nat \<Rightarrow> dict" where
  "attention_policies m layer head tile =
     policy_fields ''attention_tile_dependency'' ''bounded_attention_tile_rows'' ''attention_dependency_column_round_robin''
       (defaults_of m) (int layer * mint m ''num_heads'' + int head + int tile) (int (layer + head + tile))
       [(''head_id'', PInt (int head)), (''tile_id'', PInt (int tile))]"

definition ffn_policies :: "dict \<Rightarrow> nat \<Rightarrow> nat \<Rightarrow> nat \<Rightarrow> dict" where
  "ffn_policies m layer stage tile =
     policy_fields ''ffn_stage_dependency'' ''bounded_ffn_stage_rows'' ''ffn_dependency_column_round_robin''
       (defaults_of m) (int (layer + stage + tile)) (int (layer + stage + tile))
       [(''stage_index'', PInt (int stage)), (''tile_index'', PInt (int tile))]"

section \<open>Attention records\<close>

text \<open>
  The optional arguments of a compute record are given together, in prefill: the query tokens, the
  causal pairs, the first key and the first query.
\<close>

definition attention_compute_record ::
  "string \<Rightarrow> string \<Rightarrow> nat \<Rightarrow> string \<Rightarrow> dict \<Rightarrow> nat \<Rightarrow> nat \<Rightarrow> int \<Rightarrow> int \<Rightarrow> (int \<times> int \<times> int \<times> int) option \<Rightarrow>
   string list \<Rightarrow> string list \<Rightarrow> string list \<Rightarrow> dict" where
  "attention_compute_record rid kind layer op m head tile tile_tokens tile_start prefill inputs outputs dependencies =
     (let rows = (case prefill of None \<Rightarrow> mint m ''seq_len'' | Some (q, _) \<Rightarrow> q);
          cols = (if kind = ''AttentionScore'' then tile_tokens else mint m ''head_dim'');
          pairs = (case prefill of None \<Rightarrow> tile_tokens | Some (_, p, _) \<Rightarrow> p);
          context = [(''layer_id'', PInt (int layer)), (''head_id'', PInt (int head)), (''head_group_id'', PInt (int head div group_size m)),
             (''tile_id'', PInt (int tile)), (''tile_tokens'', PInt tile_tokens), (''tile_start'', PInt tile_start)] @
             (case prefill of None \<Rightarrow> []
              | Some (_, p, key_start, query_start) \<Rightarrow>
                  [(''attention_mode'', PStr ''causal_prefill''), (''query_start'', PInt query_start), (''key_start'', PInt key_start),
                   (''causal_pair_count'', PInt p)])
      in dupdate (dupdate (base_record rid kind layer op m)
           (tensor_fields inputs outputs dependencies
              (p4_context ''attention'' (if kind = ''AttentionScore'' then ''score'' else ''context'') context) @
            [(''compute_shape'', PDict
               [(''m'', PInt rows), (''n'', PInt cols), (''k'', PInt (if kind = ''AttentionScore'' then mint m ''head_dim'' else tile_tokens)),
                (''output_elements'', PInt (max 1 (if kind = ''AttentionContext'' then rows * cols else pairs))),
                (''output_shape'', PDict [(''rows'', PInt rows), (''cols'', PInt cols)]),
                (''output_tensor_elements'', PInt (max 1 (rows * cols))), (''valid_attention_pairs'', PInt (max 1 pairs)),
                (''issued_work_elements'', PInt (max 1 (pairs * mint m ''head_dim''))), (''datatype'', item m ''datatype'')]),
             (''num_requests'', PInt (num_requests (pairs * mint m ''head_dim'') (item m ''datatype''))),
             (''bank_sequence'', item (defaults_of m) ''bank_sequence''),
             (''datatype_metadata'', datatype_metadata m ''phase4_attention_tensor_dag_metadata'' ''explicit_resource_rows_only''),
             (''burst_length'', PInt (mint (defaults_of m) ''burst_length''))]))
         (attention_policies m layer head tile))"

definition softmax_record ::
  "string \<Rightarrow> nat \<Rightarrow> dict \<Rightarrow> nat \<Rightarrow> nat \<Rightarrow> int \<Rightarrow> int \<Rightarrow> string list \<Rightarrow> string list \<Rightarrow> string list \<Rightarrow> dict" where
  "softmax_record rid layer m head tile tile_tokens tile_start scores probabilities dependencies =
     dupdate (base_record rid ''AttentionSoftmax'' layer ''attention_softmax_accounting'' m)
       (tensor_fields scores probabilities dependencies
          (p4_context ''attention'' ''global_softmax_accounting''
             [(''layer_id'', PInt (int layer)), (''head_id'', PInt (int head)), (''head_group_id'', PInt (int head div group_size m)),
              (''tile_id'', PInt (int tile)), (''tile_tokens'', PInt tile_tokens), (''tile_start'', PInt tile_start)]) @
        [(''accounting_metadata'', PDict
           [(''kind'', PStr ''semantic_only_softmax''), (''scope'', PStr ''head_global_across_score_tiles''),
            (''elements'', PInt (max 1 (mint m ''seq_len'' * tile_tokens))),
            (''lowering'', PStr ''not_lowered_to_native_opcode_in_p4_2'')])])"

definition context_reduction_record ::
  "string \<Rightarrow> nat \<Rightarrow> dict \<Rightarrow> nat \<Rightarrow> string list \<Rightarrow> string list \<Rightarrow> string \<Rightarrow> dict \<Rightarrow> int \<Rightarrow> dict" where
  "context_reduction_record rid layer m head context_ids context_tensors out extra query_tokens =
     dupdate (base_record rid ''PIMElementwise'' layer ''attention_context_reduction_accounting'' m)
       (tensor_fields context_tensors [out] context_ids
          (p4_context ''attention'' ''context_reduction_accounting''
             ([(''layer_id'', PInt (int layer)), (''head_id'', PInt (int head)), (''head_group_id'', PInt (int head div group_size m)),
               (''tile_count'', PInt (int (length context_tensors)))] @ extra)) @
        [(''accounting_metadata'', PDict
           [(''kind'', PStr ''semantic_only_context_tile_reduction''), (''scope'', PStr ''head_global_across_context_tiles''),
            (''elements'', PInt (max 1 (query_tokens * mint m ''head_dim''))),
            (''lowering'', PStr ''not_lowered_to_native_opcode_in_p4_2'')])])"

section \<open>Host accesses\<close>

definition scope_offsets :: "(string \<times> int) list" where
  "scope_offsets =
     [(''kv_cache_k_append'', 0), (''kv_cache_v_append'', 1), (''kv_cache_k_tile'', 2), (''kv_cache_v_tile'', 3),
      (''kv_cache_k_prefill_population'', 4), (''kv_cache_v_prefill_population'', 5)]"

definition host_access_base_byte :: "nat \<Rightarrow> int option \<Rightarrow> nat option \<Rightarrow> string \<Rightarrow> int \<Rightarrow> int \<Rightarrow> int" where
  "host_access_base_byte layer head tile address_scope tile_start tx_bytes =
     (int layer * 1000000 + dgetd scope_offsets address_scope 6 * 100000 + (case head of None \<Rightarrow> 0 | Some h \<Rightarrow> h) * 1000 +
      (case tile of None \<Rightarrow> 0 | Some t \<Rightarrow> int t) * 10 + max 0 tile_start) * tx_bytes"

text \<open>
  The head, the head that is addressed and the tile of a cache read are given together; an append
  has none of them.
\<close>

definition host_access_record ::
  "string \<Rightarrow> string \<Rightarrow> nat \<Rightarrow> string \<Rightarrow> dict \<Rightarrow> (nat \<times> int \<times> nat \<times> int) option \<Rightarrow> int \<Rightarrow>
   string list \<Rightarrow> string list \<Rightarrow> string list \<Rightarrow> int \<Rightarrow> string \<Rightarrow> dict" where
  "host_access_record rid kind layer op m place tile_start inputs outputs dependencies byte_elements address_scope =
     (let total_bytes = max 1 (byte_elements * (if item m ''datatype'' = PStr ''int8'' then 1 else 2));
          tx_bytes = tx_bytes_of m;
          context = [(''layer_id'', PInt (int layer)), (''address_scope'', PStr address_scope)] @
            (case place of None \<Rightarrow> []
             | Some (head, _, tile, tile_tokens) \<Rightarrow>
                 [(''head_id'', PInt (int head)), (''head_group_id'', PInt (int head div group_size m)), (''tile_id'', PInt (int tile)),
                  (''tile_start'', PInt tile_start), (''tile_tokens'', PInt tile_tokens)])
      in dupdate (base_record rid kind layer op m)
           (tensor_fields inputs outputs dependencies (p4_context ''host_kv_cache_accounting'' op context) @
            [(''bytes'', PInt total_bytes),
             (''address_policy'', PDict
               [(''kind'', PStr ''structured_host_dram_request_stream''), (''scope'', PStr address_scope),
                (''lowering'', PStr ''structured_replay_regular_dram_request''),
                (''base_byte'', PInt (host_access_base_byte layer (map_option (\<lambda>(_, h, _). h) place) (map_option (\<lambda>(_, _, t, _). t) place)
                   address_scope tile_start tx_bytes)),
                (''stride_bytes'', PInt tx_bytes), (''count'', PInt (max 1 ((total_bytes + tx_bytes - 1) div tx_bytes)))])]))"

section \<open>Barriers, drains and operands\<close>

definition barrier_record :: "string \<Rightarrow> nat \<Rightarrow> string \<Rightarrow> dict \<Rightarrow> dict" where
  "barrier_record rid layer op m =
     dupdate (base_record rid ''Barrier'' layer op m)
       [(''barrier_scope'', PDict [(''kind'', PStr op), (''layer_id'', PInt (int layer)), (''lowering'', PStr ''semantic_ordering_only'')])]"

definition drain_record :: "string \<Rightarrow> nat \<Rightarrow> dict \<Rightarrow> dict" where
  "drain_record rid layer m =
     dupdate (base_record rid ''Drain'' layer ''final_drain'' m)
       [(''drain_scope'', PDict [(''kind'', PStr ''final_drain''), (''layer_id'', PInt (int layer)), (''lowering'', PStr ''semantic_ordering_only'')])]"

text \<open>What an operand record accounts for: role, residency, materialized, scope of reuse, lowering.\<close>

record operand_account =
  oa_role :: string
  oa_residency :: string
  oa_materialized :: bool
  oa_reuse_scope :: string
  oa_lowering :: string

definition semantic_operand_record ::
  "string \<Rightarrow> string \<Rightarrow> nat \<Rightarrow> string \<Rightarrow> dict \<Rightarrow> string \<Rightarrow> string \<Rightarrow> string list \<Rightarrow> string list \<Rightarrow> string list \<Rightarrow>
   operand_account \<Rightarrow> dict \<Rightarrow> dict" where
  "semantic_operand_record rid kind layer op m family stage inputs outputs dependencies a context =
     dupdate (base_record rid kind layer op m)
       (tensor_fields inputs outputs dependencies (p4_context family stage ((''layer_id'', PInt (int layer)) # context)) @
        [(''accounting_metadata'', PDict
           [(''kind'', PStr (if kind = ''PIMOperandResidency'' then ''semantic_only_operand_residency'' else ''semantic_only_operand_reuse'')),
            (''operand_role'', PStr (oa_role a)), (''residency'', PStr (oa_residency a)), (''materialized'', PBool (oa_materialized a)),
            (''reuse_scope'', PStr (oa_reuse_scope a)), (''lowering'', PStr (oa_lowering a))])])"

section \<open>Feed-forward records\<close>

text \<open>The tile of an activation move: its index, elements and start; a weight move has none.\<close>

definition ffn_data_move_record ::
  "string \<Rightarrow> nat \<Rightarrow> dict \<Rightarrow> string \<Rightarrow> nat \<Rightarrow> string list \<Rightarrow> string list \<Rightarrow> string list \<Rightarrow> string \<Rightarrow> string \<Rightarrow> string \<Rightarrow>
   nat \<times> int \<times> int \<Rightarrow> int \<Rightarrow> dict" where
  "ffn_data_move_record rid layer m op stage inputs outputs dependencies role residency reuse_scope = (\<lambda>(tile, tile_elements, tile_start) movement.
     (let is_weight = (role = ''weight'');
          lowering = (if is_weight then ''semantic_only_steady_state_or_host_write_preload'' else ''native_pim_bcast_when_supported'');
          movement_policy =
            [(''movement_kind'', PStr (if is_weight then ''preloaded_stationary_weight_residency'' else ''broadcast_or_accounted_tile_load'')),
             (''lowering_preference'', PStr lowering), (''operand_role'', PStr role), (''residency'', PStr residency),
             (''materialized'', PBool True), (''reuse_scope'', PStr reuse_scope), (''lowering'', PStr lowering),
             (''tile_index'', PInt (int tile)), (''tile_elements'', PInt tile_elements), (''tile_start'', PInt tile_start),
             (''distribution_scope'', if is_weight then PStr ''bank_local_preloaded''
                else dgetd m ''activation_distribution_policy'' (PStr ''broadcast''))] @
            (if 0 < movement then [(''movement_elements'', PInt movement)] else []) @
            (if is_weight then [(''materialization_lowering'', PStr ''regular_host_write_preload_when_materialized'')] else [])
      in dupdate (dupdate (base_record rid ''PIMDataMove'' layer op m)
           (tensor_fields inputs outputs dependencies
              (p4_context (operator_family m) ''data_movement''
                 [(''layer_id'', PInt (int layer)), (''stage_index'', PInt (int stage)), (''tile_id'', PInt (int tile)),
                  (''tile_elements'', PInt tile_elements), (''tile_start'', PInt tile_start)]) @
            [(''movement_policy'', PDict movement_policy),
             (''num_requests'', PInt (if 0 < movement then num_requests movement (item m ''datatype'') else 1)),
             (''datatype_metadata'', datatype_metadata m ''phase4_ffn_operand_movement_metadata''
                (if is_weight \<and> 0 < movement then ''semantic_movement_volume_proportional_not_tiled_or_silicon_faithful''
                 else ''semantic_movement_not_silicon_faithful''))]))
         (ffn_policies m layer stage tile)))"

text \<open>The output and input dimensions of a projection.\<close>

definition projection_dims :: "dict \<Rightarrow> string \<Rightarrow> int option \<Rightarrow> int option \<Rightarrow> int \<times> int" where
  "projection_dims m op input_dim output_dim =
     (let hidden = mint m ''hidden_size''; ffn = mint m ''ffn_hidden_size'' in
      if op \<in> {''ffn_up_projection'', ''ffn_gate_projection''} then (ffn, hidden)
      else if op = ''ffn_down_projection'' then (hidden, ffn)
      else if op = ''o_projection'' then (hidden, case input_dim of None \<Rightarrow> hidden | Some k \<Rightarrow> k)
      else (case output_dim of None \<Rightarrow> hidden | Some n \<Rightarrow> n, hidden))"

definition ATTENTION_PROJECTIONS :: "string list" where
  "ATTENTION_PROJECTIONS = [''q_projection'', ''k_projection'', ''v_projection'', ''o_projection'']"

definition ffn_projection_record ::
  "string \<Rightarrow> nat \<Rightarrow> dict \<Rightarrow> string \<Rightarrow> nat \<Rightarrow> string list \<Rightarrow> string list \<Rightarrow> string list \<Rightarrow> int option \<Rightarrow> int option \<Rightarrow> dict" where
  "ffn_projection_record rid layer m op stage inputs outputs dependencies input_dim output_dim =
     (let seq_len = mint m ''seq_len''; (n, k) = projection_dims m op input_dim output_dim;
          family = (if op \<in> set ATTENTION_PROJECTIONS then ''dense_qkvo_projection'' else operator_family m)
      in dupdate (dupdate (base_record rid ''FFNProjection'' layer op m)
           (tensor_fields inputs outputs dependencies
              (p4_context family op [(''layer_id'', PInt (int layer)), (''stage_index'', PInt (int stage))]) @
            [(''compute_shape'', PDict
               [(''m'', PInt seq_len), (''n'', PInt n), (''k'', PInt k), (''output_elements'', PInt (max 1 (seq_len * n))),
                (''datatype'', item m ''datatype'')]),
             (''num_requests'', PInt (num_requests (seq_len * n * k) (item m ''datatype''))),
             (''bank_sequence'', item (defaults_of m) ''bank_sequence''),
             (''datatype_metadata'', datatype_metadata m ''phase4_ffn_tensor_dag_metadata'' ''explicit_resource_rows_only''),
             (''burst_length'', PInt (mint (defaults_of m) ''burst_length''))]))
         (ffn_policies m layer stage 0))"

definition ffn_elementwise_record ::
  "string \<Rightarrow> nat \<Rightarrow> dict \<Rightarrow> string \<Rightarrow> nat \<Rightarrow> string list \<Rightarrow> string list \<Rightarrow> string list \<Rightarrow> string \<Rightarrow> dict" where
  "ffn_elementwise_record rid layer m op stage inputs outputs dependencies elementwise_kind =
     (let size = (if has m ''expert_hidden_size'' \<and> has m ''num_experts'' then mint m ''expert_hidden_size'' else mint m ''ffn_hidden_size'') in
      dupdate (base_record rid ''PIMElementwise'' layer op m)
        (tensor_fields inputs outputs dependencies
           (p4_context (operator_family m) op [(''layer_id'', PInt (int layer)), (''stage_index'', PInt (int stage))]) @
         [(''accounting_metadata'', PDict
            [(''kind'', PStr elementwise_kind),
             (''activation'', if is_substring ''activation'' elementwise_kind then dgetd m ''activation'' (PStr ''silu'') else PNone),
             (''elements'', PInt (max 1 (mint m ''seq_len'' * size))),
             (''lowering'', PStr ''not_lowered_to_native_opcode_in_p4_3'')])]))"

end
