(* ===== verification/Surrogate_Attention.thy ===== *)
theory Surrogate_Attention
  imports Surrogate_Records
begin

text \<open>
  Attention of \<open>workload_surrogate/generate_full_transformer.py\<close>: the tiles of a sequence, the causal
  pairs of two tiles, and the records of decode (one head after the other, or with independent
  heads interleaved) and of causal prefill. A generator keeps the list of records and the number
  of the next record.
\<close>

section \<open>Tiles\<close>

text \<open>The loop of the code, which ends because a checked tile size is positive.\<close>

function tile_ranges_from :: "int \<Rightarrow> int \<Rightarrow> int \<Rightarrow> (int \<times> int) list" where
  "tile_ranges_from start total_tokens tile_tokens =
     (if start < total_tokens \<and> 0 < tile_tokens
      then let size = min tile_tokens (total_tokens - start) in (start, size) # tile_ranges_from (start + size) total_tokens tile_tokens
      else [])"
  by pat_completeness auto
termination
  by (relation "measure (\<lambda>(start, total_tokens, _). nat (total_tokens - start))") auto

declare tile_ranges_from.simps [simp del]

definition tile_ranges :: "int \<Rightarrow> int \<Rightarrow> (int \<times> int) list" where
  "tile_ranges total_tokens tile_tokens = tile_ranges_from 0 total_tokens tile_tokens"

definition causal_pair_count :: "int \<Rightarrow> int \<Rightarrow> int \<Rightarrow> int \<Rightarrow> int" where
  "causal_pair_count query_start query_tokens key_start key_tokens =
     sum_list (map (\<lambda>q. max 0 (min (key_start + key_tokens) (q + 1) - key_start)) [query_start..query_start + query_tokens - 1])"

section \<open>The state of a generator\<close>

record gen_state =
  gs_records :: "dict list"
  gs_next :: nat

definition gen_start :: gen_state where
  "gen_start = \<lparr>gs_records = [], gs_next = 0\<rparr>"

definition next_rec :: "gen_state \<Rightarrow> string" where
  "next_rec st = rec_id (gs_next st)"

text \<open>\<open>records.append(...)\<close> of a record with the next identifier, and \<open>next_id += 1\<close>.\<close>

definition push :: "(string \<Rightarrow> dict) \<Rightarrow> gen_state \<Rightarrow> gen_state" where
  "push mk st = st\<lparr>gs_records := gs_records st @ [mk (next_rec st)], gs_next := gs_next st + 1\<rparr>"

section \<open>Fields of a record\<close>

definition text_of :: "pyval \<Rightarrow> string" where
  "text_of v = (case v of PStr s \<Rightarrow> s | _ \<Rightarrow> [])"

definition record_id_of :: "dict \<Rightarrow> string" where
  "record_id_of r = text_of (item r ''record_id'')"

definition op_of :: "dict \<Rightarrow> string" where
  "op_of r = text_of (item r ''op'')"

definition deps_of :: "dict \<Rightarrow> string list" where
  "deps_of r = map text_of (py_items (item r ''logical_dependencies''))"

definition sub_of :: "dict \<Rightarrow> string \<Rightarrow> dict" where
  "sub_of r f = (case item r f of PDict d \<Rightarrow> d | _ \<Rightarrow> [])"

text \<open>\<open>record[f][k] = v\<close> and \<open>record["logical_dependencies"] = ds\<close>\<close>

definition put_in :: "string \<Rightarrow> string \<Rightarrow> pyval \<Rightarrow> dict \<Rightarrow> dict" where
  "put_in f k v r = dset f (PDict (dset k v (sub_of r f))) r"

definition set_deps :: "string list \<Rightarrow> dict \<Rightarrow> dict" where
  "set_deps ds r = dset ''logical_dependencies'' (p_strs ds) r"

section \<open>Decode\<close>

definition activation_input :: "string \<Rightarrow> operand_account" where
  "activation_input reuse_scope = \<lparr>oa_role = ''activation_input'', oa_residency = ''pim_visible_operand'', oa_materialized = False,
     oa_reuse_scope = reuse_scope, oa_lowering = ''semantic_only_operand_residency''\<rparr>"

definition emit_q_residency :: "dict \<Rightarrow> nat \<Rightarrow> nat \<Rightarrow> gen_state \<Rightarrow> gen_state" where
  "emit_q_residency m layer head =
     push (\<lambda>rid. semantic_operand_record rid ''PIMOperandResidency'' layer ''q_operand_residency'' m ''attention'' ''operand_residency''
       [in_head layer head ''Q''] [in_head layer head ''Q.pim_visible''] [] (activation_input ''attention_score'')
       [(''head_index'', PInt (int head)), (''distribution_policy'', PStr ''producer_aligned'')])"

text \<open>One tile of scores: the key tile is read, then multiplied. The list collects the score records.\<close>

definition append_score_tile ::
  "dict \<Rightarrow> nat \<Rightarrow> nat \<Rightarrow> gen_state \<times> string list \<Rightarrow> nat \<times> int \<times> int \<Rightarrow> gen_state \<times> string list" where
  "append_score_tile m layer head = (\<lambda>(st, scores) (tile, tile_start, tile_tokens).
     let kv_head = int head div group_size m;
         k_load = next_rec st;
         st = push (\<lambda>rid. host_access_record rid ''HostRead'' layer ''kv_cache_k_tile_read'' m (Some (head, kv_head, tile, tile_tokens)) tile_start
                [in_tile layer head tile ''K''] [in_tile layer head tile ''K.resident''] [] (tile_tokens * mint m ''head_dim'') ''kv_cache_k_tile'') st;
         score = next_rec st;
         st = push (\<lambda>rid. attention_compute_record rid ''AttentionScore'' layer ''attention_score_gemv'' m head tile tile_tokens tile_start None
                [in_head layer head ''Q'', in_tile layer head tile ''K.resident''] [in_tile layer head tile ''score''] [k_load]) st
     in (st, scores @ [score]))"

definition append_attention_scores :: "dict \<Rightarrow> nat \<Rightarrow> nat \<Rightarrow> (int \<times> int) list \<Rightarrow> gen_state \<Rightarrow> gen_state \<times> string list" where
  "append_attention_scores m layer head tiles st =
     foldl (append_score_tile m layer head) (st, []) (enumerate 0 tiles)"

text \<open>The score records read the visible query and depend on its residency.\<close>

definition link_scores :: "dict \<Rightarrow> nat \<Rightarrow> nat \<Rightarrow> string \<Rightarrow> string list \<Rightarrow> gen_state \<Rightarrow> gen_state" where
  "link_scores m layer head q_residency scores st =
     st\<lparr>gs_records := map (\<lambda>r.
       if record_id_of r \<in> set scores then
         let ins = py_items (item (sub_of r ''tensor_io'') ''inputs'');
             r = put_in ''tensor_io'' ''inputs''
               (PList (map (\<lambda>v. if v = PStr (in_head layer head ''Q'') then PStr (in_head layer head ''Q.pim_visible'') else v) ins)) r
         in if q_residency \<in> set (deps_of r) then r else set_deps (q_residency # deps_of r) r
       else r) (gs_records st)\<rparr>"

text \<open>One tile of context: probabilities made visible, value tile read, multiplied.\<close>

definition append_context_tile ::
  "dict \<Rightarrow> nat \<Rightarrow> nat \<Rightarrow> string \<Rightarrow> gen_state \<times> string list \<times> string list \<Rightarrow> nat \<times> int \<times> int \<Rightarrow> gen_state \<times> string list \<times> string list" where
  "append_context_tile m layer head softmax = (\<lambda>(st, ids, tensors) (tile, tile_start, tile_tokens).
     let kv_head = int head div group_size m;
         prob = next_rec st;
         st = push (\<lambda>rid. semantic_operand_record rid ''PIMOperandResidency'' layer ''attention_probability_residency'' m
                ''attention'' ''operand_residency'' [in_tile layer head tile ''probability''] [in_tile layer head tile ''probability.pim_visible'']
                [softmax] (activation_input ''attention_context'')
                [(''head_index'', PInt (int head)), (''tile_index'', PInt (int tile)), (''distribution_policy'', PStr ''producer_aligned'')]) st;
         v_load = next_rec st;
         st = push (\<lambda>rid. host_access_record rid ''HostRead'' layer ''kv_cache_v_tile_read'' m (Some (head, kv_head, tile, tile_tokens)) tile_start
                [in_tile layer head tile ''V''] [in_tile layer head tile ''V.resident''] [softmax] (tile_tokens * mint m ''head_dim'')
                ''kv_cache_v_tile'') st;
         ctx = next_rec st;
         st = push (\<lambda>rid. attention_compute_record rid ''AttentionContext'' layer ''attention_context_gemv'' m head tile tile_tokens tile_start None
                [in_tile layer head tile ''probability.pim_visible'', in_tile layer head tile ''V.resident''] [in_tile layer head tile ''context'']
                [prob, softmax, v_load]) st
     in (st, ids @ [ctx], tensors @ [in_tile layer head tile ''context'']))"

definition append_attention_contexts ::
  "dict \<Rightarrow> nat \<Rightarrow> nat \<Rightarrow> (int \<times> int) list \<Rightarrow> string list \<Rightarrow> gen_state \<Rightarrow> gen_state" where
  "append_attention_contexts m layer head tiles scores st =
     (let softmax = next_rec st;
          names = (\<lambda>s. map (\<lambda>t. in_tile layer head t s) [0..<length tiles]);
          st = push (\<lambda>rid. softmax_record rid layer m head 0 (mint m ''past_len'') 0 (names ''score'') (names ''probability'') scores) st;
          (st, ids, tensors) = foldl (append_context_tile m layer head softmax) (st, [], []) (enumerate 0 tiles)
      in if 1 < length ids
         then push (\<lambda>rid. context_reduction_record rid layer m head ids tensors (in_head layer head ''context_reduced'') [] (mint m ''seq_len'')) st
         else st)"

definition head_tiles :: "dict \<Rightarrow> (int \<times> int) list" where
  "head_tiles m = tile_ranges (mint m ''past_len'') (mint m ''score_tile_tokens'')"

text \<open>The scores of one head, linked to its query; the identifiers of the scores are returned.\<close>

definition head_scores :: "dict \<Rightarrow> nat \<Rightarrow> nat \<Rightarrow> gen_state \<Rightarrow> gen_state \<times> string list" where
  "head_scores m layer head st =
     (let q_residency = next_rec st;
          (st, scores) = append_attention_scores m layer head (head_tiles m) (emit_q_residency m layer head st)
      in (link_scores m layer head q_residency scores st, scores))"

definition serial_head :: "dict \<Rightarrow> nat \<Rightarrow> gen_state \<Rightarrow> nat \<Rightarrow> gen_state" where
  "serial_head m layer st head =
     (let (st, scores) = head_scores m layer head st in append_attention_contexts m layer head (head_tiles m) scores st)"

definition layers_of :: "dict \<Rightarrow> nat list" where
  "layers_of m = [0..<nat (mint m ''num_layers'')]"

definition heads_of :: "dict \<Rightarrow> nat list" where
  "heads_of m = [0..<nat (mint m ''num_heads'')]"

definition serial_attention :: "dict \<Rightarrow> gen_state" where
  "serial_attention m = foldl (\<lambda>st layer. foldl (serial_head m layer) st (heads_of m)) gen_start (layers_of m)"

text \<open>With independent heads, the scores of all heads of a layer come first.\<close>

definition overlapped_layer :: "dict \<Rightarrow> gen_state \<Rightarrow> nat \<Rightarrow> gen_state" where
  "overlapped_layer m st layer =
     (let (st, scores) = foldl (\<lambda>(st, by_head) head. let (st, ids) = head_scores m layer head st in (st, by_head @ [ids])) (st, []) (heads_of m)
      in foldl (\<lambda>st head. append_attention_contexts m layer head (head_tiles m) (scores ! head) st) st (heads_of m))"

definition add_dag_hint :: "string \<Rightarrow> dict list \<Rightarrow> dict list" where
  "add_dag_hint hint rs = map (put_in ''operator_context'' ''dag_hint'' (PStr hint)) rs"

definition overlapped_attention :: "dict \<Rightarrow> dict list" where
  "overlapped_attention m =
     add_dag_hint ''heads_are_independent_safe_to_parallelize'' (gs_records (foldl (overlapped_layer m) gen_start (layers_of m)))"

section \<open>Prefill\<close>

text \<open>A query tile of a head: its number, start and tokens, and its tensor once visible.\<close>

definition in_query :: "nat \<Rightarrow> nat \<Rightarrow> nat \<Rightarrow> nat \<Rightarrow> string \<Rightarrow> string" where
  "in_query l h q k s = in_head l h (''Q'' @ digits_of q @ ''.K'' @ digits_of k @ ''.'' @ s)"

definition tile_tensor :: "nat \<Rightarrow> nat \<Rightarrow> string \<Rightarrow> nat \<Rightarrow> string" where
  "tile_tensor l h x t = in_head l h (x @ ''.T'' @ digits_of t)"

definition prefill_residency ::
  "string \<Rightarrow> string \<Rightarrow> string list \<Rightarrow> string \<Rightarrow> dict \<Rightarrow> dict \<Rightarrow> nat \<Rightarrow> gen_state \<Rightarrow> gen_state" where
  "prefill_residency op tensor dependencies reuse_scope context m layer =
     push (\<lambda>rid. semantic_operand_record rid ''PIMOperandResidency'' layer op m ''attention'' ''operand_residency''
       [tensor] [tensor @ ''.pim_visible''] dependencies (activation_input reuse_scope) context)"

record prefill_scores =
  ps_state :: gen_state
  ps_ids :: "string list"
  ps_tensors :: "string list"
  ps_tiles :: "(nat \<times> int \<times> int \<times> int) list"

text \<open>One key tile of a query tile; a tile with no causal pair is skipped.\<close>

definition prefill_score_tile ::
  "dict \<Rightarrow> nat \<Rightarrow> nat \<Rightarrow> nat \<Rightarrow> int \<Rightarrow> int \<Rightarrow> string \<Rightarrow> prefill_scores \<Rightarrow> nat \<times> int \<times> int \<Rightarrow> prefill_scores" where
  "prefill_score_tile m layer head q_tile q_start q_tokens q_residency ps = (\<lambda>(k_tile, k_start, k_tokens).
     let pairs = causal_pair_count q_start q_tokens k_start k_tokens in
     if pairs \<le> 0 then ps
     else
       let k_tensor = tile_tensor layer head ''K'' k_tile;
           k_residency = next_rec (ps_state ps);
           st = prefill_residency ''k_prefill_tile_residency'' k_tensor [] ''prefill_attention_score''
                  [(''head_index'', PInt (int head)), (''tile_index'', PInt (int k_tile)), (''tile_start'', PInt k_start)] m layer (ps_state ps);
           score = next_rec st;
           tensor = in_query layer head q_tile k_tile ''score'';
           st = push (\<lambda>rid. attention_compute_record rid ''AttentionScore'' layer ''attention_score_gemm'' m head k_tile k_tokens k_start
                  (Some (q_tokens, pairs, k_start, q_start))
                  [tile_tensor layer head ''Q'' q_tile @ ''.pim_visible'', k_tensor @ ''.pim_visible''] [tensor] [q_residency, k_residency]) st
       in \<lparr>ps_state = st, ps_ids = ps_ids ps @ [score], ps_tensors = ps_tensors ps @ [tensor],
           ps_tiles = ps_tiles ps @ [(k_tile, k_start, k_tokens, pairs)]\<rparr>)"

definition prefill_context_tile ::
  "dict \<Rightarrow> nat \<Rightarrow> nat \<Rightarrow> nat \<Rightarrow> int \<Rightarrow> int \<Rightarrow> string \<Rightarrow> gen_state \<times> string list \<times> string list \<Rightarrow>
   (nat \<times> int \<times> int \<times> int) \<times> string \<Rightarrow> gen_state \<times> string list \<times> string list" where
  "prefill_context_tile m layer head q_tile q_start q_tokens softmax = (\<lambda>(st, ids, tensors) ((k_tile, k_start, k_tokens, pairs), prob_tensor).
     let prob = next_rec st;
         st = prefill_residency ''attention_probability_residency'' prob_tensor [softmax] ''prefill_attention_context''
                [(''head_index'', PInt (int head)), (''query_tile_index'', PInt (int q_tile)), (''tile_index'', PInt (int k_tile))] m layer st;
         v_tensor = tile_tensor layer head ''V'' k_tile;
         v_residency = next_rec st;
         st = prefill_residency ''v_prefill_tile_residency'' v_tensor [] ''prefill_attention_context''
                [(''head_index'', PInt (int head)), (''tile_index'', PInt (int k_tile)), (''tile_start'', PInt k_start)] m layer st;
         ctx = next_rec st;
         tensor = in_query layer head q_tile k_tile ''context'';
         st = push (\<lambda>rid. attention_compute_record rid ''AttentionContext'' layer ''attention_context_gemm'' m head k_tile k_tokens k_start
                (Some (q_tokens, pairs, k_start, q_start)) [prob_tensor @ ''.pim_visible'', v_tensor @ ''.pim_visible''] [tensor]
                [prob, softmax, v_residency]) st
     in (st, ids @ [ctx], tensors @ [tensor]))"

text \<open>The softmax of a query tile covers its causal pairs.\<close>

definition prefill_softmax_record ::
  "string \<Rightarrow> nat \<Rightarrow> dict \<Rightarrow> nat \<Rightarrow> nat \<Rightarrow> int \<Rightarrow> int \<Rightarrow> int \<Rightarrow> string list \<Rightarrow> string list \<Rightarrow> string list \<Rightarrow> dict" where
  "prefill_softmax_record rid layer m head q_tile q_start q_tokens pairs scores probabilities ids =
     put_in ''accounting_metadata'' ''elements'' (PInt pairs)
      (put_in ''operator_context'' ''causal_pair_count'' (PInt pairs)
        (put_in ''operator_context'' ''softmax_causal_span_tokens'' (PInt (q_start + q_tokens))
          (put_in ''operator_context'' ''query_start'' (PInt q_start)
            (put_in ''operator_context'' ''attention_mode'' (PStr ''causal_prefill'')
              (softmax_record rid layer m head q_tile q_tokens q_start scores probabilities ids)))))"

text \<open>One query tile of a head; the pairs it covers are added to those observed so far.\<close>

definition prefill_query_tile ::
  "dict \<Rightarrow> nat \<Rightarrow> nat \<Rightarrow> (int \<times> int) list \<Rightarrow> gen_state \<times> int \<Rightarrow> nat \<times> int \<times> int \<Rightarrow> gen_state \<times> int" where
  "prefill_query_tile m layer head kv_tiles = (\<lambda>(st, observed) (q_tile, q_start, q_tokens).
     let q_residency = next_rec st;
         st = prefill_residency ''q_operand_residency'' (tile_tensor layer head ''Q'' q_tile) [] ''prefill_attention_score''
                [(''head_index'', PInt (int head)), (''query_tile_index'', PInt (int q_tile)), (''query_start'', PInt q_start)] m layer st;
         ps = foldl (prefill_score_tile m layer head q_tile q_start q_tokens q_residency)
                \<lparr>ps_state = st, ps_ids = [], ps_tensors = [], ps_tiles = []\<rparr> (enumerate 0 kv_tiles);
         pairs = sum_list (map (\<lambda>(_, _, _, n). n) (ps_tiles ps));
         probabilities = map (str_replace ''.score'' ''.probability'') (ps_tensors ps);
         softmax = next_rec (ps_state ps);
         st = push (\<lambda>rid. prefill_softmax_record rid layer m head q_tile q_start q_tokens pairs (ps_tensors ps) probabilities (ps_ids ps)) (ps_state ps);
         (st, ids, tensors) = foldl (prefill_context_tile m layer head q_tile q_start q_tokens softmax) (st, [], []) (zip (ps_tiles ps) probabilities);
         st = (if 1 < length ids
               then push (\<lambda>rid. context_reduction_record rid layer m head ids tensors
                      (in_head layer head (''Q'' @ digits_of q_tile @ ''.context_reduced''))
                      [(''query_tile_index'', PInt (int q_tile)), (''query_start'', PInt q_start)] q_tokens) st
               else st)
     in (st, observed + pairs))"

definition prefill_head :: "dict \<Rightarrow> nat \<Rightarrow> gen_state \<Rightarrow> nat \<Rightarrow> gen_error + gen_state" where
  "prefill_head m layer st head =
     (let n = mint m ''seq_len'';
          (st, observed) = foldl (prefill_query_tile m layer head (tile_ranges n (mint m ''context_tile_tokens''))) (st, 0)
            (enumerate 0 (tile_ranges n (mint m ''score_tile_tokens'')))
      in if observed \<noteq> n * (n + 1) div 2 then Inl (GValue ''pair count'') else Inr st)"

definition generate_prefill_attention_records :: "dict \<Rightarrow> gen_error + dict list" where
  "generate_prefill_attention_records m =
     rbind (validate_attention_manifest m) (\<lambda>_.
     rbind (require (item m ''phase'' = PStr ''prefill'') (GValue ''phase'')) (\<lambda>_.
     rbind (readable_policies m) (\<lambda>_.
     rbind (rfold (\<lambda>st layer. rfold (prefill_head m layer) st (heads_of m)) gen_start (layers_of m)) (\<lambda>st.
     validate_all (gs_records st)))))"

definition generate_attention_records :: "dict \<Rightarrow> gen_error + dict list" where
  "generate_attention_records m =
     rbind (validate_attention_manifest m) (\<lambda>_.
     if item m ''phase'' = PStr ''prefill'' then generate_prefill_attention_records m
     else rbind (readable_policies m) (\<lambda>_. rbind (readable_host m) (\<lambda>_.
       if item m ''schedule_policy'' = PStr ''overlap_independent_heads'' then validate_all (overlapped_attention m)
       else validate_all (gs_records (serial_attention m)))))"

end
