(* ===== verification/Surrogate_Layers.thy ===== *)
theory Surrogate_Layers
  imports Surrogate_Attention
begin

text \<open>
  The rest of the dense decoder of \<open>workload_surrogate/generate_full_transformer.py\<close>: the
  feed-forward records, the projections and cache writes around attention, and the composition of
  layers. A layer is generated as layer zero, renumbered, and retargeted by rewriting its strings.
\<close>

section \<open>Feed-forward network\<close>

definition is_gated :: "dict \<Rightarrow> bool" where
  "is_gated m = (case ffn_variant m of Inr v \<Rightarrow> v \<in> {FFN_VARIANT_SWIGLU_3PROJ, FFN_VARIANT_GEGLU_3PROJ} | Inl _ \<Rightarrow> False)"

text \<open>One move per tile of the hidden activation; identifiers and resident tensors are collected.\<close>

definition hidden_setup ::
  "dict \<Rightarrow> nat \<Rightarrow> gen_state \<times> string list \<times> string list \<Rightarrow> nat \<times> int \<times> int \<Rightarrow> gen_state \<times> string list \<times> string list" where
  "hidden_setup m layer = (\<lambda>(st, ids, tensors) (tile, tile_start, tile_elements).
     let hidden = in_layer layer (''T'' @ digits_of tile @ ''.hidden''); setup = next_rec st in
     (push (\<lambda>rid. ffn_data_move_record rid layer m ''ffn_hidden_activation_tile_setup'' 0 [hidden] [hidden @ ''.resident''] []
        ''activation_input'' ''dynamic_activation_tile'' ''ffn_layer'' (tile, tile_elements, tile_start) 0) st,
      ids @ [setup], tensors @ [hidden @ ''.resident'']))"

definition ffn_weights :: "dict \<Rightarrow> string list" where
  "ffn_weights m = [''up''] @ (if is_gated m then [''gate''] else []) @ [''down'']"

definition weight_tensor :: "nat \<Rightarrow> string \<Rightarrow> string" where
  "weight_tensor layer w = in_layer layer (''ffn.'' @ w @ ''_weight'')"

definition weight_residency :: "dict \<Rightarrow> nat \<Rightarrow> gen_state \<times> (string \<times> string) list \<Rightarrow> nat \<times> string \<Rightarrow> gen_state \<times> (string \<times> string) list" where
  "weight_residency m layer = (\<lambda>(st, ids) (offset, w).
     (push (\<lambda>rid. ffn_data_move_record rid layer m (''ffn_'' @ w @ ''_weight_residency'') offset [weight_tensor layer w]
        [weight_tensor layer w @ ''.resident''] [] ''weight'' ''preloaded_stationary'' (''ffn_'' @ w @ ''_projection'') (0, 0, 0)
        (mint m ''hidden_size'' * mint m ''ffn_hidden_size'')) st,
      ids @ [(w, next_rec st)]))"

text \<open>The residency of an intermediate tensor between two stages.\<close>

definition intermediate_residency ::
  "dict \<Rightarrow> nat \<Rightarrow> string \<Rightarrow> string \<Rightarrow> string list \<Rightarrow> string \<Rightarrow> gen_state \<Rightarrow> gen_state" where
  "intermediate_residency m layer op tensor dependencies reuse_scope =
     push (\<lambda>rid. semantic_operand_record rid ''PIMOperandResidency'' layer op m (operator_family m) ''operand_residency''
       [tensor] [tensor @ ''.pim_visible''] dependencies
       \<lparr>oa_role = ''activation_intermediate'', oa_residency = ''pim_visible_operand'', oa_materialized = False,
         oa_reuse_scope = reuse_scope, oa_lowering = ''semantic_only_operand_residency''\<rparr>
       [(''distribution_policy'', PStr ''producer_aligned'')])"

text \<open>
  The activation of a gated network (gate projection, activation, product with the up projection)
  and of a plain one. Returned with the state: the tensor, its producer and the stage number.
\<close>

definition gated_activation :: "dict \<Rightarrow> nat \<Rightarrow> string \<Rightarrow> string \<Rightarrow> string \<Rightarrow> gen_state \<Rightarrow> gen_state \<times> string \<times> string \<times> nat" where
  "gated_activation m layer hidden_reuse gate_weight up_residency st =
     (let n = (\<lambda>s. in_layer layer (''ffn.'' @ s));
          gate = next_rec st;
          st = push (\<lambda>rid. ffn_projection_record rid layer m ''ffn_gate_projection'' 1
                 [in_layer layer ''hidden.reused_for_up_gate'', weight_tensor layer ''gate'' @ ''.resident''] [n ''gate_intermediate'']
                 [hidden_reuse, gate_weight] None None) st;
          gate_residency = next_rec st;
          st = intermediate_residency m layer ''ffn_gate_intermediate_residency'' (n ''gate_intermediate'') [gate] ''ffn_gate_activation'' st;
          activation = next_rec st;
          st = push (\<lambda>rid. ffn_elementwise_record rid layer m ''ffn_gate_activation_accounting'' 2 [n ''gate_intermediate.pim_visible'']
                 [n ''activated_gate''] [gate_residency] ''semantic_only_activation'') st;
          activated_residency = next_rec st;
          st = intermediate_residency m layer ''ffn_activated_gate_residency'' (n ''activated_gate'') [activation] ''ffn_gated_multiply'' st;
          gated = next_rec st;
          st = push (\<lambda>rid. ffn_elementwise_record rid layer m ''ffn_gated_multiply_accounting'' 3
                 [n ''activated_gate.pim_visible'', n ''up_intermediate.pim_visible''] [n ''gated_multiply'']
                 [activated_residency, up_residency] ''semantic_only_gated_multiply'') st
      in (st, n ''gated_multiply'', gated, 4))"

definition relu_activation :: "dict \<Rightarrow> nat \<Rightarrow> string \<Rightarrow> gen_state \<Rightarrow> gen_state \<times> string \<times> string \<times> nat" where
  "relu_activation m layer up_residency st =
     (let n = (\<lambda>s. in_layer layer (''ffn.'' @ s)) in
      (push (\<lambda>rid. ffn_elementwise_record rid layer m ''ffn_relu_activation_accounting'' 1 [n ''up_intermediate.pim_visible'']
         [n ''relu_intermediate''] [up_residency] ''semantic_only_activation'') st,
       n ''relu_intermediate'', next_rec st, 2))"

definition ffn_layer :: "dict \<Rightarrow> gen_state \<Rightarrow> nat \<Rightarrow> gen_state" where
  "ffn_layer m st layer =
     (let gated = is_gated m; n = (\<lambda>s. in_layer layer (''ffn.'' @ s));
          reused = in_layer layer (if gated then ''hidden.reused_for_up_gate'' else ''hidden.reused_for_up_projection'');
          (st, setups, residents) = foldl (hidden_setup m layer) (st, [], [])
            (enumerate 0 (tile_ranges (mint m ''hidden_size'') (mint m ''ffn_activation_tile_size'')));
          (st, weights) = foldl (weight_residency m layer) (st, []) (enumerate 0 (ffn_weights m));
          hidden_reuse = next_rec st;
          st = push (\<lambda>rid. semantic_operand_record rid ''PIMOperandReuse'' layer
                 (if gated then ''ffn_hidden_reuse_for_up_gate'' else ''ffn_hidden_reuse_for_up_projection'') m (operator_family m)
                 ''operand_reuse'' residents [reused] setups
                 \<lparr>oa_role = ''activation_input'', oa_residency = ''dynamic_activation_tile'', oa_materialized = False,
                   oa_reuse_scope = (if gated then ''ffn_up_gate_pair'' else ''ffn_up_projection''), oa_lowering = ''semantic_only_operand_reuse''\<rparr>
                 [(''stage_index'', PInt 0)]) st;
          up = next_rec st;
          st = push (\<lambda>rid. ffn_projection_record rid layer m ''ffn_up_projection'' 0 [reused, weight_tensor layer ''up'' @ ''.resident'']
                 [n ''up_intermediate''] [hidden_reuse, dgetd weights ''up'' []] None None) st;
          up_residency = next_rec st;
          st = intermediate_residency m layer ''ffn_up_intermediate_residency'' (n ''up_intermediate'') [up]
                 (if gated then ''ffn_gated_multiply'' else ''ffn_down_projection'') st;
          (st, tensor, producer, stage) =
            (if gated then gated_activation m layer hidden_reuse (dgetd weights ''gate'' []) up_residency st
             else relu_activation m layer up_residency st);
          residency = next_rec st;
          st = push (\<lambda>rid. semantic_operand_record rid ''PIMOperandResidency'' layer ''ffn_intermediate_bank_local_residency'' m
                 (operator_family m) ''operand_residency'' [tensor] [tensor @ ''.bank_local''] [producer]
                 \<lparr>oa_role = ''activation_intermediate'', oa_residency = ''bank_local_capacity_controlled'', oa_materialized = False,
                   oa_reuse_scope = ''ffn_down_projection'', oa_lowering = ''semantic_only_bank_local_capacity_controlled_operand''\<rparr>
                 [(''stage_index'', PInt (int stage))]) st
      in push (\<lambda>rid. ffn_projection_record rid layer m ''ffn_down_projection'' stage
           [tensor @ ''.bank_local'', weight_tensor layer ''down'' @ ''.resident''] [in_layer layer ''hidden_out'']
           [residency, dgetd weights ''down'' []] None None) st)"

definition generate_ffn_records :: "dict \<Rightarrow> gen_error + dict list" where
  "generate_ffn_records m =
     rbind (validate_ffn_manifest m) (\<lambda>_.
     rbind (readable_policies m) (\<lambda>_.
     validate_all (gs_records (foldl (ffn_layer m) gen_start (layers_of m)))))"

section \<open>Around attention\<close>

definition qkv_projections :: "(nat \<times> string \<times> string) list" where
  "qkv_projections = [(0, ''q_projection'', ''Q''), (1, ''k_projection'', ''K''), (2, ''v_projection'', ''V'')]"

definition qkv_layer :: "dict \<Rightarrow> int option \<Rightarrow> int \<Rightarrow> gen_state \<Rightarrow> nat \<Rightarrow> gen_state" where
  "qkv_layer m q_dim kv_dim st layer =
     foldl (\<lambda>st (stage, op, out).
       push (\<lambda>rid. ffn_projection_record rid layer m op stage [in_layer layer ''hidden'', in_layer layer (op @ ''.weight.resident'')]
         [in_layer layer out] [] None (if op \<in> {''k_projection'', ''v_projection''} then Some kv_dim else q_dim)) st)
       st qkv_projections"

text \<open>The output sizes of the projections; the query one is the hidden size when it is not given.\<close>

definition qkv_projection_records :: "dict \<Rightarrow> int option \<Rightarrow> int \<Rightarrow> gen_error + dict list" where
  "qkv_projection_records m q_dim kv_dim =
     rbind (readable_policies m) (\<lambda>_.
     validate_all (gs_records (foldl (qkv_layer m q_dim kv_dim) gen_start (layers_of m))))"

definition output_projection_records :: "dict \<Rightarrow> int option \<Rightarrow> gen_error + dict list" where
  "output_projection_records m q_dim =
     rbind (readable_policies m) (\<lambda>_.
     validate_all (gs_records (foldl (\<lambda>st layer.
       push (\<lambda>rid. ffn_projection_record rid layer m ''o_projection'' 3
         [in_layer layer ''attention_context'', in_layer layer ''o_projection.weight.resident''] [in_layer layer ''attention_output''] []
         q_dim None) st) gen_start (layers_of m))))"

text \<open>The two cache writes of a layer: operation, tensor, suffix of the written tensor.\<close>

definition cache_writes :: "dict \<Rightarrow> (string \<times> string) list \<Rightarrow> string \<Rightarrow> int \<Rightarrow> gen_error + dict list" where
  "cache_writes m ops suffix_name byte_elements =
     rbind (readable_host m) (\<lambda>_.
     validate_all (gs_records (foldl (\<lambda>st layer. foldl (\<lambda>st (op, tensor).
       push (\<lambda>rid. host_access_record rid ''HostWrite'' layer op m None 0 [in_layer layer tensor]
         [in_layer layer (''kv_cache.'' @ tensor @ suffix_name)] [] byte_elements op) st) st ops) gen_start (layers_of m))))"

definition kv_cache_write_records :: "dict \<Rightarrow> gen_error + dict list" where
  "kv_cache_write_records m =
     rbind (m_int m ''hidden_size'') (\<lambda>hidden.
     rbind (attention_num_kv_heads m) (\<lambda>kv.
     rbind (g_int ''head_dim'' (dgetd m ''head_dim'' (PInt (hidden div max 1 kv)))) (\<lambda>hd.
     cache_writes m [(''kv_cache_k_append'', ''K''), (''kv_cache_v_append'', ''V'')] ''.current_token'' (kv * hd))))"

definition prefill_cache_write_records :: "dict \<Rightarrow> gen_error + dict list" where
  "prefill_cache_write_records m =
     rbind (m_int m ''seq_len'') (\<lambda>prompt.
     rbind (attention_num_kv_heads m) (\<lambda>kv.
     rbind (m_int m ''head_dim'') (\<lambda>hd.
     cache_writes m [(''kv_cache_k_prefill_population'', ''K''), (''kv_cache_v_prefill_population'', ''V'')] ''.prefill_tokens''
       (prompt * kv * hd))))"

section \<open>Renumbering and retargeting\<close>

text \<open>\<open>id_map\<close> of \<open>_renumber_records\<close>: the new identifier of each old one, the last assignment winning.\<close>

definition id_map :: "dict list \<Rightarrow> nat \<Rightarrow> (string \<times> string) list" where
  "id_map rs start = dupdate [] (map (\<lambda>(i, r). (record_id_of r, rec_id (start + i))) (enumerate 0 rs))"

definition renumber_records :: "dict list \<Rightarrow> nat \<Rightarrow> dict list \<times> nat" where
  "renumber_records rs start =
     (let ids = id_map rs start in
      (map (\<lambda>r. set_deps (map (\<lambda>d. dgetd ids d d) (deps_of r)) (dset ''record_id'' (PStr (dgetd ids (record_id_of r) [])) r)) rs,
       start + length rs))"

text \<open>\<open>retarget\<close>: the strings of a value, at any depth; the keys of dictionaries stay.\<close>

definition retarget_string :: "nat \<Rightarrow> string \<Rightarrow> string" where
  "retarget_string layer s = str_replace ''L0.'' (''L'' @ digits_of layer @ ''.'') (str_replace ''layer_00'' (layer_name layer) s)"

function (sequential) retarget_value :: "nat \<Rightarrow> pyval \<Rightarrow> pyval" where
  "retarget_value layer (PStr s) = PStr (retarget_string layer s)"
| "retarget_value layer (PList xs) = PList (map (retarget_value layer) xs)"
| "retarget_value layer (PDict d) = PDict (map (\<lambda>kv. (fst kv, retarget_value layer (snd kv))) d)"
| "retarget_value layer v = v"
  by pat_completeness auto
termination
  by (relation "measure (\<lambda>p. size (snd p))") (use size_value size_element in force)+

definition retarget_record :: "nat \<Rightarrow> dict \<Rightarrow> dict" where
  "retarget_record layer r =
     foldl (\<lambda>r f. if has r f then put_in f ''layer_id'' (PInt (int layer)) r else r)
       (map (\<lambda>kv. (fst kv, retarget_value layer (snd kv))) r) [''operator_context'', ''barrier_scope'', ''drain_scope'']"

definition one_layer_manifest :: "dict \<Rightarrow> dict" where
  "one_layer_manifest m = dset ''num_layers'' (PInt 1) m"

text \<open>The records that no reduction consumes: reductions, then the contexts without one.\<close>

definition is_reduction :: "dict \<Rightarrow> bool" where
  "is_reduction r \<longleftrightarrow> kind_of r = ''PIMElementwise'' \<and> op_of r = ''attention_context_reduction_accounting''"

definition terminal_attention_ids :: "dict list \<Rightarrow> string list" where
  "terminal_attention_ids rs =
     (let reduced = concat (map deps_of (filter is_reduction rs)) in
      map record_id_of (filter is_reduction rs) @
      map record_id_of (filter (\<lambda>r. kind_of r = ''AttentionContext'' \<and> record_id_of r \<notin> set reduced) rs))"

definition outputs_of :: "dict \<Rightarrow> string list" where
  "outputs_of r = map text_of (py_items (item (sub_of r ''tensor_io'') ''outputs''))"

definition terminal_tensors :: "dict list \<Rightarrow> string list" where
  "terminal_tensors rs = concat (map outputs_of (filter (\<lambda>r. record_id_of r \<in> set (terminal_attention_ids rs)) rs))"

section \<open>Layers\<close>

text \<open>
  A layer is put together from parts, each a list of records numbered from zero. A part is
  renumbered from the next free identifier and retargeted to the layer.
\<close>

definition place_part :: "nat \<Rightarrow> dict list \<Rightarrow> nat \<Rightarrow> dict list \<times> nat" where
  "place_part layer rs next = (let (rs, next) = renumber_records rs next in (map (retarget_record layer) rs, next))"

definition id_of_op :: "dict list \<Rightarrow> string \<Rightarrow> string" where
  "id_of_op rs op = record_id_of (hd (filter (\<lambda>r. op_of r = op) rs))"

definition relink :: "(string \<times> string list) list \<Rightarrow> dict \<Rightarrow> dict" where
  "relink by_op r = (case dget by_op (op_of r) of None \<Rightarrow> r | Some ds \<Rightarrow> set_deps ds r)"

definition is_q_residency :: "dict \<Rightarrow> bool" where
  "is_q_residency r \<longleftrightarrow> kind_of r = ''PIMOperandResidency'' \<and> op_of r = ''q_operand_residency''"

definition set_first_input :: "string \<Rightarrow> dict \<Rightarrow> dict" where
  "set_first_input s r =
     put_in ''tensor_io'' ''inputs'' (PList ((py_items (item (sub_of r ''tensor_io'') ''inputs''))[0 := PStr s])) r"

definition set_inputs :: "string list \<Rightarrow> dict \<Rightarrow> dict" where
  "set_inputs ss r = put_in ''tensor_io'' ''inputs'' (p_strs ss) r"

definition set_outputs :: "string list \<Rightarrow> dict \<Rightarrow> dict" where
  "set_outputs ss r = put_in ''tensor_io'' ''outputs'' (p_strs ss) r"

text \<open>
  Decode: the query residencies of the heads are replaced by the first one, which serves them
  all, and the other ones are removed.
\<close>

definition link_decode_record :: "nat \<Rightarrow> string \<Rightarrow> string \<Rightarrow> string \<Rightarrow> string list \<Rightarrow> dict \<Rightarrow> dict" where
  "link_decode_record layer q_id k_append v_append residencies r =
     (let canonical = [q_id] @ take 1 residencies in
      if kind_of r = ''AttentionScore'' then
        set_deps (canonical @ filter (\<lambda>d. d \<notin> set residencies \<and> d \<notin> set canonical) (deps_of r))
          (set_first_input (in_layer layer ''Q.pim_visible'') r)
      else if is_q_residency r then
        (if [record_id_of r] = take 1 residencies
         then set_deps [q_id] (set_outputs [in_layer layer ''Q.pim_visible''] (set_inputs [in_layer layer ''Q''] r)) else r)
      else if op_of r = ''kv_cache_k_tile_read'' then set_deps [k_append] r
      else if op_of r = ''kv_cache_v_tile_read'' then set_deps (v_append # deps_of r) r
      else r)"

definition link_decode :: "nat \<Rightarrow> string \<Rightarrow> string \<Rightarrow> string \<Rightarrow> dict list \<Rightarrow> dict list" where
  "link_decode layer q_id k_append v_append rs =
     (let residencies = map record_id_of (filter is_q_residency rs) in
      filter (\<lambda>r. \<not> (is_q_residency r \<and> [record_id_of r] \<noteq> take 1 residencies))
        (map (link_decode_record layer q_id k_append v_append residencies) rs))"

definition link_prefill_record :: "nat \<Rightarrow> string \<Rightarrow> string \<Rightarrow> string \<Rightarrow> dict \<Rightarrow> dict" where
  "link_prefill_record layer q_id k_id v_id r =
     (if kind_of r \<noteq> ''PIMOperandResidency'' then r
      else if op_of r = ''q_operand_residency'' then set_deps [q_id] (set_inputs [in_layer layer ''Q''] r)
      else if op_of r = ''k_prefill_tile_residency'' then set_deps [k_id] (set_inputs [in_layer layer ''K''] r)
      else if op_of r = ''v_prefill_tile_residency'' then set_deps [v_id] (set_inputs [in_layer layer ''V''] r)
      else r)"

definition link_output :: "nat \<Rightarrow> dict list \<Rightarrow> dict list \<Rightarrow> dict list" where
  "link_output layer attention rs =
     (case rs of [] \<Rightarrow> []
      | r # rs \<Rightarrow> set_deps (terminal_attention_ids attention)
          (set_inputs (terminal_tensors attention @ [in_layer layer ''o_projection.weight.resident'']) r) # rs)"

text \<open>The first operand of the part behind attention, named by its operation, is the output of attention.\<close>

definition link_ffn :: "string \<Rightarrow> nat \<Rightarrow> string \<Rightarrow> dict list \<Rightarrow> dict list" where
  "link_ffn first_op layer o_id rs =
     map (\<lambda>r. if op_of r = first_op
       then set_deps [o_id] (set_inputs [in_layer layer ''attention_output''] r) else r) rs"

text \<open>The parts that all layers share; attention and cache writes depend on the phase.\<close>

record layer_parts =
  lp_qkv :: "dict list"
  lp_cache :: "dict list"
  lp_attention :: "dict list"
  lp_output :: "dict list"
  lp_ffn :: "dict list"

definition decoder_layer :: "bool \<Rightarrow> string \<Rightarrow> dict \<Rightarrow> layer_parts \<Rightarrow> gen_state \<Rightarrow> nat \<Rightarrow> gen_state" where
  "decoder_layer prefill first_op m parts st layer =
     (let n0 = gs_next st;
          (start, n1) = renumber_records [barrier_record ''rec_0000'' layer ''layer_start'' m] n0;
          (qkv, n2) = place_part layer (lp_qkv parts) n1;
          q_id = id_of_op qkv ''q_projection''; k_id = id_of_op qkv ''k_projection''; v_id = id_of_op qkv ''v_projection'';
          (cache, n3) = place_part layer (lp_cache parts) n2;
          cache = map (relink (if prefill then [(''kv_cache_k_prefill_population'', [k_id]), (''kv_cache_v_prefill_population'', [v_id])]
                               else [(''kv_cache_k_append'', [k_id]), (''kv_cache_v_append'', [v_id])])) cache;
          (attention, n4) = place_part layer (lp_attention parts) n3;
          attention = (if prefill then map (link_prefill_record layer q_id k_id v_id) attention
                       else link_decode layer q_id (id_of_op cache ''kv_cache_k_append'') (id_of_op cache ''kv_cache_v_append'') attention);
          (out, n5) = place_part layer (lp_output parts) n4;
          out = link_output layer attention out;
          (ffn, n6) = place_part layer (lp_ffn parts) n5;
          ffn = link_ffn first_op layer (record_id_of (hd out)) ffn;
          (stop, n7) = renumber_records [barrier_record ''rec_0000'' layer ''layer_transition'' m] n6
      in \<lparr>gs_records = gs_records st @ start @ qkv @ cache @ attention @ out @ ffn @ stop, gs_next = n7\<rparr>)"

definition no_parts :: layer_parts where
  "no_parts = \<lparr>lp_qkv = [], lp_cache = [], lp_attention = [], lp_output = [], lp_ffn = []\<rparr>"

text \<open>The layers of a decoder from its parts, and the drain that ends the trace.\<close>

definition compose_layers :: "bool \<Rightarrow> string \<Rightarrow> dict \<Rightarrow> int \<Rightarrow> layer_parts \<Rightarrow> gen_error + dict list" where
  "compose_layers prefill first_op a layers parts =
     (let st = foldl (decoder_layer prefill first_op a parts) gen_start [0..<nat layers];
          (drain, _) = renumber_records [drain_record ''rec_0000'' (nat (max 0 (layers - 1))) a] (gs_next st)
      in validate_all (gs_records st @ drain))"

definition dense_parts :: "bool \<Rightarrow> dict \<Rightarrow> dict \<Rightarrow> gen_error + layer_parts" where
  "dense_parts prefill attention_manifest ffn_manifest =
     (let a = one_layer_manifest attention_manifest; f = one_layer_manifest ffn_manifest in
      rbind (attention_num_kv_heads a) (\<lambda>kv.
      rbind (m_int a ''num_heads'') (\<lambda>heads.
      rbind (m_int a ''head_dim'') (\<lambda>hd.
      rbind (qkv_projection_records f (Some (heads * hd)) (kv * hd)) (\<lambda>qkv.
      rbind (if prefill then prefill_cache_write_records a else kv_cache_write_records a) (\<lambda>cache.
      rbind (if prefill then generate_prefill_attention_records a else generate_attention_records a) (\<lambda>attention.
      rbind (output_projection_records f (Some (heads * hd))) (\<lambda>out.
      rbind (generate_ffn_records f) (\<lambda>ffn.
      Inr \<lparr>lp_qkv = qkv, lp_cache = cache, lp_attention = attention, lp_output = out, lp_ffn = ffn\<rparr>)))))))))"

definition validate_decode_pair :: "dict \<Rightarrow> dict \<Rightarrow> gen_error + unit" where
  "validate_decode_pair a f =
     rbind (m_int a ''num_heads'') (\<lambda>heads.
     rbind (m_int a ''head_dim'') (\<lambda>hd.
     rbind (m_int a ''hidden_size'') (\<lambda>hidden.
     rbind (attention_head_group_size a) (\<lambda>_.
     rbind (require (0 < heads * hd) (GValue ''head_dim'')) (\<lambda>_.
     rbind (m_int f ''hidden_size'') (\<lambda>fh.
     rbind (require (fh = hidden) (GValue ''hidden_size'')) (\<lambda>_.
     rbind (g_get a ''datatype'') (\<lambda>da.
     rbind (g_get f ''datatype'') (\<lambda>df.
     require (py_eq da df) (GValue ''datatype''))))))))))"

definition validate_prefill_pair :: "dict \<Rightarrow> dict \<Rightarrow> gen_error + unit" where
  "validate_prefill_pair a f =
     rbind (validate_attention_manifest a) (\<lambda>_.
     rbind (validate_ffn_manifest f) (\<lambda>_.
     rbind (require (item a ''phase'' = PStr ''prefill'' \<and> item f ''phase'' = PStr ''prefill'') (GValue ''phase'')) (\<lambda>_.
     rbind (validate_decode_pair a f) (\<lambda>_.
     rbind (m_int a ''seq_len'') (\<lambda>sa.
     rbind (m_int f ''seq_len'') (\<lambda>sf.
     require (sa = sf) (GValue ''seq_len'')))))))"

text \<open>
  The parts of a layer do not depend on the layer, so they are generated once here; the code
  generates them again in each layer. With no layer at all the code generates none.
\<close>

definition dense_records :: "bool \<Rightarrow> dict \<Rightarrow> dict \<Rightarrow> gen_error + dict list" where
  "dense_records prefill a f =
     rbind (m_int a ''num_layers'') (\<lambda>layers.
     rbind (m_int f ''num_layers'') (\<lambda>fl.
     rbind (require (fl = layers) (GValue ''num_layers'')) (\<lambda>_.
     rbind (if 0 < layers then dense_parts prefill a f else Inr no_parts) (\<lambda>parts.
     rbind (readable a) (\<lambda>_.
     compose_layers prefill ''ffn_hidden_activation_tile_setup'' a layers parts)))))"

definition generate_dense_transformer_layer_records :: "dict \<Rightarrow> dict \<Rightarrow> gen_error + dict list" where
  "generate_dense_transformer_layer_records a f = rbind (validate_decode_pair a f) (\<lambda>_. dense_records False a f)"

definition generate_dense_prefill_transformer_layer_records :: "dict \<Rightarrow> dict \<Rightarrow> gen_error + dict list" where
  "generate_dense_prefill_transformer_layer_records a f = rbind (validate_prefill_pair a f) (\<lambda>_. dense_records True a f)"

section \<open>Entry points\<close>

definition dense_decoder_records_from_spec :: "model_spec \<Rightarrow> int option \<Rightarrow> string \<Rightarrow> gen_error + dict list" where
  "dense_decoder_records_from_spec spec past_len schedule_policy =
     (let (a, f) = dense_decoder_manifests spec past_len schedule_policy in generate_dense_transformer_layer_records a f)"

definition dense_decoder_records_for_model :: "string \<Rightarrow> int option \<Rightarrow> string \<Rightarrow> gen_error + dict list" where
  "dense_decoder_records_for_model name past_len schedule_policy =
     rbind (get_model_spec name) (\<lambda>spec. dense_decoder_records_from_spec spec past_len schedule_policy)"

definition dense_prefill_records_from_spec :: "model_spec \<Rightarrow> int \<Rightarrow> string \<Rightarrow> gen_error + dict list" where
  "dense_prefill_records_from_spec spec prompt_len schedule_policy =
     rbind (dense_prefill_manifests spec prompt_len schedule_policy) (\<lambda>(a, f).
     generate_dense_prefill_transformer_layer_records a f)"

definition dense_prefill_records_for_model :: "string \<Rightarrow> int \<Rightarrow> string \<Rightarrow> gen_error + dict list" where
  "dense_prefill_records_for_model name prompt_len schedule_policy =
     rbind (get_model_spec name) (\<lambda>spec. dense_prefill_records_from_spec spec prompt_len schedule_policy)"

end
