(* ===== verification/Surrogate_Moe.thy ===== *)
theory Surrogate_Moe
  imports Surrogate_Layers
begin

text \<open>
  The mixture of experts of \<open>workload_surrogate/generate_full_transformer.py\<close>: the record builders,
  the records of one layer (router, top-k, dispatch, the selected experts, combine), and the decoder
  that places them behind attention. A layer of the decoder is a layer of the dense decoder with
  this part in the place of the feed-forward one.
\<close>

section \<open>Record builders\<close>

definition expert_value :: "int option \<Rightarrow> pyval" where
  "expert_value expert = (case expert of None \<Rightarrow> PNone | Some e \<Rightarrow> PInt e)"

definition moe_policies :: "dict \<Rightarrow> nat \<Rightarrow> nat \<Rightarrow> int option \<Rightarrow> dict" where
  "moe_policies m layer stage expert =
     (let expert_offset = (case expert of None \<Rightarrow> mint m ''num_experts'' | Some e \<Rightarrow> e) in
      policy_fields ''moe_stage_dependency'' ''bounded_moe_stage_rows'' ''moe_dependency_column_round_robin''
        (defaults_of m) (int (layer + stage) + expert_offset) (int (layer + stage) + expert_offset)
        [(''stage_index'', PInt (int stage)), (''expert_id'', expert_value expert),
         (''moe_role'', PStr (if expert = None then ''router'' else ''expert''))])"

definition moe_data_move_record ::
  "string \<Rightarrow> nat \<Rightarrow> dict \<Rightarrow> string \<Rightarrow> nat \<Rightarrow> string list \<Rightarrow> string list \<Rightarrow> string list \<Rightarrow> string \<Rightarrow> string \<Rightarrow> string \<Rightarrow>
   int option \<Rightarrow> int \<Rightarrow> dict" where
  "moe_data_move_record rid layer m op stage inputs outputs dependencies role residency reuse_scope expert movement =
     (let is_weight = (role = ''weight'');
          lowering = (if is_weight then ''semantic_only_steady_state_or_host_write_preload'' else ''native_pim_bcast_when_supported'');
          movement_policy =
            [(''movement_kind'', PStr (if is_weight then ''preloaded_stationary_weight_residency'' else ''broadcast_or_accounted_tile_load'')),
             (''lowering_preference'', PStr lowering), (''operand_role'', PStr role), (''residency'', PStr residency),
             (''materialized'', PBool True), (''reuse_scope'', PStr reuse_scope), (''lowering'', PStr lowering)] @
            (if 0 < movement then [(''movement_elements'', PInt movement)] else []) @
            (if is_weight then [(''materialization_lowering'', PStr ''regular_host_write_preload_when_materialized'')] else [])
      in dupdate (dupdate (base_record rid ''PIMDataMove'' layer op m)
           (tensor_fields inputs outputs dependencies
              (p4_context ''moe'' ''data_movement''
                 [(''layer_id'', PInt (int layer)), (''stage_index'', PInt (int stage)), (''expert_id'', expert_value expert)]) @
            [(''movement_policy'', PDict movement_policy),
             (''num_requests'', PInt (if 0 < movement then num_requests movement (item m ''datatype'') else 1)),
             (''datatype_metadata'', datatype_metadata m ''phase4_moe_operand_movement_metadata''
                (if is_weight \<and> 0 < movement then ''semantic_movement_volume_proportional_not_tiled_or_silicon_faithful''
                 else ''semantic_movement_not_silicon_faithful''))]))
         (moe_policies m layer stage expert))"

text \<open>The router projects to the experts; an expert projects down to the hidden size, or up to its own.\<close>

definition moe_dims :: "dict \<Rightarrow> string \<Rightarrow> string option \<Rightarrow> int \<times> int" where
  "moe_dims m kind projection =
     (if kind = ''MoERouter'' then (mint m ''num_experts'', mint m ''hidden_size'')
      else if projection = Some ''down'' then (mint m ''hidden_size'', mint m ''expert_hidden_size'')
      else (mint m ''expert_hidden_size'', mint m ''hidden_size''))"

definition moe_compute_record ::
  "string \<Rightarrow> string \<Rightarrow> nat \<Rightarrow> dict \<Rightarrow> string \<Rightarrow> nat \<Rightarrow> string list \<Rightarrow> string list \<Rightarrow> string list \<Rightarrow> int option \<Rightarrow> string option \<Rightarrow> dict" where
  "moe_compute_record rid kind layer m op stage inputs outputs dependencies expert projection =
     (let seq_len = mint m ''seq_len''; (n, k) = moe_dims m kind projection in
      dupdate (dupdate (base_record rid kind layer op m)
        (tensor_fields inputs outputs dependencies
           (p4_context ''moe'' op [(''layer_id'', PInt (int layer)), (''stage_index'', PInt (int stage)), (''expert_id'', expert_value expert),
              (''ffn_projection'', case projection of None \<Rightarrow> PNone | Some p \<Rightarrow> PStr p)]) @
         [(''compute_shape'', PDict
            [(''m'', PInt seq_len), (''n'', PInt n), (''k'', PInt k), (''output_elements'', PInt (max 1 (seq_len * n))),
             (''datatype'', item m ''datatype'')]),
          (''num_requests'', PInt (num_requests (seq_len * n * k) (item m ''datatype''))),
          (''bank_sequence'', item (defaults_of m) ''bank_sequence''),
          (''datatype_metadata'', datatype_metadata m ''phase4_moe_tensor_dag_metadata'' ''explicit_resource_rows_only''),
          (''burst_length'', PInt (mint (defaults_of m) ''burst_length''))]))
      (moe_policies m layer stage expert))"

text \<open>\<open>[int(expert) for expert in m["selected_experts"]]\<close>, which the check of the manifest covers.\<close>

definition selected_experts :: "dict \<Rightarrow> int list" where
  "selected_experts m = map (\<lambda>v. case py_int v of Some e \<Rightarrow> e | None \<Rightarrow> 0) (py_items (item m ''selected_experts''))"

definition moe_accounting_record ::
  "string \<Rightarrow> string \<Rightarrow> nat \<Rightarrow> dict \<Rightarrow> string \<Rightarrow> nat \<Rightarrow> string list \<Rightarrow> string list \<Rightarrow> string list \<Rightarrow> string \<Rightarrow> dict" where
  "moe_accounting_record rid kind layer m op stage inputs outputs dependencies accounting_kind =
     (let experts = PList (map PInt (selected_experts m)) in
      dupdate (base_record rid kind layer op m)
        (tensor_fields inputs outputs dependencies
           (p4_context ''moe'' op [(''layer_id'', PInt (int layer)), (''stage_index'', PInt (int stage)), (''selected_experts'', experts),
              (''top_k'', PInt (mint m ''top_k''))]) @
         [(''accounting_metadata'', PDict
            [(''kind'', PStr accounting_kind), (''selected_experts'', experts), (''top_k'', PInt (mint m ''top_k'')),
             (''elements'', PInt (max 1 (mint m ''seq_len'' * max 1 (int (length outputs))))),
             (''lowering'', PStr ''not_lowered_to_native_opcode_in_p4_4'')])]))"

section \<open>One layer\<close>

definition moe_tensor :: "nat \<Rightarrow> string \<Rightarrow> string" where
  "moe_tensor layer s = in_layer layer (''moe.'' @ s)"

definition moe_residency ::
  "dict \<Rightarrow> nat \<Rightarrow> string \<Rightarrow> string \<Rightarrow> string \<Rightarrow> string list \<Rightarrow> string \<Rightarrow> string \<Rightarrow> dict \<Rightarrow> gen_state \<Rightarrow> gen_state" where
  "moe_residency m layer op tensor resident dependencies residency reuse_scope context =
     push (\<lambda>rid. semantic_operand_record rid ''PIMOperandResidency'' layer op m ''moe'' ''operand_residency''
       [tensor] [resident] dependencies
       \<lparr>oa_role = ''activation_intermediate'', oa_residency = residency, oa_materialized = False,
         oa_reuse_scope = reuse_scope, oa_lowering = ''semantic_only_operand_residency''\<rparr>
       (context @ [(''distribution_policy'', PStr ''producer_aligned'')]))"

text \<open>The router, the choice of the experts and the dispatch of the tokens; the dispatch is returned.\<close>

definition moe_router :: "dict \<Rightarrow> nat \<Rightarrow> gen_state \<Rightarrow> gen_state \<times> string" where
  "moe_router m layer st =
     (let n = moe_tensor layer; hidden = in_layer layer ''hidden'';
          setup = next_rec st;
          st = push (\<lambda>rid. moe_data_move_record rid layer m ''moe_router_input_setup'' 0 [hidden] [n ''router_input.resident''] []
                 ''activation_input'' ''dynamic_activation_tile'' ''moe_router'' None 0) st;
          weight = next_rec st;
          st = push (\<lambda>rid. moe_data_move_record rid layer m ''moe_router_weight_residency'' 0 [n ''router_weight''] [n ''router_weight.resident''] []
                 ''weight'' ''preloaded_stationary'' ''moe_router'' None (mint m ''hidden_size'' * mint m ''num_experts'')) st;
          router = next_rec st;
          st = push (\<lambda>rid. moe_compute_record rid ''MoERouter'' layer m ''moe_router_projection'' 0
                 [n ''router_input.resident'', n ''router_weight.resident''] [n ''router_logits''] [setup, weight] None None) st;
          logits = next_rec st;
          st = moe_residency m layer ''moe_router_logits_residency'' (n ''router_logits'') (n ''router_logits.pim_visible'') [router]
                 ''pim_visible_operand'' ''moe_topk'' [] st;
          topk = next_rec st;
          st = push (\<lambda>rid. moe_accounting_record rid ''MoETopK'' layer m ''moe_topk_select_accounting'' 1 [n ''router_logits.pim_visible'']
                 [n ''topk_experts''] [logits] ''semantic_only_topk_select'') st;
          dispatch = next_rec st;
          st = push (\<lambda>rid. moe_accounting_record rid ''MoEDispatch'' layer m ''moe_expert_dispatch_accounting'' 2 [hidden, n ''topk_experts'']
                 [n ''dispatch_accounted_tokens''] [topk] ''semantic_only_expert_dispatch'') st;
          move = next_rec st;
          st = push (\<lambda>rid. moe_data_move_record rid layer m ''moe_token_dispatch_materialized'' 2 [n ''dispatch_accounted_tokens'']
                 [n ''dispatched_tokens''] [dispatch] ''token_dispatch'' ''dynamic_dispatched_activation_tile'' ''moe_selected_experts'' None 0) st
      in (st, move))"

definition expert_op :: "int \<Rightarrow> string \<Rightarrow> string" where
  "expert_op e s = ''moe_expert_'' @ dec e @ ''_'' @ s"

definition expert_tensor :: "nat \<Rightarrow> int \<Rightarrow> string \<Rightarrow> string" where
  "expert_tensor layer e s = moe_tensor layer (''expert_'' @ dec e @ ''.'' @ s)"

definition expert_weight :: "dict \<Rightarrow> nat \<Rightarrow> int \<Rightarrow> string \<Rightarrow> gen_state \<Rightarrow> gen_state" where
  "expert_weight m layer e projection =
     push (\<lambda>rid. moe_data_move_record rid layer m (expert_op e (projection @ ''_weight_residency'')) (if projection = ''down'' then 4 else 3)
       [expert_tensor layer e (projection @ ''_weight'')] [expert_tensor layer e (projection @ ''_weight.resident'')] []
       ''weight'' ''preloaded_stationary'' (expert_op e projection) (Some e) (mint m ''hidden_size'' * mint m ''expert_hidden_size''))"

definition expert_projection :: "dict \<Rightarrow> nat \<Rightarrow> int \<Rightarrow> string \<Rightarrow> nat \<Rightarrow> string \<Rightarrow> string \<Rightarrow> string list \<Rightarrow> gen_state \<Rightarrow> gen_state" where
  "expert_projection m layer e projection stage input out dependencies =
     push (\<lambda>rid. moe_compute_record rid ''MoEExpertFFN'' layer m (expert_op e (projection @ ''_projection'')) stage
       [input, expert_tensor layer e (projection @ ''_weight.resident'')] [out] dependencies (Some e) (Some projection))"

text \<open>One selected expert. Returned with the state: the residency of its output and the tensor.\<close>

definition moe_expert ::
  "dict \<Rightarrow> nat \<Rightarrow> string \<Rightarrow> gen_state \<times> string list \<times> string list \<Rightarrow> int \<Rightarrow> gen_state \<times> string list \<times> string list" where
  "moe_expert m layer dispatch = (\<lambda>(st, ids, outputs) e.
     let n = expert_tensor layer e; tokens = moe_tensor layer ''dispatched_tokens'';
         up_weight = next_rec st; st = expert_weight m layer e ''up'' st;
         up = next_rec st; st = expert_projection m layer e ''up'' 3 tokens (n ''up_intermediate'') [dispatch, up_weight] st;
         gate_weight = next_rec st; st = expert_weight m layer e ''gate'' st;
         gate = next_rec st; st = expert_projection m layer e ''gate'' 3 tokens (n ''gate_intermediate'') [dispatch, gate_weight] st;
         down_weight = next_rec st; st = expert_weight m layer e ''down'' st;
         activation = next_rec st;
         st = push (\<lambda>rid. ffn_elementwise_record rid layer m (expert_op e ''gate_activation_accounting'') 4 [n ''gate_intermediate'']
                [n ''activated_gate''] [gate] ''semantic_only_activation'') st;
         gated = next_rec st;
         st = push (\<lambda>rid. ffn_elementwise_record rid layer m (expert_op e ''gated_multiply_accounting'') 4
                [n ''activated_gate'', n ''up_intermediate''] [n ''gated''] [activation, up] ''semantic_only_gated_multiply'') st;
         residency = next_rec st;
         st = moe_residency m layer (expert_op e ''intermediate_residency'') (n ''gated'') (n ''gated.bank_local'') [gated]
                ''bank_local_capacity_controlled'' (expert_op e ''down_projection'') [(''expert_id'', PInt e)] st;
         down = next_rec st; st = expert_projection m layer e ''down'' 4 (n ''gated.bank_local'') (n ''output'') [residency, down_weight] st;
         out = next_rec st;
         st = moe_residency m layer (expert_op e ''output_residency'') (n ''output'') (n ''output.pim_visible'') [down]
                ''pim_visible_operand'' ''moe_combine'' [(''expert_id'', PInt e)] st
     in (st, ids @ [out], outputs @ [n ''output.pim_visible'']))"

text \<open>With independent experts, those in even positions come first.\<close>

fun evens :: "'a list \<Rightarrow> 'a list" where
  "evens [] = []"
| "evens [x] = [x]"
| "evens (x # y # xs) = x # evens xs"

definition expert_order :: "dict \<Rightarrow> int list" where
  "expert_order m =
     (let es = selected_experts m in
      if item m ''schedule_policy'' = PStr ''overlap_selected_experts'' then evens es @ evens (drop 1 es) else es)"

definition moe_layer :: "dict \<Rightarrow> gen_state \<Rightarrow> nat \<Rightarrow> gen_state" where
  "moe_layer m st layer =
     (let (st, dispatch) = moe_router m layer st;
          (st, ids, outputs) = foldl (moe_expert m layer dispatch) (st, [], []) (expert_order m);
          combined = moe_tensor layer ''combined_output''; combine = next_rec st;
          st = push (\<lambda>rid. moe_accounting_record rid ''MoECombine'' layer m ''moe_expert_combine_accounting'' 5 outputs [combined] ids
                 ''semantic_only_expert_combine'') st
      in push (\<lambda>rid. moe_data_move_record rid layer m ''moe_expert_output_combine_materialized'' 5 [combined] [combined @ ''.materialized''] [combine]
           ''expert_output_combine'' ''dynamic_combined_expert_output'' ''moe_layer_output'' None 0) st)"

text \<open>
  The check of the manifest does not cover the variant, from which the activation of an expert takes
  its family; as with the other conversions the code makes for every record, it is read once here.
\<close>

definition generate_moe_records :: "dict \<Rightarrow> gen_error + dict list" where
  "generate_moe_records m =
     rbind (validate_moe_manifest m) (\<lambda>_.
     rbind (readable_policies m) (\<lambda>_.
     rbind (ffn_operator_family m) (\<lambda>_.
     let rs = gs_records (foldl (moe_layer m) gen_start (layers_of m)) in
     validate_all (if item m ''schedule_policy'' = PStr ''overlap_selected_experts''
       then add_dag_hint ''selected_experts_are_independent_safe_to_parallelize'' rs else rs))))"

section \<open>The decoder\<close>

definition validate_moe_pair :: "dict \<Rightarrow> dict \<Rightarrow> gen_error + unit" where
  "validate_moe_pair a m = validate_decode_pair a m"

text \<open>
  The parts of a layer. The projections read a dense feed-forward size that the check of a mixture
  manifest does not ask for.
\<close>

definition moe_parts :: "dict \<Rightarrow> dict \<Rightarrow> gen_error + layer_parts" where
  "moe_parts attention_manifest moe_manifest =
     (let a = one_layer_manifest attention_manifest; e = one_layer_manifest moe_manifest in
      rbind (attention_num_kv_heads a) (\<lambda>kv.
      rbind (m_int a ''head_dim'') (\<lambda>hd.
      rbind (rmap (m_int e) [''hidden_size'', ''ffn_hidden_size'', ''seq_len'']) (\<lambda>_.
      rbind (qkv_projection_records e None (kv * hd)) (\<lambda>qkv.
      rbind (kv_cache_write_records a) (\<lambda>cache.
      rbind (generate_attention_records a) (\<lambda>attention.
      rbind (output_projection_records e None) (\<lambda>out.
      rbind (generate_moe_records e) (\<lambda>moe.
      Inr \<lparr>lp_qkv = qkv, lp_cache = cache, lp_attention = attention, lp_output = out, lp_ffn = moe\<rparr>)))))))))"

definition generate_moe_transformer_layer_records :: "dict \<Rightarrow> dict \<Rightarrow> gen_error + dict list" where
  "generate_moe_transformer_layer_records a m =
     rbind (validate_moe_pair a m) (\<lambda>_.
     rbind (m_int a ''num_layers'') (\<lambda>layers.
     rbind (m_int m ''num_layers'') (\<lambda>ml.
     rbind (require (ml = layers) (GValue ''num_layers'')) (\<lambda>_.
     rbind (if 0 < layers then moe_parts a m else Inr no_parts) (\<lambda>parts.
     rbind (readable a) (\<lambda>_.
     compose_layers False ''moe_router_input_setup'' a layers parts))))))"

text \<open>Without manifests the generator takes those of Mixtral-8x7B, real and not scaled.\<close>

definition generate_mixtral_8x7b_decoder_records :: "dict option \<Rightarrow> dict option \<Rightarrow> gen_error + dict list" where
  "generate_mixtral_8x7b_decoder_records attention moe =
     (let (a, m) = mixtral_manifests MIXTRAL_8X7B_DEFAULT_PAST_LEN ''serialized'' False in
      generate_moe_transformer_layer_records (case attention of None \<Rightarrow> a | Some x \<Rightarrow> x) (case moe of None \<Rightarrow> m | Some x \<Rightarrow> x))"

end
