(* ===== verification/Surrogate_Facts.thy ===== *)
theory Surrogate_Facts
  imports Surrogate_Layers
begin

text \<open>
  Lemmas about the generated records: identifiers are distinct, the fields of each builder, tiles
  partition a sequence and causal pairs add up, and the invariant that a generator keeps
  (records are numbered in order and depend on earlier ones).
\<close>

section \<open>Identifiers\<close>

lemma number_of_zeros: "number_of (replicate k (CHR ''0'') @ ds) = number_of ds"
proof (induction ds rule: rev_induct)
  case Nil
  have "number_of (replicate k (CHR ''0'')) = 0"
    by (induction k) (simp_all add: number_of_def digit_val_def)
  then show ?case by (simp add: number_of_def)
next
  case (snoc d ds)
  then show ?case by (simp add: number_of_snoc flip: append_assoc)
qed

lemma rec_id_eq [simp]: "rec_id i = rec_id j \<longleftrightarrow> i = j"
proof
  assume "rec_id i = rec_id j"
  then have "number_of (padded 4 i) = number_of (padded 4 j)" by (simp add: rec_id_def)
  then show "i = j" by (simp add: padded_def Let_def number_of_zeros number_of_digits)
qed simp

lemma inj_rec_id: "inj rec_id"
  by (simp add: inj_def)

lemma rec_id_chars: "c \<in> set (rec_id n) \<Longrightarrow> is_digit c \<or> c \<in> set ''rec_''"
proof -
  have "is_digit (CHR ''0'')" by code_simp
  then show "c \<in> set (rec_id n) \<Longrightarrow> is_digit c \<or> c \<in> set ''rec_''"
    using digits_of_digits[of n] by (auto simp: rec_id_def padded_def Let_def list_all_iff split: if_splits)
qed

text \<open>A replacement whose first character does not occur changes nothing.\<close>

lemma str_replace_absent: "old \<noteq> [] \<Longrightarrow> hd old \<notin> set s \<Longrightarrow> str_replace old new s = s"
proof (induction old new s rule: str_replace.induct)
  case (2 old new c cs)
  then have "\<not> prefix old (c # cs)" by (cases old) auto
  with 2 show ?case by simp
qed simp

lemma retarget_rec_id [simp]: "retarget_string layer (rec_id n) = rec_id n"
proof -
  have "\<not> is_digit (CHR ''l'')" "\<not> is_digit (CHR ''L'')" by code_simp+
  then have "CHR ''l'' \<notin> set (rec_id n)" "CHR ''L'' \<notin> set (rec_id n)"
    using rec_id_chars[of _ n] by auto
  then show ?thesis by (simp add: retarget_string_def str_replace_absent)
qed

section \<open>Tiles\<close>

lemma tile_ranges_sizes:
  assumes "(s, n) \<in> set (tile_ranges_from start total_tokens tile)"
  shows "start \<le> s \<and> 0 < n \<and> n \<le> tile \<and> s + n \<le> total_tokens"
  using assms
proof (induction start total_tokens tile rule: tile_ranges_from.induct)
  case (1 start total_tokens tile)
  then show ?case by (subst (asm) tile_ranges_from.simps) (fastforce simp: Let_def split: if_splits)
qed

lemma tile_ranges_cover:
  assumes "0 < tile" and "start \<le> total_tokens"
  shows "concat (map (\<lambda>(s, n). [s..s + n - 1]) (tile_ranges_from start total_tokens tile)) = [start..total_tokens - 1]"
  using assms
proof (induction start total_tokens tile rule: tile_ranges_from.induct)
  case (1 start total_tokens tile)
  show ?case
  proof (cases "start < total_tokens")
    case True
    let ?n = "min tile (total_tokens - start)"
    have "[start..total_tokens - 1] = [start..start + ?n - 1] @ [start + ?n..total_tokens - 1]"
      using 1(2) True by (subst upto_split2[of _ "start + ?n - 1"]) auto
    then show ?thesis using 1 True by (subst tile_ranges_from.simps) (simp add: Let_def)
  qed (use 1 in \<open>subst tile_ranges_from.simps; simp\<close>)
qed

lemma sum_over_tiles:
  assumes "0 < tile" and "0 \<le> total_tokens"
  shows "sum_list (map (\<lambda>(s, n). sum_list (map f [s..s + n - 1])) (tile_ranges total_tokens tile)) = sum_list (map f [0..total_tokens - 1])"
proof -
  have "sum_list (map (\<lambda>(s, n). sum_list (map f [s..s + n - 1])) xs) =
      sum_list (map f (concat (map (\<lambda>(s, n). [s..s + n - 1]) xs)))" for xs :: "(int \<times> int) list"
    by (induction xs) auto
  then show ?thesis using tile_ranges_cover[OF assms] by (simp add: tile_ranges_def)
qed

text \<open>The causal pairs of a query with the keys of all tiles are the keys up to the query.\<close>

lemma causal_row:
  assumes "0 \<le> (q :: int)" and "q < n"
  shows "sum_list (map (\<lambda>k. if k \<le> q then 1 else 0) [0..n - 1]) = q + 1"
proof -
  have "[0..n - 1] = [0..q] @ [q + 1..n - 1]" using assms by (intro upto_split2) auto
  moreover have "sum_list (map (\<lambda>k. if k \<le> q then 1 else 0) [0..q]) = sum_list (map (\<lambda>_. 1 :: int) [0..q])"
    by (intro arg_cong[of _ _ sum_list] map_cong) auto
  moreover have "sum_list (map (\<lambda>k. if k \<le> q then 1 else 0) [q + 1..n - 1]) = sum_list (map (\<lambda>_. 0 :: int) [q + 1..n - 1])"
    by (intro arg_cong[of _ _ sum_list] map_cong) auto
  ultimately show ?thesis using assms by (simp add: sum_list_triv)
qed

lemma causal_keys:
  assumes "0 \<le> n"
  shows "max 0 (min (k + n) (q + 1) - k) = sum_list (map (\<lambda>j. if j \<le> q then 1 else 0 :: int) [k..k + n - 1])"
  using assms
proof (induction n rule: int_ge_induct)
  case (step n)
  have "[k..k + (n + 1) - 1] = [k..k + n - 1] @ [k + n]"
    using step(1) upto_rec2[of k "k + n"] by (simp add: add.commute)
  then have "sum_list (map (\<lambda>j. if j \<le> q then 1 else 0) [k..k + (n + 1) - 1]) =
      max 0 (min (k + n) (q + 1) - k) + (if k + n \<le> q then 1 else 0)"
    using step.IH by simp
  then show ?case using step.hyps by (simp add: max_def min_def)
qed (simp add: max_def min_def)

section \<open>Fields of the builders\<close>

named_theorems record_heads "identifier, kind, operation and dependencies of a built record"

lemma dget_dupdate_absent: "k \<notin> set (dkeys kvs) \<Longrightarrow> dget (dupdate d kvs) k = dget d k"
  by (induction kvs arbitrary: d) (auto simp: dupdate_Cons dget_dset)

lemma dupdate_append: "dupdate d (xs @ ys) = dupdate (dupdate d xs) ys"
  by (simp add: dupdate_def)

lemma text_of_p_strs [simp]: "map text_of (py_items (p_strs ds)) = ds"
  by (simp add: p_strs_def py_items_def text_of_def o_def)

definition head_keys :: "string list" where
  "head_keys = [''record_id'', ''kind'', ''op'', ''logical_dependencies'']"

lemma head_of_extended:
  assumes "set head_keys \<inter> set (dkeys extra) = {}"
  shows "record_id_of (dupdate r extra) = record_id_of r" and "kind_of (dupdate r extra) = kind_of r"
    and "op_of (dupdate r extra) = op_of r" and "deps_of (dupdate r extra) = deps_of r"
  using assms
  by (simp_all add: record_id_of_def kind_of_def op_of_def deps_of_def dgetd_def head_keys_def dget_dupdate_absent disjoint_iff del: map_map)

lemma head_of_base:
  "record_id_of (base_record rid kind layer op m) = rid" "kind_of (base_record rid kind layer op m) = kind"
  "op_of (base_record rid kind layer op m) = op" "deps_of (base_record rid kind layer op m) = []"
  by (simp_all add: record_id_of_def kind_of_def op_of_def deps_of_def dgetd_def base_record_def text_of_def py_items_def)

lemma head_of_tensor:
  "record_id_of (dupdate (base_record rid kind layer op m) (tensor_fields ins outs deps ctx)) = rid"
  "kind_of (dupdate (base_record rid kind layer op m) (tensor_fields ins outs deps ctx)) = kind"
  "op_of (dupdate (base_record rid kind layer op m) (tensor_fields ins outs deps ctx)) = op"
  "deps_of (dupdate (base_record rid kind layer op m) (tensor_fields ins outs deps ctx)) = deps"
  by (simp_all add: record_id_of_def kind_of_def op_of_def deps_of_def dgetd_def tensor_fields_def base_record_def dget_dupdate
      text_of_def[of "PStr _"])

lemma policy_keys: "dkeys (policy_fields dk rk ck d i j extra) = [''dependency_context'', ''row_policy'', ''column_policy'']"
  by (simp add: policy_fields_def Let_def)

lemma head_of_built:
  assumes "set head_keys \<inter> set (dkeys extra) = {}"
  shows "record_id_of (dupdate (base_record rid kind layer op m) (tensor_fields ins outs deps ctx @ extra)) = rid"
    and "kind_of (dupdate (base_record rid kind layer op m) (tensor_fields ins outs deps ctx @ extra)) = kind"
    and "op_of (dupdate (base_record rid kind layer op m) (tensor_fields ins outs deps ctx @ extra)) = op"
    and "deps_of (dupdate (base_record rid kind layer op m) (tensor_fields ins outs deps ctx @ extra)) = deps"
  using assms by (simp_all add: dupdate_append head_of_extended head_of_tensor)

lemma policies_disjoint:
  "set head_keys \<inter> set (dkeys (attention_policies m layer h t)) = {}" "set head_keys \<inter> set (dkeys (ffn_policies m layer s t)) = {}"
  by (simp_all add: attention_policies_def ffn_policies_def policy_keys head_keys_def del: set_map list.set_map)

lemmas head_rules = head_of_built head_of_extended[OF policies_disjoint(1)] head_of_extended[OF policies_disjoint(2)]

lemma attention_compute_head [record_heads]:
  "record_id_of (attention_compute_record rid kind layer op m h t n st pf ins outs deps) = rid"
  "kind_of (attention_compute_record rid kind layer op m h t n st pf ins outs deps) = kind"
  "op_of (attention_compute_record rid kind layer op m h t n st pf ins outs deps) = op"
  "deps_of (attention_compute_record rid kind layer op m h t n st pf ins outs deps) = deps"
  unfolding attention_compute_record_def Let_def by (simp_all only: head_rules) (simp_all add: head_rules head_keys_def)

lemma softmax_head [record_heads]:
  "record_id_of (softmax_record rid layer m h t n st ins outs deps) = rid"
  "kind_of (softmax_record rid layer m h t n st ins outs deps) = ''AttentionSoftmax''"
  "op_of (softmax_record rid layer m h t n st ins outs deps) = ''attention_softmax_accounting''"
  "deps_of (softmax_record rid layer m h t n st ins outs deps) = deps"
  unfolding softmax_record_def Let_def by (simp_all add: head_of_built head_keys_def)

lemma context_reduction_head [record_heads]:
  "record_id_of (context_reduction_record rid layer m h ids ins out extra n) = rid"
  "kind_of (context_reduction_record rid layer m h ids ins out extra n) = ''PIMElementwise''"
  "op_of (context_reduction_record rid layer m h ids ins out extra n) = ''attention_context_reduction_accounting''"
  "deps_of (context_reduction_record rid layer m h ids ins out extra n) = ids"
  unfolding context_reduction_record_def Let_def by (simp_all add: head_of_built head_keys_def)

lemma host_access_head [record_heads]:
  "record_id_of (host_access_record rid kind layer op m place st ins outs deps n scope) = rid"
  "kind_of (host_access_record rid kind layer op m place st ins outs deps n scope) = kind"
  "op_of (host_access_record rid kind layer op m place st ins outs deps n scope) = op"
  "deps_of (host_access_record rid kind layer op m place st ins outs deps n scope) = deps"
  unfolding host_access_record_def Let_def by (simp_all add: head_of_built head_keys_def)

lemma semantic_operand_head [record_heads]:
  "record_id_of (semantic_operand_record rid kind layer op m family stage ins outs deps a ctx) = rid"
  "kind_of (semantic_operand_record rid kind layer op m family stage ins outs deps a ctx) = kind"
  "op_of (semantic_operand_record rid kind layer op m family stage ins outs deps a ctx) = op"
  "deps_of (semantic_operand_record rid kind layer op m family stage ins outs deps a ctx) = deps"
  unfolding semantic_operand_record_def Let_def by (simp_all add: head_of_built head_keys_def)

lemma ffn_elementwise_head [record_heads]:
  "record_id_of (ffn_elementwise_record rid layer m op stage ins outs deps ek) = rid"
  "kind_of (ffn_elementwise_record rid layer m op stage ins outs deps ek) = ''PIMElementwise''"
  "op_of (ffn_elementwise_record rid layer m op stage ins outs deps ek) = op"
  "deps_of (ffn_elementwise_record rid layer m op stage ins outs deps ek) = deps"
  unfolding ffn_elementwise_record_def Let_def by (simp_all add: head_of_built head_keys_def)

lemma ffn_projection_head [record_heads]:
  "record_id_of (ffn_projection_record rid layer m op stage ins outs deps k n) = rid"
  "kind_of (ffn_projection_record rid layer m op stage ins outs deps k n) = ''FFNProjection''"
  "op_of (ffn_projection_record rid layer m op stage ins outs deps k n) = op"
  "deps_of (ffn_projection_record rid layer m op stage ins outs deps k n) = deps"
  unfolding ffn_projection_record_def Let_def case_prod_beta by (simp_all only: head_rules) (simp_all add: head_rules head_keys_def)

lemma ffn_data_move_head [record_heads]:
  "record_id_of (ffn_data_move_record rid layer m op stage ins outs deps role res reuse t n) = rid"
  "kind_of (ffn_data_move_record rid layer m op stage ins outs deps role res reuse t n) = ''PIMDataMove''"
  "op_of (ffn_data_move_record rid layer m op stage ins outs deps role res reuse t n) = op"
  "deps_of (ffn_data_move_record rid layer m op stage ins outs deps role res reuse t n) = deps"
  unfolding ffn_data_move_record_def Let_def case_prod_beta by (simp_all only: head_rules) (simp_all add: head_rules head_keys_def)

lemma scope_disjoint: "set head_keys \<inter> set (dkeys [(''barrier_scope'', v)]) = {}" "set head_keys \<inter> set (dkeys [(''drain_scope'', v)]) = {}"
  by (simp_all add: head_keys_def)

lemma barrier_head [record_heads]:
  "record_id_of (barrier_record rid layer op m) = rid" "kind_of (barrier_record rid layer op m) = ''Barrier''"
  "op_of (barrier_record rid layer op m) = op" "deps_of (barrier_record rid layer op m) = []"
  by (simp_all only: barrier_record_def head_of_extended[OF scope_disjoint(1)] head_of_base)

lemma drain_head [record_heads]:
  "record_id_of (drain_record rid layer m) = rid" "kind_of (drain_record rid layer m) = ''Drain''"
  "op_of (drain_record rid layer m) = ''final_drain''" "deps_of (drain_record rid layer m) = []"
  by (simp_all only: drain_record_def head_of_extended[OF scope_disjoint(2)] head_of_base)

text \<open>Changing another field keeps them; a changed field is the one read.\<close>

lemma dset_head [record_heads]:
  assumes "f \<notin> set head_keys"
  shows "record_id_of (dset f v r) = record_id_of r" and "kind_of (dset f v r) = kind_of r"
    and "op_of (dset f v r) = op_of r" and "deps_of (dset f v r) = deps_of r"
  using assms by (auto simp: record_id_of_def kind_of_def op_of_def deps_of_def dgetd_def dget_dset head_keys_def)

lemma put_in_head [record_heads]:
  assumes "f \<notin> set head_keys"
  shows "record_id_of (put_in f k v r) = record_id_of r" and "kind_of (put_in f k v r) = kind_of r"
    and "op_of (put_in f k v r) = op_of r" and "deps_of (put_in f k v r) = deps_of r"
  using assms by (simp_all add: put_in_def dset_head)

lemma set_deps_head [record_heads]:
  "record_id_of (set_deps ds r) = record_id_of r" "kind_of (set_deps ds r) = kind_of r"
  "op_of (set_deps ds r) = op_of r" "deps_of (set_deps ds r) = ds"
  by (simp_all add: set_deps_def record_id_of_def kind_of_def op_of_def deps_of_def dgetd_def dget_dset del: map_map)

lemma set_id_head [record_heads]:
  "record_id_of (dset ''record_id'' (PStr s) r) = s" "kind_of (dset ''record_id'' (PStr s) r) = kind_of r"
  "op_of (dset ''record_id'' (PStr s) r) = op_of r" "deps_of (dset ''record_id'' (PStr s) r) = deps_of r"
  by (simp_all add: record_id_of_def kind_of_def op_of_def deps_of_def dgetd_def dget_dset text_of_def[of "PStr _"])

lemma head_fields [record_heads]:
  "''tensor_io'' \<notin> set head_keys" "''operator_context'' \<notin> set head_keys" "''accounting_metadata'' \<notin> set head_keys"
  "''barrier_scope'' \<notin> set head_keys" "''drain_scope'' \<notin> set head_keys"
  by (simp_all add: head_keys_def)

end
