(* ===== verification/Surrogate_Order.thy ===== *)
theory Surrogate_Order
  imports Surrogate_Facts
begin

text \<open>
  The order of generated records. A generator numbers its records from zero, and a record depends
  on earlier ones only (\<open>numbered\<close>); what else a generator keeps (\<open>gen_ok\<close>) is what the composition
  of layers relies on: only scores depend on a query residency. A trace made of several parts is
  \<open>topological\<close>.
\<close>

section \<open>Ordered traces\<close>

fun ordered_after :: "string set \<Rightarrow> dict list \<Rightarrow> bool" where
  "ordered_after seen [] = True"
| "ordered_after seen (r # rs) =
     (record_id_of r \<notin> seen \<and> set (deps_of r) \<subseteq> seen \<and> ordered_after (insert (record_id_of r) seen) rs)"

text \<open>Identifiers are distinct, and every dependency is the identifier of an earlier record.\<close>

definition topological :: "dict list \<Rightarrow> bool" where
  "topological rs = ordered_after {} rs"

definition ids_of :: "dict list \<Rightarrow> string set" where
  "ids_of rs = record_id_of ` set rs"

lemma ids_of_simps [simp]:
  "ids_of [] = {}" "ids_of (r # rs) = insert (record_id_of r) (ids_of rs)" "ids_of (rs @ rs') = ids_of rs \<union> ids_of rs'"
  by (simp_all add: ids_of_def image_Un)

lemma ordered_after_append:
  "ordered_after seen (rs @ rs') \<longleftrightarrow> ordered_after seen rs \<and> ordered_after (seen \<union> ids_of rs) rs'"
  by (induction rs arbitrary: seen) (auto simp: insert_commute Un_insert_left)

lemma ordered_after_iff:
  "ordered_after seen rs \<longleftrightarrow>
   (\<forall>i < length rs. record_id_of (rs ! i) \<notin> seen \<union> ids_of (take i rs) \<and> set (deps_of (rs ! i)) \<subseteq> seen \<union> ids_of (take i rs))"
proof (induction rs arbitrary: seen)
  case (Cons r rs)
  show ?case by (auto simp: Cons.IH All_less_Suc2)
qed simp

lemma topological_iff:
  "topological rs \<longleftrightarrow>
   distinct (map record_id_of rs) \<and> (\<forall>i < length rs. set (deps_of (rs ! i)) \<subseteq> ids_of (take i rs))"
proof -
  have "distinct (map record_id_of rs) \<longleftrightarrow> (\<forall>i < length rs. record_id_of (rs ! i) \<notin> ids_of (take i rs))"
    by (induction rs rule: rev_induct) (auto simp: less_Suc_eq nth_append ids_of_def)
  then show ?thesis by (auto simp: topological_def ordered_after_iff)
qed

section \<open>The invariant of a generator\<close>

definition numbered :: "dict list \<Rightarrow> bool" where
  "numbered rs \<longleftrightarrow> (\<forall>i < length rs. record_id_of (rs ! i) = rec_id i \<and> set (deps_of (rs ! i)) \<subseteq> rec_id ` {..<i})"

text \<open>The identifiers that a record other than a score may depend on.\<close>

definition plain_ids :: "dict list \<Rightarrow> string set" where
  "plain_ids rs = record_id_of ` {r \<in> set rs. \<not> is_q_residency r}"

definition well_linked :: "dict list \<Rightarrow> bool" where
  "well_linked rs \<longleftrightarrow> (\<forall>r \<in> set rs. kind_of r \<noteq> ''AttentionScore'' \<longrightarrow> set (deps_of r) \<subseteq> plain_ids rs)"

text \<open>
  Retargeting keeps the kinds and operations: their names have no zero, but for the number of an expert,
  and no letter L before that.
\<close>

definition fixed_name :: "string \<Rightarrow> bool" where
  "fixed_name s \<longleftrightarrow> (\<exists>xs ys. s = xs @ ys \<and> CHR ''l'' \<notin> set xs \<and> CHR ''L'' \<notin> set xs \<and> CHR ''0'' \<notin> set ys)"

lemma fixed_without_zero [record_heads]: "CHR ''0'' \<notin> set s \<Longrightarrow> fixed_name s"
  unfolding fixed_name_def by (intro exI[of _ "[]"] exI[of _ s]) simp

definition plain_names :: "dict \<Rightarrow> bool" where
  "plain_names r \<longleftrightarrow> fixed_name (kind_of r) \<and> fixed_name (op_of r)"

definition part_ok :: "dict list \<Rightarrow> bool" where
  "part_ok rs \<longleftrightarrow> numbered rs \<and> well_linked rs \<and> list_all plain_names rs"

definition gen_ok :: "gen_state \<Rightarrow> bool" where
  "gen_ok st \<longleftrightarrow> gs_next st = length (gs_records st) \<and> part_ok (gs_records st)"

definition plain :: "gen_state \<Rightarrow> string set" where
  "plain st = plain_ids (gs_records st)"

definition known_ids :: "gen_state \<Rightarrow> string set" where
  "known_ids st = rec_id ` {..<gs_next st}"

lemma plain_subset: "gen_ok st \<Longrightarrow> plain st \<subseteq> known_ids st"
  by (auto simp: gen_ok_def part_ok_def numbered_def plain_def plain_ids_def known_ids_def in_set_conv_nth)

lemma gen_ok_start [simp]: "gen_ok gen_start"
  by (simp add: gen_ok_def part_ok_def gen_start_def numbered_def well_linked_def)

lemma gen_ok_part: "gen_ok st \<Longrightarrow> part_ok (gs_records st)"
  by (simp add: gen_ok_def)

section \<open>One more record\<close>

lemma ids_push [simp]: "known_ids (push mk st) = insert (next_rec st) (known_ids st)"
  by (simp add: known_ids_def push_def next_rec_def lessThan_Suc)

lemma plain_push:
  "record_id_of (mk (next_rec st)) = next_rec st \<Longrightarrow>
   plain (push mk st) = (if is_q_residency (mk (next_rec st)) then plain st else insert (next_rec st) (plain st))"
  by (auto simp: plain_def plain_ids_def push_def intro: image_eqI[of _ _ "mk (next_rec st)"])

lemma gs_next_push [simp]: "gs_next (push mk st) = gs_next st + 1"
  by (simp add: push_def)

lemma gen_ok_push:
  assumes "gen_ok st" and "record_id_of (mk (next_rec st)) = next_rec st" and "plain_names (mk (next_rec st))"
    and "set (deps_of (mk (next_rec st))) \<subseteq> (if kind_of (mk (next_rec st)) = ''AttentionScore'' then known_ids st else plain st)"
  shows "gen_ok (push mk st)"
proof -
  let ?r = "mk (next_rec st)" and ?rs = "gs_records st"
  have "set (deps_of ?r) \<subseteq> known_ids st" using assms(1,4) plain_subset by (auto split: if_splits)
  then have "numbered (?rs @ [?r])"
    using assms(1,2) by (auto simp: gen_ok_def part_ok_def numbered_def less_Suc_eq nth_append known_ids_def next_rec_def)
  moreover have "plain_ids ?rs \<subseteq> plain_ids (?rs @ [?r])" by (auto simp: plain_ids_def)
  then have "well_linked (?rs @ [?r])"
    using assms(1,4) by (auto simp: gen_ok_def part_ok_def well_linked_def plain_def) (meson in_mono)+
  ultimately show ?thesis
    using assms(1,3) by (simp add: gen_ok_def part_ok_def push_def)
qed

text \<open>A generator step that keeps the invariant and the identifiers one may depend on.\<close>

definition grows :: "gen_state \<Rightarrow> gen_state \<Rightarrow> bool" where
  "grows st st' \<longleftrightarrow> gen_ok st' \<and> plain st \<subseteq> plain st' \<and> gs_next st \<le> gs_next st' \<and>
     prefix (map is_q_residency (gs_records st)) (map is_q_residency (gs_records st'))"

lemma grows_refl: "gen_ok st \<Longrightarrow> grows st st"
  by (simp add: grows_def)

lemma grows_trans: "grows a b \<Longrightarrow> grows b c \<Longrightarrow> grows a c"
  by (auto simp: grows_def)

lemma grows_ids: "grows st st' \<Longrightarrow> known_ids st \<subseteq> known_ids st'"
  by (auto simp: grows_def known_ids_def)

lemma grows_ok: "grows st st' \<Longrightarrow> gen_ok st'"
  by (simp add: grows_def)

lemma grows_plain: "grows st st' \<Longrightarrow> A \<subseteq> plain st \<Longrightarrow> A \<subseteq> plain st'"
  by (auto simp: grows_def)

lemma grows_push:
  assumes "gen_ok st" and "record_id_of (mk (next_rec st)) = next_rec st" and "plain_names (mk (next_rec st))"
    and "set (deps_of (mk (next_rec st))) \<subseteq> (if kind_of (mk (next_rec st)) = ''AttentionScore'' then known_ids st else plain st)"
  shows "grows st (push mk st)"
  using assms by (auto simp: grows_def gen_ok_push plain_push) (simp_all add: push_def)

text \<open>Attention starts with a query residency.\<close>

definition starts :: "gen_state \<Rightarrow> bool" where
  "starts st \<longleftrightarrow> gs_records st = [] \<or> is_q_residency (hd (gs_records st))"

lemma starts_after:
  assumes "starts st" and "is_q_residency (mk (next_rec st))" and "grows (push mk st) st'"
  shows "starts st'"
proof -
  have "prefix (map is_q_residency (gs_records st) @ [True]) (map is_q_residency (gs_records st'))"
    using assms(2,3) by (simp add: grows_def push_def)
  then show ?thesis
    using assms(1) by (cases "gs_records st"; cases "gs_records st'") (auto simp: starts_def)
qed

lemma foldl_grows:
  assumes "\<And>st x. gen_ok st \<Longrightarrow> x \<in> set xs \<Longrightarrow> grows st (f st x)" and "gen_ok st"
  shows "grows st (foldl f st xs)"
  using assms
proof (induction xs arbitrary: st)
  case (Cons x xs)
  then have "grows st (f st x)" by simp
  moreover have "grows (f st x) (foldl f (f st x) xs)" using Cons(2) by (intro Cons.IH grows_ok[OF calculation]) simp
  ultimately show ?case by (simp add: grows_trans[of st "f st x"])
qed (simp add: grows_refl)

lemma foldl_keeps:
  assumes "P s" and "\<And>s x. P s \<Longrightarrow> x \<in> set xs \<Longrightarrow> P (f s x)"
  shows "P (foldl f s xs)"
  using assms by (induction xs arbitrary: s) auto

lemma plain_name_rules [record_heads]:
  "plain_names r \<longleftrightarrow> fixed_name (kind_of r) \<and> fixed_name (op_of r)"
  by (simp add: plain_names_def)

section \<open>Decode attention\<close>

lemma emit_q_residency_grows: "gen_ok st \<Longrightarrow> grows st (emit_q_residency m layer head st)"
  unfolding emit_q_residency_def by (rule grows_push) (simp_all add: record_heads)

text \<open>The scores of a head come after its query residency, which is record \<open>q\<close>.\<close>

definition score_ids :: "gen_state \<Rightarrow> string set" where
  "score_ids st = record_id_of ` {r \<in> set (gs_records st). kind_of r = ''AttentionScore''}"

definition scoring :: "gen_state \<Rightarrow> nat \<Rightarrow> gen_state \<times> string list \<Rightarrow> bool" where
  "scoring st0 q = (\<lambda>(st, scores). grows st0 st \<and> q < gs_next st \<and> set scores \<subseteq> score_ids st \<inter> rec_id ` {q<..})"

lemma score_ids_plain: "score_ids st \<subseteq> plain st"
  by (auto simp: score_ids_def plain_def plain_ids_def is_q_residency_def)

lemma score_ids_push: "score_ids st \<subseteq> score_ids (push mk st)"
  by (auto simp: score_ids_def push_def)

lemma score_ids_push_score:
  "record_id_of (mk (next_rec st)) = next_rec st \<Longrightarrow> kind_of (mk (next_rec st)) = ''AttentionScore'' \<Longrightarrow>
   next_rec st \<in> score_ids (push mk st)"
  by (auto simp: score_ids_def push_def intro: image_eqI[of _ _ "mk (next_rec st)"])

lemma scoring_step:
  assumes "scoring st0 q s"
  shows "scoring st0 q (append_score_tile m layer head s (tile, tile_start, tile_tokens))"
proof -
  obtain st scores where s: "s = (st, scores)" by (cases s)
  let ?load = "\<lambda>rid. host_access_record rid ''HostRead'' layer ''kv_cache_k_tile_read'' m
    (Some (head, int head div group_size m, tile, tile_tokens)) tile_start
    [in_tile layer head tile ''K''] [in_tile layer head tile ''K.resident''] [] (tile_tokens * mint m ''head_dim'') ''kv_cache_k_tile''"
  let ?score = "\<lambda>rid. attention_compute_record rid ''AttentionScore'' layer ''attention_score_gemv'' m head tile tile_tokens tile_start None
    [in_head layer head ''Q'', in_tile layer head tile ''K.resident''] [in_tile layer head tile ''score''] [next_rec st]"
  let ?st1 = "push ?load st"
  let ?st2 = "push ?score ?st1"
  have st: "gen_ok st" using assms by (simp add: s scoring_def grows_def)
  have "grows st ?st1" by (rule grows_push[OF st]) (simp_all add: record_heads)
  moreover have "grows ?st1 ?st2"
    by (rule grows_push[OF grows_ok[OF calculation]]) (simp_all add: record_heads)
  ultimately have "grows st0 ?st2"
    using assms by (auto simp: s scoring_def intro: grows_trans)
  moreover have "score_ids st \<subseteq> score_ids ?st2" using score_ids_push by blast
  moreover have "next_rec ?st1 \<in> score_ids ?st2" by (rule score_ids_push_score) (simp_all add: record_heads)
  ultimately show ?thesis
    using assms by (auto simp: s scoring_def append_score_tile_def Let_def next_rec_def[of "push _ _"])
qed

lemma head_unique: "gen_ok st \<Longrightarrow> r \<in> set (gs_records st) \<Longrightarrow> r' \<in> set (gs_records st) \<Longrightarrow> record_id_of r = record_id_of r' \<Longrightarrow> r = r'"
  by (auto simp: gen_ok_def part_ok_def numbered_def in_set_conv_nth)

lemma deps_earlier: "gen_ok st \<Longrightarrow> r \<in> set (gs_records st) \<Longrightarrow> record_id_of r = rec_id i \<Longrightarrow> set (deps_of r) \<subseteq> rec_id ` {..<i}"
  unfolding gen_ok_def part_ok_def numbered_def by (metis in_set_conv_nth rec_id_eq)

text \<open>Rewriting records in place, with the same heads and dependencies that are fine again.\<close>

definition rewrite :: "(dict \<Rightarrow> dict) \<Rightarrow> gen_state \<Rightarrow> gen_state" where
  "rewrite f st = st\<lparr>gs_records := map f (gs_records st)\<rparr>"

lemma rewrite_grows:
  assumes "gen_ok st"
    and f: "\<And>r. record_id_of (f r) = record_id_of r" "\<And>r. kind_of (f r) = kind_of r" "\<And>r. op_of (f r) = op_of r"
    and deps: "\<And>i r. i < gs_next st \<Longrightarrow> r \<in> set (gs_records st) \<Longrightarrow> record_id_of r = rec_id i \<Longrightarrow>
      set (deps_of (f r)) \<subseteq> set (deps_of r) \<or> kind_of r = ''AttentionScore'' \<and> set (deps_of (f r)) \<subseteq> rec_id ` {..<i}"
  shows "grows st (rewrite f st)" and "plain (rewrite f st) = plain st"
proof -
  let ?rs = "gs_records st"
  have q: "is_q_residency (f r) = is_q_residency r" for r by (simp add: is_q_residency_def f)
  have "{r \<in> set (map f ?rs). \<not> is_q_residency r} = f ` {r \<in> set ?rs. \<not> is_q_residency r}" by (auto simp: q)
  then have plain: "plain_ids (map f ?rs) = plain_ids ?rs" by (simp add: plain_ids_def image_image f)
  have n: "record_id_of (?rs ! i) = rec_id i" "set (deps_of (?rs ! i)) \<subseteq> rec_id ` {..<i}" if "i < length ?rs" for i
    using assms(1) that by (auto simp: gen_ok_def part_ok_def numbered_def)
  have "set (deps_of (f (?rs ! i))) \<subseteq> rec_id ` {..<i}" if "i < length ?rs" for i
    using deps[of i "?rs ! i"] n[OF that] that assms(1) by (auto simp: gen_ok_def)
  then have "numbered (map f ?rs)" using n by (auto simp: numbered_def f)
  moreover have "set (deps_of (f r)) \<subseteq> plain_ids ?rs" if "r \<in> set ?rs" "kind_of r \<noteq> ''AttentionScore''" for r
  proof -
    from that(1) obtain i where "i < length ?rs" "?rs ! i = r" by (auto simp: in_set_conv_nth)
    then have "set (deps_of (f r)) \<subseteq> set (deps_of r)" using deps[of i r] n(1)[of i] that assms(1) by (auto simp: gen_ok_def)
    then show ?thesis using assms(1) that by (auto simp: gen_ok_def part_ok_def well_linked_def)
  qed
  then have "well_linked (map f ?rs)" by (auto simp: well_linked_def plain f)
  moreover have "list_all plain_names (map f ?rs)"
    using assms(1) by (simp add: gen_ok_def part_ok_def list_all_iff plain_names_def f)
  ultimately have "gen_ok (rewrite f st)" using assms(1) by (simp add: gen_ok_def part_ok_def rewrite_def)
  then show "grows st (rewrite f st)" and "plain (rewrite f st) = plain st"
    by (simp_all add: grows_def plain_def rewrite_def plain q o_def)
qed

definition link_score :: "nat \<Rightarrow> nat \<Rightarrow> string \<Rightarrow> string list \<Rightarrow> dict \<Rightarrow> dict" where
  "link_score layer head q_residency scores r =
     (if record_id_of r \<in> set scores then
        let ins = py_items (item (sub_of r ''tensor_io'') ''inputs'');
            r = put_in ''tensor_io'' ''inputs''
              (PList (map (\<lambda>v. if v = PStr (in_head layer head ''Q'') then PStr (in_head layer head ''Q.pim_visible'') else v) ins)) r
        in if q_residency \<in> set (deps_of r) then r else set_deps (q_residency # deps_of r) r
      else r)"

lemma link_scores_rewrite: "link_scores m layer head q scores st = rewrite (link_score layer head q scores) st"
  unfolding link_scores_def rewrite_def link_score_def ..

lemma link_score_head [record_heads]:
  "record_id_of (link_score layer head q scores r) = record_id_of r" "kind_of (link_score layer head q scores r) = kind_of r"
  "op_of (link_score layer head q scores r) = op_of r"
  "set (deps_of (link_score layer head q scores r)) = (if record_id_of r \<in> set scores then {q} else {}) \<union> set (deps_of r)"
  by (auto simp: link_score_def Let_def record_heads)

lemma link_scores_grows:
  assumes "scoring st0 q (st, scores)"
  shows "grows st (link_scores m layer head (rec_id q) scores st)" and "plain (link_scores m layer head (rec_id q) scores st) = plain st"
proof -
  have ok: "gen_ok st" and scores: "set scores \<subseteq> score_ids st \<inter> rec_id ` {q<..}"
    using assms by (auto simp: scoring_def grows_def)
  have "set (deps_of (link_score layer head (rec_id q) scores r)) \<subseteq> set (deps_of r) \<or>
      kind_of r = ''AttentionScore'' \<and> set (deps_of (link_score layer head (rec_id q) scores r)) \<subseteq> rec_id ` {..<i}"
    if "i < gs_next st" "r \<in> set (gs_records st)" "record_id_of r = rec_id i" for i r
  proof (cases "rec_id i \<in> set scores")
    case True
    then obtain r' where "r' \<in> set (gs_records st)" "record_id_of r' = rec_id i" "kind_of r' = ''AttentionScore''"
      using scores by (auto simp: score_ids_def)
    then have "kind_of r = ''AttentionScore''" using head_unique[OF ok that(2)] that(3) by metis
    moreover have "q < i" using scores True by auto
    moreover have "set (deps_of r) \<subseteq> rec_id ` {..<i}" by (rule deps_earlier[OF ok that(2,3)])
    ultimately show ?thesis by (simp add: record_heads that(3))
  qed (simp add: record_heads that(3))
  then show "grows st (link_scores m layer head (rec_id q) scores st)" and "plain (link_scores m layer head (rec_id q) scores st) = plain st"
    unfolding link_scores_rewrite using ok by (intro rewrite_grows; simp add: record_heads)+
qed

lemma head_scores_grows:
  assumes "gen_ok st" and "head_scores m layer head st = (st', scores)"
  shows "grows (emit_q_residency m layer head st) st'" and "grows st st'" and "set scores \<subseteq> plain st'"
proof -
  obtain st1 sc where s: "append_attention_scores m layer head (head_tiles m) (emit_q_residency m layer head st) = (st1, sc)"
    by (metis surj_pair)
  let ?st0 = "emit_q_residency m layer head st"
  have 0: "grows st ?st0" by (rule emit_q_residency_grows[OF assms(1)])
  then have "scoring ?st0 (gs_next st) (?st0, [])"
    using grows_refl[OF grows_ok[OF 0]] by (simp add: scoring_def) (simp add: emit_q_residency_def)
  then have sc: "scoring ?st0 (gs_next st) (st1, sc)"
    unfolding s[symmetric] append_attention_scores_def by (rule foldl_keeps) (auto intro: scoring_step)
  have r: "st' = link_scores m layer head (rec_id (gs_next st)) sc st1" "scores = sc"
    using assms(2) by (auto simp: head_scores_def Let_def s next_rec_def)
  show 1: "grows ?st0 st'" using sc link_scores_grows(1)[OF sc] by (auto simp: r scoring_def intro: grows_trans)
  show "grows st st'" by (rule grows_trans[OF 0 1])
  show "set scores \<subseteq> plain st'" using sc link_scores_grows(2)[OF sc] score_ids_plain[of st1] by (auto simp: r scoring_def)
qed

text \<open>A chain of records is taken apart from the last one back.\<close>

lemma grows_snoc:
  assumes "grows st0 st" and "record_id_of (mk (next_rec st)) = next_rec st" and "plain_names (mk (next_rec st))"
    and "set (deps_of (mk (next_rec st))) \<subseteq> (if kind_of (mk (next_rec st)) = ''AttentionScore'' then known_ids st else plain st)"
  shows "grows st0 (push mk st)"
  using assms by (intro grows_trans[OF assms(1)] grows_push grows_ok)

lemmas record_rules = record_heads plain_push is_q_residency_def

lemma softmax_in_plain: "grows st0 st \<Longrightarrow> x \<in> plain st0 \<Longrightarrow> x \<in> plain st"
  by (auto simp: grows_def)

definition contexts_ok :: "gen_state \<Rightarrow> gen_state \<times> string list \<times> string list \<Rightarrow> bool" where
  "contexts_ok st0 = (\<lambda>(st, ids, tensors). grows st0 st \<and> set ids \<subseteq> plain st)"

lemma context_tile_ok:
  assumes "contexts_ok st0 s" and "softmax \<in> plain st0"
  shows "contexts_ok st0 (append_context_tile m layer head softmax s t)"
proof -
  obtain st ids tensors where s: "s = (st, ids, tensors)" by (cases s)
  have st: "grows st0 st" "set ids \<subseteq> plain st" "softmax \<in> plain st"
    using assms by (auto simp: s contexts_ok_def intro: softmax_in_plain)
  show ?thesis
    unfolding s append_context_tile_def contexts_ok_def Let_def case_prod_beta fst_conv snd_conv
    using st by (intro conjI grows_snoc) (auto simp: record_rules)
qed

lemma contexts_fold:
  assumes "gen_ok st" and "softmax \<in> plain st"
  shows "contexts_ok st (foldl (append_context_tile m layer head softmax) (st, [], []) ts)"
proof (rule foldl_keeps)
  show "contexts_ok st (st, [], [])" using assms(1) by (simp add: contexts_ok_def grows_refl)
qed (rule context_tile_ok[OF _ assms(2)])

lemma attention_contexts_grow:
  assumes "gen_ok st" and "set scores \<subseteq> plain st"
  shows "grows st (append_attention_contexts m layer head tiles scores st)"
proof -
  define mk where "mk = (\<lambda>rid. softmax_record rid layer m head 0 (mint m ''past_len'') 0
    (map (\<lambda>t. in_tile layer head t ''score'') [0..<length tiles]) (map (\<lambda>t. in_tile layer head t ''probability'') [0..<length tiles]) scores)"
  have "grows st (push mk st)" using assms by (intro grows_push) (auto simp: mk_def record_rules)
  moreover have "next_rec st \<in> plain (push mk st)" by (simp add: mk_def record_rules)
  moreover obtain st2 ids tensors where
    f: "foldl (append_context_tile m layer head (next_rec st)) (push mk st, [], []) (enumerate 0 tiles) = (st2, ids, tensors)"
    by (metis surj_pair)
  ultimately have "contexts_ok (push mk st) (st2, ids, tensors)"
    using contexts_fold[of "push mk st" "next_rec st" m layer head "enumerate 0 tiles"] by (simp add: grows_ok[of st])
  then have 2: "grows st st2" "set ids \<subseteq> plain st2"
    using \<open>grows st (push mk st)\<close> by (simp_all add: contexts_ok_def grows_trans[of st "push mk st"])
  have "append_attention_contexts m layer head tiles scores st =
      (if 1 < length ids
       then push (\<lambda>rid. context_reduction_record rid layer m head ids tensors (in_head layer head ''context_reduced'') [] (mint m ''seq_len'')) st2
       else st2)"
    by (simp add: append_attention_contexts_def Let_def mk_def[symmetric] f)
  moreover have "grows st (push (\<lambda>rid. context_reduction_record rid layer m head ids tensors (in_head layer head ''context_reduced'') [] n) st2)" for n
    by (rule grows_snoc[OF 2(1)]) (simp_all add: record_rules 2)
  ultimately show ?thesis using 2(1) by simp
qed

lemma serial_head_grows:
  assumes "gen_ok st"
  shows "grows (emit_q_residency m layer head st) (serial_head m layer st head)" and "grows st (serial_head m layer st head)"
proof -
  obtain st' scores where h: "head_scores m layer head st = (st', scores)" by (metis surj_pair)
  note g = head_scores_grows[OF assms h]
  have "grows st' (append_attention_contexts m layer head (head_tiles m) scores st')"
    by (rule attention_contexts_grow[OF grows_ok[OF g(2)] g(3)])
  then show "grows (emit_q_residency m layer head st) (serial_head m layer st head)" and "grows st (serial_head m layer st head)"
    using g by (auto simp: serial_head_def h intro: grows_trans)
qed

lemma emit_starts: "starts st \<Longrightarrow> grows (emit_q_residency m layer head st) st' \<Longrightarrow> starts st'"
  unfolding emit_q_residency_def by (rule starts_after) (simp_all add: record_rules)

lemma starts_gen_start [simp]: "starts gen_start"
  by (simp add: starts_def gen_start_def)

text \<open>A generator step: it keeps the invariant, and attention starts as it should.\<close>

lemma foldl_starts:
  assumes "\<And>st x. gen_ok st \<Longrightarrow> starts st \<Longrightarrow> x \<in> set xs \<Longrightarrow> grows st (f st x) \<and> starts (f st x)" and "gen_ok st" and "starts st"
  shows "grows st (foldl f st xs) \<and> starts (foldl f st xs)"
  using assms
proof (induction xs arbitrary: st)
  case (Cons x xs)
  have x: "grows st (f st x) \<and> starts (f st x)" using Cons.prems by simp
  then have "grows (f st x) (foldl f (f st x) xs) \<and> starts (foldl f (f st x) xs)"
    using Cons.prems(1) by (intro Cons.IH) (simp_all add: grows_ok[of st])
  then show ?case using x by (auto intro: grows_trans)
qed (simp add: grows_refl)

lemma serial_attention_ok: "gen_ok (serial_attention m) \<and> starts (serial_attention m)"
proof -
  have "grows gen_start (serial_attention m) \<and> starts (serial_attention m)"
    unfolding serial_attention_def
    by (intro foldl_starts conjI[OF serial_head_grows(2) emit_starts[OF _ serial_head_grows(1)]]) simp_all
  then show ?thesis by (auto dest: grows_ok)
qed

lemma overlapped_layer_grows:
  assumes "gen_ok st"
  shows "grows st (overlapped_layer m st layer)" and "starts st \<Longrightarrow> starts (overlapped_layer m st layer)"
proof -
  define gather where "gather = (\<lambda>(st, by_head) head. let (st, ids) = head_scores m layer head st in (st, by_head @ [ids]))"
  have gather: "gather (a, b) h = (case head_scores m layer h a of (st, ids) \<Rightarrow> (st, b @ [ids]))" for a b h
    by (simp add: gather_def)
  obtain st1 scores where g: "foldl gather (st, []) (heads_of m) = (st1, scores)" by (metis surj_pair)
  have gathered: "grows st st1 \<and> length scores = length hs \<and> (\<forall>ids \<in> set scores. set ids \<subseteq> plain st1) \<and>
      (if hs = [] then st1 = st else grows (emit_q_residency m layer (hd hs) st) st1)"
    if "foldl gather (st, []) hs = (st1, scores)" for hs st1 scores
    using that
  proof (induction hs arbitrary: st1 scores rule: rev_induct)
    case (snoc h hs)
    obtain st2 sc2 where 2: "foldl gather (st, []) hs = (st2, sc2)" by (metis surj_pair)
    obtain st3 ids where 3: "head_scores m layer h st2 = (st3, ids)" by (metis surj_pair)
    have r: "st1 = st3" "scores = sc2 @ [ids]" using snoc(2) by (simp_all add: 2 gather 3)
    note IH = snoc.IH[OF 2]
    have h: "grows (emit_q_residency m layer h st2) st3" "grows st2 st3" "set ids \<subseteq> plain st3"
      using head_scores_grows[OF _ 3] IH by (auto dest: grows_ok)
    then have "grows (emit_q_residency m layer (hd (hs @ [h])) st) st3"
      using IH by (cases hs) (auto intro: grows_trans)
    then show ?case using IH h by (auto simp: r intro: grows_trans softmax_in_plain)
  qed (use assms in \<open>simp add: grows_refl\<close>)
  have "grows st1 (foldl (\<lambda>st head. append_attention_contexts m layer head (head_tiles m) (scores ! head) st) st' hs)"
    if "grows st1 st'" "set hs \<subseteq> {..<length scores}" for st' hs
    using that
  proof (induction hs arbitrary: st')
    case (Cons h hs)
    have "set (scores ! h) \<subseteq> plain st'"
      using gathered[OF g] Cons(2,3) by (intro grows_plain[OF Cons(2)]) (simp add: nth_mem)
    then have "grows st1 (append_attention_contexts m layer h (head_tiles m) (scores ! h) st')"
      using Cons(2) by (intro grows_trans[OF Cons(2)] attention_contexts_grow grows_ok)
    then show ?case using Cons by simp
  qed simp
  note contexts = this
  have n: "length scores = length (heads_of m)" and st1: "grows st st1" using gathered[OF g] by simp_all
  have "grows st1 (foldl (\<lambda>st head. append_attention_contexts m layer head (head_tiles m) (scores ! head) st) st1 (heads_of m))"
    by (rule contexts) (simp_all add: grows_refl grows_ok[OF st1] n heads_of_def lessThan_atLeast0)
  then have result: "grows st1 (overlapped_layer m st layer)"
    unfolding overlapped_layer_def gather_def[symmetric] g by simp
  show "grows st (overlapped_layer m st layer)" by (rule grows_trans[OF st1 result])
  show "starts (overlapped_layer m st layer)" if "starts st"
  proof (cases "heads_of m = []")
    case True
    then show ?thesis using that by (simp add: overlapped_layer_def)
  next
    case False
    then have "grows (emit_q_residency m layer (hd (heads_of m)) st) st1" using gathered[OF g] by simp
    then show ?thesis using emit_starts[OF that] grows_trans[OF _ result] by blast
  qed
qed

definition part_starts :: "dict list \<Rightarrow> bool" where
  "part_starts rs \<longleftrightarrow> rs = [] \<or> is_q_residency (hd rs)"

lemma overlapped_attention_ok: "part_ok (overlapped_attention m) \<and> part_starts (overlapped_attention m)"
proof -
  let ?st = "foldl (overlapped_layer m) gen_start (layers_of m)"
  have "grows gen_start ?st \<and> starts ?st"
    by (intro foldl_starts conjI overlapped_layer_grows) simp_all
  then have st: "gen_ok ?st" "starts ?st" by (auto dest: grows_ok)
  let ?f = "put_in ''operator_context'' ''dag_hint'' (PStr ''heads_are_independent_safe_to_parallelize'')"
  have "gen_ok (rewrite ?f ?st)"
    using st by (intro grows_ok[OF rewrite_grows(1)]) (simp_all add: record_heads)
  moreover have "part_starts (map ?f (gs_records ?st))"
    using st(2) by (cases "gs_records ?st") (simp_all add: part_starts_def starts_def is_q_residency_def record_heads)
  ultimately show ?thesis using gen_ok_part[of "rewrite ?f ?st"] by (simp add: overlapped_attention_def add_dag_hint_def rewrite_def)
qed

section \<open>Prefill attention\<close>

lemma prefill_residency_grows:
  assumes "grows st0 st" and "set dependencies \<subseteq> plain st" and "CHR ''0'' \<notin> set op"
  shows "grows st0 (prefill_residency op tensor dependencies reuse_scope context m layer st)"
  unfolding prefill_residency_def using assms by (intro grows_snoc) (simp_all add: record_rules)

lemma prefill_residency_plain:
  "op \<noteq> ''q_operand_residency'' \<Longrightarrow>
   plain (prefill_residency op tensor dependencies reuse_scope context m layer st) = insert (next_rec st) (plain st)"
  "known_ids (prefill_residency op tensor dependencies reuse_scope context m layer st) = insert (next_rec st) (known_ids st)"
  by (simp_all add: prefill_residency_def record_rules)

definition prefill_ok :: "gen_state \<Rightarrow> prefill_scores \<Rightarrow> bool" where
  "prefill_ok st0 ps \<longleftrightarrow> grows st0 (ps_state ps) \<and> set (ps_ids ps) \<subseteq> plain (ps_state ps)"

lemma prefill_score_tile_ok:
  assumes "prefill_ok st0 ps" and "q \<in> known_ids st0"
  shows "prefill_ok st0 (prefill_score_tile m layer head q_tile q_start q_tokens q ps t)"
proof -
  have ps: "grows st0 (ps_state ps)" "set (ps_ids ps) \<subseteq> plain (ps_state ps)" "q \<in> known_ids (ps_state ps)"
    using assms by (auto simp: prefill_ok_def dest: grows_ids)
  obtain k_tile k_start k_tokens where t: "t = (k_tile, k_start, k_tokens)" by (cases t)
  show ?thesis
  proof (cases "causal_pair_count q_start q_tokens k_start k_tokens \<le> 0")
    case False
    then show ?thesis
      unfolding prefill_score_tile_def prefill_ok_def Let_def t prod.case using ps
      by (simp del: ids_push, intro conjI grows_snoc prefill_residency_grows) (auto simp: record_rules prefill_residency_plain)
  qed (use assms in \<open>simp add: prefill_score_tile_def t Let_def\<close>)
qed

lemma prefill_context_tile_ok:
  assumes "contexts_ok st0 s" and "softmax \<in> plain st0"
  shows "contexts_ok st0 (prefill_context_tile m layer head q_tile q_start q_tokens softmax s t)"
proof -
  obtain st ids tensors where s: "s = (st, ids, tensors)" by (cases s)
  obtain k_tile k_start k_tokens pairs prob where t: "t = ((k_tile, k_start, k_tokens, pairs), prob)" by (metis surj_pair)
  have st: "grows st0 st" "set ids \<subseteq> plain st" "softmax \<in> plain st"
    using assms by (auto simp: s contexts_ok_def intro: softmax_in_plain)
  show ?thesis
    unfolding s t prefill_context_tile_def contexts_ok_def Let_def prod.case
    using st by (intro conjI grows_snoc prefill_residency_grows) (auto simp: record_rules prefill_residency_plain)
qed

lemma prefill_softmax_head [record_heads]:
  "record_id_of (prefill_softmax_record rid layer m h t qs qt n ins outs deps) = rid"
  "kind_of (prefill_softmax_record rid layer m h t qs qt n ins outs deps) = ''AttentionSoftmax''"
  "op_of (prefill_softmax_record rid layer m h t qs qt n ins outs deps) = ''attention_softmax_accounting''"
  "deps_of (prefill_softmax_record rid layer m h t qs qt n ins outs deps) = deps"
  by (simp_all add: prefill_softmax_record_def record_heads)

lemma prefill_scores_fold:
  assumes "gen_ok st" and "q \<in> known_ids st"
  shows "prefill_ok st (foldl (prefill_score_tile m layer head q_tile q_start q_tokens q)
    \<lparr>ps_state = st, ps_ids = [], ps_tensors = [], ps_tiles = []\<rparr> ts)"
proof (rule foldl_keeps)
  show "prefill_ok st \<lparr>ps_state = st, ps_ids = [], ps_tensors = [], ps_tiles = []\<rparr>"
    using assms(1) by (simp add: prefill_ok_def grows_refl)
qed (rule prefill_score_tile_ok[OF _ assms(2)])

lemma prefill_contexts_fold:
  assumes "gen_ok st" and "softmax \<in> plain st"
  shows "contexts_ok st (foldl (prefill_context_tile m layer head q_tile q_start q_tokens softmax) (st, [], []) ts)"
proof (rule foldl_keeps)
  show "contexts_ok st (st, [], [])" using assms(1) by (simp add: contexts_ok_def grows_refl)
qed (rule prefill_context_tile_ok[OF _ assms(2)])

lemma prefill_query_tile_grows:
  assumes "gen_ok st"
  shows "grows st (fst (prefill_query_tile m layer head kv_tiles (st, observed) (q_tile, q_start, q_tokens)))"
    and "starts st \<Longrightarrow> starts (fst (prefill_query_tile m layer head kv_tiles (st, observed) (q_tile, q_start, q_tokens)))"
proof -
  define st1 where "st1 = prefill_residency ''q_operand_residency'' (tile_tensor layer head ''Q'' q_tile) [] ''prefill_attention_score''
    [(''head_index'', PInt (int head)), (''query_tile_index'', PInt (int q_tile)), (''query_start'', PInt q_start)] m layer st"
  have 1: "grows st st1" "next_rec st \<in> known_ids st1"
    unfolding st1_def by (rule prefill_residency_grows) (simp_all add: assms grows_refl prefill_residency_plain)
  define ps where "ps = foldl (prefill_score_tile m layer head q_tile q_start q_tokens (next_rec st))
    \<lparr>ps_state = st1, ps_ids = [], ps_tensors = [], ps_tiles = []\<rparr> (enumerate 0 kv_tiles)"
  have ps: "grows st1 (ps_state ps)" "set (ps_ids ps) \<subseteq> plain (ps_state ps)"
    using prefill_scores_fold[OF grows_ok[OF 1(1)] 1(2)] by (simp_all add: ps_def prefill_ok_def)
  define pairs where "pairs = sum_list (map (\<lambda>(_, _, _, n). n) (ps_tiles ps))"
  define probs where "probs = map (str_replace ''.score'' ''.probability'') (ps_tensors ps)"
  define st2 where "st2 = push (\<lambda>rid. prefill_softmax_record rid layer m head q_tile q_start q_tokens pairs (ps_tensors ps) probs (ps_ids ps)) (ps_state ps)"
  have 2: "grows (ps_state ps) st2" "next_rec (ps_state ps) \<in> plain st2"
    unfolding st2_def using ps by (auto intro!: grows_push simp: record_rules prefill_softmax_head grows_ok)
  obtain st3 ids tensors where 3: "foldl (prefill_context_tile m layer head q_tile q_start q_tokens (next_rec (ps_state ps)))
    (st2, [], []) (zip (ps_tiles ps) probs) = (st3, ids, tensors)" by (metis surj_pair)
  have c: "grows st2 st3" "set ids \<subseteq> plain st3"
    using prefill_contexts_fold[OF grows_ok[OF 2(1)] 2(2), of m layer head q_tile q_start q_tokens "zip (ps_tiles ps) probs"]
    by (simp_all add: 3 contexts_ok_def)
  have 4: "grows st1 st3" using ps(1) 2(1) c(1) by (auto intro: grows_trans)
  have "grows st1 (push (\<lambda>rid. context_reduction_record rid layer m head ids tensors out extra n) st3)" for out extra n
    by (rule grows_snoc[OF 4]) (simp_all add: record_rules c)
  then have result: "grows st1 (fst (prefill_query_tile m layer head kv_tiles (st, observed) (q_tile, q_start, q_tokens)))"
    using 4 by (simp add: prefill_query_tile_def Let_def st1_def[symmetric] ps_def[symmetric] pairs_def[symmetric] probs_def[symmetric]
        st2_def[symmetric] 3)
  show "grows st (fst (prefill_query_tile m layer head kv_tiles (st, observed) (q_tile, q_start, q_tokens)))"
    by (rule grows_trans[OF 1(1) result])
  show "starts (fst (prefill_query_tile m layer head kv_tiles (st, observed) (q_tile, q_start, q_tokens)))" if "starts st"
    by (rule starts_after[OF that _ result[unfolded st1_def prefill_residency_def]]) (simp add: record_rules)
qed

lemma prefill_head_grows:
  assumes "gen_ok st" and "prefill_head m layer st head = Inr st'"
  shows "grows st st' \<and> (starts st \<longrightarrow> starts st')"
proof -
  define tiles where "tiles n = tile_ranges (mint m ''seq_len'') (mint m n)" for n
  let ?P = "\<lambda>s. grows st (fst s) \<and> (starts st \<longrightarrow> starts (fst s))"
  have "?P (foldl (prefill_query_tile m layer head kv) (st, 0) ts)" for kv ts
  proof (rule foldl_keeps[where P = ?P])
    show "?P (prefill_query_tile m layer head kv s t)" if "?P s" for s t
      using prefill_query_tile_grows[of "fst s" m layer head kv "snd s" "fst t" "fst (snd t)" "snd (snd t)"] that
      by (auto intro: grows_trans dest: grows_ok)
  qed (use assms(1) in \<open>simp add: grows_refl\<close>)
  note all = this[of "tiles ''context_tile_tokens''" "enumerate 0 (tiles ''score_tile_tokens'')"]
  obtain st1 n where "foldl (prefill_query_tile m layer head (tiles ''context_tile_tokens'')) (st, 0)
    (enumerate 0 (tiles ''score_tile_tokens'')) = (st1, n)" by (metis surj_pair)
  with all show ?thesis
    using assms(2) by (simp add: prefill_head_def Let_def tiles_def split: if_splits)
qed

lemma rfold_starts:
  assumes "\<And>st x st'. gen_ok st \<Longrightarrow> f st x = Inr st' \<Longrightarrow> grows st st' \<and> (starts st \<longrightarrow> starts st')" and "gen_ok st" and "rfold f st xs = Inr st'"
  shows "grows st st' \<and> (starts st \<longrightarrow> starts st')"
  using assms(2,3)
proof (induction xs arbitrary: st)
  case (Cons x xs)
  then obtain st1 where 1: "f st x = Inr st1" "rfold f st1 xs = Inr st'" by (auto simp: result_simps)
  have st1: "grows st st1 \<and> (starts st \<longrightarrow> starts st1)" by (rule assms(1)[OF Cons(2) 1(1)])
  then show ?case using Cons.IH[OF _ 1(2)] by (blast intro: grows_trans dest: grows_ok)
qed (simp add: grows_refl)

section \<open>The attention generators\<close>

lemma validate_all_Inr: "validate_all rs = Inr rs' \<Longrightarrow> rs' = rs"
  by (auto simp: validate_all_def result_simps)

lemma starts_part: "starts st \<Longrightarrow> part_starts (gs_records st)"
  by (simp add: starts_def part_starts_def)

lemma prefill_attention_part_ok:
  assumes "generate_prefill_attention_records m = Inr rs"
  shows "part_ok rs \<and> part_starts rs"
proof -
  obtain st where st: "rfold (\<lambda>st layer. rfold (prefill_head m layer) st (heads_of m)) gen_start (layers_of m) = Inr st"
    "rs = gs_records st"
    using assms by (auto simp: generate_prefill_attention_records_def result_simps dest: validate_all_Inr)
  have "grows gen_start st \<and> (starts gen_start \<longrightarrow> starts st)"
    by (rule rfold_starts[OF _ _ st(1)], rule rfold_starts[OF prefill_head_grows]) simp_all
  then show ?thesis by (auto simp: st(2) intro: gen_ok_part starts_part grows_ok)
qed

lemma attention_part_ok:
  assumes "generate_attention_records m = Inr rs"
  shows "part_ok rs \<and> part_starts rs"
proof (cases "item m ''phase'' = PStr ''prefill''")
  case True
  then show ?thesis using assms prefill_attention_part_ok by (auto simp: generate_attention_records_def result_simps)
next
  case False
  then have "rs = overlapped_attention m \<or> rs = gs_records (serial_attention m)"
    using assms by (auto simp: generate_attention_records_def result_simps split: if_splits dest: validate_all_Inr)
  then show ?thesis using overlapped_attention_ok serial_attention_ok by (auto intro: gen_ok_part starts_part)
qed

section \<open>The feed-forward generator\<close>

lemma hidden_setup_ok:
  assumes "contexts_ok st0 s"
  shows "contexts_ok st0 (hidden_setup m layer s t)"
proof -
  obtain st ids tensors where s: "s = (st, ids, tensors)" by (cases s)
  have st: "grows st0 st" "set ids \<subseteq> plain st" using assms by (simp_all add: s contexts_ok_def)
  show ?thesis
    unfolding s hidden_setup_def contexts_ok_def Let_def case_prod_beta fst_conv snd_conv
    using st by (intro conjI grows_snoc) (auto simp: record_rules)
qed

lemma hidden_setups_fold: "gen_ok st \<Longrightarrow> contexts_ok st (foldl (hidden_setup m layer) (st, [], []) ts)"
  by (rule foldl_keeps, simp add: contexts_ok_def grows_refl) (rule hidden_setup_ok)

text \<open>The residencies of the weights, by name.\<close>

definition weights_ok :: "gen_state \<Rightarrow> gen_state \<times> (string \<times> string) list \<Rightarrow> bool" where
  "weights_ok st0 = (\<lambda>(st, ids). grows st0 st \<and> snd ` set ids \<subseteq> plain st)"

lemma weight_residency_ok:
  assumes "weights_ok st0 s" and "CHR ''0'' \<notin> set (snd t)"
  shows "weights_ok st0 (weight_residency m layer s t)"
proof -
  obtain st ids where s: "s = (st, ids)" by (cases s)
  have st: "grows st0 st" "snd ` set ids \<subseteq> plain st" using assms(1) by (simp_all add: s weights_ok_def)
  show ?thesis
    unfolding s weight_residency_def weights_ok_def Let_def case_prod_beta fst_conv snd_conv
    using st assms(2) by (intro conjI grows_snoc) (auto simp: record_rules)
qed

lemma weight_residencies_fold:
  assumes "gen_ok st" and "foldl (weight_residency m layer) (st, []) (enumerate 0 (ffn_weights m)) = (st', weights)"
  shows "grows st st'" and "w \<in> set (ffn_weights m) \<Longrightarrow> dgetd weights w [] \<in> plain st'"
proof -
  have "weights_ok st (foldl (weight_residency m layer) (st, []) (enumerate 0 (ffn_weights m)))"
  proof (rule foldl_keeps)
    show "weights_ok st (weight_residency m layer s t)" if "weights_ok st s" "t \<in> set (enumerate 0 (ffn_weights m))" for s t
    proof (rule weight_residency_ok[OF that(1)])
      have "snd t \<in> set (ffn_weights m)" using that(2) nth_mem[of "fst t" "ffn_weights m"] by (simp add: in_set_enumerate_eq)
      then show "CHR ''0'' \<notin> set (snd t)" by (auto simp: ffn_weights_def split: if_splits)
    qed
  qed (use assms(1) in \<open>simp add: weights_ok_def grows_refl\<close>)
  then have ok: "grows st st'" "snd ` set weights \<subseteq> plain st'" by (simp_all add: assms(2) weights_ok_def)
  have "map fst (snd (foldl (weight_residency m layer) s ts)) = map fst (snd s) @ map snd ts" for s ts
    by (induction ts arbitrary: s) (simp_all add: weight_residency_def case_prod_beta)
  from this[of "(st, [])" "enumerate 0 (ffn_weights m)"] have keys: "map fst weights = ffn_weights m" by (simp add: assms(2))
  show "grows st st'" by (rule ok(1))
  show "dgetd weights w [] \<in> plain st'" if "w \<in> set (ffn_weights m)"
  proof -
    have "w \<in> fst ` set weights" using that by (simp flip: keys)
    then obtain v where "dget weights w = Some v" using dget_in_keys[of w weights] by blast
    then have "v \<in> snd ` set weights" by (auto dest!: map_of_SomeD intro: rev_image_eqI)
    then show ?thesis using ok(2) \<open>dget weights w = Some v\<close> by (auto simp: dgetd_def)
  qed
qed

lemma intermediate_residency_grows:
  assumes "grows st0 st" and "set dependencies \<subseteq> plain st" and "CHR ''0'' \<notin> set op"
  shows "grows st0 (intermediate_residency m layer op tensor dependencies reuse_scope st)"
  unfolding intermediate_residency_def using assms by (intro grows_snoc) (simp_all add: record_rules)

lemma intermediate_residency_plain:
  "op \<noteq> ''q_operand_residency'' \<Longrightarrow>
   plain (intermediate_residency m layer op tensor dependencies reuse_scope st) = insert (next_rec st) (plain st)"
  by (simp add: intermediate_residency_def record_rules)

lemma gated_activation_grows:
  assumes "gen_ok st" and "{hidden_reuse, gate_weight, up_residency} \<subseteq> plain st"
    and "gated_activation m layer hidden_reuse gate_weight up_residency st = (st', tensor, producer, stage)"
  shows "grows st st'" and "producer \<in> plain st'"
proof -
  have "grows st (fst (gated_activation m layer hidden_reuse gate_weight up_residency st))"
    unfolding gated_activation_def Let_def fst_conv
    using assms(2) by (intro grows_snoc intermediate_residency_grows) (auto simp: record_rules intermediate_residency_plain grows_refl[OF assms(1)])
  then show "grows st st'" by (simp add: assms(3))
  have "fst (snd (snd (gated_activation m layer hidden_reuse gate_weight up_residency st))) \<in>
      plain (fst (gated_activation m layer hidden_reuse gate_weight up_residency st))"
    unfolding gated_activation_def Let_def fst_conv snd_conv by (simp add: record_rules)
  then show "producer \<in> plain st'" by (simp add: assms(3))
qed

lemma relu_activation_grows:
  assumes "gen_ok st" and "up_residency \<in> plain st" and "relu_activation m layer up_residency st = (st', tensor, producer, stage)"
  shows "grows st st'" and "producer \<in> plain st'"
  using assms by (auto simp: relu_activation_def Let_def record_rules intro!: grows_push)

lemma ffn_layer_grows:
  assumes "gen_ok st"
  shows "grows st (ffn_layer m st layer)"
proof -
  let ?n = "\<lambda>s. in_layer layer (''ffn.'' @ s)"
  obtain st1 setups residents where 1: "foldl (hidden_setup m layer) (st, [], [])
    (enumerate 0 (tile_ranges (mint m ''hidden_size'') (mint m ''ffn_activation_tile_size''))) = (st1, setups, residents)"
    by (metis surj_pair)
  have "contexts_ok st (st1, setups, residents)" unfolding 1[symmetric] by (rule hidden_setups_fold[OF assms])
  then have g1: "grows st st1" "set setups \<subseteq> plain st1" by (simp_all add: contexts_ok_def)
  obtain st2 weights where 2: "foldl (weight_residency m layer) (st1, []) (enumerate 0 (ffn_weights m)) = (st2, weights)"
    by (metis surj_pair)
  note w = weight_residencies_fold[OF grows_ok[OF g1(1)] 2]
  have weights: "dgetd weights ''up'' [] \<in> plain st2" "dgetd weights ''down'' [] \<in> plain st2"
    "is_gated m \<Longrightarrow> dgetd weights ''gate'' [] \<in> plain st2"
    using w(2) by (simp_all add: ffn_weights_def)
  define hr where "hr = next_rec st2"
  define mk3 where "mk3 rid = semantic_operand_record rid ''PIMOperandReuse'' layer
     (if is_gated m then ''ffn_hidden_reuse_for_up_gate'' else ''ffn_hidden_reuse_for_up_projection'') m (operator_family m)
     ''operand_reuse'' residents [in_layer layer (if is_gated m then ''hidden.reused_for_up_gate'' else ''hidden.reused_for_up_projection'')] setups
     \<lparr>oa_role = ''activation_input'', oa_residency = ''dynamic_activation_tile'', oa_materialized = False,
       oa_reuse_scope = (if is_gated m then ''ffn_up_gate_pair'' else ''ffn_up_projection''), oa_lowering = ''semantic_only_operand_reuse''\<rparr>
     [(''stage_index'', PInt 0)]" for rid
  define mk4 where "mk4 rid = ffn_projection_record rid layer m ''ffn_up_projection'' 0
     [in_layer layer (if is_gated m then ''hidden.reused_for_up_gate'' else ''hidden.reused_for_up_projection''), weight_tensor layer ''up'' @ ''.resident'']
     [?n ''up_intermediate''] [hr, dgetd weights ''up'' []] None None" for rid
  define st4 where "st4 = push mk4 (push mk3 st2)"
  define st5 where "st5 = intermediate_residency m layer ''ffn_up_intermediate_residency'' (?n ''up_intermediate'') [next_rec (push mk3 st2)]
    (if is_gated m then ''ffn_gated_multiply'' else ''ffn_down_projection'') st4"
  have "set setups \<subseteq> plain st2" using grows_plain[OF w(1) g1(2)] .
  then have 3: "grows st2 (push mk3 st2)" "hr \<in> plain (push mk3 st2)"
    by (auto intro!: grows_push grows_ok[OF w(1)] simp: mk3_def record_rules hr_def)
  then have 4: "grows st2 st4" "next_rec (push mk3 st2) \<in> plain st4" "hr \<in> plain st4"
    unfolding st4_def using weights(1) by (auto intro!: grows_snoc simp: mk4_def record_rules grows_plain[OF 3(1), THEN subsetD] dest: softmax_in_plain[OF 3(1)])
  have 5: "grows st2 st5" "next_rec st4 \<in> plain st5" "hr \<in> plain st5"
    unfolding st5_def using 4 by (auto intro!: intermediate_residency_grows simp: intermediate_residency_plain)
  obtain st6 tensor producer stage where 6: "(if is_gated m then gated_activation m layer hr (dgetd weights ''gate'' []) (next_rec st4) st5
      else relu_activation m layer (next_rec st4) st5) = (st6, tensor, producer, stage)" by (metis surj_pair)
  have g6: "grows st5 st6" "producer \<in> plain st6"
  proof -
    have "grows st5 st6 \<and> producer \<in> plain st6"
    proof (cases "is_gated m")
      case True
      then have "{hr, dgetd weights ''gate'' [], next_rec st4} \<subseteq> plain st5" using 5 softmax_in_plain[OF 5(1) weights(3)] by simp
      from gated_activation_grows[OF grows_ok[OF 5(1)] this] show ?thesis using 6 True by auto
    next
      case False
      then show ?thesis using relu_activation_grows[OF grows_ok[OF 5(1)] 5(2)] 6 by auto
    qed
    then show "grows st5 st6" "producer \<in> plain st6" by auto
  qed
  have down: "dgetd weights ''down'' [] \<in> plain st6" using softmax_in_plain[OF g6(1) softmax_in_plain[OF 5(1) weights(2)]] .
  have "grows st st6" using grows_trans[OF g1(1) grows_trans[OF w(1) grows_trans[OF 5(1) g6(1)]]] .
  then show ?thesis
    unfolding ffn_layer_def Let_def 1 2 prod.case hr_def[symmetric] mk3_def[abs_def, symmetric] mk4_def[abs_def, symmetric] st4_def[symmetric] st5_def[symmetric] 6
    using g6(2) down by (intro grows_snoc) (auto simp: record_rules)
qed

lemma ffn_part_ok:
  assumes "generate_ffn_records m = Inr rs"
  shows "part_ok rs"
proof -
  have "grows gen_start (foldl (ffn_layer m) gen_start (layers_of m))" by (intro foldl_grows ffn_layer_grows) simp_all
  then show ?thesis
    using assms by (auto simp: generate_ffn_records_def result_simps dest!: validate_all_Inr intro: gen_ok_part grows_ok)
qed

end
