(* ===== verification/Surrogate_Compose.thy ===== *)
theory Surrogate_Compose
  imports Surrogate_Order
begin

text \<open>
  The composition of layers: a part of a layer keeps its order when it is renumbered and retargeted,
  and when it is linked to the parts before it. So the trace of a dense transformer is
  topological.
\<close>

section \<open>Renumbering and retargeting\<close>

lemma item_retargeted: "item (map (\<lambda>kv. (fst kv, retarget_value layer (snd kv))) r) f = retarget_value layer (item r f)"
proof -
  have "dget (map (\<lambda>kv. (fst kv, g (snd kv))) d) k = map_option g (dget d k)" for g :: "pyval \<Rightarrow> pyval" and d :: dict and k
    by (induction d) auto
  then show ?thesis by (simp add: dgetd_def split: option.split)
qed

lemma text_of_retargeted: "text_of (retarget_value layer v) = retarget_string layer (text_of v)"
  by (cases v) (simp_all add: text_of_def retarget_string_def)

lemma retarget_record_head:
  "record_id_of (retarget_record layer r) = retarget_string layer (record_id_of r)"
  "kind_of (retarget_record layer r) = retarget_string layer (kind_of r)"
  "op_of (retarget_record layer r) = retarget_string layer (op_of r)"
  "deps_of (retarget_record layer (set_deps ds r)) = map (retarget_string layer) ds"
proof -
  let ?r = "\<lambda>r. map (\<lambda>kv. (fst kv, retarget_value layer (snd kv))) r"
  have k: "kind_of r = text_of (item r ''kind'')" for r
    by (cases "item r ''kind''") (simp_all add: kind_of_def text_of_def)
  have h: "record_id_of (retarget_record layer r) = record_id_of (?r r)" "kind_of (retarget_record layer r) = kind_of (?r r)"
    "op_of (retarget_record layer r) = op_of (?r r)" "deps_of (retarget_record layer r) = deps_of (?r r)" for r
    by (simp_all add: retarget_record_def record_heads)
  show "record_id_of (retarget_record layer r) = retarget_string layer (record_id_of r)"
    and "kind_of (retarget_record layer r) = retarget_string layer (kind_of r)"
    and "op_of (retarget_record layer r) = retarget_string layer (op_of r)"
    unfolding h by (simp_all only: record_id_of_def k op_of_def item_retargeted text_of_retargeted)
  have "py_items (retarget_value layer (p_strs ds)) = map (PStr \<circ> retarget_string layer) ds"
    by (simp add: p_strs_def py_items_def)
  then show "deps_of (retarget_record layer (set_deps ds r)) = map (retarget_string layer) ds"
    unfolding h(4) unfolding deps_of_def item_retargeted
    by (simp add: set_deps_def dgetd_def dget_dset text_of_def o_def)
qed

lemma str_replace_skip: "hd old \<notin> set xs \<Longrightarrow> old \<noteq> [] \<Longrightarrow> str_replace old new (xs @ ys) = xs @ str_replace old new ys"
proof (induction xs)
  case (Cons x xs)
  then show ?case by (cases old) auto
qed simp

lemma str_replace_missing: "c \<in> set old \<Longrightarrow> c \<notin> set s \<Longrightarrow> str_replace old new s = s"
proof (induction old new s rule: str_replace.induct)
  case (2 old new d ds)
  then have "\<not> prefix old (d # ds)" by (meson in_mono set_mono_prefix)
  with 2 show ?case by simp
qed simp

lemma retarget_fixed: "fixed_name s \<Longrightarrow> retarget_string layer s = s"
proof -
  assume "fixed_name s"
  then obtain xs ys where s: "s = xs @ ys" and xs: "CHR ''l'' \<notin> set xs" "CHR ''L'' \<notin> set xs" and ys: "CHR ''0'' \<notin> set ys"
    by (auto simp: fixed_name_def)
  have "str_replace ''layer_00'' new (xs @ ys) = xs @ ys" for new
    using xs(1) ys by (simp add: str_replace_skip str_replace_missing[of "CHR ''0''"])
  moreover have "str_replace ''L0.'' new (xs @ ys) = xs @ ys" for new
    using xs(2) ys by (simp add: str_replace_skip str_replace_missing[of "CHR ''0''"])
  ultimately show ?thesis by (simp add: retarget_string_def s)
qed

lemma retarget_plain_name: "CHR ''0'' \<notin> set s \<Longrightarrow> retarget_string layer s = s"
  by (rule retarget_fixed[OF fixed_without_zero])

text \<open>A part in its place: identifiers from \<open>n\<close> on, dependencies within the part.\<close>

definition placed :: "nat \<Rightarrow> dict list \<Rightarrow> bool" where
  "placed n rs \<longleftrightarrow> well_linked rs \<and>
     (\<forall>i < length rs. record_id_of (rs ! i) = rec_id (n + i) \<and> set (deps_of (rs ! i)) \<subseteq> rec_id ` {n..<n + i})"

lemma id_map_numbered:
  assumes "numbered rs"
  shows "dget (id_map rs n) (rec_id i) = (if i < length rs then Some (rec_id (n + i)) else None)"
proof -
  let ?kvs = "map (\<lambda>(i, r). (record_id_of r, rec_id (n + i))) (enumerate 0 rs)"
  have kvs: "?kvs = map (\<lambda>i. (rec_id i, rec_id (n + i))) [0..<length rs]"
    by (rule nth_equalityI) (use assms in \<open>simp_all add: numbered_def nth_enumerate_eq\<close>)
  have "distinct (dkeys ?kvs)" unfolding kvs by (simp add: o_def distinct_map inj_on_def)
  then have "dget (id_map rs n) (rec_id i) = dget ?kvs (rec_id i)"
    by (simp add: id_map_def dget_dupdate split: option.split)
  also have "\<dots> = (if i < length rs then Some (rec_id (n + i)) else None)"
  proof -
    have "dget (map (\<lambda>i. (rec_id i, rec_id (n + i))) xs) (rec_id i) = (if i \<in> set xs then Some (rec_id (n + i)) else None)" for xs
      by (induction xs) auto
    then show ?thesis unfolding kvs by simp
  qed
  finally show ?thesis .
qed

text \<open>What \<open>place_part\<close> does to one record of a part.\<close>

definition moved :: "nat \<Rightarrow> dict list \<Rightarrow> nat \<Rightarrow> dict \<Rightarrow> dict" where
  "moved layer rs n r =
     (let ids = id_map rs n in
      retarget_record layer (set_deps (map (\<lambda>d. dgetd ids d d) (deps_of r)) (dset ''record_id'' (PStr (dgetd ids (record_id_of r) [])) r)))"

lemma place_part_moved: "place_part layer rs n = (map (moved layer rs n) rs, n + length rs)"
  by (simp add: place_part_def renumber_records_def moved_def Let_def)

lemma moved_head:
  assumes "part_ok rs" and "i < length rs"
  shows "record_id_of (moved layer rs n (rs ! i)) = rec_id (n + i)"
    and "kind_of (moved layer rs n (rs ! i)) = kind_of (rs ! i)" and "op_of (moved layer rs n (rs ! i)) = op_of (rs ! i)"
    and "set (deps_of (moved layer rs n (rs ! i))) = (\<lambda>j. rec_id (n + j)) ` {j. rec_id j \<in> set (deps_of (rs ! i))}"
proof -
  have rs: "numbered rs" "plain_names (rs ! i)" using assms by (simp_all add: part_ok_def list_all_iff)
  have i: "record_id_of (rs ! i) = rec_id i" "set (deps_of (rs ! i)) \<subseteq> rec_id ` {..<i}"
    using rs(1) assms(2) by (simp_all add: numbered_def)
  show "record_id_of (moved layer rs n (rs ! i)) = rec_id (n + i)"
    by (simp add: moved_def Let_def retarget_record_head record_heads i(1) dgetd_def id_map_numbered[OF rs(1)] assms(2))
  show "kind_of (moved layer rs n (rs ! i)) = kind_of (rs ! i)" and "op_of (moved layer rs n (rs ! i)) = op_of (rs ! i)"
    using rs(2) by (simp_all add: moved_def Let_def retarget_record_head record_heads retarget_fixed)
  have shift: "retarget_string layer (dgetd (id_map rs n) d d) = rec_id (n + j)" if "d = rec_id j" "d \<in> set (deps_of (rs ! i))" for d j
    using that i(2) assms(2) by (auto simp: dgetd_def id_map_numbered[OF rs(1)])
  have "set (deps_of (moved layer rs n (rs ! i))) = (\<lambda>d. retarget_string layer (dgetd (id_map rs n) d d)) ` set (deps_of (rs ! i))"
    by (simp add: moved_def Let_def retarget_record_head image_image)
  also have "\<dots> = (\<lambda>j. rec_id (n + j)) ` {j. rec_id j \<in> set (deps_of (rs ! i))}"
  proof -
    have "set (deps_of (rs ! i)) = rec_id ` {j. rec_id j \<in> set (deps_of (rs ! i))}" using i(2) by auto
    then have "f ` set (deps_of (rs ! i)) = (\<lambda>j. f (rec_id j)) ` {j. rec_id j \<in> set (deps_of (rs ! i))}" for f :: "string \<Rightarrow> string"
      by (metis image_image)
    then show ?thesis by (simp add: shift)
  qed
  finally show "set (deps_of (moved layer rs n (rs ! i))) = (\<lambda>j. rec_id (n + j)) ` {j. rec_id j \<in> set (deps_of (rs ! i))}" .
qed

lemma moved_residency:
  "part_ok rs \<Longrightarrow> i < length rs \<Longrightarrow> is_q_residency (moved layer rs n (rs ! i)) = is_q_residency (rs ! i)"
  by (simp add: is_q_residency_def moved_head)

lemma plain_idsI: "r \<in> set rs \<Longrightarrow> \<not> is_q_residency r \<Longrightarrow> record_id_of r = d \<Longrightarrow> d \<in> plain_ids rs"
  by (auto simp: plain_ids_def)

lemma place_part_placed:
  assumes "part_ok rs"
  shows "placed n (fst (place_part layer rs n))" and "map op_of (fst (place_part layer rs n)) = map op_of rs"
    and "snd (place_part layer rs n) = n + length rs" and "map is_q_residency (fst (place_part layer rs n)) = map is_q_residency rs"
proof -
  let ?m = "moved layer rs n"
  have rs: "numbered rs" "well_linked rs" using assms by (simp_all add: part_ok_def)
  have "set (deps_of (?m (rs ! i))) \<subseteq> plain_ids (map ?m rs)" if i: "i < length rs" and kind: "kind_of (?m (rs ! i)) \<noteq> ''AttentionScore''" for i
  proof
    fix d assume "d \<in> set (deps_of (?m (rs ! i)))"
    then obtain j where j: "d = rec_id (n + j)" "rec_id j \<in> set (deps_of (rs ! i))"
      using moved_head(4)[OF assms i] by auto
    then have "rec_id j \<in> plain_ids rs"
      using rs(2) i kind moved_head(2)[OF assms i] by (auto simp: well_linked_def)
    then obtain k where k: "k < length rs" "record_id_of (rs ! k) = rec_id j" "\<not> is_q_residency (rs ! k)"
      by (auto simp: plain_ids_def in_set_conv_nth)
    then have "k = j" using rs(1) by (simp add: numbered_def)
    then show "d \<in> plain_ids (map ?m rs)"
      using k j moved_head(1)[OF assms k(1)] moved_residency[OF assms k(1)]
      by (intro plain_idsI[of "?m (rs ! k)"]) simp_all
  qed
  note deps = this
  have "well_linked (map ?m rs)"
    unfolding well_linked_def
  proof (intro ballI impI)
    fix r assume "r \<in> set (map ?m rs)" and kind: "kind_of r \<noteq> ''AttentionScore''"
    then obtain i where "i < length rs" "r = ?m (rs ! i)" by (auto simp: in_set_conv_nth)
    then show "set (deps_of r) \<subseteq> plain_ids (map ?m rs)" using deps[of i] kind by simp
  qed
  then show "placed n (fst (place_part layer rs n))"
    using moved_head(1,4)[OF assms] rs(1) by (fastforce simp: placed_def place_part_moved numbered_def)
  show "map op_of (fst (place_part layer rs n)) = map op_of rs" and "snd (place_part layer rs n) = n + length rs"
    and "map is_q_residency (fst (place_part layer rs n)) = map is_q_residency rs"
    using moved_head(3)[OF assms] moved_residency[OF assms] by (simp_all add: place_part_moved list_eq_iff_nth_eq)
qed

section \<open>Order\<close>

lemma placed_take: "placed n rs \<Longrightarrow> i \<le> length rs \<Longrightarrow> ids_of (take i rs) = rec_id ` {n..<n + i}"
proof -
  assume "placed n rs" "i \<le> length rs"
  then have "record_id_of ` (!) rs ` {..<i} = (\<lambda>j. rec_id (n + j)) ` {..<i}"
    unfolding image_image by (intro image_cong) (auto simp: placed_def)
  moreover have "(!) rs ` {..<i} = set (take i rs)" using \<open>i \<le> length rs\<close> by (simp add: nth_image lessThan_atLeast0)
  moreover have "{n..<n + i} = (\<lambda>j. n + j) ` {..<i}" by (simp add: lessThan_atLeast0 add.commute)
  ultimately show ?thesis by (simp add: ids_of_def image_image)
qed

lemma placed_ids: "placed n rs \<Longrightarrow> ids_of rs = rec_id ` {n..<n + length rs}"
  using placed_take[of n rs "length rs"] by simp

lemma placed_ordered:
  assumes "placed n rs" and "seen \<subseteq> rec_id ` {..<n}"
  shows "ordered_after seen rs"
  unfolding ordered_after_iff
proof (intro allI impI conjI)
  fix i assume i: "i < length rs"
  have p: "record_id_of (rs ! i) = rec_id (n + i)" "set (deps_of (rs ! i)) \<subseteq> rec_id ` {n..<n + i}"
    using assms(1) i by (simp_all add: placed_def)
  have t: "ids_of (take i rs) = rec_id ` {n..<n + i}" by (rule placed_take[OF assms(1)]) (use i in simp)
  show "record_id_of (rs ! i) \<notin> seen \<union> ids_of (take i rs)" using assms(2) by (auto simp: p t)
  show "set (deps_of (rs ! i)) \<subseteq> seen \<union> ids_of (take i rs)" using p(2) by (auto simp: t)
qed

text \<open>
  Records may be rewritten and dropped: identifiers stay, and a kept record depends on what it
  depended on, less the dropped records, and on what was there before.
\<close>

lemma ordered_after_kept:
  assumes "ordered_after seen rs" and "seen' \<subseteq> seen" and "seen - dropped \<subseteq> seen'" and "extra \<subseteq> seen'"
    and "\<And>r. r \<in> set rs \<Longrightarrow> P (f r) \<Longrightarrow> record_id_of (f r) = record_id_of r \<and> set (deps_of (f r)) \<subseteq> extra \<union> (set (deps_of r) - dropped)"
    and "\<And>r. r \<in> set rs \<Longrightarrow> \<not> P (f r) \<Longrightarrow> record_id_of r \<in> dropped"
  shows "ordered_after seen' (filter P (map f rs))"
  using assms
proof (induction rs arbitrary: seen seen')
  case (Cons r rs)
  have r: "record_id_of r \<notin> seen" "set (deps_of r) \<subseteq> seen" "ordered_after (insert (record_id_of r) seen) rs"
    using Cons.prems(1) by simp_all
  show ?case
  proof (cases "P (f r)")
    case True
    then have f: "record_id_of (f r) = record_id_of r" "set (deps_of (f r)) \<subseteq> extra \<union> (set (deps_of r) - dropped)"
      using Cons.prems(5) by simp_all
    have "ordered_after (insert (record_id_of r) seen') (filter P (map f rs))"
      by (rule Cons.IH[OF r(3)]) (use Cons.prems in auto)
    moreover have "set (deps_of (f r)) \<subseteq> seen'" using f(2) r(2) Cons.prems(3,4) by blast
    ultimately show ?thesis using True f(1) r(1) Cons.prems(2) by (simp add: subset_iff) blast
  next
    case False
    then have "record_id_of r \<in> dropped" using Cons.prems(6) by simp
    then have "ordered_after seen' (filter P (map f rs))"
      by (intro Cons.IH[OF r(3)]) (use Cons.prems in auto)
    then show ?thesis using False by simp
  qed
qed simp

lemma ordered_after_linked:
  assumes "ordered_after seen rs"
    and "\<And>r. r \<in> set rs \<Longrightarrow> record_id_of (f r) = record_id_of r \<and> set (deps_of (f r)) \<subseteq> seen \<union> set (deps_of r)"
  shows "ordered_after seen (map f rs)"
  using ordered_after_kept[OF assms(1), of seen "{}" seen "\<lambda>_. True" f] assms(2) by simp

lemma ids_of_map: "(\<And>r. r \<in> set rs \<Longrightarrow> record_id_of (f r) = record_id_of r) \<Longrightarrow> ids_of (map f rs) = ids_of rs"
  by (simp add: ids_of_def image_image cong: image_cong)

section \<open>Linking the parts of a layer\<close>

lemma set_tensors_head [record_heads]:
  "record_id_of (set_inputs ss r) = record_id_of r" "kind_of (set_inputs ss r) = kind_of r" "op_of (set_inputs ss r) = op_of r"
  "deps_of (set_inputs ss r) = deps_of r"
  "record_id_of (set_outputs ss r) = record_id_of r" "kind_of (set_outputs ss r) = kind_of r" "op_of (set_outputs ss r) = op_of r"
  "deps_of (set_outputs ss r) = deps_of r"
  "record_id_of (set_first_input t r) = record_id_of r" "kind_of (set_first_input t r) = kind_of r" "op_of (set_first_input t r) = op_of r"
  "deps_of (set_first_input t r) = deps_of r"
  by (simp_all add: set_inputs_def set_outputs_def set_first_input_def record_heads)

lemma relink_head:
  "record_id_of (relink by_op r) = record_id_of r" "op_of (relink by_op r) = op_of r"
  "set (deps_of (relink by_op r)) \<subseteq> \<Union> (set ` snd ` set by_op) \<union> set (deps_of r)"
  by (auto simp: relink_def record_heads split: option.split dest!: map_of_SomeD)

lemma id_of_op_known:
  assumes "op \<in> op_of ` set rs"
  shows "id_of_op rs op \<in> ids_of rs"
proof -
  have "filter (\<lambda>r. op_of r = op) rs \<noteq> []" using assms by (auto simp: filter_empty_conv)
  then have "hd (filter (\<lambda>r. op_of r = op) rs) \<in> set rs" using hd_in_set[of "filter (\<lambda>r. op_of r = op) rs"] by simp
  then show ?thesis by (simp add: id_of_op_def ids_of_def)
qed

lemma link_decode_record_head [record_heads]:
  "record_id_of (link_decode_record layer q k v res r) = record_id_of r" "kind_of (link_decode_record layer q k v res r) = kind_of r"
  "op_of (link_decode_record layer q k v res r) = op_of r"
  by (simp_all add: link_decode_record_def Let_def record_heads)

lemma link_decode_record_residency: "is_q_residency (link_decode_record layer q k v res r) = is_q_residency r"
  by (simp add: is_q_residency_def record_heads)

lemma link_decode_record_deps:
  "set (deps_of (link_decode_record layer q k v res r)) \<subseteq> {q, k, v} \<union> set (take 1 res) \<union>
     (if kind_of r = ''AttentionScore'' then set (deps_of r) - set res else set (deps_of r))"
  by (auto simp: link_decode_record_def Let_def record_heads)

lemma link_decode_ordered:
  assumes rs: "placed n rs" "part_starts rs" and seen: "seen \<subseteq> rec_id ` {..<n}" "{q, k, v} \<subseteq> seen"
  shows "ordered_after seen (link_decode layer q k v rs)"
proof (cases rs)
  case (Cons r0 rs')
  define res where "res = map record_id_of (filter is_q_residency rs)"
  define dropped where "dropped = set res - {record_id_of r0}"
  have q0: "is_q_residency r0" using rs(2) by (simp add: Cons part_starts_def)
  then have first: "take 1 res = [record_id_of r0]" by (simp add: res_def Cons)
  let ?f = "link_decode_record layer q k v res"
  let ?P = "\<lambda>r. \<not> (is_q_residency r \<and> [record_id_of r] \<noteq> take 1 res)"
  have o: "ordered_after seen rs" by (rule placed_ordered[OF rs(1) seen(1)])
  then have fresh: "distinct (map record_id_of rs)" using topological_iff[of rs] placed_ordered[OF rs(1), of "{}"] by (simp add: topological_def)
  have plain: "plain_ids rs \<inter> set res = {}"
    using fresh by (auto simp: plain_ids_def res_def distinct_map inj_on_def)
  have deps: "set (deps_of (?f r)) \<subseteq> insert (record_id_of r0) seen \<union> (set (deps_of r) - dropped)" if "r \<in> set rs" for r
  proof (cases "kind_of r = ''AttentionScore''")
    case True
    then show ?thesis using link_decode_record_deps[of layer q k v res r, unfolded first] seen(2) by (auto simp: dropped_def)
  next
    case False
    then have "set (deps_of r) \<subseteq> plain_ids rs" using rs(1) that by (auto simp: placed_def well_linked_def)
    then show ?thesis using link_decode_record_deps[of layer q k v res r, unfolded first] False seen(2) plain by (auto simp: dropped_def)
  qed
  have "ordered_after (insert (record_id_of r0) seen) (filter ?P (map ?f rs'))"
  proof (rule ordered_after_kept[where dropped = dropped and extra = "insert (record_id_of r0) seen"])
    show "ordered_after (insert (record_id_of r0) seen) rs'" using o by (simp add: Cons)
    show "record_id_of (?f r) = record_id_of r \<and> set (deps_of (?f r)) \<subseteq> insert (record_id_of r0) seen \<union> (set (deps_of r) - dropped)"
      if "r \<in> set rs'" for r using deps[of r] that by (simp add: Cons record_heads)
    show "record_id_of r \<in> dropped" if "r \<in> set rs'" "\<not> ?P (?f r)" for r
      using that q0 by (auto simp: link_decode_record_residency record_heads first dropped_def res_def Cons)
  qed auto
  moreover have "deps_of (?f r0) = [q]" using q0 
    using first by (simp add: link_decode_record_def Let_def is_q_residency_def record_heads)
  moreover have "?P (?f r0)" using first by (simp add: record_heads)
  ultimately show ?thesis
    using o seen(2) by (simp add: link_decode_def res_def[symmetric] Cons[symmetric] Let_def) (simp add: Cons record_heads)
qed (simp add: link_decode_def)

lemma link_decode_ids: "ids_of (link_decode layer q k v rs) \<subseteq> ids_of rs"
  by (auto simp: link_decode_def Let_def ids_of_def record_heads)

section \<open>Layers\<close>

text \<open>A trace that is in order and uses identifiers below \<open>n\<close>.\<close>

definition fits :: "nat \<Rightarrow> dict list \<Rightarrow> bool" where
  "fits n rs \<longleftrightarrow> topological rs \<and> ids_of rs \<subseteq> rec_id ` {..<n}"

lemma fits_append:
  assumes "fits n rs" and "ordered_after (ids_of rs) xs" and "ids_of xs \<subseteq> rec_id ` {n..<n'}" and "n \<le> n'"
  shows "fits n' (rs @ xs)"
proof -
  have "rec_id ` {..<n} \<subseteq> rec_id ` {..<n'}" "rec_id ` {n..<n'} \<subseteq> rec_id ` {..<n'}" using assms(4) by auto
  then show ?thesis using assms(1-3) by (auto simp: fits_def topological_def ordered_after_append)
qed

lemma fits_linked:
  assumes "fits n rs" and "placed n ps"
    and "\<And>r. r \<in> set ps \<Longrightarrow> record_id_of (f r) = record_id_of r \<and> set (deps_of (f r)) \<subseteq> ids_of rs \<union> set (deps_of r)"
  shows "fits (n + length ps) (rs @ map f ps)"
proof (rule fits_append[OF assms(1)])
  have "ids_of rs \<subseteq> rec_id ` {..<n}" using assms(1) by (simp add: fits_def)
  then show "ordered_after (ids_of rs) (map f ps)"
    using assms(3) by (intro ordered_after_linked placed_ordered[OF assms(2)])
  show "ids_of (map f ps) \<subseteq> rec_id ` {n..<n + length ps}"
    using assms(3) placed_ids[OF assms(2)] by (simp add: ids_of_map)
qed simp

lemma fits_placed: "fits n rs \<Longrightarrow> placed n ps \<Longrightarrow> fits (n + length ps) (rs @ ps)"
  using fits_linked[of n rs ps "\<lambda>r. r"] by simp

text \<open>A single record numbered from \<open>n\<close>.\<close>

lemma renumbered_single:
  assumes "record_id_of r = ''rec_0000''" and "deps_of r = []"
  obtains r' where "renumber_records [r] n = ([r'], n + 1)" and "placed n [r']"
proof -
  have zero: "''rec_0000'' = rec_id 0" by code_simp
  let ?r' = "set_deps [] (dset ''record_id'' (PStr (rec_id n)) r)"
  have "renumber_records [r] n = ([?r'], n + 1)"
    using assms(2) by (simp add: renumber_records_def Let_def id_map_def assms(1) dgetd_def dupdate_def)
  moreover have "placed n [?r']" by (simp add: placed_def well_linked_def record_heads)
  ultimately show ?thesis by (rule that)
qed

definition parts_ok :: "bool \<Rightarrow> layer_parts \<Rightarrow> bool" where
  "parts_ok prefill p \<longleftrightarrow>
     list_all part_ok [lp_qkv p, lp_cache p, lp_attention p, lp_output p, lp_ffn p] \<and> part_starts (lp_attention p) \<and>
     map op_of (lp_qkv p) = [''q_projection'', ''k_projection'', ''v_projection''] \<and>
     map op_of (lp_cache p) = (if prefill then [''kv_cache_k_prefill_population'', ''kv_cache_v_prefill_population'']
                               else [''kv_cache_k_append'', ''kv_cache_v_append'']) \<and>
     length (lp_output p) = 1"

lemma part_starts_residency: "part_starts rs \<longleftrightarrow> (case map is_q_residency rs of [] \<Rightarrow> True | b # _ \<Rightarrow> b)"
  by (cases rs) (simp_all add: part_starts_def)

lemma place_part_ex:
  assumes "part_ok rs"
  shows "\<exists>ps. place_part layer rs n = (ps, n + length rs) \<and> placed n ps \<and> map op_of ps = map op_of rs \<and>
    (part_starts rs \<longrightarrow> part_starts ps) \<and> length ps = length rs"
proof -
  note p = place_part_placed[OF assms, where n = n and layer = layer]
  have "length (fst (place_part layer rs n)) = length rs" by (simp add: place_part_moved)
  then show ?thesis
    using p by (intro exI[of _ "fst (place_part layer rs n)"]) (simp add: prod_eq_iff part_starts_residency)
qed

lemma terminal_known: "set (terminal_attention_ids rs) \<subseteq> ids_of rs"
  by (auto simp: terminal_attention_ids_def Let_def ids_of_def)

lemma link_prefill_head:
  "record_id_of (link_prefill_record layer q k v r) = record_id_of r"
  "set (deps_of (link_prefill_record layer q k v r)) \<subseteq> {q, k, v} \<union> set (deps_of r)"
  by (auto simp: link_prefill_record_def record_heads)

lemma op_known: "map op_of ps = ops \<Longrightarrow> op \<in> set ops \<Longrightarrow> id_of_op ps op \<in> ids_of ps"
  by (rule id_of_op_known) (simp flip: list.set_map)

text \<open>One layer more keeps the trace in order.\<close>

lemma attention_linked:
  assumes "fits n rs" and "placed n ps" and "part_starts ps" and "{q, k, v} \<subseteq> ids_of rs"
    and "prefill \<or> {ka, va} \<subseteq> ids_of rs"
  shows "fits (n + length ps) (rs @ (if prefill then map (link_prefill_record layer q k v) ps else link_decode layer q ka va ps))"
proof (cases prefill)
  case True
  have "set (deps_of (link_prefill_record layer q k v r)) \<subseteq> ids_of rs \<union> set (deps_of r)" for r
    using assms(4) link_prefill_head(2)[of layer q k v r] by auto
  then have "fits (n + length ps) (rs @ map (link_prefill_record layer q k v) ps)"
    by (intro fits_linked[OF assms(1,2)] conjI link_prefill_head(1))
  then show ?thesis using True by simp
next
  case False
  have "fits (n + length ps) (rs @ link_decode layer q ka va ps)"
  proof (rule fits_append[OF assms(1)])
    show "ordered_after (ids_of rs) (link_decode layer q ka va ps)"
      using assms(1,4,5) False by (intro link_decode_ordered[OF assms(2,3)]) (simp_all add: fits_def)
    show "ids_of (link_decode layer q ka va ps) \<subseteq> rec_id ` {n..<n + length ps}"
      using link_decode_ids placed_ids[OF assms(2)] by blast
  qed simp
  then show ?thesis using False by simp
qed

lemma output_linked:
  assumes "fits n rs" and "placed n [r]" and "terminal_attention_ids attention = ds" and "set ds \<subseteq> ids_of rs"
  shows "fits (n + 1) (rs @ link_output layer attention [r])"
proof -
  have "fits (n + length [r]) (rs @ map (\<lambda>r. set_deps ds (set_inputs (terminal_tensors attention @ [in_layer layer ''o_projection.weight.resident'']) r)) [r])"
    using assms(4) by (intro fits_linked[OF assms(1,2)]) (auto simp: record_heads)
  then show ?thesis by (simp add: link_output_def assms(3))
qed

lemma ffn_linked:
  assumes "fits n rs" and "placed n ps" and "o_id \<in> ids_of rs"
  shows "fits (n + length ps) (rs @ link_ffn first_op layer o_id ps)"
  unfolding link_ffn_def using assms(3) by (intro fits_linked[OF assms(1,2)]) (auto simp: record_heads)

lemma decoder_layer_fits:
  assumes parts: "parts_ok prefill p" and st: "fits (gs_next st) (gs_records st)"
  shows "fits (gs_next (decoder_layer prefill first_op m p st layer)) (gs_records (decoder_layer prefill first_op m p st layer))"
proof -
  let ?n0 = "gs_next st" and ?rs0 = "gs_records st"
  obtain b1 where b1: "renumber_records [barrier_record ''rec_0000'' layer ''layer_start'' m] ?n0 = ([b1], ?n0 + 1)" "placed ?n0 [b1]"
    by (rule renumbered_single[OF barrier_head(1,4)])
  define n1 where "n1 = ?n0 + 1"
  have f1: "fits n1 (?rs0 @ [b1])" using fits_placed[OF st b1(2)] by (simp add: n1_def)
  have ok: "part_ok (lp_qkv p)" "part_ok (lp_cache p)" "part_ok (lp_attention p)" "part_ok (lp_output p)" "part_ok (lp_ffn p)"
    "part_starts (lp_attention p)" "length (lp_output p) = 1"
    using parts by (simp_all add: parts_ok_def)
  obtain qkv where qkv: "place_part layer (lp_qkv p) n1 = (qkv, n1 + length (lp_qkv p))" "placed n1 qkv" "map op_of qkv = map op_of (lp_qkv p)"
      "length qkv = length (lp_qkv p)"
    using place_part_ex[OF ok(1), of layer n1] by blast
  define n2 where "n2 = n1 + length qkv"
  have f2: "fits n2 (?rs0 @ [b1] @ qkv)" using fits_placed[OF f1 qkv(2)] by (simp add: n2_def)
  let ?q = "id_of_op qkv ''q_projection''" and ?k = "id_of_op qkv ''k_projection''" and ?v = "id_of_op qkv ''v_projection''"
  have known: "{?q, ?k, ?v} \<subseteq> ids_of qkv"
    using parts by (auto simp: parts_ok_def intro!: op_known[OF qkv(3)] simp flip: list.set_map)
  obtain cache where cache: "place_part layer (lp_cache p) n2 = (cache, n2 + length (lp_cache p))" "placed n2 cache" "map op_of cache = map op_of (lp_cache p)"
      "length cache = length (lp_cache p)"
    using place_part_ex[OF ok(2), of layer n2] by blast
  define links where "links = (if prefill then [(''kv_cache_k_prefill_population'', [?k]), (''kv_cache_v_prefill_population'', [?v])]
    else [(''kv_cache_k_append'', [?k]), (''kv_cache_v_append'', [?v])])"
  define cache' where "cache' = map (relink links) cache"
  define n3 where "n3 = n2 + length cache"
  have f3: "fits n3 (?rs0 @ [b1] @ qkv @ cache')"
  proof -
    have "\<Union> (set ` snd ` set links) \<subseteq> ids_of (?rs0 @ [b1] @ qkv)" using known by (simp add: links_def)
    then have "set (deps_of (relink links r)) \<subseteq> ids_of (?rs0 @ [b1] @ qkv) \<union> set (deps_of r)" for r
      by (rule subset_trans[OF relink_head(3) Un_mono[OF _ order_refl]])
    then show ?thesis
      using fits_linked[OF f2 cache(2), of "relink links"] by (simp add: relink_head n3_def cache'_def)
  qed
  have ops: "map op_of cache' = map op_of (lp_cache p)" by (simp add: cache'_def o_def relink_head flip: cache(3))
  have appends: "prefill \<or> {id_of_op cache' ''kv_cache_k_append'', id_of_op cache' ''kv_cache_v_append''} \<subseteq> ids_of cache'"
    using parts by (auto simp: parts_ok_def intro!: op_known[OF ops] simp flip: list.set_map)
  obtain att where att: "place_part layer (lp_attention p) n3 = (att, n3 + length (lp_attention p))" "placed n3 att" "part_starts att"
      "length att = length (lp_attention p)"
    using place_part_ex[OF ok(3), of layer n3] ok(6) by blast
  define att' where "att' = (if prefill then map (link_prefill_record layer ?q ?k ?v) att
    else link_decode layer ?q (id_of_op cache' ''kv_cache_k_append'') (id_of_op cache' ''kv_cache_v_append'') att)"
  define n4 where "n4 = n3 + length att"
  have f4: "fits n4 (?rs0 @ [b1] @ qkv @ cache' @ att')"
    using attention_linked[OF f3 att(2,3), of ?q ?k ?v prefill] known appends
    by (auto simp: n4_def att'_def)
  obtain out where out: "place_part layer (lp_output p) n4 = ([out], n4 + 1)" "placed n4 [out]"
    using place_part_ex[OF ok(4), of layer n4] ok(7) by (auto simp: length_Suc_conv)
  define out' where "out' = link_output layer att' [out]"
  have f5: "fits (n4 + 1) (?rs0 @ [b1] @ qkv @ cache' @ att' @ out')"
    using output_linked[OF f4 out(2) refl, of att' layer] terminal_known[of att'] by (auto simp: out'_def)
  obtain ffn where ffn: "place_part layer (lp_ffn p) (n4 + 1) = (ffn, n4 + 1 + length (lp_ffn p))" "placed (n4 + 1) ffn"
      "length ffn = length (lp_ffn p)"
    using place_part_ex[OF ok(5), of layer "n4 + 1"] by blast
  define ffn' where "ffn' = link_ffn first_op layer (record_id_of (hd out')) ffn"
  define n6 where "n6 = n4 + 1 + length ffn"
  have "record_id_of (hd out') \<in> ids_of out'" by (simp add: out'_def link_output_def)
  then have f6: "fits n6 (?rs0 @ [b1] @ qkv @ cache' @ att' @ out' @ ffn')"
    using ffn_linked[OF f5 ffn(2), of "record_id_of (hd out')" first_op layer] by (simp add: n6_def ffn'_def)
  obtain b2 where b2: "renumber_records [barrier_record ''rec_0000'' layer ''layer_transition'' m] n6 = ([b2], n6 + 1)" "placed n6 [b2]"
    by (rule renumbered_single[OF barrier_head(1,4)])
  have "fits (n6 + 1) (?rs0 @ [b1] @ qkv @ cache' @ att' @ out' @ ffn' @ [b2])"
    using fits_placed[OF f6 b2(2)] by simp
  moreover have "decoder_layer prefill first_op m p st layer =
      \<lparr>gs_records = ?rs0 @ [b1] @ qkv @ cache' @ att' @ out' @ ffn' @ [b2], gs_next = n6 + 1\<rparr>"
    unfolding decoder_layer_def Let_def b1(1) n1_def[symmetric] prod.case qkv(1) qkv(4)[symmetric] n2_def[symmetric] cache(1) cache(4)[symmetric]
      n3_def[symmetric] links_def[symmetric] cache'_def[symmetric] att(1) att(4)[symmetric] n4_def[symmetric] att'_def[symmetric] out(1)
      out'_def[symmetric] ffn(1) ffn(3)[symmetric] ffn'_def[symmetric] n6_def[symmetric] b2(1) ..
  ultimately show ?thesis by simp
qed

section \<open>The parts\<close>

lemma mint_one_layer: "layers_of (one_layer_manifest m) = [0]"
  by (simp add: layers_of_def one_layer_manifest_def mint_def dgetd_def dget_dset)

lemma qkv_part_ok:
  assumes "qkv_projection_records (one_layer_manifest f) q_dim kv_dim = Inr rs"
  shows "part_ok rs" and "map op_of rs = [''q_projection'', ''k_projection'', ''v_projection'']"
proof -
  let ?st = "qkv_layer (one_layer_manifest f) q_dim kv_dim gen_start 0"
  have rs: "rs = gs_records ?st"
    using assms by (auto simp: qkv_projection_records_def result_simps mint_one_layer dest!: validate_all_Inr)
  have "grows gen_start ?st"
    unfolding qkv_layer_def qkv_projections_def foldl.simps prod.case
    by (intro grows_snoc grows_refl gen_ok_start) (simp_all add: record_heads)
  then show "part_ok rs" by (simp add: rs gen_ok_part grows_ok)
  show "map op_of rs = [''q_projection'', ''k_projection'', ''v_projection'']"
    by (simp add: rs qkv_layer_def qkv_projections_def push_def record_heads gen_start_def)
qed

lemma output_part_ok:
  assumes "output_projection_records (one_layer_manifest f) q_dim = Inr rs"
  shows "part_ok rs" and "length rs = 1"
proof -
  have "grows gen_start (push (\<lambda>rid. ffn_projection_record rid layer m ''o_projection'' 3 ins outs [] k n) gen_start)" for layer m ins outs k n
    by (intro grows_snoc grows_refl gen_ok_start) (simp_all add: record_heads)
  from gen_ok_part[OF grows_ok[OF this]] show "part_ok rs" and "length rs = 1"
    using assms by (auto simp: output_projection_records_def result_simps mint_one_layer push_def gen_start_def dest!: validate_all_Inr)
qed

lemma cache_part_ok:
  assumes "cache_writes (one_layer_manifest m) [(op1, t1), (op2, t2)] suffix_name n = Inr rs" and "CHR ''0'' \<notin> set op1 \<union> set op2"
  shows "part_ok rs \<and> map op_of rs = [op1, op2]"
proof -
  define st where "st = foldl (\<lambda>st (op, tensor). push (\<lambda>rid. host_access_record rid ''HostWrite'' 0 op (one_layer_manifest m) None 0
    [in_layer 0 tensor] [in_layer 0 (''kv_cache.'' @ tensor @ suffix_name)] [] n op) st) gen_start [(op1, t1), (op2, t2)]"
  have rs: "rs = gs_records st"
    using assms(1) by (auto simp: cache_writes_def result_simps mint_one_layer st_def dest!: validate_all_Inr)
  have "grows gen_start st"
    unfolding st_def foldl.simps prod.case using assms(2) by (intro grows_snoc grows_refl gen_ok_start) (simp_all add: record_heads)
  then have "part_ok rs" by (simp add: rs gen_ok_part grows_ok)
  moreover have "map op_of rs = [op1, op2]" by (simp add: rs st_def push_def record_heads gen_start_def)
  ultimately show ?thesis by simp
qed

lemma dense_parts_ok:
  assumes "dense_parts prefill a f = Inr p"
  shows "parts_ok prefill p"
proof -
  obtain kv heads hsize where qkv: "qkv_projection_records (one_layer_manifest f) (Some (heads * hsize)) (kv * hsize) = Inr (lp_qkv p)"
    and cache: "(if prefill then prefill_cache_write_records (one_layer_manifest a) else kv_cache_write_records (one_layer_manifest a)) = Inr (lp_cache p)"
    and att: "(if prefill then generate_prefill_attention_records (one_layer_manifest a) else generate_attention_records (one_layer_manifest a)) = Inr (lp_attention p)"
    and out: "output_projection_records (one_layer_manifest f) (Some (heads * hsize)) = Inr (lp_output p)"
    and ffn: "generate_ffn_records (one_layer_manifest f) = Inr (lp_ffn p)"
    using assms unfolding dense_parts_def Let_def rbind_Inr_iff by - (elim exE conjE, rule that, auto)
  have "part_ok (lp_cache p) \<and> map op_of (lp_cache p) = (if prefill then [''kv_cache_k_prefill_population'', ''kv_cache_v_prefill_population'']
      else [''kv_cache_k_append'', ''kv_cache_v_append''])"
    using cache by (auto simp: prefill_cache_write_records_def kv_cache_write_records_def rbind_Inr_iff split: if_splits dest!: cache_part_ok)
  moreover have "part_ok (lp_attention p) \<and> part_starts (lp_attention p)"
    using att attention_part_ok prefill_attention_part_ok by (auto split: if_splits)
  ultimately show ?thesis
    using qkv_part_ok[OF qkv] output_part_ok[OF out] ffn_part_ok[OF ffn] by (simp add: parts_ok_def)
qed

lemma compose_topological:
  assumes "compose_layers prefill first_op a n p = Inr rs" and parts: "0 < n \<Longrightarrow> parts_ok prefill p"
  shows "topological rs"
proof -
  let ?st = "foldl (decoder_layer prefill first_op a p) gen_start [0..<nat n]"
  have rs: "rs = gs_records ?st @ fst (renumber_records [drain_record ''rec_0000'' (nat (max 0 (n - 1))) a] (gs_next ?st))"
    using assms(1) by (auto simp: compose_layers_def Let_def case_prod_beta dest: validate_all_Inr)
  have "fits (gs_next ?st) (gs_records ?st)"
  proof (cases "0 < n")
    case True
    show ?thesis
    proof (rule foldl_keeps[where P = "\<lambda>st. fits (gs_next st) (gs_records st)"])
      show "fits (gs_next gen_start) (gs_records gen_start)" by (simp add: fits_def topological_def gen_start_def)
    qed (rule decoder_layer_fits[OF parts[OF True]])
  qed (simp add: fits_def topological_def gen_start_def)
  moreover obtain d where "renumber_records [drain_record ''rec_0000'' (nat (max 0 (n - 1))) a] (gs_next ?st) = ([d], gs_next ?st + 1)"
    "placed (gs_next ?st) [d]"
    by (rule renumbered_single[OF drain_head(1,4)])
  ultimately show ?thesis
    using fits_placed[of "gs_next ?st" "gs_records ?st" "[d]"] by (simp add: fits_def rs)
qed

lemma dense_records_topological:
  assumes "dense_records prefill a f = Inr rs"
  shows "topological rs"
proof -
  obtain n p where p: "(if 0 < n then dense_parts prefill a f else Inr no_parts) = Inr p"
    and rs: "compose_layers prefill ''ffn_hidden_activation_tile_setup'' a n p = Inr rs"
    using assms unfolding dense_records_def rbind_Inr_iff by blast
  show ?thesis by (rule compose_topological[OF rs]) (use p dense_parts_ok in simp)
qed

end
