(* ===== verification/Surrogate_Valid.thy ===== *)
theory Surrogate_Valid
  imports Surrogate_Compose
begin

text \<open>
  Generated records pass the checks of \<open>structured_trace.py\<close>. \<open>good_record\<close> says so field by field;
  it holds of what the builders return and is kept by renumbering, linking and retargeting.
\<close>

section \<open>Good records\<close>

definition claims_in :: "pyval \<Rightarrow> string list \<Rightarrow> bool" where
  "claims_in v claims \<longleftrightarrow> (\<exists>xs. v = PList xs \<and> PStr ` set claims \<subseteq> set xs)"

definition count_value :: "pyval \<Rightarrow> bool" where
  "count_value v \<longleftrightarrow> (\<exists>n > 0. v = PInt n)"

definition good_common :: "dict \<Rightarrow> bool" where
  "good_common r \<longleftrightarrow> (\<forall>f \<in> set COMMON_RECORD_FIELDS. has r f) \<and> item r ''schema_version'' = PStr SCHEMA_VERSION \<and>
     item r ''kind'' = PStr (kind_of r) \<and> kind_of r \<in> set SEMANTIC_RECORD_KINDS \<and> count_value (item r ''repeat'')"

definition good_tensors :: "pyval \<Rightarrow> bool" where
  "good_tensors v \<longleftrightarrow> (\<exists>t ins outs. v = PDict t \<and> item t ''inputs'' = PList ins \<and> item t ''outputs'' = PList outs \<and>
     list_all is_str ins \<and> list_all is_str outs)"

definition good_context :: "pyval \<Rightarrow> bool" where
  "good_context v \<longleftrightarrow> (\<exists>c. v = PDict c \<and> has c ''operator_family'' \<and> has c ''stage'' \<and>
     dget c ''record_family'' = Some (PStr REQUIRED_P4_RECORD_FAMILY))"

definition good_provenance :: "pyval \<Rightarrow> bool" where
  "good_provenance v \<longleftrightarrow> (\<exists>p. v = PDict p \<and> claims_in (item p ''claim_boundary'') REQUIRED_P4_CLAIM_BOUNDARY \<and>
     claims_in (item p ''non_claims'') REQUIRED_P4_NON_CLAIMS)"

definition good_flow :: "dict \<Rightarrow> bool" where
  "good_flow r \<longleftrightarrow> good_tensors (item r ''tensor_io'') \<and> (\<exists>ds. item r ''logical_dependencies'' = PList ds \<and> list_all is_str ds) \<and>
     good_context (item r ''operator_context'') \<and> good_provenance (item r ''provenance'') \<and> is_dict (item r ''residency'')"

definition good_compute :: "dict \<Rightarrow> bool" where
  "good_compute r \<longleftrightarrow> list_all (has r) [''dependency_context'', ''row_policy'', ''column_policy'', ''datatype_metadata''] \<and>
     count_value (item r ''num_requests'') \<and> count_value (item r ''burst_length'') \<and>
     (\<exists>b bs. item r ''bank_sequence'' = PList (b # bs)) \<and>
     (\<exists>s. item r ''compute_shape'' = PDict s \<and> list_all (has s) [''m'', ''n'', ''k'', ''output_elements'', ''datatype''])"

definition good_move :: "dict \<Rightarrow> bool" where
  "good_move r \<longleftrightarrow> list_all (has r) [''dependency_context'', ''row_policy'', ''column_policy'', ''datatype_metadata''] \<and>
     count_value (item r ''num_requests'') \<and>
     (\<exists>p k. item r ''movement_policy'' = PDict p \<and> dget p ''movement_kind'' = Some (PStr k) \<and> k \<in> set VALID_PIM_DATA_MOVE_MOVEMENT_KINDS)"

definition good_kind :: "string \<Rightarrow> dict \<Rightarrow> bool" where
  "good_kind k r \<longleftrightarrow>
     (if k \<in> {''HostRead'', ''HostWrite''} then has r ''bytes'' \<and> has r ''address_policy''
      else if k = ''Barrier'' then has r ''barrier_scope''
      else if k = ''Drain'' then has r ''drain_scope''
      else k \<in> set TRANSFORMER_DATAFLOW_RECORD_KINDS \<and> good_flow r \<and>
        (if k \<in> set TRANSFORMER_COMPUTE_RECORD_KINDS then good_compute r
         else if k = ''PIMDataMove'' then good_move r else is_dict (item r ''accounting_metadata'')))"

definition good_record :: "dict \<Rightarrow> bool" where
  "good_record r \<longleftrightarrow> good_common r \<and> good_kind (kind_of r) r"

lemma g_fields_ok: "is_ok (g_fields r fs) \<longleftrightarrow> (\<forall>f \<in> set fs. has r f)"
  by (simp add: g_fields_def is_ok_rbind) (auto simp: is_ok_rmap simp flip: is_ok_iff)

lemma has_item: "item r f \<noteq> PNone \<Longrightarrow> has r f"
  by (auto simp: has_def dgetd_def split: option.splits)

lemma claims_present_ok: "claims_in (item p f) claims \<Longrightarrow> claims_present p f claims = Inr ()"
proof -
  assume "claims_in (item p f) claims"
  then obtain xs where xs: "dget p f = Some (PList xs)" "PStr ` set claims \<subseteq> set xs"
    by (auto simp: claims_in_def dgetd_def split: option.splits)
  have "contains (dgetd p f (PList [])) (PStr c) f = Inr True" if "c \<in> set claims" for c
    using xs that by (auto simp: contains_def dgetd_def list_ex_iff intro!: bexI[of _ "PStr c"])
  then have "rmap (\<lambda>c. rbind (contains (dgetd p f (PList [])) (PStr c) f) (\<lambda>b. require b (GValue f))) claims = Inr (map (\<lambda>_. ()) claims)"
    by (intro rmap_ok) (simp add: require_def)
  then show ?thesis by (simp add: claims_present_def)
qed

lemma flow_ok:
  assumes "good_flow r"
  shows "validate_transformer_metadata r = Inr ()"
proof -
  obtain t ins outs ds c p where f: "item r ''tensor_io'' = PDict t" "item t ''inputs'' = PList ins" "item t ''outputs'' = PList outs"
      "list_all is_str ins" "list_all is_str outs" "item r ''logical_dependencies'' = PList ds" "list_all is_str ds"
      "item r ''operator_context'' = PDict c" "has c ''operator_family''" "has c ''stage''"
      "dget c ''record_family'' = Some (PStr REQUIRED_P4_RECORD_FAMILY)" "item r ''provenance'' = PDict p"
      "claims_in (item p ''claim_boundary'') REQUIRED_P4_CLAIM_BOUNDARY" "claims_in (item p ''non_claims'') REQUIRED_P4_NON_CLAIMS"
      "is_dict (item r ''residency'')"
    using assms unfolding good_flow_def good_tensors_def good_context_def good_provenance_def by auto
  have "has r ''tensor_io''" "has r ''logical_dependencies''" "has r ''operator_context''" "has r ''residency''"
    using f by (auto intro!: has_item)
  then have 1: "g_fields r [''tensor_io'', ''logical_dependencies'', ''operator_context'', ''residency''] = Inr ()"
    by (simp add: g_fields_def require_def)
  have 2: "check_operator_context r = Inr ()"
    using f(8-11) by (simp add: check_operator_context_def g_fields_def require_def has_def dgetd_def)
  have 3: "check_provenance r = Inr ()"
    using f(12-14) by (simp add: check_provenance_def claims_present_ok)
  show ?thesis
    using f(1-7,15) 1 2 3
    by (simp add: validate_transformer_metadata_def check_tensor_io_def all_strings_def require_def py_items_def)
qed

lemma count_value_ok: "count_value v \<Longrightarrow> g_positive_int f v = Inr ()"
  by (auto simp: count_value_def g_positive_int_def g_int_def require_def)

lemma compute_ok:
  assumes "good_compute r"
  shows "validate_transformer_compute_record r = Inr ()"
proof -
  obtain b bs s where c: "item r ''bank_sequence'' = PList (b # bs)" "item r ''compute_shape'' = PDict s"
    "list_all (has s) [''m'', ''n'', ''k'', ''output_elements'', ''datatype'']" "count_value (item r ''num_requests'')" "count_value (item r ''burst_length'')"
    "list_all (has r) [''dependency_context'', ''row_policy'', ''column_policy'', ''datatype_metadata'']"
    using assms unfolding good_compute_def by auto
  have "has r ''num_requests''" "has r ''burst_length''" "has r ''bank_sequence''" "has r ''compute_shape''"
    using c by (auto simp: count_value_def intro!: has_item)
  then have "g_fields r [''num_requests'', ''bank_sequence'', ''dependency_context'', ''row_policy'', ''column_policy'',
       ''datatype_metadata'', ''compute_shape'', ''burst_length''] = Inr ()"
    using c(6) by (simp add: g_fields_def require_def)
  moreover have "g_fields s [''m'', ''n'', ''k'', ''output_elements'', ''datatype''] = Inr ()"
    using c(3) by (simp add: g_fields_def require_def)
  ultimately show ?thesis
    using c by (simp add: validate_transformer_compute_record_def count_value_ok require_def)
qed

lemma move_ok:
  assumes "good_move r"
  shows "validate_transformer_data_move_record r = Inr ()"
proof -
  obtain p k where c: "item r ''movement_policy'' = PDict p" "dget p ''movement_kind'' = Some (PStr k)" "k \<in> set VALID_PIM_DATA_MOVE_MOVEMENT_KINDS"
    "count_value (item r ''num_requests'')" "list_all (has r) [''dependency_context'', ''row_policy'', ''column_policy'', ''datatype_metadata'']"
    using assms unfolding good_move_def by auto
  have "has r ''num_requests''" "has r ''movement_policy''"
    using c by (auto simp: count_value_def intro!: has_item)
  then have "g_fields r [''movement_policy'', ''num_requests'', ''dependency_context'', ''row_policy'', ''column_policy'', ''datatype_metadata''] = Inr ()"
    using c(5) by (simp add: g_fields_def require_def)
  moreover have "g_fields p [''movement_kind''] = Inr ()" using c(2) by (simp add: g_fields_def require_def has_def)
  ultimately show ?thesis
    using c by (simp add: validate_transformer_data_move_record_def count_value_ok require_def g_member_def dgetd_def image_iff)
qed

lemma kinds_disjoint:
  "k \<in> set TRANSFORMER_DATAFLOW_RECORD_KINDS \<Longrightarrow> k \<notin> {''HostRead'', ''HostWrite'', ''PIMCompute'', ''Barrier'', ''Drain''} \<union> set ALL_BANK_RECORD_KINDS"
  by (auto simp: TRANSFORMER_DATAFLOW_RECORD_KINDS_def ALL_BANK_RECORD_KINDS_def)

lemma kind_ok:
  assumes "good_kind k r"
  shows "validate_by_kind k r = Inr ()"
proof (cases "k \<in> set TRANSFORMER_DATAFLOW_RECORD_KINDS")
  case True
  then have k: "good_flow r" "if k \<in> set TRANSFORMER_COMPUTE_RECORD_KINDS then good_compute r
      else if k = ''PIMDataMove'' then good_move r else is_dict (item r ''accounting_metadata'')"
    using assms kinds_disjoint[OF True] by (auto simp: good_kind_def split: if_splits)
  have "is_dict (item r ''accounting_metadata'') \<Longrightarrow> validate_transformer_accounting_record r = Inr ()"
    using has_item[of r "''accounting_metadata''"]
    by (cases "item r ''accounting_metadata''") (auto simp: validate_transformer_accounting_record_def g_fields_def require_def)
  then have "validate_transformer_dataflow_record k r = Inr ()"
    using k by (simp add: validate_transformer_dataflow_record_def flow_ok compute_ok move_ok)
  then show ?thesis using kinds_disjoint[OF True] True by (simp add: validate_by_kind_def)
next
  case False
  have "''Barrier'' \<notin> set ALL_BANK_RECORD_KINDS \<union> {''PIMCompute''}" "''Drain'' \<notin> set ALL_BANK_RECORD_KINDS \<union> {''PIMCompute''}"
    by (simp_all add: ALL_BANK_RECORD_KINDS_def)
  then show ?thesis
    using assms False by (auto simp: good_kind_def validate_by_kind_def g_fields_def require_def split: if_splits)
qed

lemma good_record_ok:
  assumes "good_record r"
  shows "validate_semantic_record r = Inr ()"
proof -
  have "g_fields r COMMON_RECORD_FIELDS = Inr ()"
    using assms g_fields_ok[of r COMMON_RECORD_FIELDS] by (auto simp: good_record_def good_common_def is_ok_iff)
  moreover have "g_member ''kind'' (item r ''kind'') SEMANTIC_RECORD_KINDS = Inr True"
    using assms by (auto simp: good_record_def good_common_def g_member_def)
  moreover have "g_positive ''repeat'' (item r ''repeat'') = Inr ()"
    using assms by (auto simp: good_record_def good_common_def count_value_def g_positive_def require_def)
  ultimately show ?thesis
    using assms by (simp add: validate_semantic_record_def good_record_def good_common_def kind_ok require_def)
qed

lemma validate_all_ok: "list_all good_record rs \<Longrightarrow> validate_all rs = Inr rs"
proof -
  assume "list_all good_record rs"
  then have "rmap validate_semantic_record rs = Inr (map (\<lambda>_. ()) rs)"
    by (intro rmap_ok) (auto simp: list_all_iff good_record_ok)
  then show ?thesis by (simp add: validate_all_def)
qed

section \<open>What keeps a record good\<close>

lemma item_after_dset: "item (dset f v r) g = (if g = f then v else item r g)"
  by (simp add: dgetd_def dget_dset)

lemma has_dset: "has (dset f v r) g \<longleftrightarrow> g = f \<or> has r g"
  by (simp add: has_def dget_dset)

text \<open>The fields whose values the checks read, beside those of the tensors, dependencies and context.\<close>

definition fixed_fields :: "string list" where
  "fixed_fields = [''schema_version'', ''kind'', ''repeat'', ''provenance'', ''residency'', ''num_requests'', ''burst_length'',
     ''bank_sequence'', ''compute_shape'', ''movement_policy'', ''accounting_metadata'']"

lemma kind_of_dset: "f \<noteq> ''kind'' \<Longrightarrow> kind_of (dset f v r) = kind_of r"
  by (simp add: kind_of_def item_after_dset)

lemma good_dset:
  assumes r: "good_record r" and f: "f \<notin> set fixed_fields"
    and v: "f = ''tensor_io'' \<Longrightarrow> good_tensors v" "f = ''operator_context'' \<Longrightarrow> good_context v"
      "f = ''logical_dependencies'' \<Longrightarrow> \<exists>ds. v = PList ds \<and> list_all is_str ds"
  shows "good_record (dset f v r)"
proof -
  have fixed: "item (dset f v r) g = item r g" if "g \<in> set fixed_fields" for g using f that by (auto simp: item_after_dset)
  note same = fixed[simplified fixed_fields_def, simplified]
  have mono: "has r g \<Longrightarrow> has (dset f v r) g" for g by (simp add: has_dset)
  have common: "good_common (dset f v r)"
    using r f by (auto simp: good_record_def good_common_def mono same kind_of_dset fixed_fields_def)
  have flow: "good_flow r \<Longrightarrow> good_flow (dset f v r)"
    using v by (auto simp: good_flow_def same) (auto simp: item_after_dset)
  have compute: "good_compute r \<Longrightarrow> good_compute (dset f v r)"
    by (auto simp: good_compute_def same mono list_all_iff)
  have move: "good_move r \<Longrightarrow> good_move (dset f v r)"
    by (auto simp: good_move_def same mono list_all_iff)
  have "good_kind k r \<Longrightarrow> good_kind k (dset f v r)" for k
    using flow compute move by (auto simp: good_kind_def mono same split: if_splits)
  moreover have "kind_of (dset f v r) = kind_of r" using f by (simp add: kind_of_dset fixed_fields_def)
  ultimately show ?thesis using r common by (simp add: good_record_def)
qed

lemma good_set_id: "good_record r \<Longrightarrow> good_record (dset ''record_id'' v r)"
  by (rule good_dset) (simp_all add: fixed_fields_def)

lemma good_set_deps: "good_record r \<Longrightarrow> good_record (set_deps ds r)"
  unfolding set_deps_def by (rule good_dset) (auto simp: fixed_fields_def p_strs_def list_all_iff)

lemma kind_flow:
  "good_record r \<Longrightarrow> kind_of r \<notin> {''HostRead'', ''HostWrite'', ''Barrier'', ''Drain''} \<Longrightarrow> good_flow r"
  by (auto simp: good_record_def good_kind_def split: if_splits)

text \<open>Records of the transformer dataflow and host accesses have tensors and a context.\<close>

definition flow_record :: "dict \<Rightarrow> bool" where
  "flow_record r \<longleftrightarrow> good_record r \<and> good_tensors (item r ''tensor_io'') \<and> good_context (item r ''operator_context'')"

lemma good_inputs:
  assumes "good_tensors v" and "v = PDict t" and "list_all is_str xs" and "k = ''inputs'' \<or> k = ''outputs''"
  shows "good_tensors (PDict (dset k (PList xs) t))"
  using assms by (auto simp: good_tensors_def item_after_dset)

lemma flow_put_tensors:
  assumes "flow_record r" and "list_all is_str xs" and "k = ''inputs'' \<or> k = ''outputs''"
  shows "flow_record (put_in ''tensor_io'' k (PList xs) r)"
proof -
  obtain t where t: "item r ''tensor_io'' = PDict t" using assms(1) by (auto simp: flow_record_def good_tensors_def)
  have g: "good_tensors (PDict (dset k (PList xs) t))" using assms t by (intro good_inputs[OF _ t]) (simp_all add: flow_record_def)
  then have "good_record (put_in ''tensor_io'' k (PList xs) r)"
    using assms(1) by (auto simp: put_in_def sub_of_def t flow_record_def fixed_fields_def intro!: good_dset)
  then show ?thesis
    using g assms(1) by (simp add: flow_record_def put_in_def sub_of_def t item_after_dset)
qed

lemma flow_tensors: "flow_record r \<Longrightarrow> list_all is_str (py_items (item (sub_of r ''tensor_io'') ''inputs''))"
  by (auto simp: flow_record_def good_tensors_def sub_of_def py_items_def)

lemma good_context_put: "good_context (PDict c) \<Longrightarrow> k \<notin> {''record_family''} \<Longrightarrow> good_context (PDict (dset k v c))"
  by (simp add: good_context_def has_dset dget_dset)

lemma flow_put_context:
  assumes "flow_record r" and "k \<noteq> ''record_family''"
  shows "flow_record (put_in ''operator_context'' k v r)"
proof -
  obtain c where c: "item r ''operator_context'' = PDict c" using assms(1) by (auto simp: flow_record_def good_context_def)
  have g: "good_context (PDict (dset k v c))" using assms c by (intro good_context_put) (simp_all add: flow_record_def)
  then have "good_record (put_in ''operator_context'' k v r)"
    using assms(1) by (auto simp: put_in_def sub_of_def c flow_record_def fixed_fields_def intro!: good_dset)
  then show ?thesis
    using g assms(1) by (simp add: flow_record_def put_in_def sub_of_def c item_after_dset)
qed

lemma flow_set_id: "flow_record r \<Longrightarrow> flow_record (dset ''record_id'' v r)"
  by (simp add: flow_record_def good_set_id item_after_dset)

lemma flow_set_deps: "flow_record r \<Longrightarrow> flow_record (set_deps ds r)"
  using good_set_deps[of r ds] by (simp add: flow_record_def set_deps_def item_after_dset)

lemma flow_set_tensors: "flow_record r \<Longrightarrow> flow_record (set_inputs ss r)" "flow_record r \<Longrightarrow> flow_record (set_outputs ss r)"
  by (auto simp: set_inputs_def set_outputs_def p_strs_def list_all_iff intro!: flow_put_tensors)

lemma flow_set_first_input: "flow_record r \<Longrightarrow> flow_record (set_first_input t r)"
  using flow_tensors[of r] unfolding set_first_input_def
  by (intro flow_put_tensors) (auto simp: list_all_iff dest!: set_update_subset_insert[THEN subsetD])

section \<open>Retargeting\<close>

lemma has_retargeted: "has (map (\<lambda>kv. (fst kv, retarget_value layer (snd kv))) r) f = has r f"
proof -
  have "dget (map (\<lambda>kv. (fst kv, g (snd kv))) d) k = map_option g (dget d k)" for g :: "pyval \<Rightarrow> pyval" and d :: dict and k
    by (induction d) auto
  then show ?thesis by (simp add: has_def)
qed

lemma is_str_retargeted: "is_str (retarget_value layer v) = is_str v"
  by (cases v) simp_all

lemma claims_retargeted:
  assumes "claims_in v claims" and "\<forall>c \<in> set claims. CHR ''0'' \<notin> set c"
  shows "claims_in (retarget_value layer v) claims"
proof -
  obtain xs where "v = PList xs" "PStr ` set claims \<subseteq> set xs" using assms(1) by (auto simp: claims_in_def)
  moreover have "retarget_value layer (PStr c) = PStr c" if "c \<in> set claims" for c
    using assms(2) that by (simp add: retarget_plain_name)
  ultimately show ?thesis by (auto simp: claims_in_def intro!: rev_image_eqI) 
qed

lemma count_value_retargeted: "count_value v \<Longrightarrow> count_value (retarget_value layer v)"
  by (auto simp: count_value_def)

lemma tensors_retargeted: "good_tensors v \<Longrightarrow> good_tensors (retarget_value layer v)"
  by (auto simp: good_tensors_def item_retargeted list_all_iff is_str_retargeted)

lemma context_retargeted: "good_context v \<Longrightarrow> good_context (retarget_value layer v)"
proof -
  assume "good_context v"
  then obtain c where c: "v = PDict c" "has c ''operator_family''" "has c ''stage''" "dget c ''record_family'' = Some (PStr REQUIRED_P4_RECORD_FAMILY)"
    by (auto simp: good_context_def)
  let ?c = "map (\<lambda>kv. (fst kv, retarget_value layer (snd kv))) c"
  have "CHR ''0'' \<notin> set REQUIRED_P4_RECORD_FAMILY" by (simp add: REQUIRED_P4_RECORD_FAMILY_def)
  moreover have "item c ''record_family'' = PStr REQUIRED_P4_RECORD_FAMILY" by (simp add: c(4) dgetd_def)
  ultimately have "item ?c ''record_family'' = PStr REQUIRED_P4_RECORD_FAMILY"
    unfolding item_retargeted by (simp add: retarget_plain_name)
  then have "dget ?c ''record_family'' = Some (PStr REQUIRED_P4_RECORD_FAMILY)"
    by (auto simp: dgetd_def split: option.splits)
  then show ?thesis using c by (simp add: good_context_def has_retargeted)
qed

lemma provenance_retargeted: "good_provenance v \<Longrightarrow> good_provenance (retarget_value layer v)"
proof -
  have "\<forall>c \<in> set REQUIRED_P4_CLAIM_BOUNDARY. CHR ''0'' \<notin> set c" "\<forall>c \<in> set REQUIRED_P4_NON_CLAIMS. CHR ''0'' \<notin> set c"
    by (simp_all add: REQUIRED_P4_CLAIM_BOUNDARY_def REQUIRED_P4_NON_CLAIMS_def)
  then show "good_provenance v \<Longrightarrow> good_provenance (retarget_value layer v)"
    by (auto simp: good_provenance_def item_retargeted intro!: claims_retargeted)
qed

lemma is_dict_retargeted: "is_dict (retarget_value layer v) = is_dict v"
  by (cases v) simp_all

lemma schema_retargeted: "retarget_string layer SCHEMA_VERSION = SCHEMA_VERSION"
proof -
  have "str_replace ''layer_00'' x SCHEMA_VERSION = SCHEMA_VERSION" "str_replace ''L0.'' x SCHEMA_VERSION = SCHEMA_VERSION" for x
    by (rule str_replace_absent; simp add: SCHEMA_VERSION_def)+
  then show ?thesis by (simp add: retarget_string_def)
qed

lemma good_retargeted:
  assumes "good_record r"
  shows "good_record (map (\<lambda>kv. (fst kv, retarget_value layer (snd kv))) r)"
proof -
  let ?r = "map (\<lambda>kv. (fst kv, retarget_value layer (snd kv))) r"
  have kinds: "\<forall>k \<in> set SEMANTIC_RECORD_KINDS. CHR ''0'' \<notin> set k"
    by (simp add: SEMANTIC_RECORD_KINDS_def BASE_SEMANTIC_RECORD_KINDS_def ALL_BANK_RECORD_KINDS_def TRANSFORMER_DATAFLOW_RECORD_KINDS_def)
  have moves: "\<forall>k \<in> set VALID_PIM_DATA_MOVE_MOVEMENT_KINDS. CHR ''0'' \<notin> set k"
    by (simp add: VALID_PIM_DATA_MOVE_MOVEMENT_KINDS_def)
  have "CHR ''0'' \<notin> set (kind_of r)" and kind_item: "item r ''kind'' = PStr (kind_of r)"
    using assms kinds by (auto simp: good_record_def good_common_def)
  then have same: "retarget_string layer (kind_of r) = kind_of r" by (simp add: retarget_plain_name)
  then have kind: "item ?r ''kind'' = PStr (kind_of r)" by (simp add: item_retargeted kind_item)
  then have kind': "kind_of ?r = kind_of r" by (simp add: kind_of_def[of ?r])
  have common: "good_common ?r"
    using assms by (simp add: good_record_def good_common_def has_retargeted item_retargeted kind' schema_retargeted count_value_retargeted same)
  have flow: "good_flow r \<Longrightarrow> good_flow ?r"
    by (auto simp: good_flow_def item_retargeted tensors_retargeted context_retargeted provenance_retargeted is_dict_retargeted
        list_all_iff is_str_retargeted)
  have compute: "good_compute r \<Longrightarrow> good_compute ?r"
    by (auto simp: good_compute_def item_retargeted has_retargeted count_value_retargeted list_all_iff)
  have move: "good_move ?r" if move: "good_move r"
  proof -
    obtain q k where p: "item r ''movement_policy'' = PDict q" "dget q ''movement_kind'' = Some (PStr k)" "k \<in> set VALID_PIM_DATA_MOVE_MOVEMENT_KINDS"
      using move by (auto simp: good_move_def)
    let ?q = "map (\<lambda>kv. (fst kv, retarget_value layer (snd kv))) q"
    have "item q ''movement_kind'' = PStr k" by (simp add: p(2) dgetd_def)
    then have "item ?q ''movement_kind'' = PStr k" unfolding item_retargeted using p(3) moves by (simp add: retarget_plain_name)
    then have "dget ?q ''movement_kind'' = Some (PStr k)" by (auto simp: dgetd_def split: option.splits)
    then show ?thesis using move p by (auto simp: good_move_def item_retargeted has_retargeted count_value_retargeted list_all_iff)
  qed
  have "good_kind k r \<Longrightarrow> good_kind k ?r" for k
    using flow compute move by (auto simp: good_kind_def has_retargeted item_retargeted is_dict_retargeted split: if_splits)
  then show ?thesis using assms common by (simp add: good_record_def kind')
qed

lemma flow_put_scope:
  assumes "flow_record r" and "f = ''barrier_scope'' \<or> f = ''drain_scope''"
  shows "flow_record (put_in f k v r)"
proof -
  have "good_record (put_in f k v r)"
    unfolding put_in_def using assms by (intro good_dset) (auto simp: flow_record_def fixed_fields_def)
  then show ?thesis using assms by (auto simp: flow_record_def put_in_def item_after_dset)
qed

lemma flow_retarget_record:
  assumes "flow_record r"
  shows "flow_record (retarget_record layer r)"
proof -
  let ?r = "map (\<lambda>kv. (fst kv, retarget_value layer (snd kv))) r"
  have "flow_record ?r"
    using assms by (simp add: flow_record_def good_retargeted item_retargeted tensors_retargeted context_retargeted)
  then show ?thesis unfolding retarget_record_def foldl.simps by (auto intro!: flow_put_scope flow_put_context)
qed

section \<open>The builders\<close>

definition manifest_fits :: "dict \<Rightarrow> bool" where
  "manifest_fits m \<longleftrightarrow> claims_in (item m ''non_claims'') REQUIRED_P4_NON_CLAIMS \<and>
     (\<exists>b bs. item (defaults_of m) ''bank_sequence'' = PList (b # bs)) \<and> 0 < mint (defaults_of m) ''burst_length''"

lemma p4_context_good: "good_context (PDict (p4_context family stage extra))"
  by (simp add: good_context_def p4_context_def has_def)

definition protected_fields :: "string list" where
  "protected_fields = COMMON_RECORD_FIELDS @ [''tensor_io'', ''logical_dependencies'', ''operator_context'', ''residency'']"

text \<open>A record made of the base, the tensors and further fields, which are not among those.\<close>

lemma built_dget:
  assumes "distinct (dkeys extra)"
  shows "dget (dupdate (base_record rid kind layer op m) (tensor_fields ins outs deps ctx @ extra)) f =
    (case dget extra f of Some v \<Rightarrow> Some v | None \<Rightarrow>
      (case dget (tensor_fields ins outs deps ctx) f of Some v \<Rightarrow> Some v | None \<Rightarrow> dget (base_record rid kind layer op m) f))"
proof -
  have "distinct (dkeys (tensor_fields ins outs deps ctx))" by (simp add: tensor_fields_def)
  then show ?thesis using assms by (auto simp: dupdate_append dget_dupdate split: option.split)
qed

lemma built_good:
  fixes extra ctx deps outs ins m op layer k rid
  defines "r \<equiv> dupdate (base_record rid k layer op m) (tensor_fields ins outs deps ctx @ extra)"
  assumes "manifest_fits m" and "k \<in> set SEMANTIC_RECORD_KINDS" and "good_context (PDict ctx)" and d: "distinct (dkeys extra)"
    and p: "set (dkeys extra) \<inter> set protected_fields = {}"
  shows "good_common r" and "good_flow r" and "kind_of r = k" and "good_tensors (item r ''tensor_io'')" and "good_context (item r ''operator_context'')"
    and "f \<in> set (dkeys extra) \<Longrightarrow> dget r f = dget extra f"
proof -
  have e: "dget extra f = None" if "f \<in> set protected_fields" for f
    using p that by (auto simp: dget_None_iff)
  have e': "dget extra f = None" if "f \<in> {''schema_version'', ''record_id'', ''kind'', ''phase'', ''layer'', ''op'', ''repeat'', ''provenance'',
    ''mapping_policy'', ''tensor_io'', ''logical_dependencies'', ''operator_context'', ''residency''}" for f
    using that by (intro e) (auto simp: protected_fields_def COMMON_RECORD_FIELDS_def)
  note get = built_dget[OF d, of rid k layer op m ins outs deps ctx, folded r_def]
  have f: "dget r ''tensor_io'' = Some (PDict [(''inputs'', p_strs ins), (''outputs'', p_strs outs)])"
      "dget r ''logical_dependencies'' = Some (p_strs deps)" "dget r ''operator_context'' = Some (PDict ctx)"
      "dget r ''residency'' = Some (PDict (tensor_residency (ins @ outs)))"
    by (simp_all add: get e' tensor_fields_def)
  have b: "dget r ''schema_version'' = Some (PStr SCHEMA_VERSION)" "dget r ''kind'' = Some (PStr k)" "dget r ''repeat'' = Some (PInt 1)"
      "dget r ''provenance'' = Some (PDict (p4_provenance m op))" "\<forall>f \<in> set COMMON_RECORD_FIELDS. has r f"
    by (simp_all add: get e' tensor_fields_def base_record_def COMMON_RECORD_FIELDS_def has_def)
  show k: "kind_of r = k" by (simp add: kind_of_def dgetd_def b)
  show "good_common r" using assms(3) k by (simp add: good_common_def b dgetd_def count_value_def)
  show t: "good_tensors (item r ''tensor_io'')" by (simp add: good_tensors_def dgetd_def f p_strs_def list_all_iff)
  show c: "good_context (item r ''operator_context'')" using assms(4) by (simp add: dgetd_def f)
  have "good_provenance (item r ''provenance'')"
    using assms(2) by (simp add: good_provenance_def manifest_fits_def dgetd_def b p4_provenance_def)
      (simp add: claims_in_def p_strs_def)
  then show "good_flow r" using t c by (simp add: good_flow_def) (simp add: dgetd_def f p_strs_def list_all_iff)
  show "f \<in> set (dkeys extra) \<Longrightarrow> dget r f = dget extra f"
    using dget_in_keys[of f extra] by (auto simp: get)
qed

text \<open>Each builder returns a good record with tensors and a context.\<close>

lemma accounting_good:
  assumes "manifest_fits m" and "k \<in> {''AttentionSoftmax'', ''PIMElementwise'', ''PIMOperandResidency'', ''PIMOperandReuse'', ''MoETopK'', ''MoEDispatch'', ''MoECombine''}" and "good_context (PDict ctx)"
  shows "flow_record (dupdate (base_record rid k layer op m) (tensor_fields ins outs deps ctx @ [(''accounting_metadata'', PDict d)]))"
proof -
  have k: "k \<in> set SEMANTIC_RECORD_KINDS" "k \<in> set TRANSFORMER_DATAFLOW_RECORD_KINDS" "k \<notin> set TRANSFORMER_COMPUTE_RECORD_KINDS"
    "k \<notin> {''HostRead'', ''HostWrite'', ''Barrier'', ''Drain'', ''PIMDataMove''}"
    using assms(2) by (auto simp: SEMANTIC_RECORD_KINDS_def TRANSFORMER_DATAFLOW_RECORD_KINDS_def TRANSFORMER_COMPUTE_RECORD_KINDS_def)
  have e: "distinct (dkeys [(''accounting_metadata'', PDict d)])" "set (dkeys [(''accounting_metadata'', PDict d)]) \<inter> set protected_fields = {}"
    by (simp_all add: protected_fields_def COMMON_RECORD_FIELDS_def)
  note g = built_good[OF assms(1) k(1) assms(3) e, where rid = rid and layer = layer and op = op and ins = ins and outs = outs and deps = deps]
  show ?thesis
    using g(1-5) g(6)[of "''accounting_metadata''"] k by (simp add: flow_record_def good_record_def good_kind_def) (simp add: dgetd_def)
qed

lemma softmax_good: "manifest_fits m \<Longrightarrow> flow_record (softmax_record rid layer m h t n st ins outs deps)"
  unfolding softmax_record_def by (rule accounting_good) (simp_all add: p4_context_good)

lemma context_reduction_good: "manifest_fits m \<Longrightarrow> flow_record (context_reduction_record rid layer m h ids ins out extra n)"
  unfolding context_reduction_record_def by (rule accounting_good) (simp_all add: p4_context_good)

lemma semantic_operand_good:
  "manifest_fits m \<Longrightarrow> kind \<in> {''PIMOperandResidency'', ''PIMOperandReuse''} \<Longrightarrow>
   flow_record (semantic_operand_record rid kind layer op m family stage ins outs deps a ctx)"
  unfolding semantic_operand_record_def by (rule accounting_good) (auto simp: p4_context_good)

lemma ffn_elementwise_good: "manifest_fits m \<Longrightarrow> flow_record (ffn_elementwise_record rid layer m op stage ins outs deps ek)"
  unfolding ffn_elementwise_record_def Let_def by (rule accounting_good) (simp_all add: p4_context_good)

lemma host_access_good:
  assumes "manifest_fits m" and "kind = ''HostRead'' \<or> kind = ''HostWrite''"
  shows "flow_record (host_access_record rid kind layer op m place st ins outs deps n scope)"
proof -
  have k: "kind \<in> set SEMANTIC_RECORD_KINDS" using assms(2) by (auto simp: SEMANTIC_RECORD_KINDS_def BASE_SEMANTIC_RECORD_KINDS_def)
  have *: "flow_record (dupdate (base_record rid kind layer op m) (tensor_fields ins outs deps (p4_context f s ctx) @
      [(''bytes'', v), (''address_policy'', w)]))" for f s ctx v w
  proof -
    have e: "distinct (dkeys [(''bytes'', v), (''address_policy'', w)])"
      "set (dkeys [(''bytes'', v), (''address_policy'', w)]) \<inter> set protected_fields = {}"
      by (simp_all add: protected_fields_def COMMON_RECORD_FIELDS_def)
    note g = built_good[OF assms(1) k p4_context_good e, where rid = rid and layer = layer and op = op and ins = ins and outs = outs and deps = deps]
    show ?thesis
      using g(1-5) g(6)[of "''bytes''"] g(6)[of "''address_policy''"] assms(2)
      by (auto simp: flow_record_def good_record_def good_kind_def has_def)
  qed
  show ?thesis unfolding host_access_record_def Let_def by (rule *)
qed

lemma compute_built_good:
  assumes "manifest_fits m" and k: "k \<in> set TRANSFORMER_COMPUTE_RECORD_KINDS" and "good_context (PDict ctx)" and "0 < n"
    and p: "dkeys p = [''dependency_context'', ''row_policy'', ''column_policy'']"
    and s: "list_all (has s) [''m'', ''n'', ''k'', ''output_elements'', ''datatype'']"
  shows "flow_record (dupdate (dupdate (base_record rid k layer op m) (tensor_fields ins outs deps ctx @
    [(''compute_shape'', PDict s), (''num_requests'', PInt n), (''bank_sequence'', item (defaults_of m) ''bank_sequence''),
     (''datatype_metadata'', v), (''burst_length'', PInt (mint (defaults_of m) ''burst_length''))])) p)"
proof -
  let ?e = "[(''compute_shape'', PDict s), (''num_requests'', PInt n), (''bank_sequence'', item (defaults_of m) ''bank_sequence''),
     (''datatype_metadata'', v), (''burst_length'', PInt (mint (defaults_of m) ''burst_length''))] @ p"
  have kinds: "k \<in> set SEMANTIC_RECORD_KINDS" "k \<in> set TRANSFORMER_DATAFLOW_RECORD_KINDS" "k \<notin> {''HostRead'', ''HostWrite'', ''Barrier'', ''Drain''}"
    using k by (auto simp: SEMANTIC_RECORD_KINDS_def TRANSFORMER_DATAFLOW_RECORD_KINDS_def TRANSFORMER_COMPUTE_RECORD_KINDS_def)
  have keys: "dkeys ?e = [''compute_shape'', ''num_requests'', ''bank_sequence'', ''datatype_metadata'', ''burst_length'',
      ''dependency_context'', ''row_policy'', ''column_policy'']"
    by (simp add: p)
  have e: "distinct (dkeys ?e)" "set (dkeys ?e) \<inter> set protected_fields = {}"
    unfolding keys by (simp_all add: protected_fields_def COMMON_RECORD_FIELDS_def)
  note g = built_good[OF assms(1) kinds(1) assms(3) e, where rid = rid and layer = layer and op = op and ins = ins and outs = outs and deps = deps]
  let ?r = "dupdate (base_record rid k layer op m) (tensor_fields ins outs deps ctx @ ?e)"
  have read: "dget ?r f = dget ?e f" if "f \<in> set (dkeys ?e)" for f using g(6) that by blast
  have pol: "has ?r f" if "f \<in> {''dependency_context'', ''row_policy'', ''column_policy'', ''datatype_metadata''}" for f
  proof -
    have "f \<in> set (dkeys ?e)" using that unfolding keys by auto
    then show ?thesis using read dget_in_keys[of f ?e] by (auto simp: has_def)
  qed
  have "dget ?r ''num_requests'' = Some (PInt n)" "dget ?r ''compute_shape'' = Some (PDict s)"
    "dget ?r ''bank_sequence'' = Some (item (defaults_of m) ''bank_sequence'')" "dget ?r ''burst_length'' = Some (PInt (mint (defaults_of m) ''burst_length''))"
    by (subst read; simp)+
  then have "good_compute ?r"
    using assms(1,4) s pol by (simp add: good_compute_def dgetd_def count_value_def manifest_fits_def)
  then have "flow_record ?r" using g(1-5) k kinds by (simp add: flow_record_def good_record_def good_kind_def)
  then show ?thesis by (simp only: dupdate_append)
qed

lemma num_requests_positive: "0 < num_requests n v"
  by (simp add: num_requests_def)

lemma attention_compute_good:
  assumes "manifest_fits m" and "kind = ''AttentionScore'' \<or> kind = ''AttentionContext''"
  shows "flow_record (attention_compute_record rid kind layer op m h t n st pf ins outs deps)"
  unfolding attention_compute_record_def Let_def
  using assms(2)
  by (intro compute_built_good assms(1) p4_context_good num_requests_positive)
    (auto simp: attention_policies_def policy_keys TRANSFORMER_COMPUTE_RECORD_KINDS_def has_def)

lemma ffn_projection_good:
  assumes "manifest_fits m"
  shows "flow_record (ffn_projection_record rid layer m op stage ins outs deps k n)"
  unfolding ffn_projection_record_def Let_def case_prod_beta
  by (intro compute_built_good assms p4_context_good num_requests_positive)
    (simp_all add: ffn_policies_def policy_keys TRANSFORMER_COMPUTE_RECORD_KINDS_def has_def)

lemma move_built_good:
  assumes "manifest_fits m" and "good_context (PDict ctx)" and "0 < n" and p: "dkeys p = [''dependency_context'', ''row_policy'', ''column_policy'']"
    and s: "dget s ''movement_kind'' = Some (PStr mk)" "mk \<in> set VALID_PIM_DATA_MOVE_MOVEMENT_KINDS"
  shows "flow_record (dupdate (dupdate (base_record rid ''PIMDataMove'' layer op m) (tensor_fields ins outs deps ctx @
    [(''movement_policy'', PDict s), (''num_requests'', PInt n), (''datatype_metadata'', v)])) p)"
proof -
  let ?e = "[(''movement_policy'', PDict s), (''num_requests'', PInt n), (''datatype_metadata'', v)] @ p"
  have kinds: "''PIMDataMove'' \<in> set SEMANTIC_RECORD_KINDS" "''PIMDataMove'' \<in> set TRANSFORMER_DATAFLOW_RECORD_KINDS"
    "''PIMDataMove'' \<notin> set TRANSFORMER_COMPUTE_RECORD_KINDS"
    by (simp_all add: SEMANTIC_RECORD_KINDS_def TRANSFORMER_DATAFLOW_RECORD_KINDS_def TRANSFORMER_COMPUTE_RECORD_KINDS_def)
  have keys: "dkeys ?e = [''movement_policy'', ''num_requests'', ''datatype_metadata'', ''dependency_context'', ''row_policy'', ''column_policy'']"
    by (simp add: p)
  have e: "distinct (dkeys ?e)" "set (dkeys ?e) \<inter> set protected_fields = {}"
    unfolding keys by (simp_all add: protected_fields_def COMMON_RECORD_FIELDS_def)
  note g = built_good[OF assms(1) kinds(1) assms(2) e, where rid = rid and layer = layer and op = op and ins = ins and outs = outs and deps = deps]
  let ?r = "dupdate (base_record rid ''PIMDataMove'' layer op m) (tensor_fields ins outs deps ctx @ ?e)"
  have read: "dget ?r f = dget ?e f" if "f \<in> set (dkeys ?e)" for f using g(6) that by blast
  have pol: "has ?r f" if "f \<in> {''dependency_context'', ''row_policy'', ''column_policy'', ''datatype_metadata''}" for f
  proof -
    have "f \<in> set (dkeys ?e)" using that unfolding keys by auto
    then show ?thesis using read dget_in_keys[of f ?e] by (auto simp: has_def)
  qed
  have "dget ?r ''num_requests'' = Some (PInt n)" "dget ?r ''movement_policy'' = Some (PDict s)"
    by (subst read; simp)+
  then have "good_move ?r"
    using assms(3) s pol by (simp add: good_move_def dgetd_def count_value_def)
  then have "flow_record ?r" using g(1-5) kinds by (simp add: flow_record_def good_record_def good_kind_def)
  then show ?thesis by (simp only: dupdate_append)
qed

lemma ffn_data_move_good:
  assumes "manifest_fits m"
  shows "flow_record (ffn_data_move_record rid layer m op stage ins outs deps role res reuse t n)"
proof -
  obtain i k s where t: "t = (i, k, s)" by (cases t)
  show ?thesis
    unfolding ffn_data_move_record_def Let_def t prod.case
    by (rule move_built_good[OF assms p4_context_good, where mk = "if role = ''weight'' then ''preloaded_stationary_weight_residency''
          else ''broadcast_or_accounted_tile_load''"])
      (simp_all add: ffn_policies_def policy_keys VALID_PIM_DATA_MOVE_MOVEMENT_KINDS_def num_requests_positive)
qed

lemma scope_dget:
  "dget (dupdate (base_record rid k layer op m) [(f, v)]) g = (if g = f then Some v else dget (base_record rid k layer op m) g)"
  by (simp add: dupdate_Cons dget_dset)

lemma scope_record_good:
  assumes "k \<in> set SEMANTIC_RECORD_KINDS" and "f \<notin> set COMMON_RECORD_FIELDS" and "\<And>r. has r f \<Longrightarrow> good_kind k r"
  shows "good_record (dupdate (base_record rid k layer op m) [(f, v)])"
proof -
  let ?r = "dupdate (base_record rid k layer op m) [(f, v)]"
  have base: "dget ?r g = dget (base_record rid k layer op m) g" if "g \<in> set COMMON_RECORD_FIELDS" for g
    using that assms(2) by (auto simp: scope_dget)
  have b: "dget ?r ''schema_version'' = Some (PStr SCHEMA_VERSION)" "dget ?r ''kind'' = Some (PStr k)" "dget ?r ''repeat'' = Some (PInt 1)"
    by (subst base; simp add: COMMON_RECORD_FIELDS_def base_record_def)+
  have h: "\<forall>g \<in> set COMMON_RECORD_FIELDS. has ?r g"
    unfolding has_def using base by (simp add: COMMON_RECORD_FIELDS_def base_record_def)
  have kind: "kind_of ?r = k" by (simp add: kind_of_def dgetd_def b)
  have "good_common ?r" using h kind assms(1) by (simp add: good_common_def dgetd_def b count_value_def)
  moreover have "has ?r f" by (simp add: has_def scope_dget)
  ultimately show ?thesis using assms(3) by (simp add: good_record_def kind)
qed

lemma barrier_good: "good_record (barrier_record rid layer op m)" and drain_good: "good_record (drain_record rid layer m)"
  unfolding barrier_record_def drain_record_def
  by (rule scope_record_good; simp add: SEMANTIC_RECORD_KINDS_def BASE_SEMANTIC_RECORD_KINDS_def COMMON_RECORD_FIELDS_def good_kind_def)+

lemmas builders_good = softmax_good context_reduction_good semantic_operand_good ffn_elementwise_good host_access_good
  attention_compute_good ffn_projection_good ffn_data_move_good

end
