(* ===== verification/Surrogate_Total.thy ===== *)
theory Surrogate_Total
  imports Surrogate_Valid
begin

text \<open>
  The generators do not fail on a manifest that passes the checks: every record they make is good,
  so the check of the finished trace passes, and the count of causal pairs is right.
\<close>

section \<open>States of good records\<close>

definition flows :: "gen_state \<Rightarrow> bool" where
  "flows st \<longleftrightarrow> list_all flow_record (gs_records st)"

lemma flows_start [simp]: "flows gen_start"
  by (simp add: flows_def gen_start_def)

lemma flows_push: "flows st \<Longrightarrow> flow_record (mk (next_rec st)) \<Longrightarrow> flows (push mk st)"
  by (simp add: flows_def push_def)

lemma flows_rewrite: "flows st \<Longrightarrow> (\<And>r. flow_record r \<Longrightarrow> flow_record (f r)) \<Longrightarrow> flows (rewrite f st)"
  by (simp add: flows_def rewrite_def list_all_iff)

lemma flows_all: "flows st \<Longrightarrow> list_all good_record (gs_records st)"
  by (simp add: flows_def list_all_iff flow_record_def)

section \<open>Attention\<close>

lemma flows_score_tile:
  assumes "manifest_fits m" and "flows (fst s)"
  shows "flows (fst (append_score_tile m layer head s t))"
  unfolding append_score_tile_def Let_def case_prod_beta fst_conv
  using assms by (intro flows_push builders_good) simp_all

lemma flows_scores:
  assumes "manifest_fits m" and "flows st"
  shows "flows (fst (append_attention_scores m layer head tiles st))"
  unfolding append_attention_scores_def
  by (rule foldl_keeps[where P = "\<lambda>s. flows (fst s)"]) (use assms in \<open>simp_all add: flows_score_tile\<close>)

lemma flow_link_score: "flow_record r \<Longrightarrow> flow_record (link_score layer head q scores r)"
proof -
  assume r: "flow_record r"
  let ?ins = "map (\<lambda>v. if v = PStr (in_head layer head ''Q'') then PStr (in_head layer head ''Q.pim_visible'') else v)
    (py_items (item (sub_of r ''tensor_io'') ''inputs''))"
  have "list_all is_str ?ins" using flow_tensors[OF r] by (auto simp: list_all_iff)
  then have "flow_record (put_in ''tensor_io'' ''inputs'' (PList ?ins) r)" by (intro flow_put_tensors r) simp_all
  then show ?thesis using r by (simp add: link_score_def Let_def flow_set_deps)
qed

lemma flows_head_scores:
  assumes "manifest_fits m" and "flows st"
  shows "flows (fst (head_scores m layer head st))"
proof -
  have "flows (emit_q_residency m layer head st)"
    unfolding emit_q_residency_def using assms by (intro flows_push builders_good) simp_all
  then show ?thesis
    unfolding head_scores_def Let_def case_prod_beta fst_conv link_scores_rewrite
    by (intro flows_rewrite flow_link_score flows_scores assms(1))
qed

lemma flows_context_tile:
  assumes "manifest_fits m" and "flows (fst s)"
  shows "flows (fst (append_context_tile m layer head softmax s t))"
  unfolding append_context_tile_def Let_def case_prod_beta fst_conv
  using assms by (intro flows_push builders_good) simp_all

lemma flows_contexts:
  assumes "manifest_fits m" and "flows st"
  shows "flows (append_attention_contexts m layer head tiles scores st)"
proof -
  have fold: "flows (fst (foldl (append_context_tile m layer head softmax) (st', [], []) ts))" if "flows st'" for softmax st' ts
    by (rule foldl_keeps[where P = "\<lambda>s. flows (fst s)"]) (use assms(1) that in \<open>simp_all add: flows_context_tile\<close>)
  then show ?thesis
    unfolding append_attention_contexts_def Let_def case_prod_beta
    using assms by (auto intro!: flows_push builders_good fold)
qed

lemma flows_serial: "manifest_fits m \<Longrightarrow> flows (serial_attention m)"
proof -
  assume m: "manifest_fits m"
  have "flows (serial_head m layer st head)" if "flows st" for layer st head
    unfolding serial_head_def Let_def case_prod_beta by (intro flows_contexts flows_head_scores m that)
  then show ?thesis
    unfolding serial_attention_def by (intro foldl_keeps[where P = flows]) (auto intro!: foldl_keeps[where P = flows])
qed

lemma flows_overlapped: "manifest_fits m \<Longrightarrow> flows st \<Longrightarrow> flows (overlapped_layer m st layer)"
proof -
  assume m: "manifest_fits m" and st: "flows st"
  have "flows (fst (foldl (\<lambda>(st, by_head) head. let (st, ids) = head_scores m layer head st in (st, by_head @ [ids])) (st, []) hs))" for hs
    by (rule foldl_keeps[where P = "\<lambda>s. flows (fst s)"]) (use m st in \<open>auto simp: case_prod_beta Let_def intro: flows_head_scores\<close>)
  then show ?thesis
    unfolding overlapped_layer_def Let_def case_prod_beta
    by (intro foldl_keeps[where P = flows] flows_contexts m) (simp_all add: Let_def case_prod_beta)
qed

lemma flow_good: "list_all flow_record rs \<Longrightarrow> list_all good_record rs"
  by (simp add: list_all_iff flow_record_def)

lemma overlapped_flow: "manifest_fits m \<Longrightarrow> list_all flow_record (overlapped_attention m)"
proof -
  assume m: "manifest_fits m"
  have "flows (foldl (overlapped_layer m) gen_start (layers_of m))"
    by (rule foldl_keeps[where P = flows]) (simp_all add: flows_overlapped m)
  then have "flows (rewrite (put_in ''operator_context'' ''dag_hint'' v) (foldl (overlapped_layer m) gen_start (layers_of m)))" for v
    by (rule flows_rewrite) (simp add: flow_put_context)
  then show ?thesis by (simp add: overlapped_attention_def add_dag_hint_def rewrite_def flows_def)
qed

section \<open>Prefill\<close>

lemma flows_prefill_residency:
  "manifest_fits m \<Longrightarrow> flows st \<Longrightarrow> flows (prefill_residency op tensor deps scope ctx m layer st)"
  unfolding prefill_residency_def by (intro flows_push builders_good) simp_all

lemma flows_prefill_score:
  assumes "manifest_fits m" and "flows (ps_state ps)"
  shows "flows (ps_state (prefill_score_tile m layer head qt qs qn q ps t))"
  unfolding prefill_score_tile_def Let_def case_prod_beta
  using assms by (auto intro!: flows_push builders_good flows_prefill_residency)

lemma flows_prefill_context:
  assumes "manifest_fits m" and "flows (fst s)"
  shows "flows (fst (prefill_context_tile m layer head qt qs qn softmax s t))"
  unfolding prefill_context_tile_def Let_def case_prod_beta fst_conv
  using assms by (intro flows_push builders_good flows_prefill_residency) simp_all

lemma flow_put_accounting:
  assumes "flow_record r" and "is_dict (item r ''accounting_metadata'')" and "kind_of r = ''AttentionSoftmax''"
  shows "flow_record (put_in ''accounting_metadata'' k v r)"
proof -
  let ?r = "put_in ''accounting_metadata'' k v r"
  have item: "item ?r f = (if f = ''accounting_metadata'' then PDict (dset k v (sub_of r ''accounting_metadata'')) else item r f)" for f
    by (simp add: put_in_def item_after_dset)
  have has: "has r f \<Longrightarrow> has ?r f" for f by (simp add: put_in_def has_dset)
  have kind: "kind_of ?r = kind_of r" by (simp add: put_in_def kind_of_dset)
  have "good_common ?r" using assms(1) by (simp add: flow_record_def good_record_def good_common_def item has kind)
  moreover have "good_flow ?r"
    using assms kind_flow[of r] by (simp add: flow_record_def good_flow_def item)
  ultimately have "good_record ?r"
    using assms(3) by (simp add: good_record_def good_kind_def kind item TRANSFORMER_DATAFLOW_RECORD_KINDS_def TRANSFORMER_COMPUTE_RECORD_KINDS_def)
  then show ?thesis using assms(1) by (simp add: flow_record_def item)
qed

lemma prefill_softmax_good:
  assumes "manifest_fits m"
  shows "flow_record (prefill_softmax_record rid layer m head qt qs qn n ins outs deps)"
proof -
  have "item (softmax_record rid layer m head qt qn qs ins outs deps) ''accounting_metadata'' \<noteq> PNone \<and>
      is_dict (item (softmax_record rid layer m head qt qn qs ins outs deps) ''accounting_metadata'')"
    by (simp add: softmax_record_def dgetd_def dget_dupdate tensor_fields_def)
  then show ?thesis
    unfolding prefill_softmax_record_def
    by (intro flow_put_accounting flow_put_context softmax_good assms) (simp_all add: put_in_def item_after_dset record_heads kind_of_dset)
qed

lemma flows_prefill_query:
  assumes "manifest_fits m" and "flows (fst s)"
  shows "flows (fst (prefill_query_tile m layer head kv s t))"
proof -
  have scores: "flows (ps_state (foldl (prefill_score_tile m layer head qt qs qn q) \<lparr>ps_state = st, ps_ids = [], ps_tensors = [], ps_tiles = []\<rparr> ts))"
    if "flows st" for qt qs qn q st ts
    by (rule foldl_keeps[where P = "\<lambda>ps. flows (ps_state ps)"]) (use assms(1) that in \<open>simp_all add: flows_prefill_score\<close>)
  have contexts: "flows (fst (foldl (prefill_context_tile m layer head qt qs qn softmax) (st, [], []) ts))" if "flows st" for qt qs qn softmax st ts
    by (rule foldl_keeps[where P = "\<lambda>s. flows (fst s)"]) (use assms(1) that in \<open>simp_all add: flows_prefill_context\<close>)
  show ?thesis
    unfolding prefill_query_tile_def Let_def case_prod_beta fst_conv
    using assms by (auto intro!: flows_push builders_good contexts scores flows_prefill_residency prefill_softmax_good)
qed

lemma flows_prefill_head:
  assumes "manifest_fits m" and "flows st" and "prefill_head m layer st head = Inr st'"
  shows "flows st'"
proof -
  have "flows (fst (foldl (prefill_query_tile m layer head kv) (st, 0) ts))" for kv ts
    by (rule foldl_keeps[where P = "\<lambda>s. flows (fst s)"]) (use assms(1,2) in \<open>simp_all add: flows_prefill_query\<close>)
  then show ?thesis using assms(3) by (auto simp: prefill_head_def Let_def case_prod_beta split: if_splits)
qed

section \<open>Counting causal pairs\<close>

lemma sum_list_swap:
  "sum_list (map (\<lambda>x. sum_list (map (f x) ys)) xs) = sum_list (map (\<lambda>y. sum_list (map (\<lambda>x. f x y) xs)) ys)"
  for f :: "'a \<Rightarrow> 'b \<Rightarrow> int"
  by (induction xs) (simp_all add: sum_list_addf)

lemma pair_count_nonneg: "0 \<le> causal_pair_count qs qn ks kn"
  unfolding causal_pair_count_def by (rule sum_list_nonneg) auto

text \<open>The pairs of a query tile with all key tiles: each query meets the keys up to itself.\<close>

lemma query_tile_pairs:
  assumes "0 < tile" and "0 \<le> qs" and "qs + qn \<le> n"
  shows "sum_list (map (\<lambda>(s, k). causal_pair_count qs qn s k) (tile_ranges n tile)) = sum_list (map (\<lambda>q. q + 1) [qs..qs + qn - 1])"
proof (cases "0 < qn")
  case True
  let ?t = "tile_ranges n tile" and ?q = "[qs..qs + qn - 1]"
  let ?one = "\<lambda>q j. if j \<le> q then 1 else 0 :: int"
  have "causal_pair_count qs qn (fst p) (snd p) = sum_list (map (\<lambda>q. sum_list (map (?one q) [fst p..fst p + snd p - 1])) ?q)"
    if "p \<in> set ?t" for p
  proof -
    have "0 < snd p" using that tile_ranges_sizes[of "fst p" "snd p" 0 n tile] by (simp add: tile_ranges_def)
    then show ?thesis by (simp add: causal_pair_count_def causal_keys)
  qed
  then have "sum_list (map (\<lambda>(s, k). causal_pair_count qs qn s k) ?t) =
      sum_list (map (\<lambda>p. sum_list (map (\<lambda>q. sum_list (map (?one q) [fst p..fst p + snd p - 1])) ?q)) ?t)"
    by (intro arg_cong[of _ _ sum_list] map_cong) (auto simp: case_prod_beta)
  also have "\<dots> = sum_list (map (\<lambda>q. sum_list (map (\<lambda>(s, k). sum_list (map (?one q) [s..s + k - 1])) ?t)) ?q)"
    by (subst sum_list_swap) (simp add: case_prod_beta)
  also have "\<dots> = sum_list (map (\<lambda>q. q + 1) ?q)"
  proof (intro arg_cong[of _ _ sum_list] map_cong refl)
    fix q assume "q \<in> set ?q"
    then have q: "0 \<le> q" "q < n" using assms True by auto
    have "sum_list (map (\<lambda>(s, k). sum_list (map (?one q) [s..s + k - 1])) ?t) = sum_list (map (?one q) [0..n - 1])"
      using q by (intro sum_over_tiles[OF assms(1)]) simp
    then show "sum_list (map (\<lambda>(s, k). sum_list (map (?one q) [s..s + k - 1])) ?t) = q + 1" using causal_row[OF q] by simp
  qed
  finally show ?thesis .
next
  case False
  have "causal_pair_count qs qn s k = 0" for s k using False by (simp add: causal_pair_count_def)
  moreover have "sum_list (map (\<lambda>(s, k). 0) ts) = (0 :: int)" for ts :: "(int \<times> int) list" by (induction ts) auto
  ultimately show ?thesis using False by simp
qed

lemma sum_first: "0 \<le> n \<Longrightarrow> sum_list (map (\<lambda>q. q + 1) [0..n - 1]) = n * (n + 1) div 2" for n :: int
proof (induction n rule: int_ge_induct)
  case (step n)
  have "[0..n + 1 - 1] = [0..n - 1] @ [n]" using step(1) upto_rec2[of 0 n] by simp
  moreover have "(n + 1) * (n + 1 + 1) = n * (n + 1) + 2 * (n + 1)" by (simp add: algebra_simps)
  ultimately show ?case using step.IH by simp
qed simp

lemma score_tiles_pairs:
  "sum_list (map (\<lambda>(_, _, _, n). n) (ps_tiles (foldl (prefill_score_tile m l h qt qs qn r) ps (enumerate i ts)))) =
   sum_list (map (\<lambda>(_, _, _, n). n) (ps_tiles ps)) + sum_list (map (\<lambda>(s, k). causal_pair_count qs qn s k) ts)"
proof (induction ts arbitrary: ps i)
  case (Cons t ts)
  obtain s k where t: "t = (s, k)" by (cases t)
  have "sum_list (map (\<lambda>(_, _, _, n). n) (ps_tiles (prefill_score_tile m l h qt qs qn r ps (i, s, k)))) =
      sum_list (map (\<lambda>(_, _, _, n). n) (ps_tiles ps)) + causal_pair_count qs qn s k"
    using pair_count_nonneg[of qs qn s k] by (simp add: prefill_score_tile_def Let_def)
  then show ?case by (simp add: Cons.IH t)
qed simp

lemma query_tile_observed:
  "snd (prefill_query_tile m l h kv (st, observed) (qt, qs, qn)) =
   observed + sum_list (map (\<lambda>(s, k). causal_pair_count qs qn s k) kv)"
  by (simp add: prefill_query_tile_def Let_def case_prod_beta score_tiles_pairs[simplified case_prod_beta])

lemma query_tiles_observed:
  "snd (foldl (prefill_query_tile m l h kv) (st, observed) (enumerate i ts)) =
   observed + sum_list (map (\<lambda>(qs, qn). sum_list (map (\<lambda>(s, k). causal_pair_count qs qn s k) kv)) ts)"
proof (induction ts arbitrary: st observed i)
  case (Cons t ts)
  obtain qs qn where t: "t = (qs, qn)" by (cases t)
  obtain st' o' where s: "prefill_query_tile m l h kv (st, observed) (i, qs, qn) = (st', o')" by (metis surj_pair)
  have "o' = observed + sum_list (map (\<lambda>(s, k). causal_pair_count qs qn s k) kv)"
    using query_tile_observed[of m l h kv st observed i qs qn] by (simp add: s)
  then show ?case using Cons.IH[of st' o' "Suc i"] by (simp add: t s)
qed simp

lemma prefill_head_ok:
  assumes "0 < mint m ''score_tile_tokens''" and "0 < mint m ''context_tile_tokens''" and "0 \<le> mint m ''seq_len''"
  shows "is_ok (prefill_head m layer st head)"
proof -
  let ?n = "mint m ''seq_len''"
  let ?q = "tile_ranges ?n (mint m ''score_tile_tokens'')" and ?kv = "tile_ranges ?n (mint m ''context_tile_tokens'')"
  have "sum_list (map (\<lambda>(qs, qn). sum_list (map (\<lambda>(s, k). causal_pair_count qs qn s k) ?kv)) ?q) =
      sum_list (map (\<lambda>(qs, qn). sum_list (map (\<lambda>q. q + 1) [qs..qs + qn - 1])) ?q)"
    using tile_ranges_sizes[of _ _ 0 ?n "mint m ''score_tile_tokens''"] query_tile_pairs[OF assms(2)]
    by (intro arg_cong[of _ _ sum_list] map_cong) (auto simp: tile_ranges_def)
  also have "\<dots> = ?n * (?n + 1) div 2"
    using sum_over_tiles[OF assms(1,3), of "\<lambda>q. q + 1"] sum_first[OF assms(3)] by simp
  finally show ?thesis
    using query_tiles_observed[of m layer head ?kv st 0 0 ?q]
    by (simp add: prefill_head_def Let_def case_prod_beta)
qed

section \<open>What the checks of a manifest give\<close>

lemma m_int_mint: "m_int m f = Inr i \<Longrightarrow> mint m f = i"
  by (auto simp: m_int_def g_get_def g_int_def mint_def dgetd_def rbind_Inr_iff split: option.splits)

lemma m_positive_mint: "m_positive m fs = Inr u \<Longrightarrow> f \<in> set fs \<Longrightarrow> 0 < mint m f"
  by (auto simp: m_positive_def rbind_Inr_iff rmap_Inr_iff in_set_conv_nth dest!: m_int_mint list_all2_nthD)

lemma non_claims_fit: "check_non_claims m = Inr u \<Longrightarrow> claims_in (item m ''non_claims'') REQUIRED_P4_NON_CLAIMS"
proof -
  assume "check_non_claims m = Inr u"
  then obtain xs where xs: "item m ''non_claims'' = PList xs"
    "\<forall>c \<in> set (if item m ''phase'' = PStr ''prefill'' then prefill_non_claims else REQUIRED_P4_NON_CLAIMS). PStr c \<in> set xs"
    by (auto simp: check_non_claims_def rbind_Inr_iff g_list_def list_all_iff split: pyval.splits)
  have "set REQUIRED_P4_NON_CLAIMS \<subseteq> set prefill_non_claims"
    by (simp add: REQUIRED_P4_NON_CLAIMS_def prefill_non_claims_def)
  then show ?thesis using xs by (auto simp: claims_in_def split: if_splits)
qed

lemma fits_manifest:
  assumes "check_non_claims m = Inr u" and "validate_ramulator_defaults m = Inr v" and "readable m = Inr w"
  shows "manifest_fits m"
proof -
  obtain d where d: "dget m ''ramulator_visible_defaults'' = Some (PDict d)" "truthy (item d ''bank_sequence'')"
      "m_positive d [''burst_length'', ''row_count'', ''dependency_count''] = Inr v"
    using assms(2) by (auto simp: validate_ramulator_defaults_def rbind_Inr_iff g_get_def g_dict_def split: option.splits pyval.splits)
  then have dd: "defaults_of m = d" by (simp add: defaults_of_def dgetd_def)
  obtain xs where "item d ''bank_sequence'' = PList xs"
    using assms(3) by (auto simp: readable_def Let_def dd rbind_Inr_iff g_list_def split: pyval.splits)
  then show ?thesis
    using d(2,3) non_claims_fit[OF assms(1)] m_positive_mint[OF d(3), of "''burst_length''"]
    by (cases xs) (simp_all add: manifest_fits_def dd)
qed

section \<open>Feed-forward\<close>

lemma flows_intermediate:
  "manifest_fits m \<Longrightarrow> flows st \<Longrightarrow> flows (intermediate_residency m layer op tensor deps scope st)"
  unfolding intermediate_residency_def by (intro flows_push builders_good) simp_all

lemma flows_hidden_setup: "manifest_fits m \<Longrightarrow> flows (fst s) \<Longrightarrow> flows (fst (hidden_setup m layer s t))"
  unfolding hidden_setup_def Let_def case_prod_beta fst_conv by (intro flows_push builders_good) simp_all

lemma flows_weight_residency: "manifest_fits m \<Longrightarrow> flows (fst s) \<Longrightarrow> flows (fst (weight_residency m layer s t))"
  unfolding weight_residency_def case_prod_beta fst_conv by (intro flows_push builders_good) simp_all

lemma flows_activation:
  assumes "manifest_fits m" and "flows st"
  shows "flows (fst (gated_activation m layer hr gw ur st))" and "flows (fst (relu_activation m layer ur st))"
  unfolding gated_activation_def relu_activation_def Let_def fst_conv
  by (intro flows_push builders_good flows_intermediate assms)+

lemma flows_ffn_layer:
  assumes "manifest_fits m" and "flows st"
  shows "flows (ffn_layer m st layer)"
proof -
  have setups: "flows (fst (foldl (hidden_setup m layer) (st, [], []) ts))" if "flows st" for st ts
    by (rule foldl_keeps[where P = "\<lambda>s. flows (fst s)"]) (use assms(1) that in \<open>simp_all add: flows_hidden_setup\<close>)
  have weights: "flows (fst (foldl (weight_residency m layer) (st, []) ts))" if "flows st" for st ts
    by (rule foldl_keeps[where P = "\<lambda>s. flows (fst s)"]) (use assms(1) that in \<open>simp_all add: flows_weight_residency\<close>)
  have choice: "flows (fst (if b then x else y))" if "flows (fst x)" "flows (fst y)"
    for b and x y :: "gen_state \<times> string \<times> string \<times> nat" using that by simp
  show ?thesis
    unfolding ffn_layer_def Let_def case_prod_beta
    by (intro flows_push builders_good flows_intermediate choice flows_activation weights setups assms; simp)
qed

section \<open>Totality\<close>

lemma mint_fields: "g_fields m fs = Inr u \<Longrightarrow> f \<in> set fs \<Longrightarrow> has m f"
  using g_fields_ok[of m fs] by (simp add: is_ok_iff)

lemma attention_manifest_facts:
  assumes "validate_attention_manifest m = Inr u" and "readable m = Inr w"
  shows "manifest_fits m" and "0 < mint m ''score_tile_tokens''" and "0 < mint m ''context_tile_tokens''" and "0 < mint m ''seq_len''"
proof -
  obtain a b c where "check_non_claims m = Inr a" "validate_ramulator_defaults m = Inr b"
    and p: "m_positive m [''num_layers'', ''num_heads'', ''head_dim'', ''seq_len'', ''score_tile_tokens'', ''context_tile_tokens'',
              ''head_group_size''] = Inr c"
    using assms(1) unfolding validate_attention_manifest_def rbind_Inr_iff by blast
  then show "manifest_fits m" using assms(2) by (intro fits_manifest)
  show "0 < mint m ''score_tile_tokens''" and "0 < mint m ''context_tile_tokens''" and "0 < mint m ''seq_len''"
    using m_positive_mint[OF p] by simp_all
qed

lemma rfold_total:
  assumes "P st" and "\<And>st x. P st \<Longrightarrow> \<exists>st'. f st x = Inr st' \<and> P st'"
  shows "\<exists>st'. rfold f st xs = Inr st' \<and> P st'"
  using assms(1)
proof (induction xs arbitrary: st)
  case (Cons x xs)
  from assms(2)[OF Cons.prems, of x] obtain st1 where "f st x = Inr st1" "P st1" by auto
  then show ?case using Cons.IH by simp
qed simp

lemma prefill_attention_total:
  assumes "validate_attention_manifest m = Inr u" and "readable_policies m = Inr w" and "item m ''phase'' = PStr ''prefill''"
  shows "is_ok (generate_prefill_attention_records m)"
proof -
  have "readable m = Inr ()" using assms(2) by (auto simp: readable_policies_def rbind_Inr_iff)
  note m = attention_manifest_facts[OF assms(1) this]
  have head: "\<exists>st'. prefill_head m layer st h = Inr st' \<and> flows st'" if "flows st" for layer st h
    using prefill_head_ok[OF m(2,3) less_imp_le[OF m(4)], of layer st h] flows_prefill_head[OF m(1) that] by (auto simp: is_ok_iff)
  have "\<exists>st. rfold (\<lambda>st layer. rfold (prefill_head m layer) st (heads_of m)) gen_start (layers_of m) = Inr st \<and> flows st"
    by (rule rfold_total, simp, rule rfold_total, assumption, rule head)
  then show ?thesis
    using assms by (auto simp: generate_prefill_attention_records_def require_def validate_all_ok[OF flows_all])
qed

lemma attention_total:
  assumes "validate_attention_manifest m = Inr u" and "readable_policies m = Inr w"
    and "item m ''phase'' \<noteq> PStr ''prefill'' \<Longrightarrow> readable_host m = Inr v"
  shows "is_ok (generate_attention_records m)"
proof (cases "item m ''phase'' = PStr ''prefill''")
  case True
  then show ?thesis using assms prefill_attention_total[OF assms(1,2)] by (simp add: generate_attention_records_def)
next
  case False
  have "readable m = Inr ()" using assms(2) by (auto simp: readable_policies_def rbind_Inr_iff)
  note m = attention_manifest_facts[OF assms(1) this]
  show ?thesis
    using False assms m(1) by (simp add: generate_attention_records_def validate_all_ok[OF flow_good[OF overlapped_flow]] validate_all_ok[OF flows_all[OF flows_serial]])
qed

lemma ffn_total:
  assumes "validate_ffn_manifest m = Inr u" and "readable_policies m = Inr w"
  shows "is_ok (generate_ffn_records m)"
proof -
  obtain a b where "check_non_claims m = Inr a" "validate_ramulator_defaults m = Inr b"
    using assms(1) unfolding validate_ffn_manifest_def rbind_Inr_iff by blast
  moreover have "readable m = Inr ()" using assms(2) by (auto simp: readable_policies_def rbind_Inr_iff)
  ultimately have "manifest_fits m" by (rule fits_manifest)
  then have "flows (foldl (ffn_layer m) gen_start (layers_of m))"
    by (intro foldl_keeps[where P = flows] flows_ffn_layer) simp_all
  then show ?thesis using assms by (simp add: generate_ffn_records_def validate_all_ok[OF flows_all])
qed

section \<open>Dense decoders\<close>

lemma flows_gs: "flows st \<Longrightarrow> list_all flow_record (gs_records st)"
  by (simp add: flows_def)

lemma prefill_attention_flow:
  assumes "generate_prefill_attention_records m = Inr rs" and "manifest_fits m"
  shows "list_all flow_record rs"
proof -
  obtain st where st: "rfold (\<lambda>st layer. rfold (prefill_head m layer) st (heads_of m)) gen_start (layers_of m) = Inr st" "rs = gs_records st"
    using assms(1) by (auto simp: generate_prefill_attention_records_def result_simps dest: validate_all_Inr)
  have keep: "flows st'" if "flows st" "rfold f st xs = Inr st'" "\<And>st x st'. flows st \<Longrightarrow> f st x = Inr st' \<Longrightarrow> flows st'" for f st st' and xs :: "nat list"
    using that(1,2)
  proof (induction xs arbitrary: st)
    case (Cons x xs)
    then show ?case using that(3) by (auto simp: rbind_Inr_iff)
  qed simp
  have "flows st"
    by (rule keep[OF flows_start st(1)], rule keep, assumption, assumption, rule flows_prefill_head[OF assms(2)])
  then show ?thesis by (simp add: st(2) flows_gs)
qed

lemma attention_flow:
  assumes "generate_attention_records m = Inr rs" and "manifest_fits m"
  shows "list_all flow_record rs"
proof (cases "item m ''phase'' = PStr ''prefill''")
  case True
  then show ?thesis using assms prefill_attention_flow by (auto simp: generate_attention_records_def result_simps)
next
  case False
  then have "rs = overlapped_attention m \<or> rs = gs_records (serial_attention m)"
    using assms by (auto simp: generate_attention_records_def result_simps split: if_splits dest: validate_all_Inr)
  then show ?thesis using overlapped_flow[OF assms(2)] flows_gs[OF flows_serial[OF assms(2)]] by auto
qed

lemma ffn_flow:
  assumes "generate_ffn_records m = Inr rs" and "manifest_fits m"
  shows "list_all flow_record rs"
proof -
  have "flows (foldl (ffn_layer m) gen_start (layers_of m))"
    by (intro foldl_keeps[where P = flows] flows_ffn_layer assms(2)) simp_all
  then show ?thesis using assms(1) by (auto simp: generate_ffn_records_def result_simps flows_gs dest!: validate_all_Inr)
qed

text \<open>The parts of a layer are made of good records; the projections and cache writes are never refused.\<close>

lemma qkv_total:
  assumes "manifest_fits m" and "readable_policies m = Inr u"
  shows "\<exists>rs. qkv_projection_records m q_dim kv_dim = Inr rs \<and> list_all flow_record rs"
proof -
  have "flows (qkv_layer m q k st layer)" if "flows st" for q k st layer
    unfolding qkv_layer_def by (rule foldl_keeps[where P = flows]) (use assms(1) that in \<open>auto intro!: flows_push builders_good\<close>)
  then have "flows (foldl (qkv_layer m q k) gen_start (layers_of m))" for q k
    by (intro foldl_keeps[where P = flows]) simp_all
  then show ?thesis using assms(2) by (simp add: qkv_projection_records_def validate_all_ok[OF flows_all] flows_gs)
qed

lemma output_total:
  assumes "manifest_fits m" and "readable_policies m = Inr u"
  shows "\<exists>rs. output_projection_records m q = Inr rs \<and> list_all flow_record rs"
proof -
  have "flows (foldl (\<lambda>st layer. push (\<lambda>rid. ffn_projection_record rid layer m ''o_projection'' 3
         [in_layer layer ''attention_context'', in_layer layer ''o_projection.weight.resident''] [in_layer layer ''attention_output''] []
         q None) st) gen_start (layers_of m))"
    by (rule foldl_keeps[where P = flows]) (use assms(1) in \<open>auto intro!: flows_push builders_good\<close>)
  then show ?thesis using assms(2) by (simp add: output_projection_records_def validate_all_ok[OF flows_all] flows_gs)
qed

lemma cache_total:
  assumes "manifest_fits m" and "readable_host m = Inr u"
  shows "\<exists>rs. cache_writes m ops suffix_name n = Inr rs \<and> list_all flow_record rs"
proof -
  have "flows (foldl (\<lambda>st (op, tensor). push (\<lambda>rid. host_access_record rid ''HostWrite'' layer op m None 0 [in_layer layer tensor]
         [in_layer layer (''kv_cache.'' @ tensor @ suffix_name)] [] n op) st) st ops)" if "flows st" for st layer
    by (rule foldl_keeps[where P = flows]) (use assms(1) that in \<open>auto intro!: flows_push builders_good\<close>)
  then have "flows (foldl (\<lambda>st layer. foldl (\<lambda>st (op, tensor). push (\<lambda>rid. host_access_record rid ''HostWrite'' layer op m None 0 [in_layer layer tensor]
         [in_layer layer (''kv_cache.'' @ tensor @ suffix_name)] [] n op) st) st ops) gen_start (layers_of m))"
    by (rule foldl_keeps[where P = flows, OF flows_start])
  then show ?thesis using assms(2) by (simp add: cache_writes_def validate_all_ok[OF flows_all] flows_gs)
qed

section \<open>Layers of good records\<close>

definition parts_flow :: "layer_parts \<Rightarrow> bool" where
  "parts_flow p \<longleftrightarrow> list_all (list_all flow_record) [lp_qkv p, lp_cache p, lp_attention p, lp_output p, lp_ffn p]"

lemma placed_flow: "list_all flow_record rs \<Longrightarrow> list_all flow_record (fst (place_part layer rs n))"
  by (auto simp: place_part_moved moved_def Let_def list_all_iff intro!: flow_retarget_record flow_set_deps flow_set_id)

lemma relink_flow: "flow_record r \<Longrightarrow> flow_record (relink by_op r)"
  by (simp add: relink_def flow_set_deps split: option.split)

lemma link_decode_flow: "list_all flow_record rs \<Longrightarrow> list_all flow_record (link_decode layer q k v rs)"
proof -
  have "flow_record (link_decode_record layer q k v res r)" if "flow_record r" for res r
    using that by (simp add: link_decode_record_def Let_def flow_set_deps flow_set_first_input flow_set_tensors)
  then show "list_all flow_record rs \<Longrightarrow> list_all flow_record (link_decode layer q k v rs)"
    by (auto simp: link_decode_def Let_def list_all_iff)
qed

lemma link_prefill_flow: "flow_record r \<Longrightarrow> flow_record (link_prefill_record layer q k v r)"
  by (simp add: link_prefill_record_def flow_set_deps flow_set_tensors)

lemma link_output_flow: "list_all flow_record rs \<Longrightarrow> list_all flow_record (link_output layer attention rs)"
  by (cases rs) (simp_all add: link_output_def flow_set_deps flow_set_tensors)

lemma link_ffn_flow: "list_all flow_record rs \<Longrightarrow> list_all flow_record (link_ffn first_op layer o_id rs)"
  by (auto simp: link_ffn_def list_all_iff flow_set_deps flow_set_tensors)

lemma map_flow: "(\<And>r. flow_record r \<Longrightarrow> flow_record (f r)) \<Longrightarrow> list_all flow_record rs \<Longrightarrow> list_all flow_record (map f rs)"
  by (auto simp: list_all_iff)

lemma renumbered_good: "list_all good_record rs \<Longrightarrow> list_all good_record (fst (renumber_records rs n))"
  by (auto simp: renumber_records_def Let_def list_all_iff intro!: good_set_deps good_set_id)

lemma decoder_layer_good:
  assumes p: "parts_flow p" and st: "list_all good_record (gs_records st)"
  shows "list_all good_record (gs_records (decoder_layer prefill first_op m p st layer))"
proof -
  have parts: "list_all flow_record (lp_qkv p)" "list_all flow_record (lp_cache p)" "list_all flow_record (lp_attention p)"
    "list_all flow_record (lp_output p)" "list_all flow_record (lp_ffn p)"
    using p by (simp_all add: parts_flow_def)
  have att: "list_all flow_record (if b then map (link_prefill_record layer q k v) (fst (place_part layer (lp_attention p) n))
      else link_decode layer q ka va (fst (place_part layer (lp_attention p) n)))" for b q k v ka va n
    using placed_flow[OF parts(3)] by (simp add: link_decode_flow map_flow[OF link_prefill_flow])
  have b: "list_all good_record (fst (renumber_records [barrier_record rid layer op m] n))" for rid op n
    by (rule renumbered_good) (simp add: barrier_good)
  show ?thesis
    unfolding decoder_layer_def Let_def case_prod_beta gen_state.simps list_all_append
    by (intro conjI st b flow_good[OF placed_flow] flow_good[OF map_flow[OF relink_flow placed_flow]] flow_good[OF att]
        flow_good[OF link_output_flow[OF placed_flow]] flow_good[OF link_ffn_flow[OF placed_flow]] parts)
qed

lemma dense_trace_good:
  assumes "n \<le> 0 \<or> parts_flow p"
  shows "list_all good_record (gs_records (foldl (decoder_layer prefill first_op m p) gen_start [0..<nat n]))"
proof (cases "0 < n")
  case True
  then have p: "parts_flow p" using assms by simp
  show ?thesis
    by (rule foldl_keeps[where P = "\<lambda>st. list_all good_record (gs_records st)"]) (simp_all add: gen_start_def decoder_layer_good[OF p])
qed (simp add: gen_start_def)

section \<open>The manifest of one layer\<close>

lemma one_layer_get: "f \<noteq> ''num_layers'' \<Longrightarrow> dget (one_layer_manifest m) f = dget m f"
  by (simp add: one_layer_manifest_def dget_dset)

lemma one_layer_reads:
  assumes "f \<noteq> ''num_layers''"
  shows "dgetd (one_layer_manifest m) f v = dgetd m f v" and "g_get (one_layer_manifest m) f = g_get m f" and "m_int (one_layer_manifest m) f = m_int m f"
    and "m_one_of (one_layer_manifest m) f choices = m_one_of m f choices"
  using assms by (simp_all add: dgetd_def g_get_def m_int_def m_one_of_def one_layer_get)

lemma one_layer_has: "has (one_layer_manifest m) f \<longleftrightarrow> f = ''num_layers'' \<or> has m f"
  by (simp add: one_layer_manifest_def has_dset)

lemma one_layer_fields: "g_fields m fs = Inr u \<Longrightarrow> g_fields (one_layer_manifest m) fs = Inr u"
  using g_fields_ok[of m fs] g_fields_ok[of "one_layer_manifest m" fs] by (auto simp: is_ok_iff one_layer_has)

lemma one_layer_positive: "m_positive m fs = Inr u \<Longrightarrow> m_positive (one_layer_manifest m) fs = Inr u"
proof -
  assume "m_positive m fs = Inr u"
  then have "is_ok (rmap (\<lambda>f. rbind (m_int m f) (\<lambda>i. require (0 < i) (GValue f))) fs)"
    by (auto simp: m_positive_def rbind_Inr_iff)
  then have all: "is_ok (rbind (m_int m f) (\<lambda>i. require (0 < i) (GValue f)))" if "f \<in> set fs" for f
    using that by (simp only: is_ok_rmap)
  have "is_ok (rbind (m_int (one_layer_manifest m) f) (\<lambda>i. require (0 < i) (GValue f)))" if "f \<in> set fs" for f
  proof (cases "f = ''num_layers''")
    case True
    then show ?thesis by (simp add: m_int_def g_get_def one_layer_manifest_def dget_dset g_int_def)
  qed (use all[OF that] in \<open>simp add: one_layer_reads(3)\<close>)
  then have "is_ok (rmap (\<lambda>f. rbind (m_int (one_layer_manifest m) f) (\<lambda>i. require (0 < i) (GValue f))) fs)"
    by (simp only: is_ok_rmap) simp
  then show ?thesis by (auto simp: m_positive_def is_ok_iff)
qed

lemma one_layer_parts:
  "attention_num_kv_heads (one_layer_manifest m) = attention_num_kv_heads m"
  "attention_head_group_size (one_layer_manifest m) = attention_head_group_size m"
  "check_non_claims (one_layer_manifest m) = check_non_claims m"
  "validate_ramulator_defaults (one_layer_manifest m) = validate_ramulator_defaults m"
  "check_prefill_attention (one_layer_manifest m) = check_prefill_attention m"
  "check_ffn_activation (one_layer_manifest m) = check_ffn_activation m"
  "defaults_of (one_layer_manifest m) = defaults_of m"
proof -
  show kv: "attention_num_kv_heads (one_layer_manifest m) = attention_num_kv_heads m"
    by (simp add: attention_num_kv_heads_def one_layer_reads one_layer_has cong: if_cong)
  show "attention_head_group_size (one_layer_manifest m) = attention_head_group_size m"
    by (simp add: attention_head_group_size_def one_layer_reads one_layer_has kv Let_def cong: if_cong)
  show "check_non_claims (one_layer_manifest m) = check_non_claims m"
    by (simp add: check_non_claims_def one_layer_reads)
  show "validate_ramulator_defaults (one_layer_manifest m) = validate_ramulator_defaults m"
    by (simp add: validate_ramulator_defaults_def one_layer_reads)
  show "check_prefill_attention (one_layer_manifest m) = check_prefill_attention m"
    by (simp add: check_prefill_attention_def one_layer_reads)
  show "check_ffn_activation (one_layer_manifest m) = check_ffn_activation m"
    by (simp add: check_ffn_activation_def ffn_variant_def one_layer_reads cong: if_cong)
  show "defaults_of (one_layer_manifest m) = defaults_of m"
    by (simp add: defaults_of_def one_layer_reads)
qed

lemma one_layer_readable:
  "readable (one_layer_manifest m) = readable m" "readable_policies (one_layer_manifest m) = readable_policies m"
  "readable_host (one_layer_manifest m) = readable_host m"
proof -
  have "rmap (g_get (one_layer_manifest m)) [''phase'', ''manifest_name'', ''model_family'', ''workload_class''] =
      rmap (g_get m) [''phase'', ''manifest_name'', ''model_family'', ''workload_class'']"
    by (rule rmap_cong) (auto simp: one_layer_reads)
  then show r: "readable (one_layer_manifest m) = readable m"
    by (simp add: readable_def one_layer_parts one_layer_reads Let_def del: rmap.simps)
  show "readable_policies (one_layer_manifest m) = readable_policies m" "readable_host (one_layer_manifest m) = readable_host m"
    by (simp_all add: readable_policies_def readable_host_def r one_layer_parts)
qed

lemma one_layer_attention:
  assumes "validate_attention_manifest m = Inr u"
  shows "validate_attention_manifest (one_layer_manifest m) = Inr u"
proof -
  obtain x y where g: "g_fields m ATTENTION_MANIFEST_FIELDS = Inr x"
    and p: "m_positive m [''num_layers'', ''num_heads'', ''head_dim'', ''seq_len'', ''score_tile_tokens'', ''context_tile_tokens'',
              ''head_group_size''] = Inr y"
    using assms unfolding validate_attention_manifest_def rbind_Inr_iff by blast
  have "validate_attention_manifest (one_layer_manifest m) = validate_attention_manifest m"
    by (simp add: validate_attention_manifest_def one_layer_reads one_layer_parts g p one_layer_fields[OF g] one_layer_positive[OF p])
  then show ?thesis using assms by simp
qed

lemma one_layer_ffn:
  assumes "validate_ffn_manifest m = Inr u"
  shows "validate_ffn_manifest (one_layer_manifest m) = Inr u"
proof -
  obtain x y where g: "g_fields m FFN_MANIFEST_FIELDS = Inr x"
    and p: "m_positive m [''num_layers'', ''seq_len'', ''hidden_size'', ''ffn_hidden_size'', ''ffn_activation_tile_size''] = Inr y"
    using assms unfolding validate_ffn_manifest_def rbind_Inr_iff by blast
  have "validate_ffn_manifest (one_layer_manifest m) = validate_ffn_manifest m"
    by (simp add: validate_ffn_manifest_def one_layer_reads one_layer_parts g p one_layer_fields[OF g] one_layer_positive[OF p] cong: if_cong)
  then show ?thesis using assms by simp
qed

section \<open>Totality of dense decoders\<close>

lemma ffn_manifest_facts:
  assumes "validate_ffn_manifest m = Inr u" and "readable m = Inr w"
  shows "manifest_fits m"
proof -
  obtain a b where "check_non_claims m = Inr a" "validate_ramulator_defaults m = Inr b"
    using assms(1) unfolding validate_ffn_manifest_def rbind_Inr_iff by blast
  then show ?thesis using assms(2) by (intro fits_manifest)
qed

text \<open>What the checks of a pair of manifests give.\<close>

definition accepted_pair :: "bool \<Rightarrow> dict \<Rightarrow> dict \<Rightarrow> bool" where
  "accepted_pair prefill a f \<longleftrightarrow>
     is_ok (validate_attention_manifest a) \<and> is_ok (validate_ffn_manifest f) \<and>
     is_ok (if prefill then validate_prefill_pair a f else validate_decode_pair a f) \<and>
     (item a ''phase'' = PStr ''prefill'') = prefill \<and> m_int a ''num_layers'' = m_int f ''num_layers'' \<and>
     is_ok (readable_policies a) \<and> is_ok (readable_host a) \<and> is_ok (readable_policies f)"

lemma accepted_parts:
  assumes "accepted_pair prefill a f"
  shows "\<exists>p. dense_parts prefill a f = Inr p \<and> parts_flow p"
proof -
  let ?a = "one_layer_manifest a" and ?f = "one_layer_manifest f"
  have a: "validate_attention_manifest ?a = Inr ()" "readable_policies ?a = Inr ()" "readable_host ?a = Inr ()"
    and f: "validate_ffn_manifest ?f = Inr ()" "readable_policies ?f = Inr ()"
    using assms one_layer_attention one_layer_ffn by (auto simp: accepted_pair_def is_ok_iff one_layer_readable)
  have fits: "manifest_fits ?a" "manifest_fits ?f"
    using attention_manifest_facts(1)[OF a(1)] ffn_manifest_facts[OF f(1)] a(2) f(2) by (auto simp: readable_policies_def rbind_Inr_iff)
  obtain g where g: "attention_head_group_size ?a = Inr g"
    using a(1) unfolding validate_attention_manifest_def rbind_Inr_iff by blast
  then obtain heads kv where heads: "m_int ?a ''num_heads'' = Inr heads" "attention_num_kv_heads ?a = Inr kv"
    by (auto simp: attention_head_group_size_def rbind_Inr_iff)
  have pair: "is_ok (validate_decode_pair a f)"
    using assms by (auto simp: accepted_pair_def validate_prefill_pair_def is_ok_iff rbind_Inr_iff split: if_splits)
  then obtain hs hidden where hd: "m_int ?a ''head_dim'' = Inr hs" "m_int ?a ''hidden_size'' = Inr hidden"
    by (auto simp: validate_decode_pair_def is_ok_iff rbind_Inr_iff one_layer_reads)
  have "\<exists>y. m_positive ?a [''num_layers'', ''num_heads'', ''head_dim'', ''seq_len'', ''score_tile_tokens'', ''context_tile_tokens'',
              ''head_group_size''] = Inr y"
    using a(1) unfolding validate_attention_manifest_def rbind_Inr_iff by blast
  then obtain n where seq: "m_int ?a ''seq_len'' = Inr n" by (auto simp: m_positive_def rbind_Inr_iff)
  have hd': "g_int ''head_dim'' (dgetd ?a ''head_dim'' v) = Inr hs" for v
    using hd(1) by (auto simp: m_int_def g_get_def dgetd_def rbind_Inr_iff split: option.splits)
  obtain cache where cache: "(if prefill then prefill_cache_write_records ?a else kv_cache_write_records ?a) = Inr cache" "list_all flow_record cache"
    using cache_total[OF fits(1) a(3)] hd hd' heads seq
    by (cases prefill) (fastforce simp: prefill_cache_write_records_def kv_cache_write_records_def)+
  have phase: "(item ?a ''phase'' = PStr ''prefill'') = prefill" using assms by (simp add: accepted_pair_def one_layer_reads)
  obtain att where att: "(if prefill then generate_prefill_attention_records ?a else generate_attention_records ?a) = Inr att" "list_all flow_record att"
    using prefill_attention_total[OF a(1,2)] attention_total[OF a(1,2), of "()"] a(3) phase prefill_attention_flow[OF _ fits(1)] attention_flow[OF _ fits(1)]
    by (cases prefill) (auto simp: is_ok_iff)
  obtain ffn where ffn: "generate_ffn_records ?f = Inr ffn" "list_all flow_record ffn"
    using ffn_total[OF f] ffn_flow[OF _ fits(2)] by (auto simp: is_ok_iff)
  obtain qkv where qkv: "qkv_projection_records ?f (Some (heads * hs)) (kv * hs) = Inr qkv" "list_all flow_record qkv"
    using qkv_total[OF fits(2) f(2)] by blast
  obtain out where out: "output_projection_records ?f (Some (heads * hs)) = Inr out" "list_all flow_record out"
    using output_total[OF fits(2) f(2)] by blast
  show ?thesis
    using cache att ffn qkv out by (simp add: dense_parts_def heads hd(1) parts_flow_def del: if_split)
qed

lemma compose_total:
  assumes "parts_flow p" and "manifest_fits a"
  shows "is_ok (compose_layers prefill first_op a n p)"
proof -
  have "list_all good_record (gs_records (foldl (decoder_layer prefill first_op a p) gen_start [0..<nat n]) @
      fst (renumber_records [drain_record rid l a] k))" for rid l k
    using dense_trace_good[of n p prefill first_op a] assms renumbered_good[of "[drain_record rid l a]" k] by (simp add: drain_good)
  from validate_all_ok[OF this] show ?thesis by (simp add: compose_layers_def Let_def case_prod_beta)
qed

lemma dense_records_total:
  assumes "accepted_pair prefill a f"
  shows "is_ok (dense_records prefill a f)"
proof -
  obtain p where p: "dense_parts prefill a f = Inr p" "parts_flow p" using accepted_parts[OF assms] by blast
  have "\<exists>y. m_positive a [''num_layers'', ''num_heads'', ''head_dim'', ''seq_len'', ''score_tile_tokens'', ''context_tile_tokens'',
              ''head_group_size''] = Inr y"
    using assms unfolding accepted_pair_def is_ok_iff validate_attention_manifest_def rbind_Inr_iff by blast
  then obtain n where n: "m_int a ''num_layers'' = Inr n" "0 < n" by (auto simp: m_positive_def rbind_Inr_iff)
  then have fn: "m_int f ''num_layers'' = Inr n" and "readable a = Inr ()"
    using assms by (auto simp: accepted_pair_def readable_policies_def is_ok_iff rbind_Inr_iff)
  moreover have "manifest_fits a"
    using assms attention_manifest_facts(1)[OF _ \<open>readable a = Inr ()\<close>] by (auto simp: accepted_pair_def is_ok_iff)
  ultimately show ?thesis
    using n p compose_total[OF p(2)] by (simp add: dense_records_def require_def)
qed

end
