(* ===== verification/Surrogate_Specs.thy ===== *)
theory Surrogate_Specs
  imports Surrogate_Total
begin

text \<open>
  The manifests built from a model specification: what each of their fields holds, that the checks
  accept them for every supported specification, and that the generators then succeed.
\<close>

section \<open>Fields of the manifests\<close>

definition supported_spec :: "model_spec \<Rightarrow> bool" where
  "supported_spec s \<longleftrightarrow>
     0 < spec_num_layers s \<and> 0 < spec_hidden_size s \<and> 0 < spec_head_dim s \<and> 0 < spec_ffn_hidden_size s \<and>
     0 < spec_num_heads s \<and> 0 < spec_num_kv_heads s \<and> spec_num_heads s mod spec_num_kv_heads s = 0 \<and>
     spec_datatype s \<in> set SUPPORTED_ATTENTION_DATATYPES \<and>
     ((spec_ffn_variant s, spec_activation s) \<in> {(FFN_VARIANT_RELU_2PROJ, ''relu''), (FFN_VARIANT_GEGLU_3PROJ, ''gelu''),
        (FFN_VARIANT_GEGLU_3PROJ, ''gelu_pytorch_tanh'')} \<or>
      spec_ffn_variant s = FFN_VARIANT_SWIGLU_3PROJ \<and> spec_activation s \<noteq> ''relu'')"

named_theorems manifest_fields

text \<open>The defaults and the mapping policy that all manifests of a specification carry.\<close>

definition spec_defaults :: "pyval list \<Rightarrow> dict" where
  "spec_defaults banks =
     [(''bank_sequence'', PList banks), (''bank_sequence_order'', PStr ''frontend''),
      (''pim_banks_per_block'', PInt 1), (''burst_length'', PInt 1), (''row_start'', PInt 0), (''row_count'', PInt 16),
      (''dependency_count'', PInt 8), (''column_start'', PInt 0)]"

text \<open>A manifest has its defaults, claims and anchors, and the fields of a list.\<close>

definition carries :: "dict \<Rightarrow> string list \<Rightarrow> bool" where
  "carries m claims \<longleftrightarrow>
     (\<exists>banks. dget m ''ramulator_visible_defaults'' = Some (PDict (spec_defaults banks)) \<and> banks \<noteq> []) \<and> dget m ''non_claims'' = Some (p_strs claims) \<and>
     (\<exists>d. dget m ''mapping_policy'' = Some (PDict d)) \<and> (\<exists>xs. dget m ''literature_anchors'' = Some (PList xs))"

lemma attention_lookups [manifest_fields]:
  fixes s p pol
  defines "m \<equiv> decoder_attention_manifest s p pol"
  shows "dget m ''phase'' = Some (PStr ''decode'')" "dget m ''schedule_policy'' = Some (PStr pol)"
    "dget m ''num_layers'' = Some (PInt (spec_num_layers s))" "dget m ''num_heads'' = Some (PInt (spec_num_heads s))"
    "dget m ''num_kv_heads'' = Some (PInt (spec_num_kv_heads s))" "dget m ''head_dim'' = Some (PInt (spec_head_dim s))"
    "dget m ''kv_heads'' = None" "dget m ''hidden_size'' = Some (PInt (spec_hidden_size s))"
    "dget m ''past_len'' = Some (PInt p)" "dget m ''seq_len'' = Some (PInt 1)"
    "dget m ''datatype'' = Some (PStr (spec_datatype s))"
    "dget m ''score_tile_tokens'' = Some (PInt (min 256 p))" "dget m ''context_tile_tokens'' = Some (PInt (min 256 p))"
    "dget m ''head_group_size'' = Some (PInt (spec_num_heads s div spec_num_kv_heads s))"
  by (simp_all add: m_def decoder_attention_manifest_def Let_def)

lemma attention_carries: "carries (decoder_attention_manifest s p pol) REQUIRED_P4_NON_CLAIMS"
  by (simp add: carries_def decoder_attention_manifest_def spec_defaults_def Let_def p_strs_def DENSE_PIM_BANK_SEQUENCE_def)

lemma attention_has: "list_all (has (decoder_attention_manifest s p pol)) (''hidden_size'' # ATTENTION_MANIFEST_FIELDS)"
  by (simp add: has_def decoder_attention_manifest_def Let_def ATTENTION_MANIFEST_FIELDS_def)

lemma ffn_lookups [manifest_fields]:
  fixes s pol
  defines "m \<equiv> decoder_ffn_manifest s pol"
  shows "dget m ''phase'' = Some (PStr ''decode'')" "dget m ''schedule_policy'' = Some (PStr pol)"
    "dget m ''num_layers'' = Some (PInt (spec_num_layers s))" "dget m ''seq_len'' = Some (PInt 1)"
    "dget m ''hidden_size'' = Some (PInt (spec_hidden_size s))" "dget m ''ffn_hidden_size'' = Some (PInt (spec_ffn_hidden_size s))"
    "dget m ''ffn_activation_tile_size'' = Some (PInt (spec_hidden_size s))"
    "dget m ''activation_distribution_policy'' = Some (PStr ''broadcast'')"
    "dget m ''ffn_variant'' = Some (PStr (spec_ffn_variant s))" "dget m ''activation'' = Some (PStr (spec_activation s))"
    "dget m ''datatype'' = Some (PStr (spec_datatype s))"
  by (simp_all add: m_def decoder_ffn_manifest_def Let_def)

lemma ffn_carries: "carries (decoder_ffn_manifest s pol) REQUIRED_P4_NON_CLAIMS"
  by (simp add: carries_def decoder_ffn_manifest_def spec_defaults_def Let_def p_strs_def DENSE_PIM_BANK_SEQUENCE_def)

lemma ffn_has: "list_all (has (decoder_ffn_manifest s pol)) FFN_MANIFEST_FIELDS"
  by (simp add: has_def decoder_ffn_manifest_def Let_def FFN_MANIFEST_FIELDS_def)

section \<open>The checks of the defaults\<close>

lemma spec_default_lookups:
  "dget (spec_defaults banks) ''bank_sequence'' = Some (PList banks)"
  "dget (spec_defaults banks) ''pim_banks_per_block'' = Some (PInt 1)" "dget (spec_defaults banks) ''burst_length'' = Some (PInt 1)"
  "dget (spec_defaults banks) ''row_start'' = Some (PInt 0)" "dget (spec_defaults banks) ''row_count'' = Some (PInt 16)"
  "dget (spec_defaults banks) ''dependency_count'' = Some (PInt 8)" "dget (spec_defaults banks) ''column_start'' = Some (PInt 0)"
  "dget (spec_defaults banks) ''tx_bytes'' = None"
  by (simp_all add: spec_defaults_def)

lemma spec_defaults_ok:
  assumes "carries m claims"
  shows "validate_ramulator_defaults m = Inr ()"
proof -
  obtain banks where "dget m ''ramulator_visible_defaults'' = Some (PDict (spec_defaults banks))" "banks \<noteq> []"
    using assms by (auto simp: carries_def)
  then show ?thesis
    by (simp add: validate_ramulator_defaults_def g_get_def g_dict_def spec_default_lookups g_fields_def has_def require_def
        dgetd_def m_positive_def m_int_def g_int_def)
qed

lemma spec_readable:
  assumes "carries m claims" and "list_all (has m) [''phase'', ''manifest_name'', ''model_family'', ''workload_class'']"
  shows "readable_policies m = Inr ()" and "readable_host m = Inr ()"
proof -
  obtain banks d xs v1 v2 v3 v4 where m: "dget m ''ramulator_visible_defaults'' = Some (PDict (spec_defaults banks))"
    "dget m ''non_claims'' = Some (p_strs claims)" "dget m ''mapping_policy'' = Some (PDict d)"
    "dget m ''literature_anchors'' = Some (PList xs)" "dget m ''phase'' = Some v1" "dget m ''manifest_name'' = Some v2"
    "dget m ''model_family'' = Some v3" "dget m ''workload_class'' = Some v4"
    using assms by (auto simp: carries_def has_def)
  have defaults: "defaults_of m = spec_defaults banks" by (simp add: defaults_of_def dgetd_def m)
  have "readable m = Inr ()"
    by (simp add: readable_def defaults Let_def g_get_def g_list_def g_dict_def g_int_def m_int_def dgetd_def m spec_default_lookups
        p_strs_def)
  then show "readable_policies m = Inr ()" and "readable_host m = Inr ()"
    by (simp_all add: readable_policies_def readable_host_def defaults m_int_def g_get_def g_int_def dgetd_def spec_default_lookups
        require_def)
qed

section \<open>Acceptance\<close>

lemma fields_present: "list_all (has m) fs \<Longrightarrow> g_fields m fs = Inr ()"
proof (induction fs)
  case Nil
  then show ?case by (simp add: g_fields_def)
next
  case (Cons f fs)
  then show ?case by (auto simp: g_fields_def require_def rbind_Inr_iff)
qed

lemma claims_accepted:
  assumes "dget m ''non_claims'' = Some (p_strs (if item m ''phase'' = PStr ''prefill'' then prefill_non_claims else REQUIRED_P4_NON_CLAIMS))"
  shows "check_non_claims m = Inr ()"
  using assms by (auto simp: check_non_claims_def g_list_def dgetd_def p_strs_def require_def list_all_iff)

lemma supported_heads:
  assumes "supported_spec s"
  shows "spec_num_kv_heads s \<le> spec_num_heads s" and "0 < spec_num_heads s div spec_num_kv_heads s"
proof -
  have "spec_num_kv_heads s dvd spec_num_heads s" and pos: "0 < spec_num_heads s" "0 < spec_num_kv_heads s"
    using assms by (auto simp: supported_spec_def)
  then show le: "spec_num_kv_heads s \<le> spec_num_heads s" by (simp add: zdvd_imp_le)
  then show "0 < spec_num_heads s div spec_num_kv_heads s" using pos by (simp add: pos_imp_zdiv_pos_iff)
qed

lemmas manifest_reads = m_int_def g_get_def g_int_def dgetd_def has_def m_one_of_def g_member_def m_positive_def require_def

lemma attention_accepted:
  assumes "supported_spec s" and "0 < p"
  shows "validate_attention_manifest (decoder_attention_manifest s p ''serialized'') = Inr ()"
proof -
  let ?m = "decoder_attention_manifest s p ''serialized''"
  note spec = assms(1)[unfolded supported_spec_def]
  have fields: "g_fields ?m ATTENTION_MANIFEST_FIELDS = Inr ()" using attention_has[of s p] by (simp add: fields_present)
  have claims: "check_non_claims ?m = Inr ()"
    using attention_carries[of s p] by (intro claims_accepted) (simp add: carries_def dgetd_def manifest_fields)
  have heads: "attention_head_group_size ?m = Inr (spec_num_heads s div spec_num_kv_heads s)"
    using spec supported_heads[OF assms(1)]
    by (simp add: attention_head_group_size_def attention_num_kv_heads_def manifest_reads manifest_fields)
  show ?thesis
    using assms(2) spec supported_heads[OF assms(1)]
    by (simp add: validate_attention_manifest_def fields claims heads spec_defaults_ok[OF attention_carries] manifest_reads manifest_fields)
qed

lemma ffn_accepted:
  assumes "supported_spec s"
  shows "validate_ffn_manifest (decoder_ffn_manifest s ''serialized'') = Inr ()"
proof -
  let ?m = "decoder_ffn_manifest s ''serialized''"
  note spec = assms(1)[unfolded supported_spec_def]
  have fields: "g_fields ?m FFN_MANIFEST_FIELDS = Inr ()" using ffn_has[of s] by (simp add: fields_present)
  have claims: "check_non_claims ?m = Inr ()"
    using ffn_carries[of s] by (intro claims_accepted) (simp add: carries_def dgetd_def manifest_fields)
  have activation: "check_ffn_activation ?m = Inr ()"
    using spec
    by (auto simp: check_ffn_activation_def ffn_variant_def manifest_reads manifest_fields SUPPORTED_GENERATOR_VARIANTS_def
        FFN_VARIANT_RELU_2PROJ_def FFN_VARIANT_GEGLU_3PROJ_def FFN_VARIANT_SWIGLU_3PROJ_def)
  show ?thesis
    using spec
    by (simp add: validate_ffn_manifest_def fields claims activation spec_defaults_ok[OF ffn_carries] manifest_reads manifest_fields
        SUPPORTED_DISTRIBUTION_POLICIES_def)
qed

lemma ffn_manifest_readable: "readable_policies (decoder_ffn_manifest s pol) = Inr ()"
  using spec_readable[OF ffn_carries, of s pol] ffn_has[of s pol] by (simp add: FFN_MANIFEST_FIELDS_def)

lemma decode_pair_accepted:
  assumes "supported_spec s" and "0 < p"
  shows "accepted_pair False (decoder_attention_manifest s p ''serialized'') (decoder_ffn_manifest s ''serialized'')"
proof -
  let ?a = "decoder_attention_manifest s p ''serialized''" and ?f = "decoder_ffn_manifest s ''serialized''"
  have "readable_policies ?a = Inr ()" "readable_host ?a = Inr ()" "readable_policies ?f = Inr ()"
    using spec_readable[OF attention_carries] spec_readable[OF ffn_carries] attention_has[of s p] ffn_has[of s]
    by (simp_all add: ATTENTION_MANIFEST_FIELDS_def FFN_MANIFEST_FIELDS_def)
  moreover have "validate_decode_pair ?a ?f = Inr ()"
    using assms(1)[unfolded supported_spec_def] supported_heads[OF assms(1)]
    by (simp add: validate_decode_pair_def attention_head_group_size_def attention_num_kv_heads_def manifest_reads manifest_fields)
  ultimately show ?thesis
    using attention_accepted[OF assms] ffn_accepted[OF assms(1)]
    by (simp add: accepted_pair_def is_ok_def dgetd_def m_int_def g_get_def manifest_fields)
qed

section \<open>Prefill\<close>

definition prefill_attention :: "model_spec \<Rightarrow> int \<Rightarrow> dict" where
  "prefill_attention s n = dupdate (decoder_attention_manifest s n ''serialized'')
     [(''manifest_name'', PStr (model_slug s @ ''_'' @ dec (spec_num_layers s) @ ''_layer_attention_prefill_P'' @ dec n)),
      (''phase'', PStr ''prefill''), (''model_family'', PStr (spec_name s @ '' dense prefill attention slice'')),
      (''prompt_len'', PInt n), (''past_len'', PInt 0), (''seq_len'', PInt n),
      (''score_tile_tokens'', PInt (min 256 n)), (''context_tile_tokens'', PInt (min 256 n)),
      (''attention_mode'', PStr ''causal_prefill''), (''prefill_only'', PBool True),
      (''residency_policy'', PDict
        [(''k_v_operand_source'', PStr ''layer_local_projection_no_host_kv_read''),
         (''kv_cache_population'', PStr ''HostWrite persists projected K/V for later decode''),
         (''prefill_attention_reads'', PStr ''semantic PIMOperandResidency from same-layer Q/K/V projections; no HostRead KV-cache tiles'')]),
      (''non_claims'', p_strs prefill_non_claims)]"

definition prefill_ffn :: "model_spec \<Rightarrow> int \<Rightarrow> dict" where
  "prefill_ffn s n = dupdate (decoder_ffn_manifest s ''serialized'')
     [(''manifest_name'', PStr (model_slug s @ ''_'' @ dec (spec_num_layers s) @ ''_layer_ffn_prefill_P'' @ dec n)),
      (''phase'', PStr ''prefill''), (''model_family'', PStr (spec_name s @ '' dense prefill FFN/'' @ ffn_family_label s @ '' slice'')),
      (''prompt_len'', PInt n), (''seq_len'', PInt n), (''prefill_only'', PBool True), (''non_claims'', p_strs prefill_non_claims)]"

lemma prefill_manifests:
  "0 < n \<Longrightarrow> dense_prefill_manifests s n ''serialized'' = Inr (prefill_attention s n, prefill_ffn s n)"
  by (simp add: dense_prefill_manifests_def prefill_attention_manifest_def prefill_ffn_manifest_def prefill_attention_def
      prefill_ffn_def Let_def)

lemma prefill_attention_lookups [manifest_fields]:
  fixes s n
  defines "m \<equiv> prefill_attention s n"
  shows "dget m ''phase'' = Some (PStr ''prefill'')" "dget m ''schedule_policy'' = Some (PStr ''serialized'')"
    "dget m ''num_layers'' = Some (PInt (spec_num_layers s))" "dget m ''num_heads'' = Some (PInt (spec_num_heads s))"
    "dget m ''num_kv_heads'' = Some (PInt (spec_num_kv_heads s))" "dget m ''head_dim'' = Some (PInt (spec_head_dim s))"
    "dget m ''kv_heads'' = None" "dget m ''hidden_size'' = Some (PInt (spec_hidden_size s))"
    "dget m ''past_len'' = Some (PInt 0)" "dget m ''seq_len'' = Some (PInt n)" "dget m ''prompt_len'' = Some (PInt n)"
    "dget m ''datatype'' = Some (PStr (spec_datatype s))" "dget m ''attention_mode'' = Some (PStr ''causal_prefill'')"
    "dget m ''score_tile_tokens'' = Some (PInt (min 256 n))" "dget m ''context_tile_tokens'' = Some (PInt (min 256 n))"
    "dget m ''head_group_size'' = Some (PInt (spec_num_heads s div spec_num_kv_heads s))" "dget m ''prefill_only'' = Some (PBool True)"
  by (simp_all add: m_def prefill_attention_def dget_dupdate manifest_fields)

lemma prefill_ffn_lookups [manifest_fields]:
  fixes s n
  defines "m \<equiv> prefill_ffn s n"
  shows "dget m ''phase'' = Some (PStr ''prefill'')" "dget m ''schedule_policy'' = Some (PStr ''serialized'')"
    "dget m ''num_layers'' = Some (PInt (spec_num_layers s))" "dget m ''seq_len'' = Some (PInt n)" "dget m ''prompt_len'' = Some (PInt n)"
    "dget m ''hidden_size'' = Some (PInt (spec_hidden_size s))" "dget m ''ffn_hidden_size'' = Some (PInt (spec_ffn_hidden_size s))"
    "dget m ''ffn_activation_tile_size'' = Some (PInt (spec_hidden_size s))"
    "dget m ''activation_distribution_policy'' = Some (PStr ''broadcast'')"
    "dget m ''ffn_variant'' = Some (PStr (spec_ffn_variant s))" "dget m ''activation'' = Some (PStr (spec_activation s))"
    "dget m ''datatype'' = Some (PStr (spec_datatype s))" "dget m ''prefill_only'' = Some (PBool True)"
  by (simp_all add: m_def prefill_ffn_def dget_dupdate manifest_fields)

lemma prefill_carries: "carries (prefill_attention s n) prefill_non_claims" "carries (prefill_ffn s n) prefill_non_claims"
  using attention_carries[of s n "''serialized''"] ffn_carries[of s "''serialized''"]
  by (simp_all add: carries_def prefill_attention_def prefill_ffn_def dget_dupdate)

lemma has_dupdate: "has d f \<Longrightarrow> has (dupdate d kvs) f"
proof (induction kvs arbitrary: d)
  case (Cons kv kvs)
  then show ?case by (cases kv) (auto simp: dupdate_Cons has_def dget_dset)
qed simp

lemma prefill_has:
  "list_all (has (prefill_attention s n)) (''hidden_size'' # ATTENTION_MANIFEST_FIELDS)"
  "list_all (has (prefill_ffn s n)) FFN_MANIFEST_FIELDS"
  using attention_has[of s n "''serialized''"] ffn_has[of s "''serialized''"] has_dupdate
  by (auto simp: prefill_attention_def prefill_ffn_def list_all_iff)

lemma prefill_claims:
  "check_non_claims (prefill_attention s n) = Inr ()" "check_non_claims (prefill_ffn s n) = Inr ()"
  using prefill_carries[of s n] by (auto intro!: claims_accepted simp: carries_def dgetd_def manifest_fields)

lemma prefill_attention_accepted:
  assumes "supported_spec s" and "0 < n"
  shows "validate_attention_manifest (prefill_attention s n) = Inr ()"
proof -
  let ?m = "prefill_attention s n"
  note spec = assms(1)[unfolded supported_spec_def]
  have fields: "g_fields ?m ATTENTION_MANIFEST_FIELDS = Inr ()" using prefill_has(1)[of s n] by (simp add: fields_present)
  have heads: "attention_head_group_size ?m = Inr (spec_num_heads s div spec_num_kv_heads s)"
    using spec supported_heads[OF assms(1)]
    by (simp add: attention_head_group_size_def attention_num_kv_heads_def manifest_reads manifest_fields)
  have "check_prefill_attention ?m = Inr ()"
    by (simp add: check_prefill_attention_def manifest_reads manifest_fields)
  then show ?thesis
    using assms(2) spec supported_heads[OF assms(1)]
    by (simp add: validate_attention_manifest_def fields prefill_claims heads spec_defaults_ok[OF prefill_carries(1)] manifest_reads manifest_fields)
qed

lemma prefill_ffn_accepted:
  assumes "supported_spec s" and "0 < n"
  shows "validate_ffn_manifest (prefill_ffn s n) = Inr ()"
proof -
  let ?m = "prefill_ffn s n"
  note spec = assms(1)[unfolded supported_spec_def]
  have fields: "g_fields ?m FFN_MANIFEST_FIELDS = Inr ()" using prefill_has(2)[of s n] by (simp add: fields_present)
  have activation: "check_ffn_activation ?m = Inr ()"
    using spec
    by (auto simp: check_ffn_activation_def ffn_variant_def manifest_reads manifest_fields SUPPORTED_GENERATOR_VARIANTS_def
        FFN_VARIANT_RELU_2PROJ_def FFN_VARIANT_GEGLU_3PROJ_def FFN_VARIANT_SWIGLU_3PROJ_def)
  show ?thesis
    using spec assms(2)
    by (simp add: validate_ffn_manifest_def fields prefill_claims activation spec_defaults_ok[OF prefill_carries(2)] manifest_reads
        manifest_fields SUPPORTED_DISTRIBUTION_POLICIES_def)
qed

lemma prefill_pair_accepted:
  assumes "supported_spec s" and "0 < n"
  shows "accepted_pair True (prefill_attention s n) (prefill_ffn s n)"
proof -
  let ?a = "prefill_attention s n" and ?f = "prefill_ffn s n"
  have "readable_policies ?a = Inr ()" "readable_host ?a = Inr ()" "readable_policies ?f = Inr ()"
    using spec_readable[OF prefill_carries(1)] spec_readable[OF prefill_carries(2)] prefill_has[of s n]
    by (simp_all add: ATTENTION_MANIFEST_FIELDS_def FFN_MANIFEST_FIELDS_def)
  moreover have "validate_decode_pair ?a ?f = Inr ()"
    using assms(1)[unfolded supported_spec_def] supported_heads[OF assms(1)]
    by (simp add: validate_decode_pair_def attention_head_group_size_def attention_num_kv_heads_def manifest_reads manifest_fields)
  then have "validate_prefill_pair ?a ?f = Inr ()"
    using prefill_attention_accepted[OF assms] prefill_ffn_accepted[OF assms]
    by (simp add: validate_prefill_pair_def manifest_reads manifest_fields)
  ultimately show ?thesis
    using prefill_attention_accepted[OF assms] prefill_ffn_accepted[OF assms]
    by (simp add: accepted_pair_def is_ok_def dgetd_def m_int_def g_get_def manifest_fields)
qed

section \<open>Registered specifications\<close>

lemmas dimension_values =
  LLAMA2_7B_NUM_LAYERS_def LLAMA2_7B_NUM_HEADS_def LLAMA2_7B_HEAD_DIM_def LLAMA2_7B_HIDDEN_SIZE_def LLAMA2_7B_FFN_HIDDEN_SIZE_def
  LLAMA2_13B_NUM_LAYERS_def LLAMA2_13B_NUM_HEADS_def LLAMA2_13B_HEAD_DIM_def LLAMA2_13B_HIDDEN_SIZE_def LLAMA2_13B_FFN_HIDDEN_SIZE_def
  LLAMA2_70B_NUM_LAYERS_def LLAMA2_70B_NUM_HEADS_def LLAMA2_70B_NUM_KV_HEADS_def LLAMA2_70B_HEAD_DIM_def LLAMA2_70B_HIDDEN_SIZE_def
  LLAMA2_70B_FFN_HIDDEN_SIZE_def OPT_125M_NUM_LAYERS_def OPT_125M_HIDDEN_SIZE_def OPT_125M_NUM_HEADS_def OPT_125M_HEAD_DIM_def
  OPT_125M_FFN_HIDDEN_SIZE_def OPT_350M_NUM_LAYERS_def OPT_350M_HIDDEN_SIZE_def OPT_350M_NUM_HEADS_def OPT_350M_HEAD_DIM_def
  OPT_350M_FFN_HIDDEN_SIZE_def OPT_1_3B_NUM_LAYERS_def OPT_1_3B_HIDDEN_SIZE_def OPT_1_3B_NUM_HEADS_def OPT_1_3B_HEAD_DIM_def
  OPT_1_3B_FFN_HIDDEN_SIZE_def QWEN25_7B_NUM_LAYERS_def QWEN25_7B_HIDDEN_SIZE_def QWEN25_7B_NUM_HEADS_def QWEN25_7B_NUM_KV_HEADS_def
  QWEN25_7B_HEAD_DIM_def QWEN25_7B_FFN_HIDDEN_SIZE_def QWEN25_14B_NUM_LAYERS_def QWEN25_14B_HIDDEN_SIZE_def QWEN25_14B_NUM_HEADS_def
  QWEN25_14B_NUM_KV_HEADS_def QWEN25_14B_HEAD_DIM_def QWEN25_14B_FFN_HIDDEN_SIZE_def QWEN25_32B_NUM_LAYERS_def
  QWEN25_32B_HIDDEN_SIZE_def QWEN25_32B_NUM_HEADS_def QWEN25_32B_NUM_KV_HEADS_def QWEN25_32B_HEAD_DIM_def
  QWEN25_32B_FFN_HIDDEN_SIZE_def QWEN25_72B_NUM_LAYERS_def QWEN25_72B_HIDDEN_SIZE_def QWEN25_72B_NUM_HEADS_def
  QWEN25_72B_NUM_KV_HEADS_def QWEN25_72B_HEAD_DIM_def QWEN25_72B_FFN_HIDDEN_SIZE_def GEMMA_2B_NUM_LAYERS_def GEMMA_2B_HIDDEN_SIZE_def
  GEMMA_2B_NUM_HEADS_def GEMMA_2B_NUM_KV_HEADS_def GEMMA_2B_HEAD_DIM_def GEMMA_2B_FFN_HIDDEN_SIZE_def GEMMA_7B_NUM_LAYERS_def
  GEMMA_7B_HIDDEN_SIZE_def GEMMA_7B_NUM_HEADS_def GEMMA_7B_NUM_KV_HEADS_def GEMMA_7B_HEAD_DIM_def GEMMA_7B_FFN_HIDDEN_SIZE_def
  GEMMA2_9B_NUM_LAYERS_def GEMMA2_9B_HIDDEN_SIZE_def GEMMA2_9B_NUM_HEADS_def GEMMA2_9B_NUM_KV_HEADS_def GEMMA2_9B_HEAD_DIM_def
  GEMMA2_9B_FFN_HIDDEN_SIZE_def GEMMA2_27B_NUM_LAYERS_def GEMMA2_27B_HIDDEN_SIZE_def GEMMA2_27B_NUM_HEADS_def
  GEMMA2_27B_NUM_KV_HEADS_def GEMMA2_27B_HEAD_DIM_def GEMMA2_27B_FFN_HIDDEN_SIZE_def

lemmas spec_values = supported_spec_def SUPPORTED_ATTENTION_DATATYPES_def dimension_values

lemma models_supported:
  "supported_spec LLAMA2_7B_MODEL_SPEC"
  "supported_spec LLAMA2_13B_MODEL_SPEC"
  "supported_spec LLAMA2_70B_MODEL_SPEC"
  "supported_spec QWEN25_7B_MODEL_SPEC"
  "supported_spec QWEN25_14B_MODEL_SPEC"
  "supported_spec QWEN25_32B_MODEL_SPEC"
  "supported_spec QWEN25_72B_MODEL_SPEC"
  "supported_spec GEMMA_2B_MODEL_SPEC"
  "supported_spec GEMMA_7B_MODEL_SPEC"
  "supported_spec GEMMA2_9B_MODEL_SPEC"
  "supported_spec GEMMA2_27B_MODEL_SPEC"
  "supported_spec OPT_125M_MODEL_SPEC"
  "supported_spec OPT_350M_MODEL_SPEC"
  "supported_spec OPT_1_3B_MODEL_SPEC"
  by (simp_all add: spec_values LLAMA2_7B_MODEL_SPEC_def LLAMA2_13B_MODEL_SPEC_def LLAMA2_70B_MODEL_SPEC_def QWEN25_7B_MODEL_SPEC_def
      QWEN25_14B_MODEL_SPEC_def QWEN25_32B_MODEL_SPEC_def QWEN25_72B_MODEL_SPEC_def GEMMA_2B_MODEL_SPEC_def
      GEMMA_7B_MODEL_SPEC_def GEMMA2_9B_MODEL_SPEC_def GEMMA2_27B_MODEL_SPEC_def OPT_125M_MODEL_SPEC_def
      OPT_350M_MODEL_SPEC_def OPT_1_3B_MODEL_SPEC_def)

lemma registered_supported:
  assumes "dget MODEL_REGISTRY name = Some s"
  shows "supported_spec s"
proof -
  have "s \<in> set (map snd MODEL_REGISTRY)" using map_of_SomeD[OF assms] by force
  then show ?thesis unfolding MODEL_REGISTRY_def list.map snd_conv set_simps using models_supported by blast
qed

section \<open>Totality\<close>

lemma decode_spec_total:
  assumes "supported_spec s" and "0 < (case past of None \<Rightarrow> LLAMA2_7B_DEFAULT_PAST_LEN | Some n \<Rightarrow> n)"
  shows "is_ok (dense_decoder_records_from_spec s past ''serialized'')"
proof -
  let ?p = "case past of None \<Rightarrow> LLAMA2_7B_DEFAULT_PAST_LEN | Some n \<Rightarrow> n"
  let ?a = "decoder_attention_manifest s ?p ''serialized''" and ?f = "decoder_ffn_manifest s ''serialized''"
  have pair: "accepted_pair False ?a ?f" by (rule decode_pair_accepted[OF assms])
  then have "validate_decode_pair ?a ?f = Inr ()" by (simp add: accepted_pair_def is_ok_iff)
  then show ?thesis
    using dense_records_total[OF pair]
    by (simp add: dense_decoder_records_from_spec_def dense_decoder_manifests_def generate_dense_transformer_layer_records_def)
qed

lemma prefill_spec_total:
  assumes "supported_spec s" and "0 < n"
  shows "is_ok (dense_prefill_records_from_spec s n ''serialized'')"
proof -
  have pair: "accepted_pair True (prefill_attention s n) (prefill_ffn s n)" by (rule prefill_pair_accepted[OF assms])
  then have "validate_prefill_pair (prefill_attention s n) (prefill_ffn s n) = Inr ()" by (simp add: accepted_pair_def is_ok_iff)
  then show ?thesis
    using dense_records_total[OF pair] assms(2)
    by (simp add: dense_prefill_records_from_spec_def prefill_manifests generate_dense_prefill_transformer_layer_records_def)
qed

section \<open>Consequences of the order of a trace\<close>

lemma dense_trace_ordered:
  assumes "generate_dense_transformer_layer_records a f = Inr rs \<or> generate_dense_prefill_transformer_layer_records a f = Inr rs"
  shows "topological rs"
  using assms dense_records_topological
  by (auto simp: generate_dense_transformer_layer_records_def generate_dense_prefill_transformer_layer_records_def rbind_Inr_iff)

text \<open>The first record that is not executed is ready.\<close>

lemma topological_progress:
  assumes "topological rs" and "\<not> ids_of rs \<subseteq> executed"
  shows "\<exists>r \<in> set rs. record_id_of r \<notin> executed \<and> set (deps_of r) \<subseteq> executed"
proof -
  have "\<exists>i < length rs. record_id_of (rs ! i) \<notin> executed" using assms(2) by (auto simp: ids_of_def in_set_conv_nth)
  then obtain i where i: "i < length rs" "record_id_of (rs ! i) \<notin> executed"
    and least: "\<And>j. j < i \<Longrightarrow> j < length rs \<Longrightarrow> record_id_of (rs ! j) \<in> executed"
    using exists_least_iff[of "\<lambda>i. i < length rs \<and> record_id_of (rs ! i) \<notin> executed"] by blast
  have "set (deps_of (rs ! i)) \<subseteq> ids_of (take i rs)" using assms(1) i(1) by (simp add: topological_iff)
  also have "\<dots> \<subseteq> executed" using least i(1) by (auto simp: ids_of_def in_set_conv_nth)
  finally show ?thesis using i by (intro bexI[of _ "rs ! i"]) simp_all
qed

section \<open>Addresses of the layers\<close>

definition base_byte_of :: "dict \<Rightarrow> int option" where
  "base_byte_of r = (case item (sub_of r ''address_policy'') ''base_byte'' of PInt i \<Rightarrow> Some i | _ \<Rightarrow> None)"

lemma base_byte_other: "f \<noteq> ''address_policy'' \<Longrightarrow> base_byte_of (dset f v r) = base_byte_of r"
  by (simp add: base_byte_of_def sub_of_def dgetd_def dget_dset)

lemma base_byte_retargeted: "base_byte_of (map (\<lambda>kv. (fst kv, retarget_value layer (snd kv))) r) = base_byte_of r"
proof (cases "item r ''address_policy''")
  case (PDict d)
  then show ?thesis
    by (cases "item d ''base_byte''") (simp_all add: base_byte_of_def sub_of_def item_retargeted)
qed (simp_all add: base_byte_of_def sub_of_def item_retargeted)

lemma base_byte_retarget: "base_byte_of (retarget_record layer r) = base_byte_of r"
  by (simp add: retarget_record_def put_in_def base_byte_other base_byte_retargeted)

lemma placed_base_bytes: "map base_byte_of (fst (place_part layer rs n)) = map base_byte_of rs"
  by (simp add: place_part_def renumber_records_def Let_def o_def base_byte_retarget set_deps_def base_byte_other)

end
