(* ===== verification/Surrogate_Moe_Facts.thy ===== *)
theory Surrogate_Moe_Facts
  imports Surrogate_Moe Surrogate_Specs
begin

text \<open>
  The records of the mixture of experts: the heads of its builders, and the invariant of the
  generators for the router, an expert and a layer.
\<close>

section \<open>Fields of the builders\<close>

lemma moe_policies_disjoint: "set head_keys \<inter> set (dkeys (moe_policies m layer s e)) = {}"
  by (simp add: moe_policies_def Let_def policy_keys head_keys_def del: set_map list.set_map)

lemmas moe_head_rules = head_of_built head_of_extended[OF moe_policies_disjoint]

lemma moe_data_move_head [record_heads]:
  "record_id_of (moe_data_move_record rid layer m op stage ins outs deps role res reuse e n) = rid"
  "kind_of (moe_data_move_record rid layer m op stage ins outs deps role res reuse e n) = ''PIMDataMove''"
  "op_of (moe_data_move_record rid layer m op stage ins outs deps role res reuse e n) = op"
  "deps_of (moe_data_move_record rid layer m op stage ins outs deps role res reuse e n) = deps"
  unfolding moe_data_move_record_def Let_def by (simp_all only: moe_head_rules) (simp_all add: moe_head_rules head_keys_def)

lemma moe_compute_head [record_heads]:
  "record_id_of (moe_compute_record rid kind layer m op stage ins outs deps e p) = rid"
  "kind_of (moe_compute_record rid kind layer m op stage ins outs deps e p) = kind"
  "op_of (moe_compute_record rid kind layer m op stage ins outs deps e p) = op"
  "deps_of (moe_compute_record rid kind layer m op stage ins outs deps e p) = deps"
  unfolding moe_compute_record_def Let_def case_prod_beta by (simp_all only: moe_head_rules) (simp_all add: moe_head_rules head_keys_def)

lemma moe_accounting_head [record_heads]:
  "record_id_of (moe_accounting_record rid kind layer m op stage ins outs deps k) = rid"
  "kind_of (moe_accounting_record rid kind layer m op stage ins outs deps k) = kind"
  "op_of (moe_accounting_record rid kind layer m op stage ins outs deps k) = op"
  "deps_of (moe_accounting_record rid kind layer m op stage ins outs deps k) = deps"
  unfolding moe_accounting_record_def Let_def by (simp_all add: head_of_built head_keys_def)

text \<open>The number in the name of an expert may have zeros, but nothing before it can match a layer.\<close>

lemma dec_chars: "c \<in> set (dec i) \<Longrightarrow> is_digit c \<or> c = CHR ''-''"
  using digits_of_digits[of "nat \<bar>i\<bar>"] by (auto simp: dec_def list_all_iff split: if_splits)

lemma fixed_expert_op [record_heads]: "CHR ''0'' \<notin> set s \<Longrightarrow> fixed_name (expert_op e s)"
proof -
  have "\<not> is_digit (CHR ''l'')" "\<not> is_digit (CHR ''L'')" by code_simp+
  then have "CHR ''l'' \<notin> set (''moe_expert_'' @ dec e)" "CHR ''L'' \<notin> set (''moe_expert_'' @ dec e)"
    using dec_chars[of _ e] by auto
  moreover assume "CHR ''0'' \<notin> set s"
  ultimately show ?thesis
    unfolding fixed_name_def expert_op_def by (intro exI[of _ "''moe_expert_'' @ dec e"] exI[of _ "''_'' @ s"]) simp
qed

lemma expert_op_other [record_heads]: "expert_op e s \<noteq> ''q_operand_residency''"
  by (simp add: expert_op_def)

section \<open>The invariant\<close>

lemmas moe_rules = record_heads plain_push is_q_residency_def

lemma moe_residency_grows:
  assumes "grows st0 st" and "set dependencies \<subseteq> plain st" and "fixed_name op"
  shows "grows st0 (moe_residency m layer op tensor resident dependencies res scope ctx st)"
  unfolding moe_residency_def using assms by (intro grows_snoc) (simp_all add: moe_rules)

lemma moe_residency_plain:
  "op \<noteq> ''q_operand_residency'' \<Longrightarrow>
   plain (moe_residency m layer op tensor resident dependencies res scope ctx st) = insert (next_rec st) (plain st)"
  by (simp add: moe_residency_def moe_rules)

lemma expert_weight_grows:
  assumes "grows st0 st" and "CHR ''0'' \<notin> set p"
  shows "grows st0 (expert_weight m layer e p st)"
  unfolding expert_weight_def using assms by (intro grows_snoc) (simp_all add: moe_rules)

lemma expert_weight_plain: "plain (expert_weight m layer e p st) = insert (next_rec st) (plain st)"
  by (simp add: expert_weight_def moe_rules)

lemma expert_projection_grows:
  assumes "grows st0 st" and "set dependencies \<subseteq> plain st" and "CHR ''0'' \<notin> set p"
  shows "grows st0 (expert_projection m layer e p stage tensor out dependencies st)"
  unfolding expert_projection_def using assms by (intro grows_snoc) (simp_all add: moe_rules)

lemma expert_projection_plain: "plain (expert_projection m layer e p stage tensor out dependencies st) = insert (next_rec st) (plain st)"
  by (simp add: expert_projection_def moe_rules)

lemmas moe_plain = moe_residency_plain expert_weight_plain expert_projection_plain moe_rules

lemma moe_router_grows:
  assumes "gen_ok st"
  shows "grows st (fst (moe_router m layer st))" and "snd (moe_router m layer st) \<in> plain (fst (moe_router m layer st))"
  unfolding moe_router_def Let_def fst_conv snd_conv
  by (intro grows_snoc moe_residency_grows grows_refl assms; simp add: moe_plain) (simp add: moe_plain)

lemma moe_expert_ok:
  assumes "contexts_ok st0 s" and "dispatch \<in> plain st0"
  shows "contexts_ok st0 (moe_expert m layer dispatch s e)"
proof -
  obtain st ids outs where s: "s = (st, ids, outs)" by (cases s)
  have st: "grows st0 st" "set ids \<subseteq> plain st" "dispatch \<in> plain st"
    using assms by (auto simp: s contexts_ok_def intro: softmax_in_plain)
  show ?thesis
    unfolding s moe_expert_def contexts_ok_def Let_def case_prod_beta fst_conv snd_conv
    using st by (intro conjI grows_snoc moe_residency_grows expert_projection_grows expert_weight_grows; auto simp: moe_plain)
qed

lemma moe_layer_grows:
  assumes "gen_ok st"
  shows "grows st (moe_layer m st layer)"
proof -
  obtain st1 dispatch where 1: "moe_router m layer st = (st1, dispatch)" by (metis surj_pair)
  have g1: "grows st st1" "dispatch \<in> plain st1" using moe_router_grows[OF assms, of m layer] by (simp_all add: 1)
  obtain st2 ids outs where 2: "foldl (moe_expert m layer dispatch) (st1, [], []) (expert_order m) = (st2, ids, outs)"
    by (metis surj_pair)
  have "contexts_ok st1 (foldl (moe_expert m layer dispatch) (st1, [], []) (expert_order m))"
  proof (rule foldl_keeps[where P = "contexts_ok st1"])
    show "contexts_ok st1 (st1, [], [])" using grows_ok[OF g1(1)] by (simp add: contexts_ok_def grows_refl)
  qed (rule moe_expert_ok[OF _ g1(2)])
  then have g2: "grows st1 st2" "set ids \<subseteq> plain st2" by (simp_all add: 2 contexts_ok_def)
  have "grows st st2" by (rule grows_trans[OF g1(1) g2(1)])
  then show ?thesis
    unfolding moe_layer_def Let_def 1 2 prod.case using g2(2) by (intro grows_snoc; simp add: moe_plain)
qed

lemma moe_part_ok:
  assumes "generate_moe_records m = Inr rs"
  shows "part_ok rs"
proof -
  let ?st = "foldl (moe_layer m) gen_start (layers_of m)"
  have st: "gen_ok ?st" by (intro grows_ok[OF foldl_grows] moe_layer_grows) simp_all
  let ?f = "\<lambda>hint. put_in ''operator_context'' ''dag_hint'' (PStr hint)"
  have hinted: "gen_ok (rewrite (?f hint) ?st)" for hint
    using st by (intro grows_ok[OF rewrite_grows(1)]) (simp_all add: record_heads)
  have "rs = gs_records ?st \<or> (\<exists>hint. rs = gs_records (rewrite (?f hint) ?st))"
    using assms by (auto simp: generate_moe_records_def result_simps Let_def add_dag_hint_def rewrite_def split: if_splits dest!: validate_all_Inr)
  then show ?thesis using gen_ok_part[OF st] gen_ok_part[OF hinted] by blast
qed

lemma moe_parts_ok:
  assumes "moe_parts a m = Inr p"
  shows "parts_ok False p"
proof -
  obtain kv hsize where qkv: "qkv_projection_records (one_layer_manifest m) None (kv * hsize) = Inr (lp_qkv p)"
    and cache: "kv_cache_write_records (one_layer_manifest a) = Inr (lp_cache p)"
    and att: "generate_attention_records (one_layer_manifest a) = Inr (lp_attention p)"
    and out: "output_projection_records (one_layer_manifest m) None = Inr (lp_output p)"
    and ffn: "generate_moe_records (one_layer_manifest m) = Inr (lp_ffn p)"
    using assms unfolding moe_parts_def Let_def rbind_Inr_iff by - (elim exE conjE, rule that, auto)
  have "part_ok (lp_cache p) \<and> map op_of (lp_cache p) = [''kv_cache_k_append'', ''kv_cache_v_append'']"
    using cache by (auto simp: kv_cache_write_records_def rbind_Inr_iff dest!: cache_part_ok)
  then show ?thesis
    using qkv_part_ok[OF qkv] output_part_ok[OF out] moe_part_ok[OF ffn] attention_part_ok[OF att] by (simp add: parts_ok_def)
qed

lemma moe_trace_ordered:
  assumes "generate_moe_transformer_layer_records a m = Inr rs"
  shows "topological rs"
proof -
  obtain n p where p: "(if 0 < n then moe_parts a m else Inr no_parts) = Inr p"
    and rs: "compose_layers False ''moe_router_input_setup'' a n p = Inr rs"
    using assms unfolding generate_moe_transformer_layer_records_def rbind_Inr_iff by blast
  show ?thesis by (rule compose_topological[OF rs]) (use p moe_parts_ok in simp)
qed

end
