(* ===== verification/Surrogate_Moe_Total.thy ===== *)
theory Surrogate_Moe_Total
  imports Surrogate_Moe_Facts
begin

text \<open>
  The mixture generators do not fail on manifests that pass the checks and name a dense size, and
  the manifests of Mixtral-8x7B are such; without that size the decoder is refused.
\<close>

section \<open>The builders\<close>

lemma moe_policy_keys: "dkeys (moe_policies m layer s e) = [''dependency_context'', ''row_policy'', ''column_policy'']"
  by (simp add: moe_policies_def policy_keys Let_def)

lemma moe_data_move_good:
  assumes "manifest_fits m"
  shows "flow_record (moe_data_move_record rid layer m op stage ins outs deps role res reuse e n)"
  unfolding moe_data_move_record_def Let_def
  by (rule move_built_good[OF assms p4_context_good, where mk = "if role = ''weight'' then ''preloaded_stationary_weight_residency''
        else ''broadcast_or_accounted_tile_load''"])
    (simp_all add: moe_policy_keys VALID_PIM_DATA_MOVE_MOVEMENT_KINDS_def num_requests_positive)

lemma moe_compute_good:
  assumes "manifest_fits m" and "kind = ''MoERouter'' \<or> kind = ''MoEExpertFFN''"
  shows "flow_record (moe_compute_record rid kind layer m op stage ins outs deps e p)"
  unfolding moe_compute_record_def Let_def case_prod_beta
  using assms(2)
  by (intro compute_built_good assms(1) p4_context_good num_requests_positive)
    (auto simp: moe_policy_keys TRANSFORMER_COMPUTE_RECORD_KINDS_def has_def)

lemma moe_accounting_good:
  assumes "manifest_fits m" and "kind \<in> {''MoETopK'', ''MoEDispatch'', ''MoECombine''}"
  shows "flow_record (moe_accounting_record rid kind layer m op stage ins outs deps k)"
  unfolding moe_accounting_record_def Let_def using assms by (intro accounting_good p4_context_good) auto

lemmas moe_good = moe_data_move_good moe_compute_good moe_accounting_good

section \<open>A layer\<close>

lemma flows_moe_residency:
  "manifest_fits m \<Longrightarrow> flows st \<Longrightarrow> flows (moe_residency m layer op tensor resident deps res scope ctx st)"
  unfolding moe_residency_def by (intro flows_push builders_good) simp_all

lemma flows_expert_weight: "manifest_fits m \<Longrightarrow> flows st \<Longrightarrow> flows (expert_weight m layer e p st)"
  unfolding expert_weight_def by (intro flows_push moe_good)

lemma flows_expert_projection:
  "manifest_fits m \<Longrightarrow> flows st \<Longrightarrow> flows (expert_projection m layer e p stage tensor out deps st)"
  unfolding expert_projection_def by (intro flows_push moe_good) simp_all

lemma flows_moe_router: "manifest_fits m \<Longrightarrow> flows st \<Longrightarrow> flows (fst (moe_router m layer st))"
  unfolding moe_router_def Let_def fst_conv by (intro flows_push flows_moe_residency moe_good) simp_all

lemma flows_moe_expert: "manifest_fits m \<Longrightarrow> flows (fst s) \<Longrightarrow> flows (fst (moe_expert m layer dispatch s e))"
  unfolding moe_expert_def Let_def case_prod_beta fst_conv
  by (intro flows_push flows_moe_residency flows_expert_weight flows_expert_projection builders_good)

lemma flows_moe_layer:
  assumes "manifest_fits m" and "flows st"
  shows "flows (moe_layer m st layer)"
proof -
  have "flows (fst (foldl (moe_expert m layer dispatch) (fst (moe_router m layer st), [], []) es))" for dispatch es
    by (rule foldl_keeps[where P = "\<lambda>s. flows (fst s)"]) (use assms in \<open>simp_all add: flows_moe_router flows_moe_expert\<close>)
  then show ?thesis
    unfolding moe_layer_def Let_def case_prod_beta using assms(1) by (intro flows_push moe_good) simp_all
qed

section \<open>Totality\<close>

lemma moe_manifest_facts:
  assumes "validate_moe_manifest m = Inr u" and "readable m = Inr w"
  shows "manifest_fits m"
proof -
  obtain a b where "check_non_claims m = Inr a" "validate_ramulator_defaults m = Inr b"
    using assms(1) unfolding validate_moe_manifest_def rbind_Inr_iff by blast
  then show ?thesis using assms(2) by (intro fits_manifest)
qed

lemma hint_flow: "list_all flow_record rs \<Longrightarrow> list_all flow_record (add_dag_hint hint rs)"
  unfolding add_dag_hint_def by (rule map_flow) (auto intro!: flow_put_context)

lemma moe_total:
  assumes "validate_moe_manifest m = Inr u" and "readable_policies m = Inr w" and "is_ok (ffn_operator_family m)"
  shows "\<exists>rs. generate_moe_records m = Inr rs \<and> list_all flow_record rs"
proof -
  have "readable m = Inr ()" using assms(2) by (auto simp: readable_policies_def rbind_Inr_iff)
  note m = moe_manifest_facts[OF assms(1) this]
  let ?rs = "gs_records (foldl (moe_layer m) gen_start (layers_of m))"
  have "flows (foldl (moe_layer m) gen_start (layers_of m))"
    by (rule foldl_keeps[where P = flows]) (simp_all add: flows_moe_layer[OF m])
  then have rs: "list_all flow_record ?rs" by (rule flows_gs)
  obtain f where "ffn_operator_family m = Inr f" using assms(3) by (auto simp: is_ok_iff)
  then show ?thesis
    using assms(1,2) rs hint_flow[OF rs] by (simp add: generate_moe_records_def validate_all_ok flow_good Let_def)
qed

lemma one_layer_moe:
  assumes "validate_moe_manifest m = Inr u"
  shows "validate_moe_manifest (one_layer_manifest m) = Inr u"
proof -
  obtain x y where g: "g_fields m MOE_MANIFEST_FIELDS = Inr x"
    and p: "m_positive m [''num_layers'', ''seq_len'', ''hidden_size'', ''expert_hidden_size'', ''num_experts'', ''top_k''] = Inr y"
    using assms unfolding validate_moe_manifest_def rbind_Inr_iff by blast
  have "check_selected_experts (one_layer_manifest m) = check_selected_experts m"
    by (simp add: check_selected_experts_def one_layer_reads)
  then have "validate_moe_manifest (one_layer_manifest m) = validate_moe_manifest m"
    by (simp add: validate_moe_manifest_def one_layer_reads one_layer_parts g p one_layer_fields[OF g] one_layer_positive[OF p])
  then show ?thesis using assms by simp
qed

text \<open>The manifests that the decoder takes.\<close>

definition accepted_mixture :: "dict \<Rightarrow> dict \<Rightarrow> bool" where
  "accepted_mixture a m \<longleftrightarrow>
     is_ok (validate_attention_manifest a) \<and> is_ok (validate_moe_manifest m) \<and> is_ok (validate_moe_pair a m) \<and>
     item a ''phase'' \<noteq> PStr ''prefill'' \<and> m_int a ''num_layers'' = m_int m ''num_layers'' \<and>
     is_ok (readable_policies a) \<and> is_ok (readable_host a) \<and> is_ok (readable_policies m) \<and> is_ok (ffn_operator_family m)"

lemma accepted_layers: "accepted_mixture a m \<Longrightarrow> \<exists>n > 0. m_int a ''num_layers'' = Inr n \<and> m_int m ''num_layers'' = Inr n"
proof -
  assume ok: "accepted_mixture a m"
  then have "\<exists>y. m_positive a [''num_layers'', ''num_heads'', ''head_dim'', ''seq_len'', ''score_tile_tokens'', ''context_tile_tokens'',
              ''head_group_size''] = Inr y"
    unfolding accepted_mixture_def is_ok_iff validate_attention_manifest_def rbind_Inr_iff by blast
  then obtain n where "m_int a ''num_layers'' = Inr n" "0 < n" by (auto simp: m_positive_def rbind_Inr_iff)
  then show ?thesis using ok by (auto simp: accepted_mixture_def)
qed

lemma accepted_reads:
  assumes "accepted_mixture a m"
  shows "\<exists>kv. attention_num_kv_heads (one_layer_manifest a) = Inr kv" and "\<exists>hs. m_int (one_layer_manifest a) ''head_dim'' = Inr hs"
    and "\<exists>h. m_int (one_layer_manifest m) ''hidden_size'' = Inr h" and "\<exists>n. m_int (one_layer_manifest a) ''seq_len'' = Inr n"
    and "\<exists>n. m_int (one_layer_manifest m) ''seq_len'' = Inr n" and "\<exists>h. m_int (one_layer_manifest a) ''hidden_size'' = Inr h"
proof -
  have pair: "is_ok (validate_decode_pair a m)" using assms by (simp add: accepted_mixture_def validate_moe_pair_def)
  then obtain g where "attention_head_group_size a = Inr g" by (auto simp: validate_decode_pair_def is_ok_iff rbind_Inr_iff)
  then show "\<exists>kv. attention_num_kv_heads (one_layer_manifest a) = Inr kv"
    by (auto simp: attention_head_group_size_def rbind_Inr_iff one_layer_parts)
  show "\<exists>hs. m_int (one_layer_manifest a) ''head_dim'' = Inr hs" and "\<exists>h. m_int (one_layer_manifest m) ''hidden_size'' = Inr h"
    and "\<exists>h. m_int (one_layer_manifest a) ''hidden_size'' = Inr h"
    using pair by (auto simp: validate_decode_pair_def is_ok_iff rbind_Inr_iff one_layer_reads)
  have "\<exists>y. m_positive a [''num_layers'', ''num_heads'', ''head_dim'', ''seq_len'', ''score_tile_tokens'', ''context_tile_tokens'',
              ''head_group_size''] = Inr y"
    using assms unfolding accepted_mixture_def is_ok_iff validate_attention_manifest_def rbind_Inr_iff by blast
  then show "\<exists>n. m_int (one_layer_manifest a) ''seq_len'' = Inr n"
    by (auto simp: m_positive_def rbind_Inr_iff one_layer_reads)
  have "\<exists>y. m_positive m [''num_layers'', ''seq_len'', ''hidden_size'', ''expert_hidden_size'', ''num_experts'', ''top_k''] = Inr y"
    using assms unfolding accepted_mixture_def is_ok_iff validate_moe_manifest_def rbind_Inr_iff by blast
  then show "\<exists>n. m_int (one_layer_manifest m) ''seq_len'' = Inr n"
    by (auto simp: m_positive_def rbind_Inr_iff one_layer_reads)
qed

lemma moe_parts_total:
  assumes "accepted_mixture a m" and "m_int m ''ffn_hidden_size'' = Inr w"
  shows "\<exists>p. moe_parts a m = Inr p \<and> parts_flow p"
proof -
  let ?a = "one_layer_manifest a" and ?m = "one_layer_manifest m"
  have a: "validate_attention_manifest ?a = Inr ()" "readable_policies ?a = Inr ()" "readable_host ?a = Inr ()"
    and m: "validate_moe_manifest ?m = Inr ()" "readable_policies ?m = Inr ()" "is_ok (ffn_operator_family ?m)"
    using assms(1) one_layer_attention one_layer_moe
    by (auto simp: accepted_mixture_def is_ok_iff one_layer_readable ffn_operator_family_def ffn_variant_def one_layer_reads one_layer_has cong: if_cong)
  have fits: "manifest_fits ?a" "manifest_fits ?m"
    using attention_manifest_facts(1)[OF a(1)] moe_manifest_facts[OF m(1)] a(2) m(2) by (auto simp: readable_policies_def rbind_Inr_iff)
  obtain kv hs h n n' ha where reads: "attention_num_kv_heads ?a = Inr kv" "m_int ?a ''head_dim'' = Inr hs" "m_int ?m ''hidden_size'' = Inr h"
    "m_int ?a ''seq_len'' = Inr n" "m_int ?m ''seq_len'' = Inr n'" "m_int ?m ''ffn_hidden_size'' = Inr w"
    "m_int ?a ''hidden_size'' = Inr ha"
    using accepted_reads[OF assms(1)] assms(2) by (auto simp: one_layer_reads)
  have "g_int ''head_dim'' (dgetd ?a ''head_dim'' v) = Inr hs" for v
    using reads(2) by (auto simp: m_int_def g_get_def dgetd_def rbind_Inr_iff split: option.splits)
  then obtain cache where cache: "kv_cache_write_records ?a = Inr cache" "list_all flow_record cache"
    using cache_total[OF fits(1) a(3)] reads by (fastforce simp: kv_cache_write_records_def)
  have "item ?a ''phase'' \<noteq> PStr ''prefill''" using assms(1) by (simp add: accepted_mixture_def one_layer_reads)
  then obtain att where att: "generate_attention_records ?a = Inr att" "list_all flow_record att"
    using attention_total[OF a(1,2), of "()"] a(3) attention_flow[OF _ fits(1)] by (auto simp: is_ok_iff)
  obtain moe where moe: "generate_moe_records ?m = Inr moe" "list_all flow_record moe" using moe_total[OF m] by blast
  obtain qkv where qkv: "qkv_projection_records ?m None (kv * hs) = Inr qkv" "list_all flow_record qkv"
    using qkv_total[OF fits(2) m(2)] by blast
  obtain out where out: "output_projection_records ?m None = Inr out" "list_all flow_record out"
    using output_total[OF fits(2) m(2)] by blast
  show ?thesis
    using cache att moe qkv out by (simp add: moe_parts_def reads parts_flow_def del: if_split)
qed

lemma moe_decoder_total:
  assumes "accepted_mixture a m" and "m_int m ''ffn_hidden_size'' = Inr w"
  shows "is_ok (generate_moe_transformer_layer_records a m)"
proof -
  obtain p where p: "moe_parts a m = Inr p" "parts_flow p" using moe_parts_total[OF assms] by blast
  obtain n where n: "m_int a ''num_layers'' = Inr n" "m_int m ''num_layers'' = Inr n" "0 < n" using accepted_layers[OF assms(1)] by blast
  have pair: "validate_moe_pair a m = Inr ()" and r: "readable a = Inr ()"
    using assms(1) by (auto simp: accepted_mixture_def readable_policies_def is_ok_iff rbind_Inr_iff)
  moreover have "manifest_fits a"
    using assms(1) attention_manifest_facts(1)[OF _ r] by (auto simp: accepted_mixture_def is_ok_iff)
  ultimately show ?thesis
    using n p compose_total[OF p(2)] by (simp add: generate_moe_transformer_layer_records_def require_def)
qed

text \<open>Without a readable dense size the projections fail, whatever the other fields hold.\<close>

lemma moe_decoder_needs_dense_size:
  assumes "accepted_mixture a m" and "m_int m ''ffn_hidden_size'' = Inl e"
  shows "generate_moe_transformer_layer_records a m = Inl e"
proof -
  obtain n where n: "m_int a ''num_layers'' = Inr n" "m_int m ''num_layers'' = Inr n" "0 < n" using accepted_layers[OF assms(1)] by blast
  obtain kv hs h where reads: "attention_num_kv_heads (one_layer_manifest a) = Inr kv" "m_int (one_layer_manifest a) ''head_dim'' = Inr hs"
      "m_int (one_layer_manifest m) ''hidden_size'' = Inr h"
    using accepted_reads[OF assms(1)] by blast
  have "moe_parts a m = Inl e" using assms(2) by (simp add: moe_parts_def reads one_layer_reads)
  moreover have "validate_moe_pair a m = Inr ()" using assms(1) by (auto simp: accepted_mixture_def is_ok_iff)
  ultimately show ?thesis using n by (simp add: generate_moe_transformer_layer_records_def require_def)
qed

end
