(* ===== verification/Surrogate_Mixtral.thy ===== *)
theory Surrogate_Mixtral
  imports Surrogate_Moe_Total
begin

text \<open>The manifests of Mixtral-8x7B, real or scaled, pass the checks of the decoder.\<close>

lemma mixtral_defaults: "mixtral_ramulator_defaults = spec_defaults (map PInt [0, 1, 2, 3])"
  by (simp add: mixtral_ramulator_defaults_def spec_defaults_def)

lemmas mixtral_values = MIXTRAL_8X7B_NUM_LAYERS_def MIXTRAL_8X7B_HIDDEN_SIZE_def MIXTRAL_8X7B_NUM_HEADS_def MIXTRAL_8X7B_NUM_KV_HEADS_def
  MIXTRAL_8X7B_HEAD_DIM_def MIXTRAL_8X7B_NUM_EXPERTS_def MIXTRAL_8X7B_TOP_K_def MIXTRAL_8X7B_EXPERT_HIDDEN_SIZE_def
  MIXTRAL_8X7B_SCALED_HIDDEN_def MIXTRAL_8X7B_SCALED_EXPERT_HIDDEN_def

definition mixtral_hidden :: "bool \<Rightarrow> int" where
  "mixtral_hidden scaled = (if scaled then 512 else 4096)"

lemma mixtral_attention_lookups [manifest_fields]:
  fixes p pol scaled
  defines "m \<equiv> mixtral_attention_manifest p pol scaled"
  shows "dget m ''phase'' = Some (PStr ''decode'')" "dget m ''schedule_policy'' = Some (PStr pol)"
    "dget m ''num_layers'' = Some (PInt 32)" "dget m ''num_heads'' = Some (PInt (if scaled then 4 else 32))"
    "dget m ''num_kv_heads'' = Some (PInt (if scaled then 1 else 8))" "dget m ''head_dim'' = Some (PInt 128)"
    "dget m ''kv_heads'' = None" "dget m ''hidden_size'' = Some (PInt (mixtral_hidden scaled))"
    "dget m ''past_len'' = Some (PInt p)" "dget m ''seq_len'' = Some (PInt 1)" "dget m ''datatype'' = Some (PStr ''int8'')"
    "dget m ''score_tile_tokens'' = Some (PInt (min 256 p))" "dget m ''context_tile_tokens'' = Some (PInt (min 256 p))"
    "dget m ''head_group_size'' = Some (PInt 4)"
  by (simp_all add: m_def mixtral_attention_manifest_def Let_def mixtral_values mixtral_hidden_def)

lemma mixtral_attention_carries: "carries (mixtral_attention_manifest p pol scaled) REQUIRED_P4_NON_CLAIMS"
  by (simp add: carries_def mixtral_attention_manifest_def mixtral_defaults spec_defaults_def Let_def p_strs_def)

lemma mixtral_attention_has: "list_all (has (mixtral_attention_manifest p pol scaled)) ATTENTION_MANIFEST_FIELDS"
  by (simp add: has_def mixtral_attention_manifest_def Let_def ATTENTION_MANIFEST_FIELDS_def)

lemma mixtral_moe_lookups [manifest_fields]:
  fixes pol sel scaled
  defines "m \<equiv> mixtral_moe_manifest pol sel scaled"
  shows "dget m ''phase'' = Some (PStr ''decode'')" "dget m ''schedule_policy'' = Some (PStr pol)"
    "dget m ''num_layers'' = Some (PInt 32)" "dget m ''seq_len'' = Some (PInt 1)"
    "dget m ''hidden_size'' = Some (PInt (mixtral_hidden scaled))"
    "dget m ''expert_hidden_size'' = Some (PInt (if scaled then 2048 else 14336))"
    "dget m ''ffn_hidden_size'' = Some (PInt (if scaled then 2048 else 14336))"
    "dget m ''num_experts'' = Some (PInt 8)" "dget m ''top_k'' = Some (PInt 2)"
    "dget m ''selected_experts'' = Some (PList (map PInt (case sel of None \<Rightarrow> [0, 1] | Some es \<Rightarrow> es)))"
    "dget m ''datatype'' = Some (PStr ''int8'')" "dget m ''ffn_variant'' = None" "dget m ''activation'' = None"
  by (simp_all add: m_def mixtral_moe_manifest_def Let_def mixtral_values mixtral_hidden_def)

lemma mixtral_moe_carries: "carries (mixtral_moe_manifest pol sel scaled) REQUIRED_P4_NON_CLAIMS"
  by (simp add: carries_def mixtral_moe_manifest_def mixtral_defaults spec_defaults_def Let_def p_strs_def)

lemma mixtral_moe_has: "list_all (has (mixtral_moe_manifest pol sel scaled)) MOE_MANIFEST_FIELDS"
  by (simp add: has_def mixtral_moe_manifest_def Let_def MOE_MANIFEST_FIELDS_def)

lemma mixtral_attention_accepted:
  assumes "0 < p"
  shows "validate_attention_manifest (mixtral_attention_manifest p ''serialized'' scaled) = Inr ()"
proof -
  let ?m = "mixtral_attention_manifest p ''serialized'' scaled"
  have fields: "g_fields ?m ATTENTION_MANIFEST_FIELDS = Inr ()" by (rule fields_present[OF mixtral_attention_has])
  have claims: "check_non_claims ?m = Inr ()"
    using mixtral_attention_carries[of p "''serialized''" scaled] by (intro claims_accepted) (simp add: carries_def dgetd_def manifest_fields)
  have heads: "attention_head_group_size ?m = Inr 4"
    by (simp add: attention_head_group_size_def attention_num_kv_heads_def manifest_reads manifest_fields)
  have "''int8'' \<in> set SUPPORTED_ATTENTION_DATATYPES" by (simp add: SUPPORTED_ATTENTION_DATATYPES_def)
  then show ?thesis
    using assms
    by (simp add: validate_attention_manifest_def fields claims heads spec_defaults_ok[OF mixtral_attention_carries] manifest_reads manifest_fields)
qed

text \<open>The two experts of a token: distinct and among the eight.\<close>

definition chosen_ok :: "int list option \<Rightarrow> bool" where
  "chosen_ok sel \<longleftrightarrow> (case sel of None \<Rightarrow> True
     | Some es \<Rightarrow> length es = 2 \<and> distinct es \<and> set es \<subseteq> {0..<8})"

lemma mixtral_selection:
  assumes "chosen_ok sel"
  shows "check_selected_experts (mixtral_moe_manifest pol sel scaled) = Inr ()"
proof -
  define es where "es = (case sel of None \<Rightarrow> [0, 1 :: int] | Some es \<Rightarrow> es)"
  then have "length es = 2 \<and> distinct es \<and> set es \<subseteq> {0..<8}" using assms by (auto simp: chosen_ok_def split: option.splits)
  then obtain x y where es: "es = [x, y]" and xy: "x \<noteq> y" "0 \<le> x" "x < 8" "0 \<le> y" "y < 8"
    by (auto simp: numeral_2_eq_2 length_Suc_conv)
  have "dgetd (mixtral_moe_manifest pol sel scaled) ''selected_experts'' PNone = PList [PInt x, PInt y]"
    using es unfolding es_def by (simp add: dgetd_def manifest_fields)
  then show ?thesis
    using xy by (simp add: check_selected_experts_def manifest_reads manifest_fields g_list_def)
qed

lemma mixtral_moe_accepted:
  assumes "chosen_ok sel"
  shows "validate_moe_manifest (mixtral_moe_manifest ''serialized'' sel scaled) = Inr ()"
proof -
  let ?m = "mixtral_moe_manifest ''serialized'' sel scaled"
  have fields: "g_fields ?m MOE_MANIFEST_FIELDS = Inr ()" by (rule fields_present[OF mixtral_moe_has])
  have claims: "check_non_claims ?m = Inr ()"
    using mixtral_moe_carries[of "''serialized''" sel scaled] by (intro claims_accepted) (simp add: carries_def dgetd_def manifest_fields)
  have "''int8'' \<in> set SUPPORTED_ATTENTION_DATATYPES" by (simp add: SUPPORTED_ATTENTION_DATATYPES_def)
  then show ?thesis
    using mixtral_selection[OF assms]
    by (simp add: validate_moe_manifest_def fields claims spec_defaults_ok[OF mixtral_moe_carries] manifest_reads manifest_fields mixtral_hidden_def)
qed

lemma mixtral_accepted:
  assumes "0 < p" and "chosen_ok sel"
  shows "accepted_mixture (mixtral_attention_manifest p ''serialized'' scaled) (mixtral_moe_manifest ''serialized'' sel scaled)"
proof -
  let ?a = "mixtral_attention_manifest p ''serialized'' scaled" and ?m = "mixtral_moe_manifest ''serialized'' sel scaled"
  have "readable_policies ?a = Inr ()" "readable_host ?a = Inr ()" "readable_policies ?m = Inr ()"
    using spec_readable[OF mixtral_attention_carries] spec_readable[OF mixtral_moe_carries]
      mixtral_attention_has[of p "''serialized''" scaled] mixtral_moe_has[of "''serialized''" sel scaled]
    by (simp_all add: ATTENTION_MANIFEST_FIELDS_def MOE_MANIFEST_FIELDS_def)
  moreover have "validate_moe_pair ?a ?m = Inr ()"
    by (simp add: validate_moe_pair_def validate_decode_pair_def attention_head_group_size_def attention_num_kv_heads_def manifest_reads manifest_fields)
  moreover have "is_ok (ffn_operator_family ?m)"
    by (simp add: ffn_operator_family_def ffn_variant_def manifest_reads manifest_fields is_ok_def)
  ultimately show ?thesis
    using mixtral_attention_accepted[OF assms(1)] mixtral_moe_accepted[OF assms(2)]
    by (simp add: accepted_mixture_def is_ok_def dgetd_def m_int_def g_get_def manifest_fields)
qed

lemma mixtral_decoder_total:
  assumes "0 < p" and "chosen_ok sel"
  shows "is_ok (generate_moe_transformer_layer_records (mixtral_attention_manifest p ''serialized'' scaled)
    (mixtral_moe_manifest ''serialized'' sel scaled))"
  by (rule moe_decoder_total[OF mixtral_accepted[OF assms]]) (simp add: manifest_reads manifest_fields)

end
