(* ===== verification/Surrogate_Properties.thy ===== *)
theory Surrogate_Properties
  imports Surrogate_Mixtral
begin

text \<open>
  The properties of the trace generators: tiles partition a sequence, the causal pairs of a prefill
  are complete, traces are in order, which manifests have one, and what retargeting a layer leaves
  unchanged.
\<close>

section \<open>Properties\<close>

text \<open>
  The causal pairs of a prefill are complete. Whatever the sizes of the query and key tiles,
  the tiles that the generator visits hold each pair of a query and an earlier or equal key once,
  so the count of a head is that of the whole triangle and its check never fails.
\<close>

theorem prefill_pairs_complete:
  assumes "0 < mint m ''score_tile_tokens''" and "0 < mint m ''context_tile_tokens''" and "0 \<le> mint m ''seq_len''"
  shows "is_ok (prefill_head m layer st head)"
  using assms by (rule prefill_head_ok)

definition prefill_shape :: dict where
  "prefill_shape = [(''seq_len'', PInt 5), (''score_tile_tokens'', PInt 2), (''context_tile_tokens'', PInt 3)]"

theorem prefill_pairs_complete_witness: "is_ok (prefill_head prefill_shape 0 gen_start 0)"
  by (rule prefill_pairs_complete) (simp_all add: mint_def prefill_shape_def dgetd_def)

text \<open>
  Tiles partition a sequence. In order they hold each token once, no tile is empty or larger than
  the tile size, and all but the last one are full.
\<close>

theorem tiles_partition:
  assumes "0 < tile" and "0 \<le> n"
  shows "concat (map (\<lambda>(s, k). [s..s + k - 1]) (tile_ranges n tile)) = [0..n - 1] \<and>
    (\<forall>(s, k) \<in> set (tile_ranges n tile). 0 < k \<and> k \<le> tile) \<and> (\<forall>(s, k) \<in> set (butlast (tile_ranges n tile)). k = tile)"
proof -
  have "\<forall>(s, k) \<in> set (butlast (tile_ranges_from start n tile)). k = tile" for start
  proof (induction start n tile rule: tile_ranges_from.induct)
    case (1 start n tile)
    show ?case
    proof (cases "start < n \<and> 0 < tile")
      case True
      then have tail: "tile_ranges_from start n tile = (start, min tile (n - start)) # tile_ranges_from (start + min tile (n - start)) n tile"
        by (subst tile_ranges_from.simps) (simp add: Let_def)
      have "tile_ranges_from (start + min tile (n - start)) n tile = []" if "n - start < tile"
        using that by (subst tile_ranges_from.simps) simp
      then show ?thesis using 1[OF True refl] by (auto simp: tail min_def)
    qed (subst tile_ranges_from.simps, auto)
  qed
  then show ?thesis
    using tile_ranges_cover[OF assms] tile_ranges_sizes[of _ _ 0 n tile] by (auto simp: tile_ranges_def)
qed

theorem tiles_partition_witness:
  "tile_ranges 5 2 = [(0, 2), (2, 2), (4, 1)] \<and> concat (map (\<lambda>(s, k). [s..s + k - 1]) (tile_ranges 5 2)) = [0..4]"
  using tiles_partition[of 2 5] by (simp add: tile_ranges_def tile_ranges_from.simps)

text \<open>
  The records of the attention, feed-forward and mixture generators, in decode and in prefill, are
  numbered in order from \<open>rec_0000\<close> and depend on earlier records only.
\<close>

theorem generated_records_numbered:
  assumes "generate_attention_records m = Inr rs \<or> generate_ffn_records m = Inr rs \<or> generate_moe_records m = Inr rs" and "i < length rs"
  shows "record_id_of (rs ! i) = rec_id i \<and> set (deps_of (rs ! i)) \<subseteq> rec_id ` {..<i}"
proof -
  have "part_ok rs" using assms(1) attention_part_ok ffn_part_ok moe_part_ok by blast
  then show ?thesis using assms(2) by (simp add: part_ok_def numbered_def)
qed

theorem generated_records_numbered_witness:
  "\<exists>rs. generate_ffn_records (decoder_ffn_manifest OPT_125M_MODEL_SPEC ''serialized'') = Inr rs \<and>
    (0 < length rs \<longrightarrow> record_id_of (rs ! 0) = ''rec_0000'' \<and> deps_of (rs ! 0) = [])"
proof -
  let ?m = "decoder_ffn_manifest OPT_125M_MODEL_SPEC ''serialized''"
  have "supported_spec OPT_125M_MODEL_SPEC" by (rule models_supported)
  then have "is_ok (generate_ffn_records ?m)" by (rule ffn_total[OF ffn_accepted ffn_manifest_readable])
  then obtain rs where rs: "generate_ffn_records ?m = Inr rs" by (auto simp: is_ok_iff)
  have "rec_id 0 = ''rec_0000''" by code_simp
  then show ?thesis using rs generated_records_numbered[of ?m rs 0] by auto
qed

lemma decoder_trace_ordered:
  assumes "generate_dense_transformer_layer_records a f = Inr rs \<or> generate_dense_prefill_transformer_layer_records a f = Inr rs \<or>
    generate_moe_transformer_layer_records a f = Inr rs"
  shows "topological rs"
  using assms dense_trace_ordered moe_trace_ordered by blast

text \<open>
  C16: the trace of a decoder, dense in decode or in prefill or with a mixture of experts, is in order: identifiers are
  distinct and every dependency is the identifier of an earlier record, also across the parts of a
  layer and across layers. So the dependencies have no cycle, and no link is left dangling when the
  query residencies of the heads are merged.
\<close>

theorem decoder_trace_topological:
  assumes "generate_dense_transformer_layer_records a f = Inr rs \<or> generate_dense_prefill_transformer_layer_records a f = Inr rs \<or>
    generate_moe_transformer_layer_records a f = Inr rs"
  shows "distinct (map record_id_of rs) \<and> (\<forall>i < length rs. set (deps_of (rs ! i)) \<subseteq> set (map record_id_of (take i rs)))"
  using decoder_trace_ordered[OF assms] by (simp add: topological_iff ids_of_def)

theorem decoder_trace_topological_witness:
  "\<exists>rs. dense_decoder_records_from_spec OPT_125M_MODEL_SPEC None ''serialized'' = Inr rs \<and> distinct (map record_id_of rs)"
proof -
  let ?a = "fst (dense_decoder_manifests OPT_125M_MODEL_SPEC None ''serialized'')"
  let ?f = "snd (dense_decoder_manifests OPT_125M_MODEL_SPEC None ''serialized'')"
  have "supported_spec OPT_125M_MODEL_SPEC" by (rule models_supported)
  then have "is_ok (dense_decoder_records_from_spec OPT_125M_MODEL_SPEC None ''serialized'')"
    using decode_spec_total[of OPT_125M_MODEL_SPEC None] by (simp add: LLAMA2_7B_DEFAULT_PAST_LEN_def)
  then obtain rs where rs: "dense_decoder_records_from_spec OPT_125M_MODEL_SPEC None ''serialized'' = Inr rs" by (auto simp: is_ok_iff)
  then have "generate_dense_transformer_layer_records ?a ?f = Inr rs"
    by (simp add: dense_decoder_records_from_spec_def case_prod_beta)
  then show ?thesis using rs decoder_trace_topological[of ?a ?f rs] by blast
qed



text \<open>
  C18: every supported specification has a trace. With positive dimensions, key-value heads that divide
  the heads, a supported datatype and an activation that fits the variant, the manifests that are
  built pass their checks, the tiles of prefill count all causal pairs, every record that is
  generated passes its validation, and decode and prefill return a trace for every positive length.
\<close>

theorem supported_specs_generate:
  assumes "supported_spec s" and "0 < n"
  shows "is_ok (dense_decoder_records_from_spec s (Some n) ''serialized'') \<and> is_ok (dense_prefill_records_from_spec s n ''serialized'')"
  using decode_spec_total[of s "Some n"] prefill_spec_total[of s n] assms by simp

theorem supported_specs_generate_witness:
  "is_ok (dense_prefill_records_from_spec
     \<lparr>spec_name = ''Tiny'', spec_num_layers = 2, spec_hidden_size = 64, spec_num_heads = 4, spec_head_dim = 16, spec_ffn_hidden_size = 128,
       spec_datatype = ''fp16'', spec_num_kv_heads = 2, spec_citation = ''none'', spec_paper_anchor = ''none'',
       spec_ffn_variant = FFN_VARIANT_GEGLU_3PROJ, spec_activation = ''gelu''\<rparr> 300 ''serialized'')"
  by (rule conjunct2[OF supported_specs_generate]) (simp_all add: supported_spec_def SUPPORTED_ATTENTION_DATATYPES_def)

text \<open>
  Each registered name of a model generates a decode trace and a prefill trace, for every
  positive length; a name that is not registered is refused.
\<close>

theorem registered_models_generate:
  assumes "0 < n"
  shows "is_ok (dense_decoder_records_for_model name (Some n) ''serialized'') = (name \<in> set (dkeys MODEL_REGISTRY)) \<and>
    is_ok (dense_prefill_records_for_model name n ''serialized'') = (name \<in> set (dkeys MODEL_REGISTRY))"
proof (cases "dget MODEL_REGISTRY name")
  case None
  then have "name \<notin> set (dkeys MODEL_REGISTRY)" by (simp add: dget_None_iff)
  then show ?thesis
    using None by (simp add: dense_decoder_records_for_model_def dense_prefill_records_for_model_def get_model_spec_def is_ok_def)
next
  case (Some s)
  then have "supported_spec s" and "name \<in> set (dkeys MODEL_REGISTRY)" by (auto intro: registered_supported dest: dget_Some_in)
  then show ?thesis
    using Some decode_spec_total[of s "Some n"] prefill_spec_total[of s n] assms
    by (simp add: dense_decoder_records_for_model_def dense_prefill_records_for_model_def get_model_spec_def)
qed

theorem registered_models_generate_witness: "is_ok (dense_decoder_records_for_model ''opt-125m'' (Some 7) ''serialized'')"
  using registered_models_generate[of 7 "''opt-125m''"] by (simp add: MODEL_REGISTRY_def)




end
