(* ===== verification/Decode_Only.thy ===== *)
theory Decode_Only
  imports Surrogate_Attention
begin

text \<open>
  \<open>workload_surrogate/generate_decode_only.py\<close> and \<open>decode_only_manifest.py\<close>: the legacy generator
  of decode-only traces. Unlike the transformer generators it multiplies and divides fields of the
  manifest without converting them, so here a field must be an integer (or a boolean) where the code
  would also compute with a float. The prefill layers write the width of each of their operators into
  the manifest of the caller, so the manifest is part of the state.
\<close>

section \<open>The frozen manifest\<close>

definition decode_pim_operators :: "string list" where
  "decode_pim_operators =
     [''q_projection_gemv'', ''k_projection_gemv'', ''v_projection_gemv'', ''o_projection_gemv'', ''ffn_up_projection_gemv'',
      ''ffn_gate_projection_gemv'', ''ffn_down_projection_gemv'']"

definition DECODE_ONLY_MANIFEST :: dict where
  "DECODE_ONLY_MANIFEST =
     [(''manifest_name'', PStr ''decode_only_tuple''), (''manifest_version'', PStr ''v0.1''), (''trace_contract_version'', PStr ''v0.1''),
      (''lifecycle_status'', PStr ''legacy_deprecated_p2_mvp''),
      (''replacement_generator'', PStr ''ramulator.workload_surrogate.generate_full_transformer.generate_llama2_7b_dense_decoder_records''),
      (''deprecation_note'', PStr (''Legacy P2 MVP replay fixture; does not implement paper/algorithms/llama2_decode_trace_algorithm.tex. '' @
        ''Use generate_full_transformer.generate_llama2_7b_dense_decoder_records for decode-block v2.'')),
      (''workload_class'', PStr ''decode-heavy structured surrogate''), (''phase'', PStr ''decode''), (''batch'', PInt 1),
      (''generated_tokens'', PInt 1), (''past_len'', PInt 128), (''hidden_size'', PInt 4096), (''num_layers'', PInt 32),
      (''num_heads'', PInt 32), (''head_dim'', PInt 128), (''ffn_hidden_size'', PInt 11008), (''datatype'', PStr ''int8''),
      (''model_family'', PStr ''LLaMA-like decoder-only transformer''),
      (''pim_compute_operator_classes'', p_strs decode_pim_operators),
      (''host_support_record_classes'', p_strs [''attention_k_cache_read'', ''attention_v_cache_read'']),
      (''host_only_provenance_classes'', p_strs [''softmax'', ''layernorm'', ''sampling'', ''token_selection'', ''rope_or_position_update'',
        ''control_flow'', ''kv_cache_append_accounting'']),
      (''non_claims'', p_strs [''does_not_implement_paper_algorithm'', ''legacy_phase2_mvp_replay_fixture'']),
      (''ramulator_visible_defaults'', PDict
        [(''bank_sequence'', PList [PInt 0, PInt 1, PInt 2, PInt 3]), (''bank_sequence_order'', PStr ''controller''),
         (''pim_banks_per_block'', PInt 2), (''burst_length'', PInt 8), (''row_start'', PInt 0), (''row_count'', PInt 2),
         (''dependency_count'', PInt 2), (''tx_bytes'', PInt 64), (''column_start'', PInt 0)]),
      (''pim_operator_request_widths'', PDict
        [(''q_projection_gemv'', PStr ''hidden_size''), (''k_projection_gemv'', PStr ''hidden_size''),
         (''v_projection_gemv'', PStr ''hidden_size''), (''o_projection_gemv'', PStr ''hidden_size''),
         (''ffn_up_projection_gemv'', PStr ''ffn_hidden_size''), (''ffn_gate_projection_gemv'', PStr ''ffn_hidden_size''),
         (''ffn_down_projection_gemv'', PStr ''hidden_size'')]),
      (''scaffolding_notes'', PDict
        [(''deterministic_mvp_scaffolding'', PBool True), (''bank_count'', PInt 4), (''bank_sequence'', PList [PInt 0, PInt 1, PInt 2, PInt 3]),
         (''blocks_per_bank_pair'', PInt 2), (''row_count'', PInt 2), (''column_dependency_count'', PInt 2),
         (''dependency_notes'', PStr ''fixed bank/dependency defaults are deterministic MVP scaffolding, not universal decode semantics'')]),
      (''mapping_policy'', PDict
        [(''host_policy'', PStr ''bounded_sequential_host_requests''), (''pim_policy'', PStr ''per_bank_pimcompute_using_shared_block_serial''),
         (''bank_sequence_policy'', PStr ''controller_visible_round_robin_4bank''),
         (''shared_block_grouping_policy'', PStr ''pim_banks_per_block=2_shared_block_serial''), (''controller_bank_order'', PBool True),
         (''row_layout_policy'', PStr ''bounded_row_window_decode_only''),
         (''kv_cache_policy'', PStr ''host_visible_kv_reads_and_bounded_append_accounting'')]),
      (''literature_anchors'', p_strs
        [''2411.17309:decode_is_memory_bound_gemv'', ''FACIL:decode_bottleneck_and_gemv_profile'',
         ''2601.12298:decode_gemv_and_memory_bandwidth_bottleneck'', ''SamsungBreakthrough:generation_phase_dominates''])]"

section \<open>Fields of the manifest\<close>

text \<open>A number that the code computes with as it is.\<close>

definition g_exact :: "string \<Rightarrow> pyval \<Rightarrow> gen_error + int" where
  "g_exact f v = (case v of PInt i \<Rightarrow> Inr i | PBool b \<Rightarrow> Inr (if b then 1 else 0) | _ \<Rightarrow> Inl (GType f))"

definition m_exact :: "dict \<Rightarrow> string \<Rightarrow> gen_error + int" where
  "m_exact m f = rbind (g_get m f) (g_exact f)"

definition RAMULATOR_DEFAULT_FIELDS :: "string list" where
  "RAMULATOR_DEFAULT_FIELDS =
     [''bank_sequence'', ''bank_sequence_order'', ''pim_banks_per_block'', ''burst_length'', ''row_start'', ''row_count'',
      ''dependency_count'', ''tx_bytes'', ''column_start'']"

definition ramulator_defaults :: "dict \<Rightarrow> gen_error + dict" where
  "ramulator_defaults m =
     rbind (g_dict ''ramulator_visible_defaults'' (dgetd m ''ramulator_visible_defaults'' (PDict []))) (\<lambda>d.
     rbind (g_fields d RAMULATOR_DEFAULT_FIELDS) (\<lambda>_.
     rbind (require (truthy (item d ''bank_sequence'')) (GValue ''bank_sequence'')) (\<lambda>_.
     rbind (rmap (\<lambda>f. g_positive_int f (item d f)) [''row_count'', ''dependency_count'', ''burst_length'', ''tx_bytes'']) (\<lambda>_.
     Inr d))))"

definition d_int :: "dict \<Rightarrow> string \<Rightarrow> gen_error + int" where
  "d_int d f = rbind (g_get d f) (g_int f)"

definition pim_operator_width_field :: "string \<Rightarrow> dict \<Rightarrow> gen_error + string" where
  "pim_operator_width_field op m =
     rbind (g_dict ''pim_operator_request_widths'' (dgetd m ''pim_operator_request_widths'' (PDict []))) (\<lambda>widths.
     case dget widths op of
       None \<Rightarrow> Inl (GValue op)
     | Some w \<Rightarrow>
         rbind (require (hashable w) (GType op)) (\<lambda>_.
         case w of PStr f \<Rightarrow> rbind (require (has m f) (GValue op)) (\<lambda>_. Inr f) | _ \<Rightarrow> Inl (GValue op)))"

definition decode_non_claims :: "dict \<Rightarrow> string list" where
  "decode_non_claims m = (if truthy (item m ''mixed_phase_extension'') then MIXED_PHASE_NON_CLAIMS else REQUIRED_NON_CLAIMS)"

definition decode_mapping_policy :: "dict \<Rightarrow> gen_error + dict" where
  "decode_mapping_policy m =
     rbind (ramulator_defaults m) (\<lambda>d.
     rbind (rbind (g_get m ''mapping_policy'') (g_dict ''mapping_policy'')) (\<lambda>policy.
     rbind (g_list ''bank_sequence'' (item d ''bank_sequence'')) (\<lambda>banks.
     rbind (d_int d ''pim_banks_per_block'') (\<lambda>per_block.
     rbind (d_int d ''burst_length'') (\<lambda>burst.
     rbind (d_int d ''row_start'') (\<lambda>row_start.
     rbind (d_int d ''row_count'') (\<lambda>row_count.
     Inr (dupdate policy
       [(''controller_bank_order'', item d ''bank_sequence_order''), (''bank_sequence'', PList banks),
        (''pim_banks_per_block'', PInt per_block), (''burst_length'', PInt burst), (''row_start'', PInt row_start),
        (''row_count'', PInt row_count)]))))))))"

definition decode_provenance :: "dict \<Rightarrow> string \<Rightarrow> gen_error + dict" where
  "decode_provenance m op =
     rbind (g_get m ''manifest_name'') (\<lambda>name.
     rbind (rbind (g_get m ''literature_anchors'') (g_list ''literature_anchors'')) (\<lambda>anchors.
     rbind (g_get m ''model_family'') (\<lambda>family.
     rbind (g_get m ''workload_class'') (\<lambda>regime.
     Inr [(''source_kind'', PStr ''generated''), (''tuple_manifest'', name), (''literature_anchor'', PList anchors),
       (''generator_version'', PStr GENERATOR_VERSION), (''claim_boundary'', p_strs SEMANTIC_CLAIM_BOUNDARY),
       (''non_claims'', p_strs (decode_non_claims m)), (''selected_model_family'', family), (''selected_workload_regime'', regime),
       (''notes'', PStr (''bounded deterministic semantic generator record for '' @ op))]))))"

section \<open>Sizes\<close>

definition host_read_bytes :: "dict \<Rightarrow> gen_error + int" where
  "host_read_bytes m = rbind (m_exact m ''past_len'') (\<lambda>p. rbind (m_exact m ''hidden_size'') (\<lambda>h. Inr (p * h)))"

definition host_write_bytes :: "dict \<Rightarrow> gen_error + int" where
  "host_write_bytes m = rbind (m_exact m ''hidden_size'') (\<lambda>h. Inr (2 * h))"

definition prefill_token_count :: "dict \<Rightarrow> gen_error + int" where
  "prefill_token_count m =
     rbind (g_get m ''past_len'') (\<lambda>past. g_int ''prefill_tokens'' (dgetd m ''prefill_tokens'' (dgetd m ''prompt_len'' past)))"

definition prefill_host_bytes :: "dict \<Rightarrow> gen_error + int" where
  "prefill_host_bytes m = rbind (prefill_token_count m) (\<lambda>n. rbind (m_exact m ''hidden_size'') (\<lambda>h. Inr (n * h)))"

definition prefill_kv_write_bytes :: "dict \<Rightarrow> gen_error + int" where
  "prefill_kv_write_bytes m = rbind (prefill_token_count m) (\<lambda>n. rbind (m_exact m ''hidden_size'') (\<lambda>h. Inr (max 1 (2 * n * h))))"

definition pim_num_requests :: "string \<Rightarrow> dict \<Rightarrow> gen_error + int" where
  "pim_num_requests op m =
     rbind (g_get m ''datatype'') (\<lambda>dt.
     rbind (pim_operator_width_field op m) (\<lambda>f.
     rbind (m_exact m f) (\<lambda>width.
     Inr (max 1 (width div (if dt = PStr ''int8'' then 32 else 16))))))"

section \<open>Records\<close>

definition decode_base_record :: "string \<Rightarrow> string \<Rightarrow> string \<Rightarrow> string \<Rightarrow> dict \<Rightarrow> gen_error + dict" where
  "decode_base_record rid kind layer op m =
     rbind (g_get m ''phase'') (\<lambda>phase.
     rbind (decode_provenance m op) (\<lambda>provenance.
     rbind (decode_mapping_policy m) (\<lambda>policy.
     Inr [(''schema_version'', PStr SCHEMA_VERSION), (''record_id'', PStr rid), (''kind'', PStr kind), (''phase'', phase),
       (''layer'', PStr layer), (''op'', PStr op), (''repeat'', PInt 1), (''provenance'', PDict provenance),
       (''mapping_policy'', PDict policy)])))"

definition with_phase :: "string \<Rightarrow> dict \<Rightarrow> dict" where
  "with_phase phase r = dset ''phase'' (PStr phase) r"

definition decode_host_record :: "string \<Rightarrow> string \<Rightarrow> nat \<Rightarrow> string \<Rightarrow> dict \<Rightarrow> int \<Rightarrow> int \<Rightarrow> gen_error + dict" where
  "decode_host_record rid kind layer op m base_byte size_bytes =
     rbind (ramulator_defaults m) (\<lambda>d.
     rbind (d_int d ''tx_bytes'') (\<lambda>tx_bytes.
     rbind (decode_base_record rid kind (layer_name layer) op m) (\<lambda>r.
     Inr (dupdate r
       [(''bytes'', PInt size_bytes),
        (''address_policy'', PDict
          [(''kind'', PStr ''bounded_sequential_host_requests''), (''base_byte'', PInt base_byte), (''stride_bytes'', PInt tx_bytes),
           (''count'', PInt (max 1 (size_bytes div tx_bytes)))])]))))"

text \<open>The dependency, row and column of a layer, for the two kinds of multiplication.\<close>

definition layer_policies :: "dict \<Rightarrow> nat \<Rightarrow> string \<Rightarrow> gen_error + dict" where
  "layer_policies d layer row_kind =
     rbind (d_int d ''row_start'') (\<lambda>row_start.
     rbind (d_int d ''row_count'') (\<lambda>row_count.
     rbind (d_int d ''dependency_count'') (\<lambda>dependency_count.
     rbind (d_int d ''column_start'') (\<lambda>column_start.
     Inr [(''dependency_context'', PDict
            [(''kind'', PStr ''column_dependency_count''), (''dependency_count'', PInt dependency_count),
             (''dependency_id'', PInt (int layer mod dependency_count))]),
          (''row_policy'', PDict
            [(''kind'', PStr row_kind), (''row_start'', PInt row_start), (''row_count'', PInt row_count),
             (''resolved_row'', PInt (row_start + int layer mod row_count))]),
          (''column_policy'', PDict
            [(''kind'', PStr ''dependency_column_round_robin''), (''column_start'', PInt column_start),
             (''resolved_column'', PInt (column_start + int layer mod dependency_count))])]))))"

definition run_level_datatype :: "pyval \<Rightarrow> pyval" where
  "run_level_datatype dt = PDict
     [(''datatype'', dt), (''role'', PStr ''homogeneous_run_level_metadata''), (''behavior_claim'', PStr ''explicit_resource_rows_only'')]"

definition decode_pim_record :: "string \<Rightarrow> nat \<Rightarrow> string \<Rightarrow> dict \<Rightarrow> gen_error + dict" where
  "decode_pim_record rid layer op m =
     rbind (ramulator_defaults m) (\<lambda>d.
     rbind (layer_policies d layer ''bounded_row_window_decode_only'') (\<lambda>policies.
     rbind (decode_base_record rid ''PIMCompute'' (layer_name layer) op m) (\<lambda>r.
     rbind (pim_num_requests op m) (\<lambda>n.
     rbind (g_list ''bank_sequence'' (item d ''bank_sequence'')) (\<lambda>banks.
     rbind (g_get m ''datatype'') (\<lambda>dt.
     rbind (d_int d ''burst_length'') (\<lambda>burst.
     Inr (dupdate r
       ([(''num_requests'', PInt n), (''bank_sequence'', PList banks)] @ policies @
        [(''datatype_metadata'', run_level_datatype dt), (''burst_length'', PInt burst)])))))))))"

definition decode_all_bank_record :: "string \<Rightarrow> string \<Rightarrow> nat \<Rightarrow> string \<Rightarrow> dict \<Rightarrow> gen_error + dict" where
  "decode_all_bank_record rid kind layer op m =
     rbind (ramulator_defaults m) (\<lambda>d.
     rbind (layer_policies d layer ''bounded_row_window_all_bank_semantic'') (\<lambda>policies.
     rbind (decode_base_record rid kind (layer_name layer) op m) (\<lambda>r.
     rbind (g_get m ''datatype'') (\<lambda>dt.
     Inr (dupdate r
       ([(''num_requests'', PInt 1), (''all_bank_scope'', PStr ''rank'')] @ policies @
        [(''datatype_metadata'', run_level_datatype dt)]))))))"

definition decode_barrier_record :: "string \<Rightarrow> nat \<Rightarrow> dict \<Rightarrow> gen_error + dict" where
  "decode_barrier_record rid layer m =
     rbind (decode_base_record rid ''Barrier'' (layer_name layer) ''layer_transition_barrier'' m) (\<lambda>r.
     Inr (dset ''barrier_scope'' (PStr ''layer'') r))"

definition decode_drain_record :: "string \<Rightarrow> dict \<Rightarrow> gen_error + dict" where
  "decode_drain_record rid m =
     rbind (decode_base_record rid ''Drain'' ''decode_tail'' ''final_drain'' m) (\<lambda>r. Inr (dset ''drain_scope'' (PStr ''trace'') r))"

section \<open>Layers\<close>

text \<open>\<open>records.append(...)\<close> and \<open>next_id += 1\<close>, for a record that may fail.\<close>

definition emit_record :: "string \<Rightarrow> (string \<Rightarrow> gen_error + dict) \<Rightarrow> gen_state \<Rightarrow> gen_error + gen_state" where
  "emit_record phase mk st = rbind (mk (next_rec st)) (\<lambda>r. Inr (push (\<lambda>_. with_phase phase r) st))"

definition emit_decode_op :: "dict \<Rightarrow> nat \<Rightarrow> gen_state \<Rightarrow> string \<Rightarrow> gen_error + gen_state" where
  "emit_decode_op m layer st op =
     (if truthy (item m ''enable_all_bank_records'')
      then
        rbind (emit_record ''decode'' (\<lambda>rid. decode_all_bank_record rid ''PIMLoadAll'' layer (op @ ''_all_bank_load'') m) st) (\<lambda>st.
        emit_record ''decode'' (\<lambda>rid. decode_all_bank_record rid ''PIMComputeAll'' layer (op @ ''_all_bank_compute'') m) st)
      else emit_record ''decode'' (\<lambda>rid. decode_pim_record rid layer op m) st)"

definition decode_layer_base :: "nat \<Rightarrow> int" where
  "decode_layer_base layer = int layer * 0x100000"

definition emit_decode_layer :: "dict \<Rightarrow> gen_state \<Rightarrow> nat \<Rightarrow> gen_error + gen_state" where
  "emit_decode_layer m st layer =
     rbind (host_read_bytes m) (\<lambda>read.
     rbind (host_write_bytes m) (\<lambda>write.
     rbind (string_set m ''pim_compute_operator_classes'') (\<lambda>ops.
     let base = decode_layer_base layer in
     rbind (emit_record ''decode'' (\<lambda>rid. decode_host_record rid ''HostRead'' layer ''attention_k_cache_read'' m base read) st) (\<lambda>st.
     rbind (emit_record ''decode'' (\<lambda>rid. decode_host_record rid ''HostRead'' layer ''attention_v_cache_read'' m (base + read) read) st) (\<lambda>st.
     rbind (rfold (emit_decode_op m layer) st ops) (\<lambda>st.
     rbind (emit_record ''decode'' (\<lambda>rid. decode_host_record rid ''HostWrite'' layer ''kv_cache_append_accounting'' m (base + 2 * read) write) st) (\<lambda>st.
     emit_record ''decode'' (\<lambda>rid. decode_barrier_record rid layer m) st)))))))"

text \<open>A prefill operator: its width goes into the manifest.\<close>

definition remember_width :: "string \<Rightarrow> pyval \<Rightarrow> dict \<Rightarrow> gen_error + dict" where
  "remember_width op w m =
     rbind (g_dict ''pim_operator_request_widths'' (dgetd m ''pim_operator_request_widths'' (PDict []))) (\<lambda>d.
     Inr (dset ''pim_operator_request_widths'' (PDict (dset op w d)) m))"

definition emit_prefill_op :: "nat \<Rightarrow> gen_state \<times> dict \<Rightarrow> string \<Rightarrow> gen_error + gen_state \<times> dict" where
  "emit_prefill_op layer = (\<lambda>(st, m) op.
     rbind (g_dict ''prefill_pim_operator_request_widths'' (dgetd m ''prefill_pim_operator_request_widths'' (PDict []))) (\<lambda>widths.
     let w = dgetd widths op (PStr ''hidden_size'') in
     rbind (require (hashable w) (GType op)) (\<lambda>_.
     rbind (require (case w of PStr f \<Rightarrow> has m f | _ \<Rightarrow> False) (GValue op)) (\<lambda>_.
     rbind (remember_width op w m) (\<lambda>m.
     rbind (emit_record ''prefill'' (\<lambda>rid. decode_pim_record rid layer op m) st) (\<lambda>st. Inr (st, m)))))))"

definition prefill_operators :: "dict \<Rightarrow> gen_error + string list" where
  "prefill_operators m =
     rbind (g_list ''prefill_pim_compute_operator_classes''
       (dgetd m ''prefill_pim_compute_operator_classes'' (p_strs [''prefill_qkv_projection_gemm'']))) (\<lambda>xs.
     rmap (\<lambda>x. case x of PStr s \<Rightarrow> Inr s | _ \<Rightarrow> Inl (GType ''prefill_pim_compute_operator_classes'')) xs)"

definition prefill_layer_base :: "nat \<Rightarrow> int" where
  "prefill_layer_base layer = 0x80000000 + int layer * 0x100000"

definition emit_prefill_layer :: "gen_state \<times> dict \<Rightarrow> nat \<Rightarrow> gen_error + gen_state \<times> dict" where
  "emit_prefill_layer = (\<lambda>(st, m) layer.
     rbind (prefill_host_bytes m) (\<lambda>read.
     rbind (prefill_kv_write_bytes m) (\<lambda>write.
     let base = prefill_layer_base layer in
     rbind (emit_record ''prefill'' (\<lambda>rid. decode_host_record rid ''HostRead'' layer ''prefill_prompt_activation_read'' m base read) st) (\<lambda>st.
     rbind (prefill_operators m) (\<lambda>ops.
     rbind (rfold (emit_prefill_op layer) (st, m) ops) (\<lambda>(st, m).
     rbind (emit_record ''prefill'' (\<lambda>rid. decode_host_record rid ''HostWrite'' layer ''prefill_kv_cache_population_accounting'' m (base + read) write) st) (\<lambda>st.
     rbind (emit_record ''prefill'' (\<lambda>rid. decode_barrier_record rid layer m) st) (\<lambda>st. Inr (st, m)))))))))"

section \<open>The generator\<close>

definition prefill_layer_count :: "dict \<Rightarrow> gen_error + int" where
  "prefill_layer_count m =
     rbind (m_exact m ''num_layers'') (\<lambda>n. g_int ''prefill_layers'' (dgetd m ''prefill_layers'' (PInt (min 1 n))))"

text \<open>The records, and the manifest as the caller finds it.\<close>

definition generate_decode_only_records :: "dict \<Rightarrow> gen_error + dict list \<times> dict" where
  "generate_decode_only_records m =
     rbind (validate_decode_manifest m) (\<lambda>_.
     rbind (if truthy (item m ''mixed_phase_extension'')
       then rbind (prefill_layer_count m) (\<lambda>n. rfold emit_prefill_layer (gen_start, m) [0..<nat n])
       else Inr (gen_start, m)) (\<lambda>(st, m).
     rbind (m_exact m ''num_layers'') (\<lambda>n.
     rbind (rfold (emit_decode_layer m) st [0..<nat n]) (\<lambda>st.
     rbind (decode_drain_record (next_rec st) m) (\<lambda>r.
     rbind (validate_all (gs_records (push (\<lambda>_. r) st))) (\<lambda>rs. Inr (rs, m)))))))"

section \<open>The summary\<close>

record trace_totals =
  tt_by_kind :: dict
  tt_host_bytes :: int
  tt_pim_requests :: int
  tt_barriers :: int
  tt_drains :: int

definition no_totals :: trace_totals where
  "no_totals = \<lparr>tt_by_kind = [], tt_host_bytes = 0, tt_pim_requests = 0, tt_barriers = 0, tt_drains = 0\<rparr>"

definition kind_count :: "dict \<Rightarrow> string \<Rightarrow> int" where
  "kind_count d k = (case dget d k of Some (PInt i) \<Rightarrow> i | _ \<Rightarrow> 0)"

text \<open>Kinds are keys of a dictionary; those of a record that was generated are strings.\<close>

definition add_to_totals :: "trace_totals \<Rightarrow> dict \<Rightarrow> gen_error + trace_totals" where
  "add_to_totals t r =
     rbind (g_get r ''kind'') (\<lambda>v.
     case v of
       PStr k \<Rightarrow>
         let t = t\<lparr>tt_by_kind := dset k (PInt (kind_count (tt_by_kind t) k + 1)) (tt_by_kind t)\<rparr> in
         if k \<in> {''HostRead'', ''HostWrite''} then rbind (d_int r ''bytes'') (\<lambda>n. Inr (t\<lparr>tt_host_bytes := tt_host_bytes t + n\<rparr>))
         else if k \<in> {''PIMCompute'', ''PIMLoadAll'', ''PIMComputeAll''}
         then rbind (d_int r ''num_requests'') (\<lambda>n. Inr (t\<lparr>tt_pim_requests := tt_pim_requests t + n\<rparr>))
         else if k = ''Barrier'' then Inr (t\<lparr>tt_barriers := tt_barriers t + 1\<rparr>)
         else if k = ''Drain'' then Inr (t\<lparr>tt_drains := tt_drains t + 1\<rparr>)
         else Inr t
     | _ \<Rightarrow> Inl (GType ''kind''))"

definition trace_totals_of :: "dict list \<Rightarrow> gen_error + trace_totals" where
  "trace_totals_of rs = rfold add_to_totals no_totals rs"

definition DECODE_ONLY_DEPRECATION_NOTE :: string where
  "DECODE_ONLY_DEPRECATION_NOTE = ''Legacy P2 MVP replay fixture; does not implement paper/algorithms/llama2_decode_trace_algorithm.tex. '' @
     ''Use ramulator.workload_surrogate.generate_full_transformer.generate_llama2_7b_dense_decoder_records for decode-block v2.''"

text \<open>A field that the summary copies as a list or as a dictionary.\<close>

definition m_list :: "dict \<Rightarrow> string \<Rightarrow> gen_error + string \<times> pyval" where
  "m_list m f = rbind (rbind (g_get m f) (g_list f)) (\<lambda>xs. Inr (f, PList xs))"

definition m_dict :: "dict \<Rightarrow> string \<Rightarrow> gen_error + string \<times> pyval" where
  "m_dict m f = rbind (rbind (g_get m f) (g_dict f)) (\<lambda>d. Inr (f, PDict d))"

definition m_copy :: "dict \<Rightarrow> string \<Rightarrow> gen_error + string \<times> pyval" where
  "m_copy m f = rbind (g_get m f) (\<lambda>v. Inr (f, v))"

definition build_decode_summary :: "dict list \<Rightarrow> dict \<Rightarrow> gen_error + dict" where
  "build_decode_summary rs m =
     rbind (trace_totals_of rs) (\<lambda>t.
     rbind (rmap (m_copy m) [''manifest_version'', ''model_family'', ''phase'']) (\<lambda>identity.
     rbind (m_copy m ''datatype'') (\<lambda>datatype.
     rbind (semantic_record_count rs) (\<lambda>n.
     rbind (rmap (m_list m) [''pim_compute_operator_classes'', ''host_support_record_classes'', ''host_only_provenance_classes'']) (\<lambda>classes.
     rbind (rmap (m_dict m) [''ramulator_visible_defaults'', ''pim_operator_request_widths'']) (\<lambda>tables.
     rbind (g_dict ''scaffolding_notes'' (dgetd m ''scaffolding_notes'' (PDict []))) (\<lambda>notes.
     rbind (decode_mapping_policy m) (\<lambda>policy.
     rbind (m_list m ''literature_anchors'') (\<lambda>anchors.
     rbind (g_get m ''num_layers'') (\<lambda>layers.
     Inr ([(''schema_version'', PStr SCHEMA_VERSION), (''generator_version'', PStr GENERATOR_VERSION)] @ identity @
       [(''mixed_phase_extension'', PBool (truthy (item m ''mixed_phase_extension''))),
        (''mixed_phase_approval'', item m ''mixed_phase_approval''),
        (''enable_all_bank_records'', PBool (truthy (item m ''enable_all_bank_records''))),
        (''all_bank_records_approval'', item m ''all_bank_records_approval''), datatype,
        (''record_counts_by_kind'', PDict (tt_by_kind t)), (''total_logical_records'', PInt (int (length rs))),
        (''total_expanded_records'', PInt n)] @ classes @
       [(''lifecycle_status'', dgetd m ''lifecycle_status'' (PStr ''legacy_deprecated_p2_mvp'')),
        (''replacement_generator'', dgetd m ''replacement_generator''
          (PStr ''ramulator.workload_surrogate.generate_full_transformer.generate_llama2_7b_dense_decoder_records'')),
        (''deprecation_note'', dgetd m ''deprecation_note'' (PStr DECODE_ONLY_DEPRECATION_NOTE))] @ tables @
       [(''scaffolding_notes'', PDict notes), (''mapping_policy'', PDict policy), anchors,
        (''claim_boundary'', p_strs SEMANTIC_CLAIM_BOUNDARY), (''non_claims'', p_strs (decode_non_claims m)),
        (''num_layers_emitted'', layers), (''estimated_host_bytes'', PInt (tt_host_bytes t)),
        (''estimated_pim_requests'', PInt (tt_pim_requests t)), (''barrier_count'', PInt (tt_barriers t)), (''drain_count'', PInt (tt_drains t)),
        (''notes'', PStr ''deterministic decode-only-first structured workload-surrogate generator output, P2.4-pre frozen contract'')])))))))))))"

text \<open>The documents of the two artifact files: the lines of the trace and the summary.\<close>

definition decode_only_artifacts :: "dict option \<Rightarrow> gen_error + trace_line list \<times> dict" where
  "decode_only_artifacts manifest =
     (let m = (case manifest of None \<Rightarrow> DECODE_ONLY_MANIFEST | Some m \<Rightarrow> m) in
      rbind (validate_decode_manifest m) (\<lambda>_.
      rbind (generate_decode_only_records m) (\<lambda>(rs, m).
      rbind (build_decode_summary rs m) (\<lambda>summary.
      rbind (write_structured rs) (\<lambda>trace_lines. Inr (trace_lines, summary))))))"

end
