(* ===== verification/Decode_Only_Facts.thy ===== *)
theory Decode_Only_Facts
  imports Decode_Only Surrogate_Facts
begin

text \<open>
  What the decode-only generator writes: the outline of a trace (the layer, kind and operation of each
  record, with the bytes a host access covers) as a function of the manifest, and that the records
  are numbered in order.
\<close>

section \<open>Outlines\<close>

definition host_range :: "dict \<Rightarrow> (int \<times> int) option" where
  "host_range r =
     (case (item (sub_of r ''address_policy'') ''base_byte'', item r ''bytes'') of (PInt b, PInt n) \<Rightarrow> Some (b, n) | _ \<Rightarrow> None)"

type_synonym outline = "string \<times> string \<times> string \<times> (int \<times> int) option"

definition layer_of :: "dict \<Rightarrow> string" where
  "layer_of r = text_of (item r ''layer'')"

definition outline_of :: "dict \<Rightarrow> outline" where
  "outline_of r = (layer_of r, kind_of r, op_of r, host_range r)"

definition adds :: "gen_state \<Rightarrow> outline list \<Rightarrow> gen_state \<Rightarrow> bool" where
  "adds st os st' \<longleftrightarrow> gs_next st' = gs_next st + length os \<and>
     (\<exists>rs. gs_records st' = gs_records st @ rs \<and> map outline_of rs = os \<and>
        map record_id_of rs = map rec_id [gs_next st..<gs_next st + length os])"

lemma adds_refl [simp]: "adds st [] st"
  by (simp add: adds_def)

lemma adds_trans: "adds a xs b \<Longrightarrow> adds b ys c \<Longrightarrow> adds a (xs @ ys) c"
proof -
  assume ab: "adds a xs b" and bc: "adds b ys c"
  obtain rs where rs: "gs_records b = gs_records a @ rs" "map outline_of rs = xs"
      "map record_id_of rs = map rec_id [gs_next a..<gs_next a + length xs]" "gs_next b = gs_next a + length xs"
    using ab by (auto simp: adds_def)
  obtain rs' where rs': "gs_records c = gs_records b @ rs'" "map outline_of rs' = ys"
      "map record_id_of rs' = map rec_id [gs_next b..<gs_next b + length ys]" "gs_next c = gs_next b + length ys"
    using bc by (auto simp: adds_def)
  have "[gs_next a..<gs_next a + length (xs @ ys)] = [gs_next a..<gs_next b] @ [gs_next b..<gs_next b + length ys]"
    using upt_add_eq_append[of "gs_next a" "gs_next b" "length ys"] by (simp add: rs(4) add.assoc)
  then show ?thesis using rs rs' by (auto simp: adds_def intro!: exI[of _ "rs @ rs'"])
qed

lemma rfold_outline:
  assumes "\<And>st x st'. x \<in> set xs \<Longrightarrow> f st x = Inr st' \<Longrightarrow> adds st (g x) st'" and "rfold f st xs = Inr st'"
  shows "adds st (concat (map g xs)) st'"
  using assms
proof (induction xs arbitrary: st)
  case (Cons x xs)
  then obtain st1 where "f st x = Inr st1" "rfold f st1 xs = Inr st'" by (auto simp: rbind_Inr_iff)
  then show ?case using Cons.prems(1)[of x st st1] Cons.IH[of st1] Cons.prems(1) by (auto intro: adds_trans)
qed simp

section \<open>Records\<close>

lemma base_head:
  assumes "decode_base_record rid kind layer op m = Inr r"
  shows "record_id_of r = rid" and "kind_of r = kind" and "op_of r = op" and "host_range r = None" and "layer_of r = layer"
  using assms
  by (auto simp: decode_base_record_def rbind_Inr_iff record_id_of_def kind_of_def op_of_def host_range_def sub_of_def dgetd_def text_of_def layer_of_def)

lemma with_phase_outline [simp]: "outline_of (with_phase phase r) = outline_of r" "record_id_of (with_phase phase r) = record_id_of r"
  by (simp_all add: outline_of_def layer_of_def with_phase_def host_range_def kind_of_def op_of_def record_id_of_def sub_of_def dgetd_def dget_dset)

text \<open>Fields that the outline does not read.\<close>

definition outline_fields :: "string list" where
  "outline_fields = [''record_id'', ''kind'', ''op'', ''layer'', ''address_policy'', ''bytes'']"

lemma outline_dupdate:
  assumes "set outline_fields \<inter> set (dkeys kvs) = {}"
  shows "outline_of (dupdate r kvs) = outline_of r" and "record_id_of (dupdate r kvs) = record_id_of r"
proof -
  have "dget (dupdate r kvs) k = dget r k" if "k \<notin> set (dkeys kvs)" for k
    using that by (induction kvs arbitrary: r) (auto simp: dupdate_Cons dget_dset)
  then have "dget (dupdate r kvs) k = dget r k" if "k \<in> set outline_fields" for k
    using that assms by blast
  then show "outline_of (dupdate r kvs) = outline_of r" and "record_id_of (dupdate r kvs) = record_id_of r"
    by (simp_all add: outline_of_def layer_of_def host_range_def kind_of_def op_of_def record_id_of_def sub_of_def dgetd_def outline_fields_def)
qed

lemma host_outline:
  assumes "decode_host_record rid kind layer op m base n = Inr r"
  shows "record_id_of r = rid" and "outline_of r = (layer_name layer, kind, op, Some (base, n))"
proof -
  obtain tx r0 where r0: "decode_base_record rid kind (layer_name layer) op m = Inr r0"
    and r: "r = dupdate r0 [(''bytes'', PInt n), (''address_policy'', PDict
          [(''kind'', PStr ''bounded_sequential_host_requests''), (''base_byte'', PInt base), (''stride_bytes'', PInt tx),
           (''count'', PInt (max 1 (n div tx)))])]"
    using assms by (auto simp: decode_host_record_def rbind_Inr_iff)
  have "dget r k = dget r0 k" if "k \<noteq> ''bytes''" "k \<noteq> ''address_policy''" for k
    using that by (simp add: r dupdate_Cons dget_dset)
  moreover have "host_range r = Some (base, n)"
    by (simp add: r host_range_def sub_of_def dgetd_def dupdate_Cons dget_dset)
  ultimately show "record_id_of r = rid" and "outline_of r = (layer_name layer, kind, op, Some (base, n))"
    using base_head[OF r0] by (simp_all add: outline_of_def layer_of_def record_id_of_def kind_of_def op_of_def dgetd_def)
qed

lemma policy_fields_of_layer:
  "layer_policies d layer k = Inr p \<Longrightarrow> dkeys p = [''dependency_context'', ''row_policy'', ''column_policy'']"
  by (auto simp: layer_policies_def rbind_Inr_iff)

lemma pim_outline:
  assumes "decode_pim_record rid layer op m = Inr r"
  shows "record_id_of r = rid" and "outline_of r = (layer_name layer, ''PIMCompute'', op, None)"
proof -
  obtain d p r0 n banks dt burst where p: "layer_policies d layer ''bounded_row_window_decode_only'' = Inr p"
    and r0: "decode_base_record rid ''PIMCompute'' (layer_name layer) op m = Inr r0"
    and r: "r = dupdate r0 ([(''num_requests'', PInt n), (''bank_sequence'', PList banks)] @ p @
        [(''datatype_metadata'', run_level_datatype dt), (''burst_length'', PInt burst)])"
    using assms unfolding decode_pim_record_def rbind_Inr_iff by blast
  have "set outline_fields \<inter> set (dkeys ([(''num_requests'', PInt n), (''bank_sequence'', PList banks)] @ p @
        [(''datatype_metadata'', run_level_datatype dt), (''burst_length'', PInt burst)])) = {}"
    by (simp add: outline_fields_def policy_fields_of_layer[OF p])
  note same = outline_dupdate[OF this, of r0, folded r]
  show "record_id_of r = rid" and "outline_of r = (layer_name layer, ''PIMCompute'', op, None)"
    using same base_head[OF r0] by (simp_all add: outline_of_def)
qed

lemma all_bank_outline:
  assumes "decode_all_bank_record rid kind layer op m = Inr r"
  shows "record_id_of r = rid" and "outline_of r = (layer_name layer, kind, op, None)"
proof -
  obtain d p r0 dt where p: "layer_policies d layer ''bounded_row_window_all_bank_semantic'' = Inr p"
    and r0: "decode_base_record rid kind (layer_name layer) op m = Inr r0"
    and r: "r = dupdate r0 ([(''num_requests'', PInt 1), (''all_bank_scope'', PStr ''rank'')] @ p @
        [(''datatype_metadata'', run_level_datatype dt)])"
    using assms unfolding decode_all_bank_record_def rbind_Inr_iff by blast
  have "set outline_fields \<inter> set (dkeys ([(''num_requests'', PInt 1), (''all_bank_scope'', PStr ''rank'')] @ p @
        [(''datatype_metadata'', run_level_datatype dt)])) = {}"
    by (simp add: outline_fields_def policy_fields_of_layer[OF p])
  note same = outline_dupdate[OF this, of r0, folded r]
  show "record_id_of r = rid" and "outline_of r = (layer_name layer, kind, op, None)"
    using same base_head[OF r0] by (simp_all add: outline_of_def)
qed

lemma scope_outline:
  "decode_barrier_record rid layer m = Inr r \<Longrightarrow> record_id_of r = rid \<and> outline_of r = (layer_name layer, ''Barrier'', ''layer_transition_barrier'', None)"
  "decode_drain_record rid m = Inr r \<Longrightarrow> record_id_of r = rid \<and> outline_of r = (''decode_tail'', ''Drain'', ''final_drain'', None)"
proof -
  have "outline_of (dset f v r0) = outline_of r0 \<and> record_id_of (dset f v r0) = record_id_of r0" if "f \<notin> set outline_fields" for f v r0
    using that by (auto simp: outline_of_def layer_of_def host_range_def kind_of_def op_of_def record_id_of_def sub_of_def dgetd_def dget_dset outline_fields_def)
  then show
    "decode_barrier_record rid layer m = Inr r \<Longrightarrow> record_id_of r = rid \<and> outline_of r = (layer_name layer, ''Barrier'', ''layer_transition_barrier'', None)"
    "decode_drain_record rid m = Inr r \<Longrightarrow> record_id_of r = rid \<and> outline_of r = (''decode_tail'', ''Drain'', ''final_drain'', None)"
    by (auto simp: decode_barrier_record_def decode_drain_record_def rbind_Inr_iff outline_fields_def outline_of_def dest: base_head)
qed

lemma emit_adds:
  assumes "emit_record phase mk st = Inr st'" and "\<And>r. mk (next_rec st) = Inr r \<Longrightarrow> record_id_of r = next_rec st \<and> outline_of r = o'"
  shows "adds st [o'] st'"
  using assms by (auto simp: emit_record_def rbind_Inr_iff adds_def push_def next_rec_def)

section \<open>Layers\<close>

definition op_outline :: "dict \<Rightarrow> nat \<Rightarrow> string \<Rightarrow> outline list" where
  "op_outline m layer op =
     (if truthy (item m ''enable_all_bank_records'')
      then [(layer_name layer, ''PIMLoadAll'', op @ ''_all_bank_load'', None), (layer_name layer, ''PIMComputeAll'', op @ ''_all_bank_compute'', None)]
      else [(layer_name layer, ''PIMCompute'', op, None)])"

text \<open>The bytes of a layer: the keys, the values, then the pair of the new token.\<close>

definition decode_layer_outline :: "dict \<Rightarrow> int \<Rightarrow> int \<Rightarrow> string list \<Rightarrow> nat \<Rightarrow> outline list" where
  "decode_layer_outline m read write ops layer =
     (let base = decode_layer_base layer in
      [(layer_name layer, ''HostRead'', ''attention_k_cache_read'', Some (base, read)), (layer_name layer, ''HostRead'', ''attention_v_cache_read'', Some (base + read, read))] @
      concat (map (op_outline m layer) ops) @
      [(layer_name layer, ''HostWrite'', ''kv_cache_append_accounting'', Some (base + 2 * read, write)), (layer_name layer, ''Barrier'', ''layer_transition_barrier'', None)])"

lemma decode_op_adds: "emit_decode_op m layer st op = Inr st' \<Longrightarrow> adds st (op_outline m layer op) st'"
proof (cases "truthy (item m ''enable_all_bank_records'')")
  case True
  assume "emit_decode_op m layer st op = Inr st'"
  then obtain st1 where
    1: "emit_record ''decode'' (\<lambda>rid. decode_all_bank_record rid ''PIMLoadAll'' layer (op @ ''_all_bank_load'') m) st = Inr st1" and
    2: "emit_record ''decode'' (\<lambda>rid. decode_all_bank_record rid ''PIMComputeAll'' layer (op @ ''_all_bank_compute'') m) st1 = Inr st'"
    using True by (auto simp: emit_decode_op_def rbind_Inr_iff)
  have "adds st [(layer_name layer, ''PIMLoadAll'', op @ ''_all_bank_load'', None)] st1" by (rule emit_adds[OF 1]) (auto dest: all_bank_outline)
  moreover have "adds st1 [(layer_name layer, ''PIMComputeAll'', op @ ''_all_bank_compute'', None)] st'" by (rule emit_adds[OF 2]) (auto dest: all_bank_outline)
  ultimately show ?thesis using True adds_trans by (fastforce simp: op_outline_def)
next
  case False
  assume "emit_decode_op m layer st op = Inr st'"
  then show ?thesis using False by (auto simp: emit_decode_op_def op_outline_def dest: pim_outline intro: emit_adds)
qed

lemma decode_layer_adds:
  assumes "emit_decode_layer m st layer = Inr st'" and "host_read_bytes m = Inr read" and "host_write_bytes m = Inr write"
    and "string_set m ''pim_compute_operator_classes'' = Inr ops"
  shows "adds st (decode_layer_outline m read write ops layer) st'"
proof -
  let ?b = "decode_layer_base layer"
  obtain st1 st2 st3 st4 where
    1: "emit_record ''decode'' (\<lambda>rid. decode_host_record rid ''HostRead'' layer ''attention_k_cache_read'' m ?b read) st = Inr st1" and
    2: "emit_record ''decode'' (\<lambda>rid. decode_host_record rid ''HostRead'' layer ''attention_v_cache_read'' m (?b + read) read) st1 = Inr st2" and
    3: "rfold (emit_decode_op m layer) st2 ops = Inr st3" and
    4: "emit_record ''decode'' (\<lambda>rid. decode_host_record rid ''HostWrite'' layer ''kv_cache_append_accounting'' m (?b + 2 * read) write) st3 = Inr st4" and
    5: "emit_record ''decode'' (\<lambda>rid. decode_barrier_record rid layer m) st4 = Inr st'"
    using assms by (auto simp: emit_decode_layer_def rbind_Inr_iff Let_def)
  have "adds st [(layer_name layer, ''HostRead'', ''attention_k_cache_read'', Some (?b, read))] st1" by (rule emit_adds[OF 1]) (auto dest: host_outline)
  moreover have "adds st1 [(layer_name layer, ''HostRead'', ''attention_v_cache_read'', Some (?b + read, read))] st2" by (rule emit_adds[OF 2]) (auto dest: host_outline)
  moreover have "adds st2 (concat (map (op_outline m layer) ops)) st3" by (rule rfold_outline[OF decode_op_adds 3])
  moreover have "adds st3 [(layer_name layer, ''HostWrite'', ''kv_cache_append_accounting'', Some (?b + 2 * read, write))] st4"
    by (rule emit_adds[OF 4]) (auto dest: host_outline)
  moreover have "adds st4 [(layer_name layer, ''Barrier'', ''layer_transition_barrier'', None)] st'" by (rule emit_adds[OF 5]) (auto dest: scope_outline)
  ultimately have "adds st (([(layer_name layer, ''HostRead'', ''attention_k_cache_read'', Some (?b, read))] @
      [(layer_name layer, ''HostRead'', ''attention_v_cache_read'', Some (?b + read, read))]) @ concat (map (op_outline m layer) ops) @
      [(layer_name layer, ''HostWrite'', ''kv_cache_append_accounting'', Some (?b + 2 * read, write))] @ [(layer_name layer, ''Barrier'', ''layer_transition_barrier'', None)]) st'"
    by (intro adds_trans)
  then show ?thesis by (simp add: decode_layer_outline_def Let_def)
qed

end
