(* ===== verification/Decode_Only_Traces.thy ===== *)
theory Decode_Only_Traces
  imports Decode_Only_Facts
begin

text \<open>
  Whole traces of the decode-only generator: the outline of the prefill layers and of a trace, the
  bytes that a layer accesses, and the manifests on which the generator succeeds.
\<close>

section \<open>Prefill layers\<close>

definition prefill_layer_outline :: "int \<Rightarrow> int \<Rightarrow> string list \<Rightarrow> nat \<Rightarrow> outline list" where
  "prefill_layer_outline read write ops layer =
     (let base = prefill_layer_base layer in
      [(layer_name layer, ''HostRead'', ''prefill_prompt_activation_read'', Some (base, read))] @
      map (\<lambda>op. (layer_name layer, ''PIMCompute'', op, None)) ops @
      [(layer_name layer, ''HostWrite'', ''prefill_kv_cache_population_accounting'', Some (base + read, write)),
       (layer_name layer, ''Barrier'', ''layer_transition_barrier'', None)])"

text \<open>A prefill layer changes the manifest in its table of widths only.\<close>

definition same_but_widths :: "dict \<Rightarrow> dict \<Rightarrow> bool" where
  "same_but_widths m m' \<longleftrightarrow> (\<forall>f. f \<noteq> ''pim_operator_request_widths'' \<longrightarrow> dget m' f = dget m f)"

lemma same_refl [simp]: "same_but_widths m m"
  by (simp add: same_but_widths_def)

lemma same_trans: "same_but_widths a b \<Longrightarrow> same_but_widths b c \<Longrightarrow> same_but_widths a c"
  by (simp add: same_but_widths_def)

lemma same_reads:
  assumes "same_but_widths m m'" and "f \<noteq> ''pim_operator_request_widths''"
  shows "dget m' f = dget m f" and "g_get m' f = g_get m f" and "dgetd m' f v = dgetd m f v" and "m_exact m' f = m_exact m f"
  using assms by (simp_all add: same_but_widths_def g_get_def dgetd_def m_exact_def)

lemma same_sizes:
  assumes "same_but_widths m m'"
  shows "host_read_bytes m' = host_read_bytes m" and "host_write_bytes m' = host_write_bytes m" and "prefill_host_bytes m' = prefill_host_bytes m"
    and "prefill_kv_write_bytes m' = prefill_kv_write_bytes m" and "prefill_operators m' = prefill_operators m"
    and "string_set m' ''pim_compute_operator_classes'' = string_set m ''pim_compute_operator_classes''"
  by (simp_all add: host_read_bytes_def host_write_bytes_def prefill_host_bytes_def prefill_kv_write_bytes_def prefill_token_count_def
      prefill_operators_def string_set_def same_reads[OF assms])

lemma remember_same: "remember_width op w m = Inr m' \<Longrightarrow> same_but_widths m m'"
  by (auto simp: remember_width_def rbind_Inr_iff same_but_widths_def dget_dset)

lemma prefill_op_adds:
  assumes "emit_prefill_op layer (st, m) op = Inr (st', m')"
  shows "adds st [(layer_name layer, ''PIMCompute'', op, None)] st' \<and> same_but_widths m m'"
proof -
  obtain w where w: "remember_width op w m = Inr m'" and e: "emit_record ''prefill'' (\<lambda>rid. decode_pim_record rid layer op m') st = Inr st'"
    using assms by (auto simp: emit_prefill_op_def rbind_Inr_iff Let_def)
  have "adds st [(layer_name layer, ''PIMCompute'', op, None)] st'" by (rule emit_adds[OF e]) (auto dest: pim_outline)
  then show ?thesis using remember_same[OF w] by simp
qed

text \<open>A fold of such steps, over records and manifest.\<close>

lemma rfold_adds_same:
  assumes step: "\<And>x st m st' m'. x \<in> set xs \<Longrightarrow> same_but_widths m0 m \<Longrightarrow> f (st, m) x = Inr (st', m') \<Longrightarrow>
      adds st (g x) st' \<and> same_but_widths m m'"
    and "same_but_widths m0 m" and "rfold f (st, m) xs = Inr (st', m')"
  shows "adds st (concat (map g xs)) st' \<and> same_but_widths m0 m'"
  using assms
proof (induction xs arbitrary: st m)
  case (Cons x xs)
  then obtain st1 m1 where 1: "f (st, m) x = Inr (st1, m1)" "rfold f (st1, m1) xs = Inr (st', m')" by (auto simp: rbind_Inr_iff)
  have s: "adds st (g x) st1" "same_but_widths m m1" using Cons.prems(1)[OF _ Cons.prems(2) 1(1)] by simp_all
  have "adds st1 (concat (map g xs)) st' \<and> same_but_widths m0 m'"
    by (rule Cons.IH[OF Cons.prems(1) same_trans[OF Cons.prems(2) s(2)] 1(2)]) simp
  then show ?case using s(1) by (auto intro: adds_trans)
qed simp

lemma prefill_layer_adds:
  assumes "emit_prefill_layer (st, m) layer = Inr (st', m')" and "prefill_host_bytes m = Inr read" and "prefill_kv_write_bytes m = Inr write"
    and "prefill_operators m = Inr ops"
  shows "adds st (prefill_layer_outline read write ops layer) st' \<and> same_but_widths m m'"
proof -
  let ?b = "prefill_layer_base layer" and ?l = "layer_name layer"
  obtain st1 st2 st3 where
    1: "emit_record ''prefill'' (\<lambda>rid. decode_host_record rid ''HostRead'' layer ''prefill_prompt_activation_read'' m ?b read) st = Inr st1" and
    2: "rfold (emit_prefill_op layer) (st1, m) ops = Inr (st2, m')" and
    3: "emit_record ''prefill'' (\<lambda>rid. decode_host_record rid ''HostWrite'' layer ''prefill_kv_cache_population_accounting'' m' (?b + read) write) st2 = Inr st3" and
    4: "emit_record ''prefill'' (\<lambda>rid. decode_barrier_record rid layer m') st3 = Inr st'"
    using assms by (auto simp: emit_prefill_layer_def rbind_Inr_iff Let_def)
  have "adds st [(?l, ''HostRead'', ''prefill_prompt_activation_read'', Some (?b, read))] st1" by (rule emit_adds[OF 1]) (auto dest: host_outline)
  moreover have "concat (map (\<lambda>op. [(?l, ''PIMCompute'', op, None :: (int \<times> int) option)]) ops) = map (\<lambda>op. (?l, ''PIMCompute'', op, None)) ops"
    by (induction ops) simp_all
  then have "adds st1 (map (\<lambda>op. (?l, ''PIMCompute'', op, None)) ops) st2 \<and> same_but_widths m m'"
    using rfold_adds_same[of ops m "emit_prefill_op layer" "\<lambda>op. [(?l, ''PIMCompute'', op, None)]", OF prefill_op_adds same_refl 2] by simp
  then have "adds st1 (map (\<lambda>op. (?l, ''PIMCompute'', op, None)) ops) st2" and same: "same_but_widths m m'" by simp_all
  moreover have "adds st2 [(?l, ''HostWrite'', ''prefill_kv_cache_population_accounting'', Some (?b + read, write))] st3"
    by (rule emit_adds[OF 3]) (auto dest: host_outline)
  moreover have "adds st3 [(?l, ''Barrier'', ''layer_transition_barrier'', None)] st'" by (rule emit_adds[OF 4]) (auto dest: scope_outline)
  ultimately have "adds st ([(?l, ''HostRead'', ''prefill_prompt_activation_read'', Some (?b, read))] @
      map (\<lambda>op. (?l, ''PIMCompute'', op, None)) ops @
      [(?l, ''HostWrite'', ''prefill_kv_cache_population_accounting'', Some (?b + read, write))] @ [(?l, ''Barrier'', ''layer_transition_barrier'', None)]) st'"
    by (intro adds_trans)
  then show ?thesis using same by (simp add: prefill_layer_outline_def Let_def)
qed

section \<open>Traces\<close>

definition value_or :: "'a \<Rightarrow> gen_error + 'a \<Rightarrow> 'a" where
  "value_or d x = (case x of Inr v \<Rightarrow> v | Inl _ \<Rightarrow> d)"

lemma value_or_Inr [simp]: "value_or d (Inr v) = v"
  by (simp add: value_or_def)

definition prefill_outline :: "dict \<Rightarrow> outline list" where
  "prefill_outline m =
     (if truthy (item m ''mixed_phase_extension'')
      then concat (map (prefill_layer_outline (value_or 0 (prefill_host_bytes m)) (value_or 0 (prefill_kv_write_bytes m))
        (value_or [] (prefill_operators m))) [0..<nat (value_or 0 (prefill_layer_count m))])
      else [])"

definition decode_outline :: "dict \<Rightarrow> outline list" where
  "decode_outline m =
     concat (map (decode_layer_outline m (value_or 0 (host_read_bytes m)) (value_or 0 (host_write_bytes m))
       (value_or [] (string_set m ''pim_compute_operator_classes''))) [0..<nat (value_or 0 (m_exact m ''num_layers''))])"

definition decode_only_outline :: "dict \<Rightarrow> outline list" where
  "decode_only_outline m = prefill_outline m @ decode_outline m @ [(''decode_tail'', ''Drain'', ''final_drain'', None)]"

lemma prefill_layers_add:
  assumes "rfold emit_prefill_layer (gen_start, m) ls = Inr (st, m')"
  shows "adds gen_start (concat (map (prefill_layer_outline (value_or 0 (prefill_host_bytes m)) (value_or 0 (prefill_kv_write_bytes m))
        (value_or [] (prefill_operators m))) ls)) st \<and> same_but_widths m m'"
proof (rule rfold_adds_same[OF _ same_refl assms])
  show "adds s (prefill_layer_outline (value_or 0 (prefill_host_bytes m)) (value_or 0 (prefill_kv_write_bytes m))
        (value_or [] (prefill_operators m)) l) s' \<and> same_but_widths n n'"
    if same: "same_but_widths m n" and e: "emit_prefill_layer (s, n) l = Inr (s', n')" for l s n s' n'
  proof -
    obtain r w ops where "prefill_host_bytes n = Inr r" "prefill_kv_write_bytes n = Inr w" "prefill_operators n = Inr ops"
      using e by (auto simp: emit_prefill_layer_def rbind_Inr_iff Let_def)
    then show ?thesis using prefill_layer_adds[OF e] by (simp add: same_sizes[OF same])
  qed
qed

lemma decode_layers_add:
  assumes "rfold (emit_decode_layer m) st ls = Inr st'"
  shows "adds st (concat (map (decode_layer_outline m (value_or 0 (host_read_bytes m)) (value_or 0 (host_write_bytes m))
       (value_or [] (string_set m ''pim_compute_operator_classes''))) ls)) st'"
proof (rule rfold_outline[OF _ assms])
  show "adds s (decode_layer_outline m (value_or 0 (host_read_bytes m)) (value_or 0 (host_write_bytes m))
       (value_or [] (string_set m ''pim_compute_operator_classes'')) l) s'"
    if e: "emit_decode_layer m s l = Inr s'" for l s s'
  proof -
    obtain r w ops where "host_read_bytes m = Inr r" "host_write_bytes m = Inr w" "string_set m ''pim_compute_operator_classes'' = Inr ops"
      using e by (auto simp: emit_decode_layer_def rbind_Inr_iff)
    then show ?thesis using decode_layer_adds[OF e] by simp
  qed
qed

lemma same_outline:
  assumes "same_but_widths m m'"
  shows "decode_outline m' = decode_outline m"
proof -
  have "op_outline m' = op_outline m"
    by (intro ext) (simp add: op_outline_def dgetd_def same_reads(1)[OF assms])
  then have "decode_layer_outline m' = decode_layer_outline m" by (intro ext) (simp add: decode_layer_outline_def)
  then show ?thesis by (simp add: decode_outline_def same_sizes[OF assms] same_reads[OF assms])
qed

lemma generated_outline:
  assumes "generate_decode_only_records m = Inr (rs, m')"
  shows "map outline_of rs = decode_only_outline m" and "map record_id_of rs = map rec_id [0..<length rs]" and "same_but_widths m m'"
proof -
  let ?X = "if truthy (item m ''mixed_phase_extension'')
       then rbind (prefill_layer_count m) (\<lambda>n. rfold emit_prefill_layer (gen_start, m) [0..<nat n]) else Inr (gen_start, m)"
  obtain p where X: "?X = Inr p" and tail: "(case p of (st, m) \<Rightarrow> rbind (m_exact m ''num_layers'') (\<lambda>n.
     rbind (rfold (emit_decode_layer m) st [0..<nat n]) (\<lambda>st.
     rbind (decode_drain_record (next_rec st) m) (\<lambda>r.
     rbind (validate_all (gs_records (push (\<lambda>_. r) st))) (\<lambda>rs. Inr (rs, m)))))) = Inr (rs, m')"
    using assms unfolding generate_decode_only_records_def rbind_Inr_iff by blast
  obtain st mm where p: "p = (st, mm)" by (cases p)
  obtain n st' r where m': "mm = m'" and n: "m_exact m' ''num_layers'' = Inr n" and dec: "rfold (emit_decode_layer m') st [0..<nat n] = Inr st'"
    and drain: "decode_drain_record (next_rec st') m' = Inr r" and rs: "validate_all (gs_records (push (\<lambda>_. r) st')) = Inr rs"
    using tail by (auto simp: p rbind_Inr_iff)
  have pre: "?X = Inr (st, m')" by (simp only: X p m')
  have "adds gen_start (prefill_outline m) st \<and> same_but_widths m m'"
  proof (cases "truthy (item m ''mixed_phase_extension'')")
    case True
    then obtain k where "prefill_layer_count m = Inr k" "rfold emit_prefill_layer (gen_start, m) [0..<nat k] = Inr (st, m')"
      using pre by (auto simp: rbind_Inr_iff)
    then show ?thesis using prefill_layers_add True by (simp add: prefill_outline_def)
  qed (use pre in \<open>simp add: prefill_outline_def\<close>)
  then have p: "adds gen_start (prefill_outline m) st" and same: "same_but_widths m m'" by simp_all
  have "adds st (decode_outline m') st'" using decode_layers_add[OF dec] by (simp add: decode_outline_def n)
  moreover have "adds st' [(''decode_tail'', ''Drain'', ''final_drain'', None)] (push (\<lambda>_. r) st')"
    using scope_outline(2)[OF drain] by (simp add: adds_def push_def next_rec_def)
  ultimately have "adds gen_start (decode_only_outline m) (push (\<lambda>_. r) st')"
    unfolding decode_only_outline_def same_outline[OF same] using p by (intro adds_trans)
  moreover have "rs = gs_records (push (\<lambda>_. r) st')" using rs by (auto simp: validate_all_def rbind_Inr_iff)
  ultimately have "map outline_of rs = decode_only_outline m \<and> map record_id_of rs = map rec_id [0..<length (decode_only_outline m)]"
    by (simp add: adds_def gen_start_def)
  then show "map outline_of rs = decode_only_outline m" and "map record_id_of rs = map rec_id [0..<length rs]" and "same_but_widths m m'"
    using same by (auto dest: arg_cong[of _ _ length])
qed

section \<open>Bytes\<close>

definition range_bytes :: "(int \<times> int) option \<Rightarrow> int set" where
  "range_bytes r = (case r of None \<Rightarrow> {} | Some (b, n) \<Rightarrow> {b..<b + n})"

definition accessed_bytes :: "dict list \<Rightarrow> nat \<Rightarrow> int set" where
  "accessed_bytes rs layer = (\<Union>r \<in> {r \<in> set rs. layer_of r = layer_name layer}. range_bytes (host_range r))"

definition outline_bytes :: "outline list \<Rightarrow> nat \<Rightarrow> int set" where
  "outline_bytes os layer = (\<Union>x \<in> set os. if fst x = layer_name layer then range_bytes (snd (snd (snd x))) else {})"

lemma accessed_outline: "accessed_bytes rs layer = outline_bytes (map outline_of rs) layer"
  by (auto simp: accessed_bytes_def outline_bytes_def outline_of_def split: if_splits)

lemma outline_bytes_append: "outline_bytes (xs @ ys) layer = outline_bytes xs layer \<union> outline_bytes ys layer"
  by (simp only: outline_bytes_def set_append UN_Un)

lemma layer_name_eq [simp]: "layer_name i = layer_name j \<longleftrightarrow> i = j"
proof
  assume "layer_name i = layer_name j"
  then have "number_of (padded 2 i) = number_of (padded 2 j)" by (simp add: layer_name_def)
  then show "i = j" by (simp add: padded_def Let_def number_of_zeros number_of_digits)
qed simp

lemma outline_bytes_Cons:
  "outline_bytes ((l, k, op, r) # xs) layer = (if l = layer_name layer then range_bytes r else {}) \<union> outline_bytes xs layer"
  by (simp add: outline_bytes_def)

lemma outline_bytes_Nil [simp]: "outline_bytes [] layer = {}"
  by (simp add: outline_bytes_def)

lemma op_outline_bytes: "outline_bytes (op_outline m l op) layer = {}"
  by (simp add: op_outline_def outline_bytes_Cons range_bytes_def)

lemma outline_bytes_concat: "outline_bytes (concat (map f xs)) layer = (\<Union>x \<in> set xs. outline_bytes (f x) layer)"
  by (induction xs) (simp_all add: outline_bytes_append)

lemma decode_layer_bytes:
  assumes "0 \<le> read" and "0 \<le> write"
  shows "outline_bytes (decode_layer_outline m read write ops l) layer =
    (if l = layer then {decode_layer_base l..<decode_layer_base l + 2 * read + write} else {})"
proof -
  have "outline_bytes (concat (map (op_outline m l) ops)) layer = {}" by (simp add: outline_bytes_concat op_outline_bytes)
  then show ?thesis
    using assms by (auto simp: decode_layer_outline_def Let_def outline_bytes_append outline_bytes_Cons range_bytes_def)
qed

lemma decode_trace_bytes:
  assumes gen: "generate_decode_only_records m = Inr (rs, m')" and mixed: "\<not> truthy (item m ''mixed_phase_extension'')"
    and n: "m_exact m ''num_layers'' = Inr n" and sizes: "host_read_bytes m = Inr read" "host_write_bytes m = Inr write" "0 \<le> read" "0 \<le> write"
  shows "accessed_bytes rs layer =
    (if int layer < n then {decode_layer_base layer..<decode_layer_base layer + 2 * read + write} else {})"
proof -
  have "accessed_bytes rs layer = outline_bytes (decode_outline m) layer"
    by (simp add: accessed_outline generated_outline(1)[OF gen] decode_only_outline_def prefill_outline_def mixed outline_bytes_append
        outline_bytes_Cons range_bytes_def)
  then show ?thesis
    by (auto simp: decode_outline_def n sizes outline_bytes_concat decode_layer_bytes)
qed

text \<open>Regions of equal size that start at multiples of a stride.\<close>

lemma strided_disjoint:
  fixes size stride n :: int
  assumes "0 < stride"
  shows "(\<forall>i j. int i < n \<longrightarrow> int j < n \<longrightarrow> i \<noteq> j \<longrightarrow>
      {int i * stride..<int i * stride + size} \<inter> {int j * stride..<int j * stride + size} = {}) \<longleftrightarrow> n \<le> 1 \<or> size \<le> stride"
    (is "?disjoint \<longleftrightarrow> _")
proof
  assume d: ?disjoint
  show "n \<le> 1 \<or> size \<le> stride"
  proof (rule ccontr)
    assume "\<not> (n \<le> 1 \<or> size \<le> stride)"
    then have "stride \<in> {int 0 * stride..<int 0 * stride + size} \<inter> {int 1 * stride..<int 1 * stride + size}" using assms by auto
    then show False using d[rule_format, of 0 1] \<open>\<not> (n \<le> 1 \<or> size \<le> stride)\<close> by auto
  qed
next
  assume le: "n \<le> 1 \<or> size \<le> stride"
  have apart: "int i * stride + size \<le> int j * stride" if "i < j" "size \<le> stride" for i j
  proof -
    have "(int i + 1) * stride \<le> int j * stride" using that(1) assms by (intro mult_right_mono) auto
    then show ?thesis using that(2) by (simp add: algebra_simps)
  qed
  show ?disjoint
  proof (intro allI impI)
    fix i j assume ij: "int i < n" "int j < n" "i \<noteq> j"
    then have "size \<le> stride" using le by auto
    then show "{int i * stride..<int i * stride + size} \<inter> {int j * stride..<int j * stride + size} = {}"
      using apart[of i j] apart[of j i] ij(3) by (cases i j rule: linorder_cases) auto
  qed
qed

section \<open>Success\<close>

lemma base_shape:
  assumes "decode_base_record rid kind layer op m = Inr r"
  obtains phase prov pol where "r = [(''schema_version'', PStr SCHEMA_VERSION), (''record_id'', PStr rid), (''kind'', PStr kind), (''phase'', phase),
       (''layer'', PStr layer), (''op'', PStr op), (''repeat'', PInt 1), (''provenance'', PDict prov), (''mapping_policy'', PDict pol)]"
  using assms by (auto simp: decode_base_record_def rbind_Inr_iff)

lemmas validation_rules = validate_semantic_record_def validate_by_kind_def g_fields_def g_member_def g_positive_def require_def has_def
  kind_of_def dgetd_def COMMON_RECORD_FIELDS_def SEMANTIC_RECORD_KINDS_def BASE_SEMANTIC_RECORD_KINDS_def ALL_BANK_RECORD_KINDS_def dupdate_def

lemma host_valid:
  assumes "decode_host_record rid kind layer op m base n = Inr r" and "kind = ''HostRead'' \<or> kind = ''HostWrite''"
  shows "validate_semantic_record (with_phase phase r) = Inr ()"
proof -
  obtain tx r0 where r0: "decode_base_record rid kind (layer_name layer) op m = Inr r0"
    and r: "r = dupdate r0 [(''bytes'', PInt n), (''address_policy'', PDict
          [(''kind'', PStr ''bounded_sequential_host_requests''), (''base_byte'', PInt base), (''stride_bytes'', PInt tx),
           (''count'', PInt (max 1 (n div tx)))])]"
    using assms by (auto simp: decode_host_record_def rbind_Inr_iff)
  show ?thesis
    by (rule base_shape[OF r0]) (rule disjE[OF assms(2)]; simp add: r with_phase_def validation_rules)
qed

lemma layer_policies_shape:
  assumes "layer_policies d layer k = Inr p"
  obtains a b c where "p = [(''dependency_context'', a), (''row_policy'', b), (''column_policy'', c)]"
  using assms by (auto simp: layer_policies_def rbind_Inr_iff)

lemma pim_valid:
  assumes "decode_pim_record rid layer op m = Inr r"
  shows "validate_semantic_record (with_phase phase r) = Inr ()"
proof -
  obtain d p r0 n banks dt burst where p: "layer_policies d layer ''bounded_row_window_decode_only'' = Inr p"
    and r0: "decode_base_record rid ''PIMCompute'' (layer_name layer) op m = Inr r0"
    and r: "r = dupdate r0 ([(''num_requests'', PInt n), (''bank_sequence'', PList banks)] @ p @
        [(''datatype_metadata'', run_level_datatype dt), (''burst_length'', PInt burst)])"
    using assms unfolding decode_pim_record_def rbind_Inr_iff by blast
  show ?thesis
    by (rule base_shape[OF r0], rule layer_policies_shape[OF p]) (simp add: r with_phase_def validation_rules)
qed

lemma all_bank_valid:
  assumes "decode_all_bank_record rid kind layer op m = Inr r" and "kind = ''PIMLoadAll'' \<or> kind = ''PIMComputeAll''"
  shows "validate_semantic_record (with_phase phase r) = Inr ()"
proof -
  obtain d p r0 dt where p: "layer_policies d layer ''bounded_row_window_all_bank_semantic'' = Inr p"
    and r0: "decode_base_record rid kind (layer_name layer) op m = Inr r0"
    and r: "r = dupdate r0 ([(''num_requests'', PInt 1), (''all_bank_scope'', PStr ''rank'')] @ p @
        [(''datatype_metadata'', run_level_datatype dt)])"
    using assms unfolding decode_all_bank_record_def rbind_Inr_iff by blast
  show ?thesis
    by (rule base_shape[OF r0], rule layer_policies_shape[OF p]) (rule disjE[OF assms(2)]; simp add: r with_phase_def validation_rules)
qed

lemma scope_valid:
  "decode_barrier_record rid layer m = Inr r \<Longrightarrow> validate_semantic_record (with_phase phase r) = Inr ()"
  "decode_drain_record rid m = Inr r \<Longrightarrow> validate_semantic_record r = Inr ()"
proof -
  assume "decode_barrier_record rid layer m = Inr r"
  then obtain r0 where r0: "decode_base_record rid ''Barrier'' (layer_name layer) ''layer_transition_barrier'' m = Inr r0"
    and r: "r = dset ''barrier_scope'' (PStr ''layer'') r0"
    by (auto simp: decode_barrier_record_def rbind_Inr_iff)
  show "validate_semantic_record (with_phase phase r) = Inr ()"
    by (rule base_shape[OF r0]) (simp add: r with_phase_def validation_rules)
next
  assume "decode_drain_record rid m = Inr r"
  then obtain r0 where r0: "decode_base_record rid ''Drain'' ''decode_tail'' ''final_drain'' m = Inr r0"
    and r: "r = dset ''drain_scope'' (PStr ''trace'') r0"
    by (auto simp: decode_drain_record_def rbind_Inr_iff)
  show "validate_semantic_record r = Inr ()"
    by (rule base_shape[OF r0]) (simp add: r validation_rules)
qed

text \<open>What the records of a decode layer read, independent of the layer.\<close>

definition decode_ready :: "dict \<Rightarrow> bool" where
  "decode_ready m \<longleftrightarrow>
     is_ok (decode_base_record [] [] [] [] m) \<and> is_ok (host_read_bytes m) \<and> is_ok (host_write_bytes m) \<and> has m ''datatype'' \<and>
     is_ok (rbind (ramulator_defaults m) (\<lambda>d.
       rmap (d_int d) [''row_start'', ''row_count'', ''dependency_count'', ''column_start'', ''tx_bytes'', ''burst_length''])) \<and>
     (case string_set m ''pim_compute_operator_classes'' of
        Inr ops \<Rightarrow> list_all (\<lambda>op. is_ok (pim_num_requests op m)) ops
      | Inl _ \<Rightarrow> False)"

lemma ready_base: "decode_ready m \<Longrightarrow> \<exists>r. decode_base_record rid kind layer op m = Inr r"
  by (auto simp: decode_ready_def decode_base_record_def decode_provenance_def is_ok_iff rbind_Inr_iff)

lemma ready_defaults:
  assumes "decode_ready m"
  obtains d banks i1 i2 i3 i4 i5 i6 where "ramulator_defaults m = Inr d" and "item d ''bank_sequence'' = PList banks" and "d_int d ''row_start'' = Inr i1"
    and "d_int d ''row_count'' = Inr i2" and "d_int d ''dependency_count'' = Inr i3" and "d_int d ''column_start'' = Inr i4"
    and "d_int d ''tx_bytes'' = Inr i5" and "d_int d ''burst_length'' = Inr i6"
proof -
  obtain d vs where d: "ramulator_defaults m = Inr d"
      "rmap (d_int d) [''row_start'', ''row_count'', ''dependency_count'', ''column_start'', ''tx_bytes'', ''burst_length''] = Inr vs"
    using assms unfolding decode_ready_def is_ok_iff rbind_Inr_iff by blast
  obtain pol where "decode_mapping_policy m = Inr pol"
    using assms unfolding decode_ready_def decode_base_record_def is_ok_iff rbind_Inr_iff by blast
  then obtain banks where "g_list ''bank_sequence'' (item d ''bank_sequence'') = Inr banks"
    unfolding decode_mapping_policy_def rbind_Inr_iff using d(1) by auto
  then have "item d ''bank_sequence'' = PList banks" by (auto simp: g_list_def split: pyval.splits)
  then show ?thesis using that d by (auto simp: rbind_Inr_iff)
qed

lemma ready_layer_policies:
  assumes "decode_ready m" and "ramulator_defaults m = Inr d"
  shows "\<exists>p. layer_policies d layer k = Inr p"
  by (rule ready_defaults[OF assms(1)]) (use assms(2) in \<open>simp add: layer_policies_def\<close>)

definition valid_state :: "gen_state \<Rightarrow> bool" where
  "valid_state st \<longleftrightarrow> list_all (\<lambda>r. validate_semantic_record r = Inr ()) (gs_records st)"

lemma emit_valid:
  assumes "valid_state st" and "mk (next_rec st) = Inr r" and "validate_semantic_record (with_phase phase r) = Inr ()"
  shows "\<exists>st'. emit_record phase mk st = Inr st' \<and> valid_state st'"
  using assms by (simp add: emit_record_def valid_state_def push_def)

lemma emit_host:
  assumes "decode_ready m" and "valid_state st" and "kind = ''HostRead'' \<or> kind = ''HostWrite''"
  shows "\<exists>st'. emit_record phase (\<lambda>rid. decode_host_record rid kind layer op m base n) st = Inr st' \<and> valid_state st'"
proof -
  obtain d tx where "ramulator_defaults m = Inr d" "d_int d ''tx_bytes'' = Inr tx" by (rule ready_defaults[OF assms(1)])
  moreover obtain r0 where "decode_base_record (next_rec st) kind (layer_name layer) op m = Inr r0" using ready_base[OF assms(1)] by blast
  ultimately obtain r where r: "decode_host_record (next_rec st) kind layer op m base n = Inr r" by (simp add: decode_host_record_def)
  show ?thesis by (rule emit_valid[OF assms(2)]) (rule r, rule host_valid[OF r assms(3)])
qed

lemma emit_barrier:
  assumes "decode_ready m" and "valid_state st"
  shows "\<exists>st'. emit_record phase (\<lambda>rid. decode_barrier_record rid layer m) st = Inr st' \<and> valid_state st'"
proof -
  obtain r0 where "decode_base_record (next_rec st) ''Barrier'' (layer_name layer) ''layer_transition_barrier'' m = Inr r0"
    using ready_base[OF assms(1)] by blast
  then obtain r where r: "decode_barrier_record (next_rec st) layer m = Inr r" by (simp add: decode_barrier_record_def)
  show ?thesis by (rule emit_valid[OF assms(2)]) (rule r, rule scope_valid(1)[OF r])
qed

lemma emit_all_bank:
  assumes "decode_ready m" and "valid_state st" and "kind = ''PIMLoadAll'' \<or> kind = ''PIMComputeAll''"
  shows "\<exists>st'. emit_record phase (\<lambda>rid. decode_all_bank_record rid kind layer op m) st = Inr st' \<and> valid_state st'"
proof -
  obtain d where d: "ramulator_defaults m = Inr d" by (rule ready_defaults[OF assms(1)])
  obtain p where "layer_policies d layer ''bounded_row_window_all_bank_semantic'' = Inr p" using ready_layer_policies[OF assms(1) d] by blast
  moreover obtain r0 where "decode_base_record (next_rec st) kind (layer_name layer) op m = Inr r0" using ready_base[OF assms(1)] by blast
  moreover obtain dt where "g_get m ''datatype'' = Inr dt" using assms(1) by (auto simp: decode_ready_def has_def g_get_def split: option.splits)
  ultimately obtain r where r: "decode_all_bank_record (next_rec st) kind layer op m = Inr r" using d by (simp add: decode_all_bank_record_def)
  show ?thesis by (rule emit_valid[OF assms(2)]) (rule r, rule all_bank_valid[OF r assms(3)])
qed

lemma emit_pim:
  assumes "decode_ready m" and "valid_state st" and "pim_num_requests op m = Inr n"
  shows "\<exists>st'. emit_record phase (\<lambda>rid. decode_pim_record rid layer op m) st = Inr st' \<and> valid_state st'"
proof -
  obtain d banks burst where d: "ramulator_defaults m = Inr d" "item d ''bank_sequence'' = PList banks" "d_int d ''burst_length'' = Inr burst"
    by (rule ready_defaults[OF assms(1)])
  obtain p where "layer_policies d layer ''bounded_row_window_decode_only'' = Inr p" using ready_layer_policies[OF assms(1) d(1)] by blast
  moreover obtain r0 where "decode_base_record (next_rec st) ''PIMCompute'' (layer_name layer) op m = Inr r0" using ready_base[OF assms(1)] by blast
  moreover obtain dt where "g_get m ''datatype'' = Inr dt" using assms(1) by (auto simp: decode_ready_def has_def g_get_def split: option.splits)
  ultimately obtain r where r: "decode_pim_record (next_rec st) layer op m = Inr r"
    using d assms(3) by (simp add: decode_pim_record_def g_list_def)
  show ?thesis by (rule emit_valid[OF assms(2)]) (rule r, rule pim_valid[OF r])
qed

lemma rfold_succeeds:
  assumes "\<And>st x. x \<in> set xs \<Longrightarrow> P st \<Longrightarrow> \<exists>st'. f st x = Inr st' \<and> P st'" and "P st"
  shows "\<exists>st'. rfold f st xs = Inr st' \<and> P st'"
  using assms
proof (induction xs arbitrary: st)
  case (Cons x xs)
  then obtain st1 where "f st x = Inr st1" "P st1" by (metis list.set_intros(1))
  then show ?case using Cons by simp
qed simp

lemma rmap_units: "list_all (\<lambda>x. f x = Inr ()) xs \<Longrightarrow> rbind (rmap f xs) (\<lambda>_. y) = y"
  by (induction xs) (auto simp: rbind_assoc)

lemma decode_layer_succeeds:
  assumes m: "decode_ready m" and st: "valid_state st"
  shows "\<exists>st'. emit_decode_layer m st layer = Inr st' \<and> valid_state st'"
proof -
  obtain rd wr ops where sizes: "host_read_bytes m = Inr rd" "host_write_bytes m = Inr wr"
      "string_set m ''pim_compute_operator_classes'' = Inr ops" and ops: "list_all (\<lambda>op. is_ok (pim_num_requests op m)) ops"
    using m by (auto simp: decode_ready_def is_ok_iff split: sum.splits)
  let ?b = "decode_layer_base layer"
  obtain st1 where 1: "emit_record ''decode'' (\<lambda>rid. decode_host_record rid ''HostRead'' layer ''attention_k_cache_read'' m ?b rd) st = Inr st1" "valid_state st1"
    using emit_host[OF m st] by blast
  obtain st2 where 2: "emit_record ''decode'' (\<lambda>rid. decode_host_record rid ''HostRead'' layer ''attention_v_cache_read'' m (?b + rd) rd) st1 = Inr st2" "valid_state st2"
    using emit_host[OF m 1(2)] by blast
  have "\<exists>st'. emit_decode_op m layer s op = Inr st' \<and> valid_state st'" if op: "op \<in> set ops" and s: "valid_state s" for s op
  proof (cases "truthy (item m ''enable_all_bank_records'')")
    case True
    obtain s1 where "emit_record ''decode'' (\<lambda>rid. decode_all_bank_record rid ''PIMLoadAll'' layer (op @ ''_all_bank_load'') m) s = Inr s1" "valid_state s1"
      using emit_all_bank[OF m s] by blast
    then show ?thesis using emit_all_bank[OF m, of s1] True by (simp add: emit_decode_op_def)
  next
    case False
    obtain n where "pim_num_requests op m = Inr n" using ops op by (auto simp: list_all_iff is_ok_iff)
    then show ?thesis using emit_pim[OF m s] False by (simp add: emit_decode_op_def)
  qed
  then obtain st3 where 3: "rfold (emit_decode_op m layer) st2 ops = Inr st3" "valid_state st3"
    using rfold_succeeds[of ops valid_state "emit_decode_op m layer" st2] 2(2) by blast
  obtain st4 where 4: "emit_record ''decode'' (\<lambda>rid. decode_host_record rid ''HostWrite'' layer ''kv_cache_append_accounting'' m (?b + 2 * rd) wr) st3 = Inr st4"
      "valid_state st4"
    using emit_host[OF m 3(2)] by blast
  show ?thesis using emit_barrier[OF m 4(2)] by (simp add: emit_decode_layer_def Let_def sizes 1(1) 2(1) 3(1) 4(1))
qed

lemma decode_only_succeeds:
  assumes m: "decode_ready m" and "validate_decode_manifest m = Inr u" and "\<not> truthy (item m ''mixed_phase_extension'')"
    and n: "m_exact m ''num_layers'' = Inr n"
  shows "\<exists>rs. generate_decode_only_records m = Inr (rs, m)"
proof -
  obtain st where st: "rfold (emit_decode_layer m) gen_start [0..<nat n] = Inr st" "valid_state st"
    using rfold_succeeds[of "[0..<nat n]" valid_state "emit_decode_layer m" gen_start] decode_layer_succeeds[OF m]
    by (auto simp: valid_state_def gen_start_def)
  obtain r0 where "decode_base_record (next_rec st) ''Drain'' ''decode_tail'' ''final_drain'' m = Inr r0" using ready_base[OF m] by blast
  then obtain r where r: "decode_drain_record (next_rec st) m = Inr r" by (simp add: decode_drain_record_def)
  have "list_all (\<lambda>r. validate_semantic_record r = Inr ()) (gs_records (push (\<lambda>_. r) st))"
    using st(2) scope_valid(2)[OF r] by (simp add: valid_state_def push_def)
  then have "validate_all (gs_records (push (\<lambda>_. r) st)) = Inr (gs_records (push (\<lambda>_. r) st))"
    unfolding validate_all_def by (rule rmap_units)
  then show ?thesis using assms st(1) r by (simp add: generate_decode_only_records_def)
qed

end
