(* ===== verification/Decode_Only_Properties.thy ===== *)
theory Decode_Only_Properties
  imports Decode_Only_Traces
begin

text \<open>
  The properties of the decode-only generator: its traces refine their outline, and when the layers
  of a trace access different bytes. The frozen manifest misses that by the size of one token.
\<close>

section \<open>The frozen manifest\<close>

lemma frozen_reads:
  "validate_decode_manifest DECODE_ONLY_MANIFEST = Inr ()" "m_exact DECODE_ONLY_MANIFEST ''num_layers'' = Inr 32"
  "host_read_bytes DECODE_ONLY_MANIFEST = Inr 524288" "host_write_bytes DECODE_ONLY_MANIFEST = Inr 8192"
  "truthy (item DECODE_ONLY_MANIFEST ''mixed_phase_extension'') = False"
  by code_simp+

lemma frozen_ready: "decode_ready DECODE_ONLY_MANIFEST"
  by code_simp

lemma frozen_trace: "\<exists>rs. generate_decode_only_records DECODE_ONLY_MANIFEST = Inr (rs, DECODE_ONLY_MANIFEST)"
  by (rule decode_only_succeeds[OF frozen_ready frozen_reads(1) _ frozen_reads(2)]) (simp add: frozen_reads(5))

section \<open>Properties\<close>

text \<open>
  C22: a decode-only trace refines its outline. For every manifest that the generator accepts the
  layers, kinds, operations and byte ranges of the records are, in order, those of the outline (the
  prefill layers of a mixed manifest, the decode layers, the drain), the records are numbered in
  order from \<open>rec_0000\<close>, and the manifest of the caller is changed in its table of operator widths only.
\<close>

theorem decode_trace_refines_outline:
  assumes "generate_decode_only_records m = Inr (rs, m')"
  shows "map outline_of rs = decode_only_outline m \<and> map record_id_of rs = map rec_id [0..<length rs] \<and>
    (\<forall>f. f \<noteq> ''pim_operator_request_widths'' \<longrightarrow> dget m' f = dget m f)"
  using generated_outline[OF assms] by (simp add: same_but_widths_def)

theorem decode_trace_refines_outline_witness:
  "\<exists>rs. generate_decode_only_records DECODE_ONLY_MANIFEST = Inr (rs, DECODE_ONLY_MANIFEST) \<and> rs \<noteq> [] \<and>
    outline_of (last rs) = (''decode_tail'', ''Drain'', ''final_drain'', None)"
proof -
  obtain rs where rs: "generate_decode_only_records DECODE_ONLY_MANIFEST = Inr (rs, DECODE_ONLY_MANIFEST)" using frozen_trace by blast
  have o: "map outline_of rs = decode_only_outline DECODE_ONLY_MANIFEST" using decode_trace_refines_outline[OF rs] by simp
  then have "rs \<noteq> []" by (auto simp: decode_only_outline_def)
  moreover have "last (map outline_of rs) = (''decode_tail'', ''Drain'', ''final_drain'', None)"
    unfolding o by (simp add: decode_only_outline_def)
  ultimately show ?thesis using rs by (auto simp: last_map)
qed

text \<open>
  C23: when the layers of a decode trace access different bytes. The reads of the cached keys and values
  and the append of a layer are one region of bytes, and layers start 1 MiB apart: the
  regions of different layers are disjoint exactly when there is at most one layer or a region
  is not larger than that. The frozen manifest fills the 1 MiB with the cache, so that
  each layer appends to the first bytes of the keys that the next layer reads.
\<close>

theorem decode_layers_disjoint:
  assumes "generate_decode_only_records m = Inr (rs, m')" and "\<not> truthy (item m ''mixed_phase_extension'')"
    and "m_exact m ''num_layers'' = Inr n" and "m_exact m ''past_len'' = Inr p" and "m_exact m ''hidden_size'' = Inr h" and "0 \<le> p" and "0 \<le> h"
  shows "(\<forall>i j. int i < n \<longrightarrow> int j < n \<longrightarrow> i \<noteq> j \<longrightarrow> accessed_bytes rs i \<inter> accessed_bytes rs j = {}) \<longleftrightarrow>
    n \<le> 1 \<or> 2 * (p * h) + 2 * h \<le> 1048576"
proof -
  have "accessed_bytes rs i = {int i * 1048576..<int i * 1048576 + (2 * (p * h) + 2 * h)}" if "int i < n" for i
    using decode_trace_bytes[OF assms(1-3), of "p * h" "2 * h" i] that assms(4-7)
    by (simp add: host_read_bytes_def host_write_bytes_def decode_layer_base_def add.assoc)
  then show ?thesis using strided_disjoint[of 1048576 n "2 * (p * h) + 2 * h"] by auto
qed

theorem decode_layers_disjoint_witness:
  "\<exists>rs i j. generate_decode_only_records DECODE_ONLY_MANIFEST = Inr (rs, DECODE_ONLY_MANIFEST) \<and> i \<noteq> j \<and>
    accessed_bytes rs i \<inter> accessed_bytes rs j \<noteq> {}"
proof -
  obtain rs where rs: "generate_decode_only_records DECODE_ONLY_MANIFEST = Inr (rs, DECODE_ONLY_MANIFEST)" using frozen_trace by blast
  have "m_exact DECODE_ONLY_MANIFEST ''past_len'' = Inr 128" "m_exact DECODE_ONLY_MANIFEST ''hidden_size'' = Inr 4096" by code_simp+
  then show ?thesis using rs decode_layers_disjoint[OF rs _ frozen_reads(2), of 128 4096] frozen_reads(5) by auto
qed

end
