(* ===== verification/Pimscope_Workloads.thy ===== *)
theory Pimscope_Workloads
  imports Surrogate_Mixtral Pimscope_Facts
begin

text \<open>
  \<open>pimscope/workloads.py\<close>: from the workload of a resolved manifest to its semantic records, by the
  trace generators. The workload names a registered model, the mixture of experts, or holds the
  dimensions of a model of its own. Values have the types that the resolution checks; a value of
  another type is the error of its field.
\<close>

section \<open>Generation\<close>

definition w_int :: "dict \<Rightarrow> string \<Rightarrow> gen_error + int" where
  "w_int w f = rbind (g_get w f) (\<lambda>v. case v of PInt i \<Rightarrow> Inr i | _ \<Rightarrow> Inl (GType f))"

definition w_str :: "dict \<Rightarrow> string \<Rightarrow> gen_error + string" where
  "w_str w f = rbind (g_get w f) (\<lambda>v. case v of PStr s \<Rightarrow> Inr s | _ \<Rightarrow> Inl (GType f))"

text \<open>\<open>model.get(f)\<close> where \<open>None\<close> stands for an absent argument.\<close>

definition opt_int :: "dict \<Rightarrow> string \<Rightarrow> gen_error + int option" where
  "opt_int w f = (case dgetd w f PNone of PNone \<Rightarrow> Inr None | PInt i \<Rightarrow> Inr (Some i) | _ \<Rightarrow> Inl (GType f))"

definition opt_str :: "dict \<Rightarrow> string \<Rightarrow> gen_error + string option" where
  "opt_str w f = (case dgetd w f PNone of PNone \<Rightarrow> Inr None | PStr s \<Rightarrow> Inr (Some s) | _ \<Rightarrow> Inl (GType f))"

definition default_str :: "dict \<Rightarrow> string \<Rightarrow> string \<Rightarrow> gen_error + string" where
  "default_str w f alt = (case dgetd w f (PStr alt) of PStr s \<Rightarrow> Inr s | _ \<Rightarrow> Inl (GType f))"

text \<open>The specification of a model that the manifest describes; its datatype is the workload's.\<close>

definition custom_model_spec :: "dict \<Rightarrow> dict \<Rightarrow> gen_error + model_spec" where
  "custom_model_spec w m =
     rbind (w_str m ''name'') (\<lambda>name.
     rbind (w_int m ''num_layers'') (\<lambda>layers.
     rbind (w_int m ''hidden_size'') (\<lambda>hidden.
     rbind (w_int m ''num_heads'') (\<lambda>heads.
     rbind (opt_int m ''num_kv_heads'') (\<lambda>kv.
     rbind (w_int m ''head_dim'') (\<lambda>head_dim.
     rbind (w_int m ''ffn_hidden_size'') (\<lambda>ffn.
     rbind (w_str w ''datatype'') (\<lambda>datatype.
     rbind (opt_str m ''citation'') (\<lambda>citation.
     rbind (opt_str m ''paper_anchor'') (\<lambda>anchor.
     rbind (default_str m ''ffn_variant'' ''swiglu_3proj'') (\<lambda>variant.
     rbind (default_str m ''activation'' ''silu'') (\<lambda>activation.
     make_model_spec name layers hidden heads head_dim ffn datatype kv citation anchor variant activation))))))))))))"

definition custom_records :: "dict \<Rightarrow> dict \<Rightarrow> string \<Rightarrow> gen_error + dict list" where
  "custom_records w m schedule =
     rbind (custom_model_spec w m) (\<lambda>spec.
     if item w ''phase'' = PStr ''decode''
     then rbind (w_int w ''past_len'') (\<lambda>n. dense_decoder_records_from_spec spec (Some n) schedule)
     else rbind (w_int w ''prompt_len'') (\<lambda>n. dense_prefill_records_from_spec spec n schedule))"

definition named_records :: "dict \<Rightarrow> string \<Rightarrow> string \<Rightarrow> gen_error + dict list" where
  "named_records w name schedule =
     (if item w ''phase'' = PStr ''decode''
      then rbind (w_int w ''past_len'') (\<lambda>n. dense_decoder_records_for_model name (Some n) schedule)
      else rbind (w_int w ''prompt_len'') (\<lambda>n. dense_prefill_records_for_model name n schedule))"

definition mixtral_records :: "dict \<Rightarrow> string \<Rightarrow> gen_error + dict list" where
  "mixtral_records w schedule =
     rbind (w_int w ''past_len'') (\<lambda>n.
     let (a, m) = mixtral_manifests n schedule False in generate_mixtral_8x7b_decoder_records (Some a) (Some m))"

definition generate_workload :: "dict \<Rightarrow> gen_error + dict list \<times> string" where
  "generate_workload w =
     rbind (g_get w ''phase'') (\<lambda>_.
     rbind (g_get w ''model'') (\<lambda>model.
     rbind (w_str w ''schedule_policy'') (\<lambda>schedule.
     case model of
       PStr name \<Rightarrow>
         rbind (if name = MIXTRAL_MODEL_KEY then mixtral_records w schedule else named_records w name schedule) (\<lambda>rs.
         Inr (rs, name))
     | PDict m \<Rightarrow> rbind (custom_records w m schedule) (\<lambda>rs. rbind (w_str m ''name'') (\<lambda>name. Inr (rs, name)))
     | _ \<Rightarrow> Inl (GType ''model''))))"

section \<open>What the schedule and the activation must be\<close>

lemma dense_needs_ffn:
  assumes "dense_records pre a f = Inr rs" and "m_int a ''num_layers'' = Inr n" and "0 < n"
  shows "is_ok (validate_ffn_manifest (one_layer_manifest f))"
  using assms by (auto simp: dense_records_def dense_parts_def generate_ffn_records_def rbind_Inr_iff Let_def is_ok_iff split: if_splits)

text \<open>The two fields of a feed-forward manifest that its check relates to nothing else.\<close>

definition activation_matches :: "string \<Rightarrow> string \<Rightarrow> bool" where
  "activation_matches variant activation \<longleftrightarrow>
     (if variant = ''relu_2proj'' then activation = ''relu''
      else if variant = ''geglu_3proj'' then activation \<in> {''gelu'', ''gelu_pytorch_tanh''}
      else activation \<noteq> ''relu'')"

lemma ffn_check_needs:
  assumes "validate_ffn_manifest m = Inr u" and "dget m ''schedule_policy'' = Some (PStr pol)"
    and "dget m ''ffn_variant'' = Some (PStr v)" and "dget m ''activation'' = Some (PStr a)"
  shows "pol = ''serialized'' \<and> activation_matches v a"
proof -
  obtain x where "require (item m ''schedule_policy'' = PStr ''serialized'') (GValue ''schedule_policy'') = Inr x"
    using assms(1) unfolding validate_ffn_manifest_def rbind_Inr_iff by blast
  then have "pol = ''serialized''" using assms(2) by (simp add: require_Inr dgetd_def)
  moreover obtain y where "check_ffn_activation m = Inr y"
    using assms(1) unfolding validate_ffn_manifest_def rbind_Inr_iff by blast
  then have "activation_matches v a"
    using assms(3,4)
    by (auto simp: check_ffn_activation_def ffn_variant_def rbind_Inr_iff manifest_reads activation_matches_def SUPPORTED_GENERATOR_VARIANTS_def
        FFN_VARIANT_RELU_2PROJ_def FFN_VARIANT_GEGLU_3PROJ_def FFN_VARIANT_SWIGLU_3PROJ_def split: if_splits)
  ultimately show ?thesis ..
qed

lemma one_layer_other: "f \<noteq> ''num_layers'' \<Longrightarrow> dget (one_layer_manifest m) f = dget m f"
  by (simp add: one_layer_manifest_def dget_dset)

lemma decode_needs:
  assumes "dense_decoder_records_from_spec s past pol = Inr rs" and "0 < spec_num_layers s"
  shows "pol = ''serialized'' \<and> activation_matches (spec_ffn_variant s) (spec_activation s)"
proof -
  let ?p = "case past of None \<Rightarrow> LLAMA2_7B_DEFAULT_PAST_LEN | Some n \<Rightarrow> n"
  let ?a = "decoder_attention_manifest s ?p pol" and ?f = "decoder_ffn_manifest s pol"
  have "dense_records False ?a ?f = Inr rs"
    using assms(1)
    by (auto simp: dense_decoder_records_from_spec_def dense_decoder_manifests_def generate_dense_transformer_layer_records_def rbind_Inr_iff)
  then have "is_ok (validate_ffn_manifest (one_layer_manifest ?f))"
    by (rule dense_needs_ffn) (use assms(2) in \<open>simp_all add: manifest_reads manifest_fields\<close>)
  then obtain u where "validate_ffn_manifest (one_layer_manifest ?f) = Inr u" by (auto simp: is_ok_iff)
  then show ?thesis by (rule ffn_check_needs) (simp_all add: one_layer_other manifest_fields)
qed

lemma prefill_needs:
  assumes "dense_prefill_records_from_spec s n ''serialized'' = Inr rs" and "0 < n" and "0 < spec_num_layers s"
  shows "activation_matches (spec_ffn_variant s) (spec_activation s)"
proof -
  let ?a = "prefill_attention s n" and ?f = "prefill_ffn s n"
  have "dense_records True ?a ?f = Inr rs"
    using assms(1,2)
    by (auto simp: dense_prefill_records_from_spec_def prefill_manifests generate_dense_prefill_transformer_layer_records_def rbind_Inr_iff)
  then have "is_ok (validate_ffn_manifest (one_layer_manifest ?f))"
    by (rule dense_needs_ffn) (use assms(3) in \<open>simp_all add: manifest_reads manifest_fields\<close>)
  then obtain u where "validate_ffn_manifest (one_layer_manifest ?f) = Inr u" by (auto simp: is_ok_iff)
  then show ?thesis by (rule ffn_check_needs[THEN conjunct2]) (simp_all add: one_layer_other manifest_fields)
qed

lemma mixture_needs:
  assumes "generate_moe_transformer_layer_records a m = Inr rs" and "m_int a ''num_layers'' = Inr n" and "0 < n"
    and "dget m ''schedule_policy'' = Some (PStr pol)"
  shows "pol \<in> {''serialized'', ''overlap_selected_experts''}"
  using assms
  by (auto simp: generate_moe_transformer_layer_records_def moe_parts_def generate_moe_records_def validate_moe_manifest_def
      rbind_Inr_iff Let_def manifest_reads one_layer_other split: if_splits)

end
