(* ===== verification/Pimscope_Workload_Facts.thy ===== *)
theory Pimscope_Workload_Facts
  imports Pimscope_Workloads
begin

text \<open>
  What the resolution of a workload guarantees to the generators, and when a resolved workload has a
  trace.
\<close>

section \<open>Resolved workloads\<close>

lemma item_Some: "item d k = v \<Longrightarrow> v \<noteq> PNone \<Longrightarrow> dget d k = Some v"
  by (auto simp: dgetd_def split: option.splits)

text \<open>The fields that the generation reads.\<close>

definition generation_fields :: "dict \<Rightarrow> int \<Rightarrow> int \<Rightarrow> string \<Rightarrow> bool" where
  "generation_fields w past prompt policy \<longleftrightarrow>
     dget w ''past_len'' = Some (PInt past) \<and> 0 < past \<and> dget w ''prompt_len'' = Some (PInt prompt) \<and> 0 < prompt \<and>
     dget w ''phase'' \<in> {Some (PStr ''decode''), Some (PStr ''prefill'')} \<and> dget w ''schedule_policy'' = Some (PStr policy) \<and>
     policy \<in> {''serialized'', ''overlap_independent_heads''} \<and>
     dget w ''datatype'' \<in> {Some (PStr ''int8''), Some (PStr ''fp16''), Some (PStr ''bf16'')} \<and>
     (dget w ''phase'' = Some (PStr ''prefill'') \<longrightarrow> policy = ''serialized'')"

lemma resolved_generation_fields:
  assumes "resolve_workload raw = Inr w"
  shows "\<exists>past prompt policy. generation_fields w past prompt policy \<and>
    (case item w ''model'' of
       PStr name \<Rightarrow> item w ''phase'' \<in> set (map PStr (dgetd SUPPORTED_MODEL_PHASES name []))
     | PDict m \<Rightarrow> policy = ''serialized'' \<and> check_model m = Inr () | _ \<Rightarrow> False) \<and> dget w ''model'' = Some (item w ''model'')"
proof -
  obtain s where model: "resolve_model (item w ''model'') = Inr (item w ''model'')" and c: "check_workload s w = Inr ()"
    using assms unfolding resolve_workload_Inr by blast
  note load = c[unfolded check_workload_def rbind_Inr_iff require_Inr choice_def expect_positive_int_def]
  have basics: "item w ''datatype'' \<in> set (map PStr SUPPORTED_WORKLOAD_DATATYPES) \<and> item w ''phase'' \<in> set (map PStr SUPPORTED_PHASES) \<and>
      item w ''schedule_policy'' \<in> set (map PStr SUPPORTED_SCHEDULE_POLICIES) \<and> positive_int (item w ''past_len'') \<and>
      positive_int (item w ''prompt_len'') \<and> \<not> (item w ''phase'' = PStr ''prefill'' \<and> item w ''schedule_policy'' \<noteq> PStr ''serialized'') \<and>
      (case item w ''model'' of
         PStr name \<Rightarrow>
           require (item w ''phase'' \<in> set (map PStr (dgetd SUPPORTED_MODEL_PHASES name []))) (CFail ''workload.phase'')
       | PDict m \<Rightarrow> require (item w ''schedule_policy'' = PStr ''serialized'') (CFail ''workload.schedule_policy'')
       | _ \<Rightarrow> Inr ()) = Inr ()"
    using load by - (elim exE conjE, intro conjI, assumption+)
  note basics = basics[THEN conjunct1] basics[THEN conjunct2, THEN conjunct1] basics[THEN conjunct2, THEN conjunct2, THEN conjunct1]
    basics[THEN conjunct2, THEN conjunct2, THEN conjunct2]
  obtain past prompt where ints: "item w ''past_len'' = PInt past" "0 < past" "item w ''prompt_len'' = PInt prompt" "0 < prompt"
    using basics(4) by (auto simp: positive_int_iff)
  have phase: "item w ''phase'' \<in> {PStr ''decode'', PStr ''prefill''}" using basics(2) by (auto simp: SUPPORTED_PHASES_def)
  obtain policy where policy: "item w ''schedule_policy'' = PStr policy" "policy \<in> {''serialized'', ''overlap_independent_heads''}"
    using basics(3) by (auto simp: SUPPORTED_SCHEDULE_POLICIES_def)
  have dt: "item w ''datatype'' \<in> {PStr ''int8'', PStr ''fp16'', PStr ''bf16''}"
    using basics(1) by (auto simp: SUPPORTED_WORKLOAD_DATATYPES_def)
  have pre: "item w ''phase'' = PStr ''prefill'' \<Longrightarrow> policy = ''serialized''" using basics(4) policy(1) by simp
  note last = basics(4)[THEN conjunct2, THEN conjunct2, THEN conjunct2]
  have m: "case item w ''model'' of
       PStr name \<Rightarrow> item w ''phase'' \<in> set (map PStr (dgetd SUPPORTED_MODEL_PHASES name []))
     | PDict m \<Rightarrow> policy = ''serialized'' \<and> check_model m = Inr () | _ \<Rightarrow> False"
  proof (cases "item w ''model''")
    case (PStr name)
    then show ?thesis using last by (simp only: pyval.case require_Inr)
  next
    case (PDict d)
    then show ?thesis using last model policy(1) by (simp add: require_Inr resolve_model_def expect_mapping_def rbind_Inr_iff)
  qed (use model in \<open>simp_all add: resolve_model_def expect_mapping_def\<close>)
  then have "dget w ''model'' = Some (item w ''model'')" by (intro item_Some) (auto split: pyval.splits)
  moreover have "generation_fields w past prompt policy"
  proof -
    have "dget w f = Some (item w f)" if "item w f \<noteq> PNone" for f using that by (auto intro: item_Some)
    then have "dget w ''past_len'' = Some (PInt past)" "dget w ''prompt_len'' = Some (PInt prompt)" "dget w ''phase'' = Some (item w ''phase'')"
      "dget w ''schedule_policy'' = Some (PStr policy)" "dget w ''datatype'' = Some (item w ''datatype'')"
      using ints(1,3) phase policy(1) dt by force+
    then show ?thesis using ints(2,4) phase policy(2) dt pre by (simp add: generation_fields_def)
  qed
  ultimately show ?thesis using m by blast
qed

section \<open>The model of the manifest\<close>

definition variant_of :: "dict \<Rightarrow> string" where
  "variant_of m = text_of (dgetd m ''ffn_variant'' (PStr ''swiglu_3proj''))"

definition activation_of :: "dict \<Rightarrow> string" where
  "activation_of m = text_of (dgetd m ''activation'' (PStr ''silu''))"

lemma text_of_PStr [simp]: "text_of (PStr s) = s"
  by (simp add: text_of_def)

lemma nonblank_str: "nonblank v \<Longrightarrow> \<exists>s. v = PStr s"
  by (cases v) (auto simp: nonblank_def)

lemma present_str:
  assumes "each_present m fs path (\<lambda>v path. require (nonblank v) (CFail path)) = Inr ()" and "f \<in> set fs"
  shows "dget m f = None \<or> (\<exists>s. dget m f = Some (PStr s))"
proof -
  have "is_ok (rmap (\<lambda>f. case dget m f of None \<Rightarrow> Inr () | Some v \<Rightarrow> require (nonblank v) (CFail (path @ f))) fs)"
    using assms(1) unfolding each_present_def rbind_Inr_iff is_ok_iff by blast
  then have "is_ok (case dget m f of None \<Rightarrow> Inr () | Some v \<Rightarrow> require (nonblank v) (CFail (path @ f)))"
    using assms(2) by (simp only: is_ok_rmap)
  then show ?thesis by (auto simp: is_ok_iff require_Inr dest: nonblank_str split: option.splits)
qed

lemma checked_model:
  assumes c: "check_model m = Inr ()" and dt: "dget w ''datatype'' = Some (PStr datatype)"
    and "datatype \<in> {''int8'', ''fp16'', ''bf16''}"
  shows "\<exists>s. custom_model_spec w m = Inr s \<and> 0 < spec_num_layers s \<and> spec_ffn_variant s = variant_of m \<and>
    spec_activation s = activation_of m \<and> (supported_spec s \<longleftrightarrow> activation_matches (variant_of m) (activation_of m)) \<and>
    dget m ''name'' = Some (PStr (spec_name s))"
proof -
  note parts = c[unfolded check_model_def rbind_Inr_iff require_Inr expect_positive_int_def choice_def]
  obtain name where name: "dget m ''name'' = Some (PStr name)"
  proof -
    have "nonblank (item m ''name'')" using parts by blast
    then show thesis using that by (auto dest!: nonblank_str item_Some)
  qed
  have "is_ok (rmap (\<lambda>f. require (positive_int (item m f)) (CFail (''workload.model.'' @ f)))
      [''num_layers'', ''hidden_size'', ''num_heads'', ''head_dim'', ''ffn_hidden_size''])"
    using parts unfolding is_ok_iff by blast
  then have "is_ok (require (positive_int (item m f)) (CFail (''workload.model.'' @ f)))"
    if "f \<in> {''num_layers'', ''hidden_size'', ''num_heads'', ''head_dim'', ''ffn_hidden_size''}" for f
    using that unfolding is_ok_rmap by (auto simp del: is_ok_require)
  then have "positive_int (item m f)" if "f \<in> {''num_layers'', ''hidden_size'', ''num_heads'', ''head_dim'', ''ffn_hidden_size''}" for f
    using that by (auto simp: is_ok_iff require_Inr)
  then have "\<exists>i. dget m f = Some (PInt i) \<and> 0 < i" if "f \<in> {''num_layers'', ''hidden_size'', ''num_heads'', ''head_dim'', ''ffn_hidden_size''}" for f
    using that by (metis item_Some positive_int_iff pyval.distinct)
  then obtain layers hidden heads hsize ffn where ints: "dget m ''num_layers'' = Some (PInt layers)" "dget m ''hidden_size'' = Some (PInt hidden)"
    "dget m ''num_heads'' = Some (PInt heads)" "dget m ''head_dim'' = Some (PInt hsize)" "dget m ''ffn_hidden_size'' = Some (PInt ffn)"
    "0 < layers" "0 < hidden" "0 < heads" "0 < hsize" "0 < ffn"
    by (metis insertCI)
  obtain kv where kv: "opt_int m ''num_kv_heads'' = Inr kv" "kv = None \<or> (\<exists>k. kv = Some k \<and> 0 < k \<and> heads mod k = 0)"
  proof (cases "dget m ''num_kv_heads''")
    case None
    then show ?thesis using that[of None] by (simp add: opt_int_def dgetd_def)
  next
    case (Some v)
    have "is_ok (case dget m ''num_kv_heads'' of None \<Rightarrow> Inr () | Some v \<Rightarrow>
        rbind (require (positive_int v) (CFail ''workload.model.num_kv_heads'')) (\<lambda>_.
        rbind (require (model_int m ''num_kv_heads'' \<le> model_int m ''num_heads'') (CFail ''workload.model.num_kv_heads'')) (\<lambda>_.
        require (model_int m ''num_heads'' mod model_int m ''num_kv_heads'' = 0) (CFail ''workload.model.num_kv_heads''))))"
      using parts unfolding is_ok_iff by blast
    then have "positive_int v" "heads mod model_int m ''num_kv_heads'' = 0"
      using Some ints(3) by (auto simp: model_int_def dgetd_def rbind_Inr_iff require_Inr is_ok_iff)
    then obtain k where "v = PInt k" "0 < k" "heads mod k = 0" using Some by (auto simp: positive_int_iff model_int_def dgetd_def)
    then show ?thesis using that[of "Some k"] Some by (simp add: opt_int_def dgetd_def)
  qed
  have texts: "each_present m [''activation'', ''citation'', ''paper_anchor''] ''workload.model.'' (\<lambda>v path. require (nonblank v) (CFail path)) = Inr ()"
    using parts by blast
  obtain citation anchor where "opt_str m ''citation'' = Inr citation" "opt_str m ''paper_anchor'' = Inr anchor"
    using present_str[OF texts, of "''citation''"] present_str[OF texts, of "''paper_anchor''"] by (auto simp: opt_str_def dgetd_def)
  moreover have act: "default_str m ''activation'' ''silu'' = Inr (activation_of m)"
    using present_str[OF texts, of "''activation''"] by (auto simp: default_str_def activation_of_def dgetd_def)
  moreover have "is_ok (case dget m ''ffn_variant'' of None \<Rightarrow> Inr () | Some v \<Rightarrow>
      require (v \<in> set (map PStr SUPPORTED_FFN_VARIANTS)) (CFail ''workload.model.ffn_variant''))"
    using parts unfolding is_ok_iff by blast
  then have var: "default_str m ''ffn_variant'' ''swiglu_3proj'' = Inr (variant_of m)"
    "variant_of m \<in> {''swiglu_3proj'', ''geglu_3proj'', ''relu_2proj''}"
    by (auto simp: default_str_def variant_of_def dgetd_def SUPPORTED_FFN_VARIANTS_def require_Inr is_ok_iff split: option.splits)
  ultimately have spec: "custom_model_spec w m =
      make_model_spec name layers hidden heads hsize ffn datatype kv citation anchor (variant_of m) (activation_of m)"
    by (simp add: custom_model_spec_def w_str_def w_int_def g_get_def name ints(1-5) kv(1) dt)
  have variants: "variant_of m \<in> set SUPPORTED_GENERATOR_VARIANTS"
    using var(2) by (simp add: SUPPORTED_GENERATOR_VARIANTS_def FFN_VARIANT_RELU_2PROJ_def FFN_VARIANT_GEGLU_3PROJ_def FFN_VARIANT_SWIGLU_3PROJ_def)
  obtain s where s: "custom_model_spec w m = Inr s" "spec_num_layers s = layers" "spec_ffn_variant s = variant_of m"
    "spec_activation s = activation_of m" "spec_name s = name" "spec_hidden_size s = hidden" "spec_num_heads s = heads" "spec_head_dim s = hsize"
    "spec_ffn_hidden_size s = ffn" "spec_datatype s = datatype" "0 < spec_num_kv_heads s" "heads mod spec_num_kv_heads s = 0"
    unfolding spec make_model_spec_def Let_def using kv(2) ints(8) variants by (auto simp: if_distrib)
  have "supported_spec s \<longleftrightarrow> activation_matches (variant_of m) (activation_of m)"
    using s ints(6-10) var(2) assms(3)
    by (auto simp: supported_spec_def activation_matches_def SUPPORTED_ATTENTION_DATATYPES_def FFN_VARIANT_RELU_2PROJ_def FFN_VARIANT_GEGLU_3PROJ_def
        FFN_VARIANT_SWIGLU_3PROJ_def)
  then show ?thesis using s ints(6) name by auto
qed

section \<open>When a workload has a trace\<close>

lemma registered_dense:
  assumes "name \<in> set DENSE_MODEL_KEYS"
  shows "\<exists>s. get_model_spec name = Inr s \<and> supported_spec s"
proof -
  have "list_all (\<lambda>n. dget MODEL_REGISTRY n \<noteq> None) DENSE_MODEL_KEYS"
    by (simp add: DENSE_MODEL_KEYS_def MODEL_REGISTRY_def)
  then obtain s where "dget MODEL_REGISTRY name = Some s" using assms by (auto simp: list_all_iff)
  then show ?thesis by (simp add: get_model_spec_def registered_supported)
qed

lemma named_workload:
  assumes w: "generation_fields w past prompt policy" and "name \<in> set DENSE_MODEL_KEYS"
  shows "is_ok (named_records w name policy) \<longleftrightarrow> policy = ''serialized''"
proof -
  obtain s where s: "get_model_spec name = Inr s" "supported_spec s" using registered_dense[OF assms(2)] by blast
  have layers: "0 < spec_num_layers s" using s(2) by (simp add: supported_spec_def)
  show ?thesis
  proof (cases "dget w ''phase'' = Some (PStr ''decode'')")
    case True
    have "is_ok (dense_decoder_records_from_spec s (Some past) policy) \<longleftrightarrow> policy = ''serialized''"
      using decode_spec_total[OF s(2), of "Some past"] decode_needs[of s "Some past" policy] layers w by (auto simp: generation_fields_def is_ok_iff)
    then show ?thesis
      using True w by (simp add: named_records_def dense_decoder_records_for_model_def s(1) w_int_def g_get_def generation_fields_def dgetd_def)
  next
    case False
    then have "dget w ''phase'' = Some (PStr ''prefill'')" "policy = ''serialized''" using w by (auto simp: generation_fields_def)
    then show ?thesis
      using prefill_spec_total[OF s(2), of prompt] w
      by (simp add: named_records_def dense_prefill_records_for_model_def s(1) w_int_def g_get_def generation_fields_def dgetd_def)
  qed
qed

lemma mixtral_workload:
  assumes "generation_fields w past prompt policy"
  shows "is_ok (mixtral_records w policy) \<longleftrightarrow> policy = ''serialized''"
proof
  let ?a = "mixtral_attention_manifest past policy False" and ?m = "mixtral_moe_manifest policy None False"
  assume "is_ok (mixtral_records w policy)"
  then obtain rs where "generate_moe_transformer_layer_records ?a ?m = Inr rs"
    using assms by (auto simp: mixtral_records_def mixtral_manifests_def generate_mixtral_8x7b_decoder_records_def Let_def is_ok_iff w_int_def
        g_get_def generation_fields_def)
  then have "policy \<in> {''serialized'', ''overlap_selected_experts''}"
    by (rule mixture_needs[where n = 32]) (simp_all add: manifest_reads manifest_fields)
  then show "policy = ''serialized''" using assms by (auto simp: generation_fields_def)
next
  assume "policy = ''serialized''"
  then show "is_ok (mixtral_records w policy)"
    using mixtral_decoder_total[of past None False] assms
    by (simp add: mixtral_records_def mixtral_manifests_def generate_mixtral_8x7b_decoder_records_def Let_def w_int_def g_get_def
        generation_fields_def chosen_ok_def)
qed

lemma custom_workload:
  assumes w: "generation_fields w past prompt ''serialized''" and c: "check_model m = Inr ()"
  shows "is_ok (custom_records w m ''serialized'') \<longleftrightarrow> activation_matches (variant_of m) (activation_of m)"
proof -
  obtain dt where "dget w ''datatype'' = Some (PStr dt)" "dt \<in> {''int8'', ''fp16'', ''bf16''}" using w by (auto simp: generation_fields_def)
  from checked_model[OF c this] obtain s where s: "custom_model_spec w m = Inr s" "0 < spec_num_layers s" "spec_ffn_variant s = variant_of m"
    "spec_activation s = activation_of m" "supported_spec s \<longleftrightarrow> activation_matches (variant_of m) (activation_of m)" by blast
  show ?thesis
  proof (cases "dget w ''phase'' = Some (PStr ''decode'')")
    case True
    have "is_ok (dense_decoder_records_from_spec s (Some past) ''serialized'') \<longleftrightarrow> activation_matches (variant_of m) (activation_of m)"
      using decode_spec_total[of s "Some past"] decode_needs[of s "Some past" "''serialized''"] s w by (auto simp: generation_fields_def is_ok_iff)
    then show ?thesis using True w by (simp add: custom_records_def s(1) w_int_def g_get_def generation_fields_def dgetd_def)
  next
    case False
    then have "dget w ''phase'' = Some (PStr ''prefill'')" using w by (auto simp: generation_fields_def)
    moreover have "is_ok (dense_prefill_records_from_spec s prompt ''serialized'') \<longleftrightarrow> activation_matches (variant_of m) (activation_of m)"
      using prefill_spec_total[of s prompt] prefill_needs[of s prompt] s w by (auto simp: generation_fields_def is_ok_iff)
    ultimately show ?thesis using w by (simp add: custom_records_def s(1) w_int_def g_get_def generation_fields_def dgetd_def)
  qed
qed

lemma is_ok_rbind_total: "(\<And>a. is_ok (g a)) \<Longrightarrow> is_ok (rbind m g) \<longleftrightarrow> is_ok m"
  by (cases m) simp_all

text \<open>
  C29: which accepted workloads run. A workload that the resolution of a manifest accepts has a trace
  exactly when its schedule is serialized and, for a model given by its dimensions, the activation
  fits the variant of the feed-forward network. The resolution itself demands neither.
\<close>

theorem workload_generates_iff:
  assumes "resolve_workload raw = Inr w"
  shows "is_ok (generate_workload w) \<longleftrightarrow> item w ''schedule_policy'' = PStr ''serialized'' \<and>
    (case item w ''model'' of PDict m \<Rightarrow> activation_matches (variant_of m) (activation_of m) | _ \<Rightarrow> True)"
proof -
  obtain past prompt policy where w: "generation_fields w past prompt policy"
    and m: "case item w ''model'' of
       PStr name \<Rightarrow> item w ''phase'' \<in> set (map PStr (dgetd SUPPORTED_MODEL_PHASES name []))
     | PDict m \<Rightarrow> policy = ''serialized'' \<and> check_model m = Inr () | _ \<Rightarrow> False"
    and model: "dget w ''model'' = Some (item w ''model'')"
    using resolved_generation_fields[OF assms] by blast
  have start: "generate_workload w = (case item w ''model'' of
       PStr name \<Rightarrow>
         rbind (if name = MIXTRAL_MODEL_KEY then mixtral_records w policy else named_records w name policy) (\<lambda>rs. Inr (rs, name))
     | PDict m \<Rightarrow> rbind (custom_records w m policy) (\<lambda>rs. rbind (w_str m ''name'') (\<lambda>name. Inr (rs, name)))
     | _ \<Rightarrow> Inl (GType ''model''))"
    using w model by (auto simp: generate_workload_def g_get_def w_str_def generation_fields_def)
  have policy: "item w ''schedule_policy'' = PStr policy" using w by (simp add: generation_fields_def dgetd_def)
  show ?thesis
  proof (cases "item w ''model''")
    case (PStr name)
    show ?thesis
    proof (cases "name = MIXTRAL_MODEL_KEY")
      case True
      then show ?thesis using mixtral_workload[OF w] by (simp add: start PStr policy is_ok_rbind_total)
    next
      case False
      have "dgetd SUPPORTED_MODEL_PHASES name [] \<noteq> []" using m PStr by auto
      then have "name \<in> set (dkeys SUPPORTED_MODEL_PHASES)" by (auto simp: dgetd_def dest: dget_Some_in split: option.splits)
      then have "name \<in> set DENSE_MODEL_KEYS" using False by (auto simp: SUPPORTED_MODEL_PHASES_def)
      then show ?thesis using named_workload[OF w] False by (simp add: start PStr policy is_ok_rbind_total)
    qed
  next
    case (PDict d)
    then have pol: "policy = ''serialized''" and c: "check_model d = Inr ()" using m by simp_all
    obtain dt where "dget w ''datatype'' = Some (PStr dt)" "dt \<in> {''int8'', ''fp16'', ''bf16''}" using w by (auto simp: generation_fields_def)
    from checked_model[OF c this] have "is_ok (w_str d ''name'')" by (auto simp: w_str_def g_get_def)
    then have "is_ok (generate_workload w) \<longleftrightarrow> is_ok (custom_records w d ''serialized'')"
      by (simp add: start PDict pol is_ok_rbind_total)
    then show ?thesis using custom_workload[OF w[unfolded pol] c] by (simp add: PDict policy pol)
  qed (use m in simp_all)
qed

definition overlapped_workload :: dict where
  "overlapped_workload =
     [(''model'', PStr ''llama2-7b''), (''phase'', PStr ''decode''), (''schedule_policy'', PStr ''overlap_independent_heads'')]"

definition mismatched_workload :: dict where
  "mismatched_workload =
     [(''model'', PDict [(''name'', PStr ''tiny''), (''num_layers'', PInt 1), (''hidden_size'', PInt 8), (''num_heads'', PInt 2),
        (''head_dim'', PInt 4), (''ffn_hidden_size'', PInt 16), (''ffn_variant'', PStr ''relu_2proj'')])]"

lemma accepted_workloads:
  "\<exists>w. resolve_workload (PDict overlapped_workload) = Inr w \<and> item w ''schedule_policy'' = PStr ''overlap_independent_heads''"
  "\<exists>w m. resolve_workload (PDict mismatched_workload) = Inr w \<and> item w ''model'' = PDict m \<and>
     \<not> activation_matches (variant_of m) (activation_of m)"
  "\<exists>w. resolve_workload (PDict [(''model'', PStr ''llama2-7b'')]) = Inr w \<and> item w ''schedule_policy'' = PStr ''serialized'' \<and>
     item w ''model'' = PStr ''llama2-7b''"
proof -
  have "case resolve_workload (PDict overlapped_workload) of Inl _ \<Rightarrow> False
      | Inr w \<Rightarrow> item w ''schedule_policy'' = PStr ''overlap_independent_heads''"
    by code_simp
  then show "\<exists>w. resolve_workload (PDict overlapped_workload) = Inr w \<and> item w ''schedule_policy'' = PStr ''overlap_independent_heads''"
    by (simp split: sum.splits)
  have "case resolve_workload (PDict mismatched_workload) of Inl _ \<Rightarrow> False
      | Inr w \<Rightarrow> (case item w ''model'' of PDict m \<Rightarrow> \<not> activation_matches (variant_of m) (activation_of m) | _ \<Rightarrow> False)"
    by code_simp
  then show "\<exists>w m. resolve_workload (PDict mismatched_workload) = Inr w \<and> item w ''model'' = PDict m \<and>
     \<not> activation_matches (variant_of m) (activation_of m)"
    by (auto split: sum.splits pyval.splits)
  have "case resolve_workload (PDict [(''model'', PStr ''llama2-7b'')]) of Inl _ \<Rightarrow> False
      | Inr w \<Rightarrow> item w ''schedule_policy'' = PStr ''serialized'' \<and> item w ''model'' = PStr ''llama2-7b''"
    by code_simp
  then show "\<exists>w. resolve_workload (PDict [(''model'', PStr ''llama2-7b'')]) = Inr w \<and> item w ''schedule_policy'' = PStr ''serialized'' \<and>
     item w ''model'' = PStr ''llama2-7b''"
    by (simp split: sum.splits)
qed

theorem workload_generates_iff_witness:
  "(\<exists>w. resolve_workload (PDict overlapped_workload) = Inr w \<and> \<not> is_ok (generate_workload w)) \<and>
   (\<exists>w. resolve_workload (PDict mismatched_workload) = Inr w \<and> \<not> is_ok (generate_workload w)) \<and>
   (\<exists>w. resolve_workload (PDict [(''model'', PStr ''llama2-7b'')]) = Inr w \<and> is_ok (generate_workload w))"
  using accepted_workloads workload_generates_iff by (intro conjI) (elim exE conjE, intro exI conjI, assumption, simp)+

end
