(* ===== verification/Pimscope_Backend.thy ===== *)
theory Pimscope_Backend
  imports Standards Pim_Resources Concrete_Artifacts Pimscope_Workloads
begin

text \<open>
  \<open>pimscope/backend.py\<close>: from a resolved manifest to the memory device and the arguments of the
  trace frontend, and from the statistics of the simulator to the report of a replay. The simulator
  itself is the parameter \<open>simulate\<close> of the definitions that run it. A failure of another module is
  kept as its own error; \<open>RunFail\<close> is a failed check of this one, \<open>RunType\<close> a value of a wrong type.
\<close>

datatype run_error =
    RunGen gen_error | RunLower lower_error | RunTrace trace_error | RunPim pim_error | RunAddr addr_error
  | RunFail string | RunType string

definition lift_err :: "('e \<Rightarrow> run_error) \<Rightarrow> 'e + 'a \<Rightarrow> run_error + 'a" where
  "lift_err f m = (case m of Inl e \<Rightarrow> Inl (f e) | Inr a \<Rightarrow> Inr a)"

lemma lift_err_simps [simp]:
  "lift_err f (Inr a) = Inr a" "lift_err f (Inl e) = Inl (f e)" "lift_err f m = Inr a \<longleftrightarrow> m = Inr a"
  by (auto simp: lift_err_def split: sum.splits)

definition need :: "dict \<Rightarrow> string \<Rightarrow> run_error + pyval" where
  "need d f = (case dget d f of None \<Rightarrow> Inl (RunType f) | Some v \<Rightarrow> Inr v)"

definition need_dict :: "dict \<Rightarrow> string \<Rightarrow> run_error + dict" where
  "need_dict d f = rbind (need d f) (\<lambda>v. case v of PDict e \<Rightarrow> Inr e | _ \<Rightarrow> Inl (RunType f))"

definition need_str :: "dict \<Rightarrow> string \<Rightarrow> run_error + string" where
  "need_str d f = rbind (need d f) (\<lambda>v. case v of PStr s \<Rightarrow> Inr s | _ \<Rightarrow> Inl (RunType f))"

definition need_int :: "dict \<Rightarrow> string \<Rightarrow> run_error + int" where
  "need_int d f = rbind (need d f) (\<lambda>v. case v of PInt i \<Rightarrow> Inr i | _ \<Rightarrow> Inl (RunType f))"

section \<open>The device\<close>

definition LPDDR5_PIM_CONFIG :: dict where
  "LPDDR5_PIM_CONFIG =
     [(''dram_class'', PStr ''LPDDR5PIM''), (''org_preset'', PStr ''LPDDR5_8Gb_x16''), (''timing_preset'', PStr ''LPDDR5_6400''),
      (''dram_kwargs'', PDict
        [(''pim_datatype'', PStr ''int8''), (''pim_banks_per_block'', PInt 2), (''pim_mac_execution_model'', PStr ''shared_block_serial'')]),
      (''frontend_clock_ratio'', PInt 4)]"

definition pim_cfg_per_bank :: dict where
  "pim_cfg_per_bank = [(''pim_banks_per_block'', PInt 1), (''pim_mac_execution_model'', PStr ''shared_block_serial'')]"

definition pim_cfg_shared :: dict where
  "pim_cfg_shared = [(''pim_banks_per_block'', PInt 2), (''pim_mac_execution_model'', PStr ''shared_block_serial'')]"

text \<open>
  Only the two classes with PIM commands take these arguments; a manifest resolves to no other. The
  presets cannot be given among the keyword arguments as well.
\<close>

definition pim_class_of :: "string \<Rightarrow> run_error + pim_class" where
  "pim_class_of name =
     (if name = ''LPDDR5PIM'' then Inr LPDDR5PIM_class
      else if name = ''LPDDR6PIM'' then Inr LPDDR6PIM_class
      else Inl (RunFail ''dram_class''))"

definition create_dram :: "dict \<Rightarrow> dict \<Rightarrow> run_error + pim_dram" where
  "create_dram cfg overrides =
     (let cfg = (if cfg = [] then LPDDR5_PIM_CONFIG else cfg) in
      rbind (case dgetd cfg ''dram_kwargs'' (PDict []) of PDict k \<Rightarrow> Inr k | _ \<Rightarrow> Inl (RunType ''dram_kwargs'')) (\<lambda>kwargs.
      let kwargs = dupdate kwargs overrides in
      rbind (case dgetd cfg ''dram_class'' (PStr ''LPDDR5PIM'') of PStr s \<Rightarrow> pim_class_of s | _ \<Rightarrow> Inl (RunType ''dram_class'')) (\<lambda>cls.
      rbind (need_str cfg ''org_preset'') (\<lambda>org.
      rbind (need_str cfg ''timing_preset'') (\<lambda>tim.
      if has kwargs ''org_preset'' \<or> has kwargs ''timing_preset'' then Inl (RunType ''dram_kwargs'')
      else lift_err RunPim (pim_construct cls org tim kwargs))))))"

definition hardware_config_from_manifest :: "dict \<Rightarrow> string \<Rightarrow> run_error + dict" where
  "hardware_config_from_manifest manifest fingerprint =
     rbind (need_dict manifest ''hardware'') (\<lambda>hw.
     rbind (need_dict hw ''pim'') (\<lambda>pim.
     rbind (rmap (need hw) [''dram_class'', ''org_preset'', ''timing_preset'', ''frontend_clock_ratio'']) (\<lambda>_.
     rbind (need_dict hw ''controller'') (\<lambda>controller.
     rbind (need_dict hw ''memory_system'') (\<lambda>memory.
     Inr [(''dram_class'', item hw ''dram_class''), (''org_preset'', item hw ''org_preset''), (''timing_preset'', item hw ''timing_preset''),
          (''dram_kwargs'', PDict (dupdate (dupdate pim (sub_section hw ''timing_overrides'')) (sub_section hw ''org_overrides''))),
          (''frontend_clock_ratio'', item hw ''frontend_clock_ratio''), (''controller'', PDict controller),
          (''memory_system'', PDict memory), (''manifest_fingerprint'', PStr fingerprint)])))))"

text \<open>The layout of an instance, \<open>extract_dram_layout(dram)\<close>, which resolves the instance.\<close>

definition pim_layout :: "pim_dram \<Rightarrow> run_error + layout" where
  "pim_layout d =
     rbind (lift_err RunPim (pim_resolve d)) (\<lambda>(od, _).
     lift_err RunAddr (extract_dram_layout (pd_standard d) (subchannel_of (pd_standard d)) od))"

definition address_mapping_version :: int where
  "address_mapping_version = 1"

section \<open>The trace frontend\<close>

definition position_of :: "(string \<times> 'a) list \<Rightarrow> string \<Rightarrow> run_error + pyval" where
  "position_of entries name = (case list_index (map fst entries) name of None \<Rightarrow> Inl (RunType name) | Some i \<Rightarrow> Inr (PInt (int i)))"

definition concrete_address_layout :: "layout \<Rightarrow> dict" where
  "concrete_address_layout ly =
     [(''address_mapping_version'', PInt address_mapping_version), (''level_names'', p_strs (ly_level_names ly)),
      (''level_sizes'', PList (map PInt (ly_level_sizes ly))), (''address_level_sizes'', PList (map PInt (ly_address_level_sizes ly))),
      (''internal_prefetch_size'', PInt (ly_prefetch ly)), (''tx_bytes'', PInt (ly_tx_bytes ly))]"

definition frontend_of :: "(string \<times> string) list" where
  "frontend_of = [(''LPDDR5PIM'', ''LPDDR5PIMConcreteTrace''), (''LPDDR6PIM'', ''LPDDR6PIMConcreteTrace'')]"

text \<open>The frontend of a device: the component and its arguments.\<close>

definition create_concrete_frontend ::
  "string \<Rightarrow> pim_dram \<Rightarrow> int \<Rightarrow> int option \<Rightarrow> int option \<Rightarrow> int \<Rightarrow> run_error + string \<times> dict" where
  "create_concrete_frontend path d clock_ratio max_trace_bytes max_expanded max_inflight =
     (let std = pd_standard d; requests = std_supported_requests std; commands = map (\<lambda>c. (c, ())) (std_commands std) in
      rbind (pim_layout d) (\<lambda>ly.
      rbind (position_of requests ''PIMCompute'') (\<lambda>compute.
      rbind (position_of requests ''PIMLoadAll'') (\<lambda>load.
      rbind (position_of requests ''PIMComputeAll'') (\<lambda>compute_all.
      rbind (position_of commands ''SB'') (\<lambda>sb.
      rbind (position_of commands ''HAB'') (\<lambda>hab.
      rbind (position_of commands ''HAB_PIM'') (\<lambda>hab_pim.
      let kwargs =
        [(''clock_ratio'', PInt clock_ratio), (''path'', PStr path), (''pim_compute_request_type_id'', compute),
         (''pim_load_all_request_type_id'', load), (''pim_compute_all_request_type_id'', compute_all), (''sb_command_id'', sb),
         (''hab_command_id'', hab), (''hab_pim_command_id'', hab_pim), (''addr_vec_size'', PInt (int (length (ly_level_names ly))))] @
        concrete_address_layout ly @
        [(''max_repeat'', PInt 100000000), (''max_records'', PInt 10000000), (''max_inflight_requests'', PInt max_inflight)] @
        (case max_trace_bytes of None \<Rightarrow> [] | Some n \<Rightarrow> [(''max_trace_bytes'', PInt n)]) @
        (case max_expanded of None \<Rightarrow> [] | Some n \<Rightarrow> [(''max_expanded_records'', PInt n)])
      in case (dget frontend_of (std_name std), dget CONCRETE_SCHEMA_VERSIONS (std_name std)) of
           (Some frontend, Some schema) \<Rightarrow>
             Inr (frontend, kwargs @ [(''expected_schema_version'', PStr schema), (''expected_dram_class'', PStr (std_name std))])
         | _ \<Rightarrow> Inl (RunFail ''frontend'')))))))))"

section \<open>Statistics\<close>

text \<open>\<open>int(d.get(k, 0) or 0)\<close>\<close>

definition stat_int :: "dict \<Rightarrow> string \<Rightarrow> run_error + int" where
  "stat_int d k =
     (let v = dgetd d k (PInt 0) in
      case py_int (if truthy v then v else PInt 0) of None \<Rightarrow> Inl (RunType k) | Some i \<Rightarrow> Inr i)"

definition stat_section :: "dict \<Rightarrow> string \<Rightarrow> run_error + dict" where
  "stat_section d k = (case dgetd d k (PDict []) of PDict e \<Rightarrow> Inr e | _ \<Rightarrow> Inl (RunType k))"

definition as_float :: "string \<Rightarrow> pyval \<Rightarrow> run_error + rat" where
  "as_float k v = (case num_of v of None \<Rightarrow> Inl (RunType k) | Some x \<Rightarrow> Inr x)"

definition finite_nonnegative_stat :: "dict \<Rightarrow> string \<Rightarrow> run_error + rat option" where
  "finite_nonnegative_stat stats k =
     (case dgetd stats k PNone of
        PNone \<Rightarrow> Inr None
      | v \<Rightarrow> rbind (as_float k v) (\<lambda>x. if x < 0 then Inl (RunFail k) else Inr (Some x)))"

definition float_or_none :: "rat option \<Rightarrow> pyval" where
  "float_or_none x = (case x of None \<Rightarrow> PNone | Some x \<Rightarrow> PFloat x)"

definition ENERGY_COEFFICIENTS :: "string list" where
  "ENERGY_COEFFICIENTS =
     [''pim_compute_energy_pJ_per_mac'', ''pim_cell_to_pim_energy_pJ_per_256b'', ''pim_vrf_access_energy_pJ'',
      ''pim_srf_access_energy_pJ'', ''pim_array_local_energy_pJ'', ''pim_mode_switch_energy_pJ'']"

definition energy_coefficients :: "dict \<Rightarrow> run_error + dict" where
  "energy_coefficients stats =
     rmap (\<lambda>k. rbind (as_float k (item stats k)) (\<lambda>x. Inr (k, PFloat x))) (filter (has stats) ENERGY_COEFFICIENTS)"

definition PAPER_LPDDR5_POWER_PROFILE_NAME :: string where
  "PAPER_LPDDR5_POWER_PROFILE_NAME = ''PAPER_LPDDR5_POWER''"

definition PAPER_LPDDR5_POWER_UNITS :: dict where
  "PAPER_LPDDR5_POWER_UNITS =
     [(''current'', PStr ''mA''), (''voltage'', PStr ''V''), (''time'', PStr ''ns''), (''energy'', PStr ''pJ'')]"

definition PAPER_LPDDR5_POWER_PROVENANCE :: dict where
  "PAPER_LPDDR5_POWER_PROVENANCE =
     [(''source'', PStr ''PIMScope camera-ready paper, Table III and Section III-B''),
      (''source_path'', PStr ''paper/PIMScope_camera_ready.pdf''), (''source_reference'', PStr ''[30] DRAMPower''),
      (''profile_scope'', PStr ''camera_ready_lpddr5_6400_analysis''), (''calibration'', PStr ''not_device_calibrated''),
      (''dimensional_equation'', PStr ''V[V] * I[mA] * t[ns] = E[pJ]''),
      (''legacy_conversion'', PStr ''multiply_by_1e-3_after_V_mA_ns_product''), (''legacy_conversion_scale'', PFloat (1 / 1000)),
      (''implementation_note'', PStr
        ''legacy paper conversion is retained; do not use this profile as a datasheet or calibrated absolute-energy claim'')]"

text \<open>The energy of a replay: that of the memory, that of the PIM events, and their sum when both are known.\<close>

definition power_accounting_metadata :: "string \<Rightarrow> dict \<Rightarrow> string option \<Rightarrow> run_error + dict" where
  "power_accounting_metadata device stats power_profile =
     rbind (finite_nonnegative_stat stats ''total_energy'') (\<lambda>base.
     rbind (finite_nonnegative_stat stats ''total_incremental_cmd_energy'') (\<lambda>pim.
     rbind (energy_coefficients stats) (\<lambda>coefficients.
     let sum = (case (base, pim) of (Some b, Some p) \<Rightarrow> Some (b + p) | _ \<Rightarrow> None);
         profile = (\<lambda>alt. PStr (case power_profile of None \<Rightarrow> alt | Some p \<Rightarrow> if p = [] then alt else p));
         energies = [(''metadata_documentation'', PStr ''ramulator2/docs/PIMScope-metadata.md''), (''energy_units'', PStr ''pJ''),
           (''total_standard_energy_pJ'', float_or_none base), (''total_pim_event_energy_pJ'', float_or_none pim),
           (''total_energy_pJ'', float_or_none sum), (''coefficients'', PDict coefficients)];
         available = [(''standard_background_command_energy_available'', PBool (base \<noteq> None)),
           (''standard_power_calibrated_to_device'', PBool False), (''pim_event_coefficients_available'', PBool True)]
     in if device = ''LPDDR6PIM'' then
          Inr ([(''status'', PStr ''experimental_drampower_reference''),
                (''model'', PStr ''drampower_v6.2_test_profile_plus_pimscope_pim_events''),
                (''equation'', PStr ''E = E_LPDDR6_reference + E_PIM'')] @ available @
               [(''pim_energy_method'', PStr ''lpddr5pim_event_coefficients'')] @ energies @
               [(''power_profile'', profile ''DRAMPOWER_V620_LPDDR6_TEST_PROFILE''),
                (''standard_power_source'', PDict
                  [(''repository'', PStr ''https://github.com/tukl-msd/DRAMPower''), (''version'', PStr ''v6.2.0''),
                   (''commit'', PStr ''d8b980ab9e725480787b130798ad7ef675517b34''),
                   (''path'', PStr ''tests/tests_drampower/resources/lpddr6.json''), (''current_conversion'', PStr ''A_to_mA''),
                   (''calibration'', PStr ''test_fixture_not_device_datasheet'')])])
        else
          Inr ([(''status'', PStr ''paper_two_layer''), (''model'', PStr ''pimscope_camera_ready_table_iii''),
                (''equation'', PStr ''E = E_LPDDR + E_PIM''),
                (''energy_scope'', PStr ''standard_memory_plus_incremental_pim_events''),
                (''standard_energy_units'', PDict PAPER_LPDDR5_POWER_UNITS),
                (''standard_power_source'', PDict PAPER_LPDDR5_POWER_PROVENANCE)] @ available @
               [(''pim_energy_method'', PStr ''paper_event_coefficients'')] @ energies @
               [(''power_profile'', profile PAPER_LPDDR5_POWER_PROFILE_NAME)]))))"

section \<open>Counting\<close>

definition repeat_of :: "dict \<Rightarrow> run_error + int" where
  "repeat_of r = (case py_int (dgetd r ''repeat'' (PInt 1)) of None \<Rightarrow> Inl (RunType ''repeat'') | Some i \<Rightarrow> Inr i)"

text \<open>\<open>dict(sorted(counts.items()))\<close> of a counter of the opcodes, which are strings.\<close>

definition count_concrete_opcodes :: "dict list \<Rightarrow> run_error + (string \<times> int) list" where
  "count_concrete_opcodes rs =
     rbind (rfold (\<lambda>counts r.
       rbind (need_str r ''opcode'') (\<lambda>op. rbind (repeat_of r) (\<lambda>n. Inr (dset op (dgetd counts op 0 + n) counts)))) [] rs)
       (\<lambda>counts. Inr (sort_key fst counts))"

definition FRONTEND_COUNT_KEYS :: "string list" where
  "FRONTEND_COUNT_KEYS =
     [''records_loaded'', ''records_expanded'', ''opcode_requests_sent'', ''opcode_requests_completed'', ''sb_records'',
      ''hab_records'', ''hab_pim_records'', ''pim_bcast_records'', ''pim_mac_records'', ''pim_mac_ab_records'', ''read_records'',
      ''write_records'']"

definition frontend_counts :: "dict \<Rightarrow> run_error + (string \<times> int) list" where
  "frontend_counts frontend = rmap (\<lambda>k. rbind (stat_int frontend k) (\<lambda>n. Inr (k, n))) FRONTEND_COUNT_KEYS"

definition OPCODE_COUNTERS :: "(string \<times> string) list" where
  "OPCODE_COUNTERS =
     [(''sb_records'', ''SB''), (''hab_records'', ''HAB''), (''hab_pim_records'', ''HAB_PIM''), (''pim_bcast_records'', ''PIM_BCAST''),
      (''pim_mac_records'', ''PIM_MAC''), (''pim_mac_ab_records'', ''PIM_MAC_AB''), (''read_records'', ''READ''),
      (''write_records'', ''WRITE'')]"

definition records_of_opcode :: "dict list \<Rightarrow> string \<Rightarrow> int" where
  "records_of_opcode rs op = int (length (filter (\<lambda>r. item r ''opcode'' = PStr op) rs))"

definition expected_frontend_counts :: "dict list \<Rightarrow> run_error + (string \<times> int) list" where
  "expected_frontend_counts rs =
     rbind (rmap repeat_of rs) (\<lambda>ns.
     rbind (rmap (\<lambda>r. need r ''opcode'') rs) (\<lambda>_.
     Inr ([(''records_loaded'', int (length rs)), (''records_expanded'', sum_list ns)] @
       map (\<lambda>(field, op). (field, records_of_opcode rs op)) OPCODE_COUNTERS)))"

definition p_counts :: "(string \<times> int) list \<Rightarrow> pyval" where
  "p_counts cs = PDict (map (\<lambda>(k, n). (k, PInt n)) cs)"

text \<open>
  Whether a replay can be trusted: the simulator ran, issued PIM commands, loaded exactly the records
  of the trace, and sent and completed every one of their requests.
\<close>

definition replay_integrity :: "dict list \<Rightarrow> dict \<Rightarrow> int \<Rightarrow> int \<Rightarrow> run_error + bool \<times> dict" where
  "replay_integrity rs frontend cycles pim_commands =
     rbind (frontend_counts frontend) (\<lambda>actual.
     rbind (expected_frontend_counts rs) (\<lambda>expected.
     let matched = list_all (\<lambda>(k, n). dgetd actual k 0 = n) expected;
         sent = dgetd actual ''opcode_requests_sent'' 0; completed = dgetd actual ''opcode_requests_completed'' 0;
         fine = 0 < cycles \<and> 0 < pim_commands \<and> matched \<and> sent = dgetd actual ''records_expanded'' 0 \<and> completed = sent
     in Inr (fine,
       [(''expected_record_counts'', p_counts expected), (''frontend_counts_match'', PBool matched),
        (''opcode_requests_sent'', PInt sent), (''opcode_requests_completed'', PInt completed),
        (''opcode_request_completion_match'', PBool (sent = completed))])))"

end
