(* ===== verification/Pimscope_Replay.thy ===== *)
theory Pimscope_Replay
  imports Pimscope_Backend
begin

text \<open>
  The replay of a concrete trace, \<open>replay_concrete_trace\<close> of \<open>pimscope/backend.py\<close>: the device and the
  memory system are built, the trace is written and checked, the simulator runs on it, and its
  statistics become a report. The simulator is a parameter: a function of the trace file, the
  frontend and the memory system to the statistics, \<open>ramulator.Simulation\<close>. So is \<open>available\<close>, which
  components of a namespace can be made without arguments.
\<close>

section \<open>The memory system\<close>

definition make_component :: "(string \<Rightarrow> string \<Rightarrow> bool) \<Rightarrow> string \<Rightarrow> string \<Rightarrow> run_error + pyval" where
  "make_component available namespace name = (if available namespace name then Inr (PStr name) else Inl (RunFail name))"

definition create_address_mapper :: "(string \<Rightarrow> string \<Rightarrow> bool) \<Rightarrow> string \<Rightarrow> run_error + pyval" where
  "create_address_mapper available name =
     (if name = ''RITAddrMapper''
      then Inr (PDict [(''name'', PStr ''RITAddrMapper''), (''addr_mapper'', PStr ''PassThroughAddrMapper'')])
      else make_component available ''addr_mapper'' name)"

definition named_or :: "dict \<Rightarrow> string \<Rightarrow> string \<Rightarrow> run_error + string" where
  "named_or d f alt = (case dgetd d f (PStr alt) of PStr s \<Rightarrow> Inr s | _ \<Rightarrow> Inl (RunType f))"

definition create_memory_system :: "(string \<Rightarrow> string \<Rightarrow> bool) \<Rightarrow> pim_dram \<Rightarrow> dict \<Rightarrow> run_error + dict" where
  "create_memory_system available d cfg =
     (let name = std_name (pd_standard d); make = make_component available in
      rbind (stat_section cfg ''controller'') (\<lambda>controller.
      rbind (stat_section cfg ''memory_system'') (\<lambda>memory.
      rbind (if name \<in> {''LPDDR5PIM'', ''LPDDR6PIM''} then Inr name else Inl (RunFail ''controller'')) (\<lambda>ctrl.
      rbind (rbind (named_or controller ''scheduler'' ''FRFCFS'') (make ''scheduler'')) (\<lambda>scheduler.
      rbind (rbind (named_or controller ''refresh_manager'' ''NoRefresh'') (make ''refresh_manager'')) (\<lambda>refresh.
      rbind (rbind (named_or controller ''row_policy'' ''Open'') (make ''row_policy'')) (\<lambda>row_policy.
      rbind (rbind (named_or controller ''addr_mapper'' ''PassThroughAddrMapper'') (create_address_mapper available)) (\<lambda>mapper.
      rbind (case py_int (dgetd memory ''clock_ratio'' (PInt 1)) of None \<Rightarrow> Inl (RunType ''clock_ratio'') | Some i \<Rightarrow> Inr i) (\<lambda>ratio.
      rbind (rbind (named_or memory ''channel_mapper'' ''CacheLineInterleave'') (make ''channel_mapper'')) (\<lambda>channel_mapper.
      Inr [(''clock_ratio'', PInt ratio),
           (''controllers'', PList [PDict [(''name'', PStr ctrl), (''scheduler'', scheduler), (''refresh_manager'', refresh),
             (''row_policy'', row_policy), (''addr_mapper'', mapper), (''controller_plugins'', PList [])]]),
           (''channel_mapper'', channel_mapper)]))))))))))"

section \<open>The report\<close>

text \<open>\<open>float(timing["tCK_ps"]) / 1000\<close>, of the device without the overrides of the replay.\<close>

definition time_unit_ns :: "dict \<Rightarrow> run_error + rat" where
  "time_unit_ns cfg =
     rbind (create_dram cfg []) (\<lambda>d.
     rbind (lift_err RunPim (pim_resolve d)) (\<lambda>(_, td).
     rbind (need td ''tCK_ps'') (\<lambda>v. rbind (as_float ''tCK_ps'' v) (\<lambda>x. Inr (x / 1000)))))"

definition STALL_STATISTICS :: "string list" where
  "STALL_STATISTICS =
     [''pim_shared_block_stalls'', ''pim_dependency_stalls'', ''pim_capacity_stalls'', ''pim_inflight_peak'',
      ''pim_simultaneous_active_banks_peak'', ''pim_banks_per_block'', ''effective_shared_blocks'', ''pim_ab_completion_latency_cycles'',
      ''num_bank_timing_blocked_cycles'', ''num_shared_block_busy_blocked_cycles'']"

definition ENERGY_STATISTICS :: "string list" where
  "ENERGY_STATISTICS = [''total_background_energy'', ''total_cmd_energy'', ''total_energy'', ''total_incremental_cmd_energy'']"

definition refresh_of :: "dict \<Rightarrow> pyval" where
  "refresh_of cfg = dgetd (sub_section cfg ''controller'') ''refresh_manager'' (PStr ''NoRefresh'')"

definition replay_report :: "dict \<Rightarrow> pim_dram \<Rightarrow> layout \<Rightarrow> rat \<Rightarrow> dict list \<Rightarrow> dict \<Rightarrow> run_error + dict" where
  "replay_report cfg d ly tck_ns rs stats =
     rbind (rbind (stat_section stats ''memory_system'') (\<lambda>ms. stat_section ms ''controller'')) (\<lambda>ctrl.
     rbind (stat_section stats ''frontend'') (\<lambda>fe.
     rbind (stat_int ctrl ''cycles'') (\<lambda>cycles.
     rbind (stat_int ctrl ''num_issued_pim_mac'') (\<lambda>pim_mac.
     rbind (stat_int ctrl ''num_issued_pim_mac_ab'') (\<lambda>pim_mac_ab.
     rbind (count_concrete_opcodes rs) (\<lambda>opcodes.
     rbind (frontend_counts fe) (\<lambda>counts.
     rbind (replay_integrity rs fe cycles (pim_mac + pim_mac_ab)) (\<lambda>(fine, integrity).
     let name = std_name (pd_standard d) in
     rbind (power_accounting_metadata name ctrl (Some (if name = ''LPDDR5PIM'' then PAPER_LPDDR5_POWER_PROFILE_NAME
         else ''DRAMPOWER_V620_LPDDR6_TEST_PROFILE''))) (\<lambda>power.
     rbind (case dget CONCRETE_SCHEMA_VERSIONS name of None \<Rightarrow> Inl (RunType ''trace_schema'') | Some s \<Rightarrow> Inr s) (\<lambda>schema.
     rbind (rmap (\<lambda>k. rbind (stat_int ctrl k) (\<lambda>n. Inr (k, PInt n))) STALL_STATISTICS) (\<lambda>stalls.
     Inr ([(''dram_class'', PStr name), (''trace_schema'', PStr schema), (''power_accounting'', PDict power), (''cycles'', PInt cycles),
           (''runtime_ns'', PFloat (of_int cycles * tck_ns)), (''address_mapping_version'', PInt address_mapping_version),
           (''addressable_capacity_bytes'', PInt (ly_capacity_bytes ly)), (''trace_opcode_counts'', p_counts opcodes),
           (''refresh_manager'', refresh_of cfg), (''pim_mac_execution_model'', PStr (pd_execution_model d)),
           (''pim_mac_execution_model_status'', PStr (if pd_execution_model d = ''subbank_overlap_experimental'' then ''experimental'' else ''supported'')),
           (''pim_mac_issued'', PInt pim_mac), (''pim_mac_ab_issued'', PInt pim_mac_ab),
           (''pim_bcast_issued'', PInt (dgetd opcodes ''PIM_BCAST'' 0)), (''replay_ok'', PBool fine), (''frontend_stats'', p_counts counts),
           (''replay_integrity'', PDict integrity)] @ stalls @
          [(''power_stats'', PDict (map (\<lambda>k. (k, item ctrl k)) (filter (has ctrl) ENERGY_STATISTICS)))]))))))))))))"

section \<open>The replay\<close>

type_synonym simulator = "trace_line list \<Rightarrow> string \<times> dict \<Rightarrow> dict \<Rightarrow> run_error + dict"

definition replay_concrete_trace ::
  "simulator \<Rightarrow> (string \<Rightarrow> string \<Rightarrow> bool) \<Rightarrow> string option \<Rightarrow> string \<Rightarrow> dict list \<Rightarrow> int \<Rightarrow> int \<Rightarrow> dict \<Rightarrow> int \<Rightarrow> dict \<Rightarrow> run_error + dict" where
  "replay_concrete_trace simulate available env path rs max_trace_bytes max_expanded overrides max_inflight backend_cfg =
     (let cfg = (if backend_cfg = [] then LPDDR5_PIM_CONFIG else backend_cfg) in
      rbind (case dgetd cfg ''dram_class'' (PStr ''LPDDR5PIM'') of PStr s \<Rightarrow> Inr s | _ \<Rightarrow> Inl (RunType ''dram_class'')) (\<lambda>device.
      if device \<notin> {''LPDDR5PIM'', ''LPDDR6PIM''} then Inl (RunFail ''dram_class'')
      else
      rbind (create_dram cfg overrides) (\<lambda>d.
      rbind (time_unit_ns cfg) (\<lambda>tck_ns.
      rbind (pim_layout d) (\<lambda>ly.
      rbind (lift_err RunTrace (write_jsonl rs (Some ly) (Some max_expanded) env device)) (\<lambda>file.
      rbind (need cfg ''frontend_clock_ratio'') (\<lambda>v.
      rbind (case py_int v of None \<Rightarrow> Inl (RunType ''frontend_clock_ratio'') | Some i \<Rightarrow> Inr i) (\<lambda>ratio.
      rbind (create_concrete_frontend path d ratio (Some max_trace_bytes) (Some max_expanded) max_inflight) (\<lambda>frontend.
      rbind (create_memory_system available d cfg) (\<lambda>memory.
      rbind (simulate file frontend memory) (\<lambda>stats.
      replay_report cfg d ly tck_ns rs stats)))))))))))"

section \<open>What a good replay shows\<close>

lemma rmap_pairs:
  assumes "rmap (\<lambda>k. rbind (g k) (\<lambda>n. Inr (k, n))) ks = Inr kvs"
  shows "dkeys kvs = ks" and "k \<in> set ks \<Longrightarrow> g k = Inr (dgetd kvs k v)"
  using assms
proof (induction ks arbitrary: kvs)
  case (Cons k' ks)
  {
    case 1
    then show ?case using Cons.IH(1) by (auto simp: rbind_Inr_iff)
  next
    case 2
    then show ?case using Cons.IH(2) by (auto simp: rbind_Inr_iff dgetd_def)
  }
qed simp_all

text \<open>The counters of the simulator, as numbers; one that is missing or \<open>None\<close> is zero.\<close>

definition counter :: "dict \<Rightarrow> string \<Rightarrow> int" where
  "counter fe k = (case stat_int fe k of Inr n \<Rightarrow> n | Inl _ \<Rightarrow> 0)"

lemma replay_integrity_true:
  assumes "replay_integrity rs fe cycles commands = Inr (True, d)"
  shows "0 < cycles \<and> 0 < commands \<and> counter fe ''records_loaded'' = int (length rs) \<and>
    (\<exists>ns. rmap repeat_of rs = Inr ns \<and> counter fe ''records_expanded'' = sum_list ns \<and>
      counter fe ''opcode_requests_sent'' = sum_list ns \<and> counter fe ''opcode_requests_completed'' = sum_list ns) \<and>
    (\<forall>(field, op) \<in> set OPCODE_COUNTERS. counter fe field = records_of_opcode rs op)"
proof -
  obtain actual where a: "frontend_counts fe = Inr actual"
    using assms by (auto simp: replay_integrity_def rbind_Inr_iff)
  obtain ns where ns: "rmap repeat_of rs = Inr ns"
    using assms by (auto simp: replay_integrity_def expected_frontend_counts_def rbind_Inr_iff)
  have get: "dgetd actual k 0 = counter fe k" if "k \<in> set FRONTEND_COUNT_KEYS" for k
    using rmap_pairs(2)[OF a[unfolded frontend_counts_def] that, of 0] by (simp add: counter_def)
  have keys: "''records_loaded'' \<in> set FRONTEND_COUNT_KEYS" "''records_expanded'' \<in> set FRONTEND_COUNT_KEYS"
    "''opcode_requests_sent'' \<in> set FRONTEND_COUNT_KEYS" "''opcode_requests_completed'' \<in> set FRONTEND_COUNT_KEYS"
    "fst ` set OPCODE_COUNTERS \<subseteq> set FRONTEND_COUNT_KEYS"
    by (simp_all add: FRONTEND_COUNT_KEYS_def OPCODE_COUNTERS_def)
  have matched: "\<forall>(k, n) \<in> set ([(''records_loaded'', int (length rs)), (''records_expanded'', sum_list ns)] @
       map (\<lambda>(field, op). (field, records_of_opcode rs op)) OPCODE_COUNTERS). dgetd actual k 0 = n"
    and rest: "0 < cycles" "0 < commands" "dgetd actual ''opcode_requests_sent'' 0 = dgetd actual ''records_expanded'' 0"
    "dgetd actual ''opcode_requests_completed'' 0 = dgetd actual ''opcode_requests_sent'' 0"
    using assms by (simp_all add: replay_integrity_def expected_frontend_counts_def rbind_Inr_iff a ns Let_def list_all_iff)
  have "\<forall>(field, op) \<in> set OPCODE_COUNTERS. counter fe field = records_of_opcode rs op"
  proof (intro ballI, clarify)
    fix field op assume f: "(field, op) \<in> set OPCODE_COUNTERS"
    then have "dgetd actual field 0 = records_of_opcode rs op" using matched by force
    moreover have "field \<in> set FRONTEND_COUNT_KEYS" using f keys(5) by force
    ultimately show "counter fe field = records_of_opcode rs op" by (simp add: get)
  qed
  then show ?thesis using matched rest ns get keys(1-4) by (intro conjI exI[of _ ns]) auto
qed

end
