(* ===== verification/Pimscope_Run.thy ===== *)
theory Pimscope_Run
  imports Pimscope_Replay Pimscope_Schema
begin

text \<open>
  \<open>pimscope/experiment.py\<close>: one validated manifest becomes a run. The workload is generated,
  retargeted to the banks of the device, lowered to concrete opcodes and estimated; a trace within its
  limits is replayed and the report is assembled. Parameters: the length of a document as canonical
  JSON text, the simulator, and what the environment supplies for the provenance.
\<close>

definition RESULT_SCHEMA_NAME :: string where
  "RESULT_SCHEMA_NAME = ''pimscope-result-v1''"

section \<open>Retargeting\<close>

definition retarget_banks :: "int \<Rightarrow> dict \<Rightarrow> dict" where
  "retarget_banks units r =
     (let r = (if truthy (dgetd r ''bank_sequence'' PNone) then dset ''bank_sequence'' (PList (map PInt [0..units - 1])) r else r)
      in case dgetd r ''mapping_policy'' PNone of
           PDict m \<Rightarrow>
             if has m ''bank_sequence_policy''
             then dset ''mapping_policy'' (PDict (dset ''bank_sequence_policy'' (PStr ''resolved_hardware_round_robin'') m)) r
             else r
         | _ \<Rightarrow> r)"

definition retarget_semantic_banks :: "dict list \<Rightarrow> int \<Rightarrow> run_error + dict list" where
  "retarget_semantic_banks rs units = (if units \<le> 0 then Inl (RunFail ''bank units'') else Inr (map (retarget_banks units) rs))"

section \<open>Checks before a replay\<close>

text \<open>The size of the trace file: its lines as canonical JSON, each with a line break.\<close>

definition estimate_concrete_trace :: "(dict \<Rightarrow> int) \<Rightarrow> dict list \<Rightarrow> string \<Rightarrow> run_error + dict" where
  "estimate_concrete_trace json_bytes rs device =
     rbind (lift_err RunTrace (build_header device)) (\<lambda>header.
     rbind (lift_err RunTrace (rmap slim_record rs)) (\<lambda>slims.
     rbind (lift_err RunTrace (expanded_record_count rs)) (\<lambda>n.
     Inr [(''records'', PInt (int (length rs))), (''expanded_records'', PInt n),
          (''trace_bytes'', PInt (json_bytes header + 1 + sum_list (map (\<lambda>r. json_bytes r + 1) slims)))])))"

text \<open>A write that a weight movement caused.\<close>

definition is_preload :: "dict \<Rightarrow> run_error + bool" where
  "is_preload r =
     rbind (need r ''opcode'') (\<lambda>op.
     if op \<noteq> PStr ''WRITE'' then Inr False
     else
     rbind (stat_section r ''provenance'') (\<lambda>p.
     rbind (stat_section p ''semantic_source'') (\<lambda>s.
     Inr (dgetd s ''kind'' PNone = PStr ''PIMDataMove''))))"

definition materialization_summary :: "dict list \<Rightarrow> dict \<Rightarrow> int \<Rightarrow> run_error + dict" where
  "materialization_summary rs w tx_bytes =
     rbind (rmap is_preload rs) (\<lambda>flags.
     let writes = map snd (filter fst (zip flags rs)) in
     rbind (rmap repeat_of writes) (\<lambda>ns.
     rbind (need w ''weight_residency'') (\<lambda>policy.
     Inr [(''policy'', policy), (''synthetic'', PBool True), (''address_policy'', PStr ''bounded_surrogate_v1''),
          (''write_records'', PInt (int (length writes))), (''write_transactions'', PInt (sum_list ns)),
          (''generated_bytes'', PInt (sum_list ns * tx_bytes))])))"

definition preflight_within_limits :: "dict \<Rightarrow> dict \<Rightarrow> run_error + unit" where
  "preflight_within_limits preflight w =
     rbind (rmap (\<lambda>f.
       rbind (need_int w (''max_'' @ f)) (\<lambda>limit.
       rbind (need_int preflight f) (\<lambda>n. require (n \<le> limit) (RunFail (''workload.max_'' @ f))))) [''expanded_records'', ''trace_bytes''])
       (\<lambda>_. Inr ())"

definition materialization_matches_policy :: "dict \<Rightarrow> pyval \<Rightarrow> run_error + unit" where
  "materialization_matches_policy summary policy =
     rbind (need_int summary ''write_transactions'') (\<lambda>n.
     if policy = PStr ''resident'' \<and> n \<noteq> 0 then Inl (RunFail ''resident'')
     else if policy = PStr ''full_preload'' \<and> n = 0 then Inl (RunFail ''full_preload'')
     else Inr ())"

text \<open>The requests in flight: all-bank operations are serial, interleaved ones cover all banks at once.\<close>

definition bank_spans :: "dict list \<Rightarrow> run_error + int list" where
  "bank_spans semantic =
     rmap (\<lambda>v. case v of PList xs \<Rightarrow> Inr (int (length xs)) | _ \<Rightarrow> Inl (RunType ''bank_sequence''))
       (filter truthy (map (\<lambda>r. dgetd r ''bank_sequence'' PNone) semantic))"

definition effective_inflight :: "dict \<Rightarrow> dict list \<Rightarrow> run_error + int" where
  "effective_inflight w semantic =
     rbind (need w ''mac_mode'') (\<lambda>mode.
     if mode = PStr ''all_bank'' then Inr 1
     else
     rbind (need_int w ''max_inflight_requests'') (\<lambda>requested.
     if requested \<le> 1 \<or> mode \<notin> {PStr ''per_kind'', PStr ''per_bank''} then Inr requested
     else
     rbind (bank_spans semantic) (\<lambda>spans.
     rbind (need_int w ''interleave_depth'') (\<lambda>depth.
     Inr (max requested ((case spans of [] \<Rightarrow> 1 | _ \<Rightarrow> Max (set spans)) * depth))))))"

section \<open>Preparing a run\<close>

text \<open>The arguments of the lowering that the device gives; the others keep their defaults.\<close>

definition device_params :: "layout \<Rightarrow> bool \<Rightarrow> bool \<Rightarrow> int \<Rightarrow> string \<Rightarrow> low_params" where
  "device_params ly materialize interleave depth mode =
     \<lparr>lp_size = int (length (ly_level_names ly)), lp_bank = 3, lp_positions = Some (map int (ly_bank_positions ly)),
      lp_counts = Some (ly_bank_counts ly), lp_row = int (ly_row_pos ly), lp_col = int (ly_col_pos ly),
      lp_manifest = ''phase2_semantic_lowered_manifest'', lp_materialize = materialize,
      lp_interleave = interleave, lp_depth = depth, lp_max_repeat = MAX_REPEAT, lp_mac_mode = mode,
      lp_layout = Some ly, lp_policy = ''bounded_surrogate_v1'', lp_rank_level = None, lp_ranks = 1\<rparr>"

definition lowering_params :: "dict \<Rightarrow> layout \<Rightarrow> run_error + low_params" where
  "lowering_params w ly =
     rbind (need w ''weight_residency'') (\<lambda>policy.
     rbind (need_int w ''max_inflight_requests'') (\<lambda>requested.
     rbind (need_str w ''mac_mode'') (\<lambda>mode.
     rbind (if 1 < requested then need_int w ''interleave_depth'' else Inr 4) (\<lambda>depth.
     Inr (device_params ly (policy = PStr ''full_preload'') (1 < requested) depth mode)))))"

text \<open>The largest trace that the lowering of a run accepts.\<close>

definition LOWERING_LIMIT :: int where
  "LOWERING_LIMIT = 100000000000"

record prepared_run =
  pr_config :: dict
  pr_organization :: dict
  pr_timing :: dict
  pr_layout :: layout
  pr_model :: string
  pr_semantic :: "dict list"
  pr_concrete :: "dict list"
  pr_preflight :: dict
  pr_materialization :: dict
  pr_inflight :: int

definition prepare_run :: "(dict \<Rightarrow> int) \<Rightarrow> string option \<Rightarrow> dict \<Rightarrow> string \<Rightarrow> run_error + prepared_run" where
  "prepare_run json_bytes env manifest fingerprint =
     rbind (need_dict manifest ''workload'') (\<lambda>w.
     rbind (hardware_config_from_manifest manifest fingerprint) (\<lambda>cfg.
     rbind (create_dram cfg []) (\<lambda>d.
     rbind (lift_err RunPim (pim_resolve d)) (\<lambda>(od, td).
     rbind (lift_err RunGen (generate_workload w)) (\<lambda>(generated, model).
     rbind (pim_layout d) (\<lambda>ly.
     rbind (retarget_semantic_banks generated (ly_total_bank_units ly)) (\<lambda>semantic.
     rbind (lowering_params w ly) (\<lambda>p.
     rbind (lift_err RunLower (lower_semantic_records p semantic (Some LOWERING_LIMIT) env)) (\<lambda>concrete.
     rbind (need_str cfg ''dram_class'') (\<lambda>device.
     rbind (estimate_concrete_trace json_bytes concrete device) (\<lambda>preflight.
     rbind (preflight_within_limits preflight w) (\<lambda>_.
     rbind (materialization_summary concrete w (ly_tx_bytes ly)) (\<lambda>summary.
     rbind (materialization_matches_policy summary (item w ''weight_residency'')) (\<lambda>_.
     rbind (effective_inflight w semantic) (\<lambda>inflight.
     Inr \<lparr>pr_config = cfg, pr_organization = od, pr_timing = td, pr_layout = ly, pr_model = model, pr_semantic = semantic,
          pr_concrete = concrete, pr_preflight = preflight, pr_materialization = summary, pr_inflight = inflight\<rparr>)))))))))))))))"

section \<open>The run\<close>

text \<open>
  \<open>_replay\<close>: with a time limit the replay runs in a process of its own. An error there reaches the caller
  as a \<open>RuntimeError\<close>, and \<open>in_time\<close> is whether the process answers before the limit.
\<close>

definition replay_within :: "bool \<Rightarrow> int \<Rightarrow> run_error + dict \<Rightarrow> run_error + dict" where
  "replay_within in_time timeout outcome =
     (if timeout = 0 then outcome
      else if \<not> in_time then Inl (RunFail ''timeout'')
      else case outcome of Inl _ \<Rightarrow> Inl (RunFail ''process'') | Inr v \<Rightarrow> Inr v)"

text \<open>What the environment gives for the provenance: the time, the revision and the versions of packages.\<close>

record run_environment =
  re_generated_at :: string
  re_revision :: string
  re_packages :: dict

text \<open>\<open>Path(source).name\<close> of a resolved path.\<close>

definition file_name :: "string \<Rightarrow> string" where
  "file_name s = rev (takeWhile (\<lambda>c. c \<noteq> CHR ''/'') (rev s))"

definition run_provenance :: "run_environment \<Rightarrow> string \<Rightarrow> dict \<Rightarrow> dict option \<Rightarrow> run_error + dict" where
  "run_provenance e source w supplied =
     rbind (need w ''seed'') (\<lambda>seed.
     Inr (dupdate
       [(''generated_at'', PStr (re_generated_at e)), (''seed'', seed), (''ramulator2_commit'', PStr (re_revision e)),
        (''python_packages'', PDict (re_packages e)),
        (''config_source'', PStr (if source = ''<memory>'' then source else file_name source))]
       (case supplied of None \<Rightarrow> [] | Some s \<Rightarrow> s)))"

definition layout_fields :: "layout \<Rightarrow> dict" where
  "layout_fields ly =
     [(''mapping_version'', PInt address_mapping_version), (''level_names'', p_strs (ly_level_names ly)),
      (''level_sizes'', PList (map PInt (ly_level_sizes ly))), (''address_level_sizes'', PList (map PInt (ly_address_level_sizes ly))),
      (''internal_prefetch_size'', PInt (ly_prefetch ly)), (''tx_bytes'', PInt (ly_tx_bytes ly)),
      (''capacity_bytes'', PInt (ly_capacity_bytes ly)),
      (''subchannel_model'', if ly_dram_class ly \<in> {''LPDDR6'', ''LPDDR6PIM''} then PDict LPDDR6_subchannel_model else PNone)]"

definition surrogate_scope :: dict where
  "surrogate_scope =
     [(''architecture_dimensions'', PStr ''published_or_user_supplied''), (''runtime_trace'', PBool False),
      (''numerical_execution'', PBool False), (''silicon_calibration'', PBool False),
      (''weights'', PStr ''synthetic_not_materialized''), (''host_operator_model'', PStr ''partial'')]"

definition run_result :: "dict \<Rightarrow> string \<Rightarrow> dict \<Rightarrow> prepared_run \<Rightarrow> (string \<times> int) list \<Rightarrow> dict \<Rightarrow> dict \<Rightarrow> dict" where
  "run_result manifest fingerprint w p opcodes replay provenance =
     [(''schema_version'', PInt RESULT_SCHEMA_VERSION), (''schema_name'', PStr RESULT_SCHEMA_NAME),
      (''experiment'', item manifest ''experiment''),
      (''status'', PStr (if truthy (item replay ''replay_ok'') then ''PASS'' else ''FAIL'')),
      (''manifest_fingerprint'', PStr fingerprint), (''resolved_manifest'', PDict manifest),
      (''resolved_hardware'', PDict
        [(''organization'', PDict (pr_organization p)), (''timing'', PDict (pr_timing p)),
         (''address_layout'', PDict ((''dram_class'', item (sub_section manifest ''hardware'') ''dram_class'') # layout_fields (pr_layout p))),
         (''effective_max_inflight_requests'', PInt (pr_inflight p)),
         (''preflight'', PDict (dupdate (pr_preflight p)
           [(''max_expanded_records'', item w ''max_expanded_records''), (''max_trace_bytes'', item w ''max_trace_bytes'')]))]),
      (''workload_summary'', PDict
        [(''seed'', item w ''seed''), (''workload_type'', item w ''workload_type''), (''model'', PStr (pr_model p)),
         (''phase'', item w ''phase''), (''semantic_records'', PInt (int (length (pr_semantic p)))),
         (''concrete_records'', PInt (int (length (pr_concrete p)))), (''concrete_opcode_counts'', p_counts opcodes),
         (''host_address_policy'', PStr ''bounded_surrogate_v1''), (''weight_materialization'', PDict (pr_materialization p)),
         (''surrogate_scope'', PDict surrogate_scope),
         (''claim_boundary'', PStr ''structured memory-side surrogate, not runtime or silicon trace'')]),
      (''simulation'', PDict replay), (''provenance'', PDict provenance)]"

definition run_experiment ::
  "(dict \<Rightarrow> int) \<Rightarrow> simulator \<Rightarrow> (string \<Rightarrow> string \<Rightarrow> bool) \<Rightarrow> bool \<Rightarrow> run_environment \<Rightarrow> string option \<Rightarrow> string \<Rightarrow>
   dict \<Rightarrow> string \<Rightarrow> string \<Rightarrow> dict option \<Rightarrow> run_error + dict" where
  "run_experiment json_bytes simulate available in_time e env path manifest fingerprint source supplied =
     rbind (prepare_run json_bytes env manifest fingerprint) (\<lambda>p.
     rbind (need_dict manifest ''workload'') (\<lambda>w.
     rbind (need_int w ''max_trace_bytes'') (\<lambda>max_bytes.
     rbind (need_int w ''max_expanded_records'') (\<lambda>max_expanded.
     rbind (need_int w ''simulation_timeout_seconds'') (\<lambda>timeout.
     rbind (replay_within in_time timeout
       (replay_concrete_trace simulate available env path (pr_concrete p) max_bytes max_expanded [] (pr_inflight p) (pr_config p))) (\<lambda>replay.
     rbind (run_provenance e source w supplied) (\<lambda>provenance.
     rbind (need manifest ''experiment'') (\<lambda>_.
     rbind (rmap (need w) [''seed'', ''workload_type'', ''phase'']) (\<lambda>_.
     rbind (count_concrete_opcodes (pr_concrete p)) (\<lambda>opcodes.
     Inr (run_result manifest fingerprint w p opcodes replay provenance)))))))))))"

section \<open>Other entry points\<close>

text \<open>\<open>validate_backend\<close>: the resolved device of a manifest, its layout and the configuration for the engine.\<close>

definition validate_backend :: "dict \<Rightarrow> string \<Rightarrow> run_error + dict \<times> dram_config \<times> dict" where
  "validate_backend manifest fingerprint =
     rbind (hardware_config_from_manifest manifest fingerprint) (\<lambda>cfg.
     rbind (create_dram cfg []) (\<lambda>d.
     rbind (lift_err RunPim (pim_resolve d)) (\<lambda>(od, td).
     rbind (pim_layout d) (\<lambda>ly.
     rbind (lift_err RunPim (pim_to_config d)) (\<lambda>config.
     Inr ([(''organization'', PDict od), (''timing'', PDict td), (''address_layout'', PDict (layout_fields ly))], config))))))"

text \<open>
  \<open>generate_and_replay\<close> of \<open>pimscope/backend.py\<close>: a registered model on the default device, without a
  manifest. The mixture of experts has its default manifests, whatever length is asked for.
\<close>

definition semantic_of_model :: "string \<Rightarrow> string \<Rightarrow> int \<Rightarrow> int \<Rightarrow> run_error + dict list" where
  "semantic_of_model phase model past_len prompt_len =
     (if model = MIXTRAL_MODEL_KEY then
        if phase \<noteq> ''decode'' then Inl (RunFail ''phase'')
        else lift_err RunGen (generate_mixtral_8x7b_decoder_records None None)
      else if phase = ''decode'' then lift_err RunGen (dense_decoder_records_for_model model (Some past_len) ''serialized'')
      else if phase = ''prefill'' then lift_err RunGen (dense_prefill_records_for_model model prompt_len ''serialized'')
      else Inl (RunFail ''phase''))"

definition inflight_of :: "dict list \<Rightarrow> int \<Rightarrow> int \<Rightarrow> string \<Rightarrow> run_error + int" where
  "inflight_of semantic requested depth mode =
     (if 1 < requested \<and> mode \<in> {''per_kind'', ''per_bank''} then
        rbind (bank_spans semantic) (\<lambda>spans. Inr (max requested ((case spans of [] \<Rightarrow> 1 | _ \<Rightarrow> Max (set spans)) * depth)))
      else if mode = ''all_bank'' then Inr 1
      else Inr requested)"

definition generate_and_replay ::
  "simulator \<Rightarrow> (string \<Rightarrow> string \<Rightarrow> bool) \<Rightarrow> string option \<Rightarrow> string \<Rightarrow>
   string \<Rightarrow> string \<Rightarrow> int \<Rightarrow> int \<Rightarrow> bool \<Rightarrow> dict \<Rightarrow> int \<Rightarrow> int \<Rightarrow> string \<Rightarrow> run_error + dict" where
  "generate_and_replay simulate available env path phase model past_len prompt_len materialize overrides requested depth mode =
     rbind (semantic_of_model phase model past_len prompt_len) (\<lambda>semantic.
     rbind (create_dram [] overrides) (\<lambda>d.
     rbind (pim_layout d) (\<lambda>ly.
     let p = device_params ly materialize (1 < requested) (if 1 < requested then depth else 4) mode in
     rbind (lift_err RunLower (lower_semantic_records p semantic (Some LOWERING_LIMIT) env)) (\<lambda>concrete.
     rbind (count_concrete_opcodes concrete) (\<lambda>opcodes.
     rbind (inflight_of semantic requested depth mode) (\<lambda>inflight.
     rbind (replay_concrete_trace simulate available env path concrete (1024 * 1024 * 1024) LOWERING_LIMIT overrides inflight []) (\<lambda>report.
     Inr (dupdate
       [(''model_key'', PStr model), (''phase'', PStr phase),
        (''mode'', PStr (if materialize then ''cold_start'' else ''steady_state'')),
        (''past_len'', if phase = ''decode'' then PInt past_len else PNone),
        (''prompt_len'', if phase = ''prefill'' then PInt prompt_len else PNone),
        (''opcode_counts'', p_counts opcodes), (''host_address_policy'', PStr ''bounded_surrogate_v1'')] report))))))))"

end
