(* ===== verification/Pimscope_Run_Properties.thy ===== *)
theory Pimscope_Run_Properties
  imports Pimscope_Run Pim_Properties Concrete_Properties
begin

text \<open>
  The properties of a run: a trace that passed the checks of its preparation is written by the replay
  within its limits, and a replay that reports success sent and completed every request of the trace.
\<close>

section \<open>Compact records\<close>

text \<open>The compact form of a record that passes its checks is the same operation.\<close>

lemma agree_validated:
  assumes "\<And>f. f \<notin> set SLIM_DROP \<Longrightarrow> dget s f = dget r f" and "\<not> has s ''provenance''" "\<not> has s ''record_id''" "\<not> has s ''schema_version''"
    and "check_fields r = Inr ()"
  shows "validated s lay = validated r lay" and "record_rank_ids s lay = record_rank_ids r lay"
proof -
  have get: "dget s f = dget r f" if "f \<notin> {''schema_version'', ''record_id'', ''notes'', ''provenance''}" for f
    using assms(1)[of f] that by (simp add: SLIM_DROP_def)
  have "check_fields s = check_fields r"
    using assms(2-5) by (auto simp: check_fields_def has_def get split: if_splits)
  moreover have "check_addr_byte s op rep vs lay = check_addr_byte r op rep vs lay" for op rep vs
    by (simp add: check_addr_byte_def has_def get cong: option.case_cong)
  moreover have "check_interleave_fields s op = check_interleave_fields r op" for op
    by (simp add: check_interleave_fields_def check_bank_sequence_def check_optional_def has_def interleave_fields_def get)
  moreover have "check_bank_ranges s lay = check_bank_ranges r lay"
  proof -
    have int: "Concrete_Trace.int_field s f = Concrete_Trace.int_field r f"
      if "f \<notin> {''schema_version'', ''record_id'', ''notes'', ''provenance''}" for f
      using get[OF that] by (intro ext) (simp add: Concrete_Trace.int_field_def)
    show ?thesis
      by (simp add: check_bank_ranges_def total_banks_def level_field_def bank_numbers_def has_def get int cong: if_cong option.case_cong)
  qed
  moreover have "check_sem s = check_sem r" by (simp add: check_sem_def get)
  ultimately show "validated s lay = validated r lay" by (simp add: validated_def dgetd_def get)
  show "record_rank_ids s lay = record_rank_ids r lay"
    by (simp add: record_rank_ids_def dgetd_def get cong: if_cong option.case_cong)
qed

lemma slim_event:
  assumes "slim_record r = Inr s" and "record_event lay r = Inr e"
  shows "record_event lay s = Inr e"
proof (cases "has r ''provenance''")
  case True
  then have "slimmed r = Inr s" "slimmed s = Inr s" using assms(1) slimmed_slim[OF assms(1)] by (simp_all add: slimmed_def)
  then show ?thesis using assms(2) by (simp add: record_event_def)
next
  case False
  then have prov: "dget r ''provenance'' = None" by (simp add: has_def)
  have s: "s = filter (\<lambda>kv. fst kv \<notin> set SLIM_DROP) r"
    using assms(1) by (simp add: slim_record_def Let_def dgetd_def prov)
  have "slimmed r = Inr r" "slimmed s = Inr s" using False slimmed_slim[OF assms(1)] by (simp_all add: slimmed_def)
  moreover have "check_fields r = Inr ()"
    using assms(2) \<open>slimmed r = Inr r\<close> by (auto simp: record_event_def rbind_Inr_iff validated_Inr)
  moreover have "dget s f = dget r f" if "f \<notin> set SLIM_DROP" for f
    using that unfolding s by (subst map_of_filter_key) simp
  moreover have "\<not> has s f" if "f \<in> set SLIM_DROP" for f
    using that by (auto simp: s has_def map_of_eq_None_iff)
  ultimately show ?thesis
    using assms(2) agree_validated[of s r lay] by (simp add: record_event_def SLIM_DROP_def)
qed

lemma slim_events:
  assumes "rmap slim_record rs = Inr slims" and "rmap (record_event lay) rs = Inr evs"
  shows "rmap (record_event lay) slims = Inr evs"
  using assms
proof (induction rs arbitrary: slims evs)
  case (Cons r rs)
  then show ?case by (auto simp: rbind_Inr_iff dest: slim_event)
qed simp

lemma expanded_of_events:
  assumes "rmap (record_event lay) rs = Inr evs"
  shows "expanded_record_count rs = Inr (sum_list (map fst evs))"
proof -
  have "rmap (\<lambda>r. case dget r ''repeat'' of None \<Rightarrow> Inl (MissingKey ''repeat'') | Some v \<Rightarrow> int_value v) rs = Inr (map fst evs)"
    using assms
  proof (induction rs arbitrary: evs)
    case (Cons r rs)
    then obtain n op ks es where e: "record_event lay r = Inr (n, op, ks)" "evs = (n, op, ks) # es" "rmap (record_event lay) rs = Inr es"
      by (auto simp: rbind_Inr_iff)
    show ?case using Cons.IH[OF e(3)] record_event_repeat[OF e(1)] by (simp add: e(2) int_value_def)
  qed simp
  then show ?thesis by (simp add: expanded_record_count_def)
qed

text \<open>A valid sequence is valid in its compact form, with any limit that its expanded records fit.\<close>

lemma slim_sequence:
  assumes "validate_sequence rs lay limit env = Inr ()" and "rmap slim_record rs = Inr slims" and "expanded_record_count rs = Inr n"
    and "n \<le> mx" and "0 < mx"
  shows "validate_sequence slims lay (Some mx) env' = Inr ()"
proof -
  obtain evs where evs: "rmap (record_event lay) rs = Inr evs" "\<forall>k. phase_run Single (ops_at (map snd evs) k) \<noteq> None"
    using assms(1) unfolding validate_sequence_iff by blast
  have "sum_list (map fst evs) \<le> mx" using assms(3,4) expanded_of_events[OF evs(1)] by simp
  moreover have "expanded_limit (Some mx) env' = Inr mx" using assms(5) by (simp add: expanded_limit_def)
  ultimately show ?thesis unfolding validate_sequence_iff using slim_events[OF assms(2) evs(1)] evs(2) by blast
qed

section \<open>Preparation\<close>

lemma estimate_Inr:
  assumes "estimate_concrete_trace json_bytes rs device = Inr pre"
  shows "\<exists>h slims n. build_header device = Inr h \<and> rmap slim_record rs = Inr slims \<and> expanded_record_count rs = Inr n \<and>
    dget pre ''expanded_records'' = Some (PInt n) \<and>
    dget pre ''trace_bytes'' = Some (PInt (json_bytes h + 1 + sum_list (map (\<lambda>r. json_bytes r + 1) slims)))"
  using assms by (auto simp: estimate_concrete_trace_def rbind_Inr_iff)

lemma preflight_Inr:
  assumes "preflight_within_limits pre w = Inr u"
  shows "\<exists>n mx b mb. need_int pre ''expanded_records'' = Inr n \<and> need_int w ''max_expanded_records'' = Inr mx \<and> n \<le> mx \<and>
    need_int pre ''trace_bytes'' = Inr b \<and> need_int w ''max_trace_bytes'' = Inr mb \<and> b \<le> mb"
  using assms by (auto simp: preflight_within_limits_def rbind_Inr_iff require_Inr)

text \<open>
  C31: what the preparation promises the replay. When the records of a lowering pass the check before
  the replay, the replay writes them: the compact records are validated again, now with the limit of
  the workload, and neither that limit nor the limit on the size of the file is exceeded.
\<close>

theorem preflight_trace_written:
  assumes "lower_semantic_records p sems (Some limit) env = Inr rs" and "lp_layout p = Some ly"
    and "estimate_concrete_trace json_bytes rs device = Inr pre" and "preflight_within_limits pre w = Inr ()"
    and "need_int w ''max_expanded_records'' = Inr mx" and "0 < mx"
  shows "\<exists>h slims mb. build_header device = Inr h \<and> rmap slim_record rs = Inr slims \<and>
    write_jsonl rs (Some ly) (Some mx) env' device =
      Inr (DocLine (json_value (PDict h)) # map (\<lambda>r. DocLine (json_value (PDict r))) slims) \<and>
    need_int w ''max_trace_bytes'' = Inr mb \<and> json_bytes h + 1 + sum_list (map (\<lambda>r. json_bytes r + 1) slims) \<le> mb"
proof -
  obtain h slims n where h: "build_header device = Inr h" and slims: "rmap slim_record rs = Inr slims" and n: "expanded_record_count rs = Inr n"
    and pre: "dget pre ''expanded_records'' = Some (PInt n)"
      "dget pre ''trace_bytes'' = Some (PInt (json_bytes h + 1 + sum_list (map (\<lambda>r. json_bytes r + 1) slims)))"
    using estimate_Inr[OF assms(3)] by blast
  obtain mb where mb: "n \<le> mx" "need_int w ''max_trace_bytes'' = Inr mb"
    "json_bytes h + 1 + sum_list (map (\<lambda>r. json_bytes r + 1) slims) \<le> mb"
    using preflight_Inr[OF assms(4)] assms(5) by (auto simp: need_int_def need_def pre)
  have "validate_sequence rs (Some ly) (Some limit) env = Inr ()"
    using assms(1,2) by (auto simp: lower_semantic_records_def rbind_Inr_iff)
  then have "validate_sequence slims (Some ly) (Some mx) env' = Inr ()" by (rule slim_sequence[OF _ slims n mb(1) assms(6)])
  then show ?thesis using h slims mb(2,3) by (simp add: write_jsonl_def)
qed

definition load_params :: low_params where
  "load_params =
     \<lparr>lp_size = 5, lp_bank = 2, lp_positions = None, lp_counts = None, lp_row = 3, lp_col = 4, lp_manifest = ''demo'',
      lp_materialize = False, lp_interleave = False, lp_depth = 4, lp_max_repeat = 1000000, lp_mac_mode = ''per_kind'',
      lp_layout = Some demo_layout, lp_policy = ''strict_bytes'', lp_rank_level = None, lp_ranks = 1\<rparr>"

definition load_semantic :: "dict list" where
  "load_semantic = [[(''kind'', PStr ''PIMLoadAll''), (''record_id'', PStr ''r0''), (''num_requests'', PInt 2)]]"

definition load_limits :: dict where
  "load_limits = [(''max_expanded_records'', PInt 10), (''max_trace_bytes'', PInt 4096)]"

theorem preflight_trace_written_witness:
  "\<exists>rs h slims. lower_semantic_records load_params load_semantic (Some 10) None = Inr rs \<and> rs \<noteq> [] \<and> rmap slim_record rs = Inr slims \<and>
    write_jsonl rs (Some demo_layout) (Some 10) None ''LPDDR5PIM'' =
      Inr (DocLine (json_value (PDict h)) # map (\<lambda>r. DocLine (json_value (PDict r))) slims)"
proof -
  let ?bytes = "\<lambda>d :: dict. 32 * int (length d)"
  have "case lower_semantic_records load_params load_semantic (Some 10) None of Inl _ \<Rightarrow> False
    | Inr rs \<Rightarrow> rs \<noteq> [] \<and> (case estimate_concrete_trace ?bytes rs ''LPDDR5PIM'' of Inl _ \<Rightarrow> False
        | Inr pre \<Rightarrow> is_ok (preflight_within_limits pre load_limits))"
    by code_simp
  then obtain rs pre where rs: "lower_semantic_records load_params load_semantic (Some 10) None = Inr rs" "rs \<noteq> []"
    and pre: "estimate_concrete_trace ?bytes rs ''LPDDR5PIM'' = Inr pre" "preflight_within_limits pre load_limits = Inr ()"
    by (auto simp: is_ok_iff split: sum.splits)
  have "lp_layout load_params = Some demo_layout" "need_int load_limits ''max_expanded_records'' = Inr 10" "0 < (10 :: int)"
    by (simp_all add: load_params_def load_limits_def need_int_def need_def)
  then have "\<exists>h slims. rmap slim_record rs = Inr slims \<and> write_jsonl rs (Some demo_layout) (Some 10) None ''LPDDR5PIM'' =
      Inr (DocLine (json_value (PDict h)) # map (\<lambda>r. DocLine (json_value (PDict r))) slims)"
    using preflight_trace_written[OF rs(1) _ pre, of demo_layout 10 None] by blast
  then show ?thesis using rs by blast
qed

text \<open>So for every prepared run the replay gets past the trace file.\<close>

lemma prepared_trace_written:
  assumes "prepare_run json_bytes env manifest fingerprint = Inr p" and "need_dict manifest ''workload'' = Inr w"
    and "need_int w ''max_expanded_records'' = Inr mx" and "0 < mx"
  shows "\<exists>device. need_str (pr_config p) ''dram_class'' = Inr device \<and>
    is_ok (write_jsonl (pr_concrete p) (Some (pr_layout p)) (Some mx) env' device)"
proof -
  obtain w' cfg semantic lp concrete ly device pre u where w: "need_dict manifest ''workload'' = Inr w'" and lp: "lowering_params w' ly = Inr lp"
    and low: "lower_semantic_records lp semantic (Some LOWERING_LIMIT) env = Inr concrete" and dev: "need_str cfg ''dram_class'' = Inr device"
    and est: "estimate_concrete_trace json_bytes concrete device = Inr pre" and fits: "preflight_within_limits pre w' = Inr u"
    and p: "pr_config p = cfg" "pr_layout p = ly" "pr_concrete p = concrete"
    using assms(1) unfolding prepare_run_def rbind_Inr_iff case_prod_beta by (elim exE conjE, intro that) auto
  have ly: "lp_layout lp = Some ly" using lp by (auto simp: lowering_params_def device_params_def rbind_Inr_iff)
  obtain h slims n where h: "build_header device = Inr h" "rmap slim_record concrete = Inr slims" "expanded_record_count concrete = Inr n"
    and pre: "dget pre ''expanded_records'' = Some (PInt n)"
    using estimate_Inr[OF est] by blast
  have "n \<le> mx" using preflight_Inr[OF fits] assms(2,3) w by (auto simp: need_int_def need_def pre)
  moreover have "validate_sequence concrete (Some ly) (Some LOWERING_LIMIT) env = Inr ()"
    using low ly by (auto simp: lower_semantic_records_def rbind_Inr_iff)
  ultimately have "validate_sequence slims (Some ly) (Some mx) env' = Inr ()"
    using slim_sequence[OF _ h(2,3) _ assms(4)] by blast
  then show ?thesis using h(1,2) dev by (simp add: write_jsonl_def p)
qed

section \<open>Replay\<close>

text \<open>
  C32: what a successful replay shows. When the report says that the replay is fine, the simulator was
  given exactly the file of the trace, it ran and issued PIM commands, and it loaded every record,
  expanded, sent and completed every repetition, and counted every opcode as often as the trace has it.
\<close>

theorem replay_ok_complete:
  assumes "replay_concrete_trace simulate available env path rs mb mx overrides inflight cfg = Inr report"
    and "item report ''replay_ok'' = PBool True"
  shows "\<exists>device ly lines frontend memory stats fe ns. write_jsonl rs (Some ly) (Some mx) env device = Inr lines \<and>
    simulate lines frontend memory = Inr stats \<and> stat_section stats ''frontend'' = Inr fe \<and> rmap repeat_of rs = Inr ns \<and>
    counter fe ''records_loaded'' = int (length rs) \<and> counter fe ''records_expanded'' = sum_list ns \<and>
    counter fe ''opcode_requests_sent'' = sum_list ns \<and> counter fe ''opcode_requests_completed'' = sum_list ns \<and>
    list_all (\<lambda>(field, op). counter fe field = records_of_opcode rs op) OPCODE_COUNTERS"
proof -
  obtain device ly lines frontend memory stats d tck cfg' where
    lines: "write_jsonl rs (Some ly) (Some mx) env device = Inr lines" and sim: "simulate lines frontend memory = Inr stats"
    and report: "replay_report cfg' d ly tck rs stats = Inr report"
    using assms(1) unfolding replay_concrete_trace_def Let_def
    by (auto simp: rbind_Inr_iff split: if_splits)
  obtain fe cycles commands fine integrity where fe: "stat_section stats ''frontend'' = Inr fe"
    and integrity: "replay_integrity rs fe cycles commands = Inr (fine, integrity)" and fine: "item report ''replay_ok'' = PBool fine"
    using report by (auto simp: replay_report_def rbind_Inr_iff Let_def dgetd_def)
  have "replay_integrity rs fe cycles commands = Inr (True, integrity)" using integrity fine assms(2) by simp
  from replay_integrity_true[OF this] obtain ns where "rmap repeat_of rs = Inr ns" "counter fe ''records_loaded'' = int (length rs)"
    "counter fe ''records_expanded'' = sum_list ns" "counter fe ''opcode_requests_sent'' = sum_list ns"
    "counter fe ''opcode_requests_completed'' = sum_list ns" "list_all (\<lambda>(field, op). counter fe field = records_of_opcode rs op) OPCODE_COUNTERS"
    unfolding list_all_iff by blast
  with lines sim fe show ?thesis by (intro exI conjI)
qed

text \<open>A replay of one mode change on the default device, with a simulator whose statistics fit it.\<close>

definition mode_trace :: "dict list" where
  "mode_trace = [[(''opcode'', PStr ''SB''), (''repeat'', PInt 1), (''addr_vec'', PList (replicate 6 (PInt 0)))]]"

definition mode_config :: dict where
  "mode_config =
     [(''dram_class'', PStr ''LPDDR5PIM''), (''org_preset'', PStr ''LPDDR5_8Gb_x16''), (''timing_preset'', PStr ''LPDDR5_6400''),
      (''dram_kwargs'', PDict (datatype_args ''int8'' True)), (''frontend_clock_ratio'', PInt 4)]"

definition mode_statistics :: dict where
  "mode_statistics =
     [(''memory_system'', PDict [(''controller'', PDict [(''cycles'', PInt 40), (''num_issued_pim_mac'', PInt 1)])]),
      (''frontend'', PDict [(''records_loaded'', PInt 1), (''records_expanded'', PInt 1), (''opcode_requests_sent'', PInt 1),
         (''opcode_requests_completed'', PInt 1), (''sb_records'', PInt 1)])]"

definition mode_layout :: layout where
  "mode_layout = \<lparr>ly_dram_class = ''LPDDR5PIM'', ly_level_names = [''Channel'', ''Rank'', ''BankGroup'', ''Bank'', ''Row'', ''Column''],
     ly_level_sizes = [1, 1, 4, 4, 32768, 1024], ly_address_level_sizes = [1, 1, 4, 4, 32768, 64], ly_channel_pos = 0, ly_rank_pos = 1,
     ly_bank_positions = [1, 3, 2], ly_bank_counts = [1, 4, 4], ly_controller_bank_positions = [1, 2, 3],
     ly_controller_bank_counts = [1, 4, 4], ly_total_bank_units = 16, ly_row_pos = 4, ly_col_pos = 5, ly_num_rows = 32768,
     ly_num_cols = 1024, ly_prefetch = 16, ly_num_cls = 64, ly_tx_bytes = 32, ly_capacity_bytes = 1073741824\<rparr>"

lemma default_device:
  "\<exists>d od td v. create_dram mode_config [] = Inr d \<and> pd_standard d = LPDDR5PIM \<and> pim_resolve d = Inr (od, td) \<and>
     dget (std_org_presets LPDDR5PIM) ''LPDDR5_8Gb_x16'' = Some od \<and> dget td ''tCK_ps'' = Some (PInt v)"
proof -
  have b: "True \<longrightarrow> ''int8'' \<in> set (dkeys PIM_DATATYPE_RESOURCES)" by (simp add: dtype_names)
  have std: "pc_standard LPDDR5PIM_class = LPDDR5PIM" by (simp add: LPDDR5PIM_class_def)
  obtain d where d: "pim_construct LPDDR5PIM_class ''LPDDR5_8Gb_x16'' ''LPDDR5_6400'' (datatype_args ''int8'' True) = Inr d"
    and f: "pd_standard d = LPDDR5PIM" "pd_org_preset d = ''LPDDR5_8Gb_x16''" "pd_timing_preset d = ''LPDDR5_6400''"
      "pd_overrides d = []" "pd_resource d = datatype_resource ''int8'' True" "pd_blocks_per_bank d = 1"
      "pd_banks_per_block d = 2"
    using pim_construct_default[OF _ default_datatypes b, of LPDDR5PIM_class] by (auto simp: std)
  obtain od0 td0 where r: "resolve LPDDR5PIM ''LPDDR5_8Gb_x16'' ''LPDDR5_6400'' [] = Inr (od0, int_dict td0)"
    "org_valid LPDDR5PIM od0" "timings_cover LPDDR5PIM td0"
    using lpddr5_pim.preset_resolves[OF LPDDR5PIM_presets] by blast
  have "default_ok ''int8'' True" by (rule default_datatypes) simp
  then have "is_ok (pim_to_config d)"
    by (rule default_instance_ok[OF bank_checks(1) r(2,3,1) LPDDR5PIM_wf _ f])
  then obtain od td where t: "pim_resolve d = Inr (od, td)" using pim_to_config_resolves by blast
  obtain td1 where r1: "resolve (pd_standard d) (pd_org_preset d) (pd_timing_preset d) (pd_overrides d) = Inr (od, td1)"
    and k: "\<forall>k. k \<notin> {''nPIM_MAC_LAT'', ''nPIM_MAC_II''} \<or> \<not> pd_behavior d \<longrightarrow> dget td k = dget td1 k"
    by (rule pim_resolve_Inr[OF t]) (rule that)
  have "od = od0" "td1 = int_dict td0" using r1 r(1) f(1-4) by simp_all
  then have same: "od = od0" "dget td ''tCK_ps'' = dget (int_dict td0) ''tCK_ps''" using k by simp_all
  have "''tCK_ps'' \<in> set (dkeys td0)"
    using r(3) by (auto simp: timings_cover_def LPDDR5PIM_fields LPDDR5PIM_timing_params_def LPDDR5_timing_params_def)
  then obtain v where "dget (int_dict td0) ''tCK_ps'' = Some (PInt v)"
    by (auto simp: int_dict_def map_of_map dest!: weak_map_of_SomeI)
  moreover have "create_dram mode_config [] = Inr d"
    using d by (simp add: create_dram_def mode_config_def dgetd_def need_str_def need_def pim_class_of_def datatype_args_def has_def)
  ultimately show ?thesis using t f(1) same resolve_org[OF r(1)] by auto
qed

lemma default_layout:
  assumes "dget (std_org_presets LPDDR5PIM) ''LPDDR5_8Gb_x16'' = Some od"
  shows "extract_dram_layout LPDDR5PIM (subchannel_of LPDDR5PIM) od = Inr mode_layout"
proof -
  have od: "od = [(''density'', PInt 8192), (''dq'', PInt 16), (''channel_width'', PInt 16), (''rank'', PInt 1), (''bankgroup'', PInt 4),
      (''bank'', PInt 4), (''row'', PInt 32768), (''column'', PInt 1024)]"
    using assms by (simp add: LPDDR5PIM_fields LPDDR5_org_presets_def)
  have std: "std_name LPDDR5PIM = ''LPDDR5PIM''" "std_internal_prefetch LPDDR5PIM = 16"
    by (simp_all add: LPDDR5PIM_def LPDDR5_def DRAMStandard_def)
  have levels: "map fst (std_levels LPDDR5PIM) = [''Channel'', ''Rank'', ''BankGroup'', ''Bank'', ''Row'', ''Column'']"
    by (simp add: LPDDR5PIM_fields LPDDR5PIM_levels_def LPDDR5_levels_def)
  have sizes: "rmap (level_size od) [''Channel'', ''Rank'', ''BankGroup'', ''Bank'', ''Row'', ''Column''] = Inr [1, 1, 4, 4, 32768, 1024]"
    unfolding od by code_simp
  show ?thesis
    unfolding extract_dram_layout_def levels sizes Let_def rbind_Inr std LPDDR5PIM_fields subchannel_of_def od mode_layout_def
    by code_simp
qed

theorem replay_ok_complete_witness:
  "\<exists>report lines. replay_concrete_trace (\<lambda>_ _ _. Inr mode_statistics) (\<lambda>_ _. True) None ''trace.jsonl'' mode_trace 4096 10 [] 1 mode_config =
      Inr report \<and> item report ''replay_ok'' = PBool True \<and>
    write_jsonl mode_trace (Some mode_layout) (Some 10) None ''LPDDR5PIM'' = Inr lines \<and>
    counter (sub_section mode_statistics ''frontend'') ''opcode_requests_completed'' = 1"
proof -
  let ?sim = "\<lambda>_ _ _. Inr mode_statistics :: run_error + dict"
  let ?replay = "replay_concrete_trace ?sim (\<lambda>_ _. True) None ''trace.jsonl'' mode_trace 4096 10 [] 1 mode_config"
  obtain d od td v where d: "create_dram mode_config [] = Inr d" and std: "pd_standard d = LPDDR5PIM" and t: "pim_resolve d = Inr (od, td)"
    and od: "dget (std_org_presets LPDDR5PIM) ''LPDDR5_8Gb_x16'' = Some od" and v: "dget td ''tCK_ps'' = Some (PInt v)"
    using default_device by blast
  have name: "std_name LPDDR5PIM = ''LPDDR5PIM''" by (simp add: LPDDR5PIM_def)
  have ly: "pim_layout d = Inr mode_layout" by (simp add: pim_layout_def t std default_layout[OF od])
  have time: "time_unit_ns mode_config = Inr (of_int v / 1000)"
    by (simp add: time_unit_ns_def d t need_def v as_float_def)
  obtain lines where lines: "write_jsonl mode_trace (Some mode_layout) (Some 10) None ''LPDDR5PIM'' = Inr lines"
  proof -
    have "is_ok (write_jsonl mode_trace (Some mode_layout) (Some 10) None ''LPDDR5PIM'')" by code_simp
    then show thesis using that by (auto simp: is_ok_iff)
  qed
  have positions: "is_ok (position_of LPDDR5PIM_supported_requests ''PIMCompute'')" "is_ok (position_of LPDDR5PIM_supported_requests ''PIMLoadAll'')"
    "is_ok (position_of LPDDR5PIM_supported_requests ''PIMComputeAll'')" "is_ok (position_of (map (\<lambda>c. (c, ())) LPDDR5PIM_commands) ''SB'')"
    "is_ok (position_of (map (\<lambda>c. (c, ())) LPDDR5PIM_commands) ''HAB'')" "is_ok (position_of (map (\<lambda>c. (c, ())) LPDDR5PIM_commands) ''HAB_PIM'')"
    by code_simp+
  have tables: "dget frontend_of ''LPDDR5PIM'' = Some ''LPDDR5PIMConcreteTrace''" "\<exists>s. dget CONCRETE_SCHEMA_VERSIONS ''LPDDR5PIM'' = Some s"
    by (simp_all add: frontend_of_def CONCRETE_SCHEMA_VERSIONS_def)
  have frontend: "is_ok (create_concrete_frontend ''trace.jsonl'' d 4 (Some 4096) (Some 10) 1)"
    using positions tables by (auto simp: create_concrete_frontend_def Let_def ly std name LPDDR5PIM_fields is_ok_iff)
  have memory: "is_ok (create_memory_system (\<lambda>_ _. True) d mode_config)"
    by (simp add: create_memory_system_def mode_config_def stat_section_def dgetd_def std name named_or_def make_component_def
        create_address_mapper_def Let_def)
  let ?ctrl = "[(''cycles'', PInt 40), (''num_issued_pim_mac'', PInt 1)]"
  let ?fe = "sub_section mode_statistics ''frontend''"
  have sections: "rbind (stat_section mode_statistics ''memory_system'') (\<lambda>ms. stat_section ms ''controller'') = Inr ?ctrl"
    "stat_section mode_statistics ''frontend'' = Inr ?fe" "stat_int ?ctrl ''cycles'' = Inr 40" "stat_int ?ctrl ''num_issued_pim_mac'' = Inr 1"
    "stat_int ?ctrl ''num_issued_pim_mac_ab'' = Inr 0"
    by (simp_all add: mode_statistics_def stat_section_def sub_section_def dgetd_def stat_int_def)
  obtain opcodes counts integrity power stalls schema where parts: "count_concrete_opcodes mode_trace = Inr opcodes" "frontend_counts ?fe = Inr counts"
    "replay_integrity mode_trace ?fe 40 1 = Inr (True, integrity)"
    "power_accounting_metadata ''LPDDR5PIM'' ?ctrl (Some PAPER_LPDDR5_POWER_PROFILE_NAME) = Inr power"
    "rmap (\<lambda>k. rbind (stat_int ?ctrl k) (\<lambda>n. Inr (k, PInt n))) STALL_STATISTICS = Inr stalls"
    "dget CONCRETE_SCHEMA_VERSIONS ''LPDDR5PIM'' = Some schema"
  proof -
    have 1: "is_ok (count_concrete_opcodes mode_trace)" "is_ok (frontend_counts ?fe)"
      "is_ok (power_accounting_metadata ''LPDDR5PIM'' ?ctrl (Some PAPER_LPDDR5_POWER_PROFILE_NAME))"
      "is_ok (rmap (\<lambda>k. rbind (stat_int ?ctrl k) (\<lambda>n. Inr (k, PInt n))) STALL_STATISTICS)"
      by code_simp+
    have "case replay_integrity mode_trace ?fe 40 1 of Inr (ok, _) \<Rightarrow> ok | Inl _ \<Rightarrow> False" by code_simp
    then have "\<exists>integrity. replay_integrity mode_trace ?fe 40 1 = Inr (True, integrity)" by (auto split: sum.splits)
    then show thesis using 1 tables(2) that unfolding is_ok_iff by blast
  qed
  have report: "\<exists>report. replay_report mode_config d mode_layout (of_int v / 1000) mode_trace mode_statistics = Inr report \<and>
      item report ''replay_ok'' = PBool True"
    by (simp add: replay_report_def sections parts std name Let_def dgetd_def)
  obtain f m where fm: "create_concrete_frontend ''trace.jsonl'' d 4 (Some 4096) (Some 10) 1 = Inr f"
    "create_memory_system (\<lambda>_ _. True) d mode_config = Inr m"
    using frontend memory by (auto simp: is_ok_iff)
  have config: "mode_config \<noteq> []" "dgetd mode_config ''dram_class'' w = PStr ''LPDDR5PIM''"
    "need mode_config ''frontend_clock_ratio'' = Inr (PInt 4)" for w
    by (simp_all add: mode_config_def dgetd_def need_def)
  obtain rep where rep: "?replay = Inr rep" "item rep ''replay_ok'' = PBool True"
    using report by (auto simp: replay_concrete_trace_def Let_def config d time ly lines fm)
  have ns: "rmap repeat_of mode_trace = Inr [1]" by code_simp
  obtain fe where "stat_section mode_statistics ''frontend'' = Inr fe" "counter fe ''opcode_requests_completed'' = 1"
    using replay_ok_complete[OF rep] ns by auto
  then show ?thesis using rep lines by (auto simp: sections(2))
qed

end
