(* ===== verification/Pimscope_Resident.thy ===== *)
theory Pimscope_Resident
  imports Pimscope_Run Lowering_Work Concrete_Properties
begin

text \<open>
  The policy on weights of a run. A lowering that does not materialize weights writes nothing for a
  weight movement, whatever the semantic trace, so a run with resident weights is never refused for
  such writes. As for termination, the argument is compositional: every step of the lowering keeps a
  state without preloads, and sequencing and loops keep that.
\<close>

section \<open>Steps that keep a clean state\<close>

definition clean :: "low_state \<Rightarrow> bool" where
  "clean st \<longleftrightarrow> list_all (\<lambda>r. is_preload r = Inr False) (low_records st)"

definition keeps :: "lower_error + low_state \<Rightarrow> bool" where
  "keeps m \<longleftrightarrow> (case m of Inl _ \<Rightarrow> True | Inr st \<Rightarrow> clean st)"

text \<open>An operation whose record is no preload.\<close>

definition no_preload :: "string \<Rightarrow> dict \<Rightarrow> bool" where
  "no_preload op sem \<longleftrightarrow> op \<noteq> ''WRITE'' \<or> item sem ''kind'' \<noteq> PStr ''PIMDataMove''"

named_theorems keeps_intros "steps of the lowering that keep a clean state"

lemma keeps_Inr [keeps_intros]: "clean st \<Longrightarrow> keeps (Inr st)"
  by (simp add: keeps_def)

lemma keeps_Inl [keeps_intros]: "keeps (Inl e)"
  by (simp add: keeps_def)

lemma keeps_step [keeps_intros]: "keeps m \<Longrightarrow> (\<And>st. clean st \<Longrightarrow> keeps (f st)) \<Longrightarrow> keeps (rbind m f)"
  by (cases m) (simp_all add: keeps_def)

lemma keeps_value: "(\<And>a. keeps (f a)) \<Longrightarrow> keeps (rbind m f)"
  by (cases m) (simp_all add: keeps_def)

lemmas keeps_values [keeps_intros] =
  keeps_value[where 'a = nat] keeps_value[where 'a = int] keeps_value[where 'a = bool] keeps_value[where 'a = "int list"]
  keeps_value[where 'a = "pyval list"] keeps_value[where 'a = dict] keeps_value[where 'a = access_fields]
  keeps_value[where 'a = "(int \<times> int \<times> int) list"]

lemma keeps_if [keeps_intros]: "(b \<Longrightarrow> keeps x) \<Longrightarrow> (\<not> b \<Longrightarrow> keeps y) \<Longrightarrow> keeps (if b then x else y)"
  by simp

lemma keeps_rfold [keeps_intros]: "(\<And>st x. clean st \<Longrightarrow> keeps (f st x)) \<Longrightarrow> clean st \<Longrightarrow> keeps (rfold f st xs)"
  by (induction xs arbitrary: st) (auto intro!: keeps_intros)

lemma clean_updates [keeps_intros]:
  "clean st \<Longrightarrow> clean (set_rank k m b st)" "clean st \<Longrightarrow> clean (st\<lparr>low_loaded := bs\<rparr>)" "clean st \<Longrightarrow> clean (st\<lparr>low_modes := ms\<rparr>)"
  by (simp_all add: clean_def set_rank_def)

lemma other_ops [keeps_intros]:
  "no_preload ''SB'' sem" "no_preload ''HAB'' sem" "no_preload ''HAB_PIM'' sem" "no_preload ''PIM_BCAST'' sem"
  "no_preload ''PIM_MAC'' sem" "no_preload ''PIM_MAC_AB'' sem"
  by (simp_all add: no_preload_def)

section \<open>Records\<close>

lemma keeps_emit_extra:
  assumes "clean st" and "no_preload op sem" and "distinct (dkeys extra)" and "set (dkeys extra) \<inter> set base_keys = {}"
  shows "keeps (emit p sem op av n extra st)"
proof (cases "semantic_provenance sem (lp_manifest p)")
  case (Inr prov)
  let ?r = "concrete_record (record_id (length (low_records st))) op av n prov extra"
  have "''provenance'' \<notin> set (dkeys extra)" using assms(4) by (auto simp: base_keys_def)
  then have "dget extra ''provenance'' = None" by (simp add: dget_None_iff)
  then have "dget ?r ''provenance'' = Some (PDict prov)" by (simp add: concrete_record_def dget_dupdate[OF assms(3)])
  moreover have "\<exists>s. dget prov ''semantic_source'' = Some (PDict s) \<and> dgetd s ''kind'' PNone = item sem ''kind''"
    using Inr by (auto simp: semantic_provenance_def rbind_Inr_iff dget_dupdate dgetd_def)
  ultimately have "is_preload ?r = Inr False"
    using assms(2) by (auto simp: is_preload_def need_def concrete_record_get(1)[OF assms(3,4)] stat_section_def dgetd_def no_preload_def)
  then show ?thesis using assms(1) by (simp add: emit_def Inr keeps_def clean_def)
qed (simp add: emit_def keeps_def)

lemma keeps_emit [keeps_intros]: "clean st \<Longrightarrow> no_preload op sem \<Longrightarrow> keeps (emit p sem op av n [] st)"
  by (rule keeps_emit_extra) simp_all

lemma keeps_emit_host [keeps_intros]:
  "clean st \<Longrightarrow> no_preload op sem \<Longrightarrow> keeps (emit p sem op av n [(''addr_byte'', v)] st)"
  "clean st \<Longrightarrow> no_preload op sem \<Longrightarrow> keeps (emit p sem op av n [(''addr_byte'', v), (''addr_byte_stride'', w)] st)"
  by (rule keeps_emit_extra; simp add: base_keys_def)+

lemma keeps_chunks [keeps_intros]: "clean st \<Longrightarrow> no_preload op sem \<Longrightarrow> keeps (emit_chunks p sem op av cs st)"
  unfolding emit_chunks_def by (intro keeps_intros)

lemma keeps_interleaved [keeps_intros]:
  assumes "clean st"
  shows "keeps (emit_interleaved p sem av (interleave_extra p a banks) cs st)"
proof -
  let ?f = "\<lambda>(st, start) n. rbind (emit p sem ''PIM_MAC'' av n (interleave_extra p a banks @ [(''interleave_start_idx'', PInt start)]) st)
      (\<lambda>st. Inr (st, start + n))"
  have step: "keeps (emit p sem ''PIM_MAC'' av n (interleave_extra p a banks @ [(''interleave_start_idx'', PInt start)]) st)" if "clean st" for n start st
    using that by (rule keeps_emit_extra) (simp_all add: no_preload_def interleave_extra_keys[simplified])
  have "keeps (rbind (rfold ?f (st, start) cs) (\<lambda>(st, _). Inr st))" if "clean st" for start
    using that
  proof (induction cs arbitrary: st start)
    case (Cons n cs)
    then show ?case
      using step[OF Cons.prems, of n start]
      by (cases "emit p sem ''PIM_MAC'' av n (interleave_extra p a banks @ [(''interleave_start_idx'', PInt start)]) st") (simp_all add: keeps_def)
  qed (simp add: keeps_def)
  from this[OF assms] show ?thesis by (simp add: emit_interleaved_def)
qed

section \<open>The lowering\<close>

lemma keeps_transitions [keeps_intros]:
  "clean st \<Longrightarrow> keeps (transition_to_single_bank p sem av st)" "clean st \<Longrightarrow> keeps (transition_to_host_all_bank p sem av st)"
  "clean st \<Longrightarrow> keeps (transition_to_pim_all_bank p sem av st)"
  unfolding transition_to_single_bank_def transition_to_host_all_bank_def transition_to_pim_all_bank_def by (intro keeps_intros; assumption)+

lemma keeps_ensure [keeps_intros]: "clean st \<Longrightarrow> keeps (ensure_all_bank_load p sem av st)"
  unfolding ensure_all_bank_load_def by (intro keeps_intros; assumption)

lemma keeps_passes [keeps_intros]: "clean st \<Longrightarrow> no_preload op sem \<Longrightarrow> keeps (emit_passes p sem op b s n k st)"
  unfolding emit_passes_def emit_stream_def
  by (intro keeps_intros) (auto intro!: keeps_intros split: prod.split)

lemma keeps_host: "clean st \<Longrightarrow> item sem ''kind'' \<noteq> PStr ''PIMDataMove'' \<Longrightarrow> keeps (lower_host p sem kind st)"
  unfolding lower_host_def by (intro keeps_intros) (simp_all add: no_preload_def)

lemma keeps_compute [keeps_intros]: "clean st \<Longrightarrow> keeps (lower_compute p sem kind av n st)"
  unfolding lower_compute_def lower_all_bank_mac_def lower_compact_mac_def lower_serial_mac_def Let_def
  by (intro keeps_intros; assumption)

lemma keeps_load [keeps_intros]: "clean st \<Longrightarrow> keeps (lower_load p sem kind av n st)"
  unfolding lower_load_def Let_def by (intro keeps_intros; assumption)

lemma keeps_all_compute [keeps_intros]: "clean st \<Longrightarrow> keeps (lower_all_compute p sem kind n k st)"
  unfolding lower_all_compute_def Let_def by (intro keeps_intros; assumption)

lemma keeps_pim [keeps_intros]: "clean st \<Longrightarrow> keeps (lower_pim p sem kind st)"
  unfolding lower_pim_def by (intro keeps_intros; assumption)

lemma keeps_record:
  assumes "\<not> lp_materialize p" and "clean st"
  shows "keeps (lower_record p st sem)"
proof (cases "item sem ''kind''")
  case (PStr kind)
  have "keeps (lower_host p sem kind st)" if "kind \<in> set HOST_SEMANTIC_KINDS"
    using that assms(2) by (intro keeps_host) (auto simp: PStr HOST_SEMANTIC_KINDS_def)
  then show ?thesis
    unfolding lower_record_def PStr pyval.case
    using assms by (intro keeps_intros) (simp_all add: lower_weight_def keeps_def)
qed (use assms(2) in \<open>simp_all add: lower_record_def keeps_def\<close>)

lemma resident_clean:
  assumes "lower_loop p sems = Inr rs" and "\<not> lp_materialize p"
  shows "list_all (\<lambda>r. is_preload r = Inr False) rs"
proof -
  obtain q st where q: "prepare p = Inr q"
    and run: "rfold (lower_record q)
        \<lparr>low_records = [], low_modes = replicate (lp_ranks q) SB, low_loaded = replicate (lp_ranks q) False\<rparr> sems = Inr st"
    and rs: "rs = low_records st"
    using assms(1) by (auto simp: lower_loop_def rbind_Inr_iff split: if_splits)
  have "lp_materialize q = lp_materialize p" using q by (auto simp: prepare_def Let_def rbind_Inr_iff split: if_splits option.splits)
  then have "keeps (Inr st)"
    unfolding run[symmetric] using assms(2) by (intro keeps_rfold keeps_record) (simp_all add: clean_def)
  then show ?thesis by (simp add: keeps_def clean_def rs)
qed

text \<open>
  C33: resident weights are never written. Without materialization the lowering of any semantic trace
  has no write for a weight movement: the summary counts none, so the policy \<open>resident\<close> is never
  refused, and the policy \<open>full_preload\<close> would always be.
\<close>

theorem resident_run_writes_no_weights:
  assumes "lower_semantic_records p sems mx env = Inr rs" and "\<not> lp_materialize p" and "need w ''weight_residency'' = Inr policy"
  shows "\<exists>summary. materialization_summary rs w tx_bytes = Inr summary \<and> need_int summary ''write_transactions'' = Inr 0 \<and>
    need_int summary ''generated_bytes'' = Inr 0 \<and> materialization_matches_policy summary (PStr ''resident'') = Inr () \<and>
    \<not> is_ok (materialization_matches_policy summary (PStr ''full_preload''))"
proof -
  have "list_all (\<lambda>r. is_preload r = Inr False) rs"
    using assms(1,2) resident_clean by (auto simp: lower_semantic_records_def rbind_Inr_iff)
  then have flags: "rmap is_preload rs = Inr (map (\<lambda>_. False) rs)" by (induction rs) simp_all
  have "filter fst (zip (map (\<lambda>_. False) rs) rs) = []" by (auto simp: filter_empty_conv dest: set_zip_leftD)
  then show ?thesis
    by (simp add: materialization_summary_def flags Let_def assms(3) need_int_def materialization_matches_policy_def)
      (simp add: need_def)
qed

definition resident_semantic :: "dict list" where
  "resident_semantic =
     [[(''kind'', PStr ''HostWrite''), (''record_id'', PStr ''r0''),
       (''address_policy'', PDict [(''base_byte'', PInt 0), (''stride_bytes'', PInt 32), (''count'', PInt 2)])],
      [(''kind'', PStr ''PIMDataMove''), (''record_id'', PStr ''r1''), (''movement_policy'', PDict [(''operand_role'', PStr ''weight'')])]]"

definition resident_params :: low_params where
  "resident_params =
     \<lparr>lp_size = 5, lp_bank = 2, lp_positions = None, lp_counts = None, lp_row = 3, lp_col = 4, lp_manifest = ''demo'',
      lp_materialize = False, lp_interleave = False, lp_depth = 4, lp_max_repeat = 1000000, lp_mac_mode = ''per_kind'',
      lp_layout = Some demo_layout, lp_policy = ''bounded_surrogate_v1'', lp_rank_level = None, lp_ranks = 1\<rparr>"

theorem resident_run_writes_no_weights_witness:
  "\<exists>rs summary. lower_semantic_records resident_params resident_semantic (Some 10) None = Inr rs \<and>
     list_ex (\<lambda>r. item r ''opcode'' = PStr ''WRITE'') rs \<and>
     materialization_summary rs [(''weight_residency'', PStr ''resident'')] 32 = Inr summary \<and>
     materialization_matches_policy summary (PStr ''resident'') = Inr ()"
proof -
  have "case lower_semantic_records resident_params resident_semantic (Some 10) None of Inl _ \<Rightarrow> False
      | Inr rs \<Rightarrow> list_ex (\<lambda>r. item r ''opcode'' = PStr ''WRITE'') rs"
    by code_simp
  then obtain rs where rs: "lower_semantic_records resident_params resident_semantic (Some 10) None = Inr rs"
    "list_ex (\<lambda>r. item r ''opcode'' = PStr ''WRITE'') rs"
    by (auto split: sum.splits)
  have "\<not> lp_materialize resident_params" "need [(''weight_residency'', PStr ''resident'')] ''weight_residency'' = Inr (PStr ''resident'')"
    by (simp_all add: resident_params_def need_def)
  from resident_run_writes_no_weights[OF rs(1) this] rs show ?thesis by blast
qed

end
