(* ===== verification/Prefill_Formula.thy ===== *)
theory Prefill_Formula
  imports Surrogate_Specs Pim_Resources
begin

text \<open>
  The closed form of \<open>pimscope/backend.py\<close> for the multiply operations of a prefill layer, from the
  dimensions of a registered model and without its trace.
\<close>

section \<open>Tiles\<close>

definition pim_ceil_div :: "int \<Rightarrow> int \<Rightarrow> int" where
  "pim_ceil_div n d = (n + d - 1) div d"

text \<open>\<open>range(0, total, tile)\<close>; the manifests give a tile of at least one token.\<close>

definition prefill_tile_ranges :: "int \<Rightarrow> int \<Rightarrow> (int \<times> int) list" where
  "prefill_tile_ranges n tile =
     (if tile \<le> 0 then [] else map (\<lambda>i. (i * tile, min tile (n - i * tile))) [0..(n - 1) div tile])"

definition prefill_causal_pair_count :: "int \<Rightarrow> int \<Rightarrow> int \<Rightarrow> int \<Rightarrow> int" where
  "prefill_causal_pair_count qs qt ks kt = sum_list (map (\<lambda>qi. max 0 (min (ks + kt) (qi + 1) - ks)) [qs..qs + qt - 1])"

definition prefill_attention_pim_mac_per_layer :: "int \<Rightarrow> int \<Rightarrow> int \<Rightarrow> int \<Rightarrow> int \<Rightarrow> int \<Rightarrow> int" where
  "prefill_attention_pim_mac_per_layer prompt_len num_heads head_dim pim_lanes score_tile context_tile =
     num_heads * sum_list (map (\<lambda>(qs, qt). sum_list (map (\<lambda>(ks, kt).
       let pairs = prefill_causal_pair_count qs qt ks kt
       in if 0 < pairs then 2 * pim_ceil_div (pairs * head_dim) pim_lanes else 0)
       (prefill_tile_ranges prompt_len context_tile))) (prefill_tile_ranges prompt_len score_tile))"

section \<open>The formula\<close>

definition infer_model_family :: "string \<Rightarrow> string" where
  "infer_model_family name =
     (let nl = lower name in
      if is_substring ''llama'' nl then ''Llama''
      else if is_substring ''mixtral'' nl then ''Mixtral''
      else if is_substring ''opt'' nl then ''OPT''
      else if is_substring ''qwen'' nl then ''Qwen''
      else if is_substring ''gemma'' nl then ''Gemma''
      else ''Unknown'')"

definition kv_heads_or_heads :: "model_spec \<Rightarrow> int" where
  "kv_heads_or_heads spec = (if spec_num_kv_heads spec = 0 then spec_num_heads spec else spec_num_kv_heads spec)"

definition qkvo_per_layer :: "model_spec \<Rightarrow> int \<Rightarrow> int \<Rightarrow> int" where
  "qkvo_per_layer spec prompt_len pim_lanes =
     (let hidden = spec_hidden_size spec; q_proj = spec_num_heads spec * spec_head_dim spec;
          kv_proj = kv_heads_or_heads spec * spec_head_dim spec
      in pim_ceil_div (prompt_len * hidden * q_proj) pim_lanes + pim_ceil_div (prompt_len * hidden * kv_proj) pim_lanes +
         pim_ceil_div (prompt_len * hidden * kv_proj) pim_lanes + pim_ceil_div (prompt_len * q_proj * hidden) pim_lanes)"

definition ffn_per_layer :: "model_spec \<Rightarrow> int \<Rightarrow> int \<Rightarrow> int" where
  "ffn_per_layer spec prompt_len pim_lanes =
     dgetd FFN_VARIANT_PROJECTION_COUNTS (spec_ffn_variant spec) 3 *
     pim_ceil_div (prompt_len * spec_hidden_size spec * spec_ffn_hidden_size spec) pim_lanes"

text \<open>The two classes of memory have the same datatype resources.\<close>

definition formula_resources :: "string \<Rightarrow> gen_error + dict" where
  "formula_resources datatype =
     (case dget PIM_DATATYPE_RESOURCES datatype of None \<Rightarrow> Inl (GKey datatype) | Some r \<Rightarrow> Inr r)"

definition formula_buckets :: "model_spec \<Rightarrow> int \<Rightarrow> int \<Rightarrow> int \<Rightarrow> int \<Rightarrow> dict" where
  "formula_buckets spec prompt_len pim_lanes stile ctile =
     [(''qkvo_projection'', PInt (qkvo_per_layer spec prompt_len pim_lanes)),
      (''attention'', PInt (prefill_attention_pim_mac_per_layer prompt_len (spec_num_heads spec) (spec_head_dim spec) pim_lanes stile ctile)),
      (''ffn'', PInt (ffn_per_layer spec prompt_len pim_lanes))]"

definition formula_fields :: "string \<Rightarrow> model_spec \<Rightarrow> int \<Rightarrow> int \<Rightarrow> int \<Rightarrow> int \<Rightarrow> int \<Rightarrow> pyval \<Rightarrow> dict" where
  "formula_fields model_key spec prompt_len pim_lanes prim_ops stile ctile residency =
     (let causal_pairs = prompt_len * (prompt_len + 1) div 2; valid = causal_pairs * spec_num_heads spec in
      [(''model_name'', PStr (spec_name spec)), (''model_family'', PStr (infer_model_family (spec_name spec))),
       (''model_key'', PStr model_key), (''model_total_layers'', PInt (spec_num_layers spec)),
       (''hidden_size'', PInt (spec_hidden_size spec)), (''ffn_hidden_size'', PInt (spec_ffn_hidden_size spec)),
       (''ffn_variant'', PStr (spec_ffn_variant spec)), (''activation'', PStr (spec_activation spec)),
       (''num_heads'', PInt (spec_num_heads spec)), (''num_kv_heads'', PInt (kv_heads_or_heads spec)),
       (''head_dim'', PInt (spec_head_dim spec)), (''datatype'', PStr (spec_datatype spec)), (''citation'', PStr (spec_citation spec)),
       (''prompt_len'', PInt prompt_len), (''seq_len'', PInt prompt_len), (''prefill_causal_pairs'', PInt causal_pairs),
       (''valid_attention_pairs_per_layer'', PInt valid),
       (''attention_issued_work_elements_per_layer'', PInt (2 * valid * spec_head_dim spec)),
       (''score_tile_tokens'', PInt stile), (''context_tile_tokens'', PInt ctile), (''pim_mac_lanes'', PInt pim_lanes),
       (''primitive_ops_per_mac'', PInt prim_ops),
       (''per_layer_pim_mac_buckets'', PDict (formula_buckets spec prompt_len pim_lanes stile ctile)),
       (''kv_residency_policy'', residency)])"

definition prefill_formula :: "string \<Rightarrow> int \<Rightarrow> string \<Rightarrow> gen_error + dict" where
  "prefill_formula model_key prompt_len device =
     (if device \<notin> {''LPDDR5PIM'', ''LPDDR6PIM''} then Inl (GValue ''dram_class'')
      else
      rbind (get_model_spec model_key) (\<lambda>spec.
      rbind (dense_prefill_manifests spec prompt_len ''serialized'') (\<lambda>(attention, _).
      rbind (formula_resources (spec_datatype spec)) (\<lambda>res.
      rbind (m_int res ''pim_lanes'') (\<lambda>pim_lanes.
      rbind (m_int res ''pim_ops_per_mac'') (\<lambda>prim_ops.
      rbind (m_int attention ''score_tile_tokens'') (\<lambda>stile.
      rbind (m_int attention ''context_tile_tokens'') (\<lambda>ctile.
      Inr (formula_fields model_key spec prompt_len pim_lanes prim_ops stile ctile
        (dgetd attention ''residency_policy'' (PDict [])))))))))))"

section \<open>Agreement with the tiles of the generator\<close>

lemma pair_counts_agree: "prefill_causal_pair_count = causal_pair_count"
  by (intro ext) (simp add: prefill_causal_pair_count_def causal_pair_count_def)

lemma tiles_from:
  assumes "0 < tile" and "0 \<le> i"
  shows "tile_ranges_from (i * tile) n tile = map (\<lambda>i. (i * tile, min tile (n - i * tile))) [i..(n - 1) div tile]"
  using assms(2)
proof (induction "nat (n - i * tile)" arbitrary: i rule: less_induct)
  case less
  show ?case
  proof (cases "i * tile < n")
    case True
    have le: "i \<le> (n - 1) div tile" using zdiv_mono1[of "i * tile" "n - 1" tile] True assms(1) by simp
    have step: "tile_ranges_from (i * tile + min tile (n - i * tile)) n tile = tile_ranges_from ((i + 1) * tile) n tile"
    proof (cases "(i + 1) * tile \<le> n")
      case True
      then have "i * tile + min tile (n - i * tile) = (i + 1) * tile" by (simp add: algebra_simps min_def)
      then show ?thesis by (simp only:)
    next
      case False
      then have "i * tile + min tile (n - i * tile) = n" by (simp add: algebra_simps min_def)
      then show ?thesis using False by (subst (1 2) tile_ranges_from.simps) simp
    qed
    have "tile_ranges_from ((i + 1) * tile) n tile = map (\<lambda>i. (i * tile, min tile (n - i * tile))) [i + 1..(n - 1) div tile]"
      using less.prems True assms(1) by (intro less.hyps) (simp_all add: algebra_simps)
    then show ?thesis
      using True assms(1) step upto_rec1[OF le] by (subst tile_ranges_from.simps) (simp add: Let_def)
  next
    case False
    then have "n - 1 < i * tile" by simp
    moreover have "(n - 1) div tile * tile \<le> n - 1"
      using div_mult_mod_eq[of "n - 1" tile] pos_mod_sign[OF assms(1), of "n - 1"] by linarith
    ultimately have "(n - 1) div tile * tile < i * tile" by linarith
    then have "(n - 1) div tile < i" using assms(1) by (simp add: mult_less_cancel_right)
    then show ?thesis using False by (subst tile_ranges_from.simps) simp
  qed
qed

lemma tiles_agree: "0 < tile \<Longrightarrow> prefill_tile_ranges n tile = tile_ranges n tile"
  using tiles_from[of tile 0 n] by (simp add: prefill_tile_ranges_def tile_ranges_def)

end
