(* ===== verification/Prefill_Counts.thy ===== *)
theory Prefill_Counts
  imports Prefill_Formula
begin

text \<open>
  The multiply requests of a generated prefill trace, by the buckets of the closed form: projections
  around attention, attention, feed-forward network. They are counted through the generators, and the
  composition of layers keeps them.
\<close>

section \<open>Requests of a trace\<close>

definition mac_bucket :: "dict \<Rightarrow> string option" where
  "mac_bucket r =
     (if kind_of r \<in> {''AttentionScore'', ''AttentionContext''} then Some ''attention''
      else if kind_of r = ''FFNProjection'' then Some (if op_of r \<in> set ATTENTION_PROJECTIONS then ''qkvo_projection'' else ''ffn'')
      else None)"

definition requests_of :: "dict \<Rightarrow> int" where
  "requests_of r = (case item r ''num_requests'' of PInt n \<Rightarrow> n | _ \<Rightarrow> 0)"

definition load_of :: "string \<Rightarrow> dict \<Rightarrow> int" where
  "load_of b r = (if mac_bucket r = Some b then requests_of r else 0)"

definition bucket_work :: "string \<Rightarrow> dict list \<Rightarrow> int" where
  "bucket_work b rs = sum_list (map (load_of b) rs)"

lemma bucket_work_simps [simp]:
  "bucket_work b [] = 0" "bucket_work b (r # rs) = load_of b r + bucket_work b rs"
  "bucket_work b (xs @ ys) = bucket_work b xs + bucket_work b ys"
  by (simp_all add: bucket_work_def)

lemma bucket_work_cong: "(\<And>r. r \<in> set rs \<Longrightarrow> load_of b (f r) = load_of b r) \<Longrightarrow> bucket_work b (map f rs) = bucket_work b rs"
  unfolding bucket_work_def by (simp cong: map_cong)

section \<open>The builders\<close>

lemma built_requests:
  assumes "dkeys p = [''dependency_context'', ''row_policy'', ''column_policy'']"
  shows "requests_of (dupdate (dupdate (base_record rid kind layer op m) (tensor_fields ins outs deps ctx @
    [(''compute_shape'', v1), (''num_requests'', PInt n), (''bank_sequence'', v2), (''datatype_metadata'', v3), (''burst_length'', v4)])) p) = n"
  using assms by (simp add: requests_of_def dgetd_def dget_dupdate_absent built_dget)

lemma load_attention:
  assumes "kind \<in> {''AttentionScore'', ''AttentionContext''}"
  shows "load_of b (attention_compute_record rid kind layer op m h t n st (Some (q, p, ks, qs)) ins outs deps) =
    (if b = ''attention'' then num_requests (p * mint m ''head_dim'') (item m ''datatype'') else 0)"
proof -
  have "requests_of (attention_compute_record rid kind layer op m h t n st (Some (q, p, ks, qs)) ins outs deps) =
      num_requests (p * mint m ''head_dim'') (item m ''datatype'')"
    unfolding attention_compute_record_def Let_def option.case prod.case
    by (rule built_requests) (simp add: attention_policies_def policy_keys)
  then show ?thesis using assms by (auto simp: load_of_def mac_bucket_def record_heads)
qed

lemma load_projection:
  "load_of b (ffn_projection_record rid layer m op stage ins outs deps k n) =
    (if b = (if op \<in> set ATTENTION_PROJECTIONS then ''qkvo_projection'' else ''ffn'')
     then num_requests (mint m ''seq_len'' * fst (projection_dims m op k n) * snd (projection_dims m op k n)) (item m ''datatype'') else 0)"
proof -
  have "requests_of (ffn_projection_record rid layer m op stage ins outs deps k n) =
      num_requests (mint m ''seq_len'' * fst (projection_dims m op k n) * snd (projection_dims m op k n)) (item m ''datatype'')"
    unfolding ffn_projection_record_def Let_def case_prod_beta
    by (rule built_requests) (simp add: ffn_policies_def policy_keys)
  then show ?thesis by (simp add: load_of_def mac_bucket_def record_heads)
qed

lemma load_other: "kind_of r \<notin> {''AttentionScore'', ''AttentionContext'', ''FFNProjection''} \<Longrightarrow> load_of b r = 0"
  by (simp add: load_of_def mac_bucket_def)

named_theorems loads "the requests that a built record counts for"

declare load_attention [loads] load_projection [loads]

lemma load_accounting [loads]:
  "load_of b (semantic_operand_record rid ''PIMOperandResidency'' layer op m family stage ins outs deps a ctx) = 0"
  "load_of b (semantic_operand_record rid ''PIMOperandReuse'' layer op m family stage ins outs deps a ctx) = 0"
  "load_of b (context_reduction_record rid layer m h ids ins out extra w) = 0"
  "load_of b (ffn_elementwise_record rid layer m op idx ins outs deps ek) = 0"
  "load_of b (ffn_data_move_record rid layer m op idx ins outs deps role res reuse t w) = 0"
  "load_of b (host_access_record rid ''HostWrite'' layer op m place st ins outs deps w scope) = 0"
  "load_of b (barrier_record rid layer op m) = 0" "load_of b (drain_record rid layer m) = 0"
  "load_of b (prefill_softmax_record rid layer m h qt qs qn w ins outs deps) = 0"
  by (simp_all add: load_other record_heads prefill_softmax_record_def)

definition gs_work :: "string \<Rightarrow> gen_state \<Rightarrow> int" where
  "gs_work b st = bucket_work b (gs_records st)"

lemma gs_work_push [simp]: "gs_work b (push mk st) = gs_work b st + load_of b (mk (next_rec st))"
  by (simp add: gs_work_def push_def)

lemma gs_work_start [simp]: "gs_work b gen_start = 0"
  by (simp add: gs_work_def gen_start_def)

lemma gs_work_residency [simp]: "gs_work b (prefill_residency op tensor deps scope ctx m layer st) = gs_work b st"
  by (simp add: prefill_residency_def loads)

section \<open>Attention\<close>

text \<open>What one operation on the causal pairs of two tiles counts for.\<close>

definition pair_work :: "string \<Rightarrow> dict \<Rightarrow> int \<Rightarrow> int" where
  "pair_work b m pairs = (if b = ''attention'' \<and> 0 < pairs then num_requests (pairs * mint m ''head_dim'') (item m ''datatype'') else 0)"

lemma pair_work_zero [simp]: "pairs \<le> 0 \<Longrightarrow> pair_work b m pairs = 0"
  by (simp add: pair_work_def)

lemma score_tile_work:
  "gs_work b (ps_state (prefill_score_tile m l h qt qs qn r ps (i, s, k))) =
   gs_work b (ps_state ps) + pair_work b m (causal_pair_count qs qn s k)"
  by (auto simp: prefill_score_tile_def Let_def loads pair_work_def)

lemma score_tile_pairs:
  "map (\<lambda>(_, _, _, n). pair_work b m n) (ps_tiles (prefill_score_tile m' l h qt qs qn r ps (i, s, k))) =
   map (\<lambda>(_, _, _, n). pair_work b m n) (ps_tiles ps) @
     (if causal_pair_count qs qn s k \<le> 0 then [] else [pair_work b m (causal_pair_count qs qn s k)])"
  and score_tile_lengths:
  "length (ps_tensors ps) = length (ps_tiles ps) \<Longrightarrow>
   length (ps_tensors (prefill_score_tile m' l h qt qs qn r ps (i, s, k))) = length (ps_tiles (prefill_score_tile m' l h qt qs qn r ps (i, s, k)))"
  by (simp_all add: prefill_score_tile_def Let_def)

lemma score_tile_positive:
  assumes "list_all (\<lambda>(_, _, _, n). 0 < n) (ps_tiles ps)"
  shows "list_all (\<lambda>(_, _, _, n). 0 < n) (ps_tiles (prefill_score_tile m l h qt qs qn r ps (i, s, k)))"
  using assms by (simp add: prefill_score_tile_def Let_def)

text \<open>The score tiles of a query tile, and the tiles they leave for the context.\<close>

lemma score_tiles_work:
  assumes "length (ps_tensors ps) = length (ps_tiles ps)"
  shows "gs_work b (ps_state (foldl (prefill_score_tile m l h qt qs qn r) ps (enumerate i kv))) =
      gs_work b (ps_state ps) + sum_list (map (\<lambda>(s, k). pair_work b m (causal_pair_count qs qn s k)) kv)"
    and "sum_list (map (\<lambda>(_, _, _, n). pair_work b m n) (ps_tiles (foldl (prefill_score_tile m l h qt qs qn r) ps (enumerate i kv)))) =
      sum_list (map (\<lambda>(_, _, _, n). pair_work b m n) (ps_tiles ps)) + sum_list (map (\<lambda>(s, k). pair_work b m (causal_pair_count qs qn s k)) kv)"
    and "length (ps_tensors (foldl (prefill_score_tile m l h qt qs qn r) ps (enumerate i kv))) =
      length (ps_tiles (foldl (prefill_score_tile m l h qt qs qn r) ps (enumerate i kv)))"
    and "list_all (\<lambda>(_, _, _, n). 0 < n) (ps_tiles ps) \<Longrightarrow>
      list_all (\<lambda>(_, _, _, n). 0 < n) (ps_tiles (foldl (prefill_score_tile m l h qt qs qn r) ps (enumerate i kv)))"
  using assms
proof (induction kv arbitrary: ps i)
  case (Cons t kv)
  obtain s k where t: "t = (s, k)" by (cases t)
  {
    case 1
    then show ?case using Cons.IH(1)[OF score_tile_lengths[OF 1]] by (simp add: t score_tile_work)
  next
    case 2
    then show ?case using Cons.IH(2)[OF score_tile_lengths[OF 2]] by (simp add: t score_tile_pairs)
  next
    case 3
    then show ?case using Cons.IH(3)[OF score_tile_lengths[OF 3]] by (simp add: t)
  next
    case 4
    show ?case using Cons.IH(4)[OF score_tile_positive[OF 4(1)] score_tile_lengths[OF 4(2)]] by (simp add: t)
  }
qed simp_all

lemma context_tile_work:
  assumes "0 < n"
  shows "gs_work b (fst (prefill_context_tile m l h qt qs qn sm s ((i, ks, kn, n), p))) = gs_work b (fst s) + pair_work b m n"
  using assms by (simp add: prefill_context_tile_def Let_def case_prod_beta loads pair_work_def)

lemma context_tiles_work:
  assumes "list_all (\<lambda>(_, _, _, n). 0 < n) tiles" and "length ps = length tiles"
  shows "gs_work b (fst (foldl (prefill_context_tile m l h qt qs qn sm) s (zip tiles ps))) =
    gs_work b (fst s) + sum_list (map (\<lambda>(_, _, _, n). pair_work b m n) tiles)"
  using assms
proof (induction tiles arbitrary: ps s)
  case (Cons t tiles)
  obtain i ks kn n where t: "t = (i, ks, kn, n)" by (cases t)
  obtain p ps' where ps: "ps = p # ps'" using Cons.prems(2) by (cases ps) auto
  show ?case using Cons.IH[of ps' "prefill_context_tile m l h qt qs qn sm s (t, p)"] Cons.prems by (simp add: t ps context_tile_work)
qed simp

lemma query_tile_work:
  "gs_work b (fst (prefill_query_tile m l h kv (st, observed) (qt, qs, qn))) =
   gs_work b st + 2 * sum_list (map (\<lambda>(s, k). pair_work b m (causal_pair_count qs qn s k)) kv)"
proof -
  have start: "length (ps_tensors \<lparr>ps_state = st', ps_ids = [], ps_tensors = [], ps_tiles = []\<rparr>) =
      length (ps_tiles \<lparr>ps_state = st', ps_ids = [], ps_tensors = [], ps_tiles = []\<rparr>)" for st'
    by simp
  note work = score_tiles_work[OF start, simplified]
  show ?thesis
    by (simp add: prefill_query_tile_def Let_def case_prod_beta loads context_tiles_work[simplified case_prod_beta] work[simplified case_prod_beta])
qed

lemma query_tiles_work:
  "gs_work b (fst (foldl (prefill_query_tile m l h kv) (st, observed) (enumerate i ts))) =
   gs_work b st + 2 * sum_list (map (\<lambda>(qs, qn). sum_list (map (\<lambda>(s, k). pair_work b m (causal_pair_count qs qn s k)) kv)) ts)"
proof (induction ts arbitrary: st observed i)
  case (Cons t ts)
  obtain qs qn where t: "t = (qs, qn)" by (cases t)
  obtain st' o' where s: "prefill_query_tile m l h kv (st, observed) (i, qs, qn) = (st', o')" by (metis surj_pair)
  have "gs_work b st' = gs_work b st + 2 * sum_list (map (\<lambda>(s, k). pair_work b m (causal_pair_count qs qn s k)) kv)"
    using query_tile_work[of b m l h kv st observed i qs qn] by (simp add: s)
  then show ?case by (simp add: t s Cons.IH)
qed simp

definition head_work :: "string \<Rightarrow> dict \<Rightarrow> int" where
  "head_work b m = 2 * sum_list (map (\<lambda>(qs, qn). sum_list (map (\<lambda>(s, k). pair_work b m (causal_pair_count qs qn s k))
     (tile_ranges (mint m ''seq_len'') (mint m ''context_tile_tokens''))))
     (tile_ranges (mint m ''seq_len'') (mint m ''score_tile_tokens'')))"

lemma prefill_head_work: "prefill_head m l st h = Inr st' \<Longrightarrow> gs_work b st' = gs_work b st + head_work b m"
  using query_tiles_work[of b m l h "tile_ranges (mint m ''seq_len'') (mint m ''context_tile_tokens'')" st 0 0
      "tile_ranges (mint m ''seq_len'') (mint m ''score_tile_tokens'')"]
  by (auto simp: prefill_head_def Let_def case_prod_beta head_work_def split: if_splits)

lemma rfold_work:
  assumes "rfold f st xs = Inr st'" and "\<And>st x st'. x \<in> set xs \<Longrightarrow> f st x = Inr st' \<Longrightarrow> gs_work b st' = gs_work b st + c"
  shows "gs_work b st' = gs_work b st + int (length xs) * c"
  using assms
proof (induction xs arbitrary: st)
  case (Cons x xs)
  then obtain st1 where 1: "f st x = Inr st1" "rfold f st1 xs = Inr st'" by (auto simp: rbind_Inr_iff)
  have "gs_work b st1 = gs_work b st + c" by (rule Cons.prems(2)[OF _ 1(1)]) simp
  moreover have "gs_work b st' = gs_work b st1 + int (length xs) * c"
    using Cons.prems(2) by (intro Cons.IH[OF 1(2)]) auto
  ultimately show ?case by (simp add: algebra_simps)
qed simp

lemma prefill_attention_work:
  assumes "generate_prefill_attention_records m = Inr rs" and "layers_of m = [0]"
  shows "bucket_work b rs = int (length (heads_of m)) * head_work b m"
proof -
  obtain st where st: "rfold (prefill_head m 0) gen_start (heads_of m) = Inr st" "rs = gs_records st"
    using assms by (auto simp: generate_prefill_attention_records_def rbind_Inr_iff dest!: validate_all_Inr)
  have "gs_work b st = gs_work b gen_start + int (length (heads_of m)) * head_work b m"
    by (rule rfold_work[OF st(1)]) (rule prefill_head_work)
  then show ?thesis by (simp add: st(2) gs_work_def gen_start_def)
qed

end
