(* ===== verification/Prefill_Work.thy ===== *)
theory Prefill_Work
  imports Prefill_Counts
begin

text \<open>
  The multiply requests of a whole prefill trace: those of the projections and of the feed-forward
  network, the composition of layers, and their equality with the closed form.
\<close>

section \<open>Projections and feed-forward network\<close>

text \<open>A projection of \<open>n\<close> by \<open>k\<close> elements for every token.\<close>

definition projection_work :: "dict \<Rightarrow> int \<Rightarrow> int \<Rightarrow> int" where
  "projection_work m n k = num_requests (mint m ''seq_len'' * n * k) (item m ''datatype'')"

lemma qkv_work:
  assumes "qkv_projection_records m (Some q) kv = Inr rs" and "layers_of m = [0]"
  shows "bucket_work b rs = (if b = ''qkvo_projection''
    then projection_work m q (mint m ''hidden_size'') + 2 * projection_work m kv (mint m ''hidden_size'') else 0)"
proof -
  have "rs = gs_records (qkv_layer m (Some q) kv gen_start 0)"
    using assms by (auto simp: qkv_projection_records_def rbind_Inr_iff dest!: validate_all_Inr)
  then have "bucket_work b rs = gs_work b (qkv_layer m (Some q) kv gen_start 0)" by (simp add: gs_work_def)
  then show ?thesis
    by (simp add: qkv_layer_def qkv_projections_def loads ATTENTION_PROJECTIONS_def projection_dims_def Let_def projection_work_def)
qed

lemma output_work:
  assumes "output_projection_records m (Some q) = Inr rs" and "layers_of m = [0]"
  shows "bucket_work b rs = (if b = ''qkvo_projection'' then projection_work m (mint m ''hidden_size'') q else 0)"
proof -
  define st where "st = push (\<lambda>rid. ffn_projection_record rid 0 m ''o_projection'' 3
      [in_layer 0 ''attention_context'', in_layer 0 ''o_projection.weight.resident''] [in_layer 0 ''attention_output''] [] (Some q) None) gen_start"
  have "rs = gs_records st"
    using assms by (auto simp: output_projection_records_def rbind_Inr_iff st_def dest!: validate_all_Inr)
  then have "bucket_work b rs = gs_work b st" by (simp add: gs_work_def)
  then show ?thesis
    by (simp add: st_def loads ATTENTION_PROJECTIONS_def projection_dims_def Let_def projection_work_def)
qed

lemma gs_work_foldl:
  assumes "\<And>st x. gs_work b (f st x) = gs_work b st"
  shows "gs_work b (foldl f st xs) = gs_work b st"
  by (induction xs arbitrary: st) (simp_all add: assms)

lemma cache_work:
  assumes "cache_writes m ops suffix_name n = Inr rs"
  shows "bucket_work b rs = 0"
proof -
  let ?layer = "\<lambda>st layer. foldl (\<lambda>st (op, tensor). push (\<lambda>rid. host_access_record rid ''HostWrite'' layer op m None 0 [in_layer layer tensor]
      [in_layer layer (''kv_cache.'' @ tensor @ suffix_name)] [] n op) st) st ops"
  have "rs = gs_records (foldl ?layer gen_start (layers_of m))"
    using assms by (auto simp: cache_writes_def rbind_Inr_iff dest!: validate_all_Inr)
  then have "bucket_work b rs = gs_work b (foldl ?layer gen_start (layers_of m))" by (simp only: gs_work_def)
  also have "\<dots> = gs_work b gen_start"
    by (rule gs_work_foldl, rule gs_work_foldl) (simp add: case_prod_beta load_accounting)
  finally show ?thesis by simp
qed

lemma hidden_setups_work: "gs_work b (fst (foldl (hidden_setup m layer) s ts)) = gs_work b (fst s)"
  by (induction ts arbitrary: s) (auto simp: hidden_setup_def Let_def case_prod_beta loads)

lemma weight_residencies_work: "gs_work b (fst (foldl (weight_residency m layer) s ts)) = gs_work b (fst s)"
  by (induction ts arbitrary: s) (auto simp: weight_residency_def case_prod_beta loads)

lemma intermediate_residency_work [simp]: "gs_work b (intermediate_residency m layer op tensor deps scope st) = gs_work b st"
  by (simp add: intermediate_residency_def loads)

definition ffn_projections :: "dict \<Rightarrow> int" where
  "ffn_projections m = (if is_gated m then 3 else 2)"

lemma ffn_projection_loads:
  "load_of b (ffn_projection_record rid layer m ''ffn_up_projection'' i ins outs deps None None) =
    (if b = ''ffn'' then projection_work m (mint m ''ffn_hidden_size'') (mint m ''hidden_size'') else 0)"
  "load_of b (ffn_projection_record rid layer m ''ffn_gate_projection'' i ins outs deps None None) =
    (if b = ''ffn'' then projection_work m (mint m ''ffn_hidden_size'') (mint m ''hidden_size'') else 0)"
  "load_of b (ffn_projection_record rid layer m ''ffn_down_projection'' i ins outs deps None None) =
    (if b = ''ffn'' then projection_work m (mint m ''ffn_hidden_size'') (mint m ''hidden_size'') else 0)"
  by (simp_all add: loads ATTENTION_PROJECTIONS_def projection_dims_def Let_def projection_work_def mult.commute mult.left_commute)

lemma ffn_layer_work:
  "gs_work b (ffn_layer m st layer) = gs_work b st +
    (if b = ''ffn'' then ffn_projections m * projection_work m (mint m ''ffn_hidden_size'') (mint m ''hidden_size'') else 0)"
proof -
  have gated: "gs_work b (fst (gated_activation m layer h g u st)) = gs_work b st +
      (if b = ''ffn'' then projection_work m (mint m ''ffn_hidden_size'') (mint m ''hidden_size'') else 0)" for h g u st
    by (simp add: gated_activation_def Let_def ffn_projection_loads load_accounting)
  have plain: "gs_work b (fst (relu_activation m layer u st)) = gs_work b st" for u st
    by (simp add: relu_activation_def Let_def load_accounting)
  show ?thesis
    by (cases "is_gated m") (simp_all add: ffn_layer_def Let_def case_prod_beta ffn_projection_loads load_accounting gated plain
        hidden_setups_work weight_residencies_work ffn_projections_def)
qed

lemma ffn_work:
  assumes "generate_ffn_records m = Inr rs" and "layers_of m = [0]"
  shows "bucket_work b rs =
    (if b = ''ffn'' then ffn_projections m * projection_work m (mint m ''ffn_hidden_size'') (mint m ''hidden_size'') else 0)"
proof -
  have "rs = gs_records (ffn_layer m gen_start 0)"
    using assms by (auto simp: generate_ffn_records_def rbind_Inr_iff dest!: validate_all_Inr)
  then have "bucket_work b rs = gs_work b (ffn_layer m gen_start 0)" by (simp add: gs_work_def)
  then show ?thesis by (simp add: ffn_layer_work)
qed

section \<open>Composition\<close>

lemma requests_dset: "f \<noteq> ''num_requests'' \<Longrightarrow> requests_of (dset f v r) = requests_of r"
  by (simp add: requests_of_def dgetd_def dget_dset)

lemma load_dset:
  assumes "f \<notin> {''kind'', ''op'', ''num_requests''}"
  shows "load_of b (dset f v r) = load_of b r"
proof -
  have "kind_of (dset f v r) = kind_of r" "op_of (dset f v r) = op_of r"
    using assms by (auto simp: kind_of_def op_of_def dgetd_def dget_dset)
  then show ?thesis using assms by (simp add: load_of_def mac_bucket_def requests_dset)
qed

lemma load_linked:
  "load_of b (set_deps ds r) = load_of b r" "load_of b (set_inputs ss r) = load_of b r"
  "load_of b (dset ''record_id'' v r) = load_of b r"
  by (simp_all add: set_deps_def set_inputs_def put_in_def load_dset)

lemma load_retarget:
  assumes "plain_names r"
  shows "load_of b (retarget_record layer r) = load_of b r"
proof -
  let ?r = "map (\<lambda>kv. (fst kv, retarget_value layer (snd kv))) r"
  have "requests_of (retarget_record layer r) = requests_of ?r"
    by (simp add: retarget_record_def put_in_def requests_dset)
  also have "\<dots> = requests_of r"
    unfolding requests_of_def item_retargeted by (cases "item r ''num_requests''") simp_all
  finally have "requests_of (retarget_record layer r) = requests_of r" .
  then show ?thesis
    using assms by (simp add: load_of_def mac_bucket_def retarget_record_head plain_names_def retarget_fixed)
qed

lemma plain_names_linked: "plain_names (set_deps ds (dset ''record_id'' (PStr s) r)) = plain_names r"
  by (simp add: plain_names_def record_heads)

lemma load_moved: "plain_names r \<Longrightarrow> load_of b (moved layer rs n r) = load_of b r"
  by (simp add: moved_def Let_def load_retarget plain_names_linked load_linked)

lemma place_part_work: "part_ok rs \<Longrightarrow> bucket_work b (fst (place_part layer rs n)) = bucket_work b rs"
  by (simp add: place_part_moved bucket_work_cong load_moved part_ok_def list_all_iff)

lemma renumber_work: "bucket_work b (fst (renumber_records rs n)) = bucket_work b rs"
  by (simp add: renumber_records_def Let_def bucket_work_cong load_linked)

lemma relink_work: "load_of b (relink by_op r) = load_of b r"
  by (simp add: relink_def load_linked split: option.split)

lemma link_prefill_work: "load_of b (link_prefill_record layer q k v r) = load_of b r"
  by (simp add: link_prefill_record_def load_linked)

lemma link_output_work: "bucket_work b (link_output layer attention rs) = bucket_work b rs"
  by (cases rs) (simp_all add: link_output_def load_linked)

lemma link_ffn_work: "bucket_work b (link_ffn first_op layer o_id rs) = bucket_work b rs"
  by (simp add: link_ffn_def bucket_work_cong load_linked)

definition parts_work :: "string \<Rightarrow> layer_parts \<Rightarrow> int" where
  "parts_work b p = bucket_work b (lp_qkv p) + bucket_work b (lp_cache p) + bucket_work b (lp_attention p) + bucket_work b (lp_output p) +
     bucket_work b (lp_ffn p)"

lemma decoder_layer_work:
  assumes "parts_ok True p"
  shows "gs_work b (decoder_layer True first_op m p st layer) = gs_work b st + parts_work b p"
proof -
  have ok: "part_ok (lp_qkv p)" "part_ok (lp_cache p)" "part_ok (lp_attention p)" "part_ok (lp_output p)" "part_ok (lp_ffn p)"
    using assms by (simp_all add: parts_ok_def)
  have barrier: "bucket_work b (fst (renumber_records [barrier_record rid layer op m] n)) = 0" for rid op n
    by (simp add: renumber_work load_accounting)
  have maps: "bucket_work b (map (relink by_op) rs) = bucket_work b rs" "bucket_work b (map (link_prefill_record l q k v) rs) = bucket_work b rs"
    for by_op rs l q k v
    by (simp_all add: bucket_work_cong relink_work link_prefill_work)
  show ?thesis
    by (simp add: decoder_layer_def Let_def case_prod_beta gs_work_def barrier maps link_output_work link_ffn_work place_part_work[OF ok(1)]
        place_part_work[OF ok(2)] place_part_work[OF ok(3)] place_part_work[OF ok(4)] place_part_work[OF ok(5)] parts_work_def)
qed

lemma compose_work:
  assumes "compose_layers True first_op a n p = Inr rs" and "0 < n" and "parts_ok True p"
  shows "bucket_work b rs = n * parts_work b p"
proof -
  have fold: "gs_work b (foldl (decoder_layer True first_op a p) st ls) = gs_work b st + int (length ls) * parts_work b p" for st ls
    by (induction ls arbitrary: st) (simp_all add: decoder_layer_work[OF assms(3)] algebra_simps)
  let ?st = "foldl (decoder_layer True first_op a p) gen_start [0..<nat n]"
  have "rs = gs_records ?st @ fst (renumber_records [drain_record ''rec_0000'' (nat (max 0 (n - 1))) a] (gs_next ?st))"
    using assms(1) by (auto simp: compose_layers_def Let_def case_prod_beta dest: validate_all_Inr)
  then have "bucket_work b rs = gs_work b ?st + 0" by (simp add: gs_work_def renumber_work load_accounting)
  then show ?thesis using fold[of gen_start "[0..<nat n]"] assms(2) by simp
qed

section \<open>The closed form\<close>

text \<open>Both of the manifests of a prefill, reduced to one layer, give the dimensions of the specification.\<close>

lemma prefill_dimensions:
  "mint (one_layer_manifest (prefill_attention s n)) ''seq_len'' = n"
  "mint (one_layer_manifest (prefill_attention s n)) ''head_dim'' = spec_head_dim s"
  "mint (one_layer_manifest (prefill_attention s n)) ''num_heads'' = spec_num_heads s"
  "mint (one_layer_manifest (prefill_attention s n)) ''score_tile_tokens'' = min 256 n"
  "mint (one_layer_manifest (prefill_attention s n)) ''context_tile_tokens'' = min 256 n"
  "item (one_layer_manifest (prefill_attention s n)) ''datatype'' = PStr (spec_datatype s)"
  "mint (one_layer_manifest (prefill_ffn s n)) ''seq_len'' = n"
  "mint (one_layer_manifest (prefill_ffn s n)) ''hidden_size'' = spec_hidden_size s"
  "mint (one_layer_manifest (prefill_ffn s n)) ''ffn_hidden_size'' = spec_ffn_hidden_size s"
  "item (one_layer_manifest (prefill_ffn s n)) ''datatype'' = PStr (spec_datatype s)"
  "ffn_variant (one_layer_manifest (prefill_ffn s n)) = Inr (spec_ffn_variant s)"
  by (simp_all add: mint_def ffn_variant_def dgetd_def one_layer_get manifest_fields)

lemma supported_ffn_projections:
  assumes "supported_spec s"
  shows "ffn_projections (one_layer_manifest (prefill_ffn s n)) = dgetd FFN_VARIANT_PROJECTION_COUNTS (spec_ffn_variant s) 3"
  using assms by (auto simp: ffn_projections_def is_gated_def prefill_dimensions supported_spec_def FFN_VARIANT_PROJECTION_COUNTS_def dgetd_def
      FFN_VARIANT_RELU_2PROJ_def FFN_VARIANT_GEGLU_3PROJ_def FFN_VARIANT_SWIGLU_3PROJ_def)

lemma requests_ceil: "0 < k \<Longrightarrow> num_requests k dt = pim_ceil_div k (lanes dt)"
  by (simp add: num_requests_def pim_ceil_div_def lanes_def pos_imp_zdiv_pos_iff)

lemma pair_work_formula:
  assumes "0 < mint m ''head_dim''"
  shows "pair_work b m pairs =
    (if b = ''attention'' \<and> 0 < pairs then pim_ceil_div (pairs * mint m ''head_dim'') (lanes (item m ''datatype'')) else 0)"
  using assms by (simp add: pair_work_def requests_ceil)

lemma sum_list_double: "2 * sum_list (map f xs) = sum_list (map (\<lambda>x. 2 * f x) xs)" for f :: "_ \<Rightarrow> int"
  by (simp add: sum_list_const_mult)

lemma head_work_formula:
  assumes "0 < spec_head_dim s" and "0 < n" and "0 < spec_num_heads s"
  defines "m \<equiv> one_layer_manifest (prefill_attention s n)"
  shows "int (length (heads_of m)) * head_work b m = (if b = ''attention''
    then prefill_attention_pim_mac_per_layer n (spec_num_heads s) (spec_head_dim s) (lanes (PStr (spec_datatype s))) (min 256 n) (min 256 n) else 0)"
proof -
  have dims: "mint m ''head_dim'' = spec_head_dim s" "mint m ''seq_len'' = n" "mint m ''num_heads'' = spec_num_heads s"
    "mint m ''score_tile_tokens'' = min 256 n" "mint m ''context_tile_tokens'' = min 256 n" "item m ''datatype'' = PStr (spec_datatype s)"
    by (simp_all add: m_def prefill_dimensions)
  have work: "pair_work c m pairs =
      (if c = ''attention'' \<and> 0 < pairs then pim_ceil_div (pairs * spec_head_dim s) (lanes (PStr (spec_datatype s))) else 0)" for c pairs
    using assms(1) by (simp add: pair_work_formula dims)
  show ?thesis
  proof (cases "b = ''attention''")
    case True
    have "2 * (if 0 < p then pim_ceil_div (p * d) l else 0) = (if 0 < p then 2 * pim_ceil_div (p * d) l else 0)" for p d l :: int by simp
    then show ?thesis
      using assms(2,3) True
      by (simp add: heads_of_def head_work_def dims work prefill_attention_pim_mac_per_layer_def tiles_agree pair_counts_agree Let_def
          case_prod_beta case_prod_beta' sum_list_double)
  next
    case False
    then show ?thesis by (simp add: head_work_def work case_prod_beta')
  qed
qed

lemma formula_bucket_values:
  "mint (formula_buckets s n l st ct) ''qkvo_projection'' = qkvo_per_layer s n l"
  "mint (formula_buckets s n l st ct) ''attention'' =
    prefill_attention_pim_mac_per_layer n (spec_num_heads s) (spec_head_dim s) l st ct"
  "mint (formula_buckets s n l st ct) ''ffn'' = ffn_per_layer s n l"
  by (simp_all add: formula_buckets_def mint_def dgetd_def)

lemma prefill_parts_work:
  assumes "dense_parts True (prefill_attention s n) (prefill_ffn s n) = Inr p" and "supported_spec s" and "0 < n"
    and "b \<in> {''qkvo_projection'', ''attention'', ''ffn''}"
  shows "parts_work b p = mint (formula_buckets s n (lanes (PStr (spec_datatype s))) (min 256 n) (min 256 n)) b"
proof -
  let ?a = "one_layer_manifest (prefill_attention s n)" and ?f = "one_layer_manifest (prefill_ffn s n)"
  note spec = assms(2)[unfolded supported_spec_def]
  have kv: "attention_num_kv_heads ?a = Inr (spec_num_kv_heads s)" and h: "m_int ?a ''num_heads'' = Inr (spec_num_heads s)"
    and d: "m_int ?a ''head_dim'' = Inr (spec_head_dim s)"
    using spec supported_heads[OF assms(2)] unfolding one_layer_parts
    by (simp_all add: one_layer_reads(3) attention_num_kv_heads_def manifest_reads one_layer_get manifest_fields)
  obtain qkv: "qkv_projection_records ?f (Some (spec_num_heads s * spec_head_dim s)) (spec_num_kv_heads s * spec_head_dim s) = Inr (lp_qkv p)"
    and cache: "prefill_cache_write_records ?a = Inr (lp_cache p)" and att: "generate_prefill_attention_records ?a = Inr (lp_attention p)"
    and out: "output_projection_records ?f (Some (spec_num_heads s * spec_head_dim s)) = Inr (lp_output p)"
    and ffn: "generate_ffn_records ?f = Inr (lp_ffn p)"
    using assms(1) unfolding dense_parts_def Let_def rbind_Inr_iff kv h d if_True Inr_Inl_False sum.inject
    by - (elim exE conjE, rule that, auto)
  have zero: "bucket_work c (lp_cache p) = 0" for c
    using cache by (auto simp: prefill_cache_write_records_def rbind_Inr_iff split: if_splits dest: cache_work)
  have requests: "projection_work ?f x y = pim_ceil_div (n * x * y) (lanes (PStr (spec_datatype s)))" if "0 < x" "0 < y" for x y
    using that assms(3) by (simp add: projection_work_def prefill_dimensions requests_ceil)
  have dims: "0 < spec_hidden_size s" "0 < spec_ffn_hidden_size s" "0 < spec_num_heads s * spec_head_dim s"
    "0 < spec_num_kv_heads s * spec_head_dim s"
    using spec by simp_all
  have work: "parts_work c p = bucket_work c (lp_qkv p) + bucket_work c (lp_attention p) + bucket_work c (lp_output p) + bucket_work c (lp_ffn p)"
    for c
    by (simp add: parts_work_def zero)
  consider "b = ''qkvo_projection''" | "b = ''attention''" | "b = ''ffn''" using assms(4) by blast
  then show ?thesis
  proof cases
    case 1
    show ?thesis
      unfolding 1 work qkv_work[OF qkv mint_one_layer] output_work[OF out mint_one_layer] ffn_work[OF ffn mint_one_layer]
        prefill_attention_work[OF att mint_one_layer] formula_bucket_values prefill_dimensions
      using spec assms(3)
      by (simp add: head_work_formula requests dims qkvo_per_layer_def kv_heads_or_heads_def Let_def ac_simps)
  next
    case 2
    show ?thesis
      unfolding 2 work qkv_work[OF qkv mint_one_layer] output_work[OF out mint_one_layer] ffn_work[OF ffn mint_one_layer]
        prefill_attention_work[OF att mint_one_layer] formula_bucket_values
      using spec assms(3) by (simp add: head_work_formula)
  next
    case 3
    have "projection_work ?f (spec_ffn_hidden_size s) (spec_hidden_size s) =
        pim_ceil_div (n * spec_hidden_size s * spec_ffn_hidden_size s) (lanes (PStr (spec_datatype s)))"
      by (simp add: requests dims ac_simps)
    then show ?thesis
      unfolding 3 work qkv_work[OF qkv mint_one_layer] output_work[OF out mint_one_layer] ffn_work[OF ffn mint_one_layer]
        prefill_attention_work[OF att mint_one_layer] formula_bucket_values prefill_dimensions
      using spec assms(3) by (simp add: head_work_formula supported_ffn_projections[OF assms(2)] ffn_per_layer_def)
  qed
qed

lemma prefill_work:
  assumes "dense_prefill_records_from_spec s n ''serialized'' = Inr rs" and "supported_spec s" and "0 < n"
    and "b \<in> {''qkvo_projection'', ''attention'', ''ffn''}"
  shows "bucket_work b rs = spec_num_layers s * mint (formula_buckets s n (lanes (PStr (spec_datatype s))) (min 256 n) (min 256 n)) b"
proof -
  have layers: "m_int (prefill_attention s n) ''num_layers'' = Inr (spec_num_layers s)" and pos: "0 < spec_num_layers s"
    using assms(2) by (simp_all add: manifest_reads manifest_fields supported_spec_def)
  obtain p where p: "dense_parts True (prefill_attention s n) (prefill_ffn s n) = Inr p"
    and c: "compose_layers True ''ffn_hidden_activation_tile_setup'' (prefill_attention s n) (spec_num_layers s) p = Inr rs"
    using assms(1,3) pos
    by (auto simp: dense_prefill_records_from_spec_def prefill_manifests generate_dense_prefill_transformer_layer_records_def
        dense_records_def layers rbind_Inr_iff)
  show ?thesis
    using compose_work[OF c pos dense_parts_ok[OF p], of b] prefill_parts_work[OF p assms(2-4)] by simp
qed

definition formula_mac :: "dict \<Rightarrow> string \<Rightarrow> int" where
  "formula_mac d b = (case item d ''per_layer_pim_mac_buckets'' of PDict m \<Rightarrow> mint m b | _ \<Rightarrow> 0)"

lemma formula_lanes:
  assumes "supported_spec s" and "formula_resources (spec_datatype s) = Inr res" and "m_int res ''pim_lanes'' = Inr l"
  shows "l = lanes (PStr (spec_datatype s))"
  using assms
  by (auto simp: supported_spec_def SUPPORTED_ATTENTION_DATATYPES_def formula_resources_def PIM_DATATYPE_RESOURCES_def m_int_def g_get_def g_int_def
      dgetd_def lanes_def require_def split: if_splits option.splits)

text \<open>
  C19: the closed form counts the generated trace. For every registered model and every length that
  the formula accepts, the prefill trace exists, and its multiply requests in the projections, the
  attention and the feed-forward network are the number of layers times those of the formula.
\<close>

theorem prefill_formula_counts_trace:
  assumes "prefill_formula model n device = Inr d"
  shows "\<exists>rs. dense_prefill_records_for_model model n ''serialized'' = Inr rs \<and>
    list_all (\<lambda>b. bucket_work b rs = mint d ''model_total_layers'' * formula_mac d b) [''qkvo_projection'', ''attention'', ''ffn'']"
proof -
  obtain s a f res l ops st ct where s: "get_model_spec model = Inr s" and m: "dense_prefill_manifests s n ''serialized'' = Inr (a, f)"
    and r: "formula_resources (spec_datatype s) = Inr res" "m_int res ''pim_lanes'' = Inr l" and t: "m_int a ''score_tile_tokens'' = Inr st"
      "m_int a ''context_tile_tokens'' = Inr ct"
    and d: "d = formula_fields model s n l ops st ct (dgetd a ''residency_policy'' (PDict []))"
    using assms unfolding prefill_formula_def by (auto simp: rbind_Inr_iff split: if_splits)
  have spec: "supported_spec s" using s by (auto simp: get_model_spec_def intro: registered_supported split: option.splits)
  have n: "0 < n" using m by (auto simp: dense_prefill_manifests_def prefill_attention_manifest_def rbind_Inr_iff split: if_splits)
  have af: "a = prefill_attention s n" "f = prefill_ffn s n" using m by (simp_all add: prefill_manifests[OF n])
  have tiles: "st = min 256 n" "ct = min 256 n" using t by (simp_all add: af manifest_reads manifest_fields)
  have l: "l = lanes (PStr (spec_datatype s))" by (rule formula_lanes[OF spec r])
  obtain rs where rs: "dense_prefill_records_from_spec s n ''serialized'' = Inr rs"
    using prefill_spec_total[OF spec n] by (auto simp: is_ok_iff)
  have fields: "mint d ''model_total_layers'' = spec_num_layers s"
    "item d ''per_layer_pim_mac_buckets'' = PDict (formula_buckets s n l st ct)"
    by (simp_all add: d formula_fields_def Let_def mint_def dgetd_def)
  have "bucket_work b rs = mint d ''model_total_layers'' * formula_mac d b" if "b \<in> {''qkvo_projection'', ''attention'', ''ffn''}" for b
    using prefill_work[OF rs spec n that] by (simp add: fields formula_mac_def tiles l)
  then show ?thesis using rs by (simp add: dense_prefill_records_for_model_def s)
qed

theorem prefill_formula_counts_trace_witness:
  "\<exists>d rs. prefill_formula ''gemma-2b'' 700 ''LPDDR5PIM'' = Inr d \<and> dense_prefill_records_for_model ''gemma-2b'' 700 ''serialized'' = Inr rs \<and>
     bucket_work ''ffn'' rs = 18 * (3 * 734003200)"
proof -
  note spec = GEMMA_2B_MODEL_SPEC_def dimension_values
  have s: "get_model_spec ''gemma-2b'' = Inr GEMMA_2B_MODEL_SPEC" by (simp add: get_model_spec_def MODEL_REGISTRY_def)
  have "\<exists>d. prefill_formula ''gemma-2b'' 700 ''LPDDR5PIM'' = Inr d \<and> mint d ''model_total_layers'' = 18 \<and> formula_mac d ''ffn'' = 3 * 734003200"
    by (simp add: prefill_formula_def s prefill_manifests manifest_reads manifest_fields formula_resources_def PIM_DATATYPE_RESOURCES_def
        formula_fields_def Let_def formula_mac_def formula_buckets_def mint_def ffn_per_layer_def pim_ceil_div_def FFN_VARIANT_PROJECTION_COUNTS_def
        FFN_VARIANT_SWIGLU_3PROJ_def FFN_VARIANT_GEGLU_3PROJ_def spec)
  then obtain d where d: "prefill_formula ''gemma-2b'' 700 ''LPDDR5PIM'' = Inr d" "mint d ''model_total_layers'' = 18"
    "formula_mac d ''ffn'' = 3 * 734003200" by blast
  then show ?thesis using prefill_formula_counts_trace[OF d(1)] by auto
qed

end
