(* ===== verification/Spec2Isabelle.thy ===== *)
theory Spec2Isabelle
  imports Standards Pim_Properties Concrete_Properties Lowering_Properties Pimscope_Results Addressing_Properties Dram_Properties Surrogate_Properties Decode_Only_Properties
    Pimscope_Workload_Facts Pimscope_Run_Properties Pimscope_Resident Prefill_Work
begin

text \<open>
  A verification development for the Python layer of Ramulator: the DSL in which DRAM standards
  are declared, the standards themselves, the resolution of presets and overrides into the
  configuration the C++ engine parses, the address layout of PIMScope frontends, the
  processing-in-memory variants of LPDDR5 and LPDDR6; and, above them, the generators of transformer
  traces, their lowering into concrete PIM opcode traces, the checks of such traces, and the
  manifests and results of PIMScope experiments. All paths are under \<open>src/python/ramulator\<close>.

  How the parts interact. A model specification yields manifests; a generator turns accepted
  manifests into semantic records, numbered and linked by dependencies; the lowering turns semantic
  records into opcodes on addresses of a DRAM layout, tracking a mode per rank; a trace file of
  them is validated again before replay. A PIMScope experiment names a standard, an address policy
  and a workload in a manifest, which its result carries resolved.

  The parts and the theories that model them.
  \<^item> \<open>Prelude\<close>, \<open>Py_Value\<close>: results of code that may raise (a sum, \<open>Inl\<close> the
    exception), dictionaries in insertion order, Python values, rounding. No program code.
  \<^item> \<open>Timing_Expr\<close>: the latency expressions of \<open>dram/spec.py\<close> (\<open>_eval_expr\<close>): lexer,
    reader, evaluation; a printer and its inverse law.
  \<^item> \<open>Dram_Spec\<close>: \<open>TimingConstraint\<close> and \<open>DRAMStandard\<close> of \<open>dram/spec.py\<close>. A standard is a
    record with one field per class attribute the methods read; \<open>resolve\<close>, \<open>serialize\<close>
    (\<open>to_config\<close> after \<open>resolve\<close>), \<open>validate_standard\<close>, \<open>request_type_id\<close> are its methods.
    \<open>Dram_Spec_Facts\<close> has the lemmas that hold for every standard, \<open>Dram_Properties\<close> the
    properties.
  \<^item> \<open>Dram_Class\<close>: the abstract specification of a configuration (\<open>demanded\<close>: the distances the
    constraints ask for; \<open>enforced\<close>: the distances the emitted entries impose) and the locale
    \<open>dram_class\<close>, the interface between the DSL and a standard: structural conditions and the
    contract of \<open>resolve_secondary_timings\<close>.
  \<^item> \<open>Resolver\<close>: the vocabulary of \<open>resolve_secondary_timings\<close> (assignments, defaults, roundings)
    and executable checks from which an instance of the locale follows.
  \<^item> \<open>Std_DDR3\<close> to \<open>Std_PIM\<close>: the seventeen standards of \<open>dram/*.py\<close> with their tables and
    resolvers, each interpreting \<open>dram_class\<close>; \<open>Standards\<close> has the list of
    \<open>dram/__init__.py\<close> and the facts about all of them.
  \<^item> \<open>Addressing\<close>: \<open>dram/addressing.py\<close>. \<open>Addressing_Facts\<close> has the locale
    \<open>coordinate_map\<close> and its interpretation on mixed-radix coordinates.
  \<^item> \<open>Pim_Resources\<close>, \<open>Pim_Facts\<close>: constructor, resolution and configuration of \<open>LPDDR5PIM\<close> and
    \<open>LPDDR6PIM\<close> (\<open>dram/lpddr5_pim.py\<close>, \<open>dram/lpddr6_pim.py\<close>, \<open>dram/pim_validation.py\<close>).
  \<^item> \<open>Concrete_Trace\<close>: \<open>workload_surrogate/lpddr5_pim_concrete_trace.py\<close>, records as dictionaries, the
    four modes of a rank and the broadcast flag as maps from ranks. \<open>Rank_Protocol\<close> has the locale
    \<open>ranked_machine\<close>, a machine that acts on several ranks at once, which is the abstract specification
    of a trace: \<open>Concrete_Facts\<close> interprets it; \<open>Concrete_Files\<close> has the file round trip and
    \<open>Concrete_Properties\<close> the properties.
  \<^item> \<open>Concrete_Lowering\<close>, \<open>Concrete_Emission\<close>, \<open>Concrete_Artifacts\<close>:
    \<open>workload_surrogate/generate_lpddr5_pim_concrete.py\<close>. The state of the lowering is a record (emitted
    records, modes, loaded flags); an error is a value and so is not returning. \<open>Lowering_Streams\<close>,
    \<open>Lowering_Modes\<close>, \<open>Lowering_Work\<close> and \<open>Lowering_Returns\<close> show what the address streams are, that
    the modes are those of the check, which work is emitted and that the lowering returns.
  \<^item> \<open>Structured_Trace\<close>: \<open>workload_surrogate/structured_trace.py\<close>, the semantic records.
  \<^item> \<open>Surrogate_Models\<close>, \<open>Surrogate_Manifests\<close>, \<open>Surrogate_Records\<close>, \<open>Surrogate_Attention\<close>,
    \<open>Surrogate_Layers\<close>, \<open>Surrogate_Moe\<close>: \<open>workload_surrogate/generate_full_transformer.py\<close>, from the
    specifications of the models to the records of dense and mixture decoders. \<open>Surrogate_Facts\<close>
    has the fields of the builders, \<open>Surrogate_Order\<close> and \<open>Surrogate_Compose\<close> the order of a part and
    of a trace, \<open>Surrogate_Valid\<close> and \<open>Surrogate_Total\<close> that every record passes its check and no
    accepted manifest is refused later, \<open>Surrogate_Specs\<close> and \<open>Surrogate_Mixtral\<close> that the manifests
    built by the code are accepted, \<open>Surrogate_Moe_Facts\<close> and \<open>Surrogate_Moe_Total\<close> the same for the
    mixture of experts, \<open>Surrogate_Properties\<close> the properties.
  \<^item> \<open>Decode_Only\<close>: \<open>workload_surrogate/generate_decode_only.py\<close> and \<open>decode_only_manifest.py\<close>, with
    the manifest of the caller as state. \<open>Decode_Only_Facts\<close>, \<open>Decode_Only_Traces\<close>: the outline of a
    trace, an abstract specification, and the bytes its layers access; \<open>Decode_Only_Properties\<close>.
  \<^item> \<open>Pimscope_Tables\<close>, \<open>Pimscope_Manifest\<close>, \<open>Pimscope_Compat\<close>, \<open>Pimscope_Schema\<close>:
    \<open>pimscope/capabilities.py\<close>, \<open>workloads.py\<close>, \<open>config.py\<close>, \<open>compat.py\<close> and \<open>schema.py\<close>.
    \<open>Pimscope_Facts\<close>, \<open>Pimscope_Properties\<close>, \<open>Pimscope_Results\<close>: resolution is idempotent, and what
    resolved manifests, validated results and aggregates guarantee. \<open>Pimscope_Workloads\<close> generates the
    records of a workload (\<open>workloads.py\<close>), \<open>Pimscope_Workload_Facts\<close> shows which resolved workloads have any.
  \<^item> \<open>Pimscope_Backend\<close>, \<open>Pimscope_Replay\<close>: \<open>pimscope/backend.py\<close>, the device, frontend and memory system of a
    manifest, the statistics of the simulator, the replay and its report. \<open>Pimscope_Run\<close>:
    \<open>pimscope/experiment.py\<close>, from a manifest to the result of its run, one step per function.
    \<open>Pimscope_Run_Properties\<close> shows that prepared traces are written and what a successful replay means,
    \<open>Pimscope_Resident\<close> that resident weights are never written.
  \<^item> \<open>Prefill_Formula\<close>: the closed form of prefill work at the end of \<open>pimscope/backend.py\<close>; \<open>Prefill_Counts\<close>
    and \<open>Prefill_Work\<close> count the requests of a generated trace, part by part, and show that they agree.

  What the properties show: configurations are exact, complete and well-formed; which inputs are
  accepted; the address map is a bijection that agrees with the layout and the declared capacity;
  PIM instances are consistent; the tables are coherent; accepted traces keep the mode protocol and
  the lowering produces only such; generated traces are in order, complete and free of deadlock, and
  exist for every supported specification, with the work that the closed form predicts; resolution is
  idempotent, a prepared run is written and its result is sound; and where the code differs from what its comments and checks say.

  Modelling choices. Exceptions are values, one constructor per raise, without the message text.
  Floats are the rationals they denote and quotients are exact; the theories say where the code
  computes in doubles and why the result is the same on the inputs that reach it. Iteration over
  a Python set is modelled in the order of a list. Recursions are structural or have a
  termination proof; the splitting loops of the lowering, which run forever on a bound that is not
  positive, are partial functions with the value \<open>None\<close> for that. No fuel is used.

  Parameters stand for what the code calls and does not contain: the parsing of JSON and YAML text,
  the reading of files and the SHA-256 fingerprint (\<open>fp\<close> of \<open>Pimscope_Schema\<close>); for a run the simulator, which
  components of the engine exist, the size of canonical JSON text (\<open>json_bytes\<close>), whether a replay process
  answers in time, the time, the revision and the versions of packages. A line of a trace
  file is the document it denotes. The transformer generators convert the same manifest fields for every
  record; the model makes these conversions once, before the first record (\<open>readable\<close> and its
  variants in \<open>Surrogate_Records\<close>), and generates the parts of a layer once where the code generates
  equal parts for each layer.

  Not modelled. The power attributes of the standards, which only code generation reads. Text
  generation and parsing of C++ (\<open>codegen.py\<close>, \<open>cpp_parser.py\<close>, \<open>export.py\<close>), plotting, the gem5 bridge
  and the command lines: input and output. The smoke runner (\<open>pimscope/runner.py\<close>), which sends a fixed stream to
  the engine and reads its command traces, and the pipe between the processes of a replay, of which only the
  outcome is modelled. The declarations of controllers, schedulers and frontends, which pass parameters through to the
  engine, and the descriptors that collect them (\<open>components.py\<close>, \<open>param.py\<close>), which work by
  reflection on classes. The summaries and artifact files of the transformer generators. The C++ engine.
\<close>

section \<open>Configurations of the registered standards\<close>

text \<open>
  C1: exactness. For every registered standard and every instance of it, with whatever presets
  and overrides, the constraints in the emitted configuration enforce exactly the distances that
  the standard's timing constraints and command buses demand on the resolved values: none is
  lost in the grouping by latency, none is added by it.
\<close>

theorem registered_configs_exact:
  assumes "std \<in> set registered_standards" and "to_config std org tim ov pw = Inr cfg"
  shows "\<exists>od td. resolve std org tim ov = Inr (od, td) \<and>
    (\<forall>lv p f lat w sib. enforced std (cfg_constraints cfg) lv p f lat w sib \<longleftrightarrow>
       demanded std td lv p f lat w sib \<or> bus_demanded std lv p f lat w sib)"
proof -
  obtain provided td_ok od_ok where c: "dram_class std provided td_ok od_ok"
    by (rule registered_dram_class[OF assms(1)])
  show ?thesis
    by (rule dram_class.config_enforces[OF c assms(2)]) blast
qed

lemma DDR4_presets:
  "DDR4 \<in> set registered_standards"
  "''DDR4_8Gb_x8'' \<in> set (dkeys (std_org_presets DDR4))" "''DDR4_2400R'' \<in> set (dkeys (std_timing_presets DDR4))"
  unfolding DDR4_fields by (simp add: registered_standards_def, code_simp, code_simp)

lemma DDR4_config: "\<exists>cfg. to_config DDR4 ''DDR4_8Gb_x8'' ''DDR4_2400R'' [] None = Inr cfg"
  using ddr4.preset_config[OF DDR4_presets(2,3)] by (simp add: is_ok_iff)

theorem registered_configs_exact_witness:
  "\<exists>cfg od td. to_config DDR4 ''DDR4_8Gb_x8'' ''DDR4_2400R'' [] None = Inr cfg \<and>
     resolve DDR4 ''DDR4_8Gb_x8'' ''DDR4_2400R'' [] = Inr (od, td) \<and>
     (enforced DDR4 (cfg_constraints cfg) 3 ''ACT'' ''RD'' 16 1 False \<longleftrightarrow>
        demanded DDR4 td 3 ''ACT'' ''RD'' 16 1 False \<or> bus_demanded DDR4 3 ''ACT'' ''RD'' 16 1 False)"
proof -
  obtain cfg where cfg: "to_config DDR4 ''DDR4_8Gb_x8'' ''DDR4_2400R'' [] None = Inr cfg"
    using DDR4_config by blast
  show ?thesis using registered_configs_exact[OF DDR4_presets(1) cfg] cfg by blast
qed



text \<open>
  C4: the engine can index what it is given. In every configuration of a registered standard the
  counts and the channel are positive, the channel is a whole number of devices, the vectors
  have one entry per level, timing and command, the timings are non-negative numbers, and every
  id in a constraint is the position of a level or command.
\<close>

theorem registered_configs_wf:
  assumes "std \<in> set registered_standards" and "to_config std org tim ov pw = Inr cfg"
  shows "config_wf std cfg"
proof -
  obtain provided td_ok od_ok where c: "dram_class std provided td_ok od_ok"
    by (rule registered_dram_class[OF assms(1)])
  show ?thesis
    by (rule dram_class.config_enforces[OF c assms(2)]) blast
qed

theorem registered_configs_wf_witness:
  "\<exists>cfg. to_config DDR4 ''DDR4_8Gb_x8'' ''DDR4_2400R'' [] None = Inr cfg \<and> config_wf DDR4 cfg"
  using DDR4_config registered_configs_wf[OF DDR4_presets(1)] by blast

text \<open>
  Every registered standard passes \<open>validate\<close>: initial states are declared, constraints
  name known levels and commands, and the requests begin with reads and writes.
\<close>

theorem registered_standards_validate:
  assumes "std \<in> set registered_standards"
  shows "validate_standard std = Inr ()"
proof -
  obtain provided td_ok od_ok where c: "dram_class std provided td_ok od_ok"
    by (rule registered_dram_class[OF assms])
  show ?thesis by (rule dram_class.valid[OF c])
qed

theorem registered_standards_validate_witness: "validate_standard DDR4 = Inr ()"
  by (rule registered_standards_validate[OF DDR4_presets(1)])

section \<open>Hierarchies and presets\<close>

text \<open>
  Capacity. For every organisation preset of a registered standard with ranks, the address
  layout exists and its capacity is the one the preset declares (density per device, devices of
  the channel, ranks); a standard without ranks has no layout and is refused as such.
\<close>

theorem registered_layouts:
  assumes "std \<in> set registered_standards" and "(name, od) \<in> set (std_org_presets std)"
  shows "if has_ranks std
    then \<exists>ly. extract_dram_layout std (subchannel_of std) od = Inr ly \<and> declared_bytes od = Some (ly_capacity_bytes ly)
    else extract_dram_layout std (subchannel_of std) od = Inl NoRankBank"
  using assms(1)
proof (cases rule: registered_cases)
qed (use assms(2) ranked subchannels layouts_checked[THEN layouts_checkD] derived_layouts_checked[THEN layouts_checkD]
      no_layouts_checked[THEN no_layouts_checkD] in \<open>simp; blast\<close>)+

theorem registered_layouts_witness:
  "\<exists>od ly. dget (std_org_presets DDR4) ''DDR4_8Gb_x8'' = Some od \<and>
     extract_dram_layout DDR4 (subchannel_of DDR4) od = Inr ly \<and> declared_bytes od = Some (ly_capacity_bytes ly)"
proof -
  obtain od where od: "dget (std_org_presets DDR4) ''DDR4_8Gb_x8'' = Some od"
    using dget_in_keys[of "''DDR4_8Gb_x8''" "std_org_presets DDR4"] DDR4_presets(2) by auto
  show ?thesis
    using registered_layouts[OF DDR4_presets(1) map_of_SomeD[OF od]] od ranked by auto
qed

text \<open>
  The DDR tables are coherent. In every timing preset of a DDR3, DDR4 or DDR5 standard the
  row cycle is the active time plus the precharge time, and the clock period is that of the
  nominal data rate within two parts in a thousand.
\<close>

theorem ddr_presets_coherent:
  assumes "std \<in> {DDR3, DDR4, DDR4_VRR, DDR5, DDR5_VRR, DDR5_RFM, DDR5_RFM_VRR}"
    and "(name, td) \<in> set (std_timing_presets std)"
  shows "dgetd td ''nRC'' 0 = dgetd td ''nRAS'' 0 + dgetd td ''nRP'' 0 \<and> 0 < dgetd td ''nRAS'' 0 \<and>
    \<bar>dgetd td ''rate'' 0 * dgetd td ''tCK_ps'' 0 - 2000000\<bar> \<le> 4000"
proof -
  have "\<forall>q \<in> set (std_timing_presets std). row_cycle_ok (snd q) \<and> data_rate_ok (snd q)"
    using assms(1) ddr_presets_checked unfolding list_all_iff by blast
  with assms(2) have "row_cycle_ok td \<and> data_rate_ok td" by force
  then show ?thesis by (simp add: row_cycle_ok_def data_rate_ok_def)
qed

theorem ddr_presets_coherent_witness:
  "\<exists>td. dget (std_timing_presets DDR4) ''DDR4_2400R'' = Some td \<and>
     dgetd td ''nRC'' 0 = dgetd td ''nRAS'' 0 + dgetd td ''nRP'' 0"
proof -
  obtain td where td: "dget (std_timing_presets DDR4) ''DDR4_2400R'' = Some td"
    using dget_in_keys[of "''DDR4_2400R''" "std_timing_presets DDR4"] DDR4_presets(3) by auto
  have d: "DDR4 \<in> {DDR3, DDR4, DDR4_VRR, DDR5, DDR5_VRR, DDR5_RFM, DDR5_RFM_VRR}" by simp
  show ?thesis using td ddr_presets_coherent[OF d map_of_SomeD[OF td]] by blast
qed

text \<open>
  One HBM3 organisation contradicts its own density. The refresh time is taken from the
  density divided by the stack ids; the bits of a channel, counted from the hierarchy, are that
  many for every preset but \<open>HBM3_32Gb_16hi\<close>, whose channel has four times as many.
\<close>

theorem HBM3_channel_density:
  "list_all (\<lambda>(name, od).
     org_number od ''density'' = (if name = ''HBM3_32Gb_16hi'' then 1 else org_number od ''sid'') * channel_megabits HBM3 od)
   (std_org_presets HBM3)"
  unfolding HBM3_fields by code_simp

text \<open>
  The refresh-management timing of DDR5-RFM does not follow the density. The preset stores
  the refresh time of an 8 Gb device and the secondary timings, which do follow the density,
  leave it alone: on a 16 Gb device a management command takes less time than a refresh.
\<close>

theorem DDR5_RFM_ignores_density:
  "\<exists>od td n m. resolve DDR5_RFM ''DDR5_16Gb_x8'' ''DDR5_3200AN'' [] = Inr (od, td) \<and>
     dget td ''nRFM'' = Some (PInt n) \<and> dget td ''nRFC'' = Some (PInt m) \<and> n < m"
proof -
  have "case resolve DDR5_RFM ''DDR5_16Gb_x8'' ''DDR5_3200AN'' [] of Inl _ \<Rightarrow> False
    | Inr (od, td) \<Rightarrow> dget td ''nRFM'' = Some (PInt 312) \<and> dget td ''nRFC'' = Some (PInt 472)"
    by code_simp
  then show ?thesis by (auto split: sum.splits)
qed

section \<open>Derived standards\<close>

text \<open>
  C40: an extension of a standard does not change it. Between two commands of the base standard,
  the extended one (victim-row refresh, refresh management, processing in memory) demands
  exactly the distances the base demands; the added constraints all involve an added command.
\<close>

theorem derived_standards_conservative:
  assumes "(base, derived, new) \<in> set extensions" and "p \<notin> set new" and "f \<notin> set new"
  shows "demanded derived td lv p f lat w sib \<longleftrightarrow> demanded base td lv p f lat w sib"
proof (rule demanded_extension)
  show "extension_of base derived new" using assms(1) extensions_checked by (auto simp: list_all_iff)
qed (use assms in auto)

theorem derived_standards_conservative_witness:
  "demanded DDR4_VRR demo_td 3 ''ACT'' ''RD'' 16 1 False \<longleftrightarrow> demanded DDR4 demo_td 3 ''ACT'' ''RD'' 16 1 False"
  by (rule derived_standards_conservative[of _ _ "[''VRR'']"]) (simp_all add: extensions_def)

section \<open>Refresh\<close>

text \<open>
  The refresh time of a resolved DDR4 instance is the shortest whole number of cycles that
  covers the time its density asks for, on every preset and every override that leaves it alone.
\<close>

theorem DDR4_refresh_covers:
  assumes "resolve DDR4 org tim ov = Inr (od, td)" and "distinct (dkeys ov)"
    and "''nRFC'' \<notin> set (dkeys ov)" and "''tCK_ps'' \<notin> set (dkeys ov)"
    and "dget od ''density'' = Some (PInt d)" and "dget td ''tCK_ps'' = Some (PInt t)" and "0 < t"
    and "d \<le> 16384"
  shows "\<exists>n. dget td ''nRFC'' = Some (PInt n) \<and> (n - 1) * t < DDR4_refresh_ps d \<and> DDR4_refresh_ps d \<le> n * t"
proof -
  have r: "std_resolve_secondary DDR4 = DDR4_resolve_secondary_timings" by (rule DDR4_fields)
  obtain td0 td1 where s: "std_resolve_secondary DDR4 td0 od = Inr td1"
    and k: "dget td ''nRFC'' = map_option PInt (dget td1 ''nRFC'')"
      "dget td ''tCK_ps'' = map_option PInt (dget td1 ''tCK_ps'')"
    by (rule resolved_timings[OF assms(1,2)]) (rule that, assumption, use assms(3,4) in simp_all)
  have "dget td1 ''tCK_ps'' = Some t" using k(2) assms(6) by (cases "dget td1 ''tCK_ps''") simp_all
  then obtain n where n: "dget td1 ''nRFC'' = Some n" "DDR4_resolve_nRFC d t = Inr n"
    using DDR4_refresh_time[OF s[unfolded r] assms(5)] by blast
  have "n = ceil_div (DDR4_refresh_ps d) t"
    using n(2) assms(7,8) by (auto simp: DDR4_resolve_nRFC_def DDR4_refresh_ps_def ceil_q_def split: if_splits)
  with n(1) k(1) ceil_div_lower[OF assms(7)] ceil_div_upper[OF assms(7)] show ?thesis by simp
qed

theorem DDR4_refresh_covers_witness:
  "\<exists>od td n. resolve DDR4 ''DDR4_8Gb_x8'' ''DDR4_2400R'' [] = Inr (od, td) \<and>
     dget td ''nRFC'' = Some (PInt n) \<and> 360000 \<le> n * 833"
proof -
  have "case resolve DDR4 ''DDR4_8Gb_x8'' ''DDR4_2400R'' [] of Inl _ \<Rightarrow> False
    | Inr (od, td) \<Rightarrow> dget od ''density'' = Some (PInt 8192) \<and> dget td ''tCK_ps'' = Some (PInt 833)"
    by code_simp
  then obtain od td where r: "resolve DDR4 ''DDR4_8Gb_x8'' ''DDR4_2400R'' [] = Inr (od, td)"
    "dget od ''density'' = Some (PInt 8192)" "dget td ''tCK_ps'' = Some (PInt 833)"
    by (auto split: sum.splits)
  show ?thesis
    using r(1) DDR4_refresh_covers[OF r(1) _ _ _ r(2,3)] by (auto simp: DDR4_refresh_ps_def)
qed

end
